(* ===== verification/Prelude.thy ===== *)
theory Prelude
  imports Main "HOL-Library.Code_Target_Nat"
begin

text \<open>
  Shared vocabulary of the development: results of fallible code (\<open>'e + 'a\<close>, the error on the
  left), ASCII string helpers in the spelling of the JavaScript methods the sources call, and
  database tables. A table is the list of its rows; \<open>first_where\<close> is knex's
  \<open>.where(..).first()\<close>, \<open>update_where\<close> is \<open>.where(..).update(..)\<close> and
  \<open>returning_where\<close> the rows that update returns through \<open>.returning('*')\<close>.
\<close>

named_theorems table_simps \<open>how selections read updated or extended tables\<close>
named_theorems result_simps \<open>sequencing of fallible computations\<close>

subsection \<open>Results\<close>

definition rbind :: "'e + 'a \<Rightarrow> ('a \<Rightarrow> 'e + 'b) \<Rightarrow> 'e + 'b" where
  "rbind r f = (case r of Inl e \<Rightarrow> Inl e | Inr x \<Rightarrow> f x)"

lemma rbind_simps [simp, result_simps]:
  "rbind (Inl e) f = Inl e"
  "rbind (Inr x) f = f x"
  by (simp_all add: rbind_def)

lemma rbind_Inr_iff [result_simps]:
  "rbind r f = Inr y \<longleftrightarrow> (\<exists>x. r = Inr x \<and> f x = Inr y)"
  by (cases r) simp_all

lemma rbind_Inl_iff [result_simps]:
  "rbind r f = Inl e \<longleftrightarrow> r = Inl e \<or> (\<exists>x. r = Inr x \<and> f x = Inl e)"
  by (cases r) simp_all

definition guard :: "bool \<Rightarrow> 'e \<Rightarrow> 'e + unit" where
  "guard b e = (if b then Inr () else Inl e)"

lemma guard_iff [simp]:
  "guard b e = Inr u \<longleftrightarrow> b"
  "guard b e = Inl e' \<longleftrightarrow> \<not> b \<and> e' = e"
  by (auto simp: guard_def)

definition of_option :: "'e \<Rightarrow> 'a option \<Rightarrow> 'e + 'a" where
  "of_option e x = (case x of None \<Rightarrow> Inl e | Some a \<Rightarrow> Inr a)"

lemma of_option_iff [simp]:
  "of_option e x = Inr a \<longleftrightarrow> x = Some a"
  "of_option e x = Inl e' \<longleftrightarrow> x = None \<and> e' = e"
  by (cases x; auto simp: of_option_def)+

subsection \<open>Strings\<close>

text \<open>
  \<open>String.prototype.trim\<close> on the ASCII range: tab, line feed, vertical tab, form feed,
  carriage return and space (and the no-break space U+00A0, which is white space too).
\<close>

definition js_space :: "char \<Rightarrow> bool" where
  "js_space c \<longleftrightarrow> of_char c \<in> {9, 10, 11, 12, 13, 32, 160 :: nat}"

definition js_trim :: "string \<Rightarrow> string" where
  "js_trim s = rev (dropWhile js_space (rev (dropWhile js_space s)))"

definition lower_char :: "char \<Rightarrow> char" where
  "lower_char c = (let n = (of_char c :: nat) in if 65 \<le> n \<and> n \<le> 90 then char_of (n + 32) else c)"

definition upper_char :: "char \<Rightarrow> char" where
  "upper_char c = (let n = (of_char c :: nat) in if 97 \<le> n \<and> n \<le> 122 then char_of (n - 32) else c)"

definition js_lower :: "string \<Rightarrow> string" where
  "js_lower s = map lower_char s"

definition js_upper :: "string \<Rightarrow> string" where
  "js_upper s = map upper_char s"

lemma lower_char_idem [simp]: "lower_char (lower_char c) = lower_char c"
  by (simp add: lower_char_def Let_def)

lemma js_lower_idem [simp]: "js_lower (js_lower s) = js_lower s"
  by (simp add: js_lower_def)

lemma js_lower_Nil [simp]: "js_lower [] = []" "js_lower s = [] \<longleftrightarrow> s = []"
  by (simp_all add: js_lower_def)

lemma length_js_lower [simp]: "length (js_lower s) = length s"
  by (simp add: js_lower_def)

definition is_digit :: "char \<Rightarrow> bool" where
  "is_digit c \<longleftrightarrow> 48 \<le> (of_char c :: nat) \<and> (of_char c :: nat) \<le> 57"

definition is_letter :: "char \<Rightarrow> bool" where
  "is_letter c \<longleftrightarrow> (let n = (of_char c :: nat) in (65 \<le> n \<and> n \<le> 90) \<or> (97 \<le> n \<and> n \<le> 122))"

definition is_hex :: "char \<Rightarrow> bool" where
  "is_hex c \<longleftrightarrow> (let n = (of_char c :: nat) in
     (48 \<le> n \<and> n \<le> 57) \<or> (65 \<le> n \<and> n \<le> 70) \<or> (97 \<le> n \<and> n \<le> 102))"

definition digit_val :: "char \<Rightarrow> nat" where
  "digit_val c = of_char c - 48"

definition digit_char :: "nat \<Rightarrow> char" where
  "digit_char d = char_of (48 + d)"

lemma digit_char_val [simp]:
  assumes "d < 10"
  shows "digit_val (digit_char d) = d" and "is_digit (digit_char d)"
  using assms by (simp_all add: digit_val_def digit_char_def is_digit_def)

lemma digit_char_numerals [simp]:
  "digit_char 0 = CHR ''0''" "digit_char (Suc 0) = CHR ''1''" "digit_char 2 = CHR ''2''"
  "digit_char 3 = CHR ''3''" "digit_char 4 = CHR ''4''" "digit_char 5 = CHR ''5''"
  "digit_char 6 = CHR ''6''" "digit_char 7 = CHR ''7''" "digit_char 8 = CHR ''8''"
  "digit_char 9 = CHR ''9''"
  by code_simp+

lemma is_digit_not_space: "is_digit c \<Longrightarrow> \<not> js_space c"
  by (auto simp: is_digit_def js_space_def)

lemma lower_char_digit [simp]: "is_digit c \<Longrightarrow> lower_char c = c"
  by (simp add: is_digit_def lower_char_def Let_def)

lemma is_hex_lower [simp]: "is_hex c \<Longrightarrow> is_hex (lower_char c)"
  by (auto simp: is_hex_def lower_char_def Let_def)

definition starts_with :: "string \<Rightarrow> string \<Rightarrow> bool" where
  "starts_with p s \<longleftrightarrow> take (length p) s = p"

lemma starts_with_append [simp]: "starts_with p (p @ s)"
  by (simp add: starts_with_def)

text \<open>Splitting at the first occurrence of a character: the text before and, if it occurs, after.\<close>

definition split_first :: "char \<Rightarrow> string \<Rightarrow> string \<times> string option" where
  "split_first c s =
     (let pre = takeWhile (\<lambda>x. x \<noteq> c) s; rest = dropWhile (\<lambda>x. x \<noteq> c) s
      in (pre, case rest of [] \<Rightarrow> None | _ # r \<Rightarrow> Some r))"

lemma split_first_append [simp]: "c \<notin> set a \<Longrightarrow> split_first c (a @ c # b) = (a, Some b)"
proof -
  assume "c \<notin> set a"
  then have "takeWhile (\<lambda>x. x \<noteq> c) (a @ c # b) = a"
    and "dropWhile (\<lambda>x. x \<noteq> c) (a @ c # b) = c # b"
    by (auto simp: takeWhile_append dropWhile_append)
  then show ?thesis by (simp add: split_first_def)
qed

lemma split_first_none [simp]: "c \<notin> set a \<Longrightarrow> split_first c a = (a, None)"
proof -
  assume "c \<notin> set a"
  then have "takeWhile (\<lambda>x. x \<noteq> c) a = a" and d: "dropWhile (\<lambda>x. x \<noteq> c) a = []"
    by (auto simp: takeWhile_eq_all_conv dropWhile_eq_Nil_conv)
  then show ?thesis unfolding split_first_def Let_def d by simp
qed

text \<open>\<open>s.split(c)\<close>: every piece between occurrences of \<open>c\<close>.\<close>

fun split_all :: "char \<Rightarrow> string \<Rightarrow> string list" where
  "split_all c [] = [[]]"
| "split_all c (x # xs) =
     (if x = c then [] # split_all c xs
      else (case split_all c xs of [] \<Rightarrow> [[x]] | p # ps \<Rightarrow> (x # p) # ps))"

lemma split_all_nonempty [simp]: "split_all c s \<noteq> []"
  by (induction s) (auto split: list.splits)

fun join_with :: "string \<Rightarrow> string list \<Rightarrow> string" where
  "join_with sep [] = []"
| "join_with sep [x] = x"
| "join_with sep (x # y # ys) = x @ sep @ join_with sep (y # ys)"

subsection \<open>Decimal numerals\<close>

fun nat_text :: "nat \<Rightarrow> string" where
  "nat_text n = (if n < 10 then [digit_char n] else nat_text (n div 10) @ [digit_char (n mod 10)])"

declare nat_text.simps [simp del]

definition digits_val :: "string \<Rightarrow> nat" where
  "digits_val s = foldl (\<lambda>a c. 10 * a + digit_val c) 0 s"

lemma digits_val_snoc [simp]: "digits_val (s @ [c]) = 10 * digits_val s + digit_val c"
  by (simp add: digits_val_def)

lemma digits_val_Nil [simp]: "digits_val [] = 0"
  by (simp add: digits_val_def)

lemma digits_val_append: "digits_val (a @ b) = digits_val a * 10 ^ length b + digits_val b"
proof (induction b rule: rev_induct)
  case Nil
  then show ?case by simp
next
  case (snoc c b)
  have "digits_val (a @ b @ [c]) = 10 * digits_val (a @ b) + digit_val c"
    using digits_val_snoc [of "a @ b" c] by simp
  with snoc show ?case by (simp add: algebra_simps)
qed

lemma digits_val_nat_text [simp]: "digits_val (nat_text n) = n"
proof (induction n rule: nat_text.induct)
  case (1 n)
  then show ?case
    by (cases "n < 10") (simp_all add: nat_text.simps [of n] digits_val_def [of "[digit_char n]"])
qed

lemma nat_text_digits: "list_all is_digit (nat_text n)"
proof (induction n rule: nat_text.induct)
  case (1 n)
  then show ?case by (cases "n < 10") (simp_all add: nat_text.simps [of n])
qed

lemma nat_text_nonempty [simp]: "nat_text n \<noteq> []"
  by (simp add: nat_text.simps [of n])

lemma nat_text_inj: "nat_text m = nat_text n \<longleftrightarrow> m = n"
  by (metis digits_val_nat_text)

lemma not_in_nat_text: "\<not> is_digit c \<Longrightarrow> c \<notin> set (nat_text n)"
  using nat_text_digits [of n] by (auto simp: list_all_iff)

subsection \<open>Tables\<close>

definition first_where :: "('r \<Rightarrow> bool) \<Rightarrow> 'r list \<Rightarrow> 'r option" where
  "first_where P t = find P t"

definition update_where :: "('r \<Rightarrow> bool) \<Rightarrow> ('r \<Rightarrow> 'r) \<Rightarrow> 'r list \<Rightarrow> 'r list" where
  "update_where P f t = map (\<lambda>r. if P r then f r else r) t"

definition returning_where :: "('r \<Rightarrow> bool) \<Rightarrow> ('r \<Rightarrow> 'r) \<Rightarrow> 'r list \<Rightarrow> 'r option" where
  "returning_where P f t = map_option f (find P t)"

definition delete_where :: "('r \<Rightarrow> bool) \<Rightarrow> 'r list \<Rightarrow> 'r list" where
  "delete_where P t = filter (\<lambda>r. \<not> P r) t"

definition row_at :: "('r \<Rightarrow> 'k) \<Rightarrow> 'k \<Rightarrow> 'r list \<Rightarrow> 'r option" where
  "row_at key k t = first_where (\<lambda>r. key r = k) t"

definition sum_where :: "('r \<Rightarrow> bool) \<Rightarrow> ('r \<Rightarrow> nat) \<Rightarrow> 'r list \<Rightarrow> nat" where
  "sum_where P f t = sum_list (map f (filter P t))"

lemma first_where_simps [simp, table_simps]:
  "first_where P [] = None"
  "first_where P (r # t) = (if P r then Some r else first_where P t)"
  by (simp_all add: first_where_def)

lemma first_where_append [table_simps]:
  "first_where P (a @ b) = (case first_where P a of None \<Rightarrow> first_where P b | Some r \<Rightarrow> Some r)"
  by (induction a) auto

lemma first_where_Some: "first_where P t = Some r \<Longrightarrow> r \<in> set t \<and> P r"
  by (induction t) (auto split: if_splits)

lemma first_where_None: "first_where P t = None \<longleftrightarrow> (\<forall>r \<in> set t. \<not> P r)"
  by (induction t) auto

lemma row_at_simps [simp, table_simps]:
  "row_at key k [] = None"
  "row_at key k (r # t) = (if key r = k then Some r else row_at key k t)"
  by (simp_all add: row_at_def)

lemma row_at_append [table_simps]:
  "row_at key k (a @ b) = (case row_at key k a of None \<Rightarrow> row_at key k b | Some r \<Rightarrow> Some r)"
  unfolding row_at_def by (rule first_where_append)

lemma row_at_Some: "row_at key k t = Some r \<Longrightarrow> r \<in> set t \<and> key r = k"
  unfolding row_at_def by (drule first_where_Some) simp

lemma row_at_None: "row_at key k t = None \<longleftrightarrow> k \<notin> key ` set t"
  by (auto simp: row_at_def first_where_None)

lemma row_at_update [table_simps]:
  assumes "\<And>r. P r \<Longrightarrow> key (f r) = key r"
  shows "row_at key k (update_where P f t) =
    map_option (\<lambda>r. if P r then f r else r) (row_at key k t)"
  by (induction t) (auto simp: update_where_def assms)

lemma keys_update [table_simps]:
  assumes "\<And>r. P r \<Longrightarrow> key (f r) = key r"
  shows "map key (update_where P f t) = map key t"
  by (induction t) (auto simp: update_where_def assms)

lemma set_update_where: "set (update_where P f t) = (\<lambda>r. if P r then f r else r) ` set t"
  by (simp add: update_where_def)

lemma distinct_key_eq:
  assumes "distinct (map key t)" and "r \<in> set t" and "s \<in> set t" and "key r = key s"
  shows "r = s"
  using assms by (auto simp: distinct_map dest: inj_onD)

lemma row_at_distinct:
  "distinct (map key t) \<Longrightarrow> r \<in> set t \<Longrightarrow> row_at key (key r) t = Some r"
  by (induction t) (auto simp: image_iff)

lemma row_unique:
  assumes "distinct (map key t)" and "row_at key k t = Some e" and "r \<in> set t" and "key r = k"
  shows "r = e"
proof -
  have "e \<in> set t \<and> key e = k" by (rule row_at_Some [OF assms(2)])
  then show ?thesis using distinct_key_eq [OF assms(1,3), of e] assms(4) by simp
qed

text \<open>
  Where the key determines the row, a keyed, conditional UPDATE \<open>.. RETURNING *\<close> returns the
  row it changed, and nothing when its condition fails.
\<close>

lemma returning_keyed:
  assumes "distinct (map key t)"
  shows "returning_where (\<lambda>r. key r = k \<and> Q r) f t =
    (case row_at key k t of None \<Rightarrow> None | Some r \<Rightarrow> if Q r then Some (f r) else None)"
  using assms
proof (induction t)
  case Nil
  then show ?case by (simp add: returning_where_def)
next
  case (Cons r t)
  have none: "find (\<lambda>r. key r = k \<and> Q r) t = None" if "key r = k"
    using Cons.prems that by (auto simp: find_None_iff) (metis imageI)
  from Cons show ?case
    by (cases "key r = k") (auto simp: returning_where_def none)
qed

lemma sum_where_Nil [simp]: "sum_where P f [] = 0"
  by (simp add: sum_where_def)

lemma sum_where_Cons [simp]: "sum_where P f (r # t) = (if P r then f r else 0) + sum_where P f t"
  by (simp add: sum_where_def)

lemma sum_where_append [simp]: "sum_where P f (a @ b) = sum_where P f a + sum_where P f b"
  by (simp add: sum_where_def)

lemma sum_where_member: "r \<in> set t \<Longrightarrow> P r \<Longrightarrow> f r \<le> sum_where P f t"
  by (induction t) auto

lemma sum_where_cong: "(\<And>r. r \<in> set t \<Longrightarrow> P r = Q r) \<Longrightarrow> sum_where P f t = sum_where Q f t"
  by (induction t) auto

lemma sum_where_update:
  assumes "distinct (map key t)" and "row_at key k t = Some r" and "key (g r) = k"
  shows "sum_where P f (update_where (\<lambda>x. key x = k) g t) + (if P r then f r else 0)
    = sum_where P f t + (if P (g r) then f (g r) else 0)"
  using assms
proof (induction t)
  case (Cons x t)
  show ?case
  proof (cases "key x = k")
    case True
    have "x' \<in> set t \<Longrightarrow> key x' \<noteq> k" for x' using Cons.prems(1) True by (auto simp: image_iff)
    then have "update_where (\<lambda>x. key x = k) g t = t" by (simp add: update_where_def map_idI)
    with Cons.prems True show ?thesis by (simp add: update_where_def)
  next
    case False
    with Cons show ?thesis by (simp add: update_where_def)
  qed
qed simp

lemma returning_Some:
  "returning_where P f t = Some r \<longleftrightarrow> (\<exists>x. first_where P t = Some x \<and> r = f x)"
  by (auto simp: returning_where_def first_where_def)

lemma returning_None: "returning_where P f t = None \<longleftrightarrow> (\<forall>r \<in> set t. \<not> P r)"
  by (auto simp: returning_where_def find_None_iff)

subsection \<open>Tables whose rows only move up an order\<close>

definition table_grows :: "('r \<Rightarrow> 'k) \<Rightarrow> ('r \<Rightarrow> 'r \<Rightarrow> bool) \<Rightarrow> 'r list \<Rightarrow> 'r list \<Rightarrow> bool" where
  "table_grows key le t t' \<longleftrightarrow> (\<forall>k r. row_at key k t = Some r \<longrightarrow> (\<exists>r'. row_at key k t' = Some r' \<and> le r r'))"

lemma table_grows_refl: "(\<And>r. le r r) \<Longrightarrow> table_grows key le t t"
  by (simp add: table_grows_def)

lemma table_grows_append: "(\<And>r. le r r) \<Longrightarrow> table_grows key le t (t @ n)"
  by (simp add: table_grows_def row_at_append)

lemma row_at_update_set:
  assumes "\<And>r. r \<in> set t \<Longrightarrow> P r \<Longrightarrow> key (f r) = key r"
  shows "row_at key k (update_where P f t) = map_option (\<lambda>r. if P r then f r else r) (row_at key k t)"
  using assms by (induction t) (auto simp: update_where_def)

lemma keys_update_set:
  assumes "\<And>r. r \<in> set t \<Longrightarrow> P r \<Longrightarrow> key (f r) = key r"
  shows "map key (update_where P f t) = map key t"
  using assms by (auto simp: update_where_def)

lemma table_grows_update:
  assumes "\<And>r. r \<in> set t \<Longrightarrow> P r \<Longrightarrow> le r (f r)" and "\<And>r. le r r" and "\<And>r r'. le r r' \<Longrightarrow> key r' = key r"
  shows "table_grows key le t (update_where P f t)"
proof -
  have "row_at key k (update_where P f t) = map_option (\<lambda>r. if P r then f r else r) (row_at key k t)" for k
    using assms by (intro row_at_update_set) blast
  moreover have "row_at key k t = Some r \<Longrightarrow> P r \<Longrightarrow> le r (f r)" for k r
    using assms(1) row_at_Some by metis
  ultimately show ?thesis using assms(2) by (auto simp: table_grows_def)
qed

text \<open>
  The contract of such a store: rows are found by key, every step keeps an invariant and moves the
  rows it changes up the order. A final row is one the order leaves no room above.
\<close>

locale keyed_store =
  fixes lookup :: "'s \<Rightarrow> 'k \<Rightarrow> 'r option"
    and le :: "'r \<Rightarrow> 'r \<Rightarrow> bool"
    and invar :: "'s \<Rightarrow> bool"
    and step :: "'s \<Rightarrow> 's \<Rightarrow> bool"
  assumes le_refl: "le r r"
    and le_trans: "le a b \<Longrightarrow> le b c \<Longrightarrow> le a c"
    and step_invar: "invar s \<Longrightarrow> step s s' \<Longrightarrow> invar s'"
    and step_le: "invar s \<Longrightarrow> step s s' \<Longrightarrow> lookup s k = Some r \<Longrightarrow> \<exists>r'. lookup s' k = Some r' \<and> le r r'"
begin

lemma steps_invar: "step\<^sup>*\<^sup>* s s' \<Longrightarrow> invar s \<Longrightarrow> invar s'"
  by (induction rule: rtranclp_induct) (auto intro: step_invar)

lemma steps_le:
  "step\<^sup>*\<^sup>* s s' \<Longrightarrow> invar s \<Longrightarrow> lookup s k = Some r \<Longrightarrow> \<exists>r'. lookup s' k = Some r' \<and> le r r'"
proof (induction rule: rtranclp_induct)
  case base
  then show ?case using le_refl by blast
next
  case (step y z)
  then obtain r' where "lookup y k = Some r'" "le r r'" by blast
  moreover have "invar y" using step steps_invar by blast
  ultimately show ?case using step.hyps(2) step_le le_trans by blast
qed

end

locale terminal_store = keyed_store +
  fixes final :: "'r \<Rightarrow> bool"
  assumes final_le: "final r \<Longrightarrow> le r r' \<Longrightarrow> r' = r"
begin

lemma final_forever: "step\<^sup>*\<^sup>* s s' \<Longrightarrow> invar s \<Longrightarrow> lookup s k = Some r \<Longrightarrow> final r \<Longrightarrow> lookup s' k = Some r"
  using steps_le final_le by blast

end

end
