(* ===== verification/JS_Number.thy ===== *)
theory JS_Number
  imports Prelude Complex_Main "HOL-Library.Log_Nat"
begin

text \<open>
  JavaScript numbers: IEEE-754 double precision values, as rationals with the rounding of every
  arithmetic result written out. \<open>fl\<close> rounds a rational to the nearest double, ties to even
  (53 significant bits, subnormals below \<open>2 powi (-1022)\<close>); results of magnitude at least
  \<open>2 ^ 1024\<close> overflow to an infinity. The two zeros are identified, since no operation the
  sources use tells them apart. \<open>num_text\<close> is \<open>String(x)\<close>, the shortest decimal that rounds
  back to \<open>x\<close>; \<open>to_fixed\<close> is \<open>Number.prototype.toFixed\<close>.
\<close>

datatype js_number = Fin rat | PosInf | NegInf | NaN

subsection \<open>Rounding to a double\<close>

definition bexp :: "rat \<Rightarrow> int" where
  "bexp x = (let (p, q) = quotient_of x; e = bitlen p - bitlen q
     in if (2 :: rat) powi e \<le> x then e else e - 1)"

definition ulp :: "rat \<Rightarrow> rat" where
  "ulp x = 2 powi (max (bexp x - 52) (-1074))"

definition rne :: "rat \<Rightarrow> int" where
  "rne y = (let n = \<lfloor>y\<rfloor>; d = y - of_int n
     in if d < 1 / 2 then n else if d > 1 / 2 then n + 1 else if even n then n else n + 1)"

definition fl_pos :: "rat \<Rightarrow> rat" where
  "fl_pos x = ulp x * of_int (rne (x / ulp x))"

definition fl :: "rat \<Rightarrow> rat" where
  "fl x = (if x = 0 then 0 else if x > 0 then fl_pos x else - fl_pos (- x))"

definition js_of_rat :: "rat \<Rightarrow> js_number" where
  "js_of_rat x = (let y = fl x in if y \<ge> 2 ^ 1024 then PosInf else if y \<le> - (2 ^ 1024) then NegInf else Fin y)"

lemma powi_le_iff:
  assumes "1 < (c :: rat)"
  shows "c powi a \<le> c powi b \<longleftrightarrow> a \<le> b" and "c powi a < c powi b \<longleftrightarrow> a < b"
proof -
  have s: "c powi a < c powi b" if "a < b" for a b
    using that assms by (rule power_int_strict_increasing)
  have "c powi a < c powi b \<or> a = b \<or> c powi b < c powi a"
    by (rule linorder_cases [of a b]) (auto intro: s)
  then show "c powi a \<le> c powi b \<longleftrightarrow> a \<le> b" and "c powi a < c powi b \<longleftrightarrow> a < b"
    using s [of a b] s [of b a] by (cases a b rule: linorder_cases; auto)+
qed

lemma rne_error: "\<bar>of_int (rne y) - y\<bar> \<le> 1 / 2"
proof -
  have "of_int \<lfloor>y\<rfloor> \<le> y" "y < of_int \<lfloor>y\<rfloor> + 1"
    by linarith+
  then show ?thesis by (auto simp: rne_def Let_def)
qed

lemma rne_of_int [simp]: "rne (of_int n) = n"
  by (simp add: rne_def Let_def)

lemma rne_mono: "x \<le> y \<Longrightarrow> rne x \<le> rne y"
proof -
  assume le: "x \<le> y"
  then have f: "\<lfloor>x\<rfloor> \<le> \<lfloor>y\<rfloor>" by (rule floor_mono)
  show ?thesis
  proof (cases "\<lfloor>x\<rfloor> = \<lfloor>y\<rfloor>")
    case True
    then show ?thesis using le by (auto simp: rne_def Let_def)
  next
    case False
    with f show ?thesis by (auto simp: rne_def Let_def)
  qed
qed

lemma rne_nonneg: "0 \<le> y \<Longrightarrow> 0 \<le> rne y"
  using rne_mono [of 0 y] by (simp add: rne_def)

lemma ulp_pos [simp]: "0 < ulp x"
  by (simp add: ulp_def)

lemma ulp_nonzero [simp]: "ulp x \<noteq> 0"
  by (metis less_irrefl ulp_pos)

lemma fl_pos_error: "\<bar>fl_pos x - x\<bar> \<le> ulp x / 2"
proof -
  have "fl_pos x - x = ulp x * (of_int (rne (x / ulp x)) - x / ulp x)"
    using ulp_pos [of x] by (simp add: fl_pos_def right_diff_distrib)
  then have "\<bar>fl_pos x - x\<bar> = ulp x * \<bar>of_int (rne (x / ulp x)) - x / ulp x\<bar>"
    by (simp add: abs_mult less_imp_le)
  also have "\<dots> \<le> ulp x * (1 / 2)"
    by (intro mult_left_mono rne_error) (simp add: less_imp_le)
  finally show ?thesis by simp
qed

lemma bitlen_powi:
  assumes "0 < p"
  shows "(2 :: rat) powi (bitlen p - 1) \<le> of_int p" and "of_int p < (2 :: rat) powi bitlen p"
proof -
  have b: "2 ^ nat (bitlen p - 1) \<le> p" "p < 2 ^ nat (bitlen p)"
    using bitlen_bounds [OF assms] by auto
  have nn: "0 \<le> bitlen p - 1"
    using assms bitlen_nonneg [of p] bitlen_eq_zero_iff [of p] by linarith
  have "of_int (2 ^ nat (bitlen p - 1)) \<le> (of_int p :: rat)"
    using b(1) by (simp only: of_int_le_iff)
  then show "(2 :: rat) powi (bitlen p - 1) \<le> of_int p"
    using nn by (simp add: power_int_def)
  have "(of_int p :: rat) < of_int (2 ^ nat (bitlen p))"
    using b(2) by (simp only: of_int_less_iff)
  then show "of_int p < (2 :: rat) powi bitlen p"
    using nn by (simp add: power_int_def)
qed

lemma bexp_bounds:
  assumes "0 < x"
  shows "2 powi bexp x \<le> x" and "x < 2 powi (bexp x + 1)"
proof -
  obtain p q where pq: "quotient_of x = (p, q)" by force
  have q: "0 < q" using quotient_of_denom_pos [OF pq] .
  have x: "x = of_int p / of_int q" using quotient_of_div [OF pq] .
  have p: "0 < p" using assms q by (simp add: x zero_less_divide_iff)
  define e where "e = bitlen p - bitlen q"
  have lo: "2 powi (e - 1) < x"
  proof -
    have "2 powi (e - 1) * of_int q < (2 :: rat) powi (e - 1) * 2 powi bitlen q"
      using bitlen_powi(2) [OF q] by simp
    also have "\<dots> = 2 powi (bitlen p - 1)"
      by (simp add: e_def flip: power_int_add)
    also have "\<dots> \<le> of_int p" by (rule bitlen_powi(1) [OF p])
    finally show ?thesis using q by (simp add: x pos_less_divide_eq)
  qed
  have hi: "x < 2 powi (e + 1)"
  proof -
    have "of_int p < (2 :: rat) powi bitlen p" by (rule bitlen_powi(2) [OF p])
    also have "\<dots> = 2 powi (e + 1) * 2 powi (bitlen q - 1)"
      by (simp add: e_def flip: power_int_add)
    also have "\<dots> \<le> 2 powi (e + 1) * of_int q"
      using bitlen_powi(1) [OF q] by simp
    finally show ?thesis using q by (simp add: x pos_divide_less_eq)
  qed
  have b: "bexp x = (if (2 :: rat) powi e \<le> x then e else e - 1)"
    by (simp add: bexp_def pq e_def)
  show "2 powi bexp x \<le> x" using lo b by auto
  show "x < 2 powi (bexp x + 1)" using hi b by auto
qed

lemma bexp_mono:
  assumes "0 < x" and "x \<le> y"
  shows "bexp x \<le> bexp y"
proof (rule ccontr)
  assume "\<not> bexp x \<le> bexp y"
  then have "bexp y + 1 \<le> bexp x" by simp
  then have "(2 :: rat) powi (bexp y + 1) \<le> 2 powi bexp x"
    by (intro power_int_increasing) auto
  with bexp_bounds(1) [of x] bexp_bounds(2) [of y] assms show False by simp
qed

lemma ulp_mono: "0 < x \<Longrightarrow> x \<le> y \<Longrightarrow> ulp x \<le> ulp y"
  unfolding ulp_def by (intro power_int_increasing) (auto dest: bexp_mono)

text \<open>Every dyadic rational of at most 53 significant bits is a double.\<close>

lemma fl_pos_exact:
  assumes pos: "0 < x" and x: "x = of_int m * 2 powi k" and m: "m \<le> 2 ^ 53" and k: "-1074 \<le> k"
  shows "fl_pos x = x"
proof -
  define e where "e = max (bexp x - 52) (-1074)"
  have u: "ulp x = 2 powi e" by (simp add: ulp_def e_def)
  have split: "(2 :: rat) powi j = 2 powi e * of_int (2 ^ nat (j - e))" if "e \<le> j" for j
    using that power_int_add [of "2 :: rat" e "j - e"] by (simp add: power_int_def [of _ "j - e"])
  have le: "(2 :: rat) powi bexp x \<le> x" by (rule bexp_bounds(1) [OF pos])
  have "\<exists>i. x = ulp x * of_int i"
  proof (cases "m = 2 ^ 53")
    case True
    then have x53: "x = 2 powi (53 + k)" by (simp add: x power_int_add)
    have "bexp x \<le> 53 + k" using le by (simp only: x53 powi_le_iff(1) [of "2 :: rat", simplified])
    then have "e \<le> 53 + k" using k by (simp add: e_def)
    then show ?thesis using split [of "53 + k"] x53 u by metis
  next
    case False
    with m have "m < 2 ^ 53" by simp
    then have "(of_int m :: rat) < 2 ^ 53" by (metis of_int_less_iff of_int_numeral of_int_power)
    then have "x < 2 powi (53 + k)" by (simp add: x power_int_add)
    with le have "(2 :: rat) powi bexp x < 2 powi (53 + k)" by (rule order.strict_trans1)
    then have "bexp x < 53 + k" by (simp only: powi_le_iff(2) [of "2 :: rat", simplified])
    then have e: "e \<le> k" using k by (simp add: e_def)
    have "x = ulp x * of_int (m * 2 ^ nat (k - e))"
      by (subst x, subst split [OF e]) (simp add: u)
    then show ?thesis by blast
  qed
  then obtain i where i: "x = ulp x * of_int i" by blast
  then have "x / ulp x = of_int i" by (metis nonzero_mult_div_cancel_left ulp_nonzero)
  with i show ?thesis by (simp add: fl_pos_def)
qed

lemma fl_pos_nonneg: "0 \<le> x \<Longrightarrow> 0 \<le> fl_pos x"
  by (simp add: fl_pos_def rne_nonneg less_imp_le)

lemma fl_zero [simp]: "fl 0 = 0"
  by (simp add: fl_def)

lemma fl_nonneg: "0 \<le> x \<Longrightarrow> 0 \<le> fl x"
  by (auto simp: fl_def fl_pos_nonneg)

lemma fl_minus [simp]: "fl (- x) = - fl x"
  by (auto simp: fl_def)

lemma fl_exact:
  assumes "x = of_int m * 2 powi k" and "\<bar>m\<bar> \<le> 2 ^ 53" and "-1074 \<le> k"
  shows "fl x = x"
proof -
  consider "x = 0" | "0 < x" | "x < 0" by linarith
  then show ?thesis
  proof cases
    case 2
    then show ?thesis using fl_pos_exact [OF 2 assms(1) _ assms(3)] assms(2) by (simp add: fl_def)
  next
    case 3
    then have "0 < - x" by simp
    then have "fl_pos (- x) = - x"
      by (rule fl_pos_exact [where m = "- m" and k = k]) (use assms in auto)
    with 3 show ?thesis by (simp add: fl_def)
  qed simp
qed

lemma fl_of_int [simp]: "\<bar>i\<bar> \<le> 2 ^ 53 \<Longrightarrow> fl (of_int i) = of_int i"
  by (rule fl_exact [where m = i and k = 0]) auto

text \<open>In the normal range the relative error is at most half a unit in the 53rd bit.\<close>

lemma fl_rel_error:
  assumes "2 powi (-1022) \<le> x"
  shows "\<bar>fl x - x\<bar> \<le> x / 2 ^ 53"
proof -
  have pos: "0 < x" using assms by (rule order.strict_trans2 [rotated]) simp
  have "(2 :: rat) powi (-1022) < 2 powi (bexp x + 1)"
    using assms bexp_bounds(2) [OF pos] by (rule order.strict_trans1)
  then have "-1022 < bexp x + 1" by (simp only: powi_le_iff(2) [of "2 :: rat", simplified])
  then have "max (bexp x - 52) (-1074) = bexp x - 52" by simp
  then have "ulp x = 2 powi (bexp x - 52)" by (simp only: ulp_def)
  also have "\<dots> = 2 powi bexp x / 2 ^ 52" by (simp add: power_int_diff)
  also have "\<dots> \<le> x / 2 ^ 52" using bexp_bounds(1) [OF pos] by (simp add: divide_right_mono)
  finally have "ulp x / 2 \<le> x / 2 ^ 53" by simp
  with fl_pos_error [of x] pos show ?thesis by (simp add: fl_def)
qed

lemma fl_pos_mono:
  assumes "0 < x" and "x \<le> y"
  shows "fl_pos x \<le> fl_pos y"
proof (cases "ulp x = ulp y")
  case True
  have "rne (x / ulp x) \<le> rne (y / ulp y)"
    using assms True by (intro rne_mono) (simp add: divide_right_mono less_imp_le)
  then show ?thesis by (simp add: fl_pos_def True)
next
  case False
  then have lt: "bexp x < bexp y"
    using bexp_mono [OF assms] by (auto simp: ulp_def order.order_iff_strict)
  have y0: "0 < y" using assms by simp
  have big: "-1074 < bexp y - 52"
    using False lt by (auto simp: ulp_def max_def split: if_splits)
  let ?b = "(2 :: rat) powi bexp y"
  have xb: "x \<le> ?b"
    using bexp_bounds(2) [OF assms(1)] power_int_increasing [of "bexp x + 1" "bexp y" "2 :: rat"] lt by simp
  have yb: "?b \<le> y" by (rule bexp_bounds(1) [OF y0])
  have e: "?b / ulp z = of_int (2 ^ nat (bexp y - max (bexp z - 52) (-1074)))"
    if "bexp z \<le> bexp y" for z
  proof -
    have "?b / ulp z = 2 powi (bexp y - max (bexp z - 52) (-1074))"
      by (simp add: ulp_def power_int_diff)
    also have "\<dots> = of_int (2 ^ nat (bexp y - max (bexp z - 52) (-1074)))"
      using that big by (simp add: power_int_def)
    finally show ?thesis .
  qed
  have round: "of_int (rne (?b / ulp z)) = ?b / ulp z" if "bexp z \<le> bexp y" for z
    unfolding e [OF that] rne_of_int by simp
  have "rne (x / ulp x) \<le> rne (?b / ulp x)"
    using xb by (intro rne_mono) (simp add: divide_right_mono less_imp_le)
  then have "fl_pos x \<le> ulp x * of_int (rne (?b / ulp x))" by (simp add: fl_pos_def)
  also have "\<dots> = ?b" using round [of x] lt by simp
  also have "\<dots> = ulp y * of_int (rne (?b / ulp y))" using round [of y] by simp
  also have "\<dots> \<le> fl_pos y"
    unfolding fl_pos_def using yb by (simp add: rne_mono divide_right_mono less_imp_le)
  finally show ?thesis .
qed

lemma fl_mono: "x \<le> y \<Longrightarrow> fl x \<le> fl y"
proof -
  assume le: "x \<le> y"
  consider "0 < x" | "x \<le> 0" "0 \<le> y" | "y < 0" using le by linarith
  then show ?thesis
  proof cases
    case 1
    with le show ?thesis by (simp add: fl_def fl_pos_mono)
  next
    case 2
    have "0 \<le> fl (- x)" using 2 by (intro fl_nonneg) simp
    then have "fl x \<le> 0" by simp
    moreover have "0 \<le> fl y" using 2 by (intro fl_nonneg)
    ultimately show ?thesis by linarith
  next
    case 3
    with le have "fl_pos (- y) \<le> fl_pos (- x)" by (intro fl_pos_mono) auto
    with 3 le show ?thesis by (simp add: fl_def)
  qed
qed

subsection \<open>Decimal text\<close>

text \<open>
  \<open>dexp x\<close> is the number \<open>n\<close> of integer digits of \<open>x\<close>: \<open>10 powi (n - 1) \<le> x < 10 powi n\<close>.
  \<open>shortest\<close> is \<open>Number::toString\<close>'s choice of significant digits: the fewest (at most 17) whose
  decimal rounds back to \<open>x\<close>, the closest such decimal when there are two.
\<close>

definition dexp :: "rat \<Rightarrow> int" where
  "dexp x = (let (p, q) = quotient_of x; e = int (floorlog 10 (nat p)) - int (floorlog 10 (nat q))
     in if (10 :: rat) powi e \<le> x then e + 1 else e)"

definition digits_at :: "rat \<Rightarrow> int \<Rightarrow> nat \<Rightarrow> int option" where
  "digits_at x n k =
     (let unit = 10 powi (n - int k); lo = \<lfloor>x / unit\<rfloor>; hi = lo + 1;
          okl = (fl (of_int lo * unit) = x); okh = (fl (of_int hi * unit) = x)
      in if okl \<and> okh
         then (let dl = x - of_int lo * unit; dh = of_int hi * unit - x
               in Some (if dl < dh \<or> (dl = dh \<and> even lo) then lo else hi))
         else if okl then Some lo else if okh then Some hi else None)"

fun shortest_from :: "rat \<Rightarrow> int \<Rightarrow> nat list \<Rightarrow> int \<times> int" where
  "shortest_from x n [] = (\<lfloor>x / 10 powi (n - 17)\<rfloor>, n - 17)"
| "shortest_from x n (k # ks) =
     (case digits_at x n k of Some s \<Rightarrow> (s, n - int k) | None \<Rightarrow> shortest_from x n ks)"

definition strip_zeros :: "string \<Rightarrow> string" where
  "strip_zeros s = rev (dropWhile (\<lambda>c. c = CHR ''0'') (rev s))"

definition format_digits :: "string \<Rightarrow> int \<Rightarrow> string" where
  "format_digits ds n =
     (let k = int (length ds) in
      if k \<le> n \<and> n \<le> 21 then ds @ replicate (nat (n - k)) CHR ''0''
      else if 0 < n \<and> n \<le> 21 then take (nat n) ds @ ''.'' @ drop (nat n) ds
      else if -6 < n \<and> n \<le> 0 then ''0.'' @ replicate (nat (- n)) CHR ''0'' @ ds
      else (let e = n - 1; es = (if e < 0 then ''-'' else ''+'') @ nat_text (nat \<bar>e\<bar>)
            in if k = 1 then ds @ ''e'' @ es else take 1 ds @ ''.'' @ drop 1 ds @ ''e'' @ es))"

definition pos_text :: "rat \<Rightarrow> string" where
  "pos_text x =
     (let (s, e) = shortest_from x (dexp x) [1..<18]; all = nat_text (nat s)
      in format_digits (strip_zeros all) (int (length all) + e))"

fun num_text :: "js_number \<Rightarrow> string" where
  "num_text (Fin x) =
     (if x = 0 then ''0'' else if x < 0 then ''-'' @ pos_text (- x) else pos_text x)"
| "num_text PosInf = ''Infinity''"
| "num_text NegInf = ''-Infinity''"
| "num_text NaN = ''NaN''"

text \<open>\<open>toFixed(f)\<close> below \<open>10 ^ 21\<close>: the integer closest to \<open>x * 10 ^ f\<close>, the larger of two.\<close>

definition fixed_digits :: "rat \<Rightarrow> nat \<Rightarrow> int" where
  "fixed_digits x f = \<lfloor>x * 10 ^ f + 1 / 2\<rfloor>"

definition fixed_text :: "nat \<Rightarrow> nat \<Rightarrow> string" where
  "fixed_text n f =
     (let m = nat_text n; m' = (if length m \<le> f then replicate (f + 1 - length m) CHR ''0'' @ m else m);
          k = length m'
      in if f = 0 then m' else take (k - f) m' @ ''.'' @ drop (k - f) m')"

fun to_fixed :: "js_number \<Rightarrow> nat \<Rightarrow> string" where
  "to_fixed (Fin x) f =
     (if \<bar>x\<bar> \<ge> 10 ^ 21 then num_text (Fin x)
      else if x < 0 then ''-'' @ fixed_text (nat (fixed_digits (- x) f)) f
      else fixed_text (nat (fixed_digits x f)) f)"
| "to_fixed v f = num_text v"

text \<open>
  \<open>Number(text)\<close> for the decimal texts the sources pass: an optional sign, digits and an optional
  fraction, rounded once. Anything else is \<open>NaN\<close> here.
\<close>

definition decimal_value :: "string \<Rightarrow> rat option" where
  "decimal_value t =
     (case split_first (CHR ''.'') t of
        (w, None) \<Rightarrow> if w \<noteq> [] \<and> list_all is_digit w then Some (of_nat (digits_val w)) else None
      | (w, Some f) \<Rightarrow>
          if w \<noteq> [] \<and> f \<noteq> [] \<and> list_all is_digit w \<and> list_all is_digit f
          then Some (of_nat (digits_val (w @ f)) / 10 ^ length f) else None)"

definition decimal_number :: "string \<Rightarrow> js_number" where
  "decimal_number t =
     (case t of
        [] \<Rightarrow> NaN
      | c # r \<Rightarrow>
          if c = CHR ''-'' then (case decimal_value r of None \<Rightarrow> NaN | Some v \<Rightarrow> js_of_rat (- v))
          else if c = CHR ''+'' then (case decimal_value r of None \<Rightarrow> NaN | Some v \<Rightarrow> js_of_rat v)
          else (case decimal_value t of None \<Rightarrow> NaN | Some v \<Rightarrow> js_of_rat v))"

subsection \<open>Arithmetic\<close>

definition is_finite :: "js_number \<Rightarrow> bool" where
  "is_finite v = (case v of Fin _ \<Rightarrow> True | _ \<Rightarrow> False)"

fun js_mul :: "js_number \<Rightarrow> js_number \<Rightarrow> js_number" where
  "js_mul (Fin x) (Fin y) = js_of_rat (x * y)"
| "js_mul NaN _ = NaN"
| "js_mul _ NaN = NaN"
| "js_mul PosInf (Fin y) = (if y = 0 then NaN else if y > 0 then PosInf else NegInf)"
| "js_mul NegInf (Fin y) = (if y = 0 then NaN else if y > 0 then NegInf else PosInf)"
| "js_mul (Fin x) PosInf = (if x = 0 then NaN else if x > 0 then PosInf else NegInf)"
| "js_mul (Fin x) NegInf = (if x = 0 then NaN else if x > 0 then NegInf else PosInf)"
| "js_mul PosInf PosInf = PosInf"
| "js_mul NegInf NegInf = PosInf"
| "js_mul _ _ = NegInf"

fun js_add :: "js_number \<Rightarrow> js_number \<Rightarrow> js_number" where
  "js_add (Fin x) (Fin y) = js_of_rat (x + y)"
| "js_add NaN _ = NaN"
| "js_add _ NaN = NaN"
| "js_add PosInf NegInf = NaN"
| "js_add NegInf PosInf = NaN"
| "js_add PosInf _ = PosInf"
| "js_add NegInf _ = NegInf"
| "js_add (Fin x) v = v"

fun js_neg :: "js_number \<Rightarrow> js_number" where
  "js_neg (Fin x) = Fin (- x)"
| "js_neg PosInf = NegInf"
| "js_neg NegInf = PosInf"
| "js_neg NaN = NaN"

definition js_sub :: "js_number \<Rightarrow> js_number \<Rightarrow> js_number" where
  "js_sub v w = js_add v (js_neg w)"

fun js_abs :: "js_number \<Rightarrow> js_number" where
  "js_abs (Fin x) = Fin \<bar>x\<bar>"
| "js_abs NegInf = PosInf"
| "js_abs v = v"

fun js_floor :: "js_number \<Rightarrow> js_number" where
  "js_floor (Fin x) = Fin (of_int \<lfloor>x\<rfloor>)"
| "js_floor v = v"

fun js_less :: "js_number \<Rightarrow> js_number \<Rightarrow> bool" where
  "js_less (Fin x) (Fin y) \<longleftrightarrow> x < y"
| "js_less NaN _ \<longleftrightarrow> False"
| "js_less _ NaN \<longleftrightarrow> False"
| "js_less v PosInf \<longleftrightarrow> v \<noteq> PosInf"
| "js_less NegInf v \<longleftrightarrow> v \<noteq> NegInf"
| "js_less _ _ \<longleftrightarrow> False"

fun js_eq :: "js_number \<Rightarrow> js_number \<Rightarrow> bool" where
  "js_eq NaN _ \<longleftrightarrow> False"
| "js_eq v w \<longleftrightarrow> v = w"

definition js_le :: "js_number \<Rightarrow> js_number \<Rightarrow> bool" where
  "js_le v w \<longleftrightarrow> js_less v w \<or> js_eq v w"

text \<open>\<open>Number(units) / 100\<close>: a BigInt converted to the nearest double, then divided.\<close>

definition units_number :: "nat \<Rightarrow> js_number" where
  "units_number u =
     (case js_of_rat (of_int (int u)) of Fin x \<Rightarrow> js_of_rat (x / 100) | v \<Rightarrow> v)"

definition is_safe_integer :: "js_number \<Rightarrow> bool" where
  "is_safe_integer v = (case v of Fin x \<Rightarrow> x = of_int \<lfloor>x\<rfloor> \<and> \<bar>x\<bar> < 2 ^ 53 | _ \<Rightarrow> False)"

subsection \<open>The shortest decimal of a rounded decimal\<close>

lemma floorlog10_powi:
  assumes "0 < p"
  shows "(10 :: rat) powi (int (floorlog 10 (nat p)) - 1) \<le> of_int p"
    and "of_int p < (10 :: rat) powi int (floorlog 10 (nat p))"
proof -
  have b: "10 ^ (floorlog 10 (nat p) - 1) \<le> nat p" "nat p < 10 ^ floorlog 10 (nat p)"
    using floorlog_bounds [of "nat p" 10] assms by auto
  have nn: "0 < floorlog 10 (nat p)" using assms by (simp add: floorlog_def)
  have r: "(of_nat (nat p) :: rat) = of_int p" using assms by simp
  have "(of_nat (10 ^ (floorlog 10 (nat p) - 1)) :: rat) \<le> of_nat (nat p)"
    using b(1) by (simp only: of_nat_le_iff)
  moreover have "int (floorlog 10 (nat p)) - 1 = int (floorlog 10 (nat p) - 1)" using nn by simp
  ultimately show "(10 :: rat) powi (int (floorlog 10 (nat p)) - 1) \<le> of_int p"
    by (simp only: power_int_of_nat) (simp add: r)
  have "(of_nat (nat p) :: rat) < of_nat (10 ^ floorlog 10 (nat p))"
    using b(2) by (simp only: of_nat_less_iff)
  then show "of_int p < (10 :: rat) powi int (floorlog 10 (nat p))"
    by (simp add: r)
qed

lemma dexp_bounds:
  assumes "0 < x"
  shows "10 powi (dexp x - 1) \<le> x" and "x < 10 powi dexp x"
proof -
  obtain p q where pq: "quotient_of x = (p, q)" by force
  have q: "0 < q" using quotient_of_denom_pos [OF pq] .
  have x: "x = of_int p / of_int q" using quotient_of_div [OF pq] .
  have p: "0 < p" using assms q by (simp add: x zero_less_divide_iff)
  let ?d = "\<lambda>i. int (floorlog 10 (nat i))"
  define e where "e = ?d p - ?d q"
  have lo: "10 powi (e - 1) < x"
  proof -
    have "10 powi (e - 1) * of_int q < (10 :: rat) powi (e - 1) * 10 powi ?d q"
      using floorlog10_powi(2) [OF q] by simp
    also have "\<dots> = 10 powi (?d p - 1)"
      using power_int_add [of "10 :: rat" "e - 1" "?d q"] by (simp add: e_def)
    also have "\<dots> \<le> of_int p" by (rule floorlog10_powi(1) [OF p])
    finally show ?thesis using q by (simp add: x pos_less_divide_eq)
  qed
  have hi: "x < 10 powi (e + 1)"
  proof -
    have "of_int p < (10 :: rat) powi ?d p" by (rule floorlog10_powi(2) [OF p])
    also have "\<dots> = 10 powi (e + 1) * 10 powi (?d q - 1)"
      using power_int_add [of "10 :: rat" "e + 1" "?d q - 1"] by (simp add: e_def)
    also have "\<dots> \<le> 10 powi (e + 1) * of_int q"
      using floorlog10_powi(1) [OF q] by simp
    finally show ?thesis using q by (simp add: x pos_divide_less_eq)
  qed
  have b: "dexp x = (if (10 :: rat) powi e \<le> x then e + 1 else e)"
    by (simp add: dexp_def pq e_def)
  show "10 powi (dexp x - 1) \<le> x" using lo b by auto
  show "x < 10 powi dexp x" using hi b by auto
qed

lemma min_normal_le: "(2 :: rat) powi (-1022) \<le> 10 powi (-301)"
proof -
  have "(10 :: rat) ^ 301 \<le> 2 ^ 1022" by simp
  then have "inverse ((2 :: rat) ^ 1022) \<le> inverse (10 ^ 301)" by (intro le_imp_inverse_le) auto
  then show ?thesis
    using power_int_minus [of "2 :: rat" 1022] power_int_minus [of "10 :: rat" 301] by simp
qed

text \<open>
  Let \<open>v\<close> be a decimal of at most 15 significant digits in the decade of its rounding \<open>x\<close>. A candidate
  of at most 15 digits that rounds to \<open>x\<close> too is within half a step of \<open>v\<close>, hence equal to it.
\<close>

lemma fl_decimal_unique:
  assumes n: "-300 \<le> n" and x: "fl v = x" "fl c = x"
    and vr: "10 powi (n - 1) \<le> v" "v \<le> 10 powi n"
    and cr: "10 powi (n - 1) \<le> c" "c \<le> 3 * 10 powi n"
    and vm: "v = of_int S * 10 powi (n - 15)" and cm: "c = of_int T * 10 powi (n - 15)"
  shows "c = v"
proof -
  let ?u = "(10 :: rat) powi (n - 15)"
  have u0: "0 < ?u" by simp
  note min_normal_le
  also have "(10 :: rat) powi (-301) \<le> 10 powi (n - 1)"
    using n by (simp only: powi_le_iff(1) [of "10 :: rat", simplified])
  finally have low: "(2 :: rat) powi (-1022) \<le> 10 powi (n - 1)" .
  have big: "(10 :: rat) powi n = 10 ^ 15 * ?u"
    using power_int_add [of "10 :: rat" 15 "n - 15"] by simp
  have "\<bar>c - v\<bar> \<le> \<bar>fl c - c\<bar> + \<bar>fl v - v\<bar>" using x by linarith
  also have "\<dots> \<le> c / 2 ^ 53 + v / 2 ^ 53"
    using low cr(1) vr(1) by (intro add_mono fl_rel_error) auto
  also have "\<dots> \<le> (4 * 10 ^ 15 * ?u) / 2 ^ 53"
    using cr(2) vr(2) big by simp
  also have "\<dots> < ?u" using u0 by simp
  finally have "\<bar>of_int (T - S) * ?u\<bar> < ?u" by (simp add: vm cm left_diff_distrib)
  then have "\<bar>of_int (T - S) :: rat\<bar> < 1" using u0 by (simp add: abs_mult)
  then have "T = S" by linarith
  then show ?thesis by (simp add: vm cm)
qed

lemma digits_at_sound:
  assumes n: "-300 \<le> n" and x: "fl v = x" and xr: "10 powi (n - 1) \<le> x" "x < 10 powi n"
    and vr: "10 powi (n - 1) \<le> v" "v \<le> 10 powi n" and vm: "v = of_int S * 10 powi (n - 15)"
    and k: "1 \<le> k" "k \<le> 15" and s: "digits_at x n k = Some s"
  shows "of_int s * 10 powi (n - int k) = v"
proof -
  let ?u = "(10 :: rat) powi (n - int k)"
  have u0: "0 < ?u" by simp
  have ule: "?u \<le> 10 powi (n - 1)" using k by (intro power_int_increasing) auto
  have s': "fl (of_int s * ?u) = x" "s = \<lfloor>x / ?u\<rfloor> \<or> s = \<lfloor>x / ?u\<rfloor> + 1"
    using s by (auto simp: digits_at_def Let_def split: if_splits)
  have "1 \<le> x / ?u" using xr(1) ule u0 by (simp add: pos_le_divide_eq)
  have lo: "10 powi (n - 1) \<le> of_int s * ?u" and hi: "of_int s * ?u \<le> 3 * 10 powi n"
  proof -
    have "(10 :: rat) powi (n - 1) / ?u = of_int (10 ^ (k - 1))"
      using k power_int_diff [of "10 :: rat" "n - 1" "n - int k"] by (simp add: power_int_def nat_diff_distrib)
    then have p: "(10 :: rat) powi (n - 1) = of_int (10 ^ (k - 1)) * ?u"
      by (metis less_irrefl nonzero_eq_divide_eq u0)
    then have "of_int (10 ^ (k - 1)) \<le> x / ?u" using xr(1) u0 by (simp only: pos_le_divide_eq)
    then have "10 ^ (k - 1) \<le> \<lfloor>x / ?u\<rfloor>" by (simp only: le_floor_iff)
    then have "10 ^ (k - 1) \<le> s" using s'(2) by auto
    then have "(of_int (10 ^ (k - 1)) :: rat) \<le> of_int s" by (simp only: of_int_le_iff)
    then show "10 powi (n - 1) \<le> of_int s * ?u" unfolding p using u0 by (intro mult_right_mono) auto
    have "of_int s \<le> x / ?u + 1" using s'(2) by linarith
    then have "of_int s * ?u \<le> (x / ?u + 1) * ?u" using u0 by (intro mult_right_mono) auto
    also have "\<dots> = x + ?u" using u0 by (simp add: field_simps)
    also have "\<dots> \<le> 10 powi n + 10 powi n"
      using xr(2) ule power_int_increasing [of "n - 1" n "10 :: rat"] by simp
    also have "\<dots> \<le> 3 * (10 :: rat) powi n" by simp
    finally show "of_int s * ?u \<le> 3 * 10 powi n" .
  qed
  have "?u = 10 ^ (15 - k) * 10 powi (n - 15)"
    using k power_int_add [of "10 :: rat" "int (15 - k)" "n - 15"]
    by (simp add: of_nat_diff power_int_def [of _ "15 - int k"] nat_diff_distrib')
  then have cm: "of_int s * ?u = of_int (s * 10 ^ (15 - k)) * 10 powi (n - 15)" by simp
  show ?thesis
    by (rule fl_decimal_unique [OF n x s'(1) vr lo hi vm cm])
qed

lemma digits_at_15:
  assumes n: "-300 \<le> n" and x: "fl v = x"
    and vr: "10 powi (n - 1) \<le> v" "v \<le> 10 powi n" and vm: "v = of_int S * 10 powi (n - 15)"
  shows "digits_at x n 15 \<noteq> None"
proof -
  let ?u = "(10 :: rat) powi (n - 15)"
  have u0: "0 < ?u" by simp
  note min_normal_le
  also have "(10 :: rat) powi (-301) \<le> 10 powi (n - 1)"
    using n by (simp only: powi_le_iff(1) [of "10 :: rat", simplified])
  finally have "(2 :: rat) powi (-1022) \<le> v" using vr(1) by simp
  then have "\<bar>x - v\<bar> \<le> v / 2 ^ 53" using fl_rel_error x by blast
  also have "\<dots> \<le> 10 ^ 15 * ?u / 2 ^ 53"
    using vr(2) power_int_add [of "10 :: rat" 15 "n - 15"] by (simp add: divide_right_mono)
  also have "\<dots> < ?u" using u0 by simp
  finally have "\<bar>x / ?u - of_int S\<bar> < 1" using u0
    by (simp add: vm abs_less_iff field_simps)
  then have "\<lfloor>x / ?u\<rfloor> = S \<or> \<lfloor>x / ?u\<rfloor> + 1 = S" by linarith
  then have "fl (of_int \<lfloor>x / ?u\<rfloor> * ?u) = x \<or> fl (of_int (\<lfloor>x / ?u\<rfloor> + 1) * ?u) = x"
    using x vm by metis
  then show ?thesis by (auto simp: digits_at_def Let_def)
qed

lemma shortest_from_sound:
  assumes "\<And>k s. k \<in> set ks \<Longrightarrow> k \<le> 15 \<Longrightarrow> digits_at x n k = Some s \<Longrightarrow> of_int s * 10 powi (n - int k) = v"
    and "digits_at x n 15 \<noteq> None" and "15 \<in> set ks" and "sorted ks"
  shows "\<exists>s e. shortest_from x n ks = (s, e) \<and> of_int s * 10 powi e = v"
  using assms
proof (induction ks)
  case Nil
  then show ?case by simp
next
  case (Cons k ks)
  show ?case
  proof (cases "digits_at x n k")
    case None
    with Cons.prems have "15 \<in> set ks" by auto
    with Cons None show ?thesis by auto
  next
    case (Some s)
    have "k \<le> 15" using Cons.prems(3,4) by auto
    with Cons.prems(1) Some show ?thesis by auto
  qed
qed

subsection \<open>The decimal a number prints as\<close>

lemma strip_zeros_split:
  obtains j where "s = strip_zeros s @ replicate j CHR ''0''"
proof -
  have "rev s = takeWhile (\<lambda>c. c = CHR ''0'') (rev s) @ dropWhile (\<lambda>c. c = CHR ''0'') (rev s)"
    by simp
  moreover have "takeWhile (\<lambda>c. c = CHR ''0'') (rev s)
      = replicate (length (takeWhile (\<lambda>c. c = CHR ''0'') (rev s))) CHR ''0''"
    by (rule replicate_eqI) (auto dest: set_takeWhileD)
  ultimately have "rev s = replicate (length (takeWhile (\<lambda>c. c = CHR ''0'') (rev s))) CHR ''0''
      @ dropWhile (\<lambda>c. c = CHR ''0'') (rev s)"
    by metis
  then have "s = strip_zeros s @ replicate (length (takeWhile (\<lambda>c. c = CHR ''0'') (rev s))) CHR ''0''"
    unfolding strip_zeros_def by (metis rev_append rev_replicate rev_rev_ident)
  then show ?thesis by (rule that)
qed

lemma strip_zeros_last: "strip_zeros s \<noteq> [] \<Longrightarrow> last (strip_zeros s) \<noteq> CHR ''0''"
  unfolding strip_zeros_def
  by (metis (mono_tags, lifting) hd_dropWhile last_rev rev_is_Nil_conv)

lemma digits_val_zeros [simp]: "digits_val (replicate j CHR ''0'') = 0"
  by (induction j) (simp_all add: digits_val_def digit_val_def)

lemma digits_val_trailing: "digits_val (s @ replicate j CHR ''0'') = digits_val s * 10 ^ j"
  by (simp add: digits_val_append)

lemma digits_val_leading: "digits_val (replicate j CHR ''0'' @ s) = digits_val s"
  by (simp add: digits_val_append)

definition decimal_shape :: "string \<Rightarrow> rat \<Rightarrow> bool" where
  "decimal_shape t v \<longleftrightarrow> (\<exists>w f. t = (if f = [] then w else w @ ''.'' @ f) \<and> w \<noteq> []
     \<and> list_all is_digit w \<and> list_all is_digit f
     \<and> of_nat (digits_val (w @ f)) / 10 ^ length f = v
     \<and> (f \<noteq> [] \<longrightarrow> last f \<noteq> CHR ''0''))"

lemma is_digit_0 [simp]: "is_digit CHR ''0''"
  by (simp add: is_digit_def)

lemma format_digits_shape:
  assumes ds: "ds \<noteq> []" "list_all is_digit ds" "last ds \<noteq> CHR ''0''" and n: "-6 < n" "n \<le> 21"
  shows "decimal_shape (format_digits ds n) (of_nat (digits_val ds) * 10 powi (n - int (length ds)))"
proof -
  let ?k = "int (length ds)"
  consider "?k \<le> n" | "0 < n" "n < ?k" | "n \<le> 0" by linarith
  then show ?thesis
  proof cases
    case 1
    then have "(10 :: rat) powi (n - ?k) = 10 ^ nat (n - ?k)" by (simp add: power_int_def)
    with 1 n ds show ?thesis unfolding decimal_shape_def
      by (rule_tac x = "ds @ replicate (nat (n - ?k)) CHR ''0''" in exI, rule_tac x = "[]" in exI)
        (simp add: format_digits_def digits_val_trailing list_all_iff ball_Un)
  next
    case 2
    let ?w = "take (nat n) ds" and ?f = "drop (nat n) ds"
    have l: "length ?f = nat (?k - n)" using 2 by (simp add: nat_diff_distrib')
    have "(10 :: rat) powi (n - ?k) = inverse (10 ^ nat (?k - n))"
      using 2 by (simp add: power_int_def power_one_over inverse_eq_divide)
    moreover have "?f \<noteq> []" "?w \<noteq> []" using 2 ds(1) by auto
    moreover have "last ?f \<noteq> CHR ''0''" using ds(3) 2 by (simp add: last_drop)
    moreover have "list_all is_digit ?w" "list_all is_digit ?f"
      using ds(2) by (auto simp: list_all_iff dest: in_set_takeD in_set_dropD)
    ultimately show ?thesis unfolding decimal_shape_def using 2 n l
      by (rule_tac x = ?w in exI, rule_tac x = ?f in exI) (simp add: format_digits_def divide_inverse)
  next
    case 3
    let ?f = "replicate (nat (- n)) CHR ''0'' @ ds"
    have "nat (- n) + length ds = nat (?k - n)" using 3 by simp
    then have "(10 :: rat) powi (n - ?k) = inverse (10 ^ (nat (- n) + length ds))"
      using 3 ds(1) by (simp add: power_int_def power_one_over inverse_eq_divide)
    moreover have "digits_val (''0'' @ ?f) = digits_val ds"
      using digits_val_leading [of "Suc (nat (- n))" ds] by simp
    moreover have "\<not> ?k \<le> n" using 3 ds(1) by (cases ds) auto
    ultimately show ?thesis unfolding decimal_shape_def using 3 n ds
      by (rule_tac x = "''0''" in exI, rule_tac x = ?f in exI)
        (simp add: format_digits_def divide_inverse list_all_iff ball_Un)
  qed
qed

lemma pos_text_shape:
  assumes r: "shortest_from x (dexp x) [1..<18] = (s, e)" and s: "0 < s"
    and v: "of_int s * 10 powi e = v"
    and n: "-6 < int (length (nat_text (nat s))) + e" "int (length (nat_text (nat s))) + e \<le> 21"
  shows "decimal_shape (pos_text x) v"
proof -
  let ?all = "nat_text (nat s)"
  obtain j where j: "?all = strip_zeros ?all @ replicate j CHR ''0''" by (rule strip_zeros_split)
  have val: "nat s = digits_val (strip_zeros ?all) * 10 ^ j"
    using digits_val_trailing [of "strip_zeros ?all" j] j digits_val_nat_text [of "nat s"] by simp
  have ne: "strip_zeros ?all \<noteq> []" using val s by auto
  have dig: "list_all is_digit (strip_zeros ?all)"
    using nat_text_digits [of "nat s"] by (subst (asm) j) (simp add: list_all_iff)
  have len: "length ?all = length (strip_zeros ?all) + j"
    by (subst j) simp
  have "(of_nat (digits_val (strip_zeros ?all)) :: rat) * 10 powi (int (length ?all) + e - int (length (strip_zeros ?all)))
      = of_nat (digits_val (strip_zeros ?all)) * (10 ^ j * 10 powi e)"
    by (simp add: len power_int_add)
  also have "\<dots> = of_nat (nat s) * 10 powi e" by (subst (2) val) simp
  also have "\<dots> = v" using s v by simp
  finally have "of_nat (digits_val (strip_zeros ?all))
      * 10 powi (int (length ?all) + e - int (length (strip_zeros ?all))) = v" .
  then show ?thesis
    using format_digits_shape [OF ne dig strip_zeros_last [OF ne] n] r
    by (simp add: pos_text_def Let_def)
qed

lemma nat_text_length:
  "n < 10 ^ length (nat_text n)" "0 < n \<Longrightarrow> 10 ^ (length (nat_text n) - 1) \<le> n"
proof (induction n rule: nat_text.induct)
  case (1 n)
  {
    case 1
    show ?case
    proof (cases "n < 10")
      case False
      with "1.IH"(1) have "n div 10 < 10 ^ length (nat_text (n div 10))" by blast
      then have "n < 10 * 10 ^ length (nat_text (n div 10))" by linarith
      with False show ?thesis by (simp add: nat_text.simps [of n])
    qed (simp add: nat_text.simps [of n])
  next
    case 2
    show ?case
    proof (cases "n < 10")
      case False
      then have "0 < n div 10" by simp
      with "1.IH"(2) False have "10 ^ (length (nat_text (n div 10)) - 1) \<le> n div 10" by blast
      then have "10 * 10 ^ (length (nat_text (n div 10)) - 1) \<le> n" by linarith
      moreover have "10 * 10 ^ (length (nat_text (n div 10)) - 1) = (10 :: nat) ^ length (nat_text (n div 10))"
        by (metis length_greater_0_conv nat_text_nonempty power_eq_if less_irrefl)
      ultimately show ?thesis using False by (simp add: nat_text.simps [of n])
    qed (use 2 in \<open>simp add: nat_text.simps [of n]\<close>)
  }
qed

lemma decade_transfer:
  assumes n: "-280 \<le> n" and x: "fl v = x" and xr: "10 powi (n - 1) \<le> x" "x < 10 powi n"
    and vm: "v = of_int S * 10 powi (n - 15)" and S: "0 < S"
  shows "10 powi (n - 1) \<le> v" and "v \<le> 10 powi n"
proof -
  let ?u = "(10 :: rat) powi (n - 15)"
  have u0: "0 < ?u" by simp
  have "(2 :: rat) powi (-1022) \<le> ?u"
    using min_normal_le n powi_le_iff(1) [of "10 :: rat" "-301" "n - 15"] by simp
  moreover have "?u \<le> v" using S u0 by (simp add: vm)
  ultimately have err: "\<bar>x - v\<bar> \<le> v / 2 ^ 53" using fl_rel_error x by force
  have v: "v = of_int S * ?u" by (rule vm)
  have lo: "(10 :: rat) powi (n - 1) = of_int (10 ^ 14) * ?u"
    using power_int_add [of "10 :: rat" 14 "n - 15"] by simp
  have hi: "(10 :: rat) powi n = of_int (10 ^ 15) * ?u"
    using power_int_add [of "10 :: rat" 15 "n - 15"] by simp
  have e: "\<bar>x / ?u - of_int S\<bar> \<le> of_int S / 2 ^ 53"
    using err u0 by (simp add: v abs_le_iff field_simps)
  have xl: "of_int (10 ^ 14) \<le> x / ?u" using xr(1) u0 unfolding lo by (simp only: pos_le_divide_eq)
  have xh: "x / ?u < of_int (10 ^ 15)" using xr(2) u0 unfolding hi by (simp only: pos_divide_less_eq)
  define y where "y = x / ?u"
  note e = e [folded y_def] and xl = xl [folded y_def] and xh = xh [folded y_def]
  have "10 ^ 14 \<le> S"
  proof (rule ccontr)
    assume "\<not> 10 ^ 14 \<le> S"
    then have "(of_int S :: rat) \<le> of_int (10 ^ 14 - 1)" by (simp only: of_int_le_iff)
    with e xl show False by simp
  qed
  then show "10 powi (n - 1) \<le> v" unfolding v lo using u0 by (intro mult_right_mono) (simp_all only: of_int_le_iff less_imp_le)
  have "S \<le> 10 ^ 15"
  proof (rule ccontr)
    assume "\<not> S \<le> 10 ^ 15"
    then have "(of_int (10 ^ 15 + 1) :: rat) \<le> of_int S" by (simp only: of_int_le_iff)
    with e xh show False by simp
  qed
  then show "v \<le> 10 powi n" unfolding v hi using u0 by (intro mult_right_mono) (simp_all only: of_int_le_iff less_imp_le)
qed

text \<open>A rounded amount of whole cents prints as exactly that amount, below \<open>10 ^ 13\<close> cents.\<close>

lemma cents_text:
  assumes u: "0 < u" "u < 10 ^ 13"
  shows "decimal_shape (pos_text (fl (of_nat u / 100))) (of_nat u / 100)"
proof -
  let ?v = "of_nat u / 100 :: rat"
  define x where "x = fl ?v"
  define n where "n = dexp x"
  have u1: "1 / 100 \<le> ?v" using u(1) by (simp add: divide_right_mono)
  have "(of_nat u :: rat) < of_nat (10 ^ 13)" using u(2) by (simp only: of_nat_less_iff)
  then have u2: "?v < 10 ^ 11" by simp
  have "(2 :: rat) powi (-1022) \<le> 10 powi (-2)"
    using min_normal_le powi_le_iff(1) [of "10 :: rat" "-301" "-2"] by simp
  then have "(2 :: rat) powi (-1022) \<le> ?v" using u1 by (simp add: power_int_minus)
  then have "\<bar>x - ?v\<bar> \<le> ?v / 2 ^ 53" unfolding x_def by (rule fl_rel_error)
  then have "x \<le> ?v + ?v / 2 ^ 53" "?v - ?v / 2 ^ 53 \<le> x" by linarith+
  then have xb: "1 / 1000 < x" "x < 10 ^ 12" using u1 u2 by auto
  have x0: "0 < x" using xb(1) by linarith
  have xr: "10 powi (n - 1) \<le> x" "x < 10 powi n" using dexp_bounds [OF x0] by (auto simp: n_def)
  have "(10 :: rat) powi (-3) < 10 powi n" using xb(1) xr(2) by (simp add: power_int_minus)
  then have n1: "-2 \<le> n" using powi_le_iff(2) [of "10 :: rat" "-3" n] by simp
  have "(10 :: rat) powi (n - 1) < 10 powi 12" using xb(2) xr(1) by simp
  then have n2: "n \<le> 12" using powi_le_iff(2) [of "10 :: rat" "n - 1" 12] by simp
  define S where "S = int u * 10 ^ nat (13 - n)"
  have S0: "0 < S" using u(1) by (simp add: S_def)
  have "(10 :: rat) powi (13 - n) * 10 powi (n - 15) = 10 powi (- 2)"
    by (simp flip: power_int_add)
  moreover have "(10 :: rat) powi (13 - n) = 10 ^ nat (13 - n)" using n2 by (simp add: power_int_def)
  ultimately have vm: "?v = of_int S * 10 powi (n - 15)" by (simp add: S_def power_int_minus field_simps)
  have n3: "-280 \<le> n" "-300 \<le> n" using n1 by auto
  have fx: "fl ?v = x" by (simp add: x_def)
  note vr = decade_transfer [OF n3(1) fx xr vm S0]
  have "\<exists>s e. shortest_from x n [1..<18] = (s, e) \<and> of_int s * 10 powi e = ?v"
    using digits_at_sound [OF n3(2) fx xr vr vm] digits_at_15 [OF n3(2) fx vr vm]
    by (intro shortest_from_sound) auto
  then obtain s e where r: "shortest_from x n [1..<18] = (s, e)" and se: "of_int s * 10 powi e = ?v"
    by blast
  have s0: "0 < s"
  proof -
    have "0 < of_int s * (10 :: rat) powi e" using se u1 by simp
    moreover have "(0 :: rat) < 10 powi e" by simp
    ultimately have "(0 :: rat) < of_int s" by (metis less_asym zero_less_mult_iff)
    then show ?thesis by simp
  qed
  let ?L = "length (nat_text (nat s))"
  have L0: "1 \<le> ?L" by (simp add: Suc_le_eq)
  have rs: "(of_nat (nat s) :: rat) = of_int s" using s0 by simp
  have "(of_nat (nat s) :: rat) < of_nat (10 ^ ?L)" using nat_text_length(1) [of "nat s"] by (simp only: of_nat_less_iff)
  then have "?v < 10 powi (int ?L) * 10 powi e" using rs by (simp flip: se)
  then have "(10 :: rat) powi (-2) < 10 powi (int ?L + e)"
    using u1 by (simp add: power_int_minus power_int_add)
  then have l1: "-6 < int ?L + e" using powi_le_iff(2) [of "10 :: rat" "-2" "int ?L + e"] by simp
  have "of_nat (10 ^ (?L - 1)) \<le> (of_nat (nat s) :: rat)"
    using nat_text_length(2) [of "nat s"] s0 by (simp only: of_nat_le_iff)
  then have "10 powi (int (?L - 1)) * 10 powi e \<le> ?v" using rs by (simp flip: se)
  then have "(10 :: rat) powi (int (?L - 1) + e) < 10 powi 11" using u2 by (simp add: power_int_add)
  then have l2: "int ?L + e \<le> 21" using powi_le_iff(2) [of "10 :: rat" "int (?L - 1) + e" 11] L0 by simp
  from pos_text_shape [OF r [unfolded n_def] s0 se l1 l2] show ?thesis by (simp add: x_def)
qed

end
