(* ===== verification/JS_Value.thy ===== *)
theory JS_Value
  imports JS_Number "HOL-Library.List_Lexorder" "HOL-Library.Char_ord"
begin

text \<open>
  Dynamic JavaScript values as they arrive in JSON documents (request bodies, jsonb columns), with
  \<open>undefined\<close> for an absent field. An object is the list of its properties in insertion order.
  Here are also \<open>JSON.stringify\<close> on strings and the two canonical serialisers that sort the keys.
\<close>

datatype jsv =
    JUndef | JNull | JBool bool | JNum js_number | JStr string
  | JArr "jsv list" | JObj "(string \<times> jsv) list"

type_synonym js_object = "(string \<times> jsv) list"

definition field :: "js_object \<Rightarrow> string \<Rightarrow> jsv" where
  "field obj k = (case map_of obj k of None \<Rightarrow> JUndef | Some v \<Rightarrow> v)"

definition is_record :: "jsv \<Rightarrow> bool" where
  "is_record v = (case v of JObj _ \<Rightarrow> True | _ \<Rightarrow> False)"

definition as_object :: "jsv \<Rightarrow> js_object option" where
  "as_object v = (case v of JObj ob \<Rightarrow> Some ob | _ \<Rightarrow> None)"

definition is_nullish :: "jsv \<Rightarrow> bool" where
  "is_nullish v \<longleftrightarrow> v = JUndef \<or> v = JNull"

definition js_truthy :: "jsv \<Rightarrow> bool" where
  "js_truthy v = (case v of
      JUndef \<Rightarrow> False | JNull \<Rightarrow> False | JBool b \<Rightarrow> b
    | JNum n \<Rightarrow> n \<noteq> NaN \<and> n \<noteq> Fin 0
    | JStr s \<Rightarrow> s \<noteq> [] | JArr _ \<Rightarrow> True | JObj _ \<Rightarrow> True)"

text \<open>\<open>a ?? b\<close> and \<open>a || b\<close>\<close>

definition nullish_or :: "jsv \<Rightarrow> jsv \<Rightarrow> jsv" where
  "nullish_or a b = (if is_nullish a then b else a)"

definition js_or :: "jsv \<Rightarrow> jsv \<Rightarrow> jsv" where
  "js_or a b = (if js_truthy a then a else b)"

text \<open>\<open>String(v)\<close>; the elements of an array are joined by commas, null and undefined as nothing.\<close>

fun js_string :: "jsv \<Rightarrow> string" where
  "js_string JUndef = ''undefined''"
| "js_string JNull = ''null''"
| "js_string (JBool b) = (if b then ''true'' else ''false'')"
| "js_string (JNum n) = num_text n"
| "js_string (JStr s) = s"
| "js_string (JArr vs) = join_with '','' (map (\<lambda>v. if is_nullish v then [] else js_string v) vs)"
| "js_string (JObj _) = ''[object Object]''"

definition nullable :: "string option \<Rightarrow> jsv" where
  "nullable x = (case x of None \<Rightarrow> JNull | Some s \<Rightarrow> if s = [] then JNull else JStr s)"

lemma field_simps [simp]:
  "field [] k = JUndef"
  "field ((k', v) # ob) k = (if k = k' then v else field ob k)"
  by (simp_all add: field_def)

subsection \<open>JSON text of a string\<close>

definition hex_digit :: "nat \<Rightarrow> char" where
  "hex_digit n = (if n < 10 then char_of (48 + n) else char_of (87 + n))"

definition json_char :: "char \<Rightarrow> string" where
  "json_char c =
     (let n = (of_char c :: nat) in
      if n = 34 then [CHR 0x5C, CHR 0x22]
      else if n = 92 then [CHR 0x5C, CHR 0x5C]
      else if n = 8 then [CHR 0x5C, CHR ''b'']
      else if n = 9 then [CHR 0x5C, CHR ''t'']
      else if n = 10 then [CHR 0x5C, CHR ''n'']
      else if n = 12 then [CHR 0x5C, CHR ''f'']
      else if n = 13 then [CHR 0x5C, CHR ''r'']
      else if n < 32 then [CHR 0x5C, CHR ''u'', CHR ''0'', CHR ''0'', hex_digit (n div 16), hex_digit (n mod 16)]
      else [c])"

definition json_quote :: "string \<Rightarrow> string" where
  "json_quote s = CHR 0x22 # concat (map json_char s) @ [CHR 0x22]"

definition hex_val :: "char \<Rightarrow> nat" where
  "hex_val c = (let n = of_char c in if n < 58 then n - 48 else n - 87)"

lemma hex_val_digit [simp]: "n < 16 \<Longrightarrow> hex_val (hex_digit n) = n"
  by (simp add: hex_val_def hex_digit_def)

text \<open>One step of a reader for the escapes.\<close>

definition json_uncons :: "string \<Rightarrow> char \<times> string" where
  "json_uncons s =
     (if hd s \<noteq> CHR 0x5C then (hd s, tl s)
      else let d = s ! 1; r = drop 2 s in
        if d = CHR ''b'' then (char_of (8 :: nat), r)
        else if d = CHR ''t'' then (char_of (9 :: nat), r)
        else if d = CHR ''n'' then (char_of (10 :: nat), r)
        else if d = CHR ''f'' then (char_of (12 :: nat), r)
        else if d = CHR ''r'' then (char_of (13 :: nat), r)
        else if d = CHR ''u'' then (char_of (16 * hex_val (s ! 4) + hex_val (s ! 5)), drop 6 s)
        else (d, r))"

lemma char_of_eqI: "of_char c = (n :: nat) \<Longrightarrow> char_of n = c"
  by auto

lemma char_of_quotes: "char_of (34 :: nat) = CHR 0x22" "char_of (92 :: nat) = CHR 0x5C"
  by code_simp+

lemma json_uncons_char: "json_uncons (json_char c @ x) = (c, x)"
proof -
  define n where "n = (of_char c :: nat)"
  have c: "c = char_of n" by (simp add: n_def)
  have b: "n \<noteq> 92 \<Longrightarrow> c \<noteq> CHR 0x5C" by (auto simp: n_def)
  consider "n = 34" | "n = 92" | "n = 8" | "n = 9" | "n = 10" | "n = 12" | "n = 13"
    | "n < 32" "n \<notin> {8, 9, 10, 12, 13}" | "n \<notin> {34, 92}" "\<not> n < 32" by fastforce
  then show ?thesis
  proof cases
    case 8
    then have "json_char c = [CHR 0x5C, CHR ''u'', CHR ''0'', CHR ''0'', hex_digit (n div 16), hex_digit (n mod 16)]"
      unfolding json_char_def n_def [symmetric] Let_def by simp
    moreover have "n div 16 < 16" "16 * (n div 16) + n mod 16 = n" using 8 by auto
    ultimately show ?thesis by (simp only: json_uncons_def c Let_def) simp
  next
    case 9
    then have "json_char c = [c]" unfolding json_char_def n_def [symmetric] Let_def by simp
    then show ?thesis using b 9 by (simp add: json_uncons_def)
  qed (simp_all add: json_char_def json_uncons_def c char_of_quotes)
qed

lemma json_char_prefix:
  assumes "json_char c @ x = json_char d @ y"
  shows "c = d \<and> x = y"
proof -
  have "json_uncons (json_char c @ x) = json_uncons (json_char d @ y)"
    using assms by (rule arg_cong)
  then show ?thesis unfolding json_uncons_char by simp
qed

lemma json_char_not_quote: "json_char c @ x \<noteq> CHR 0x22 # y"
  by (auto simp: json_char_def Let_def split: if_splits)

lemma json_char_not_quote': "CHR 0x22 # y \<noteq> json_char c @ x"
  by (metis json_char_not_quote)

text \<open>The JSON text of a string is self-delimiting, so it determines the string and what follows.\<close>

lemma json_quote_prefix: "json_quote a @ x = json_quote b @ y \<Longrightarrow> a = b \<and> x = y"
proof -
  have "concat (map json_char a) @ CHR 0x22 # x = concat (map json_char b) @ CHR 0x22 # y \<Longrightarrow> a = b \<and> x = y"
  proof (induction a arbitrary: b)
    case Nil
    then show ?case by (cases b) (auto simp: json_char_not_quote')
  next
    case (Cons c a)
    show ?case
    proof (cases b)
      case Nil
      with Cons.prems show ?thesis by (auto simp: json_char_not_quote)
    next
      case b: (Cons d b')
      with Cons.prems have "json_char c @ (concat (map json_char a) @ CHR 0x22 # x)
          = json_char d @ (concat (map json_char b') @ CHR 0x22 # y)" by simp
      then have "c = d" "concat (map json_char a) @ CHR 0x22 # x = concat (map json_char b') @ CHR 0x22 # y"
        using json_char_prefix by blast+
      with Cons.IH b show ?thesis by blast
    qed
  qed
  then show "json_quote a @ x = json_quote b @ y \<Longrightarrow> a = b \<and> x = y"
    by (simp add: json_quote_def)
qed

lemma json_quote_inj [simp]: "json_quote a = json_quote b \<longleftrightarrow> a = b"
  using json_quote_prefix [of a "[]" b "[]"] by auto

subsection \<open>Key-sorted serialisers\<close>

text \<open>
  \<open>canonicalize\<close> of \<open>database/tokenOperation.ts\<close>. \<open>None\<close> is the JavaScript \<open>undefined\<close> that
  \<open>JSON.stringify(undefined)\<close> gives: nothing inside a joined array, the word \<open>undefined\<close>
  after a key. Numbers print as \<open>String\<close> does when finite, and as \<open>null\<close> otherwise.
\<close>

definition json_number :: "js_number \<Rightarrow> string" where
  "json_number n = (if is_finite n then num_text n else ''null'')"

fun canonicalize :: "jsv \<Rightarrow> string option" where
  "canonicalize JUndef = None"
| "canonicalize JNull = Some ''null''"
| "canonicalize (JBool b) = Some (if b then ''true'' else ''false'')"
| "canonicalize (JNum n) = Some (json_number n)"
| "canonicalize (JStr s) = Some (json_quote s)"
| "canonicalize (JArr vs) =
     Some (''['' @ join_with '','' (map (\<lambda>v. case canonicalize v of None \<Rightarrow> [] | Some t \<Rightarrow> t) vs) @ '']'')"
| "canonicalize (JObj ob) =
     Some (CHR 0x7B # join_with '','' (map (\<lambda>(k, t). json_quote k @ '':'' @ t)
       (sort_key fst (map (\<lambda>(k, v). (k, case canonicalize v of None \<Rightarrow> ''undefined'' | Some t \<Rightarrow> t)) ob)))
       @ [CHR 0x7D])"

text \<open>
  \<open>stableSerialize\<close> of \<open>config/awardRules.ts\<close>: the same, but an undefined value is written
  as \<open>null\<close> everywhere.
\<close>

fun stable_serialize :: "jsv \<Rightarrow> string" where
  "stable_serialize JUndef = ''null''"
| "stable_serialize JNull = ''null''"
| "stable_serialize (JBool b) = (if b then ''true'' else ''false'')"
| "stable_serialize (JNum n) = json_number n"
| "stable_serialize (JStr s) = json_quote s"
| "stable_serialize (JArr vs) = ''['' @ join_with '','' (map stable_serialize vs) @ '']''"
| "stable_serialize (JObj ob) =
     CHR 0x7B # join_with '','' (map (\<lambda>(k, t). json_quote k @ '':'' @ t)
       (sort_key fst (map (\<lambda>(k, v). (k, stable_serialize v)) ob))) @ [CHR 0x7D]"

end
