(* ===== verification/JS_Date.thy ===== *)
theory JS_Date
  imports JS_Number
begin

text \<open>
  JavaScript dates: a time value is the number of milliseconds since 1970-01-01T00:00:00Z. Here are
  the proleptic Gregorian calendar, \<open>toISOString\<close>, and \<open>Date.parse\<close> on the ISO-8601 texts with an
  explicit offset that \<open>normaliser.ts\<close> lets through. Fractions of a second beyond the millisecond
  are truncated, as V8 does.
\<close>

subsection \<open>Calendar\<close>

definition leap_year :: "int \<Rightarrow> bool" where
  "leap_year y \<longleftrightarrow> y mod 4 = 0 \<and> (y mod 100 \<noteq> 0 \<or> y mod 400 = 0)"

definition ceil_div :: "int \<Rightarrow> int \<Rightarrow> int" where
  "ceil_div y k = (y + (k - 1)) div k"

text \<open>Days from 0000-01-01 to the first of January of year \<open>y\<close>.\<close>

definition days_before_year :: "int \<Rightarrow> int" where
  "days_before_year y = 365 * y + ceil_div y 4 - ceil_div y 100 + ceil_div y 400"

definition month_lengths :: "bool \<Rightarrow> int list" where
  "month_lengths lp = [31, if lp then 29 else 28, 31, 30, 31, 30, 31, 31, 30, 31, 30, 31]"

definition days_in_month :: "int \<Rightarrow> int \<Rightarrow> int" where
  "days_in_month y m = month_lengths (leap_year y) ! nat (m - 1)"

definition days_before_month :: "bool \<Rightarrow> int \<Rightarrow> int" where
  "days_before_month lp m = sum_list (take (nat (m - 1)) (month_lengths lp))"

definition epoch_days :: int where
  "epoch_days = 719528"

definition day_number :: "int \<Rightarrow> int \<Rightarrow> int \<Rightarrow> int" where
  "day_number y m d = days_before_year y + days_before_month (leap_year y) m + (d - 1) - epoch_days"

text \<open>The year of a day number: an estimate by the mean year, then at most one step.\<close>

definition year_of_day :: "int \<Rightarrow> int" where
  "year_of_day n =
     (let e = (400 * n) div 146097
      in if n < days_before_year e then e - 1
         else if days_before_year (e + 1) \<le> n then e + 1 else e)"

fun month_of :: "int list \<Rightarrow> int \<Rightarrow> int \<Rightarrow> int \<times> int" where
  "month_of [] m r = (m, r + 1)"
| "month_of (l # ls) m r = (if r < l then (m, r + 1) else month_of ls (m + 1) (r - l))"

definition civil_of_day :: "int \<Rightarrow> int \<times> int \<times> int" where
  "civil_of_day n =
     (let k = n + epoch_days; y = year_of_day k;
          (m, d) = month_of (month_lengths (leap_year y)) 1 (k - days_before_year y)
      in (y, m, d))"

subsection \<open>Printing and parsing\<close>

definition pad_left :: "nat \<Rightarrow> string \<Rightarrow> string" where
  "pad_left w s = replicate (w - length s) CHR ''0'' @ s"

definition int_padded :: "nat \<Rightarrow> int \<Rightarrow> string" where
  "int_padded w i = pad_left w (nat_text (nat i))"

definition iso_year :: "int \<Rightarrow> string" where
  "iso_year y =
     (if 0 \<le> y \<and> y \<le> 9999 then int_padded 4 y
      else if y < 0 then ''-'' @ int_padded 6 (- y) else ''+'' @ int_padded 6 y)"

definition iso_text :: "int \<Rightarrow> string" where
  "iso_text t =
     (let (y, m, d) = civil_of_day (t div 86400000); r = t mod 86400000
      in iso_year y @ ''-'' @ int_padded 2 m @ ''-'' @ int_padded 2 d @ ''T''
         @ int_padded 2 (r div 3600000) @ '':'' @ int_padded 2 (r div 60000 mod 60) @ '':''
         @ int_padded 2 (r div 1000 mod 60) @ ''.'' @ int_padded 3 (r mod 1000) @ ''Z'')"

text \<open>
  The fields of \<open>ISO8601_DATE_TIME_WITH_OFFSET\<close>, read left to right: \<open>digits_n\<close> takes exactly
  \<open>n\<close> digits, \<open>lit\<close> one given character.
\<close>

definition digits_n :: "nat \<Rightarrow> string \<Rightarrow> (int \<times> string) option" where
  "digits_n n s =
     (if length s \<ge> n \<and> list_all is_digit (take n s) then Some (int (digits_val (take n s)), drop n s) else None)"

definition lit :: "char \<Rightarrow> string \<Rightarrow> string option" where
  "lit c s = (case s of [] \<Rightarrow> None | x # r \<Rightarrow> if x = c then Some r else None)"

record iso_fields =
  fy :: int
  fmo :: int
  fd :: int
  fh :: int
  fmi :: int
  fs :: int
  fms :: int
  foff_sign :: int
  foff_h :: int
  foff_m :: int

text \<open>Seconds with an optional fraction of one to nine digits; both may be absent.\<close>

definition read_seconds :: "string \<Rightarrow> (int \<times> int \<times> string) option" where
  "read_seconds s =
     (case lit (CHR '':'') s of
        None \<Rightarrow> Some (0, 0, s)
      | Some r \<Rightarrow>
          (case digits_n 2 r of
             None \<Rightarrow> None
           | Some (sec, r') \<Rightarrow>
               (case lit (CHR ''.'') r' of
                  None \<Rightarrow> Some (sec, 0, r')
                | Some q \<Rightarrow>
                    (let f = takeWhile is_digit q in
                     if 1 \<le> length f \<and> length f \<le> 9
                     then Some (sec, int (digits_val (take 3 (f @ ''00''))), dropWhile is_digit q)
                     else None))))"

definition read_offset :: "string \<Rightarrow> (int \<times> int \<times> int) option" where
  "read_offset s =
     (if s = ''Z'' then Some (1, 0, 0)
      else (case s of
          [] \<Rightarrow> None
        | sg # r \<Rightarrow>
            if sg = CHR ''+'' \<or> sg = CHR ''-'' then
              Option.bind (digits_n 2 r) (\<lambda>(h, r1).
              Option.bind (lit (CHR '':'') r1) (\<lambda>r2.
              Option.bind (digits_n 2 r2) (\<lambda>(m, r3).
                if r3 = [] then Some (if sg = CHR ''-'' then -1 else 1, h, m) else None)))
            else None))"

definition read_iso :: "string \<Rightarrow> iso_fields option" where
  "read_iso s =
     Option.bind (digits_n 4 s) (\<lambda>(y, s1).
     Option.bind (lit (CHR ''-'') s1) (\<lambda>s2.
     Option.bind (digits_n 2 s2) (\<lambda>(mo, s3).
     Option.bind (lit (CHR ''-'') s3) (\<lambda>s4.
     Option.bind (digits_n 2 s4) (\<lambda>(d, s5).
     Option.bind (lit (CHR ''T'') s5) (\<lambda>s6.
     Option.bind (digits_n 2 s6) (\<lambda>(h, s7).
     Option.bind (lit (CHR '':'') s7) (\<lambda>s8.
     Option.bind (digits_n 2 s8) (\<lambda>(mi, s9).
     Option.bind (read_seconds s9) (\<lambda>(sec, ms, s10).
     Option.bind (read_offset s10) (\<lambda>(sg, oh, om).
       Some \<lparr>fy = y, fmo = mo, fd = d, fh = h, fmi = mi, fs = sec, fms = ms,
             foff_sign = sg, foff_h = oh, foff_m = om\<rparr>)))))))))))"

definition valid_fields :: "iso_fields \<Rightarrow> bool" where
  "valid_fields f \<longleftrightarrow> 1 \<le> fmo f \<and> fmo f \<le> 12 \<and> 1 \<le> fd f \<and> fd f \<le> days_in_month (fy f) (fmo f)
     \<and> fh f \<le> 23 \<and> fmi f \<le> 59 \<and> fs f \<le> 59 \<and> foff_h f \<le> 23 \<and> foff_m f \<le> 59"

definition time_of_fields :: "iso_fields \<Rightarrow> int" where
  "time_of_fields f =
     day_number (fy f) (fmo f) (fd f) * 86400000 + fh f * 3600000 + fmi f * 60000 + fs f * 1000 + fms f
     - foff_sign f * (foff_h f * 3600000 + foff_m f * 60000)"

subsection \<open>The calendar is a bijection\<close>

lemma ceil_div_step:
  assumes "0 < k"
  shows "ceil_div (y + 1) k = ceil_div y k + (if y mod k = 0 then 1 else 0)"
proof -
  define q r where "q = y div k" and "r = y mod k"
  have y: "y = q * k + r" "0 \<le> r" "r < k" using assms by (simp_all add: q_def r_def)
  have a: "ceil_div (y + 1) k = q + 1"
    unfolding ceil_div_def using y assms by (intro int_div_pos_eq [of _ _ _ r]) (auto simp: algebra_simps)
  have b: "ceil_div y k = q + (if r = 0 then 0 else 1)"
  proof (cases "r = 0")
    case True
    then show ?thesis unfolding ceil_div_def
      using y assms by (auto intro!: int_div_pos_eq [of _ _ _ "k - 1"])
  next
    case False
    then show ?thesis unfolding ceil_div_def
      using y assms by (auto intro!: int_div_pos_eq [of _ _ _ "r - 1"] simp: algebra_simps)
  qed
  show ?thesis unfolding a b by (simp add: r_def)
qed

lemma ceil_div_bounds:
  assumes "0 < k"
  shows "y \<le> k * ceil_div y k" and "k * ceil_div y k \<le> y + (k - 1)"
proof -
  have e: "k * ceil_div y k + (y + (k - 1)) mod k = y + (k - 1)"
    unfolding ceil_div_def by (rule mult_div_mod_eq)
  have "0 \<le> (y + (k - 1)) mod k" "(y + (k - 1)) mod k \<le> k - 1"
    using assms pos_mod_bound [of k "y + (k - 1)"] by auto
  with e have "y \<le> k * ceil_div y k \<and> k * ceil_div y k \<le> y + (k - 1)"
    by linarith
  then show "y \<le> k * ceil_div y k" and "k * ceil_div y k \<le> y + (k - 1)"
    by simp_all
qed

lemma leap_length: "days_before_year (y + 1) = days_before_year y + (if leap_year y then 366 else 365)"
proof -
  have dv: "(4 :: int) dvd 100" "(100 :: int) dvd 400" by simp_all
  have m: "y mod 100 = 0 \<Longrightarrow> y mod 4 = 0" "y mod 400 = 0 \<Longrightarrow> y mod 100 = 0"
    unfolding mod_eq_0_iff_dvd using dvd_trans [OF dv(1)] dvd_trans [OF dv(2)] by blast+
  define A B C where "A \<longleftrightarrow> y mod 4 = 0" and "B \<longleftrightarrow> y mod 100 = 0" and "C \<longleftrightarrow> y mod 400 = 0"
  define a b c :: int where "a = (if A then 1 else 0)" and "b = (if B then 1 else 0)" and "c = (if C then 1 else 0)"
  have "ceil_div (y + 1) 4 = ceil_div y 4 + a" "ceil_div (y + 1) 100 = ceil_div y 100 + b"
    "ceil_div (y + 1) 400 = ceil_div y 400 + c"
    unfolding a_def b_def c_def A_def B_def C_def by (rule ceil_div_step, simp)+
  then have "days_before_year (y + 1) = days_before_year y + 365 + a - b + c"
    by (simp add: days_before_year_def)
  also have "\<dots> = days_before_year y + (if leap_year y then 366 else 365)"
    using m unfolding leap_year_def a_def b_def c_def A_def [symmetric] B_def [symmetric] C_def [symmetric]
    by (cases A; cases B; cases C) simp_all
  finally show ?thesis .
qed

lemma days_before_year_lower: "146097 * y \<le> 400 * days_before_year y + 400"
  using ceil_div_bounds [of 4 y, OF zero_less_numeral] ceil_div_bounds [of 100 y, OF zero_less_numeral]
    ceil_div_bounds [of 400 y, OF zero_less_numeral]
  unfolding days_before_year_def ring_distribs right_diff_distrib by linarith

lemma days_before_year_upper: "400 * days_before_year y \<le> 146097 * y + 800"
  using ceil_div_bounds [of 4 y, OF zero_less_numeral] ceil_div_bounds [of 100 y, OF zero_less_numeral]
    ceil_div_bounds [of 400 y, OF zero_less_numeral]
  unfolding days_before_year_def ring_distribs right_diff_distrib by linarith

lemma year_of_day_bounds:
  "days_before_year (year_of_day n) \<le> n \<and> n < days_before_year (year_of_day n + 1)"
proof -
  define e where "e = (400 * n) div 146097"
  have e: "146097 * e \<le> 400 * n" "400 * n < 146097 * e + 146097"
    unfolding e_def using mult_div_mod_eq [of 146097 "400 * n"] pos_mod_bound [of 146097 "400 * n"]
      pos_mod_sign [of 146097 "400 * n"] by linarith+
  have up: "n < days_before_year (e + 2)"
    using days_before_year_lower [of "e + 2"] e(2) by (simp only: ring_distribs)
  have dn: "days_before_year (e - 1) \<le> n"
    using days_before_year_upper [of "e - 1"] e(1) by (simp only: ring_distribs)
  have a: "e + 1 + 1 = e + 2" "e - 1 + 1 = e" by simp_all
  consider "n < days_before_year e" | "days_before_year e \<le> n" "days_before_year (e + 1) \<le> n"
    | "days_before_year e \<le> n" "n < days_before_year (e + 1)" by linarith
  then show ?thesis
    by cases (use up dn in \<open>simp_all add: year_of_day_def Let_def e_def [symmetric] a\<close>)
qed

lemma month_of_sound:
  assumes "0 \<le> r" "r < sum_list ls" "\<And>l. l \<in> set ls \<Longrightarrow> 0 < l"
  shows "case month_of ls m r of (m', d) \<Rightarrow>
    m \<le> m' \<and> m' < m + int (length ls) \<and> 1 \<le> d \<and> d \<le> ls ! nat (m' - m)
    \<and> sum_list (take (nat (m' - m)) ls) + (d - 1) = r"
  using assms
proof (induction ls m r rule: month_of.induct)
  case (1 m r)
  then show ?case by simp
next
  case (2 l ls m r)
  show ?case
  proof (cases "r < l")
    case True
    with 2 show ?thesis by simp
  next
    case False
    obtain m' d where md: "month_of ls (m + 1) (r - l) = (m', d)" by (cases "month_of ls (m + 1) (r - l)")
    have ih: "m + 1 \<le> m'" "m' < m + 1 + int (length ls)" "1 \<le> d" "d \<le> ls ! nat (m' - (m + 1))"
      "sum_list (take (nat (m' - (m + 1))) ls) + (d - 1) = r - l"
      using 2 False md by auto
    have "nat (m' - m) = Suc (nat (m' - (m + 1)))" using ih(1) by linarith
    with ih False md show ?thesis by (auto simp: algebra_simps)
  qed
qed

lemma month_lengths_facts:
  "length (month_lengths lp) = 12" "l \<in> set (month_lengths lp) \<Longrightarrow> 0 < l"
  "sum_list (month_lengths lp) = (if lp then 366 else 365)"
  by (auto simp: month_lengths_def)

lemma civil_of_day_sound:
  assumes "civil_of_day n = (y, m, d)"
  shows "1 \<le> m \<and> m \<le> 12 \<and> 1 \<le> d \<and> d \<le> days_in_month y m \<and> day_number y m d = n"
proof -
  define k where "k = n + epoch_days"
  have y: "y = year_of_day k"
    and md: "month_of (month_lengths (leap_year y)) 1 (k - days_before_year y) = (m, d)"
    using assms by (auto simp: civil_of_day_def Let_def k_def split: prod.splits)
  have b: "days_before_year y \<le> k" "k < days_before_year (y + 1)"
    using year_of_day_bounds [of k] by (simp_all add: y)
  have "k - days_before_year y < sum_list (month_lengths (leap_year y))"
    using b(2) leap_length [of y] by (simp add: month_lengths_facts split: if_splits)
  with month_of_sound [of "k - days_before_year y" "month_lengths (leap_year y)" 1] b(1) md
  show ?thesis
    by (auto simp: month_lengths_facts days_in_month_def day_number_def days_before_month_def k_def)
qed

subsection \<open>Reading back a printed date\<close>

lemma zeros_digits: "digits_val (replicate k CHR ''0'' @ s) = digits_val s"
proof -
  have "digits_val (replicate k CHR ''0'') = 0"
    by (induction k) (simp_all add: digits_val_def digit_val_def)
  then show ?thesis by (simp add: digits_val_append)
qed

lemma int_padded_shape:
  assumes "0 \<le> i" "i < 10 ^ w" "0 < w"
  shows "length (int_padded w i) = w" and "list_all is_digit (int_padded w i)"
    and "int (digits_val (int_padded w i)) = i"
proof -
  have "nat i < 10 ^ w" using assms by (simp add: nat_less_iff)
  moreover have "nat i = 0 \<Longrightarrow> length (nat_text (nat i)) = 1" by (simp add: nat_text.simps)
  ultimately have "length (nat_text (nat i)) \<le> w"
  proof (cases "nat i = 0")
    case False
    then have "(10 :: nat) ^ (length (nat_text (nat i)) - 1) < 10 ^ w"
      using nat_text_length(2) [of "nat i"] \<open>nat i < 10 ^ w\<close> by linarith
    then show ?thesis by (simp add: less_Suc_eq_le)
  qed (use assms(3) in simp)
  then show "length (int_padded w i) = w" by (simp add: int_padded_def pad_left_def)
  show "list_all is_digit (int_padded w i)"
    using nat_text_digits [of "nat i"] by (auto simp: int_padded_def pad_left_def list_all_iff is_digit_def)
  show "int (digits_val (int_padded w i)) = i"
    using assms(1) by (simp add: int_padded_def pad_left_def zeros_digits)
qed

lemma digits_n_padded:
  assumes "0 \<le> i" "i < 10 ^ w" "0 < w"
  shows "digits_n w (int_padded w i @ r) = Some (i, r)"
  using int_padded_shape [OF assms] by (simp add: digits_n_def)

lemma lit_simps [simp]: "lit c (c # r) = Some r"
  by (simp add: lit_def)

lemma read_seconds_printed:
  assumes "0 \<le> s" "s < 100" "0 \<le> ms" "ms < 1000"
  shows "read_seconds (CHR '':'' # int_padded 2 s @ CHR ''.'' # int_padded 3 ms @ ''Z'') = Some (s, ms, ''Z'')"
proof -
  define p where "p = int_padded 3 ms"
  have p: "length p = 3" "list_all is_digit p" "int (digits_val p) = ms"
    using int_padded_shape [of ms 3] assms by (simp_all add: p_def)
  have "takeWhile is_digit (p @ ''Z'') = p" "dropWhile is_digit (p @ ''Z'') = ''Z''"
    using p(2) by (simp_all add: list_all_iff takeWhile_append dropWhile_append is_digit_def)
  moreover have "take 3 (p @ ''00'') = p" using p(1) by simp
  moreover have "digits_n 2 (int_padded 2 s @ CHR ''.'' # p @ ''Z'') = Some (s, CHR ''.'' # p @ ''Z'')"
    using assms by (intro digits_n_padded) auto
  ultimately show ?thesis
    using p unfolding p_def [symmetric] by (simp add: read_seconds_def)
qed

lemma days_in_month_le: "1 \<le> m \<Longrightarrow> m \<le> 12 \<Longrightarrow> days_in_month y m \<le> 31"
proof -
  assume "1 \<le> m" "m \<le> 12"
  then have "nat (m - 1) < length (month_lengths (leap_year y))" by (simp add: month_lengths_def)
  then have "days_in_month y m \<in> set (month_lengths (leap_year y))"
    unfolding days_in_month_def by (rule nth_mem)
  then show ?thesis by (auto simp: month_lengths_def split: if_splits)
qed

lemma time_split:
  fixes t :: int
  assumes "r = t mod 86400000"
  shows "(t div 86400000) * 86400000 + (r div 3600000) * 3600000 + (r div 60000 mod 60) * 60000
    + (r div 1000 mod 60) * 1000 + r mod 1000 = t"
proof -
  have "r = 1000 * (r div 1000) + r mod 1000" by simp
  moreover have "r div 1000 = 60 * (r div 60000) + r div 1000 mod 60"
    using mult_div_mod_eq [of 60 "r div 1000"] by (simp add: zdiv_zmult2_eq [symmetric])
  moreover have "r div 60000 = 60 * (r div 3600000) + r div 60000 mod 60"
    using mult_div_mod_eq [of 60 "r div 60000"] by (simp add: zdiv_zmult2_eq [symmetric])
  moreover have "t = 86400000 * (t div 86400000) + r" using assms by simp
  ultimately show ?thesis by linarith
qed

text \<open>
  Reading back what \<open>toISOString\<close> prints for a date of the years 0 to 9999 gives valid fields
  that denote the same millisecond.
\<close>

lemma read_iso_text:
  assumes civ: "civil_of_day (t div 86400000) = (y, m, d)" and yr: "0 \<le> y" "y \<le> 9999"
  shows "\<exists>f. read_iso (iso_text t) = Some f \<and> valid_fields f \<and> time_of_fields f = t"
proof -
  define r hh mi ss ms where "r = t mod 86400000" and "hh = r div 3600000" and "mi = r div 60000 mod 60"
    and "ss = r div 1000 mod 60" and "ms = r mod 1000"
  have r: "0 \<le> r" "r < 86400000" by (simp_all add: r_def)
  have sum: "(t div 86400000) * 86400000 + hh * 3600000 + mi * 60000 + ss * 1000 + ms = t"
    unfolding hh_def mi_def ss_def ms_def by (rule time_split [OF r_def])
  have c: "1 \<le> m" "m \<le> 12" "1 \<le> d" "d \<le> days_in_month y m" "day_number y m d = t div 86400000"
    using civil_of_day_sound [OF civ] by auto
  have d31: "d \<le> 31" using c(4) days_in_month_le [OF c(1,2), of y] by simp
  have b: "0 \<le> hh" "hh \<le> 23" "0 \<le> mi" "mi \<le> 59" "0 \<le> ss" "ss \<le> 59" "0 \<le> ms" "ms < 1000"
    using r pos_mod_bound [of 60 "r div 60000"] pos_mod_bound [of 60 "r div 1000"]
    by (auto simp: hh_def mi_def ss_def ms_def)
  define f where "f = \<lparr>fy = y, fmo = m, fd = d, fh = hh, fmi = mi, fs = ss, fms = ms,
    foff_sign = 1, foff_h = 0, foff_m = 0\<rparr>"
  have p: "digits_n 4 (int_padded 4 y @ q) = Some (y, q)" "digits_n 2 (int_padded 2 m @ q) = Some (m, q)"
    "digits_n 2 (int_padded 2 d @ q) = Some (d, q)" "digits_n 2 (int_padded 2 hh @ q) = Some (hh, q)"
    "digits_n 2 (int_padded 2 mi @ q) = Some (mi, q)" for q
    using yr c(1-3) d31 b by (intro digits_n_padded; simp)+
  have "iso_text t = int_padded 4 y @ CHR ''-'' # int_padded 2 m @ CHR ''-'' # int_padded 2 d @ CHR ''T''
      # int_padded 2 hh @ CHR '':'' # int_padded 2 mi
      @ (CHR '':'' # int_padded 2 ss @ CHR ''.'' # int_padded 3 ms @ ''Z'')"
    unfolding iso_text_def civ Let_def prod.case r_def [symmetric] hh_def [symmetric] mi_def [symmetric]
      ss_def [symmetric] ms_def [symmetric] iso_year_def using yr by simp
  moreover have "read_seconds (CHR '':'' # int_padded 2 ss @ CHR ''.'' # int_padded 3 ms @ ''Z'') = Some (ss, ms, ''Z'')"
    using b by (intro read_seconds_printed) simp_all
  ultimately have "read_iso (iso_text t) = Some f"
    by (simp add: read_iso_def p read_offset_def f_def)
  moreover have "valid_fields f" using c b by (simp add: valid_fields_def f_def)
  moreover have "time_of_fields f = t"
    using sum c(5) by (simp add: time_of_fields_def f_def)
  ultimately show ?thesis by blast
qed

end
