(* ===== verification/JS_Text.thy ===== *)
theory JS_Text
  imports JS_Value JS_Date
begin

text \<open>
  Coercions of JavaScript: \<open>Number(text)\<close> in full (blank text is zero, decimal literals with an
  exponent, \<open>Infinity\<close>, hexadecimal, octal and binary integers), \<open>Number(value)\<close>, the text tests
  the sources write as regular expressions, and \<open>JSON.parse\<close>. Characters are code units below 256.
\<close>

subsection \<open>Numbers from text\<close>

definition radix_digit :: "char \<Rightarrow> nat" where
  "radix_digit c =
     (let n = (of_char (lower_char c) :: nat) in
      if 48 \<le> n \<and> n \<le> 57 then n - 48 else if 97 \<le> n \<and> n \<le> 122 then n - 87 else 99)"

definition radix_value :: "nat \<Rightarrow> string \<Rightarrow> js_number" where
  "radix_value b t =
     (if t \<noteq> [] \<and> list_all (\<lambda>c. radix_digit c < b) t
      then js_of_rat (of_nat (foldl (\<lambda>a c. b * a + radix_digit c) 0 t)) else NaN)"

text \<open>Digits before and after the point; one of the two may be missing, not both.\<close>

definition mantissa_value :: "string \<Rightarrow> rat option" where
  "mantissa_value t =
     (let (w, r) = split_first (CHR ''.'') t; f = (case r of None \<Rightarrow> [] | Some x \<Rightarrow> x)
      in if (w \<noteq> [] \<or> f \<noteq> []) \<and> list_all is_digit w \<and> list_all is_digit f
         then Some (of_nat (digits_val (w @ f)) / 10 ^ length f) else None)"

definition exponent_value :: "string \<Rightarrow> int option" where
  "exponent_value t =
     (let (sg, r) = (case t of [] \<Rightarrow> (1, [])
        | c # r \<Rightarrow> if c = CHR ''-'' then (-1, r) else if c = CHR ''+'' then (1, r) else (1 :: int, t))
      in if r \<noteq> [] \<and> list_all is_digit r then Some (sg * int (digits_val r)) else None)"

definition unsigned_value :: "string \<Rightarrow> rat option" where
  "unsigned_value t =
     (let m = takeWhile (\<lambda>c. lower_char c \<noteq> CHR ''e'') t; r = dropWhile (\<lambda>c. lower_char c \<noteq> CHR ''e'') t
      in case r of
           [] \<Rightarrow> mantissa_value m
         | _ # e \<Rightarrow> (case (mantissa_value m, exponent_value e) of
               (Some v, Some k) \<Rightarrow> Some (v * 10 powi k) | _ \<Rightarrow> None))"

definition signed_number :: "int \<Rightarrow> string \<Rightarrow> js_number" where
  "signed_number sg t =
     (if t = ''Infinity'' then (if sg < 0 then NegInf else PosInf)
      else case unsigned_value t of None \<Rightarrow> NaN | Some v \<Rightarrow> js_of_rat (of_int sg * v))"

definition text_number :: "string \<Rightarrow> js_number" where
  "text_number s =
     (case js_trim s of
        [] \<Rightarrow> Fin 0
      | c # r \<Rightarrow>
          let p = map lower_char (take 1 r) in
          if c = CHR ''0'' \<and> p = ''x'' then radix_value 16 (drop 1 r)
          else if c = CHR ''0'' \<and> p = ''o'' then radix_value 8 (drop 1 r)
          else if c = CHR ''0'' \<and> p = ''b'' then radix_value 2 (drop 1 r)
          else if c = CHR ''-'' then signed_number (- 1) r
          else if c = CHR ''+'' then signed_number 1 r
          else signed_number 1 (c # r))"

text \<open>\<open>Number(v)\<close>; an array or object goes through its text.\<close>

definition value_number :: "jsv \<Rightarrow> js_number" where
  "value_number v = (case v of
      JUndef \<Rightarrow> NaN | JNull \<Rightarrow> Fin 0 | JBool b \<Rightarrow> Fin (if b then 1 else 0) | JNum n \<Rightarrow> n
    | JStr s \<Rightarrow> text_number s | _ \<Rightarrow> text_number (js_string v))"

subsection \<open>Tests on text\<close>

text \<open>\<open>/^[+-]?\d+(?:\.\d+)?$/\<close>\<close>

definition plain_decimal :: "string \<Rightarrow> bool" where
  "plain_decimal s =
     (let t = (case s of [] \<Rightarrow> [] | c # r \<Rightarrow> if c = CHR ''+'' \<or> c = CHR ''-'' then r else s)
      in decimal_value t \<noteq> None)"

subsection \<open>JSON.parse\<close>

definition json_space :: "char \<Rightarrow> bool" where
  "json_space c \<longleftrightarrow> of_char c \<in> {9, 10, 13, 32 :: nat}"

definition skip_space :: "string \<Rightarrow> string" where
  "skip_space s = dropWhile json_space s"

definition hex4 :: "string \<Rightarrow> nat option" where
  "hex4 s = (if length s = 4 \<and> list_all is_hex s
     then Some (foldl (\<lambda>a c. 16 * a + radix_digit c) 0 s) else None)"

text \<open>The body of a string literal after its opening quote: the string and what follows it.\<close>

fun json_string_body :: "string \<Rightarrow> (string \<times> string) option" where
  "json_string_body [] = None"
| "json_string_body (c # r) =
     (if c = CHR 0x22 then Some ([], r)
      else if (of_char c :: nat) < 32 then None
      else if c = CHR 0x5C then
        (case r of
           [] \<Rightarrow> None
         | d # r' \<Rightarrow>
             if d = CHR ''u'' then
               (case hex4 (take 4 r') of
                  None \<Rightarrow> None
                | Some n \<Rightarrow> map_option (\<lambda>(s, q). (char_of n # s, q)) (json_string_body (drop 4 r')))
             else
               (case map_of [(CHR 0x22, CHR 0x22), (CHR 0x5C, CHR 0x5C), (CHR ''/'', CHR ''/''),
                    (CHR ''b'', CHR 0x08), (CHR ''f'', CHR 0x0C), (CHR ''n'', CHR 0x0A),
                    (CHR ''r'', CHR 0x0D), (CHR ''t'', CHR 0x09)] d of
                  None \<Rightarrow> None
                | Some x \<Rightarrow> map_option (\<lambda>(s, q). (x # s, q)) (json_string_body r')))
      else map_option (\<lambda>(s, q). (c # s, q)) (json_string_body r))"

text \<open>A number literal: no leading zeros, digits on both sides of the point.\<close>

definition json_number_literal :: "string \<Rightarrow> bool" where
  "json_number_literal t =
     (let u = (case t of [] \<Rightarrow> [] | c # r \<Rightarrow> if c = CHR ''-'' then r else t);
          m = takeWhile (\<lambda>c. lower_char c \<noteq> CHR ''e'') u; e = dropWhile (\<lambda>c. lower_char c \<noteq> CHR ''e'') u;
          w = takeWhile is_digit m; f = dropWhile is_digit m
      in w \<noteq> [] \<and> (hd w = CHR ''0'' \<longrightarrow> length w = 1)
         \<and> (f = [] \<or> (hd f = CHR ''.'' \<and> tl f \<noteq> [] \<and> list_all is_digit (tl f)))
         \<and> (e = [] \<or> exponent_value (tl e) \<noteq> None))"

definition number_char :: "char \<Rightarrow> bool" where
  "number_char c \<longleftrightarrow> is_digit c \<or> c \<in> set ''+-.eE''"

text \<open>
  Values, members and elements, with fuel: each call consumes a character, so the length of the
  text is enough. A repeated key keeps its first place and takes the last value.
\<close>

definition put_field :: "js_object \<Rightarrow> string \<Rightarrow> jsv \<Rightarrow> js_object" where
  "put_field ob k v =
     (if k \<in> fst ` set ob then map (\<lambda>(k', v'). if k' = k then (k', v) else (k', v')) ob else ob @ [(k, v)])"

fun json_value :: "nat \<Rightarrow> string \<Rightarrow> (jsv \<times> string) option"
  and json_elements :: "nat \<Rightarrow> jsv list \<Rightarrow> string \<Rightarrow> (jsv \<times> string) option"
  and json_members :: "nat \<Rightarrow> js_object \<Rightarrow> string \<Rightarrow> (jsv \<times> string) option" where
  "json_value 0 s = None"
| "json_value (Suc n) s =
     (case skip_space s of
        [] \<Rightarrow> None
      | c # r \<Rightarrow>
          if c = CHR 0x22 then map_option (\<lambda>(t, q). (JStr t, q)) (json_string_body r)
          else if c = CHR ''['' then
            (case skip_space r of
               [] \<Rightarrow> None
             | d # q \<Rightarrow> if d = CHR '']'' then Some (JArr [], q) else json_elements n [] r)
          else if c = CHR 0x7B then
            (case skip_space r of
               [] \<Rightarrow> None
             | d # q \<Rightarrow> if d = CHR 0x7D then Some (JObj [], q) else json_members n [] r)
          else if starts_with ''null'' (c # r) then Some (JNull, drop 4 (c # r))
          else if starts_with ''true'' (c # r) then Some (JBool True, drop 4 (c # r))
          else if starts_with ''false'' (c # r) then Some (JBool False, drop 5 (c # r))
          else (let t = takeWhile number_char (c # r) in
            if json_number_literal t then Some (JNum (text_number t), dropWhile number_char (c # r)) else None))"
| "json_elements 0 vs s = None"
| "json_elements (Suc n) vs s =
     (case json_value n s of
        None \<Rightarrow> None
      | Some (v, r) \<Rightarrow>
          (case skip_space r of
             [] \<Rightarrow> None
           | d # q \<Rightarrow> if d = CHR '']'' then Some (JArr (vs @ [v]), q)
               else if d = CHR '','' then json_elements n (vs @ [v]) q else None))"
| "json_members 0 ob s = None"
| "json_members (Suc n) ob s =
     (case skip_space s of
        [] \<Rightarrow> None
      | c # r \<Rightarrow>
          if c \<noteq> CHR 0x22 then None
          else (case json_string_body r of
              None \<Rightarrow> None
            | Some (k, r1) \<Rightarrow>
                (case skip_space r1 of
                   [] \<Rightarrow> None
                 | d # r2 \<Rightarrow>
                     if d \<noteq> CHR '':'' then None
                     else (case json_value n r2 of
                         None \<Rightarrow> None
                       | Some (v, r3) \<Rightarrow>
                           (case skip_space r3 of
                              [] \<Rightarrow> None
                            | e # q \<Rightarrow> if e = CHR 0x7D then Some (JObj (put_field ob k v), q)
                                else if e = CHR '','' then json_members n (put_field ob k v) q else None)))))"

definition json_parse :: "string \<Rightarrow> jsv option" where
  "json_parse s =
     (case json_value (2 * length s + 2) s of
        None \<Rightarrow> None
      | Some (v, r) \<Rightarrow> if skip_space r = [] then Some v else None)"

end
