(* ===== verification/Session.thy ===== *)
theory Session
  imports JS_Value JS_Date
begin

text \<open>
  The shared data types of \<open>src/types.ts\<close>: the normalised charging session, transaction
  diagnostics and the durable context of a signed transaction. Dates are time values in
  milliseconds, optional fields are options.
\<close>

datatype energy_direction = CHARGE | DISCHARGE
datatype cdr_protocol = OCPI | OICP | MIXED | UNKNOWN
datatype award_type = OFF_PEAK_CHARGING | V2G_DISCHARGE

datatype cdr_error_code =
  INVALID_PAYLOAD | MISSING_EMAID | UID_ONLY | CONFLICTING_IDENTIFIERS | INVALID_EMAID

datatype time_zone_source =
    SrcTimeZone | SrcCustomData | SrcCdrLocation | SrcCountryDefault | SrcUnconfigured

definition direction_text :: "energy_direction \<Rightarrow> string" where
  "direction_text d = (case d of CHARGE \<Rightarrow> ''CHARGE'' | DISCHARGE \<Rightarrow> ''DISCHARGE'')"

definition source_text :: "time_zone_source \<Rightarrow> string" where
  "source_text s = (case s of
      SrcTimeZone \<Rightarrow> ''timeZone''
    | SrcCustomData \<Rightarrow> ''custom_data.time_zone''
    | SrcCdrLocation \<Rightarrow> ''cdr_location.time_zone''
    | SrcCountryDefault \<Rightarrow> ''country_default''
    | SrcUnconfigured \<Rightarrow> ''unconfigured'')"

record token_metadata =
  tm_uid :: "string option"
  tm_type :: "string option"
  tm_countryCode :: "string option"
  tm_partyId :: "string option"
  tm_variant :: "string option"

record session =
  sessionId :: string
  providerId :: string
  eMAID :: "string option"
  emaid :: "string option"
  protocol :: "cdr_protocol option"
  sourceField :: "string option"
  tokenMetadata :: "token_metadata option"
  uid :: string
  evseId :: string
  startTime :: int
  endTime :: int
  energyKWh :: js_number
  energyDirection :: energy_direction
  cdrId :: "string option"
  reservationSessionId :: "string option"
  chargingSessionId :: "string option"
  timeZone :: "string option"
  timeZoneSource :: "time_zone_source option"

subsection \<open>Diagnostics\<close>

datatype diagnostic_stage = ASSET_CONTEXT | PREFLIGHT | PREPARE | PERSIST_HASH | BROADCAST | RECEIPT
datatype diagnostic_category =
  RPC_UNAVAILABLE | CONFIRMATION_PENDING | DATABASE_UNAVAILABLE | REVIEW_REQUIRED | CATEGORY_PREFLIGHT

record diagnostic =
  dg_stage :: diagnostic_stage
  dg_category :: "diagnostic_category option"
  dg_errorCode :: string
  dg_retryable :: bool
  dg_savedHash :: "string option"
  dg_nonce :: "nat option"

text \<open>The stages happen in this order; a diagnostic at a stage says how far a transaction got.\<close>

fun stage_rank :: "diagnostic_stage \<Rightarrow> nat" where
  "stage_rank ASSET_CONTEXT = 0"
| "stage_rank PREFLIGHT = 1"
| "stage_rank PREPARE = 2"
| "stage_rank PERSIST_HASH = 3"
| "stage_rank BROADCAST = 4"
| "stage_rank RECEIPT = 5"

lemma stage_rank_inj: "stage_rank a = stage_rank b \<longleftrightarrow> a = b"
  by (cases a; cases b) simp_all

instantiation diagnostic_stage :: linorder
begin

definition less_eq_diagnostic_stage :: "diagnostic_stage \<Rightarrow> diagnostic_stage \<Rightarrow> bool" where
  "less_eq_diagnostic_stage a b \<longleftrightarrow> stage_rank a \<le> stage_rank b"

definition less_diagnostic_stage :: "diagnostic_stage \<Rightarrow> diagnostic_stage \<Rightarrow> bool" where
  "less_diagnostic_stage a b \<longleftrightarrow> stage_rank a < stage_rank b"

instance
  by standard (auto simp: less_eq_diagnostic_stage_def less_diagnostic_stage_def stage_rank_inj)

end

lemmas stage_order = less_eq_diagnostic_stage_def less_diagnostic_stage_def

subsection \<open>Prepared transactions\<close>

record transaction_context =
  tc_chainId :: string
  tc_signerAddress :: string
  tc_nonce :: nat
  tc_to :: string
  tc_data :: "string option"
  tc_value :: string
  tc_gasLimit :: "string option"
  tc_gasPrice :: "string option"
  tc_maxFeePerGas :: "string option"
  tc_maxPriorityFeePerGas :: "string option"
  tc_type :: "nat option"
  tc_accessList :: "(string \<times> string list) list option"

record prepared_transaction =
  pt_txHash :: string
  pt_rawTransaction :: string
  pt_context :: transaction_context

end
