(* ===== verification/RewardPolicy.thy ===== *)
theory RewardPolicy
  imports JS_Text Session
begin

text \<open>
  Award rules, off-peak windows and the policy in force: \<open>config/policyDefaults.ts\<close>,
  \<open>config/offPeakWindows.ts\<close>, \<open>config/policyContext.ts\<close> and \<open>config/tokenLimits.ts\<close>. The
  module-level overrides and the request-local snapshot are the fields of \<open>rule_env\<close>. What
  \<open>Intl.DateTimeFormat\<close> does with a zone name is a parameter: \<open>resolved_zone\<close> is the canonical name
  it reports (\<open>None\<close> when it rejects the name), \<open>zoned_parts\<close> the fields it formats. Thrown
  \<open>Error\<close>s are their messages.
\<close>

type_synonym 'a thrown = "string + 'a"

record charge_rule =
  cr_enabled :: bool
  cr_tokensPerKWh :: js_number
  cr_description :: string

record award_rules =
  ar_version :: string
  ar_offPeak :: charge_rule
  ar_v2g :: charge_rule
  ar_dedup :: "string list"
  ar_dedupDescription :: string

record time_range =
  tr_start :: string
  tr_end :: string

type_synonym window_config = "(string \<times> time_range list) list"

record policy_snapshot =
  ps_revision :: nat
  ps_updatedAt :: string
  ps_rules :: award_rules
  ps_windows :: window_config

record rule_env =
  re_policy :: "policy_snapshot option"
  re_rules :: "award_rules option"
  re_windows :: "window_config option"

record zone_fields =
  zf_year :: string
  zf_month :: string
  zf_day :: string
  zf_hour :: string
  zf_minute :: string
  zf_second :: string

record intl =
  resolved_zone :: "string \<Rightarrow> string option"
  zoned_parts :: "string \<Rightarrow> int \<Rightarrow> zone_fields option"

subsection \<open>Defaults\<close>

definition awardRulesConfig :: award_rules where
  "awardRulesConfig = \<lparr>ar_version = ''1.0'',
     ar_offPeak = \<lparr>cr_enabled = True, cr_tokensPerKWh = Fin (1 / 4), cr_description = ''1 SPARKZ per 4 kWh''\<rparr>,
     ar_v2g = \<lparr>cr_enabled = True, cr_tokensPerKWh = Fin 1, cr_description = ''1 SPARKZ per 1 kWh''\<rparr>,
     ar_dedup = [''sessionId'', ''providerId''],
     ar_dedupDescription = ''Prevent double-awarding using (sessionId, providerId) tuple''\<rparr>"

definition getDefaultAwardRules :: "nat option \<Rightarrow> award_rules" where
  "getDefaultAwardRules revision =
     (case revision of None \<Rightarrow> awardRulesConfig
      | Some r \<Rightarrow> awardRulesConfig\<lparr>ar_version := nat_text r\<rparr>)"

definition night_range :: time_range where
  "night_range = \<lparr>tr_start = ''22:00'', tr_end = ''06:00''\<rparr>"

definition getDefaultOffPeakWindows :: window_config where
  "getDefaultOffPeakWindows = [(''DE'', [night_range]), (''ES'', [night_range]), (''RO'', [night_range])]"

definition DEFAULT_TIME_ZONES :: "(string \<times> string) list" where
  "DEFAULT_TIME_ZONES =
     [(''DE'', ''Europe/Berlin''), (''ES'', ''Europe/Madrid''), (''RO'', ''Europe/Bucharest'')]"

subsection \<open>The policy in force\<close>

definition getPolicySnapshot :: "rule_env \<Rightarrow> policy_snapshot option" where
  "getPolicySnapshot env = re_policy env"

definition getPolicyMetadata :: "rule_env \<Rightarrow> (nat \<times> string) option" where
  "getPolicyMetadata env = map_option (\<lambda>p. (ps_revision p, ps_updatedAt p)) (getPolicySnapshot env)"

definition withPolicySnapshot :: "rule_env \<Rightarrow> policy_snapshot \<Rightarrow> (rule_env \<Rightarrow> 'a) \<Rightarrow> 'a" where
  "withPolicySnapshot env snapshot callback = callback (env\<lparr>re_policy := Some snapshot\<rparr>)"

definition getRules :: "rule_env \<Rightarrow> award_rules" where
  "getRules env =
     (case getPolicySnapshot env of Some p \<Rightarrow> ps_rules p
      | None \<Rightarrow> (case re_rules env of Some r \<Rightarrow> r | None \<Rightarrow> awardRulesConfig))"

definition setRules :: "rule_env \<Rightarrow> award_rules \<Rightarrow> rule_env" where
  "setRules env rules = env\<lparr>re_rules := Some rules\<rparr>"

definition getOffPeakWindows :: "rule_env \<Rightarrow> window_config" where
  "getOffPeakWindows env =
     (case getPolicySnapshot env of Some p \<Rightarrow> ps_windows p
      | None \<Rightarrow> (case re_windows env of Some w \<Rightarrow> w | None \<Rightarrow> getDefaultOffPeakWindows))"

definition setOffPeakWindows :: "rule_env \<Rightarrow> window_config \<Rightarrow> rule_env" where
  "setOffPeakWindows env config = env\<lparr>re_windows := Some config\<rparr>"

text \<open>The ranges of a country, none when it is not configured.\<close>

definition country_ranges :: "rule_env \<Rightarrow> string \<Rightarrow> time_range list" where
  "country_ranges env country =
     (case map_of (getOffPeakWindows env) country of None \<Rightarrow> [] | Some rs \<Rightarrow> rs)"

definition hasConfiguredOffPeakWindows :: "rule_env \<Rightarrow> string \<Rightarrow> bool" where
  "hasConfiguredOffPeakWindows env country \<longleftrightarrow> country_ranges env (js_upper country) \<noteq> []"

subsection \<open>Time zones\<close>

definition canonicalizeIanaTimeZone :: "intl \<Rightarrow> jsv \<Rightarrow> string \<Rightarrow> string thrown" where
  "canonicalizeIanaTimeZone intl value source =
     (case value of
        JStr v \<Rightarrow>
          if v = [] \<or> js_trim v \<noteq> v then Inl (source @ '' must be a valid IANA timezone identifier'')
          else (case resolved_zone intl v of
              None \<Rightarrow> Inl (source @ '' must be a valid IANA timezone identifier: '' @ v)
            | Some z \<Rightarrow> Inr (if z = [] then v else z))
      | _ \<Rightarrow> Inl (source @ '' must be a valid IANA timezone identifier''))"

record resolved_time_zone =
  rz_timeZone :: "string option"
  rz_source :: time_zone_source

definition resolveTimeZone ::
    "intl \<Rightarrow> string \<Rightarrow> string option \<Rightarrow> time_zone_source \<Rightarrow> resolved_time_zone thrown" where
  "resolveTimeZone intl country explicitTimeZone explicitSource =
     (case explicitTimeZone of
        Some z \<Rightarrow>
          rbind (canonicalizeIanaTimeZone intl (JStr z) (source_text explicitSource)) (\<lambda>c.
            Inr \<lparr>rz_timeZone = Some c, rz_source = explicitSource\<rparr>)
      | None \<Rightarrow>
          (case map_of DEFAULT_TIME_ZONES (js_upper country) of
             Some z \<Rightarrow> Inr \<lparr>rz_timeZone = Some z, rz_source = SrcCountryDefault\<rparr>
           | None \<Rightarrow> Inr \<lparr>rz_timeZone = None, rz_source = SrcUnconfigured\<rparr>))"

subsection \<open>Operation cap\<close>

definition MAX_TOKENS_PER_OPERATION :: js_number where
  "MAX_TOKENS_PER_OPERATION = Fin 200"

definition exceedsTokenOperationCap :: "js_number \<Rightarrow> bool" where
  "exceedsTokenOperationCap amount \<longleftrightarrow> is_finite amount \<and> js_less MAX_TOKENS_PER_OPERATION amount"

end
