(* ===== verification/Normaliser.thy ===== *)
theory Normaliser
  imports RewardPolicy
begin

text \<open>
  \<open>src/normaliser.ts\<close>: a charging record (CDR) in one of the accepted shapes, OCPI, OICP or the
  flat legacy contract, becomes a canonical session. The raw record is a JSON value; \<open>Date\<close>
  objects, which JSON does not carry, are outside the model. Ordinary \<open>Error\<close>s are their
  messages (\<open>Plain\<close>); identity failures keep code, message, protocol and source fields. The
  instant \<open>new Date()\<close> reads is the parameter \<open>now\<close>.
\<close>

record cdr_error_info =
  ci_code :: cdr_error_code
  ci_message :: string
  ci_protocol :: cdr_protocol
  ci_sourceFields :: "string list"

datatype cdr_failure = Plain string | Identity cdr_error_info

record emaid_candidate =
  ec_source :: string
  ec_value :: string
  ec_protocol :: cdr_protocol

subsection \<open>Values\<close>

definition hasCdrValue :: "jsv \<Rightarrow> bool" where
  "hasCdrValue v = (case v of JUndef \<Rightarrow> False | JNull \<Rightarrow> False | JStr s \<Rightarrow> js_trim s \<noteq> [] | _ \<Rightarrow> True)"

definition firstPresent :: "js_object \<Rightarrow> (string \<times> jsv) option" where
  "firstPresent vs = List.find (\<lambda>(n, v). hasCdrValue v) vs"

text \<open>The named fields of an object, in the order they are tried.\<close>

definition named_fields :: "js_object \<Rightarrow> string list \<Rightarrow> (string \<times> jsv) list" where
  "named_fields input names = map (\<lambda>n. (n, field input n)) names"

definition plain :: "'a thrown \<Rightarrow> cdr_failure + 'a" where
  "plain r = (case r of Inl m \<Rightarrow> Inl (Plain m) | Inr x \<Rightarrow> Inr x)"

definition stringValue :: "jsv \<Rightarrow> string \<Rightarrow> string thrown" where
  "stringValue v fieldName =
     (case v of
        JStr s \<Rightarrow> if hasCdrValue (JStr s) then Inr s else Inl (fieldName @ '' is required'')
      | JNum n \<Rightarrow> if hasCdrValue (JStr (num_text n)) then Inr (num_text n) else Inl (fieldName @ '' is required'')
      | _ \<Rightarrow> Inl (fieldName @ '' must be a scalar value''))"

definition getCountryFromEVSEID :: "string \<Rightarrow> string thrown" where
  "getCountryFromEVSEID evse =
     (let c = take 2 (js_trim evse) in
      if length c = 2 \<and> list_all is_letter c then Inr (js_upper c)
      else Inl ''Could not derive country from evseId'')"

subsection \<open>Energy\<close>

definition energy_error :: string where
  "energy_error = ''energy must be a finite number (strict numeric format)''"

definition signed_text :: "string \<Rightarrow> string \<times> string" where
  "signed_text t = (case t of [] \<Rightarrow> ([], [])
     | c # r \<Rightarrow> if c = CHR ''+'' \<or> c = CHR ''-'' then ([c], r) else ([], t))"

definition parseEnergyValue :: "jsv \<Rightarrow> js_number thrown" where
  "parseEnergyValue value =
     (case value of
        JNum n \<Rightarrow> if is_finite n then Inr n else Inl ''energy must be a finite number''
      | JStr s \<Rightarrow>
          (let (sign, body) = signed_text (js_trim s); parts = split_all (CHR ''.'') body in
           if \<not> list_all (\<lambda>p. p \<noteq> [] \<and> list_all is_digit p) parts then Inl energy_error
           else if length parts > 2
                   \<and> (length (hd parts) > 3 \<or> list_ex (\<lambda>p. length p \<noteq> 3) (tl (butlast parts)))
                then Inl energy_error
           else (let text = (if length parts = 1 then sign @ hd parts
                             else sign @ concat (butlast parts) @ ''.'' @ last parts);
                     n = decimal_number text
                 in if is_finite n then Inr n else Inl energy_error))
      | _ \<Rightarrow> Inl energy_error)"

subsection \<open>Timestamps\<close>

definition iso_hint :: string where
  "iso_hint = ''an explicit timezone offset (Z or '' @ [CHR 0xB1] @ ''HH:MM)''"

definition parseDateValue :: "jsv \<Rightarrow> string \<Rightarrow> int thrown" where
  "parseDateValue value fieldName =
     (let invalid = (\<lambda>why. Inl (''Invalid '' @ fieldName @ '': '' @ why));
          numeric = invalid (''Excel serial and numeric timestamps are unsupported; use an ISO8601 date-time with ''
                       @ iso_hint);
          from_text = (\<lambda>s. let text = js_trim s in
            if text = [] then invalid ''timestamp is empty''
            else if plain_decimal text then numeric
            else (case read_iso text of
                None \<Rightarrow> invalid (''timestamp must be ISO8601 with '' @ iso_hint)
              | Some f \<Rightarrow> if valid_fields f then Inr (time_of_fields f)
                  else invalid ''invalid calendar date or timezone offset''))
      in case value of
           JNum _ \<Rightarrow> numeric
         | JStr s \<Rightarrow> from_text s
         | JBool b \<Rightarrow> from_text (js_string (JBool b))
         | _ \<Rightarrow> invalid ''timestamp must be an ISO8601 date-time with an explicit timezone offset'')"

subsection \<open>Protocol detection\<close>

definition ocpi_fields :: "string list" where
  "ocpi_fields = [''id'', ''country_code'', ''party_id'', ''session_id'', ''start_date_time'', ''end_date_time'',
     ''cdr_token'', ''cdr_token_contract_id'', ''cdr_location'', ''cdr_location_evse_id'', ''total_energy'']"

definition oicp_fields :: "string list" where
  "oicp_fields = [''Identification'', ''identification'', ''CPOPartnerSessionID'', ''EMPPartnerSessionID'',
     ''EvseID'', ''ChargingStart'', ''ChargingEnd'', ''ConsumedEnergy'', ''ContractID'']"

definition flat_fields :: "string list" where
  "flat_fields = [''SessionID'', ''ProviderID'', ''EVSEID'', ''UID'']"

definition hasOwnCdrValue :: "js_object \<Rightarrow> string \<Rightarrow> bool" where
  "hasOwnCdrValue input key \<longleftrightarrow> hasCdrValue (field input key)"

definition detectCdrProtocol :: "jsv \<Rightarrow> cdr_protocol" where
  "detectCdrProtocol raw =
     (case as_object raw of
        None \<Rightarrow> UNKNOWN
      | Some input \<Rightarrow>
          (let ocpi = list_ex (hasOwnCdrValue input) ocpi_fields;
               oicp = list_ex (hasOwnCdrValue input) oicp_fields
           in if ocpi \<and> oicp then MIXED else if ocpi then OCPI else if oicp then OICP
              else if list_ex (hasOwnCdrValue input) flat_fields then OICP else UNKNOWN))"

subsection \<open>Owner identity\<close>

definition addEmaidCandidate ::
    "cdr_protocol \<Rightarrow> string \<times> jsv \<times> cdr_protocol \<Rightarrow> emaid_candidate list \<Rightarrow> cdr_failure + emaid_candidate list" where
  "addEmaidCandidate errorProtocol c candidates =
     (let (source, value, protocol) = c in
      if \<not> hasCdrValue value then Inr candidates
      else case value of
        JStr text \<Rightarrow>
          if js_trim text \<noteq> text then
            Inl (Identity \<lparr>ci_code = INVALID_EMAID,
              ci_message = ''eMAID candidate '' @ source @ '' must not have leading or trailing whitespace'',
              ci_protocol = errorProtocol, ci_sourceFields = [source]\<rparr>)
          else if text = [] \<or> js_lower text = ''null'' then Inr candidates
          else Inr (candidates @ [\<lparr>ec_source = source, ec_value = text, ec_protocol = protocol\<rparr>])
      | _ \<Rightarrow>
          Inl (Identity \<lparr>ci_code = INVALID_EMAID,
            ci_message = ''eMAID candidate '' @ source @ '' must be a string; numeric owner identifiers are unsupported'',
            ci_protocol = errorProtocol, ci_sourceFields = [source]\<rparr>))"

definition identification_variants :: "string list" where
  "identification_variants =
     [''RFIDIdentification'', ''QRCodeIdentification'', ''PlugAndChargeIdentification'', ''RemoteIdentification'']"

definition emaid_names :: "string list" where
  "emaid_names = [''EvcoID'', ''eMAID'', ''EMAID'']"

text \<open>The named objects of the record under either spelling, those present as objects.\<close>

definition identifications :: "js_object \<Rightarrow> (string \<times> js_object) list" where
  "identifications input = List.map_filter (\<lambda>n. map_option (Pair n) (as_object (field input n)))
     [''Identification'', ''identification'']"

definition owner_fields :: "string \<Rightarrow> js_object \<Rightarrow> (string \<times> jsv \<times> cdr_protocol) list" where
  "owner_fields prefix ob = map (\<lambda>n. (prefix @ ''.'' @ n, field ob n, OICP)) emaid_names"

definition identification_candidates :: "string \<times> js_object \<Rightarrow> (string \<times> jsv \<times> cdr_protocol) list" where
  "identification_candidates ni =
     (case ni of (name, ident) \<Rightarrow>
        owner_fields name ident
        @ concat (map (\<lambda>v. case as_object (field ident v) of
              None \<Rightarrow> [] | Some details \<Rightarrow> owner_fields (name @ ''.'' @ v) details) identification_variants))"

text \<open>Every place an owner is read from, in order.\<close>

definition emaid_sources :: "js_object \<Rightarrow> (string \<times> jsv \<times> cdr_protocol) list" where
  "emaid_sources input =
     (case as_object (field input ''cdr_token'') of
        None \<Rightarrow> [] | Some token \<Rightarrow> [(''cdr_token.contract_id'', field token ''contract_id'', OCPI)])
     @ [(''cdr_token_contract_id'', field input ''cdr_token_contract_id'', OCPI),
        (''ContractID'', field input ''ContractID'', OICP)]
     @ concat (map identification_candidates (identifications input))"

fun collect_candidates ::
    "cdr_protocol \<Rightarrow> (string \<times> jsv \<times> cdr_protocol) list \<Rightarrow> emaid_candidate list \<Rightarrow> cdr_failure + emaid_candidate list" where
  "collect_candidates ep [] acc = Inr acc"
| "collect_candidates ep (c # cs) acc = rbind (addEmaidCandidate ep c acc) (collect_candidates ep cs)"

definition collectEmaidCandidates :: "js_object \<Rightarrow> cdr_protocol \<Rightarrow> cdr_failure + emaid_candidate list" where
  "collectEmaidCandidates input detectedProtocol = collect_candidates detectedProtocol (emaid_sources input) []"

definition firstString :: "jsv list \<Rightarrow> string option" where
  "firstString values =
     (case List.find hasCdrValue values of Some (JStr s) \<Rightarrow> if js_trim s \<noteq> [] then Some s else None | _ \<Rightarrow> None)"

definition uid_variants :: "string list" where
  "uid_variants = identification_variants @ [''RFIDMifareFamilyIdentification'']"

definition uid_fields :: "string \<Rightarrow> js_object \<Rightarrow> (string \<times> jsv) list" where
  "uid_fields prefix ob = [(prefix @ ''.UID'', field ob ''UID''), (prefix @ ''.uid'', field ob ''uid'')]"

definition collectUidSourceFields :: "js_object \<Rightarrow> string list" where
  "collectUidSourceFields input =
     map fst (filter (\<lambda>(n, v). hasCdrValue v)
       (named_fields input [''UID'', ''uid'', ''cdr_token_uid'']
        @ (case as_object (field input ''cdr_token'') of
             None \<Rightarrow> [] | Some token \<Rightarrow> [(''cdr_token.uid'', field token ''uid'')])
        @ concat (map (\<lambda>(name, ident). uid_fields name ident
            @ concat (map (\<lambda>v. case as_object (field ident v) of
                None \<Rightarrow> [] | Some details \<Rightarrow> uid_fields (name @ ''.'' @ v) details) uid_variants))
          (identifications input))))"

text \<open>
  The scan over the identification variants: a variant's UID fills a missing token uid; the first
  variant that carries a UID or an owner names \<open>variant\<close> and ends the search.
\<close>

fun scan_variants :: "string \<Rightarrow> js_object \<Rightarrow> string list \<Rightarrow> token_metadata \<Rightarrow> token_metadata" where
  "scan_variants name ident [] md = md"
| "scan_variants name ident (v # vs) md =
     (case as_object (field ident v) of
        None \<Rightarrow> scan_variants name ident vs md
      | Some details \<Rightarrow>
          (let variantUid = firstString [field details ''UID''];
               md' = (if variantUid \<noteq> None \<and> tm_uid md = None then md\<lparr>tm_uid := variantUid\<rparr> else md)
           in if variantUid \<noteq> None \<or> list_ex (\<lambda>n. js_truthy (field details n)) emaid_names
              then md'\<lparr>tm_variant := Some (name @ ''.'' @ v)\<rparr>
              else scan_variants name ident vs md'))"

fun scan_identifications :: "(string \<times> js_object) list \<Rightarrow> token_metadata \<Rightarrow> token_metadata" where
  "scan_identifications [] md = md"
| "scan_identifications ((name, ident) # rest) md =
     (let md' = scan_variants name ident uid_variants md
      in if tm_variant md' \<noteq> None then md' else scan_identifications rest md')"

definition token_field :: "js_object \<Rightarrow> string \<Rightarrow> jsv" where
  "token_field input name =
     (case as_object (field input ''cdr_token'') of None \<Rightarrow> JUndef | Some token \<Rightarrow> field token name)"

definition no_metadata :: token_metadata where
  "no_metadata = \<lparr>tm_uid = None, tm_type = None, tm_countryCode = None, tm_partyId = None, tm_variant = None\<rparr>"

definition collectTokenMetadata :: "js_object \<Rightarrow> token_metadata option" where
  "collectTokenMetadata input =
     (let md = scan_identifications (identifications input)
        \<lparr>tm_uid = firstString [token_field input ''uid'', field input ''cdr_token_uid'', field input ''UID''],
         tm_type = firstString [token_field input ''type'', field input ''cdr_token_type''],
         tm_countryCode = firstString [token_field input ''country_code'', field input ''cdr_token_country_code''],
         tm_partyId = firstString [token_field input ''party_id'', field input ''cdr_token_party_id''],
         tm_variant = None\<rparr>
      in if md = no_metadata then None else Some md)"

record resolved_emaid =
  rm_eMAID :: string
  rm_sourceField :: string
  rm_protocol :: cdr_protocol
  rm_tokenMetadata :: "token_metadata option"

definition uid_only_message :: string where
  "uid_only_message = ''eMAID is required for ownership; UID-only CDRs are rejected and may only be ''
     @ ''quarantined as non-owning token metadata''"

definition missing_message :: string where
  "missing_message = ''eMAID/contract identity is required; provide OCPI cdr_token.contract_id or an ''
     @ ''OICP Identification.*.EvcoID''"

definition resolveEmaid :: "js_object \<Rightarrow> cdr_failure + resolved_emaid" where
  "resolveEmaid input =
     (let protocol = detectCdrProtocol (JObj input) in
      rbind (collectEmaidCandidates input protocol) (\<lambda>candidates.
        case candidates of
          [] \<Rightarrow>
            (let uids = collectUidSourceFields input in
             Inl (Identity \<lparr>ci_code = (if uids \<noteq> [] then UID_ONLY else MISSING_EMAID),
               ci_message = (if uids \<noteq> [] then uid_only_message else missing_message),
               ci_protocol = protocol, ci_sourceFields = uids\<rparr>))
        | f # rest \<Rightarrow>
            (case List.find (\<lambda>c. ec_value c \<noteq> ec_value f) rest of
               Some c \<Rightarrow>
                 Inl (Identity \<lparr>ci_code = CONFLICTING_IDENTIFIERS,
                   ci_message = ''contradictory eMAID ownership aliases: '' @ ec_source f @ '' and '' @ ec_source c,
                   ci_protocol = protocol, ci_sourceFields = map ec_source candidates\<rparr>)
             | None \<Rightarrow>
                 Inr \<lparr>rm_eMAID = ec_value f, rm_sourceField = ec_source f,
                   rm_protocol = (if length (remdups (map ec_protocol candidates)) > 1 then MIXED
                     else if protocol = UNKNOWN then ec_protocol f else protocol),
                   rm_tokenMetadata = collectTokenMetadata input\<rparr>)))"

subsection \<open>Time zone of the record\<close>

definition time_zone_candidates :: "js_object \<Rightarrow> (time_zone_source \<times> jsv) list" where
  "time_zone_candidates input =
     [(SrcTimeZone, field input ''timeZone''),
      (SrcCustomData, case as_object (field input ''custom_data'') of None \<Rightarrow> JUndef | Some d \<Rightarrow> field d ''time_zone''),
      (SrcCdrLocation, case as_object (field input ''cdr_location'') of None \<Rightarrow> JUndef | Some l \<Rightarrow> field l ''time_zone'')]"

fun select_time_zone ::
    "intl \<Rightarrow> (time_zone_source \<times> jsv) list \<Rightarrow> (time_zone_source \<times> string) option
     \<Rightarrow> (time_zone_source \<times> string) option thrown" where
  "select_time_zone intl [] selected = Inr selected"
| "select_time_zone intl ((source, value) # rest) selected =
     (if \<not> hasCdrValue value then select_time_zone intl rest selected
      else rbind (canonicalizeIanaTimeZone intl value (source_text source)) (\<lambda>z.
        case selected of
          None \<Rightarrow> select_time_zone intl rest (Some (source, z))
        | Some (s, z') \<Rightarrow>
            if z' \<noteq> z then
              Inl (''contradictory timezone overrides: '' @ source_text s @ '' and '' @ source_text source)
            else select_time_zone intl rest selected))"

definition resolveCdrTimeZone :: "intl \<Rightarrow> js_object \<Rightarrow> (time_zone_source \<times> string) option thrown" where
  "resolveCdrTimeZone intl input = select_time_zone intl (time_zone_candidates input) None"

subsection \<open>Unsupported kinds of record\<close>

definition credit_error :: string where
  "credit_error = ''credit/correction CDRs are unsupported by award logic''"

definition flag_text :: "jsv \<Rightarrow> string" where
  "flag_text v = js_lower (js_trim (js_string v))"

fun nullish_chain :: "jsv list \<Rightarrow> jsv" where
  "nullish_chain [] = JUndef"
| "nullish_chain [v] = v"
| "nullish_chain (v # vs) = nullish_or v (nullish_chain vs)"

definition rejectUnsupportedCdrKind :: "js_object \<Rightarrow> unit thrown" where
  "rejectUnsupportedCdrKind input =
     (let credit = field input ''credit'';
          first = nullish_chain \<circ> map (field input);
          correction = first [''correction'', ''Correction'', ''is_correction'', ''isCorrection''];
          operationStatus = first [''Operation Status'', ''OperationStatus'', ''operation_status'']
      in rbind (if \<not> hasCdrValue credit then Inr ()
           else if flag_text credit = ''true'' then Inl credit_error
           else guard (flag_text credit = ''false'') ''credit flag must be boolean'') (\<lambda>_.
         rbind (guard (\<not> hasCdrValue (field input ''credit_reference_id'')) credit_error) (\<lambda>_.
         rbind (guard (\<not> hasCdrValue (first [''correction_reference_id'', ''CorrectionReferenceID''])) credit_error) (\<lambda>_.
         rbind (guard (\<not> (hasCdrValue correction \<and> flag_text correction = ''true'')) credit_error) (\<lambda>_.
         guard (\<not> (hasCdrValue operationStatus \<and> flag_text operationStatus \<in> {''credit'', ''correction''}))
           credit_error)))))"

subsection \<open>Field precedence\<close>

definition session_names :: "string list" where
  "session_names = [''SessionID'', ''sessionId'', ''id'', ''session_id'']"

definition getSessionValue :: "js_object \<Rightarrow> (string \<times> jsv) option" where
  "getSessionValue input = firstPresent (named_fields input session_names)"

definition getProviderValue :: "js_object \<Rightarrow> (string \<times> jsv) option" where
  "getProviderValue input = firstPresent
     (named_fields input [''ProviderID'', ''providerId'', ''provider'', ''HubProviderID'', ''provider_id'']
      @ [(''custom_data.provider_id'',
          case as_object (field input ''custom_data'') of None \<Rightarrow> JUndef | Some d \<Rightarrow> field d ''provider_id'')]
      @ named_fields input [''party_id''])"

definition getEvseValue :: "js_object \<Rightarrow> (string \<times> jsv) option" where
  "getEvseValue input = firstPresent
     (named_fields input [''EVSEID'', ''EvseID'', ''evseId'', ''evse'']
      @ [(''cdr_location.evse_id'',
          case as_object (field input ''cdr_location'') of None \<Rightarrow> JUndef | Some l \<Rightarrow> field l ''evse_id'')]
      @ named_fields input [''cdr_location_evse_id'', ''evse_id''])"

definition getStartTimeValue :: "js_object \<Rightarrow> (string \<times> jsv) option" where
  "getStartTimeValue input = firstPresent (named_fields input
     [''Session Start'', ''SessionStart'', ''Charging Start'', ''ChargingStart'', ''StartTime'', ''timestamp'',
      ''start_date_time''])"

definition getEndTimeValue :: "js_object \<Rightarrow> (string \<times> jsv) option" where
  "getEndTimeValue input = firstPresent (named_fields input
     [''Session End'', ''SessionEnd'', ''Charging End'', ''ChargingEnd'', ''EndTime'', ''end_date_time''])"

definition getEnergyValue :: "js_object \<Rightarrow> (string \<times> jsv) option" where
  "getEnergyValue input = firstPresent (named_fields input
     [''Consumed Energy'', ''ConsumedEnergy'', ''Energy'', ''chargedEnergyKwh'', ''charged'', ''total_energy''])"

definition getDirectionValue :: "js_object \<Rightarrow> (string \<times> jsv) option" where
  "getDirectionValue input = firstPresent (named_fields input
     [''EnergyDirection'', ''energyDirection'', ''energy_direction''])"

subsection \<open>The normaliser\<close>

definition direction_error :: string where
  "direction_error = ''energy direction must be CHARGE or DISCHARGE''"

definition order_error :: string where
  "order_error = ''end time must not be before start time''"

definition body_error :: string where
  "body_error = ''CDR request body must be a JSON object''"

definition required_string :: "(string \<times> jsv) option \<Rightarrow> string \<Rightarrow> string thrown" where
  "required_string v name =
     (case v of None \<Rightarrow> Inl (name @ '' is required'') | Some (n, x) \<Rightarrow> stringValue x name)"

definition optional_string :: "bool \<Rightarrow> (string \<times> jsv) option \<Rightarrow> string \<Rightarrow> string option thrown" where
  "optional_string wanted v name =
     (case v of
        Some (n, x) \<Rightarrow> if wanted then rbind (stringValue x name) (\<lambda>s. Inr (Some s)) else Inr None
      | None \<Rightarrow> Inr None)"

definition resolve_direction :: "(string \<times> jsv) option \<Rightarrow> js_number \<Rightarrow> energy_direction thrown" where
  "resolve_direction v energy =
     (case v of
        None \<Rightarrow> Inr (if js_less energy (Fin 0) then DISCHARGE else CHARGE)
      | Some (n, x) \<Rightarrow>
          if x = JStr ''CHARGE'' then
            (if js_less energy (Fin 0) then Inl ''energy direction CHARGE conflicts with negative energy''
             else Inr CHARGE)
          else if x = JStr ''DISCHARGE'' then Inr DISCHARGE
          else Inl direction_error)"

definition normaliseSession :: "intl \<Rightarrow> int \<Rightarrow> jsv \<Rightarrow> cdr_failure + session" where
  "normaliseSession intl now raw =
     (case as_object raw of
        None \<Rightarrow> Inl (Plain body_error)
      | Some input \<Rightarrow>
          rbind (plain (rejectUnsupportedCdrKind input)) (\<lambda>_.
          rbind (plain (resolveCdrTimeZone intl input)) (\<lambda>zone.
          rbind (plain (required_string (getSessionValue input) ''sessionId'')) (\<lambda>sid.
          rbind (plain (required_string (getProviderValue input) ''providerId'')) (\<lambda>pid.
          rbind (resolveEmaid input) (\<lambda>identity.
          rbind (plain (required_string (getEvseValue input) ''evseId'')) (\<lambda>evse.
          rbind (plain (case getStartTimeValue input of
              None \<Rightarrow> Inr now | Some (n, v) \<Rightarrow> parseDateValue v ''startTime'')) (\<lambda>start.
          rbind (plain (case getEndTimeValue input of
              None \<Rightarrow> Inr start | Some (n, v) \<Rightarrow> parseDateValue v ''endTime'')) (\<lambda>stop.
          rbind (plain (guard (\<not> stop < start) order_error)) (\<lambda>_.
          rbind (plain (parseEnergyValue (case getEnergyValue input of None \<Rightarrow> JNum (Fin 0) | Some (n, v) \<Rightarrow> v))) (\<lambda>energy.
          rbind (plain (resolve_direction (getDirectionValue input) energy)) (\<lambda>direction.
          let wire = firstPresent (named_fields input [''session_id'']);
              cdr = firstPresent (named_fields input [''id'']);
              from_id = (case getSessionValue input of Some (n, v) \<Rightarrow> n = ''id'' | None \<Rightarrow> False) \<and> wire \<noteq> None;
              explicit = (rm_protocol identity = OCPI \<or> rm_protocol identity = MIXED) \<and> cdr \<noteq> None
          in rbind (plain (optional_string from_id wire ''reservationSessionId'')) (\<lambda>reservation.
             rbind (plain (optional_string from_id cdr ''cdrId'')) (\<lambda>cdr_id.
             rbind (plain (optional_string explicit wire ''chargingSessionId'')) (\<lambda>charging.
             Inr \<lparr>sessionId = sid, providerId = pid, eMAID = Some (rm_eMAID identity),
               emaid = Some (rm_eMAID identity), protocol = Some (rm_protocol identity),
               sourceField = Some (rm_sourceField identity), tokenMetadata = rm_tokenMetadata identity,
               uid = rm_eMAID identity, evseId = evse, startTime = start, endTime = stop,
               energyKWh = js_abs energy, energyDirection = direction, cdrId = cdr_id,
               reservationSessionId = reservation, chargingSessionId = charging,
               timeZone = map_option snd zone, timeZoneSource = map_option fst zone\<rparr>)))))))))))))))"

definition validateAndNormaliseCdr :: "intl \<Rightarrow> int \<Rightarrow> jsv \<Rightarrow> cdr_failure + session" where
  "validateAndNormaliseCdr intl now raw =
     (case as_object raw of
        None \<Rightarrow> Inl (Plain body_error)
      | Some input \<Rightarrow>
          rbind (plain (rejectUnsupportedCdrKind input)) (\<lambda>_.
          rbind (plain (case getStartTimeValue input of
              None \<Rightarrow> Inl ''start time is required (StartTime or start_date_time)''
            | Some (n, v) \<Rightarrow> parseDateValue v ''startTime'')) (\<lambda>_.
          rbind (plain (case getEndTimeValue input of
              None \<Rightarrow> Inl ''end time is required (EndTime or end_date_time)''
            | Some (n, v) \<Rightarrow> parseDateValue v ''endTime'')) (\<lambda>_.
          rbind (plain (guard (getEnergyValue input \<noteq> None) ''energy is required (Energy or total_energy)'')) (\<lambda>_.
          rbind (plain (case getDirectionValue input of
              None \<Rightarrow> Inr ()
            | Some (n, v) \<Rightarrow> guard (v = JStr ''CHARGE'' \<or> v = JStr ''DISCHARGE'') direction_error)) (\<lambda>_.
          rbind (normaliseSession intl now raw) (\<lambda>normalised.
          rbind (plain (guard (is_finite (energyKWh normalised)) ''energy must be a finite number'')) (\<lambda>_.
          rbind (plain (guard (\<not> endTime normalised < startTime normalised) order_error)) (\<lambda>_.
          Inr normalised)))))))))"

definition normaliseCdr :: "intl \<Rightarrow> int \<Rightarrow> jsv \<Rightarrow> cdr_failure + session" where
  "normaliseCdr intl now raw = validateAndNormaliseCdr intl now raw"

definition getCdrNormalisationErrorInfo :: "cdr_failure \<Rightarrow> cdr_error_info option" where
  "getCdrNormalisationErrorInfo e = (case e of Identity i \<Rightarrow> Some i | Plain m \<Rightarrow> None)"

definition tryNormaliseCdr :: "intl \<Rightarrow> int \<Rightarrow> jsv \<Rightarrow> cdr_error_info + session" where
  "tryNormaliseCdr intl now raw =
     (case validateAndNormaliseCdr intl now raw of
        Inr s \<Rightarrow> Inr s
      | Inl e \<Rightarrow> Inl (case e of Identity i \<Rightarrow> i
          | Plain m \<Rightarrow> \<lparr>ci_code = INVALID_PAYLOAD, ci_message = m, ci_protocol = detectCdrProtocol raw,
                      ci_sourceFields = []\<rparr>))"

end
