(* ===== verification/AwardRules.thy ===== *)
theory AwardRules
  imports Normaliser
begin

text \<open>
  \<open>config/awardRules.ts\<close>: off-peak evaluation, the calculation context of an award, its type,
  its amount and the deduplication key. A \<open>Date\<close> is a time value, \<open>None\<close> for an invalid date.
  The SHA-256 digest of a text is the parameter \<open>sha256\<close>.
\<close>

subsection \<open>Local time\<close>

definition getZonedDateTimeParts :: "intl \<Rightarrow> int option \<Rightarrow> string \<Rightarrow> zone_fields thrown" where
  "getZonedDateTimeParts intl timestamp zone =
     (case timestamp of
        None \<Rightarrow> Inl ''Cannot calculate award from an invalid timestamp''
      | Some t \<Rightarrow> of_option (''Invalid time zone specified: '' @ zone) (zoned_parts intl zone t))"

definition parseTimeToMinutes :: "string \<Rightarrow> js_number" where
  "parseTimeToMinutes time =
     (let ps = split_all (CHR '':'') time;
          part = (\<lambda>i. if i < length ps then text_number (ps ! i) else NaN)
      in js_add (js_mul (part 0) (Fin 60)) (part 1))"

definition in_range :: "js_number \<Rightarrow> time_range \<Rightarrow> bool" where
  "in_range minutes r =
     (let startMin = parseTimeToMinutes (tr_start r); endMin = parseTimeToMinutes (tr_end r)
      in if js_less startMin endMin
         then js_le startMin minutes \<and> js_less minutes endMin
         else js_le startMin minutes \<or> js_less minutes endMin)"

definition local_minutes :: "zone_fields \<Rightarrow> js_number" where
  "local_minutes p = js_add (js_mul (text_number (zf_hour p)) (Fin 60)) (text_number (zf_minute p))"

definition isOffPeak :: "intl \<Rightarrow> rule_env \<Rightarrow> string \<Rightarrow> int option \<Rightarrow> string option \<Rightarrow> bool thrown" where
  "isOffPeak intl env country timestamp explicitTimeZone =
     (let countryCode = js_upper country; ranges = country_ranges env countryCode in
      rbind (resolveTimeZone intl countryCode explicitTimeZone SrcTimeZone) (\<lambda>rz.
        if ranges = [] then Inr False
        else (case rz_timeZone rz of
            None \<Rightarrow> Inl (''No IANA timezone configured for country '' @ countryCode
                @ ''; provide an explicit timeZone override'')
          | Some zone \<Rightarrow>
              if zone = [] then Inl (''No IANA timezone configured for country '' @ countryCode
                @ ''; provide an explicit timeZone override'')
              else rbind (getZonedDateTimeParts intl timestamp zone) (\<lambda>p.
                Inr (list_ex (in_range (local_minutes p)) ranges)))))"

definition isOffPeakForCountry :: "intl \<Rightarrow> rule_env \<Rightarrow> string \<Rightarrow> int option \<Rightarrow> string option \<Rightarrow> bool thrown" where
  "isOffPeakForCountry intl env country timestamp zone = isOffPeak intl env country timestamp zone"

definition formatLocalDateTime :: "intl \<Rightarrow> int option \<Rightarrow> string \<Rightarrow> string thrown" where
  "formatLocalDateTime intl timestamp zone =
     rbind (getZonedDateTimeParts intl timestamp zone) (\<lambda>p.
       Inr (zf_year p @ ''-'' @ zf_month p @ ''-'' @ zf_day p @ ''T''
            @ zf_hour p @ '':'' @ zf_minute p @ '':'' @ zf_second p))"

text \<open>Without a zone the host's own local hours and minutes are formatted: they are the argument.\<close>

definition formatLocalTime :: "intl \<Rightarrow> (int \<Rightarrow> nat \<times> nat) \<Rightarrow> int \<Rightarrow> string option \<Rightarrow> string thrown" where
  "formatLocalTime intl host date zone =
     (case zone of
        Some z \<Rightarrow>
          rbind (canonicalizeIanaTimeZone intl (JStr z) ''timeZone'') (\<lambda>c.
          rbind (getZonedDateTimeParts intl (Some date) c) (\<lambda>p. Inr (zf_hour p @ '':'' @ zf_minute p)))
      | None \<Rightarrow> Inr (pad_left 2 (nat_text (fst (host date))) @ '':'' @ pad_left 2 (nat_text (snd (host date)))))"

subsection \<open>Calculation context\<close>

datatype eligibility_basis = SESSION_START | DISCHARGE_BASIS

record award_context =
  ax_countryCode :: string
  ax_timeZone :: "string option"
  ax_timeZoneSource :: time_zone_source
  ax_localStartTime :: "string option"
  ax_eligibilityBasis :: eligibility_basis
  ax_isOffPeak :: bool
  ax_awardType :: "award_type option"
  ax_configurationSnapshot :: string
  ax_configurationFingerprint :: string

definition json_text_or_null :: "string option \<Rightarrow> jsv" where
  "json_text_or_null x = (case x of None \<Rightarrow> JNull | Some s \<Rightarrow> JStr s)"

definition rule_value :: "charge_rule \<Rightarrow> jsv" where
  "rule_value r = JObj [(''enabled'', JBool (cr_enabled r)), (''tokensPerKWh'', JNum (cr_tokensPerKWh r))]"

definition range_value :: "time_range \<Rightarrow> jsv" where
  "range_value r = JObj [(''start'', JStr (tr_start r)), (''end'', JStr (tr_end r))]"

definition snapshot_value ::
    "rule_env \<Rightarrow> award_rules \<Rightarrow> string \<Rightarrow> resolved_time_zone \<Rightarrow> time_range list \<Rightarrow> jsv" where
  "snapshot_value env rules country rz ranges = JObj
     [(''version'', JStr (ar_version rules)),
      (''policyRevision'', case getPolicySnapshot env of None \<Rightarrow> JNull
         | Some p \<Rightarrow> JNum (Fin (of_nat (ps_revision p)))),
      (''policyUpdatedAt'', json_text_or_null (map_option ps_updatedAt (getPolicySnapshot env))),
      (''countryCode'', JStr country),
      (''timeZone'', json_text_or_null (rz_timeZone rz)),
      (''timeZoneSource'', JStr (source_text (rz_source rz))),
      (''offPeakWindows'', JArr (map range_value ranges)),
      (''offPeakCharging'', rule_value (ar_offPeak rules)),
      (''v2gDischarge'', rule_value (ar_v2g rules))]"

definition getSessionTimeZone :: "intl \<Rightarrow> session \<Rightarrow> string \<Rightarrow> resolved_time_zone thrown" where
  "getSessionTimeZone intl s country =
     resolveTimeZone intl country (timeZone s)
       (case timeZoneSource s of None \<Rightarrow> SrcTimeZone | Some src \<Rightarrow> src)"

definition getAwardCalculationContext ::
    "(string \<Rightarrow> string) \<Rightarrow> intl \<Rightarrow> rule_env \<Rightarrow> session \<Rightarrow> award_rules \<Rightarrow> award_context thrown" where
  "getAwardCalculationContext sha256 intl env s rules =
     rbind (getCountryFromEVSEID (evseId s)) (\<lambda>country.
     rbind (getSessionTimeZone intl s country) (\<lambda>rz.
     let ranges = country_ranges env country;
         evaluates = energyDirection s = CHARGE \<and> cr_enabled (ar_offPeak rules) \<and> ranges \<noteq> []
     in rbind (if evaluates then isOffPeak intl env country (Some (startTime s)) (rz_timeZone rz) else Inr False)
          (\<lambda>offPeak.
        rbind (case rz_timeZone rz of
            None \<Rightarrow> Inr None
          | Some z \<Rightarrow> if z = [] then Inr None
              else rbind (formatLocalDateTime intl (Some (startTime s)) z) (\<lambda>t. Inr (Some t))) (\<lambda>local.
        let snapshot = stable_serialize (snapshot_value env rules country rz ranges) in
        Inr \<lparr>ax_countryCode = country, ax_timeZone = rz_timeZone rz, ax_timeZoneSource = rz_source rz,
          ax_localStartTime = local,
          ax_eligibilityBasis = (if energyDirection s = DISCHARGE then DISCHARGE_BASIS else SESSION_START),
          ax_isOffPeak = offPeak,
          ax_awardType =
            (if energyDirection s = CHARGE \<and> cr_enabled (ar_offPeak rules) \<and> offPeak then Some OFF_PEAK_CHARGING
             else if energyDirection s = DISCHARGE \<and> cr_enabled (ar_v2g rules) then Some V2G_DISCHARGE else None),
          ax_configurationSnapshot = snapshot,
          ax_configurationFingerprint = sha256 snapshot\<rparr>))))"

subsection \<open>Award type and amount\<close>

definition getAwardType ::
    "(string \<Rightarrow> string) \<Rightarrow> intl \<Rightarrow> rule_env \<Rightarrow> session \<Rightarrow> award_rules \<Rightarrow> award_type option thrown" where
  "getAwardType sha256 intl env s rules =
     rbind (getAwardCalculationContext sha256 intl env s rules) (\<lambda>ctx.
       Inr (if cr_enabled (ar_offPeak rules) \<and> energyDirection s = CHARGE \<and> ax_isOffPeak ctx
            then Some OFF_PEAK_CHARGING
            else if cr_enabled (ar_v2g rules) \<and> energyDirection s = DISCHARGE then Some V2G_DISCHARGE
            else None))"

definition floor_award :: "js_number \<Rightarrow> js_number \<Rightarrow> js_number" where
  "floor_award energy rate = js_floor (js_mul energy rate)"

definition calculateAwardTokens ::
    "(string \<Rightarrow> string) \<Rightarrow> intl \<Rightarrow> rule_env \<Rightarrow> session \<Rightarrow> award_rules \<Rightarrow> js_number thrown" where
  "calculateAwardTokens sha256 intl env s rules =
     rbind (getAwardCalculationContext sha256 intl env s rules) (\<lambda>ctx.
       let total1 = (if cr_enabled (ar_offPeak rules) \<and> energyDirection s = CHARGE \<and> ax_isOffPeak ctx
                     then js_add (Fin 0) (floor_award (energyKWh s) (cr_tokensPerKWh (ar_offPeak rules)))
                     else Fin 0)
       in Inr (if cr_enabled (ar_v2g rules) \<and> energyDirection s = DISCHARGE
               then js_add total1 (floor_award (energyKWh s) (cr_tokensPerKWh (ar_v2g rules))) else total1))"

text \<open>
  The key parts are looked up with \<open>in\<close>, which also finds the properties every object inherits;
  \<open>join\<close> then prints the inherited function.
\<close>

definition inherited_names :: "string list" where
  "inherited_names = [''hasOwnProperty'', ''isPrototypeOf'', ''propertyIsEnumerable'', ''toLocaleString'',
     ''toString'', ''valueOf'', ''__defineGetter__'', ''__defineSetter__'', ''__lookupGetter__'', ''__lookupSetter__'']"

definition native_text :: "string \<Rightarrow> string" where
  "native_text name = ''function '' @ name @ ''() '' @ [CHR 0x7B] @ '' [native code] '' @ [CHR 0x7D]"

definition inherited_text :: "string \<Rightarrow> string option" where
  "inherited_text key =
     (if key \<in> set inherited_names then Some (native_text key)
      else if key = ''constructor'' then Some (native_text ''Object'')
      else if key = ''__proto__'' then Some ''[object Object]'' else None)"

definition dedup_part :: "session \<Rightarrow> string \<Rightarrow> string thrown" where
  "dedup_part s key =
     (if key = ''sessionId'' then Inr (sessionId s)
      else if key = ''providerId'' then Inr (providerId s)
      else of_option (''Unknown deduplication key: '' @ key) (inherited_text key))"

fun collect_parts :: "session \<Rightarrow> string list \<Rightarrow> string list thrown" where
  "collect_parts s [] = Inr []"
| "collect_parts s (k # ks) =
     rbind (dedup_part s k) (\<lambda>p. rbind (collect_parts s ks) (\<lambda>ps. Inr (p # ps)))"

definition getDeduplicationKey :: "session \<Rightarrow> award_rules \<Rightarrow> string thrown" where
  "getDeduplicationKey s rules = rbind (collect_parts s (ar_dedup rules)) (\<lambda>ps. Inr (join_with ''-'' ps))"

definition getAwardRules :: "rule_env \<Rightarrow> award_rules" where
  "getAwardRules env = getRules env"

end
