(* ===== verification/PolicyStore.thy ===== *)
theory PolicyStore
  imports RewardPolicy Prelude
begin

text \<open>
  \<open>config/policyPersistence.ts\<close>: validation of stored and patched policies and the repository over
  the singleton row of \<open>reward_policy\<close>. A stored document is a JSON value, or its text when the
  driver returns text. Field names inside error codes are upper-cased as the code does.
\<close>

record policy_row =
  pr_id :: nat
  pr_revision :: jsv
  pr_rules :: jsv
  pr_windows :: jsv
  pr_updated_at :: "int option"

record policy_patch =
  pp_rules :: jsv
  pp_windows :: jsv

definition REWARD_POLICY_ROW_ID :: nat where
  "REWARD_POLICY_ROW_ID = 1"

definition MAX_OFF_PEAK_SLOTS :: nat where
  "MAX_OFF_PEAK_SLOTS = 6"

definition invalid_policy :: "string \<Rightarrow> string" where
  "invalid_policy name = ''REWARD_POLICY_INVALID_'' @ js_upper name"

subsection \<open>Validation\<close>

definition parseJson :: "jsv \<Rightarrow> string \<Rightarrow> jsv thrown" where
  "parseJson value name =
     (case value of JStr s \<Rightarrow> of_option (invalid_policy name) (json_parse s) | _ \<Rightarrow> Inr value)"

definition requireRecord :: "jsv \<Rightarrow> string \<Rightarrow> js_object thrown" where
  "requireRecord value name = of_option (invalid_policy name) (as_object value)"

definition requireFiniteRate :: "jsv \<Rightarrow> string \<Rightarrow> js_number thrown" where
  "requireFiniteRate value name =
     (case value of
        JNum n \<Rightarrow> if is_finite n \<and> \<not> js_less n (Fin 0) then Inr n else Inl (invalid_policy name)
      | _ \<Rightarrow> Inl (invalid_policy name))"

definition requireBoolean :: "jsv \<Rightarrow> string \<Rightarrow> bool thrown" where
  "requireBoolean value name = (case value of JBool b \<Rightarrow> Inr b | _ \<Rightarrow> Inl (invalid_policy name))"

definition text_of :: "jsv \<Rightarrow> string option" where
  "text_of v = (case v of JStr s \<Rightarrow> Some s | _ \<Rightarrow> None)"

definition nonblank :: "jsv \<Rightarrow> bool" where
  "nonblank v = (case v of JStr s \<Rightarrow> js_trim s \<noteq> [] | _ \<Rightarrow> False)"

definition key_list :: "jsv \<Rightarrow> string list option" where
  "key_list v =
     (case v of JArr vs \<Rightarrow> if vs \<noteq> [] \<and> list_all nonblank vs then Some (map js_string vs) else None | _ \<Rightarrow> None)"

definition validateAwardRules :: "jsv \<Rightarrow> award_rules thrown" where
  "validateAwardRules value =
     rbind (requireRecord value ''rules'') (\<lambda>source.
     rbind (guard (nonblank (field source ''version'')) ''REWARD_POLICY_INVALID_VERSION'') (\<lambda>_.
     rbind (requireRecord (field source ''rules'') ''rules'') (\<lambda>rules.
     rbind (requireRecord (field rules ''offPeakCharging'') ''off_peak_charging'') (\<lambda>offPeak.
     rbind (requireRecord (field rules ''v2gDischarge'') ''v2g_discharge'') (\<lambda>v2g.
     rbind (requireRecord (field source ''idempotency'') ''idempotency'') (\<lambda>idem.
     rbind (of_option ''REWARD_POLICY_INVALID_IDEMPOTENCY'' (key_list (field idem ''deduplicationKey''))) (\<lambda>keys.
     rbind (of_option ''REWARD_POLICY_INVALID_IDEMPOTENCY'' (text_of (field idem ''description''))) (\<lambda>why.
     rbind (of_option ''REWARD_POLICY_INVALID_DESCRIPTION'' (text_of (field offPeak ''description''))) (\<lambda>d1.
     rbind (of_option ''REWARD_POLICY_INVALID_DESCRIPTION'' (text_of (field v2g ''description''))) (\<lambda>d2.
     rbind (requireBoolean (field offPeak ''enabled'') ''off_peak_charging_enabled'') (\<lambda>e1.
     rbind (requireFiniteRate (field offPeak ''tokensPerKWh'') ''off_peak_charging_rate'') (\<lambda>r1.
     rbind (requireBoolean (field v2g ''enabled'') ''v2g_discharge_enabled'') (\<lambda>e2.
     rbind (requireFiniteRate (field v2g ''tokensPerKWh'') ''v2g_discharge_rate'') (\<lambda>r2.
     Inr \<lparr>ar_version = js_string (field source ''version''),
       ar_offPeak = \<lparr>cr_enabled = e1, cr_tokensPerKWh = r1, cr_description = d1\<rparr>,
       ar_v2g = \<lparr>cr_enabled = e2, cr_tokensPerKWh = r2, cr_description = d2\<rparr>,
       ar_dedup = keys, ar_dedupDescription = why\<rparr>))))))))))))))"

text \<open>\<open>/^(?:[01]\d|2[0-3]):[0-5]\d$/\<close>\<close>

definition clock_text :: "string \<Rightarrow> bool" where
  "clock_text s =
     (case s of
        [a, b, c, d, e] \<Rightarrow>
          is_digit a \<and> is_digit b \<and> c = CHR '':'' \<and> is_digit d \<and> is_digit e
          \<and> 10 * digit_val a + digit_val b \<le> 23 \<and> digit_val d \<le> 5
      | _ \<Rightarrow> False)"

definition validClock :: "jsv \<Rightarrow> bool" where
  "validClock v = (case v of JStr s \<Rightarrow> clock_text s | _ \<Rightarrow> False)"

definition country_text :: "string \<Rightarrow> bool" where
  "country_text s \<longleftrightarrow> length s = 2 \<and> list_all (\<lambda>c. 65 \<le> (of_char c :: nat) \<and> (of_char c :: nat) \<le> 90) s"

fun validate_ranges :: "string \<Rightarrow> nat \<Rightarrow> jsv list \<Rightarrow> time_range list thrown" where
  "validate_ranges country i [] = Inr []"
| "validate_ranges country i (v # vs) =
     rbind (requireRecord v (''off_peak_window_'' @ country @ ''_'' @ nat_text i)) (\<lambda>candidate.
     rbind (guard (validClock (field candidate ''start'') \<and> validClock (field candidate ''end''))
         (''REWARD_POLICY_INVALID_OFF_PEAK_TIME:'' @ country @ '':'' @ nat_text i)) (\<lambda>_.
     rbind (validate_ranges country (Suc i) vs) (\<lambda>rest.
     Inr (\<lparr>tr_start = js_string (field candidate ''start''), tr_end = js_string (field candidate ''end'')\<rparr> # rest))))"

fun validate_countries :: "js_object \<Rightarrow> window_config thrown" where
  "validate_countries [] = Inr []"
| "validate_countries ((country, ranges) # rest) =
     (case ranges of
        JArr vs \<Rightarrow>
          if country_text country \<and> vs \<noteq> [] \<and> length vs \<le> MAX_OFF_PEAK_SLOTS
          then rbind (validate_ranges country 0 vs) (\<lambda>rs.
               rbind (validate_countries rest) (\<lambda>ws. Inr ((country, rs) # ws)))
          else Inl (''REWARD_POLICY_INVALID_OFF_PEAK_WINDOWS:'' @ country)
      | _ \<Rightarrow> Inl (''REWARD_POLICY_INVALID_OFF_PEAK_WINDOWS:'' @ country))"

definition validateOffPeakWindows :: "jsv \<Rightarrow> window_config thrown" where
  "validateOffPeakWindows value = rbind (requireRecord value ''off_peak_windows'') validate_countries"

text \<open>
  \<open>isoUpdatedAt\<close>: the stored instant as ISO text. The driver returns the \<open>timestamp\<close> column as a
  date, so the row holds its time value, \<open>None\<close> for an invalid date.
\<close>

definition isoUpdatedAt :: "int option \<Rightarrow> string thrown" where
  "isoUpdatedAt v = of_option ''REWARD_POLICY_INVALID_UPDATED_AT'' (map_option iso_text v)"

subsection \<open>Rows\<close>

definition safe_revision :: "js_number \<Rightarrow> bool" where
  "safe_revision n \<longleftrightarrow> is_safe_integer n \<and> \<not> js_less n (Fin 1)"

definition revision_of :: "js_number \<Rightarrow> nat" where
  "revision_of n = (case n of Fin x \<Rightarrow> nat \<lfloor>x\<rfloor> | _ \<Rightarrow> 0)"

definition policyFromRow :: "policy_row \<Rightarrow> policy_snapshot thrown" where
  "policyFromRow row =
     (let revision = value_number (pr_revision row) in
      rbind (guard (safe_revision revision) ''REWARD_POLICY_INVALID_REVISION'') (\<lambda>_.
      rbind (parseJson (pr_rules row) ''rules'') (\<lambda>document.
      rbind (validateAwardRules document) (\<lambda>rules.
      rbind (isoUpdatedAt (pr_updated_at row)) (\<lambda>updatedAt.
      rbind (parseJson (pr_windows row) ''off_peak_windows'') (\<lambda>windows.
      rbind (validateOffPeakWindows windows) (\<lambda>ws.
      Inr \<lparr>ps_revision = revision_of revision, ps_updatedAt = updatedAt,
        ps_rules = rules\<lparr>ar_version := num_text revision\<rparr>, ps_windows = ws\<rparr>)))))))"

text \<open>A patch document; an absent one is \<open>JUndef\<close>. The validated parts are options.\<close>

definition validate_part :: "jsv \<Rightarrow> (jsv \<Rightarrow> 'a thrown) \<Rightarrow> 'a option thrown" where
  "validate_part v f = (if v = JUndef then Inr None else rbind (f v) (\<lambda>x. Inr (Some x)))"

definition validatePatch :: "policy_patch \<Rightarrow> (award_rules option \<times> window_config option) thrown" where
  "validatePatch patch =
     rbind (validate_part (pp_rules patch) validateAwardRules) (\<lambda>rules.
     rbind (validate_part (pp_windows patch) validateOffPeakWindows) (\<lambda>windows.
     rbind (guard (rules \<noteq> None \<or> windows \<noteq> None) ''REWARD_POLICY_EMPTY_PATCH'') (\<lambda>_.
     Inr (rules, windows))))"

subsection \<open>Documents\<close>

text \<open>The JSON documents the update writes, as the columns keep them.\<close>

definition rule_document :: "charge_rule \<Rightarrow> jsv" where
  "rule_document r = JObj [(''enabled'', JBool (cr_enabled r)),
     (''tokensPerKWh'', JNum (cr_tokensPerKWh r)), (''description'', JStr (cr_description r))]"

definition rules_document :: "award_rules \<Rightarrow> jsv" where
  "rules_document r = JObj [(''version'', JStr (ar_version r)),
     (''rules'', JObj [(''offPeakCharging'', rule_document (ar_offPeak r)),
                      (''v2gDischarge'', rule_document (ar_v2g r))]),
     (''idempotency'', JObj [(''deduplicationKey'', JArr (map JStr (ar_dedup r))),
                            (''description'', JStr (ar_dedupDescription r))])]"

definition range_document :: "time_range \<Rightarrow> jsv" where
  "range_document r = JObj [(''start'', JStr (tr_start r)), (''end'', JStr (tr_end r))]"

definition windows_document :: "window_config \<Rightarrow> jsv" where
  "windows_document ws = JObj (map (\<lambda>(c, rs). (c, JArr (map range_document rs))) ws)"

subsection \<open>Repository\<close>

definition policy_load :: "policy_row list \<Rightarrow> policy_snapshot thrown" where
  "policy_load table =
     rbind (of_option ''REWARD_POLICY_NOT_INITIALIZED''
       (first_where (\<lambda>r. pr_id r = REWARD_POLICY_ROW_ID) table)) policyFromRow"

definition policy_save :: "int \<Rightarrow> nat \<Rightarrow> award_rules \<Rightarrow> window_config \<Rightarrow> policy_row list \<Rightarrow> policy_row list" where
  "policy_save now revision rules windows table =
     update_where (\<lambda>r. pr_id r = REWARD_POLICY_ROW_ID)
       (\<lambda>r. r\<lparr>pr_revision := JNum (Fin (of_nat revision)), pr_rules := rules_document rules,
              pr_windows := windows_document windows, pr_updated_at := Some now\<rparr>) table"

text \<open>
  \<open>update\<close>: the transaction under the row lock. An error leaves the table as it was; a patch may
  be computed from the current snapshot.
\<close>

definition policy_update ::
    "int \<Rightarrow> (policy_snapshot \<Rightarrow> policy_patch) \<Rightarrow> policy_row list \<Rightarrow> (policy_row list \<times> policy_snapshot) thrown" where
  "policy_update now patch_of table =
     rbind (policy_load table) (\<lambda>current.
     rbind (validatePatch (patch_of current)) (\<lambda>(rules, windows).
     let next = ps_revision current + 1;
         nextRules = (case rules of Some r \<Rightarrow> r | None \<Rightarrow> ps_rules current)\<lparr>ar_version := nat_text next\<rparr>;
         nextWindows = (case windows of Some w \<Rightarrow> w | None \<Rightarrow> ps_windows current);
         saved = policy_save now next nextRules nextWindows table
     in rbind (of_option ''REWARD_POLICY_WRITE_FAILED''
          (first_where (\<lambda>r. pr_id r = REWARD_POLICY_ROW_ID) saved)) (\<lambda>row.
        rbind (policyFromRow row) (\<lambda>snapshot. Inr (saved, snapshot)))))"

definition getDefaultPolicySnapshot :: "string \<Rightarrow> policy_snapshot" where
  "getDefaultPolicySnapshot updatedAt =
     \<lparr>ps_revision = 1, ps_updatedAt = updatedAt, ps_rules = getDefaultAwardRules (Some 1),
      ps_windows = getDefaultOffPeakWindows\<rparr>"

end
