(* ===== verification/TokenAmount.thy ===== *)
theory TokenAmount
  imports Session
begin

text \<open>
  \<open>src/database/tokenOperation.ts\<close> and \<open>src/reservation.ts\<close>: canonical transaction hashes and
  token amounts, the asset context of a movement, the operation keys and intent fingerprints, and
  the split of a reservation into what is settled and what is released. SHA-256 is the parameter
  \<open>sha256\<close> (the hex digest of a text); nothing is assumed of it.
\<close>

datatype token_error =
    INVALID_TRANSACTION_HASH string
  | TX_HASH_AMBIGUOUS_REVIEW string
  | UNSUPPORTED_TOKEN_PRECISION
  | CHAIN_CONTEXT_UNAVAILABLE string
  | CONFIGURED_CHAIN_MISMATCH string string
  | SIGNER_ADDRESS_UNAVAILABLE string
  | RESERVED_SPARKZ_INVALID
  | DELIVERED_KWH_INVALID

subsection \<open>Transaction hashes\<close>

definition is_tx_hash :: "string \<Rightarrow> bool" where
  "is_tx_hash t \<longleftrightarrow> length t = 66 \<and> take 2 t = ''0x'' \<and> list_all is_hex (drop 2 t)"

definition canonicalTransactionHash :: "jsv \<Rightarrow> string option" where
  "canonicalTransactionHash v =
     (case v of
        JStr s \<Rightarrow> (let trimmed = js_trim s in if is_tx_hash trimmed then Some (js_lower trimmed) else None)
      | _ \<Rightarrow> None)"

definition requireCanonicalTransactionHash :: "jsv \<Rightarrow> string \<Rightarrow> token_error + string" where
  "requireCanonicalTransactionHash v fld = of_option (INVALID_TRANSACTION_HASH fld) (canonicalTransactionHash v)"

definition requireUnambiguousTransactionMatch :: "'r list \<Rightarrow> string \<Rightarrow> token_error + 'r option" where
  "requireUnambiguousTransactionMatch matches projection =
     (if length matches > 1 then Inl (TX_HASH_AMBIGUOUS_REVIEW projection)
      else Inr (case matches of [] \<Rightarrow> None | m # _ \<Rightarrow> Some m))"

subsection \<open>Amounts\<close>

record canonical_amount =
  units :: nat
  decimal :: string
  amount_value :: js_number

definition decimalText :: "jsv \<Rightarrow> string option" where
  "decimalText v =
     (case v of
        JNum n \<Rightarrow> if is_finite n then Some (num_text n) else None
      | JStr s \<Rightarrow> (let trimmed = js_trim s in if trimmed = [] then None else Some trimmed)
      | _ \<Rightarrow> None)"

fun strip_leading_zeros :: "string \<Rightarrow> string" where
  "strip_leading_zeros (c # d # r) =
     (if c = CHR ''0'' \<and> is_digit d then strip_leading_zeros (d # r) else c # d # r)"
| "strip_leading_zeros s = s"

definition decimalParts :: "jsv \<Rightarrow> (string \<times> string) option" where
  "decimalParts v =
     (case decimalText v of
        None \<Rightarrow> None
      | Some t \<Rightarrow>
          (case split_first (CHR ''.'') t of
             (w, None) \<Rightarrow> if w \<noteq> [] \<and> list_all is_digit w then Some (strip_leading_zeros w, []) else None
           | (w, Some f) \<Rightarrow>
               if w \<noteq> [] \<and> list_all is_digit w \<and> f \<noteq> [] \<and> list_all is_digit f
               then Some (strip_leading_zeros w, f) else None))"

definition two_decimals :: "string \<Rightarrow> string" where
  "two_decimals f = take 2 (f @ ''00'')"

definition amount_of_parts :: "string \<Rightarrow> string \<Rightarrow> canonical_amount" where
  "amount_of_parts w f =
     (let u = digits_val w * 100 + digits_val (two_decimals f)
      in \<lparr>units = u, decimal = w @ ''.'' @ two_decimals f, amount_value = units_number u\<rparr>)"

definition canonicalTokenAmount :: "jsv \<Rightarrow> canonical_amount option" where
  "canonicalTokenAmount v =
     (case decimalParts v of
        None \<Rightarrow> None
      | Some (w, f) \<Rightarrow> if length f > 2 then None else Some (amount_of_parts w f))"

definition truncateTokenAmount :: "jsv \<Rightarrow> canonical_amount option" where
  "truncateTokenAmount v =
     (case decimalParts v of None \<Rightarrow> None | Some (w, f) \<Rightarrow> Some (amount_of_parts w f))"

text \<open>The text of a \<open>numeric(20, 2)\<close> column holding \<open>u\<close> cents, as the driver returns it.\<close>

definition numeric2_text :: "nat \<Rightarrow> string" where
  "numeric2_text u = nat_text (u div 100) @ ''.'' @ [digit_char (u div 10 mod 10), digit_char (u mod 10)]"

subsection \<open>Asset context\<close>

record asset_context =
  tokenContractAddress :: string
  ac_chainId :: string
  ac_treasuryAddress :: "string option"
  ac_signerAddress :: string

record token_env =
  env_token_contract :: "string option"
  env_chain_id :: "string option"
  env_treasury_address :: "string option"

definition nonempty :: "string option \<Rightarrow> string option" where
  "nonempty x = (case x of Some s \<Rightarrow> if s = [] then None else Some s | None \<Rightarrow> None)"

definition token_contract_of :: "token_env \<Rightarrow> string" where
  "token_contract_of env = js_lower (case nonempty (env_token_contract env) of
     Some c \<Rightarrow> c | None \<Rightarrow> ''0x605871D30DC278a036F09e2ace771df8a224624B'')"

definition treasury_of :: "string option \<Rightarrow> token_env \<Rightarrow> string \<Rightarrow> string option" where
  "treasury_of configured env signer =
     (case nonempty configured of
        Some t \<Rightarrow> Some (js_lower t)
      | None \<Rightarrow> (case nonempty (env_treasury_address env) of
            Some t \<Rightarrow> Some (js_lower t)
          | None \<Rightarrow> map_option js_lower (nonempty (Some signer))))"

definition verified_chain :: "token_env \<Rightarrow> string \<Rightarrow> token_error + string" where
  "verified_chain env chain =
     (case nonempty (env_chain_id env) of
        None \<Rightarrow> Inr chain
      | Some configured \<Rightarrow>
          if chain \<noteq> configured then Inl (CONFIGURED_CHAIN_MISMATCH configured chain) else Inr chain)"

text \<open>
  \<open>provider\<close> is \<open>None\<close> for a signer without provider, otherwise the outcome of \<open>getNetwork\<close> after
  read retries (the chain id, or the failure's message); \<open>address\<close> is the outcome of
  \<open>getAddress\<close>.
\<close>

definition getTokenAssetContext ::
    "token_env \<Rightarrow> (string + nat) option \<Rightarrow> string + string \<Rightarrow> string option \<Rightarrow> token_error + asset_context" where
  "getTokenAssetContext env provider address configuredTreasury =
     rbind (of_option (CHAIN_CONTEXT_UNAVAILABLE ''signer provider is required to verify the configured chain'') provider)
     (\<lambda>network.
     rbind (case network of
              Inl msg \<Rightarrow> Inl (CHAIN_CONTEXT_UNAVAILABLE msg)
            | Inr chainId \<Rightarrow> verified_chain env (nat_text chainId))
     (\<lambda>chain.
     rbind (case address of Inl msg \<Rightarrow> Inl (SIGNER_ADDRESS_UNAVAILABLE msg) | Inr a \<Rightarrow> Inr (js_lower a))
     (\<lambda>signer.
     Inr \<lparr>tokenContractAddress = token_contract_of env, ac_chainId = chain,
          ac_treasuryAddress = treasury_of configuredTreasury env signer, ac_signerAddress = signer\<rparr>)))"

datatype context_mismatch =
    Context_Unavailable
  | Context_Incomplete
  | Contract_Changed string string
  | Chain_Changed string string
  | Treasury_Changed "string option" "string option"
  | Signer_Changed string string

definition string_field :: "js_object \<Rightarrow> string \<Rightarrow> string option" where
  "string_field ob k = (case field ob k of JStr s \<Rightarrow> Some (js_lower s) | _ \<Rightarrow> None)"

definition assetContextMismatch :: "js_object option \<Rightarrow> asset_context \<Rightarrow> context_mismatch option" where
  "assetContextMismatch intent current =
     (case (case intent of None \<Rightarrow> JUndef | Some i \<Rightarrow> field i ''assetContext'') of
        JObj asset \<Rightarrow>
          (let storedContract = nonempty (string_field asset ''tokenContractAddress'');
               chainField = field asset ''chainId'';
               storedTreasury = (case field asset ''treasuryAddress'' of
                  JStr s \<Rightarrow> Some (Some (js_lower s)) | JNull \<Rightarrow> Some None | _ \<Rightarrow> None);
               storedSigner = nonempty (string_field asset ''signerAddress'');
               currentTreasury = map_option js_lower (nonempty (ac_treasuryAddress current))
           in case (storedContract, storedTreasury, storedSigner) of
                (Some contract, Some treasury, Some signer) \<Rightarrow>
                  if is_nullish chainField then Some Context_Incomplete
                  else if contract \<noteq> js_lower (tokenContractAddress current)
                  then Some (Contract_Changed contract (tokenContractAddress current))
                  else if js_string chainField \<noteq> [] \<and> js_string chainField \<noteq> ac_chainId current
                  then Some (Chain_Changed (js_string chainField) (ac_chainId current))
                  else if treasury \<noteq> currentTreasury then Some (Treasury_Changed treasury currentTreasury)
                  else if signer \<noteq> js_lower (ac_signerAddress current)
                  then Some (Signer_Changed signer (ac_signerAddress current))
                  else None
              | _ \<Rightarrow> Some Context_Incomplete)
      | JArr _ \<Rightarrow> Some Context_Incomplete
      | _ \<Rightarrow> Some Context_Unavailable)"

text \<open>The asset context as it is stored with an operation's intent.\<close>

definition asset_json :: "asset_context \<Rightarrow> jsv" where
  "asset_json c = JObj [(''tokenContractAddress'', JStr (tokenContractAddress c)), (''chainId'', JStr (ac_chainId c)),
     (''treasuryAddress'', case ac_treasuryAddress c of None \<Rightarrow> JNull | Some t \<Rightarrow> JStr t),
     (''signerAddress'', JStr (ac_signerAddress c))]"

subsection \<open>Operation keys and fingerprints\<close>

definition delimited_pair :: "string \<Rightarrow> string \<Rightarrow> string" where
  "delimited_pair a b = nat_text (length a) @ '':'' @ a @ nat_text (length b) @ '':'' @ b"

definition tokenIntentFingerprint :: "(string \<Rightarrow> string) \<Rightarrow> jsv \<Rightarrow> string" where
  "tokenIntentFingerprint sha256 v = sha256 (case canonicalize v of None \<Rightarrow> ''undefined'' | Some t \<Rightarrow> t)"

definition awardOperationKey :: "(string \<Rightarrow> string) \<Rightarrow> string \<Rightarrow> string \<Rightarrow> string" where
  "awardOperationKey sha256 provider session_id = ''award:'' @ sha256 (delimited_pair provider session_id)"

definition reservationOperationKey :: "string \<Rightarrow> string" where
  "reservationOperationKey reservation = ''reservation:'' @ reservation"

definition spendOperationKey :: "(string \<Rightarrow> string) \<Rightarrow> string \<Rightarrow> string \<Rightarrow> string" where
  "spendOperationKey sha256 u idempotency = ''spend:'' @ sha256 (delimited_pair u idempotency)"

definition award_intent :: "session \<Rightarrow> string \<Rightarrow> jsv" where
  "award_intent s wallet = JObj [
     (''providerId'', JStr (providerId s)), (''sessionId'', JStr (sessionId s)), (''uid'', JStr (uid s)),
     (''walletAddress'', JStr (js_lower wallet)), (''evseId'', JStr (evseId s)),
     (''startTime'', JStr (iso_text (startTime s))), (''endTime'', JStr (iso_text (endTime s))),
     (''energyKWh'', JNum (energyKWh s)), (''energyDirection'', JStr (direction_text (energyDirection s))),
     (''cdrId'', nullable (cdrId s)), (''reservationSessionId'', nullable (reservationSessionId s)),
     (''timeZone'', nullable (timeZone s)),
     (''timeZoneSource'', nullable (map_option source_text (timeZoneSource s)))]"

text \<open>The amount is an argument of \<open>awardIntentFingerprint\<close> that the fingerprint leaves out.\<close>

definition awardIntentFingerprint :: "(string \<Rightarrow> string) \<Rightarrow> session \<Rightarrow> js_number \<Rightarrow> string \<Rightarrow> string" where
  "awardIntentFingerprint sha256 s amount wallet = tokenIntentFingerprint sha256 (award_intent s wallet)"

record spend_intent =
  si_uid :: string
  si_wallet :: string
  si_amount :: js_number
  si_sessionId :: "string option"
  si_providerId :: "string option"
  si_reservationId :: "string option"

definition spend_intent_json :: "spend_intent \<Rightarrow> string \<Rightarrow> jsv" where
  "spend_intent_json i amount_text = JObj [
     (''uid'', JStr (si_uid i)), (''walletAddress'', JStr (js_lower (si_wallet i))), (''amount'', JStr amount_text),
     (''sessionId'', nullable (si_sessionId i)), (''providerId'', nullable (si_providerId i)),
     (''reservationId'', nullable (si_reservationId i))]"

definition spendIntentFingerprint :: "(string \<Rightarrow> string) \<Rightarrow> spend_intent \<Rightarrow> token_error + string" where
  "spendIntentFingerprint sha256 i =
     rbind (of_option UNSUPPORTED_TOKEN_PRECISION (canonicalTokenAmount (JNum (si_amount i))))
     (\<lambda>a. Inr (tokenIntentFingerprint sha256 (spend_intent_json i (decimal a))))"

subsection \<open>Settling a reservation\<close>

record settlement =
  settledAmount :: js_number
  releasedAmount :: js_number

definition calculateReservationSettlement :: "js_number \<Rightarrow> js_number \<Rightarrow> token_error + settlement" where
  "calculateReservationSettlement reservedSparkz deliveredKwh =
     rbind (of_option RESERVED_SPARKZ_INVALID (canonicalTokenAmount (JNum reservedSparkz))) (\<lambda>reserved.
     rbind (of_option DELIVERED_KWH_INVALID (truncateTokenAmount (JNum deliveredKwh))) (\<lambda>delivered.
     (let settledUnits = min (units reserved) (units delivered);
          releasedUnits = units reserved - settledUnits
      in Inr \<lparr>settledAmount = units_number settledUnits, releasedAmount = units_number releasedUnits\<rparr>)))"

subsection \<open>Reading amounts\<close>

lemma digits_val_less: "list_all is_digit s \<Longrightarrow> digits_val s < 10 ^ length s"
proof (induction s rule: rev_induct)
  case (snoc c s)
  then have "digit_val c < 10" "digits_val s < 10 ^ length s"
    by (auto simp: digit_val_def is_digit_def)
  then show ?case by simp
qed simp

lemma digits_val_Cons: "digits_val (c # s) = digit_val c * 10 ^ length s + digits_val s"
  using digits_val_append [of "[c]" s] by (simp add: digits_val_def)

lemma digits_val_strip [simp]: "digits_val (strip_leading_zeros w) = digits_val w"
proof (induction w rule: strip_leading_zeros.induct)
  case (1 c d r)
  then show ?case by (simp add: digits_val_Cons [of c] digit_val_def)
qed simp_all

lemma two_decimals_val:
  assumes "list_all is_digit f"
  shows "int (digits_val w * 100 + digits_val (two_decimals f))
    = \<lfloor>(of_nat (digits_val (w @ f)) / 10 ^ length f) * 100 :: rat\<rfloor>"
proof (cases "length f \<le> 2")
  case True
  then consider "f = []" | c where "f = [c]" | c d where "f = [c, d]"
    by (cases f; cases "tl f"; cases "tl (tl f)") auto
  then have "(of_nat (digits_val (w @ f)) / 10 ^ length f) * (100 :: rat)
    = of_nat (digits_val w * 100 + digits_val (two_decimals f))"
    by cases (simp_all add: two_decimals_def digits_val_append digits_val_Cons digit_val_def power2_eq_square)
  then show ?thesis by (simp only: floor_of_nat)
next
  case False
  define a b where "a = take 2 f" and "b = drop 2 f"
  have f: "f = a @ b" and la: "length a = 2" using False by (simp_all add: a_def b_def)
  have two: "two_decimals f = a" using False by (simp add: two_decimals_def a_def)
  have "list_all is_digit b" using assms f by (simp add: list_all_iff)
  then have b: "digits_val b < 10 ^ length b" by (rule digits_val_less)
  have "(of_nat (digits_val (w @ f)) / 10 ^ length f) * 100
      = of_nat (digits_val (w @ a)) + of_nat (digits_val b) / (10 ^ length b :: rat)"
    by (simp add: f la digits_val_append [of "w @ a" b, simplified] power_add add_divide_distrib
        distrib_right)
  moreover have "(of_nat (digits_val b) :: rat) < 10 ^ length b"
    using b by (metis of_nat_less_iff of_nat_numeral of_nat_power)
  then have "\<lfloor>of_nat (digits_val (w @ a)) + of_nat (digits_val b) / (10 ^ length b :: rat)\<rfloor>
      = int (digits_val (w @ a))"
    by (intro floor_unique) simp_all
  ultimately have "\<lfloor>(of_nat (digits_val (w @ f)) / 10 ^ length f) * 100 :: rat\<rfloor> = int (digits_val (w @ a))"
    by (simp only:)
  then show ?thesis by (simp add: two digits_val_append la)
qed

lemma decimalParts_shape:
  assumes t: "decimalText x = Some t" and v: "decimal_shape t v"
  shows "\<exists>w f. decimalParts x = Some (strip_leading_zeros w, f) \<and> list_all is_digit f
    \<and> of_nat (digits_val (w @ f)) / 10 ^ length f = v \<and> (f \<noteq> [] \<longrightarrow> last f \<noteq> CHR ''0'')"
proof -
  obtain w f where wf: "t = (if f = [] then w else w @ ''.'' @ f)" "w \<noteq> []" "list_all is_digit w"
    "list_all is_digit f" "of_nat (digits_val (w @ f)) / 10 ^ length f = v" "f \<noteq> [] \<longrightarrow> last f \<noteq> CHR ''0''"
    using v unfolding decimal_shape_def by blast
  have dot: "CHR ''.'' \<notin> set w" using wf(3) by (auto simp: list_all_iff is_digit_def)
  have "decimalParts x = Some (strip_leading_zeros w, f)"
    using wf dot t by (cases "f = []") (auto simp: decimalParts_def)
  with wf show ?thesis by blast
qed

lemma units_number_Fin:
  assumes "u < 10 ^ 13"
  shows "units_number u = Fin (fl (of_nat u / 100))"
proof -
  have a: "\<bar>int u\<bar> \<le> 2 ^ 53" using assms by simp
  have i: "js_of_rat (of_int (int u)) = Fin (of_nat u)"
    using fl_of_int [OF a] assms by (simp add: js_of_rat_def Let_def)
  have "fl (of_nat u / 100) \<le> fl (of_int (10 ^ 13))" using assms by (intro fl_mono) simp
  moreover have "fl (of_int (10 ^ 13)) = of_int (10 ^ 13)" by (rule fl_of_int) simp
  moreover have "0 \<le> fl (of_nat u / 100)" by (intro fl_nonneg) simp
  ultimately show ?thesis unfolding units_number_def i by (simp add: js_of_rat_def Let_def)
qed

lemma decimalText_cents:
  assumes "u < 10 ^ 13"
  shows "\<exists>t. decimalText (JNum (units_number u)) = Some t \<and> decimal_shape t (of_nat u / 100)"
proof (cases "u = 0")
  case True
  have "decimal_shape ''0'' 0" unfolding decimal_shape_def
    by (rule_tac x = "''0''" in exI, rule_tac x = "[]" in exI) (simp add: digits_val_def digit_val_def)
  with True assms show ?thesis by (simp add: units_number_Fin decimalText_def is_finite_def)
next
  case False
  have n0: "0 \<le> fl (of_nat u / 100 :: rat)" by (intro fl_nonneg) simp
  have "fl (1 / 2 ^ 10) \<le> fl (of_nat u / 100 :: rat)" using False by (intro fl_mono) (simp add: field_simps)
  moreover have "fl (1 / 2 ^ 10) = 1 / (2 ^ 10)"
    by (rule fl_exact [where m = 1 and k = "-10"]) (simp_all add: power_int_def power_one_over)
  ultimately have "fl (of_nat u / 100 :: rat) > 0" by (simp add: order.strict_trans2)
  with False assms cents_text [of u] show ?thesis
    by (simp add: units_number_Fin decimalText_def is_finite_def)
qed

lemma short_fraction:
  assumes f: "list_all is_digit f" "f \<noteq> [] \<longrightarrow> last f \<noteq> CHR ''0''"
    and v: "of_nat (digits_val (w @ f)) / 10 ^ length f = (of_nat u / 100 :: rat)"
  shows "length f \<le> 2"
proof (rule ccontr)
  assume "\<not> length f \<le> 2"
  then obtain k where k: "length f = k + 3" using less_iff_Suc_add [of 2 "length f"] by auto
  then obtain g c where g: "f = g @ [c]" by (cases f rule: rev_exhaust) auto
  have "(of_nat (digits_val (w @ f)) * 100 :: rat) = of_nat u * 10 ^ length f" using v
    by (simp add: divide_eq_eq)
  then have "digits_val (w @ f) * 100 = u * 10 ^ length f"
    by (metis (mono_tags, opaque_lifting) of_nat_eq_iff of_nat_mult of_nat_numeral of_nat_power)
  then have "digits_val (w @ f) = u * 10 ^ k * 10" using k by (simp add: power_add)
  moreover have "digits_val (w @ f) = 10 * digits_val (w @ g) + digit_val c"
    using digits_val_snoc [of "w @ g" c] by (simp add: g)
  moreover have "digit_val c < 10" using f(1) g by (auto simp: digit_val_def is_digit_def)
  ultimately have "digit_val c = 0" by presburger
  then have "of_char c = (48 :: nat)" using f(1) g by (auto simp: digit_val_def is_digit_def)
  then have "c = char_of (48 :: nat)" by (rule char_of_eqI [symmetric])
  also have "\<dots> = CHR ''0''" by code_simp
  finally have "c = CHR ''0''" .
  then show False using f(2) g by simp
qed

subsection \<open>The canonical form is unique\<close>

fun no_leading_zero :: "string \<Rightarrow> bool" where
  "no_leading_zero (c # d # r) \<longleftrightarrow> c \<noteq> CHR ''0''"
| "no_leading_zero s \<longleftrightarrow> True"

lemma strip_leading_zeros_shape:
  "list_all is_digit w \<Longrightarrow> no_leading_zero (strip_leading_zeros w) \<and> list_all is_digit (strip_leading_zeros w)
     \<and> (w \<noteq> [] \<longrightarrow> strip_leading_zeros w \<noteq> [])"
  by (induction w rule: strip_leading_zeros.induct) auto

lemma digit_char_digit_val: "is_digit c \<Longrightarrow> digit_char (digit_val c) = c"
  by (simp add: digit_char_def digit_val_def is_digit_def)

lemma digit_val_less: "is_digit c \<Longrightarrow> digit_val c < 10"
  by (auto simp: digit_val_def is_digit_def)

lemma nat_text_digits_val:
  "list_all is_digit w \<Longrightarrow> w \<noteq> [] \<Longrightarrow> no_leading_zero w \<Longrightarrow> nat_text (digits_val w) = w"
proof (induction w rule: rev_induct)
  case (snoc c s)
  have c: "is_digit c" "digit_val c < 10" using snoc.prems by (auto simp: digit_val_less)
  show ?case
  proof (cases "s = []")
    case True
    with c show ?thesis by (simp add: nat_text.simps digits_val_def digit_char_digit_val)
  next
    case False
    have nz: "no_leading_zero s" using snoc.prems(3) False by (cases s; cases "tl s") auto
    have ih: "nat_text (digits_val s) = s" using snoc False nz by simp
    have "digits_val s \<noteq> 0"
    proof
      assume z: "digits_val s = 0"
      then have "s = ''0''" using ih by (simp add: nat_text.simps)
      then show False using snoc.prems(3) by simp
    qed
    then show ?thesis using c ih by (simp add: nat_text.simps [of "10 * digits_val s + digit_val c"] digit_char_digit_val)
  qed
qed simp

lemma two_decimals_digits:
  assumes "list_all is_digit f"
  shows "two_decimals f = [digit_char (digits_val (two_decimals f) div 10), digit_char (digits_val (two_decimals f) mod 10)]"
    and "digits_val (two_decimals f) < 100"
proof -
  obtain a b where ab: "two_decimals f = [a, b]" "is_digit a" "is_digit b"
    using assms by (cases f; cases "tl f") (auto simp: two_decimals_def)
  then show "two_decimals f = [digit_char (digits_val (two_decimals f) div 10), digit_char (digits_val (two_decimals f) mod 10)]"
    and "digits_val (two_decimals f) < 100"
    using digit_val_less [of a] digit_val_less [of b]
    by (simp_all add: digits_val_def digit_char_digit_val)
qed

lemma decimalParts_digits:
  "decimalParts x = Some (w, f) \<Longrightarrow> list_all is_digit w \<and> w \<noteq> [] \<and> no_leading_zero w \<and> list_all is_digit f"
  by (auto simp: decimalParts_def strip_leading_zeros_shape split: option.splits prod.splits if_splits)

lemma amount_of_parts_canonical:
  assumes "decimalParts x = Some (w, f)"
  shows "amount_of_parts w f = \<lparr>units = units (amount_of_parts w f),
    decimal = numeric2_text (units (amount_of_parts w f)),
    amount_value = units_number (units (amount_of_parts w f))\<rparr>"
proof -
  have d: "list_all is_digit w" "w \<noteq> []" "no_leading_zero w" "list_all is_digit f"
    using decimalParts_digits [OF assms] by auto
  define t where "t = digits_val (two_decimals f)"
  have t: "two_decimals f = [digit_char (t div 10), digit_char (t mod 10)]" "t < 100"
    using two_decimals_digits [OF d(4)] by (simp_all add: t_def)
  have e: "digits_val w * 100 + t = t + (digits_val w * 10) * 10" by simp
  have "(digits_val w * 100 + t) div 10 = digits_val w * 10 + t div 10"
    unfolding e by (subst div_mult_self1) simp_all
  moreover have "t div 10 < 10" using t(2) by (simp add: less_mult_imp_div_less)
  ultimately have "(digits_val w * 100 + t) div 10 mod 10 = t div 10" by simp
  moreover have "(digits_val w * 100 + t) mod 10 = t mod 10"
    unfolding e by (rule mod_mult_self1)
  moreover have "(digits_val w * 100 + t) div 100 = digits_val w" using t(2) by simp
  ultimately show ?thesis using t(1) nat_text_digits_val [OF d(1-3)]
    unfolding amount_of_parts_def Let_def t_def [symmetric] by (simp add: numeric2_text_def)
qed

lemma canonicalTokenAmount_form:
  assumes "canonicalTokenAmount x = Some a"
  shows "a = \<lparr>units = units a, decimal = numeric2_text (units a), amount_value = units_number (units a)\<rparr>"
proof -
  obtain w f where "decimalParts x = Some (w, f)" "a = amount_of_parts w f"
    using assms by (auto simp: canonicalTokenAmount_def split: option.splits prod.splits if_splits)
  then show ?thesis by (simp only:) (rule amount_of_parts_canonical)
qed

lemma js_trim_id: "list_all (\<lambda>c. \<not> js_space c) s \<Longrightarrow> js_trim s = s"
proof -
  assume a: "list_all (\<lambda>c. \<not> js_space c) s"
  have d: "dropWhile js_space t = t" if "list_all (\<lambda>c. \<not> js_space c) t" for t
    using that by (cases t) auto
  show "js_trim s = s" using a d [of s] d [of "rev s"] by (simp add: js_trim_def list_all_iff)
qed

lemma decimalText_JStr: "s \<noteq> [] \<Longrightarrow> list_all (\<lambda>c. \<not> js_space c) s \<Longrightarrow> decimalText (JStr s) = Some s"
  by (simp add: decimalText_def js_trim_id)

lemma numeric2_no_space: "list_all (\<lambda>c. \<not> js_space c) (numeric2_text u)"
proof -
  let ?f = "[digit_char (u div 10 mod 10), digit_char (u mod 10)]"
  have "list_all is_digit (nat_text (u div 100))" "list_all is_digit ?f"
    by (rule nat_text_digits) simp
  then have "list_all (\<lambda>c. \<not> js_space c) (nat_text (u div 100))" "list_all (\<lambda>c. \<not> js_space c) ?f"
    by (simp_all add: list_all_iff is_digit_not_space del: digit_char_val)
  moreover have "\<not> js_space CHR ''.''" by (simp add: js_space_def)
  ultimately show ?thesis by (simp add: numeric2_text_def)
qed

lemmas js_trim_numeric2 [simp] = js_trim_id [OF numeric2_no_space]

lemma numeric2_text_parts:
  "decimalParts (JStr (numeric2_text u)) = Some (nat_text (u div 100), [digit_char (u div 10 mod 10), digit_char (u mod 10)])"
proof -
  let ?f = "[digit_char (u div 10 mod 10), digit_char (u mod 10)]"
  have dig: "list_all is_digit (nat_text (u div 100))" "list_all is_digit ?f"
    by (rule nat_text_digits) simp
  have nz: "strip_leading_zeros (nat_text n) = nat_text n" for n
  proof -
    define w where "w = strip_leading_zeros (nat_text n)"
    have "no_leading_zero w" "list_all is_digit w" "w \<noteq> []"
      using strip_leading_zeros_shape [OF nat_text_digits [of n]] by (auto simp: w_def)
    then have "nat_text (digits_val w) = w" by (intro nat_text_digits_val)
    then show ?thesis by (simp add: w_def)
  qed
  have "list_all (\<lambda>c. \<not> js_space c) (numeric2_text u)" by (rule numeric2_no_space)
  then have "decimalText (JStr (numeric2_text u)) = Some (numeric2_text u)"
    by (intro decimalText_JStr) (simp_all add: numeric2_text_def)
  moreover have "CHR ''.'' \<notin> set (nat_text (u div 100))" by (rule not_in_nat_text) (simp add: is_digit_def)
  ultimately show ?thesis using dig nz by (simp add: decimalParts_def numeric2_text_def)
qed

lemma canonicalTokenAmount_text:
  "canonicalTokenAmount (JStr (numeric2_text u)) = Some \<lparr>units = u, decimal = numeric2_text u, amount_value = units_number u\<rparr>"
proof -
  define f where "f = [digit_char (u div 10 mod 10), digit_char (u mod 10)]"
  have "digits_val f = 10 * (u div 10 mod 10) + u mod 10" by (simp add: f_def digits_val_def)
  moreover have "100 * (u div 100) + (10 * (u div 10 mod 10) + u mod 10) = u"
    unfolding div_mult2_eq [of u 10 10, simplified]
    using mult_div_mod_eq [of 10 u] mult_div_mod_eq [of 10 "u div 10"] by linarith
  moreover have "two_decimals f = f" by (simp add: two_decimals_def f_def)
  ultimately have "units (amount_of_parts (nat_text (u div 100)) f) = u"
    by (simp add: amount_of_parts_def Let_def mult.commute)
  moreover have "canonicalTokenAmount (JStr (numeric2_text u)) = Some (amount_of_parts (nat_text (u div 100)) f)"
    by (simp add: canonicalTokenAmount_def numeric2_text_parts f_def)
  ultimately show ?thesis using canonicalTokenAmount_form by fastforce
qed

subsection \<open>Properties\<close>

lemma cents_number:
  assumes "u < 10 ^ 13"
  shows "canonicalTokenAmount (JNum (units_number u)) = Some \<lparr>units = u, decimal = numeric2_text u, amount_value = units_number u\<rparr>"
proof -
  obtain t where "decimalText (JNum (units_number u)) = Some t" "decimal_shape t (of_nat u / 100)"
    using decimalText_cents [OF assms] by blast
  then obtain w f where wf: "decimalParts (JNum (units_number u)) = Some (strip_leading_zeros w, f)" "list_all is_digit f"
    "of_nat (digits_val (w @ f)) / 10 ^ length f = (of_nat u / 100 :: rat)" "f \<noteq> [] \<longrightarrow> last f \<noteq> CHR ''0''"
    using decimalParts_shape by blast
  have "length f \<le> 2" using short_fraction wf(2-4) by blast
  then have c: "canonicalTokenAmount (JNum (units_number u)) = Some (amount_of_parts (strip_leading_zeros w) f)"
    using wf(1) by (simp add: canonicalTokenAmount_def)
  have "int (units (amount_of_parts (strip_leading_zeros w) f)) = \<lfloor>(of_nat u / 100) * 100 :: rat\<rfloor>"
    using two_decimals_val [OF wf(2), of w] unfolding wf(3) by (simp add: amount_of_parts_def Let_def)
  then have "units (amount_of_parts (strip_leading_zeros w) f) = u" by simp
  with c canonicalTokenAmount_form [OF c] show ?thesis by (simp only:)
qed

lemma cents_truncate:
  assumes "u < 10 ^ 13"
  shows "truncateTokenAmount (JNum (units_number u)) = Some \<lparr>units = u, decimal = numeric2_text u, amount_value = units_number u\<rparr>"
  using cents_number [OF assms]
  by (auto simp: canonicalTokenAmount_def truncateTokenAmount_def split: option.splits prod.splits if_splits)

lemma canonicalTokenAmount_idem:
  assumes "canonicalTokenAmount x = Some a"
  shows "canonicalTokenAmount (JStr (decimal a)) = Some a" and "amount_value a = units_number (units a)"
    and "decimal a = numeric2_text (units a)"
proof -
  note f = canonicalTokenAmount_form [OF assms]
  have g: "canonicalTokenAmount (JStr (numeric2_text (units a))) = Some a"
    using canonicalTokenAmount_text [of "units a"] f by (simp only:)
  show d: "decimal a = numeric2_text (units a)" by (rule arg_cong [where f = decimal, OF f, simplified])
  show "amount_value a = units_number (units a)" by (rule arg_cong [where f = amount_value, OF f, simplified])
  show "canonicalTokenAmount (JStr (decimal a)) = Some a" using g d by (simp only:)
qed

text \<open>
  A token amount that is accepted is in canonical form: the stored two-decimal text and, below
  10^13 cents, the JavaScript number derived from it both parse back to exactly the same amount, so
  no rounding happens between the API value, the database column and the number.
\<close>

theorem canonical_amount_roundtrip:
  assumes "canonicalTokenAmount x = Some a"
  shows "canonicalTokenAmount (JStr (decimal a)) = Some a
    \<and> (units a < 10 ^ 13 \<longrightarrow> canonicalTokenAmount (JNum (amount_value a)) = Some a)"
proof -
  have "canonicalTokenAmount (JNum (units_number (units a))) = Some a" if "units a < 10 ^ 13"
    using cents_number [OF that] canonicalTokenAmount_form [OF assms] by (simp only:)
  with canonicalTokenAmount_idem [OF assms] show ?thesis by simp
qed

theorem canonical_amount_roundtrip_witness:
  "canonicalTokenAmount (JStr (numeric2_text 725)) = Some \<lparr>units = 725, decimal = numeric2_text 725, amount_value = units_number 725\<rparr>
   \<and> canonicalTokenAmount (JNum (units_number 725)) = Some \<lparr>units = 725, decimal = numeric2_text 725, amount_value = units_number 725\<rparr>"
  using canonical_amount_roundtrip [OF canonicalTokenAmount_text [of 725]] by simp

text \<open>
  Truncation is the floor to two decimals: any decimal text with whole part \<open>w\<close> and fraction
  \<open>f\<close> gives the greatest number of cents not above its value, and never fails.
\<close>

theorem truncate_is_floor:
  assumes "decimalParts x = Some (w, f)"
  shows "\<exists>a. truncateTokenAmount x = Some a
    \<and> int (units a) = \<lfloor>of_nat (digits_val (w @ f)) / 10 ^ length f * 100 :: rat\<rfloor>
    \<and> decimal a = numeric2_text (units a)"
proof -
  have f: "list_all is_digit f" using decimalParts_digits [OF assms] by simp
  have "int (units (amount_of_parts w f)) = \<lfloor>of_nat (digits_val (w @ f)) / 10 ^ length f * 100 :: rat\<rfloor>"
    using two_decimals_val [OF f, of w] by (simp add: amount_of_parts_def Let_def)
  moreover have "decimal (amount_of_parts w f) = numeric2_text (units (amount_of_parts w f))"
    using amount_of_parts_canonical [OF assms] by (metis canonical_amount.select_convs(2))
  ultimately show ?thesis using assms by (simp add: truncateTokenAmount_def)
qed

theorem truncate_is_floor_witness:
  "\<exists>a. truncateTokenAmount (JStr ''3.149'') = Some a \<and> int (units a) = \<lfloor>3149 / 1000 * 100 :: rat\<rfloor>
    \<and> decimal a = numeric2_text (units a)"
proof -
  have "decimalParts (JStr ''3.149'') = Some (''3'', ''149'')" by code_simp
  from truncate_is_floor [OF this] show ?thesis by (simp add: digits_val_def digit_val_def)
qed

text \<open>
  Settling a reservation neither creates nor loses a cent: what is settled is the smaller of the
  reserved and the delivered amount, and the released amount is exactly the rest of the reservation.
\<close>

theorem settlement_conserves:
  assumes "u < 10 ^ 13" and "v < 10 ^ 13"
  shows "\<exists>s. calculateReservationSettlement (units_number u) (units_number v) = Inr s
    \<and> (\<exists>a b. canonicalTokenAmount (JNum (settledAmount s)) = Some a
         \<and> canonicalTokenAmount (JNum (releasedAmount s)) = Some b
         \<and> units a = min u v \<and> units a + units b = u)"
proof -
  note t = cents_truncate [OF assms(2)]
  have "calculateReservationSettlement (units_number u) (units_number v)
      = Inr \<lparr>settledAmount = units_number (min u v), releasedAmount = units_number (u - min u v)\<rparr>"
    using cents_number [OF assms(1)] t
    by (simp add: calculateReservationSettlement_def Let_def of_option_def)
  then show ?thesis using cents_number [of "min u v"] cents_number [of "u - min u v"] assms by auto
qed

theorem settlement_conserves_witness:
  "\<exists>s. calculateReservationSettlement (units_number 1000) (units_number 729) = Inr s
    \<and> (\<exists>a b. canonicalTokenAmount (JNum (settledAmount s)) = Some a
         \<and> canonicalTokenAmount (JNum (releasedAmount s)) = Some b
         \<and> units a = min 1000 729 \<and> units a + units b = 1000)"
  by (rule settlement_conserves) simp_all

lemma delimited_prefix:
  assumes "nat_text (length a) @ '':'' @ a @ x = nat_text (length b) @ '':'' @ b @ y"
  shows "a = b \<and> x = y"
proof -
  have nc: "CHR '':'' \<notin> set (nat_text n)" for n
    by (rule not_in_nat_text) (simp add: is_digit_def)
  have "split_first CHR '':'' (nat_text (length a) @ CHR '':'' # a @ x)
      = split_first CHR '':'' (nat_text (length b) @ CHR '':'' # b @ y)"
    using assms by simp
  then have "nat_text (length a) = nat_text (length b)" "a @ x = b @ y"
    unfolding split_first_append [OF nc] by simp_all
  then have "length a = length b" by (simp add: nat_text_inj)
  with \<open>a @ x = b @ y\<close> show ?thesis by simp
qed

lemma delimited_pair_inj: "delimited_pair a b = delimited_pair c d \<longleftrightarrow> a = c \<and> b = d"
  unfolding delimited_pair_def
  using delimited_prefix [of a "nat_text (length b) @ '':'' @ b" c "nat_text (length d) @ '':'' @ d"]
    delimited_prefix [of b "[]" d "[]"] by auto

text \<open>
  Operation keys identify their tuple: two award keys (or two spend keys) are equal exactly when
  the two identifiers are, unless SHA-256 itself collides on the two named length-delimited texts.
  The legacy deduplication text \<open>session-provider\<close> has no such property.
\<close>

theorem operation_keys_identify:
  assumes "inj_on sha256 {delimited_pair a b, delimited_pair c d}"
  shows "(awardOperationKey sha256 a b = awardOperationKey sha256 c d \<longleftrightarrow> a = c \<and> b = d)
    \<and> (spendOperationKey sha256 a b = spendOperationKey sha256 c d \<longleftrightarrow> a = c \<and> b = d)
    \<and> awardOperationKey sha256 a b \<noteq> spendOperationKey sha256 c d
    \<and> awardOperationKey sha256 a b \<noteq> reservationOperationKey r
    \<and> spendOperationKey sha256 c d \<noteq> reservationOperationKey r"
  using assms unfolding awardOperationKey_def spendOperationKey_def reservationOperationKey_def
  by (auto simp: delimited_pair_inj inj_on_def)

theorem operation_keys_identify_witness:
  "awardOperationKey id ''a-b'' ''c'' \<noteq> awardOperationKey id ''a'' ''b-c''
   \<and> join_with ''-'' [''a-b'', ''c''] = join_with ''-'' [''a'', ''b-c'']"
  using operation_keys_identify [of id "''a-b''" "''c''" "''a''" "''b-c''" "[]"] by simp

lemma award_key_inj:
  assumes "inj sha256"
  shows "awardOperationKey sha256 a b = awardOperationKey sha256 c d \<longleftrightarrow> a = c \<and> b = d"
  using assms delimited_pair_inj [of a b c d] by (auto simp: awardOperationKey_def dest: injD)

text \<open>The JSON of a nullable string is self-delimiting, as a string's is.\<close>

definition nullable_json :: "string option \<Rightarrow> string" where
  "nullable_json x = (case nonempty x of None \<Rightarrow> ''null'' | Some s \<Rightarrow> json_quote s)"

lemma canonicalize_nullable: "canonicalize (nullable x) = Some (nullable_json x)"
  by (cases x) (simp_all add: nullable_def nullable_json_def nonempty_def)

lemma nullable_json_prefix:
  "nullable_json x @ a = nullable_json y @ b \<Longrightarrow> nonempty x = nonempty y \<and> a = b"
proof -
  assume e: "nullable_json x @ a = nullable_json y @ b"
  have q: "json_quote s @ c \<noteq> ''null'' @ d" for s c d by (simp add: json_quote_def)
  show ?thesis
  proof (cases "nonempty x"; cases "nonempty y")
    fix s t assume "nonempty x = Some s" "nonempty y = Some t"
    with e show ?thesis using json_quote_prefix [of s a t b] by (simp add: nullable_json_def)
  next
    fix s assume "nonempty x = Some s" "nonempty y = None"
    with e show ?thesis using q [of s a b] by (simp add: nullable_json_def)
  next
    fix t assume "nonempty x = None" "nonempty y = Some t"
    with e show ?thesis using q [of t b a] by (simp add: nullable_json_def)
  qed (use e in \<open>simp add: nullable_json_def\<close>)
qed

lemma sort_six:
  "sort_key fst [(''uid'', a), (''walletAddress'', b), (''amount'', c), (''sessionId'', d), (''providerId'', e), (''reservationId'', f)]
   = [(''amount'', c), (''providerId'', e), (''reservationId'', f), (''sessionId'', d), (''uid'', a), (''walletAddress'', b)]"
  by simp

lemma canonicalize_spend:
  "canonicalize (spend_intent_json i t) = Some (CHR 0x7B # json_quote ''amount'' @ '':'' @ json_quote t @ '','' @
     json_quote ''providerId'' @ '':'' @ nullable_json (si_providerId i) @ '','' @
     json_quote ''reservationId'' @ '':'' @ nullable_json (si_reservationId i) @ '','' @
     json_quote ''sessionId'' @ '':'' @ nullable_json (si_sessionId i) @ '','' @
     json_quote ''uid'' @ '':'' @ json_quote (si_uid i) @ '','' @
     json_quote ''walletAddress'' @ '':'' @ json_quote (js_lower (si_wallet i)) @ [CHR 0x7D])"
  unfolding spend_intent_json_def canonicalize.simps list.map prod.case option.case canonicalize_nullable sort_six
  by (simp only: list.map prod.case join_with.simps append_assoc append_Cons append_Nil)

lemma fingerprint_inj:
  assumes "inj sha256" and "canonicalize v = Some s" and "canonicalize w = Some t"
    and "tokenIntentFingerprint sha256 v = tokenIntentFingerprint sha256 w"
  shows "canonicalize v = canonicalize w"
  using assms injD [OF assms(1), of s t] by (simp add: tokenIntentFingerprint_def)

lemma canonicalize_spend_inj:
  assumes "canonicalize (spend_intent_json i t) = canonicalize (spend_intent_json j t')"
  shows "t = t' \<and> nonempty (si_providerId i) = nonempty (si_providerId j)
    \<and> nonempty (si_reservationId i) = nonempty (si_reservationId j)
    \<and> nonempty (si_sessionId i) = nonempty (si_sessionId j)
    \<and> si_uid i = si_uid j \<and> js_lower (si_wallet i) = js_lower (si_wallet j)"
  using assms unfolding canonicalize_spend option.inject list.inject
  by (auto dest!: json_quote_prefix nullable_json_prefix)

text \<open>
  The fingerprint of a spend determines the intent it stands for: unless SHA-256 collides on the
  two serialised intents, equal fingerprints mean the same user, wallet (up to letter case), exact
  amount in cents, charging session, provider and reservation.
\<close>

theorem spend_fingerprint_determines:
  assumes "spendIntentFingerprint sha256 i = Inr f" and "spendIntentFingerprint sha256 j = Inr f"
    and "inj sha256"
  shows "si_uid i = si_uid j \<and> js_lower (si_wallet i) = js_lower (si_wallet j)
    \<and> map_option units (canonicalTokenAmount (JNum (si_amount i)))
      = map_option units (canonicalTokenAmount (JNum (si_amount j)))
    \<and> nonempty (si_sessionId i) = nonempty (si_sessionId j)
    \<and> nonempty (si_providerId i) = nonempty (si_providerId j)
    \<and> nonempty (si_reservationId i) = nonempty (si_reservationId j)"
proof -
  obtain a b where a: "canonicalTokenAmount (JNum (si_amount i)) = Some a"
    and b: "canonicalTokenAmount (JNum (si_amount j)) = Some b"
    and f: "tokenIntentFingerprint sha256 (spend_intent_json i (decimal a)) = f"
      "tokenIntentFingerprint sha256 (spend_intent_json j (decimal b)) = f"
    using assms(1,2) by (auto simp: spendIntentFingerprint_def rbind_Inr_iff)
  have "canonicalize (spend_intent_json i (decimal a)) = canonicalize (spend_intent_json j (decimal b))"
    by (rule fingerprint_inj [OF assms(3) canonicalize_spend canonicalize_spend]) (simp only: f)
  note c = canonicalize_spend_inj [OF this]
  have d: "decimal a = decimal b" using c by (rule conjunct1)
  have "Some a = Some b"
    using canonicalTokenAmount_idem(1) [OF a] canonicalTokenAmount_idem(1) [OF b] unfolding d by (rule trans [OF sym])
  then have "units a = units b" by (simp only: option.inject)
  with c show ?thesis unfolding a b option.map by blast
qed

theorem spend_fingerprint_determines_witness:
  "si_uid \<lparr>si_uid = ''DE*ABC'', si_wallet = ''0xAb'', si_amount = units_number 250, si_sessionId = None,
      si_providerId = None, si_reservationId = Some ''r1''\<rparr> = ''DE*ABC''"
proof -
  define i where "i = \<lparr>si_uid = ''DE*ABC'', si_wallet = ''0xAb'', si_amount = units_number 250, si_sessionId = None,
      si_providerId = None, si_reservationId = Some ''r1''\<rparr>"
  define j where "j = \<lparr>si_uid = ''DE*ABC'', si_wallet = ''0xAB'', si_amount = units_number 250, si_sessionId = Some [],
      si_providerId = None, si_reservationId = Some ''r1''\<rparr>"
  have a: "canonicalTokenAmount (JNum (units_number 250)) = Some \<lparr>units = 250, decimal = numeric2_text 250, amount_value = units_number 250\<rparr>"
    by (rule cents_number) simp
  obtain f where f: "spendIntentFingerprint id i = Inr f"
    using a by (simp add: spendIntentFingerprint_def i_def of_option_def)
  have lower: "js_lower ''0xAb'' = js_lower ''0xAB''" by code_simp
  have "spend_intent_json j t = spend_intent_json i t" for t
    unfolding spend_intent_json_def i_def j_def using lower by (simp add: nullable_def)
  then have "spendIntentFingerprint id j = Inr f"
    using f by (simp add: spendIntentFingerprint_def) (simp add: i_def j_def)
  then have "si_uid i = si_uid j" using spend_fingerprint_determines [OF f] by simp
  then show ?thesis by (simp add: i_def j_def)
qed

subsection \<open>The asset context\<close>

lemma getTokenAssetContext_Inr:
  assumes "getTokenAssetContext env provider address treasury = Inr c"
  shows "\<exists>n a. provider = Some (Inr n) \<and> address = Inr a \<and> ac_chainId c = nat_text n
    \<and> ac_signerAddress c = js_lower a \<and> tokenContractAddress c = token_contract_of env
    \<and> ac_treasuryAddress c = treasury_of treasury env (js_lower a)
    \<and> (case nonempty (env_chain_id env) of None \<Rightarrow> True | Some configured \<Rightarrow> ac_chainId c = configured)"
proof -
  obtain net where p: "provider = Some net" using assms by (cases provider) (auto simp: getTokenAssetContext_def of_option_def)
  obtain n where n: "net = Inr n" using assms p by (cases net) (auto simp: getTokenAssetContext_def of_option_def)
  obtain a where a: "address = Inr a" using assms p n
    by (cases address; cases "verified_chain env (nat_text n)") (auto simp: getTokenAssetContext_def of_option_def)
  show ?thesis using assms
    by (auto simp: getTokenAssetContext_def of_option_def p n a verified_chain_def split: option.splits if_splits)
qed

lemma asset_context_shape:
  assumes "getTokenAssetContext env provider address treasury = Inr c" and "address \<noteq> Inr []"
  shows "js_lower (tokenContractAddress c) = tokenContractAddress c \<and> tokenContractAddress c \<noteq> []
    \<and> ac_chainId c \<noteq> [] \<and> js_lower (ac_signerAddress c) = ac_signerAddress c \<and> ac_signerAddress c \<noteq> []
    \<and> (\<exists>t. ac_treasuryAddress c = Some t \<and> js_lower t = t \<and> t \<noteq> [])"
proof -
  have "token_contract_of env \<noteq> [] \<and> js_lower (token_contract_of env) = token_contract_of env"
    by (auto simp: token_contract_of_def nonempty_def split: option.splits if_splits)
  with getTokenAssetContext_Inr [OF assms(1)] assms(2) show ?thesis
    by (auto simp: treasury_of_def nonempty_def split: option.splits if_splits)
qed

text \<open>
  A movement keeps its asset context: the check of a stored context against the current one
  passes exactly when token contract, chain, treasury and signer are all unchanged (both contexts as
  \<open>getTokenAssetContext\<close> builds them, for a signer that has an address).
\<close>

theorem asset_context_immutable:
  assumes "getTokenAssetContext env provider address treasury = Inr c" and "address \<noteq> Inr []"
    and "getTokenAssetContext env' provider' address' treasury' = Inr d" and "address' \<noteq> Inr []"
  shows "assetContextMismatch (Some ((''assetContext'', asset_json c) # rest)) d = None \<longleftrightarrow> c = d"
  using asset_context_shape [OF assms(1,2)] asset_context_shape [OF assms(3,4)]
  by (cases c; cases d)
    (auto simp: assetContextMismatch_def asset_json_def string_field_def nonempty_def is_nullish_def Let_def
      split: if_splits)

theorem asset_context_immutable_witness:
  "\<exists>c d. assetContextMismatch (Some [(''assetContext'', asset_json c)]) c = None
     \<and> assetContextMismatch (Some [(''assetContext'', asset_json c)]) d \<noteq> None"
proof -
  let ?env = "\<lparr>env_token_contract = Some ''0xC0'', env_chain_id = None, env_treasury_address = None\<rparr>"
  obtain c d where c: "getTokenAssetContext ?env (Some (Inr 80002)) (Inr ''0xA1'') None = Inr c"
    and d: "getTokenAssetContext ?env (Some (Inr 80002)) (Inr ''0xA2'') None = Inr d"
    by (simp add: getTokenAssetContext_def verified_chain_def nonempty_def of_option_def)
  have "js_lower ''0xA1'' \<noteq> js_lower ''0xA2''" by code_simp
  then have "c \<noteq> d" using getTokenAssetContext_Inr [OF c] getTokenAssetContext_Inr [OF d] by auto
  then show ?thesis
    using asset_context_immutable [OF c _ c, of "[]"] asset_context_immutable [OF c _ d, of "[]"] by auto
qed

end
