(* ===== verification/AwardLaws.thy ===== *)
theory AwardLaws
  imports AwardRules PolicyStore TokenAmount
begin

text \<open>
  Properties of \<open>config/awardRules.ts\<close>: off-peak windows are intervals of a cyclic day, the three
  evaluations of a session agree, and the double arithmetic of an award is a floor.
\<close>

subsection \<open>Clock texts\<close>

definition clock_minutes :: "string \<Rightarrow> nat" where
  "clock_minutes s = 60 * digits_val (take 2 s) + digits_val (drop 3 s)"

text \<open>The reference: minutes of a cyclic day from a start up to, not including, an end.\<close>

definition window_contains :: "nat \<Rightarrow> nat \<Rightarrow> nat \<Rightarrow> bool" where
  "window_contains s e m \<longleftrightarrow> s = e \<or> (m + (1440 - s)) mod 1440 < (e + (1440 - s)) mod 1440"

lemma digits_no_space: "list_all is_digit t \<Longrightarrow> js_trim t = t"
  by (rule js_trim_id) (auto simp: list_all_iff dest: is_digit_not_space)

lemma digit_not_letter: "is_digit c \<Longrightarrow> lower_char c \<notin> {CHR ''x'', CHR ''o'', CHR ''b'', CHR ''e''}"
  by (auto simp: is_digit_def)

lemma unsigned_digits:
  assumes "t \<noteq> []" and "list_all is_digit t"
  shows "unsigned_value t = Some (of_nat (digits_val t))"
proof -
  have e: "\<forall>c \<in> set t. lower_char c \<noteq> CHR ''e''" using assms(2) digit_not_letter by (auto simp: list_all_iff)
  then have w: "takeWhile (\<lambda>c. lower_char c \<noteq> CHR ''e'') t = t" "dropWhile (\<lambda>c. lower_char c \<noteq> CHR ''e'') t = []"
    by (simp_all add: takeWhile_eq_all_conv)
  have "unsigned_value t = mantissa_value t" by (simp only: unsigned_value_def Let_def w list.case)
  moreover have "CHR ''.'' \<notin> set t" using assms(2) by (auto simp: list_all_iff is_digit_def)
  ultimately show ?thesis using assms by (simp add: mantissa_value_def Let_def)
qed

lemma js_of_nat: "n \<le> 2 ^ 53 \<Longrightarrow> js_of_rat (of_nat n) = Fin (of_nat n)"
proof -
  assume n: "n \<le> 2 ^ 53"
  have f: "fl (of_nat n) = of_nat n" using fl_of_int [of "int n"] n by simp
  have "(of_nat n :: rat) \<le> of_nat (2 ^ 53)" using n by (simp only: of_nat_le_iff)
  then have b: "(of_nat n :: rat) < 2 ^ 1024" by simp
  moreover have "0 \<le> (of_nat n :: rat)" by simp
  ultimately have b: "(of_nat n :: rat) < 2 ^ 1024" "\<not> (of_nat n :: rat) \<le> - (2 ^ 1024)" by linarith+
  show ?thesis using b by (simp add: js_of_rat_def Let_def f)
qed

lemma digits_number:
  assumes "t \<noteq> []" and "list_all is_digit t" and "digits_val t \<le> 2 ^ 53"
  shows "text_number t = Fin (of_nat (digits_val t))"
proof -
  obtain c r where t: "t = c # r" using assms(1) by (cases t) auto
  have c: "c \<noteq> CHR ''-''" "c \<noteq> CHR ''+''" "c \<noteq> CHR ''I''" using assms(2) by (auto simp: t is_digit_def)
  have p: "map lower_char (take 1 r) \<notin> {''x'', ''o'', ''b''}"
    using assms(2) digit_not_letter by (cases r) (auto simp: t)
  have "signed_number 1 (c # r) = Fin (of_nat (digits_val t))"
    using c unsigned_digits [OF assms(1,2)] js_of_nat [OF assms(3)] by (simp add: signed_number_def t)
  then show ?thesis using c p digits_no_space [OF assms(2)] by (simp add: text_number_def t Let_def)
qed

lemma js_minutes: "h \<le> 1000 \<Longrightarrow> m \<le> 1000 \<Longrightarrow> js_add (js_mul (Fin (of_nat h)) (Fin 60)) (Fin (of_nat m)) = Fin (of_nat (60 * h + m))"
  using js_of_nat [of "60 * h"] js_of_nat [of "60 * h + m"] by (simp add: mult.commute)

lemma two_digits:
  assumes "is_digit a" and "is_digit b"
  shows "text_number [a, b] = Fin (of_nat (digits_val [a, b]))" and "digits_val [a, b] \<le> 99"
    and "digits_val [a, b] = 10 * digit_val a + digit_val b"
proof -
  have d: "digit_val a \<le> 9" "digit_val b \<le> 9" using assms by (auto simp: digit_val_def is_digit_def)
  show v: "digits_val [a, b] = 10 * digit_val a + digit_val b" by (simp add: digits_val_def)
  then show "digits_val [a, b] \<le> 99" using d by simp
  then show "text_number [a, b] = Fin (of_nat (digits_val [a, b]))" using assms by (intro digits_number) simp_all
qed

lemma clock_number:
  assumes "clock_text s"
  shows "parseTimeToMinutes s = Fin (of_nat (clock_minutes s))" and "clock_minutes s < 1440"
proof -
  obtain a b d e where s: "s = [a, b, CHR '':'', d, e]" and dig: "is_digit a" "is_digit b" "is_digit d" "is_digit e"
    and bound: "10 * digit_val a + digit_val b \<le> 23" "digit_val d \<le> 5"
    using assms by (auto simp: clock_text_def split: list.splits)
  have nc: "a \<noteq> CHR '':''" "b \<noteq> CHR '':''" "d \<noteq> CHR '':''" "e \<noteq> CHR '':''" using dig by (auto simp: is_digit_def)
  note h = two_digits [OF dig(1,2)] and m = two_digits [OF dig(3,4)]
  have "digit_val e \<le> 9" using dig(4) by (auto simp: digit_val_def is_digit_def)
  have sp: "split_all (CHR '':'') s = [[a, b], [d, e]]" using nc by (simp add: s)
  have cm: "clock_minutes s = 60 * digits_val [a, b] + digits_val [d, e]" by (simp add: clock_minutes_def s)
  then show "clock_minutes s < 1440" using h(3) m(3) bound \<open>digit_val e \<le> 9\<close> by simp
  show "parseTimeToMinutes s = Fin (of_nat (clock_minutes s))"
    unfolding cm using js_minutes [of "digits_val [a, b]" "digits_val [d, e]"] h m
    by (simp add: parseTimeToMinutes_def sp Let_def)
qed

subsection \<open>Off-peak windows\<close>

definition clock_range :: "time_range \<Rightarrow> bool" where
  "clock_range r \<longleftrightarrow> clock_text (tr_start r) \<and> clock_text (tr_end r)"

definition range_contains :: "time_range \<Rightarrow> nat \<Rightarrow> bool" where
  "range_contains r m = window_contains (clock_minutes (tr_start r)) (clock_minutes (tr_end r)) m"

lemma js_le_nat [simp]: "js_le (Fin (of_nat a)) (Fin (of_nat b)) \<longleftrightarrow> a \<le> b"
  by (auto simp: js_le_def)

lemma in_range_cyclic:
  assumes "clock_range r" and "m < 1440"
  shows "in_range (Fin (of_nat m)) r = range_contains r m"
proof -
  define s e where "s = clock_minutes (tr_start r)" and "e = clock_minutes (tr_end r)"
  have c: "parseTimeToMinutes (tr_start r) = Fin (of_nat s)" "parseTimeToMinutes (tr_end r) = Fin (of_nat e)" "s < 1440" "e < 1440"
    using clock_number assms(1) by (simp_all add: clock_range_def s_def e_def)
  have a: "(x + (1440 - s)) mod 1440 = (if s \<le> x then x - s else x + 1440 - s)" if "x < 1440" for x
    using c(3) that by (cases "s \<le> x") (simp_all add: mod_if)
  show ?thesis using a [OF assms(2)] a [OF c(4)] c assms(2)
    by (auto simp: in_range_def Let_def range_contains_def window_contains_def s_def [symmetric] e_def [symmetric])
qed

lemma local_minutes_clock:
  assumes "clock_text (zf_hour p @ '':'' @ zf_minute p)" and "length (zf_hour p) = 2"
  shows "local_minutes p = Fin (of_nat (clock_minutes (zf_hour p @ '':'' @ zf_minute p)))"
    and "clock_minutes (zf_hour p @ '':'' @ zf_minute p) < 1440"
proof -
  obtain a b where h: "zf_hour p = [a, b]" using assms(2) by (auto simp: length_Suc_conv numeral_2_eq_2)
  then obtain d e where m: "zf_minute p = [d, e]" using assms(1) by (auto simp: clock_text_def split: list.splits)
  have dig: "is_digit a" "is_digit b" "is_digit d" "is_digit e" using assms(1) by (simp_all add: h m clock_text_def)
  note x = two_digits [OF dig(1,2)] and y = two_digits [OF dig(3,4)]
  show "local_minutes p = Fin (of_nat (clock_minutes (zf_hour p @ '':'' @ zf_minute p)))"
    using js_minutes [of "digits_val [a, b]" "digits_val [d, e]"] x y
    by (simp add: local_minutes_def clock_minutes_def h m)
  show "clock_minutes (zf_hour p @ '':'' @ zf_minute p) < 1440" by (rule clock_number(2) [OF assms(1)])
qed

text \<open>
    C39: off-peak evaluation is membership in cyclic intervals: with validated windows and a resolved zone
  whose clock reads HH:MM at the instant, the session is off-peak exactly when that minute of the day
  lies, going round midnight, from the start of one of the country's windows up to but not including its
  end; a window whose start and end agree covers the whole day.
\<close>

theorem off_peak_is_cyclic_window:
  assumes "list_all clock_range (country_ranges env (js_upper country))"
    and "resolveTimeZone intl (js_upper country) override SrcTimeZone = Inr rz" and "rz_timeZone rz = Some z" and "z \<noteq> []"
    and "zoned_parts intl z t = Some p" and "length (zf_hour p) = 2" and "clock_text (zf_hour p @ '':'' @ zf_minute p)"
  shows "isOffPeak intl env country (Some t) override =
    Inr (\<exists>r \<in> set (country_ranges env (js_upper country)). range_contains r (clock_minutes (zf_hour p @ '':'' @ zf_minute p)))"
proof -
  note m = local_minutes_clock [OF assms(7,6)]
  have "list_ex (in_range (local_minutes p)) rs = (\<exists>r \<in> set rs. range_contains r (clock_minutes (zf_hour p @ '':'' @ zf_minute p)))"
    if "list_all clock_range rs" for rs
    using that in_range_cyclic [OF _ m(2)] by (auto simp: list_ex_iff list_all_iff m(1))
  then show ?thesis using assms
    by (simp add: isOffPeak_def Let_def getZonedDateTimeParts_def of_option_def)
qed

definition sample_intl :: intl where
  "sample_intl = \<lparr>resolved_zone = Some, zoned_parts = (\<lambda>_ _. Some \<lparr>zf_year = ''2026'', zf_month = ''01'', zf_day = ''02'',
     zf_hour = ''23'', zf_minute = ''30'', zf_second = ''00''\<rparr>)\<rparr>"

definition plain_env :: rule_env where
  "plain_env = \<lparr>re_policy = None, re_rules = None, re_windows = None\<rparr>"

theorem off_peak_is_cyclic_window_witness: "isOffPeak sample_intl plain_env ''de'' (Some 0) None = Inr True"
proof -
  have r: "country_ranges plain_env ''DE'' = [night_range]" by code_simp
  have u: "js_upper ''de'' = ''DE''" by code_simp
  have c: "clock_range night_range" "clock_text (''23'' @ '':'' @ ''30'')" by code_simp+
  have z: "resolveTimeZone sample_intl ''DE'' None SrcTimeZone = Inr \<lparr>rz_timeZone = Some ''Europe/Berlin'', rz_source = SrcCountryDefault\<rparr>"
    by code_simp
  define p where "p = \<lparr>zf_year = ''2026'', zf_month = ''01'', zf_day = ''02'', zf_hour = ''23'', zf_minute = ''30'', zf_second = ''00''\<rparr>"
  have p: "zoned_parts sample_intl ''Europe/Berlin'' 0 = Some p" "length (zf_hour p) = 2" "clock_text (zf_hour p @ '':'' @ zf_minute p)"
    using c(2) by (simp_all add: sample_intl_def p_def)
  have in_night: "range_contains night_range (clock_minutes (zf_hour p @ '':'' @ zf_minute p))"
    by (simp add: p_def) code_simp
  have "isOffPeak sample_intl plain_env ''de'' (Some 0) None = Inr (\<exists>r \<in> set (country_ranges plain_env (js_upper ''de'')).
      range_contains r (clock_minutes (zf_hour p @ '':'' @ zf_minute p)))"
    by (rule off_peak_is_cyclic_window [OF _ _ _ _ p, where rz = "\<lparr>rz_timeZone = Some ''Europe/Berlin'', rz_source = SrcCountryDefault\<rparr>"])
      (simp_all add: u r c(1) z)
  then show ?thesis using in_night by (simp add: u r)
qed

subsection \<open>Award amounts\<close>

definition type_rate :: "award_rules \<Rightarrow> award_type \<Rightarrow> js_number" where
  "type_rate rules ty = (case ty of OFF_PEAK_CHARGING \<Rightarrow> cr_tokensPerKWh (ar_offPeak rules)
     | V2G_DISCHARGE \<Rightarrow> cr_tokensPerKWh (ar_v2g rules))"

definition context_award :: "session \<Rightarrow> award_rules \<Rightarrow> award_context \<Rightarrow> js_number" where
  "context_award s rules ctx = (case ax_awardType ctx of None \<Rightarrow> Fin 0
     | Some ty \<Rightarrow> js_add (Fin 0) (floor_award (energyKWh s) (type_rate rules ty)))"

lemma context_award_type:
  assumes "getAwardCalculationContext sha256 intl env s rules = Inr ctx"
  shows "ax_awardType ctx =
    (if energyDirection s = CHARGE \<and> cr_enabled (ar_offPeak rules) \<and> ax_isOffPeak ctx then Some OFF_PEAK_CHARGING
     else if energyDirection s = DISCHARGE \<and> cr_enabled (ar_v2g rules) then Some V2G_DISCHARGE else None)"
  using assms by (auto simp: getAwardCalculationContext_def rbind_Inr_iff Let_def)

lemma calculate_context:
  "calculateAwardTokens sha256 intl env s rules =
     rbind (getAwardCalculationContext sha256 intl env s rules) (\<lambda>ctx. Inr (context_award s rules ctx))"
proof (cases "getAwardCalculationContext sha256 intl env s rules")
  case (Inr ctx)
  then show ?thesis using context_award_type [OF Inr]
    by (cases "energyDirection s") (auto simp: calculateAwardTokens_def context_award_def type_rate_def Let_def)
qed (simp add: calculateAwardTokens_def)

text \<open>
  The three evaluations of a session agree: \<open>getAwardType\<close> is the type of the calculation context,
  and \<open>calculateAwardTokens\<close> is the floor of energy times the rate of that type, nothing when the
  context has no type; all three fail on the same sessions.
\<close>

theorem award_evaluations_agree:
  "getAwardType sha256 intl env s rules =
      rbind (getAwardCalculationContext sha256 intl env s rules) (\<lambda>ctx. Inr (ax_awardType ctx))
    \<and> calculateAwardTokens sha256 intl env s rules =
      rbind (getAwardCalculationContext sha256 intl env s rules) (\<lambda>ctx. Inr (context_award s rules ctx))"
  using context_award_type [of sha256 intl env s rules]
  by (cases "getAwardCalculationContext sha256 intl env s rules") (auto simp: getAwardType_def calculate_context)

text \<open>
  \<open>k\<close> is the number of whole tokens in \<open>x\<close>: the next token is not reached, and \<open>k\<close> itself is reached by \<open>x\<close>, up to
  the half unit in the 53rd bit by which one double multiplication may lift its exact product.
\<close>

definition floored :: "nat \<Rightarrow> rat \<Rightarrow> bool" where
  "floored k x \<longleftrightarrow> x < of_nat k + 1 \<and> of_nat k \<le> x * (1 + 1 / 2 ^ 53)"

lemma floored_product:
  assumes "0 \<le> x" and "x < 2 ^ 52" and "int k = \<lfloor>fl x\<rfloor>"
  shows "floored k x"
proof -
  have k: "(of_nat k :: rat) = of_int \<lfloor>fl x\<rfloor>" by (metis assms(3) of_int_of_nat_eq)
  have b: "\<bar>\<lfloor>x\<rfloor>\<bar> \<le> 2 ^ 53" using assms by (simp add: floor_le_iff)
  have "of_int \<lfloor>x\<rfloor> \<le> fl x" using fl_mono [of "of_int \<lfloor>x\<rfloor>" x] fl_of_int [OF b] by simp
  then have "\<lfloor>x\<rfloor> \<le> \<lfloor>fl x\<rfloor>" by (simp add: le_floor_iff)
  then have "(of_int \<lfloor>x\<rfloor> :: rat) \<le> of_int \<lfloor>fl x\<rfloor>" by simp
  then have "x < of_nat k + 1" unfolding k using floor_correct [of x] by linarith
  moreover have "of_nat k \<le> x * (1 + 1 / 2 ^ 53)"
  proof (cases "1 / 2 \<le> x")
    case True
    have "(2 :: rat) powi (-1022) \<le> 2 powi (-1)" by (rule power_int_increasing) simp_all
    then have "2 powi (-1022) \<le> x" using True by (simp add: power_int_minus)
    from abs_le_D1 [OF fl_rel_error [OF this]] have "fl x \<le> x + x / 2 ^ 53" by linarith
    also have "\<dots> = x * (1 + 1 / 2 ^ 53)" by (simp add: distrib_left)
    finally have "fl x \<le> x * (1 + 1 / 2 ^ 53)" .
    then show ?thesis unfolding k by (rule order.trans [OF of_int_floor_le])
  next
    case False
    have "fl (1 / 2) = 1 / 2" by (rule fl_exact [where m = 1 and k = "-1"]) (simp_all add: power_int_minus)
    then have "fl x \<le> 1 / 2" using fl_mono [of x "1 / 2"] False by simp
    then have "\<lfloor>fl x\<rfloor> = 0" using fl_nonneg [OF assms(1)] by (simp add: floor_eq_iff)
    then show ?thesis using assms(1) unfolding k by simp
  qed
  ultimately show ?thesis by (simp add: floored_def)
qed

lemma floor_award_bounds:
  assumes "0 \<le> e" and "0 \<le> q" and "e * q < 2 ^ 52"
  obtains k where "js_add (Fin 0) (floor_award (Fin e) (Fin q)) = Fin (of_nat k)" "floored k (e * q)" "int k = \<lfloor>fl (e * q)\<rfloor>"
proof -
  define x where "x = e * q"
  have x: "0 \<le> x" "x < 2 ^ 52" using assms by (simp_all add: x_def)
  define k where "k = nat \<lfloor>fl x\<rfloor>"
  have nn: "0 \<le> fl x" by (rule fl_nonneg [OF x(1)])
  then have k: "int k = \<lfloor>fl x\<rfloor>" by (simp add: k_def)
  have f: "fl x \<le> 2 ^ 52" using fl_mono [of x "of_int (2 ^ 52)"] fl_of_int [of "2 ^ 52"] x(2) by simp
  then have "(of_int (int k) :: rat) \<le> 2 ^ 52" unfolding k by linarith
  then have "(of_nat k :: rat) \<le> of_nat (2 ^ 52)" by simp
  then have kb: "k \<le> 2 ^ 53" unfolding of_nat_le_iff by simp
  have "js_of_rat x = Fin (fl x)" using f nn by (auto simp: js_of_rat_def Let_def)
  then have "floor_award (Fin e) (Fin q) = Fin (of_nat k)"
    using k by (simp add: floor_award_def x_def [symmetric])
  then have "js_add (Fin 0) (floor_award (Fin e) (Fin q)) = Fin (of_nat k)" using js_of_nat [OF kb] by simp
  moreover have "floored k x" by (rule floored_product [OF x k])
  ultimately show thesis using that k by (simp add: x_def)
qed

text \<open>
    C40: an award is the whole tokens in the exact product of energy and rate: for non-negative energy and rates
  whose products stay below 2^52 the result is the natural number \<open>k\<close> with product below \<open>k + 1\<close> and not below \<open>k\<close>,
  the second up to the rounding of one double multiplication; it is never rounded up by more than that
  (2.6875 gives 2), and it is zero without a type.
\<close>

theorem award_amount_bounds:
  assumes "getAwardCalculationContext sha256 intl env s rules = Inr ctx" and "energyKWh s = Fin e" and "0 \<le> e"
    and "cr_tokensPerKWh (ar_offPeak rules) = Fin q1" and "cr_tokensPerKWh (ar_v2g rules) = Fin q2" and "0 \<le> q1" and "0 \<le> q2"
    and "e * q1 < 2 ^ 52" and "e * q2 < 2 ^ 52"
  shows "\<exists>k. calculateAwardTokens sha256 intl env s rules = Inr (Fin (of_nat k))
    \<and> (case ax_awardType ctx of None \<Rightarrow> k = 0
        | Some OFF_PEAK_CHARGING \<Rightarrow> floored k (e * q1)
        | Some V2G_DISCHARGE \<Rightarrow> floored k (e * q2))"
proof -
  have c: "calculateAwardTokens sha256 intl env s rules = Inr (context_award s rules ctx)"
    by (simp add: calculate_context assms(1))
  show ?thesis
  proof (cases "ax_awardType ctx")
    case None
    then show ?thesis using c by (intro exI [of _ 0]) (simp add: context_award_def)
  next
    case (Some ty)
    then show ?thesis
      using c assms(2) floor_award_bounds [OF assms(3,6,8)] floor_award_bounds [OF assms(3,7,9)] assms(4,5)
      by (cases ty) (simp_all add: context_award_def type_rate_def, metis+)
  qed
qed

definition sample_session :: session where
  "sample_session = \<lparr>sessionId = ''s'', providerId = ''p'', eMAID = None, emaid = None, protocol = None, sourceField = None,
     tokenMetadata = None, uid = ''u'', evseId = ''DE*1'', startTime = 0, endTime = 0, energyKWh = Fin (7 / 2),
     energyDirection = DISCHARGE, cdrId = None, reservationSessionId = None, chargingSessionId = None, timeZone = None,
     timeZoneSource = None\<rparr>"

lemma sample_context_runs:
  "\<exists>ctx. getAwardCalculationContext sha256 sample_intl plain_env sample_session awardRulesConfig = Inr ctx
    \<and> ax_awardType ctx = Some V2G_DISCHARGE"
proof -
  have "getCountryFromEVSEID ''DE*1'' = Inr ''DE''" by code_simp
  moreover have "getSessionTimeZone sample_intl sample_session ''DE''
      = Inr \<lparr>rz_timeZone = Some ''Europe/Berlin'', rz_source = SrcCountryDefault\<rparr>" by code_simp
  moreover have "formatLocalDateTime sample_intl (Some 0) ''Europe/Berlin'' = Inr ''2026-01-02T23:30:00''" by code_simp
  ultimately show ?thesis
    by (simp add: getAwardCalculationContext_def Let_def)
      (simp add: sample_session_def awardRulesConfig_def)
qed

lemma floored_unique: "floored k (7 / 2) \<longleftrightarrow> k = 3"
proof
  assume "floored k (7 / 2)"
  then have "(5 / 2 :: rat) < of_nat k" "(of_nat k :: rat) < 4" by (simp_all add: floored_def)
  then have "2 < k" "k < 4" by linarith+
  then show "k = 3" by simp
qed (simp add: floored_def)

theorem award_amount_bounds_witness:
  "calculateAwardTokens (\<lambda>t. t) sample_intl plain_env sample_session awardRulesConfig = Inr (Fin 3)"
proof -
  obtain ctx where c: "getAwardCalculationContext (\<lambda>t. t) sample_intl plain_env sample_session awardRulesConfig = Inr ctx"
    "ax_awardType ctx = Some V2G_DISCHARGE" using sample_context_runs by blast
  have e: "energyKWh sample_session = Fin (7 / 2)" by (simp add: sample_session_def)
  have "cr_tokensPerKWh (ar_offPeak awardRulesConfig) = Fin (1 / 4)" "cr_tokensPerKWh (ar_v2g awardRulesConfig) = Fin 1"
    by (simp_all add: awardRulesConfig_def)
  from award_amount_bounds [OF c(1) e _ this] show ?thesis by (auto simp: c(2) floored_unique)
qed

subsection \<open>The default rates\<close>

lemma fl_quarter:
  assumes "fl x = x" and "1 \<le> x"
  shows "fl (x / 4) = x / 4"
proof -
  define m where "m = rne (x / ulp x)"
  have b: "0 \<le> bexp x"
  proof (rule ccontr)
    assume "\<not> 0 \<le> bexp x"
    then have "(2 :: rat) powi (bexp x + 1) \<le> 2 powi 0" by (intro power_int_increasing) simp_all
    then show False using bexp_bounds(2) [of x] assms(2) by simp
  qed
  have u: "ulp x = 2 powi (bexp x - 52)" using b by (simp add: ulp_def)
  have x: "x = of_int m * 2 powi (bexp x - 52)" using assms by (simp add: fl_def fl_pos_def m_def u mult.commute)
  have "of_int m * 2 powi (bexp x - 52) < (2 :: rat) powi (bexp x + 1)" using x bexp_bounds(2) [of x] assms(2) by simp
  also have "(2 :: rat) powi (bexp x + 1) = 2 ^ 53 * 2 powi (bexp x - 52)"
    using power_int_add [of "2 :: rat" 53 "bexp x - 52"] by (simp add: add.commute)
  finally have "(of_int m :: rat) < of_int (2 ^ 53)" by simp
  then have "m < 2 ^ 53" unfolding of_int_less_iff .
  moreover have "0 \<le> m" unfolding m_def using assms(2) by (intro rne_nonneg) (simp add: less_imp_le)
  moreover have "x / 4 = of_int m * 2 powi (bexp x - 54)"
  proof -
    have p: "2 powi (bexp x - 54) * 4 = (2 :: rat) powi (bexp x - 52)"
      using power_int_add [of "2 :: rat" "bexp x - 54" 2] by simp
    have "x / 4 = (of_int m * 2 powi (bexp x - 52)) / 4" by (rule arg_cong [OF x])
    then show ?thesis by (simp only: p [symmetric])
  qed
  ultimately show ?thesis using b by (intro fl_exact [where m = m and k = "bexp x - 54"]) simp_all
qed

lemma floor_quarter:
  assumes "fl e = e" and "0 \<le> e"
  shows "\<lfloor>fl (e / 4)\<rfloor> = \<lfloor>e / 4\<rfloor>"
proof (cases "1 \<le> e")
  case True
  then show ?thesis by (simp add: fl_quarter [OF assms(1)])
next
  case False
  have q: "fl (1 / 4) = 1 / 4" by (rule fl_exact [where m = 1 and k = "-2"]) (simp_all add: power_int_minus)
  have "fl (e / 4) \<le> 1 / 4" using fl_mono [of "e / 4" "1 / 4"] False q by simp
  then have "\<lfloor>fl (e / 4)\<rfloor> = 0" using fl_nonneg [of "e / 4"] assms(2) by (simp add: floor_eq_iff)
  moreover have "\<lfloor>e / 4\<rfloor> = 0" using False assms(2) by (simp add: floor_eq_iff)
  ultimately show ?thesis by simp
qed

text \<open>
  With the default rates the award of a session is exact: one token per full four kWh charged
  off-peak and one per full kWh discharged, for every energy that is a double below 2^52.
\<close>

theorem default_award_exact:
  assumes "getAwardCalculationContext sha256 intl env s awardRulesConfig = Inr ctx"
    and "energyKWh s = Fin e" and "fl e = e" and "0 \<le> e" and "e < 2 ^ 52"
  shows "calculateAwardTokens sha256 intl env s awardRulesConfig = Inr (Fin (of_int
    (case ax_awardType ctx of None \<Rightarrow> 0 | Some OFF_PEAK_CHARGING \<Rightarrow> \<lfloor>e / 4\<rfloor> | Some V2G_DISCHARGE \<Rightarrow> \<lfloor>e\<rfloor>)))"
proof -
  have r: "cr_tokensPerKWh (ar_offPeak awardRulesConfig) = Fin (1 / 4)" "cr_tokensPerKWh (ar_v2g awardRulesConfig) = Fin 1"
    by (simp_all add: awardRulesConfig_def)
  obtain k where k: "js_add (Fin 0) (floor_award (Fin e) (Fin (1 / 4))) = Fin (of_nat k)" "int k = \<lfloor>fl (e * (1 / 4))\<rfloor>"
    by (rule floor_award_bounds [of e "1 / 4"]) (use assms(4,5) in simp_all)
  obtain l where l: "js_add (Fin 0) (floor_award (Fin e) (Fin 1)) = Fin (of_nat l)" "int l = \<lfloor>fl (e * 1)\<rfloor>"
    by (rule floor_award_bounds [of e 1]) (use assms(4,5) in simp_all)
  have "int k = \<lfloor>e / 4\<rfloor>" "int l = \<lfloor>e\<rfloor>" using k(2) l(2) floor_quarter [OF assms(3,4)] assms(3) by simp_all
  then have "(of_nat k :: rat) = of_int \<lfloor>e / 4\<rfloor>" "(of_nat l :: rat) = of_int \<lfloor>e\<rfloor>"
    by (metis of_int_of_nat_eq)+
  then show ?thesis using k(1) l(1) assms(1,2) r
    by (simp add: calculate_context context_award_def type_rate_def split: option.split award_type.split)
qed

theorem default_award_exact_witness:
  "calculateAwardTokens (\<lambda>t. t) sample_intl plain_env sample_session awardRulesConfig = Inr (Fin 3)"
proof -
  obtain ctx where c: "getAwardCalculationContext (\<lambda>t. t) sample_intl plain_env sample_session awardRulesConfig = Inr ctx"
    "ax_awardType ctx = Some V2G_DISCHARGE" using sample_context_runs by blast
  have d: "fl (7 / 2) = 7 / 2" by (rule fl_exact [where m = 7 and k = "-1"]) (simp_all add: power_int_minus)
  have f: "\<lfloor>7 / 2 :: rat\<rfloor> = 3" by (simp add: floor_eq_iff)
  have "energyKWh sample_session = Fin (7 / 2)" by (simp add: sample_session_def)
  from default_award_exact [OF c(1) this d] show ?thesis by (simp add: c(2) f)
qed

subsection \<open>Deduplication keys\<close>

lemma default_key: "getDeduplicationKey s awardRulesConfig = Inr (sessionId s @ ''-'' @ providerId s)"
  by (simp add: getDeduplicationKey_def awardRulesConfig_def dedup_part_def)

text \<open>
  The default deduplication key stands for one session of one provider only as long as provider ids
  contain no hyphen: then equal keys mean equal session and provider. With hyphens two sessions of
  different providers share a key.
\<close>

theorem dedup_key_identifies:
  "(\<forall>s t. CHR ''-'' \<notin> set (providerId s) \<and> CHR ''-'' \<notin> set (providerId t)
      \<and> getDeduplicationKey s awardRulesConfig = getDeduplicationKey t awardRulesConfig
      \<longrightarrow> sessionId s = sessionId t \<and> providerId s = providerId t)
    \<and> (\<exists>s t. getDeduplicationKey s awardRulesConfig = getDeduplicationKey t awardRulesConfig
        \<and> sessionId s \<noteq> sessionId t \<and> providerId s \<noteq> providerId t)"
proof (intro conjI allI impI)
  fix s t :: session
  assume a: "CHR ''-'' \<notin> set (providerId s) \<and> CHR ''-'' \<notin> set (providerId t)
      \<and> getDeduplicationKey s awardRulesConfig = getDeduplicationKey t awardRulesConfig"
  then have joined: "sessionId s @ ''-'' @ providerId s = sessionId t @ ''-'' @ providerId t"
    by (simp add: default_key)
  have "rev (providerId s) @ CHR ''-'' # rev (sessionId s) = rev (providerId t) @ CHR ''-'' # rev (sessionId t)"
    using arg_cong [where f = rev, OF joined] by simp
  then have "split_first (CHR ''-'') (rev (providerId s) @ CHR ''-'' # rev (sessionId s))
      = split_first (CHR ''-'') (rev (providerId t) @ CHR ''-'' # rev (sessionId t))" by simp
  then have "rev (providerId s) = rev (providerId t)" "rev (sessionId s) = rev (sessionId t)" using a by simp_all
  then show "sessionId s = sessionId t" "providerId s = providerId t" by simp_all
next
  show "\<exists>s t. getDeduplicationKey s awardRulesConfig = getDeduplicationKey t awardRulesConfig
        \<and> sessionId s \<noteq> sessionId t \<and> providerId s \<noteq> providerId t"
    by (intro exI [of _ "sample_session\<lparr>sessionId := ''a-b'', providerId := ''c''\<rparr>"]
        exI [of _ "sample_session\<lparr>sessionId := ''a'', providerId := ''b-c''\<rparr>"]) (simp add: default_key)
qed

theorem dedup_key_identifies_witness:
  "getDeduplicationKey sample_session awardRulesConfig = getDeduplicationKey (sample_session\<lparr>uid := ''v''\<rparr>) awardRulesConfig
    \<and> sessionId sample_session = sessionId (sample_session\<lparr>uid := ''v''\<rparr>)"
proof -
  have k: "getDeduplicationKey sample_session awardRulesConfig = getDeduplicationKey (sample_session\<lparr>uid := ''v''\<rparr>) awardRulesConfig"
    by (simp add: default_key)
  have p: "CHR ''-'' \<notin> set (providerId sample_session)" "CHR ''-'' \<notin> set (providerId (sample_session\<lparr>uid := ''v''\<rparr>))"
    by (simp_all add: sample_session_def)
  show ?thesis using conjunct1 [OF dedup_key_identifies] k p by blast
qed

end
