(* ===== verification/PolicyLaws.thy ===== *)
theory PolicyLaws
  imports AwardLaws
begin

text \<open>
  Properties of the policy repository: what \<open>policyFromRow\<close> accepts is a well-formed policy, the
  documents an update writes read back, and an update is one revision step or nothing.
\<close>

subsection \<open>Well-formed policies\<close>

definition rate_ok :: "js_number \<Rightarrow> bool" where
  "rate_ok n \<longleftrightarrow> is_finite n \<and> \<not> js_less n (Fin 0)"

definition rules_ok :: "award_rules \<Rightarrow> bool" where
  "rules_ok r \<longleftrightarrow> rate_ok (cr_tokensPerKWh (ar_offPeak r)) \<and> rate_ok (cr_tokensPerKWh (ar_v2g r))
     \<and> ar_dedup r \<noteq> [] \<and> list_all (\<lambda>k. js_trim k \<noteq> []) (ar_dedup r)"

definition country_ok :: "string \<times> time_range list \<Rightarrow> bool" where
  "country_ok c \<longleftrightarrow> country_text (fst c) \<and> snd c \<noteq> [] \<and> length (snd c) \<le> MAX_OFF_PEAK_SLOTS \<and> list_all clock_range (snd c)"

definition windows_ok :: "window_config \<Rightarrow> bool" where
  "windows_ok ws \<longleftrightarrow> list_all country_ok ws"

lemma rate_document [simp]:
  "requireFiniteRate (JNum n) name = (if rate_ok n then Inr n else Inl (invalid_policy name))"
  by (simp add: requireFiniteRate_def rate_ok_def)

lemma text_views:
  "validClock v \<longleftrightarrow> (\<exists>s. v = JStr s \<and> clock_text s)" "nonblank v \<longleftrightarrow> (\<exists>s. v = JStr s \<and> js_trim s \<noteq> [])"
  "text_of v = Some t \<longleftrightarrow> v = JStr t" "requireRecord v name = Inr ob \<longleftrightarrow> v = JObj ob"
  "requireBoolean v name = Inr b \<longleftrightarrow> v = JBool b"
  "requireFiniteRate v name = Inr n \<longleftrightarrow> v = JNum n \<and> rate_ok n"
  by (auto simp: validClock_def nonblank_def text_of_def requireRecord_def as_object_def requireBoolean_def
      requireFiniteRate_def rate_ok_def of_option_def split: jsv.splits)

lemma validate_ranges_ok: "validate_ranges c i vs = Inr rs \<Longrightarrow> list_all clock_range rs \<and> length rs = length vs"
proof (induction vs arbitrary: i rs)
  case (Cons v vs)
  then obtain ob rest where "validClock (field ob ''start'')" "validClock (field ob ''end'')"
    "validate_ranges c (Suc i) vs = Inr rest"
    "rs = \<lparr>tr_start = js_string (field ob ''start''), tr_end = js_string (field ob ''end'')\<rparr> # rest"
    by (auto simp: rbind_Inr_iff)
  then show ?case using Cons.IH by (auto simp: clock_range_def text_views)
qed simp

lemma validate_countries_ok: "validate_countries cs = Inr ws \<Longrightarrow> windows_ok ws"
proof (induction cs arbitrary: ws)
  case (Cons c cs)
  obtain n v where c: "c = (n, v)" by (cases c)
  from Cons.prems obtain vs where v: "v = JArr vs" "country_text n" "vs \<noteq> []" "length vs \<le> MAX_OFF_PEAK_SLOTS"
    and "rbind (validate_ranges n 0 vs) (\<lambda>rs. rbind (validate_countries cs) (\<lambda>ws. Inr ((n, rs) # ws))) = Inr ws"
    by (auto simp: c split: jsv.splits if_splits)
  then obtain rs ws' where r: "validate_ranges n 0 vs = Inr rs" "validate_countries cs = Inr ws'" "ws = (n, rs) # ws'"
    by (auto simp: rbind_Inr_iff)
  then show ?case using Cons.IH [OF r(2)] validate_ranges_ok [OF r(1)] v
    by (auto simp: windows_ok_def country_ok_def)
qed (simp add: windows_ok_def)

lemma key_list_ok: "key_list v = Some ks \<Longrightarrow> ks \<noteq> [] \<and> list_all (\<lambda>k. js_trim k \<noteq> []) ks"
  by (fastforce simp: key_list_def list_all_iff text_views split: jsv.splits if_splits)

lemma validateAwardRules_ok: "validateAwardRules v = Inr r \<Longrightarrow> rules_ok r"
  by (auto simp: validateAwardRules_def rbind_Inr_iff rules_ok_def text_views dest!: key_list_ok)

lemma range_roundtrip: "list_all clock_range rs \<Longrightarrow> validate_ranges c i (map range_document rs) = Inr rs"
  by (induction rs arbitrary: i)
    (auto simp: range_document_def requireRecord_def as_object_def of_option_def guard_def clock_range_def text_views)

lemma countries_roundtrip: "windows_ok ws \<Longrightarrow> validate_countries (map (\<lambda>(c, rs). (c, JArr (map range_document rs))) ws) = Inr ws"
  by (induction ws) (auto simp: windows_ok_def country_ok_def range_roundtrip)

lemma windows_roundtrip: "windows_ok ws \<Longrightarrow> validateOffPeakWindows (windows_document ws) = Inr ws"
  by (simp add: validateOffPeakWindows_def windows_document_def requireRecord_def as_object_def of_option_def countries_roundtrip)

lemma keys_roundtrip: "ks \<noteq> [] \<Longrightarrow> list_all (\<lambda>k. js_trim k \<noteq> []) ks \<Longrightarrow> key_list (JArr (map JStr ks)) = Some ks"
  by (auto simp: key_list_def list_all_iff nonblank_def o_def)

lemma rules_roundtrip: "rules_ok r \<Longrightarrow> js_trim (ar_version r) \<noteq> [] \<Longrightarrow> validateAwardRules (rules_document r) = Inr r"
  by (simp add: validateAwardRules_def rules_document_def rule_document_def requireRecord_def as_object_def of_option_def
      guard_def rules_ok_def nonblank_def text_of_def requireBoolean_def keys_roundtrip)

subsection \<open>Loading\<close>

definition policy_ok :: "policy_snapshot \<Rightarrow> bool" where
  "policy_ok p \<longleftrightarrow> 1 \<le> ps_revision p \<and> rules_ok (ps_rules p) \<and> windows_ok (ps_windows p)"

lemma revision_bound: "safe_revision n \<Longrightarrow> 1 \<le> revision_of n"
  by (auto simp: safe_revision_def is_safe_integer_def revision_of_def le_nat_iff split: js_number.splits)

lemma policyFromRow_ok:
  assumes "policyFromRow row = Inr p"
  shows "policy_ok p"
  using assms validateAwardRules_ok validate_countries_ok revision_bound
  by (fastforce simp: policyFromRow_def Let_def rbind_Inr_iff policy_ok_def rules_ok_def validateOffPeakWindows_def)

lemma policy_load_ok: "policy_load table = Inr p \<Longrightarrow> policy_ok p"
  by (auto simp: policy_load_def rbind_Inr_iff policyFromRow_ok)

lemma country_ranges_ok:
  assumes "windows_ok (ps_windows p)"
  shows "list_all clock_range (country_ranges (env\<lparr>re_policy := Some p\<rparr>) c)"
proof (cases "map_of (ps_windows p) c")
  case (Some rs)
  then have "(c, rs) \<in> set (ps_windows p)" by (rule map_of_SomeD)
  then have "country_ok (c, rs)" using assms by (simp add: windows_ok_def list_all_iff)
  then show ?thesis using Some by (simp add: country_ranges_def getOffPeakWindows_def getPolicySnapshot_def country_ok_def)
qed (simp add: country_ranges_def getOffPeakWindows_def getPolicySnapshot_def)

text \<open>
    every policy the repository loads is well formed: a revision of at least one, finite non-negative
  rates, at least one nonblank deduplication key, only two-letter countries with one to six windows, and
  every window text a valid clock time; so under a loaded policy off-peak evaluation always meets clock
  ranges, whatever the country.
\<close>

theorem loaded_policy_well_formed:
  assumes "policy_load table = Inr p"
  shows "1 \<le> ps_revision p \<and> rules_ok (ps_rules p) \<and> windows_ok (ps_windows p)
    \<and> withPolicySnapshot env p (\<lambda>e. \<forall>c. list_all clock_range (country_ranges e c) \<and> length (country_ranges e c) \<le> 6)"
proof -
  have ok: "policy_ok p" by (rule policy_load_ok [OF assms])
  have "length (country_ranges (env\<lparr>re_policy := Some p\<rparr>) c) \<le> 6" for c
  proof (cases "map_of (ps_windows p) c")
    case (Some rs)
    then have "country_ok (c, rs)"
      using map_of_SomeD [OF Some] ok by (auto simp: policy_ok_def windows_ok_def list_all_iff)
    then show ?thesis using Some
      by (simp add: country_ranges_def getOffPeakWindows_def getPolicySnapshot_def country_ok_def MAX_OFF_PEAK_SLOTS_def)
  qed (simp add: country_ranges_def getOffPeakWindows_def getPolicySnapshot_def)
  then show ?thesis using ok country_ranges_ok by (simp add: policy_ok_def withPolicySnapshot_def)
qed

subsection \<open>Updating\<close>

lemma nat_text_visible: "js_trim (nat_text n) \<noteq> []"
  using js_trim_id [of "nat_text n"] nat_text_digits [of n] is_digit_not_space
  by (auto simp: list_all_iff)

lemma saved_row_loads:
  assumes "rules_ok rules" and "windows_ok windows" and "js_trim (ar_version rules) \<noteq> []" and "safe_revision (Fin (of_nat n))"
  shows "policyFromRow (r\<lparr>pr_revision := JNum (Fin (of_nat n)), pr_rules := rules_document rules,
      pr_windows := windows_document windows, pr_updated_at := Some now\<rparr>)
    = Inr \<lparr>ps_revision = n, ps_updatedAt = iso_text now, ps_rules = rules\<lparr>ar_version := num_text (Fin (of_nat n))\<rparr>, ps_windows = windows\<rparr>"
  using rules_roundtrip [OF assms(1,3)] windows_roundtrip [OF assms(2)] assms(4)
  by (simp add: policyFromRow_def Let_def guard_def value_number_def parseJson_def isoUpdatedAt_def of_option_def revision_of_def
      rules_document_def windows_document_def)

text \<open>
  An update is one revision step of the stored policy: it keeps every part the patch does not name,
  stores the validated parts it does name, raises the revision by exactly one, and what it returns is
  what the next load reads; rows of other ids are untouched.
\<close>

theorem policy_update_is_one_step:
  assumes "policy_update now f table = Inr (table', snap)"
  shows "\<exists>cur rules windows. policy_load table = Inr cur \<and> validatePatch (f cur) = Inr (rules, windows)
    \<and> ps_revision snap = ps_revision cur + 1 \<and> ps_updatedAt snap = iso_text now
    \<and> ps_windows snap = (case windows of None \<Rightarrow> ps_windows cur | Some w \<Rightarrow> w)
    \<and> (\<exists>v. ps_rules snap = (case rules of None \<Rightarrow> ps_rules cur | Some r \<Rightarrow> r)\<lparr>ar_version := v\<rparr>)
    \<and> policy_load table' = Inr snap
    \<and> filter (\<lambda>r. pr_id r \<noteq> REWARD_POLICY_ROW_ID) table' = filter (\<lambda>r. pr_id r \<noteq> REWARD_POLICY_ROW_ID) table"
proof -
  obtain cur rules windows where l: "policy_load table = Inr cur" and p: "validatePatch (f cur) = Inr (rules, windows)"
    using assms by (auto simp: policy_update_def rbind_Inr_iff)
  define n where "n = ps_revision cur + 1"
  define r where "r = (case rules of None \<Rightarrow> ps_rules cur | Some r \<Rightarrow> r)\<lparr>ar_version := nat_text n\<rparr>"
  define w where "w = (case windows of None \<Rightarrow> ps_windows cur | Some w \<Rightarrow> w)"
  define saved where "saved = policy_save now n r w table"
  obtain row where row: "first_where (\<lambda>r. pr_id r = REWARD_POLICY_ROW_ID) saved = Some row"
    "policyFromRow row = Inr snap" "table' = saved"
    using assms l p by (auto simp: policy_update_def rbind_Inr_iff Let_def saved_def n_def r_def w_def)
  have load': "policy_load table' = Inr snap" using row by (simp add: policy_load_def of_option_def)
  have cur: "policy_ok cur" by (rule policy_load_ok [OF l])
  have ok: "rules_ok r" "windows_ok w"
  proof -
    have "rules_ok x" if "rules = Some x" for x
      using p that validateAwardRules_ok by (auto simp: validatePatch_def validate_part_def rbind_Inr_iff split: if_splits)
    then show "rules_ok r" using cur by (auto simp: r_def rules_ok_def policy_ok_def split: option.split)
    have "windows_ok x" if "windows = Some x" for x
      using p that validate_countries_ok
      by (auto simp: validatePatch_def validate_part_def rbind_Inr_iff validateOffPeakWindows_def split: if_splits)
    then show "windows_ok w" using cur by (auto simp: w_def policy_ok_def split: option.split)
  qed
  define g :: "policy_row \<Rightarrow> policy_row" where "g = (\<lambda>r'. r'\<lparr>pr_revision := JNum (Fin (of_nat n)), pr_rules := rules_document r,
      pr_windows := windows_document w, pr_updated_at := Some now\<rparr>)"
  have sv: "saved = update_where (\<lambda>r. pr_id r = REWARD_POLICY_ROW_ID) g table" by (simp add: saved_def policy_save_def g_def)
  have gid: "pr_id (g x) = pr_id x" for x by (simp add: g_def)
  obtain y where y: "row = g y"
    using first_where_Some [OF row(1)] gid unfolding sv set_update_where by (auto split: if_splits)
  have "safe_revision (Fin (of_nat n))"
    using row(2) by (auto simp: y g_def policyFromRow_def Let_def rbind_Inr_iff value_number_def)
  then have snap: "snap = \<lparr>ps_revision = n, ps_updatedAt = iso_text now, ps_rules = r\<lparr>ar_version := num_text (Fin (of_nat n))\<rparr>, ps_windows = w\<rparr>"
    using row(2) saved_row_loads [OF ok, where n = n and r = y and now = now] by (simp add: y g_def r_def nat_text_visible)
  have other: "filter (\<lambda>r. pr_id r \<noteq> REWARD_POLICY_ROW_ID) (update_where (\<lambda>r. pr_id r = REWARD_POLICY_ROW_ID) g t)
      = filter (\<lambda>r. pr_id r \<noteq> REWARD_POLICY_ROW_ID) t" for t
    using gid by (induction t) (simp_all add: update_where_def)
  show ?thesis
    using l p load' other [of table]
    by (intro exI [of _ cur] exI [of _ rules] exI [of _ windows]) (auto simp: snap n_def w_def r_def row(3) sv)
qed

definition sample_table :: "policy_row list" where
  "sample_table = [\<lparr>pr_id = 1, pr_revision = JNum (Fin (of_nat 4)), pr_rules = rules_document awardRulesConfig,
     pr_windows = windows_document getDefaultOffPeakWindows, pr_updated_at = Some 0\<rparr>]"

definition sample_patch :: "policy_snapshot \<Rightarrow> policy_patch" where
  "sample_patch cur = \<lparr>pp_rules = JUndef, pp_windows = windows_document [(''DE'', [night_range])]\<rparr>"

lemma sample_parts:
  "rules_ok (awardRulesConfig\<lparr>ar_version := v\<rparr>)" "rules_ok awardRulesConfig" "windows_ok getDefaultOffPeakWindows"
  "windows_ok [(''DE'', [night_range])]" "js_trim (ar_version awardRulesConfig) \<noteq> []"
proof -
  show "rules_ok (awardRulesConfig\<lparr>ar_version := v\<rparr>)" "rules_ok awardRulesConfig"
    by (simp_all add: rules_ok_def awardRulesConfig_def rate_ok_def is_finite_def js_trim_def js_space_def)
  show "windows_ok getDefaultOffPeakWindows" "windows_ok [(''DE'', [night_range])]" "js_trim (ar_version awardRulesConfig) \<noteq> []"
    by code_simp+
qed

lemma sample_load:
  "policy_load sample_table = Inr \<lparr>ps_revision = 4, ps_updatedAt = iso_text 0,
     ps_rules = awardRulesConfig\<lparr>ar_version := num_text (Fin (of_nat 4))\<rparr>, ps_windows = getDefaultOffPeakWindows\<rparr>"
proof -
  have "safe_revision (Fin (of_nat 4))" by (simp add: safe_revision_def is_safe_integer_def)
  from saved_row_loads [OF sample_parts(2,3,5) this, where r = "hd sample_table" and now = 0] show ?thesis
    by (simp add: policy_load_def sample_table_def REWARD_POLICY_ROW_ID_def of_option_def)
qed

theorem loaded_policy_well_formed_witness:
  "\<exists>p. policy_load sample_table = Inr p \<and> length (country_ranges (plain_env\<lparr>re_policy := Some p\<rparr>) ''ES'') \<le> 6"
  using loaded_policy_well_formed [OF sample_load] sample_load by (auto simp: withPolicySnapshot_def)

lemma sample_update:
  "\<exists>t p. policy_update 9 sample_patch sample_table = Inr (t, p)"
proof -
  define cur where "cur = \<lparr>ps_revision = 4, ps_updatedAt = iso_text 0,
     ps_rules = awardRulesConfig\<lparr>ar_version := num_text (Fin (of_nat 4))\<rparr>, ps_windows = getDefaultOffPeakWindows\<rparr>"
  have v: "validatePatch (sample_patch cur) = Inr (None, Some [(''DE'', [night_range])])"
  proof -
    have "windows_document w \<noteq> JUndef" for w by (simp add: windows_document_def)
    then show ?thesis using windows_roundtrip [OF sample_parts(4)]
      by (simp add: validatePatch_def sample_patch_def validate_part_def guard_def)
  qed
  define r where "r = awardRulesConfig\<lparr>ar_version := nat_text 5\<rparr>"
  have ok: "rules_ok r" "js_trim (ar_version r) \<noteq> []" using sample_parts(1) nat_text_visible by (simp_all add: r_def)
  have "safe_revision (Fin (of_nat 5))" by (simp add: safe_revision_def is_safe_integer_def)
  note s = saved_row_loads [OF ok(1) sample_parts(4) ok(2) this, where r = "hd sample_table" and now = 9]
  have "policy_update 9 sample_patch sample_table = rbind (policyFromRow ((hd sample_table)\<lparr>pr_revision := JNum (Fin (of_nat 5)),
      pr_rules := rules_document r, pr_windows := windows_document [(''DE'', [night_range])], pr_updated_at := Some 9\<rparr>))
      (\<lambda>snapshot. Inr (policy_save 9 5 r [(''DE'', [night_range])] sample_table, snapshot))"
    using sample_load v
    by (simp add: policy_update_def cur_def [symmetric])
      (simp add: cur_def policy_save_def update_where_def sample_table_def REWARD_POLICY_ROW_ID_def of_option_def r_def)
  then show ?thesis using s by simp
qed

theorem policy_update_is_one_step_witness:
  "\<exists>t p. policy_update 9 sample_patch sample_table = Inr (t, p) \<and> ps_revision p = 5 \<and> policy_load t = Inr p"
proof -
  obtain t p where u: "policy_update 9 sample_patch sample_table = Inr (t, p)" using sample_update by blast
  from policy_update_is_one_step [OF u] u sample_load show ?thesis by auto
qed

end
