(* ===== verification/JsonLaws.thy ===== *)
theory JsonLaws
  imports PolicyStore
begin

text \<open>
  The fuel of \<open>JSON.parse\<close> in \<open>JS_Text\<close>: twice the length of the text plus two is enough, so the
  documents of the policy repository are parsed as by the unbounded recursion.
\<close>

lemma skip_space_length: "length (skip_space s) \<le> length s"
  by (simp add: skip_space_def length_dropWhile_le)

lemma skip_space_Cons: "skip_space s = c # r \<Longrightarrow> length r < length s"
  using skip_space_length [of s] by simp

lemma string_body_length: "json_string_body s = Some (t, r) \<Longrightarrow> length r < length s"
  by (induction s arbitrary: t r rule: json_string_body.induct)
    (force split: if_splits list.splits option.splits)+

text \<open>One unfolding of each function, over the recursive calls it makes.\<close>

definition value_step :: "(jsv list \<Rightarrow> string \<Rightarrow> (jsv \<times> string) option) \<Rightarrow> (js_object \<Rightarrow> string \<Rightarrow> (jsv \<times> string) option)
    \<Rightarrow> string \<Rightarrow> (jsv \<times> string) option" where
  "value_step elements members s =
     (case skip_space s of
        [] \<Rightarrow> None
      | c # r \<Rightarrow>
          if c = CHR 0x22 then map_option (\<lambda>(t, q). (JStr t, q)) (json_string_body r)
          else if c = CHR ''['' then
            (case skip_space r of
               [] \<Rightarrow> None
             | d # q \<Rightarrow> if d = CHR '']'' then Some (JArr [], q) else elements [] r)
          else if c = CHR 0x7B then
            (case skip_space r of
               [] \<Rightarrow> None
             | d # q \<Rightarrow> if d = CHR 0x7D then Some (JObj [], q) else members [] r)
          else if starts_with ''null'' (c # r) then Some (JNull, drop 4 (c # r))
          else if starts_with ''true'' (c # r) then Some (JBool True, drop 4 (c # r))
          else if starts_with ''false'' (c # r) then Some (JBool False, drop 5 (c # r))
          else (let t = takeWhile number_char (c # r) in
            if json_number_literal t then Some (JNum (text_number t), dropWhile number_char (c # r)) else None))"

definition elements_step where
  "elements_step value elements vs s =
     (case value s of
        None \<Rightarrow> None
      | Some (v, r) \<Rightarrow>
          (case skip_space r of
             [] \<Rightarrow> None
           | d # q \<Rightarrow> if d = CHR '']'' then Some (JArr (vs @ [v]), q)
               else if d = CHR '','' then elements (vs @ [v]) q else None))"

definition members_step where
  "members_step value members ob s =
     (case skip_space s of
        [] \<Rightarrow> None
      | c # r \<Rightarrow>
          if c \<noteq> CHR 0x22 then None
          else (case json_string_body r of
              None \<Rightarrow> None
            | Some (k, r1) \<Rightarrow>
                (case skip_space r1 of
                   [] \<Rightarrow> None
                 | d # r2 \<Rightarrow>
                     if d \<noteq> CHR '':'' then None
                     else (case value r2 of
                         None \<Rightarrow> None
                       | Some (v, r3) \<Rightarrow>
                           (case skip_space r3 of
                              [] \<Rightarrow> None
                            | e # q \<Rightarrow> if e = CHR 0x7D then Some (JObj (put_field ob k v), q)
                                else if e = CHR '','' then members (put_field ob k v) q else None)))))"

lemma json_steps:
  "json_value (Suc n) s = value_step (json_elements n) (json_members n) s"
  "json_elements (Suc n) vs s = elements_step (json_value n) (json_elements n) vs s"
  "json_members (Suc n) ob s = members_step (json_value n) (json_members n) ob s"
  by (simp_all only: json_value.simps json_elements.simps json_members.simps value_step_def elements_step_def members_step_def)

text \<open>Every successful call leaves a shorter text.\<close>

lemma value_step_consumes:
  assumes "value_step E M s = Some (v, r)"
    and "\<And>t v r. E [] t = Some (v, r) \<Longrightarrow> length r < length t" and "\<And>t v r. M [] t = Some (v, r) \<Longrightarrow> length r < length t"
  shows "length r < length s"
proof -
  obtain c q where c: "skip_space s = c # q" using assms(1) by (cases "skip_space s") (simp_all add: value_step_def)
  have q: "length q < length s" by (rule skip_space_Cons [OF c])
  have num: "length (dropWhile number_char (c # q)) < length (c # q)" if "json_number_literal (takeWhile number_char (c # q))"
  proof (cases "number_char c")
    case True
    then show ?thesis using length_dropWhile_le [of number_char q] by simp
  next
    case False
    then show ?thesis using that by (simp add: json_number_literal_def)
  qed
  from assms(1) c consider t where "json_string_body q = Some (t, r)" | d where "skip_space q = d # r" | "E [] q = Some (v, r)"
    | "M [] q = Some (v, r)" | "r = drop 4 (c # q)" | "r = drop 5 (c # q)"
    | "json_number_literal (takeWhile number_char (c # q))" "r = dropWhile number_char (c # q)"
    unfolding value_step_def c list.case
    by (simp only: Let_def split: if_split_asm list.split_asm)
      (auto split: list.split_asm if_split_asm)
  then show ?thesis
  proof cases
    case 1
    then show ?thesis using string_body_length [of q t r] q by simp
  next
    case 2
    then show ?thesis using skip_space_Cons [OF 2] q by simp
  next
    case 3
    then show ?thesis using assms(2) [OF 3] q by simp
  next
    case 4
    then show ?thesis using assms(3) [OF 4] q by simp
  next
    case 7
    then show ?thesis using num q by simp
  qed (use q in simp_all)
qed

lemma elements_step_consumes:
  assumes "elements_step V E vs s = Some (v, r)"
    and "\<And>t v r. V t = Some (v, r) \<Longrightarrow> length r < length t" and "\<And>vs t v r. E vs t = Some (v, r) \<Longrightarrow> length r < length t"
  shows "length r < length s"
proof -
  obtain x q where x: "V s = Some (x, q)" using assms(1) by (cases "V s") (auto simp: elements_step_def)
  obtain d p where d: "skip_space q = d # p" using assms(1) x by (cases "skip_space q") (auto simp: elements_step_def)
  have "length p < length s" using assms(2) [OF x] skip_space_Cons [OF d] by simp
  moreover have "r = p \<or> E (vs @ [x]) p = Some (v, r)" using assms(1) by (auto simp: elements_step_def x d split: if_splits)
  ultimately show ?thesis using assms(3) [of "vs @ [x]" p v r] by auto
qed

lemma members_step_consumes:
  assumes "members_step V M ob s = Some (v, r)"
    and "\<And>t v r. V t = Some (v, r) \<Longrightarrow> length r < length t" and "\<And>ob t v r. M ob t = Some (v, r) \<Longrightarrow> length r < length t"
  shows "length r < length s"
proof -
  obtain c q where c: "skip_space s = c # q" using assms(1) by (cases "skip_space s") (auto simp: members_step_def)
  obtain k r1 where k: "json_string_body q = Some (k, r1)"
    using assms(1) c by (cases "json_string_body q") (auto simp: members_step_def split: if_splits)
  obtain d r2 where d: "skip_space r1 = d # r2"
    using assms(1) c k by (cases "skip_space r1") (auto simp: members_step_def split: if_splits)
  obtain x r3 where x: "V r2 = Some (x, r3)"
    using assms(1) c k d by (cases "V r2") (auto simp: members_step_def split: if_splits)
  obtain e p where e: "skip_space r3 = e # p"
    using assms(1) c k d x by (cases "skip_space r3") (auto simp: members_step_def split: if_splits)
  have "length p < length s"
    using skip_space_Cons [OF c] string_body_length [OF k] skip_space_Cons [OF d] assms(2) [OF x] skip_space_Cons [OF e] by simp
  moreover have "r = p \<or> M (put_field ob k x) p = Some (v, r)"
    using assms(1) by (auto simp: members_step_def c k d x e split: if_splits)
  ultimately show ?thesis using assms(3) [of "put_field ob k x" p v r] by auto
qed

lemma json_consumes:
  "json_value n s = Some (v, r) \<Longrightarrow> length r < length s"
  "json_elements n vs s = Some (v, r) \<Longrightarrow> length r < length s"
  "json_members n ob s = Some (v, r) \<Longrightarrow> length r < length s"
proof (induction n arbitrary: s v r vs ob)
  case (Suc n)
  { case 1 show ?case by (rule value_step_consumes [OF 1 [unfolded json_steps]]) (fact Suc.IH)+ }
  { case 2 show ?case by (rule elements_step_consumes [OF 2 [unfolded json_steps]]) (fact Suc.IH)+ }
  { case 3 show ?case by (rule members_step_consumes [OF 3 [unfolded json_steps]]) (fact Suc.IH)+ }
qed simp_all

text \<open>A step depends on its recursive calls only on shorter texts, apart from the first element.\<close>

lemma value_step_cong:
  assumes "\<And>r. length r < length s \<Longrightarrow> E' [] r = E [] r" and "\<And>r. length r < length s \<Longrightarrow> M' [] r = M [] r"
  shows "value_step E' M' s = value_step E M s"
proof (cases "skip_space s")
  case (Cons c r)
  have "E' [] r = E [] r" "M' [] r = M [] r" using assms skip_space_Cons [OF Cons] by simp_all
  then show ?thesis by (simp only: value_step_def Cons list.case)
qed (simp add: value_step_def)

lemma elements_step_cong:
  assumes "V' s = V s" and "\<And>v r. V s = Some (v, r) \<Longrightarrow> length r < length s"
    and "\<And>vs r. length r < length s \<Longrightarrow> E' vs r = E vs r"
  shows "elements_step V' E' vs s = elements_step V E vs s"
proof (cases "V s")
  case (Some x)
  obtain v r where x: "x = (v, r)" by (cases x)
  show ?thesis
  proof (cases "skip_space r")
    case (Cons d q)
    have "length q < length s" using assms(2) [OF Some [unfolded x]] skip_space_Cons [OF Cons] by simp
    then show ?thesis using assms(3) by (simp add: elements_step_def assms(1) Some x Cons)
  qed (simp add: elements_step_def assms(1) Some x)
qed (simp add: elements_step_def assms(1))

lemma members_step_cong:
  assumes "\<And>r. length r < length s \<Longrightarrow> V' r = V r" and "\<And>t v r. V t = Some (v, r) \<Longrightarrow> length r < length t"
    and "\<And>ob r. length r < length s \<Longrightarrow> M' ob r = M ob r"
  shows "members_step V' M' ob s = members_step V M ob s"
proof (cases "skip_space s")
  case c: (Cons c q)
  show ?thesis
  proof (cases "json_string_body q")
    case k: (Some y)
    obtain k r1 where y: "y = (k, r1)" by (cases y)
    note k = k [unfolded y]
    show ?thesis
    proof (cases "skip_space r1")
      case d: (Cons d r2)
      have l: "length r2 < length s"
        using skip_space_Cons [OF c] string_body_length [OF k] skip_space_Cons [OF d] by simp
      note V = assms(1) [OF l]
      show ?thesis
      proof (cases "V r2")
        case x: (Some z)
        obtain v r3 where z: "z = (v, r3)" by (cases z)
        show ?thesis
        proof (cases "skip_space r3")
          case e: (Cons e p)
          have "length p < length s" using l assms(2) [OF x [unfolded z]] skip_space_Cons [OF e] by simp
          then show ?thesis using assms(3) by (simp add: members_step_def c k d V x z e)
        qed (simp add: members_step_def c k d V x z)
      qed (simp add: members_step_def c k d V)
    qed (simp add: members_step_def c k)
  qed (simp add: members_step_def c)
qed (simp add: members_step_def)

lemma json_fuel:
  "2 * length s + 1 \<le> n \<Longrightarrow> json_value (n + m) s = json_value n s"
  "2 * length s + 2 \<le> n \<Longrightarrow> json_elements (n + m) vs s = json_elements n vs s"
  "2 * length s + 2 \<le> n \<Longrightarrow> json_members (n + m) ob s = json_members n ob s"
proof (induction n arbitrary: s vs ob)
  case (Suc n)
  { case 1
    then show ?case unfolding add_Suc json_steps by (intro value_step_cong) (simp_all add: Suc.IH) }
  { case 2
    then show ?case unfolding add_Suc json_steps
      by (intro elements_step_cong) (simp_all add: Suc.IH json_consumes) }
  { case 3
    then show ?case unfolding add_Suc json_steps
      by (intro members_step_cong) (simp_all add: Suc.IH json_consumes) }
qed simp_all

text \<open>
     a stored policy document is parsed to the end: the fuel of \<open>JSON.parse\<close>, twice the length of the
  text plus two, is enough for every text, since more fuel gives the same value or the same rejection.
\<close>

theorem policy_documents_parse:
  assumes "2 * length s + 2 \<le> fuel"
  shows "parseJson (JStr s) name =
    (case json_value fuel s of
       Some (v, r) \<Rightarrow> if skip_space r = [] then Inr v else Inl (invalid_policy name)
     | None \<Rightarrow> Inl (invalid_policy name))"
proof -
  define N where "N = 2 * length s + 2"
  have "N + (fuel - N) = fuel" using assms by (simp add: N_def)
  moreover have "json_value (N + (fuel - N)) s = json_value N s" by (rule json_fuel(1)) (simp add: N_def)
  ultimately have f: "json_value fuel s = json_value N s" by (simp only:)
  show ?thesis unfolding f parseJson_def json_parse_def N_def [symmetric] of_option_def jsv.case
    by (cases "json_value N s") auto
qed

theorem policy_documents_parse_witness:
  "parseJson (JStr ''[true]'') ''rules'' = (case json_value 99 ''[true]'' of
     Some (v, r) \<Rightarrow> if skip_space r = [] then Inr v else Inl (invalid_policy ''rules'') | None \<Rightarrow> Inl (invalid_policy ''rules''))
   \<and> parseJson (JStr ''[true]'') ''rules'' = Inr (JArr [JBool True])"
proof
  show "parseJson (JStr ''[true]'') ''rules'' = (case json_value 99 ''[true]'' of
     Some (v, r) \<Rightarrow> if skip_space r = [] then Inr v else Inl (invalid_policy ''rules'') | None \<Rightarrow> Inl (invalid_policy ''rules''))"
    by (rule policy_documents_parse) simp
  show "parseJson (JStr ''[true]'') ''rules'' = Inr (JArr [JBool True])" by code_simp
qed

end
