(* ===== verification/Receipt.thy ===== *)
theory Receipt
  imports JS_Text
begin

text \<open>
  \<open>src/receipt.ts\<close>: spend receipts, their canonical JSON text, signing and verification, and
  \<open>src/reservationApproval.ts\<close>, the approval transaction handed to a wallet. Address checksums,
  digests, signatures, random identifiers and ABI encoding come from libraries and are parameters.
\<close>

datatype receipt_status = RS_RESERVED | RS_SETTLED | RS_REJECTED | RS_EXPIRED | RS_CANCELLED

fun receipt_status_text :: "receipt_status \<Rightarrow> string" where
  "receipt_status_text RS_RESERVED = ''reserved''"
| "receipt_status_text RS_SETTLED = ''settled''"
| "receipt_status_text RS_REJECTED = ''rejected''"
| "receipt_status_text RS_EXPIRED = ''expired''"
| "receipt_status_text RS_CANCELLED = ''cancelled''"

text \<open>\<open>sessionId\<close> and \<open>providerId\<close> may be absent (\<open>JUndef\<close>), null or text.\<close>

record receipt_payload =
  rp_version :: string
  rp_receiptId :: string
  rp_status :: receipt_status
  rp_contractId :: string
  rp_walletAddress :: string
  rp_amount :: string
  rp_sessionId :: jsv
  rp_providerId :: jsv
  rp_tokenTxHash :: string
  rp_tokenContractAddress :: string
  rp_chainId :: nat
  rp_issuedAt :: string

subsection \<open>Canonical text\<close>

fun sortForCanonicalJson :: "jsv \<Rightarrow> jsv" where
  "sortForCanonicalJson (JArr vs) = JArr (map sortForCanonicalJson vs)"
| "sortForCanonicalJson (JObj ob) =
     JObj (sort_key fst (filter (\<lambda>(k, v). v \<noteq> JUndef) (map (\<lambda>(k, v). (k, sortForCanonicalJson v)) ob)))"
| "sortForCanonicalJson v = v"

fun json_stringify :: "jsv \<Rightarrow> string" where
  "json_stringify JUndef = ''null''"
| "json_stringify JNull = ''null''"
| "json_stringify (JBool b) = (if b then ''true'' else ''false'')"
| "json_stringify (JNum n) = json_number n"
| "json_stringify (JStr s) = json_quote s"
| "json_stringify (JArr vs) = ''['' @ join_with '','' (map json_stringify vs) @ '']''"
| "json_stringify (JObj ob) =
     CHR 0x7B # join_with '','' (map (\<lambda>(k, t). json_quote k @ '':'' @ t)
       (map (\<lambda>(k, v). (k, json_stringify v)) ob)) @ [CHR 0x7D]"

definition payload_value :: "receipt_payload \<Rightarrow> jsv" where
  "payload_value p = JObj
     [(''version'', JStr (rp_version p)), (''receiptId'', JStr (rp_receiptId p)),
      (''status'', JStr (receipt_status_text (rp_status p))), (''contractId'', JStr (rp_contractId p)),
      (''walletAddress'', JStr (rp_walletAddress p)), (''amount'', JStr (rp_amount p)),
      (''sessionId'', rp_sessionId p), (''providerId'', rp_providerId p),
      (''tokenTxHash'', JStr (rp_tokenTxHash p)), (''tokenContractAddress'', JStr (rp_tokenContractAddress p)),
      (''chainId'', JNum (Fin (of_nat (rp_chainId p)))), (''issuedAt'', JStr (rp_issuedAt p))]"

definition canonicalizeReceiptPayload :: "receipt_payload \<Rightarrow> string" where
  "canonicalizeReceiptPayload p = json_stringify (sortForCanonicalJson (payload_value p))"

subsection \<open>Creating and signing\<close>

record receipt_input =
  rn_contractId :: string
  rn_walletAddress :: string
  rn_amount :: jsv
  rn_sessionId :: "string option"
  rn_providerId :: "string option"
  rn_tokenTxHash :: string
  rn_tokenContractAddress :: string
  rn_chainId :: nat
  rn_issuedAt :: "int option"
  rn_status :: "receipt_status option"

definition null_or_text :: "string option \<Rightarrow> jsv" where
  "null_or_text x = (case x of Some (c # cs) \<Rightarrow> JStr (c # cs) | _ \<Rightarrow> JNull)"

definition text_or_empty :: "string option \<Rightarrow> string" where
  "text_or_empty x = (case x of None \<Rightarrow> [] | Some s \<Rightarrow> s)"

definition createSpendReceiptPayload ::
    "(string \<Rightarrow> string) \<Rightarrow> (string \<Rightarrow> string option) \<Rightarrow> string \<Rightarrow> int \<Rightarrow> receipt_input \<Rightarrow> receipt_payload option" where
  "createSpendReceiptPayload sha256 checksum uuid now r =
     (let issuedAt = iso_text (case rn_issuedAt r of None \<Rightarrow> now | Some t \<Rightarrow> t);
          seed = join_with ''|'' [rn_contractId r, js_lower (rn_walletAddress r), js_string (rn_amount r),
            text_or_empty (rn_sessionId r), text_or_empty (rn_providerId r), js_lower (rn_tokenTxHash r), issuedAt, uuid]
      in Option.bind (checksum (rn_walletAddress r)) (\<lambda>wallet.
         Option.bind (checksum (rn_tokenContractAddress r)) (\<lambda>contract.
         Some \<lparr>rp_version = ''1.0'', rp_receiptId = ''spr_'' @ take 24 (sha256 seed),
           rp_status = (case rn_status r of None \<Rightarrow> RS_SETTLED | Some s \<Rightarrow> s), rp_contractId = rn_contractId r,
           rp_walletAddress = wallet, rp_amount = js_string (rn_amount r),
           rp_sessionId = null_or_text (rn_sessionId r), rp_providerId = null_or_text (rn_providerId r),
           rp_tokenTxHash = rn_tokenTxHash r, rp_tokenContractAddress = contract, rp_chainId = rn_chainId r,
           rp_issuedAt = issuedAt\<rparr>)))"

record signed_receipt =
  sg_payload :: receipt_payload
  sg_signature :: string
  sg_signerAddress :: string
  sg_canonicalPayload :: string

definition signSpendReceipt :: "(string \<Rightarrow> string) \<Rightarrow> string \<Rightarrow> receipt_payload \<Rightarrow> signed_receipt" where
  "signSpendReceipt sign address p =
     \<lparr>sg_payload = p, sg_signature = sign (canonicalizeReceiptPayload p), sg_signerAddress = address,
      sg_canonicalPayload = canonicalizeReceiptPayload p\<rparr>"

subsection \<open>Verification\<close>

text \<open>\<open>recover\<close> is \<open>ethers.verifyMessage\<close>: the address that signed the text, \<open>None\<close> when it throws.\<close>

definition verifySpendReceipt ::
    "(string \<Rightarrow> string \<Rightarrow> string option) \<Rightarrow> receipt_payload \<Rightarrow> string \<Rightarrow> string \<Rightarrow> bool option" where
  "verifySpendReceipt recover p signature expected =
     map_option (\<lambda>a. js_lower a = js_lower expected) (recover (canonicalizeReceiptPayload p) signature)"

datatype verification_failure =
  INVALID_TRUSTED_SIGNER | INVALID_CLAIMED_SIGNER | SIGNER_MISMATCH | INVALID_SIGNATURE "string option"

definition verifySpendReceiptAgainstTrustedSigner ::
    "(string \<Rightarrow> string \<Rightarrow> string option) \<Rightarrow> (string \<Rightarrow> string option) \<Rightarrow> receipt_payload \<Rightarrow> string \<Rightarrow> string \<Rightarrow> string
     \<Rightarrow> verification_failure + string" where
  "verifySpendReceiptAgainstTrustedSigner recover checksum p signature claimed trusted =
     rbind (of_option INVALID_TRUSTED_SIGNER (checksum trusted)) (\<lambda>trustedAddress.
     rbind (of_option INVALID_CLAIMED_SIGNER (checksum claimed)) (\<lambda>claimedAddress.
     rbind (guard (js_lower claimedAddress = js_lower trustedAddress) SIGNER_MISMATCH) (\<lambda>_.
     rbind (of_option (INVALID_SIGNATURE None) (recover (canonicalizeReceiptPayload p) signature)) (\<lambda>recovered.
     rbind (guard (js_lower recovered = js_lower trustedAddress) (INVALID_SIGNATURE (Some recovered))) (\<lambda>_.
     Inr recovered)))))"

subsection \<open>Approval transactions\<close>

record approval_request =
  aq_tokenContractAddress :: string
  aq_treasuryAddress :: string
  aq_walletAddress :: string
  aq_allowanceSparkz :: js_number

record approval_tx =
  at_from :: string
  at_to :: string
  at_value :: string
  at_data :: string

text \<open>\<open>encode_approve spender ether\<close> is the call data for that amount in ether, \<open>None\<close> when parsing it throws.\<close>

definition buildReservationApprovalTransaction ::
    "(string \<Rightarrow> string option) \<Rightarrow> (string \<Rightarrow> string \<Rightarrow> string option) \<Rightarrow> approval_request \<Rightarrow> string + approval_tx" where
  "buildReservationApprovalTransaction checksum encode_approve q =
     rbind (guard (is_finite (aq_allowanceSparkz q) \<and> js_less (Fin 0) (aq_allowanceSparkz q))
         ''allowanceSparkz must be greater than 0'') (\<lambda>_.
     rbind (of_option ''invalid address'' (checksum (aq_walletAddress q))) (\<lambda>sender.
     rbind (of_option ''invalid address'' (checksum (aq_tokenContractAddress q))) (\<lambda>target.
     rbind (of_option ''invalid address'' (checksum (aq_treasuryAddress q))) (\<lambda>spender.
     rbind (of_option ''invalid amount'' (encode_approve spender (num_text (aq_allowanceSparkz q)))) (\<lambda>data.
     Inr \<lparr>at_from = sender, at_to = target, at_value = ''0'', at_data = data\<rparr>)))))"

end
