(* ===== verification/Reconciliation.thy ===== *)
theory Reconciliation
  imports JS_Text
begin

text \<open>
  \<open>src/reconciliation.ts\<close>: comparing a projected balance with the balance on chain, and the summary
  of a report. Absent and null fields are both \<open>None\<close>.
\<close>

datatype reconciliation_status = MATCHED | AMOUNT_MISMATCH | MISSING_DB_BALANCE | CHAIN_READ_FAILED

record reconciliation_input =
  ri_uid :: string
  ri_walletAddress :: string
  ri_dbBalance :: "string option"
  ri_chainBalance :: "string option"
  ri_chainError :: "string option"

record reconciliation_item =
  it_uid :: string
  it_walletAddress :: string
  it_dbBalance :: "string option"
  it_chainBalance :: "string option"
  it_difference :: "string option"
  it_status :: reconciliation_status
  it_error :: "string option"

definition toNumber :: "string option \<Rightarrow> js_number option" where
  "toNumber v =
     (case v of None \<Rightarrow> None
      | Some s \<Rightarrow> if s = [] then None
          else let n = text_number s in if is_finite n then Some n else None)"

definition default_tolerance :: js_number where
  "default_tolerance = js_of_rat (1 / 10 ^ 6)"

definition item_of :: "reconciliation_input \<Rightarrow> string option \<Rightarrow> reconciliation_status \<Rightarrow> string option \<Rightarrow> reconciliation_item" where
  "item_of r difference status err =
     \<lparr>it_uid = ri_uid r, it_walletAddress = ri_walletAddress r, it_dbBalance = ri_dbBalance r,
      it_chainBalance = ri_chainBalance r, it_difference = difference, it_status = status, it_error = err\<rparr>"

definition reconcileBalance :: "js_number \<Rightarrow> reconciliation_input \<Rightarrow> reconciliation_item" where
  "reconcileBalance tolerance r =
     (case ri_chainError r of
        Some (c # cs) \<Rightarrow> item_of r None CHAIN_READ_FAILED (Some (c # cs))
      | _ \<Rightarrow>
          (case toNumber (ri_dbBalance r) of
             None \<Rightarrow> item_of r None MISSING_DB_BALANCE None
           | Some dbBalance \<Rightarrow>
               (let difference = map_option (\<lambda>c. js_sub c dbBalance) (toNumber (ri_chainBalance r));
                    close = (case difference of None \<Rightarrow> False | Some x \<Rightarrow> js_le (js_abs x) tolerance)
                in item_of r (map_option (\<lambda>x. to_fixed x 6) difference)
                     (if close then MATCHED else AMOUNT_MISMATCH) None)))"

record reconciliation_summary =
  su_checkedCount :: nat
  su_matchedCount :: nat
  su_mismatchCount :: nat
  su_matched :: bool

definition summarizeReconciliation :: "reconciliation_item list \<Rightarrow> reconciliation_summary" where
  "summarizeReconciliation items =
     (let mismatches = length (filter (\<lambda>i. it_status i \<in> {AMOUNT_MISMATCH, MISSING_DB_BALANCE, CHAIN_READ_FAILED}) items)
      in \<lparr>su_checkedCount = length items,
          su_matchedCount = length (filter (\<lambda>i. it_status i = MATCHED) items),
          su_mismatchCount = mismatches, su_matched = (mismatches = 0)\<rparr>)"

end
