(* ===== verification/ReceiptLaws.thy ===== *)
theory ReceiptLaws
  imports Receipt Reconciliation TokenAmount
begin

text \<open>
  Properties of \<open>src/receipt.ts\<close> and \<open>src/reconciliation.ts\<close>: the signed text of a receipt determines
  every field, signed receipts verify against their signer and no other, and a reconciled balance is
  within the tolerance of the chain.
\<close>

subsection \<open>Numbers in canonical text\<close>

lemma decimal_shape_value:
  assumes "decimal_shape t v"
  shows "decimal_value t = Some v" and "CHR '','' \<notin> set t"
proof -
  obtain w f where t: "t = (if f = [] then w else w @ ''.'' @ f)" "w \<noteq> []" "list_all is_digit w" "list_all is_digit f"
    "of_nat (digits_val (w @ f)) / 10 ^ length f = v" using assms by (auto simp: decimal_shape_def)
  have nd: "CHR ''.'' \<notin> set w" "CHR '','' \<notin> set w" "CHR '','' \<notin> set f" using t(3,4) by (auto simp: list_all_iff is_digit_def)
  show "decimal_value t = Some v" using t nd(1) by (cases "f = []") (auto simp: decimal_value_def)
  show "CHR '','' \<notin> set t" using nd by (simp add: t(1))
qed

lemma chain_text:
  assumes "n < 10 ^ 11"
  shows "decimal_value (json_number (Fin (of_nat n))) = Some (of_nat n)" and "CHR '','' \<notin> set (json_number (Fin (of_nat n)))"
proof -
  have "decimal_value (json_number (Fin (of_nat n))) = Some (of_nat n) \<and> CHR '','' \<notin> set (json_number (Fin (of_nat n)))"
  proof (cases "n = 0")
    case True
    then show ?thesis by (simp add: json_number_def is_finite_def decimal_value_def split_first_def is_digit_def digits_val_def digit_val_def)
  next
    case False
    have "fl (of_nat n) = of_nat n" using fl_of_int [of "int n"] assms by simp
    then have "decimal_shape (pos_text (of_nat n)) (of_nat n)" using cents_text [of "100 * n"] False assms by simp
    from decimal_shape_value [OF this] show ?thesis using False by (simp add: json_number_def is_finite_def)
  qed
  then show "decimal_value (json_number (Fin (of_nat n))) = Some (of_nat n)" "CHR '','' \<notin> set (json_number (Fin (of_nat n)))" by simp_all
qed

lemma chain_prefix:
  assumes "json_number (Fin (of_nat m)) @ '','' @ x = json_number (Fin (of_nat n)) @ '','' @ y" and "m < 10 ^ 11" and "n < 10 ^ 11"
  shows "m = n \<and> x = y"
proof -
  have "split_first CHR '','' (json_number (Fin (of_nat m)) @ CHR '','' # x)
      = split_first CHR '','' (json_number (Fin (of_nat n)) @ CHR '','' # y)" using assms(1) by simp
  then have e: "json_number (Fin (of_nat m)) = json_number (Fin (of_nat n))" "x = y"
    using chain_text(2) assms(2,3) by simp_all
  have "Some (of_nat m :: rat) = Some (of_nat n)" using chain_text(1) assms(2,3) e(1) by metis
  then show ?thesis using e(2) by simp
qed

subsection \<open>The canonical text\<close>

definition member_text :: "string \<Rightarrow> jsv \<Rightarrow> string" where
  "member_text k v = (if v = JUndef then [] else json_quote k @ '':'' @ json_stringify v @ '','')"

definition optional_text :: "jsv \<Rightarrow> bool" where
  "optional_text v \<longleftrightarrow> v \<in> {JUndef, JNull} \<or> (\<exists>s. v = JStr s)"

lemma member_prefix:
  assumes "member_text k v @ json_quote k' @ x = member_text k w @ json_quote k' @ y"
    and "k \<noteq> k'" and "optional_text v" and "optional_text w"
  shows "v = w \<and> x = y"
proof -
  have q: "json_quote s @ c \<noteq> ''null'' @ e" for s c e by (simp add: json_quote_def)
  have split: "v = JUndef \<or> v = JNull \<or> (\<exists>s. v = JStr s)" "w = JUndef \<or> w = JNull \<or> (\<exists>s. w = JStr s)"
    using assms(3,4) by (auto simp: optional_text_def)
  show ?thesis using assms(1,2) split
    by (auto simp: member_text_def dest!: json_quote_prefix) (metis q append_Cons append_Nil)+
qed

lemma canonical_text:
  assumes "optional_text (rp_sessionId p)" and "optional_text (rp_providerId p)"
  shows "canonicalizeReceiptPayload p = CHR 0x7B # json_quote ''amount'' @ '':'' @ json_quote (rp_amount p) @ '','' @
    json_quote ''chainId'' @ '':'' @ json_number (Fin (of_nat (rp_chainId p))) @ '','' @
    json_quote ''contractId'' @ '':'' @ json_quote (rp_contractId p) @ '','' @
    json_quote ''issuedAt'' @ '':'' @ json_quote (rp_issuedAt p) @ '','' @
    member_text ''providerId'' (rp_providerId p) @
    json_quote ''receiptId'' @ '':'' @ json_quote (rp_receiptId p) @ '','' @
    member_text ''sessionId'' (rp_sessionId p) @
    json_quote ''status'' @ '':'' @ json_quote (receipt_status_text (rp_status p)) @ '','' @
    json_quote ''tokenContractAddress'' @ '':'' @ json_quote (rp_tokenContractAddress p) @ '','' @
    json_quote ''tokenTxHash'' @ '':'' @ json_quote (rp_tokenTxHash p) @ '','' @
    json_quote ''version'' @ '':'' @ json_quote (rp_version p) @ '','' @
    json_quote ''walletAddress'' @ '':'' @ json_quote (rp_walletAddress p) @ [CHR 0x7D]"
proof -
  have kept: "sortForCanonicalJson v = v" if "optional_text v" for v using that by (auto simp: optional_text_def)
  show ?thesis
    by (cases "rp_sessionId p = JUndef"; cases "rp_providerId p = JUndef")
      (simp_all add: canonicalizeReceiptPayload_def payload_value_def kept assms member_text_def)
qed

lemma status_text_inj: "receipt_status_text a = receipt_status_text b \<Longrightarrow> a = b"
  by (cases a; cases b) simp_all

definition signable :: "receipt_payload \<Rightarrow> bool" where
  "signable p \<longleftrightarrow> optional_text (rp_sessionId p) \<and> optional_text (rp_providerId p) \<and> rp_chainId p < 10 ^ 11"

lemma canonical_inj:
  assumes "canonicalizeReceiptPayload p = canonicalizeReceiptPayload q" and "signable p" and "signable q"
  shows "p = q"
proof -
  have ok: "optional_text (rp_sessionId p)" "optional_text (rp_providerId p)" "rp_chainId p < 10 ^ 11"
    "optional_text (rp_sessionId q)" "optional_text (rp_providerId q)" "rp_chainId q < 10 ^ 11"
    using assms(2,3) by (simp_all only: signable_def)
  have chain: "json_number (Fin (of_nat (rp_chainId p))) @ CHR '','' # x = json_number (Fin (of_nat (rp_chainId q))) @ CHR '','' # y
      \<Longrightarrow> rp_chainId p = rp_chainId q \<and> x = y" for x y
    using chain_prefix [of "rp_chainId p" x "rp_chainId q" y] ok(3,6) by simp
  note member1 = member_prefix [where k = "''providerId''" and k' = "''receiptId''", OF _ _ ok(2,5), simplified]
  note member2 = member_prefix [where k = "''sessionId''" and k' = "''status''", OF _ _ ok(1,4), simplified]
  have "rp_amount p = rp_amount q \<and> rp_chainId p = rp_chainId q \<and> rp_contractId p = rp_contractId q \<and> rp_issuedAt p = rp_issuedAt q
      \<and> rp_providerId p = rp_providerId q \<and> rp_receiptId p = rp_receiptId q \<and> rp_sessionId p = rp_sessionId q
      \<and> receipt_status_text (rp_status p) = receipt_status_text (rp_status q)
      \<and> rp_tokenContractAddress p = rp_tokenContractAddress q \<and> rp_tokenTxHash p = rp_tokenTxHash q
      \<and> rp_version p = rp_version q \<and> rp_walletAddress p = rp_walletAddress q"
    using assms(1) unfolding canonical_text [OF ok(1,2)] canonical_text [OF ok(4,5)]
    by (auto dest!: json_quote_prefix chain member1 member2)
  then show ?thesis using status_text_inj by (intro receipt_payload.equality) simp_all
qed

definition sample_receipt :: receipt_payload where
  "sample_receipt = \<lparr>rp_version = ''1.0'', rp_receiptId = ''spr_1'', rp_status = RS_SETTLED, rp_contractId = ''DE-ABC-1'',
     rp_walletAddress = ''0xA1'', rp_amount = ''2.50'', rp_sessionId = JNull, rp_providerId = JUndef, rp_tokenTxHash = ''0x1'',
     rp_tokenContractAddress = ''0xC0'', rp_chainId = 80002, rp_issuedAt = ''2026-01-02T10:00:00.000Z''\<rparr>"

subsection \<open>Signatures\<close>

text \<open>
    verification against the trusted signer accepts a signed receipt and nothing else: for a signature
  scheme that recovers the signer's address only from the text it signed, the receipt the trusted
  signer signed verifies, and with that signature no receipt that differs in any field verifies under
  any claimed signer.
\<close>

theorem trusted_verification_exact:
  assumes "\<And>m. recover m (sign m) = Some addr"
    and "\<And>m t a. recover t (sign m) = Some a \<Longrightarrow> js_lower a = js_lower addr \<Longrightarrow> t = m"
    and "checksum addr = Some addr" and "signable p"
  shows "verifySpendReceiptAgainstTrustedSigner recover checksum (sg_payload (signSpendReceipt sign addr p))
      (sg_signature (signSpendReceipt sign addr p)) (sg_signerAddress (signSpendReceipt sign addr p)) addr = Inr addr
    \<and> (\<forall>q claimed r. signable q \<and> verifySpendReceiptAgainstTrustedSigner recover checksum q
         (sg_signature (signSpendReceipt sign addr p)) claimed addr = Inr r \<longrightarrow> q = p)"
proof (intro conjI allI impI)
  show "verifySpendReceiptAgainstTrustedSigner recover checksum (sg_payload (signSpendReceipt sign addr p))
      (sg_signature (signSpendReceipt sign addr p)) (sg_signerAddress (signSpendReceipt sign addr p)) addr = Inr addr"
    using assms(1,3) by (simp add: verifySpendReceiptAgainstTrustedSigner_def signSpendReceipt_def of_option_def guard_def)
  fix q claimed r
  assume q: "signable q \<and> verifySpendReceiptAgainstTrustedSigner recover checksum q
    (sg_signature (signSpendReceipt sign addr p)) claimed addr = Inr r"
  then have "recover (canonicalizeReceiptPayload q) (sign (canonicalizeReceiptPayload p)) = Some r" "js_lower r = js_lower addr"
    using assms(3) by (auto simp: verifySpendReceiptAgainstTrustedSigner_def signSpendReceipt_def rbind_Inr_iff)
  then have "canonicalizeReceiptPayload q = canonicalizeReceiptPayload p" by (rule assms(2))
  then show "q = p" by (rule canonical_inj) (use q assms(4) in simp_all)
qed

theorem trusted_verification_exact_witness:
  "verifySpendReceiptAgainstTrustedSigner (\<lambda>t s. Some (if s = t then ''0xa1'' else ''0x0'')) Some sample_receipt
     (canonicalizeReceiptPayload sample_receipt) ''0xa1'' ''0xa1'' = Inr ''0xa1''"
proof -
  have "signable sample_receipt" by (simp add: signable_def sample_receipt_def optional_text_def)
  define rec where "rec = (\<lambda>(t :: string) (s :: string). Some (if s = t then ''0xa1'' else ''0x0''))"
  have ne: "js_lower ''0x0'' \<noteq> js_lower ''0xa1''" by code_simp
  have r: "rec m m = Some ''0xa1''" for m by (simp add: rec_def)
  have u: "t = m" if "rec t m = Some a" "js_lower a = js_lower ''0xa1''" for m t a
  proof (rule ccontr)
    assume "t \<noteq> m"
    then have "a = ''0x0''" using that(1) by (simp add: rec_def)
    then show False using that(2) ne by simp
  qed
  have "verifySpendReceiptAgainstTrustedSigner rec Some (sg_payload (signSpendReceipt (\<lambda>m. m) ''0xa1'' sample_receipt))
      (sg_signature (signSpendReceipt (\<lambda>m. m) ''0xa1'' sample_receipt))
      (sg_signerAddress (signSpendReceipt (\<lambda>m. m) ''0xa1'' sample_receipt)) ''0xa1'' = Inr ''0xa1''"
    by (rule conjunct1 [OF trusted_verification_exact]) (rule r, erule (1) u, rule refl, fact)
  then show ?thesis by (simp add: signSpendReceipt_def rec_def)
qed

subsection \<open>Reconciliation\<close>

text \<open>
  A wallet is reported as matched only when both balances were read and the chain balance is within
  the tolerance of the projected one; a failed chain read is always reported as such, and every item of
  a report is counted exactly once, as matched or as mismatch.
\<close>

theorem reconciliation_reports:
  "(it_status (reconcileBalance tolerance r) = MATCHED \<longleftrightarrow>
      nonempty (ri_chainError r) = None \<and> (\<exists>a b. toNumber (ri_dbBalance r) = Some a \<and> toNumber (ri_chainBalance r) = Some b
        \<and> js_le (js_abs (js_sub b a)) tolerance))
    \<and> (it_status (reconcileBalance tolerance r) = CHAIN_READ_FAILED \<longleftrightarrow> nonempty (ri_chainError r) \<noteq> None)
    \<and> su_matchedCount (summarizeReconciliation items) + su_mismatchCount (summarizeReconciliation items) = length items
    \<and> (su_matched (summarizeReconciliation items) \<longleftrightarrow> (\<forall>i \<in> set items. it_status i = MATCHED))"
proof (intro conjI)
  show "it_status (reconcileBalance tolerance r) = MATCHED \<longleftrightarrow>
      nonempty (ri_chainError r) = None \<and> (\<exists>a b. toNumber (ri_dbBalance r) = Some a \<and> toNumber (ri_chainBalance r) = Some b
        \<and> js_le (js_abs (js_sub b a)) tolerance)"
    by (auto simp: reconcileBalance_def item_of_def nonempty_def Let_def split: option.split list.split)
  show "it_status (reconcileBalance tolerance r) = CHAIN_READ_FAILED \<longleftrightarrow> nonempty (ri_chainError r) \<noteq> None"
    by (auto simp: reconcileBalance_def item_of_def nonempty_def Let_def split: option.split list.split)
  have st: "it_status i = MATCHED \<longleftrightarrow> it_status i \<notin> {AMOUNT_MISMATCH, MISSING_DB_BALANCE, CHAIN_READ_FAILED}" for i :: reconciliation_item
    by (cases "it_status i") simp_all
  show "su_matchedCount (summarizeReconciliation items) + su_mismatchCount (summarizeReconciliation items) = length items"
    unfolding summarizeReconciliation_def Let_def reconciliation_summary.simps st
    using sum_length_filter_compl [of "\<lambda>i. it_status i \<notin> {AMOUNT_MISMATCH, MISSING_DB_BALANCE, CHAIN_READ_FAILED}" items] by simp
  show "su_matched (summarizeReconciliation items) \<longleftrightarrow> (\<forall>i \<in> set items. it_status i = MATCHED)"
    unfolding summarizeReconciliation_def Let_def reconciliation_summary.simps st by (auto simp: filter_empty_conv)
qed

end
