(* ===== verification/Database.thy ===== *)
theory Database
  imports TokenAmount
begin

text \<open>
  The tables of \<open>src/database/service.ts\<close>: one record per row type (the \<open>..Record\<close> interfaces, with
  the column names of the schema), the database as the record of its tables, the unique indexes the
  migrations install, and the errors the services raise. Columns of type \<open>numeric(20, 2)\<close> hold cents,
  \<open>numeric(20, 3)\<close> thousandths; dates are milliseconds. A statement that a unique index rejects
  fails with \<open>UNIQUE_VIOLATION\<close> and, inside a transaction, rolls everything back: a transaction is a
  function from the database to an error or to its result and the new database.
\<close>

subsection \<open>Errors\<close>

datatype preparation_error =
    TREASURY_NONCE_LOCK_TIMEOUT
  | TREASURY_TRANSACTION_INTENT_MISMATCH
  | TREASURY_PENDING_NONCE_UNAVAILABLE
  | TREASURY_NONCE_BUSY_RETRYABLE string nat
  | TREASURY_NONCE_GAP_REQUIRES_REVIEW string nat
  | TREASURY_NONCE_UNAVAILABLE
  | TREASURY_TRANSACTION_CONTEXT_MISMATCH
  | PREP_TOKEN_OPERATION_NOT_FOUND
  | PREP_TOKEN_OPERATION_TERMINAL_STATE
  | PREP_TOKEN_OPERATION_TX_HASH_MISMATCH
  | APPROVAL_PREPARATION_NOT_FOUND
  | APPROVAL_PREPARATION_TERMINAL_STATE
  | APPROVAL_FUNDING_ATTEMPT_MISMATCH
  | PREP_APPROVAL_FUNDING_TX_HASH_MISMATCH

datatype legacy_collision = Claim_Owned_By string | Award_Tuple_Differs | Award_Owner_Differs

text \<open>What a callback throws: a diagnostic of the transaction layer, or any other error by its message.\<close>

datatype callback_error = Reliability_Error diagnostic | Other_Error string

datatype db_error =
    Token token_error
  | UNIQUE_VIOLATION string
  | CALLBACK_FAILED callback_error
  | INVALID_DECIMAL_AMOUNT
  | SPEND_BALANCE_UNAVAILABLE
  | INSUFFICIENT_SPARKZ_AVAILABLE js_number
  | INSUFFICIENT_SPARKZ js_number
  | TOKEN_OPERATION_CHARGING_SESSION_MISMATCH
  | TOKEN_OPERATION_INTENT_MISMATCH
  | AWARD_CHARGING_SESSION_COLLISION_REVIEW string
  | LEGACY_DEDUP_KEY_COLLISION_REVIEW legacy_collision
  | TOKEN_OPERATION_NOT_FOUND string
  | TOKEN_OPERATION_TX_HASH_MISMATCH
  | Preparation preparation_error
  | APPROVAL_PREPARATION_INTENT_MISMATCH
  | APPROVAL_FUNDING_TX_HASH_MISMATCH
  | APPROVAL_FUNDING_PRIOR_EVIDENCE_REQUIRED
  | APPROVAL_PREPARATION_MISSING string
  | RESERVATION_INTENT_MISMATCH
  | INVALID_SETTLEMENT_CONTEXT
  | RESERVATION_NOT_FOUND string
  | RESERVATION_SETTLEMENT_CONTEXT_MISMATCH
  | RESERVATION_TX_HASH_MISMATCH
  | AWARD_TX_HASH_INTENT_MISMATCH
  | AWARD_TX_HASH_OWNER_MISMATCH
  | AWARD_DEDUP_INTENT_MISMATCH
  | AWARD_DEDUP_OWNER_MISMATCH
  | SPEND_TX_HASH_INTENT_MISMATCH
  | SPEND_TX_HASH_OWNER_MISMATCH
  | WALLET_ALREADY_LINKED
  | WALLET_LIMIT_REACHED
  | CONTRACT_ID_NOT_FOUND string

text \<open>A JavaScript string variable that may be null: \<open>given x\<close> is its truthiness.\<close>

definition given :: "string option \<Rightarrow> bool" where
  "given x \<longleftrightarrow> nonempty x \<noteq> None"

lemma given_simps [simp]: "given None = False" "given (Some s) = (s \<noteq> [])"
  by (simp_all add: given_def nonempty_def)

text \<open>\<open>lower(column) = lower(?)\<close>, which is not true when the column is null.\<close>

definition same_text :: "string \<Rightarrow> string \<Rightarrow> bool" where
  "same_text a b \<longleftrightarrow> js_lower a = js_lower b"

definition same_column :: "string option \<Rightarrow> string \<Rightarrow> bool" where
  "same_column c b = (case c of None \<Rightarrow> False | Some a \<Rightarrow> same_text a b)"

lemma same_text_refl [simp]: "same_text a a"
  by (simp add: same_text_def)

lemma same_text_sym: "same_text a b \<longleftrightarrow> same_text b a"
  by (auto simp: same_text_def)

lemma same_text_trans: "same_text a b \<Longrightarrow> same_text b c \<Longrightarrow> same_text a c"
  by (simp add: same_text_def)

lemma same_column_simps [simp]: "same_column None b = False" "same_column (Some a) b = same_text a b"
  by (simp_all add: same_column_def)

subsection \<open>Rows\<close>

record user_row =
  us_id :: string
  us_uid :: string
  us_wallet :: string
  us_name :: "string option"
  us_active :: bool
  us_created :: int
  us_updated :: int

record linked_row =
  ln_id :: string
  ln_uid :: string
  ln_wallet :: string
  ln_name :: "string option"
  ln_created :: int
  ln_updated :: int

record award_row =
  aw_id :: string
  aw_user_id :: string
  aw_session_id :: string
  aw_provider_id :: string
  aw_dedup_key :: string
  aw_amount :: nat
  aw_cdr_data :: "string option"
  aw_tx_hash :: string
  aw_awarded_at :: int
  aw_award_type :: "string option"
  aw_is_off_peak :: bool
  aw_country_code :: "string option"
  aw_local_time :: "string option"
  aw_status :: string
  aw_error :: "string option"
  aw_confirmed_at :: int
  aw_created :: int

record balance_row =
  bl_user_id :: string
  bl_wallet :: string
  bl_balance :: int
  bl_total_awarded :: nat
  bl_total_spent :: nat
  bl_last_synced :: int

record spend_row =
  sp_id :: string
  sp_user_id :: string
  sp_wallet :: string
  sp_amount :: nat
  sp_tx_hash :: string
  sp_session_id :: "string option"
  sp_status :: string
  sp_error :: "string option"
  sp_confirmed_at :: int
  sp_created :: int

record receipt_row =
  rc_receipt_id :: string
  rc_uid :: string
  rc_wallet :: string
  rc_amount :: nat
  rc_session_id :: "string option"
  rc_provider_id :: "string option"
  rc_status :: string
  rc_token_tx_hash :: string
  rc_token_contract :: string
  rc_chain_id :: nat
  rc_signer :: string
  rc_payload :: string
  rc_signature :: string
  rc_issued_at :: int

datatype reservation_status = RESERVED | SETTLING | SETTLED | RELEASED

record settlement_context =
  sc_deliveredKwh :: string
  sc_normalizedThreeDecimal :: string
  sc_sourcePrecision :: nat

record reservation_row =
  rv_id :: string
  rv_uid :: string
  rv_wallet :: string
  rv_session_id :: string
  rv_provider_id :: string
  rv_reserved :: nat
  rv_settled :: "nat option"
  rv_released :: "nat option"
  rv_delivered_kwh :: "nat option"
  rv_context :: "settlement_context option"
  rv_status :: reservation_status
  rv_tx_hash :: "string option"
  rv_error :: "string option"
  rv_auth_tx_hash :: "string option"
  rv_auth_amount :: "nat option"
  rv_reserved_at :: int
  rv_settled_at :: "int option"
  rv_updated :: int

datatype operation_type = AWARD | SPEND
datatype operation_status = SUBMITTING | SUBMITTED | CONFIRMED | PROJECTED | UNKNOWN_STATUS | FAILED
datatype movement_outcome = OUT_UNKNOWN | OUT_CONFIRMED | OUT_NO_MOVEMENT | OUT_REVIEW

record operation_row =
  op_id :: string
  op_key :: string
  op_type :: operation_type
  op_legacy_key :: "string option"
  op_fingerprint :: string
  op_uid :: string
  op_wallet :: string
  op_amount :: nat
  op_session_id :: "string option"
  op_provider_id :: "string option"
  op_charging_session :: "string option"
  op_reservation :: "string option"
  op_intent :: "js_object option"
  op_status :: operation_status
  op_outcome :: "movement_outcome option"
  op_tx_hash :: "string option"
  op_tx_nonce :: "nat option"
  op_tx_context :: "transaction_context option"
  op_diagnostic :: "diagnostic option"
  op_error :: "string option"
  op_submitted_at :: "int option"
  op_confirmed_at :: "int option"
  op_projected_at :: "int option"
  op_created :: int
  op_updated :: int

datatype lease_target = TARGET_OPERATION | TARGET_FUNDING | TARGET_STANDALONE
datatype lease_status = LEASE_PREPARED | LEASE_SUBMITTED | LEASE_UNKNOWN | LEASE_CONFIRMED | LEASE_FAILED

record lease_row =
  ls_key :: string
  ls_target_key :: "string option"
  ls_target :: lease_target
  ls_chain :: string
  ls_signer :: string
  ls_nonce :: nat
  ls_tx_hash :: string
  ls_context :: transaction_context
  ls_status :: lease_status
  ls_diagnostic :: "diagnostic option"
  ls_error :: "string option"
  ls_created :: int
  ls_updated :: int

datatype approval_status = AP_FUNDING | AP_FUNDED | AP_APPROVING | AP_APPROVED | AP_UNKNOWN | AP_FAILED

record approval_row =
  ap_key :: string
  ap_wallet :: string
  ap_contract :: string
  ap_chain :: string
  ap_treasury :: string
  ap_status :: approval_status
  ap_funding_hash :: "string option"
  ap_funding_nonce :: "nat option"
  ap_funding_context :: "transaction_context option"
  ap_attempt_key :: "string option"
  ap_attempt_value :: "string option"
  ap_approval_hash :: "string option"
  ap_diagnostic :: "diagnostic option"
  ap_error :: "string option"
  ap_created :: int
  ap_updated :: int

record audit_row =
  au_event_type :: string
  au_actor_type :: string
  au_actor_id :: "string option"
  au_target_type :: "string option"
  au_target_id :: "string option"
  au_status :: string
  au_metadata :: js_object
  au_created :: int

record report_row =
  rp_status :: string
  rp_checked :: nat
  rp_matched :: nat
  rp_mismatch :: nat
  rp_items :: string
  rp_metadata :: js_object
  rp_created :: int

record db =
  t_users :: "user_row list"
  t_linked :: "linked_row list"
  t_awards :: "award_row list"
  t_balances :: "balance_row list"
  t_spends :: "spend_row list"
  t_receipts :: "receipt_row list"
  t_reservations :: "reservation_row list"
  t_operations :: "operation_row list"
  t_leases :: "lease_row list"
  t_approvals :: "approval_row list"
  t_audits :: "audit_row list"
  t_reports :: "report_row list"

definition empty_db :: db where
  "empty_db = \<lparr>t_users = [], t_linked = [], t_awards = [], t_balances = [], t_spends = [], t_receipts = [],
     t_reservations = [], t_operations = [], t_leases = [], t_approvals = [], t_audits = [], t_reports = []\<rparr>"

subsection \<open>Amounts in columns\<close>

text \<open>The cents a decimal text stores in a \<open>numeric(20, 2)\<close> column (the text is canonical).\<close>

definition cents_of :: "string \<Rightarrow> nat" where
  "cents_of t = (case canonicalTokenAmount (JStr t) of None \<Rightarrow> 0 | Some a \<Rightarrow> units a)"

lemma cents_of_text [simp]: "cents_of (numeric2_text u) = u"
  by (simp add: cents_of_def canonicalTokenAmount_text)

text \<open>
  What the column makes of any decimal text with an optional sign: PostgreSQL rounds the third
  fractional digit half away from zero. The balance column is signed.
\<close>

definition rounded_cents :: "string \<Rightarrow> nat" where
  "rounded_cents t =
     (case split_first (CHR ''.'') t of
        (w, None) \<Rightarrow> digits_val w * 100
      | (w, Some f) \<Rightarrow> digits_val w * 100 + digits_val (two_decimals f)
          + (if 2 < length f \<and> 5 \<le> digit_val (f ! 2) then 1 else 0))"

definition signed_cents :: "string \<Rightarrow> int" where
  "signed_cents t = (case t of c # s \<Rightarrow> if c = CHR ''-'' then - int (rounded_cents s) else int (rounded_cents t) | [] \<Rightarrow> 0)"

definition decimalUnits :: "jsv \<Rightarrow> db_error + nat" where
  "decimalUnits v =
     (let text = js_trim (js_string (if is_nullish v then JStr ''0'' else v)) in
      case split_first (CHR ''.'') text of
        (w, None) \<Rightarrow> if w \<noteq> [] \<and> list_all is_digit w then Inr (digits_val w * 100) else Inl INVALID_DECIMAL_AMOUNT
      | (w, Some f) \<Rightarrow>
          if w = [] \<or> \<not> list_all is_digit w \<or> f = [] \<or> \<not> list_all is_digit f then Inl INVALID_DECIMAL_AMOUNT
          else if length f > 2 then Inl (Token UNSUPPORTED_TOKEN_PRECISION)
          else Inr (digits_val w * 100 + digits_val (two_decimals f)))"

lemma decimalUnits_numeric [simp]: "decimalUnits (JStr (numeric2_text u)) = Inr u"
proof -
  define f where "f = [digit_char (u div 10 mod 10), digit_char (u mod 10)]"
  have t: "numeric2_text u \<noteq> []"
    by (simp add: numeric2_text_def)
  have "CHR ''.'' \<notin> set (nat_text (u div 100))" by (rule not_in_nat_text) (simp add: is_digit_def)
  then have s: "split_first CHR ''.'' (numeric2_text u) = (nat_text (u div 100), Some f)"
    by (simp add: numeric2_text_def f_def)
  have "units (amount_of_parts (nat_text (u div 100)) f) = u"
    using canonicalTokenAmount_text [of u] by (simp add: canonicalTokenAmount_def numeric2_text_parts f_def)
  then have "u div 100 * 100 + digits_val (two_decimals f) = u"
    by (simp add: amount_of_parts_def Let_def)
  with s t nat_text_digits [of "u div 100"] show ?thesis
    by (simp add: decimalUnits_def is_nullish_def f_def)
qed

end
