(* ===== verification/Ledger.thy ===== *)
theory Ledger
  imports Database
begin

text \<open>
  \<open>TokenOperations\<close> of \<open>src/database/service.ts\<close>: the durable ledger of token movements. A claim is one
  transaction (the advisory locks make its read-then-insert atomic); the marks are conditional
  updates followed by a read. The clock \<open>now\<close>, the fresh row id and the outcome of the on-chain
  balance sampler are arguments.
\<close>

definition open_status :: "operation_status \<Rightarrow> bool" where
  "open_status s \<longleftrightarrow> s \<in> {SUBMITTING, SUBMITTED, UNKNOWN_STATUS}"

lemma open_status_simps [simp]:
  "open_status SUBMITTING" "open_status SUBMITTED" "open_status UNKNOWN_STATUS"
  "\<not> open_status CONFIRMED" "\<not> open_status PROJECTED" "\<not> open_status FAILED"
  by (simp_all add: open_status_def)

text \<open>\<open>slice(0, 500)\<close>\<close>

definition clip :: "string \<Rightarrow> string" where
  "clip e = take 500 e"

definition or_keep :: "'a option \<Rightarrow> 'a option \<Rightarrow> 'a option" where
  "or_keep new old = (case new of None \<Rightarrow> old | Some x \<Rightarrow> Some x)"

subsection \<open>Unique indexes\<close>

definition find_operation :: "db \<Rightarrow> string \<Rightarrow> operation_row option" where
  "find_operation d k = row_at op_key k (t_operations d)"

definition hash_taken :: "db \<Rightarrow> string \<Rightarrow> string \<Rightarrow> bool" where
  "hash_taken d k h = list_ex (\<lambda>r. op_key r \<noteq> k \<and> same_column (op_tx_hash r) h) (t_operations d)"

definition session_taken :: "operation_row list \<Rightarrow> operation_row \<Rightarrow> bool" where
  "session_taken t n \<longleftrightarrow> op_type n = AWARD \<and> op_provider_id n \<noteq> None \<and> op_charging_session n \<noteq> None
     \<and> list_ex (\<lambda>r. op_type r = AWARD \<and> op_provider_id r = op_provider_id n
          \<and> op_charging_session r = op_charging_session n) t"

definition insert_operation :: "db \<Rightarrow> operation_row \<Rightarrow> db_error + db" where
  "insert_operation d n =
     (if list_ex (\<lambda>r. op_key r = op_key n) (t_operations d)
      then Inl (UNIQUE_VIOLATION ''token_operations_operation_key_unique'')
      else if session_taken (t_operations d) n
      then Inl (UNIQUE_VIOLATION ''token_operations_award_provider_charging_session_unique'')
      else Inr (d\<lparr>t_operations := t_operations d @ [n]\<rparr>))"

definition update_operations :: "(operation_row \<Rightarrow> bool) \<Rightarrow> (operation_row \<Rightarrow> operation_row) \<Rightarrow> db \<Rightarrow> db" where
  "update_operations P f d = d\<lparr>t_operations := update_where P f (t_operations d)\<rparr>"

text \<open>The conditional \<open>UPDATE .. RETURNING *\<close>, then \<open>findByKey\<close> when no row was updated.\<close>

definition mark_operation ::
    "(operation_row \<Rightarrow> bool) \<Rightarrow> (operation_row \<Rightarrow> operation_row) \<Rightarrow> string \<Rightarrow> db \<Rightarrow> operation_row option \<times> db" where
  "mark_operation Q f k d =
     (let P = (\<lambda>r. op_key r = k \<and> Q r) in
      case returning_where P f (t_operations d) of
        Some r \<Rightarrow> (Some r, update_operations P f d)
      | None \<Rightarrow> (find_operation d k, d))"

subsection \<open>Claims\<close>

record claim_request =
  cr_key :: string
  cr_type :: operation_type
  cr_fingerprint :: string
  cr_uid :: string
  cr_wallet :: string
  cr_amount :: string
  cr_session_id :: "string option"
  cr_provider_id :: "string option"
  cr_charging_session :: "string option"
  cr_reservation :: "string option"
  cr_intent :: "js_object option"
  cr_legacy_key :: "string option"
  cr_balance :: "(string + js_number) option"

record claim_result =
  cl_operation :: "operation_row option"
  cl_acquired :: bool
  cl_legacy :: "award_row option"

definition active_hold :: "string \<Rightarrow> reservation_row \<Rightarrow> bool" where
  "active_hold wallet r \<longleftrightarrow> same_text (rv_wallet r) wallet \<and> rv_status r \<in> {RESERVED, SETTLING}"

definition unresolved_manual :: "string \<Rightarrow> operation_row \<Rightarrow> bool" where
  "unresolved_manual wallet o' \<longleftrightarrow> op_type o' = SPEND \<and> op_reservation o' = None \<and> same_text (op_wallet o') wallet
     \<and> op_status o' \<noteq> PROJECTED \<and> op_outcome o' \<noteq> Some OUT_NO_MOVEMENT
     \<and> (op_tx_hash o' \<noteq> None \<or> op_status o' \<in> {SUBMITTING, SUBMITTED, CONFIRMED, UNKNOWN_STATUS})"

definition wallet_holds :: "db \<Rightarrow> string \<Rightarrow> nat" where
  "wallet_holds d wallet = sum_where (active_hold wallet) rv_reserved (t_reservations d)"

definition manual_total :: "db \<Rightarrow> string \<Rightarrow> (operation_row \<Rightarrow> bool) \<Rightarrow> nat" where
  "manual_total d wallet P = sum_where (\<lambda>r. unresolved_manual wallet r \<and> P r) op_amount (t_operations d)"

definition sampled :: "string + js_number \<Rightarrow> db_error + js_number" where
  "sampled s = (case s of Inl e \<Rightarrow> Inl (CALLBACK_FAILED (Other_Error e)) | Inr v \<Rightarrow> Inr v)"

definition checkManualCapacity :: "db \<Rightarrow> claim_request \<Rightarrow> db_error + unit" where
  "checkManualCapacity d q =
     (case cr_balance q of
        None \<Rightarrow> Inr ()
      | Some sampler \<Rightarrow>
          if cr_type q \<noteq> SPEND \<or> given (cr_reservation q) then Inr () else
          rbind (of_option (Token UNSUPPORTED_TOKEN_PRECISION) (canonicalTokenAmount (JStr (cr_amount q)))) (\<lambda>amount.
          rbind (sampled sampler) (\<lambda>sampledBalance.
          rbind (of_option SPEND_BALANCE_UNAVAILABLE (truncateTokenAmount (JNum sampledBalance))) (\<lambda>balance.
          rbind (decimalUnits (JStr (numeric2_text (wallet_holds d (cr_wallet q))))) (\<lambda>holds.
          rbind (decimalUnits (JStr (numeric2_text (manual_total d (cr_wallet q) (\<lambda>r. op_key r \<noteq> cr_key q))))) (\<lambda>manual.
          (let availableUnits = int (units balance) - int (holds + manual) in
           guard (int (units amount) \<le> availableUnits)
             (INSUFFICIENT_SPARKZ_AVAILABLE (units_number (nat availableUnits))))))))))"

definition assertOperationIntent :: "operation_row \<Rightarrow> claim_request \<Rightarrow> nat \<Rightarrow> bool \<Rightarrow> db_error + unit" where
  "assertOperationIntent existing q amountUnits compareAmount =
     rbind (guard (\<not> (op_type existing = AWARD \<and> given (op_charging_session existing)
         \<and> op_charging_session existing \<noteq> cr_charging_session q)) TOKEN_OPERATION_CHARGING_SESSION_MISMATCH) (\<lambda>_.
     guard (op_type existing = cr_type q \<and> op_fingerprint existing = cr_fingerprint q \<and> op_uid existing = cr_uid q
         \<and> same_text (op_wallet existing) (cr_wallet q)
         \<and> (compareAmount \<longrightarrow> op_amount existing = amountUnits)) TOKEN_OPERATION_INTENT_MISMATCH)"

text \<open>A failed preflight without any transaction hash may be claimed again.\<close>

definition reclaimable :: "operation_row \<Rightarrow> bool" where
  "reclaimable r \<longleftrightarrow> op_status r = FAILED \<and> \<not> given (op_tx_hash r)
     \<and> (case op_error r of None \<Rightarrow> False | Some e \<Rightarrow> starts_with ''PREFLIGHT:'' e)"

definition reclaim_row :: "int \<Rightarrow> operation_row \<Rightarrow> operation_row" where
  "reclaim_row now r = r\<lparr>op_status := SUBMITTING, op_outcome := Some OUT_UNKNOWN, op_error := None, op_updated := now\<rparr>"

definition check_charging_session :: "db \<Rightarrow> claim_request \<Rightarrow> db_error + unit" where
  "check_charging_session d q =
     (if cr_type q = AWARD \<and> given (cr_provider_id q) \<and> given (cr_charging_session q) then
        (case first_where (\<lambda>r. op_type r = AWARD \<and> op_provider_id r = cr_provider_id q
               \<and> op_charging_session r = cr_charging_session q \<and> op_key r \<noteq> cr_key q) (t_operations d) of
           Some r \<Rightarrow> Inl (AWARD_CHARGING_SESSION_COLLISION_REVIEW (op_key r))
         | None \<Rightarrow> Inr ())
      else Inr ())"

definition check_legacy_claims :: "db \<Rightarrow> claim_request \<Rightarrow> db_error + unit" where
  "check_legacy_claims d q =
     (if cr_type q = AWARD \<and> given (cr_legacy_key q) then
        (case first_where (\<lambda>r. op_type r = AWARD \<and> op_legacy_key r = cr_legacy_key q \<and> op_key r \<noteq> cr_key q)
            (t_operations d) of
           Some r \<Rightarrow> Inl (LEGACY_DEDUP_KEY_COLLISION_REVIEW (Claim_Owned_By (op_key r)))
         | None \<Rightarrow> Inr ())
      else Inr ())"

definition legacy_award :: "db \<Rightarrow> claim_request \<Rightarrow> db_error + award_row option" where
  "legacy_award d q =
     (if cr_type q = AWARD \<and> given (cr_legacy_key q) then
        (case first_where (\<lambda>a. Some (aw_dedup_key a) = cr_legacy_key q) (t_awards d) of
           None \<Rightarrow> Inr None
         | Some legacy \<Rightarrow>
             if Some (aw_session_id legacy) \<noteq> cr_session_id q \<or> Some (aw_provider_id legacy) \<noteq> cr_provider_id q
             then Inl (LEGACY_DEDUP_KEY_COLLISION_REVIEW Award_Tuple_Differs)
             else (case first_where (\<lambda>u. us_id u = aw_user_id legacy) (t_users d) of
                 None \<Rightarrow> Inl (LEGACY_DEDUP_KEY_COLLISION_REVIEW Award_Owner_Differs)
               | Some u \<Rightarrow>
                   if us_uid u \<noteq> cr_uid q \<or> \<not> same_text (us_wallet u) (cr_wallet q)
                   then Inl (LEGACY_DEDUP_KEY_COLLISION_REVIEW Award_Owner_Differs)
                   else Inr (Some legacy)))
      else Inr None)"

definition new_operation :: "int \<Rightarrow> string \<Rightarrow> claim_request \<Rightarrow> nat \<Rightarrow> operation_row" where
  "new_operation now ident q amountUnits =
     \<lparr>op_id = ident, op_key = cr_key q, op_type = cr_type q, op_legacy_key = nonempty (cr_legacy_key q),
      op_fingerprint = cr_fingerprint q, op_uid = cr_uid q, op_wallet = cr_wallet q, op_amount = amountUnits,
      op_session_id = nonempty (cr_session_id q), op_provider_id = nonempty (cr_provider_id q),
      op_charging_session = nonempty (cr_charging_session q), op_reservation = nonempty (cr_reservation q),
      op_intent = cr_intent q, op_status = SUBMITTING, op_outcome = Some OUT_UNKNOWN, op_tx_hash = None,
      op_tx_nonce = None, op_tx_context = None, op_diagnostic = None, op_error = None, op_submitted_at = None,
      op_confirmed_at = None, op_projected_at = None, op_created = now, op_updated = now\<rparr>"

definition claim :: "int \<Rightarrow> string \<Rightarrow> claim_request \<Rightarrow> db \<Rightarrow> db_error + (claim_result \<times> db)" where
  "claim now ident q d =
     rbind (of_option (Token UNSUPPORTED_TOKEN_PRECISION) (canonicalTokenAmount (JStr (cr_amount q)))) (\<lambda>amount.
     case find_operation d (cr_key q) of
       Some existing \<Rightarrow>
         rbind (assertOperationIntent existing q (units amount) (cr_type q \<noteq> AWARD)) (\<lambda>_.
         if reclaimable existing then
           rbind (checkManualCapacity d q) (\<lambda>_.
           Inr (\<lparr>cl_operation = returning_where (\<lambda>r. op_key r = cr_key q) (reclaim_row now) (t_operations d),
                 cl_acquired = True, cl_legacy = None\<rparr>,
                update_operations (\<lambda>r. op_key r = cr_key q) (reclaim_row now) d))
         else Inr (\<lparr>cl_operation = Some existing, cl_acquired = False, cl_legacy = None\<rparr>, d))
     | None \<Rightarrow>
         rbind (check_charging_session d q) (\<lambda>_.
         rbind (check_legacy_claims d q) (\<lambda>_.
         rbind (legacy_award d q) (\<lambda>legacy.
         case legacy of
           Some a \<Rightarrow> Inr (\<lparr>cl_operation = None, cl_acquired = False, cl_legacy = Some a\<rparr>, d)
         | None \<Rightarrow>
             rbind (checkManualCapacity d q) (\<lambda>_.
             rbind (insert_operation d (new_operation now ident q (units amount))) (\<lambda>d'.
             Inr (\<lparr>cl_operation = Some (new_operation now ident q (units amount)), cl_acquired = True,
                   cl_legacy = None\<rparr>, d')))))))"

subsection \<open>Marks\<close>

definition findByTxHash :: "db \<Rightarrow> jsv \<Rightarrow> db_error + operation_row option" where
  "findByTxHash d txHash =
     (case requireCanonicalTransactionHash txHash ''transaction hash'' of
        Inl e \<Rightarrow> Inl (Token e)
      | Inr h \<Rightarrow>
          (case requireUnambiguousTransactionMatch
              (take 2 (filter (\<lambda>r. same_column (op_tx_hash r) h) (t_operations d))) ''operation'' of
             Inl e \<Rightarrow> Inl (Token e) | Inr r \<Rightarrow> Inr r))"

definition canonical_hash :: "string \<Rightarrow> string \<Rightarrow> db_error + string" where
  "canonical_hash txHash fld =
     (case requireCanonicalTransactionHash (JStr txHash) fld of Inl e \<Rightarrow> Inl (Token e) | Inr h \<Rightarrow> Inr h)"

definition submitted_row :: "int \<Rightarrow> operation_row \<Rightarrow> operation_row" where
  "submitted_row now r = r\<lparr>op_status := SUBMITTED, op_submitted_at := Some now, op_diagnostic := None,
     op_error := None, op_updated := now\<rparr>"

definition markSubmitted :: "int \<Rightarrow> string \<Rightarrow> string \<Rightarrow> db \<Rightarrow> db_error + (operation_row \<times> db)" where
  "markSubmitted now k txHash d =
     rbind (canonical_hash txHash ''transaction hash'') (\<lambda>h.
     let P = (\<lambda>r. op_key r = k \<and> op_tx_hash r = None \<and> open_status (op_status r));
         f = (\<lambda>r. submitted_row now (r\<lparr>op_tx_hash := Some h\<rparr>)) in
     case returning_where P f (t_operations d) of
       Some r \<Rightarrow>
         if hash_taken d k h then Inl (UNIQUE_VIOLATION ''token_operations_tx_hash_lower_unique'')
         else Inr (r, update_operations P f d)
     | None \<Rightarrow>
         (case find_operation d k of
            None \<Rightarrow> Inl (TOKEN_OPERATION_NOT_FOUND k)
          | Some current \<Rightarrow>
              if \<not> given (op_tx_hash current) then Inr (current, d)
              else if map_option js_lower (op_tx_hash current) \<noteq> Some h then Inl TOKEN_OPERATION_TX_HASH_MISMATCH
              else (let P' = (\<lambda>r. op_key r = k \<and> same_column (op_tx_hash r) h \<and> open_status (op_status r)) in
                    case returning_where P' (submitted_row now) (t_operations d) of
                      Some r \<Rightarrow> Inr (r, update_operations P' (submitted_row now) d)
                    | None \<Rightarrow> Inr (current, d))))"

definition markUnknown :: "int \<Rightarrow> string \<Rightarrow> string \<Rightarrow> diagnostic option option \<Rightarrow> db \<Rightarrow> operation_row option \<times> db" where
  "markUnknown now k e diag d =
     mark_operation (\<lambda>r. open_status (op_status r))
       (\<lambda>r. r\<lparr>op_status := UNKNOWN_STATUS, op_error := Some (clip e),
          op_diagnostic := (case diag of None \<Rightarrow> op_diagnostic r | Some g \<Rightarrow> g), op_updated := now\<rparr>) k d"

definition markConfirmed :: "int \<Rightarrow> string \<Rightarrow> string option \<Rightarrow> db \<Rightarrow> operation_row option \<times> db" where
  "markConfirmed now k e d =
     mark_operation (\<lambda>r. op_tx_hash r \<noteq> None \<and> (open_status (op_status r) \<or> op_status r = CONFIRMED))
       (\<lambda>r. r\<lparr>op_status := CONFIRMED, op_outcome := Some OUT_CONFIRMED, op_error := nonempty e,
          op_confirmed_at := Some now, op_updated := now\<rparr>) k d"

definition markProjectionError :: "int \<Rightarrow> string \<Rightarrow> string \<Rightarrow> db \<Rightarrow> operation_row option \<times> db" where
  "markProjectionError now k e d =
     mark_operation (\<lambda>r. op_tx_hash r \<noteq> None \<and> (open_status (op_status r) \<or> op_status r = CONFIRMED))
       (\<lambda>r. r\<lparr>op_status := CONFIRMED, op_error := Some e, op_updated := now\<rparr>) k d"

definition markProjected :: "int \<Rightarrow> string \<Rightarrow> db \<Rightarrow> operation_row option \<times> db" where
  "markProjected now k d =
     (case find_operation d k of
        None \<Rightarrow> (None, d)
      | Some current \<Rightarrow>
          if op_status current = FAILED \<or> (\<not> given (op_tx_hash current) \<and> op_amount current \<noteq> 0) then (Some current, d)
          else (let P = (\<lambda>r. op_key r = k \<and> op_status r \<noteq> FAILED \<and> (op_tx_hash r \<noteq> None \<or> op_amount r = 0));
                    f = (\<lambda>r. r\<lparr>op_status := PROJECTED,
                          op_outcome := Some (if op_amount current = 0 then OUT_NO_MOVEMENT else OUT_CONFIRMED),
                          op_error := None, op_projected_at := Some now, op_updated := now\<rparr>) in
                case returning_where P f (t_operations d) of
                  Some r \<Rightarrow> (Some r, update_operations P f d)
                | None \<Rightarrow> (Some current, d)))"

definition markFailed ::
    "int \<Rightarrow> string \<Rightarrow> string \<Rightarrow> movement_outcome \<Rightarrow> diagnostic option option \<Rightarrow> db \<Rightarrow> operation_row option \<times> db" where
  "markFailed now k e outcome diag d =
     mark_operation (\<lambda>r. op_tx_hash r \<noteq> None \<and> open_status (op_status r))
       (\<lambda>r. r\<lparr>op_status := FAILED, op_outcome := Some outcome, op_error := Some e,
          op_diagnostic := (case diag of None \<Rightarrow> op_diagnostic r | Some g \<Rightarrow> g), op_updated := now\<rparr>) k d"

definition markPreflightFailed ::
    "int \<Rightarrow> string \<Rightarrow> string \<Rightarrow> diagnostic option option \<Rightarrow> db \<Rightarrow> operation_row option \<times> db" where
  "markPreflightFailed now k e diag d =
     mark_operation (\<lambda>r. op_tx_hash r = None)
       (\<lambda>r. r\<lparr>op_status := FAILED, op_outcome := Some OUT_NO_MOVEMENT, op_error := Some (''PREFLIGHT:'' @ e),
          op_diagnostic := (case diag of None \<Rightarrow> op_diagnostic r | Some g \<Rightarrow> g), op_updated := now\<rparr>) k d"

subsection \<open>What every operation keeps\<close>

definition same_intent :: "operation_row \<Rightarrow> operation_row \<Rightarrow> bool" where
  "same_intent r s \<longleftrightarrow> op_id s = op_id r \<and> op_key s = op_key r \<and> op_type s = op_type r
     \<and> op_legacy_key s = op_legacy_key r \<and> op_fingerprint s = op_fingerprint r \<and> op_uid s = op_uid r
     \<and> op_wallet s = op_wallet r \<and> op_amount s = op_amount r \<and> op_session_id s = op_session_id r
     \<and> op_provider_id s = op_provider_id r \<and> op_charging_session s = op_charging_session r
     \<and> op_reservation s = op_reservation r \<and> op_intent s = op_intent r \<and> op_created s = op_created r"

text \<open>
  The order of the ledger: the intent is immutable; a transaction hash, once set, stays; a failed
  movement with a hash is final; a confirmed one can only become projected.
\<close>

definition op_le :: "operation_row \<Rightarrow> operation_row \<Rightarrow> bool" where
  "op_le r s \<longleftrightarrow> same_intent r s
     \<and> (op_tx_hash r \<noteq> None \<longrightarrow> op_tx_hash s = op_tx_hash r
          \<and> (op_status r = FAILED \<longrightarrow> s = r)
          \<and> (op_status r = CONFIRMED \<longrightarrow> op_status s \<in> {CONFIRMED, PROJECTED})
          \<and> (op_status r = PROJECTED \<longrightarrow> op_status s = PROJECTED))"

definition hash_ok :: "string \<Rightarrow> bool" where
  "hash_ok t \<longleftrightarrow> is_tx_hash t \<and> js_lower t = t"

definition session_key :: "operation_row \<Rightarrow> (string \<times> string) option" where
  "session_key r = (if op_type r = AWARD then
     (case (op_provider_id r, op_charging_session r) of (Some p, Some s) \<Rightarrow> Some (p, s) | _ \<Rightarrow> None) else None)"

definition ops_ok :: "operation_row list \<Rightarrow> bool" where
  "ops_ok t \<longleftrightarrow> distinct (map op_key t) \<and> (\<forall>r \<in> set t. \<forall>h. op_tx_hash r = Some h \<longrightarrow> hash_ok h)
     \<and> (\<forall>r \<in> set t. \<forall>s \<in> set t. session_key r \<noteq> None \<and> session_key s = session_key r \<longrightarrow> r = s)
     \<and> (\<forall>r \<in> set t. \<forall>s \<in> set t. op_tx_hash r \<noteq> None \<and> op_tx_hash s = op_tx_hash r \<longrightarrow> r = s)"

definition ledger_ok :: "db \<Rightarrow> bool" where
  "ledger_ok d \<longleftrightarrow> ops_ok (t_operations d)"

lemma ops_okI:
  assumes "distinct (map op_key t)" and "\<And>r h. r \<in> set t \<Longrightarrow> op_tx_hash r = Some h \<Longrightarrow> hash_ok h"
    and "\<And>r s. r \<in> set t \<Longrightarrow> s \<in> set t \<Longrightarrow> session_key r \<noteq> None \<Longrightarrow> session_key s = session_key r \<Longrightarrow> r = s"
    and "\<And>r s. r \<in> set t \<Longrightarrow> s \<in> set t \<Longrightarrow> op_tx_hash r \<noteq> None \<Longrightarrow> op_tx_hash s = op_tx_hash r \<Longrightarrow> r = s"
  shows "ops_ok t"
  unfolding ops_ok_def
proof (intro conjI ballI allI impI)
  show "distinct (map op_key t)" by (rule assms(1))
  show "\<And>r h. r \<in> set t \<Longrightarrow> op_tx_hash r = Some h \<Longrightarrow> hash_ok h" by (rule assms(2))
  show "r = s" if "r \<in> set t" "s \<in> set t" "session_key r \<noteq> None \<and> session_key s = session_key r" for r s
    using that assms(3) [of r s] by blast
  show "r = s" if "r \<in> set t" "s \<in> set t" "op_tx_hash r \<noteq> None \<and> op_tx_hash s = op_tx_hash r" for r s
    using that assms(4) [of r s] by blast
qed

lemma ops_okD:
  assumes "ops_ok t"
  shows "distinct (map op_key t)"
    and "r \<in> set t \<Longrightarrow> op_tx_hash r = Some h \<Longrightarrow> hash_ok h"
    and "r \<in> set t \<Longrightarrow> s \<in> set t \<Longrightarrow> session_key r \<noteq> None \<Longrightarrow> session_key s = session_key r \<Longrightarrow> r = s"
    and "r \<in> set t \<Longrightarrow> s \<in> set t \<Longrightarrow> op_tx_hash r \<noteq> None \<Longrightarrow> op_tx_hash s = op_tx_hash r \<Longrightarrow> r = s"
proof -
  note a = assms [unfolded ops_ok_def]
  show "distinct (map op_key t)" using a by (rule conjunct1)
  show "r \<in> set t \<Longrightarrow> op_tx_hash r = Some h \<Longrightarrow> hash_ok h"
    using a [THEN conjunct2, THEN conjunct1] by blast
  show "r \<in> set t \<Longrightarrow> s \<in> set t \<Longrightarrow> session_key r \<noteq> None \<Longrightarrow> session_key s = session_key r \<Longrightarrow> r = s"
    using a [THEN conjunct2, THEN conjunct2, THEN conjunct1] by blast
  show "r \<in> set t \<Longrightarrow> s \<in> set t \<Longrightarrow> op_tx_hash r \<noteq> None \<Longrightarrow> op_tx_hash s = op_tx_hash r \<Longrightarrow> r = s"
    using a [THEN conjunct2, THEN conjunct2, THEN conjunct2] by blast
qed

lemma op_le_refl [simp]: "op_le r r"
  by (simp add: op_le_def same_intent_def)

lemma op_le_trans: "op_le a b \<Longrightarrow> op_le b c \<Longrightarrow> op_le a c"
  by (auto simp: op_le_def same_intent_def)

lemma op_le_key: "op_le r s \<Longrightarrow> op_key s = op_key r"
  by (simp add: op_le_def same_intent_def)

lemma same_intent_session: "same_intent r s \<Longrightarrow> session_key s = session_key r"
  by (simp add: same_intent_def session_key_def)

lemma is_tx_hash_nonempty: "is_tx_hash t \<Longrightarrow> t \<noteq> []"
  by (auto simp: is_tx_hash_def)

lemma canonical_hash_ok: "canonical_hash t fld = Inr h \<Longrightarrow> hash_ok h"
proof -
  assume "canonical_hash t fld = Inr h"
  then have "is_tx_hash (js_trim t)" and h: "h = js_lower (js_trim t)"
    by (auto simp: canonical_hash_def requireCanonicalTransactionHash_def canonicalTransactionHash_def Let_def of_option_def
        split: sum.splits if_splits)
  then have len: "length (js_trim t) = 66" and pre: "take 2 (js_trim t) = ''0x''"
    and hex: "list_all is_hex (drop 2 (js_trim t))" by (simp_all add: is_tx_hash_def)
  have "take 2 h = js_lower ''0x''" using pre by (simp add: h js_lower_def take_map)
  moreover have "js_lower ''0x'' = ''0x''" by code_simp
  moreover have "list_all is_hex (drop 2 h)" using hex by (simp add: h js_lower_def drop_map list_all_iff)
  ultimately show ?thesis using len by (simp add: hash_ok_def is_tx_hash_def h)
qed

lemma hash_ok_same: "hash_ok a \<Longrightarrow> hash_ok b \<Longrightarrow> same_text a b \<longleftrightarrow> a = b"
  by (auto simp: hash_ok_def same_text_def)

lemma ledger_ok_hash: "ledger_ok d \<Longrightarrow> find_operation d k = Some r \<Longrightarrow> op_tx_hash r = Some h \<Longrightarrow> hash_ok h"
  by (auto simp: ledger_ok_def ops_ok_def find_operation_def dest: row_at_Some)

text \<open>A conditional update that keeps the intent and respects the order keeps the ledger well formed.\<close>

lemma ops_ok_update:
  assumes ok: "ops_ok t"
    and le: "\<And>r. r \<in> set t \<Longrightarrow> P r \<Longrightarrow> op_le r (f r)"
    and hash: "\<And>r. r \<in> set t \<Longrightarrow> P r \<Longrightarrow> op_tx_hash (f r) = op_tx_hash r \<or>
      (\<exists>h. op_tx_hash (f r) = Some h \<and> hash_ok h \<and> op_key r = k
         \<and> \<not> list_ex (\<lambda>x. op_key x \<noteq> k \<and> same_column (op_tx_hash x) h) t)"
  shows "ops_ok (update_where P f t)"
proof -
  define g where "g = (\<lambda>r. if P r then f r else r)"
  have upd: "update_where P f t = map g t" by (simp add: update_where_def g_def)
  have lg: "op_le r (g r)" if "r \<in> set t" for r using le [OF that] by (simp add: g_def)
  have key: "op_key (g r) = op_key r" if "r \<in> set t" for r using lg [OF that] by (rule op_le_key)
  have sess: "session_key (g r) = session_key r" if "r \<in> set t" for r
    by (rule same_intent_session) (rule conjunct1 [OF lg [OF that, unfolded op_le_def]])
  note d = ops_okD(1) [OF ok] and h = ops_okD(2) [OF ok] and u = ops_okD(3) [OF ok] and v = ops_okD(4) [OF ok]
  have same: "r = s" if "r \<in> set t" "s \<in> set t" "op_key r = op_key s" for r s
    using d that by (rule distinct_key_eq)
  have new: "op_tx_hash (g r) = op_tx_hash r \<or> (\<exists>h. op_tx_hash (g r) = Some h \<and> hash_ok h \<and> op_key r = k
      \<and> (\<forall>x \<in> set t. op_tx_hash x = Some h \<longrightarrow> x = r))" if r: "r \<in> set t" for r
  proof (cases "P r \<and> op_tx_hash (f r) \<noteq> op_tx_hash r")
    case True
    then obtain h where h: "op_tx_hash (f r) = Some h" "hash_ok h" "op_key r = k"
      and none: "\<not> list_ex (\<lambda>x. op_key x \<noteq> k \<and> same_column (op_tx_hash x) h) t"
      using hash [OF r] by blast
    have "x = r" if x: "x \<in> set t" "op_tx_hash x = Some h" for x
    proof -
      have "op_key x = k" using none x by (auto simp: list_ex_iff)
      then show ?thesis using same [OF x(1) r] h(3) by simp
    qed
    moreover have "g r = f r" using True by (simp add: g_def)
    ultimately show ?thesis using h by (intro disjI2 exI [of _ h]) simp
  next
    case False
    then show ?thesis by (cases "P r") (simp_all add: g_def)
  qed
  have 1: "distinct (map op_key (map g t))" using d key by (simp add: distinct_map inj_on_def)
  have 2: "hash_ok h'" if "r \<in> set t" "op_tx_hash (g r) = Some h'" for r h'
    using new [OF that(1)] h [OF that(1)] that(2) by auto
  have 3: "g r = g s" if "r \<in> set t" "s \<in> set t" "session_key (g r) \<noteq> None" "session_key (g s) = session_key (g r)" for r s
  proof -
    have "r = s" using that(3,4) unfolding sess [OF that(1)] sess [OF that(2)] by (rule u [OF that(1,2)])
    then show ?thesis by simp
  qed
  have 4: "g r = g s" if "r \<in> set t" "s \<in> set t" "op_tx_hash (g r) \<noteq> None" "op_tx_hash (g s) = op_tx_hash (g r)" for r s
  proof -
    from new [OF that(1)] new [OF that(2)] consider
        "op_tx_hash (g r) = op_tx_hash r" "op_tx_hash (g s) = op_tx_hash s"
      | h where "op_tx_hash (g r) = op_tx_hash r" "op_tx_hash (g s) = Some h" "\<forall>x \<in> set t. op_tx_hash x = Some h \<longrightarrow> x = s"
      | h where "op_tx_hash (g s) = op_tx_hash s" "op_tx_hash (g r) = Some h" "\<forall>x \<in> set t. op_tx_hash x = Some h \<longrightarrow> x = r"
      | "op_key r = k" "op_key s = k"
      by blast
    then have "r = s"
    proof cases
      case 1
      have "op_tx_hash r \<noteq> None" using that(3) unfolding 1(1) .
      moreover have "op_tx_hash s = op_tx_hash r" using that(4) unfolding 1 .
      ultimately show ?thesis by (rule v [OF that(1,2)])
    next
      case 2
      have "op_tx_hash r = Some h" using that(4) unfolding 2(1,2) by (rule sym)
      then show ?thesis using 2(3) that(1) by blast
    next
      case 3
      have "op_tx_hash s = Some h" using that(4) unfolding 3(1,2) .
      then show ?thesis using 3(3) that(2) by blast
    next
      case 4
      show ?thesis by (rule same [OF that(1,2)]) (simp only: 4)
    qed
    then show ?thesis by simp
  qed
  show ?thesis unfolding upd
  proof (rule ops_okI)
    show "distinct (map op_key (map g t))" by (rule 1)
  next
    fix r h' assume "r \<in> set (map g t)" "op_tx_hash r = Some h'"
    then show "hash_ok h'" using 2 unfolding upd by auto
  next
    fix r s assume "r \<in> set (map g t)" "s \<in> set (map g t)" "session_key r \<noteq> None"
      "session_key s = session_key r"
    then show "r = s" using 3 unfolding set_map by (elim imageE) blast
  next
    fix r s assume "r \<in> set (map g t)" "s \<in> set (map g t)" "op_tx_hash r \<noteq> None"
      "op_tx_hash s = op_tx_hash r"
    then show "r = s" using 4 unfolding set_map by (elim imageE) blast
  qed
qed

definition ledger_grows :: "db \<Rightarrow> db \<Rightarrow> bool" where
  "ledger_grows d d' \<longleftrightarrow> ledger_ok d' \<and> table_grows op_key op_le (t_operations d) (t_operations d')"

lemma ledger_grows_refl: "ledger_ok d \<Longrightarrow> ledger_grows d d"
  by (simp add: ledger_grows_def table_grows_refl)

lemma ledger_grows_frame: "ledger_ok d \<Longrightarrow> t_operations d' = t_operations d \<Longrightarrow> ledger_grows d d'"
  by (simp add: ledger_grows_def ledger_ok_def table_grows_refl)

lemma ledger_grows_trans: "ledger_grows a b \<Longrightarrow> ledger_grows b c \<Longrightarrow> ledger_grows a c"
  unfolding ledger_grows_def table_grows_def using op_le_trans by blast

lemma ledger_growsD:
  "ledger_grows d d' \<Longrightarrow> find_operation d k = Some r \<Longrightarrow> \<exists>r'. find_operation d' k = Some r' \<and> op_le r r'"
  by (simp add: ledger_grows_def table_grows_def find_operation_def)

lemma update_operations_table [simp]: "t_operations (update_operations P f d) = update_where P f (t_operations d)"
  by (simp add: update_operations_def)

lemma update_grows:
  assumes ok: "ledger_ok d"
    and le: "\<And>r. r \<in> set (t_operations d) \<Longrightarrow> P r \<Longrightarrow> op_le r (f r)"
    and hash: "\<And>r. r \<in> set (t_operations d) \<Longrightarrow> P r \<Longrightarrow> op_tx_hash (f r) = op_tx_hash r \<or>
      (\<exists>h. op_tx_hash (f r) = Some h \<and> hash_ok h \<and> op_key r = k \<and> \<not> hash_taken d k h)"
  shows "ledger_grows d (update_operations P f d)"
proof -
  have "ops_ok (update_where P f (t_operations d))"
    by (rule ops_ok_update [where k = k]) (use assms in \<open>auto simp: ledger_ok_def hash_taken_def\<close>)
  moreover have "table_grows op_key op_le (t_operations d) (update_where P f (t_operations d))"
    by (rule table_grows_update) (use le op_le_key in auto)
  ultimately show ?thesis by (simp add: ledger_grows_def ledger_ok_def)
qed

lemma update_grows_same:
  assumes "ledger_ok d" and "\<And>r. P r \<Longrightarrow> op_le r (f r)" and "\<And>r. P r \<Longrightarrow> op_tx_hash (f r) = op_tx_hash r"
  shows "ledger_grows d (update_operations P f d)"
  by (rule update_grows) (use assms in auto)

lemma mark_operation_grows:
  assumes "ledger_ok d" and "\<And>r. Q r \<Longrightarrow> op_le r (f r)" and "\<And>r. Q r \<Longrightarrow> op_tx_hash (f r) = op_tx_hash r"
  shows "ledger_grows d (snd (mark_operation Q f k d))"
proof -
  have "ledger_grows d (update_operations (\<lambda>r. op_key r = k \<and> Q r) f d)"
    by (rule update_grows_same) (use assms in auto)
  then show ?thesis using ledger_grows_refl [OF assms(1)] by (auto simp: mark_operation_def Let_def split: option.splits)
qed

lemma open_le:
  "open_status (op_status r) \<Longrightarrow> same_intent r s \<Longrightarrow> op_tx_hash r \<noteq> None \<longrightarrow> op_tx_hash s = op_tx_hash r \<Longrightarrow> op_le r s"
  by (auto simp: op_le_def)

lemma confirmed_le:
  "open_status (op_status r) \<or> op_status r = CONFIRMED \<Longrightarrow> same_intent r s \<Longrightarrow> op_tx_hash s = op_tx_hash r
    \<Longrightarrow> op_status s = CONFIRMED \<Longrightarrow> op_le r s"
  by (auto simp: op_le_def)

lemma hashless_le: "op_tx_hash r = None \<Longrightarrow> same_intent r s \<Longrightarrow> op_le r s"
  by (simp add: op_le_def)

lemma markUnknown_grows: "ledger_ok d \<Longrightarrow> ledger_grows d (snd (markUnknown now k e g d))"
  unfolding markUnknown_def by (rule mark_operation_grows) (simp_all add: open_le same_intent_def)

lemma markConfirmed_grows: "ledger_ok d \<Longrightarrow> ledger_grows d (snd (markConfirmed now k e d))"
  unfolding markConfirmed_def by (rule mark_operation_grows) (simp_all add: confirmed_le same_intent_def)

lemma markProjectionError_grows: "ledger_ok d \<Longrightarrow> ledger_grows d (snd (markProjectionError now k e d))"
  unfolding markProjectionError_def by (rule mark_operation_grows) (simp_all add: confirmed_le same_intent_def)

lemma markFailed_grows: "ledger_ok d \<Longrightarrow> ledger_grows d (snd (markFailed now k e out g d))"
  unfolding markFailed_def by (rule mark_operation_grows) (simp_all add: open_le same_intent_def)

lemma markPreflightFailed_grows: "ledger_ok d \<Longrightarrow> ledger_grows d (snd (markPreflightFailed now k e g d))"
  unfolding markPreflightFailed_def by (rule mark_operation_grows) (simp_all add: hashless_le same_intent_def)

lemma markProjected_grows: "ledger_ok d \<Longrightarrow> ledger_grows d (snd (markProjected now k d))"
proof -
  assume ok: "ledger_ok d"
  have "ledger_grows d (update_operations (\<lambda>r. op_key r = k \<and> op_status r \<noteq> FAILED \<and> (op_tx_hash r \<noteq> None \<or> op_amount r = 0))
     (\<lambda>r. r\<lparr>op_status := PROJECTED, op_outcome := out, op_error := None, op_projected_at := Some now, op_updated := now\<rparr>) d)" for out
    by (rule update_grows_same [OF ok]) (simp_all add: op_le_def same_intent_def)
  then show ?thesis using ledger_grows_refl [OF ok]
    by (auto simp: markProjected_def Let_def split: option.splits)
qed

lemma markSubmitted_grows:
  assumes ok: "ledger_ok d" and s: "markSubmitted now k t d = Inr (r, d')"
  shows "ledger_grows d d'"
proof -
  obtain h where h: "canonical_hash t ''transaction hash'' = Inr h"
    using s by (cases "canonical_hash t ''transaction hash''") (auto simp: markSubmitted_def)
  define P :: "operation_row \<Rightarrow> bool" where "P = (\<lambda>r. op_key r = k \<and> op_tx_hash r = None \<and> open_status (op_status r))"
  define f :: "operation_row \<Rightarrow> operation_row" where "f = (\<lambda>r. submitted_row now (r\<lparr>op_tx_hash := Some h\<rparr>))"
  define P' :: "operation_row \<Rightarrow> bool" where "P' = (\<lambda>r. op_key r = k \<and> same_column (op_tx_hash r) h \<and> open_status (op_status r))"
  have 1: "ledger_grows d (update_operations P f d)" if free: "\<not> hash_taken d k h"
  proof (rule update_grows [OF ok])
    fix r assume "P r"
    then show "op_le r (f r)" by (simp add: P_def f_def op_le_def same_intent_def submitted_row_def)
    have "op_tx_hash (f r) = Some h \<and> hash_ok h \<and> op_key r = k \<and> \<not> hash_taken d k h"
      using \<open>P r\<close> canonical_hash_ok [OF h] free by (simp add: P_def f_def submitted_row_def)
    then show "op_tx_hash (f r) = op_tx_hash r \<or>
        (\<exists>h. op_tx_hash (f r) = Some h \<and> hash_ok h \<and> op_key r = k \<and> \<not> hash_taken d k h)" by blast
  qed
  have 2: "ledger_grows d (update_operations P' (submitted_row now) d)"
    by (rule update_grows_same [OF ok]) (simp_all add: P'_def open_le same_intent_def submitted_row_def)
  have "d' = d \<or> d' = update_operations P f d \<and> \<not> hash_taken d k h \<or> d' = update_operations P' (submitted_row now) d"
    using s unfolding markSubmitted_def h rbind_simps Let_def P_def [symmetric] f_def [symmetric] P'_def [symmetric]
    by (auto split: option.splits if_splits)
  then show ?thesis using 1 2 ledger_grows_refl [OF ok] by blast
qed

lemma insert_operation_grows:
  assumes ok: "ledger_ok d" and i: "insert_operation d n = Inr d'" and n: "op_tx_hash n = None"
  shows "ledger_grows d d'"
proof -
  have k: "op_key n \<notin> op_key ` set (t_operations d)" and se: "\<not> session_taken (t_operations d) n"
    and d': "t_operations d' = t_operations d @ [n]"
    using i by (auto simp: insert_operation_def list_ex_iff split: if_splits)
  note ok' = ok [unfolded ledger_ok_def]
  have new: "session_key r \<noteq> session_key n" if "r \<in> set (t_operations d)" "session_key n \<noteq> None" for r
    using se that by (auto simp: session_taken_def session_key_def list_ex_iff split: option.splits if_splits)
  have "ops_ok (t_operations d')" unfolding d'
  proof (rule ops_okI)
    show "distinct (map op_key (t_operations d @ [n]))" using ops_okD(1) [OF ok'] k by simp
  next
    fix r h assume "r \<in> set (t_operations d @ [n])" "op_tx_hash r = Some h"
    then show "hash_ok h" using ops_okD(2) [OF ok'] n by auto
  next
    fix r s assume a: "r \<in> set (t_operations d @ [n])" "s \<in> set (t_operations d @ [n])" "session_key r \<noteq> None"
      "session_key s = session_key r"
    then consider "r = n" "s = n" | "r = n" "s \<in> set (t_operations d)" | "s = n" "r \<in> set (t_operations d)"
      | "r \<in> set (t_operations d)" "s \<in> set (t_operations d)" by auto
    then show "r = s"
    proof cases
      case 2
      then show ?thesis using new [OF 2(2)] a(3,4) by simp
    next
      case 3
      then show ?thesis using new [OF 3(2)] a(3,4) by simp
    next
      case 4
      then show ?thesis using ops_okD(3) [OF ok'] a(3,4) by blast
    qed simp
  next
    fix r s assume a: "r \<in> set (t_operations d @ [n])" "s \<in> set (t_operations d @ [n])" "op_tx_hash r \<noteq> None"
      "op_tx_hash s = op_tx_hash r"
    then have "r \<in> set (t_operations d)" "s \<in> set (t_operations d)" using n by auto
    then show "r = s" using ops_okD(4) [OF ok'] a(3,4) by blast
  qed
  then show ?thesis by (simp add: ledger_grows_def ledger_ok_def d' table_grows_append)
qed

lemma reclaim_grows:
  assumes ok: "ledger_ok d" and e: "find_operation d k = Some e" and r: "reclaimable e"
  shows "ledger_grows d (update_operations (\<lambda>r. op_key r = k) (reclaim_row now) d)"
proof (rule update_grows)
  fix r assume m: "r \<in> set (t_operations d)" "op_key r = k"
  have "r = e"
    by (rule distinct_key_eq [OF ops_okD(1) [OF ok [unfolded ledger_ok_def]] m(1)])
      (use e m(2) in \<open>auto simp: find_operation_def dest: row_at_Some\<close>)
  moreover have "op_tx_hash e = None"
  proof (rule ccontr)
    assume "op_tx_hash e \<noteq> None"
    then obtain h where h: "op_tx_hash e = Some h" by auto
    then have "is_tx_hash h" using ledger_ok_hash [OF ok e] by (simp add: hash_ok_def)
    then show False using r h is_tx_hash_nonempty by (auto simp: reclaimable_def)
  qed
  ultimately show "op_le r (reclaim_row now r)" "op_tx_hash (reclaim_row now r) = op_tx_hash r \<or>
      (\<exists>h. op_tx_hash (reclaim_row now r) = Some h \<and> hash_ok h \<and> op_key r = k \<and> \<not> hash_taken d k h)"
    by (simp_all add: op_le_def same_intent_def reclaim_row_def)
qed (rule ok)

lemma claim_intent:
  assumes "claim now ident q d = Inr (c, d')" and "find_operation d (cr_key q) = Some e"
  shows "\<exists>a. canonicalTokenAmount (JStr (cr_amount q)) = Some a
    \<and> assertOperationIntent e q (units a) (cr_type q \<noteq> AWARD) = Inr ()"
proof -
  obtain a where a: "canonicalTokenAmount (JStr (cr_amount q)) = Some a"
    using assms by (cases "canonicalTokenAmount (JStr (cr_amount q))") (auto simp: claim_def of_option_def)
  obtain b where "assertOperationIntent e q (units a) (cr_type q \<noteq> AWARD) = Inr b"
    using assms by (auto simp: claim_def of_option_def a rbind_Inr_iff)
  then show ?thesis using a by simp
qed

text \<open>The ways a claim can succeed.\<close>

lemma claim_cases:
  assumes "claim now ident q d = Inr (c, d')"
  obtains (reclaimed) e where "find_operation d (cr_key q) = Some e" "reclaimable e" "cl_acquired c"
      "checkManualCapacity d q = Inr ()"
      "d' = update_operations (\<lambda>r. op_key r = cr_key q) (reclaim_row now) d"
  | (existing) e where "find_operation d (cr_key q) = Some e" "\<not> reclaimable e" "\<not> cl_acquired c"
      "cl_operation c = Some e" "d' = d"
  | (legacy) a where "find_operation d (cr_key q) = None" "\<not> cl_acquired c" "cl_legacy c = Some a" "d' = d"
  | (inserted) a where "find_operation d (cr_key q) = None" "cl_acquired c"
      "canonicalTokenAmount (JStr (cr_amount q)) = Some a" "checkManualCapacity d q = Inr ()"
      "check_charging_session d q = Inr ()" "check_legacy_claims d q = Inr ()"
      "insert_operation d (new_operation now ident q (units a)) = Inr d'"
      "cl_operation c = Some (new_operation now ident q (units a))"
proof -
  obtain a where a: "canonicalTokenAmount (JStr (cr_amount q)) = Some a"
    using assms by (cases "canonicalTokenAmount (JStr (cr_amount q))") (auto simp: claim_def of_option_def)
  show thesis
  proof (cases "find_operation d (cr_key q)")
    case (Some e)
    obtain b where b: "assertOperationIntent e q (units a) (cr_type q \<noteq> AWARD) = Inr b"
      using assms by (auto simp: claim_def of_option_def a Some rbind_Inr_iff)
    show thesis
    proof (cases "reclaimable e")
      case True
      then obtain b where "checkManualCapacity d q = Inr b"
        using assms b by (auto simp: claim_def of_option_def a Some rbind_Inr_iff)
      then show thesis using assms b True by (intro reclaimed [OF Some]) (auto simp: claim_def of_option_def a Some)
    next
      case False
      then show thesis using assms b by (intro existing [OF Some]) (auto simp: claim_def of_option_def a Some)
    qed
  next
    case None
    obtain l where l: "check_charging_session d q = Inr ()" "check_legacy_claims d q = Inr ()" "legacy_award d q = Inr l"
      using assms by (auto simp: claim_def of_option_def a None rbind_Inr_iff)
    show thesis
    proof (cases l)
      case (Some w)
      then show thesis using assms l by (intro legacy [OF None]) (auto simp: claim_def of_option_def a None)
    next
      case n: None
      then have "checkManualCapacity d q = Inr ()"
        "insert_operation d (new_operation now ident q (units a)) = Inr d'"
        "c = \<lparr>cl_operation = Some (new_operation now ident q (units a)), cl_acquired = True, cl_legacy = None\<rparr>"
        using assms l by (auto simp: claim_def of_option_def a None rbind_Inr_iff)
      then show thesis using l a by (intro inserted [OF None]) simp_all
    qed
  qed
qed

lemma claim_grows:
  assumes ok: "ledger_ok d" and c: "claim now ident q d = Inr (c, d')"
  shows "ledger_grows d d'"
  using c
proof (cases rule: claim_cases)
  case (reclaimed e)
  then show ?thesis using reclaim_grows [OF ok] by simp
next
  case (inserted a)
  then show ?thesis using insert_operation_grows [OF ok] by (auto simp: new_operation_def)
qed (use ledger_grows_refl [OF ok] in auto)

end
