(* ===== verification/Treasury.thy ===== *)
theory Treasury
  imports Ledger
begin

text \<open>
  \<open>TreasuryTransactions\<close> of \<open>src/database/service.ts\<close>: nonce leases of the treasury signer. A lease is
  prepared (signed, hashed and committed together with the hash on its parent row) in one transaction
  under the chain/signer advisory lock, before anything is broadcast. Reading the pending nonce and
  signing are arguments of the request.
\<close>

datatype access_entry = Access_Tuple string "string list" | Access_Object "string option" "string list option"

record lease_request =
  tr_key :: string
  tr_target_key :: "string option"
  tr_target :: lease_target
  tr_chain :: string
  tr_signer :: string
  tr_to :: string
  tr_data :: "string option"
  tr_value :: "string option"
  tr_access :: "access_entry list option"
  tr_pending_nonce :: "callback_error + js_number"
  tr_prepare :: "nat \<Rightarrow> callback_error + prepared_transaction"

record lease_outcome =
  lo_lease :: lease_row
  lo_already :: bool
  lo_raw :: "string option"

subsection \<open>Numbers in texts\<close>

definition radix_val :: "nat \<Rightarrow> string \<Rightarrow> nat" where
  "radix_val b s = foldl (\<lambda>a c. b * a + hex_val (lower_char c)) 0 s"

definition radix_digit :: "nat \<Rightarrow> char \<Rightarrow> bool" where
  "radix_digit b c \<longleftrightarrow> is_hex c \<and> hex_val (lower_char c) < b"

text \<open>\<open>BigInt(text)\<close>, \<open>None\<close> where it throws.\<close>

definition bigint_text :: "string \<Rightarrow> int option" where
  "bigint_text s =
     (let t = js_trim s; body = drop 2 t;
          radix = (\<lambda>b. if body \<noteq> [] \<and> list_all (radix_digit b) body then Some (int (radix_val b body)) else None);
          digits = (\<lambda>u. if u \<noteq> [] \<and> list_all is_digit u then Some (int (digits_val u)) else None)
      in if t = [] then Some 0
         else if js_lower (take 2 t) = ''0x'' then radix 16
         else if js_lower (take 2 t) = ''0o'' then radix 8
         else if js_lower (take 2 t) = ''0b'' then radix 2
         else if hd t = CHR ''-'' then map_option uminus (digits (tl t))
         else if hd t = CHR ''+'' then digits (tl t)
         else digits t)"

subsection \<open>Comparing intents\<close>

definition normaliseLeaseAccessList :: "access_entry list option \<Rightarrow> (string \<times> string list) list" where
  "normaliseLeaseAccessList v =
     (case v of None \<Rightarrow> []
      | Some es \<Rightarrow> map (\<lambda>e. case e of
            Access_Tuple a ks \<Rightarrow> (js_lower a, map js_lower ks)
          | Access_Object a ks \<Rightarrow> (case a of None \<Rightarrow> [] | Some x \<Rightarrow> js_lower x,
                case ks of None \<Rightarrow> [] | Some l \<Rightarrow> map js_lower l)) es)"

definition tuple_entries :: "(string \<times> string list) list option \<Rightarrow> access_entry list option" where
  "tuple_entries = map_option (map (\<lambda>(a, ks). Access_Tuple a ks))"

definition or_text :: "string option \<Rightarrow> string \<Rightarrow> string" where
  "or_text x dflt = (case nonempty x of None \<Rightarrow> dflt | Some s \<Rightarrow> s)"

definition lease_target_key :: "lease_row \<Rightarrow> string" where
  "lease_target_key l = or_text (ls_target_key l) (ls_key l)"

definition request_target_key :: "lease_request \<Rightarrow> string" where
  "request_target_key q = or_text (tr_target_key q) (tr_key q)"

definition treasuryIntentMatches :: "lease_row \<Rightarrow> lease_request \<Rightarrow> bool" where
  "treasuryIntentMatches l q \<longleftrightarrow>
     ls_target l = tr_target q \<and> lease_target_key l = request_target_key q \<and> ls_chain l = tr_chain q
     \<and> same_text (ls_signer l) (tr_signer q) \<and> same_text (tc_to (ls_context l)) (tr_to q)
     \<and> same_text (or_text (tc_data (ls_context l)) ''0x'') (or_text (tr_data q) ''0x'')
     \<and> bigint_text (or_text (Some (tc_value (ls_context l))) ''0'') \<noteq> None
     \<and> bigint_text (or_text (Some (tc_value (ls_context l))) ''0'')
        = bigint_text (case tr_value q of None \<Rightarrow> ''0'' | Some v \<Rightarrow> v)
     \<and> normaliseLeaseAccessList (tuple_entries (tc_accessList (ls_context l))) = normaliseLeaseAccessList (tr_access q)"

subsection \<open>Leases\<close>

definition find_lease :: "db \<Rightarrow> string \<Rightarrow> lease_row option" where
  "find_lease d k = row_at ls_key k (t_leases d)"

definition signer_lease :: "string \<Rightarrow> string \<Rightarrow> lease_row \<Rightarrow> bool" where
  "signer_lease chain signer l \<longleftrightarrow> ls_chain l = chain \<and> same_text (ls_signer l) signer"

definition nonce_busy_window :: int where
  "nonce_busy_window = 10000"

definition unresolved_lease :: "db \<Rightarrow> string \<Rightarrow> string \<Rightarrow> nat \<Rightarrow> lease_row option" where
  "unresolved_lease d chain signer pending =
     (case sort_key ls_nonce (filter (\<lambda>l. signer_lease chain signer l
          \<and> ls_status l \<in> {LEASE_PREPARED, LEASE_UNKNOWN} \<and> pending \<le> ls_nonce l) (t_leases d)) of
        [] \<Rightarrow> None | l # _ \<Rightarrow> Some l)"

definition max_leased :: "db \<Rightarrow> string \<Rightarrow> string \<Rightarrow> nat option" where
  "max_leased d chain signer =
     (let ns = map ls_nonce (filter (\<lambda>l. signer_lease chain signer l \<and> ls_status l \<noteq> LEASE_FAILED) (t_leases d))
      in if ns = [] then None else Some (foldl max 0 ns))"

definition safe_nat :: "nat \<Rightarrow> bool" where
  "safe_nat n \<longleftrightarrow> n < 2 ^ 53"

definition pending_nonce :: "callback_error + js_number \<Rightarrow> db_error + nat" where
  "pending_nonce p =
     (case p of Inl e \<Rightarrow> Inl (CALLBACK_FAILED e)
      | Inr v \<Rightarrow> (case v of
          Fin x \<Rightarrow> if is_safe_integer v \<and> 0 \<le> x then Inr (nat \<lfloor>x\<rfloor>) else Inl (Preparation TREASURY_PENDING_NONCE_UNAVAILABLE)
        | _ \<Rightarrow> Inl (Preparation TREASURY_PENDING_NONCE_UNAVAILABLE)))"

definition allocate_nonce :: "int \<Rightarrow> db \<Rightarrow> string \<Rightarrow> string \<Rightarrow> nat \<Rightarrow> db_error + nat" where
  "allocate_nonce now d chain signer pending =
     (case unresolved_lease d chain signer pending of
        Some l \<Rightarrow>
          if ls_status l = LEASE_PREPARED \<and> 0 \<le> now - ls_updated l \<and> now - ls_updated l \<le> nonce_busy_window
          then Inl (Preparation (TREASURY_NONCE_BUSY_RETRYABLE (ls_key l) (ls_nonce l)))
          else Inl (Preparation (TREASURY_NONCE_GAP_REQUIRES_REVIEW (ls_key l) (ls_nonce l)))
      | None \<Rightarrow>
          (let nonce = max pending (case max_leased d chain signer of
                 None \<Rightarrow> 0 | Some m \<Rightarrow> if safe_nat m then m + 1 else pending)
           in if safe_nat nonce then Inr nonce else Inl (Preparation TREASURY_NONCE_UNAVAILABLE)))"

definition insert_lease :: "db \<Rightarrow> lease_row \<Rightarrow> db_error + db" where
  "insert_lease d l =
     (if list_ex (\<lambda>x. ls_key x = ls_key l) (t_leases d) then Inl (UNIQUE_VIOLATION ''treasury_transaction_leases_operation_key'')
      else if list_ex (\<lambda>x. signer_lease (ls_chain l) (ls_signer l) x \<and> ls_nonce x = ls_nonce l) (t_leases d)
      then Inl (UNIQUE_VIOLATION ''treasury_transaction_leases_signer_nonce_unique'')
      else Inr (d\<lparr>t_leases := t_leases d @ [l]\<rparr>))"

definition find_approval :: "db \<Rightarrow> string \<Rightarrow> approval_row option" where
  "find_approval d k = row_at ap_key k (t_approvals d)"

definition update_approvals :: "(approval_row \<Rightarrow> bool) \<Rightarrow> (approval_row \<Rightarrow> approval_row) \<Rightarrow> db \<Rightarrow> db" where
  "update_approvals P f d = d\<lparr>t_approvals := update_where P f (t_approvals d)\<rparr>"

definition update_leases :: "(lease_row \<Rightarrow> bool) \<Rightarrow> (lease_row \<Rightarrow> lease_row) \<Rightarrow> db \<Rightarrow> db" where
  "update_leases P f d = d\<lparr>t_leases := update_where P f (t_leases d)\<rparr>"

text \<open>The parent row of the lease takes over hash, nonce and context in the same transaction.\<close>

definition attach_operation :: "int \<Rightarrow> string \<Rightarrow> string \<Rightarrow> nat \<Rightarrow> transaction_context \<Rightarrow> db \<Rightarrow> db_error + db" where
  "attach_operation now target h nonce ctx d =
     (case find_operation d target of
        None \<Rightarrow> Inl (Preparation PREP_TOKEN_OPERATION_NOT_FOUND)
      | Some current \<Rightarrow>
          if \<not> open_status (op_status current) then Inl (Preparation PREP_TOKEN_OPERATION_TERMINAL_STATE)
          else if given (op_tx_hash current) \<and> \<not> same_column (op_tx_hash current) h
          then Inl (Preparation PREP_TOKEN_OPERATION_TX_HASH_MISMATCH)
          else if hash_taken d target h then Inl (UNIQUE_VIOLATION ''token_operations_tx_hash_lower_unique'')
          else Inr (update_operations (\<lambda>r. op_key r = target)
            (\<lambda>r. r\<lparr>op_tx_hash := Some h, op_tx_nonce := Some nonce, op_tx_context := Some ctx, op_status := SUBMITTING,
               op_outcome := Some (case op_outcome current of None \<Rightarrow> OUT_UNKNOWN | Some x \<Rightarrow> x),
               op_error := None, op_updated := now\<rparr>) d))"

definition attach_funding :: "int \<Rightarrow> string \<Rightarrow> string \<Rightarrow> string \<Rightarrow> nat \<Rightarrow> transaction_context \<Rightarrow> db \<Rightarrow> db_error + db" where
  "attach_funding now target key h nonce ctx d =
     (case find_approval d target of
        None \<Rightarrow> Inl (Preparation APPROVAL_PREPARATION_NOT_FOUND)
      | Some current \<Rightarrow>
          if ap_status current \<notin> {AP_FUNDING, AP_FUNDED, AP_UNKNOWN} then Inl (Preparation APPROVAL_PREPARATION_TERMINAL_STATE)
          else if given (ap_attempt_key current) \<and> ap_attempt_key current \<noteq> Some key
          then Inl (Preparation APPROVAL_FUNDING_ATTEMPT_MISMATCH)
          else if given (ap_funding_hash current) \<and> \<not> same_column (ap_funding_hash current) h
               \<and> ap_attempt_key current \<noteq> Some key
          then Inl (Preparation PREP_APPROVAL_FUNDING_TX_HASH_MISMATCH)
          else Inr (update_approvals (\<lambda>r. ap_key r = target)
            (\<lambda>r. r\<lparr>ap_funding_hash := Some h, ap_funding_nonce := Some nonce, ap_funding_context := Some ctx,
               ap_attempt_key := Some key, ap_attempt_value := Some (tc_value ctx), ap_status := AP_FUNDING,
               ap_error := None, ap_updated := now\<rparr>) d))"

definition attach_target :: "int \<Rightarrow> lease_request \<Rightarrow> string \<Rightarrow> nat \<Rightarrow> transaction_context \<Rightarrow> db \<Rightarrow> db_error + db" where
  "attach_target now q h nonce ctx d =
     (case tr_target q of
        TARGET_OPERATION \<Rightarrow> attach_operation now (request_target_key q) h nonce ctx d
      | TARGET_FUNDING \<Rightarrow> attach_funding now (request_target_key q) (tr_key q) h nonce ctx d
      | TARGET_STANDALONE \<Rightarrow> Inr d)"

definition new_lease :: "int \<Rightarrow> lease_request \<Rightarrow> string \<Rightarrow> nat \<Rightarrow> transaction_context \<Rightarrow> lease_row" where
  "new_lease now q h nonce ctx =
     \<lparr>ls_key = tr_key q, ls_target_key = Some (request_target_key q), ls_target = tr_target q, ls_chain = tr_chain q,
      ls_signer = js_lower (tr_signer q), ls_nonce = nonce, ls_tx_hash = h, ls_context = ctx,
      ls_status = LEASE_PREPARED, ls_diagnostic = None, ls_error = None, ls_created = now, ls_updated = now\<rparr>"

definition prepareLease :: "bool \<Rightarrow> int \<Rightarrow> lease_request \<Rightarrow> db \<Rightarrow> db_error + (lease_outcome \<times> db)" where
  "prepareLease locked now q d =
     (if \<not> locked then Inl (Preparation TREASURY_NONCE_LOCK_TIMEOUT) else
      case find_lease d (tr_key q) of
        Some l \<Rightarrow>
          if treasuryIntentMatches l q then Inr (\<lparr>lo_lease = l, lo_already = True, lo_raw = None\<rparr>, d)
          else Inl (Preparation TREASURY_TRANSACTION_INTENT_MISMATCH)
      | None \<Rightarrow>
          rbind (pending_nonce (tr_pending_nonce q)) (\<lambda>pending.
          rbind (allocate_nonce now d (tr_chain q) (js_lower (tr_signer q)) pending) (\<lambda>nonce.
          rbind (case tr_prepare q nonce of Inl e \<Rightarrow> Inl (CALLBACK_FAILED e) | Inr p \<Rightarrow> Inr p) (\<lambda>p.
          rbind (canonical_hash (pt_txHash p) ''prepared transaction hash'') (\<lambda>h.
          rbind (guard (tc_nonce (pt_context p) = nonce \<and> tc_chainId (pt_context p) = tr_chain q
              \<and> same_text (tc_signerAddress (pt_context p)) (tr_signer q)) (Preparation TREASURY_TRANSACTION_CONTEXT_MISMATCH)) (\<lambda>_.
          rbind (insert_lease d (new_lease now q h nonce (pt_context p))) (\<lambda>d1.
          rbind (attach_target now q h nonce (pt_context p) d1) (\<lambda>d2.
          Inr (\<lparr>lo_lease = new_lease now q h nonce (pt_context p), lo_already = False,
                lo_raw = Some (pt_rawTransaction p)\<rparr>, d2)))))))))"

subsection \<open>Lease outcomes\<close>

definition live_lease :: "lease_row \<Rightarrow> bool" where
  "live_lease l \<longleftrightarrow> ls_status l \<in> {LEASE_PREPARED, LEASE_SUBMITTED, LEASE_UNKNOWN}"

definition leaseMarkSubmitted :: "int \<Rightarrow> string \<Rightarrow> string \<Rightarrow> db \<Rightarrow> db_error + (lease_row option \<times> db)" where
  "leaseMarkSubmitted now k txHash d =
     rbind (canonical_hash txHash ''transaction hash'') (\<lambda>h.
     case first_where (\<lambda>l. ls_key l = k \<and> ls_tx_hash l = h) (t_leases d) of
       None \<Rightarrow> Inr (find_lease d k, d)
     | Some existing \<Rightarrow>
         (let P = (\<lambda>l. ls_key l = k \<and> ls_tx_hash l = h \<and> live_lease l);
              f = (\<lambda>l. l\<lparr>ls_status := LEASE_SUBMITTED, ls_error := None, ls_updated := now\<rparr>);
              d1 = update_leases P f d;
              d2 = (if ls_target existing = TARGET_OPERATION
                    then update_operations (\<lambda>r. op_key r = or_text (ls_target_key existing) k \<and> open_status (op_status r))
                      (\<lambda>r. r\<lparr>op_status := SUBMITTED, op_updated := now\<rparr>) d1
                    else d1)
          in Inr (Some (case returning_where P f (t_leases d) of Some l \<Rightarrow> l | None \<Rightarrow> existing), d2)))"

text \<open>\<open>updateApprovalFundingParent\<close>: only the attempt and hash the lease stands for are touched.\<close>

definition updateApprovalFundingParent :: "int \<Rightarrow> lease_row \<Rightarrow> approval_status \<Rightarrow> diagnostic \<Rightarrow> string \<Rightarrow> db \<Rightarrow> db" where
  "updateApprovalFundingParent now l status diag e d =
     (if ls_target l \<noteq> TARGET_FUNDING then d else
      case find_approval d (lease_target_key l) of
        None \<Rightarrow> d
      | Some current \<Rightarrow>
          if ap_status current \<notin> {AP_FUNDING, AP_UNKNOWN} \<or> \<not> given (ap_attempt_key current)
             \<or> ap_attempt_key current \<noteq> Some (ls_key l) \<or> \<not> given (ap_funding_hash current)
             \<or> \<not> same_column (ap_funding_hash current) (ls_tx_hash l)
          then d
          else update_approvals (\<lambda>r. ap_key r = lease_target_key l \<and> ap_attempt_key r = Some (ls_key l)
                  \<and> same_column (ap_funding_hash r) (ls_tx_hash l) \<and> ap_status r \<in> {AP_FUNDING, AP_UNKNOWN})
                (\<lambda>r. r\<lparr>ap_status := status, ap_diagnostic := Some diag, ap_error := Some (clip e), ap_updated := now\<rparr>) d)"

definition leaseMarkUnknown :: "int \<Rightarrow> string \<Rightarrow> diagnostic \<Rightarrow> string \<Rightarrow> db \<Rightarrow> lease_row option \<times> db" where
  "leaseMarkUnknown now k diag e d =
     (case find_lease d k of
        None \<Rightarrow> (None, d)
      | Some existing \<Rightarrow>
          (let P = (\<lambda>l. ls_key l = k \<and> live_lease l);
               f = (\<lambda>l. l\<lparr>ls_status := LEASE_UNKNOWN, ls_diagnostic := Some diag, ls_error := Some (clip e), ls_updated := now\<rparr>)
           in case returning_where P f (t_leases d) of
                None \<Rightarrow> (Some existing, d)
              | Some l \<Rightarrow>
                  (let d1 = update_leases P f d in
                   (Some l, case ls_target existing of
                      TARGET_OPERATION \<Rightarrow>
                        update_operations (\<lambda>r. op_key r = or_text (ls_target_key existing) k \<and> open_status (op_status r))
                          (\<lambda>r. r\<lparr>op_status := UNKNOWN_STATUS, op_diagnostic := Some diag, op_error := Some (clip e),
                             op_updated := now\<rparr>) d1
                    | TARGET_FUNDING \<Rightarrow> updateApprovalFundingParent now existing AP_UNKNOWN diag e d1
                    | TARGET_STANDALONE \<Rightarrow> d1))))"

definition leaseMarkFailed :: "int \<Rightarrow> string \<Rightarrow> diagnostic \<Rightarrow> string \<Rightarrow> db \<Rightarrow> lease_row option \<times> db" where
  "leaseMarkFailed now k diag e d =
     (case find_lease d k of
        None \<Rightarrow> (None, d)
      | Some existing \<Rightarrow>
          (let P = (\<lambda>l. ls_key l = k \<and> live_lease l);
               f = (\<lambda>l. l\<lparr>ls_status := LEASE_FAILED, ls_diagnostic := Some diag, ls_error := Some (clip e), ls_updated := now\<rparr>)
           in case returning_where P f (t_leases d) of
                None \<Rightarrow> (Some existing, d)
              | Some l \<Rightarrow>
                  (let d1 = update_leases P f d in
                   (Some l, case ls_target existing of
                      TARGET_OPERATION \<Rightarrow>
                        update_operations (\<lambda>r. op_key r = or_text (ls_target_key existing) k \<and> op_tx_hash r \<noteq> None
                            \<and> open_status (op_status r))
                          (\<lambda>r. r\<lparr>op_status := FAILED, op_outcome := Some OUT_NO_MOVEMENT, op_diagnostic := Some diag,
                             op_error := Some (clip e), op_updated := now\<rparr>) d1
                    | TARGET_FUNDING \<Rightarrow> updateApprovalFundingParent now existing AP_FAILED diag e d1
                    | TARGET_STANDALONE \<Rightarrow> d1))))"

subsection \<open>What every lease operation keeps\<close>

definition lease_le :: "lease_row \<Rightarrow> lease_row \<Rightarrow> bool" where
  "lease_le l m \<longleftrightarrow> ls_key m = ls_key l \<and> ls_target_key m = ls_target_key l \<and> ls_target m = ls_target l
     \<and> ls_chain m = ls_chain l \<and> ls_signer m = ls_signer l \<and> ls_nonce m = ls_nonce l
     \<and> ls_tx_hash m = ls_tx_hash l \<and> ls_context m = ls_context l \<and> ls_created m = ls_created l
     \<and> (\<not> live_lease l \<longrightarrow> m = l)"

definition nonce_slot :: "lease_row \<Rightarrow> string \<times> string \<times> nat" where
  "nonce_slot l = (ls_chain l, js_lower (ls_signer l), ls_nonce l)"

definition leases_ok :: "db \<Rightarrow> bool" where
  "leases_ok d \<longleftrightarrow> distinct (map ls_key (t_leases d)) \<and> distinct (map nonce_slot (t_leases d))
     \<and> (\<forall>l \<in> set (t_leases d). hash_ok (ls_tx_hash l) \<and> safe_nat (ls_nonce l))"

definition leases_grow :: "db \<Rightarrow> db \<Rightarrow> bool" where
  "leases_grow d d' \<longleftrightarrow> leases_ok d' \<and> table_grows ls_key lease_le (t_leases d) (t_leases d')"

lemma lease_le_refl [simp]: "lease_le l l"
  by (simp add: lease_le_def)

lemma lease_le_trans: "lease_le a b \<Longrightarrow> lease_le b c \<Longrightarrow> lease_le a c"
  unfolding lease_le_def by (cases "live_lease a") auto

lemma lease_le_key: "lease_le l m \<Longrightarrow> ls_key m = ls_key l"
  by (simp add: lease_le_def)

lemma leases_grow_frame: "leases_ok d \<Longrightarrow> t_leases d' = t_leases d \<Longrightarrow> leases_grow d d'"
  by (simp add: leases_grow_def leases_ok_def table_grows_refl)

lemma update_frames [simp]:
  "t_leases (update_operations P f d) = t_leases d" "t_approvals (update_operations P f d) = t_approvals d"
  "t_reservations (update_operations P f d) = t_reservations d"
  "t_operations (update_leases P' f' d) = t_operations d" "t_approvals (update_leases P' f' d) = t_approvals d"
  "t_leases (update_leases P' f' d) = update_where P' f' (t_leases d)"
  "t_operations (update_approvals P'' f'' d) = t_operations d" "t_leases (update_approvals P'' f'' d) = t_leases d"
  "t_approvals (update_approvals P'' f'' d) = update_where P'' f'' (t_approvals d)"
  by (simp_all add: update_operations_def update_leases_def update_approvals_def)

lemma update_leases_grow:
  assumes ok: "leases_ok d" and le: "\<And>l. P l \<Longrightarrow> lease_le l (f l)"
  shows "leases_grow d (update_leases P f d)"
proof -
  have key: "map ls_key (update_where P f (t_leases d)) = map ls_key (t_leases d)"
    by (rule keys_update_set) (use le lease_le_key in blast)
  have slot: "map nonce_slot (update_where P f (t_leases d)) = map nonce_slot (t_leases d)"
    by (rule keys_update_set) (use le in \<open>simp add: lease_le_def nonce_slot_def\<close>)
  have "hash_ok (ls_tx_hash m) \<and> safe_nat (ls_nonce m)" if mem: "m \<in> set (update_where P f (t_leases d))" for m
  proof -
    obtain l where l: "l \<in> set (t_leases d)" "m = (if P l then f l else l)"
      using mem unfolding set_update_where by blast
    then have "lease_le l m" using le [of l] by simp
    then show ?thesis using ok l(1) unfolding leases_ok_def lease_le_def by simp
  qed
  then have "leases_ok (update_leases P f d)" using ok by (simp add: leases_ok_def key slot)
  moreover have "table_grows ls_key lease_le (t_leases d) (update_where P f (t_leases d))"
    by (rule table_grows_update) (use le lease_le_key in auto)
  ultimately show ?thesis by (simp add: leases_grow_def)
qed

lemma insert_lease_ok:
  assumes ok: "leases_ok d" and i: "insert_lease d l = Inr d'" and l: "hash_ok (ls_tx_hash l)" "safe_nat (ls_nonce l)"
  shows "leases_grow d d' \<and> t_operations d' = t_operations d \<and> t_approvals d' = t_approvals d
    \<and> t_leases d' = t_leases d @ [l]"
proof -
  have d': "d' = d\<lparr>t_leases := t_leases d @ [l]\<rparr>" and k: "ls_key l \<notin> ls_key ` set (t_leases d)"
    using i by (auto simp: insert_lease_def list_ex_iff split: if_splits)
  have s: "nonce_slot l \<notin> nonce_slot ` set (t_leases d)"
    using i by (auto simp: insert_lease_def list_ex_iff nonce_slot_def signer_lease_def same_text_def split: if_splits)
  have "leases_ok d'" using ok k s l by (auto simp: leases_ok_def d')
  then show ?thesis by (simp add: leases_grow_def d' table_grows_append)
qed

subsection \<open>Preparing a lease\<close>

lemma prepareLease_cases:
  assumes "prepareLease locked now q d = Inr (x, d')"
  obtains (existing) "find_lease d (tr_key q) = Some (lo_lease x)" "lo_already x" "lo_raw x = None" "d' = d"
      "treasuryIntentMatches (lo_lease x) q"
  | (fresh) pending nonce p h d1 where "locked" "find_lease d (tr_key q) = None" "\<not> lo_already x"
      "pending_nonce (tr_pending_nonce q) = Inr pending"
      "allocate_nonce now d (tr_chain q) (js_lower (tr_signer q)) pending = Inr nonce"
      "tr_prepare q nonce = Inr p" "canonical_hash (pt_txHash p) ''prepared transaction hash'' = Inr h"
      "insert_lease d (new_lease now q h nonce (pt_context p)) = Inr d1"
      "attach_target now q h nonce (pt_context p) d1 = Inr d'"
      "lo_lease x = new_lease now q h nonce (pt_context p)" "lo_raw x = Some (pt_rawTransaction p)"
proof -
  have l: "locked" using assms by (cases locked) (auto simp: prepareLease_def)
  show thesis
  proof (cases "find_lease d (tr_key q)")
    case (Some l)
    then show thesis using assms \<open>locked\<close> by (intro existing) (auto simp: prepareLease_def split: if_splits)
  next
    case None
    obtain pending where a: "pending_nonce (tr_pending_nonce q) = Inr pending"
      using assms \<open>locked\<close> None by (cases "pending_nonce (tr_pending_nonce q)") (auto simp: prepareLease_def)
    obtain nonce where b: "allocate_nonce now d (tr_chain q) (js_lower (tr_signer q)) pending = Inr nonce"
      using assms \<open>locked\<close> None a
      by (cases "allocate_nonce now d (tr_chain q) (js_lower (tr_signer q)) pending") (auto simp: prepareLease_def)
    obtain p where c: "tr_prepare q nonce = Inr p"
      using assms \<open>locked\<close> None a b by (cases "tr_prepare q nonce") (auto simp: prepareLease_def)
    obtain h where h: "canonical_hash (pt_txHash p) ''prepared transaction hash'' = Inr h"
      using assms \<open>locked\<close> None a b c
      by (cases "canonical_hash (pt_txHash p) ''prepared transaction hash''") (auto simp: prepareLease_def)
    obtain d1 where d1: "insert_lease d (new_lease now q h nonce (pt_context p)) = Inr d1"
      using assms \<open>locked\<close> None a b c h by (auto simp: prepareLease_def rbind_Inr_iff)
    have "attach_target now q h nonce (pt_context p) d1 = Inr d'
      \<and> x = \<lparr>lo_lease = new_lease now q h nonce (pt_context p), lo_already = False, lo_raw = Some (pt_rawTransaction p)\<rparr>"
      using assms \<open>locked\<close> None a b c h d1 by (auto simp: prepareLease_def rbind_Inr_iff)
    then show thesis using fresh [OF l None _ a b c h d1] by simp
  qed
qed

lemma attach_operation_grows:
  assumes ok: "ledger_ok d" and h: "hash_ok h" and a: "attach_operation now target h nonce ctx d = Inr d'"
  shows "ledger_grows d d' \<and> t_leases d' = t_leases d \<and> t_approvals d' = t_approvals d
    \<and> (\<exists>r. find_operation d' target = Some r \<and> op_tx_hash r = Some h \<and> op_tx_nonce r = Some nonce
         \<and> op_tx_context r = Some ctx \<and> op_status r = SUBMITTING)"
proof -
  obtain c where c: "find_operation d target = Some c"
    using a by (cases "find_operation d target") (auto simp: attach_operation_def)
  define f :: "operation_row \<Rightarrow> operation_row" where
    "f = (\<lambda>r. r\<lparr>op_tx_hash := Some h, op_tx_nonce := Some nonce, op_tx_context := Some ctx, op_status := SUBMITTING,
       op_outcome := Some (case op_outcome c of None \<Rightarrow> OUT_UNKNOWN | Some x \<Rightarrow> x), op_error := None, op_updated := now\<rparr>)"
  have st: "open_status (op_status c)" and hm: "\<not> (given (op_tx_hash c) \<and> \<not> same_column (op_tx_hash c) h)"
    and free: "\<not> hash_taken d target h" and d': "d' = update_operations (\<lambda>r. op_key r = target) f d"
    using a by (auto simp: attach_operation_def c f_def split: if_splits)
  have same: "op_tx_hash c = None \<or> op_tx_hash c = Some h"
  proof (cases "op_tx_hash c")
    case (Some t)
    then have "hash_ok t" using ledger_ok_hash [OF ok c] by simp
    then show ?thesis using hm Some h hash_ok_same is_tx_hash_nonempty by (auto simp: hash_ok_def)
  qed simp
  have "ledger_grows d d'" unfolding d'
  proof (rule update_grows [OF ok])
    fix r assume m: "r \<in> set (t_operations d)" "op_key r = target"
    have "r = c" by (rule row_unique [OF ops_okD(1) [OF ok [unfolded ledger_ok_def]] c [unfolded find_operation_def] m])
    then show "op_le r (f r)" using st same by (auto simp: open_le same_intent_def f_def)
    have "op_tx_hash (f r) = Some h \<and> hash_ok h \<and> op_key r = target \<and> \<not> hash_taken d target h"
      using h free m(2) by (simp add: f_def)
    then show "op_tx_hash (f r) = op_tx_hash r \<or>
      (\<exists>h. op_tx_hash (f r) = Some h \<and> hash_ok h \<and> op_key r = target \<and> \<not> hash_taken d target h)" by blast
  qed
  moreover have "find_operation d' target = Some (f c)"
    using c row_at_Some [OF c [unfolded find_operation_def]]
    by (simp add: d' find_operation_def row_at_update_set f_def)
  ultimately show ?thesis by (simp add: d' f_def)
qed

lemma attach_target_frame:
  assumes "attach_target now q h nonce ctx d = Inr d'" and "hash_ok h" and "ledger_ok d"
  shows "ledger_grows d d' \<and> t_leases d' = t_leases d"
  using assms attach_operation_grows [of d h now "request_target_key q" nonce ctx d'] ledger_grows_frame [of d d']
  by (auto simp: attach_target_def attach_funding_def ledger_grows_refl split: lease_target.splits option.splits if_splits)

lemma allocate_nonce_safe: "allocate_nonce now d c s pending = Inr n \<Longrightarrow> safe_nat n"
  by (auto simp: allocate_nonce_def Let_def split: option.splits if_splits)

lemma prepareLease_grows:
  assumes ok: "ledger_ok d" "leases_ok d" and p: "prepareLease locked now q d = Inr (x, d')"
  shows "ledger_grows d d' \<and> leases_grow d d'"
  using p
proof (cases rule: prepareLease_cases)
  case existing
  then show ?thesis using ok ledger_grows_refl leases_grow_frame by simp
next
  case (fresh pending nonce p h d1)
  have h: "hash_ok h" using fresh(7) by (rule canonical_hash_ok)
  have i: "leases_grow d d1" "t_operations d1 = t_operations d"
    using insert_lease_ok [OF ok(2) fresh(8)] h allocate_nonce_safe [OF fresh(5)] by (simp_all add: new_lease_def)
  have ok1: "ledger_ok d1" using ok(1) i(2) by (simp add: ledger_ok_def)
  have a: "ledger_grows d1 d'" "t_leases d' = t_leases d1" using attach_target_frame [OF fresh(9) h ok1] by simp_all
  have "ledger_grows d d'" using a(1) i(2) by (simp add: ledger_grows_def)
  moreover have "leases_grow d d'" using i(1) a(2) by (simp add: leases_grow_def leases_ok_def)
  ultimately show ?thesis by simp
qed

subsection \<open>Marking a lease\<close>

lemma update_leases_frame: "ledger_ok d \<Longrightarrow> ledger_grows d (update_leases P f d)"
  by (rule ledger_grows_frame) simp_all

lemma open_update_grows:
  assumes "ledger_ok d" and "\<And>r. same_intent r (f r) \<and> op_tx_hash (f r) = op_tx_hash r"
  shows "ledger_grows d (update_operations (\<lambda>r. P r \<and> open_status (op_status r)) f d)"
  by (rule update_grows_same) (use assms in \<open>auto simp: open_le\<close>)

lemma updateApprovalFundingParent_frame [simp]:
  "t_operations (updateApprovalFundingParent now l s g e d) = t_operations d"
  "t_leases (updateApprovalFundingParent now l s g e d) = t_leases d"
  by (auto simp: updateApprovalFundingParent_def split: option.splits)

lemma leaseMarkSubmitted_grows:
  assumes ok: "ledger_ok d" "leases_ok d" and s: "leaseMarkSubmitted now k t d = Inr (r, d')"
  shows "ledger_grows d d' \<and> leases_grow d d'"
proof -
  obtain h where h: "canonical_hash t ''transaction hash'' = Inr h"
    using s by (cases "canonical_hash t ''transaction hash''") (auto simp: leaseMarkSubmitted_def)
  define P :: "lease_row \<Rightarrow> bool" where "P = (\<lambda>l. ls_key l = k \<and> ls_tx_hash l = h \<and> live_lease l)"
  define f :: "lease_row \<Rightarrow> lease_row" where "f = (\<lambda>l. l\<lparr>ls_status := LEASE_SUBMITTED, ls_error := None, ls_updated := now\<rparr>)"
  define d1 where "d1 = update_leases P f d"
  define u where "u = (\<lambda>tk. update_operations (\<lambda>r. op_key r = tk \<and> open_status (op_status r))
    (\<lambda>r. r\<lparr>op_status := SUBMITTED, op_updated := now\<rparr>) d1)"
  have l1: "leases_grow d d1" unfolding d1_def
    by (rule update_leases_grow [OF ok(2)]) (simp add: P_def f_def lease_le_def)
  have o1: "t_operations d1 = t_operations d" by (simp add: d1_def)
  have "ledger_ok d1" using ok(1) o1 by (simp add: ledger_ok_def)
  then have u: "ledger_grows d1 (u tk)" for tk
    unfolding u_def by (rule open_update_grows) (simp add: same_intent_def)
  have ug: "ledger_grows d (u tk) \<and> leases_grow d (u tk)" for tk
    using u [of tk] l1 o1 by (simp add: ledger_grows_def leases_grow_def leases_ok_def u_def)
  have d1g: "ledger_grows d d1 \<and> leases_grow d d1" using l1 ledger_grows_frame [OF ok(1) o1] by simp
  have dg: "ledger_grows d d \<and> leases_grow d d" using ok ledger_grows_refl leases_grow_frame by simp
  have "d' = d \<or> d' = d1 \<or> (\<exists>tk. d' = u tk)"
    using s unfolding leaseMarkSubmitted_def h rbind_simps Let_def P_def [symmetric] f_def [symmetric] d1_def [symmetric] u_def
    by (auto split: option.splits if_splits)
  then show ?thesis using ug d1g dg by blast
qed

lemma lease_parent_grows:
  assumes ok: "ledger_ok d" "leases_ok d"
    and lf: "\<And>l. live_lease l \<Longrightarrow> lease_le l (f l)"
    and g: "\<And>r. same_intent r (g r) \<and> op_tx_hash (g r) = op_tx_hash r"
  shows "ledger_grows d (update_operations (\<lambda>r. P r \<and> open_status (op_status r)) g (update_leases (\<lambda>l. ls_key l = k \<and> live_lease l) f d))
    \<and> leases_grow d (update_operations (\<lambda>r. P r \<and> open_status (op_status r)) g (update_leases (\<lambda>l. ls_key l = k \<and> live_lease l) f d))"
    and "ledger_grows d (update_leases (\<lambda>l. ls_key l = k \<and> live_lease l) f d)
    \<and> leases_grow d (update_leases (\<lambda>l. ls_key l = k \<and> live_lease l) f d)"
    and "ledger_grows d (updateApprovalFundingParent now x st dg e (update_leases (\<lambda>l. ls_key l = k \<and> live_lease l) f d))
    \<and> leases_grow d (updateApprovalFundingParent now x st dg e (update_leases (\<lambda>l. ls_key l = k \<and> live_lease l) f d))"
proof -
  let ?d1 = "update_leases (\<lambda>l. ls_key l = k \<and> live_lease l) f d"
  have l1: "leases_grow d ?d1" by (rule update_leases_grow [OF ok(2)]) (use lf in simp)
  have ok1: "ledger_ok ?d1" using ok(1) by (simp add: ledger_ok_def)
  have u: "ledger_grows ?d1 (update_operations (\<lambda>r. P r \<and> open_status (op_status r)) g ?d1)"
    by (rule open_update_grows [OF ok1 g])
  show "ledger_grows d (update_operations (\<lambda>r. P r \<and> open_status (op_status r)) g ?d1)
    \<and> leases_grow d (update_operations (\<lambda>r. P r \<and> open_status (op_status r)) g ?d1)"
    using u l1 by (simp add: ledger_grows_def leases_grow_def leases_ok_def)
  show "ledger_grows d ?d1 \<and> leases_grow d ?d1" using l1 ledger_grows_frame [OF ok(1), of ?d1] by simp
  show "ledger_grows d (updateApprovalFundingParent now x st dg e ?d1)
    \<and> leases_grow d (updateApprovalFundingParent now x st dg e ?d1)"
    using l1 ledger_grows_frame [OF ok(1), of "updateApprovalFundingParent now x st dg e ?d1"]
    by (simp add: leases_grow_def leases_ok_def)
qed

lemma leaseMarkUnknown_grows:
  assumes ok: "ledger_ok d" "leases_ok d"
  shows "ledger_grows d (snd (leaseMarkUnknown now k g e d)) \<and> leases_grow d (snd (leaseMarkUnknown now k g e d))"
proof -
  define f :: "lease_row \<Rightarrow> lease_row" where
    "f = (\<lambda>l. l\<lparr>ls_status := LEASE_UNKNOWN, ls_diagnostic := Some g, ls_error := Some (clip e), ls_updated := now\<rparr>)"
  define h :: "operation_row \<Rightarrow> operation_row" where
    "h = (\<lambda>r. r\<lparr>op_status := UNKNOWN_STATUS, op_diagnostic := Some g, op_error := Some (clip e), op_updated := now\<rparr>)"
  have "\<And>l. live_lease l \<Longrightarrow> lease_le l (f l)" "\<And>r. same_intent r (h r) \<and> op_tx_hash (h r) = op_tx_hash r"
    by (simp_all add: f_def lease_le_def h_def same_intent_def)
  note c = lease_parent_grows [OF ok this]
  have dg: "ledger_grows d d \<and> leases_grow d d" using ok ledger_grows_refl leases_grow_frame by simp
  show ?thesis unfolding leaseMarkUnknown_def Let_def f_def [symmetric] h_def [symmetric]
    using c dg by (auto split: option.splits lease_target.splits)
qed

lemma leaseMarkFailed_grows:
  assumes ok: "ledger_ok d" "leases_ok d"
  shows "ledger_grows d (snd (leaseMarkFailed now k g e d)) \<and> leases_grow d (snd (leaseMarkFailed now k g e d))"
proof -
  define f :: "lease_row \<Rightarrow> lease_row" where
    "f = (\<lambda>l. l\<lparr>ls_status := LEASE_FAILED, ls_diagnostic := Some g, ls_error := Some (clip e), ls_updated := now\<rparr>)"
  define h :: "operation_row \<Rightarrow> operation_row" where
    "h = (\<lambda>r. r\<lparr>op_status := FAILED, op_outcome := Some OUT_NO_MOVEMENT, op_diagnostic := Some g, op_error := Some (clip e), op_updated := now\<rparr>)"
  have "\<And>l. live_lease l \<Longrightarrow> lease_le l (f l)" "\<And>r. same_intent r (h r) \<and> op_tx_hash (h r) = op_tx_hash r"
    by (simp_all add: f_def lease_le_def h_def same_intent_def)
  note c = lease_parent_grows [OF ok this]
  have dg: "ledger_grows d d \<and> leases_grow d d" using ok ledger_grows_refl leases_grow_frame by simp
  note c1 = c(1) [where P = "\<lambda>r. op_key r = tk \<and> op_tx_hash r \<noteq> None" and k = k for tk]
  show ?thesis unfolding leaseMarkFailed_def Let_def f_def [symmetric] h_def [symmetric]
    using c1 c(2,3) dg by (auto split: option.splits lease_target.splits)
qed

subsection \<open>Properties\<close>

lemma foldl_max_upper: "x \<in> set ns \<or> x \<le> a \<Longrightarrow> x \<le> foldl max (a :: nat) ns"
  by (induction ns arbitrary: a) (auto simp: le_max_iff_disj)

lemma foldl_max_in: "foldl max (a :: nat) ns = a \<or> foldl max a ns \<in> set ns"
proof (induction ns arbitrary: a)
  case (Cons n ns)
  then show ?case using Cons.IH [of "max a n"] by (auto simp: max_def)
qed simp

lemma allocate_nonce_bounds:
  assumes ok: "leases_ok d" and a: "allocate_nonce now d chain signer pending = Inr n"
  shows "pending \<le> n"
    and "\<And>l. l \<in> set (t_leases d) \<Longrightarrow> signer_lease chain signer l \<Longrightarrow> ls_status l \<noteq> LEASE_FAILED \<Longrightarrow> ls_nonce l < n"
    and "\<And>l. l \<in> set (t_leases d) \<Longrightarrow> signer_lease chain signer l \<Longrightarrow> ls_status l \<in> {LEASE_PREPARED, LEASE_UNKNOWN}
      \<Longrightarrow> ls_nonce l < pending"
proof -
  define ns where "ns = map ls_nonce (filter (\<lambda>l. signer_lease chain signer l \<and> ls_status l \<noteq> LEASE_FAILED) (t_leases d))"
  have u: "unresolved_lease d chain signer pending = None"
    using a by (cases "unresolved_lease d chain signer pending") (auto simp: allocate_nonce_def split: if_splits)
  have n: "n = max pending (case max_leased d chain signer of None \<Rightarrow> 0 | Some m \<Rightarrow> if safe_nat m then m + 1 else pending)"
    using a by (auto simp: allocate_nonce_def u Let_def split: if_splits)
  show "pending \<le> n" by (simp add: n)
  fix l assume l: "l \<in> set (t_leases d)" "signer_lease chain signer l"
  { assume f: "ls_status l \<noteq> LEASE_FAILED"
    have m: "ls_nonce l \<in> set ns" using l f by (simp add: ns_def)
    then have ne: "ns \<noteq> []" by auto
    have safe: "safe_nat (foldl max 0 ns)"
    proof (cases "foldl max 0 ns = 0")
      case True
      then show ?thesis by (simp only: safe_nat_def) simp
    next
      case False
      then have "foldl max 0 ns \<in> set ns" using foldl_max_in [of 0 ns] by simp
      then show ?thesis using ok by (auto simp: leases_ok_def ns_def)
    qed
    have "n = max pending (foldl max 0 ns + 1)"
      using n safe ne by (simp add: max_leased_def Let_def ns_def [symmetric])
    moreover have "ls_nonce l \<le> foldl max 0 ns" using m by (intro foldl_max_upper disjI1)
    ultimately show "ls_nonce l < n" by simp }
  { assume s: "ls_status l \<in> {LEASE_PREPARED, LEASE_UNKNOWN}"
    have "filter (\<lambda>l. signer_lease chain signer l \<and> ls_status l \<in> {LEASE_PREPARED, LEASE_UNKNOWN} \<and> pending \<le> ls_nonce l)
        (t_leases d) = []"
    proof -
      have "sort_key ls_nonce (filter (\<lambda>l. signer_lease chain signer l
          \<and> ls_status l \<in> {LEASE_PREPARED, LEASE_UNKNOWN} \<and> pending \<le> ls_nonce l) (t_leases d)) = []"
        using u by (simp add: unresolved_lease_def split: list.splits)
      then show ?thesis by (metis set_sort set_empty)
    qed
    then show "ls_nonce l < pending" using l s by (auto simp: filter_empty_conv) }
qed

text \<open>
   the nonce of a newly signed treasury transaction is at least the chain's pending nonce, above
  every nonce of that signer's leases that are not failed, never one that any lease of the signer
  holds, and it is only allocated when no prepared or unknown lease at or after the pending nonce is
  unresolved.
\<close>

theorem lease_nonce_allocation:
  assumes "leases_ok d" and "prepareLease locked now q d = Inr (x, d')" and "lo_raw x \<noteq> None"
  shows "\<exists>pending. pending_nonce (tr_pending_nonce q) = Inr pending \<and> pending \<le> ls_nonce (lo_lease x)
    \<and> (\<forall>l \<in> set (t_leases d). signer_lease (tr_chain q) (tr_signer q) l \<longrightarrow>
         ls_nonce l \<noteq> ls_nonce (lo_lease x)
         \<and> (ls_status l \<noteq> LEASE_FAILED \<longrightarrow> ls_nonce l < ls_nonce (lo_lease x))
         \<and> (ls_status l \<in> {LEASE_PREPARED, LEASE_UNKNOWN} \<longrightarrow> ls_nonce l < pending))"
  using assms(2)
proof (cases rule: prepareLease_cases)
  case existing
  then show ?thesis using assms(3) by simp
next
  case (fresh pending nonce p h d1)
  have sl: "signer_lease (tr_chain q) (js_lower (tr_signer q)) l = signer_lease (tr_chain q) (tr_signer q) l" for l
    by (simp add: signer_lease_def same_text_def)
  have slot: "ls_nonce l \<noteq> nonce" if "l \<in> set (t_leases d)" "signer_lease (tr_chain q) (tr_signer q) l" for l
    using fresh(8) that sl [of l] by (auto simp: insert_lease_def new_lease_def list_ex_iff split: if_splits)
  have n: "ls_nonce (lo_lease x) = nonce" by (simp add: fresh(10) new_lease_def)
  show ?thesis
  proof (intro exI [of _ pending] conjI ballI impI)
    show "pending_nonce (tr_pending_nonce q) = Inr pending" by (rule fresh(4))
    show "pending \<le> ls_nonce (lo_lease x)" unfolding n by (rule allocate_nonce_bounds(1) [OF assms(1) fresh(5)])
    fix l assume l: "l \<in> set (t_leases d)" "signer_lease (tr_chain q) (tr_signer q) l"
    show "ls_nonce l \<noteq> ls_nonce (lo_lease x)" unfolding n by (rule slot [OF l])
    show "ls_nonce l < ls_nonce (lo_lease x)" if "ls_status l \<noteq> LEASE_FAILED"
      unfolding n by (rule allocate_nonce_bounds(2) [OF assms(1) fresh(5) l(1) _ that]) (simp add: sl l(2))
    show "ls_nonce l < pending" if "ls_status l \<in> {LEASE_PREPARED, LEASE_UNKNOWN}"
      by (rule allocate_nonce_bounds(3) [OF assms(1) fresh(5) l(1) _ that]) (simp add: sl l(2))
  qed
qed

definition sample_hash :: "char \<Rightarrow> string" where
  "sample_hash c = ''0x'' @ replicate 64 c"

definition sample_context :: "nat \<Rightarrow> transaction_context" where
  "sample_context n = \<lparr>tc_chainId = ''80002'', tc_signerAddress = ''0xA1'', tc_nonce = n, tc_to = ''0xC0'', tc_data = None,
     tc_value = ''0'', tc_gasLimit = None, tc_gasPrice = None, tc_maxFeePerGas = None,
     tc_maxPriorityFeePerGas = None, tc_type = None, tc_accessList = None\<rparr>"

definition sample_lease_request :: "string \<Rightarrow> lease_target \<Rightarrow> char \<Rightarrow> nat \<Rightarrow> lease_request" where
  "sample_lease_request k target c pending = \<lparr>tr_key = k, tr_target_key = None, tr_target = target, tr_chain = ''80002'',
     tr_signer = ''0xA1'', tr_to = ''0xC0'', tr_data = None, tr_value = None, tr_access = None,
     tr_pending_nonce = Inr (Fin (of_nat pending)),
     tr_prepare = (\<lambda>n. Inr \<lparr>pt_txHash = sample_hash c, pt_rawTransaction = ''0x02'', pt_context = sample_context n\<rparr>)\<rparr>"

lemma sample_hash_canonical: "c \<in> {CHR ''a'', CHR ''b''} \<Longrightarrow> canonical_hash (sample_hash c) fld = Inr (sample_hash c)"
proof -
  assume "c \<in> {CHR ''a'', CHR ''b''}"
  moreover have "canonicalTransactionHash (JStr (sample_hash CHR ''a'')) = Some (sample_hash CHR ''a'')" by code_simp
  moreover have "canonicalTransactionHash (JStr (sample_hash CHR ''b'')) = Some (sample_hash CHR ''b'')" by code_simp
  ultimately show ?thesis
    by (auto simp: canonical_hash_def requireCanonicalTransactionHash_def of_option_def)
qed

lemma sample_pending: "n < 100 \<Longrightarrow> pending_nonce (Inr (Fin (of_nat n))) = Inr n"
  by (simp add: pending_nonce_def is_safe_integer_def)

lemma sample_prepare_empty:
  "\<exists>x d'. prepareLease True 0 (sample_lease_request ''op'' TARGET_STANDALONE CHR ''a'' 7) empty_db = Inr (x, d')
     \<and> lo_raw x \<noteq> None \<and> lo_lease x = new_lease 0 (sample_lease_request ''op'' TARGET_STANDALONE CHR ''a'' 7) (sample_hash CHR ''a'') 7 (sample_context 7)
     \<and> t_leases d' = [lo_lease x]"
  using sample_pending [of 7] sample_hash_canonical [of "CHR ''a''"]
  by (simp add: prepareLease_def sample_lease_request_def empty_db_def find_lease_def allocate_nonce_def unresolved_lease_def
      max_leased_def safe_nat_def guard_def sample_context_def insert_lease_def attach_target_def)

theorem lease_nonce_allocation_witness:
  "\<exists>x d'. prepareLease True 0 (sample_lease_request ''op'' TARGET_STANDALONE CHR ''a'' 7) empty_db = Inr (x, d')
     \<and> 7 \<le> ls_nonce (lo_lease x)"
proof -
  obtain x d' where p: "prepareLease True 0 (sample_lease_request ''op'' TARGET_STANDALONE CHR ''a'' 7) empty_db = Inr (x, d')"
    "lo_raw x \<noteq> None" using sample_prepare_empty by blast
  have "leases_ok empty_db" by (simp add: leases_ok_def empty_db_def)
  from lease_nonce_allocation [OF this p] sample_pending [of 7] p(1) show ?thesis
    by (auto simp: sample_lease_request_def)
qed

lemma find_lease_append: "find_lease d k = None \<Longrightarrow> ls_key l = k \<Longrightarrow> t_leases d' = t_leases d @ [l] \<Longrightarrow> find_lease d' k = Some l"
  by (simp add: find_lease_def row_at_append)

text \<open>
  C34: the hash of a treasury movement is durable before its signed bytes can be broadcast: when
  \<open>prepare\<close> hands out raw bytes, the committed database already holds the lease with the hash, nonce
  and context, and the movement's ledger row carries the same hash, nonce and context.
\<close>

theorem hash_durable_before_broadcast:
  assumes "ledger_ok d" and "leases_ok d" and "prepareLease locked now q d = Inr (x, d')"
    and "lo_raw x \<noteq> None" and "tr_target q = TARGET_OPERATION"
  shows "find_lease d' (tr_key q) = Some (lo_lease x) \<and> ls_status (lo_lease x) = LEASE_PREPARED
    \<and> (\<exists>r. find_operation d' (request_target_key q) = Some r \<and> op_tx_hash r = Some (ls_tx_hash (lo_lease x))
         \<and> op_tx_nonce r = Some (ls_nonce (lo_lease x)) \<and> op_tx_context r = Some (ls_context (lo_lease x))
         \<and> op_status r = SUBMITTING)"
  using assms(3)
proof (cases rule: prepareLease_cases)
  case existing
  then show ?thesis using assms(4) by simp
next
  case (fresh pending nonce p h d1)
  have h: "hash_ok h" using fresh(7) by (rule canonical_hash_ok)
  have i: "t_operations d1 = t_operations d" "t_leases d1 = t_leases d @ [lo_lease x]"
    using insert_lease_ok [OF assms(2) fresh(8)] h allocate_nonce_safe [OF fresh(5)] fresh(10)
    by (simp_all add: new_lease_def)
  have ok1: "ledger_ok d1" using assms(1) i(1) by (simp add: ledger_ok_def)
  have a: "attach_operation now (request_target_key q) h nonce (pt_context p) d1 = Inr d'"
    using fresh(9) assms(5) by (simp add: attach_target_def)
  note g = attach_operation_grows [OF ok1 h a]
  have "t_leases d' = t_leases d @ [lo_lease x]" using g i(2) by simp
  then have "find_lease d' (tr_key q) = Some (lo_lease x)"
    by (rule find_lease_append [OF fresh(2), rotated]) (simp add: fresh(10) new_lease_def)
  then show ?thesis using g by (simp add: fresh(10) new_lease_def)
qed

definition sample_operation :: "string \<Rightarrow> operation_row" where
  "sample_operation k = new_operation 0 k \<lparr>cr_key = k, cr_type = AWARD, cr_fingerprint = ''f'', cr_uid = ''u'',
     cr_wallet = ''0xB2'', cr_amount = ''1.00'', cr_session_id = Some ''s'', cr_provider_id = Some ''p'',
     cr_charging_session = None, cr_reservation = None, cr_intent = None, cr_legacy_key = None, cr_balance = None\<rparr> 100"

definition sample_ledger :: db where
  "sample_ledger = empty_db\<lparr>t_operations := [sample_operation ''op'']\<rparr>"

lemma sample_ledger_ok: "ledger_ok sample_ledger \<and> leases_ok sample_ledger"
  by (auto simp: ledger_ok_def leases_ok_def sample_ledger_def sample_operation_def new_operation_def empty_db_def
      intro!: ops_okI)

lemma sample_prepare:
  "\<exists>x d'. prepareLease True 5 (sample_lease_request ''op'' TARGET_OPERATION CHR ''a'' 7) sample_ledger = Inr (x, d')
     \<and> lo_raw x \<noteq> None"
  using sample_pending [of 7] sample_hash_canonical [of "CHR ''a''"]
  by (simp add: prepareLease_def sample_lease_request_def sample_ledger_def empty_db_def find_lease_def
      allocate_nonce_def unresolved_lease_def max_leased_def safe_nat_def guard_def sample_context_def insert_lease_def
      attach_target_def attach_operation_def find_operation_def request_target_key_def or_text_def nonempty_def
      sample_operation_def new_operation_def new_lease_def hash_taken_def)

theorem hash_durable_before_broadcast_witness:
  "\<exists>x d'. prepareLease True 5 (sample_lease_request ''op'' TARGET_OPERATION CHR ''a'' 7) sample_ledger = Inr (x, d')
     \<and> (\<exists>r. find_operation d' ''op'' = Some r \<and> op_tx_hash r = Some (ls_tx_hash (lo_lease x)))"
proof -
  obtain x d' where p: "prepareLease True 5 (sample_lease_request ''op'' TARGET_OPERATION CHR ''a'' 7) sample_ledger = Inr (x, d')"
    "lo_raw x \<noteq> None" using sample_prepare by blast
  have t: "tr_target (sample_lease_request ''op'' TARGET_OPERATION CHR ''a'' 7) = TARGET_OPERATION"
    "request_target_key (sample_lease_request ''op'' TARGET_OPERATION CHR ''a'' 7) = ''op''"
    by (simp_all add: sample_lease_request_def request_target_key_def or_text_def nonempty_def)
  from hash_durable_before_broadcast [OF _ _ p t(1)] sample_ledger_ok p(1) t(2) show ?thesis by auto
qed

text \<open>
  A failed lease blocks its nonce: allocation ignores failed leases, so when the chain still
  reports the nonce of a failed lease as pending and no later lease exists, that nonce is offered
  again, and saving the new lease is rejected by the unique index, whatever is signed. Until the chain
  moves past the nonce, no new transaction of the signer can be prepared.
\<close>

theorem failed_lease_blocks_nonce:
  assumes "f \<in> set (t_leases d)" and "ls_status f = LEASE_FAILED" and "signer_lease (tr_chain q) (tr_signer q) f"
    and "pending_nonce (tr_pending_nonce q) = Inr (ls_nonce f)"
    and "\<forall>l \<in> set (t_leases d). signer_lease (tr_chain q) (tr_signer q) l \<and> ls_status l \<noteq> LEASE_FAILED \<longrightarrow> ls_nonce l < ls_nonce f"
    and "find_lease d (tr_key q) = None"
  shows "\<exists>e. prepareLease locked now q d = Inl e"
proof (cases "prepareLease locked now q d")
  case (Inr y)
  obtain x d' where y: "y = (x, d')" by (cases y)
  have sl: "signer_lease (tr_chain q) (js_lower (tr_signer q)) = signer_lease (tr_chain q) (tr_signer q)"
    by (intro ext) (simp add: signer_lease_def same_text_def)
  have ml: "max_leased d (tr_chain q) (js_lower (tr_signer q)) = max_leased d (tr_chain q) (tr_signer q)"
    by (simp add: max_leased_def sl)
  from Inr [unfolded y] show ?thesis
  proof (cases rule: prepareLease_cases)
    case existing
    then show ?thesis using assms(6) by simp
  next
    case (fresh pending nonce p h d1)
    have p: "pending = ls_nonce f" using fresh(4) assms(4) by simp
    have "nonce = pending"
    proof (cases "max_leased d (tr_chain q) (tr_signer q)")
      case None
      then show ?thesis using fresh(5) by (auto simp: allocate_nonce_def ml Let_def split: option.splits if_splits)
    next
      case (Some m)
      define ns where "ns = map ls_nonce (filter (\<lambda>l. signer_lease (tr_chain q) (tr_signer q) l \<and> ls_status l \<noteq> LEASE_FAILED) (t_leases d))"
      have ns: "ns \<noteq> []" "m = foldl max 0 ns"
        using Some by (auto simp: max_leased_def Let_def ns_def [symmetric] split: if_splits)
      have all: "\<forall>n \<in> set ns. n < pending" using assms(5) p by (auto simp: ns_def)
      have "m < pending"
      proof (cases "m = 0")
        case True
        then show ?thesis using ns(1) all by (cases ns) auto
      next
        case False
        then have "m \<in> set ns" using foldl_max_in [of 0 ns] ns(2) by simp
        then show ?thesis using all by simp
      qed
      then show ?thesis using fresh(5) Some
        by (auto simp: allocate_nonce_def ml Let_def split: option.splits if_splits)
    qed
    then have "insert_lease d (new_lease now q h nonce (pt_context p)) = Inl (UNIQUE_VIOLATION ''treasury_transaction_leases_signer_nonce_unique'')
      \<or> insert_lease d (new_lease now q h nonce (pt_context p)) = Inl (UNIQUE_VIOLATION ''treasury_transaction_leases_operation_key'')"
      using assms(1,3) p sl by (auto simp: insert_lease_def new_lease_def list_ex_iff)
    then show ?thesis using fresh(8) by auto
  qed
qed simp

theorem failed_lease_blocks_nonce_witness:
  "\<exists>e. prepareLease True 9 (sample_lease_request ''op2'' TARGET_STANDALONE CHR ''b'' 7)
     (empty_db\<lparr>t_leases := [(new_lease 0 (sample_lease_request ''op'' TARGET_STANDALONE CHR ''a'' 7)
        (sample_hash CHR ''a'') 7 (sample_context 7))\<lparr>ls_status := LEASE_FAILED\<rparr>]\<rparr>) = Inl e"
  by (rule failed_lease_blocks_nonce)
    (use sample_pending [of 7] in \<open>auto simp: new_lease_def sample_lease_request_def signer_lease_def same_text_def find_lease_def\<close>)

end
