(* ===== verification/Wallets.thy ===== *)
theory Wallets
  imports Database
begin

text \<open>
  \<open>Users\<close> and \<open>LinkedWallets\<close> of \<open>src/database/service.ts\<close>: the wallets of a contract id (uid) and
  the one that is active. The derivation of the managed wallet address
  (\<open>user/walletDerivation.ts\<close>, a keccak hash) is the parameter \<open>managed\<close>.
\<close>

definition user_of :: "string \<Rightarrow> string \<Rightarrow> user_row \<Rightarrow> bool" where
  "user_of u w r \<longleftrightarrow> us_uid r = u \<and> same_text (us_wallet r) w"

definition update_users :: "(user_row \<Rightarrow> bool) \<Rightarrow> (user_row \<Rightarrow> user_row) \<Rightarrow> db \<Rightarrow> db" where
  "update_users P f d = d\<lparr>t_users := update_where P f (t_users d)\<rparr>"

definition insert_user :: "db \<Rightarrow> user_row \<Rightarrow> db_error + db" where
  "insert_user d n =
     (if list_ex (\<lambda>r. us_id r = us_id n) (t_users d) then Inl (UNIQUE_VIOLATION ''users_pkey'')
      else if list_ex (user_of (us_uid n) (us_wallet n)) (t_users d)
      then Inl (UNIQUE_VIOLATION ''users_uid_wallet_lower_unique'')
      else if us_active n \<and> list_ex (\<lambda>r. us_uid r = us_uid n \<and> us_active r) (t_users d)
      then Inl (UNIQUE_VIOLATION ''users_uid_active_unique'')
      else Inr (d\<lparr>t_users := t_users d @ [n]\<rparr>))"

text \<open>Setting \<open>is_active\<close> on one row; the partial unique index allows one active row per uid.\<close>

definition set_active :: "user_row \<Rightarrow> (user_row \<Rightarrow> user_row) \<Rightarrow> db \<Rightarrow> db_error + (user_row option \<times> db)" where
  "set_active e f d =
     (if list_ex (\<lambda>r. us_uid r = us_uid e \<and> us_id r \<noteq> us_id e \<and> us_active r) (t_users d)
      then Inl (UNIQUE_VIOLATION ''users_uid_active_unique'')
      else Inr (returning_where (\<lambda>r. us_id r = us_id e) f (t_users d), update_users (\<lambda>r. us_id r = us_id e) f d))"

definition new_user :: "int \<Rightarrow> string \<Rightarrow> string \<Rightarrow> string \<Rightarrow> string option \<Rightarrow> bool \<Rightarrow> user_row" where
  "new_user now ident u w name active =
     \<lparr>us_id = ident, us_uid = u, us_wallet = w, us_name = nonempty name, us_active = active,
      us_created = now, us_updated = now\<rparr>"

definition find_user :: "db \<Rightarrow> string \<Rightarrow> string \<Rightarrow> user_row option" where
  "find_user d u w = first_where (user_of u w) (t_users d)"

definition active_wallet :: "db \<Rightarrow> string \<Rightarrow> user_row option" where
  "active_wallet d u = first_where (\<lambda>r. us_uid r = u \<and> us_active r) (t_users d)"

subsection \<open>Users\<close>

definition insert_returning :: "db \<Rightarrow> user_row \<Rightarrow> db_error + (user_row \<times> db)" where
  "insert_returning d n = rbind (insert_user d n) (\<lambda>d'. Inr (n, d'))"

definition createUser :: "int \<Rightarrow> string \<Rightarrow> string \<Rightarrow> string \<Rightarrow> string option \<Rightarrow> db \<Rightarrow> db_error + (user_row \<times> db)" where
  "createUser now ident u w name d =
     (case find_user d u w of
        Some r \<Rightarrow> Inr (r, d)
      | None \<Rightarrow> insert_returning d (new_user now ident u w name (\<not> list_ex (\<lambda>r. us_uid r = u) (t_users d))))"

definition findByUid :: "db \<Rightarrow> string \<Rightarrow> user_row option" where
  "findByUid d u = active_wallet d u"

definition findByWallet :: "db \<Rightarrow> string \<Rightarrow> user_row option" where
  "findByWallet d w = first_where (\<lambda>r. same_text (us_wallet r) w) (t_users d)"

definition findAllByWallet :: "db \<Rightarrow> string \<Rightarrow> user_row list" where
  "findAllByWallet d w = sort_key us_created (filter (\<lambda>r. same_text (us_wallet r) w) (t_users d))"

definition update_wallet :: "int \<Rightarrow> string \<Rightarrow> string \<Rightarrow> db \<Rightarrow> db_error + (user_row option \<times> db)" where
  "update_wallet now ident w d =
     (let f = (\<lambda>r. r\<lparr>us_wallet := w, us_updated := now\<rparr>) in
      if list_ex (\<lambda>r. us_id r = ident \<and> list_ex (\<lambda>s. us_id s \<noteq> ident \<and> user_of (us_uid r) w s) (t_users d)) (t_users d)
      then Inl (UNIQUE_VIOLATION ''users_uid_wallet_lower_unique'')
      else Inr (returning_where (\<lambda>r. us_id r = ident) f (t_users d), update_users (\<lambda>r. us_id r = ident) f d))"

definition updateWalletAddress :: "int \<Rightarrow> string \<Rightarrow> string \<Rightarrow> db \<Rightarrow> db_error + (user_row option \<times> db)" where
  "updateWalletAddress now u w d =
     rbind (of_option (CONTRACT_ID_NOT_FOUND u) (findByUid d u)) (\<lambda>e. update_wallet now (us_id e) w d)"

definition updateWalletNameByAddress :: "int \<Rightarrow> string \<Rightarrow> string option \<Rightarrow> db \<Rightarrow> user_row list \<times> db" where
  "updateWalletNameByAddress now w name d =
     (let P = (\<lambda>r. same_text (us_wallet r) w); f = (\<lambda>r. r\<lparr>us_name := name, us_updated := now\<rparr>)
      in (map f (filter P (t_users d)), update_users P f d))"

definition hasActivity :: "db \<Rightarrow> string \<Rightarrow> bool" where
  "hasActivity d ident \<longleftrightarrow> list_ex (\<lambda>a. aw_user_id a = ident) (t_awards d)
     \<or> list_ex (\<lambda>s. sp_user_id s = ident) (t_spends d) \<or> list_ex (\<lambda>b. bl_user_id b = ident) (t_balances d)"

definition deactivate_all :: "string \<Rightarrow> db \<Rightarrow> db" where
  "deactivate_all u d = update_users (\<lambda>r. us_uid r = u) (\<lambda>r. r\<lparr>us_active := False\<rparr>) d"

definition ensureManagedWallet :: "(string \<Rightarrow> string) \<Rightarrow> int \<Rightarrow> string \<Rightarrow> string \<Rightarrow> db \<Rightarrow> db_error + (user_row option \<times> db)" where
  "ensureManagedWallet managed now ident u d =
     (let d1 = deactivate_all u d in
      case find_user d1 u (managed u) of
        Some e \<Rightarrow> set_active e (\<lambda>r. r\<lparr>us_active := True, us_updated := now\<rparr>) d1
      | None \<Rightarrow> rbind (insert_returning d1 (new_user now ident u (managed u) None True)) (\<lambda>(r, d2). Inr (Some r, d2)))"

definition activateWallet ::
    "int \<Rightarrow> string \<Rightarrow> string \<Rightarrow> string \<Rightarrow> string option \<Rightarrow> db \<Rightarrow> db_error + (user_row option \<times> db)" where
  "activateWallet now ident u w name d =
     (case find_user d u w of
        Some e \<Rightarrow> set_active e (\<lambda>r. r\<lparr>us_active := True\<rparr>)
          (update_users (\<lambda>r. us_uid r = u \<and> us_id r \<noteq> us_id e) (\<lambda>r. r\<lparr>us_active := False\<rparr>) d)
      | None \<Rightarrow> rbind (insert_returning (deactivate_all u d) (new_user now ident u w name True))
          (\<lambda>(r, d2). Inr (Some r, d2)))"

text \<open>Remove a row, or only deactivate it when history depends on it; the count of deleted rows.\<close>

definition retire_user :: "int \<Rightarrow> user_row \<Rightarrow> db \<Rightarrow> nat \<times> db" where
  "retire_user now e d =
     (if hasActivity d (us_id e) then
        (0, if us_active e then update_users (\<lambda>r. us_id r = us_id e) (\<lambda>r. r\<lparr>us_active := False, us_updated := now\<rparr>) d else d)
      else (length (filter (\<lambda>r. us_id r = us_id e) (t_users d)),
            d\<lparr>t_users := delete_where (\<lambda>r. us_id r = us_id e) (t_users d)\<rparr>))"

definition deleteByUidAndWallet ::
    "(string \<Rightarrow> string) \<Rightarrow> int \<Rightarrow> string \<Rightarrow> string \<Rightarrow> string \<Rightarrow> db \<Rightarrow> db_error + (nat \<times> db)" where
  "deleteByUidAndWallet managed now ident u w d =
     (case find_user d u w of
        None \<Rightarrow> Inr (0, d)
      | Some e \<Rightarrow>
          (case retire_user now e d of
             (n, d1) \<Rightarrow>
               if us_active e
               then rbind (ensureManagedWallet managed now ident u d1) (\<lambda>(_, d2). Inr (n, d2))
               else Inr (n, d1)))"

record unlink_result =
  ul_removed :: nat
  ul_deleted :: nat
  ul_active :: "user_row option"

definition linked_to :: "string \<Rightarrow> string \<Rightarrow> linked_row \<Rightarrow> bool" where
  "linked_to u w l \<longleftrightarrow> ln_uid l = u \<and> same_text (ln_wallet l) w"

definition unlinkLinkedWallet ::
    "(string \<Rightarrow> string) \<Rightarrow> int \<Rightarrow> string \<Rightarrow> string \<Rightarrow> string \<Rightarrow> db \<Rightarrow> db_error + (unlink_result \<times> db)" where
  "unlinkLinkedWallet managed now ident u w d =
     (let removed = length (filter (linked_to u w) (t_linked d));
          d1 = d\<lparr>t_linked := delete_where (linked_to u w) (t_linked d)\<rparr> in
      case find_user d1 u w of
        None \<Rightarrow> Inr (\<lparr>ul_removed = removed, ul_deleted = 0, ul_active = active_wallet d1 u\<rparr>, d1)
      | Some e \<Rightarrow>
          if removed = 0 \<and> \<not> (us_active e \<and> \<not> same_text (us_wallet e) (managed u))
          then Inr (\<lparr>ul_removed = 0, ul_deleted = 0, ul_active = active_wallet d1 u\<rparr>, d1)
          else (case retire_user now e d1 of
             (n, d2) \<Rightarrow>
               if us_active e
               then rbind (ensureManagedWallet managed now ident u d2) (\<lambda>(r, d3).
                    Inr (\<lparr>ul_removed = removed, ul_deleted = n, ul_active = r\<rparr>, d3))
               else Inr (\<lparr>ul_removed = removed, ul_deleted = n, ul_active = active_wallet d2 u\<rparr>, d2)))"

subsection \<open>Linked wallets\<close>

definition max_linked :: nat where
  "max_linked = 5"

definition new_link :: "int \<Rightarrow> string \<Rightarrow> string \<Rightarrow> string \<Rightarrow> string option \<Rightarrow> linked_row" where
  "new_link now ident u w name =
     \<lparr>ln_id = ident, ln_uid = u, ln_wallet = w, ln_name = nonempty name, ln_created = now, ln_updated = now\<rparr>"

definition addLinkedWallet ::
    "int \<Rightarrow> string \<Rightarrow> string \<Rightarrow> string \<Rightarrow> string option \<Rightarrow> db \<Rightarrow> db_error + (linked_row \<times> db)" where
  "addLinkedWallet now ident u w name d =
     (case first_where (linked_to u w) (t_linked d) of
        Some l \<Rightarrow> Inr (l, d)
      | None \<Rightarrow>
          rbind (guard (\<not> list_ex (\<lambda>l. same_text (ln_wallet l) w) (t_linked d)) WALLET_ALREADY_LINKED) (\<lambda>_.
          rbind (guard (length (filter (\<lambda>l. ln_uid l = u) (t_linked d)) < max_linked) WALLET_LIMIT_REACHED) (\<lambda>_.
          Inr (new_link now ident u w name, d\<lparr>t_linked := t_linked d @ [new_link now ident u w name]\<rparr>))))"

definition linkLinkedWallet ::
    "int \<Rightarrow> string \<Rightarrow> string \<Rightarrow> string \<Rightarrow> string option \<Rightarrow> db \<Rightarrow> db_error + (user_row \<times> db)" where
  "linkLinkedWallet now ident u w name d =
     rbind (addLinkedWallet now ident u w name d) (\<lambda>(_, d1). createUser now ident u w name d1)"

definition updateLinkName :: "int \<Rightarrow> string \<Rightarrow> string \<Rightarrow> string option \<Rightarrow> db \<Rightarrow> linked_row option \<times> db" where
  "updateLinkName now u w name d =
     (let f = (\<lambda>l. l\<lparr>ln_name := name, ln_updated := now\<rparr>)
      in (returning_where (linked_to u w) f (t_linked d), d\<lparr>t_linked := update_where (linked_to u w) f (t_linked d)\<rparr>))"

definition findLinkByUid :: "db \<Rightarrow> string \<Rightarrow> linked_row list" where
  "findLinkByUid d u = sort_key ln_created (filter (\<lambda>l. ln_uid l = u) (t_linked d))"

definition findLinkByAddress :: "db \<Rightarrow> string \<Rightarrow> linked_row option" where
  "findLinkByAddress d w = first_where (\<lambda>l. same_text (ln_wallet l) w) (t_linked d)"

end
