(* ===== verification/Projections.thy ===== *)
theory Projections
  imports Ledger
begin

text \<open>
  \<open>Awards\<close>, \<open>Balances\<close>, \<open>Spends\<close>, \<open>SpendReceipts\<close>, \<open>AuditLogs\<close> and \<open>ReconciliationReports\<close> of
  \<open>src/database/service.ts\<close>: projections of completed movements, and append-only logs.
\<close>

subsection \<open>Awards\<close>

record award_data =
  ad_userId :: string
  ad_sessionId :: string
  ad_providerId :: string
  ad_dedupKey :: string
  ad_amount :: string
  ad_cdrData :: "string option"
  ad_txHash :: string
  ad_awardedAt :: int
  ad_awardType :: "string option"
  ad_isOffPeak :: "bool option"
  ad_countryCode :: "string option"
  ad_localTime :: "string option"
  ad_status :: "string option"
  ad_error :: "string option"
  ad_confirmedAt :: "int option"

definition insert_award :: "db \<Rightarrow> award_row \<Rightarrow> db_error + db" where
  "insert_award d n =
     (if list_ex (\<lambda>r. aw_dedup_key r = aw_dedup_key n) (t_awards d) then Inl (UNIQUE_VIOLATION ''awards_dedup_key_unique'')
      else if list_ex (\<lambda>r. aw_session_id r = aw_session_id n \<and> aw_provider_id r = aw_provider_id n) (t_awards d)
      then Inl (UNIQUE_VIOLATION ''awards_session_id_provider_id_unique'')
      else if list_ex (\<lambda>r. same_text (aw_tx_hash r) (aw_tx_hash n)) (t_awards d)
      then Inl (UNIQUE_VIOLATION ''awards_tx_hash_lower_unique'')
      else Inr (d\<lparr>t_awards := t_awards d @ [n]\<rparr>))"

definition createAward :: "int \<Rightarrow> string \<Rightarrow> award_data \<Rightarrow> db \<Rightarrow> db_error + (award_row \<times> db)" where
  "createAward now ident a d =
     rbind (canonical_hash (ad_txHash a) ''transaction hash'') (\<lambda>h.
     let n = \<lparr>aw_id = ident, aw_user_id = ad_userId a, aw_session_id = ad_sessionId a, aw_provider_id = ad_providerId a,
          aw_dedup_key = ad_dedupKey a, aw_amount = cents_of (ad_amount a), aw_cdr_data = nonempty (ad_cdrData a),
          aw_tx_hash = h, aw_awarded_at = ad_awardedAt a, aw_award_type = nonempty (ad_awardType a),
          aw_is_off_peak = (case ad_isOffPeak a of None \<Rightarrow> False | Some b \<Rightarrow> b),
          aw_country_code = nonempty (ad_countryCode a), aw_local_time = nonempty (ad_localTime a),
          aw_status = (case nonempty (ad_status a) of None \<Rightarrow> ''confirmed'' | Some s \<Rightarrow> s),
          aw_error = nonempty (ad_error a),
          aw_confirmed_at = (case ad_confirmedAt a of None \<Rightarrow> ad_awardedAt a | Some t \<Rightarrow> t), aw_created = now\<rparr>
     in rbind (insert_award d n) (\<lambda>d'. Inr (n, d')))"

definition findByDedupKey :: "db \<Rightarrow> string \<Rightarrow> award_row option" where
  "findByDedupKey d k = first_where (\<lambda>r. aw_dedup_key r = k) (t_awards d)"

definition awardExists :: "db \<Rightarrow> string \<Rightarrow> bool" where
  "awardExists d k \<longleftrightarrow> first_where (\<lambda>r. aw_dedup_key r = k) (t_awards d) \<noteq> None"

text \<open>\<open>orderBy(.., 'desc')\<close> keeps the order of ties, as the rows stand.\<close>

definition sort_desc :: "('r \<Rightarrow> int) \<Rightarrow> 'r list \<Rightarrow> 'r list" where
  "sort_desc key t = sort_key (\<lambda>r. - key r) t"

definition awardsByUser :: "db \<Rightarrow> string \<Rightarrow> award_row list" where
  "awardsByUser d u = sort_desc aw_awarded_at (filter (\<lambda>r. aw_user_id r = u) (t_awards d))"

subsection \<open>Balances\<close>

record balance_data =
  bd_userId :: string
  bd_wallet :: string
  bd_balance :: string
  bd_totalAwarded :: string
  bd_totalSpent :: string

definition upsertBalance :: "int \<Rightarrow> balance_data \<Rightarrow> db \<Rightarrow> balance_row option \<times> db" where
  "upsertBalance now b d =
     (let P = (\<lambda>r. bl_user_id r = bd_userId b);
          f = (\<lambda>r. r\<lparr>bl_balance := signed_cents (bd_balance b),
                 bl_total_awarded := rounded_cents (bd_totalAwarded b), bl_total_spent := rounded_cents (bd_totalSpent b), bl_last_synced := now\<rparr>);
          n = \<lparr>bl_user_id = bd_userId b, bl_wallet = bd_wallet b, bl_balance = signed_cents (bd_balance b),
               bl_total_awarded = rounded_cents (bd_totalAwarded b), bl_total_spent = rounded_cents (bd_totalSpent b),
               bl_last_synced = now\<rparr>
      in if first_where P (t_balances d) \<noteq> None
         then (returning_where P f (t_balances d), d\<lparr>t_balances := update_where P f (t_balances d)\<rparr>)
         else (Some n, d\<lparr>t_balances := t_balances d @ [n]\<rparr>))"

definition findBalance :: "db \<Rightarrow> string \<Rightarrow> balance_row option" where
  "findBalance d u = first_where (\<lambda>r. bl_user_id r = u) (t_balances d)"

subsection \<open>Spends\<close>

record spend_data =
  sd_userId :: string
  sd_wallet :: string
  sd_amount :: string
  sd_txHash :: string
  sd_sessionId :: "string option"
  sd_status :: "string option"
  sd_error :: "string option"
  sd_confirmedAt :: "int option"

definition insert_spend :: "db \<Rightarrow> spend_row \<Rightarrow> db_error + db" where
  "insert_spend d n =
     (if list_ex (\<lambda>r. same_text (sp_tx_hash r) (sp_tx_hash n)) (t_spends d)
      then Inl (UNIQUE_VIOLATION ''spends_tx_hash_lower_unique'')
      else Inr (d\<lparr>t_spends := t_spends d @ [n]\<rparr>))"

definition createSpend :: "int \<Rightarrow> string \<Rightarrow> spend_data \<Rightarrow> db \<Rightarrow> db_error + (spend_row \<times> db)" where
  "createSpend now ident s d =
     rbind (canonical_hash (sd_txHash s) ''transaction hash'') (\<lambda>h.
     let n = \<lparr>sp_id = ident, sp_user_id = sd_userId s, sp_wallet = sd_wallet s, sp_amount = cents_of (sd_amount s),
          sp_tx_hash = h, sp_session_id = nonempty (sd_sessionId s),
          sp_status = (case nonempty (sd_status s) of None \<Rightarrow> ''confirmed'' | Some x \<Rightarrow> x),
          sp_error = nonempty (sd_error s),
          sp_confirmed_at = (case sd_confirmedAt s of None \<Rightarrow> now | Some t \<Rightarrow> t), sp_created = now\<rparr>
     in rbind (insert_spend d n) (\<lambda>d'. Inr (n, d')))"

definition unambiguous :: "'r list \<Rightarrow> string \<Rightarrow> db_error + 'r option" where
  "unambiguous rows projection =
     (case requireUnambiguousTransactionMatch (take 2 rows) projection of Inl e \<Rightarrow> Inl (Token e) | Inr r \<Rightarrow> Inr r)"

definition findSpendByTxHash :: "db \<Rightarrow> string \<Rightarrow> db_error + spend_row option" where
  "findSpendByTxHash d txHash =
     rbind (canonical_hash txHash ''transaction hash'') (\<lambda>h.
     unambiguous (filter (\<lambda>r. same_text (sp_tx_hash r) h) (t_spends d)) ''spend'')"

definition spendsByWallet :: "db \<Rightarrow> string \<Rightarrow> spend_row list" where
  "spendsByWallet d w = sort_desc sp_created (filter (\<lambda>r. same_text (sp_wallet r) w) (t_spends d))"

subsection \<open>Receipts\<close>

record receipt_data =
  rd_receiptId :: string
  rd_uid :: string
  rd_wallet :: string
  rd_amount :: string
  rd_sessionId :: "string option"
  rd_providerId :: "string option"
  rd_status :: string
  rd_tokenTxHash :: string
  rd_contract :: string
  rd_chainId :: nat
  rd_signer :: string
  rd_payload :: string
  rd_signature :: string
  rd_issuedAt :: int

definition createReceipt :: "receipt_data \<Rightarrow> db \<Rightarrow> db_error + (receipt_row \<times> db)" where
  "createReceipt r d =
     rbind (canonical_hash (rd_tokenTxHash r) ''token transaction hash'') (\<lambda>h.
     let n = \<lparr>rc_receipt_id = rd_receiptId r, rc_uid = rd_uid r, rc_wallet = rd_wallet r,
          rc_amount = cents_of (rd_amount r), rc_session_id = nonempty (rd_sessionId r),
          rc_provider_id = nonempty (rd_providerId r), rc_status = rd_status r, rc_token_tx_hash = h,
          rc_token_contract = rd_contract r, rc_chain_id = rd_chainId r, rc_signer = rd_signer r,
          rc_payload = rd_payload r, rc_signature = rd_signature r, rc_issued_at = rd_issuedAt r\<rparr>
     in if list_ex (\<lambda>x. rc_receipt_id x = rd_receiptId r) (t_receipts d)
        then Inl (UNIQUE_VIOLATION ''spend_receipts_receipt_id_unique'')
        else if list_ex (\<lambda>x. same_text (rc_token_tx_hash x) h) (t_receipts d)
        then Inl (UNIQUE_VIOLATION ''spend_receipts_token_tx_hash_lower_unique'')
        else Inr (n, d\<lparr>t_receipts := t_receipts d @ [n]\<rparr>))"

definition findByReceiptId :: "db \<Rightarrow> string \<Rightarrow> receipt_row option" where
  "findByReceiptId d i = first_where (\<lambda>r. rc_receipt_id r = i) (t_receipts d)"

definition findReceiptByTxHash :: "db \<Rightarrow> string \<Rightarrow> db_error + receipt_row option" where
  "findReceiptByTxHash d txHash =
     rbind (canonical_hash txHash ''token transaction hash'') (\<lambda>h.
     unambiguous (filter (\<lambda>r. same_text (rc_token_tx_hash r) h) (t_receipts d)) ''receipt'')"

definition receiptsByUid :: "db \<Rightarrow> string \<Rightarrow> receipt_row list" where
  "receiptsByUid d u = sort_desc rc_issued_at (filter (\<lambda>r. rc_uid r = u) (t_receipts d))"

subsection \<open>Logs\<close>

definition createAudit :: "int \<Rightarrow> audit_row \<Rightarrow> db \<Rightarrow> audit_row \<times> db" where
  "createAudit now a d =
     (let n = a\<lparr>au_actor_id := nonempty (au_actor_id a), au_target_type := nonempty (au_target_type a),
           au_target_id := nonempty (au_target_id a), au_created := now\<rparr>
      in (n, d\<lparr>t_audits := t_audits d @ [n]\<rparr>))"

definition auditsByTarget :: "db \<Rightarrow> string \<Rightarrow> string \<Rightarrow> audit_row list" where
  "auditsByTarget d t i = sort_desc au_created
     (filter (\<lambda>a. au_target_type a = Some t \<and> au_target_id a = Some i) (t_audits d))"

definition audit_filter :: "string option \<Rightarrow> string option \<Rightarrow> audit_row \<Rightarrow> bool" where
  "audit_filter status event a \<longleftrightarrow> (case nonempty status of None \<Rightarrow> True | Some s \<Rightarrow> au_status a = s)
     \<and> (case nonempty event of None \<Rightarrow> True | Some e \<Rightarrow> au_event_type a = e)"

definition recentAudits :: "db \<Rightarrow> nat \<Rightarrow> string option \<Rightarrow> string option \<Rightarrow> audit_row list" where
  "recentAudits d limit status event = take limit (sort_desc au_created (filter (audit_filter status event) (t_audits d)))"

definition auditsSince :: "db \<Rightarrow> int \<Rightarrow> nat \<Rightarrow> string option \<Rightarrow> string option \<Rightarrow> audit_row list" where
  "auditsSince d since limit status event =
     take limit (sort_desc au_created (filter (\<lambda>a. since \<le> au_created a \<and> audit_filter status event a) (t_audits d)))"

definition createReport :: "int \<Rightarrow> report_row \<Rightarrow> db \<Rightarrow> report_row \<times> db" where
  "createReport now r d = (r\<lparr>rp_created := now\<rparr>, d\<lparr>t_reports := t_reports d @ [r\<lparr>rp_created := now\<rparr>]\<rparr>)"

definition latestReport :: "db \<Rightarrow> report_row option" where
  "latestReport d = (case sort_desc rp_created (t_reports d) of [] \<Rightarrow> None | r # _ \<Rightarrow> Some r)"

definition recentReports :: "db \<Rightarrow> nat \<Rightarrow> report_row list" where
  "recentReports d limit = take limit (sort_desc rp_created (t_reports d))"

end
