(* ===== verification/Events.thy ===== *)
theory Events
  imports Treasury Wallets Projections
begin

text \<open>
  \<open>src/database/eventListener.ts\<close>: the projection that follows the contract's \<open>Award\<close> and \<open>Spend\<close>
  events. \<open>ethers.formatEther\<close> is the parameter \<open>fmt\<close>; the amount of an event is a uint256. An
  exception is caught by the listener and logged.
\<close>

datatype event_error = Event_Database db_error | BIGINT_SYNTAX_ERROR

definition numeric2_signed :: "int \<Rightarrow> string" where
  "numeric2_signed i = (if i < 0 then ''-'' @ numeric2_text (nat (- i)) else numeric2_text (nat i))"

text \<open>\<open>BigInt(column)\<close>, where the driver returns a numeric column as its decimal text.\<close>

definition column_bigint :: "int \<Rightarrow> event_error + int" where
  "column_bigint i = of_option BIGINT_SYNTAX_ERROR (bigint_text (numeric2_signed i))"

definition syncAwardEvent ::
    "(int \<Rightarrow> string) \<Rightarrow> int \<Rightarrow> string \<Rightarrow> string \<Rightarrow> nat \<Rightarrow> db \<Rightarrow> event_error + db" where
  "syncAwardEvent fmt now uident w amount d =
     rbind (case findByWallet d w of
              Some u \<Rightarrow> Inr (u, d)
            | None \<Rightarrow> (case createUser now uident (''wallet-'' @ w) w None d of
                         Inl e \<Rightarrow> Inl (Event_Database e) | Inr (u, d1) \<Rightarrow> Inr (u, d1))) (\<lambda>(user, d1).
     case findBalance d1 (us_id user) of
       Some b \<Rightarrow>
         rbind (column_bigint (int (bl_total_awarded b))) (\<lambda>awarded.
         rbind (column_bigint (bl_balance b)) (\<lambda>balance.
         Inr (snd (upsertBalance now
           \<lparr>bd_userId = us_id user, bd_wallet = w, bd_balance = fmt (balance + int amount),
            bd_totalAwarded = fmt (awarded + int amount), bd_totalSpent = numeric2_text (bl_total_spent b)\<rparr> d1))))
     | None \<Rightarrow>
         Inr (snd (upsertBalance now
           \<lparr>bd_userId = us_id user, bd_wallet = w, bd_balance = fmt (int amount),
            bd_totalAwarded = fmt (int amount), bd_totalSpent = ''0''\<rparr> d1)))"

definition syncSpendEvent :: "(int \<Rightarrow> string) \<Rightarrow> int \<Rightarrow> string \<Rightarrow> nat \<Rightarrow> db \<Rightarrow> event_error + db" where
  "syncSpendEvent fmt now w amount d =
     (case findByWallet d w of
        None \<Rightarrow> Inr d
      | Some user \<Rightarrow>
          (case findBalance d (us_id user) of
             None \<Rightarrow> Inr d
           | Some b \<Rightarrow>
               rbind (column_bigint (int (bl_total_spent b))) (\<lambda>spent.
               rbind (column_bigint (bl_balance b)) (\<lambda>balance.
               Inr (snd (upsertBalance now
                 \<lparr>bd_userId = us_id user, bd_wallet = w, bd_balance = fmt (balance - int amount),
                  bd_totalAwarded = numeric2_text (bl_total_awarded b), bd_totalSpent = fmt (spent + int amount)\<rparr> d))))))"

lemma numeric2_dot: "CHR ''.'' \<in> set (tl (numeric2_signed i))"
proof -
  have "nat_text n \<noteq> []" for n by simp
  then show ?thesis by (auto simp: numeric2_signed_def numeric2_text_def tl_append split: list.splits)
qed

lemma radix_body_digits: "list_all (radix_digit b) s \<Longrightarrow> CHR ''.'' \<notin> set s"
  by (auto simp: list_all_iff radix_digit_def is_hex_def is_digit_def)

lemma numeric2_digits:
  "list_all (\<lambda>c. is_digit c \<or> c = CHR ''.'') (numeric2_text n)"
proof -
  have "is_digit (digit_char (m mod 10))" for m using digit_char_val(1) [of "m mod 10"] by simp
  moreover have "digit_char (n div 10 mod 10) = digit_char ((n div 10) mod 10)" by simp
  ultimately show ?thesis using nat_text_digits [of "n div 100"] by (auto simp: numeric2_text_def list_all_iff)
qed

text \<open>The text of a numeric column has a decimal point, which no BigInt has: the conversion always throws.\<close>

lemma column_bigint_throws: "column_bigint i = Inl BIGINT_SYNTAX_ERROR"
proof -
  let ?t = "numeric2_signed i"
  have chars: "list_all (\<lambda>c. is_digit c \<or> c = CHR ''.'' \<or> c = CHR ''-'') ?t"
    using numeric2_digits [of "nat (- i)"] numeric2_digits [of "nat i"] by (auto simp: numeric2_signed_def list_all_iff)
  have trim: "js_trim ?t = ?t"
    by (rule js_trim_id) (use chars in \<open>auto simp: list_all_iff js_space_def is_digit_def\<close>)
  have dot: "CHR ''.'' \<in> set (tl ?t)" by (rule numeric2_dot)
  then have ne: "?t \<noteq> []" "CHR ''.'' \<in> set ?t" by (cases ?t; simp)+
  have letters: "js_lower (take 2 ?t) \<noteq> [CHR ''0'', c]" if "c \<in> {CHR ''x'', CHR ''o'', CHR ''b''}" for c
  proof
    assume e: "js_lower (take 2 ?t) = [CHR ''0'', c]"
    then obtain a b r where "?t = a # b # r" "lower_char b = c"
      by (cases ?t; cases "tl ?t") (simp_all add: js_lower_def)
    then have "lower_char (?t ! 1) = c" and "1 < length ?t" by simp_all
    moreover from this(2) have "?t ! 1 \<in> set ?t" by simp
    then have "is_digit (?t ! 1) \<or> ?t ! 1 = CHR ''.'' \<or> ?t ! 1 = CHR ''-''" using chars by (simp add: list_all_iff)
    then have "lower_char (?t ! 1) = ?t ! 1 \<and> ?t ! 1 \<notin> {CHR ''x'', CHR ''o'', CHR ''b''}"
      by (auto simp: lower_char_def is_digit_def)
    ultimately show False using that by simp
  qed
  have "\<not> list_all is_digit ?t" "\<not> list_all is_digit (tl ?t)"
    using ne dot unfolding list_all_iff by (auto intro!: bexI [of _ "CHR ''.''"] simp: is_digit_def)
  with ne(1) letters have "bigint_text ?t = None"
    unfolding bigint_text_def Let_def trim by simp
  then show ?thesis by (simp add: column_bigint_def of_option_def)
qed

text \<open>
    the event projection loses every event after the first of a user. Once the user has a balance
  row, an award or a spend event of the wallet throws (BigInt of a decimal column) and changes
  nothing, whatever the amount.
\<close>

theorem events_after_first_are_lost:
  assumes "findByWallet d w = Some u" and "findBalance d (us_id u) = Some b"
  shows "syncAwardEvent fmt now uident w amount d = Inl BIGINT_SYNTAX_ERROR
    \<and> syncSpendEvent fmt now w amount d = Inl BIGINT_SYNTAX_ERROR"
  using assms by (simp add: syncAwardEvent_def syncSpendEvent_def column_bigint_throws)

definition listened :: db where
  "listened = empty_db\<lparr>t_users := [new_user 0 ''u1'' ''wallet-0xab'' ''0xab'' None True],
     t_balances := [\<lparr>bl_user_id = ''u1'', bl_wallet = ''0xab'', bl_balance = 500, bl_total_awarded = 500,
       bl_total_spent = 0, bl_last_synced = 0\<rparr>]\<rparr>"

lemma listened_finds:
  "findByWallet listened ''0xab'' = Some (new_user 0 ''u1'' ''wallet-0xab'' ''0xab'' None True)"
  "findBalance listened (us_id (new_user 0 ''u1'' ''wallet-0xab'' ''0xab'' None True)) =
    Some \<lparr>bl_user_id = ''u1'', bl_wallet = ''0xab'', bl_balance = 500, bl_total_awarded = 500,
      bl_total_spent = 0, bl_last_synced = 0\<rparr>"
  by (simp_all add: listened_def empty_db_def findByWallet_def findBalance_def new_user_def same_text_def js_lower_def
      lower_char_def)

theorem events_after_first_are_lost_witness:
  "syncAwardEvent numeric2_signed 1 ''u2'' ''0xab'' 10 listened = Inl BIGINT_SYNTAX_ERROR
    \<and> syncSpendEvent numeric2_signed 1 ''0xab'' 10 listened = Inl BIGINT_SYNTAX_ERROR"
  using events_after_first_are_lost [OF listened_finds] by simp

end
