(* ===== verification/AwardSnapshot.thy ===== *)
theory AwardSnapshot
  imports AwardRules Database
begin

text \<open>
  The recovery snapshot of \<open>src/awardExecutor.ts\<close>: a new award claim stores the canonical session and
  the original record in its intent, so that a process that lost the request can finish the award
  from the ledger alone. \<open>new Date(text)\<close>, whose reading of texts outside the ISO format is up to the
  engine, is the parameter \<open>js_date\<close>. A session's instants are dates \<open>toISOString\<close> accepts, and a stored
  time zone source outside the declared ones reads as absent; both are outside what a claim stores.
\<close>

definition AWARD_RECOVERY_SNAPSHOT_VERSION :: nat where
  "AWARD_RECOVERY_SNAPSHOT_VERSION = 1"

definition RECOVERY_SNAPSHOT_KEY :: string where
  "RECOVERY_SNAPSHOT_KEY = ''recoverySnapshot''"

record award_snapshot =
  as_fingerprint :: string
  as_session :: js_object
  as_raw :: "jsv option"

record recovery_input =
  ri_session :: session
  ri_raw :: jsv

definition snapshotInvalid :: "string \<Rightarrow> string" where
  "snapshotInvalid m = ''TOKEN_OPERATION_RECOVERY_SNAPSHOT_INVALID: '' @ m"

definition snapshot_check :: "bool \<Rightarrow> string \<Rightarrow> unit thrown" where
  "snapshot_check b m = guard b (snapshotInvalid m)"

subsection \<open>JSON copies\<close>

text \<open>
  \<open>JSON.parse(JSON.stringify(v))\<close>: what is undefined disappears from an object and becomes null in an
  array, and a number that is not finite becomes null.
\<close>

fun json_copy :: "jsv \<Rightarrow> jsv" where
  "json_copy JUndef = JNull"
| "json_copy JNull = JNull"
| "json_copy (JBool b) = JBool b"
| "json_copy (JNum n) = (if is_finite n then JNum n else JNull)"
| "json_copy (JStr s) = JStr s"
| "json_copy (JArr vs) = JArr (map json_copy vs)"
| "json_copy (JObj ob) = JObj (map (\<lambda>(k, v). (k, json_copy v)) (filter (\<lambda>(k, v). v \<noteq> JUndef) ob))"

definition cloneSnapshotValue :: "jsv \<Rightarrow> string \<Rightarrow> jsv thrown" where
  "cloneSnapshotValue v label =
     (if v = JUndef then Inl (snapshotInvalid (label @ '' is not JSON serialisable'')) else Inr (json_copy v))"

subsection \<open>Writing a session\<close>

definition protocol_text :: "cdr_protocol \<Rightarrow> string" where
  "protocol_text p = (case p of OCPI \<Rightarrow> ''OCPI'' | OICP \<Rightarrow> ''OICP'' | MIXED \<Rightarrow> ''MIXED'' | UNKNOWN \<Rightarrow> ''UNKNOWN'')"

definition text_protocol :: "string \<Rightarrow> cdr_protocol option" where
  "text_protocol t = List.find (\<lambda>p. protocol_text p = t) [OCPI, OICP, MIXED, UNKNOWN]"

definition text_source :: "string \<Rightarrow> time_zone_source option" where
  "text_source t = List.find (\<lambda>s. source_text s = t) [SrcTimeZone, SrcCustomData, SrcCdrLocation, SrcCountryDefault, SrcUnconfigured]"

definition text_direction :: "jsv \<Rightarrow> energy_direction option" where
  "text_direction v = List.find (\<lambda>d. JStr (direction_text d) = v) [CHARGE, DISCHARGE]"

text \<open>A property that is spread in only when it is set.\<close>

definition optional_field :: "string \<Rightarrow> string option \<Rightarrow> js_object" where
  "optional_field k x = (case x of None \<Rightarrow> [] | Some s \<Rightarrow> [(k, JStr s)])"

definition metadata_value :: "token_metadata \<Rightarrow> jsv" where
  "metadata_value m = JObj (optional_field ''uid'' (tm_uid m) @ optional_field ''type'' (tm_type m)
     @ optional_field ''countryCode'' (tm_countryCode m) @ optional_field ''partyId'' (tm_partyId m)
     @ optional_field ''variant'' (tm_variant m))"

definition session_owner :: "session \<Rightarrow> string option" where
  "session_owner s =
     (case nonempty (eMAID s) of
        Some e \<Rightarrow> Some e
      | None \<Rightarrow> (case nonempty (emaid s) of Some e \<Rightarrow> Some e | None \<Rightarrow> nonempty (Some (uid s))))"

definition session_fields :: "session \<Rightarrow> string \<Rightarrow> cdr_protocol \<Rightarrow> string \<Rightarrow> js_object" where
  "session_fields s owner p source =
     [(''sessionId'', JStr (sessionId s)), (''providerId'', JStr (providerId s)), (''eMAID'', JStr owner),
      (''emaid'', JStr owner), (''protocol'', JStr (protocol_text p)), (''sourceField'', JStr source)]
     @ (case tokenMetadata s of None \<Rightarrow> [] | Some m \<Rightarrow> [(''tokenMetadata'', json_copy (metadata_value m))])
     @ [(''uid'', JStr (uid s)), (''evseId'', JStr (evseId s)), (''startTime'', JStr (iso_text (startTime s))),
        (''endTime'', JStr (iso_text (endTime s))), (''energyKWh'', JNum (energyKWh s)),
        (''energyDirection'', JStr (direction_text (energyDirection s)))]
     @ optional_field ''cdrId'' (nonempty (cdrId s)) @ optional_field ''reservationSessionId'' (nonempty (reservationSessionId s))
     @ optional_field ''chargingSessionId'' (nonempty (chargingSessionId s)) @ optional_field ''timeZone'' (nonempty (timeZone s))
     @ optional_field ''timeZoneSource'' (map_option source_text (timeZoneSource s))"

definition serialiseNormalisedSession :: "session \<Rightarrow> js_object thrown" where
  "serialiseNormalisedSession s =
     rbind (snapshot_check (session_owner s = Some (uid s)) ''normalised session ownership identity is invalid'') (\<lambda>_.
     rbind (of_option (snapshotInvalid ''normalised session protocol is invalid'') (protocol s)) (\<lambda>p.
     rbind (of_option (snapshotInvalid ''normalised session source field is invalid'') (nonempty (sourceField s))) (\<lambda>source.
     rbind (snapshot_check (is_finite (energyKWh s) \<and> js_le (Fin 0) (energyKWh s)) ''normalised session energy is invalid'') (\<lambda>_.
     Inr (session_fields s (uid s) p source)))))"

definition createAwardRecoverySnapshot ::
    "(string \<Rightarrow> string) \<Rightarrow> session \<Rightarrow> js_number \<Rightarrow> string \<Rightarrow> jsv option \<Rightarrow> award_snapshot thrown" where
  "createAwardRecoverySnapshot sha256 s amount wallet raw =
     rbind (serialiseNormalisedSession s) (\<lambda>fields.
     rbind (case raw of
              None \<Rightarrow> Inr None
            | Some v \<Rightarrow>
                rbind (snapshot_check (is_record v) ''original CDR is not an object'') (\<lambda>_.
                rbind (cloneSnapshotValue v ''original CDR'') (\<lambda>c. Inr (Some c)))) (\<lambda>copy.
     Inr \<lparr>as_fingerprint = awardIntentFingerprint sha256 s amount wallet, as_session = fields, as_raw = copy\<rparr>))"

text \<open>The snapshot as it is stored under its key in the intent.\<close>

definition snapshot_json :: "award_snapshot \<Rightarrow> jsv" where
  "snapshot_json a = JObj ([(''version'', JNum (Fin (of_nat AWARD_RECOVERY_SNAPSHOT_VERSION))),
     (''fingerprint'', JStr (as_fingerprint a)), (''normalisedSession'', JObj (as_session a))]
     @ (case as_raw a of None \<Rightarrow> [] | Some v \<Rightarrow> [(''rawCDR'', v)]))"

subsection \<open>Reading it back\<close>

definition text_field :: "js_object \<Rightarrow> string \<Rightarrow> string option" where
  "text_field ob k = (case field ob k of JStr s \<Rightarrow> Some s | _ \<Rightarrow> None)"

fun required_texts :: "js_object \<Rightarrow> string list \<Rightarrow> unit thrown" where
  "required_texts ob [] = Inr ()"
| "required_texts ob (k # ks) =
     rbind (snapshot_check (nonempty (text_field ob k) \<noteq> None) (''normalised session '' @ k @ '' is invalid''))
       (\<lambda>_. required_texts ob ks)"

definition value_metadata :: "js_object \<Rightarrow> token_metadata" where
  "value_metadata ob = \<lparr>tm_uid = text_field ob ''uid'', tm_type = text_field ob ''type'',
     tm_countryCode = text_field ob ''countryCode'', tm_partyId = text_field ob ''partyId'',
     tm_variant = text_field ob ''variant''\<rparr>"

definition required_names :: "string list" where
  "required_names = [''sessionId'', ''providerId'', ''eMAID'', ''emaid'', ''sourceField'', ''uid'', ''evseId'']"

definition deserialiseNormalisedSession :: "(string \<Rightarrow> int option) \<Rightarrow> jsv \<Rightarrow> session thrown" where
  "deserialiseNormalisedSession js_date value =
     rbind (of_option (snapshotInvalid ''normalised session is missing'') (as_object value)) (\<lambda>v.
     rbind (required_texts v required_names) (\<lambda>_.
     rbind (snapshot_check (text_field v ''eMAID'' = text_field v ''emaid'' \<and> text_field v ''eMAID'' = text_field v ''uid'')
         ''normalised session ownership aliases disagree'') (\<lambda>_.
     rbind (of_option (snapshotInvalid ''normalised session protocol is invalid'')
         (Option.bind (text_field v ''protocol'') text_protocol)) (\<lambda>p.
     rbind (snapshot_check (text_field v ''startTime'' \<noteq> None \<and> text_field v ''endTime'' \<noteq> None)
         ''normalised session dates are missing'') (\<lambda>_.
     rbind (of_option (snapshotInvalid ''normalised session dates are invalid'')
         (Option.bind (text_field v ''startTime'') js_date)) (\<lambda>start.
     rbind (of_option (snapshotInvalid ''normalised session dates are invalid'')
         (Option.bind (text_field v ''endTime'') js_date)) (\<lambda>stop.
     rbind (snapshot_check (\<not> stop < start) ''normalised session dates are invalid'') (\<lambda>_.
     rbind (of_option (snapshotInvalid ''normalised session energy is invalid'')
         (case field v ''energyKWh'' of JNum n \<Rightarrow> if is_finite n \<and> js_le (Fin 0) n then Some n else None | _ \<Rightarrow> None)) (\<lambda>energy.
     rbind (of_option (snapshotInvalid ''normalised session energy direction is invalid'')
         (text_direction (field v ''energyDirection''))) (\<lambda>direction.
     rbind (snapshot_check (field v ''tokenMetadata'' = JUndef \<or> is_record (field v ''tokenMetadata''))
         ''normalised session token metadata is invalid'') (\<lambda>_.
     let text = (\<lambda>k. case text_field v k of None \<Rightarrow> [] | Some s \<Rightarrow> s) in
     Inr \<lparr>sessionId = text ''sessionId'', providerId = text ''providerId'', eMAID = Some (text ''eMAID''),
       emaid = Some (text ''eMAID''), protocol = Some p, sourceField = Some (text ''sourceField''),
       tokenMetadata = map_option (\<lambda>ob. value_metadata (case json_copy (JObj ob) of JObj c \<Rightarrow> c | _ \<Rightarrow> []))
         (as_object (field v ''tokenMetadata'')),
       uid = text ''uid'', evseId = text ''evseId'', startTime = start, endTime = stop, energyKWh = energy,
       energyDirection = direction, cdrId = nonempty (text_field v ''cdrId''),
       reservationSessionId = nonempty (text_field v ''reservationSessionId''),
       chargingSessionId = nonempty (text_field v ''chargingSessionId''), timeZone = nonempty (text_field v ''timeZone''),
       timeZoneSource = Option.bind (nonempty (text_field v ''timeZoneSource'')) text_source\<rparr>)))))))))))"

text \<open>\<open>/^[0-9a-f]{64}$/\<close>\<close>

definition fingerprint_text :: "string \<Rightarrow> bool" where
  "fingerprint_text t \<longleftrightarrow> length t = 64 \<and> list_all (\<lambda>c. is_hex c \<and> lower_char c = c) t"

definition parseAwardRecoverySnapshot ::
    "(string \<Rightarrow> int option) \<Rightarrow> js_object option \<Rightarrow> award_snapshot option thrown" where
  "parseAwardRecoverySnapshot js_date intent =
     (case intent of
        None \<Rightarrow> Inr None
      | Some ctx \<Rightarrow>
          if field ctx RECOVERY_SNAPSHOT_KEY = JUndef then Inr None
          else
            rbind (of_option (snapshotInvalid ''snapshot version is unsupported'')
                (as_object (field ctx RECOVERY_SNAPSHOT_KEY))) (\<lambda>v.
            rbind (snapshot_check (field v ''version'' = JNum (Fin (of_nat AWARD_RECOVERY_SNAPSHOT_VERSION)))
                ''snapshot version is unsupported'') (\<lambda>_.
            rbind (of_option (snapshotInvalid ''snapshot fingerprint is invalid'')
                (case text_field v ''fingerprint'' of
                   None \<Rightarrow> None | Some t \<Rightarrow> if fingerprint_text t then Some t else None)) (\<lambda>fingerprint.
            rbind (deserialiseNormalisedSession js_date (field v ''normalisedSession'')) (\<lambda>s.
            rbind (if field v ''rawCDR'' = JUndef then Inr None
                   else rbind (snapshot_check (is_record (field v ''rawCDR'')) ''original CDR is invalid'') (\<lambda>_.
                        rbind (cloneSnapshotValue (field v ''rawCDR'') ''original CDR'') (\<lambda>c. Inr (Some c)))) (\<lambda>raw.
            rbind (serialiseNormalisedSession s) (\<lambda>fields.
            Inr (Some \<lparr>as_fingerprint = fingerprint, as_session = fields, as_raw = raw\<rparr>))))))))"

text \<open>The metadata of the award, without the two entries the executor keeps beside it.\<close>

definition savedAwardMetadata :: "js_object option \<Rightarrow> js_object option" where
  "savedAwardMetadata intent =
     (case intent of
        None \<Rightarrow> None
      | Some ctx \<Rightarrow>
          (let kept = filter (\<lambda>(k, v). k \<noteq> ''assetContext'' \<and> k \<noteq> RECOVERY_SNAPSHOT_KEY) ctx
           in if kept = [] then None else Some kept))"

subsection \<open>Checking it against the ledger\<close>

record recovery_env =
  re_sha256 :: "string \<Rightarrow> string"
  re_date :: "string \<Rightarrow> int option"
  re_intl :: intl
  re_now :: int

definition validateStoredRecoverySnapshot ::
    "recovery_env \<Rightarrow> operation_row \<Rightarrow> award_snapshot \<Rightarrow> bool \<Rightarrow> (session \<times> jsv option) thrown" where
  "validateStoredRecoverySnapshot env r snapshot requireRawCDR =
     (let amount = text_number (numeric2_text (op_amount r)) in
      rbind (snapshot_check (\<not> (requireRawCDR \<and> as_raw snapshot = None)) ''original CDR snapshot is unavailable'') (\<lambda>_.
      rbind (snapshot_check (canonicalTokenAmount (JStr (numeric2_text (op_amount r))) \<noteq> None \<and> is_finite amount)
          ''stored award amount is invalid'') (\<lambda>_.
      rbind (snapshot_check (op_uid r = [] \<or> text_field (as_session snapshot) ''uid'' = Some (op_uid r))
          ''stored eMAID differs from the durable owner'') (\<lambda>_.
      rbind (deserialiseNormalisedSession (re_date env) (JObj (as_session snapshot))) (\<lambda>s.
      let expected = awardIntentFingerprint (re_sha256 env) s amount (op_wallet r) in
      rbind (snapshot_check (as_fingerprint snapshot = expected \<and> op_fingerprint r = expected)
          ''stored snapshot fingerprint differs from the durable award intent'') (\<lambda>_.
      rbind (case as_raw snapshot of
          None \<Rightarrow> Inr ()
        | Some raw \<Rightarrow>
            (case validateAndNormaliseCdr (re_intl env) (re_now env) raw of
               Inl _ \<Rightarrow> Inl (snapshotInvalid ''original CDR snapshot cannot be validated'')
             | Inr n \<Rightarrow>
                 snapshot_check (awardIntentFingerprint (re_sha256 env) n amount (op_wallet r) = expected
                     \<and> eMAID n = eMAID s \<and> protocol n = protocol s \<and> sourceField n = sourceField s)
                   ''original CDR snapshot differs from the canonical session'')) (\<lambda>_.
      Inr (s, as_raw snapshot))))))))"

definition charging_mismatch :: string where
  "charging_mismatch = ''TOKEN_OPERATION_CHARGING_SESSION_MISMATCH: original CDR is bound to a different charging session identity; operator review is required''"

definition resolveRecoveryInput ::
    "recovery_env \<Rightarrow> operation_row \<Rightarrow> session \<Rightarrow> jsv \<Rightarrow> recovery_input thrown" where
  "resolveRecoveryInput env r current raw =
     rbind (parseAwardRecoverySnapshot (re_date env) (op_intent r)) (\<lambda>found.
     case found of
       None \<Rightarrow> Inr \<lparr>ri_session = current, ri_raw = raw\<rparr>
     | Some snapshot \<Rightarrow>
         (let saved = nonempty (text_field (as_session snapshot) ''chargingSessionId'') in
          rbind (guard (saved = None \<or> saved = chargingSessionId current) charging_mismatch) (\<lambda>_.
          rbind (validateStoredRecoverySnapshot env r snapshot False) (\<lambda>(s, stored).
          Inr \<lparr>ri_session = s, ri_raw = (case stored of None \<Rightarrow> raw | Some v \<Rightarrow> v)\<rparr>))))"

definition awardRecoveryIntentMismatch :: "(string \<Rightarrow> string) \<Rightarrow> operation_row \<Rightarrow> session \<Rightarrow> js_number \<Rightarrow> string option" where
  "awardRecoveryIntentMismatch sha256 r s amount =
     (if op_type r \<noteq> AWARD then Some ''operation key does not identify an award operation''
      else if op_uid r \<noteq> [] \<and> op_uid r \<noteq> uid s then Some ''saved award owner differs from the CDR eMAID''
      else if given (op_charging_session r) \<and> op_charging_session r \<noteq> chargingSessionId s
      then Some ''original CDR is bound to a different charging session identity; operator review is required''
      else if op_fingerprint r \<noteq> [] \<and> op_wallet r \<noteq> []
        \<and> awardIntentFingerprint sha256 s amount (op_wallet r) \<noteq> op_fingerprint r
      then Some ''saved award fingerprint differs from the CDR financial intent''
      else None)"

end
