(* ===== verification/Reliability.thy ===== *)
theory Reliability
  imports Treasury
begin

text \<open>
  \<open>src/transactionReliability.ts\<close>: preparing, durably saving and broadcasting one treasury
  transaction. What the chain, the signer and the database connection do is a parameter
  (\<open>chain_view\<close>): each outcome is the one left after the bounded read retries, an \<open>rpc_failure\<close>
  saying whether \<open>isTransientRpcReadError\<close> holds of it. A run returns the database it leaves, the
  raw transactions it sent, and its result or the diagnostic it throws. The provider details that
  \<open>extractRpcDiagnostic\<close> copies into a diagnostic are not modelled.
\<close>

record fee_data =
  fe_maxFeePerGas :: "nat option"
  fe_maxPriorityFeePerGas :: "nat option"
  fe_gasPrice :: "nat option"

record unsigned_tx =
  ux_to :: string
  ux_data :: string
  ux_value :: int
  ux_nonce :: nat
  ux_chainId :: string
  ux_accessList :: "access_entry list option"
  ux_type :: "nat option"
  ux_maxFeePerGas :: "nat option"
  ux_maxPriorityFeePerGas :: "nat option"
  ux_gasPrice :: "nat option"
  ux_gasLimit :: "nat option"

record rpc_failure =
  rf_transient :: bool

record chain_view =
  ch_provider :: bool
  ch_address :: "string option"
  ch_checksum :: "string \<Rightarrow> string option"
  ch_pending :: "rpc_failure + js_number"
  ch_fees :: "rpc_failure + fee_data"
  ch_gas :: "unsigned_tx \<Rightarrow> rpc_failure + nat"
  ch_sign :: "unsigned_tx \<Rightarrow> string option"
  ch_keccak :: "string \<Rightarrow> string"
  ch_broadcast :: "string \<Rightarrow> string option"
  ch_locked :: bool
  ch_submitted_saved :: bool
  ch_unknown_saved :: bool

record treasury_request =
  rq_operationKey :: string
  rq_targetOperationKey :: "string option"
  rq_targetType :: lease_target
  rq_chainId :: string
  rq_to :: string
  rq_data :: "string option"
  rq_value :: "string option"
  rq_accessList :: "access_entry list option"

record reliability_result =
  rr_txHash :: string
  rr_context :: transaction_context
  rr_broadcasted :: bool
  rr_alreadyPrepared :: bool

subsection \<open>Diagnostics\<close>

definition isPreBroadcastTransactionDiagnostic :: "diagnostic option \<Rightarrow> bool" where
  "isPreBroadcastTransactionDiagnostic dg =
     (case dg of None \<Rightarrow> False
      | Some g \<Rightarrow> \<not> given (dg_savedHash g) \<and> dg_stage g \<in> {ASSET_CONTEXT, PREFLIGHT, PREPARE, PERSIST_HASH})"

definition diagnosticFor ::
    "diagnostic_stage \<Rightarrow> string \<Rightarrow> bool \<Rightarrow> diagnostic_category option \<Rightarrow> string option \<Rightarrow> nat option \<Rightarrow> diagnostic" where
  "diagnosticFor stage code retryable category savedHash nonce =
     \<lparr>dg_stage = stage, dg_category = category, dg_errorCode = code, dg_retryable = retryable,
      dg_savedHash = (if given savedHash then savedHash else None), dg_nonce = nonce\<rparr>"

definition createTransactionDiagnostic ::
    "diagnostic_stage \<Rightarrow> string \<Rightarrow> bool \<Rightarrow> diagnostic_category option \<Rightarrow> string option \<Rightarrow> nat option \<Rightarrow> diagnostic" where
  "createTransactionDiagnostic stage code retryable category savedHash nonce =
     diagnosticFor stage code retryable category savedHash nonce"

definition preparing :: "string \<Rightarrow> bool \<Rightarrow> diagnostic_category \<Rightarrow> nat option \<Rightarrow> callback_error" where
  "preparing code retryable category nonce =
     Reliability_Error (diagnosticFor PREPARE code retryable (Some category) None nonce)"

subsection \<open>The signed request\<close>

definition bigint_string :: "int \<Rightarrow> string" where
  "bigint_string i = (if i < 0 then ''-'' @ nat_text (nat (- i)) else nat_text (nat i))"

definition requestValue :: "string option \<Rightarrow> int option" where
  "requestValue v = (case v of None \<Rightarrow> Some 0 | Some t \<Rightarrow> bigint_text t)"

text \<open>\<open>toContext\<close>, \<open>None\<close> where it throws.\<close>

definition context_entry :: "chain_view \<Rightarrow> access_entry \<Rightarrow> (string \<times> string list) option" where
  "context_entry ch e =
     (case e of
        Access_Tuple a ks \<Rightarrow> map_option (\<lambda>x. (x, ks)) (ch_checksum ch a)
      | Access_Object (Some a) (Some ks) \<Rightarrow> map_option (\<lambda>x. (x, ks)) (ch_checksum ch a)
      | Access_Object _ _ \<Rightarrow> None)"

fun all_some :: "'a option list \<Rightarrow> 'a list option" where
  "all_some [] = Some []"
| "all_some (None # xs) = None"
| "all_some (Some x # xs) = map_option (\<lambda>r. x # r) (all_some xs)"

definition toContext :: "chain_view \<Rightarrow> treasury_request \<Rightarrow> string \<Rightarrow> nat \<Rightarrow> unsigned_tx \<Rightarrow> transaction_context option" where
  "toContext ch req signer nonce tx =
     Option.bind (case ux_accessList tx of None \<Rightarrow> Some None
         | Some es \<Rightarrow> map_option Some (all_some (map (context_entry ch) es))) (\<lambda>access.
     Option.bind (ch_checksum ch (rq_to req)) (\<lambda>to.
     Option.bind (requestValue (rq_value req)) (\<lambda>value.
     Some \<lparr>tc_chainId = rq_chainId req, tc_signerAddress = signer, tc_nonce = nonce, tc_to = to,
       tc_data = Some (ux_data tx), tc_value = bigint_string value,
       tc_gasLimit = map_option nat_text (ux_gasLimit tx), tc_gasPrice = map_option nat_text (ux_gasPrice tx),
       tc_maxFeePerGas = map_option nat_text (ux_maxFeePerGas tx),
       tc_maxPriorityFeePerGas = map_option nat_text (ux_maxPriorityFeePerGas tx),
       tc_type = (case ux_type tx of None \<Rightarrow> (if ux_gasPrice tx = None then None else Some 0) | Some t \<Rightarrow> Some t),
       tc_accessList = access\<rparr>)))"

definition base_request :: "treasury_request \<Rightarrow> nat \<Rightarrow> int \<Rightarrow> unsigned_tx" where
  "base_request req nonce value =
     \<lparr>ux_to = rq_to req, ux_data = or_text (rq_data req) ''0x'', ux_value = value, ux_nonce = nonce,
      ux_chainId = rq_chainId req, ux_accessList = rq_accessList req, ux_type = None, ux_maxFeePerGas = None,
      ux_maxPriorityFeePerGas = None, ux_gasPrice = None, ux_gasLimit = None\<rparr>"

definition with_fees :: "nat \<Rightarrow> fee_data \<Rightarrow> unsigned_tx \<Rightarrow> callback_error + unsigned_tx" where
  "with_fees nonce fees tx =
     (case (fe_maxFeePerGas fees, fe_maxPriorityFeePerGas fees, fe_gasPrice fees) of
        (Some m, Some p, _) \<Rightarrow> Inr (tx\<lparr>ux_type := Some 2, ux_maxFeePerGas := Some m, ux_maxPriorityFeePerGas := Some p\<rparr>)
      | (_, _, Some g) \<Rightarrow> Inr (tx\<lparr>ux_gasPrice := Some g\<rparr>)
      | _ \<Rightarrow> Inl (preparing ''FEE_DATA_UNAVAILABLE'' True RPC_UNAVAILABLE (Some nonce)))"

definition with_gas :: "chain_view \<Rightarrow> nat \<Rightarrow> unsigned_tx \<Rightarrow> callback_error + unsigned_tx" where
  "with_gas ch nonce tx =
     (case ch_gas ch tx of
        Inr g \<Rightarrow> Inr (tx\<lparr>ux_gasLimit := Some g\<rparr>)
      | Inl e \<Rightarrow> Inl (if rf_transient e
          then preparing ''RPC_READ_UNAVAILABLE'' True RPC_UNAVAILABLE (Some nonce)
          else preparing ''TRANSACTION_ESTIMATE_REJECTED'' False CATEGORY_PREFLIGHT (Some nonce)))"

definition read_pending :: "chain_view \<Rightarrow> callback_error + js_number" where
  "read_pending ch =
     (case ch_pending ch of Inr v \<Rightarrow> Inr v
      | Inl e \<Rightarrow> Inl (preparing ''RPC_READ_UNAVAILABLE'' (rf_transient e) RPC_UNAVAILABLE None))"

definition sign_transaction :: "chain_view \<Rightarrow> treasury_request \<Rightarrow> string \<Rightarrow> nat \<Rightarrow> callback_error + prepared_transaction" where
  "sign_transaction ch req signer nonce =
     rbind (case ch_fees ch of Inr f \<Rightarrow> Inr f
        | Inl e \<Rightarrow> Inl (preparing ''RPC_READ_UNAVAILABLE'' (rf_transient e) RPC_UNAVAILABLE (Some nonce))) (\<lambda>fees.
     rbind (of_option (Other_Error ''Cannot convert value to a BigInt'') (requestValue (rq_value req))) (\<lambda>value.
     rbind (with_fees nonce fees (base_request req nonce value)) (\<lambda>tx1.
     rbind (with_gas ch nonce tx1) (\<lambda>tx2.
     rbind (of_option (preparing ''SIGN_TRANSACTION_FAILED'' False CATEGORY_PREFLIGHT (Some nonce)) (ch_sign ch tx2)) (\<lambda>raw.
     rbind (of_option (preparing ''SIGNING_CONTEXT_INVALID'' False CATEGORY_PREFLIGHT (Some nonce))
         (toContext ch req signer nonce tx2)) (\<lambda>ctx.
     Inr \<lparr>pt_txHash = ch_keccak ch raw, pt_rawTransaction = raw, pt_context = ctx\<rparr>))))))"

definition lease_request_of :: "chain_view \<Rightarrow> treasury_request \<Rightarrow> string \<Rightarrow> lease_request" where
  "lease_request_of ch req signer =
     \<lparr>tr_key = rq_operationKey req, tr_target_key = rq_targetOperationKey req, tr_target = rq_targetType req,
      tr_chain = rq_chainId req, tr_signer = signer, tr_to = rq_to req, tr_data = rq_data req,
      tr_value = rq_value req, tr_access = rq_accessList req, tr_pending_nonce = read_pending ch,
      tr_prepare = sign_transaction ch req signer\<rparr>"

subsection \<open>Errors of the preparation\<close>

fun preparation_code :: "preparation_error \<Rightarrow> string" where
  "preparation_code TREASURY_NONCE_LOCK_TIMEOUT = ''TREASURY_NONCE_LOCK_TIMEOUT''"
| "preparation_code TREASURY_TRANSACTION_INTENT_MISMATCH = ''TREASURY_TRANSACTION_INTENT_MISMATCH''"
| "preparation_code TREASURY_PENDING_NONCE_UNAVAILABLE = ''TREASURY_PENDING_NONCE_UNAVAILABLE''"
| "preparation_code (TREASURY_NONCE_BUSY_RETRYABLE _ _) = ''TREASURY_NONCE_BUSY_RETRYABLE''"
| "preparation_code (TREASURY_NONCE_GAP_REQUIRES_REVIEW _ _) = ''TREASURY_NONCE_GAP_REQUIRES_REVIEW''"
| "preparation_code TREASURY_NONCE_UNAVAILABLE = ''TREASURY_NONCE_UNAVAILABLE''"
| "preparation_code TREASURY_TRANSACTION_CONTEXT_MISMATCH = ''TREASURY_TRANSACTION_CONTEXT_MISMATCH''"
| "preparation_code PREP_TOKEN_OPERATION_NOT_FOUND = ''TOKEN_OPERATION_NOT_FOUND''"
| "preparation_code PREP_TOKEN_OPERATION_TERMINAL_STATE = ''TOKEN_OPERATION_TERMINAL_STATE''"
| "preparation_code PREP_TOKEN_OPERATION_TX_HASH_MISMATCH = ''TOKEN_OPERATION_TX_HASH_MISMATCH''"
| "preparation_code APPROVAL_PREPARATION_NOT_FOUND = ''APPROVAL_PREPARATION_NOT_FOUND''"
| "preparation_code APPROVAL_PREPARATION_TERMINAL_STATE = ''APPROVAL_PREPARATION_TERMINAL_STATE''"
| "preparation_code APPROVAL_FUNDING_ATTEMPT_MISMATCH = ''APPROVAL_FUNDING_ATTEMPT_MISMATCH''"
| "preparation_code PREP_APPROVAL_FUNDING_TX_HASH_MISMATCH = ''APPROVAL_FUNDING_TX_HASH_MISMATCH''"

definition coordinator_diagnostics :: "(string \<times> bool \<times> diagnostic_category) list" where
  "coordinator_diagnostics =
     [(''TREASURY_NONCE_LOCK_TIMEOUT'', True, DATABASE_UNAVAILABLE),
      (''TREASURY_NONCE_BUSY_RETRYABLE'', True, DATABASE_UNAVAILABLE),
      (''TREASURY_PENDING_NONCE_UNAVAILABLE'', True, RPC_UNAVAILABLE),
      (''TREASURY_NONCE_UNAVAILABLE'', True, DATABASE_UNAVAILABLE),
      (''TREASURY_NONCE_GAP_REQUIRES_REVIEW'', False, REVIEW_REQUIRED)]"

definition permanent_codes :: "string list" where
  "permanent_codes =
     [''TREASURY_TRANSACTION_INTENT_MISMATCH'', ''TREASURY_TRANSACTION_CONTEXT_MISMATCH'', ''TOKEN_OPERATION_NOT_FOUND'',
      ''TOKEN_OPERATION_TERMINAL_STATE'', ''TOKEN_OPERATION_TX_HASH_MISMATCH'', ''APPROVAL_PREPARATION_NOT_FOUND'',
      ''APPROVAL_PREPARATION_TERMINAL_STATE'', ''APPROVAL_FUNDING_ATTEMPT_MISMATCH'', ''APPROVAL_FUNDING_TX_HASH_MISMATCH'']"

definition preparation_failure :: "db_error \<Rightarrow> diagnostic" where
  "preparation_failure e =
     (case e of
        CALLBACK_FAILED (Reliability_Error dg) \<Rightarrow> dg
      | Preparation p \<Rightarrow>
          (let code = preparation_code p in
           case map_of coordinator_diagnostics code of
             Some (retryable, category) \<Rightarrow> diagnosticFor PREPARE code retryable (Some category) None None
           | None \<Rightarrow>
               if code \<in> set permanent_codes
               then diagnosticFor PERSIST_HASH code False (Some REVIEW_REQUIRED) None None
               else diagnosticFor PERSIST_HASH ''TRANSACTION_HASH_PERSISTENCE_FAILED'' True (Some DATABASE_UNAVAILABLE) None None)
      | _ \<Rightarrow> diagnosticFor PREPARE ''TRANSACTION_PREPARATION_FAILED'' True (Some DATABASE_UNAVAILABLE) None None)"

subsection \<open>Prepare, save, broadcast\<close>

type_synonym run = "db \<times> string list \<times> (diagnostic + reliability_result)"

definition to_review :: "chain_view \<Rightarrow> int \<Rightarrow> treasury_request \<Rightarrow> diagnostic \<Rightarrow> db \<Rightarrow> string list \<Rightarrow> run" where
  "to_review ch now req dg d sent =
     (if ch_unknown_saved ch then snd (leaseMarkUnknown now (rq_operationKey req) dg (dg_errorCode dg) d) else d,
      sent, Inl dg)"

text \<open>What follows a committed or found lease: a found one is never sent again.\<close>

definition broadcast_prepared :: "chain_view \<Rightarrow> int \<Rightarrow> treasury_request \<Rightarrow> lease_outcome \<Rightarrow> db \<Rightarrow> run" where
  "broadcast_prepared ch now req prepared d =
     (let lease = lo_lease prepared;
          unknown = diagnosticFor BROADCAST ''CHAIN_OUTCOME_UNKNOWN'' False (Some REVIEW_REQUIRED)
                      (Some (ls_tx_hash lease)) (Some (ls_nonce lease))
      in if lo_already prepared then
           (if ls_status lease = LEASE_PREPARED
            then to_review ch now req (diagnosticFor PERSIST_HASH ''TRANSACTION_PREPARED_REVIEW_REQUIRED'' False
                   (Some REVIEW_REQUIRED) (Some (ls_tx_hash lease))
                   (if safe_nat (ls_nonce lease) then Some (ls_nonce lease) else None)) d []
            else (d, [], Inr \<lparr>rr_txHash = ls_tx_hash lease, rr_context = ls_context lease,
                    rr_broadcasted = False, rr_alreadyPrepared = True\<rparr>))
         else case lo_raw prepared of
           None \<Rightarrow> to_review ch now req unknown d []
         | Some raw \<Rightarrow>
             (case ch_broadcast ch raw of
                None \<Rightarrow> to_review ch now req unknown d [raw]
              | Some h \<Rightarrow>
                  if \<not> same_text h (ls_tx_hash lease)
                  then to_review ch now req (diagnosticFor BROADCAST ''BROADCAST_HASH_MISMATCH'' False
                         (Some REVIEW_REQUIRED) (Some (ls_tx_hash lease)) (Some (ls_nonce lease))) d [raw]
                  else (case (if ch_submitted_saved ch
                          then leaseMarkSubmitted now (rq_operationKey req) (ls_tx_hash lease) d
                          else Inl (CALLBACK_FAILED (Other_Error ''connection''))) of
                      Inl e \<Rightarrow> to_review ch now req unknown d [raw]
                    | Inr (r, d') \<Rightarrow>
                        (d', [raw], Inr \<lparr>rr_txHash = ls_tx_hash lease, rr_context = ls_context lease,
                           rr_broadcasted = True, rr_alreadyPrepared = False\<rparr>))))"

definition prepareAndBroadcastTransaction :: "chain_view \<Rightarrow> int \<Rightarrow> treasury_request \<Rightarrow> db \<Rightarrow> run" where
  "prepareAndBroadcastTransaction ch now req d =
     (if \<not> ch_provider ch
      then (d, [], Inl (diagnosticFor ASSET_CONTEXT ''PROVIDER_REQUIRED'' True (Some RPC_UNAVAILABLE) None None))
      else case Option.bind (ch_address ch) (ch_checksum ch) of
        None \<Rightarrow> (d, [], Inl (diagnosticFor PREPARE ''SIGNER_ADDRESS_UNAVAILABLE'' True (Some RPC_UNAVAILABLE) None None))
      | Some signer \<Rightarrow>
          (case prepareLease (ch_locked ch) now (lease_request_of ch req signer) d of
             Inl e \<Rightarrow> (d, [], Inl (preparation_failure e))
           | Inr (prepared, d1) \<Rightarrow> broadcast_prepared ch now req prepared d1))"

end
