(* ===== verification/Recording.thy ===== *)
theory Recording
  imports Projections Wallets
begin

text \<open>
  \<open>recordAward\<close> and \<open>recordSpend\<close> of \<open>src/database/integration.ts\<close>: the projection of one confirmed token
  movement, in one transaction that finds or creates the owner, inserts the row and moves the
  balance. A movement already recorded, by its transaction hash or its deduplication key, gives the
  row it has. The registry of \<open>user/userService.ts\<close> that resolves a contract id to its wallet is the
  parameter \<open>resolve\<close>; the clock and the generated row ids are arguments. The advisory locks order
  the transactions and do not change the tables.

  The last section is \<open>src/database/eventListener.ts\<close>, the older projection that follows the contract's
  events.
\<close>

definition sameTokenAmount :: "jsv \<Rightarrow> jsv \<Rightarrow> bool" where
  "sameTokenAmount left right =
     (case canonicalTokenAmount (JStr (js_string left)) of
        None \<Rightarrow> False
      | Some a \<Rightarrow> (case canonicalTokenAmount right of None \<Rightarrow> False | Some b \<Rightarrow> units a = units b))"

text \<open>The user a row belongs to: a foreign key, so \<open>users.id\<close>.\<close>

definition user_by_id :: "db \<Rightarrow> string \<Rightarrow> user_row option" where
  "user_by_id d i = first_where (\<lambda>u. us_id u = i) (t_users d)"

definition owned_by :: "db \<Rightarrow> string \<Rightarrow> string \<Rightarrow> string option \<Rightarrow> bool" where
  "owned_by d owner u intended =
     (case nonempty intended of
        None \<Rightarrow> True
      | Some w \<Rightarrow> (case user_by_id d owner of None \<Rightarrow> False | Some r \<Rightarrow> us_uid r = u \<and> same_text (us_wallet r) w))"

subsection \<open>Balances\<close>

text \<open>The delta of a movement: the row of the user is updated, or inserted with the delta applied to zero.\<close>

definition credit_balance :: "int \<Rightarrow> string \<Rightarrow> string \<Rightarrow> string \<Rightarrow> db \<Rightarrow> db" where
  "credit_balance now owner w amount d =
     (if first_where (\<lambda>b. bl_user_id b = owner) (t_balances d) \<noteq> None
      then d\<lparr>t_balances := update_where (\<lambda>b. bl_user_id b = owner)
             (\<lambda>b. b\<lparr>bl_balance := bl_balance b + int (cents_of amount),
                    bl_total_awarded := bl_total_awarded b + cents_of amount, bl_last_synced := now\<rparr>) (t_balances d)\<rparr>
      else d\<lparr>t_balances := t_balances d @ [\<lparr>bl_user_id = owner, bl_wallet = w, bl_balance = int (cents_of amount),
             bl_total_awarded = cents_of amount, bl_total_spent = 0, bl_last_synced = now\<rparr>]\<rparr>)"

definition debit_balance :: "int \<Rightarrow> string \<Rightarrow> string \<Rightarrow> string \<Rightarrow> db \<Rightarrow> db" where
  "debit_balance now owner w amount d =
     (if first_where (\<lambda>b. bl_user_id b = owner) (t_balances d) \<noteq> None
      then d\<lparr>t_balances := update_where (\<lambda>b. bl_user_id b = owner)
             (\<lambda>b. b\<lparr>bl_balance := bl_balance b - int (cents_of amount),
                    bl_total_spent := bl_total_spent b + cents_of amount, bl_last_synced := now\<rparr>) (t_balances d)\<rparr>
      else d\<lparr>t_balances := t_balances d @ [\<lparr>bl_user_id = owner, bl_wallet = w, bl_balance = - int (cents_of amount),
             bl_total_awarded = 0, bl_total_spent = cents_of amount, bl_last_synced = now\<rparr>]\<rparr>)"

subsection \<open>Awards\<close>

record award_metadata =
  am_awardType :: "string option"
  am_isOffPeak :: "bool option"
  am_countryCode :: "string option"
  am_localTime :: "string option"

definition no_award_metadata :: award_metadata where
  "no_award_metadata = \<lparr>am_awardType = None, am_isOffPeak = None, am_countryCode = None, am_localTime = None\<rparr>"

record award_record =
  ar_session :: session
  ar_amount :: js_number
  ar_dedup :: string
  ar_txHash :: string
  ar_cdrData :: "string option"
  ar_metadata :: "award_metadata option"
  ar_intended :: "string option"

definition award_row_of :: "int \<Rightarrow> string \<Rightarrow> string \<Rightarrow> award_record \<Rightarrow> string \<Rightarrow> string \<Rightarrow> award_row" where
  "award_row_of now ident owner q h amount =
     (let m = (case ar_metadata q of None \<Rightarrow> no_award_metadata | Some m \<Rightarrow> m) in
      \<lparr>aw_id = ident, aw_user_id = owner, aw_session_id = sessionId (ar_session q),
       aw_provider_id = providerId (ar_session q), aw_dedup_key = ar_dedup q, aw_amount = cents_of amount,
       aw_cdr_data = nonempty (ar_cdrData q), aw_tx_hash = h, aw_awarded_at = now,
       aw_award_type = nonempty (am_awardType m),
       aw_is_off_peak = (case am_isOffPeak m of None \<Rightarrow> False | Some b \<Rightarrow> b),
       aw_country_code = nonempty (am_countryCode m), aw_local_time = nonempty (am_localTime m),
       aw_status = ''confirmed'', aw_error = None, aw_confirmed_at = now, aw_created = now\<rparr>)"

text \<open>The same award: session, provider and amount; the transaction hash also pins the deduplication key.\<close>

definition same_award :: "award_row \<Rightarrow> award_record \<Rightarrow> string \<Rightarrow> bool" where
  "same_award r q amount \<longleftrightarrow> aw_session_id r = sessionId (ar_session q) \<and> aw_provider_id r = providerId (ar_session q)
     \<and> sameTokenAmount (JStr (numeric2_text (aw_amount r))) (JStr amount)"

definition find_by_hash :: "db \<Rightarrow> string \<Rightarrow> db_error + award_row option" where
  "find_by_hash d h = unambiguous (filter (\<lambda>r. same_text (aw_tx_hash r) h) (t_awards d)) ''award''"

definition award_owner :: "db \<Rightarrow> award_record \<Rightarrow> user_row option" where
  "award_owner d q =
     (case nonempty (ar_intended q) of
        Some w \<Rightarrow> find_user d (uid (ar_session q)) w
      | None \<Rightarrow> active_wallet d (uid (ar_session q)))"

definition award_wallet :: "(string \<Rightarrow> string) \<Rightarrow> db \<Rightarrow> award_record \<Rightarrow> string" where
  "award_wallet resolve d q =
     (case nonempty (map_option us_wallet (award_owner d q)) of
        Some w \<Rightarrow> w
      | None \<Rightarrow> (case nonempty (ar_intended q) of Some w \<Rightarrow> w | None \<Rightarrow> resolve (uid (ar_session q))))"

definition find_or_create :: "user_row option \<Rightarrow> user_row \<Rightarrow> db \<Rightarrow> db_error + (user_row \<times> db)" where
  "find_or_create found n d = (case found of Some r \<Rightarrow> Inr (r, d) | None \<Rightarrow> insert_returning d n)"

definition known_uid :: "db \<Rightarrow> string \<Rightarrow> bool" where
  "known_uid d u = list_ex (\<lambda>r. us_uid r = u) (t_users d)"

definition new_award ::
    "(string \<Rightarrow> string) \<Rightarrow> int \<Rightarrow> string \<Rightarrow> string \<Rightarrow> award_record \<Rightarrow> string \<Rightarrow> string \<Rightarrow> db \<Rightarrow> db_error + (award_row \<times> db)" where
  "new_award resolve now uident ident q h amount d =
     (let u = uid (ar_session q); w = award_wallet resolve d q in
      rbind (find_or_create (award_owner d q) (new_user now uident u w None (\<not> known_uid d u)) d) (\<lambda>(owner, d1).
      let n = award_row_of now ident (us_id owner) q h amount in
      rbind (insert_award d1 n) (\<lambda>d2. Inr (n, credit_balance now (us_id owner) w amount d2))))"

definition recordAward ::
    "(string \<Rightarrow> string) \<Rightarrow> int \<Rightarrow> string \<Rightarrow> string \<Rightarrow> award_record \<Rightarrow> db \<Rightarrow> db_error + (award_row \<times> db)" where
  "recordAward resolve now uident ident q d =
     rbind (canonical_hash (ar_txHash q) ''transaction hash'') (\<lambda>h.
     rbind (of_option (Token UNSUPPORTED_TOKEN_PRECISION) (canonicalTokenAmount (JNum (ar_amount q)))) (\<lambda>a.
     rbind (find_by_hash d h) (\<lambda>byTxHash.
     case byTxHash of
       Some r \<Rightarrow>
         rbind (guard (same_award r q (decimal a) \<and> aw_dedup_key r = ar_dedup q) AWARD_TX_HASH_INTENT_MISMATCH) (\<lambda>_.
         rbind (guard (owned_by d (aw_user_id r) (uid (ar_session q)) (ar_intended q)) AWARD_TX_HASH_OWNER_MISMATCH) (\<lambda>_.
         Inr (r, d)))
     | None \<Rightarrow>
         (case findByDedupKey d (ar_dedup q) of
            Some r \<Rightarrow>
              rbind (guard (same_award r q (decimal a)) AWARD_DEDUP_INTENT_MISMATCH) (\<lambda>_.
              rbind (guard (owned_by d (aw_user_id r) (uid (ar_session q)) (ar_intended q)) AWARD_DEDUP_OWNER_MISMATCH) (\<lambda>_.
              Inr (r, d)))
          | None \<Rightarrow> new_award resolve now uident ident q h (decimal a) d))))"

subsection \<open>Spends\<close>

record spend_record =
  sr_wallet :: string
  sr_amount :: js_number
  sr_txHash :: string
  sr_session :: "string option"
  sr_uid :: "string option"

text \<open>\<open>{ user, txHash, spend }\<close>; a spend found by its hash comes back without the row.\<close>

record spend_recorded =
  so_user :: "user_row option"
  so_txHash :: string
  so_spend :: "spend_row option"

definition spend_row_of :: "int \<Rightarrow> string \<Rightarrow> string \<Rightarrow> spend_record \<Rightarrow> string \<Rightarrow> string \<Rightarrow> spend_row" where
  "spend_row_of now ident owner q h amount =
     \<lparr>sp_id = ident, sp_user_id = owner, sp_wallet = sr_wallet q, sp_amount = cents_of amount, sp_tx_hash = h,
      sp_session_id = nonempty (sr_session q), sp_status = ''confirmed'', sp_error = None, sp_confirmed_at = now,
      sp_created = now\<rparr>"

definition spend_owner :: "db \<Rightarrow> spend_record \<Rightarrow> user_row option" where
  "spend_owner d q =
     (case nonempty (sr_uid q) of
        Some u \<Rightarrow> find_user d u (sr_wallet q)
      | None \<Rightarrow> (case findAllByWallet d (sr_wallet q) of [] \<Rightarrow> None | r # _ \<Rightarrow> Some r))"

definition spend_user :: "int \<Rightarrow> string \<Rightarrow> spend_record \<Rightarrow> db \<Rightarrow> user_row" where
  "spend_user now uident q d =
     (case nonempty (sr_uid q) of
        Some u \<Rightarrow> new_user now uident u (sr_wallet q) None (\<not> known_uid d u)
      | None \<Rightarrow> new_user now uident (''wallet-'' @ sr_wallet q) (sr_wallet q) None True)"

definition new_spend ::
    "int \<Rightarrow> string \<Rightarrow> string \<Rightarrow> spend_record \<Rightarrow> string \<Rightarrow> string \<Rightarrow> db \<Rightarrow> db_error + (spend_recorded \<times> db)" where
  "new_spend now uident ident q h amount d =
     rbind (find_or_create (spend_owner d q) (spend_user now uident q d) d) (\<lambda>(owner, d1).
     let n = spend_row_of now ident (us_id owner) q h amount in
     rbind (insert_spend d1 n) (\<lambda>d2.
     Inr (\<lparr>so_user = Some owner, so_txHash = sr_txHash q, so_spend = Some n\<rparr>,
          debit_balance now (us_id owner) (sr_wallet q) amount d2)))"

definition same_spend :: "spend_row \<Rightarrow> spend_record \<Rightarrow> string \<Rightarrow> bool" where
  "same_spend r q amount \<longleftrightarrow> sameTokenAmount (JStr (numeric2_text (sp_amount r))) (JStr amount)
     \<and> same_text (sp_wallet r) (sr_wallet q) \<and> nonempty (sr_session q) = nonempty (sp_session_id r)"

definition spend_owned_by :: "user_row option \<Rightarrow> string option \<Rightarrow> bool" where
  "spend_owned_by user u = (case nonempty u of None \<Rightarrow> True | Some x \<Rightarrow> map_option us_uid user = Some x)"

definition spend_by_hash :: "db \<Rightarrow> string \<Rightarrow> db_error + spend_row option" where
  "spend_by_hash d h = unambiguous (filter (\<lambda>r. same_text (sp_tx_hash r) h) (t_spends d)) ''spend''"

definition recordSpend ::
    "int \<Rightarrow> string \<Rightarrow> string \<Rightarrow> spend_record \<Rightarrow> db \<Rightarrow> db_error + (spend_recorded \<times> db)" where
  "recordSpend now uident ident q d =
     rbind (canonical_hash (sr_txHash q) ''transaction hash'') (\<lambda>h.
     rbind (of_option (Token UNSUPPORTED_TOKEN_PRECISION) (canonicalTokenAmount (JNum (sr_amount q)))) (\<lambda>a.
     rbind (spend_by_hash d h) (\<lambda>existing.
     case existing of
       Some r \<Rightarrow>
         rbind (guard (same_spend r q (decimal a)) SPEND_TX_HASH_INTENT_MISMATCH) (\<lambda>_.
         let user = user_by_id d (sp_user_id r) in
         rbind (guard (spend_owned_by user (sr_uid q)) SPEND_TX_HASH_OWNER_MISMATCH) (\<lambda>_.
         Inr (\<lparr>so_user = user, so_txHash = sr_txHash q, so_spend = None\<rparr>, d)))
     | None \<Rightarrow> new_spend now uident ident q h (decimal a) d)))"

end
