(* ===== verification/SpendEvidence.thy ===== *)
theory SpendEvidence
  imports JS_Text TokenAmount
begin

text \<open>
  \<open>src/spendEvidence.ts\<close>: whether a mined transaction proves an exact ERC20 transfer. What the chain
  and ethers answer is a parameter (\<open>evidence_view\<close>): each read is the outcome left after the bounded
  retries, a failed one saying whether the error is transient; decoding call data and logs is \<open>None\<close>
  inside where ethers returns null and \<open>Inl\<close> where it throws. Failure messages and provider details
  are not modelled, codes and flags are.
\<close>

datatype evidence_code =
    EV_INVALID_TX_HASH | EV_INVALID_ADDRESS | EV_INVALID_AMOUNT | EV_INVALID_CHAIN_ID | EV_TRANSACTION_NOT_FOUND
  | EV_RECEIPT_PENDING | EV_TRANSACTION_FAILED | EV_TRANSACTION_IDENTITY_MISMATCH | EV_RECEIPT_IDENTITY_MISMATCH
  | EV_WRONG_CHAIN | EV_WRONG_TOKEN_CONTRACT | EV_MALFORMED_CALL | EV_UNSUPPORTED_TOKEN_CALL | EV_WRONG_SENDER
  | EV_WRONG_RECIPIENT | EV_WRONG_AMOUNT | EV_MISSING_TRANSFER_EVENT | EV_MALFORMED_TRANSFER_LOG | EV_MALFORMED_RECEIPT
  | EV_PROVIDER_ERROR

record evidence_failure =
  ef_code :: evidence_code
  ef_pending :: bool
  ef_retryable :: "bool option"

datatype numeric_arg = Big_Arg int | Number_Arg js_number | Text_Arg string

record evidence_request =
  er_tokenContractAddress :: string
  er_chainId :: numeric_arg
  er_sourceWallet :: string
  er_treasuryRecipient :: string
  er_amountUnits :: numeric_arg
  er_txHash :: string

datatype transfer_method = METHOD_TRANSFER | METHOD_TRANSFER_FROM

record evidence_proof =
  ep_txHash :: string
  ep_chainId :: int
  ep_tokenContractAddress :: string
  ep_sourceWallet :: string
  ep_treasuryRecipient :: string
  ep_amountUnits :: int
  ep_transferMethod :: transfer_method
  ep_transactionFrom :: string
  ep_blockNumber :: nat
  ep_logIndex :: nat

type_synonym evidence_result = "evidence_failure + evidence_proof"

subsection \<open>What the chain answers\<close>

datatype token_call = Call_Transfer string int | Call_Transfer_From string string int | Call_Other string

text \<open>
  A field that is not of the expected type is \<open>None\<close>; the chain id of a transaction is absent, present
  but no integer (\<open>Some None\<close>), or an integer.
\<close>

record chain_transaction =
  ct_hash :: "string option"
  ct_chainId :: "int option option"
  ct_to :: "string option"
  ct_from :: "string option"
  ct_data :: string
  ct_value :: int

record chain_log =
  lg_address :: "string option"
  lg_topics :: "string option list option"
  lg_data :: "string option"
  lg_index :: "nat option"

record chain_receipt =
  cp_hash :: "string option"
  cp_to :: "string option"
  cp_from :: "string option"
  cp_status :: "int option"
  cp_logs :: "chain_log option list option"
  cp_blockNumber :: nat

record evidence_view =
  ev_checksum :: "string \<Rightarrow> string option"
  ev_network :: "bool + int option"
  ev_transaction :: "string \<Rightarrow> bool + chain_transaction option"
  ev_receipt :: "string \<Rightarrow> bool + chain_receipt option"
  ev_parse_call :: "string \<Rightarrow> int \<Rightarrow> unit + token_call option"
  ev_transfer_topic :: string
  ev_parse_log :: "string option list \<Rightarrow> string \<Rightarrow> unit + (string \<times> string \<times> int) option"

subsection \<open>Arguments\<close>

definition evidence_failed :: "evidence_code \<Rightarrow> evidence_failure" where
  "evidence_failed code = \<lparr>ef_code = code, ef_pending = False, ef_retryable = None\<rparr>"

definition provider_failed :: "bool \<Rightarrow> evidence_failure" where
  "provider_failed transient = \<lparr>ef_code = EV_PROVIDER_ERROR, ef_pending = False, ef_retryable = Some transient\<rparr>"

definition canonicalAddress :: "evidence_view \<Rightarrow> string option \<Rightarrow> evidence_failure + string" where
  "canonicalAddress ev v = of_option (evidence_failed EV_INVALID_ADDRESS) (Option.bind v (ev_checksum ev))"

definition all_digits_text :: "string \<Rightarrow> bool" where
  "all_digits_text s \<longleftrightarrow> s \<noteq> [] \<and> list_all is_digit s"

definition parseChainId :: "numeric_arg \<Rightarrow> evidence_failure + int" where
  "parseChainId v =
     (case v of
        Big_Arg i \<Rightarrow> if 0 \<le> i then Inr i else Inl (evidence_failed EV_INVALID_CHAIN_ID)
      | Number_Arg n \<Rightarrow>
          (case n of
             Fin x \<Rightarrow> if is_safe_integer n \<and> 0 \<le> x then Inr \<lfloor>x\<rfloor> else Inl (evidence_failed EV_INVALID_CHAIN_ID)
           | _ \<Rightarrow> Inl (evidence_failed EV_INVALID_CHAIN_ID))
      | Text_Arg s \<Rightarrow> if all_digits_text s then Inr (int (digits_val s)) else Inl (evidence_failed EV_INVALID_CHAIN_ID))"

definition parseAmountUnits :: "numeric_arg \<Rightarrow> evidence_failure + int" where
  "parseAmountUnits v =
     (case v of
        Big_Arg i \<Rightarrow> if 0 \<le> i then Inr i else Inl (evidence_failed EV_INVALID_AMOUNT)
      | Text_Arg s \<Rightarrow> if all_digits_text s then Inr (int (digits_val s)) else Inl (evidence_failed EV_INVALID_AMOUNT)
      | Number_Arg n \<Rightarrow> Inl (evidence_failed EV_INVALID_AMOUNT))"

definition same_address :: "string \<Rightarrow> string \<Rightarrow> bool" where
  "same_address a b \<longleftrightarrow> js_lower a = js_lower b"

text \<open>\<open>!x || x.toLowerCase() !== y.toLowerCase()\<close>, negated.\<close>

definition is_address :: "string option \<Rightarrow> string \<Rightarrow> bool" where
  "is_address v a \<longleftrightarrow> (case v of None \<Rightarrow> False | Some x \<Rightarrow> x \<noteq> [] \<and> same_address x a)"

definition is_hash :: "string option \<Rightarrow> string \<Rightarrow> bool" where
  "is_hash v h \<longleftrightarrow> (case v of None \<Rightarrow> False | Some x \<Rightarrow> js_lower x = h)"

record expected_transfer =
  et_txHash :: string
  et_token :: string
  et_source :: string
  et_recipient :: string
  et_chain :: int
  et_amount :: int

definition expected_of :: "evidence_view \<Rightarrow> evidence_request \<Rightarrow> evidence_failure + expected_transfer" where
  "expected_of ev q =
     rbind (guard (is_tx_hash (er_txHash q)) (evidence_failed EV_INVALID_TX_HASH)) (\<lambda>_.
     rbind (canonicalAddress ev (Some (er_tokenContractAddress q))) (\<lambda>token.
     rbind (canonicalAddress ev (Some (er_sourceWallet q))) (\<lambda>source.
     rbind (canonicalAddress ev (Some (er_treasuryRecipient q))) (\<lambda>recipient.
     rbind (parseChainId (er_chainId q)) (\<lambda>chain.
     rbind (parseAmountUnits (er_amountUnits q)) (\<lambda>amount.
     Inr \<lparr>et_txHash = js_lower (er_txHash q), et_token = token, et_source = source, et_recipient = recipient,
       et_chain = chain, et_amount = amount\<rparr>))))))"

subsection \<open>Transaction and receipt\<close>

definition check_transaction :: "expected_transfer \<Rightarrow> int option \<Rightarrow> chain_transaction option \<Rightarrow> evidence_failure + chain_transaction" where
  "check_transaction x network transaction =
     rbind (of_option (evidence_failed EV_PROVIDER_ERROR) network) (\<lambda>actual.
     rbind (guard (actual = et_chain x) (evidence_failed EV_WRONG_CHAIN)) (\<lambda>_.
     rbind (of_option (evidence_failed EV_TRANSACTION_NOT_FOUND) transaction) (\<lambda>t.
     rbind (guard (is_hash (ct_hash t) (et_txHash x)) (evidence_failed EV_TRANSACTION_IDENTITY_MISMATCH)) (\<lambda>_.
     rbind (case ct_chainId t of
         None \<Rightarrow> Inr ()
       | Some None \<Rightarrow> Inl (evidence_failed EV_TRANSACTION_IDENTITY_MISMATCH)
       | Some (Some c) \<Rightarrow> guard (c = 0 \<or> c = et_chain x) (evidence_failed EV_WRONG_CHAIN)) (\<lambda>_.
     rbind (guard (is_address (ct_to t) (et_token x)) (evidence_failed EV_WRONG_TOKEN_CONTRACT)) (\<lambda>_.
     Inr t))))))"

text \<open>The sender of the transaction, once the receipt is identified and reports success.\<close>

definition check_receipt :: "evidence_view \<Rightarrow> expected_transfer \<Rightarrow> chain_transaction \<Rightarrow> chain_receipt \<Rightarrow> evidence_failure + string" where
  "check_receipt ev x t r =
     rbind (guard (is_hash (cp_hash r) (et_txHash x)) (evidence_failed EV_RECEIPT_IDENTITY_MISMATCH)) (\<lambda>_.
     rbind (guard (is_address (cp_to r) (et_token x)) (evidence_failed EV_WRONG_TOKEN_CONTRACT)) (\<lambda>_.
     rbind (canonicalAddress ev (ct_from t)) (\<lambda>sender.
     rbind (case canonicalAddress ev (cp_from r) of
         Inl e \<Rightarrow> Inl (evidence_failed EV_RECEIPT_IDENTITY_MISMATCH) | Inr a \<Rightarrow> Inr a) (\<lambda>receiptFrom.
     rbind (guard (same_address receiptFrom sender) (evidence_failed EV_RECEIPT_IDENTITY_MISMATCH)) (\<lambda>_.
     rbind (guard (cp_status r \<noteq> Some 0) (evidence_failed EV_TRANSACTION_FAILED)) (\<lambda>_.
     rbind (guard (cp_status r = Some 1) (evidence_failed EV_MALFORMED_RECEIPT)) (\<lambda>_.
     Inr sender)))))))"

subsection \<open>Call and logs\<close>

definition call_arguments :: "evidence_view \<Rightarrow> string \<Rightarrow> token_call \<Rightarrow> evidence_failure + (transfer_method \<times> string \<times> string \<times> int)" where
  "call_arguments ev sender call =
     (let malformed = evidence_failed EV_MALFORMED_CALL in
      case call of
        Call_Other name \<Rightarrow> Inl (evidence_failed EV_UNSUPPORTED_TOKEN_CALL)
      | Call_Transfer to amount \<Rightarrow>
          rbind (of_option malformed (ev_checksum ev to)) (\<lambda>recipient. Inr (METHOD_TRANSFER, sender, recipient, amount))
      | Call_Transfer_From source to amount \<Rightarrow>
          rbind (of_option malformed (ev_checksum ev source)) (\<lambda>s.
          rbind (of_option malformed (ev_checksum ev to)) (\<lambda>recipient. Inr (METHOD_TRANSFER_FROM, s, recipient, amount))))"

definition check_call :: "evidence_view \<Rightarrow> expected_transfer \<Rightarrow> chain_transaction \<Rightarrow> string \<Rightarrow> evidence_failure + transfer_method" where
  "check_call ev x t sender =
     (case ev_parse_call ev (ct_data t) (ct_value t) of
        Inl _ \<Rightarrow> Inl (evidence_failed EV_MALFORMED_CALL)
      | Inr None \<Rightarrow> Inl (evidence_failed EV_MALFORMED_CALL)
      | Inr (Some call) \<Rightarrow>
          rbind (call_arguments ev sender call) (\<lambda>(method, source, recipient, amount).
          rbind (guard (same_address source (et_source x)) (evidence_failed EV_WRONG_SENDER)) (\<lambda>_.
          rbind (guard (same_address recipient (et_recipient x)) (evidence_failed EV_WRONG_RECIPIENT)) (\<lambda>_.
          rbind (guard (amount = et_amount x) (evidence_failed EV_WRONG_AMOUNT)) (\<lambda>_.
          Inr method)))))"

datatype log_reading = Foreign_Log | Malformed_Log bool | Transfer_Log string string int

text \<open>\<open>Malformed_Log b\<close>: \<open>b\<close> says whether the log was seen as a transfer of the token.\<close>

definition read_log :: "evidence_view \<Rightarrow> string \<Rightarrow> chain_log option \<Rightarrow> log_reading" where
  "read_log ev token entry =
     (case entry of
        None \<Rightarrow> Malformed_Log False
      | Some l \<Rightarrow>
          (case (lg_address l, lg_topics l, lg_data l) of
             (Some a, Some topics, Some data) \<Rightarrow>
               if \<not> same_address a token then Foreign_Log
               else (case topics of
                   Some (c # cs) # _ \<Rightarrow>
                     if js_lower (c # cs) \<noteq> ev_transfer_topic ev then Foreign_Log
                     else (case ev_parse_log ev topics data of
                         Inr (Some (f, t, v)) \<Rightarrow>
                           (case (ev_checksum ev f, ev_checksum ev t) of
                              (Some source, Some recipient) \<Rightarrow> Transfer_Log source recipient v
                            | _ \<Rightarrow> Malformed_Log True)
                       | _ \<Rightarrow> Malformed_Log True)
                 | _ \<Rightarrow> Foreign_Log)
           | _ \<Rightarrow> Malformed_Log False))"

record log_flags =
  fl_saw :: bool
  fl_malformed :: bool
  fl_sender :: bool
  fl_recipient :: bool
  fl_amount :: bool

definition matches :: "expected_transfer \<Rightarrow> string \<Rightarrow> string \<Rightarrow> int \<Rightarrow> bool" where
  "matches x source recipient amount \<longleftrightarrow>
     same_address source (et_source x) \<and> same_address recipient (et_recipient x) \<and> amount = et_amount x"

text \<open>The first matching log with its position, or the flags after all logs.\<close>

fun scan_logs :: "evidence_view \<Rightarrow> expected_transfer \<Rightarrow> nat \<Rightarrow> log_flags \<Rightarrow> chain_log option list \<Rightarrow> log_flags + (nat \<times> chain_log option)" where
  "scan_logs ev x i flags [] = Inl flags"
| "scan_logs ev x i flags (l # ls) =
     (case read_log ev (et_token x) l of
        Foreign_Log \<Rightarrow> scan_logs ev x (Suc i) flags ls
      | Malformed_Log transfer \<Rightarrow> scan_logs ev x (Suc i) (flags\<lparr>fl_saw := fl_saw flags \<or> transfer, fl_malformed := True\<rparr>) ls
      | Transfer_Log s t v \<Rightarrow>
          if matches x s t v then Inr (i, l)
          else scan_logs ev x (Suc i) (flags\<lparr>fl_saw := True,
            fl_sender := fl_sender flags \<or> \<not> same_address s (et_source x),
            fl_recipient := fl_recipient flags \<or> \<not> same_address t (et_recipient x),
            fl_amount := fl_amount flags \<or> v \<noteq> et_amount x\<rparr>) ls)"

definition no_flags :: log_flags where
  "no_flags = \<lparr>fl_saw = False, fl_malformed = False, fl_sender = False, fl_recipient = False, fl_amount = False\<rparr>"

definition flags_failure :: "log_flags \<Rightarrow> evidence_code" where
  "flags_failure flags =
     (if fl_malformed flags then EV_MALFORMED_TRANSFER_LOG else if \<not> fl_saw flags then EV_MISSING_TRANSFER_EVENT
      else if fl_sender flags then EV_WRONG_SENDER else if fl_recipient flags then EV_WRONG_RECIPIENT
      else if fl_amount flags then EV_WRONG_AMOUNT else EV_MALFORMED_TRANSFER_LOG)"

definition log_position :: "nat \<Rightarrow> chain_log option \<Rightarrow> nat" where
  "log_position i l = (case Option.bind l lg_index of None \<Rightarrow> i | Some k \<Rightarrow> k)"

subsection \<open>Verification\<close>

definition provider_read :: "bool + 'a \<Rightarrow> evidence_failure + 'a" where
  "provider_read v = (case v of Inl transient \<Rightarrow> Inl (provider_failed transient) | Inr a \<Rightarrow> Inr a)"

definition verifySpendEvidence :: "evidence_view \<Rightarrow> evidence_request \<Rightarrow> evidence_result" where
  "verifySpendEvidence ev q =
     rbind (expected_of ev q) (\<lambda>x.
     rbind (provider_read (ev_network ev)) (\<lambda>network.
     rbind (provider_read (ev_transaction ev (et_txHash x))) (\<lambda>transaction.
     rbind (check_transaction x network transaction) (\<lambda>t.
     rbind (provider_read (ev_receipt ev (et_txHash x))) (\<lambda>receipt.
     rbind (of_option \<lparr>ef_code = EV_RECEIPT_PENDING, ef_pending = True, ef_retryable = None\<rparr> receipt) (\<lambda>r.
     rbind (check_receipt ev x t r) (\<lambda>sender.
     rbind (check_call ev x t sender) (\<lambda>method.
     case scan_logs ev x 0 no_flags (case cp_logs r of None \<Rightarrow> [] | Some ls \<Rightarrow> ls) of
       Inl flags \<Rightarrow> Inl (evidence_failed (flags_failure flags))
     | Inr (i, l) \<Rightarrow>
         Inr \<lparr>ep_txHash = et_txHash x, ep_chainId = et_chain x, ep_tokenContractAddress = et_token x,
           ep_sourceWallet = et_source x, ep_treasuryRecipient = et_recipient x, ep_amountUnits = et_amount x,
           ep_transferMethod = method, ep_transactionFrom = sender, ep_blockNumber = cp_blockNumber r,
           ep_logIndex = log_position i l\<rparr>))))))))"

subsection \<open>Guarantees\<close>

lemma scan_logs_match:
  "scan_logs ev x i flags ls = Inr (k, l) \<Longrightarrow> \<exists>s t. l \<in> set ls \<and> i \<le> k \<and> ls ! (k - i) = l \<and> k - i < length ls
     \<and> read_log ev (et_token x) l = Transfer_Log s t (et_amount x) \<and> same_address s (et_source x) \<and> same_address t (et_recipient x)"
proof (induction ls arbitrary: i flags)
  case (Cons a ls)
  have step: "\<exists>s t. l \<in> set (a # ls) \<and> i \<le> k \<and> (a # ls) ! (k - i) = l \<and> k - i < length (a # ls)
     \<and> read_log ev (et_token x) l = Transfer_Log s t (et_amount x) \<and> same_address s (et_source x) \<and> same_address t (et_recipient x)"
    if rest: "scan_logs ev x (Suc i) g ls = Inr (k, l)" for g
  proof -
    obtain s t where h: "l \<in> set ls" "Suc i \<le> k" "ls ! (k - Suc i) = l" "k - Suc i < length ls"
      "read_log ev (et_token x) l = Transfer_Log s t (et_amount x)" "same_address s (et_source x)" "same_address t (et_recipient x)"
      using Cons.IH [OF rest] by blast
    have "k - i = Suc (k - Suc i)" using h(2) by simp
    then show ?thesis using h by auto
  qed
  show ?case
  proof (cases "read_log ev (et_token x) a")
    case (Transfer_Log s t v)
    show ?thesis
    proof (cases "matches x s t v")
      case True
      then have "k = i" "l = a" using Cons.prems Transfer_Log by simp_all
      then show ?thesis using True Transfer_Log by (auto simp: matches_def)
    next
      case False
      then show ?thesis using Cons.prems Transfer_Log step by simp
    qed
  qed (use Cons.prems step in simp_all)
qed simp

text \<open>
  C28: accepted spend evidence is a mined, successful transfer of the exact amount: the chain reports the
  expected chain id, the transaction and the receipt carry the requested hash, both target the token,
  the receipt status is one, the call data transfers the expected amount from the source to the
  treasury, and a Transfer event of the token in that receipt says the same.
\<close>

theorem accepted_evidence_is_transfer:
  assumes "verifySpendEvidence ev q = Inr p"
  shows "\<exists>x t r sender i l s u. expected_of ev q = Inr x \<and> ev_network ev = Inr (Some (et_chain x))
    \<and> ev_transaction ev (et_txHash x) = Inr (Some t) \<and> is_hash (ct_hash t) (et_txHash x) \<and> is_address (ct_to t) (et_token x)
    \<and> ev_receipt ev (et_txHash x) = Inr (Some r) \<and> is_hash (cp_hash r) (et_txHash x) \<and> is_address (cp_to r) (et_token x)
    \<and> cp_status r = Some 1 \<and> check_call ev x t sender = Inr (ep_transferMethod p)
    \<and> (\<exists>ls. cp_logs r = Some ls \<and> i < length ls \<and> ls ! i = l \<and> ep_logIndex p = log_position i l)
    \<and> read_log ev (et_token x) l = Transfer_Log s u (et_amount x) \<and> same_address s (et_source x) \<and> same_address u (et_recipient x)
    \<and> ep_amountUnits p = et_amount x \<and> ep_txHash p = et_txHash x \<and> ep_sourceWallet p = et_source x
    \<and> ep_treasuryRecipient p = et_recipient x \<and> ep_chainId p = et_chain x"
proof -
  obtain x network tr t rc r sender meth where
    x: "expected_of ev q = Inr x" and n: "provider_read (ev_network ev) = Inr network"
    and tr: "provider_read (ev_transaction ev (et_txHash x)) = Inr tr" and t: "check_transaction x network tr = Inr t"
    and rc: "provider_read (ev_receipt ev (et_txHash x)) = Inr rc" and r: "rc = Some r"
    and sender: "check_receipt ev x t r = Inr sender" and m: "check_call ev x t sender = Inr meth"
    and fin: "(case scan_logs ev x 0 no_flags (case cp_logs r of None \<Rightarrow> [] | Some ls \<Rightarrow> ls) of
       Inl flags \<Rightarrow> Inl (evidence_failed (flags_failure flags))
     | Inr (i, l) \<Rightarrow>
         Inr \<lparr>ep_txHash = et_txHash x, ep_chainId = et_chain x, ep_tokenContractAddress = et_token x,
           ep_sourceWallet = et_source x, ep_treasuryRecipient = et_recipient x, ep_amountUnits = et_amount x,
           ep_transferMethod = meth, ep_transactionFrom = sender, ep_blockNumber = cp_blockNumber r,
           ep_logIndex = log_position i l\<rparr>) = Inr p"
    using assms unfolding verifySpendEvidence_def rbind_Inr_iff of_option_iff by blast
  obtain i l where s: "scan_logs ev x 0 no_flags (case cp_logs r of None \<Rightarrow> [] | Some ls \<Rightarrow> ls) = Inr (i, l)"
    and p: "p = \<lparr>ep_txHash = et_txHash x, ep_chainId = et_chain x, ep_tokenContractAddress = et_token x,
           ep_sourceWallet = et_source x, ep_treasuryRecipient = et_recipient x, ep_amountUnits = et_amount x,
           ep_transferMethod = meth, ep_transactionFrom = sender, ep_blockNumber = cp_blockNumber r,
           ep_logIndex = log_position i l\<rparr>"
    using fin by (auto split: sum.splits)
  have logs: "cp_logs r = Some (the (cp_logs r))" using s by (cases "cp_logs r") auto
  obtain a b where l: "(the (cp_logs r)) ! i = l" "i < length (the (cp_logs r))"
    "read_log ev (et_token x) l = Transfer_Log a b (et_amount x)" "same_address a (et_source x)" "same_address b (et_recipient x)"
    using scan_logs_match [OF s] logs by (auto split: option.splits)
  have tx: "tr = Some t" "network = Some (et_chain x)" "is_hash (ct_hash t) (et_txHash x)" "is_address (ct_to t) (et_token x)"
    using t by (auto simp: check_transaction_def rbind_Inr_iff)
  have rcp: "is_hash (cp_hash r) (et_txHash x)" "is_address (cp_to r) (et_token x)" "cp_status r = Some 1"
    using sender by (auto simp: check_receipt_def rbind_Inr_iff)
  have reads: "ev_network ev = Inr (Some (et_chain x))" "ev_transaction ev (et_txHash x) = Inr (Some t)"
    "ev_receipt ev (et_txHash x) = Inr (Some r)"
    using n tr rc r tx by (auto simp: provider_read_def split: sum.splits)
  show ?thesis
    using x reads tx(3,4) rcp m logs l p
    by (intro exI [of _ x] exI [of _ t] exI [of _ r] exI [of _ sender] exI [of _ i] exI [of _ l] exI [of _ a] exI [of _ b]) auto
qed

definition sample_evidence_request :: evidence_request where
  "sample_evidence_request = \<lparr>er_tokenContractAddress = ''0xT0'', er_chainId = Text_Arg ''80002'', er_sourceWallet = ''0xA1'',
     er_treasuryRecipient = ''0xB2'', er_amountUnits = Big_Arg 25, er_txHash = ''0x'' @ replicate 64 CHR ''a''\<rparr>"

definition sample_transaction :: chain_transaction where
  "sample_transaction = \<lparr>ct_hash = Some (''0x'' @ replicate 64 CHR ''a''), ct_chainId = Some (Some 80002), ct_to = Some ''0xT0'',
     ct_from = Some ''0xA1'', ct_data = ''0xdata'', ct_value = 0\<rparr>"

definition sample_chain_receipt :: "int \<Rightarrow> chain_receipt" where
  "sample_chain_receipt st = \<lparr>cp_hash = Some (''0x'' @ replicate 64 CHR ''a''), cp_to = Some ''0xT0'', cp_from = Some ''0xA1'',
     cp_status = Some st, cp_logs = Some [Some \<lparr>lg_address = Some ''0xT0'', lg_topics = Some [Some ''topic''],
       lg_data = Some ''0x'', lg_index = Some 4\<rparr>], cp_blockNumber = 7\<rparr>"

definition sample_evidence :: "int \<Rightarrow> evidence_view" where
  "sample_evidence st = \<lparr>ev_checksum = Some, ev_network = Inr (Some 80002), ev_transaction = (\<lambda>_. Inr (Some sample_transaction)),
     ev_receipt = (\<lambda>_. Inr (Some (sample_chain_receipt st))), ev_parse_call = (\<lambda>_ _. Inr (Some (Call_Transfer ''0xB2'' 25))),
     ev_transfer_topic = ''topic'', ev_parse_log = (\<lambda>_ _. Inr (Some (''0xA1'', ''0xB2'', 25)))\<rparr>"

definition sample_expected :: expected_transfer where
  "sample_expected = \<lparr>et_txHash = ''0x'' @ replicate 64 CHR ''a'', et_token = ''0xT0'', et_source = ''0xA1'', et_recipient = ''0xB2'',
     et_chain = 80002, et_amount = 25\<rparr>"

lemma sample_expected_of: "expected_of (sample_evidence st) sample_evidence_request = Inr sample_expected"
proof -
  have t: "is_tx_hash (''0x'' @ replicate 64 CHR ''a'')" "js_lower (''0x'' @ replicate 64 CHR ''a'') = ''0x'' @ replicate 64 CHR ''a''"
    "parseChainId (Text_Arg ''80002'') = Inr 80002" by code_simp+
  show ?thesis
    using t by (simp add: expected_of_def sample_evidence_request_def sample_evidence_def sample_expected_def canonicalAddress_def
        of_option_def guard_def parseAmountUnits_def)
qed

lemma sample_lower: "js_lower (''0x'' @ replicate 64 CHR ''a'') = ''0x'' @ replicate 64 CHR ''a''" "js_lower ''topic'' = ''topic''"
  by code_simp+

lemma sample_checks:
  "check_transaction sample_expected (Some 80002) (Some sample_transaction) = Inr sample_transaction"
  "check_receipt (sample_evidence st) sample_expected sample_transaction (sample_chain_receipt 1) = Inr ''0xA1''"
  "check_receipt (sample_evidence st) sample_expected sample_transaction (sample_chain_receipt 0) = Inl (evidence_failed EV_TRANSACTION_FAILED)"
  "check_call (sample_evidence st) sample_expected sample_transaction ''0xA1'' = Inr METHOD_TRANSFER"
  using sample_lower
  by (simp_all add: check_transaction_def check_receipt_def check_call_def sample_expected_def sample_transaction_def
      sample_chain_receipt_def sample_evidence_def of_option_def guard_def is_hash_def is_address_def same_address_def
      canonicalAddress_def call_arguments_def)

lemma sample_log:
  "scan_logs (sample_evidence st) sample_expected 0 no_flags (the (cp_logs (sample_chain_receipt 1)))
    = Inr (0, hd (the (cp_logs (sample_chain_receipt 1))))"
  using sample_lower
  by (simp add: sample_chain_receipt_def sample_evidence_def read_log_def sample_expected_def same_address_def matches_def)

lemma sample_evidence_accepted:
  "\<exists>p. verifySpendEvidence (sample_evidence 1) sample_evidence_request = Inr p \<and> ep_amountUnits p = 25"
proof -
  have r: "ev_network (sample_evidence 1) = Inr (Some 80002)" "ev_transaction (sample_evidence 1) h = Inr (Some sample_transaction)"
    "ev_receipt (sample_evidence 1) h = Inr (Some (sample_chain_receipt 1))" for h
    by (simp_all add: sample_evidence_def sample_chain_receipt_def)
  have l: "(case cp_logs (sample_chain_receipt 1) of None \<Rightarrow> [] | Some ls \<Rightarrow> ls) = the (cp_logs (sample_chain_receipt 1))"
    by (simp add: sample_chain_receipt_def)
  show ?thesis
    unfolding verifySpendEvidence_def sample_expected_of rbind_simps r provider_read_def sum.case sample_checks of_option_def option.case
      l sample_log prod.case
    by (simp add: sample_expected_def)
qed

theorem accepted_evidence_is_transfer_witness:
  "\<exists>p x. verifySpendEvidence (sample_evidence 1) sample_evidence_request = Inr p
     \<and> expected_of (sample_evidence 1) sample_evidence_request = Inr x \<and> ep_amountUnits p = et_amount x \<and> et_amount x = 25"
proof -
  obtain p where p: "verifySpendEvidence (sample_evidence 1) sample_evidence_request = Inr p" using sample_evidence_accepted by blast
  from accepted_evidence_is_transfer [OF p] obtain x where x: "expected_of (sample_evidence 1) sample_evidence_request = Inr x"
    "ep_amountUnits p = et_amount x" by auto
  moreover have "x = sample_expected" using x(1) sample_expected_of [of 1] by simp
  ultimately show ?thesis using p by (auto simp: sample_expected_def)
qed

lemma late_codes:
  "call_arguments ev sender call = Inl f \<Longrightarrow> \<not> ef_pending f \<and> ef_code f \<in> {EV_UNSUPPORTED_TOKEN_CALL, EV_MALFORMED_CALL}"
  "check_call ev x t sender = Inl f \<Longrightarrow> \<not> ef_pending f \<and> ef_code f \<in>
     {EV_UNSUPPORTED_TOKEN_CALL, EV_MALFORMED_CALL, EV_WRONG_SENDER, EV_WRONG_RECIPIENT, EV_WRONG_AMOUNT}"
  "flags_failure flags \<in> {EV_MALFORMED_TRANSFER_LOG, EV_MISSING_TRANSFER_EVENT, EV_WRONG_SENDER, EV_WRONG_RECIPIENT, EV_WRONG_AMOUNT}"
proof -
  show c: "call_arguments ev sender call = Inl f \<Longrightarrow> \<not> ef_pending f \<and> ef_code f \<in> {EV_UNSUPPORTED_TOKEN_CALL, EV_MALFORMED_CALL}"
    for sender call f
    by (cases call) (auto simp: call_arguments_def Let_def rbind_Inl_iff evidence_failed_def of_option_def split: option.splits)
  show "check_call ev x t sender = Inl f \<Longrightarrow> \<not> ef_pending f \<and> ef_code f \<in>
     {EV_UNSUPPORTED_TOKEN_CALL, EV_MALFORMED_CALL, EV_WRONG_SENDER, EV_WRONG_RECIPIENT, EV_WRONG_AMOUNT}"
    using c by (fastforce simp: check_call_def rbind_Inl_iff guard_def evidence_failed_def split: sum.splits option.splits if_splits)
  show "flags_failure flags \<in> {EV_MALFORMED_TRANSFER_LOG, EV_MISSING_TRANSFER_EVENT, EV_WRONG_SENDER, EV_WRONG_RECIPIENT, EV_WRONG_AMOUNT}"
    by (simp add: flags_failure_def)
qed

lemma early_codes:
  "expected_of ev q = Inl f \<Longrightarrow> \<not> ef_pending f \<and> ef_code f \<in> {EV_INVALID_TX_HASH, EV_INVALID_ADDRESS, EV_INVALID_CHAIN_ID, EV_INVALID_AMOUNT}"
  "provider_read v = Inl f \<Longrightarrow> \<not> ef_pending f \<and> ef_code f = EV_PROVIDER_ERROR"
  "check_transaction x n tr = Inl f \<Longrightarrow> \<not> ef_pending f \<and> ef_code f \<in>
     {EV_PROVIDER_ERROR, EV_WRONG_CHAIN, EV_TRANSACTION_NOT_FOUND, EV_TRANSACTION_IDENTITY_MISMATCH, EV_WRONG_TOKEN_CONTRACT}"
  by (auto simp: expected_of_def check_transaction_def provider_read_def provider_failed_def canonicalAddress_def parseChainId_def
      parseAmountUnits_def rbind_Inl_iff guard_def of_option_def evidence_failed_def
      split: sum.splits option.splits if_splits numeric_arg.splits js_number.splits)

lemma receipt_codes:
  assumes "check_receipt ev x t r = Inl f"
  shows "\<not> ef_pending f" and "ef_code f \<noteq> EV_RECEIPT_PENDING"
    and "ef_code f = EV_TRANSACTION_FAILED \<Longrightarrow> is_hash (cp_hash r) (et_txHash x) \<and> is_address (cp_to r) (et_token x) \<and> cp_status r = Some 0"
  using assms
  by (auto simp: check_receipt_def canonicalAddress_def rbind_Inl_iff guard_def of_option_def evidence_failed_def
      split: sum.splits option.splits if_splits)

text \<open>
   a verdict of no movement is proven: evidence fails with TRANSACTION_FAILED only when the receipt of
  exactly the requested hash at the token reports status zero, and it is pending only when the
  identified transaction has no receipt yet; no other failure is ever pending.
\<close>

theorem failed_evidence_is_proven:
  assumes "verifySpendEvidence ev q = Inl f"
  shows "(ef_pending f \<longleftrightarrow> ef_code f = EV_RECEIPT_PENDING)
    \<and> (ef_code f = EV_TRANSACTION_FAILED \<longrightarrow> (\<exists>x r. expected_of ev q = Inr x \<and> ev_receipt ev (et_txHash x) = Inr (Some r)
         \<and> is_hash (cp_hash r) (et_txHash x) \<and> is_address (cp_to r) (et_token x) \<and> cp_status r = Some 0))
    \<and> (ef_code f = EV_RECEIPT_PENDING \<longrightarrow> (\<exists>x t. expected_of ev q = Inr x \<and> ev_transaction ev (et_txHash x) = Inr (Some t)
         \<and> is_hash (ct_hash t) (et_txHash x) \<and> is_address (ct_to t) (et_token x) \<and> ev_receipt ev (et_txHash x) = Inr None))"
proof (cases "expected_of ev q")
  case (Inl g)
  then show ?thesis using assms early_codes(1) [OF Inl] by (auto simp: verifySpendEvidence_def)
next
  case x: (Inr x)
  show ?thesis
  proof (cases "provider_read (ev_network ev)")
    case (Inl g)
    then show ?thesis using assms early_codes(2) [OF Inl] by (auto simp: verifySpendEvidence_def x)
  next
    case n: (Inr n)
    show ?thesis
    proof (cases "provider_read (ev_transaction ev (et_txHash x))")
      case (Inl g)
      then show ?thesis using assms early_codes(2) [OF Inl] by (auto simp: verifySpendEvidence_def x n)
    next
      case tr: (Inr tr)
      show ?thesis
      proof (cases "check_transaction x n tr")
        case (Inl g)
        then show ?thesis using assms early_codes(3) [OF Inl] by (auto simp: verifySpendEvidence_def x n tr)
      next
        case t: (Inr t)
        have id: "tr = Some t" "is_hash (ct_hash t) (et_txHash x)" "is_address (ct_to t) (et_token x)"
          using t by (auto simp: check_transaction_def rbind_Inr_iff)
        have read: "ev_transaction ev (et_txHash x) = Inr (Some t)" using tr id(1) by (simp add: provider_read_def split: sum.splits)
        show ?thesis
        proof (cases "provider_read (ev_receipt ev (et_txHash x))")
          case (Inl g)
          then show ?thesis using assms early_codes(2) [OF Inl] by (auto simp: verifySpendEvidence_def x n tr t)
        next
          case rc: (Inr rc)
          have rread: "ev_receipt ev (et_txHash x) = Inr rc" using rc by (simp add: provider_read_def split: sum.splits)
          show ?thesis
          proof (cases rc)
            case None
            then have "f = \<lparr>ef_code = EV_RECEIPT_PENDING, ef_pending = True, ef_retryable = None\<rparr>"
              using assms by (auto simp: verifySpendEvidence_def x n tr t rc of_option_def)
            then show ?thesis using x read id rread None by auto
          next
            case r: (Some r)
            show ?thesis
            proof (cases "check_receipt ev x t r")
              case (Inl g)
              then have "f = g" using assms by (simp add: verifySpendEvidence_def x n tr t rc r of_option_def)
              then show ?thesis using receipt_codes [OF Inl] x rread r by auto
            next
              case s: (Inr sender)
              show ?thesis
              proof (cases "check_call ev x t sender")
                case (Inl g)
                then have "f = g" using assms by (simp add: verifySpendEvidence_def x n tr t rc r s of_option_def)
                then show ?thesis using late_codes(2) [OF Inl] by auto
              next
                case (Inr m)
                then obtain flags where "f = evidence_failed (flags_failure flags)"
                  using assms by (auto simp: verifySpendEvidence_def x n tr t rc r s of_option_def split: sum.splits)
                then show ?thesis using late_codes(3) [of flags] by (auto simp: evidence_failed_def)
              qed
            qed
          qed
        qed
      qed
    qed
  qed
qed

theorem failed_evidence_is_proven_witness:
  "verifySpendEvidence (sample_evidence 0) sample_evidence_request = Inl (evidence_failed EV_TRANSACTION_FAILED)
    \<and> cp_status (sample_chain_receipt 0) = Some 0"
proof -
  have r: "ev_network (sample_evidence 0) = Inr (Some 80002)" "ev_transaction (sample_evidence 0) h = Inr (Some sample_transaction)"
    "ev_receipt (sample_evidence 0) h = Inr (Some (sample_chain_receipt 0))" for h
    by (simp_all add: sample_evidence_def)
  have v: "verifySpendEvidence (sample_evidence 0) sample_evidence_request = Inl (evidence_failed EV_TRANSACTION_FAILED)"
    unfolding verifySpendEvidence_def sample_expected_of rbind_simps r provider_read_def sum.case sample_checks of_option_def option.case ..
  have c: "ef_code (evidence_failed EV_TRANSACTION_FAILED) = EV_TRANSACTION_FAILED" by (simp add: evidence_failed_def)
  have "\<exists>(x :: expected_transfer) r. ev_receipt (sample_evidence 0) (et_txHash x) = Inr (Some r) \<and> cp_status r = Some 0"
    using failed_evidence_is_proven [OF v] c by blast
  then show ?thesis using v r by auto
qed

end
