(* ===== verification/AwardExecutor.thy ===== *)
theory AwardExecutor
  imports AwardSnapshot Reliability Recording SpendEvidence Receipt
begin

text \<open>
  The executor of \<open>src/awardExecutor.ts\<close>: from a raw charging record to a claimed, sent, verified and
  recorded award, and the recovery of an award from its ledger row. The surroundings are the record
  \<open>award_env\<close>: the reward policy, the chain and its evidence, the wallet registry, and for every durable
  write whether the connection carries it. A run gives the database it leaves, the raw transactions
  it sent and its result. Error texts are constructors of \<open>award_problem\<close>. The approval that follows a
  managed award runs on its own; a run only says that it is started.
\<close>

subsection \<open>Results\<close>

datatype award_stage = STAGE_NORMALISATION | STAGE_CALCULATION | STAGE_VALIDATION | STAGE_EXECUTION | STAGE_COMPLETE
datatype result_status = Status operation_status | Status_Review
datatype wallet_mode = MANAGED | CUSTODIAL

datatype award_problem =
    Normalisation_Failed | Lookup_Failed | Calculation_Failed | Recovery_Rejected string | Cap_Exceeded
  | Already_Processed | Dedup_Check_Failed | Address_Failed | Intent_Mismatch string | Asset_Unverified
  | Asset_Unavailable | Asset_Changed context_mismatch | Amount_Precision | Snapshot_Unsaved string
  | Saved_As_Failed | Saved_For_Review | Zero_Completion_Pending | Submission_Unresolved | Confirmation_Pending
  | Evidence_Rejected evidence_code | Evidence_Review evidence_code | Failure_Unsaved | Confirmation_Unsaved
  | Projection_Pending | Completion_Pending | Preflight_Failed string | Outcome_Unknown string | Hash_Unsaved
  | Charging_Collision | Execution_Failed | Operation_Missing | Not_An_Award | Chain_Hash_Required
  | Chain_Read_Unavailable | Evidence_Blocked evidence_code

record execution_result =
  xr_success :: bool
  xr_dedupKey :: string
  xr_eligible :: bool
  xr_amount :: js_number
  xr_uid :: string
  xr_txHash :: "string option"
  xr_dbStored :: "bool option"
  xr_error :: "award_problem option"
  xr_status :: "result_status option"
  xr_pending :: bool
  xr_requiresReview :: bool
  xr_diagnostic :: "diagnostic option"
  xr_preflightFailure :: bool
  xr_outcome :: "movement_outcome option"
  xr_retryable :: bool
  xr_duplicate :: bool
  xr_stage :: award_stage

record award_view =
  wr_eligible :: bool
  wr_amount :: js_number
  wr_uid :: string
  wr_dedup :: string
  wr_metadata :: "js_object option"

definition failedExecutionResult :: execution_result where
  "failedExecutionResult = \<lparr>xr_success = False, xr_dedupKey = [], xr_eligible = False, xr_amount = Fin 0, xr_uid = [],
     xr_txHash = None, xr_dbStored = None, xr_error = None, xr_status = None, xr_pending = False,
     xr_requiresReview = False, xr_diagnostic = None, xr_preflightFailure = False, xr_outcome = None,
     xr_retryable = False, xr_duplicate = False, xr_stage = STAGE_NORMALISATION\<rparr>"

definition failed_award :: "award_view \<Rightarrow> award_stage \<Rightarrow> award_problem \<Rightarrow> execution_result" where
  "failed_award a stage e = failedExecutionResult\<lparr>xr_dedupKey := wr_dedup a, xr_eligible := wr_eligible a,
     xr_amount := wr_amount a, xr_uid := wr_uid a, xr_error := Some e, xr_stage := stage\<rparr>"

definition pendingAwardResult ::
    "award_view \<Rightarrow> operation_status \<Rightarrow> award_problem \<Rightarrow> string option \<Rightarrow> bool \<Rightarrow> diagnostic option \<Rightarrow> execution_result" where
  "pendingAwardResult a status e txHash review dg =
     (failed_award a STAGE_EXECUTION e)\<lparr>xr_txHash := txHash, xr_status := Some (Status status), xr_pending := True,
       xr_requiresReview := review, xr_diagnostic := dg\<rparr>"

definition completed_award :: "award_view \<Rightarrow> bool \<Rightarrow> js_number \<Rightarrow> string option \<Rightarrow> bool option \<Rightarrow> bool \<Rightarrow> execution_result" where
  "completed_award a eligible amount txHash stored dup =
     failedExecutionResult\<lparr>xr_success := True, xr_dedupKey := wr_dedup a, xr_eligible := eligible, xr_amount := amount,
       xr_uid := wr_uid a, xr_txHash := txHash, xr_dbStored := stored, xr_duplicate := dup,
       xr_status := Some (Status PROJECTED), xr_stage := STAGE_COMPLETE\<rparr>"

subsection \<open>Surroundings\<close>

datatype save_point =
    Save_Claim | Save_Submitted | Save_Unknown | Save_Confirmed | Save_Failed | Save_Preflight | Save_Record
  | Save_Projection_Error | Save_Projected

record award_env =
  ae_recovery :: recovery_env
  ae_rules :: rule_env
  ae_host_clock :: "int \<Rightarrow> nat \<times> nat"
  ae_managed :: "string \<Rightarrow> string"
  ae_resolve :: "string \<Rightarrow> string"
  ae_lookup :: bool
  ae_wallets :: bool
  ae_token :: token_env
  ae_network :: "string + nat"
  ae_address :: "string + string"
  ae_treasury :: "string option"
  ae_chain :: chain_view
  ae_evidence :: "evidence_view option"
  ae_encode :: "string \<Rightarrow> int \<Rightarrow> string"
  ae_message :: "db_error \<Rightarrow> string"
  ae_saved :: "save_point \<Rightarrow> bool"
  ae_ident :: string
  ae_user_ident :: string
  ae_award_ident :: string

definition clock :: "award_env \<Rightarrow> int" where
  "clock env = re_now (ae_recovery env)"

definition sha_of :: "award_env \<Rightarrow> string \<Rightarrow> string" where
  "sha_of env = re_sha256 (ae_recovery env)"

text \<open>A durable write reaches the database, or throws and leaves it as it was.\<close>

definition saving :: "award_env \<Rightarrow> save_point \<Rightarrow> db_error + 'a \<Rightarrow> db_error + 'a" where
  "saving env p r = (if ae_saved env p then r else Inl (CALLBACK_FAILED (Other_Error ''connection'')))"

text \<open>A write whose failure is swallowed.\<close>

definition best_effort :: "award_env \<Rightarrow> save_point \<Rightarrow> db \<Rightarrow> db \<Rightarrow> db" where
  "best_effort env p d d' = (if ae_saved env p then d' else d)"

text \<open>\<open>getTokenAssetContext(treasurySigner, getTreasuryAddress())\<close>, \<open>None\<close> where either throws.\<close>

definition asset_of :: "award_env \<Rightarrow> asset_context option" where
  "asset_of env =
     (case nonempty (ae_treasury env) of
        None \<Rightarrow> None
      | Some t \<Rightarrow>
          (case getTokenAssetContext (ae_token env) (if ch_provider (ae_chain env) then Some (ae_network env) else None)
              (ae_address env) (Some t) of Inl _ \<Rightarrow> None | Inr c \<Rightarrow> Some c))"

definition getUserWalletConfig :: "award_env \<Rightarrow> db \<Rightarrow> string \<Rightarrow> (string \<times> wallet_mode) option" where
  "getUserWalletConfig env d u =
     (if \<not> ae_wallets env then None
      else (case findByUid d u of
          None \<Rightarrow> Some (ae_managed env u, MANAGED)
        | Some r \<Rightarrow> Some (us_wallet r, if same_text (us_wallet r) (ae_managed env u) then MANAGED else CUSTODIAL)))"

subsection \<open>The award of a session\<close>

definition award_type_text :: "award_type option \<Rightarrow> string" where
  "award_type_text t = (case t of Some V2G_DISCHARGE \<Rightarrow> ''V2G_DISCHARGE'' | _ \<Rightarrow> ''OFF_PEAK_CHARGING'')"

definition basis_text :: "eligibility_basis \<Rightarrow> string" where
  "basis_text b = (case b of SESSION_START \<Rightarrow> ''session_start'' | DISCHARGE_BASIS \<Rightarrow> ''discharge'')"

definition prepareAward :: "award_env \<Rightarrow> session \<Rightarrow> award_view thrown" where
  "prepareAward env s =
     (let intl = re_intl (ae_recovery env); rules = getAwardRules (ae_rules env) in
      rbind (getAwardCalculationContext (sha_of env) intl (ae_rules env) s rules) (\<lambda>ctx.
      rbind (calculateAwardTokens (sha_of env) intl (ae_rules env) s rules) (\<lambda>amount.
      rbind (getDeduplicationKey s rules) (\<lambda>dedup.
      rbind (formatLocalTime intl (ae_host_clock env) (startTime s) (nonempty (ax_timeZone ctx))) (\<lambda>local.
      Inr \<lparr>wr_eligible = js_less (Fin 0) amount, wr_amount = amount, wr_uid = uid s, wr_dedup = dedup,
        wr_metadata = Some
          [(''isOffPeak'', JBool (ax_isOffPeak ctx)), (''countryCode'', JStr (ax_countryCode ctx)),
           (''localTime'', JStr local), (''energyDirection'', JStr (direction_text (energyDirection s))),
           (''awardType'', JStr (award_type_text (ax_awardType ctx))), (''timeZone'', json_text_or_null (ax_timeZone ctx)),
           (''timeZoneSource'', JStr (source_text (ax_timeZoneSource ctx))),
           (''localStartTime'', json_text_or_null (ax_localStartTime ctx)),
           (''eligibilityBasis'', JStr (basis_text (ax_eligibilityBasis ctx))),
           (''configurationSnapshot'', JStr (ax_configurationSnapshot ctx)),
           (''configurationFingerprint'', JStr (ax_configurationFingerprint ctx))]\<rparr>)))))"

definition metadata_of :: "js_object \<Rightarrow> award_metadata" where
  "metadata_of ob = \<lparr>am_awardType = text_field ob ''awardType'',
     am_isOffPeak = (case field ob ''isOffPeak'' of JBool b \<Rightarrow> Some b | _ \<Rightarrow> None),
     am_countryCode = text_field ob ''countryCode'', am_localTime = text_field ob ''localTime''\<rparr>"

subsection \<open>Evidence\<close>

definition pending_code :: "evidence_code \<Rightarrow> bool" where
  "pending_code c \<longleftrightarrow> c \<in> {EV_RECEIPT_PENDING, EV_PROVIDER_ERROR, EV_TRANSACTION_NOT_FOUND}"

fun evidence_code_text :: "evidence_code \<Rightarrow> string" where
  "evidence_code_text EV_INVALID_TX_HASH = ''INVALID_TX_HASH''"
| "evidence_code_text EV_INVALID_ADDRESS = ''INVALID_ADDRESS''"
| "evidence_code_text EV_INVALID_AMOUNT = ''INVALID_AMOUNT''"
| "evidence_code_text EV_INVALID_CHAIN_ID = ''INVALID_CHAIN_ID''"
| "evidence_code_text EV_TRANSACTION_NOT_FOUND = ''TRANSACTION_NOT_FOUND''"
| "evidence_code_text EV_RECEIPT_PENDING = ''RECEIPT_PENDING''"
| "evidence_code_text EV_TRANSACTION_FAILED = ''TRANSACTION_FAILED''"
| "evidence_code_text EV_TRANSACTION_IDENTITY_MISMATCH = ''TRANSACTION_IDENTITY_MISMATCH''"
| "evidence_code_text EV_RECEIPT_IDENTITY_MISMATCH = ''RECEIPT_IDENTITY_MISMATCH''"
| "evidence_code_text EV_WRONG_CHAIN = ''WRONG_CHAIN''"
| "evidence_code_text EV_WRONG_TOKEN_CONTRACT = ''WRONG_TOKEN_CONTRACT''"
| "evidence_code_text EV_MALFORMED_CALL = ''MALFORMED_CALL''"
| "evidence_code_text EV_UNSUPPORTED_TOKEN_CALL = ''UNSUPPORTED_TOKEN_CALL''"
| "evidence_code_text EV_WRONG_SENDER = ''WRONG_SENDER''"
| "evidence_code_text EV_WRONG_RECIPIENT = ''WRONG_RECIPIENT''"
| "evidence_code_text EV_WRONG_AMOUNT = ''WRONG_AMOUNT''"
| "evidence_code_text EV_MISSING_TRANSFER_EVENT = ''MISSING_TRANSFER_EVENT''"
| "evidence_code_text EV_MALFORMED_TRANSFER_LOG = ''MALFORMED_TRANSFER_LOG''"
| "evidence_code_text EV_MALFORMED_RECEIPT = ''MALFORMED_RECEIPT''"
| "evidence_code_text EV_PROVIDER_ERROR = ''PROVIDER_ERROR''"

definition awardEvidenceDiagnostic :: "evidence_code \<Rightarrow> string option \<Rightarrow> bool option \<Rightarrow> diagnostic" where
  "awardEvidenceDiagnostic code txHash retryable =
     \<lparr>dg_stage = RECEIPT, dg_category = Some (if pending_code code then CONFIRMATION_PENDING else REVIEW_REQUIRED),
      dg_errorCode = (if code = EV_PROVIDER_ERROR then ''RECEIPT_READ_UNAVAILABLE'' else evidence_code_text code),
      dg_retryable = (case retryable of None \<Rightarrow> pending_code code | Some b \<Rightarrow> b),
      dg_savedHash = nonempty txHash, dg_nonce = None\<rparr>"

text \<open>
  \<open>verifySpendEvidence\<close> on the transfer of an award, from the treasury signer to the owner's wallet;
  \<open>None\<close> where it throws. \<open>parseUnits(decimal, 18)\<close> of an amount in cents.
\<close>

definition token_wei :: "nat \<Rightarrow> int" where
  "token_wei cents = int cents * 10 ^ 16"

definition award_evidence :: "award_env \<Rightarrow> asset_context \<Rightarrow> string \<Rightarrow> string \<Rightarrow> string \<Rightarrow> evidence_result option" where
  "award_evidence env asset wallet amount txHash =
     (case canonicalTokenAmount (JStr amount) of
        None \<Rightarrow> Some (Inl (evidence_failed EV_INVALID_AMOUNT))
      | Some a \<Rightarrow> map_option (\<lambda>ev. verifySpendEvidence ev
          \<lparr>er_tokenContractAddress = tokenContractAddress asset, er_chainId = Text_Arg (ac_chainId asset),
           er_sourceWallet = ac_signerAddress asset, er_treasuryRecipient = wallet,
           er_amountUnits = Big_Arg (token_wei (units a)), er_txHash = txHash\<rparr>) (ae_evidence env))"

subsection \<open>Sending\<close>

definition submit_transfer ::
    "award_env \<Rightarrow> string \<Rightarrow> js_number \<Rightarrow> string \<Rightarrow> string \<Rightarrow> string \<Rightarrow> lease_target \<Rightarrow> db
     \<Rightarrow> db \<times> string list \<times> (diagnostic option + reliability_result)" where
  "submit_transfer env to amount key chain contract target d =
     (case canonicalTokenAmount (JNum amount) of
        None \<Rightarrow> (d, [], Inl None)
      | Some a \<Rightarrow>
          if units a = 0 then (d, [], Inl None)
          else (case prepareAndBroadcastTransaction (ae_chain env) (clock env)
                   \<lparr>rq_operationKey = key, rq_targetOperationKey = None, rq_targetType = target,
                    rq_chainId = chain, rq_to = contract,
                    rq_data = Some (ae_encode env to (token_wei (units a))), rq_value = Some ''0'',
                    rq_accessList = None\<rparr> d of
                 (d', sent, Inl g) \<Rightarrow> (d', sent, Inl (Some g))
               | (d', sent, Inr r) \<Rightarrow> (d', sent, Inr r)))"

definition submitAward ::
    "award_env \<Rightarrow> string \<Rightarrow> js_number \<Rightarrow> string \<Rightarrow> asset_context \<Rightarrow> db
     \<Rightarrow> db \<times> string list \<times> (diagnostic option + reliability_result)" where
  "submitAward env to amount key asset d =
     submit_transfer env to amount key (ac_chainId asset) (tokenContractAddress asset) TARGET_OPERATION d"

text \<open>
  The older entry point that waits for the receipt: \<open>receipt\<close> is what \<open>waitForTransaction\<close> gives for a
  hash, an error, nothing, or the status.
\<close>

definition executeAward ::
    "award_env \<Rightarrow> (string \<Rightarrow> string + int option) \<Rightarrow> string \<Rightarrow> js_number \<Rightarrow> db \<Rightarrow> db \<times> string list \<times> string thrown" where
  "executeAward env receipt to amount d =
     (if \<not> ch_provider (ae_chain env) then (d, [], Inl ''PROVIDER_REQUIRED'')
      else case ae_network env of
        Inl e \<Rightarrow> (d, [], Inl e)
      | Inr chain \<Rightarrow>
          (case submit_transfer env to amount
              (''compat:award:'' @ js_lower to @ '':'' @ num_text amount @ '':'' @ bigint_string (clock env)) (nat_text chain)
              (or_text (env_token_contract (ae_token env)) ''0x605871D30DC278a036F09e2ace771df8a224624B'')
              TARGET_STANDALONE d of
             (d', sent, Inl g) \<Rightarrow>
               (d', sent, Inl (case g of None \<Rightarrow> ''UNSUPPORTED_TOKEN_PRECISION'' | Some dg \<Rightarrow> dg_errorCode dg))
           | (d', sent, Inr tx) \<Rightarrow>
               (d', sent, case receipt (rr_txHash tx) of
                   Inl e \<Rightarrow> Inl e
                 | Inr st \<Rightarrow> if st = Some 1 then Inr (rr_txHash tx) else Inl ''Award transaction is not confirmed'')))"

subsection \<open>From a hash to a recorded award\<close>

record projection_request =
  pj_key :: string
  pj_status :: operation_status
  pj_tx_hash :: "string option"
  pj_amount :: string
  pj_wallet :: string
  pj_intent :: "js_object option"
  pj_outcome :: "movement_outcome option"
  pj_diagnostic :: "diagnostic option"

definition row_projection :: "operation_row \<Rightarrow> projection_request" where
  "row_projection r = \<lparr>pj_key = op_key r, pj_status = op_status r, pj_tx_hash = op_tx_hash r,
     pj_amount = numeric2_text (op_amount r), pj_wallet = op_wallet r, pj_intent = op_intent r, pj_outcome = op_outcome r,
     pj_diagnostic = op_diagnostic r\<rparr>"

definition saved_amount :: "operation_row \<Rightarrow> js_number" where
  "saved_amount r = text_number (numeric2_text (op_amount r))"

definition replay_award :: "projection_request \<Rightarrow> award_view \<Rightarrow> award_view" where
  "replay_award p a =
     (let amount = text_number (pj_amount p) in
      a\<lparr>wr_amount := amount, wr_eligible := js_less (Fin 0) amount,
        wr_metadata := (case savedAwardMetadata (pj_intent p) of Some m \<Rightarrow> Some m | None \<Rightarrow> wr_metadata a)\<rparr>)"

definition project_failed :: "projection_request \<Rightarrow> award_view \<Rightarrow> execution_result" where
  "project_failed p a =
     (if pj_outcome p \<noteq> Some OUT_NO_MOVEMENT
      then pendingAwardResult a FAILED Saved_For_Review (nonempty (pj_tx_hash p)) True (pj_diagnostic p)
      else (failed_award a STAGE_EXECUTION Saved_As_Failed)\<lparr>xr_txHash := nonempty (pj_tx_hash p),
             xr_status := Some (Status FAILED), xr_diagnostic := pj_diagnostic p\<rparr>)"

definition project_hashless :: "award_env \<Rightarrow> projection_request \<Rightarrow> award_view \<Rightarrow> db \<Rightarrow> db \<times> execution_result" where
  "project_hashless env p a d =
     (if wr_amount a = Fin 0 then
        (if \<not> ae_saved env Save_Projected
         then (d, pendingAwardResult a (pj_status p) Zero_Completion_Pending None False None)
         else (snd (markProjected (clock env) (pj_key p) d),
               completed_award a False (Fin 0) None None (pj_status p \<noteq> SUBMITTING)))
      else (d, pendingAwardResult a (pj_status p) Submission_Unresolved None True (pj_diagnostic p)))"

text \<open>The chain decides: \<open>Inl\<close> is the result of a run that ends here, \<open>Inr\<close> the database of a confirmed movement.\<close>

definition confirm_award ::
    "award_env \<Rightarrow> projection_request \<Rightarrow> award_view \<Rightarrow> string \<Rightarrow> evidence_result option \<Rightarrow> db
     \<Rightarrow> (db \<times> execution_result) + db" where
  "confirm_award env p a h evidence d =
     (let unknown = (\<lambda>e g. best_effort env Save_Unknown d (snd (markUnknown (clock env) (pj_key p) e (Some (Some g)) d))) in
      case evidence of
        None \<Rightarrow>
          (let g = awardEvidenceDiagnostic EV_PROVIDER_ERROR (Some h) None in
           Inl (unknown ''Award transaction confirmation is pending'' g,
                pendingAwardResult a (pj_status p) Confirmation_Pending (Some h) False (Some g)))
      | Some (Inl f) \<Rightarrow>
          (let g = awardEvidenceDiagnostic (ef_code f) (Some h) (ef_retryable f) in
           if pending_code (ef_code f) then
             Inl (unknown (''Award transaction confirmation is pending: '' @ evidence_code_text (ef_code f)) g,
                  pendingAwardResult a (pj_status p) Confirmation_Pending (Some h)
                    (ef_code f = EV_TRANSACTION_NOT_FOUND) (Some g))
           else
             (let outcome = (if ef_code f = EV_TRANSACTION_FAILED then OUT_NO_MOVEMENT else OUT_REVIEW) in
              if \<not> ae_saved env Save_Failed
              then Inl (d, pendingAwardResult a (pj_status p) Failure_Unsaved (Some h) True (Some g))
              else
                (let d' = snd (markFailed (clock env) (pj_key p)
                       (''Award evidence rejected: '' @ evidence_code_text (ef_code f)) outcome (Some (Some g)) d) in
                 if outcome = OUT_REVIEW
                 then Inl (d', pendingAwardResult a FAILED (Evidence_Review (ef_code f)) (Some h) True (Some g))
                 else Inl (d', (failed_award a STAGE_EXECUTION (Evidence_Rejected (ef_code f)))\<lparr>xr_txHash := Some h,
                        xr_status := Some (Status FAILED), xr_diagnostic := Some g\<rparr>))))
      | Some (Inr proof) \<Rightarrow>
          if \<not> ae_saved env Save_Confirmed
          then Inl (d, pendingAwardResult a SUBMITTED Confirmation_Unsaved (Some h) False None)
          else Inr (snd (markConfirmed (clock env) (pj_key p) None d)))"

definition record_of :: "projection_request \<Rightarrow> award_view \<Rightarrow> string \<Rightarrow> session \<Rightarrow> jsv \<Rightarrow> award_record" where
  "record_of p a h s raw = \<lparr>ar_session = s, ar_amount = wr_amount a, ar_dedup = wr_dedup a, ar_txHash = h,
     ar_cdrData = Some (json_stringify raw), ar_metadata = map_option metadata_of (wr_metadata a),
     ar_intended = Some (pj_wallet p)\<rparr>"

definition record_and_project ::
    "award_env \<Rightarrow> projection_request \<Rightarrow> award_view \<Rightarrow> string \<Rightarrow> session \<Rightarrow> jsv \<Rightarrow> bool \<Rightarrow> db \<Rightarrow> db \<times> execution_result \<times> bool" where
  "record_and_project env p a h s raw approve d =
     (case saving env Save_Record (recordAward (ae_resolve env) (clock env) (ae_user_ident env) (ae_award_ident env)
             (record_of p a h s raw) d) of
        Inl e \<Rightarrow>
          (best_effort env Save_Projection_Error d (snd (markProjectionError (clock env) (pj_key p) (ae_message env e) d)),
           (pendingAwardResult a CONFIRMED Projection_Pending (Some h) False None)\<lparr>xr_dbStored := Some False\<rparr>, False)
      | Inr (row, d1) \<Rightarrow>
          if \<not> ae_saved env Save_Projected
          then (d1, (pendingAwardResult a CONFIRMED Completion_Pending (Some h) False None)\<lparr>xr_dbStored := Some True\<rparr>, False)
          else (snd (markProjected (clock env) (pj_key p) d1), completed_award a True (wr_amount a) (Some h) (Some True) False,
                approve))"

text \<open>
  \<open>verify\<close> is the evidence reader: absent, or present with its answer. The approval of the last
  component is started for managed wallets when the caller asks for it.
\<close>

definition projectAwardOperation ::
    "award_env \<Rightarrow> projection_request \<Rightarrow> award_view \<Rightarrow> session \<Rightarrow> jsv \<Rightarrow> wallet_mode \<Rightarrow> evidence_result option option
     \<Rightarrow> bool \<Rightarrow> bool \<Rightarrow> evidence_result option \<Rightarrow> db \<Rightarrow> db \<times> execution_result \<times> bool" where
  "projectAwardOperation env p award s raw mode verify approve fresh preverified d =
     (let a = replay_award p award in
      if pj_status p = FAILED then (d, project_failed p a, False)
      else if pj_status p = PROJECTED
      then (d, completed_award a (wr_eligible a) (wr_amount a) (nonempty (pj_tx_hash p)) (Some True) True, False)
      else (case nonempty (pj_tx_hash p) of
          None \<Rightarrow> (case project_hashless env p a d of (d', r) \<Rightarrow> (d', r, False))
        | Some h \<Rightarrow>
            (let finish = record_and_project env p a h s raw (approve \<and> mode = MANAGED) in
             case verify of
               None \<Rightarrow> finish d
             | Some answer \<Rightarrow>
                 if pj_status p = SUBMITTED \<or> pj_status p = UNKNOWN_STATUS \<or> fresh
                 then (case confirm_award env p a h (case preverified of None \<Rightarrow> answer | Some e \<Rightarrow> Some e) d of
                     Inl (d', r) \<Rightarrow> (d', r, False)
                   | Inr d' \<Rightarrow> finish d')
                 else finish d)))"

end
