(* ===== verification/AwardFlow.thy ===== *)
theory AwardFlow
  imports AwardExecutor
begin

text \<open>
  The two entry points of \<open>src/awardExecutor.ts\<close>: \<open>processAwardFromCDR\<close>, from a raw record to the recorded
  award, and \<open>recoverAwardOperation\<close>, from a ledger row alone. The first is split where the code changes
  the database: \<open>award_plan_of\<close> only reads; \<open>claimed_award\<close> follows the claim; \<open>sent_award\<close> follows the send.
\<close>

definition session_dedup :: "session \<Rightarrow> string" where
  "session_dedup s = sessionId s @ ''-'' @ providerId s"

definition legacy_or :: "operation_row \<Rightarrow> string \<Rightarrow> string" where
  "legacy_or r t = (case nonempty (op_legacy_key r) of Some k \<Rightarrow> k | None \<Rightarrow> t)"

definition wallet_mode_of :: "award_env \<Rightarrow> db \<Rightarrow> string \<Rightarrow> wallet_mode" where
  "wallet_mode_of env d u = (case getUserWalletConfig env d u of None \<Rightarrow> CUSTODIAL | Some (_, m) \<Rightarrow> m)"

definition at_amount :: "operation_row \<Rightarrow> award_view \<Rightarrow> award_view" where
  "at_amount r a = a\<lparr>wr_amount := saved_amount r, wr_eligible := js_less (Fin 0) (saved_amount r)\<rparr>"

text \<open>The evidence reader of a saved row: absent without a hash or a provider.\<close>

definition row_evidence :: "award_env \<Rightarrow> asset_context \<Rightarrow> operation_row \<Rightarrow> evidence_result option option" where
  "row_evidence env asset r =
     (case nonempty (op_tx_hash r) of
        None \<Rightarrow> None
      | Some h \<Rightarrow> if ch_provider (ae_chain env)
          then Some (award_evidence env asset (op_wallet r) (numeric2_text (op_amount r)) h) else None)"

subsection \<open>Recovery from the ledger\<close>

definition row_blocked :: "operation_row \<Rightarrow> award_problem \<Rightarrow> execution_result" where
  "row_blocked r e = failedExecutionResult\<lparr>xr_uid := op_uid r, xr_amount := saved_amount r,
     xr_txHash := nonempty (op_tx_hash r), xr_status := Some (Status (op_status r)), xr_requiresReview := True,
     xr_error := Some e, xr_stage := STAGE_VALIDATION\<rparr>"

definition recover_input :: "recovery_env \<Rightarrow> operation_row \<Rightarrow> recovery_input thrown" where
  "recover_input env r =
     rbind (parseAwardRecoverySnapshot (re_date env) (op_intent r)) (\<lambda>found.
     rbind (of_option (snapshotInvalid ''original award recovery snapshot is unavailable'') found) (\<lambda>snapshot.
     rbind (validateStoredRecoverySnapshot env r snapshot True) (\<lambda>(s, stored).
     rbind (of_option (snapshotInvalid ''original CDR snapshot is unavailable'') stored) (\<lambda>raw.
     rbind (snapshot_check (op_key r = awardOperationKey (re_sha256 env) (providerId s) (sessionId s))
         ''stored session does not match the operation key'') (\<lambda>_.
     Inr \<lparr>ri_session = s, ri_raw = raw\<rparr>)))))"

definition recovered_view :: "operation_row \<Rightarrow> session \<Rightarrow> award_view" where
  "recovered_view r s = \<lparr>wr_eligible = js_less (Fin 0) (saved_amount r), wr_amount = saved_amount r, wr_uid = uid s,
     wr_dedup = legacy_or r (session_dedup s), wr_metadata = savedAwardMetadata (op_intent r)\<rparr>"

text \<open>The evidence demanded before a recovery may continue: \<open>Inl\<close> ends it.\<close>

definition fresh_evidence ::
    "award_env \<Rightarrow> operation_row \<Rightarrow> award_view \<Rightarrow> evidence_result option option \<Rightarrow> db
     \<Rightarrow> (db \<times> execution_result) + evidence_result" where
  "fresh_evidence env r a verify d =
     (let tx = nonempty (op_tx_hash r);
          unknown = (\<lambda>e g. best_effort env Save_Unknown d (snd (markUnknown (clock env) (op_key r) e (Some (Some g)) d))) in
      case verify of
        None \<Rightarrow> Inl (d, pendingAwardResult a (op_status r) Chain_Read_Unavailable tx True None)
      | Some None \<Rightarrow>
          (let g = awardEvidenceDiagnostic EV_PROVIDER_ERROR tx None in
           Inl (unknown ''Award recovery evidence is pending'' g,
                pendingAwardResult a (op_status r) Chain_Read_Unavailable tx False (Some g)))
      | Some (Some (Inl f)) \<Rightarrow>
          (let review = (ef_code f \<notin> {EV_RECEIPT_PENDING, EV_PROVIDER_ERROR});
               g = awardEvidenceDiagnostic (ef_code f) tx (ef_retryable f) in
           Inl (if review then d
                else unknown (''Award recovery evidence is pending: '' @ evidence_code_text (ef_code f)) g,
                pendingAwardResult a (op_status r) (Evidence_Blocked (ef_code f)) tx review (Some g)))
      | Some (Some (Inr proof)) \<Rightarrow> Inr (Inr proof))"

definition recover_row :: "award_env \<Rightarrow> bool \<Rightarrow> operation_row \<Rightarrow> recovery_input \<Rightarrow> db \<Rightarrow> db \<times> execution_result" where
  "recover_row env fresh r i d =
     (let a = recovered_view r (ri_session i); tx = nonempty (op_tx_hash r) in
      case asset_of env of
        None \<Rightarrow> (d, pendingAwardResult a (op_status r) Asset_Unverified tx True None)
      | Some asset \<Rightarrow>
          (case assetContextMismatch (op_intent r) asset of
             Some m \<Rightarrow> (d, pendingAwardResult a (op_status r) (Asset_Changed m) tx True None)
           | None \<Rightarrow>
               (let verify = row_evidence env asset r;
                    finish = (\<lambda>pre. case projectAwardOperation env (row_projection r) a (ri_session i) (ri_raw i)
                      (wallet_mode_of env d (wr_uid a)) verify False fresh pre d of (d', x, _) \<Rightarrow> (d', x)) in
                if fresh then (case fresh_evidence env r a verify d of Inl x \<Rightarrow> x | Inr e \<Rightarrow> finish (Some e))
                else finish None)))"

definition recoverAwardOperation :: "award_env \<Rightarrow> string \<Rightarrow> bool \<Rightarrow> db \<Rightarrow> db \<times> execution_result" where
  "recoverAwardOperation env k fresh d =
     (if \<not> ae_lookup env
      then (d, failedExecutionResult\<lparr>xr_error := Some Lookup_Failed, xr_stage := STAGE_EXECUTION\<rparr>)
      else case find_operation d k of
        None \<Rightarrow> (d, failedExecutionResult\<lparr>xr_error := Some Operation_Missing, xr_stage := STAGE_VALIDATION\<rparr>)
      | Some r \<Rightarrow>
          (let tx = Option.bind (op_tx_hash r) (\<lambda>h. canonicalTransactionHash (JStr h)) in
           if op_type r \<noteq> AWARD
           then (d, failedExecutionResult\<lparr>xr_error := Some Not_An_Award, xr_stage := STAGE_VALIDATION\<rparr>)
           else if fresh \<and> op_status r \<noteq> PROJECTED \<and> tx = None
           then (d, (row_blocked r Chain_Hash_Required)\<lparr>xr_pending := True\<rparr>)
           else if op_status r = PROJECTED
           then (case tx of
               None \<Rightarrow> (d, (row_blocked r Chain_Hash_Required)\<lparr>xr_txHash := None\<rparr>)
             | Some h \<Rightarrow> (d, completed_award \<lparr>wr_eligible = js_less (Fin 0) (saved_amount r), wr_amount = saved_amount r,
                   wr_uid = op_uid r, wr_dedup = legacy_or r (op_key r), wr_metadata = None\<rparr>
                   (js_less (Fin 0) (saved_amount r)) (saved_amount r) (Some h) (Some True) True))
           else (case recover_input (ae_recovery env) r of
               Inl e \<Rightarrow> (d, row_blocked r (Recovery_Rejected e))
             | Inr i \<Rightarrow> recover_row env fresh r i d)))"

subsection \<open>Before the claim\<close>

record award_plan =
  pl_session :: session
  pl_key :: string
  pl_existing :: "operation_row option"
  pl_award :: award_view
  pl_input :: recovery_input
  pl_wallet :: string
  pl_mode :: wallet_mode

definition existing_view :: "operation_row \<Rightarrow> session \<Rightarrow> award_view" where
  "existing_view r s = \<lparr>wr_eligible = js_less (Fin 0) (saved_amount r), wr_amount = saved_amount r,
     wr_uid = (if op_uid r = [] then uid s else op_uid r), wr_dedup = legacy_or r (session_dedup s),
     wr_metadata = savedAwardMetadata (op_intent r)\<rparr>"

definition row_rejected :: "operation_row \<Rightarrow> award_view \<Rightarrow> string \<Rightarrow> award_problem \<Rightarrow> execution_result" where
  "row_rejected r a u e = (row_blocked r e)\<lparr>xr_dedupKey := wr_dedup a,
     xr_eligible := js_less (Fin 0) (saved_amount r), xr_uid := u\<rparr>"

text \<open>A new award: the current policy decides, its cap and the caller's deduplication check included.\<close>

definition plan_new ::
    "award_env \<Rightarrow> (string \<Rightarrow> bool option) option \<Rightarrow> jsv \<Rightarrow> session \<Rightarrow> string \<Rightarrow> db \<Rightarrow> execution_result + award_plan" where
  "plan_new env check raw s k d =
     rbind (case prepareAward env s of
         Inl _ \<Rightarrow> Inl (failedExecutionResult\<lparr>xr_dedupKey := (if uid s = [] then [] else session_dedup s),
             xr_uid := uid s, xr_error := Some Calculation_Failed, xr_stage := STAGE_CALCULATION\<rparr>)
       | Inr a \<Rightarrow> Inr a) (\<lambda>a.
     rbind (guard (\<not> exceedsTokenOperationCap (wr_amount a)) (failed_award a STAGE_VALIDATION Cap_Exceeded)) (\<lambda>_.
     rbind (case check of
         None \<Rightarrow> Inr ()
       | Some seen \<Rightarrow>
           (case seen (wr_dedup a) of
              None \<Rightarrow> Inl (failed_award a STAGE_VALIDATION Dedup_Check_Failed)
            | Some b \<Rightarrow> guard (\<not> b) (failed_award a STAGE_VALIDATION Already_Processed))) (\<lambda>_.
     rbind (of_option ((failed_award a STAGE_VALIDATION Address_Failed)\<lparr>xr_eligible := True\<rparr>)
         (getUserWalletConfig env d (wr_uid a))) (\<lambda>(wallet, mode).
     Inr \<lparr>pl_session = s, pl_key = k, pl_existing = None, pl_award = a, pl_input = \<lparr>ri_session = s, ri_raw = raw\<rparr>,
       pl_wallet = wallet, pl_mode = mode\<rparr>))))"

text \<open>A known award: the saved amount, owner and session decide.\<close>

definition plan_existing ::
    "award_env \<Rightarrow> jsv \<Rightarrow> session \<Rightarrow> string \<Rightarrow> operation_row \<Rightarrow> db \<Rightarrow> execution_result + award_plan" where
  "plan_existing env raw s k r d =
     (let a = existing_view r s in
      rbind (case resolveRecoveryInput (ae_recovery env) r s raw of
          Inl e \<Rightarrow> Inl (row_rejected r a (wr_uid a) (Recovery_Rejected e))
        | Inr i \<Rightarrow> Inr i) (\<lambda>i.
      rbind (case awardRecoveryIntentMismatch (sha_of env) r s (saved_amount r) of
          Some m \<Rightarrow> Inl (row_rejected r a (uid s) (Intent_Mismatch m))
        | None \<Rightarrow> Inr ()) (\<lambda>_.
      Inr \<lparr>pl_session = s, pl_key = k, pl_existing = Some r, pl_award = a, pl_input = i, pl_wallet = op_wallet r,
        pl_mode = wallet_mode_of env d (wr_uid a)\<rparr>)))"

definition award_plan_of ::
    "award_env \<Rightarrow> (string \<Rightarrow> bool option) option \<Rightarrow> jsv \<Rightarrow> db \<Rightarrow> execution_result + award_plan" where
  "award_plan_of env check raw d =
     (case validateAndNormaliseCdr (re_intl (ae_recovery env)) (clock env) raw of
        Inl _ \<Rightarrow> Inl (failedExecutionResult\<lparr>xr_error := Some Normalisation_Failed, xr_stage := STAGE_NORMALISATION\<rparr>)
      | Inr s \<Rightarrow>
          (let k = awardOperationKey (sha_of env) (providerId s) (sessionId s) in
           if \<not> ae_lookup env
           then Inl (failedExecutionResult\<lparr>xr_dedupKey := session_dedup s, xr_uid := uid s,
                  xr_error := Some Lookup_Failed, xr_stage := STAGE_EXECUTION\<rparr>)
           else (case find_operation d k of
               None \<Rightarrow> plan_new env check raw s k d
             | Some r \<Rightarrow> plan_existing env raw s k r d)))"

definition claim_intent :: "award_view \<Rightarrow> asset_context \<Rightarrow> award_snapshot option \<Rightarrow> js_object" where
  "claim_intent a asset snapshot =
     (case wr_metadata a of None \<Rightarrow> [] | Some m \<Rightarrow> m) @ [(''assetContext'', asset_json asset)]
     @ (case snapshot of None \<Rightarrow> [] | Some v \<Rightarrow> [(RECOVERY_SNAPSHOT_KEY, snapshot_json v)])"

definition award_claim :: "award_env \<Rightarrow> award_plan \<Rightarrow> canonical_amount \<Rightarrow> js_object \<Rightarrow> claim_request" where
  "award_claim env p amount intent =
     \<lparr>cr_key = pl_key p, cr_type = AWARD,
      cr_fingerprint = awardIntentFingerprint (sha_of env) (pl_session p) (wr_amount (pl_award p)) (pl_wallet p),
      cr_uid = uid (pl_session p), cr_wallet = pl_wallet p, cr_amount = decimal amount,
      cr_session_id = Some (sessionId (pl_session p)), cr_provider_id = Some (providerId (pl_session p)),
      cr_charging_session = chargingSessionId (pl_session p), cr_reservation = None, cr_intent = Some intent,
      cr_legacy_key = Some (wr_dedup (pl_award p)), cr_balance = None\<rparr>"

subsection \<open>After the send\<close>

type_synonym award_run = "db \<times> string list \<times> execution_result \<times> bool"

definition sent_request ::
    "award_plan \<Rightarrow> canonical_amount \<Rightarrow> js_object \<Rightarrow> operation_status \<Rightarrow> string \<Rightarrow> diagnostic option \<Rightarrow> projection_request" where
  "sent_request p amount intent status h g =
     \<lparr>pj_key = pl_key p, pj_status = status, pj_tx_hash = Some h, pj_amount = decimal amount, pj_wallet = pl_wallet p,
      pj_intent = Some intent, pj_outcome = None, pj_diagnostic = g\<rparr>"

definition preflight_failed :: "award_env \<Rightarrow> award_plan \<Rightarrow> diagnostic \<Rightarrow> db \<Rightarrow> db \<times> execution_result" where
  "preflight_failed env p g d =
     (best_effort env Save_Preflight d (snd (markPreflightFailed (clock env) (pl_key p) (dg_errorCode g) (Some (Some g)) d)),
      (pendingAwardResult (pl_award p) FAILED (Preflight_Failed (dg_errorCode g)) None False (Some g))
        \<lparr>xr_pending := dg_retryable g, xr_preflightFailure := True, xr_outcome := Some OUT_NO_MOVEMENT,
         xr_retryable := dg_retryable g\<rparr>)"

definition outcome_unknown :: "award_env \<Rightarrow> award_plan \<Rightarrow> diagnostic option \<Rightarrow> db \<Rightarrow> db \<times> execution_result" where
  "outcome_unknown env p g d =
     (let code = (case Option.bind g (\<lambda>x. nonempty (Some (dg_errorCode x))) of None \<Rightarrow> ''CHAIN_OUTCOME_UNKNOWN'' | Some c \<Rightarrow> c) in
      (best_effort env Save_Unknown d (snd (markUnknown (clock env) (pl_key p) code (map_option Some g) d)),
       pendingAwardResult (pl_award p) UNKNOWN_STATUS (Outcome_Unknown code) (Option.bind g dg_savedHash) True g))"

definition project_sent ::
    "award_env \<Rightarrow> award_plan \<Rightarrow> jsv \<Rightarrow> projection_request \<Rightarrow> evidence_result option \<Rightarrow> evidence_result option \<Rightarrow> db
     \<Rightarrow> db \<times> execution_result \<times> bool" where
  "project_sent env p raw q answer pre d =
     projectAwardOperation env q (pl_award p) (pl_session p) raw (pl_mode p) (Some answer) True False pre d"

definition send_failed ::
    "award_env \<Rightarrow> award_plan \<Rightarrow> jsv \<Rightarrow> asset_context \<Rightarrow> canonical_amount \<Rightarrow> js_object \<Rightarrow> diagnostic option \<Rightarrow> db
     \<Rightarrow> db \<times> execution_result \<times> bool" where
  "send_failed env p raw asset amount intent g d =
     (let review = (case outcome_unknown env p g d of (d', x) \<Rightarrow> (d', x, False)) in
      case g of
        None \<Rightarrow> review
      | Some dg \<Rightarrow>
          if isPreBroadcastTransactionDiagnostic g
          then (case preflight_failed env p dg d of (d', x) \<Rightarrow> (d', x, False))
          else (case nonempty (dg_savedHash dg) of
              None \<Rightarrow> review
            | Some h \<Rightarrow>
                if dg_stage dg = BROADCAST \<and> ch_provider (ae_chain env) then
                  (case award_evidence env asset (pl_wallet p) (decimal amount) h of
                     None \<Rightarrow> review
                   | Some e \<Rightarrow> project_sent env p raw (sent_request p amount intent UNKNOWN_STATUS h g) (Some e) (Some e) d)
                else review))"

definition sent_award ::
    "award_env \<Rightarrow> award_plan \<Rightarrow> jsv \<Rightarrow> asset_context \<Rightarrow> canonical_amount \<Rightarrow> js_object \<Rightarrow> db \<Rightarrow> award_run" where
  "sent_award env p raw asset amount intent d =
     (case submitAward env (pl_wallet p) (wr_amount (pl_award p)) (pl_key p) asset d of
        (d1, sent, Inl g) \<Rightarrow>
          (case send_failed env p raw asset amount intent g d1 of (d2, x, b) \<Rightarrow> (d2, sent, x, b))
      | (d1, sent, Inr tx) \<Rightarrow>
          (case saving env Save_Submitted (markSubmitted (clock env) (pl_key p) (rr_txHash tx) d1) of
             Inl e \<Rightarrow>
               (best_effort env Save_Unknown d1 (snd (markUnknown (clock env) (pl_key p)
                   (''Transaction hash could not be persisted: '' @ ae_message env e) None d1)),
                sent, pendingAwardResult (pl_award p) UNKNOWN_STATUS Hash_Unsaved (Some (rr_txHash tx)) True None, False)
           | Inr (_, d2) \<Rightarrow>
               (case project_sent env p raw (sent_request p amount intent SUBMITTED (rr_txHash tx) None)
                   (award_evidence env asset (pl_wallet p) (decimal amount) (rr_txHash tx)) None d2 of
                  (d3, x, b) \<Rightarrow> (d3, sent, x, b))))"

subsection \<open>The claim and what follows it\<close>

text \<open>A claim that found the award already in the ledger: its own row is finished, nothing is sent.\<close>

definition claimed_by_other ::
    "award_env \<Rightarrow> award_plan \<Rightarrow> jsv \<Rightarrow> asset_context \<Rightarrow> operation_row \<Rightarrow> db \<Rightarrow> db \<times> execution_result \<times> bool" where
  "claimed_by_other env p raw asset r d =
     (case resolveRecoveryInput (ae_recovery env) r (pl_session p) raw of
        Inl e \<Rightarrow> (d, row_rejected r (pl_award p) (if op_uid r = [] then uid (pl_session p) else op_uid r)
                   (Recovery_Rejected e), False)
      | Inr i \<Rightarrow> projectAwardOperation env (row_projection r) (pl_award p) (ri_session i) (ri_raw i) (pl_mode p)
                   (row_evidence env asset r) False False None d)"

definition zero_award :: "award_env \<Rightarrow> award_plan \<Rightarrow> db \<Rightarrow> db \<times> execution_result" where
  "zero_award env p d =
     (if \<not> ae_saved env Save_Projected
      then (d, pendingAwardResult (pl_award p) SUBMITTING Zero_Completion_Pending None False None)
      else (snd (markProjected (clock env) (pl_key p) d), completed_award (pl_award p) False (Fin 0) None None False))"

definition claimed_award ::
    "award_env \<Rightarrow> award_plan \<Rightarrow> jsv \<Rightarrow> asset_context \<Rightarrow> canonical_amount \<Rightarrow> js_object \<Rightarrow> claim_result \<Rightarrow> db \<Rightarrow> award_run" where
  "claimed_award env p raw asset amount intent c d =
     (let a = pl_award p in
      case cl_legacy c of
        Some l \<Rightarrow>
          (let n = text_number (numeric2_text (aw_amount l)) in
           (d, [], completed_award a (js_less (Fin 0) n) n (Some (aw_tx_hash l)) (Some True) True, False))
      | None \<Rightarrow>
          (case cl_operation c of
             None \<Rightarrow> (d, [], failed_award a STAGE_EXECUTION Execution_Failed, False)
           | Some r \<Rightarrow>
               (case assetContextMismatch (op_intent r) asset of
                  Some m \<Rightarrow> (d, [], pendingAwardResult (at_amount r a) (op_status r) (Asset_Changed m)
                               (nonempty (op_tx_hash r)) True None, False)
                | None \<Rightarrow>
                    if \<not> cl_acquired c
                    then (case claimed_by_other env p raw asset r d of (d', x, b) \<Rightarrow> (d', [], x, b))
                    else if \<not> wr_eligible a then (case zero_award env p d of (d', x) \<Rightarrow> (d', [], x, False))
                    else sent_award env p raw asset amount intent d)))"

definition claim_refused :: "award_view \<Rightarrow> db_error \<Rightarrow> execution_result" where
  "claim_refused a e =
     (case e of
        AWARD_CHARGING_SESSION_COLLISION_REVIEW _ \<Rightarrow>
          (failed_award a STAGE_VALIDATION Charging_Collision)\<lparr>xr_status := Some Status_Review, xr_pending := True,
             xr_requiresReview := True\<rparr>
      | _ \<Rightarrow> failed_award a STAGE_EXECUTION Execution_Failed)"

text \<open>From the plan to the claim: the asset context, the amount at storage precision, the recovery snapshot.\<close>

definition execute_plan :: "award_env \<Rightarrow> award_plan \<Rightarrow> jsv \<Rightarrow> db \<Rightarrow> award_run" where
  "execute_plan env p raw d =
     (let a = pl_award p; stop = (\<lambda>x. (d, [], x, False)) in
      case asset_of env of
        None \<Rightarrow>
          (case pl_existing p of
             Some r \<Rightarrow> stop (pendingAwardResult (at_amount r a) (op_status r) Asset_Unverified (nonempty (op_tx_hash r)) True None)
           | None \<Rightarrow> stop (failed_award a STAGE_EXECUTION Asset_Unavailable))
      | Some asset \<Rightarrow>
          (case Option.bind (pl_existing p) (\<lambda>r. map_option (Pair r) (assetContextMismatch (op_intent r) asset)) of
             Some (r, m) \<Rightarrow> stop (pendingAwardResult (at_amount r a) (op_status r) (Asset_Changed m)
                               (nonempty (op_tx_hash r)) True None)
           | None \<Rightarrow>
               (case canonicalTokenAmount (JNum (wr_amount a)) of
                  None \<Rightarrow> stop (failed_award a STAGE_VALIDATION Amount_Precision)
                | Some amount \<Rightarrow>
                    (case (if pl_existing p = None
                       then map_sum id Some (createAwardRecoverySnapshot (sha_of env) (pl_session p) (wr_amount a)
                              (pl_wallet p) (Some raw))
                       else Inr None) of
                       Inl e \<Rightarrow> stop (failed_award a STAGE_VALIDATION (Snapshot_Unsaved e))
                     | Inr snapshot \<Rightarrow>
                         (let intent = claim_intent a asset snapshot in
                          case saving env Save_Claim (claim (clock env) (ae_ident env) (award_claim env p amount intent) d) of
                            Inl e \<Rightarrow> stop (claim_refused a e)
                          | Inr (c, d') \<Rightarrow> claimed_award env p raw asset amount intent c d')))))"

definition processAwardFromCDR ::
    "award_env \<Rightarrow> (string \<Rightarrow> bool option) option \<Rightarrow> jsv \<Rightarrow> db \<Rightarrow> award_run" where
  "processAwardFromCDR env check raw d =
     (case award_plan_of env check raw d of
        Inl x \<Rightarrow> (d, [], x, False)
      | Inr p \<Rightarrow>
          (case pl_existing p of
             Some r \<Rightarrow>
               if op_amount r = 0 \<and> nonempty (op_tx_hash r) = None
               then (case projectAwardOperation env (row_projection r) (pl_award p) (ri_session (pl_input p))
                       (ri_raw (pl_input p)) (pl_mode p) None False False None d of (d', x, b) \<Rightarrow> (d', [], x, b))
               else execute_plan env p raw d
           | None \<Rightarrow> execute_plan env p raw d))"

end
