(* ===== verification/NormaliserLaws.thy ===== *)
theory NormaliserLaws
  imports Normaliser TokenAmount
begin

text \<open>
  Properties of \<open>src/normaliser.ts\<close>: what an accepted charging record guarantees about owner, order of
  times and energy, which fields the owner depends on, and that printed instants parse back.
\<close>

subsection \<open>Owner candidates\<close>

definition accepted :: "string \<times> jsv \<times> cdr_protocol \<Rightarrow> emaid_candidate option" where
  "accepted c = (case c of (src, v, p) \<Rightarrow> (case v of
      JStr s \<Rightarrow> if hasCdrValue v \<and> js_lower s \<noteq> ''null'' then Some \<lparr>ec_source = src, ec_value = s, ec_protocol = p\<rparr> else None
    | _ \<Rightarrow> None))"

lemma add_candidate:
  assumes "addEmaidCandidate ep (src, v, p) acc = Inr acc'"
  shows "acc' = acc @ (case accepted (src, v, p) of None \<Rightarrow> [] | Some c \<Rightarrow> [c])"
    and "hasCdrValue v \<Longrightarrow> \<exists>s. v = JStr s \<and> s \<noteq> [] \<and> js_trim s = s"
  using assms by (auto simp: addEmaidCandidate_def accepted_def hasCdrValue_def split: if_splits jsv.splits)

lemma collect_candidates:
  assumes "collect_candidates ep cs acc = Inr out"
  shows "out = acc @ List.map_filter accepted cs"
    and "(src, v, p) \<in> set cs \<Longrightarrow> hasCdrValue v \<Longrightarrow> \<exists>s. v = JStr s \<and> s \<noteq> [] \<and> js_trim s = s"
  using assms
proof (induction cs arbitrary: acc)
  case (Cons c cs)
  obtain a b e where c: "c = (a, b, e)" by (cases c)
  case 1
  then obtain acc' where s: "addEmaidCandidate ep c acc = Inr acc'" "collect_candidates ep cs acc' = Inr out"
    by (auto simp: rbind_Inr_iff)
  show ?case using Cons.IH(1) [OF s(2)] add_candidate(1) [OF s(1) [unfolded c]]
    by (simp add: c map_filter_simps split: option.split)
next
  case (Cons c cs)
  case 2
  then obtain acc' where s: "addEmaidCandidate ep c acc = Inr acc'" "collect_candidates ep cs acc' = Inr out"
    by (auto simp: rbind_Inr_iff)
  show ?case using 2(1,2) Cons.IH(2) [OF _ _ s(2)] add_candidate(2) [of ep src v p acc acc'] s(1) by auto
qed (simp_all add: map_filter_simps)

lemma resolveEmaid_owner:
  assumes "resolveEmaid input = Inr r"
  shows "rm_eMAID r \<noteq> [] \<and> js_trim (rm_eMAID r) = rm_eMAID r"
    and "(src, v, p) \<in> set (emaid_sources input) \<Longrightarrow> hasCdrValue v \<Longrightarrow> \<exists>t. v = JStr t \<and> (t = rm_eMAID r \<or> js_lower t = ''null'')"
    and "\<exists>p. (rm_sourceField r, JStr (rm_eMAID r), p) \<in> set (emaid_sources input)"
proof -
  define cs where "cs = List.map_filter accepted (emaid_sources input)"
  define ep where "ep = detectCdrProtocol (JObj input)"
  obtain out where o: "collectEmaidCandidates input ep = Inr out"
    using assms by (auto simp: resolveEmaid_def Let_def rbind_Inr_iff ep_def)
  then have out: "out = cs" and trimmed: "\<And>src v p. (src, v, p) \<in> set (emaid_sources input) \<Longrightarrow> hasCdrValue v \<Longrightarrow>
      \<exists>s. v = JStr s \<and> s \<noteq> [] \<and> js_trim s = s"
    using collect_candidates [of ep "emaid_sources input" "[]" out] by (auto simp: collectEmaidCandidates_def cs_def)
  obtain f rest where f: "cs = f # rest"
    using assms o out by (cases cs) (auto simp: resolveEmaid_def Let_def ep_def)
  have none: "List.find (\<lambda>c. ec_value c \<noteq> ec_value f) rest = None"
    using assms o out f by (cases "List.find (\<lambda>c. ec_value c \<noteq> ec_value f) rest") (auto simp: resolveEmaid_def Let_def ep_def)
  then have same: "\<forall>c \<in> set cs. ec_value c = ec_value f" by (auto simp: f find_None_iff)
  have r: "rm_eMAID r = ec_value f" "rm_sourceField r = ec_source f"
    using assms o out f none by (auto simp: resolveEmaid_def Let_def ep_def)
  have mem: "c \<in> set cs \<longleftrightarrow> (\<exists>x \<in> set (emaid_sources input). accepted x = Some c)" for c
    unfolding cs_def map_filter_def by (auto simp: image_iff) (metis option.sel)+
  have "f \<in> set cs" by (simp add: f)
  then obtain a v b where fx: "(a, v, b) \<in> set (emaid_sources input)" "accepted (a, v, b) = Some f"
    using mem [of f] by auto
  then have fv: "v = JStr (ec_value f)" "ec_source f = a" "hasCdrValue v"
    by (auto simp: accepted_def split: jsv.splits if_splits)
  show "\<exists>p. (rm_sourceField r, JStr (rm_eMAID r), p) \<in> set (emaid_sources input)"
    using fx(1) fv by (auto simp: r)
  show "rm_eMAID r \<noteq> [] \<and> js_trim (rm_eMAID r) = rm_eMAID r"
    using trimmed [OF fx(1) fv(3)] by (simp add: fv(1) r)
  show "\<exists>t. v = JStr t \<and> (t = rm_eMAID r \<or> js_lower t = ''null'')"
    if h: "(src, v, p) \<in> set (emaid_sources input)" "hasCdrValue v" for src v p
  proof -
    obtain t where t: "v = JStr t" using trimmed [OF h] by blast
    show ?thesis
    proof (cases "js_lower t = ''null''")
      case False
      then have "accepted (src, v, p) = Some \<lparr>ec_source = src, ec_value = t, ec_protocol = p\<rparr>"
        using h(2) by (simp add: accepted_def t)
      then have "\<lparr>ec_source = src, ec_value = t, ec_protocol = p\<rparr> \<in> set cs" using h(1) mem by blast
      then show ?thesis using same r(1) t by auto
    qed (use t in blast)
  qed
qed

subsection \<open>Accepted records\<close>

lemma plain_Inr [simp]: "plain r = Inr x \<longleftrightarrow> r = Inr x"
  by (cases r) (simp_all add: plain_def)

lemma normaliseSession_facts:
  assumes "normaliseSession intl now raw = Inr s"
  obtains input r n where "raw = JObj input" "resolveEmaid input = Inr r" "eMAID s = Some (rm_eMAID r)" "uid s = rm_eMAID r"
    "sourceField s = Some (rm_sourceField r)" "startTime s \<le> endTime s" "energyKWh s = js_abs n"
proof -
  obtain input where i: "raw = JObj input" using assms by (cases raw) (auto simp: normaliseSession_def as_object_def)
  show thesis
    using assms that [OF i] by (auto simp: normaliseSession_def as_object_def i rbind_Inr_iff Let_def)
qed

lemma normaliseSession_clock:
  "raw = JObj input \<Longrightarrow> getStartTimeValue input \<noteq> None \<Longrightarrow> normaliseSession intl now' raw = normaliseSession intl now raw"
  by (auto simp: normaliseSession_def as_object_def)

lemma finite_abs: "is_finite (js_abs n) \<Longrightarrow> \<exists>e. js_abs n = Fin e \<and> 0 \<le> e"
  by (cases n) (auto simp: is_finite_def)

lemma accepted_record_facts:
  assumes "validateAndNormaliseCdr intl now raw = Inr s"
  shows "\<exists>input. raw = JObj input \<and> eMAID s = Some (uid s) \<and> uid s \<noteq> [] \<and> js_trim (uid s) = uid s
    \<and> (\<exists>src p. sourceField s = Some src \<and> (src, JStr (uid s), p) \<in> set (emaid_sources input))
    \<and> (\<forall>(src, v, p) \<in> set (emaid_sources input). hasCdrValue v \<longrightarrow> (\<exists>t. v = JStr t \<and> (t = uid s \<or> js_lower t = ''null'')))
    \<and> startTime s \<le> endTime s \<and> (\<exists>e. energyKWh s = Fin e \<and> 0 \<le> e)
    \<and> (\<forall>now'. validateAndNormaliseCdr intl now' raw = Inr s)"
proof -
  obtain input where raw: "raw = JObj input"
    using assms by (cases raw) (auto simp: validateAndNormaliseCdr_def as_object_def)
  have n: "normaliseSession intl now raw = Inr s" and fin: "is_finite (energyKWh s)" and st: "getStartTimeValue input \<noteq> None"
    using assms by (auto simp: validateAndNormaliseCdr_def as_object_def raw rbind_Inr_iff split: option.splits)
  obtain r e where f: "resolveEmaid input = Inr r" "eMAID s = Some (rm_eMAID r)" "uid s = rm_eMAID r"
    "sourceField s = Some (rm_sourceField r)" "startTime s \<le> endTime s" "energyKWh s = js_abs e"
    by (rule normaliseSession_facts [OF n]) (use raw in auto)
  note own = resolveEmaid_owner [OF f(1)]
  have "validateAndNormaliseCdr intl now' raw = Inr s" for now'
    using assms normaliseSession_clock [OF raw st, of intl now' now]
    by (simp add: validateAndNormaliseCdr_def as_object_def raw)
  moreover have "\<exists>e. energyKWh s = Fin e \<and> 0 \<le> e" using finite_abs [of e] fin f(6) by simp
  ultimately show ?thesis using own f raw by (intro exI [of _ input]) (fastforce simp: f(2-4))
qed

text \<open>
    every record the normaliser accepts has one owner and a sane session: the owner id is the eMAID, a
  nonempty text without surrounding blanks that some contract field carries, no contract field names
  anyone else, the end is not before the start, the energy is finite and not negative, and the
  session does not depend on the clock.
\<close>

theorem accepted_record_is_sound:
  assumes "validateAndNormaliseCdr intl now raw = Inr s"
  shows "\<exists>input. raw = JObj input \<and> eMAID s = Some (uid s) \<and> uid s \<noteq> [] \<and> js_trim (uid s) = uid s
    \<and> (\<exists>src p. sourceField s = Some src \<and> (src, JStr (uid s), p) \<in> set (emaid_sources input))
    \<and> (\<forall>(src, v, p) \<in> set (emaid_sources input). hasCdrValue v \<longrightarrow> (\<exists>t. v = JStr t \<and> (t = uid s \<or> js_lower t = ''null'')))
    \<and> startTime s \<le> endTime s \<and> (\<exists>e. energyKWh s = Fin e \<and> 0 \<le> e)
    \<and> (\<forall>now'. validateAndNormaliseCdr intl now' raw = Inr s)"
  by (rule accepted_record_facts [OF assms])

definition sample_input :: js_object where
  "sample_input = [(''session_id'', JStr ''s1''), (''party_id'', JStr ''ABC''),
     (''start_date_time'', JStr ''2026-01-02T10:00:00Z''), (''end_date_time'', JStr ''2026-01-02T11:00:00Z''),
     (''cdr_token_contract_id'', JStr ''DE-ABC-1''), (''evse_id'', JStr ''DE*1''), (''total_energy'', JNum (Fin 12))]"

definition no_intl :: intl where
  "no_intl = \<lparr>resolved_zone = (\<lambda>_. None), zoned_parts = (\<lambda>_ _. None)\<rparr>"

lemma sample_parts_read:
  "rejectUnsupportedCdrKind sample_input = Inr ()"
  "resolveCdrTimeZone no_intl sample_input = Inr None"
  "getSessionValue sample_input = Some (''session_id'', JStr ''s1'')"
  "getProviderValue sample_input = Some (''party_id'', JStr ''ABC'')"
  "getEvseValue sample_input = Some (''evse_id'', JStr ''DE*1'')"
  "getStartTimeValue sample_input = Some (''start_date_time'', JStr ''2026-01-02T10:00:00Z'')"
  "getEndTimeValue sample_input = Some (''end_date_time'', JStr ''2026-01-02T11:00:00Z'')"
  "getEnergyValue sample_input = Some (''total_energy'', JNum (Fin 12))"
  "getDirectionValue sample_input = None"
  by code_simp+

lemma sample_times_read:
  "parseDateValue (JStr ''2026-01-02T10:00:00Z'') ''startTime'' = Inr 1767348000000"
  "parseDateValue (JStr ''2026-01-02T11:00:00Z'') ''endTime'' = Inr 1767351600000"
  by code_simp+

lemma sample_owner_read:
  "resolveEmaid sample_input = Inr \<lparr>rm_eMAID = ''DE-ABC-1'', rm_sourceField = ''cdr_token_contract_id'', rm_protocol = OCPI,
     rm_tokenMetadata = None\<rparr>"
  by code_simp

definition accepted_session :: session where
  "accepted_session = \<lparr>sessionId = ''s1'', providerId = ''ABC'', eMAID = Some ''DE-ABC-1'', emaid = Some ''DE-ABC-1'',
     protocol = Some OCPI, sourceField = Some ''cdr_token_contract_id'', tokenMetadata = None, uid = ''DE-ABC-1'',
     evseId = ''DE*1'', startTime = 1767348000000, endTime = 1767351600000, energyKWh = Fin 12, energyDirection = CHARGE,
     cdrId = None, reservationSessionId = None, chargingSessionId = None, timeZone = None, timeZoneSource = None\<rparr>"

lemma sample_record_session: "validateAndNormaliseCdr intl now (JObj sample_input) = Inr accepted_session"
proof -
  have t: "firstPresent (named_fields sample_input [''session_id'']) = Some (''session_id'', JStr ''s1'')"
    "firstPresent (named_fields sample_input [''id'']) = None" "hasCdrValue (JStr ''s1'')" "hasCdrValue (JStr ''ABC'')"
    "hasCdrValue (JStr ''DE*1'')" by code_simp+
  have z: "resolveCdrTimeZone intl sample_input = Inr None" by code_simp
  show ?thesis
    by (simp add: validateAndNormaliseCdr_def normaliseSession_def as_object_def sample_parts_read sample_times_read z
        sample_owner_read t plain_def guard_def required_string_def stringValue_def parseEnergyValue_def is_finite_def
        resolve_direction_def optional_string_def Let_def accepted_session_def)
qed

lemma sample_record_accepted:
  "\<exists>s. validateAndNormaliseCdr no_intl 0 (JObj sample_input) = Inr s \<and> uid s = ''DE-ABC-1'' \<and> timeZone s = None
    \<and> chargingSessionId s = None \<and> startTime s = 1767348000000 \<and> endTime s = 1767351600000"
  by (simp add: sample_record_session accepted_session_def)

theorem accepted_record_is_sound_witness:
  "\<exists>s. validateAndNormaliseCdr no_intl 0 (JObj sample_input) = Inr s \<and> eMAID s = Some ''DE-ABC-1''
    \<and> validateAndNormaliseCdr no_intl 7 (JObj sample_input) = Inr s"
proof -
  obtain s where s: "validateAndNormaliseCdr no_intl 0 (JObj sample_input) = Inr s" "uid s = ''DE-ABC-1''"
    using sample_record_accepted by blast
  from accepted_record_is_sound [OF s(1)] s show ?thesis by auto
qed

subsection \<open>Rejected owners\<close>

definition misformed_source :: "string \<times> jsv \<times> cdr_protocol \<Rightarrow> bool" where
  "misformed_source c = (case c of (src, v, p) \<Rightarrow> hasCdrValue v \<and> (case v of JStr s \<Rightarrow> js_trim s \<noteq> s | _ \<Rightarrow> True))"

lemma collect_candidates_error:
  assumes "collect_candidates ep cs acc = Inl e"
  shows "\<exists>i. e = Identity i \<and> ci_code i = INVALID_EMAID \<and> (\<exists>c \<in> set cs. misformed_source c \<and> ci_sourceFields i = [fst c])"
  using assms
proof (induction cs arbitrary: acc)
  case (Cons c cs)
  obtain a v b where c: "c = (a, v, b)" by (cases c)
  show ?case
  proof (cases "addEmaidCandidate ep c acc")
    case (Inl x)
    then have "e = x" using Cons.prems by simp
    moreover have "\<exists>i. x = Identity i \<and> ci_code i = INVALID_EMAID \<and> misformed_source c \<and> ci_sourceFields i = [fst c]"
      using Inl by (auto simp: addEmaidCandidate_def misformed_source_def c split: if_splits jsv.splits)
    ultimately show ?thesis by auto
  next
    case (Inr acc')
    then show ?thesis using Cons.IH [of acc'] Cons.prems by auto
  qed
qed simp

text \<open>
  Every rejected owner is classified for what is wrong with the record: a contract field that is no
  trimmed text, two contract fields that name different owners, or no owner at all, which is UID_ONLY
  exactly when the record carries some token uid. A uid alone never makes an owner.
\<close>

theorem rejected_owner_classified:
  assumes "resolveEmaid input = Inl e"
  shows "\<exists>i. e = Identity i \<and>
    (case ci_code i of
       INVALID_EMAID \<Rightarrow> \<exists>c \<in> set (emaid_sources input). misformed_source c \<and> ci_sourceFields i = [fst c]
     | CONFLICTING_IDENTIFIERS \<Rightarrow> \<exists>f c. f \<in> set (List.map_filter accepted (emaid_sources input))
         \<and> c \<in> set (List.map_filter accepted (emaid_sources input)) \<and> ec_value f \<noteq> ec_value c
     | UID_ONLY \<Rightarrow> List.map_filter accepted (emaid_sources input) = [] \<and> collectUidSourceFields input \<noteq> []
     | MISSING_EMAID \<Rightarrow> List.map_filter accepted (emaid_sources input) = [] \<and> collectUidSourceFields input = []
     | INVALID_PAYLOAD \<Rightarrow> False)"
proof -
  define ep where "ep = detectCdrProtocol (JObj input)"
  define cs where "cs = List.map_filter accepted (emaid_sources input)"
  show ?thesis
  proof (cases "collectEmaidCandidates input ep")
    case (Inl x)
    then have "e = x" using assms by (simp add: resolveEmaid_def Let_def ep_def)
    obtain i where "x = Identity i" "ci_code i = INVALID_EMAID"
      "\<exists>c \<in> set (emaid_sources input). misformed_source c \<and> ci_sourceFields i = [fst c]"
      using collect_candidates_error [OF Inl [unfolded collectEmaidCandidates_def]] by blast
    then show ?thesis using \<open>e = x\<close> by simp
  next
    case (Inr out)
    then have out: "out = cs" using collect_candidates(1) [of ep "emaid_sources input" "[]" out]
      by (simp add: collectEmaidCandidates_def cs_def)
    show ?thesis
    proof (cases cs)
      case Nil
      then have "e = Identity \<lparr>ci_code = (if collectUidSourceFields input \<noteq> [] then UID_ONLY else MISSING_EMAID),
          ci_message = (if collectUidSourceFields input \<noteq> [] then uid_only_message else missing_message),
          ci_protocol = ep, ci_sourceFields = collectUidSourceFields input\<rparr>"
        using assms Inr out by (auto simp: resolveEmaid_def Let_def ep_def)
      then show ?thesis using Nil by (simp add: cs_def)
    next
      case (Cons f rest)
      then obtain c where c: "List.find (\<lambda>c. ec_value c \<noteq> ec_value f) rest = Some c"
        using assms Inr out
        by (cases "List.find (\<lambda>c. ec_value c \<noteq> ec_value f) rest") (auto simp: resolveEmaid_def Let_def ep_def)
      then have "c \<in> set rest" "ec_value c \<noteq> ec_value f" by (auto simp: find_Some_iff)
      moreover have "\<exists>i. e = Identity i \<and> ci_code i = CONFLICTING_IDENTIFIERS"
        using assms Inr out Cons c by (auto simp: resolveEmaid_def Let_def ep_def)
      ultimately show ?thesis using Cons by (fastforce simp: cs_def [symmetric])
    qed
  qed
qed

theorem rejected_owner_classified_witness:
  "\<exists>i. resolveEmaid [(''cdr_token_uid'', JStr ''t'')] = Inl (Identity i) \<and> ci_code i = UID_ONLY
    \<and> collectUidSourceFields [(''cdr_token_uid'', JStr ''t'')] \<noteq> []"
proof -
  have "case resolveEmaid [(''cdr_token_uid'', JStr ''t'')] of Inl (Identity i) \<Rightarrow> ci_code i = UID_ONLY | _ \<Rightarrow> False" by code_simp
  then obtain i where i: "resolveEmaid [(''cdr_token_uid'', JStr ''t'')] = Inl (Identity i)" "ci_code i = UID_ONLY"
    by (auto split: sum.splits cdr_failure.splits)
  from rejected_owner_classified [OF i(1)] i show ?thesis by auto
qed

subsection \<open>Timestamps\<close>

lemma decimal_value_chars:
  assumes "decimal_value t \<noteq> None" and "c \<in> set t"
  shows "is_digit c \<or> c = CHR ''.''"
proof (cases "CHR ''.'' \<in> set t")
  case True
  then obtain a b where t: "t = a @ CHR ''.'' # b" "CHR ''.'' \<notin> set a" using split_list_first by fastforce
  then show ?thesis using assms by (auto simp: decimal_value_def list_all_iff split: if_splits)
next
  case False
  then show ?thesis using assms by (auto simp: decimal_value_def list_all_iff split: if_splits)
qed

lemma plain_decimal_chars:
  assumes "plain_decimal s" and "c \<in> set s"
  shows "is_digit c \<or> c \<in> {CHR ''.'', CHR ''+'', CHR ''-''}"
proof -
  define t where "t = (case s of [] \<Rightarrow> [] | c # r \<Rightarrow> if c = CHR ''+'' \<or> c = CHR ''-'' then r else s)"
  have "c \<in> set t \<or> c \<in> {CHR ''+'', CHR ''-''}" using assms(2) by (cases s) (simp_all add: t_def, blast?)
  moreover have "decimal_value t \<noteq> None" using assms(1) by (simp add: plain_decimal_def Let_def t_def [symmetric])
  ultimately show ?thesis using decimal_value_chars [of t c] by auto
qed

lemma iso_text_no_space:
  assumes civ: "civil_of_day (t div 86400000) = (y, m, d)" and yr: "0 \<le> y" "y \<le> 9999"
  shows "list_all (\<lambda>c. \<not> js_space c) (iso_text t)" and "CHR ''T'' \<in> set (iso_text t)"
proof -
  define r where "r = t mod 86400000"
  have r: "0 \<le> r" "r < 86400000" by (simp_all add: r_def)
  have c: "1 \<le> m" "m \<le> 12" "1 \<le> d" "d \<le> 31"
    using civil_of_day_sound [OF civ] days_in_month_le [of m y] by auto
  have dig: "list_all (\<lambda>c. \<not> js_space c) (int_padded w i)" if "0 \<le> i" "i < 10 ^ w" "0 < w" for w i
    using int_padded_shape(2) [OF that] is_digit_not_space by (auto simp: list_all_iff)
  have "list_all (\<lambda>c. \<not> js_space c) (int_padded 4 y)" "list_all (\<lambda>c. \<not> js_space c) (int_padded 2 m)"
    "list_all (\<lambda>c. \<not> js_space c) (int_padded 2 d)" "list_all (\<lambda>c. \<not> js_space c) (int_padded 2 (r div 3600000))"
    "list_all (\<lambda>c. \<not> js_space c) (int_padded 2 (r div 60000 mod 60))"
    "list_all (\<lambda>c. \<not> js_space c) (int_padded 2 (r div 1000 mod 60))" "list_all (\<lambda>c. \<not> js_space c) (int_padded 3 (r mod 1000))"
    by (rule dig; use yr c r in simp; fail)+
  then show "list_all (\<lambda>c. \<not> js_space c) (iso_text t)" "CHR ''T'' \<in> set (iso_text t)"
    using yr by (simp_all add: iso_text_def civ iso_year_def Let_def r_def js_space_def)
qed

text \<open>
  Every instant the services print (\<open>toISOString\<close>, years 0 to 9999) is read back by the strict
  timestamp parser of the normaliser as the same instant, to the millisecond.
\<close>

theorem printed_instant_parses_back:
  assumes "civil_of_day (t div 86400000) = (y, m, d)" and "0 \<le> y" and "y \<le> 9999"
  shows "parseDateValue (JStr (iso_text t)) fieldName = Inr t"
proof -
  have trim: "js_trim (iso_text t) = iso_text t" by (rule js_trim_id [OF iso_text_no_space(1) [OF assms]])
  have T: "CHR ''T'' \<in> set (iso_text t)" by (rule iso_text_no_space(2) [OF assms])
  have np: "\<not> plain_decimal (iso_text t)" using plain_decimal_chars [OF _ T] by (auto simp: is_digit_def)
  have ne: "iso_text t \<noteq> []" using T by auto
  obtain f where "read_iso (iso_text t) = Some f" "valid_fields f" "time_of_fields f = t" using read_iso_text [OF assms] by blast
  then show ?thesis using np ne by (simp add: parseDateValue_def Let_def trim)
qed

theorem printed_instant_parses_back_witness:
  "parseDateValue (JStr (iso_text 951868799999)) ''endTime'' = Inr 951868799999"
proof -
  have "civil_of_day (951868799999 div 86400000) = (2000, 2, 29)" by code_simp
  then show ?thesis by (rule printed_instant_parses_back) simp_all
qed

end
