(* ===== verification/SnapshotLaws.thy ===== *)
theory SnapshotLaws
  imports AwardSnapshot NormaliserLaws
begin

text \<open>
  What a stored recovery snapshot is good for: the claim of an accepted charging record, read back
  from the ledger by a later process, is the same session and the same record; and nothing that
  differs from the durable intent of the operation is ever recovered.
\<close>

subsection \<open>The amount column as a number\<close>

lemma numeric2_chars: "c \<in> set (numeric2_text u) \<Longrightarrow> is_digit c \<or> c = CHR ''.''"
proof -
  assume "c \<in> set (numeric2_text u)"
  then have "c \<in> set (nat_text (u div 100)) \<or> c = CHR ''.'' \<or> c = digit_char (u div 10 mod 10) \<or> c = digit_char (u mod 10)"
    by (auto simp: numeric2_text_def)
  then show ?thesis using nat_text_digits [of "u div 100"] digit_char_val(1) [of "u mod 10"] digit_char_val(1) [of "u div 10 mod 10"]
    by (auto simp: list_all_iff)
qed

lemma digit_lower: "is_digit c \<or> c = CHR ''.'' \<Longrightarrow> lower_char c = c"
  by (elim disjE) (simp, simp add: lower_char_def)

lemma digit_is_no_letter:
  "is_digit c \<or> c = CHR ''.'' \<Longrightarrow> c \<noteq> CHR ''x'' \<and> c \<noteq> CHR ''o'' \<and> c \<noteq> CHR ''b'' \<and> c \<noteq> CHR ''e'' \<and> c \<noteq> CHR ''I''
    \<and> c \<noteq> CHR ''-'' \<and> c \<noteq> CHR ''+''"
  by (auto simp: is_digit_def)

lemma numeric2_mantissa: "mantissa_value (numeric2_text u) = Some (of_nat u / 100)"
proof -
  define f where "f = [digit_char (u div 10 mod 10), digit_char (u mod 10)]"
  have d: "list_all is_digit f" and l: "length f = 2" by (simp_all add: f_def)
  have v: "digits_val f = 10 * (u div 10 mod 10) + u mod 10" by (simp add: f_def digits_val_def)
  have "u div 100 * 100 + digits_val f = u"
    unfolding v div_mult2_eq [of u 10 10, simplified]
    using mult_div_mod_eq [of 10 u] mult_div_mod_eq [of 10 "u div 10"] by linarith
  then have sum: "digits_val (nat_text (u div 100) @ f) = u" by (simp add: digits_val_append l)
  have n: "CHR ''.'' \<notin> set (nat_text (u div 100))" by (rule not_in_nat_text) (simp add: is_digit_def)
  have s: "split_first CHR ''.'' (numeric2_text u) = (nat_text (u div 100), Some f)"
    using n by (simp add: numeric2_text_def f_def)
  with sum s d l nat_text_digits [of "u div 100"] show ?thesis by (simp add: mantissa_value_def)
qed

lemma column_number:
  assumes "u < 10 ^ 13"
  shows "text_number (numeric2_text u) = units_number u"
proof -
  let ?t = "numeric2_text u"
  obtain c r where t: "?t = c # r" by (cases ?t) (auto simp: numeric2_text_def)
  have c: "is_digit c \<or> c = CHR ''.''" using numeric2_chars [of c u] t by simp
  have chars: "x \<in> set r \<Longrightarrow> is_digit x \<or> x = CHR ''.''" for x using numeric2_chars [of x u] t by simp
  have x: "map lower_char (take 1 r) \<notin> {''x'', ''o'', ''b''}"
  proof (cases r)
    case (Cons a as)
    then show ?thesis using chars [of a] digit_lower [of a] digit_is_no_letter [of a] by simp
  qed simp
  have s: "c \<noteq> CHR ''-''" "c \<noteq> CHR ''+''" "c \<noteq> CHR ''I''" using digit_is_no_letter [OF c] by simp_all
  have e: "\<forall>y \<in> set ?t. lower_char y \<noteq> CHR ''e''"
    using numeric2_chars digit_lower digit_is_no_letter by metis
  then have w: "takeWhile (\<lambda>y. lower_char y \<noteq> CHR ''e'') ?t = ?t" "dropWhile (\<lambda>y. lower_char y \<noteq> CHR ''e'') ?t = []"
    by simp_all
  have "?t \<noteq> ''Infinity''" using s t by simp
  then have "signed_number 1 ?t = js_of_rat (of_nat u / 100)"
    by (simp add: signed_number_def unsigned_value_def w numeric2_mantissa)
  then have "text_number ?t = js_of_rat (of_nat u / 100)"
    using x s js_trim_numeric2 [of u] unfolding t text_number_def by (simp add: Let_def)
  moreover have "js_of_rat (of_int (int u)) = Fin (of_nat u)"
    using fl_of_int [of "int u"] assms by (simp add: js_of_rat_def Let_def)
  ultimately show ?thesis by (simp add: units_number_def)
qed

subsection \<open>A stored session reads back\<close>

lemma field_append: "field (a @ b) k = (if k \<in> fst ` set a then field a k else field b k)"
  by (induction a) (auto simp: field_def split: prod.splits)

lemma field_optional [simp]:
  "field (optional_field k' x @ b) k = (if k = k' then (case x of None \<Rightarrow> field b k | Some s \<Rightarrow> JStr s) else field b k)"
  "field (optional_field k' x) k = (if k = k' then (case x of None \<Rightarrow> JUndef | Some s \<Rightarrow> JStr s) else JUndef)"
  by (simp_all add: optional_field_def split: option.split)

lemma field_case_option [simp]:
  "field ((case x of None \<Rightarrow> [] | Some m \<Rightarrow> [(k', f m)]) @ b) k =
    (if k = k' then (case x of None \<Rightarrow> field b k | Some m \<Rightarrow> f m) else field b k)"
  by (simp split: option.split)

lemma text_protocol_text [simp]: "text_protocol (protocol_text p) = Some p"
  by (cases p) (simp_all add: text_protocol_def protocol_text_def)

lemma text_source_text [simp]: "text_source (source_text s) = Some s" "source_text s \<noteq> []"
  by (cases s; simp add: text_source_def source_text_def)+

lemma text_direction_text [simp]: "text_direction (JStr (direction_text d)) = Some d"
  by (cases d) (simp_all add: text_direction_def direction_text_def)

lemma copy_optional [simp]:
  "map (\<lambda>(k, v). (k, json_copy v)) (filter (\<lambda>(k, v). v \<noteq> JUndef) (optional_field k x)) = optional_field k x"
  by (simp add: optional_field_def split: option.split)

lemma metadata_copy [simp]: "json_copy (metadata_value m) = metadata_value m"
  by (simp add: metadata_value_def)

lemma metadata_back: "metadata_value m = JObj ob \<Longrightarrow> value_metadata ob = m"
  by (auto simp: metadata_value_def value_metadata_def text_field_def split: option.split)

text \<open>The session a reader gets: the owner under both names, and optional texts only when they are not empty.\<close>

definition stored_session :: "session \<Rightarrow> session" where
  "stored_session s = s\<lparr>eMAID := Some (uid s), emaid := Some (uid s), cdrId := nonempty (cdrId s),
     reservationSessionId := nonempty (reservationSessionId s), chargingSessionId := nonempty (chargingSessionId s),
     timeZone := nonempty (timeZone s)\<rparr>"

lemma serialise_fields:
  assumes "serialiseNormalisedSession s = Inr ob"
  obtains p source where "protocol s = Some p" "sourceField s = Some source" "source \<noteq> []" "uid s \<noteq> []"
    "is_finite (energyKWh s)" "js_le (Fin 0) (energyKWh s)" "ob = session_fields s (uid s) p source"
proof -
  have "nonempty x = Some y \<Longrightarrow> x = Some y \<and> y \<noteq> []" for x :: "string option" and y
    by (cases x) (auto simp: nonempty_def split: if_splits)
  then have "uid s \<noteq> []" if "session_owner s = Some (uid s)"
    using that by (auto simp: session_owner_def split: option.splits)
  then show thesis
    using assms that by (auto simp: serialiseNormalisedSession_def rbind_Inr_iff snapshot_check_def nonempty_def
        split: option.splits if_splits)
qed

lemma session_field_values:
  assumes "ob = session_fields s (uid s) p source"
  shows "field ob ''sessionId'' = JStr (sessionId s)" "field ob ''providerId'' = JStr (providerId s)"
    "field ob ''eMAID'' = JStr (uid s)" "field ob ''emaid'' = JStr (uid s)" "field ob ''protocol'' = JStr (protocol_text p)"
    "field ob ''sourceField'' = JStr source" "field ob ''uid'' = JStr (uid s)" "field ob ''evseId'' = JStr (evseId s)"
    "field ob ''startTime'' = JStr (iso_text (startTime s))" "field ob ''endTime'' = JStr (iso_text (endTime s))"
    "field ob ''energyKWh'' = JNum (energyKWh s)" "field ob ''energyDirection'' = JStr (direction_text (energyDirection s))"
    "text_field ob ''cdrId'' = nonempty (cdrId s)" "text_field ob ''reservationSessionId'' = nonempty (reservationSessionId s)"
    "text_field ob ''chargingSessionId'' = nonempty (chargingSessionId s)" "text_field ob ''timeZone'' = nonempty (timeZone s)"
    "text_field ob ''timeZoneSource'' = map_option source_text (timeZoneSource s)"
    "field ob ''tokenMetadata'' = (case tokenMetadata s of None \<Rightarrow> JUndef | Some m \<Rightarrow> metadata_value m)"
  by (simp_all add: assms session_fields_def text_field_def split: option.split)

lemma text_field_JStr: "field ob k = JStr t \<Longrightarrow> text_field ob k = Some t"
  by (simp add: text_field_def)

lemma session_roundtrip:
  assumes ob: "serialiseNormalisedSession s = Inr ob" and ne: "sessionId s \<noteq> []" "providerId s \<noteq> []" "evseId s \<noteq> []"
    and order: "startTime s \<le> endTime s"
    and dates: "js_date (iso_text (startTime s)) = Some (startTime s)" "js_date (iso_text (endTime s)) = Some (endTime s)"
  shows "deserialiseNormalisedSession js_date (JObj ob) = Inr (stored_session s)"
proof -
  obtain p source where f: "protocol s = Some p" "sourceField s = Some source" "source \<noteq> []" "uid s \<noteq> []"
    "is_finite (energyKWh s)" "js_le (Fin 0) (energyKWh s)" "ob = session_fields s (uid s) p source"
    by (rule serialise_fields [OF ob])
  note v = session_field_values [OF f(7)]
  note t = v(1-10) [THEN text_field_JStr] v(12) [THEN text_field_JStr]
  have req: "required_texts ob required_names = Inr ()"
    using ne f(3,4) by (simp add: required_names_def snapshot_check_def t nonempty_def guard_def)
  have idem: "nonempty (nonempty x) = nonempty x" for x by (simp add: nonempty_def split: option.split)
  have tm: "field ob ''tokenMetadata'' = JUndef \<or> is_record (field ob ''tokenMetadata'')"
    by (simp add: v is_record_def metadata_value_def split: option.split)
  have meta: "map_option (\<lambda>ob. value_metadata (case json_copy (JObj ob) of JObj c \<Rightarrow> c | _ \<Rightarrow> []))
         (as_object (field ob ''tokenMetadata'')) = tokenMetadata s"
  proof (cases "tokenMetadata s")
    case (Some m)
    obtain mo where mo: "metadata_value m = JObj mo" by (simp add: metadata_value_def)
    then have "json_copy (JObj mo) = JObj mo" using metadata_copy [of m] by simp
    then show ?thesis using metadata_back [OF mo] by (simp only: v Some option.case mo as_object_def jsv.case) simp
  qed (simp add: v as_object_def)
  have src: "Option.bind (nonempty (text_field ob ''timeZoneSource'')) text_source = timeZoneSource s"
    by (cases "timeZoneSource s") (simp_all add: v nonempty_def)
  show ?thesis
    unfolding deserialiseNormalisedSession_def Let_def
    using order f(1,2,5,6) dates req tm meta src
    by (simp add: as_object_def t v(11,12,13-16) idem snapshot_check_def guard_def of_option_def stored_session_def)
qed

subsection \<open>Accepted records\<close>

lemma stringValue_nonempty: "stringValue v n = Inr t \<Longrightarrow> t \<noteq> []"
  by (auto simp: stringValue_def hasCdrValue_def js_trim_def split: jsv.splits if_splits)

lemma required_nonempty: "required_string v n = Inr t \<Longrightarrow> t \<noteq> []"
  using stringValue_nonempty by (auto simp: required_string_def split: option.splits prod.splits)

lemma optional_kept: "optional_string w v n = Inr x \<Longrightarrow> nonempty x = x"
  using stringValue_nonempty
  by (auto simp: optional_string_def nonempty_def rbind_Inr_iff split: option.splits prod.splits if_splits)

lemma source_names: "(src, v, p) \<in> set (emaid_sources input) \<Longrightarrow> src \<noteq> []"
  by (auto simp: emaid_sources_def identification_candidates_def owner_fields_def split: option.splits prod.splits)

lemma plain_iff: "plain r = Inr x \<longleftrightarrow> r = Inr x"
  by (cases r) (simp_all add: plain_def)

lemma accepted_record_is_sound_facts:
  assumes "validateAndNormaliseCdr intl now raw = Inr s"
  shows "\<exists>input. raw = JObj input" "eMAID s = Some (uid s)" "uid s \<noteq> []"
    "\<exists>input src p. sourceField s = Some src \<and> (src, JStr (uid s), p) \<in> set (emaid_sources input)"
    "startTime s \<le> endTime s" "\<exists>e. energyKWh s = Fin e \<and> 0 \<le> e" "validateAndNormaliseCdr intl now' raw = Inr s"
  using accepted_record_facts [OF assms] by blast+

lemma normalised_shape:
  assumes "normaliseSession intl now raw = Inr s"
  shows "sessionId s \<noteq> []" "providerId s \<noteq> []" "evseId s \<noteq> []" "emaid s = eMAID s" "protocol s \<noteq> None"
    "nonempty (cdrId s) = cdrId s" "nonempty (reservationSessionId s) = reservationSessionId s"
    "nonempty (chargingSessionId s) = chargingSessionId s"
proof -
  obtain input where i: "raw = JObj input" using assms by (cases raw) (auto simp: normaliseSession_def as_object_def)
  show "sessionId s \<noteq> []" "providerId s \<noteq> []" "evseId s \<noteq> []" "emaid s = eMAID s" "protocol s \<noteq> None"
    "nonempty (cdrId s) = cdrId s" "nonempty (reservationSessionId s) = reservationSessionId s"
    "nonempty (chargingSessionId s) = chargingSessionId s"
    using assms required_nonempty optional_kept
    by (auto simp: normaliseSession_def as_object_def i rbind_Inr_iff plain_iff Let_def)
qed

lemma accepted_shape:
  assumes "validateAndNormaliseCdr intl now raw = Inr s"
  shows "sessionId s \<noteq> []" "providerId s \<noteq> []" "evseId s \<noteq> []" "emaid s = Some (uid s)" "eMAID s = Some (uid s)"
    "uid s \<noteq> []" "startTime s \<le> endTime s" "nonempty (timeZone s) = timeZone s \<Longrightarrow> stored_session s = s"
    "\<exists>ob. serialiseNormalisedSession s = Inr ob" "is_record raw" "validateAndNormaliseCdr intl now' raw = Inr s"
proof -
  note sound = accepted_record_is_sound_facts [OF assms]
  show "is_record raw" using sound(1) by (auto simp: is_record_def)
  obtain input where i: "raw = JObj input" using sound(1) by blast
  have n: "normaliseSession intl now raw = Inr s"
    using assms by (auto simp: validateAndNormaliseCdr_def as_object_def i rbind_Inr_iff split: option.splits)
  note shape = normalised_shape [OF n]
  show "sessionId s \<noteq> []" "providerId s \<noteq> []" "evseId s \<noteq> []" by (rule shape)+
  show e: "eMAID s = Some (uid s)" and "emaid s = Some (uid s)" using sound(2) shape(4) by simp_all
  show u: "uid s \<noteq> []" "startTime s \<le> endTime s" "validateAndNormaliseCdr intl now' raw = Inr s" by (fact sound(3,5,7))+
  show "stored_session s = s" if "nonempty (timeZone s) = timeZone s"
    using that shape(4,6-8) e by (simp add: stored_session_def)
  obtain src where src: "sourceField s = Some src" "src \<noteq> []" using sound(4) source_names by blast
  obtain q where q: "energyKWh s = Fin q" "0 \<le> q" using sound(6) by blast
  have "js_le (Fin 0) (Fin q)" using q(2) by (auto simp: js_le_def)
  then show "\<exists>ob. serialiseNormalisedSession s = Inr ob"
    using e u src q shape(5)
    by (auto simp: serialiseNormalisedSession_def snapshot_check_def guard_def session_owner_def nonempty_def is_finite_def of_option_def)
qed

subsection \<open>Properties\<close>

lemma fingerprint_amount: "awardIntentFingerprint sha256 s amount wallet = awardIntentFingerprint sha256 s amount' wallet"
  by (simp add: awardIntentFingerprint_def)

lemma snapshot_parses:
  assumes accepted: "validateAndNormaliseCdr intl now raw = Inr s" and copied: "json_copy raw = raw"
    and zone: "nonempty (timeZone s) = timeZone s"
    and made: "createAwardRecoverySnapshot sha256 s amount wallet (Some raw) = Inr a"
    and stored: "field ctx RECOVERY_SNAPSHOT_KEY = snapshot_json a" and digest: "\<And>t. fingerprint_text (sha256 t)"
    and dates: "js_date (iso_text (startTime s)) = Some (startTime s)" "js_date (iso_text (endTime s)) = Some (endTime s)"
  shows "parseAwardRecoverySnapshot js_date (Some ctx) = Inr (Some a)" and "as_raw a = Some raw"
    and "as_fingerprint a = awardIntentFingerprint sha256 s amount wallet"
    and "serialiseNormalisedSession s = Inr (as_session a)"
    and "deserialiseNormalisedSession js_date (JObj (as_session a)) = Inr s"
proof -
  note shape = accepted_shape [OF accepted]
  have undef: "raw \<noteq> JUndef" using shape(10) by (auto simp: is_record_def)
  obtain ob where ob: "serialiseNormalisedSession s = Inr ob" using shape(9) by blast
  have a: "a = \<lparr>as_fingerprint = awardIntentFingerprint sha256 s amount wallet, as_session = ob, as_raw = Some raw\<rparr>"
    using made ob shape(10) undef copied
    by (simp add: createAwardRecoverySnapshot_def snapshot_check_def guard_def cloneSnapshotValue_def)
  have restored: "deserialiseNormalisedSession js_date (JObj ob) = Inr s"
    using session_roundtrip [OF ob shape(1-3) shape(7), of js_date] dates shape(8) [OF zone] by simp
  have fp: "fingerprint_text (awardIntentFingerprint sha256 s amount wallet)"
    using digest by (simp add: awardIntentFingerprint_def tokenIntentFingerprint_def)
  define fields where "fields = [(''version'', JNum (Fin (of_nat AWARD_RECOVERY_SNAPSHOT_VERSION))),
     (''fingerprint'', JStr (as_fingerprint a)), (''normalisedSession'', JObj ob), (''rawCDR'', raw)]"
  have v: "field ctx RECOVERY_SNAPSHOT_KEY = JObj fields"
    using stored by (simp add: snapshot_json_def fields_def a)
  have f: "field fields ''version'' = JNum (Fin (of_nat AWARD_RECOVERY_SNAPSHOT_VERSION))"
    "text_field fields ''fingerprint'' = Some (as_fingerprint a)" "field fields ''normalisedSession'' = JObj ob"
    "field fields ''rawCDR'' = raw"
    by (simp_all add: fields_def text_field_def)
  show "parseAwardRecoverySnapshot js_date (Some ctx) = Inr (Some a)"
    using fp undef shape(10) copied
    by (simp add: parseAwardRecoverySnapshot_def v f as_object_def of_option_def snapshot_check_def guard_def restored ob
        cloneSnapshotValue_def a)
  show "as_raw a = Some raw" "as_fingerprint a = awardIntentFingerprint sha256 s amount wallet"
    "serialiseNormalisedSession s = Inr (as_session a)" "deserialiseNormalisedSession js_date (JObj (as_session a)) = Inr s"
    using ob restored by (simp_all add: a)
qed

lemma snapshot_validates:
  assumes accepted: "validateAndNormaliseCdr (re_intl env) now raw = Inr s"
    and a: "as_raw a = Some raw" "as_fingerprint a = awardIntentFingerprint (re_sha256 env) s amount (op_wallet r)"
    "deserialiseNormalisedSession (re_date env) (JObj (as_session a)) = Inr s"
    "serialiseNormalisedSession s = Inr (as_session a)"
    and row: "op_uid r = uid s" "op_fingerprint r = awardIntentFingerprint (re_sha256 env) s amount (op_wallet r)"
    "op_amount r < 10 ^ 13"
  shows "validateStoredRecoverySnapshot env r a required = Inr (s, Some raw)"
proof -
  obtain p source where f: "as_session a = session_fields s (uid s) p source" by (rule serialise_fields [OF a(4)])
  have u: "text_field (as_session a) ''uid'' = Some (uid s)" by (rule text_field_JStr [OF session_field_values(7) [OF f]])
  have n: "is_finite (text_number (numeric2_text (op_amount r)))"
    using column_number [OF row(3)] units_number_Fin [OF row(3)] by (simp add: is_finite_def)
  note clock = accepted_shape(11) [OF accepted, of "re_now env"]
  show ?thesis
    unfolding validateStoredRecoverySnapshot_def Let_def
    using a row u n clock
      fingerprint_amount [of "re_sha256 env" s "text_number (numeric2_text (op_amount r))" "op_wallet r" amount]
    by (simp add: snapshot_check_def guard_def canonicalTokenAmount_text)
qed

text \<open>
  C36: a claim survives its process. When a claim stored the snapshot of an accepted record, any later
  process recovers from the operation exactly the session and the record that were claimed, whatever
  it was sent itself; so does the recovery that has no request at all. Assumed of the surroundings:
  the record came from JSON, SHA-256 digests are 64 hexadecimal digits, \<open>new Date\<close> reads back what
  \<open>toISOString\<close> printed, a canonical time zone has a name, amounts are below 10^13 cents; and when
  the record names a charging session, the request that recovers it names the same one.
\<close>

theorem stored_claim_recovers:
  assumes "validateAndNormaliseCdr (re_intl env) now raw = Inr s" and "json_copy raw = raw"
    and "nonempty (timeZone s) = timeZone s"
    and "createAwardRecoverySnapshot (re_sha256 env) s amount (op_wallet r) (Some raw) = Inr a"
    and "op_intent r = Some ctx" and "field ctx RECOVERY_SNAPSHOT_KEY = snapshot_json a"
    and "op_uid r = uid s" and "op_fingerprint r = awardIntentFingerprint (re_sha256 env) s amount (op_wallet r)"
    and "op_amount r < 10 ^ 13" and "\<And>t. fingerprint_text (re_sha256 env t)"
    and "re_date env (iso_text (startTime s)) = Some (startTime s)"
    and "re_date env (iso_text (endTime s)) = Some (endTime s)"
    and "chargingSessionId s = None \<or> chargingSessionId current = chargingSessionId s"
  shows "resolveRecoveryInput env r current request = Inr \<lparr>ri_session = s, ri_raw = raw\<rparr>
    \<and> parseAwardRecoverySnapshot (re_date env) (op_intent r) = Inr (Some a)
    \<and> validateStoredRecoverySnapshot env r a True = Inr (s, Some raw)"
proof -
  note parse = snapshot_parses [OF assms(1-4,6,10-12)]
  note valid = snapshot_validates [OF assms(1) parse(2,3,5,4) assms(7-9)]
  obtain p source where f: "as_session a = session_fields s (uid s) p source" by (rule serialise_fields [OF parse(4)])
  have saved: "nonempty (text_field (as_session a) ''chargingSessionId'') = nonempty (chargingSessionId s)"
    using session_field_values(15) [OF f] by (simp add: nonempty_def split: option.split)
  have "nonempty (chargingSessionId s) = None \<or> nonempty (chargingSessionId s) = chargingSessionId current"
    using assms(13) by (cases "chargingSessionId s") (auto simp: nonempty_def)
  then show ?thesis
    using parse(1,2) valid assms(5) by (simp add: resolveRecoveryInput_def saved guard_def)
qed

definition sample_recovery :: recovery_env where
  "sample_recovery = \<lparr>re_sha256 = (\<lambda>_. replicate 64 CHR ''a''), re_date = (\<lambda>t. map_option time_of_fields (read_iso t)),
     re_intl = no_intl, re_now = 9\<rparr>"

definition claimed_row :: "session \<Rightarrow> award_snapshot \<Rightarrow> operation_row" where
  "claimed_row s a = \<lparr>op_id = ''i'', op_key = ''k'', op_type = AWARD, op_legacy_key = None,
     op_fingerprint = replicate 64 CHR ''a'', op_uid = uid s, op_wallet = ''0xw'', op_amount = 500, op_session_id = None,
     op_provider_id = None, op_charging_session = None, op_reservation = None,
     op_intent = Some [(RECOVERY_SNAPSHOT_KEY, snapshot_json a)], op_status = SUBMITTING, op_outcome = Some OUT_UNKNOWN,
     op_tx_hash = None, op_tx_nonce = None, op_tx_context = None, op_diagnostic = None, op_error = None,
     op_submitted_at = None, op_confirmed_at = None, op_projected_at = None, op_created = 0, op_updated = 0\<rparr>"

lemma sample_dates_read:
  "re_date sample_recovery (iso_text 1767348000000) = Some 1767348000000"
  "re_date sample_recovery (iso_text 1767351600000) = Some 1767351600000"
proof -
  have "map_option time_of_fields (read_iso (iso_text 1767348000000)) = Some 1767348000000"
    "map_option time_of_fields (read_iso (iso_text 1767351600000)) = Some 1767351600000"
    by code_simp+
  then show "re_date sample_recovery (iso_text 1767348000000) = Some 1767348000000"
    "re_date sample_recovery (iso_text 1767351600000) = Some 1767351600000"
    by (simp_all add: sample_recovery_def)
qed

lemma sample_fingerprints: "fingerprint_text (re_sha256 sample_recovery t)"
  "awardIntentFingerprint (re_sha256 sample_recovery) s amount w = replicate 64 CHR ''a''"
proof -
  have "fingerprint_text (replicate 64 CHR ''a'')" by code_simp
  then show "fingerprint_text (re_sha256 sample_recovery t)" by (simp add: sample_recovery_def)
  show "awardIntentFingerprint (re_sha256 sample_recovery) s amount w = replicate 64 CHR ''a''"
    by (simp add: sample_recovery_def awardIntentFingerprint_def tokenIntentFingerprint_def)
qed

lemma sample_claim_stored:
  "\<exists>s a. validateAndNormaliseCdr no_intl 0 (JObj sample_input) = Inr s \<and> timeZone s = None \<and> chargingSessionId s = None
    \<and> startTime s = 1767348000000 \<and> endTime s = 1767351600000
    \<and> createAwardRecoverySnapshot (re_sha256 sample_recovery) s (Fin 5) ''0xw'' (Some (JObj sample_input)) = Inr a"
proof -
  obtain s where s: "validateAndNormaliseCdr no_intl 0 (JObj sample_input) = Inr s" "timeZone s = None"
    "chargingSessionId s = None" "startTime s = 1767348000000" "endTime s = 1767351600000"
    using sample_record_accepted by blast
  obtain ob where "serialiseNormalisedSession s = Inr ob" using accepted_shape(9) [OF s(1)] by blast
  then show ?thesis using s
    by (auto simp: createAwardRecoverySnapshot_def snapshot_check_def guard_def is_record_def cloneSnapshotValue_def)
qed

theorem stored_claim_recovers_witness:
  "\<exists>s a. validateAndNormaliseCdr no_intl 0 (JObj sample_input) = Inr s
    \<and> resolveRecoveryInput sample_recovery (claimed_row s a) s JNull = Inr \<lparr>ri_session = s, ri_raw = JObj sample_input\<rparr>"
proof -
  obtain s a where s: "validateAndNormaliseCdr no_intl 0 (JObj sample_input) = Inr s" "timeZone s = None"
    "chargingSessionId s = None" "startTime s = 1767348000000" "endTime s = 1767351600000"
    and a: "createAwardRecoverySnapshot (re_sha256 sample_recovery) s (Fin 5) ''0xw'' (Some (JObj sample_input)) = Inr a"
    using sample_claim_stored by blast
  have copy: "json_copy (JObj sample_input) = JObj sample_input" by (simp add: sample_input_def is_finite_def)
  have v: "validateAndNormaliseCdr (re_intl sample_recovery) 0 (JObj sample_input) = Inr s"
    using s(1) by (simp add: sample_recovery_def)
  show ?thesis
    using stored_claim_recovers [OF v copy, of "Fin 5" "claimed_row s a" a "[(RECOVERY_SNAPSHOT_KEY, snapshot_json a)]" s JNull] s a
      sample_fingerprints sample_dates_read
    by (auto simp: claimed_row_def nonempty_def)
qed

text \<open>
  Recovery never changes the financial intent. Whatever the ledger row and the request hold, a
  recovery input that is accepted is either the request itself, for a row without a snapshot, or a
  session with the owner, the charging session and the fingerprint of the durable operation.
\<close>

theorem recovered_input_is_the_claim:
  assumes "resolveRecoveryInput env r current request = Inr i"
  shows "parseAwardRecoverySnapshot (re_date env) (op_intent r) = Inr None
      \<and> i = \<lparr>ri_session = current, ri_raw = request\<rparr>
    \<or> awardIntentFingerprint (re_sha256 env) (ri_session i) amount (op_wallet r) = op_fingerprint r
      \<and> (op_uid r = [] \<or> uid (ri_session i) = op_uid r)
      \<and> (chargingSessionId (ri_session i) = None \<or> chargingSessionId (ri_session i) = chargingSessionId current)"
proof -
  obtain found where found: "parseAwardRecoverySnapshot (re_date env) (op_intent r) = Inr found"
    using assms by (auto simp: resolveRecoveryInput_def rbind_Inr_iff)
  show ?thesis
  proof (cases found)
    case None
    then show ?thesis using assms found by (simp add: resolveRecoveryInput_def)
  next
    case (Some a)
    obtain s stored where v: "validateStoredRecoverySnapshot env r a False = Inr (s, stored)" and i: "ri_session i = s"
      and c: "nonempty (text_field (as_session a) ''chargingSessionId'') = None
        \<or> nonempty (text_field (as_session a) ''chargingSessionId'') = chargingSessionId current"
      using assms by (auto simp: resolveRecoveryInput_def found Some rbind_Inr_iff Let_def)
    have d: "deserialiseNormalisedSession (re_date env) (JObj (as_session a)) = Inr s"
      and fp: "awardIntentFingerprint (re_sha256 env) s amount (op_wallet r) = op_fingerprint r"
      and u: "op_uid r = [] \<or> text_field (as_session a) ''uid'' = Some (op_uid r)"
      using v fingerprint_amount [of "re_sha256 env" s amount "op_wallet r" "text_number (numeric2_text (op_amount r))"]
      by (auto simp: validateStoredRecoverySnapshot_def Let_def rbind_Inr_iff snapshot_check_def)
    have "uid s = (case text_field (as_session a) ''uid'' of None \<Rightarrow> [] | Some t \<Rightarrow> t)"
      "chargingSessionId s = nonempty (text_field (as_session a) ''chargingSessionId'')"
      using d by (auto simp: deserialiseNormalisedSession_def Let_def rbind_Inr_iff as_object_def)
    with c u fp i show ?thesis by auto
  qed
qed

theorem recovered_input_is_the_claim_witness:
  "\<exists>s a. awardIntentFingerprint (re_sha256 sample_recovery) s (Fin 1) ''0xw'' = op_fingerprint (claimed_row s a)
    \<and> resolveRecoveryInput sample_recovery ((claimed_row s a)\<lparr>op_intent := None\<rparr>) s JNull = Inr \<lparr>ri_session = s, ri_raw = JNull\<rparr>"
proof -
  obtain s a where "createAwardRecoverySnapshot (re_sha256 sample_recovery) s (Fin 5) ''0xw'' (Some (JObj sample_input)) = Inr a"
    using sample_claim_stored by blast
  have r: "resolveRecoveryInput sample_recovery ((claimed_row s a)\<lparr>op_intent := None\<rparr>) s JNull
      = Inr \<lparr>ri_session = s, ri_raw = JNull\<rparr>"
    by (simp add: resolveRecoveryInput_def parseAwardRecoverySnapshot_def)
  show ?thesis
    using recovered_input_is_the_claim [OF r, of "Fin 1"] r sample_fingerprints(2) [of s "Fin 1" "''0xw''"]
    by (auto simp: claimed_row_def)
qed

end
