(* ===== verification/Reservations.thy ===== *)
theory Reservations
  imports Ledger
begin

text \<open>
  \<open>SpendReservations\<close> of \<open>src/database/service.ts\<close>: holds on a wallet's balance for a charging
  session, their settlement context, and their completion.
\<close>

definition find_reservation :: "db \<Rightarrow> string \<Rightarrow> reservation_row option" where
  "find_reservation d i = row_at rv_id i (t_reservations d)"

definition session_reservation :: "string \<Rightarrow> string \<Rightarrow> string \<Rightarrow> reservation_row \<Rightarrow> bool" where
  "session_reservation u s p r \<longleftrightarrow> rv_uid r = u \<and> rv_session_id r = s \<and> rv_provider_id r = p"

definition findBySession :: "db \<Rightarrow> string \<Rightarrow> string \<Rightarrow> string \<Rightarrow> reservation_row option" where
  "findBySession d u s p = first_where (session_reservation u s p) (t_reservations d)"

definition findByIdForUid :: "db \<Rightarrow> string \<Rightarrow> string \<Rightarrow> reservation_row option" where
  "findByIdForUid d i u = first_where (\<lambda>r. rv_id r = i \<and> rv_uid r = u) (t_reservations d)"

definition getActiveTotal :: "db \<Rightarrow> string \<Rightarrow> string option \<Rightarrow> js_number" where
  "getActiveTotal d u wallet =
     js_of_rat (of_nat (case nonempty wallet of
        Some w \<Rightarrow> wallet_holds d w
      | None \<Rightarrow> sum_where (\<lambda>r. rv_status r \<in> {RESERVED, SETTLING} \<and> rv_uid r = u) rv_reserved (t_reservations d)) / 100)"

definition update_reservations :: "(reservation_row \<Rightarrow> bool) \<Rightarrow> (reservation_row \<Rightarrow> reservation_row) \<Rightarrow> db \<Rightarrow> db" where
  "update_reservations P f d = d\<lparr>t_reservations := update_where P f (t_reservations d)\<rparr>"

definition optional_tx_hash :: "string option \<Rightarrow> string \<Rightarrow> db_error + string option" where
  "optional_tx_hash x fld =
     (case nonempty x of None \<Rightarrow> Inr None | Some t \<Rightarrow> rbind (canonical_hash t fld) (\<lambda>h. Inr (Some h)))"

subsection \<open>Reserving\<close>

record reserve_request =
  rq_uid :: string
  rq_wallet :: string
  rq_session_id :: string
  rq_provider_id :: string
  rq_amount :: js_number
  rq_balance :: "string + js_number"
  rq_auth_tx_hash :: "string option"
  rq_auth_amount :: "js_number option"

record reserve_result =
  rr_reservation :: reservation_row
  rr_available :: js_number
  rr_existing :: bool

definition insert_reservation :: "db \<Rightarrow> reservation_row \<Rightarrow> db_error + db" where
  "insert_reservation d n =
     (if list_ex (session_reservation (rv_uid n) (rv_session_id n) (rv_provider_id n)) (t_reservations d)
         \<or> list_ex (\<lambda>r. rv_id r = rv_id n) (t_reservations d)
      then Inl (UNIQUE_VIOLATION ''spend_reservations_uid_session_id_provider_id'')
      else Inr (d\<lparr>t_reservations := t_reservations d @ [n]\<rparr>))"

definition new_reservation ::
    "int \<Rightarrow> string \<Rightarrow> reserve_request \<Rightarrow> nat \<Rightarrow> string option \<Rightarrow> nat option \<Rightarrow> reservation_row" where
  "new_reservation now ident q u auth_hash auth_units =
     \<lparr>rv_id = ident, rv_uid = rq_uid q, rv_wallet = rq_wallet q, rv_session_id = rq_session_id q,
      rv_provider_id = rq_provider_id q, rv_reserved = u, rv_settled = None, rv_released = None,
      rv_delivered_kwh = None, rv_context = None, rv_status = RESERVED, rv_tx_hash = None, rv_error = None,
      rv_auth_tx_hash = auth_hash, rv_auth_amount = auth_units, rv_reserved_at = now, rv_settled_at = None,
      rv_updated = now\<rparr>"

definition authorization_units :: "js_number option \<Rightarrow> db_error + nat option" where
  "authorization_units x =
     (case x of None \<Rightarrow> Inr None
      | Some v \<Rightarrow> (case canonicalTokenAmount (JNum v) of
          None \<Rightarrow> Inl (Token UNSUPPORTED_TOKEN_PRECISION) | Some a \<Rightarrow> Inr (Some (units a))))"

definition reserve :: "int \<Rightarrow> string \<Rightarrow> reserve_request \<Rightarrow> db \<Rightarrow> db_error + (reserve_result \<times> db)" where
  "reserve now ident q d =
     rbind (of_option (Token UNSUPPORTED_TOKEN_PRECISION) (canonicalTokenAmount (JNum (rq_amount q)))) (\<lambda>requested.
     rbind (authorization_units (rq_auth_amount q)) (\<lambda>auth.
     case findBySession d (rq_uid q) (rq_session_id q) (rq_provider_id q) of
       Some existing \<Rightarrow>
         if \<not> same_text (rv_wallet existing) (rq_wallet q) \<or> rv_reserved existing \<noteq> units requested
         then Inl RESERVATION_INTENT_MISMATCH
         else Inr (\<lparr>rr_reservation = existing, rr_available = Fin 0, rr_existing = True\<rparr>, d)
     | None \<Rightarrow>
         rbind (sampled (rq_balance q)) (\<lambda>onChain.
         rbind (of_option SPEND_BALANCE_UNAVAILABLE (truncateTokenAmount (JNum onChain))) (\<lambda>balance.
         rbind (decimalUnits (JStr (numeric2_text (wallet_holds d (rq_wallet q))))) (\<lambda>holds.
         rbind (decimalUnits (JStr (numeric2_text (manual_total d (rq_wallet q) (\<lambda>_. True))))) (\<lambda>manual.
         (let availableUnits = int (units balance) - int holds - int manual;
              available = units_number (nat availableUnits) in
          rbind (guard (int (units requested) \<le> availableUnits) (INSUFFICIENT_SPARKZ available)) (\<lambda>_.
          rbind (optional_tx_hash (rq_auth_tx_hash q) ''authorization transaction hash'') (\<lambda>ah.
          (let n = new_reservation now ident q (units requested) ah auth in
          rbind (insert_reservation d n) (\<lambda>d'.
          Inr (\<lparr>rr_reservation = n, rr_available = js_sub available (amount_value requested), rr_existing = False\<rparr>, d'))))))))))))"

definition claimForSettlement :: "int \<Rightarrow> string \<Rightarrow> string \<Rightarrow> string \<Rightarrow> db \<Rightarrow> reservation_row option \<times> db" where
  "claimForSettlement now u s p d =
     (let P = (\<lambda>r. session_reservation u s p r \<and> rv_status r = RESERVED);
          f = (\<lambda>r. r\<lparr>rv_status := SETTLING, rv_error := None, rv_updated := now\<rparr>)
      in (returning_where P f (t_reservations d), update_reservations P f d))"

subsection \<open>Settlement context\<close>

definition pad_end3 :: "string \<Rightarrow> string" where
  "pad_end3 f = take 3 f @ replicate (3 - length f) CHR ''0''"

text \<open>\<open>/^\d+(?:\.\d+)?$/\<close> and the split at the point.\<close>

definition decimal_split :: "string \<Rightarrow> (string \<times> string) option" where
  "decimal_split t =
     (case split_first (CHR ''.'') t of
        (w, None) \<Rightarrow> if w \<noteq> [] \<and> list_all is_digit w then Some (w, []) else None
      | (w, Some f) \<Rightarrow> if w \<noteq> [] \<and> list_all is_digit w \<and> f \<noteq> [] \<and> list_all is_digit f then Some (w, f) else None)"

definition settlement_of :: "string \<times> string \<Rightarrow> settlement_context" where
  "settlement_of dk = (case dk of (w, f) \<Rightarrow>
     \<lparr>sc_deliveredKwh = w @ ''.'' @ (if f = [] then ''0'' else f),
      sc_normalizedThreeDecimal = w @ ''.'' @ pad_end3 f, sc_sourcePrecision = length f\<rparr>)"

text \<open>The text of a \<open>numeric(20, 3)\<close> column holding thousandths, and the value such a text stores.\<close>

definition numeric3_text :: "nat \<Rightarrow> string" where
  "numeric3_text u = nat_text (u div 1000) @ ''.'' @
     [digit_char (u div 100 mod 10), digit_char (u div 10 mod 10), digit_char (u mod 10)]"

definition thousandths :: "string \<times> string \<Rightarrow> nat" where
  "thousandths dk = (case dk of (w, f) \<Rightarrow> digits_val (w @ pad_end3 f))"

definition delivered_split :: "js_number \<Rightarrow> (string \<times> string) option" where
  "delivered_split v =
     (case v of
        Fin x \<Rightarrow> if x < 0 then None else decimal_split (num_text v)
      | _ \<Rightarrow> None)"

definition column_normalized :: "nat \<Rightarrow> string" where
  "column_normalized u =
     (case split_first (CHR ''.'') (numeric3_text u) of
        (w, None) \<Rightarrow> w @ ''.'' @ pad_end3 [] | (w, Some f) \<Rightarrow> w @ ''.'' @ pad_end3 f)"

definition persistSettlementContext :: "int \<Rightarrow> string \<Rightarrow> js_number \<Rightarrow> db \<Rightarrow> db_error + (reservation_row option \<times> db)" where
  "persistSettlementContext now i deliveredKwh d =
     rbind (of_option INVALID_SETTLEMENT_CONTEXT (delivered_split deliveredKwh)) (\<lambda>dk.
     rbind (guard (length (snd dk) \<le> 12) INVALID_SETTLEMENT_CONTEXT) (\<lambda>_.
     case find_reservation d i of
       None \<Rightarrow> Inl (RESERVATION_NOT_FOUND i)
     | Some current \<Rightarrow>
         (case rv_context current of
            Some c \<Rightarrow>
              if sc_deliveredKwh c \<noteq> sc_deliveredKwh (settlement_of dk) then Inl RESERVATION_SETTLEMENT_CONTEXT_MISMATCH
              else Inr (Some current, d)
          | None \<Rightarrow>
              (case rv_delivered_kwh current of
                 Some u \<Rightarrow>
                   if column_normalized u \<noteq> sc_normalizedThreeDecimal (settlement_of dk)
                   then Inl RESERVATION_SETTLEMENT_CONTEXT_MISMATCH
                   else Inr (Some current, d)
               | None \<Rightarrow>
                   (let f = (\<lambda>r. r\<lparr>rv_delivered_kwh := Some (thousandths dk), rv_context := Some (settlement_of dk),
                           rv_updated := now\<rparr>)
                    in Inr (returning_where (\<lambda>r. rv_id r = i) f (t_reservations d),
                            update_reservations (\<lambda>r. rv_id r = i) f d))))))"

subsection \<open>Completion\<close>

definition final_reservation :: "reservation_status \<Rightarrow> bool" where
  "final_reservation s \<longleftrightarrow> s = SETTLED \<or> s = RELEASED"

definition complete ::
    "int \<Rightarrow> string \<Rightarrow> js_number \<Rightarrow> js_number \<Rightarrow> string option \<Rightarrow> db \<Rightarrow> db_error + (reservation_row option \<times> db)" where
  "complete now i deliveredKwh settledAmount' txHash d =
     rbind (optional_tx_hash txHash ''reservation transaction hash'') (\<lambda>h.
     case find_reservation d i of
       None \<Rightarrow> Inl (RESERVATION_NOT_FOUND i)
     | Some current \<Rightarrow>
         if final_reservation (rv_status current) then
           (if h \<noteq> None \<and> given (rv_tx_hash current) \<and> map_option js_lower (rv_tx_hash current) \<noteq> h
            then Inl RESERVATION_TX_HASH_MISMATCH else Inr (Some current, d))
         else
           rbind (of_option (Token UNSUPPORTED_TOKEN_PRECISION)
             (canonicalTokenAmount (JStr (numeric2_text (rv_reserved current))))) (\<lambda>reserved.
           rbind (of_option (Token UNSUPPORTED_TOKEN_PRECISION) (canonicalTokenAmount (JNum settledAmount'))) (\<lambda>requested.
           rbind (of_option INVALID_SETTLEMENT_CONTEXT (delivered_split deliveredKwh)) (\<lambda>dk.
           rbind (guard (case rv_context current of
                 Some c \<Rightarrow> sc_deliveredKwh c = sc_deliveredKwh (settlement_of dk)
               | None \<Rightarrow> (case rv_delivered_kwh current of
                     Some u \<Rightarrow> column_normalized u = sc_normalizedThreeDecimal (settlement_of dk)
                   | None \<Rightarrow> True)) RESERVATION_SETTLEMENT_CONTEXT_MISMATCH) (\<lambda>_.
           (let settledUnits = min (units requested) (units reserved);
                releasedUnits = units reserved - settledUnits;
                f = (\<lambda>r. r\<lparr>rv_status := (if js_less (Fin 0) (units_number settledUnits) then SETTLED else RELEASED),
                   rv_delivered_kwh := Some (case rv_delivered_kwh current of Some u \<Rightarrow> u | None \<Rightarrow> thousandths dk),
                   rv_context := Some (case rv_context current of Some c \<Rightarrow> c | None \<Rightarrow> settlement_of dk),
                   rv_settled := Some (cents_of (to_fixed (units_number settledUnits) 2)),
                   rv_released := Some (cents_of (to_fixed (units_number releasedUnits) 2)),
                   rv_tx_hash := (case h of Some x \<Rightarrow> Some x | None \<Rightarrow> nonempty (rv_tx_hash current)),
                   rv_settled_at := Some now, rv_updated := now\<rparr>)
            in Inr (returning_where (\<lambda>r. rv_id r = i) f (t_reservations d),
                    update_reservations (\<lambda>r. rv_id r = i) f d)))))))"

definition retrySettlement :: "int \<Rightarrow> string \<Rightarrow> string \<Rightarrow> db \<Rightarrow> db" where
  "retrySettlement now i e d =
     (case find_reservation d i of
        None \<Rightarrow> d
      | Some current \<Rightarrow>
          if final_reservation (rv_status current) then d
          else update_reservations (\<lambda>r. rv_id r = i \<and> \<not> final_reservation (rv_status r))
            (\<lambda>r. r\<lparr>rv_status := SETTLING, rv_error := Some e, rv_updated := now\<rparr>) d)"

end
