(* ===== verification/Capacity.thy ===== *)
theory Capacity
  imports Reservations
begin

text \<open>
  The contract that manual spends (\<open>TokenOperations.claim\<close>) and reservations
  (\<open>SpendReservations.reserve\<close>) share: both take the wallet's advisory lock, sample the on-chain balance
  and admit a request only if everything outstanding on that wallet stays within the sample.
\<close>

text \<open>Everything outstanding on a wallet: active reservation holds and unresolved manual spends.\<close>

definition committed :: "db \<Rightarrow> string \<Rightarrow> nat" where
  "committed d w = wallet_holds d w + manual_total d w (\<lambda>_. True)"

locale capacity_guard =
  fixes acquire :: "'q \<Rightarrow> 's \<Rightarrow> 's"
    and outstanding :: "'s \<Rightarrow> string \<Rightarrow> nat"
    and wallet :: "'q \<Rightarrow> string"
    and limit :: "'q \<Rightarrow> nat"
    and checked :: "'q \<Rightarrow> bool"
    and invar :: "'s \<Rightarrow> bool"
  assumes acquire_invar: "invar s \<Longrightarrow> invar (acquire q s)"
    and acquire_own: "invar s \<Longrightarrow> checked q \<Longrightarrow> outstanding (acquire q s) (wallet q) \<le> max (outstanding s (wallet q)) (limit q)"
    and acquire_other: "invar s \<Longrightarrow> wallet q \<noteq> w \<Longrightarrow> outstanding (acquire q s) w = outstanding s w"
begin

definition run :: "'q list \<Rightarrow> 's \<Rightarrow> 's" where
  "run qs s = foldl (\<lambda>s q. acquire q s) s qs"

lemma run_simps [simp]: "run [] s = s" "run (q # qs) s = run qs (acquire q s)"
  by (simp_all add: run_def)

lemma run_bounded:
  "invar s \<Longrightarrow> outstanding s w \<le> b \<Longrightarrow> (\<And>q. q \<in> set qs \<Longrightarrow> wallet q = w \<Longrightarrow> checked q \<and> limit q \<le> b)
    \<Longrightarrow> outstanding (run qs s) w \<le> b"
proof (induction qs arbitrary: s)
  case (Cons q qs)
  have "outstanding (acquire q s) w \<le> b"
  proof (cases "wallet q = w")
    case True
    then show ?thesis using acquire_own [OF Cons.prems(1), of q] Cons.prems(2) Cons.prems(3) [of q] by auto
  next
    case False
    then show ?thesis using acquire_other [OF Cons.prems(1)] Cons.prems(2) by simp
  qed
  then show ?case using Cons.IH [OF acquire_invar [OF Cons.prems(1)]] Cons.prems(3) by simp
qed simp

end

subsection \<open>Manual spends\<close>

lemma same_text_lower [simp]: "same_text a (js_lower w) = same_text a w" "same_text (js_lower a) w = same_text a w"
  by (simp_all add: same_text_def)

lemma committed_lower [simp]: "committed d (js_lower w) = committed d w"
proof -
  have "active_hold (js_lower w) = active_hold w" "unresolved_manual (js_lower w) = unresolved_manual w"
    by (intro ext, simp add: active_hold_def unresolved_manual_def)+
  then show ?thesis by (simp add: committed_def wallet_holds_def manual_total_def)
qed

definition is_manual :: "claim_request \<Rightarrow> bool" where
  "is_manual q \<longleftrightarrow> cr_type q = SPEND \<and> \<not> given (cr_reservation q)"

lemma nonempty_given: "\<not> given x \<Longrightarrow> nonempty x = None"
  by (simp add: given_def)

lemma checkManualCapacity_bound:
  assumes "checkManualCapacity d q = Inr u" and "is_manual q" and "cr_balance q = Some (Inr v)"
    and "truncateTokenAmount (JNum v) = Some b" and "canonicalTokenAmount (JStr (cr_amount q)) = Some a"
  shows "wallet_holds d (cr_wallet q) + manual_total d (cr_wallet q) (\<lambda>r. op_key r \<noteq> cr_key q) + units a \<le> units b"
  using assms by (auto simp: checkManualCapacity_def is_manual_def of_option_def sampled_def Let_def rbind_Inr_iff)

lemma new_unresolved:
  "is_manual q \<Longrightarrow> unresolved_manual w (new_operation now ident q u) \<longleftrightarrow> same_text (cr_wallet q) w"
  by (simp add: unresolved_manual_def new_operation_def is_manual_def nonempty_given)

lemma new_award_unresolved:
  "\<not> is_manual q \<Longrightarrow> \<not> unresolved_manual w (new_operation now ident q u)"
  by (auto simp: unresolved_manual_def new_operation_def is_manual_def given_def)

lemma committed_insert:
  assumes "insert_operation d n = Inr d'"
  shows "committed d' w = committed d w + (if unresolved_manual w n then op_amount n else 0)"
proof -
  have d': "d' = d\<lparr>t_operations := t_operations d @ [n]\<rparr>"
    using assms by (auto simp: insert_operation_def split: if_splits)
  show ?thesis by (simp add: d' committed_def wallet_holds_def manual_total_def)
qed

lemma manual_total_fresh:
  assumes "find_operation d k = None"
  shows "manual_total d w (\<lambda>r. op_key r \<noteq> k) = manual_total d w (\<lambda>_. True)"
  unfolding manual_total_def
  by (rule sum_where_cong) (use assms in \<open>auto simp: find_operation_def row_at_None\<close>)

lemma reclaimable_no_hash: "ledger_ok d \<Longrightarrow> find_operation d k = Some e \<Longrightarrow> reclaimable e \<Longrightarrow> op_tx_hash e = None"
proof (rule ccontr)
  assume a: "ledger_ok d" "find_operation d k = Some e" "reclaimable e" "op_tx_hash e \<noteq> None"
  then obtain h where h: "op_tx_hash e = Some h" by auto
  then have "is_tx_hash h" using ledger_ok_hash [OF a(1,2)] by (simp add: hash_ok_def)
  then show False using a(3) h is_tx_hash_nonempty by (auto simp: reclaimable_def)
qed

lemma committed_reclaim:
  assumes ok: "ledger_ok d" and e: "find_operation d k = Some e" and r: "reclaimable e"
  shows "committed (update_operations (\<lambda>r. op_key r = k) (reclaim_row now) d) w
    = committed d w + (if unresolved_manual w (reclaim_row now e) then op_amount e else 0)"
    and "manual_total d w (\<lambda>r. op_key r \<noteq> k) = manual_total d w (\<lambda>_. True)"
proof -
  have none: "\<not> unresolved_manual w e"
    using r reclaimable_no_hash [OF ok e r] by (simp add: reclaimable_def unresolved_manual_def)
  have dist: "distinct (map op_key (t_operations d))" by (rule ops_okD(1) [OF ok [unfolded ledger_ok_def]])
  have row: "row_at op_key k (t_operations d) = Some e" using e by (simp add: find_operation_def)
  have k: "op_key (reclaim_row now e) = k" using row_at_Some [OF row] by (simp add: reclaim_row_def)
  have am: "op_amount (reclaim_row now e) = op_amount e" by (simp add: reclaim_row_def)
  have "manual_total (update_operations (\<lambda>r. op_key r = k) (reclaim_row now) d) w (\<lambda>_. True)
      = manual_total d w (\<lambda>_. True) + (if unresolved_manual w (reclaim_row now e) then op_amount e else 0)"
    using sum_where_update [where key = op_key and g = "reclaim_row now" and P = "\<lambda>r. unresolved_manual w r \<and> True"
        and f = op_amount, OF dist row k] none am
    by (simp add: manual_total_def)
  then show "committed (update_operations (\<lambda>r. op_key r = k) (reclaim_row now) d) w
    = committed d w + (if unresolved_manual w (reclaim_row now e) then op_amount e else 0)"
    by (simp add: committed_def wallet_holds_def update_operations_def)
  show "manual_total d w (\<lambda>r. op_key r \<noteq> k) = manual_total d w (\<lambda>_. True)"
    unfolding manual_total_def
  proof (rule sum_where_cong)
    fix r assume m: "r \<in> set (t_operations d)"
    have "op_key r = k \<Longrightarrow> r = e" by (rule row_unique [OF dist row m])
    then show "(unresolved_manual w r \<and> op_key r \<noteq> k) = (unresolved_manual w r \<and> True)" using none by auto
  qed
qed

lemma claim_committed:
  assumes ok: "ledger_ok d" and c: "claim now ident q d = Inr (c, d')" and m: "is_manual q"
    and v: "cr_balance q = Some (Inr v)" "truncateTokenAmount (JNum v) = Some b"
  shows "committed d' (cr_wallet q) \<le> max (committed d (cr_wallet q)) (units b)"
  using c
proof (cases rule: claim_cases)
  case (reclaimed e)
  obtain a where a: "canonicalTokenAmount (JStr (cr_amount q)) = Some a"
    "assertOperationIntent e q (units a) (cr_type q \<noteq> AWARD) = Inr ()"
    using claim_intent [OF c reclaimed(1)] by blast
  have "op_amount e = units a" using m a(2) by (auto simp: assertOperationIntent_def rbind_Inr_iff is_manual_def)
  moreover have "wallet_holds d (cr_wallet q) + manual_total d (cr_wallet q) (\<lambda>_. True) + units a \<le> units b"
    using checkManualCapacity_bound [OF reclaimed(4) m v a(1)] committed_reclaim(2) [OF ok reclaimed(1,2)] by simp
  ultimately show ?thesis
    using committed_reclaim(1) [OF ok reclaimed(1,2), of now "cr_wallet q"] by (simp add: reclaimed(5) committed_def)
next
  case (inserted a)
  have "wallet_holds d (cr_wallet q) + manual_total d (cr_wallet q) (\<lambda>_. True) + units a \<le> units b"
    using checkManualCapacity_bound [OF inserted(4) m v inserted(3)] manual_total_fresh [OF inserted(1)] by simp
  then show ?thesis
    using committed_insert [OF inserted(7), of "cr_wallet q"] by (simp add: committed_def new_operation_def)
qed simp_all

lemma claim_other:
  assumes ok: "ledger_ok d" and c: "claim now ident q d = Inr (c, d')" and w: "\<not> same_text (cr_wallet q) w"
  shows "committed d' w = committed d w"
  using c
proof (cases rule: claim_cases)
  case (reclaimed e)
  obtain a where a: "canonicalTokenAmount (JStr (cr_amount q)) = Some a"
    "assertOperationIntent e q (units a) (cr_type q \<noteq> AWARD) = Inr ()"
    using claim_intent [OF c reclaimed(1)] by blast
  have "same_text (op_wallet e) (cr_wallet q)" using a(2) by (auto simp: assertOperationIntent_def rbind_Inr_iff)
  then have "\<not> same_text (op_wallet e) w" using w by (simp add: same_text_def)
  then have "\<not> unresolved_manual w (reclaim_row now e)" by (simp add: unresolved_manual_def reclaim_row_def)
  then show ?thesis using committed_reclaim(1) [OF ok reclaimed(1,2), of now w] by (simp add: reclaimed(5))
next
  case (inserted a)
  have "\<not> unresolved_manual w (new_operation now ident q (units a))"
    using w by (simp add: unresolved_manual_def new_operation_def)
  then show ?thesis using committed_insert [OF inserted(7), of w] by simp
qed simp_all

subsection \<open>Reservations\<close>

lemma insert_reservation_committed:
  assumes "insert_reservation d n = Inr d'"
  shows "committed d' w = committed d w + (if active_hold w n then rv_reserved n else 0)"
proof -
  have "d' = d\<lparr>t_reservations := t_reservations d @ [n]\<rparr>"
    using assms by (auto simp: insert_reservation_def split: if_splits)
  then show ?thesis by (simp add: committed_def wallet_holds_def manual_total_def)
qed

lemma reserve_cases:
  assumes "reserve now ident q d = Inr (x, d')"
  obtains (existing) "rr_existing x" "d' = d"
  | (fresh) a v b n where "\<not> rr_existing x" "canonicalTokenAmount (JNum (rq_amount q)) = Some a"
      "rq_balance q = Inr v" "truncateTokenAmount (JNum v) = Some b"
      "committed d (rq_wallet q) + units a \<le> units b" "rr_reservation x = n" "rv_reserved n = units a"
      "rv_wallet n = rq_wallet q" "rv_status n = RESERVED" "rv_tx_hash n = None" "insert_reservation d n = Inr d'"
proof -
  obtain a where a: "canonicalTokenAmount (JNum (rq_amount q)) = Some a"
    using assms by (cases "canonicalTokenAmount (JNum (rq_amount q))") (auto simp: reserve_def of_option_def)
  obtain u where u: "authorization_units (rq_auth_amount q) = Inr u"
    using assms a by (cases "authorization_units (rq_auth_amount q)") (auto simp: reserve_def of_option_def)
  show thesis
  proof (cases "findBySession d (rq_uid q) (rq_session_id q) (rq_provider_id q)")
    case (Some e)
    then show thesis using assms a u by (intro existing) (auto simp: reserve_def of_option_def split: if_splits)
  next
    case None
    obtain v where v: "rq_balance q = Inr v"
      using assms a u None by (cases "rq_balance q") (auto simp: reserve_def of_option_def sampled_def)
    obtain b where b: "truncateTokenAmount (JNum v) = Some b"
      using assms a u None v by (cases "truncateTokenAmount (JNum v)") (auto simp: reserve_def of_option_def sampled_def)
    obtain h where h: "optional_tx_hash (rq_auth_tx_hash q) ''authorization transaction hash'' = Inr h"
      "int (units a) \<le> int (units b) - int (wallet_holds d (rq_wallet q)) - int (manual_total d (rq_wallet q) (\<lambda>_. True))"
      "insert_reservation d (new_reservation now ident q (units a) h u) = Inr d'"
      "x = \<lparr>rr_reservation = new_reservation now ident q (units a) h u,
         rr_available = js_sub (units_number (nat (int (units b) - int (wallet_holds d (rq_wallet q))
           - int (manual_total d (rq_wallet q) (\<lambda>_. True))))) (amount_value a), rr_existing = False\<rparr>"
      using assms a u None v b by (auto simp: reserve_def of_option_def sampled_def Let_def rbind_Inr_iff)
    show thesis
      by (rule fresh [OF _ a v b, of "new_reservation now ident q (units a) h u"])
        (use h in \<open>simp_all add: new_reservation_def committed_def\<close>)
  qed
qed

lemma reserve_frame: "reserve now ident q d = Inr (x, d') \<Longrightarrow> t_operations d' = t_operations d"
  by (erule reserve_cases) (auto simp: insert_reservation_def split: if_splits)

lemma reserve_committed:
  assumes r: "reserve now ident q d = Inr (x, d')"
    and v: "rq_balance q = Inr v" "truncateTokenAmount (JNum v) = Some b"
  shows "committed d' (rq_wallet q) \<le> max (committed d (rq_wallet q)) (units b)"
  using r
proof (cases rule: reserve_cases)
  case (fresh a v' b' n)
  then show ?thesis using v insert_reservation_committed [OF fresh(11), of "rq_wallet q"] by (auto split: if_splits)
qed simp

lemma reserve_other:
  assumes r: "reserve now ident q d = Inr (x, d')" and w: "\<not> same_text (rq_wallet q) w"
  shows "committed d' w = committed d w"
  using r
proof (cases rule: reserve_cases)
  case (fresh a v' b' n)
  then show ?thesis using w insert_reservation_committed [OF fresh(11), of w] by (simp add: active_hold_def)
qed simp

subsection \<open>Both kinds interleaved\<close>

text \<open>One admission attempt, in either kind; a rejected attempt changes nothing.\<close>

datatype admission = Manual int string claim_request | Hold int string reserve_request

definition admit :: "admission \<Rightarrow> db \<Rightarrow> db" where
  "admit x d = (case x of
      Manual now ident q \<Rightarrow> (case claim now ident q d of Inl _ \<Rightarrow> d | Inr (_, d') \<Rightarrow> d')
    | Hold now ident q \<Rightarrow> (case reserve now ident q d of Inl _ \<Rightarrow> d | Inr (_, d') \<Rightarrow> d'))"

definition admission_wallet :: "admission \<Rightarrow> string" where
  "admission_wallet x = js_lower (case x of Manual _ _ q \<Rightarrow> cr_wallet q | Hold _ _ q \<Rightarrow> rq_wallet q)"

definition sample_units :: "string + js_number \<Rightarrow> nat" where
  "sample_units s = (case s of Inl _ \<Rightarrow> 0
     | Inr v \<Rightarrow> (case truncateTokenAmount (JNum v) of None \<Rightarrow> 0 | Some b \<Rightarrow> units b))"

definition admission_limit :: "admission \<Rightarrow> nat" where
  "admission_limit x = (case x of
      Manual _ _ q \<Rightarrow> (case cr_balance q of None \<Rightarrow> 0 | Some s \<Rightarrow> sample_units s)
    | Hold _ _ q \<Rightarrow> sample_units (rq_balance q))"

definition admission_checked :: "admission \<Rightarrow> bool" where
  "admission_checked x = (case x of Manual _ _ q \<Rightarrow> is_manual q \<and> cr_balance q \<noteq> None | Hold _ _ q \<Rightarrow> True)"

lemma admit_invar: "ledger_ok d \<Longrightarrow> ledger_ok (admit x d)"
proof (cases x)
  case (Manual now ident q)
  assume "ledger_ok d"
  then show ?thesis using claim_grows [of d now ident q]
    by (auto simp: Manual admit_def ledger_grows_def split: sum.splits)
next
  case (Hold now ident q)
  assume "ledger_ok d"
  then show ?thesis using reserve_frame [of now ident q d]
    by (auto simp: Hold admit_def ledger_ok_def split: sum.splits)
qed

lemma checked_claim_sample:
  assumes "claim now ident q d = Inr (c, d')" and "cl_acquired c" and "is_manual q" and "cr_balance q = Some s"
  shows "\<exists>v b. s = Inr v \<and> truncateTokenAmount (JNum v) = Some b"
proof -
  have "checkManualCapacity d q = Inr ()" using assms(1,2) by (cases rule: claim_cases) simp_all
  then show ?thesis using assms(3,4)
    by (auto simp: checkManualCapacity_def is_manual_def of_option_def sampled_def rbind_Inr_iff split: sum.splits option.splits)
qed

lemma admit_own:
  assumes ok: "ledger_ok d" and ch: "admission_checked x"
  shows "committed (admit x d) (admission_wallet x) \<le> max (committed d (admission_wallet x)) (admission_limit x)"
proof (cases x)
  case (Manual now ident q)
  show ?thesis
  proof (cases "claim now ident q d")
    case (Inr p)
    obtain c d' where p: "p = (c, d')" by (cases p)
    obtain s where m: "is_manual q" "cr_balance q = Some s" using ch by (auto simp: Manual admission_checked_def)
    show ?thesis
    proof (cases "cl_acquired c")
      case True
      then obtain v b where "s = Inr v" "truncateTokenAmount (JNum v) = Some b"
        using checked_claim_sample Inr p m by blast
      then show ?thesis using claim_committed [OF ok Inr [unfolded p] m(1)] m(2) Inr p
        by (simp add: Manual admit_def admission_wallet_def admission_limit_def sample_units_def)
    next
      case False
      with Inr p have "d' = d" by (auto elim: claim_cases)
      then show ?thesis using Inr p by (simp add: Manual admit_def)
    qed
  qed (simp add: Manual admit_def)
next
  case (Hold now ident q)
  show ?thesis
  proof (cases "reserve now ident q d")
    case (Inr p)
    obtain r d' where p: "p = (r, d')" by (cases p)
    from Inr [unfolded p] show ?thesis
    proof (cases rule: reserve_cases)
      case existing
      then show ?thesis using Inr p by (simp add: Hold admit_def)
    next
      case (fresh a v b n)
      then show ?thesis using reserve_committed [OF Inr [unfolded p] fresh(3,4)] Inr p
        by (simp add: Hold admit_def admission_wallet_def admission_limit_def sample_units_def)
    qed
  qed (simp add: Hold admit_def)
qed

lemma admit_other:
  assumes ok: "ledger_ok d" and w: "admission_wallet x \<noteq> js_lower w"
  shows "committed (admit x d) w = committed d w"
proof (cases x)
  case (Manual now ident q)
  have "\<not> same_text (cr_wallet q) w" using w by (simp add: Manual admission_wallet_def same_text_def)
  then show ?thesis using claim_other [OF ok] by (auto simp: Manual admit_def split: sum.splits)
next
  case (Hold now ident q)
  have "\<not> same_text (rq_wallet q) w" using w by (simp add: Hold admission_wallet_def same_text_def)
  then show ?thesis using reserve_other by (auto simp: Hold admit_def split: sum.splits)
qed

text \<open>Wallets are compared by lower-cased address; \<open>outstanding\<close> is read at that form.\<close>

definition outstanding_at :: "db \<Rightarrow> string \<Rightarrow> nat" where
  "outstanding_at d w = (if js_lower w = w then committed d w else 0)"

interpretation capacity: capacity_guard admit outstanding_at admission_wallet admission_limit admission_checked ledger_ok
proof unfold_locales
  have l: "js_lower (admission_wallet x) = admission_wallet x" for x by (simp add: admission_wallet_def)
  show "ledger_ok d \<Longrightarrow> ledger_ok (admit x d)" for d x by (rule admit_invar)
  show "ledger_ok d \<Longrightarrow> admission_checked x \<Longrightarrow> outstanding_at (admit x d) (admission_wallet x)
      \<le> max (outstanding_at d (admission_wallet x)) (admission_limit x)" for d x
    using admit_own by (simp add: outstanding_at_def l)
  show "ledger_ok d \<Longrightarrow> admission_wallet x \<noteq> w \<Longrightarrow> outstanding_at (admit x d) w = outstanding_at d w" for d x w
    using admit_other [of d x w] by (cases "js_lower w = w") (simp_all add: outstanding_at_def)
qed

text \<open>
  C24: a wallet is never over-committed: however manual spends and reservations are interleaved, if
  every request on the wallet carries a balance sample of at most \<open>b\<close> cents, then the active
  reservation holds plus the unresolved manual spends of that wallet never exceed \<open>b\<close>.
\<close>

theorem wallet_never_overcommitted:
  assumes "ledger_ok d" and "committed d w \<le> b"
    and "\<And>x. x \<in> set xs \<Longrightarrow> admission_wallet x = js_lower w \<Longrightarrow> admission_checked x \<and> admission_limit x \<le> b"
  shows "committed (foldl (\<lambda>d x. admit x d) d xs) w \<le> b"
proof -
  have "outstanding_at (capacity.run xs d) (js_lower w) \<le> b"
    by (rule capacity.run_bounded) (use assms in \<open>auto simp: outstanding_at_def\<close>)
  then show ?thesis by (simp add: capacity.run_def outstanding_at_def)
qed

definition sample_hold :: "string \<Rightarrow> nat \<Rightarrow> admission" where
  "sample_hold ident u = Hold 0 ident \<lparr>rq_uid = ''u'', rq_wallet = ''0xA'', rq_session_id = ident, rq_provider_id = ''p'',
     rq_amount = units_number u, rq_balance = Inr (units_number 1000), rq_auth_tx_hash = None, rq_auth_amount = None\<rparr>"

theorem wallet_never_overcommitted_witness:
  "committed (foldl (\<lambda>d x. admit x d) empty_db [sample_hold ''a'' 600, sample_hold ''b'' 300, sample_hold ''c'' 200]) ''0xa'' \<le> 1000"
proof (rule wallet_never_overcommitted)
  show "ledger_ok empty_db" by (simp add: ledger_ok_def empty_db_def ops_ok_def)
  show "committed empty_db ''0xa'' \<le> 1000"
    by (simp add: committed_def wallet_holds_def manual_total_def empty_db_def)
  have "sample_units (Inr (units_number 1000)) = 1000"
    using cents_truncate [of 1000] by (simp add: sample_units_def)
  then show "admission_checked x \<and> admission_limit x \<le> 1000"
    if "x \<in> set [sample_hold ''a'' 600, sample_hold ''b'' 300, sample_hold ''c'' 200]" for x
    using that by (auto simp: sample_hold_def admission_checked_def admission_limit_def)
qed

end
