(* ===== verification/ReservationLife.thy ===== *)
theory ReservationLife
  imports Reservations
begin

text \<open>
  What the reservation operations keep: the identity and the amount of a hold never change, a
  settlement context is written once, a settled or released reservation is never touched again, and a
  completion splits the reserved amount exactly.
\<close>

subsection \<open>The text of a cent amount\<close>

lemma nat_text_cents:
  assumes "100 \<le> u"
  shows "nat_text u = nat_text (u div 100) @ [digit_char (u div 10 mod 10), digit_char (u mod 10)]"
proof -
  have "nat_text u = nat_text (u div 10) @ [digit_char (u mod 10)]"
    using assms by (subst nat_text.simps) simp
  moreover have "nat_text (u div 10) = nat_text (u div 10 div 10) @ [digit_char (u div 10 mod 10)]"
    using assms by (subst nat_text.simps) simp
  moreover have "u div 10 div 10 = u div 100" by (simp add: div_mult2_eq [symmetric])
  ultimately show ?thesis by simp
qed

lemma fixed_text_cents: "fixed_text u 2 = numeric2_text u"
proof -
  consider "u < 10" | "10 \<le> u" "u < 100" | "100 \<le> u" by linarith
  then show ?thesis
  proof cases
    case 1
    then show ?thesis by (simp add: fixed_text_def numeric2_text_def nat_text.simps)
  next
    case 2
    then have "nat_text u = [digit_char (u div 10), digit_char (u mod 10)]"
      by (subst nat_text.simps) (simp add: nat_text.simps [of "u div 10"])
    with 2 show ?thesis by (simp add: fixed_text_def numeric2_text_def nat_text.simps [of 0])
  next
    case 3
    define w where "w = nat_text (u div 100)"
    have m: "nat_text u = w @ [digit_char (u div 10 mod 10), digit_char (u mod 10)]"
      using nat_text_cents [OF 3] by (simp only: w_def)
    have "w \<noteq> []" by (simp add: w_def)
    then have "0 < length w" by simp
    then show ?thesis
      unfolding fixed_text_def numeric2_text_def Let_def m w_def [symmetric] by simp
  qed
qed

lemma to_fixed_units:
  assumes "u < 10 ^ 13"
  shows "to_fixed (units_number u) 2 = numeric2_text u"
proof -
  define x :: rat where "x = of_nat u / 100"
  have b: "0 \<le> x" "x < 10 ^ 11" using assms by (simp_all add: x_def)
  have "0 \<le> fl x" using b by (intro fl_nonneg)
  have close: "\<bar>fl x * 100 - of_nat u\<bar> < 1 / 2"
  proof (cases "u = 0")
    case False
    then have "(1 :: rat) / 100 \<le> x" by (simp add: x_def divide_right_mono)
    moreover have "(2 :: rat) powi (-1022) \<le> 2 powi (-7)" by (subst powi_le_iff(1)) simp_all
    moreover have "(2 :: rat) powi (-7) \<le> 1 / 100" by (simp add: power_int_minus field_simps)
    ultimately have "\<bar>fl x - x\<bar> \<le> x / 2 ^ 53" by (intro fl_rel_error) linarith
    also have "\<dots> < 1 / 200" using b(2) by simp
    finally have "\<bar>fl x - x\<bar> < 1 / 200" .
    moreover have "of_nat u = x * 100" by (simp add: x_def)
    ultimately show ?thesis by linarith
  qed (simp add: x_def)
  then have c: "fl x * 100 - of_nat u < 1 / 2" "of_nat u - fl x * 100 < 1 / 2" unfolding abs_less_iff by linarith+
  have "\<lfloor>fl x * 100 + 1 / 2\<rfloor> = int u" by (rule floor_unique) (use c in \<open>simp_all del: of_nat_less_iff\<close>)
  then have n: "nat (fixed_digits (fl x) 2) = u" by (simp add: fixed_digits_def)
  have "(of_nat u :: rat) < 10 ^ 13" using assms by simp
  then have "fl x < 10 ^ 21" using c by simp
  then have "to_fixed (Fin (fl x)) 2 = fixed_text u 2" using \<open>0 \<le> fl x\<close> n by simp
  then show ?thesis using units_number_Fin [OF assms] by (simp add: fixed_text_cents x_def)
qed

lemma units_number_pos:
  assumes "u < 10 ^ 13"
  shows "js_less (Fin 0) (units_number u) \<longleftrightarrow> 0 < u"
proof (cases "u = 0")
  case False
  have "numeric2_text u \<noteq> numeric2_text 0"
    using False cents_of_text by (metis)
  then have "fl (of_nat u / 100) \<noteq> 0"
    using to_fixed_units [OF assms] to_fixed_units [of 0] units_number_Fin [OF assms] units_number_Fin [of 0] by auto
  moreover have "0 \<le> fl (of_nat u / 100)" by (intro fl_nonneg) simp
  ultimately show ?thesis using False units_number_Fin [OF assms] by simp
qed (simp add: units_number_Fin)

subsection \<open>The order on reservation rows\<close>

definition reservation_slot :: "reservation_row \<Rightarrow> string \<times> string \<times> string" where
  "reservation_slot r = (rv_uid r, rv_session_id r, rv_provider_id r)"

definition same_hold :: "reservation_row \<Rightarrow> reservation_row \<Rightarrow> bool" where
  "same_hold r s \<longleftrightarrow> rv_id s = rv_id r \<and> rv_uid s = rv_uid r \<and> rv_wallet s = rv_wallet r
     \<and> rv_session_id s = rv_session_id r \<and> rv_provider_id s = rv_provider_id r \<and> rv_reserved s = rv_reserved r
     \<and> rv_auth_tx_hash s = rv_auth_tx_hash r \<and> rv_auth_amount s = rv_auth_amount r
     \<and> rv_reserved_at s = rv_reserved_at r"

definition reservation_le :: "reservation_row \<Rightarrow> reservation_row \<Rightarrow> bool" where
  "reservation_le r s \<longleftrightarrow> same_hold r s
     \<and> (rv_context r \<noteq> None \<longrightarrow> rv_context s = rv_context r)
     \<and> (rv_delivered_kwh r \<noteq> None \<longrightarrow> rv_delivered_kwh s = rv_delivered_kwh r)
     \<and> (rv_status r \<noteq> RESERVED \<longrightarrow> rv_status s \<noteq> RESERVED)
     \<and> (final_reservation (rv_status r) \<longrightarrow> s = r)"

text \<open>A finished reservation has its context, and only a finished one has a transaction.\<close>

definition sound_reservation :: "reservation_row \<Rightarrow> bool" where
  "sound_reservation r \<longleftrightarrow> (final_reservation (rv_status r) \<longrightarrow> rv_context r \<noteq> None)
     \<and> (rv_tx_hash r \<noteq> None \<longrightarrow> final_reservation (rv_status r))"

definition reservations_ok :: "db \<Rightarrow> bool" where
  "reservations_ok d \<longleftrightarrow> distinct (map rv_id (t_reservations d)) \<and> distinct (map reservation_slot (t_reservations d))
     \<and> (\<forall>r \<in> set (t_reservations d). sound_reservation r)"

definition reservations_grow :: "db \<Rightarrow> db \<Rightarrow> bool" where
  "reservations_grow d d' \<longleftrightarrow> reservations_ok d' \<and> table_grows rv_id reservation_le (t_reservations d) (t_reservations d')"

lemma reservation_le_refl [simp]: "reservation_le r r"
  by (simp add: reservation_le_def same_hold_def)

lemma reservation_le_trans: "reservation_le a b \<Longrightarrow> reservation_le b c \<Longrightarrow> reservation_le a c"
  unfolding reservation_le_def same_hold_def by (cases "final_reservation (rv_status a)") auto

lemma reservation_le_keys: "reservation_le r s \<Longrightarrow> rv_id s = rv_id r \<and> reservation_slot s = reservation_slot r"
  by (simp add: reservation_le_def same_hold_def reservation_slot_def)

lemma final_reservation_simps [simp]:
  "final_reservation SETTLED" "final_reservation RELEASED" "\<not> final_reservation RESERVED" "\<not> final_reservation SETTLING"
  by (simp_all add: final_reservation_def)

lemma reservations_grow_frame: "reservations_ok d \<Longrightarrow> t_reservations d' = t_reservations d \<Longrightarrow> reservations_grow d d'"
  by (simp add: reservations_grow_def reservations_ok_def table_grows_refl)

lemma update_reservations_table [simp]:
  "t_reservations (update_reservations P f d) = update_where P f (t_reservations d)"
  "t_operations (update_reservations P f d) = t_operations d" "t_leases (update_reservations P f d) = t_leases d"
  "t_approvals (update_reservations P f d) = t_approvals d"
  by (simp_all add: update_reservations_def)

lemma update_reservations_grow:
  assumes ok: "reservations_ok d"
    and le: "\<And>r. r \<in> set (t_reservations d) \<Longrightarrow> P r \<Longrightarrow> reservation_le r (f r)"
    and fin: "\<And>r. r \<in> set (t_reservations d) \<Longrightarrow> P r \<Longrightarrow> sound_reservation r \<Longrightarrow> sound_reservation (f r)"
  shows "reservations_grow d (update_reservations P f d)"
proof -
  have "map rv_id (update_where P f (t_reservations d)) = map rv_id (t_reservations d)"
    "map reservation_slot (update_where P f (t_reservations d)) = map reservation_slot (t_reservations d)"
    by (rule keys_update_set; use le reservation_le_keys in blast)+
  moreover have "sound_reservation r"
    if "r \<in> set (update_where P f (t_reservations d))" for r
    using that ok fin by (auto simp: set_update_where reservations_ok_def)
  ultimately have "reservations_ok (update_reservations P f d)" using ok by (simp add: reservations_ok_def)
  moreover have "table_grows rv_id reservation_le (t_reservations d) (update_where P f (t_reservations d))"
    by (rule table_grows_update) (use le reservation_le_keys in auto)
  ultimately show ?thesis by (simp add: reservations_grow_def)
qed

lemma reservation_row: "reservations_ok d \<Longrightarrow> find_reservation d i = Some c \<Longrightarrow> r \<in> set (t_reservations d) \<Longrightarrow> rv_id r = i \<Longrightarrow> r = c"
  unfolding reservations_ok_def find_reservation_def using row_unique [of rv_id "t_reservations d" i c r] by blast

subsection \<open>Every operation moves up the order\<close>

lemma insert_reservation_grows:
  assumes ok: "reservations_ok d" and i: "insert_reservation d n = Inr d'" and n: "rv_status n = RESERVED" "rv_tx_hash n = None"
  shows "reservations_grow d d'"
proof -
  have d': "d' = d\<lparr>t_reservations := t_reservations d @ [n]\<rparr>"
    and a: "rv_id n \<notin> rv_id ` set (t_reservations d)" "reservation_slot n \<notin> reservation_slot ` set (t_reservations d)"
    using i by (auto simp: insert_reservation_def list_ex_iff session_reservation_def reservation_slot_def split: if_splits)
  have "reservations_ok d'" using ok a n by (auto simp: reservations_ok_def sound_reservation_def d')
  then show ?thesis by (simp add: reservations_grow_def d' table_grows_append)
qed

lemma claimForSettlement_grows: "reservations_ok d \<Longrightarrow> reservations_grow d (snd (claimForSettlement now u s p d))"
  unfolding claimForSettlement_def Let_def snd_conv
  by (rule update_reservations_grow) (auto simp: reservation_le_def same_hold_def sound_reservation_def)

lemma retrySettlement_grows: "reservations_ok d \<Longrightarrow> reservations_grow d (retrySettlement now i e d)"
proof -
  assume ok: "reservations_ok d"
  have "reservations_grow d (update_reservations (\<lambda>r. rv_id r = i \<and> \<not> final_reservation (rv_status r))
      (\<lambda>r. r\<lparr>rv_status := SETTLING, rv_error := Some e, rv_updated := now\<rparr>) d)"
    by (rule update_reservations_grow [OF ok]) (auto simp: reservation_le_def same_hold_def sound_reservation_def)
  then show ?thesis
    using reservations_grow_frame [OF ok refl] by (simp add: retrySettlement_def split: option.split)
qed

lemma persist_cases:
  assumes "persistSettlementContext now i v d = Inr (x, d')"
  obtains (same) c where "find_reservation d i = Some c" "x = Some c" "d' = d"
  | (stored) c dk f where "find_reservation d i = Some c" "delivered_split v = Some dk" "rv_context c = None"
      "rv_delivered_kwh c = None"
      "f = (\<lambda>r. r\<lparr>rv_delivered_kwh := Some (thousandths dk), rv_context := Some (settlement_of dk), rv_updated := now\<rparr>)"
      "x = returning_where (\<lambda>r. rv_id r = i) f (t_reservations d)" "d' = update_reservations (\<lambda>r. rv_id r = i) f d"
proof -
  obtain dk where dk: "delivered_split v = Some dk"
    using assms by (cases "delivered_split v") (auto simp: persistSettlementContext_def of_option_def)
  obtain c where c: "find_reservation d i = Some c"
    using assms dk by (cases "find_reservation d i") (auto simp: persistSettlementContext_def of_option_def rbind_Inr_iff)
  define f :: "reservation_row \<Rightarrow> reservation_row" where
    "f = (\<lambda>r. r\<lparr>rv_delivered_kwh := Some (thousandths dk), rv_context := Some (settlement_of dk), rv_updated := now\<rparr>)"
  show thesis
  proof (cases "rv_context c = None \<and> rv_delivered_kwh c = None")
    case True
    then have "x = returning_where (\<lambda>r. rv_id r = i) f (t_reservations d) \<and> d' = update_reservations (\<lambda>r. rv_id r = i) f d"
      using assms unfolding f_def by (auto simp: persistSettlementContext_def of_option_def rbind_Inr_iff Let_def dk c)
    then show thesis using True by (intro stored [OF c dk _ _ f_def]) simp_all
  next
    case False
    then have "x = Some c \<and> d' = d"
      using assms by (auto simp: persistSettlementContext_def of_option_def rbind_Inr_iff dk c split: option.splits if_splits)
    then show thesis by (intro same [OF c]) simp_all
  qed
qed

lemma persistSettlementContext_grows:
  assumes ok: "reservations_ok d" and p: "persistSettlementContext now i v d = Inr (x, d')"
  shows "reservations_grow d d'"
  using p
proof (cases rule: persist_cases)
  case (same c)
  then show ?thesis using reservations_grow_frame [OF ok] by simp
next
  case (stored c dk f)
  show ?thesis unfolding stored(7)
  proof (rule update_reservations_grow [OF ok])
    fix r assume m: "r \<in> set (t_reservations d)" "rv_id r = i"
    have r: "r = c" by (rule reservation_row [OF ok stored(1) m])
    have "\<not> final_reservation (rv_status c)" using ok m(1) stored(3) r by (auto simp: reservations_ok_def sound_reservation_def)
    then show "reservation_le r (f r)" using stored(3,4) by (simp add: r reservation_le_def same_hold_def stored(5))
    show "sound_reservation r \<Longrightarrow> sound_reservation (f r)" by (simp add: stored(5) sound_reservation_def)
  qed
qed

lemma complete_cases:
  assumes "complete now i kwh v t d = Inr (x, d')"
  obtains (final) c where "find_reservation d i = Some c" "final_reservation (rv_status c)" "x = Some c" "d' = d"
  | (completed) c a dk h f where "find_reservation d i = Some c" "\<not> final_reservation (rv_status c)"
      "canonicalTokenAmount (JNum v) = Some a" "delivered_split kwh = Some dk"
      "\<And>s. rv_context c = Some s \<Longrightarrow> sc_deliveredKwh s = sc_deliveredKwh (settlement_of dk)"
      "f = (\<lambda>r. r\<lparr>rv_status := (if js_less (Fin 0) (units_number (min (units a) (rv_reserved c))) then SETTLED else RELEASED),
         rv_delivered_kwh := Some (case rv_delivered_kwh c of Some u \<Rightarrow> u | None \<Rightarrow> thousandths dk),
         rv_context := Some (case rv_context c of Some s \<Rightarrow> s | None \<Rightarrow> settlement_of dk),
         rv_settled := Some (cents_of (to_fixed (units_number (min (units a) (rv_reserved c))) 2)),
         rv_released := Some (cents_of (to_fixed (units_number (rv_reserved c - min (units a) (rv_reserved c))) 2)),
         rv_tx_hash := h, rv_settled_at := Some now, rv_updated := now\<rparr>)"
      "x = returning_where (\<lambda>r. rv_id r = i) f (t_reservations d)" "d' = update_reservations (\<lambda>r. rv_id r = i) f d"
proof -
  obtain h0 where h0: "optional_tx_hash t ''reservation transaction hash'' = Inr h0"
    using assms by (cases "optional_tx_hash t ''reservation transaction hash''") (auto simp: complete_def)
  obtain c where c: "find_reservation d i = Some c"
    using assms h0 by (cases "find_reservation d i") (auto simp: complete_def)
  show thesis
  proof (cases "final_reservation (rv_status c)")
    case True
    then show thesis using assms h0 c by (intro final [OF c]) (auto simp: complete_def split: if_splits)
  next
    case False
    obtain a where a: "canonicalTokenAmount (JNum v) = Some a"
      using assms h0 c False
      by (cases "canonicalTokenAmount (JNum v)") (auto simp: complete_def of_option_def canonicalTokenAmount_text)
    obtain dk where dk: "delivered_split kwh = Some dk"
      using assms h0 c False a
      by (cases "delivered_split kwh") (auto simp: complete_def of_option_def canonicalTokenAmount_text)
    have g: "case rv_context c of Some s \<Rightarrow> sc_deliveredKwh s = sc_deliveredKwh (settlement_of dk)
        | None \<Rightarrow> (case rv_delivered_kwh c of Some u \<Rightarrow> column_normalized u = sc_normalizedThreeDecimal (settlement_of dk)
            | None \<Rightarrow> True)"
      using assms by (auto simp: complete_def h0 c False a dk of_option_def canonicalTokenAmount_text rbind_Inr_iff)
    show thesis
    proof (rule completed [OF c False a dk _ refl])
      show "rv_context c = Some s \<Longrightarrow> sc_deliveredKwh s = sc_deliveredKwh (settlement_of dk)" for s using g by simp
    qed (use assms in \<open>auto simp: complete_def h0 c False a dk of_option_def canonicalTokenAmount_text rbind_Inr_iff Let_def\<close>)
  qed
qed

lemma complete_grows:
  assumes ok: "reservations_ok d" and p: "complete now i kwh v t d = Inr (x, d')"
  shows "reservations_grow d d'"
  using p
proof (cases rule: complete_cases)
  case (final c)
  then show ?thesis using reservations_grow_frame [OF ok] by simp
next
  case (completed c a dk h f)
  show ?thesis unfolding completed(8)
  proof (rule update_reservations_grow [OF ok])
    fix r assume m: "r \<in> set (t_reservations d)" "rv_id r = i"
    have r: "r = c" by (rule reservation_row [OF ok completed(1) m])
    show "reservation_le r (f r)" using completed(2) by (auto simp: r completed(6) reservation_le_def same_hold_def)
    show "sound_reservation r \<Longrightarrow> sound_reservation (f r)" by (simp add: completed(6) sound_reservation_def)
  qed
qed

subsection \<open>Completion is exact\<close>

text \<open>
   completing an open reservation of less than 10^11 SPARKZ splits it exactly: what is settled and
  what is released add up to the reserved amount to the cent, no more than the requested amount is
  settled, and the status is SETTLED exactly when something was settled. The columns go through
  \<open>toFixed(2)\<close> of a double, so this also says that the double arithmetic loses nothing.
\<close>

theorem reservation_completion_conserves:
  assumes "complete now i kwh v t d = Inr (x, d')" and "find_reservation d i = Some c"
    and "\<not> final_reservation (rv_status c)" and "rv_reserved c < 10 ^ 13" and "canonicalTokenAmount (JNum v) = Some a"
  shows "\<exists>r s l. find_reservation d' i = Some r \<and> x = Some r \<and> rv_settled r = Some s \<and> rv_released r = Some l
    \<and> s + l = rv_reserved c \<and> s = min (units a) (rv_reserved c)
    \<and> rv_status r = (if 0 < s then SETTLED else RELEASED) \<and> rv_reserved r = rv_reserved c"
  using assms(1)
proof (cases rule: complete_cases)
  case (completed c' a' dk h f)
  have eq: "c' = c" "a' = a" using completed(1,3) assms(2,5) by simp_all
  define s where "s = min (units a) (rv_reserved c)"
  have b: "s < 10 ^ 13" "rv_reserved c - s < 10 ^ 13" using assms(4) by (simp_all add: s_def)
  have row: "first_where (\<lambda>r. rv_id r = i) (t_reservations d) = Some c" "rv_id c = i"
    using assms(2) row_at_Some [of rv_id i "t_reservations d" c] by (simp_all add: find_reservation_def row_at_def)
  have "rv_id (f r) = rv_id r" for r by (simp add: completed(6))
  then have "find_reservation d' i = map_option (\<lambda>r. if rv_id r = i then f r else r) (find_reservation d i)"
    unfolding completed(8) find_reservation_def update_reservations_table by (intro row_at_update_set) simp
  then have "find_reservation d' i = Some (f c)" using assms(2) row(2) by simp
  moreover have "x = Some (f c)" using row(1) by (simp add: completed(7) returning_where_def first_where_def)
  moreover have "rv_settled (f c) = Some s" "rv_released (f c) = Some (rv_reserved c - s)"
    "rv_status (f c) = (if 0 < s then SETTLED else RELEASED)" "rv_reserved (f c) = rv_reserved c"
    using b by (simp_all add: completed(6) eq s_def [symmetric] to_fixed_units units_number_pos)
  ultimately show ?thesis unfolding s_def by (intro exI [of _ "f c"]) simp
qed (use assms(2,3) in simp)

definition sample_reservation :: reservation_row where
  "sample_reservation = \<lparr>rv_id = ''r1'', rv_uid = ''U'', rv_wallet = ''0xa'', rv_session_id = ''s'', rv_provider_id = ''p'',
     rv_reserved = 1000, rv_settled = None, rv_released = None, rv_delivered_kwh = None, rv_context = None,
     rv_status = SETTLING, rv_tx_hash = None, rv_error = None, rv_auth_tx_hash = None, rv_auth_amount = None,
     rv_reserved_at = 1, rv_settled_at = None, rv_updated = 1\<rparr>"

definition sample_holds :: db where
  "sample_holds = empty_db\<lparr>t_reservations := [sample_reservation]\<rparr>"

lemma delivered_split_cents:
  assumes "u < 10 ^ 13"
  shows "\<exists>dk. delivered_split (units_number u) = Some dk \<and> length (snd dk) \<le> 2"
proof -
  obtain w f where wf: "num_text (units_number u) = (if f = [] then w else w @ ''.'' @ f)" "w \<noteq> []"
    "list_all is_digit w" "list_all is_digit f" "of_nat (digits_val (w @ f)) / 10 ^ length f = (of_nat u / 100 :: rat)"
    "f \<noteq> [] \<longrightarrow> last f \<noteq> CHR ''0''"
  proof -
    have "decimal_shape (num_text (units_number u)) (of_nat u / 100)"
      using decimalText_cents [OF assms] by (auto simp: decimalText_def split: if_splits)
    then show thesis unfolding decimal_shape_def by (elim exE conjE) (rule that)
  qed
  have "CHR ''.'' \<notin> set w" using wf(3) by (auto simp: list_all_iff is_digit_def)
  then have "decimal_split (num_text (units_number u)) = Some (w, f)"
    unfolding wf(1) decimal_split_def using wf(2-4) by simp
  moreover have "length f \<le> 2" by (rule short_fraction [OF wf(4,6,5)])
  moreover have "\<not> fl (of_nat u / 100) < (0 :: rat)" by (simp add: fl_nonneg not_less)
  ultimately show ?thesis unfolding delivered_split_def units_number_Fin [OF assms] by simp
qed

lemma sample_completion:
  "\<exists>x d'. complete 5 ''r1'' (units_number 400) (units_number 400) None sample_holds = Inr (x, d')"
proof -
  obtain dk where dk: "delivered_split (units_number 400) = Some dk" using delivered_split_cents [of 400] by auto
  have f: "find_reservation sample_holds ''r1'' = Some sample_reservation"
    by (simp add: find_reservation_def sample_holds_def sample_reservation_def)
  have c: "canonicalTokenAmount (JNum (units_number 400)) = Some \<lparr>units = 400, decimal = numeric2_text 400, amount_value = units_number 400\<rparr>"
    by (rule cents_number) simp
  show ?thesis unfolding complete_def
    by (simp add: f dk c optional_tx_hash_def nonempty_def sample_reservation_def of_option_def canonicalTokenAmount_text Let_def guard_def
        del: One_nat_def)
qed

theorem reservation_completion_conserves_witness:
  "\<exists>x d' r. complete 5 ''r1'' (units_number 400) (units_number 400) None sample_holds = Inr (x, d')
    \<and> find_reservation d' ''r1'' = Some r \<and> rv_settled r = Some 400 \<and> rv_released r = Some 600 \<and> rv_status r = SETTLED"
proof -
  obtain x d' where p: "complete 5 ''r1'' (units_number 400) (units_number 400) None sample_holds = Inr (x, d')"
    using sample_completion by blast
  have f: "find_reservation sample_holds ''r1'' = Some sample_reservation"
    by (simp add: find_reservation_def sample_holds_def sample_reservation_def)
  have c: "canonicalTokenAmount (JNum (units_number 400)) = Some \<lparr>units = 400, decimal = numeric2_text 400, amount_value = units_number 400\<rparr>"
    by (rule cents_number) simp
  obtain r s l where r: "find_reservation d' ''r1'' = Some r" "rv_settled r = Some s" "rv_released r = Some l"
    "s + l = rv_reserved sample_reservation" "s = min (units \<lparr>units = 400, decimal = numeric2_text 400, amount_value = units_number 400\<rparr>) (rv_reserved sample_reservation)"
    "rv_status r = (if 0 < s then SETTLED else RELEASED)"
    using reservation_completion_conserves [OF p f _ _ c] by (auto simp: sample_reservation_def)
  have "s = 400" using r(5) by (simp add: sample_reservation_def)
  moreover have "l = 600" using r(4) \<open>s = 400\<close> by (simp add: sample_reservation_def)
  ultimately show ?thesis using p r by auto
qed

end
