(* ===== verification/WalletLife.thy ===== *)
theory WalletLife
  imports Wallets
begin

text \<open>
  The invariant of the wallet tables and that every operation of \<open>Users\<close> and \<open>LinkedWallets\<close> keeps
  it: a contract id has a wallet at most once and at most one active wallet, an external address is
  linked to one contract id, and a contract id links at most five.
\<close>

definition wallet_key :: "user_row \<Rightarrow> string \<times> string" where
  "wallet_key r = (us_uid r, js_lower (us_wallet r))"

definition users_ok :: "user_row list \<Rightarrow> bool" where
  "users_ok t \<longleftrightarrow> distinct (map us_id t)
     \<and> (\<forall>r \<in> set t. \<forall>s \<in> set t. wallet_key r = wallet_key s \<longrightarrow> r = s)
     \<and> (\<forall>r \<in> set t. \<forall>s \<in> set t. us_active r \<and> us_active s \<and> us_uid r = us_uid s \<longrightarrow> r = s)"

definition links_ok :: "linked_row list \<Rightarrow> bool" where
  "links_ok t \<longleftrightarrow> distinct (map (\<lambda>l. js_lower (ln_wallet l)) t)
     \<and> (\<forall>u. length (filter (\<lambda>l. ln_uid l = u) t) \<le> max_linked)"

definition wallets_ok :: "db \<Rightarrow> bool" where
  "wallets_ok d \<longleftrightarrow> users_ok (t_users d) \<and> links_ok (t_linked d)"

lemma user_of_key: "user_of u w r \<longleftrightarrow> wallet_key r = (u, js_lower w)"
  by (simp add: user_of_def wallet_key_def same_text_def)

lemma users_okI:
  assumes "distinct (map us_id t)" and "\<And>r s. r \<in> set t \<Longrightarrow> s \<in> set t \<Longrightarrow> wallet_key r = wallet_key s \<Longrightarrow> r = s"
    and "\<And>r s. r \<in> set t \<Longrightarrow> s \<in> set t \<Longrightarrow> us_active r \<Longrightarrow> us_active s \<Longrightarrow> us_uid r = us_uid s \<Longrightarrow> r = s"
  shows "users_ok t"
  using assms by (simp add: users_ok_def)

lemma users_okD:
  assumes "users_ok t"
  shows "distinct (map us_id t)" and "r \<in> set t \<Longrightarrow> s \<in> set t \<Longrightarrow> wallet_key r = wallet_key s \<Longrightarrow> r = s"
    and "r \<in> set t \<Longrightarrow> s \<in> set t \<Longrightarrow> us_active r \<Longrightarrow> us_active s \<Longrightarrow> us_uid r = us_uid s \<Longrightarrow> r = s"
  using assms by (simp_all add: users_ok_def)

subsection \<open>The user table\<close>

lemma users_ok_append:
  assumes ok: "users_ok t" and id: "us_id n \<notin> us_id ` set t" and key: "wallet_key n \<notin> wallet_key ` set t"
    and act: "us_active n \<Longrightarrow> \<forall>r \<in> set t. us_uid r = us_uid n \<longrightarrow> \<not> us_active r"
  shows "users_ok (t @ [n])"
proof (rule users_okI)
  show "distinct (map us_id (t @ [n]))" using users_okD(1) [OF ok] id by simp
  show "r = s" if "r \<in> set (t @ [n])" "s \<in> set (t @ [n])" "wallet_key r = wallet_key s" for r s
    using that users_okD(2) [OF ok, of r s] key by (auto simp: image_iff)
  show "r = s" if "r \<in> set (t @ [n])" "s \<in> set (t @ [n])" "us_active r" "us_active s" "us_uid r = us_uid s" for r s
    using that users_okD(3) [OF ok, of r s] act by auto
qed

lemma users_ok_update:
  assumes ok: "users_ok t"
    and keep: "\<And>r. r \<in> set t \<Longrightarrow> P r \<Longrightarrow> us_id (f r) = us_id r \<and> us_uid (f r) = us_uid r"
    and key: "\<And>r s. r \<in> set t \<Longrightarrow> s \<in> set t \<Longrightarrow> P r \<Longrightarrow> \<not> P s \<Longrightarrow> wallet_key (f r) \<noteq> wallet_key s"
    and key2: "\<And>r s. r \<in> set t \<Longrightarrow> s \<in> set t \<Longrightarrow> P r \<Longrightarrow> P s \<Longrightarrow> wallet_key (f r) = wallet_key (f s) \<Longrightarrow> r = s"
    and act: "\<And>r s. r \<in> set t \<Longrightarrow> s \<in> set t \<Longrightarrow> P r \<Longrightarrow> us_active (f r) \<Longrightarrow> us_uid r = us_uid s
      \<Longrightarrow> us_active (if P s then f s else s) \<Longrightarrow> r = s"
  shows "users_ok (update_where P f t)"
proof (rule users_okI)
  define g where "g = (\<lambda>r. if P r then f r else r)"
  have set: "set (update_where P f t) = g ` set t" by (simp add: set_update_where g_def)
  have "map us_id (update_where P f t) = map us_id t" by (rule keys_update_set) (use keep in blast)
  then show "distinct (map us_id (update_where P f t))" using users_okD(1) [OF ok] by simp
  show "r = s" if m: "r \<in> set (update_where P f t)" "s \<in> set (update_where P f t)" and k: "wallet_key r = wallet_key s" for r s
  proof -
    obtain x y where x: "x \<in> set t" "r = g x" and y: "y \<in> set t" "s = g y" using m unfolding set by blast
    consider "P x" "P y" | "P x" "\<not> P y" | "\<not> P x" "P y" | "\<not> P x" "\<not> P y" by blast
    then have "x = y"
    proof cases
      case 1 then show ?thesis using key2 [OF x(1) y(1)] k x y by (simp add: g_def)
    next
      case 2 then show ?thesis using key [OF x(1) y(1)] k x y by (simp add: g_def)
    next
      case 3 then show ?thesis using key [OF y(1) x(1)] k x y by (simp add: g_def)
    next
      case 4 then show ?thesis using users_okD(2) [OF ok x(1) y(1)] k x y by (simp add: g_def)
    qed
    then show ?thesis using x y by simp
  qed
  show "r = s" if m: "r \<in> set (update_where P f t)" "s \<in> set (update_where P f t)"
    and a: "us_active r" "us_active s" "us_uid r = us_uid s" for r s
  proof -
    obtain x y where x: "x \<in> set t" "r = g x" and y: "y \<in> set t" "s = g y" using m unfolding set by blast
    have u: "us_uid x = us_uid y" using a(3) x y keep by (auto simp: g_def split: if_splits)
    consider "P x" | "P y" | "\<not> P x" "\<not> P y" by blast
    then have "x = y"
    proof cases
      case 1
      have "us_active (f x)" using a(1) x 1 by (simp add: g_def)
      moreover have "us_active (if P y then f y else y)" using a(2) y by (simp add: g_def)
      ultimately show ?thesis by (rule act [OF x(1) y(1) 1 _ u])
    next
      case 2
      have "us_active (f y)" using a(2) y 2 by (simp add: g_def)
      moreover have "us_active (if P x then f x else x)" using a(1) x by (simp add: g_def)
      ultimately show ?thesis by (intro act [OF y(1) x(1) 2 _ u [symmetric], symmetric])
    next
      case 3 then show ?thesis using users_okD(3) [OF ok x(1) y(1)] a u x y by (simp add: g_def)
    qed
    then show ?thesis using x y by simp
  qed
qed

text \<open>Updates that leave the keys alone and activate nothing.\<close>

lemma users_ok_passive:
  assumes ok: "users_ok t"
    and keep: "\<And>r. P r \<Longrightarrow> us_id (f r) = us_id r \<and> wallet_key (f r) = wallet_key r \<and> (us_active (f r) \<longrightarrow> us_active r)"
  shows "users_ok (update_where P f t)"
proof (rule users_ok_update [OF ok])
  fix r s assume m: "r \<in> set t" "s \<in> set t"
  show "P r \<Longrightarrow> us_id (f r) = us_id r \<and> us_uid (f r) = us_uid r" using keep by (simp add: wallet_key_def)
  show "P r \<Longrightarrow> \<not> P s \<Longrightarrow> wallet_key (f r) \<noteq> wallet_key s" using keep users_okD(2) [OF ok m] by auto
  show "P r \<Longrightarrow> P s \<Longrightarrow> wallet_key (f r) = wallet_key (f s) \<Longrightarrow> r = s" using keep users_okD(2) [OF ok m] by simp
  show "P r \<Longrightarrow> us_active (f r) \<Longrightarrow> us_uid r = us_uid s \<Longrightarrow> us_active (if P s then f s else s) \<Longrightarrow> r = s"
    using keep users_okD(3) [OF ok m] by (auto split: if_splits)
qed

lemma users_ok_filter: "users_ok t \<Longrightarrow> users_ok (filter P t)"
  by (rule users_okI) (auto simp: users_ok_def distinct_map_filter)

lemma update_users_tables [simp]:
  "t_users (update_users P f d) = update_where P f (t_users d)" "t_linked (update_users P f d) = t_linked d"
  by (simp_all add: update_users_def)

lemma insert_user_ok:
  assumes "insert_user d n = Inr d'" and "users_ok (t_users d)"
  shows "users_ok (t_users d') \<and> t_linked d' = t_linked d \<and> t_users d' = t_users d @ [n]"
proof -
  have d': "d' = d\<lparr>t_users := t_users d @ [n]\<rparr>"
    and c: "\<not> list_ex (\<lambda>r. us_id r = us_id n) (t_users d)" "\<not> list_ex (user_of (us_uid n) (us_wallet n)) (t_users d)"
    "\<not> (us_active n \<and> list_ex (\<lambda>r. us_uid r = us_uid n \<and> us_active r) (t_users d))"
    using assms(1) unfolding insert_user_def by (simp_all split: if_splits)
  have "us_id n \<notin> us_id ` set (t_users d)" using c(1) unfolding list_ex_iff image_iff by metis
  moreover have "wallet_key n \<notin> wallet_key ` set (t_users d)"
    using c(2) unfolding list_ex_iff image_iff user_of_key wallet_key_def by metis
  moreover have "us_active n \<Longrightarrow> \<forall>r \<in> set (t_users d). us_uid r = us_uid n \<longrightarrow> \<not> us_active r"
    using c(3) unfolding list_ex_iff by blast
  ultimately show ?thesis using users_ok_append [OF assms(2)] by (simp add: d')
qed

lemma set_active_ok:
  assumes s: "set_active e f d = Inr (x, d')" and ok: "users_ok (t_users d)" and e: "e \<in> set (t_users d)"
    and f: "\<And>r. us_id (f r) = us_id r \<and> wallet_key (f r) = wallet_key r"
  shows "users_ok (t_users d') \<and> t_linked d' = t_linked d"
proof -
  have free: "\<forall>r \<in> set (t_users d). us_uid r = us_uid e \<and> us_id r \<noteq> us_id e \<longrightarrow> \<not> us_active r"
    and d': "d' = update_users (\<lambda>r. us_id r = us_id e) f d"
    using s by (auto simp: set_active_def list_ex_iff split: if_splits)
  have same: "r \<in> set (t_users d) \<Longrightarrow> us_id r = us_id e \<Longrightarrow> r = e" for r
    using distinct_key_eq [OF users_okD(1) [OF ok] _ e] by blast
  have "users_ok (update_where (\<lambda>r. us_id r = us_id e) f (t_users d))"
  proof (rule users_ok_update [OF ok])
    fix r s assume m: "r \<in> set (t_users d)" "s \<in> set (t_users d)" and r: "us_id r = us_id e"
    show "us_id (f r) = us_id r \<and> us_uid (f r) = us_uid r" using f [of r] by (simp add: wallet_key_def)
    show "wallet_key (f r) \<noteq> wallet_key s" if ne: "us_id s \<noteq> us_id e"
    proof
      assume "wallet_key (f r) = wallet_key s"
      then have "r = s" using users_okD(2) [OF ok m] f [of r] by simp
      then show False using ne r by simp
    qed
    show "us_id s = us_id e \<Longrightarrow> wallet_key (f r) = wallet_key (f s) \<Longrightarrow> r = s" using same [OF m(1) r] same [OF m(2)] by simp
    assume u: "us_uid r = us_uid s" and a: "us_active (if us_id s = us_id e then f s else s)"
    have re: "r = e" by (rule same [OF m(1) r])
    show "r = s"
    proof (cases "us_id s = us_id e")
      case True
      then show ?thesis using same [OF m(2)] re by simp
    next
      case False
      have "us_uid s = us_uid e" using u re by simp
      then have "\<not> us_active s" using free m(2) False by simp
      then show ?thesis using a False by simp
    qed
  qed
  then show ?thesis by (simp add: d')
qed

lemma find_user_Some: "find_user d u w = Some e \<Longrightarrow> e \<in> set (t_users d) \<and> us_uid e = u \<and> same_text (us_wallet e) w"
  unfolding find_user_def by (drule first_where_Some) (simp add: user_of_def)

subsection \<open>Operations\<close>

lemma insert_returning_ok:
  "insert_returning d n = Inr (x, d') \<Longrightarrow> users_ok (t_users d) \<Longrightarrow> users_ok (t_users d') \<and> t_linked d' = t_linked d"
  using insert_user_ok by (auto simp: insert_returning_def rbind_Inr_iff)

lemma createUser_ok:
  "createUser now ident u w name d = Inr (x, d') \<Longrightarrow> users_ok (t_users d) \<Longrightarrow> users_ok (t_users d') \<and> t_linked d' = t_linked d"
  using insert_returning_ok by (auto simp: createUser_def split: option.splits)

lemma deactivate_ok: "users_ok (t_users d) \<Longrightarrow> users_ok (t_users (deactivate_all u d))"
  unfolding deactivate_all_def update_users_tables by (rule users_ok_passive) (simp_all add: wallet_key_def)

lemma ensureManagedWallet_ok:
  assumes "ensureManagedWallet managed now ident u d = Inr (x, d')" and ok: "users_ok (t_users d)"
  shows "users_ok (t_users d') \<and> t_linked d' = t_linked d"
proof -
  define d1 where "d1 = deactivate_all u d"
  have ok1: "users_ok (t_users d1)" "t_linked d1 = t_linked d"
    using deactivate_ok [OF ok] by (simp_all add: d1_def deactivate_all_def)
  show ?thesis
  proof (cases "find_user d1 u (managed u)")
    case None
    then obtain y where "insert_returning d1 (new_user now ident u (managed u) None True) = Inr (y, d')"
      using assms(1) by (auto simp: ensureManagedWallet_def d1_def [symmetric] Let_def rbind_Inr_iff)
    then show ?thesis using insert_returning_ok [OF _ ok1(1)] ok1(2) by simp
  next
    case (Some e)
    then have "set_active e (\<lambda>r. r\<lparr>us_active := True, us_updated := now\<rparr>) d1 = Inr (x, d')"
      using assms(1) by (simp add: ensureManagedWallet_def d1_def [symmetric] Let_def)
    then show ?thesis
      using set_active_ok [OF _ ok1(1)] find_user_Some [OF Some] ok1(2) by (simp add: wallet_key_def)
  qed
qed

lemma activateWallet_ok:
  assumes "activateWallet now ident u w name d = Inr (x, d')" and ok: "users_ok (t_users d)"
  shows "users_ok (t_users d') \<and> t_linked d' = t_linked d"
proof (cases "find_user d u w")
  case None
  then obtain y where "insert_returning (deactivate_all u d) (new_user now ident u w name True) = Inr (y, d')"
    using assms(1) by (auto simp: activateWallet_def rbind_Inr_iff)
  then show ?thesis using insert_returning_ok deactivate_ok [OF ok] by (fastforce simp: deactivate_all_def)
next
  case (Some e)
  define d1 where "d1 = update_users (\<lambda>r. us_uid r = u \<and> us_id r \<noteq> us_id e) (\<lambda>r. r\<lparr>us_active := False\<rparr>) d"
  have ok1: "users_ok (t_users d1)" "t_linked d1 = t_linked d"
    unfolding d1_def update_users_tables by (rule users_ok_passive [OF ok]) (simp_all add: wallet_key_def)
  have e: "e \<in> set (t_users d1)"
    using find_user_Some [OF Some] by (auto simp: d1_def set_update_where image_iff intro!: bexI [of _ e])
  have "set_active e (\<lambda>r. r\<lparr>us_active := True\<rparr>) d1 = Inr (x, d')"
    using assms(1) Some by (simp add: activateWallet_def d1_def)
  then show ?thesis using set_active_ok [OF _ ok1(1) e] ok1(2) by (simp add: wallet_key_def)
qed

lemma update_wallet_ok:
  assumes "update_wallet now ident w d = Inr (x, d')" and ok: "users_ok (t_users d)"
  shows "users_ok (t_users d') \<and> t_linked d' = t_linked d"
proof -
  define f :: "user_row \<Rightarrow> user_row" where "f = (\<lambda>r. r\<lparr>us_wallet := w, us_updated := now\<rparr>)"
  have free: "\<And>r s. r \<in> set (t_users d) \<Longrightarrow> s \<in> set (t_users d) \<Longrightarrow> us_id r = ident \<Longrightarrow> us_id s \<noteq> ident
      \<Longrightarrow> wallet_key s \<noteq> (us_uid r, js_lower w)"
    and d': "d' = update_users (\<lambda>r. us_id r = ident) f d"
    using assms(1) unfolding update_wallet_def Let_def list_ex_iff user_of_key f_def by (simp_all split: if_splits) blast
  have id: "us_id r = ident \<Longrightarrow> us_id s = ident \<Longrightarrow> r \<in> set (t_users d) \<Longrightarrow> s \<in> set (t_users d) \<Longrightarrow> r = s" for r s
    using distinct_key_eq [OF users_okD(1) [OF ok]] by simp
  have "users_ok (update_where (\<lambda>r. us_id r = ident) f (t_users d))"
  proof (rule users_ok_update [OF ok])
    fix r s assume m: "r \<in> set (t_users d)" "s \<in> set (t_users d)" and r: "us_id r = ident"
    show "us_id (f r) = us_id r \<and> us_uid (f r) = us_uid r" by (simp add: f_def)
    show "us_id s \<noteq> ident \<Longrightarrow> wallet_key (f r) \<noteq> wallet_key s"
      using free [OF m r, THEN not_sym] by (simp add: f_def wallet_key_def)
    show "us_id s = ident \<Longrightarrow> wallet_key (f r) = wallet_key (f s) \<Longrightarrow> r = s" using id [OF r _ m] by simp
    assume a: "us_active (f r)" and u: "us_uid r = us_uid s" and b: "us_active (if us_id s = ident then f s else s)"
    have "us_active r" "us_active s" using a b by (simp_all add: f_def split: if_splits)
    then show "r = s" by (rule users_okD(3) [OF ok m _ _ u])
  qed
  then show ?thesis by (simp add: d')
qed

lemma retire_user_ok:
  assumes "retire_user now e d = (n, d')" and "users_ok (t_users d)"
  shows "users_ok (t_users d') \<and> t_linked d' = t_linked d"
proof -
  have "users_ok (update_where (\<lambda>r. us_id r = us_id e) (\<lambda>r. r\<lparr>us_active := False, us_updated := now\<rparr>) (t_users d))"
    by (rule users_ok_passive [OF assms(2)]) (simp_all add: wallet_key_def)
  then show ?thesis using assms users_ok_filter [OF assms(2)]
    by (auto simp: retire_user_def delete_where_def split: if_splits)
qed

lemma deleteByUidAndWallet_ok:
  assumes "deleteByUidAndWallet managed now ident u w d = Inr (x, d')" and ok: "users_ok (t_users d)"
  shows "users_ok (t_users d') \<and> t_linked d' = t_linked d"
proof (cases "find_user d u w")
  case None
  then show ?thesis using assms by (simp add: deleteByUidAndWallet_def)
next
  case (Some e)
  obtain n d1 where r: "retire_user now e d = (n, d1)" by (cases "retire_user now e d")
  note ok1 = retire_user_ok [OF r ok]
  show ?thesis
  proof (cases "us_active e")
    case True
    then obtain y where "ensureManagedWallet managed now ident u d1 = Inr (y, d')"
      using assms(1) Some r by (auto simp: deleteByUidAndWallet_def rbind_Inr_iff)
    then show ?thesis using ensureManagedWallet_ok ok1 by fastforce
  next
    case False
    then show ?thesis using assms(1) Some r ok1 by (simp add: deleteByUidAndWallet_def)
  qed
qed

subsection \<open>The links\<close>

lemma links_ok_filter: "links_ok t \<Longrightarrow> links_ok (filter P t)"
proof -
  assume ok: "links_ok t"
  have "length (filter (\<lambda>l. ln_uid l = u) (filter P t)) \<le> length (filter (\<lambda>l. ln_uid l = u) t)" for u
    by (induction t) auto
  then have "length (filter (\<lambda>l. ln_uid l = u) (filter P t)) \<le> max_linked" for u
    using ok unfolding links_ok_def by (meson le_trans)
  then show ?thesis using ok by (simp add: links_ok_def distinct_map_filter)
qed

lemma addLinkedWallet_ok:
  assumes "addLinkedWallet now ident u w name d = Inr (x, d')" and ok: "links_ok (t_linked d)"
  shows "links_ok (t_linked d') \<and> t_users d' = t_users d"
proof (cases "first_where (linked_to u w) (t_linked d)")
  case (Some l)
  then show ?thesis using assms by (simp add: addLinkedWallet_def)
next
  case None
  then have free: "\<forall>l \<in> set (t_linked d). js_lower (ln_wallet l) \<noteq> js_lower w"
    and lim: "length (filter (\<lambda>l. ln_uid l = u) (t_linked d)) < max_linked"
    and d': "d' = d\<lparr>t_linked := t_linked d @ [new_link now ident u w name]\<rparr>"
    using assms(1) by (auto simp: addLinkedWallet_def rbind_Inr_iff list_ex_iff same_text_def)
  show ?thesis using ok free lim by (auto simp: d' links_ok_def new_link_def)
qed

lemma updateLinkName_ok: "links_ok (t_linked d) \<Longrightarrow> links_ok (t_linked (snd (updateLinkName now u w name d)))"
proof -
  define f :: "linked_row \<Rightarrow> linked_row" where "f = (\<lambda>l. l\<lparr>ln_name := name, ln_updated := now\<rparr>)"
  have k: "map (\<lambda>l. js_lower (ln_wallet l)) (update_where P f t) = map (\<lambda>l. js_lower (ln_wallet l)) t"
    and n: "length (filter (\<lambda>l. ln_uid l = v) (update_where P f t)) = length (filter (\<lambda>l. ln_uid l = v) t)" for P t v
    by (induction t) (auto simp: update_where_def f_def)
  show "links_ok (t_linked d) \<Longrightarrow> links_ok (t_linked (snd (updateLinkName now u w name d)))"
    by (simp add: updateLinkName_def Let_def links_ok_def k n flip: f_def)
qed

lemma unlinkLinkedWallet_ok:
  assumes "unlinkLinkedWallet managed now ident u w d = Inr (x, d')" and ok: "wallets_ok d"
  shows "wallets_ok d'"
proof -
  define d1 where "d1 = d\<lparr>t_linked := delete_where (linked_to u w) (t_linked d)\<rparr>"
  have ok1: "users_ok (t_users d1)" "links_ok (t_linked d1)"
    using ok links_ok_filter by (simp_all add: d1_def wallets_ok_def delete_where_def)
  show ?thesis
  proof (cases "find_user d1 u w")
    case None
    then show ?thesis using assms(1) ok1 by (simp add: unlinkLinkedWallet_def d1_def [symmetric] Let_def wallets_ok_def)
  next
    case (Some e)
    obtain n d2 where r: "retire_user now e d1 = (n, d2)" by (cases "retire_user now e d1")
    note ok2 = retire_user_ok [OF r ok1(1)]
    consider "d' = d1" | "d' = d2" | y where "ensureManagedWallet managed now ident u d2 = Inr (y, d')"
      using assms(1) Some r
      by (auto simp: unlinkLinkedWallet_def d1_def [symmetric] Let_def rbind_Inr_iff split: if_splits)
    then show ?thesis
    proof cases
      case 3
      then show ?thesis using ensureManagedWallet_ok [OF 3] ok2 ok1 by (simp add: wallets_ok_def)
    qed (use ok1 ok2 in \<open>simp_all add: wallets_ok_def\<close>)
  qed
qed

end
