(* ===== verification/Approvals.thy ===== *)
theory Approvals
  imports Treasury
begin

text \<open>
  \<open>ApprovalPreparations\<close> of \<open>src/database/service.ts\<close>: the durable state of preparing a managed
  wallet (gas funding, then the allowance transaction). Only \<open>claimFundingTopUp\<close> and
  \<open>claimApprovalSubmission\<close> give the right to broadcast.
\<close>

record approval_claim =
  apc_record :: approval_row
  apc_acquired :: bool

record approval_request =
  apr_key :: string
  apr_wallet :: string
  apr_contract :: string
  apr_chain :: string
  apr_treasury :: string

definition mark_approval ::
    "(approval_row \<Rightarrow> bool) \<Rightarrow> (approval_row \<Rightarrow> approval_row) \<Rightarrow> string \<Rightarrow> db \<Rightarrow> approval_row option \<times> db" where
  "mark_approval Q f k d =
     (let P = (\<lambda>r. ap_key r = k \<and> Q r) in
      case returning_where P f (t_approvals d) of
        Some r \<Rightarrow> (Some r, update_approvals P f d)
      | None \<Rightarrow> (find_approval d k, d))"

text \<open>A failed preparation that never had a funding hash, with a diagnostic from before persistence.\<close>

definition approval_reclaimable :: "approval_row \<Rightarrow> bool" where
  "approval_reclaimable r \<longleftrightarrow> ap_status r = AP_FAILED \<and> \<not> given (ap_funding_hash r)
     \<and> (case ap_diagnostic r of None \<Rightarrow> False
        | Some g \<Rightarrow> dg_stage g \<in> {PREPARE, PERSIST_HASH, PREFLIGHT, ASSET_CONTEXT} \<and> \<not> given (dg_savedHash g))"

definition new_approval :: "int \<Rightarrow> approval_request \<Rightarrow> approval_row" where
  "new_approval now q =
     \<lparr>ap_key = apr_key q, ap_wallet = js_lower (apr_wallet q), ap_contract = js_lower (apr_contract q),
      ap_chain = apr_chain q, ap_treasury = js_lower (apr_treasury q), ap_status = AP_FUNDING,
      ap_funding_hash = None, ap_funding_nonce = None, ap_funding_context = None, ap_attempt_key = None,
      ap_attempt_value = None, ap_approval_hash = None, ap_diagnostic = None, ap_error = None,
      ap_created = now, ap_updated = now\<rparr>"

definition claimApproval :: "int \<Rightarrow> approval_request \<Rightarrow> db \<Rightarrow> db_error + (approval_claim \<times> db)" where
  "claimApproval now q d =
     (case find_approval d (apr_key q) of
        Some existing \<Rightarrow>
          if \<not> same_text (ap_wallet existing) (apr_wallet q) \<or> \<not> same_text (ap_contract existing) (apr_contract q)
             \<or> ap_chain existing \<noteq> apr_chain q \<or> \<not> same_text (ap_treasury existing) (apr_treasury q)
          then Inl APPROVAL_PREPARATION_INTENT_MISMATCH
          else (let P = (\<lambda>r. ap_key r = apr_key q \<and> ap_status r = AP_FAILED);
                    f = (\<lambda>r. r\<lparr>ap_status := AP_FUNDING, ap_attempt_key := None, ap_attempt_value := None,
                           ap_error := None, ap_updated := now\<rparr>)
                in case (if approval_reclaimable existing then returning_where P f (t_approvals d) else None) of
                     Some r \<Rightarrow> Inr (\<lparr>apc_record = r, apc_acquired = True\<rparr>, update_approvals P f d)
                   | None \<Rightarrow> Inr (\<lparr>apc_record = existing, apc_acquired = False\<rparr>, d))
      | None \<Rightarrow>
          Inr (\<lparr>apc_record = new_approval now q, apc_acquired = True\<rparr>,
               d\<lparr>t_approvals := t_approvals d @ [new_approval now q]\<rparr>))"

record funding_options =
  fo_nonce :: "nat option"
  fo_context :: "transaction_context option"
  fo_diagnostic :: "diagnostic option option"
  fo_attemptKey :: "string option"

definition markFundingSubmitted ::
    "int \<Rightarrow> string \<Rightarrow> string \<Rightarrow> funding_options \<Rightarrow> db \<Rightarrow> db_error + (approval_row option \<times> db)" where
  "markFundingSubmitted now k txHash opts d =
     rbind (canonical_hash txHash ''funding transaction hash'') (\<lambda>h.
     rbind (guard (\<not> (case find_approval d k of None \<Rightarrow> False | Some current \<Rightarrow>
         given (ap_funding_hash current) \<and> \<not> same_column (ap_funding_hash current) h
         \<and> ap_attempt_key current \<noteq> fo_attemptKey opts)) APPROVAL_FUNDING_TX_HASH_MISMATCH) (\<lambda>_.
     Inr (mark_approval (\<lambda>r. ap_status r = AP_FUNDING)
       (\<lambda>r. r\<lparr>ap_funding_hash := Some h, ap_funding_nonce := or_keep (fo_nonce opts) (ap_funding_nonce r),
          ap_funding_context := or_keep (fo_context opts) (ap_funding_context r),
          ap_attempt_key := or_keep (fo_attemptKey opts) (ap_attempt_key r),
          ap_diagnostic := (case fo_diagnostic opts of None \<Rightarrow> ap_diagnostic r | Some g \<Rightarrow> g),
          ap_status := AP_FUNDING, ap_error := None, ap_updated := now\<rparr>) k d)))"

definition markFundingPreflightFailed ::
    "int \<Rightarrow> string \<Rightarrow> string \<Rightarrow> diagnostic option option \<Rightarrow> db \<Rightarrow> approval_row option \<times> db" where
  "markFundingPreflightFailed now k e diag d =
     mark_approval (\<lambda>r. ap_funding_hash r = None \<and> ap_status r \<in> {AP_FUNDING, AP_FAILED})
       (\<lambda>r. r\<lparr>ap_status := AP_FAILED, ap_error := Some (clip e), ap_attempt_key := None, ap_attempt_value := None,
          ap_diagnostic := (case diag of None \<Rightarrow> ap_diagnostic r | Some g \<Rightarrow> g), ap_updated := now\<rparr>) k d"

definition markFunded :: "int \<Rightarrow> string \<Rightarrow> db \<Rightarrow> approval_row option \<times> db" where
  "markFunded now k d =
     mark_approval (\<lambda>r. ap_status r \<in> {AP_FUNDING, AP_FUNDED})
       (\<lambda>r. r\<lparr>ap_status := AP_FUNDED, ap_attempt_key := None, ap_attempt_value := None, ap_error := None,
          ap_updated := now\<rparr>) k d"

definition prior_funding_lease :: "db \<Rightarrow> string \<Rightarrow> string \<Rightarrow> lease_row option" where
  "prior_funding_lease d k h =
     (case sort_key ls_created (filter (\<lambda>l. ls_target_key l = Some k \<and> ls_target l = TARGET_FUNDING
          \<and> same_text (ls_tx_hash l) h) (t_leases d)) of [] \<Rightarrow> None | l # _ \<Rightarrow> Some l)"

definition claimFundingTopUp :: "int \<Rightarrow> string \<Rightarrow> string \<Rightarrow> string \<Rightarrow> db \<Rightarrow> db_error + (approval_claim \<times> db)" where
  "claimFundingTopUp now k attemptKey attemptValue d =
     (case find_approval d k of
        None \<Rightarrow> Inl (APPROVAL_PREPARATION_MISSING k)
      | Some current \<Rightarrow>
          if ap_status current = AP_FUNDED \<and> \<not> given (ap_approval_hash current) \<and> given (ap_funding_hash current)
             \<and> prior_funding_lease d k (or_text (ap_funding_hash current) []) = None
          then Inl APPROVAL_FUNDING_PRIOR_EVIDENCE_REQUIRED
          else (let P = (\<lambda>r. ap_key r = k \<and> ap_status r = AP_FUNDED \<and> ap_approval_hash r = None);
                    f = (\<lambda>r. r\<lparr>ap_status := AP_FUNDING, ap_attempt_key := Some attemptKey,
                           ap_attempt_value := Some attemptValue, ap_error := None, ap_updated := now\<rparr>)
                in case (if ap_status current = AP_FUNDED \<and> \<not> given (ap_approval_hash current)
                         then returning_where P f (t_approvals d) else None) of
                     Some r \<Rightarrow> Inr (\<lparr>apc_record = r, apc_acquired = True\<rparr>, update_approvals P f d)
                   | None \<Rightarrow> Inr (\<lparr>apc_record = current, apc_acquired = False\<rparr>, d)))"

definition recoverFundedAfterReadOnlyProof :: "int \<Rightarrow> string \<Rightarrow> db \<Rightarrow> approval_row option \<times> db" where
  "recoverFundedAfterReadOnlyProof now k d =
     mark_approval (\<lambda>r. ap_status r = AP_UNKNOWN \<and> ap_funding_hash r \<noteq> None \<and> ap_approval_hash r = None)
       (\<lambda>r. r\<lparr>ap_status := AP_FUNDED, ap_attempt_key := None, ap_attempt_value := None, ap_error := None,
          ap_updated := now\<rparr>) k d"

definition markApproving :: "int \<Rightarrow> string \<Rightarrow> db \<Rightarrow> approval_row option \<times> db" where
  "markApproving now k d =
     mark_approval (\<lambda>r. ap_status r = AP_FUNDED)
       (\<lambda>r. r\<lparr>ap_status := AP_APPROVING, ap_error := None, ap_updated := now\<rparr>) k d"

definition claimApprovalSubmission :: "int \<Rightarrow> string \<Rightarrow> db \<Rightarrow> db_error + (approval_claim \<times> db)" where
  "claimApprovalSubmission now k d =
     (let P = (\<lambda>r. ap_key r = k \<and> ap_status r = AP_FUNDED);
          f = (\<lambda>r. r\<lparr>ap_status := AP_APPROVING, ap_error := None, ap_updated := now\<rparr>)
      in case returning_where P f (t_approvals d) of
           Some r \<Rightarrow> Inr (\<lparr>apc_record = r, apc_acquired = True\<rparr>, update_approvals P f d)
         | None \<Rightarrow>
             (case find_approval d k of
                None \<Rightarrow> Inl (APPROVAL_PREPARATION_MISSING k)
              | Some existing \<Rightarrow> Inr (\<lparr>apc_record = existing, apc_acquired = False\<rparr>, d)))"

definition markApprovalSubmitted :: "int \<Rightarrow> string \<Rightarrow> string \<Rightarrow> db \<Rightarrow> db_error + (approval_row option \<times> db)" where
  "markApprovalSubmitted now k txHash d =
     rbind (canonical_hash txHash ''approval transaction hash'') (\<lambda>h.
     Inr (mark_approval (\<lambda>r. ap_status r = AP_APPROVING)
       (\<lambda>r. r\<lparr>ap_approval_hash := Some h, ap_status := AP_APPROVING, ap_error := None, ap_updated := now\<rparr>) k d))"

definition markApproved :: "int \<Rightarrow> string \<Rightarrow> db \<Rightarrow> approval_row option \<times> db" where
  "markApproved now k d =
     mark_approval (\<lambda>r. ap_status r \<in> {AP_APPROVING, AP_APPROVED})
       (\<lambda>r. r\<lparr>ap_status := AP_APPROVED, ap_error := None, ap_updated := now\<rparr>) k d"

record unknown_options =
  uo_fundingTxHash :: "string option"
  uo_attemptKey :: "string option"
  uo_clear :: bool
  uo_diagnostic :: "diagnostic option option"

definition optional_hash :: "string option \<Rightarrow> string \<Rightarrow> db_error + string option" where
  "optional_hash x fld =
     (case nonempty x of None \<Rightarrow> Inr None | Some t \<Rightarrow> rbind (canonical_hash t fld) (\<lambda>h. Inr (Some h)))"

definition markApprovalUnknown ::
    "int \<Rightarrow> string \<Rightarrow> string \<Rightarrow> unknown_options \<Rightarrow> db \<Rightarrow> db_error + (approval_row option \<times> db)" where
  "markApprovalUnknown now k e opts d =
     (case find_approval d k of
        None \<Rightarrow> Inr (None, d)
      | Some current \<Rightarrow>
          if uo_attemptKey opts \<noteq> None \<and> ap_attempt_key current \<noteq> uo_attemptKey opts then Inr (Some current, d)
          else rbind (optional_hash (uo_fundingTxHash opts) ''funding transaction hash'') (\<lambda>h.
            if (case h of None \<Rightarrow> False | Some x \<Rightarrow> given (ap_funding_hash current) \<and> \<not> same_column (ap_funding_hash current) x)
            then Inr (Some current, d)
            else (let P = (\<lambda>r. ap_key r = k \<and> ap_status r \<in> {AP_FUNDING, AP_FUNDED, AP_APPROVING, AP_UNKNOWN});
                      f = (\<lambda>r. r\<lparr>ap_status := AP_UNKNOWN, ap_error := Some (clip e),
                             ap_funding_hash := (case h of Some x \<Rightarrow> Some x
                                | None \<Rightarrow> if uo_clear opts then None else ap_funding_hash r),
                             ap_diagnostic := (case uo_diagnostic opts of None \<Rightarrow> ap_diagnostic r | Some g \<Rightarrow> g),
                             ap_updated := now\<rparr>)
                  in case returning_where P f (t_approvals d) of
                       Some r \<Rightarrow> Inr (Some r, update_approvals P f d)
                     | None \<Rightarrow> Inr (Some current, d))))"

end
