(* ===== verification/Service.thy ===== *)
theory Service
  imports Capacity ReservationLife WalletLife Approvals Projections
begin

text \<open>
  The database services together: one step is any operation of any component of
  \<open>src/database/service.ts\<close> on the shared database. Every step keeps the invariants of all tables and
  moves rows of the ledger, the leases and the reservations only up their orders; the stores are
  interpreted as \<open>terminal_store\<close>, so what holds of one step holds of every history.
\<close>

subsection \<open>Steps of the components\<close>

inductive ledger_step :: "db \<Rightarrow> db \<Rightarrow> bool" where
  step_claim: "claim now ident q d = Inr (c, d') \<Longrightarrow> ledger_step d d'"
| step_submitted: "markSubmitted now k t d = Inr (r, d') \<Longrightarrow> ledger_step d d'"
| step_unknown: "ledger_step d (snd (markUnknown now k e g d))"
| step_confirmed: "ledger_step d (snd (markConfirmed now k err d))"
| step_projection_error: "ledger_step d (snd (markProjectionError now k e d))"
| step_projected: "ledger_step d (snd (markProjected now k d))"
| step_failed: "ledger_step d (snd (markFailed now k e out g d))"
| step_preflight_failed: "ledger_step d (snd (markPreflightFailed now k e g d))"

inductive lease_step :: "db \<Rightarrow> db \<Rightarrow> bool" where
  step_prepare: "prepareLease locked now q d = Inr (x, d') \<Longrightarrow> lease_step d d'"
| step_lease_submitted: "leaseMarkSubmitted now k t d = Inr (r, d') \<Longrightarrow> lease_step d d'"
| step_lease_unknown: "lease_step d (snd (leaseMarkUnknown now k g e d))"
| step_lease_failed: "lease_step d (snd (leaseMarkFailed now k g e d))"

inductive approval_step :: "db \<Rightarrow> db \<Rightarrow> bool" where
  step_claim_approval: "claimApproval now aq d = Inr (c, d') \<Longrightarrow> approval_step d d'"
| step_funding_submitted: "markFundingSubmitted now k t fo d = Inr (r, d') \<Longrightarrow> approval_step d d'"
| step_funding_preflight: "approval_step d (snd (markFundingPreflightFailed now k e g d))"
| step_funded: "approval_step d (snd (markFunded now k d))"
| step_top_up: "claimFundingTopUp now k ak av d = Inr (c, d') \<Longrightarrow> approval_step d d'"
| step_recover: "approval_step d (snd (recoverFundedAfterReadOnlyProof now k d))"
| step_approving: "approval_step d (snd (markApproving now k d))"
| step_claim_submission: "claimApprovalSubmission now k d = Inr (c, d') \<Longrightarrow> approval_step d d'"
| step_approval_submitted: "markApprovalSubmitted now k t d = Inr (r, d') \<Longrightarrow> approval_step d d'"
| step_approved: "approval_step d (snd (markApproved now k d))"
| step_approval_unknown: "markApprovalUnknown now k e uo d = Inr (r, d') \<Longrightarrow> approval_step d d'"

inductive reservation_step :: "db \<Rightarrow> db \<Rightarrow> bool" where
  step_reserve: "reserve now ident rq d = Inr (x, d') \<Longrightarrow> reservation_step d d'"
| step_claim_settlement: "reservation_step d (snd (claimForSettlement now u s p d))"
| step_context: "persistSettlementContext now i v d = Inr (x, d') \<Longrightarrow> reservation_step d d'"
| step_complete: "complete now i kwh v t d = Inr (x, d') \<Longrightarrow> reservation_step d d'"
| step_retry: "reservation_step d (retrySettlement now i e d)"

inductive wallet_step :: "db \<Rightarrow> db \<Rightarrow> bool" where
  step_create_user: "createUser now ident u w n d = Inr (x, d') \<Longrightarrow> wallet_step d d'"
| step_update_wallet: "update_wallet now ident w d = Inr (y, d') \<Longrightarrow> wallet_step d d'"
| step_update_address: "updateWalletAddress now u w d = Inr (y, d') \<Longrightarrow> wallet_step d d'"
| step_update_name: "wallet_step d (snd (updateWalletNameByAddress now w n d))"
| step_activate: "activateWallet now ident u w n d = Inr (y, d') \<Longrightarrow> wallet_step d d'"
| step_delete: "deleteByUidAndWallet managed now ident u w d = Inr (z, d') \<Longrightarrow> wallet_step d d'"
| step_link: "linkLinkedWallet now ident u w n d = Inr (x, d') \<Longrightarrow> wallet_step d d'"
| step_unlink: "unlinkLinkedWallet managed now ident u w d = Inr (v, d') \<Longrightarrow> wallet_step d d'"
| step_link_name: "wallet_step d (snd (updateLinkName now u w n d))"

inductive projection_step :: "db \<Rightarrow> db \<Rightarrow> bool" where
  step_award: "createAward now ident a d = Inr (x, d') \<Longrightarrow> projection_step d d'"
| step_balance: "projection_step d (snd (upsertBalance now b d))"
| step_spend: "createSpend now ident s d = Inr (y, d') \<Longrightarrow> projection_step d d'"
| step_receipt: "createReceipt r d = Inr (z, d') \<Longrightarrow> projection_step d d'"
| step_audit: "projection_step d (snd (createAudit now au d))"
| step_report: "projection_step d (snd (createReport now rp d))"

inductive service_step :: "db \<Rightarrow> db \<Rightarrow> bool" where
  by_ledger: "ledger_step d d' \<Longrightarrow> service_step d d'"
| by_lease: "lease_step d d' \<Longrightarrow> service_step d d'"
| by_approval: "approval_step d d' \<Longrightarrow> service_step d d'"
| by_reservation: "reservation_step d d' \<Longrightarrow> service_step d d'"
| by_wallet: "wallet_step d d' \<Longrightarrow> service_step d d'"
| by_projection: "projection_step d d' \<Longrightarrow> service_step d d'"

subsection \<open>Invariants\<close>

definition approvals_ok :: "db \<Rightarrow> bool" where
  "approvals_ok d \<longleftrightarrow> distinct (map ap_key (t_approvals d))"

definition projections_ok :: "db \<Rightarrow> bool" where
  "projections_ok d \<longleftrightarrow> distinct (map aw_dedup_key (t_awards d))
     \<and> distinct (map (\<lambda>a. (aw_session_id a, aw_provider_id a)) (t_awards d))
     \<and> distinct (map (\<lambda>a. js_lower (aw_tx_hash a)) (t_awards d))
     \<and> distinct (map (\<lambda>s. js_lower (sp_tx_hash s)) (t_spends d))
     \<and> distinct (map rc_receipt_id (t_receipts d)) \<and> distinct (map (\<lambda>r. js_lower (rc_token_tx_hash r)) (t_receipts d))"

definition service_ok :: "db \<Rightarrow> bool" where
  "service_ok d \<longleftrightarrow> ledger_ok d \<and> leases_ok d \<and> approvals_ok d \<and> reservations_ok d \<and> wallets_ok d \<and> projections_ok d"

definition service_grows :: "db \<Rightarrow> db \<Rightarrow> bool" where
  "service_grows d d' \<longleftrightarrow> service_ok d' \<and> ledger_grows d d' \<and> leases_grow d d' \<and> reservations_grow d d'"

text \<open>The tables outside a component; an operation that leaves them alone keeps their invariants.\<close>

definition ledger_frame where "ledger_frame d = t_operations d"
definition lease_frame where "lease_frame d = t_leases d"
definition approval_frame where "approval_frame d = t_approvals d"
definition reservation_frame where "reservation_frame d = t_reservations d"
definition wallet_frame where "wallet_frame d = (t_users d, t_linked d)"
definition projection_frame where "projection_frame d = (t_awards d, t_spends d, t_receipts d, t_balances d)"

lemmas frame_defs = ledger_frame_def lease_frame_def approval_frame_def reservation_frame_def wallet_frame_def
  projection_frame_def

lemma frames_keep:
  "approvals_ok d \<Longrightarrow> approval_frame d' = approval_frame d \<Longrightarrow> approvals_ok d'"
  "wallets_ok d \<Longrightarrow> wallet_frame d' = wallet_frame d \<Longrightarrow> wallets_ok d'"
  "projections_ok d \<Longrightarrow> projection_frame d' = projection_frame d \<Longrightarrow> projections_ok d'"
  "ledger_ok d \<Longrightarrow> ledger_frame d' = ledger_frame d \<Longrightarrow> ledger_grows d d'"
  "leases_ok d \<Longrightarrow> lease_frame d' = lease_frame d \<Longrightarrow> leases_grow d d'"
  "reservations_ok d \<Longrightarrow> reservation_frame d' = reservation_frame d \<Longrightarrow> reservations_grow d d'"
  by (simp_all add: frame_defs approvals_ok_def wallets_ok_def projections_ok_def ledger_grows_frame leases_grow_frame
      reservations_grow_frame)

lemma service_growsI:
  assumes "ledger_grows d d'" and "leases_grow d d'" and "reservations_grow d d'" and "approvals_ok d'"
    and "wallets_ok d'" and "projections_ok d'"
  shows "service_grows d d'"
  using assms by (simp add: service_grows_def service_ok_def ledger_grows_def leases_grow_def reservations_grow_def)

subsection \<open>What each component leaves alone\<close>

lemma update_operations_frames [simp]:
  "lease_frame (update_operations P f d) = lease_frame d" "approval_frame (update_operations P f d) = approval_frame d"
  "reservation_frame (update_operations P f d) = reservation_frame d"
  "wallet_frame (update_operations P f d) = wallet_frame d" "projection_frame (update_operations P f d) = projection_frame d"
  by (simp_all add: frame_defs update_operations_def)

lemma update_leases_frames [simp]:
  "ledger_frame (update_leases P f d) = ledger_frame d" "approval_frame (update_leases P f d) = approval_frame d"
  "reservation_frame (update_leases P f d) = reservation_frame d"
  "wallet_frame (update_leases P f d) = wallet_frame d" "projection_frame (update_leases P f d) = projection_frame d"
  by (simp_all add: frame_defs update_leases_def)

lemma update_approvals_frames [simp]:
  "ledger_frame (update_approvals P f d) = ledger_frame d" "lease_frame (update_approvals P f d) = lease_frame d"
  "reservation_frame (update_approvals P f d) = reservation_frame d"
  "wallet_frame (update_approvals P f d) = wallet_frame d" "projection_frame (update_approvals P f d) = projection_frame d"
  by (simp_all add: frame_defs update_approvals_def)

lemma update_reservations_frames [simp]:
  "ledger_frame (update_reservations P f d) = ledger_frame d" "lease_frame (update_reservations P f d) = lease_frame d"
  "approval_frame (update_reservations P f d) = approval_frame d"
  "wallet_frame (update_reservations P f d) = wallet_frame d" "projection_frame (update_reservations P f d) = projection_frame d"
  by (simp_all add: frame_defs update_reservations_def)

lemma update_users_frames [simp]:
  "ledger_frame (update_users P f d) = ledger_frame d" "lease_frame (update_users P f d) = lease_frame d"
  "approval_frame (update_users P f d) = approval_frame d" "reservation_frame (update_users P f d) = reservation_frame d"
  "projection_frame (update_users P f d) = projection_frame d"
  by (simp_all add: frame_defs update_users_def)

definition outside_ledger where
  "outside_ledger d = (lease_frame d, approval_frame d, reservation_frame d, wallet_frame d, projection_frame d)"

definition outside_treasury where
  "outside_treasury d = (reservation_frame d, wallet_frame d, projection_frame d)"

definition outside_approvals where
  "outside_approvals d = (ledger_frame d, lease_frame d, reservation_frame d, wallet_frame d, projection_frame d)"

definition outside_reservations where
  "outside_reservations d = (ledger_frame d, lease_frame d, approval_frame d, wallet_frame d, projection_frame d)"

definition outside_wallets where
  "outside_wallets d = (ledger_frame d, lease_frame d, approval_frame d, reservation_frame d, projection_frame d)"

definition outside_projections where
  "outside_projections d = (ledger_frame d, lease_frame d, approval_frame d, reservation_frame d, wallet_frame d)"

lemmas outside_defs = outside_ledger_def outside_treasury_def outside_approvals_def outside_reservations_def
  outside_wallets_def outside_projections_def

lemma outside_updates [simp]:
  "outside_ledger (update_operations P f d) = outside_ledger d"
  "outside_treasury (update_operations P f d) = outside_treasury d"
  "outside_treasury (update_leases P' f' d) = outside_treasury d"
  "outside_treasury (update_approvals P'' f'' d) = outside_treasury d"
  "outside_approvals (update_approvals P'' f'' d) = outside_approvals d"
  "outside_reservations (update_reservations P3 f3 d) = outside_reservations d"
  "outside_wallets (update_users P4 f4 d) = outside_wallets d"
  by (simp_all add: outside_defs)

lemma mark_operation_outside [simp]: "outside_ledger (snd (mark_operation Q f k d)) = outside_ledger d"
  by (simp add: mark_operation_def Let_def split: option.split)

lemma insert_operation_outside: "insert_operation d n = Inr d' \<Longrightarrow> outside_ledger d' = outside_ledger d"
  by (auto simp: insert_operation_def outside_defs frame_defs split: if_splits)

lemma ledger_step_outside: "ledger_step d d' \<Longrightarrow> outside_ledger d' = outside_ledger d"
proof (induction rule: ledger_step.induct)
  case (step_claim now ident q d c d')
  then show ?case by (cases rule: claim_cases) (auto dest: insert_operation_outside)
next
  case (step_submitted now k t d r d')
  then show ?case
    by (auto simp: markSubmitted_def rbind_Inr_iff Let_def split: option.splits if_splits)
qed (simp_all add: markUnknown_def markConfirmed_def markProjectionError_def markFailed_def markPreflightFailed_def
    markProjected_def Let_def split: option.split)

lemma ledger_step_grows: "ledger_step d d' \<Longrightarrow> ledger_ok d \<Longrightarrow> ledger_grows d d'"
  by (induction rule: ledger_step.induct)
    (simp_all add: claim_grows markSubmitted_grows markUnknown_grows markConfirmed_grows markProjectionError_grows
      markProjected_grows markFailed_grows markPreflightFailed_grows)

lemma insert_lease_outside: "insert_lease d l = Inr d' \<Longrightarrow> outside_treasury d' = outside_treasury d \<and> t_approvals d' = t_approvals d"
  by (auto simp: insert_lease_def outside_defs frame_defs split: if_splits)

lemma approvals_ok_update:
  assumes "approvals_ok d" and "\<And>r. P r \<Longrightarrow> ap_key (f r) = ap_key r"
  shows "approvals_ok (update_approvals P f d)"
  using assms keys_update [of P ap_key f] by (simp add: approvals_ok_def)

lemma funding_parent_keeps:
  "approvals_ok d \<Longrightarrow> approvals_ok (updateApprovalFundingParent now l st g e d)
     \<and> outside_treasury (updateApprovalFundingParent now l st g e d) = outside_treasury d"
  by (auto simp: updateApprovalFundingParent_def intro!: approvals_ok_update split: option.split)

lemma approvals_frame [simp]:
  "approvals_ok (update_operations P f d) = approvals_ok d" "approvals_ok (update_leases P' f' d) = approvals_ok d"
  by (simp_all add: approvals_ok_def)

lemma attach_target_keeps:
  assumes "attach_target now q h nonce ctx d = Inr d'" and "approvals_ok d"
  shows "approvals_ok d' \<and> outside_treasury d' = outside_treasury d"
  using assms
  by (auto simp: attach_target_def attach_operation_def attach_funding_def intro!: approvals_ok_update
      split: lease_target.splits option.splits if_splits)

lemma leaseMarkSubmitted_shape:
  assumes "leaseMarkSubmitted now k t d = Inr (r, d')"
  shows "d' = d \<or> (\<exists>P f. d' = update_leases P f d) \<or> (\<exists>P f Q g. d' = update_operations Q g (update_leases P f d))"
proof -
  obtain h where h: "canonical_hash t ''transaction hash'' = Inr h"
    using assms by (cases "canonical_hash t ''transaction hash''") (simp_all add: leaseMarkSubmitted_def)
  show ?thesis
  proof (cases "first_where (\<lambda>l. ls_key l = k \<and> ls_tx_hash l = h) (t_leases d)")
    case None
    then show ?thesis using assms by (simp add: leaseMarkSubmitted_def h)
  next
    case (Some e)
    show ?thesis
    proof (cases "ls_target e = TARGET_OPERATION")
      case True
      then have "\<exists>P f Q g. d' = update_operations Q g (update_leases P f d)"
        using assms by (simp add: leaseMarkSubmitted_def h Some Let_def) blast
      then show ?thesis by blast
    next
      case False
      then have "\<exists>P f. d' = update_leases P f d"
        using assms by (simp add: leaseMarkSubmitted_def h Some Let_def) blast
      then show ?thesis by blast
    qed
  qed
qed

lemma lease_step_keeps:
  assumes "lease_step d d'" and ok: "approvals_ok d"
  shows "approvals_ok d' \<and> outside_treasury d' = outside_treasury d"
  using assms(1)
proof cases
  case (step_prepare locked now q x)
  then show ?thesis
  proof (cases rule: prepareLease_cases)
    case existing
    then show ?thesis using ok by simp
  next
    case (fresh pending nonce p h d1)
    have "approvals_ok d1" using ok insert_lease_outside [OF fresh(8)] by (simp add: approvals_ok_def)
    then show ?thesis using attach_target_keeps [OF fresh(9)] insert_lease_outside [OF fresh(8)] by simp
  qed
next
  case (step_lease_submitted now k t r)
  then show ?thesis using ok leaseMarkSubmitted_shape by fastforce
next
  case (step_lease_unknown now k g e)
  then show ?thesis using ok funding_parent_keeps
    by (auto simp: leaseMarkUnknown_def Let_def split: option.splits lease_target.splits)
next
  case (step_lease_failed now k g e)
  then show ?thesis using ok funding_parent_keeps
    by (auto simp: leaseMarkFailed_def Let_def split: option.splits lease_target.splits)
qed

lemma lease_step_grows:
  assumes "lease_step d d'" and "ledger_ok d" "leases_ok d"
  shows "ledger_grows d d' \<and> leases_grow d d'"
  using assms(1)
proof cases
  case (step_prepare locked now q x)
  then show ?thesis using prepareLease_grows assms(2,3) by blast
next
  case (step_lease_submitted now k t r)
  then show ?thesis using leaseMarkSubmitted_grows assms(2,3) by blast
next
  case (step_lease_unknown now k g e)
  then show ?thesis using leaseMarkUnknown_grows assms(2,3) by simp
next
  case (step_lease_failed now k g e)
  then show ?thesis using leaseMarkFailed_grows assms(2,3) by simp
qed

lemma mark_approval_keeps:
  assumes "approvals_ok d" and "\<And>r. ap_key (f r) = ap_key r"
  shows "approvals_ok (snd (mark_approval Q f k d)) \<and> outside_approvals (snd (mark_approval Q f k d)) = outside_approvals d"
  using assms by (auto simp: mark_approval_def Let_def intro!: approvals_ok_update split: option.split)

lemma approvals_ok_append:
  assumes "approvals_ok d" and "find_approval d (ap_key n) = None"
  shows "approvals_ok (d\<lparr>t_approvals := t_approvals d @ [n]\<rparr>)"
  using assms by (auto simp: approvals_ok_def find_approval_def row_at_None)

lemma markApprovalUnknown_shape:
  assumes "markApprovalUnknown now k e uo d = Inr (r, d')"
  shows "d' = d \<or> (\<exists>P f. (\<forall>r. ap_key (f r) = ap_key r) \<and> d' = update_approvals P f d)"
proof (cases "find_approval d k")
  case None
  then show ?thesis using assms by (simp add: markApprovalUnknown_def)
next
  case (Some c)
  show ?thesis
  proof (cases "uo_attemptKey uo \<noteq> None \<and> ap_attempt_key c \<noteq> uo_attemptKey uo")
    case True
    then show ?thesis using assms by (simp add: markApprovalUnknown_def Some)
  next
    case False
    obtain h where h: "optional_hash (uo_fundingTxHash uo) ''funding transaction hash'' = Inr h"
      using assms unfolding markApprovalUnknown_def Some option.case if_not_P [OF False]
      by (cases "optional_hash (uo_fundingTxHash uo) ''funding transaction hash''") simp_all
    define stale where
      "stale \<longleftrightarrow> (case h of None \<Rightarrow> False | Some x \<Rightarrow> given (ap_funding_hash c) \<and> \<not> same_column (ap_funding_hash c) x)"
    define P :: "approval_row \<Rightarrow> bool" where
      "P = (\<lambda>r. ap_key r = k \<and> ap_status r \<in> {AP_FUNDING, AP_FUNDED, AP_APPROVING, AP_UNKNOWN})"
    define f :: "approval_row \<Rightarrow> approval_row" where
      "f = (\<lambda>r. r\<lparr>ap_status := AP_UNKNOWN, ap_error := Some (clip e),
          ap_funding_hash := (case h of Some x \<Rightarrow> Some x | None \<Rightarrow> if uo_clear uo then None else ap_funding_hash r),
          ap_diagnostic := (case uo_diagnostic uo of None \<Rightarrow> ap_diagnostic r | Some g \<Rightarrow> g), ap_updated := now\<rparr>)"
    have "markApprovalUnknown now k e uo d = (if stale then Inr (Some c, d)
        else (case returning_where P f (t_approvals d) of
            Some r \<Rightarrow> Inr (Some r, update_approvals P f d) | None \<Rightarrow> Inr (Some c, d)))"
      unfolding markApprovalUnknown_def Some option.case if_not_P [OF False] h rbind_simps Let_def stale_def P_def f_def ..
    then have "d' = d \<or> d' = update_approvals P f d" using assms by (simp split: if_splits option.splits)
    moreover have "\<forall>r. ap_key (f r) = ap_key r" by (simp add: f_def)
    ultimately show ?thesis by blast
  qed
qed

lemma approval_step_keeps:
  assumes "approval_step d d'" and ok: "approvals_ok d"
  shows "approvals_ok d' \<and> outside_approvals d' = outside_approvals d"
  using assms(1)
proof cases
  case (step_claim_approval now aq c)
  have "approvals_ok (d\<lparr>t_approvals := t_approvals d @ [new_approval now aq]\<rparr>)" if "find_approval d (apr_key aq) = None"
    using approvals_ok_append [OF ok, of "new_approval now aq"] that by (simp add: new_approval_def)
  moreover have "outside_approvals (d\<lparr>t_approvals := t\<rparr>) = outside_approvals d" for t
    by (simp add: outside_defs frame_defs)
  ultimately show ?thesis using step_claim_approval ok
    by (auto simp: claimApproval_def Let_def intro!: approvals_ok_update split: option.splits if_splits)
next
  case (step_funding_submitted now k t fo r)
  then obtain h where "mark_approval (\<lambda>r. ap_status r = AP_FUNDING)
       (\<lambda>r. r\<lparr>ap_funding_hash := Some h, ap_funding_nonce := or_keep (fo_nonce fo) (ap_funding_nonce r),
          ap_funding_context := or_keep (fo_context fo) (ap_funding_context r),
          ap_attempt_key := or_keep (fo_attemptKey fo) (ap_attempt_key r),
          ap_diagnostic := (case fo_diagnostic fo of None \<Rightarrow> ap_diagnostic r | Some g \<Rightarrow> g),
          ap_status := AP_FUNDING, ap_error := None, ap_updated := now\<rparr>) k d = (r, d')"
    unfolding markFundingSubmitted_def rbind_Inr_iff by fastforce
  from arg_cong [where f = snd, OF this, symmetric] show ?thesis unfolding snd_conv
    by (simp only:) (rule mark_approval_keeps [OF ok], simp)
next
  case (step_top_up now k ak av c)
  then show ?thesis using ok
    by (auto simp: claimFundingTopUp_def Let_def intro!: approvals_ok_update split: option.splits if_splits)
next
  case (step_claim_submission now k c)
  then show ?thesis using ok
    by (auto simp: claimApprovalSubmission_def Let_def intro!: approvals_ok_update split: option.splits)
next
  case (step_approval_submitted now k t r)
  then obtain h where "mark_approval (\<lambda>r. ap_status r = AP_APPROVING)
       (\<lambda>r. r\<lparr>ap_approval_hash := Some h, ap_status := AP_APPROVING, ap_error := None, ap_updated := now\<rparr>) k d = (r, d')"
    unfolding markApprovalSubmitted_def rbind_Inr_iff by fastforce
  from arg_cong [where f = snd, OF this, symmetric] show ?thesis unfolding snd_conv
    by (simp only:) (rule mark_approval_keeps [OF ok], simp)
next
  case (step_approval_unknown now k e uo r)
  from markApprovalUnknown_shape [OF this] show ?thesis
  proof (elim disjE exE conjE)
    fix P f assume "\<forall>r. ap_key (f r) = ap_key r" "d' = update_approvals P f d"
    then show ?thesis using approvals_ok_update [OF ok, of P f] by simp
  qed (simp add: ok)
qed (simp_all add: markFundingPreflightFailed_def markFunded_def recoverFundedAfterReadOnlyProof_def
    markApproving_def markApproved_def mark_approval_keeps ok)

lemma reserve_shape:
  assumes "reserve now ident q d = Inr (x, d')"
  shows "d' = d \<or> (\<exists>n. rv_status n = RESERVED \<and> rv_tx_hash n = None \<and> insert_reservation d n = Inr d')"
  using assms by (cases rule: reserve_cases) blast+

lemma insert_reservation_outside: "insert_reservation d n = Inr d' \<Longrightarrow> outside_reservations d' = outside_reservations d"
  by (auto simp: insert_reservation_def outside_defs frame_defs split: if_splits)

lemma persist_shape:
  assumes "persistSettlementContext now i v d = Inr (x, d')"
  shows "d' = d \<or> (\<exists>P f. d' = update_reservations P f d)"
  using assms by (cases rule: persist_cases) blast+

lemma reservation_step_keeps:
  assumes "reservation_step d d'" and ok: "reservations_ok d"
  shows "reservations_grow d d' \<and> outside_reservations d' = outside_reservations d"
  using assms(1)
proof cases
  case (step_reserve now ident rq x)
  from reserve_shape [OF this] show ?thesis
  proof (elim disjE exE conjE)
    fix n assume "rv_status n = RESERVED" "rv_tx_hash n = None" "insert_reservation d n = Inr d'"
    then show ?thesis using insert_reservation_grows [OF ok] insert_reservation_outside by simp
  qed (simp add: reservations_grow_frame ok)
next
  case (step_claim_settlement now u s p)
  then show ?thesis using claimForSettlement_grows [OF ok, of now u s p] by (simp add: claimForSettlement_def Let_def)
next
  case (step_context now i v x)
  from persist_shape [OF this] have "outside_reservations d' = outside_reservations d" by auto
  then show ?thesis using persistSettlementContext_grows [OF ok step_context] by simp
next
  case (step_complete now i kwh v t x)
  have "outside_reservations d' = outside_reservations d" using step_complete by (cases rule: complete_cases) simp_all
  then show ?thesis using complete_grows [OF ok step_complete] by simp
next
  case (step_retry now i e)
  then show ?thesis using retrySettlement_grows [OF ok, of now i e] by (simp add: retrySettlement_def split: option.split)
qed

subsection \<open>Wallets and projections\<close>

lemma insert_returning_outside: "insert_returning d n = Inr (x, d') \<Longrightarrow> outside_wallets d' = outside_wallets d"
  by (auto simp: insert_returning_def insert_user_def rbind_Inr_iff outside_defs frame_defs split: if_splits)

lemma set_active_outside: "set_active e f d = Inr (x, d') \<Longrightarrow> outside_wallets d' = outside_wallets d"
  by (auto simp: set_active_def split: if_splits)

lemma deactivate_outside [simp]: "outside_wallets (deactivate_all u d) = outside_wallets d"
  by (simp add: deactivate_all_def)

lemma ensure_outside:
  assumes "ensureManagedWallet managed now ident u d = Inr (x, d')"
  shows "outside_wallets d' = outside_wallets d"
proof (cases "find_user (deactivate_all u d) u (managed u)")
  case None
  then obtain y where "insert_returning (deactivate_all u d) (new_user now ident u (managed u) None True) = Inr (y, d')"
    using assms by (auto simp: ensureManagedWallet_def Let_def rbind_Inr_iff)
  then show ?thesis using insert_returning_outside by fastforce
next
  case (Some e)
  then have "set_active e (\<lambda>r. r\<lparr>us_active := True, us_updated := now\<rparr>) (deactivate_all u d) = Inr (x, d')"
    using assms by (simp add: ensureManagedWallet_def Let_def)
  then show ?thesis using set_active_outside by fastforce
qed

lemma activate_outside:
  assumes "activateWallet now ident u w name d = Inr (x, d')"
  shows "outside_wallets d' = outside_wallets d"
proof (cases "find_user d u w")
  case None
  then obtain y where "insert_returning (deactivate_all u d) (new_user now ident u w name True) = Inr (y, d')"
    using assms by (auto simp: activateWallet_def rbind_Inr_iff)
  then show ?thesis using insert_returning_outside by fastforce
next
  case (Some e)
  then have "set_active e (\<lambda>r. r\<lparr>us_active := True\<rparr>)
      (update_users (\<lambda>r. us_uid r = u \<and> us_id r \<noteq> us_id e) (\<lambda>r. r\<lparr>us_active := False\<rparr>) d) = Inr (x, d')"
    using assms by (simp add: activateWallet_def)
  then show ?thesis using set_active_outside by fastforce
qed

lemma retire_outside: "retire_user now e d = (n, d') \<Longrightarrow> outside_wallets d' = outside_wallets d"
  by (auto simp: retire_user_def outside_defs frame_defs update_users_def split: if_splits)

lemma create_outside: "createUser now ident u w n d = Inr (x, d') \<Longrightarrow> outside_wallets d' = outside_wallets d"
  using insert_returning_outside by (auto simp: createUser_def split: option.splits)

lemma links_outside [simp]: "outside_wallets (d\<lparr>t_linked := t\<rparr>) = outside_wallets d"
  by (simp add: outside_defs frame_defs)

lemma add_link_outside: "addLinkedWallet now ident u w n d = Inr (x, d') \<Longrightarrow> outside_wallets d' = outside_wallets d"
  by (auto simp: addLinkedWallet_def rbind_Inr_iff split: option.splits)

lemma delete_outside:
  assumes "deleteByUidAndWallet managed now ident u w d = Inr (x, d')"
  shows "outside_wallets d' = outside_wallets d"
proof (cases "find_user d u w")
  case None
  then show ?thesis using assms by (simp add: deleteByUidAndWallet_def)
next
  case (Some e)
  obtain n d1 where r: "retire_user now e d = (n, d1)" by (cases "retire_user now e d")
  consider "d' = d1" | y where "ensureManagedWallet managed now ident u d1 = Inr (y, d')"
    using assms Some r by (auto simp: deleteByUidAndWallet_def rbind_Inr_iff split: if_splits)
  then show ?thesis by cases (use ensure_outside retire_outside [OF r] in fastforce)+
qed

lemma unlink_outside:
  assumes "unlinkLinkedWallet managed now ident u w d = Inr (x, d')"
  shows "outside_wallets d' = outside_wallets d"
proof -
  define d1 where "d1 = d\<lparr>t_linked := delete_where (linked_to u w) (t_linked d)\<rparr>"
  have o1: "outside_wallets d1 = outside_wallets d" by (simp add: d1_def)
  show ?thesis
  proof (cases "find_user d1 u w")
    case None
    then show ?thesis using assms o1 by (simp add: unlinkLinkedWallet_def d1_def [symmetric] Let_def)
  next
    case (Some e)
    obtain n d2 where r: "retire_user now e d1 = (n, d2)" by (cases "retire_user now e d1")
    consider "d' = d1" | "d' = d2" | y where "ensureManagedWallet managed now ident u d2 = Inr (y, d')"
      using assms Some r
      by (auto simp: unlinkLinkedWallet_def d1_def [symmetric] Let_def rbind_Inr_iff split: if_splits)
    then show ?thesis by cases (use ensure_outside retire_outside [OF r] o1 in fastforce)+
  qed
qed

lemma wallet_step_keeps:
  assumes "wallet_step d d'" and ok: "wallets_ok d"
  shows "wallets_ok d' \<and> outside_wallets d' = outside_wallets d"
proof -
  have u: "users_ok (t_users d)" and l: "links_ok (t_linked d)" using ok by (simp_all add: wallets_ok_def)
  show ?thesis using assms(1)
  proof cases
    case (step_create_user now ident u w n x)
    then show ?thesis using createUser_ok [OF _ u] create_outside l by (fastforce simp: wallets_ok_def)
  next
    case (step_update_wallet now ident w y)
    then have "outside_wallets d' = outside_wallets d" by (auto simp: update_wallet_def Let_def split: if_splits)
    then show ?thesis using update_wallet_ok [OF step_update_wallet u] l by (simp add: wallets_ok_def)
  next
    case (step_update_address now u' w y)
    then obtain i where i: "update_wallet now i w d = Inr (y, d')" by (auto simp: updateWalletAddress_def rbind_Inr_iff)
    then have "outside_wallets d' = outside_wallets d" by (auto simp: update_wallet_def Let_def split: if_splits)
    then show ?thesis using update_wallet_ok [OF i u] l by (simp add: wallets_ok_def)
  next
    case (step_update_name now w n)
    have "users_ok (update_where (\<lambda>r. same_text (us_wallet r) w) (\<lambda>r. r\<lparr>us_name := n, us_updated := now\<rparr>) (t_users d))"
      by (rule users_ok_passive [OF u]) (simp_all add: wallet_key_def)
    then show ?thesis using l by (simp add: step_update_name updateWalletNameByAddress_def Let_def wallets_ok_def)
  next
    case (step_activate now ident u' w n y)
    then show ?thesis using activateWallet_ok [OF _ u] activate_outside l by (fastforce simp: wallets_ok_def)
  next
    case (step_delete managed now ident u' w z)
    then show ?thesis using deleteByUidAndWallet_ok [OF _ u] delete_outside l by (fastforce simp: wallets_ok_def)
  next
    case (step_link now ident u' w n x)
    then obtain r d1 where a: "addLinkedWallet now ident u' w n d = Inr (r, d1)" "createUser now ident u' w n d1 = Inr (x, d')"
      by (auto simp: linkLinkedWallet_def rbind_Inr_iff)
    then show ?thesis
      using addLinkedWallet_ok [OF a(1) l] createUser_ok [OF a(2)] add_link_outside [OF a(1)] create_outside [OF a(2)] u
      by (simp add: wallets_ok_def)
  next
    case (step_unlink managed now ident u' w v)
    then show ?thesis using unlinkLinkedWallet_ok [OF _ ok] unlink_outside by blast
  next
    case (step_link_name now u' w n)
    then show ?thesis using updateLinkName_ok [OF l] u by (simp add: wallets_ok_def updateLinkName_def Let_def)
  qed
qed

lemma distinct_key_append: "distinct (map k t) \<Longrightarrow> \<not> list_ex (\<lambda>r. k r = k n) t \<Longrightarrow> distinct (map k (t @ [n]))"
  by (auto simp: list_ex_iff)

lemma projection_step_keeps:
  assumes "projection_step d d'" and ok: "projections_ok d"
  shows "projections_ok d' \<and> outside_projections d' = outside_projections d"
  using assms(1)
proof cases
  case (step_award now ident a x)
  then have i: "insert_award d x = Inr d'" by (auto simp: createAward_def rbind_Inr_iff Let_def)
  have d': "d' = d\<lparr>t_awards := t_awards d @ [x]\<rparr>"
    and f: "\<not> list_ex (\<lambda>r. aw_dedup_key r = aw_dedup_key x) (t_awards d)"
    "\<not> list_ex (\<lambda>r. (aw_session_id r, aw_provider_id r) = (aw_session_id x, aw_provider_id x)) (t_awards d)"
    "\<not> list_ex (\<lambda>r. js_lower (aw_tx_hash r) = js_lower (aw_tx_hash x)) (t_awards d)"
    using i unfolding insert_award_def same_text_def prod.inject by (simp_all split: if_splits)
  show ?thesis
    using ok distinct_key_append [OF _ f(1)] distinct_key_append [where k = "\<lambda>a. (aw_session_id a, aw_provider_id a)", OF _ f(2)]
      distinct_key_append [where k = "\<lambda>a. js_lower (aw_tx_hash a)", OF _ f(3)]
    by (simp add: projections_ok_def d' outside_defs frame_defs)
next
  case (step_balance now b)
  then show ?thesis using ok by (simp add: upsertBalance_def Let_def projections_ok_def outside_defs frame_defs)
next
  case (step_spend now ident s y)
  then have "d' = d\<lparr>t_spends := t_spends d @ [y]\<rparr>"
    and f: "\<not> list_ex (\<lambda>r. js_lower (sp_tx_hash r) = js_lower (sp_tx_hash y)) (t_spends d)"
    by (auto simp: createSpend_def insert_spend_def rbind_Inr_iff Let_def same_text_def split: if_splits)
  then show ?thesis using ok distinct_key_append [where k = "\<lambda>s. js_lower (sp_tx_hash s)", OF _ f]
    by (simp add: projections_ok_def outside_defs frame_defs)
next
  case (step_receipt r z)
  then have d': "d' = d\<lparr>t_receipts := t_receipts d @ [z]\<rparr>"
    and f: "\<not> list_ex (\<lambda>x. rc_receipt_id x = rc_receipt_id z) (t_receipts d)"
    "\<not> list_ex (\<lambda>x. js_lower (rc_token_tx_hash x) = js_lower (rc_token_tx_hash z)) (t_receipts d)"
    by (auto simp: createReceipt_def rbind_Inr_iff Let_def same_text_def split: if_splits)
  show ?thesis
    using ok distinct_key_append [OF _ f(1)] distinct_key_append [where k = "\<lambda>r. js_lower (rc_token_tx_hash r)", OF _ f(2)]
    by (simp add: projections_ok_def d' outside_defs frame_defs)
next
  case (step_audit now au)
  then show ?thesis using ok by (simp add: createAudit_def Let_def projections_ok_def outside_defs frame_defs)
next
  case (step_report now rp)
  then show ?thesis using ok by (simp add: createReport_def projections_ok_def outside_defs frame_defs)
qed

subsection \<open>Every step of the service\<close>

lemma service_step_grows:
  assumes "service_step d d'" and ok: "service_ok d"
  shows "service_grows d d'"
proof -
  have o: "ledger_ok d" "leases_ok d" "approvals_ok d" "reservations_ok d" "wallets_ok d" "projections_ok d"
    using ok by (simp_all add: service_ok_def)
  note keep = frames_keep(4) [OF o(1)] frames_keep(5) [OF o(2)] frames_keep(1) [OF o(3)] frames_keep(6) [OF o(4)]
    frames_keep(2) [OF o(5)] frames_keep(3) [OF o(6)]
  show ?thesis using assms(1)
  proof cases
    case by_ledger
    have "outside_ledger d' = outside_ledger d" by (rule ledger_step_outside [OF by_ledger])
    then have f: "lease_frame d' = lease_frame d" "approval_frame d' = approval_frame d"
      "reservation_frame d' = reservation_frame d" "wallet_frame d' = wallet_frame d" "projection_frame d' = projection_frame d"
      by (simp_all add: outside_ledger_def)
    show ?thesis
      by (rule service_growsI [OF ledger_step_grows [OF by_ledger o(1)] keep(2) [OF f(1)] keep(4) [OF f(3)]
            keep(3) [OF f(2)] keep(5) [OF f(4)] keep(6) [OF f(5)]])
  next
    case by_lease
    note k = lease_step_keeps [OF by_lease o(3)] and g = lease_step_grows [OF by_lease o(1,2)]
    have f: "reservation_frame d' = reservation_frame d" "wallet_frame d' = wallet_frame d" "projection_frame d' = projection_frame d"
      using k by (simp_all add: outside_treasury_def)
    show ?thesis
      by (rule service_growsI [OF conjunct1 [OF g] conjunct2 [OF g] keep(4) [OF f(1)] conjunct1 [OF k]
            keep(5) [OF f(2)] keep(6) [OF f(3)]])
  next
    case by_approval
    note k = approval_step_keeps [OF by_approval o(3)]
    have f: "ledger_frame d' = ledger_frame d" "lease_frame d' = lease_frame d"
      "reservation_frame d' = reservation_frame d" "wallet_frame d' = wallet_frame d" "projection_frame d' = projection_frame d"
      using k by (simp_all add: outside_approvals_def)
    show ?thesis
      by (rule service_growsI [OF keep(1) [OF f(1)] keep(2) [OF f(2)] keep(4) [OF f(3)] conjunct1 [OF k]
            keep(5) [OF f(4)] keep(6) [OF f(5)]])
  next
    case by_reservation
    note k = reservation_step_keeps [OF by_reservation o(4)]
    have f: "ledger_frame d' = ledger_frame d" "lease_frame d' = lease_frame d"
      "approval_frame d' = approval_frame d" "wallet_frame d' = wallet_frame d" "projection_frame d' = projection_frame d"
      using k by (simp_all add: outside_reservations_def)
    show ?thesis
      by (rule service_growsI [OF keep(1) [OF f(1)] keep(2) [OF f(2)] conjunct1 [OF k] keep(3) [OF f(3)]
            keep(5) [OF f(4)] keep(6) [OF f(5)]])
  next
    case by_wallet
    note k = wallet_step_keeps [OF by_wallet o(5)]
    have f: "ledger_frame d' = ledger_frame d" "lease_frame d' = lease_frame d"
      "approval_frame d' = approval_frame d" "reservation_frame d' = reservation_frame d" "projection_frame d' = projection_frame d"
      using k by (simp_all add: outside_wallets_def)
    show ?thesis
      by (rule service_growsI [OF keep(1) [OF f(1)] keep(2) [OF f(2)] keep(4) [OF f(4)] keep(3) [OF f(3)]
            conjunct1 [OF k] keep(6) [OF f(5)]])
  next
    case by_projection
    note k = projection_step_keeps [OF by_projection o(6)]
    have f: "ledger_frame d' = ledger_frame d" "lease_frame d' = lease_frame d"
      "approval_frame d' = approval_frame d" "reservation_frame d' = reservation_frame d" "wallet_frame d' = wallet_frame d"
      using k by (simp_all add: outside_projections_def)
    show ?thesis
      by (rule service_growsI [OF keep(1) [OF f(1)] keep(2) [OF f(2)] keep(4) [OF f(4)] keep(3) [OF f(3)]
            keep(5) [OF f(5)] conjunct1 [OF k]])
  qed
qed

lemma service_step_facts:
  assumes "service_ok d" and "service_step d d'"
  shows "service_ok d'"
    and "find_operation d k = Some r \<Longrightarrow> \<exists>r'. find_operation d' k = Some r' \<and> op_le r r'"
    and "find_lease d k = Some l \<Longrightarrow> \<exists>l'. find_lease d' k = Some l' \<and> lease_le l l'"
    and "find_reservation d k = Some v \<Longrightarrow> \<exists>v'. find_reservation d' k = Some v' \<and> reservation_le v v'"
  using service_step_grows [OF assms(2,1)]
  by (simp_all add: service_grows_def ledger_grows_def leases_grow_def reservations_grow_def table_grows_def
      find_operation_def find_lease_def find_reservation_def)

lemma empty_service_ok: "service_ok empty_db"
  by (simp add: service_ok_def ledger_ok_def ops_ok_def leases_ok_def approvals_ok_def reservations_ok_def wallets_ok_def
      users_ok_def links_ok_def projections_ok_def empty_db_def)

text \<open>The three stores with final rows are instances of the contract of \<open>terminal_store\<close>.\<close>

definition failed_with_hash :: "operation_row \<Rightarrow> bool" where
  "failed_with_hash r \<longleftrightarrow> op_status r = FAILED \<and> op_tx_hash r \<noteq> None"

interpretation op_store: terminal_store find_operation op_le service_ok service_step failed_with_hash
proof unfold_locales
  show "op_le a b \<Longrightarrow> op_le b c \<Longrightarrow> op_le a c" for a b c by (rule op_le_trans)
  show "failed_with_hash r \<Longrightarrow> op_le r r' \<Longrightarrow> r' = r" for r r' by (simp add: failed_with_hash_def op_le_def)
qed (simp_all add: service_step_facts)

interpretation lease_store: terminal_store find_lease lease_le service_ok service_step "\<lambda>l. \<not> live_lease l"
proof unfold_locales
  show "lease_le a b \<Longrightarrow> lease_le b c \<Longrightarrow> lease_le a c" for a b c by (rule lease_le_trans)
  show "\<not> live_lease r \<Longrightarrow> lease_le r r' \<Longrightarrow> r' = r" for r r' by (simp add: lease_le_def)
qed (simp_all add: service_step_facts)

interpretation hold_store: terminal_store find_reservation reservation_le service_ok service_step
  "\<lambda>r. final_reservation (rv_status r)"
proof unfold_locales
  show "reservation_le a b \<Longrightarrow> reservation_le b c \<Longrightarrow> reservation_le a c" for a b c by (rule reservation_le_trans)
  show "final_reservation (rv_status r) \<Longrightarrow> reservation_le r r' \<Longrightarrow> r' = r" for r r' by (simp add: reservation_le_def)
qed (simp_all add: service_step_facts)

lemmas reachable_ok = op_store.steps_invar [OF _ empty_service_ok]

end
