(* ===== verification/Broadcast.thy ===== *)
theory Broadcast
  imports Service Reliability
begin

text \<open>
  What \<open>prepareAndBroadcastTransaction\<close> guarantees on the shared database: a run is a sequence of
  service steps, what it sends was committed before, and an operation key is sent at most once over
  all histories.
\<close>

subsection \<open>Diagnostics of the preparation\<close>

definition unsent_diagnostic :: "diagnostic \<Rightarrow> bool" where
  "unsent_diagnostic g \<longleftrightarrow> dg_savedHash g = None \<and> dg_stage g = PREPARE"

definition callback_unsent :: "callback_error \<Rightarrow> bool" where
  "callback_unsent e \<longleftrightarrow> (case e of Reliability_Error g \<Rightarrow> unsent_diagnostic g | Other_Error m \<Rightarrow> True)"

lemma preparing_unsent [simp]: "callback_unsent (preparing code retryable category nonce)"
  by (simp add: callback_unsent_def preparing_def unsent_diagnostic_def diagnosticFor_def)

lemma fees_gas_unsent:
  "with_fees n f tx = Inl e \<Longrightarrow> callback_unsent e" "with_gas ch n tx = Inl e \<Longrightarrow> callback_unsent e"
  by (auto simp: with_fees_def with_gas_def split: option.splits sum.splits)

lemma sign_transaction_unsent: "sign_transaction ch req s n = Inl e \<Longrightarrow> callback_unsent e"
  unfolding sign_transaction_def rbind_Inl_iff
  by (auto simp: of_option_def callback_unsent_def [of "Other_Error _"] dest: fees_gas_unsent split: sum.splits option.splits)

lemma read_pending_unsent: "read_pending ch = Inl e \<Longrightarrow> callback_unsent e"
  by (auto simp: read_pending_def split: sum.splits)

lemma saved_hash_not_pre:
  "h \<noteq> [] \<Longrightarrow> \<not> isPreBroadcastTransactionDiagnostic (Some (diagnosticFor st code ret cat (Some h) nonce))"
  by (simp add: isPreBroadcastTransactionDiagnostic_def diagnosticFor_def)

lemma prepare_callback:
  assumes "prepareLease locked now q d = Inl (CALLBACK_FAILED e)"
  shows "tr_pending_nonce q = Inl e \<or> (\<exists>n. tr_prepare q n = Inl e)"
proof -
  have no: "insert_lease d l \<noteq> Inl (CALLBACK_FAILED e)" "attach_target now q h n c d1 \<noteq> Inl (CALLBACK_FAILED e)"
    "allocate_nonce now d c' s p \<noteq> Inl (CALLBACK_FAILED e)" "canonical_hash t fld \<noteq> Inl (CALLBACK_FAILED e)"
    for l h n c d1 c' s p t fld
    by (auto simp: insert_lease_def attach_target_def attach_operation_def attach_funding_def allocate_nonce_def Let_def
        canonical_hash_def of_option_def split: lease_target.splits option.splits sum.splits)
  have "pending_nonce p = Inl (CALLBACK_FAILED e) \<Longrightarrow> p = Inl e" for p
    by (auto simp: pending_nonce_def split: sum.splits js_number.splits if_splits)
  moreover have "case_sum (\<lambda>e. Inl (CALLBACK_FAILED e)) Inr v = Inl (CALLBACK_FAILED e) \<Longrightarrow> v = Inl e"
    for v :: "callback_error + prepared_transaction"
    by (cases v) simp_all
  ultimately show ?thesis using assms no
    by (auto simp: prepareLease_def rbind_Inl_iff split: if_splits option.splits)
qed

lemma preparation_failure_pre:
  assumes "prepareLease locked now (lease_request_of ch req s) d = Inl e"
  shows "isPreBroadcastTransactionDiagnostic (Some (preparation_failure e))"
proof (cases e)
  case (CALLBACK_FAILED c)
  have "read_pending ch = Inl c \<or> (\<exists>n. sign_transaction ch req s n = Inl c)"
    using prepare_callback [OF assms [unfolded CALLBACK_FAILED]] by (simp add: lease_request_of_def)
  then have "callback_unsent c" using read_pending_unsent sign_transaction_unsent by blast
  then show ?thesis
    by (cases c) (simp_all add: CALLBACK_FAILED preparation_failure_def callback_unsent_def unsent_diagnostic_def
        diagnosticFor_def isPreBroadcastTransactionDiagnostic_def)
qed (simp_all add: preparation_failure_def diagnosticFor_def isPreBroadcastTransactionDiagnostic_def Let_def split: option.split)

subsection \<open>The shape of a run\<close>

lemma to_review_run:
  assumes "to_review ch now req g d s = (d', s', r)"
  shows "s' = s" and "r = Inl g" and "d' = d \<or> d' = snd (leaseMarkUnknown now (rq_operationKey req) g (dg_errorCode g) d)"
  using assms by (auto simp: to_review_def split: if_splits)

lemma lease_hash_nonempty: "leases_ok d \<Longrightarrow> find_lease d k = Some l \<Longrightarrow> ls_tx_hash l \<noteq> []"
  using row_at_Some [of ls_key k "t_leases d" l]
  by (auto simp: leases_ok_def find_lease_def hash_ok_def is_tx_hash_def)

lemma run_cases:
  assumes "prepareAndBroadcastTransaction ch now req d = (d', sent, r)" and "leases_ok d"
  obtains (refused) g where "d' = d" "sent = []" "r = Inl g" "isPreBroadcastTransactionDiagnostic (Some g)"
  | (found) l where "find_lease d (rq_operationKey req) = Some l" "sent = []"
      "d' = d \<or> (\<exists>g e. d' = snd (leaseMarkUnknown now (rq_operationKey req) g e d))"
      "(\<exists>g. r = Inl g \<and> \<not> isPreBroadcastTransactionDiagnostic (Some g))
        \<or> (\<exists>v. r = Inr v \<and> \<not> rr_broadcasted v \<and> rr_alreadyPrepared v \<and> rr_txHash v = ls_tx_hash l \<and> d' = d)"
  | (fresh) signer x d1 raw where "prepareLease (ch_locked ch) now (lease_request_of ch req signer) d = Inr (x, d1)"
      "find_lease d (rq_operationKey req) = None" "lo_raw x = Some raw" "sent = [raw]" "ls_tx_hash (lo_lease x) \<noteq> []"
      "d' = d1 \<or> (\<exists>g e. d' = snd (leaseMarkUnknown now (rq_operationKey req) g e d1))
        \<or> (\<exists>v. leaseMarkSubmitted now (rq_operationKey req) (ls_tx_hash (lo_lease x)) d1 = Inr (v, d'))"
      "(\<exists>g. r = Inl g \<and> \<not> isPreBroadcastTransactionDiagnostic (Some g)) \<or>
        (\<exists>v w. r = Inr v \<and> rr_broadcasted v \<and> rr_txHash v = ls_tx_hash (lo_lease x)
           \<and> leaseMarkSubmitted now (rq_operationKey req) (ls_tx_hash (lo_lease x)) d1 = Inr (w, d'))"
proof (cases "ch_provider ch")
  case False
  then show thesis using assms(1)
    by (intro refused) (auto simp: prepareAndBroadcastTransaction_def isPreBroadcastTransactionDiagnostic_def diagnosticFor_def)
next
  case prov: True
  show thesis
  proof (cases "Option.bind (ch_address ch) (ch_checksum ch)")
    case None
    then show thesis using assms(1) prov
      by (intro refused) (auto simp: prepareAndBroadcastTransaction_def isPreBroadcastTransactionDiagnostic_def diagnosticFor_def)
  next
    case (Some signer)
    define q where "q = lease_request_of ch req signer"
    have key: "tr_key q = rq_operationKey req" by (simp add: q_def lease_request_of_def)
    show thesis
    proof (cases "prepareLease (ch_locked ch) now q d")
      case (Inl e)
      then show thesis using assms(1) prov Some preparation_failure_pre [OF Inl [unfolded q_def]]
        by (intro refused) (auto simp: prepareAndBroadcastTransaction_def q_def [symmetric])
    next
      case (Inr y)
      obtain x d1 where y: "y = (x, d1)" by (cases y)
      have b: "broadcast_prepared ch now req x d1 = (d', sent, r)"
        using assms(1) prov Some Inr y by (simp add: prepareAndBroadcastTransaction_def q_def [symmetric])
      from Inr [unfolded y] show thesis
      proof (cases rule: prepareLease_cases)
        case existing
        have h: "ls_tx_hash (lo_lease x) \<noteq> []" by (rule lease_hash_nonempty [OF assms(2) existing(1)])
        show thesis
        proof (cases "ls_status (lo_lease x) = LEASE_PREPARED")
          case True
          note rev = to_review_run [OF b [unfolded broadcast_prepared_def Let_def if_P [OF existing(2)] if_P [OF True]]]
          have "\<exists>g. r = Inl g \<and> \<not> isPreBroadcastTransactionDiagnostic (Some g)"
            using rev(2) saved_hash_not_pre [OF h] by blast
          then show thesis using rev(1,3) existing(1,4) key by (intro found) auto
        next
          case False
          then show thesis using b existing key
            by (intro found) (auto simp: broadcast_prepared_def Let_def)
        qed
      next
        case (fresh pending nonce p h d2)
        have hn: "ls_tx_hash (lo_lease x) \<noteq> []"
          using canonical_hash_ok [OF fresh(7)] by (auto simp: fresh(10) new_lease_def hash_ok_def is_tx_hash_def)
        note intro = that(3) [OF Inr [unfolded y q_def] fresh(2) [unfolded key] fresh(11) _ hn]
        show thesis
        proof (cases "ch_broadcast ch (pt_rawTransaction p)")
          case None
          note rev = to_review_run [OF b [unfolded broadcast_prepared_def Let_def if_not_P [OF fresh(3)] fresh(11) option.case None]]
          have "\<exists>g. r = Inl g \<and> \<not> isPreBroadcastTransactionDiagnostic (Some g)"
            using rev(2) saved_hash_not_pre [OF hn] by blast
          then show thesis using rev(1,3) by (intro intro) auto
        next
          case (Some t)
          note b1 = b [unfolded broadcast_prepared_def Let_def if_not_P [OF fresh(3)] fresh(11) option.case Some]
          show thesis
          proof (cases "same_text t (ls_tx_hash (lo_lease x))")
            case False
            then have nn: "\<not> same_text t (ls_tx_hash (lo_lease x))" .
            note rev = to_review_run [OF b1 [unfolded if_P [OF nn]]]
            have "\<exists>g. r = Inl g \<and> \<not> isPreBroadcastTransactionDiagnostic (Some g)"
              using rev(2) saved_hash_not_pre [OF hn] by blast
            then show thesis using rev(1,3) by (intro intro) auto
          next
            case True
            then have nn: "\<not> \<not> same_text t (ls_tx_hash (lo_lease x))" by simp
            define m where "m = (if ch_submitted_saved ch
                then leaseMarkSubmitted now (rq_operationKey req) (ls_tx_hash (lo_lease x)) d1
                else Inl (CALLBACK_FAILED (Other_Error ''connection'')))"
            note b2 = b1 [unfolded if_not_P [OF nn], folded m_def]
            show thesis
            proof (cases m)
              case (Inl e)
              note rev = to_review_run [OF b2 [unfolded Inl sum.case]]
              have "\<exists>g. r = Inl g \<and> \<not> isPreBroadcastTransactionDiagnostic (Some g)"
                using rev(2) saved_hash_not_pre [OF hn] by blast
              then show thesis using rev(1,3) by (intro intro) auto
            next
              case (Inr w)
              obtain v d3 where w: "w = (v, d3)" by (cases w)
              have ms: "leaseMarkSubmitted now (rq_operationKey req) (ls_tx_hash (lo_lease x)) d1 = Inr (v, d3)"
                using Inr w by (simp add: m_def split: if_splits)
              show thesis using b2 [unfolded Inr w sum.case prod.case] ms by (intro intro) auto
            qed
          qed
        qed
      qed
    qed
  qed
qed


subsection \<open>Runs as histories\<close>

lemma run_lease_steps:
  assumes "prepareAndBroadcastTransaction ch now req d = (d', sent, r)" and "leases_ok d"
  shows "lease_step\<^sup>*\<^sup>* d d'"
  using assms
proof (cases rule: run_cases)
  case (found l)
  then show ?thesis by (metis r_into_rtranclp rtranclp.rtrancl_refl step_lease_unknown)
next
  case (fresh signer x d1 raw)
  have s1: "lease_step d d1" by (rule step_prepare [OF fresh(1)])
  have "lease_step\<^sup>*\<^sup>* d1 d'"
    using fresh(6) by (metis r_into_rtranclp rtranclp.rtrancl_refl step_lease_unknown step_lease_submitted)
  with s1 show ?thesis by (rule converse_rtranclp_into_rtranclp)
qed simp

lemma run_steps:
  assumes "prepareAndBroadcastTransaction ch now req d = (d', sent, r)" and "leases_ok d"
  shows "service_step\<^sup>*\<^sup>* d d'"
  using rtranclp_mono [of lease_step service_step] run_lease_steps [OF assms] by (auto intro: by_lease)

lemma prepared_lease_found:
  assumes "prepareLease locked now q d = Inr (x, d')" and "lo_raw x \<noteq> None" and "leases_ok d"
  shows "find_lease d' (tr_key q) = Some (lo_lease x)"
  using assms(1)
proof (cases rule: prepareLease_cases)
  case existing
  then show ?thesis using assms(2) by simp
next
  case (fresh pending nonce p h d1)
  have "t_leases d1 = t_leases d @ [lo_lease x]"
    using insert_lease_ok [OF assms(3) fresh(8)] canonical_hash_ok [OF fresh(7)] allocate_nonce_safe [OF fresh(5)] fresh(10)
    by (simp add: new_lease_def)
  moreover have "t_leases d' = t_leases d1"
    using fresh(9) by (auto simp: attach_target_def attach_operation_def attach_funding_def
        split: lease_target.splits option.splits if_splits)
  ultimately have "t_leases d' = t_leases d @ [lo_lease x]" by simp
  then show ?thesis by (rule find_lease_append [OF fresh(2), rotated]) (simp add: fresh(10) new_lease_def)
qed

lemma sent_lease:
  assumes "prepareAndBroadcastTransaction ch now req d = (d', sent, r)" and "service_ok d" and "sent \<noteq> []"
  obtains signer x d1 raw l where
    "prepareLease (ch_locked ch) now (lease_request_of ch req signer) d = Inr (x, d1)" "lo_raw x = Some raw" "sent = [raw]"
    "find_lease d (rq_operationKey req) = None" "find_lease d1 (rq_operationKey req) = Some (lo_lease x)"
    "service_step\<^sup>*\<^sup>* d1 d'" "find_lease d' (rq_operationKey req) = Some l" "lease_le (lo_lease x) l"
    "\<And>v. r = Inr v \<Longrightarrow> rr_broadcasted v \<and> rr_txHash v = ls_tx_hash (lo_lease x)"
proof -
  have lok: "leases_ok d" using assms(2) by (simp add: service_ok_def)
  from assms(1) lok show thesis
  proof (cases rule: run_cases)
    case (fresh signer x d1 raw)
    have key: "tr_key (lease_request_of ch req signer) = rq_operationKey req" by (simp add: lease_request_of_def)
    have f: "find_lease d1 (rq_operationKey req) = Some (lo_lease x)"
      using prepared_lease_found [OF fresh(1) _ lok] fresh(3) key by simp
    have "service_step d d1" by (rule by_lease, rule step_prepare [OF fresh(1)])
    then have ok1: "service_ok d1" using service_step_facts(1) [OF assms(2)] by blast
    have steps: "service_step\<^sup>*\<^sup>* d1 d'"
      using fresh(6) by (metis by_lease r_into_rtranclp rtranclp.rtrancl_refl step_lease_unknown step_lease_submitted)
    obtain l where "find_lease d' (rq_operationKey req) = Some l" "lease_le (lo_lease x) l"
      using lease_store.steps_le [OF steps ok1 f] by blast
    moreover have "rr_broadcasted v \<and> rr_txHash v = ls_tx_hash (lo_lease x)" if "r = Inr v" for v
      using fresh(7) that by auto
    ultimately show thesis using that [OF fresh(1,3,4,2) f steps] by blast
  qed (use assms(3) in simp_all)
qed

subsection \<open>A sample run\<close>

definition sample_chain :: chain_view where
  "sample_chain = \<lparr>ch_provider = True, ch_address = Some ''0xA1'', ch_checksum = Some, ch_pending = Inr (Fin (of_nat 7)),
     ch_fees = Inr \<lparr>fe_maxFeePerGas = None, fe_maxPriorityFeePerGas = None, fe_gasPrice = Some 5\<rparr>,
     ch_gas = (\<lambda>_. Inr 21000), ch_sign = (\<lambda>_. Some ''0x02''), ch_keccak = (\<lambda>_. sample_hash CHR ''a''),
     ch_broadcast = (\<lambda>_. Some (sample_hash CHR ''a'')), ch_locked = True, ch_submitted_saved = True, ch_unknown_saved = True\<rparr>"

definition sample_treasury_request :: treasury_request where
  "sample_treasury_request = \<lparr>rq_operationKey = ''op'', rq_targetOperationKey = None, rq_targetType = TARGET_STANDALONE,
     rq_chainId = ''80002'', rq_to = ''0xC0'', rq_data = None, rq_value = None, rq_accessList = None\<rparr>"

text \<open>A plain transfer of the sample chain, under any key and to any address.\<close>

definition plain_request :: "treasury_request \<Rightarrow> bool" where
  "plain_request q \<longleftrightarrow> rq_targetType q = TARGET_STANDALONE \<and> rq_chainId q = ''80002'' \<and> rq_accessList q = None \<and> requestValue (rq_value q) \<noteq> None"

lemma sample_signs:
  assumes "plain_request q"
  shows "\<exists>p. sign_transaction sample_chain q ''0xA1'' 7 = Inr p \<and> pt_txHash p = sample_hash CHR ''a''
     \<and> pt_rawTransaction p = ''0x02'' \<and> tc_nonce (pt_context p) = 7 \<and> tc_chainId (pt_context p) = ''80002''
     \<and> tc_signerAddress (pt_context p) = ''0xA1'' \<and> tc_to (pt_context p) = rq_to q \<and> tc_data (pt_context p) = Some (or_text (rq_data q) ''0x'')
     \<and> tc_value (pt_context p) = bigint_string (the (requestValue (rq_value q))) \<and> tc_accessList (pt_context p) = None"
  using assms unfolding plain_request_def
  by (auto simp: sign_transaction_def sample_chain_def with_fees_def with_gas_def base_request_def or_text_def nonempty_def
      toContext_def of_option_def)

lemma plain_run:
  assumes "plain_request request"
  shows "\<exists>l v. prepareAndBroadcastTransaction sample_chain now request empty_db = (empty_db\<lparr>t_leases := [l]\<rparr>, [''0x02''], Inr v)
    \<and> rr_txHash v = sample_hash CHR ''a'' \<and> \<not> rr_alreadyPrepared v \<and> ls_key l = rq_operationKey request
    \<and> ls_status l = LEASE_SUBMITTED \<and> ls_target l = TARGET_STANDALONE \<and> ls_tx_hash l = sample_hash CHR ''a''
    \<and> ls_target_key l = Some (or_text (rq_targetOperationKey request) (rq_operationKey request))
    \<and> ls_chain l = ''80002'' \<and> ls_signer l = js_lower ''0xA1'' \<and> tc_chainId (ls_context l) = ''80002'' \<and> tc_to (ls_context l) = rq_to request
    \<and> tc_data (ls_context l) = Some (or_text (rq_data request) ''0x'')
    \<and> tc_value (ls_context l) = bigint_string (the (requestValue (rq_value request))) \<and> tc_accessList (ls_context l) = None"
proof -
  obtain p where p: "sign_transaction sample_chain request ''0xA1'' 7 = Inr p" "pt_txHash p = sample_hash CHR ''a''"
    "pt_rawTransaction p = ''0x02''" "tc_nonce (pt_context p) = 7" "tc_chainId (pt_context p) = ''80002''"
    "tc_signerAddress (pt_context p) = ''0xA1''" "tc_to (pt_context p) = rq_to request"
    "tc_data (pt_context p) = Some (or_text (rq_data request) ''0x'')"
    "tc_value (pt_context p) = bigint_string (the (requestValue (rq_value request)))" "tc_accessList (pt_context p) = None"
    using sample_signs [OF assms] by blast
  define q where "q = lease_request_of sample_chain request ''0xA1''"
  have q: "tr_key q = rq_operationKey request" "tr_target q = TARGET_STANDALONE" "tr_chain q = ''80002''" "tr_signer q = ''0xA1''"
    "tr_pending_nonce q = Inr (Fin (of_nat 7))" "tr_prepare q = sign_transaction sample_chain request ''0xA1''"
    using assms by (simp_all add: q_def lease_request_of_def plain_request_def read_pending_def sample_chain_def)
  define l where "l = new_lease now q (sample_hash CHR ''a'') 7 (pt_context p)"
  have l: "ls_key l = rq_operationKey request" "ls_tx_hash l = sample_hash CHR ''a''" "ls_target l = TARGET_STANDALONE"
    "ls_status l = LEASE_PREPARED"
    by (simp_all add: l_def new_lease_def q)
  have "prepareLease True now q empty_db
      = Inr (\<lparr>lo_lease = l, lo_already = False, lo_raw = Some ''0x02''\<rparr>, empty_db\<lparr>t_leases := [l]\<rparr>)"
    using sample_pending [of 7] sample_hash_canonical [of "CHR ''a''"] p
    by (simp add: prepareLease_def q empty_db_def find_lease_def allocate_nonce_def unresolved_lease_def
      max_leased_def safe_nat_def guard_def insert_lease_def attach_target_def l_def)
  moreover define l' where "l' = l\<lparr>ls_status := LEASE_SUBMITTED, ls_error := None, ls_updated := now\<rparr>"
  moreover have "leaseMarkSubmitted now (rq_operationKey request) (sample_hash CHR ''a'') (empty_db\<lparr>t_leases := [l]\<rparr>) =
      Inr (Some l', empty_db\<lparr>t_leases := [l']\<rparr>)"
    using sample_hash_canonical [of "CHR ''a''"] l
    by (simp add: leaseMarkSubmitted_def Let_def returning_where_def live_lease_def update_leases_def update_where_def l'_def)
  moreover have "ch_provider sample_chain" "ch_address sample_chain = Some ''0xA1''" "ch_checksum sample_chain = Some"
    "ch_locked sample_chain" "ch_broadcast sample_chain r = Some (sample_hash CHR ''a'')" "ch_submitted_saved sample_chain" for r
    by (simp_all add: sample_chain_def)
  moreover have "ls_key l' = rq_operationKey request" "ls_status l' = LEASE_SUBMITTED" "ls_target l' = TARGET_STANDALONE"
    "ls_tx_hash l' = sample_hash CHR ''a''" "ls_target_key l' = Some (or_text (rq_targetOperationKey request) (rq_operationKey request))"
    "ls_chain l' = ''80002''" "ls_signer l' = js_lower ''0xA1''" "ls_context l' = pt_context p"
    using l by (simp_all add: l'_def l_def new_lease_def request_target_key_def q) (simp add: q_def lease_request_of_def)
  ultimately show ?thesis using l(2) p(5,7-10)
    by (intro exI [of _ l']) (simp add: prepareAndBroadcastTransaction_def q_def [symmetric] broadcast_prepared_def Let_def)
qed

lemma sample_run:
  "\<exists>d' v. prepareAndBroadcastTransaction sample_chain 0 sample_treasury_request empty_db = (d', [''0x02''], Inr v)"
  using plain_run [of sample_treasury_request 0] by (auto simp: plain_request_def sample_treasury_request_def requestValue_def)

subsection \<open>Guarantees\<close>

text \<open>
  C1: a treasury transaction is broadcast at most once per operation key: whatever happens to the
  database between two runs for the same key, and however the first run ended, if the first sent
  anything then the second sends nothing.
\<close>

theorem broadcast_at_most_once:
  assumes "service_ok d" and "prepareAndBroadcastTransaction ch now req d = (d1, sent, r)" and "sent \<noteq> []"
    and "service_step\<^sup>*\<^sup>* d1 d2"
    and "prepareAndBroadcastTransaction ch' now' req' d2 = (d3, sent', r')" and "rq_operationKey req' = rq_operationKey req"
  shows "sent' = []"
proof -
  obtain l where l: "find_lease d1 (rq_operationKey req) = Some l" using sent_lease [OF assms(2,1,3)] by metis
  have ok1: "service_ok d1"
    by (rule lease_store.steps_invar [OF run_steps [OF assms(2)] assms(1)]) (use assms(1) in \<open>simp add: service_ok_def\<close>)
  have ok2: "leases_ok d2" using lease_store.steps_invar [OF assms(4) ok1] by (simp add: service_ok_def)
  obtain l' where l': "find_lease d2 (rq_operationKey req') = Some l'"
    using lease_store.steps_le [OF assms(4) ok1 l] assms(6) by auto
  from assms(5) ok2 show ?thesis by (cases rule: run_cases) (use l' in simp_all)
qed

theorem broadcast_at_most_once_witness:
  "\<exists>d1 r1 d2 r2. prepareAndBroadcastTransaction sample_chain 0 sample_treasury_request empty_db = (d1, [''0x02''], r1)
     \<and> prepareAndBroadcastTransaction sample_chain 9 sample_treasury_request d1 = (d2, [], r2)"
proof -
  obtain d1 v where a: "prepareAndBroadcastTransaction sample_chain 0 sample_treasury_request empty_db = (d1, [''0x02''], Inr v)"
    using sample_run by blast
  obtain d2 s r2 where b: "prepareAndBroadcastTransaction sample_chain 9 sample_treasury_request d1 = (d2, s, r2)"
    by (cases "prepareAndBroadcastTransaction sample_chain 9 sample_treasury_request d1")
  have "s = []" by (rule broadcast_at_most_once [OF empty_service_ok a _ rtranclp.rtrancl_refl b]) simp_all
  then show ?thesis using a b by blast
qed

text \<open>
  C15: a pre-broadcast diagnostic proves that nothing was sent: when a run ends with a diagnostic that
  \<open>isPreBroadcastTransactionDiagnostic\<close> accepts, no raw transaction left the process and the database is
  unchanged; conversely every failure after the send is not accepted.
\<close>

theorem pre_broadcast_diagnostic_proves_unsent:
  assumes "leases_ok d" and "prepareAndBroadcastTransaction ch now req d = (d', sent, Inl g)"
    and "isPreBroadcastTransactionDiagnostic (Some g)"
  shows "sent = [] \<and> d' = d"
  using assms(2,1) by (cases rule: run_cases) (use assms(3) in auto)

theorem pre_broadcast_diagnostic_proves_unsent_witness:
  "\<exists>d' sent g. prepareAndBroadcastTransaction (sample_chain\<lparr>ch_locked := False\<rparr>) 0 sample_treasury_request empty_db = (d', sent, Inl g)
     \<and> dg_errorCode g = ''TREASURY_NONCE_LOCK_TIMEOUT'' \<and> sent = [] \<and> d' = empty_db"
proof -
  define g where "g = preparation_failure (Preparation TREASURY_NONCE_LOCK_TIMEOUT)"
  obtain d' sent where r: "prepareAndBroadcastTransaction (sample_chain\<lparr>ch_locked := False\<rparr>) 0 sample_treasury_request empty_db
      = (d', sent, Inl g)"
    by (simp add: prepareAndBroadcastTransaction_def prepareLease_def g_def sample_chain_def)
  have g: "isPreBroadcastTransactionDiagnostic (Some g)" "dg_errorCode g = ''TREASURY_NONCE_LOCK_TIMEOUT''"
    by (simp_all add: g_def preparation_failure_def coordinator_diagnostics_def diagnosticFor_def isPreBroadcastTransactionDiagnostic_def)
  have "leases_ok empty_db" using empty_service_ok by (simp add: service_ok_def)
  from pre_broadcast_diagnostic_proves_unsent [OF this r g(1)] r g(2) show ?thesis by blast
qed

text \<open>
  C17: what is broadcast is what was committed: a run that sends anything sends exactly the one raw
  transaction the signer produced for the leased nonce; the hash of those bytes was committed on the
  lease before the send and stays on it, and when the run reports success the lease is on record with
  the hash the caller gets.
\<close>

theorem broadcast_is_committed:
  assumes "service_ok d" and "prepareAndBroadcastTransaction ch now req d = (d', sent, r)" and "sent \<noteq> []"
  shows "\<exists>signer nonce p l. sent = [pt_rawTransaction p] \<and> sign_transaction ch req signer nonce = Inr p
    \<and> find_lease d (rq_operationKey req) = None \<and> find_lease d' (rq_operationKey req) = Some l
    \<and> ls_nonce l = nonce \<and> ls_tx_hash l = js_lower (js_trim (ch_keccak ch (pt_rawTransaction p))) \<and> ls_context l = pt_context p
    \<and> (\<forall>v. r = Inr v \<longrightarrow> rr_broadcasted v \<and> rr_txHash v = ls_tx_hash l)"
proof -
  have lok: "leases_ok d" using assms(1) by (simp add: service_ok_def)
  obtain signer x d1 raw l where s: "prepareLease (ch_locked ch) now (lease_request_of ch req signer) d = Inr (x, d1)"
    "lo_raw x = Some raw" "sent = [raw]" "find_lease d (rq_operationKey req) = None"
    "find_lease d' (rq_operationKey req) = Some l" "lease_le (lo_lease x) l"
    "\<And>v. r = Inr v \<Longrightarrow> rr_broadcasted v \<and> rr_txHash v = ls_tx_hash (lo_lease x)"
    using sent_lease [OF assms(2,1,3)] by metis
  from s(1) obtain nonce p h where p: "sign_transaction ch req signer nonce = Inr p"
    "canonical_hash (pt_txHash p) ''prepared transaction hash'' = Inr h"
    "lo_lease x = new_lease now (lease_request_of ch req signer) h nonce (pt_context p)" "raw = pt_rawTransaction p"
  proof (cases rule: prepareLease_cases)
    case (fresh pending nonce p h d2)
    then show ?thesis using s(2) by (intro that [of nonce p h]) (simp_all add: lease_request_of_def)
  qed (use s(2) in simp)
  have k: "pt_txHash p = ch_keccak ch (pt_rawTransaction p)"
    using p(1) by (auto simp: sign_transaction_def rbind_Inr_iff)
  have "h = js_lower (js_trim (pt_txHash p))"
    using p(2) by (auto simp: canonical_hash_def requireCanonicalTransactionHash_def canonicalTransactionHash_def of_option_def
        Let_def split: option.splits if_splits sum.splits)
  then have h: "ls_tx_hash l = js_lower (js_trim (ch_keccak ch (pt_rawTransaction p)))"
    using s(6) k p(3) by (simp add: lease_le_def new_lease_def)
  have l: "ls_nonce l = nonce" "ls_context l = pt_context p"
    using s(6) p(3) by (simp_all add: lease_le_def new_lease_def)
  have "rr_broadcasted v \<and> rr_txHash v = ls_tx_hash l" if "r = Inr v" for v
    using s(6) s(7) [OF that] by (simp add: lease_le_def)
  then show ?thesis using s(3,4,5) p(1,4) h l by blast
qed

theorem broadcast_is_committed_witness:
  "\<exists>d' v l. prepareAndBroadcastTransaction sample_chain 0 sample_treasury_request empty_db = (d', [''0x02''], Inr v)
     \<and> find_lease d' ''op'' = Some l \<and> rr_txHash v = ls_tx_hash l"
proof -
  obtain d' v where a: "prepareAndBroadcastTransaction sample_chain 0 sample_treasury_request empty_db = (d', [''0x02''], Inr v)"
    using sample_run by blast
  from broadcast_is_committed [OF empty_service_ok a] a show ?thesis by (auto simp: sample_treasury_request_def)
qed

text \<open>
  Every refusal of the nonce coordinator reaches the caller under its own code, never as the
  generic hash-persistence failure; it is retryable exactly for the lock timeout, the busy nonce, the
  unavailable pending nonce and the unavailable nonce, and its category is never a preflight rejection.
\<close>

theorem coordinator_refusals_keep_code:
  "dg_errorCode (preparation_failure (Preparation e)) = preparation_code e
    \<and> (dg_retryable (preparation_failure (Preparation e)) \<longleftrightarrow> preparation_code e \<in> {''TREASURY_NONCE_LOCK_TIMEOUT'',
         ''TREASURY_NONCE_BUSY_RETRYABLE'', ''TREASURY_PENDING_NONCE_UNAVAILABLE'', ''TREASURY_NONCE_UNAVAILABLE''})
    \<and> (dg_retryable (preparation_failure (Preparation e)) \<longleftrightarrow> dg_category (preparation_failure (Preparation e)) \<noteq> Some REVIEW_REQUIRED)
    \<and> dg_category (preparation_failure (Preparation e)) \<noteq> Some CATEGORY_PREFLIGHT"
  by (cases e) (simp_all add: preparation_failure_def coordinator_diagnostics_def permanent_codes_def diagnosticFor_def)

end
