(* ===== verification/RecordingLaws.thy ===== *)
theory RecordingLaws
  imports Recording Service
begin

text \<open>
  What \<open>recordAward\<close> and \<open>recordSpend\<close> promise, with every other service of the database running
  between the recordings: a movement recorded once is never recorded again, a repeated call returns
  the row it made, and the balance of every user is the sum of the awards less the sum of the spends
  that are recorded.
\<close>

inductive recording_step :: "db \<Rightarrow> db \<Rightarrow> bool" where
  by_record_award: "recordAward resolve now uident ident q d = Inr (a, d') \<Longrightarrow> recording_step d d'"
| by_record_spend: "recordSpend now uident ident s d = Inr (x, d') \<Longrightarrow> recording_step d d'"
| by_operation: "ledger_step d d' \<Longrightarrow> recording_step d d'"
| by_nonce: "lease_step d d' \<Longrightarrow> recording_step d d'"
| by_preparation: "approval_step d d' \<Longrightarrow> recording_step d d'"
| by_hold: "reservation_step d d' \<Longrightarrow> recording_step d d'"
| by_users: "wallet_step d d' \<Longrightarrow> recording_step d d'"
| by_receipt: "createReceipt rd d = Inr (rc, d') \<Longrightarrow> recording_step d d'"
| by_audit: "recording_step d (snd (createAudit now au d))"

subsection \<open>The branches of the two transactions\<close>

lemma recordAward_cases:
  assumes "recordAward resolve now uident ident q d = Inr (a, d')"
  obtains h amt where "canonical_hash (ar_txHash q) ''transaction hash'' = Inr h"
    and "canonicalTokenAmount (JNum (ar_amount q)) = Some amt"
    and "find_by_hash d h = Inr (Some a)" and "same_award a q (decimal amt)" and "aw_dedup_key a = ar_dedup q" and "d' = d"
  | h amt where "canonical_hash (ar_txHash q) ''transaction hash'' = Inr h"
    and "canonicalTokenAmount (JNum (ar_amount q)) = Some amt"
    and "find_by_hash d h = Inr None" and "findByDedupKey d (ar_dedup q) = Some a" and "same_award a q (decimal amt)" and "d' = d"
  | h amt where "canonical_hash (ar_txHash q) ''transaction hash'' = Inr h"
    and "canonicalTokenAmount (JNum (ar_amount q)) = Some amt"
    and "find_by_hash d h = Inr None" and "findByDedupKey d (ar_dedup q) = None"
    and "new_award resolve now uident ident q h (decimal amt) d = Inr (a, d')"
proof -
  obtain h amt m where h: "canonical_hash (ar_txHash q) ''transaction hash'' = Inr h"
    and c: "canonicalTokenAmount (JNum (ar_amount q)) = Some amt" and m: "find_by_hash d h = Inr m"
    and r: "(case m of
       Some r \<Rightarrow>
         rbind (guard (same_award r q (decimal amt) \<and> aw_dedup_key r = ar_dedup q) AWARD_TX_HASH_INTENT_MISMATCH) (\<lambda>_.
         rbind (guard (owned_by d (aw_user_id r) (uid (ar_session q)) (ar_intended q)) AWARD_TX_HASH_OWNER_MISMATCH) (\<lambda>_.
         Inr (r, d)))
     | None \<Rightarrow>
         (case findByDedupKey d (ar_dedup q) of
            Some r \<Rightarrow>
              rbind (guard (same_award r q (decimal amt)) AWARD_DEDUP_INTENT_MISMATCH) (\<lambda>_.
              rbind (guard (owned_by d (aw_user_id r) (uid (ar_session q)) (ar_intended q)) AWARD_DEDUP_OWNER_MISMATCH) (\<lambda>_.
              Inr (r, d)))
          | None \<Rightarrow> new_award resolve now uident ident q h (decimal amt) d)) = Inr (a, d')"
    using assms unfolding recordAward_def rbind_Inr_iff of_option_iff by blast
  show thesis
  proof (cases m)
    case (Some r')
    have "same_award r' q (decimal amt) \<and> aw_dedup_key r' = ar_dedup q" and "a = r'" and "d' = d"
      using r by (auto simp: Some rbind_Inr_iff)
    then show thesis by (intro that(1) [OF h c]) (simp_all add: m Some)
  next
    case None
    show thesis
    proof (cases "findByDedupKey d (ar_dedup q)")
      case (Some r')
      have "same_award r' q (decimal amt)" and "a = r'" and "d' = d" using r by (auto simp: None Some rbind_Inr_iff)
      then show thesis by (intro that(2) [OF h c]) (simp_all add: m None Some)
    next
      case n: None
      have "new_award resolve now uident ident q h (decimal amt) d = Inr (a, d')" using r by (simp add: None n)
      then show thesis by (intro that(3) [OF h c]) (simp_all add: m None n)
    qed
  qed
qed

lemma recordSpend_cases:
  assumes "recordSpend now uident ident q d = Inr (x, d')"
  obtains h amt r where "canonical_hash (sr_txHash q) ''transaction hash'' = Inr h"
    and "canonicalTokenAmount (JNum (sr_amount q)) = Some amt"
    and "spend_by_hash d h = Inr (Some r)" and "same_spend r q (decimal amt)" and "so_spend x = None" and "d' = d"
  | h amt where "canonical_hash (sr_txHash q) ''transaction hash'' = Inr h"
    and "canonicalTokenAmount (JNum (sr_amount q)) = Some amt"
    and "spend_by_hash d h = Inr None"
    and "new_spend now uident ident q h (decimal amt) d = Inr (x, d')"
proof -
  obtain h amt m where h: "canonical_hash (sr_txHash q) ''transaction hash'' = Inr h"
    and c: "canonicalTokenAmount (JNum (sr_amount q)) = Some amt" and m: "spend_by_hash d h = Inr m"
    and r: "(case m of
       Some r \<Rightarrow>
         rbind (guard (same_spend r q (decimal amt)) SPEND_TX_HASH_INTENT_MISMATCH) (\<lambda>_.
         let user = user_by_id d (sp_user_id r) in
         rbind (guard (spend_owned_by user (sr_uid q)) SPEND_TX_HASH_OWNER_MISMATCH) (\<lambda>_.
         Inr (\<lparr>so_user = user, so_txHash = sr_txHash q, so_spend = None\<rparr>, d)))
     | None \<Rightarrow> new_spend now uident ident q h (decimal amt) d) = Inr (x, d')"
    using assms unfolding recordSpend_def rbind_Inr_iff of_option_iff by blast
  show thesis
  proof (cases m)
    case (Some r')
    have "same_spend r' q (decimal amt)" and "so_spend x = None" and "d' = d"
      using r by (auto simp: Some rbind_Inr_iff Let_def)
    then show thesis by (intro that(1) [OF h c]) (simp_all add: m Some)
  next
    case None
    have "new_spend now uident ident q h (decimal amt) d = Inr (x, d')" using r by (simp add: None)
    then show thesis by (intro that(2) [OF h c]) (simp_all add: m None)
  qed
qed

lemma find_or_create_keeps:
  assumes "find_or_create found n d = Inr (r, d')" and "wallets_ok d"
  shows "wallets_ok d' \<and> outside_wallets d' = outside_wallets d"
proof (cases found)
  case None
  then have i: "insert_returning d n = Inr (r, d')" using assms(1) by (simp add: find_or_create_def)
  show ?thesis using insert_returning_ok [OF i] insert_returning_outside [OF i] assms(2) by (simp add: wallets_ok_def)
qed (use assms in \<open>simp add: find_or_create_def\<close>)

lemma insert_award_Inr:
  "insert_award d n = Inr d' \<longleftrightarrow> d' = d\<lparr>t_awards := t_awards d @ [n]\<rparr>
    \<and> (\<forall>r \<in> set (t_awards d). aw_dedup_key r \<noteq> aw_dedup_key n
        \<and> (aw_session_id r, aw_provider_id r) \<noteq> (aw_session_id n, aw_provider_id n) \<and> \<not> same_text (aw_tx_hash r) (aw_tx_hash n))"
  by (auto simp: insert_award_def list_ex_iff)

lemma insert_spend_Inr:
  "insert_spend d n = Inr d' \<longleftrightarrow> d' = d\<lparr>t_spends := t_spends d @ [n]\<rparr>
    \<and> (\<forall>r \<in> set (t_spends d). \<not> same_text (sp_tx_hash r) (sp_tx_hash n))"
  by (auto simp: insert_spend_def list_ex_iff)

subsection \<open>The books\<close>

text \<open>
  What the balance table says of the recorded movements: one row for each user that has any, with the
  sums of its awards and of its spends and their difference.
\<close>

definition awarded_to :: "award_row list \<Rightarrow> string \<Rightarrow> nat" where
  "awarded_to A u = sum_where (\<lambda>a. aw_user_id a = u) aw_amount A"

definition spent_by :: "spend_row list \<Rightarrow> string \<Rightarrow> nat" where
  "spent_by S u = sum_where (\<lambda>s. sp_user_id s = u) sp_amount S"

definition row_balanced :: "award_row list \<Rightarrow> spend_row list \<Rightarrow> balance_row \<Rightarrow> bool" where
  "row_balanced A S b \<longleftrightarrow> bl_total_awarded b = awarded_to A (bl_user_id b) \<and> bl_total_spent b = spent_by S (bl_user_id b)
     \<and> bl_balance b = int (bl_total_awarded b) - int (bl_total_spent b)"

definition books :: "balance_row list \<Rightarrow> award_row list \<Rightarrow> spend_row list \<Rightarrow> bool" where
  "books B A S \<longleftrightarrow> distinct (map bl_user_id B) \<and> aw_user_id ` set A \<union> sp_user_id ` set S \<subseteq> bl_user_id ` set B
     \<and> (\<forall>b \<in> set B. row_balanced A S b)"

lemma sums_append [simp]:
  "awarded_to (A @ [n]) u = awarded_to A u + (if aw_user_id n = u then aw_amount n else 0)"
  "spent_by (S @ [m]) u = spent_by S u + (if sp_user_id m = u then sp_amount m else 0)"
  by (simp_all add: awarded_to_def spent_by_def)

lemma sums_zero:
  "u \<notin> aw_user_id ` set A \<Longrightarrow> awarded_to A u = 0"
  "u \<notin> sp_user_id ` set S \<Longrightarrow> spent_by S u = 0"
  by (induction A; force simp: awarded_to_def) (induction S; force simp: spent_by_def)

lemma first_key: "first_where (\<lambda>b. key b = k) t \<noteq> None \<longleftrightarrow> k \<in> key ` set t"
  by (induction t) auto

lemma cover_mono: "X' \<subseteq> insert u X \<Longrightarrow> Y' \<subseteq> insert u Y \<Longrightarrow> X \<union> Y \<subseteq> K \<Longrightarrow> u \<in> K \<Longrightarrow> X' \<union> Y' \<subseteq> K"
  by blast

lemma books_update:
  assumes "books B A S" and "u \<in> bl_user_id ` set B" and "\<And>b. bl_user_id (f b) = bl_user_id b"
    and "aw_user_id ` set A' \<subseteq> insert u (aw_user_id ` set A)" and "sp_user_id ` set S' \<subseteq> insert u (sp_user_id ` set S)"
    and "\<And>b. row_balanced A S b \<Longrightarrow> row_balanced A' S' (if bl_user_id b = u then f b else b)"
  shows "books (update_where (\<lambda>b. bl_user_id b = u) f B) A' S'"
  unfolding books_def
proof (intro conjI)
  have keys: "map bl_user_id (update_where (\<lambda>b. bl_user_id b = u) f B) = map bl_user_id B"
    by (rule keys_update) (rule assms(3))
  then have set_keys: "bl_user_id ` set (update_where (\<lambda>b. bl_user_id b = u) f B) = bl_user_id ` set B"
    by (metis set_map)
  show "distinct (map bl_user_id (update_where (\<lambda>b. bl_user_id b = u) f B))"
    using assms(1) keys by (simp add: books_def)
  show "aw_user_id ` set A' \<union> sp_user_id ` set S' \<subseteq> bl_user_id ` set (update_where (\<lambda>b. bl_user_id b = u) f B)"
    unfolding set_keys by (rule cover_mono [OF assms(4,5) _ assms(2)]) (use assms(1) in \<open>simp add: books_def\<close>)
  show "\<forall>b \<in> set (update_where (\<lambda>b. bl_user_id b = u) f B). row_balanced A' S' b"
    unfolding set_update_where ball_simps(9) using assms(1,6) by (simp only: books_def) blast
qed

lemma books_insert:
  assumes "books B A S" and "bl_user_id n \<notin> bl_user_id ` set B"
    and "aw_user_id ` set A' \<subseteq> insert (bl_user_id n) (aw_user_id ` set A)"
    and "sp_user_id ` set S' \<subseteq> insert (bl_user_id n) (sp_user_id ` set S)"
    and "\<And>b. row_balanced A S b \<Longrightarrow> bl_user_id b \<noteq> bl_user_id n \<Longrightarrow> row_balanced A' S' b" and "row_balanced A' S' n"
  shows "books (B @ [n]) A' S'"
  unfolding books_def
proof (intro conjI ballI)
  show "distinct (map bl_user_id (B @ [n]))" using assms(1,2) by (simp add: books_def)
  show "aw_user_id ` set A' \<union> sp_user_id ` set S' \<subseteq> bl_user_id ` set (B @ [n])"
    by (rule cover_mono [OF assms(3,4)]) (use assms(1) in \<open>auto simp: books_def\<close>)
  show "row_balanced A' S' b" if "b \<in> set (B @ [n])" for b
  proof (cases "b = n")
    case False
    then have "b \<in> set B" using that by simp
    then show ?thesis using assms(1,2,5) unfolding books_def by (metis image_eqI)
  qed (simp add: assms(6))
qed

lemma books_no_rows:
  assumes "books B A S" and "u \<notin> bl_user_id ` set B"
  shows "awarded_to A u = 0" and "spent_by S u = 0"
  using assms by (auto simp: books_def intro!: sums_zero)

lemma books_credit:
  assumes "books (t_balances d) A S" and "aw_user_id n = u" and "aw_amount n = cents_of amount"
  shows "books (t_balances (credit_balance now u w amount d)) (A @ [n]) S"
proof (cases "u \<in> bl_user_id ` set (t_balances d)")
  case True
  then have "t_balances (credit_balance now u w amount d) = update_where (\<lambda>b. bl_user_id b = u)
      (\<lambda>b. b\<lparr>bl_balance := bl_balance b + int (cents_of amount),
        bl_total_awarded := bl_total_awarded b + cents_of amount, bl_last_synced := now\<rparr>) (t_balances d)"
    unfolding credit_balance_def first_key [where key = bl_user_id] by simp
  then show ?thesis
    by (simp only:) (rule books_update [OF assms(1) True], use assms in \<open>auto simp: row_balanced_def\<close>)
next
  case False
  then have "t_balances (credit_balance now u w amount d) = t_balances d @ [\<lparr>bl_user_id = u, bl_wallet = w,
      bl_balance = int (cents_of amount), bl_total_awarded = cents_of amount, bl_total_spent = 0, bl_last_synced = now\<rparr>]"
    unfolding credit_balance_def first_key [where key = bl_user_id] by simp
  then show ?thesis
    by (simp only:) (rule books_insert [OF assms(1)],
      use assms False books_no_rows [OF assms(1) False] in \<open>auto simp: row_balanced_def\<close>)
qed

lemma books_debit:
  assumes "books (t_balances d) A S" and "sp_user_id n = u" and "sp_amount n = cents_of amount"
  shows "books (t_balances (debit_balance now u w amount d)) A (S @ [n])"
proof (cases "u \<in> bl_user_id ` set (t_balances d)")
  case True
  then have "t_balances (debit_balance now u w amount d) = update_where (\<lambda>b. bl_user_id b = u)
      (\<lambda>b. b\<lparr>bl_balance := bl_balance b - int (cents_of amount),
        bl_total_spent := bl_total_spent b + cents_of amount, bl_last_synced := now\<rparr>) (t_balances d)"
    unfolding debit_balance_def first_key [where key = bl_user_id] by simp
  then show ?thesis
    by (simp only:) (rule books_update [OF assms(1) True], use assms in \<open>auto simp: row_balanced_def\<close>)
next
  case False
  then have "t_balances (debit_balance now u w amount d) = t_balances d @ [\<lparr>bl_user_id = u, bl_wallet = w,
      bl_balance = - int (cents_of amount), bl_total_awarded = 0, bl_total_spent = cents_of amount, bl_last_synced = now\<rparr>]"
    unfolding debit_balance_def first_key [where key = bl_user_id] by simp
  then show ?thesis
    by (simp only:) (rule books_insert [OF assms(1)],
      use assms False books_no_rows [OF assms(1) False] in \<open>auto simp: row_balanced_def\<close>)
qed

subsection \<open>Every recording step\<close>

lemma new_award_shape:
  assumes "new_award resolve now uident ident q h amount d = Inr (n, d')"
  obtains owner d1 d2 where
    "find_or_create (award_owner d q)
       (new_user now uident (uid (ar_session q)) (award_wallet resolve d q) None (\<not> known_uid d (uid (ar_session q)))) d
     = Inr (owner, d1)"
    and "n = award_row_of now ident (us_id owner) q h amount" and "insert_award d1 n = Inr d2"
    and "d' = credit_balance now (us_id owner) (award_wallet resolve d q) amount d2"
  using assms unfolding new_award_def Let_def rbind_Inr_iff split_paired_Ex prod.case by auto

lemma new_spend_shape:
  assumes "new_spend now uident ident q h amount d = Inr (x, d')"
  obtains owner d1 d2 n where
    "find_or_create (spend_owner d q) (spend_user now uident q d) d = Inr (owner, d1)"
    and "n = spend_row_of now ident (us_id owner) q h amount" and "insert_spend d1 n = Inr d2"
    and "x = \<lparr>so_user = Some owner, so_txHash = sr_txHash q, so_spend = Some n\<rparr>"
    and "d' = debit_balance now (us_id owner) (sr_wallet q) amount d2"
  using assms unfolding new_spend_def Let_def rbind_Inr_iff split_paired_Ex prod.case by auto

lemma row_of_simps [simp]:
  "aw_user_id (award_row_of now ident owner q h amount) = owner"
  "aw_amount (award_row_of now ident owner q h amount) = cents_of amount"
  "aw_tx_hash (award_row_of now ident owner q h amount) = h"
  "aw_dedup_key (award_row_of now ident owner q h amount) = ar_dedup q"
  "sp_user_id (spend_row_of now ident owner s h amount) = owner"
  "sp_amount (spend_row_of now ident owner s h amount) = cents_of amount"
  "sp_tx_hash (spend_row_of now ident owner s h amount) = h"
  by (simp_all add: award_row_of_def spend_row_of_def Let_def)

lemma balance_tables [simp]:
  "t_awards (credit_balance now u w amount d) = t_awards d" "t_spends (credit_balance now u w amount d) = t_spends d"
  "t_awards (debit_balance now u w amount d) = t_awards d" "t_spends (debit_balance now u w amount d) = t_spends d"
  "t_receipts (credit_balance now u w amount d) = t_receipts d" "t_receipts (debit_balance now u w amount d) = t_receipts d"
  "t_users (credit_balance now u w amount d) = t_users d" "t_users (debit_balance now u w amount d) = t_users d"
  by (simp_all add: credit_balance_def debit_balance_def)

lemma balance_outside [simp]:
  "outside_projections (credit_balance now u w amount d) = outside_projections d"
  "outside_projections (debit_balance now u w amount d) = outside_projections d"
  "outside_projections (d\<lparr>t_awards := A\<rparr>) = outside_projections d"
  "outside_projections (d\<lparr>t_spends := S\<rparr>) = outside_projections d"
  by (simp_all add: credit_balance_def debit_balance_def outside_defs frame_defs)

text \<open>What a recording step does to the two tables: at most one new row, of a new movement.\<close>

definition awards_extended :: "db \<Rightarrow> db \<Rightarrow> bool" where
  "awards_extended d d' \<longleftrightarrow> t_awards d' = t_awards d \<or> (\<exists>n. insert_award d n = Inr (d\<lparr>t_awards := t_awards d'\<rparr>))"

definition spends_extended :: "db \<Rightarrow> db \<Rightarrow> bool" where
  "spends_extended d d' \<longleftrightarrow> t_spends d' = t_spends d \<or> (\<exists>n. insert_spend d n = Inr (d\<lparr>t_spends := t_spends d'\<rparr>))"

definition accounts_ok :: "db \<Rightarrow> bool" where
  "accounts_ok d \<longleftrightarrow> service_ok d \<and> books (t_balances d) (t_awards d) (t_spends d)"

definition account_step :: "db \<Rightarrow> db \<Rightarrow> bool" where
  "account_step d d' \<longleftrightarrow> accounts_ok d' \<and> service_grows d d' \<and> awards_extended d d' \<and> spends_extended d d'"

text \<open>
  The same, with the books also kept where the balances count awards \<open>G\<close> beside the recorded ones.
\<close>

definition balanced_step :: "db \<Rightarrow> db \<Rightarrow> bool" where
  "balanced_step d d' \<longleftrightarrow> service_grows d d' \<and> awards_extended d d' \<and> spends_extended d d'
     \<and> (\<forall>G. books (t_balances d) (G @ t_awards d) (t_spends d) \<longrightarrow> books (t_balances d') (G @ t_awards d') (t_spends d'))"

lemma balanced_account: "balanced_step d d' \<Longrightarrow> accounts_ok d \<Longrightarrow> account_step d d'"
  unfolding balanced_step_def account_step_def accounts_ok_def service_grows_def by (metis append_Nil)

lemma balanced_stepI:
  assumes "service_grows d d'" and "projection_frame d' = projection_frame d"
  shows "balanced_step d d'"
  using assms by (simp add: balanced_step_def projection_frame_def awards_extended_def spends_extended_def)

lemma projections_ok_award:
  "projections_ok d \<Longrightarrow> insert_award d n = Inr d' \<Longrightarrow> projections_ok d'"
  unfolding insert_award_Inr same_text_def by (auto simp: projections_ok_def)

lemma projections_ok_spend:
  "projections_ok d \<Longrightarrow> insert_spend d n = Inr d' \<Longrightarrow> projections_ok d'"
  unfolding insert_spend_Inr same_text_def by (auto simp: projections_ok_def)

lemma service_grows_frames:
  assumes "service_ok d" and "wallets_ok d1" and "outside_wallets d1 = outside_wallets d"
    and "projections_ok d'" and "outside_projections d' = outside_projections d1"
  shows "service_grows d d'"
proof -
  have f: "ledger_frame d' = ledger_frame d" "lease_frame d' = lease_frame d" "approval_frame d' = approval_frame d"
    "reservation_frame d' = reservation_frame d" "wallet_frame d' = wallet_frame d1"
    using assms(3,5) by (simp_all add: outside_defs)
  show ?thesis using assms(1,2,4) f by (intro service_growsI) (auto simp: service_ok_def intro: frames_keep)
qed

lemma projections_ok_same:
  "projections_ok d \<Longrightarrow> t_awards d' = t_awards d \<Longrightarrow> t_spends d' = t_spends d \<Longrightarrow> t_receipts d' = t_receipts d \<Longrightarrow> projections_ok d'"
  by (simp add: projections_ok_def)

lemma new_award_balanced:
  assumes "new_award resolve now uident ident q h amount d = Inr (n, d')" and s: "service_ok d"
  shows "balanced_step d d' \<and> t_awards d' = t_awards d @ [n]"
  using assms(1)
proof (rule new_award_shape)
  fix owner d1 d2
  assume c: "find_or_create (award_owner d q)
       (new_user now uident (uid (ar_session q)) (award_wallet resolve d q) None (\<not> known_uid d (uid (ar_session q)))) d
     = Inr (owner, d1)"
    and n: "n = award_row_of now ident (us_id owner) q h amount" and i: "insert_award d1 n = Inr d2"
    and d': "d' = credit_balance now (us_id owner) (award_wallet resolve d q) amount d2"
  have w: "wallets_ok d1" "outside_wallets d1 = outside_wallets d"
    using find_or_create_keeps [OF c] s by (simp_all add: service_ok_def)
  have t: "t_awards d1 = t_awards d" "t_spends d1 = t_spends d" "t_balances d1 = t_balances d" "t_receipts d1 = t_receipts d"
    using w(2) by (simp_all add: outside_defs frame_defs)
  have d2: "d2 = d1\<lparr>t_awards := t_awards d @ [n]\<rparr>" using i t by (simp add: insert_award_Inr)
  have a: "insert_award d n = Inr (d\<lparr>t_awards := t_awards d @ [n]\<rparr>)" using i t by (simp add: insert_award_Inr)
  have "projections_ok (d\<lparr>t_awards := t_awards d @ [n]\<rparr>)" using projections_ok_award [OF _ a] s by (simp add: service_ok_def)
  then have "projections_ok d'" by (rule projections_ok_same) (simp_all add: d' d2 t)
  then have g: "service_grows d d'" by (rule service_grows_frames [OF s w]) (simp add: d' d2)
  moreover have "books (t_balances d') (G @ t_awards d') (t_spends d')" if "books (t_balances d) (G @ t_awards d) (t_spends d)" for G
    using books_credit [of d2 "G @ t_awards d" "t_spends d" n "us_id owner" amount now] that n by (simp add: d' d2 t)
  ultimately show ?thesis using a
    by (auto simp: balanced_step_def awards_extended_def spends_extended_def d' d2 t)
qed

lemma new_spend_balanced:
  assumes "new_spend now uident ident q h amount d = Inr (x, d')" and s: "service_ok d"
  shows "balanced_step d d' \<and> (\<exists>n. so_spend x = Some n \<and> t_spends d' = t_spends d @ [n] \<and> sp_tx_hash n = h)"
  using assms(1)
proof (rule new_spend_shape)
  fix owner d1 d2 n
  assume c: "find_or_create (spend_owner d q) (spend_user now uident q d) d = Inr (owner, d1)"
    and n: "n = spend_row_of now ident (us_id owner) q h amount" and i: "insert_spend d1 n = Inr d2"
    and x: "x = \<lparr>so_user = Some owner, so_txHash = sr_txHash q, so_spend = Some n\<rparr>"
    and d': "d' = debit_balance now (us_id owner) (sr_wallet q) amount d2"
  have w: "wallets_ok d1" "outside_wallets d1 = outside_wallets d"
    using find_or_create_keeps [OF c] s by (simp_all add: service_ok_def)
  have t: "t_awards d1 = t_awards d" "t_spends d1 = t_spends d" "t_balances d1 = t_balances d" "t_receipts d1 = t_receipts d"
    using w(2) by (simp_all add: outside_defs frame_defs)
  have d2: "d2 = d1\<lparr>t_spends := t_spends d @ [n]\<rparr>" using i t by (simp add: insert_spend_Inr)
  have a: "insert_spend d n = Inr (d\<lparr>t_spends := t_spends d @ [n]\<rparr>)" using i t by (simp add: insert_spend_Inr)
  have "projections_ok (d\<lparr>t_spends := t_spends d @ [n]\<rparr>)" using projections_ok_spend [OF _ a] s by (simp add: service_ok_def)
  then have "projections_ok d'" by (rule projections_ok_same) (simp_all add: d' d2 t)
  then have g: "service_grows d d'" by (rule service_grows_frames [OF s w]) (simp add: d' d2)
  moreover have "books (t_balances d') (G @ t_awards d') (t_spends d')" if "books (t_balances d) (G @ t_awards d) (t_spends d)" for G
    using books_debit [of d2 "G @ t_awards d" "t_spends d" n "us_id owner" amount now] that n by (simp add: d' d2 t)
  ultimately show ?thesis using a n
    by (auto simp: balanced_step_def awards_extended_def spends_extended_def d' d2 t x)
qed

lemma new_award_step:
  assumes "new_award resolve now uident ident q h amount d = Inr (n, d')" and "accounts_ok d"
  shows "account_step d d' \<and> t_awards d' = t_awards d @ [n]"
  using new_award_balanced [OF assms(1)] balanced_account assms(2) by (simp add: accounts_ok_def)

lemma new_spend_step:
  assumes "new_spend now uident ident q h amount d = Inr (x, d')" and "accounts_ok d"
  shows "account_step d d' \<and> (\<exists>n. so_spend x = Some n \<and> t_spends d' = t_spends d @ [n] \<and> sp_tx_hash n = h)"
  using new_spend_balanced [OF assms(1)] balanced_account assms(2) by (simp add: accounts_ok_def)

lemma recording_step_balanced:
  assumes "recording_step d d'" and s: "service_ok d"
  shows "balanced_step d d'"
proof -
  note grows = service_step_grows [OF _ s]
  have "service_grows d d" using s by (intro service_growsI) (auto simp: service_ok_def intro: frames_keep)
  then have same: "balanced_step d d" by (intro balanced_stepI) simp_all
  show ?thesis using assms(1)
  proof cases
    case (by_record_award resolve now uident ident q a)
    then show ?thesis by (cases rule: recordAward_cases) (use same new_award_balanced s in blast)+
  next
    case (by_record_spend now uident ident s x)
    then show ?thesis by (cases rule: recordSpend_cases) (use same new_spend_balanced s in blast)+
  next
    case by_operation
    then show ?thesis using ledger_step_outside grows [OF by_ledger]
      by (intro balanced_stepI) (auto simp: outside_defs)
  next
    case by_nonce
    then show ?thesis using lease_step_keeps grows [OF by_lease] s
      by (intro balanced_stepI) (auto simp: outside_defs service_ok_def)
  next
    case by_preparation
    then show ?thesis using approval_step_keeps grows [OF by_approval] s
      by (intro balanced_stepI) (auto simp: outside_defs service_ok_def)
  next
    case by_hold
    then show ?thesis using reservation_step_keeps grows [OF by_reservation] s
      by (intro balanced_stepI) (auto simp: outside_defs service_ok_def)
  next
    case by_users
    then show ?thesis using wallet_step_keeps grows [OF by_wallet] s
      by (intro balanced_stepI) (auto simp: outside_defs service_ok_def)
  next
    case (by_receipt rd rc)
    have "t_awards d' = t_awards d" "t_spends d' = t_spends d" "t_balances d' = t_balances d"
      using by_receipt by (auto simp: createReceipt_def rbind_Inr_iff Let_def split: if_splits)
    then show ?thesis using grows [OF by_projection [OF step_receipt [OF by_receipt]]]
      by (simp add: balanced_step_def awards_extended_def spends_extended_def)
  next
    case (by_audit now au)
    then show ?thesis using grows [OF by_projection [OF step_audit]]
      by (intro balanced_stepI) (simp_all add: createAudit_def Let_def projection_frame_def)
  qed
qed

lemma recording_step_accounts:
  assumes "recording_step d d'" and "accounts_ok d"
  shows "account_step d d'"
  using balanced_account [OF recording_step_balanced [OF assms(1)]] assms(2) by (simp add: accounts_ok_def)

lemma accountsD:
  assumes "accounts_ok d"
  shows "distinct (map aw_dedup_key (t_awards d))" and "distinct (map (\<lambda>a. js_lower (aw_tx_hash a)) (t_awards d))"
    and "distinct (map (\<lambda>s. js_lower (sp_tx_hash s)) (t_spends d))"
  using assms by (simp_all add: accounts_ok_def service_ok_def projections_ok_def)

lemma empty_accounts_ok: "accounts_ok empty_db"
  using empty_service_ok by (simp add: accounts_ok_def books_def empty_db_def)

lemma extended_rows:
  "awards_extended d d' \<Longrightarrow> \<exists>A. t_awards d' = t_awards d @ A" "spends_extended d d' \<Longrightarrow> \<exists>S. t_spends d' = t_spends d @ S"
  unfolding awards_extended_def spends_extended_def insert_award_Inr insert_spend_Inr
  by (auto dest: arg_cong [where f = t_awards] arg_cong [where f = t_spends])

text \<open>Recorded awards and spends are stores whose rows are all final.\<close>

definition spend_row_at :: "db \<Rightarrow> string \<Rightarrow> spend_row option" where
  "spend_row_at d h = first_where (\<lambda>s. js_lower (sp_tx_hash s) = h) (t_spends d)"

interpretation award_store: terminal_store findByDedupKey "(=)" accounts_ok recording_step "\<lambda>_. True"
proof unfold_locales
  show "accounts_ok d'" if "accounts_ok d" "recording_step d d'" for d d'
    using recording_step_accounts [OF that(2,1)] by (simp add: account_step_def)
  show "\<exists>r'. findByDedupKey d' k = Some r' \<and> r = r'"
    if "accounts_ok d" "recording_step d d'" "findByDedupKey d k = Some r" for d d' k r
    using recording_step_accounts [OF that(2,1)] that(3) extended_rows(1) [of d d']
    by (auto simp: account_step_def findByDedupKey_def first_where_append)
qed simp_all

interpretation spend_store: terminal_store spend_row_at "(=)" accounts_ok recording_step "\<lambda>_. True"
proof unfold_locales
  show "accounts_ok d'" if "accounts_ok d" "recording_step d d'" for d d'
    using recording_step_accounts [OF that(2,1)] by (simp add: account_step_def)
  show "\<exists>r'. spend_row_at d' k = Some r' \<and> r = r'"
    if "accounts_ok d" "recording_step d d'" "spend_row_at d k = Some r" for d d' k r
    using recording_step_accounts [OF that(2,1)] that(3) extended_rows(2) [of d d']
    by (auto simp: account_step_def spend_row_at_def first_where_append)
qed simp_all

text \<open>The ledger and the leases keep their contracts when recordings are interleaved.\<close>

interpretation recorded_operations: terminal_store find_operation op_le accounts_ok recording_step failed_with_hash
proof unfold_locales
  show "accounts_ok d'" if "accounts_ok d" "recording_step d d'" for d d'
    using recording_step_accounts [OF that(2,1)] by (simp add: account_step_def)
  show "\<exists>r'. find_operation d' k = Some r' \<and> op_le r r'"
    if "accounts_ok d" "recording_step d d'" "find_operation d k = Some r" for d d' k r
    using recording_step_accounts [OF that(2,1)] ledger_growsD [OF _ that(3)] by (simp add: account_step_def service_grows_def)
  show "op_le a b \<Longrightarrow> op_le b c \<Longrightarrow> op_le a c" for a b c by (rule op_le_trans)
  show "failed_with_hash r \<Longrightarrow> op_le r r' \<Longrightarrow> r' = r" for r r' by (simp add: failed_with_hash_def op_le_def)
qed simp

interpretation recorded_leases: terminal_store find_lease lease_le accounts_ok recording_step "\<lambda>l. \<not> live_lease l"
proof unfold_locales
  show "accounts_ok d'" if "accounts_ok d" "recording_step d d'" for d d'
    using recording_step_accounts [OF that(2,1)] by (simp add: account_step_def)
  show "\<exists>r'. find_lease d' k = Some r' \<and> lease_le r r'"
    if "accounts_ok d" "recording_step d d'" "find_lease d k = Some r" for d d' k r
    using recording_step_accounts [OF that(2,1)] that(3)
    by (simp add: account_step_def service_grows_def leases_grow_def table_grows_def find_lease_def)
  show "lease_le a b \<Longrightarrow> lease_le b c \<Longrightarrow> lease_le a c" for a b c by (rule lease_le_trans)
  show "\<not> live_lease r \<Longrightarrow> lease_le r r' \<Longrightarrow> r' = r" for r r' by (simp add: lease_le_def)
qed simp

lemmas recorded_ok = award_store.steps_invar [OF _ empty_accounts_ok]

lemma unambiguous_iff:
  "unambiguous rows p = Inr (Some r) \<longleftrightarrow> rows = [r]"
  "unambiguous rows p = Inr None \<longleftrightarrow> rows = []"
  by (cases rows; cases "tl rows"; auto simp: unambiguous_def requireUnambiguousTransactionMatch_def)+

lemma filter_key:
  "distinct (map key t) \<Longrightarrow> r \<in> set t \<Longrightarrow> filter (\<lambda>x. key x = key r) t = [r]"
  by (induction t) (auto simp: filter_empty_conv image_iff)

lemma filter_first: "filter P t = [r] \<Longrightarrow> first_where P t = Some r"
  by (induction t) (auto split: if_splits)

lemma find_by_hash_member:
  assumes "accounts_ok d" and "a \<in> set (t_awards d)"
  shows "find_by_hash d (aw_tx_hash a) = Inr (Some a)"
  using filter_key [OF accountsD(2) [OF assms(1)] assms(2)] by (simp add: find_by_hash_def unambiguous_iff same_text_def)

lemma find_by_dedup_member:
  assumes "accounts_ok d" and "a \<in> set (t_awards d)"
  shows "findByDedupKey d (aw_dedup_key a) = Some a"
  using row_at_distinct [OF accountsD(1) [OF assms(1)] assms(2)] by (simp add: findByDedupKey_def row_at_def)

lemma find_by_hash_Some: "find_by_hash d h = Inr (Some a) \<Longrightarrow> a \<in> set (t_awards d) \<and> same_text (aw_tx_hash a) h"
  by (auto simp: find_by_hash_def unambiguous_iff filter_eq_Cons_iff)

lemma same_amount_text:
  "canonicalTokenAmount v = Some a \<Longrightarrow> sameTokenAmount (JStr (numeric2_text u)) (JStr (decimal a)) \<longleftrightarrow> u = units a"
  using canonicalTokenAmount_idem [of v a] by (simp add: sameTokenAmount_def canonicalTokenAmount_text)

text \<open>What a call that returns an award leaves behind.\<close>

lemma recordAward_result:
  assumes "recordAward resolve now uident ident q d = Inr (a, d')" and ok: "accounts_ok d"
  shows "accounts_ok d' \<and> a \<in> set (t_awards d') \<and> aw_dedup_key a = ar_dedup q
    \<and> (\<exists>amt. canonicalTokenAmount (JNum (ar_amount q)) = Some amt \<and> same_award a q (decimal amt))"
  using assms(1)
proof (cases rule: recordAward_cases)
  case (1 h amt)
  then show ?thesis using ok find_by_hash_Some by blast
next
  case (2 h amt)
  then show ?thesis using ok first_where_Some [of _ "t_awards d" a] unfolding findByDedupKey_def by blast
next
  case (3 h amt)
  note s = new_award_step [OF 3(5) ok]
  have "accounts_ok d'" and "a \<in> set (t_awards d')" using s by (simp_all add: account_step_def)
  moreover obtain owner where "a = award_row_of now ident owner q h (decimal amt)" using 3(5) by (rule new_award_shape)
  then have "aw_dedup_key a = ar_dedup q" and "same_award a q (decimal amt)"
    using same_amount_text [OF 3(2)] canonicalTokenAmount_idem(3) [OF 3(2)]
    by (simp_all add: same_award_def award_row_of_def Let_def)
  ultimately show ?thesis using 3(2) by blast
qed

lemma recordSpend_result:
  assumes "recordSpend now uident ident q d = Inr (x, d')" and ok: "accounts_ok d"
  obtains h amt r where "canonical_hash (sr_txHash q) ''transaction hash'' = Inr h"
    and "canonicalTokenAmount (JNum (sr_amount q)) = Some amt" and "spend_row_at d' (js_lower h) = Some r"
    and "same_spend r q (decimal amt)" and "accounts_ok d'"
    and "so_spend x = Some r \<or> so_spend x = None \<and> d' = d \<and> spend_row_at d (js_lower h) = Some r"
    and "so_spend x \<noteq> None \<Longrightarrow> spend_row_at d (js_lower h) = None"
  using assms(1)
proof (cases rule: recordSpend_cases)
  case (1 h amt r)
  then have "filter (\<lambda>s. same_text (sp_tx_hash s) h) (t_spends d) = [r]" by (simp add: spend_by_hash_def unambiguous_iff)
  then have "spend_row_at d (js_lower h) = Some r" by (simp add: spend_row_at_def filter_first same_text_def)
  with 1 ok show ?thesis by (intro that [of h amt r]) simp_all
next
  case (2 h amt)
  note s = new_spend_step [OF 2(4) ok]
  obtain owner d1 d2 n where n: "n = spend_row_of now ident (us_id owner) q h (decimal amt)"
    and x: "x = \<lparr>so_user = Some owner, so_txHash = sr_txHash q, so_spend = Some n\<rparr>"
    using 2(4) by (rule new_spend_shape)
  have none: "spend_row_at d (js_lower h) = None"
    using 2(3) by (auto simp: spend_by_hash_def unambiguous_iff filter_empty_conv spend_row_at_def first_where_None same_text_def)
  have "t_spends d' = t_spends d @ [n]" using s x by auto
  then have "spend_row_at d' (js_lower h) = Some n" using none by (simp add: spend_row_at_def first_where_append n)
  moreover have "same_spend n q (decimal amt)"
    using same_amount_text [OF 2(2)] canonicalTokenAmount_idem(3) [OF 2(2)]
    by (simp add: same_spend_def n spend_row_of_def nonempty_def split: option.split)
  ultimately show ?thesis using 2 s x none by (intro that [of h amt n]) (simp_all add: account_step_def)
qed

subsection \<open>Samples\<close>

definition charge_session :: session where
  "charge_session = \<lparr>sessionId = ''s'', providerId = ''p'', eMAID = None, emaid = None, protocol = None, sourceField = None,
     tokenMetadata = None, uid = ''U'', evseId = ''e'', startTime = 0, endTime = 1, energyKWh = Fin 5,
     energyDirection = CHARGE, cdrId = None, reservationSessionId = None, chargingSessionId = None, timeZone = None,
     timeZoneSource = None\<rparr>"

definition award_call :: award_record where
  "award_call = \<lparr>ar_session = charge_session, ar_amount = units_number 500, ar_dedup = ''k'', ar_txHash = sample_hash CHR ''a'',
     ar_cdrData = None, ar_metadata = None, ar_intended = None\<rparr>"

definition spend_call :: spend_record where
  "spend_call = \<lparr>sr_wallet = ''0xw'', sr_amount = units_number 300, sr_txHash = sample_hash CHR ''b'', sr_session = None,
     sr_uid = Some ''U''\<rparr>"

definition recorded_award :: award_row where
  "recorded_award = award_row_of 0 ''a1'' ''u1'' award_call (sample_hash CHR ''a'') (numeric2_text 500)"

definition award_book :: db where
  "award_book = empty_db\<lparr>t_users := [new_user 0 ''u1'' ''U'' ''0xw'' None True], t_awards := [recorded_award],
     t_balances := [\<lparr>bl_user_id = ''u1'', bl_wallet = ''0xw'', bl_balance = 500, bl_total_awarded = 500, bl_total_spent = 0,
       bl_last_synced = 0\<rparr>]\<rparr>"

definition recorded_spend :: spend_row where
  "recorded_spend = spend_row_of 1 ''p1'' ''u1'' spend_call (sample_hash CHR ''b'') (numeric2_text 300)"

definition spend_book :: db where
  "spend_book = award_book\<lparr>t_spends := [recorded_spend],
     t_balances := [\<lparr>bl_user_id = ''u1'', bl_wallet = ''0xw'', bl_balance = 200, bl_total_awarded = 500, bl_total_spent = 300,
       bl_last_synced = 1\<rparr>]\<rparr>"

lemmas sample_call_defs = award_call_def spend_call_def charge_session_def

lemma empty_tables [simp]:
  "t_users empty_db = []" "t_awards empty_db = []" "t_spends empty_db = []" "t_balances empty_db = []"
  by (simp_all add: empty_db_def)

lemma award_call_new:
  "new_award (\<lambda>_. ''0xw'') 0 ''u1'' ''a1'' award_call (sample_hash CHR ''a'') (numeric2_text 500) empty_db
    = Inr (recorded_award, award_book)"
proof -
  have o: "award_owner empty_db award_call = None" by (simp add: award_owner_def award_call_def active_wallet_def nonempty_def)
  have w: "award_wallet (\<lambda>_. ''0xw'') empty_db award_call = ''0xw''"
    unfolding award_wallet_def o by (simp add: award_call_def nonempty_def)
  have u: "uid (ar_session award_call) = ''U''" by (simp add: award_call_def charge_session_def)
  show ?thesis
    unfolding new_award_def Let_def o w u find_or_create_def option.case
    by (simp add: insert_returning_def insert_user_def known_uid_def insert_award_def credit_balance_def
        recorded_award_def [symmetric] award_book_def new_user_def)
qed

lemma award_call_recorded: "recordAward (\<lambda>_. ''0xw'') 0 ''u1'' ''a1'' award_call empty_db = Inr (recorded_award, award_book)"
proof -
  have "canonical_hash (ar_txHash award_call) ''transaction hash'' = Inr (sample_hash CHR ''a'')"
    using sample_hash_canonical [of "CHR ''a''"] by (simp add: award_call_def)
  moreover have "canonicalTokenAmount (JNum (ar_amount award_call)) =
      Some \<lparr>units = 500, decimal = numeric2_text 500, amount_value = units_number 500\<rparr>"
    using cents_number [of 500] by (simp add: award_call_def)
  moreover have "find_by_hash empty_db h = Inr None" "findByDedupKey empty_db k = None" for h k
    by (simp_all add: find_by_hash_def unambiguous_iff findByDedupKey_def)
  ultimately show ?thesis using award_call_new by (simp add: recordAward_def of_option_def)
qed

lemma spend_call_recorded:
  "recordSpend 1 ''u2'' ''p1'' spend_call award_book =
    Inr (\<lparr>so_user = Some (new_user 0 ''u1'' ''U'' ''0xw'' None True), so_txHash = sample_hash CHR ''b'', so_spend = Some recorded_spend\<rparr>,
      spend_book)"
  using sample_hash_canonical [of "CHR ''b''"] cents_number [of 300]
  by (simp add: recordSpend_def sample_call_defs of_option_def spend_by_hash_def unambiguous_def
      requireUnambiguousTransactionMatch_def empty_db_def new_spend_def spend_owner_def nonempty_def find_user_def user_of_def
      find_or_create_def Let_def insert_spend_def debit_balance_def recorded_spend_def award_book_def spend_book_def new_user_def
      update_where_def)

lemma sample_books_reachable:
  "recording_step\<^sup>*\<^sup>* empty_db award_book" "recording_step\<^sup>*\<^sup>* award_book spend_book" "recording_step\<^sup>*\<^sup>* empty_db spend_book"
  using by_record_award [OF award_call_recorded] by_record_spend [OF spend_call_recorded] by auto

lemma spend_call_again:
  "recordSpend 2 ''u2'' ''p2'' spend_call spend_book =
    Inr (\<lparr>so_user = Some (new_user 0 ''u1'' ''U'' ''0xw'' None True), so_txHash = sample_hash CHR ''b'', so_spend = None\<rparr>, spend_book)"
  using sample_hash_canonical [of "CHR ''b''"] cents_number [of 300] cents_number [of 300, unfolded canonicalTokenAmount_def]
  by (simp add: recordSpend_def spend_call_def of_option_def spend_by_hash_def unambiguous_def
      requireUnambiguousTransactionMatch_def spend_book_def award_book_def recorded_spend_def spend_row_of_def same_spend_def
      sameTokenAmount_def canonicalTokenAmount_text user_by_id_def spend_owned_by_def nonempty_def new_user_def Let_def guard_def)

subsection \<open>Properties\<close>

text \<open>
   a recorded award is final. Whatever recordings and services run after a call that returned an
  award, a later call for the same award either fails or returns that same row and changes nothing;
  when the call names the recorded transaction and no intended wallet, it does return it.
\<close>

theorem recorded_award_is_final:
  assumes "recording_step\<^sup>*\<^sup>* empty_db d" and "recordAward resolve now uident ident q d = Inr (a, d1)"
    and "recording_step\<^sup>*\<^sup>* d1 d2"
  shows "(recordAward resolve' now' uident' ident' q d2 = Inr (b, d3) \<longrightarrow> b = a \<and> d3 = d2)
    \<and> (canonical_hash (ar_txHash q) ''transaction hash'' = Inr (aw_tx_hash a) \<and> \<not> given (ar_intended q)
        \<longrightarrow> recordAward resolve' now' uident' ident' q d2 = Inr (a, d2))"
proof -
  note r = recordAward_result [OF assms(2) recorded_ok [OF assms(1)]]
  then obtain amt where amt: "canonicalTokenAmount (JNum (ar_amount q)) = Some amt" "same_award a q (decimal amt)" by blast
  have found: "findByDedupKey d2 (ar_dedup q) = Some a"
    using award_store.final_forever [OF assms(3)] find_by_dedup_member [of d1 a] r by metis
  have ok: "accounts_ok d2" using award_store.steps_invar [OF assms(3)] r by blast
  have a: "a \<in> set (t_awards d2)" using found first_where_Some unfolding findByDedupKey_def by metis
  have "b = a \<and> d3 = d2" if "recordAward resolve' now' uident' ident' q d2 = Inr (b, d3)"
    using that
  proof (cases rule: recordAward_cases)
    case (1 h amt')
    then show ?thesis using find_by_hash_Some [of d2 h b] find_by_dedup_member [OF ok, of b] found by simp
  qed (use found in simp_all)
  moreover have "recordAward resolve' now' uident' ident' q d2 = Inr (a, d2)"
    if "canonical_hash (ar_txHash q) ''transaction hash'' = Inr (aw_tx_hash a)" "\<not> given (ar_intended q)"
    using that amt r find_by_hash_member [OF ok a]
    by (simp add: recordAward_def of_option_def guard_def owned_by_def given_def)
  ultimately show ?thesis by blast
qed

theorem recorded_award_is_final_witness:
  "recordAward (\<lambda>_. ''0xw'') 0 ''u1'' ''a1'' award_call empty_db = Inr (recorded_award, award_book)
    \<and> recordAward (\<lambda>_. ''0xz'') 7 ''u3'' ''a3'' award_call spend_book = Inr (recorded_award, spend_book)"
proof -
  have "canonical_hash (ar_txHash award_call) ''transaction hash'' = Inr (aw_tx_hash recorded_award)"
    using sample_hash_canonical [of "CHR ''a''"] by (simp add: award_call_def recorded_award_def)
  moreover have "\<not> given (ar_intended award_call)" by (simp add: award_call_def)
  ultimately show ?thesis
    using recorded_award_is_final [OF rtranclp.rtrancl_refl award_call_recorded sample_books_reachable(2)] award_call_recorded
    by blast
qed

text \<open>
   a recorded spend is final. After a call that recorded or found a spend, whatever runs in
  between, every call with the same transaction hash that succeeds inserts nothing, changes nothing,
  and names the same amount, wallet and session.
\<close>

theorem recorded_spend_is_final:
  assumes "recording_step\<^sup>*\<^sup>* empty_db d" and "recordSpend now uident ident q d = Inr (x, d1)"
    and "recording_step\<^sup>*\<^sup>* d1 d2" and "recordSpend now' uident' ident' q' d2 = Inr (y, d3)"
    and "canonical_hash (sr_txHash q') ''transaction hash'' = canonical_hash (sr_txHash q) ''transaction hash''"
  shows "d3 = d2 \<and> so_spend y = None \<and> same_text (sr_wallet q') (sr_wallet q)
    \<and> nonempty (sr_session q') = nonempty (sr_session q)
    \<and> map_option units (canonicalTokenAmount (JNum (sr_amount q'))) = map_option units (canonicalTokenAmount (JNum (sr_amount q)))"
proof -
  obtain h amt r where h: "canonical_hash (sr_txHash q) ''transaction hash'' = Inr h"
    and amt: "canonicalTokenAmount (JNum (sr_amount q)) = Some amt" and r: "spend_row_at d1 (js_lower h) = Some r"
    and same: "same_spend r q (decimal amt)" and ok: "accounts_ok d1"
    using recordSpend_result [OF assms(2) recorded_ok [OF assms(1)]] by metis
  have found: "spend_row_at d2 (js_lower h) = Some r" and ok2: "accounts_ok d2"
    using spend_store.final_forever [OF assms(3) ok r] spend_store.steps_invar [OF assms(3) ok] by simp_all
  obtain h' amt' r' where h': "canonical_hash (sr_txHash q') ''transaction hash'' = Inr h'"
    and amt': "canonicalTokenAmount (JNum (sr_amount q')) = Some amt'" and same': "same_spend r' q' (decimal amt')"
    and old: "so_spend y = Some r' \<or> so_spend y = None \<and> d3 = d2 \<and> spend_row_at d2 (js_lower h') = Some r'"
    and new: "so_spend y \<noteq> None \<Longrightarrow> spend_row_at d2 (js_lower h') = None"
    using recordSpend_result [OF assms(4) ok2] by metis
  have "h' = h" using h h' assms(5) by simp
  then have "so_spend y = None \<and> d3 = d2 \<and> r' = r" using old new found by auto
  then show ?thesis
    using same same' amt amt' same_amount_text [OF amt] same_amount_text [OF amt']
    by (auto simp: same_spend_def same_text_def)
qed

theorem recorded_spend_is_final_witness:
  "\<exists>y d. recordSpend 2 ''u2'' ''p2'' spend_call spend_book = Inr (y, d) \<and> d = spend_book \<and> so_spend y = None"
proof -
  obtain y d where s: "recordSpend 2 ''u2'' ''p2'' spend_call spend_book = Inr (y, d)"
    using spend_call_again by auto
  show ?thesis
    using recorded_spend_is_final [OF sample_books_reachable(1) spend_call_recorded rtranclp.rtrancl_refl s] s by simp
qed

text \<open>
  A transaction hash belongs to one award. Once an award is recorded, a call with its hash for
  another deduplication key, session, provider or amount is refused as an intent mismatch, whoever
  asks and whatever wallet is intended.
\<close>

theorem award_hash_of_other_award_refused:
  assumes "recording_step\<^sup>*\<^sup>* empty_db d" and "a \<in> set (t_awards d)"
    and "canonical_hash (ar_txHash q) ''transaction hash'' = Inr (aw_tx_hash a)"
    and "canonicalTokenAmount (JNum (ar_amount q)) = Some amt"
    and "aw_dedup_key a \<noteq> ar_dedup q \<or> aw_session_id a \<noteq> sessionId (ar_session q)
      \<or> aw_provider_id a \<noteq> providerId (ar_session q) \<or> aw_amount a \<noteq> units amt"
  shows "recordAward resolve now uident ident q d = Inl AWARD_TX_HASH_INTENT_MISMATCH"
  using assms(3,4,5) find_by_hash_member [OF recorded_ok [OF assms(1)] assms(2)] same_amount_text [OF assms(4), of "aw_amount a"]
  by (auto simp: recordAward_def of_option_def guard_def same_award_def)

theorem award_hash_of_other_award_refused_witness:
  "recordAward (\<lambda>_. ''0xw'') 3 ''u3'' ''a3'' (award_call\<lparr>ar_amount := units_number 600\<rparr>) award_book =
    Inl AWARD_TX_HASH_INTENT_MISMATCH"
  by (rule award_hash_of_other_award_refused [OF sample_books_reachable(1), where a = recorded_award
      and amt = "\<lparr>units = 600, decimal = numeric2_text 600, amount_value = units_number 600\<rparr>"])
    (use sample_hash_canonical [of "CHR ''a''"] cents_number [of 600] in
      \<open>simp_all add: award_book_def award_call_def recorded_award_def\<close>)

end
