(* ===== verification/AwardSample.thy ===== *)
theory AwardSample
  imports AwardFlow AwardLaws SnapshotLaws Broadcast RecordingLaws
begin

text \<open>
  One run of the award executor worked out in full, for the witnesses of \<open>AwardFlowLaws\<close>: the sample record of
  \<open>NormaliserLaws\<close>, off-peak in Germany, is worth three tokens under the default rules; it is claimed in an
  empty database, signed, sent, proved by the chain, recorded and completed.
\<close>


definition sample_award_env :: "evidence_view option \<Rightarrow> award_env" where
  "sample_award_env e =
     \<lparr>ae_recovery = \<lparr>re_sha256 = (\<lambda>_. replicate 64 CHR ''a''), re_date = (\<lambda>t. map_option time_of_fields (read_iso t)),
        re_intl = sample_intl, re_now = 9\<rparr>,
      ae_rules = plain_env, ae_host_clock = (\<lambda>_. (0, 0)), ae_managed = (\<lambda>_. ''0xB2''), ae_resolve = (\<lambda>_. ''0xB2''),
      ae_lookup = True, ae_wallets = True,
      ae_token = \<lparr>env_token_contract = Some ''0xC0'', env_chain_id = None, env_treasury_address = None\<rparr>,
      ae_network = Inr 80002, ae_address = Inr ''0xA1'', ae_treasury = Some ''0xA1'', ae_chain = sample_chain,
      ae_evidence = e, ae_encode = (\<lambda>_ _. ''0x''), ae_message = (\<lambda>_. []), ae_saved = (\<lambda>_. True),
      ae_ident = ''o1'', ae_user_ident = ''u1'', ae_award_ident = ''a1''\<rparr>"

definition sample_asset :: asset_context where
  "sample_asset = \<lparr>tokenContractAddress = ''0xc0'', ac_chainId = ''80002'', ac_treasuryAddress = Some ''0xa1'',
     ac_signerAddress = ''0xa1''\<rparr>"

lemma sample_env_fields [simp]:
  "re_sha256 (ae_recovery (sample_award_env e)) = (\<lambda>_. replicate 64 CHR ''a'')" "re_intl (ae_recovery (sample_award_env e)) = sample_intl"
  "re_now (ae_recovery (sample_award_env e)) = 9" "ae_rules (sample_award_env e) = plain_env" "ae_host_clock (sample_award_env e) = (\<lambda>_. (0, 0))"
  "ae_managed (sample_award_env e) = (\<lambda>_. ''0xB2'')" "ae_lookup (sample_award_env e)" "ae_wallets (sample_award_env e)"
  "ae_chain (sample_award_env e) = sample_chain" "ae_saved (sample_award_env e) = (\<lambda>_. True)" "ae_ident (sample_award_env e) = ''o1''"
  "ae_encode (sample_award_env e) = (\<lambda>_ _. ''0x'')" "ae_evidence (sample_award_env e) = e"
  "sha_of (sample_award_env e) = (\<lambda>_. replicate 64 CHR ''a'')" "clock (sample_award_env e) = 9"
  by (simp_all add: sample_award_env_def sha_of_def clock_def)

lemma sample_asset_of: "asset_of (sample_award_env e) = Some sample_asset"
proof -
  have "asset_of (sample_award_env e) = (case getTokenAssetContext (ae_token (sample_award_env e)) (Some (Inr 80002)) (Inr ''0xA1'') (Some ''0xA1'') of
      Inl _ \<Rightarrow> None | Inr c \<Rightarrow> Some c)"
    by (simp add: asset_of_def sample_award_env_def sample_chain_def nonempty_def)
  moreover have "getTokenAssetContext (ae_token (sample_award_env e)) (Some (Inr 80002)) (Inr ''0xA1'') (Some ''0xA1'') = Inr sample_asset"
    by code_simp
  ultimately show ?thesis by simp
qed

lemma sample_off_peak: "isOffPeak sample_intl plain_env ''DE'' (Some t) (Some ''Europe/Berlin'') = Inr True"
proof -
  define p where "p = \<lparr>zf_year = ''2026'', zf_month = ''01'', zf_day = ''02'', zf_hour = ''23'', zf_minute = ''30'', zf_second = ''00''\<rparr>"
  have h: "zf_hour p = ''23''" "zf_minute p = ''30''" by (simp_all add: p_def)
  have c: "clock_range night_range" "clock_text (''23'' @ '':'' @ ''30'')" "clock_minutes (''23'' @ '':'' @ ''30'') = 1410"
    "range_contains night_range 1410" "js_upper ''DE'' = ''DE''" "country_ranges plain_env ''DE'' = [night_range]"
    "resolveTimeZone sample_intl ''DE'' (Some ''Europe/Berlin'') SrcTimeZone = Inr \<lparr>rz_timeZone = Some ''Europe/Berlin'', rz_source = SrcTimeZone\<rparr>"
    by code_simp+
  have "clock_text (zf_hour p @ '':'' @ zf_minute p)" "length (zf_hour p) = 2" using c(2) by (simp_all add: h)
  from local_minutes_clock(1) [OF this] have "local_minutes p = Fin (of_nat 1410)" using c(3) by (simp only: h)
  then have "in_range (local_minutes p) night_range" using in_range_cyclic [OF c(1), of 1410] c(4) by simp
  then show ?thesis using c(5-7)
    by (simp add: isOffPeak_def Let_def getZonedDateTimeParts_def of_option_def sample_intl_def p_def)
qed

lemma sample_context:
  "\<exists>ctx. getAwardCalculationContext sha256 sample_intl plain_env accepted_session awardRulesConfig = Inr ctx
     \<and> ax_isOffPeak ctx \<and> ax_timeZone ctx = Some ''Europe/Berlin''"
proof -
  have c: "getCountryFromEVSEID ''DE*1'' = Inr ''DE''"
    "getSessionTimeZone sample_intl accepted_session ''DE'' = Inr \<lparr>rz_timeZone = Some ''Europe/Berlin'', rz_source = SrcCountryDefault\<rparr>"
    "formatLocalDateTime sample_intl (Some 1767348000000) ''Europe/Berlin'' = Inr ''2026-01-02T23:30:00''"
    "country_ranges plain_env ''DE'' = [night_range]" by code_simp+
  then show ?thesis using sample_off_peak
    by (simp add: getAwardCalculationContext_def Let_def accepted_session_def awardRulesConfig_def)
qed

lemma sample_award_amount:
  "calculateAwardTokens sha256 sample_intl plain_env accepted_session awardRulesConfig = Inr (Fin (of_nat 3))"
proof -
  have f: "fl 3 = (3 :: rat)" using fl_of_int [of 3] by simp
  have "js_add (Fin 0) (floor_award (Fin 12) (Fin (1 / 4))) = Fin (of_nat 3)"
    using js_of_nat [of 3] by (simp add: floor_award_def js_of_rat_def Let_def f)
  then show ?thesis using sample_context [of sha256]
    by (auto simp: calculateAwardTokens_def Let_def accepted_session_def awardRulesConfig_def)
qed

lemma sample_prepares:
  "\<exists>a. prepareAward (sample_award_env e) accepted_session = Inr a \<and> wr_eligible a \<and> wr_amount a = Fin (of_nat 3)
     \<and> wr_uid a = ''DE-ABC-1'' \<and> wr_dedup a = ''s1-ABC'' \<and> (\<exists>m. wr_metadata a = Some m \<and> ''assetContext'' \<notin> fst ` set m)"
proof -
  obtain ctx where ctx: "getAwardCalculationContext (\<lambda>_. replicate 64 CHR ''a'') sample_intl plain_env accepted_session awardRulesConfig = Inr ctx"
    "ax_timeZone ctx = Some ''Europe/Berlin''" using sample_context by blast
  have r: "getAwardRules plain_env = awardRulesConfig" by (simp add: getAwardRules_def getRules_def plain_env_def getPolicySnapshot_def)
  have t: "formatLocalTime sample_intl (\<lambda>_. (0, 0)) (startTime accepted_session) (Some ''Europe/Berlin'') = Inr ''23:30''" by code_simp
  show ?thesis
    using ctx t sample_award_amount [of "\<lambda>_. replicate 64 CHR ''a''"]
    by (simp add: prepareAward_def Let_def r default_key nonempty_def)
      (simp add: accepted_session_def)
qed

subsection \<open>The send\<close>

definition sample_transfer :: "string \<Rightarrow> treasury_request" where
  "sample_transfer k = \<lparr>rq_operationKey = k, rq_targetOperationKey = None,
     rq_targetType = TARGET_OPERATION, rq_chainId = ''80002'', rq_to = ''0xc0'', rq_data = Some ''0x'', rq_value = Some ''0'',
     rq_accessList = None\<rparr>"

lemma transfer_signs:
  "\<exists>p. sign_transaction sample_chain (sample_transfer k) ''0xA1'' 7 = Inr p \<and> pt_txHash p = sample_hash CHR ''a''
     \<and> pt_rawTransaction p = ''0x02'' \<and> tc_nonce (pt_context p) = 7 \<and> tc_chainId (pt_context p) = ''80002''
     \<and> tc_signerAddress (pt_context p) = ''0xA1''"
proof -
  have "bigint_text ''0'' = Some 0" by code_simp
  then show ?thesis
    by (simp add: sign_transaction_def sample_chain_def sample_transfer_def requestValue_def with_fees_def with_gas_def
        base_request_def or_text_def nonempty_def toContext_def of_option_def)
qed

text \<open>A send for the ledger row that holds the claim leaves that row submitted with the hash.\<close>

lemma transfer_run:
  assumes "op_key n = k" and kn: "k \<noteq> []" and "op_status n = SUBMITTING" and "op_tx_hash n = None"
    and ls: "t_leases d = []"
  shows "\<exists>m l v. prepareAndBroadcastTransaction sample_chain 9 (sample_transfer k) (d\<lparr>t_operations := [n]\<rparr>)
      = (d\<lparr>t_operations := [m], t_leases := [l]\<rparr>, [''0x02''], Inr v)
    \<and> rr_txHash v = sample_hash CHR ''a'' \<and> op_status m = SUBMITTED \<and> op_tx_hash m = Some (sample_hash CHR ''a'')
    \<and> same_intent n m"
proof -
  obtain p where p: "sign_transaction sample_chain (sample_transfer k) ''0xA1'' 7 = Inr p" "pt_txHash p = sample_hash CHR ''a''"
    "pt_rawTransaction p = ''0x02''" "tc_nonce (pt_context p) = 7" "tc_chainId (pt_context p) = ''80002''"
    "tc_signerAddress (pt_context p) = ''0xA1''"
    using transfer_signs by blast
  define q where "q = lease_request_of sample_chain (sample_transfer k) ''0xA1''"
  have q: "tr_key q = k" "tr_target q = TARGET_OPERATION" "tr_chain q = ''80002''" "tr_signer q = ''0xA1''"
    "tr_pending_nonce q = Inr (Fin (of_nat 7))" "tr_prepare q = sign_transaction sample_chain (sample_transfer k) ''0xA1''"
    "request_target_key q = k"
    by (simp_all add: q_def lease_request_of_def sample_transfer_def read_pending_def sample_chain_def request_target_key_def
        nonempty_def or_text_def)
  define l where "l = new_lease 9 q (sample_hash CHR ''a'') 7 (pt_context p)"
  have l: "ls_key l = k" "ls_tx_hash l = sample_hash CHR ''a''" "ls_target l = TARGET_OPERATION" "ls_status l = LEASE_PREPARED"
    "ls_target_key l = Some k"
    by (simp_all add: l_def new_lease_def q)
  define n1 where "n1 = n\<lparr>op_tx_hash := Some (sample_hash CHR ''a''), op_tx_nonce := Some 7, op_tx_context := Some (pt_context p),
    op_status := SUBMITTING, op_outcome := Some (case op_outcome n of None \<Rightarrow> OUT_UNKNOWN | Some x \<Rightarrow> x), op_error := None, op_updated := 9\<rparr>"
  have n: "op_key n = k" "op_key n1 = k" "op_status n1 = SUBMITTING" using assms by (simp_all add: n1_def)
  have prep: "prepareLease True 9 q (d\<lparr>t_operations := [n]\<rparr>)
      = Inr (\<lparr>lo_lease = l, lo_already = False, lo_raw = Some ''0x02''\<rparr>, d\<lparr>t_operations := [n1], t_leases := [l]\<rparr>)"
    using sample_pending [of 7] sample_hash_canonical [of "CHR ''a''"] p assms n
    by (simp add: prepareLease_def q ls find_lease_def allocate_nonce_def unresolved_lease_def
      max_leased_def safe_nat_def guard_def insert_lease_def attach_target_def l_def attach_operation_def find_operation_def
      hash_taken_def update_operations_def update_where_def n1_def)
  define l' where "l' = l\<lparr>ls_status := LEASE_SUBMITTED, ls_error := None, ls_updated := 9\<rparr>"
  define m where "m = n1\<lparr>op_status := SUBMITTED, op_updated := 9\<rparr>"
  have mark: "leaseMarkSubmitted 9 k (sample_hash CHR ''a'') (d\<lparr>t_operations := [n1], t_leases := [l]\<rparr>) =
      Inr (Some l', d\<lparr>t_operations := [m], t_leases := [l']\<rparr>)"
    using sample_hash_canonical [of "CHR ''a''"] l n kn
    by (simp add: leaseMarkSubmitted_def Let_def returning_where_def live_lease_def update_leases_def update_where_def
        update_operations_def or_text_def nonempty_def l'_def m_def)
  have ch: "ch_provider sample_chain" "ch_address sample_chain = Some ''0xA1''" "ch_checksum sample_chain = Some"
    "ch_locked sample_chain" "ch_broadcast sample_chain r = Some (sample_hash CHR ''a'')" "ch_submitted_saved sample_chain"
    "rq_operationKey (sample_transfer k) = k" for r
    by (simp_all add: sample_chain_def sample_transfer_def)
  have "\<exists>v. prepareAndBroadcastTransaction sample_chain 9 (sample_transfer k) (d\<lparr>t_operations := [n]\<rparr>)
      = (d\<lparr>t_operations := [m], t_leases := [l']\<rparr>, [''0x02''], Inr v) \<and> rr_txHash v = sample_hash CHR ''a''"
    using prep mark ch l(2)
    by (simp add: prepareAndBroadcastTransaction_def q_def [symmetric] broadcast_prepared_def Let_def)
  moreover have "op_status m = SUBMITTED" "op_tx_hash m = Some (sample_hash CHR ''a'')" "same_intent n m"
    by (simp_all add: m_def n1_def same_intent_def)
  ultimately show ?thesis by blast
qed

lemma empty_leases: "t_leases empty_db = []"
  by (simp add: empty_db_def)

subsection \<open>The evidence\<close>

definition award_transaction :: chain_transaction where
  "award_transaction = \<lparr>ct_hash = Some (sample_hash CHR ''a''), ct_chainId = Some (Some 80002), ct_to = Some ''0xc0'',
     ct_from = Some ''0xa1'', ct_data = ''0xdata'', ct_value = 0\<rparr>"

definition award_log :: chain_log where
  "award_log = \<lparr>lg_address = Some ''0xc0'', lg_topics = Some [Some ''topic''], lg_data = Some ''0x'', lg_index = Some 4\<rparr>"

definition award_receipt :: chain_receipt where
  "award_receipt = \<lparr>cp_hash = Some (sample_hash CHR ''a''), cp_to = Some ''0xc0'', cp_from = Some ''0xa1'',
     cp_status = Some 1, cp_logs = Some [Some award_log], cp_blockNumber = 7\<rparr>"

text \<open>A chain on which the treasury's transaction is \<open>call\<close> and logs a transfer of three tokens.\<close>

definition transfer_chain :: "token_call \<Rightarrow> string \<Rightarrow> string \<Rightarrow> evidence_view" where
  "transfer_chain call source recipient = \<lparr>ev_checksum = Some, ev_network = Inr (Some 80002),
     ev_transaction = (\<lambda>_. Inr (Some award_transaction)), ev_receipt = (\<lambda>_. Inr (Some award_receipt)),
     ev_parse_call = (\<lambda>_ _. Inr (Some call)), ev_transfer_topic = ''topic'',
     ev_parse_log = (\<lambda>_ _. Inr (Some (source, recipient, 3 * 10 ^ 18)))\<rparr>"

definition award_chain :: evidence_view where
  "award_chain = transfer_chain (Call_Transfer ''0xB2'' (3 * 10 ^ 18)) ''0xa1'' ''0xB2''"

lemma sample_hash_text: "is_tx_hash (sample_hash CHR ''a'')" "js_lower (sample_hash CHR ''a'') = sample_hash CHR ''a''"
  "js_trim (sample_hash CHR ''a'') = sample_hash CHR ''a''"
  by code_simp+

lemma transfer_proof_at:
  assumes chain: "parseChainId c = Inr 80002"
    and "call_arguments (transfer_chain call source recipient) ''0xa1'' call = Inr (m, source, recipient, 3 * 10 ^ 18)"
  shows "\<exists>proof. verifySpendEvidence (transfer_chain call source recipient) \<lparr>er_tokenContractAddress = ''0xc0'',
      er_chainId = c, er_sourceWallet = source, er_treasuryRecipient = recipient,
      er_amountUnits = Big_Arg (3 * 10 ^ 18), er_txHash = sample_hash CHR ''a''\<rparr> = Inr proof"
proof -
  define q where "q = \<lparr>er_tokenContractAddress = ''0xc0'', er_chainId = c, er_sourceWallet = source,
    er_treasuryRecipient = recipient, er_amountUnits = Big_Arg (3 * 10 ^ 18), er_txHash = sample_hash CHR ''a''\<rparr>"
  define x where "x = \<lparr>et_txHash = sample_hash CHR ''a'', et_token = ''0xc0'', et_source = source, et_recipient = recipient,
    et_chain = 80002, et_amount = 3 * 10 ^ 18\<rparr>"
  define ev where "ev = transfer_chain call source recipient"
  have c: "js_lower ''topic'' = ''topic''" by code_simp
  have v: "ev_checksum ev = Some" "ev_network ev = Inr (Some 80002)" "ev_transaction ev h = Inr (Some award_transaction)"
    "ev_receipt ev h = Inr (Some award_receipt)" "ev_parse_call ev t n = Inr (Some call)" "ev_transfer_topic ev = ''topic''"
    "ev_parse_log ev ts t = Inr (Some (source, recipient, 3 * 10 ^ 18))" for h t n ts
    by (simp_all add: ev_def transfer_chain_def)
  have e: "expected_of ev q = Inr x"
    using sample_hash_text chain by (simp add: expected_of_def q_def v x_def canonicalAddress_def of_option_def guard_def
        parseAmountUnits_def)
  have k: "check_transaction x (Some 80002) (Some award_transaction) = Inr award_transaction"
    "check_receipt ev x award_transaction award_receipt = Inr ''0xa1''" "check_call ev x award_transaction ''0xa1'' = Inr m"
    using sample_hash_text c assms(2) [folded ev_def]
    by (simp_all add: check_transaction_def check_receipt_def check_call_def x_def award_transaction_def
        award_receipt_def v of_option_def guard_def is_hash_def is_address_def same_address_def canonicalAddress_def)
  have l: "(case cp_logs award_receipt of None \<Rightarrow> [] | Some ls \<Rightarrow> ls) = [Some award_log]" by (simp add: award_receipt_def)
  have s: "scan_logs ev x 0 no_flags [Some award_log] = Inr (0, Some award_log)"
    using c by (simp add: award_log_def v read_log_def x_def same_address_def matches_def)
  have "\<exists>proof. verifySpendEvidence ev q = Inr proof"
    unfolding verifySpendEvidence_def e rbind_simps v provider_read_def sum.case k of_option_def option.case l s prod.case by simp
  then show ?thesis by (simp add: ev_def q_def)
qed

lemma transfer_proof:
  assumes "call_arguments (transfer_chain call source recipient) ''0xa1'' call = Inr (m, source, recipient, 3 * 10 ^ 18)"
  shows "\<exists>proof. verifySpendEvidence (transfer_chain call source recipient) \<lparr>er_tokenContractAddress = ''0xc0'',
      er_chainId = Text_Arg ''80002'', er_sourceWallet = source, er_treasuryRecipient = recipient,
      er_amountUnits = Big_Arg (3 * 10 ^ 18), er_txHash = sample_hash CHR ''a''\<rparr> = Inr proof"
  by (rule transfer_proof_at [OF _ assms]) code_simp

lemma award_evidence_valid:
  "\<exists>proof. award_evidence (sample_award_env (Some award_chain)) sample_asset ''0xB2'' (numeric2_text 300) (sample_hash CHR ''a'') = Some (Inr proof)"
  using transfer_proof [of "Call_Transfer ''0xB2'' (3 * 10 ^ 18)" "''0xa1''" "''0xB2''" METHOD_TRANSFER]
  by (auto simp: award_evidence_def canonicalTokenAmount_text sample_asset_def token_wei_def award_chain_def call_arguments_def
      transfer_chain_def of_option_def)

subsection \<open>The whole run\<close>

definition sample_key :: string where
  "sample_key = ''award:'' @ replicate 64 CHR ''a''"

definition ledger_book :: "operation_row \<Rightarrow> lease_row \<Rightarrow> db" where
  "ledger_book m l = empty_db\<lparr>t_operations := [m], t_leases := [l]\<rparr>"

lemma ledger_book_tables [simp]:
  "t_operations (ledger_book m l) = [m]" "t_awards (ledger_book m l) = []" "t_users (ledger_book m l) = []"
  "t_balances (ledger_book m l) = []" "update_operations P f (ledger_book m l) = ledger_book (if P m then f m else m) l"
  by (simp_all add: ledger_book_def empty_db_def update_operations_def update_where_def)

lemma book_submitted:
  assumes "op_key m = k" and "op_tx_hash m = Some (sample_hash CHR ''a'')" and "op_status m = SUBMITTED"
  shows "markSubmitted now k (sample_hash CHR ''a'') (ledger_book m l) = Inr (submitted_row now m, ledger_book (submitted_row now m) l)"
proof -
  have "js_lower (sample_hash CHR ''a'') = sample_hash CHR ''a''" "sample_hash CHR ''a'' \<noteq> []"
    using sample_hash_text by (auto dest: is_tx_hash_nonempty)
  then show ?thesis
    using sample_hash_canonical [of "CHR ''a''"] assms
    by (simp add: markSubmitted_def Let_def returning_where_def find_operation_def given_def nonempty_def same_column_def)
qed

lemma book_confirmed:
  assumes "op_key m = k" and "op_tx_hash m \<noteq> None" and "op_status m = SUBMITTED"
  shows "\<exists>m'. snd (markConfirmed now k None (ledger_book m l)) = ledger_book m' l \<and> op_key m' = k \<and> op_tx_hash m' = op_tx_hash m
    \<and> op_status m' = CONFIRMED"
  using assms
  by (intro exI [of _ "m\<lparr>op_status := CONFIRMED, op_outcome := Some OUT_CONFIRMED, op_error := None, op_confirmed_at := Some now,
          op_updated := now\<rparr>"])
    (auto simp: markConfirmed_def mark_operation_def returning_where_def nonempty_def)

lemma tables_recorded:
  assumes "ar_intended q = Some ''0xB2''" and "ar_txHash q = sample_hash CHR ''a''" and "ar_amount q = units_number 300"
  shows "\<exists>row d'. recordAward resolve now uident ident q (empty_db\<lparr>t_operations := [m], t_leases := ls\<rparr>) = Inr (row, d') \<and> t_operations d' = [m] \<and> t_awards d' = [row]
    \<and> aw_amount row = 300 \<and> aw_dedup_key row = ar_dedup q"
proof -
  have o: "award_owner (empty_db\<lparr>t_operations := [m], t_leases := ls\<rparr>) q = None" using assms(1) by (simp add: award_owner_def find_user_def nonempty_def)
  have w: "award_wallet resolve (empty_db\<lparr>t_operations := [m], t_leases := ls\<rparr>) q = ''0xB2''"
    unfolding award_wallet_def o using assms(1) by (simp add: nonempty_def)
  define row where "row = award_row_of now ident uident q (sample_hash CHR ''a'') (numeric2_text 300)"
  define book where "book = (empty_db\<lparr>t_operations := [m], t_leases := ls\<rparr>)\<lparr>t_users := [new_user now uident (uid (ar_session q)) ''0xB2'' None True],
    t_awards := [row], t_balances := [\<lparr>bl_user_id = uident, bl_wallet = ''0xB2'', bl_balance = 300, bl_total_awarded = 300,
      bl_total_spent = 0, bl_last_synced = now\<rparr>]\<rparr>"
  have "canonical_hash (ar_txHash q) ''transaction hash'' = Inr (sample_hash CHR ''a'')"
    using sample_hash_canonical [of "CHR ''a''"] assms(2) by simp
  moreover have "canonicalTokenAmount (JNum (ar_amount q)) =
      Some \<lparr>units = 300, decimal = numeric2_text 300, amount_value = units_number 300\<rparr>"
    using cents_number [of 300] by (simp add: assms(3))
  moreover have "find_by_hash (empty_db\<lparr>t_operations := [m], t_leases := ls\<rparr>) h = Inr None" "findByDedupKey (empty_db\<lparr>t_operations := [m], t_leases := ls\<rparr>) k = None" for h k
    by (simp_all add: find_by_hash_def unambiguous_iff findByDedupKey_def)
  moreover have "new_award resolve now uident ident q (sample_hash CHR ''a'') (numeric2_text 300) (empty_db\<lparr>t_operations := [m], t_leases := ls\<rparr>)
      = Inr (row, book)"
    unfolding new_award_def Let_def o w find_or_create_def option.case
    by (simp add: insert_returning_def insert_user_def known_uid_def insert_award_def credit_balance_def new_user_def
        row_def [symmetric] book_def)
  ultimately have "recordAward resolve now uident ident q (empty_db\<lparr>t_operations := [m], t_leases := ls\<rparr>) = Inr (row, book)"
    by (simp add: recordAward_def of_option_def)
  moreover have "aw_amount row = 300" "aw_dedup_key row = ar_dedup q" by (simp_all add: row_def award_row_of_def Let_def)
  ultimately show ?thesis by (intro exI [of _ row] exI [of _ book]) (simp add: book_def)
qed

lemmas book_recorded = tables_recorded [where ls = "[l]" for l, folded ledger_book_def]

lemma book_projected:
  assumes "t_operations d = [m]" and "op_key m = k" and "given (op_tx_hash m)" and "op_status m = CONFIRMED"
  shows "\<exists>m'. t_operations (snd (markProjected now k d)) = [m'] \<and> op_key m' = k \<and> op_status m' = PROJECTED
     \<and> t_awards (snd (markProjected now k d)) = t_awards d"
  using assms by (cases "op_tx_hash m") (simp_all add: markProjected_def find_operation_def Let_def returning_where_def update_operations_def
      update_where_def given_def nonempty_def)

text \<open>The parts of the plan of the sample record.\<close>

lemma sample_plan:
  "\<exists>p. award_plan_of (sample_award_env e) None (JObj sample_input) empty_db = Inr p \<and> pl_session p = accepted_session
    \<and> pl_key p = sample_key \<and> pl_existing p = None \<and> pl_wallet p = ''0xB2'' \<and> pl_mode p = MANAGED
    \<and> prepareAward (sample_award_env e) accepted_session = Inr (pl_award p)"
proof -
  obtain a where a: "prepareAward (sample_award_env e) accepted_session = Inr a" "wr_amount a = Fin (of_nat 3)" "wr_uid a = ''DE-ABC-1''"
    using sample_prepares by blast
  have "\<not> exceedsTokenOperationCap (Fin (of_nat 3))" by (simp add: exceedsTokenOperationCap_def MAX_TOKENS_PER_OPERATION_def)
  moreover have "getUserWalletConfig (sample_award_env e) empty_db u = Some (''0xB2'', MANAGED)" for u
    by (simp add: getUserWalletConfig_def findByUid_def active_wallet_def)
  moreover have "find_operation empty_db k = None" for k by (simp add: find_operation_def empty_db_def)
  ultimately show ?thesis using a
    by (simp add: award_plan_of_def sample_record_session Let_def plan_new_def guard_def of_option_def awardOperationKey_def sample_key_def)
qed

lemma sample_award_claimed:
  assumes "cr_key q = sample_key" and "cr_type q = AWARD" and "cr_amount q = numeric2_text 300" and "cr_balance q = None"
    and "cr_charging_session q = None"
  shows "claim now ident q empty_db = Inr (\<lparr>cl_operation = Some (new_operation now ident q 300), cl_acquired = True, cl_legacy = None\<rparr>,
      empty_db\<lparr>t_operations := [new_operation now ident q 300]\<rparr>)"
  using assms
  by (simp add: claim_def canonicalTokenAmount_text of_option_def find_operation_def empty_db_def check_charging_session_def
      given_def nonempty_def check_legacy_claims_def legacy_award_def checkManualCapacity_def insert_operation_def session_taken_def)

lemma sample_asset_kept:
  assumes "''assetContext'' \<notin> fst ` set m"
  shows "assetContextMismatch (Some (m @ (''assetContext'', asset_json sample_asset) # rest)) sample_asset = None"
proof -
  have "assetContextMismatch (Some [(''assetContext'', asset_json sample_asset)]) sample_asset = None" by code_simp
  then show ?thesis using assms by (simp add: assetContextMismatch_def field_append)
qed

lemma sample_amount: "units_number 300 = Fin (of_nat 3)"
proof -
  have "fl 3 = (3 :: rat)" using fl_of_int [of 3] by simp
  then show ?thesis by (simp add: units_number_Fin)
qed

lemma sample_projected:
  assumes "op_key m = sample_key" and "op_tx_hash m = Some (sample_hash CHR ''a'')" and "op_status m = SUBMITTED"
    and "pj_key q = sample_key" and "pj_status q = SUBMITTED" and "pj_tx_hash q = Some (sample_hash CHR ''a'')"
    and "pj_amount q = numeric2_text 300" and "pj_wallet q = ''0xB2''"
  shows "\<exists>d' x m' row. projectAwardOperation (sample_award_env e) q a s raw MANAGED (Some (Some (Inr proof))) True False None (ledger_book m l)
      = (d', x, True) \<and> xr_success x \<and> \<not> xr_duplicate x \<and> xr_amount x = Fin (of_nat 3) \<and> xr_stage x = STAGE_COMPLETE
      \<and> t_operations d' = [m'] \<and> op_key m' = sample_key \<and> op_status m' = PROJECTED \<and> t_awards d' = [row]
      \<and> aw_amount row = 300 \<and> aw_dedup_key row = wr_dedup a \<and> xr_dedupKey x = wr_dedup a"
proof -
  have h: "nonempty (Some (sample_hash CHR ''a'')) = Some (sample_hash CHR ''a'')"
    using sample_hash_text by (auto simp: nonempty_def dest: is_tx_hash_nonempty)
  obtain m1 where m1: "snd (markConfirmed 9 sample_key None (ledger_book m l)) = ledger_book m1 l" "op_key m1 = sample_key"
    "op_tx_hash m1 = op_tx_hash m" "op_status m1 = CONFIRMED"
    using book_confirmed [OF assms(1) _ assms(3)] assms(2) by auto
  define v where "v = replay_award q a"
  have v: "wr_amount v = units_number 300" "wr_dedup v = wr_dedup a"
    using column_number [of 300] by (simp_all add: v_def replay_award_def Let_def assms(7))
  define rec where "rec = record_of q v (sample_hash CHR ''a'') s raw"
  have "ar_intended rec = Some ''0xB2''" "ar_txHash rec = sample_hash CHR ''a''" "ar_amount rec = units_number 300"
    "ar_dedup rec = wr_dedup a"
    by (simp_all add: rec_def record_of_def v assms(8))
  then obtain row d2 where r: "recordAward (ae_resolve (sample_award_env e)) 9 (ae_user_ident (sample_award_env e))
      (ae_award_ident (sample_award_env e)) rec (ledger_book m1 l) = Inr (row, d2)" "t_operations d2 = [m1]" "t_awards d2 = [row]"
    "aw_amount row = 300" "aw_dedup_key row = wr_dedup a"
    using book_recorded by metis
  obtain m2 where m2: "t_operations (snd (markProjected 9 sample_key d2)) = [m2]" "op_key m2 = sample_key" "op_status m2 = PROJECTED"
    "t_awards (snd (markProjected 9 sample_key d2)) = [row]"
    using book_projected [OF r(2) m1(2) _ m1(4)] h r(3) by (auto simp: m1(3) assms(2) given_def)
  have c: "confirm_award (sample_award_env e) q v (sample_hash CHR ''a'') (Some (Inr proof)) (ledger_book m l) = Inr (ledger_book m1 l)"
    by (simp add: confirm_award_def Let_def assms(4) m1(1))
  have "projectAwardOperation (sample_award_env e) q a s raw MANAGED (Some (Some (Inr proof))) True False None (ledger_book m l)
      = (snd (markProjected 9 sample_key d2), completed_award v True (wr_amount v) (Some (sample_hash CHR ''a'')) (Some True) False, True)"
    unfolding projectAwardOperation_def Let_def v_def [symmetric] assms(6) h option.case c
    by (simp add: assms(4,5) record_and_project_def saving_def rec_def [symmetric] r(1))
  then show ?thesis using m2 r(4,5) v sample_amount by (auto simp: completed_award_def)
qed

definition three_tokens :: canonical_amount where
  "three_tokens = \<lparr>units = 300, decimal = numeric2_text 300, amount_value = units_number 300\<rparr>"

lemma three_tokens: "canonicalTokenAmount (JNum (Fin (of_nat 3))) = Some three_tokens" "decimal three_tokens = numeric2_text 300"
  "units three_tokens = 300"
proof -
  show "canonicalTokenAmount (JNum (Fin (of_nat 3))) = Some three_tokens"
    using cents_number [of 300] by (simp only: sample_amount three_tokens_def) simp
qed (simp_all add: three_tokens_def)

lemma sample_sent:
  assumes p: "pl_session p = accepted_session" "pl_key p = sample_key" "pl_wallet p = ''0xB2''" "pl_mode p = MANAGED"
    and a: "wr_amount (pl_award p) = Fin (of_nat 3)"
    and n: "op_key n = sample_key" "op_status n = SUBMITTING" "op_tx_hash n = None"
  shows "\<exists>d' x m row. sent_award (sample_award_env (Some award_chain)) p (JObj sample_input) sample_asset three_tokens intent
        (empty_db\<lparr>t_operations := [n]\<rparr>) = (d', [''0x02''], x, True)
      \<and> xr_success x \<and> \<not> xr_duplicate x \<and> xr_amount x = Fin (of_nat 3) \<and> xr_stage x = STAGE_COMPLETE
      \<and> t_operations d' = [m] \<and> op_key m = sample_key \<and> op_status m = PROJECTED \<and> t_awards d' = [row]
      \<and> aw_amount row = 300 \<and> aw_dedup_key row = xr_dedupKey x"
proof -
  define env where "env = sample_award_env (Some award_chain)"
  have e: "clock env = 9" "ae_saved env x" "ae_chain env = sample_chain" "ae_encode env t w = ''0x''" for x t w
    by (simp_all add: env_def)
  obtain m l v where s: "prepareAndBroadcastTransaction sample_chain 9 (sample_transfer sample_key) (empty_db\<lparr>t_operations := [n]\<rparr>)
      = (ledger_book m l, [''0x02''], Inr v)" "rr_txHash v = sample_hash CHR ''a''" "op_status m = SUBMITTED"
    "op_tx_hash m = Some (sample_hash CHR ''a'')" "same_intent n m"
    using transfer_run [OF n(1) _ n(2,3) empty_leases] by (auto simp: ledger_book_def sample_key_def)
  have mk: "op_key m = sample_key" using s(5) n(1) by (simp add: same_intent_def)
  have sub: "submitAward env ''0xB2'' (Fin (of_nat 3)) sample_key sample_asset (empty_db\<lparr>t_operations := [n]\<rparr>)
      = (ledger_book m l, [''0x02''], Inr v)"
    unfolding submitAward_def submit_transfer_def three_tokens(1) option.case using s(1)
    by (simp add: three_tokens e sample_transfer_def sample_asset_def)
  have mark: "markSubmitted 9 sample_key (rr_txHash v) (ledger_book m l) = Inr (submitted_row 9 m, ledger_book (submitted_row 9 m) l)"
    using book_submitted [OF mk s(4,3)] by (simp add: s(2))
  obtain pf where ev: "award_evidence env sample_asset ''0xB2'' (numeric2_text 300) (sample_hash CHR ''a'') = Some (Inr pf)"
    using award_evidence_valid by (auto simp: env_def)
  define pq where "pq = sent_request p three_tokens intent SUBMITTED (sample_hash CHR ''a'') None"
  have pq: "pj_key pq = sample_key" "pj_status pq = SUBMITTED" "pj_tx_hash pq = Some (sample_hash CHR ''a'')"
    "pj_amount pq = numeric2_text 300" "pj_wallet pq = ''0xB2''"
    by (simp_all add: pq_def sent_request_def p three_tokens)
  have sm: "op_key (submitted_row 9 m) = sample_key" "op_tx_hash (submitted_row 9 m) = Some (sample_hash CHR ''a'')"
    "op_status (submitted_row 9 m) = SUBMITTED" using mk s(4) by (simp_all add: submitted_row_def)
  obtain d' x m' row where r: "projectAwardOperation env pq (pl_award p) accepted_session (JObj sample_input) MANAGED
      (Some (Some (Inr pf))) True False None (ledger_book (submitted_row 9 m) l) = (d', x, True)"
    and rest: "xr_success x" "\<not> xr_duplicate x" "xr_amount x = Fin (of_nat 3)" "xr_stage x = STAGE_COMPLETE"
    "t_operations d' = [m']" "op_key m' = sample_key" "op_status m' = PROJECTED" "t_awards d' = [row]"
    "aw_amount row = 300" "aw_dedup_key row = xr_dedupKey x"
    using sample_projected [OF sm pq, of "Some award_chain" "pl_award p" accepted_session "JObj sample_input" pf l] by (auto simp: env_def)
  have "sent_award env p (JObj sample_input) sample_asset three_tokens intent (empty_db\<lparr>t_operations := [n]\<rparr>)
      = (d', [''0x02''], x, True)"
    unfolding sent_award_def p a sub prod.case sum.case
    using mark r by (simp add: saving_def e s(2) project_sent_def p pq_def [symmetric] three_tokens ev)
  then show ?thesis using rest unfolding env_def by blast
qed

lemma sample_award_run:
  "\<exists>d' x m row. processAwardFromCDR (sample_award_env (Some award_chain)) None (JObj sample_input) empty_db = (d', [''0x02''], x, True)
      \<and> xr_success x \<and> \<not> xr_duplicate x \<and> xr_amount x = Fin (of_nat 3) \<and> xr_stage x = STAGE_COMPLETE
      \<and> t_operations d' = [m] \<and> op_key m = sample_key \<and> op_status m = PROJECTED \<and> t_awards d' = [row]
      \<and> aw_amount row = 300 \<and> aw_dedup_key row = xr_dedupKey x"
proof -
  define env where "env = sample_award_env (Some award_chain)"
  obtain p where p: "award_plan_of env None (JObj sample_input) empty_db = Inr p" "pl_session p = accepted_session"
    "pl_key p = sample_key" "pl_existing p = None" "pl_wallet p = ''0xB2''" "pl_mode p = MANAGED"
    "prepareAward env accepted_session = Inr (pl_award p)"
    using sample_plan [of "Some award_chain"] by (auto simp: env_def)
  obtain meta where a: "wr_eligible (pl_award p)" "wr_amount (pl_award p) = Fin (of_nat 3)" "wr_metadata (pl_award p) = Some meta"
    "''assetContext'' \<notin> fst ` set meta"
    using sample_prepares [of "Some award_chain"] p(7) by (auto simp: env_def)
  obtain ob where "serialiseNormalisedSession accepted_session = Inr ob"
    using accepted_shape(9) [OF sample_record_session [of sample_intl 0]] by blast
  then obtain snap where snap: "createAwardRecoverySnapshot (sha_of env) accepted_session (Fin (of_nat 3)) ''0xB2'' (Some (JObj sample_input)) = Inr snap"
    by (auto simp: createAwardRecoverySnapshot_def snapshot_check_def guard_def is_record_def cloneSnapshotValue_def)
  define intent where "intent = claim_intent (pl_award p) sample_asset (Some snap)"
  define q where "q = award_claim env p three_tokens intent"
  have q: "cr_key q = sample_key" "cr_type q = AWARD" "cr_amount q = numeric2_text 300" "cr_balance q = None"
    "cr_charging_session q = None" "cr_intent q = Some intent"
    by (simp_all add: q_def award_claim_def p three_tokens accepted_session_def)
  define n where "n = new_operation 9 ''o1'' q 300"
  have n: "op_key n = sample_key" "op_status n = SUBMITTING" "op_tx_hash n = None" "op_intent n = Some intent"
    using q by (simp_all add: n_def new_operation_def)
  obtain d' x m row where sent: "sent_award env p (JObj sample_input) sample_asset three_tokens intent (empty_db\<lparr>t_operations := [n]\<rparr>)
        = (d', [''0x02''], x, True)"
    and rest: "xr_success x" "\<not> xr_duplicate x" "xr_amount x = Fin (of_nat 3)" "xr_stage x = STAGE_COMPLETE"
      "t_operations d' = [m]" "op_key m = sample_key" "op_status m = PROJECTED" "t_awards d' = [row]"
      "aw_amount row = 300" "aw_dedup_key row = xr_dedupKey x"
    using sample_sent [OF p(2,3,5,6) a(2) n(1-3), of intent] unfolding env_def by blast
  have mm: "assetContextMismatch (op_intent n) sample_asset = None"
    using sample_asset_kept [OF a(4)] by (simp add: n(4) intent_def claim_intent_def a(3))
  have "claimed_award env p (JObj sample_input) sample_asset three_tokens intent
      \<lparr>cl_operation = Some n, cl_acquired = True, cl_legacy = None\<rparr> (empty_db\<lparr>t_operations := [n]\<rparr>) = (d', [''0x02''], x, True)"
    using sent mm by (simp add: claimed_award_def Let_def a(1))
  moreover have "claim (clock env) (ae_ident env) q empty_db
      = Inr (\<lparr>cl_operation = Some n, cl_acquired = True, cl_legacy = None\<rparr>, empty_db\<lparr>t_operations := [n]\<rparr>)"
    using sample_award_claimed [OF q(1-5)] by (simp add: env_def n_def)
  ultimately have "execute_plan env p (JObj sample_input) empty_db = (d', [''0x02''], x, True)"
    using snap three_tokens(1) sample_asset_of [of "Some award_chain"]
    by (simp add: execute_plan_def Let_def p a(2) env_def [symmetric] intent_def [symmetric] q_def [symmetric] saving_def)
      (simp add: env_def)
  then have "processAwardFromCDR env None (JObj sample_input) empty_db = (d', [''0x02''], x, True)"
    by (simp add: processAwardFromCDR_def p(1,4))
  then show ?thesis using rest unfolding env_def by blast
qed

end
