(* ===== verification/ExecutorLaws.thy ===== *)
theory ExecutorLaws
  imports AwardExecutor RecordingLaws Broadcast
begin

text \<open>
  What the two executors share: \<open>ledger_step\<^sup>*\<^sup>*\<close>, a run that only marks; a failing or swallowed write; and the
  interface \<open>keyed_sender\<close> of an executor whose runs are histories of the service and send only through
  the reliable sender, under the key of their request. Such an executor sends at most once per key.
\<close>

subsection \<open>Marks\<close>

lemma ledger_steps_outside: "ledger_step\<^sup>*\<^sup>* d d' \<Longrightarrow> outside_ledger d' = outside_ledger d"
  by (induction rule: rtranclp_induct) (simp_all add: ledger_step_outside)

lemma ledger_steps_record: "ledger_step\<^sup>*\<^sup>* d d' \<Longrightarrow> recording_step\<^sup>*\<^sup>* d d'"
  using rtranclp_mono [of ledger_step recording_step] by (auto intro: by_operation)

lemma lease_steps_record: "lease_step\<^sup>*\<^sup>* d d' \<Longrightarrow> recording_step\<^sup>*\<^sup>* d d'"
  using rtranclp_mono [of lease_step recording_step] by (auto intro: by_nonce)

lemma ledger_steps_awards:
  "ledger_step\<^sup>*\<^sup>* d d' \<Longrightarrow> t_awards d' = t_awards d \<and> t_spends d' = t_spends d \<and> t_balances d' = t_balances d \<and> t_leases d' = t_leases d"
  using ledger_steps_outside by (fastforce simp: outside_defs frame_defs)

lemma lease_steps_awards:
  "lease_step\<^sup>*\<^sup>* d d' \<Longrightarrow> approvals_ok d \<Longrightarrow> t_awards d' = t_awards d \<and> t_spends d' = t_spends d \<and> approvals_ok d'"
proof (induction rule: rtranclp_induct)
  case (step y z)
  then show ?case using lease_step_keeps [of y z] by (simp add: outside_defs frame_defs)
qed simp

lemma best_effort_steps: "ledger_step d d1 \<Longrightarrow> ledger_step\<^sup>*\<^sup>* d (best_effort env p d d1)"
  by (simp add: best_effort_def r_into_rtranclp)

lemmas marks = ledger_step.intros [THEN r_into_rtranclp [where r = ledger_step]] ledger_step.intros [THEN best_effort_steps]

lemma saving_Inr: "saving env p r = Inr y \<longleftrightarrow> ae_saved env p \<and> r = Inr y"
  by (simp add: saving_def)

subsection \<open>Marks on one row\<close>

lemma returning_first:
  assumes "row_at key k t = Some r" and "Q r"
  shows "returning_where (\<lambda>x. key x = k \<and> Q x) f t = Some (f r)"
  using assms by (induction t) (auto simp: returning_where_def split: if_splits)

lemma updated_row:
  assumes "find_operation d k = Some r" and "Q r" and "op_key (f r) = k"
  shows "find_operation (update_operations (\<lambda>x. op_key x = k \<and> Q x) f d) k = Some (f r)"
proof -
  have "row_at op_key k t = Some r \<Longrightarrow> row_at op_key k (update_where (\<lambda>x. op_key x = k \<and> Q x) f t) = Some (f r)" for t
    using assms(2,3) by (induction t) (auto simp: update_where_def split: if_splits)
  then show ?thesis using assms(1) by (simp add: find_operation_def)
qed

lemma confirmed_row:
  assumes "find_operation d k = Some r" and "op_tx_hash r \<noteq> None" and "op_status r \<in> {SUBMITTING, SUBMITTED, UNKNOWN_STATUS, CONFIRMED}"
  shows "\<exists>m. fst (markConfirmed now k e d) = Some m \<and> find_operation (snd (markConfirmed now k e d)) k = Some m
    \<and> op_status m = CONFIRMED \<and> op_tx_hash m = op_tx_hash r \<and> same_intent r m"
proof -
  have k: "op_key r = k" using row_at_Some [of op_key k "t_operations d" r] assms(1) by (simp add: find_operation_def)
  have q: "op_tx_hash r \<noteq> None \<and> (open_status (op_status r) \<or> op_status r = CONFIRMED)" using assms(2,3) by auto
  show ?thesis
    unfolding markConfirmed_def mark_operation_def Let_def
      returning_first [where key = op_key and Q = "\<lambda>x. op_tx_hash x \<noteq> None \<and> (open_status (op_status x) \<or> op_status x = CONFIRMED)", OF assms(1) [unfolded find_operation_def] q]
    using updated_row [where Q = "\<lambda>x. op_tx_hash x \<noteq> None \<and> (open_status (op_status x) \<or> op_status x = CONFIRMED)", OF assms(1) q] by (simp add: k same_intent_def)
qed

lemma projected_row:
  assumes "find_operation d k = Some m" and "nonempty (op_tx_hash m) \<noteq> None" and "op_status m \<noteq> FAILED"
  shows "\<exists>n. find_operation (snd (markProjected now k d)) k = Some n \<and> op_status n = PROJECTED"
proof -
  have k: "op_key m = k" using row_at_Some [of op_key k "t_operations d" m] assms(1) by (simp add: find_operation_def)
  have h: "given (op_tx_hash m)" "op_tx_hash m \<noteq> None" using assms(2) by (cases "op_tx_hash m"; simp add: given_def nonempty_def)+
  have q: "op_status m \<noteq> FAILED \<and> (op_tx_hash m \<noteq> None \<or> op_amount m = 0)" using h assms(3) by simp
  show ?thesis
    using assms(1,3) h(1) returning_first [where key = op_key and Q = "\<lambda>x. op_status x \<noteq> FAILED \<and> (op_tx_hash x \<noteq> None \<or> op_amount x = 0)", OF assms(1) [unfolded find_operation_def] q] updated_row [where Q = "\<lambda>x. op_status x \<noteq> FAILED \<and> (op_tx_hash x \<noteq> None \<or> op_amount x = 0)", OF assms(1) q]
    by (simp add: markProjected_def Let_def k)
qed

lemma record_keeps_operations:
  assumes "recordAward resolve now uident ident q d = Inr (a, d')" and "wallets_ok d"
  shows "t_operations d' = t_operations d"
  using assms(1)
proof (cases rule: recordAward_cases)
  case (3 h amt)
  from 3(5) show ?thesis
    by (rule new_award_shape)
      (use find_or_create_keeps assms(2) in \<open>fastforce simp: outside_defs frame_defs insert_award_Inr credit_balance_def\<close>)
qed simp_all

lemma record_spend_keeps_operations:
  assumes "recordSpend now uident ident q d = Inr (x, d')" and "wallets_ok d"
  shows "t_operations d' = t_operations d"
  using assms(1)
proof (cases rule: recordSpend_cases)
  case (2 h amt)
  from 2(4) show ?thesis
    by (rule new_spend_shape)
      (use find_or_create_keeps assms(2) in \<open>fastforce simp: outside_defs frame_defs insert_spend_Inr debit_balance_def\<close>)
qed simp_all

subsection \<open>Senders\<close>

text \<open>A run that sent something: a history, one call of the reliable sender under the key, and a history.\<close>

definition sends_under :: "string \<Rightarrow> db \<Rightarrow> db \<Rightarrow> string list \<Rightarrow> bool" where
  "sends_under k d d' sent \<longleftrightarrow> (\<exists>ch now q dc r d1. recording_step\<^sup>*\<^sup>* d dc \<and> rq_operationKey q = k
     \<and> prepareAndBroadcastTransaction ch now q dc = (d1, sent, r) \<and> recording_step\<^sup>*\<^sup>* d1 d')"

lemma sends_once:
  assumes "sends_under k d d1 sent" and "accounts_ok d" and "sent \<noteq> []" and "recording_step\<^sup>*\<^sup>* d1 d2"
    and "sends_under k d2 d3 sent'" and "sent' \<noteq> []"
  shows False
proof -
  obtain ch now q dc r da where a: "recording_step\<^sup>*\<^sup>* d dc" "rq_operationKey q = k"
    "prepareAndBroadcastTransaction ch now q dc = (da, sent, r)" "recording_step\<^sup>*\<^sup>* da d1"
    using assms(1) by (auto simp: sends_under_def)
  have okc: "accounts_ok dc" by (rule award_store.steps_invar [OF a(1) assms(2)])
  then have sc: "service_ok dc" by (simp add: accounts_ok_def)
  obtain l where l: "find_lease da k = Some l" using sent_lease [OF a(3) sc assms(3)] a(2) by metis
  have oka: "accounts_ok da"
    by (rule award_store.steps_invar [OF lease_steps_record [OF run_lease_steps [OF a(3)]] okc]) (use sc in \<open>simp add: service_ok_def\<close>)
  obtain ch' now' q' dc' r' db where b: "recording_step\<^sup>*\<^sup>* d2 dc'" "rq_operationKey q' = k"
    "prepareAndBroadcastTransaction ch' now' q' dc' = (db, sent', r')"
    using assms(5) by (auto simp: sends_under_def)
  have h: "recording_step\<^sup>*\<^sup>* da dc'" using a(4) assms(4) b(1) by (meson rtranclp_trans)
  then obtain l' where "find_lease dc' k = Some l'" using recorded_leases.steps_le [OF _ oka l] by blast
  moreover have "find_lease dc' (rq_operationKey q') = None"
    using sent_lease [OF b(3) _ assms(6)] award_store.steps_invar [OF h oka] by (metis accounts_ok_def)
  ultimately show False using b(2) by simp
qed

locale keyed_sender =
  fixes run :: "'q \<Rightarrow> db \<Rightarrow> db \<Rightarrow> string list \<Rightarrow> bool"
    and key :: "'q \<Rightarrow> string"
  assumes run_history: "run q d d' sent \<Longrightarrow> accounts_ok d \<Longrightarrow> recording_step\<^sup>*\<^sup>* d d'"
    and run_sends: "run q d d' sent \<Longrightarrow> accounts_ok d \<Longrightarrow> sent \<noteq> [] \<Longrightarrow> sends_under (key q) d d' sent"
begin

lemma run_accounts: "run q d d' sent \<Longrightarrow> accounts_ok d \<Longrightarrow> accounts_ok d'"
  by (rule award_store.steps_invar [OF run_history])

lemma sent_once:
  assumes "run q d d1 sent" and "accounts_ok d" and "sent \<noteq> []" and "recording_step\<^sup>*\<^sup>* d1 d2"
    and "run q' d2 d3 sent'" and "key q' = key q"
  shows "sent' = []"
proof (rule ccontr)
  assume n: "sent' \<noteq> []"
  have "accounts_ok d2" by (rule award_store.steps_invar [OF assms(4) run_accounts [OF assms(1,2)]])
  from run_sends [OF assms(5) this n] show False
    using sends_once [OF run_sends [OF assms(1-3)] assms(2-4)] n assms(6) by simp
qed

end

end
