(* ===== verification/AwardFlowLaws.thy ===== *)
theory AwardFlowLaws
  imports AwardSample ExecutorLaws
begin

text \<open>
  What a run of the award executor does to the service: it is a history of modelled operations, it sends
  at most once per award over any history, it records nothing that the chain did not prove, and a run
  that stops at a validation leaves everything as it was. \<open>ledger_step\<^sup>*\<^sup>*\<close> is a run that only marks.
\<close>

lemma result_simps [simp]:
  "\<not> xr_success failedExecutionResult" "\<not> xr_success (failed_award a st e)" "\<not> xr_success (pendingAwardResult a s e h rv g)"
  "xr_success (completed_award a el am h sd dup)" "xr_stage (completed_award a el am h sd dup) = STAGE_COMPLETE"
  "xr_stage (pendingAwardResult a s e h rv g) = STAGE_EXECUTION" "xr_stage (failed_award a st e) = st"
  "xr_duplicate (completed_award a el am h sd dup) = dup" "xr_amount (completed_award a el am h sd dup) = am"
  "xr_eligible (completed_award a el am h sd dup) = el" "xr_dedupKey (completed_award a el am h sd dup) = wr_dedup a"
  "xr_txHash (completed_award a el am h sd dup) = h"
  by (simp_all add: failedExecutionResult_def failed_award_def pendingAwardResult_def completed_award_def)

subsection \<open>Projecting one award\<close>

lemma confirm_steps:
  "confirm_award env p a h ev d = Inl (d', r) \<Longrightarrow> ledger_step\<^sup>*\<^sup>* d d' \<and> \<not> xr_success r \<and> xr_stage r = STAGE_EXECUTION"
  "confirm_award env p a h ev d = Inr d' \<Longrightarrow> ledger_step\<^sup>*\<^sup>* d d' \<and> (\<exists>proof. ev = Some (Inr proof))"
proof -
  show "ledger_step\<^sup>*\<^sup>* d d' \<and> \<not> xr_success r \<and> xr_stage r = STAGE_EXECUTION" if "confirm_award env p a h ev d = Inl (d', r)"
  proof (cases ev)
    case None
    then show ?thesis using that by (auto simp: confirm_award_def Let_def intro: marks)
  next
    case (Some e)
    then show ?thesis using that
      by (cases e) (auto simp: confirm_award_def Let_def intro: marks split: if_splits)
  qed
  show "ledger_step\<^sup>*\<^sup>* d d' \<and> (\<exists>proof. ev = Some (Inr proof))" if "confirm_award env p a h ev d = Inr d'"
    using that by (auto simp: confirm_award_def Let_def intro: marks split: option.splits sum.splits if_splits)
qed

lemma hashless_steps:
  "project_hashless env p a d = (d', x) \<Longrightarrow> ledger_step\<^sup>*\<^sup>* d d' \<and> (xr_success x \<longrightarrow> xr_stage x = STAGE_COMPLETE \<and> xr_amount x = Fin 0)
     \<and> (\<not> xr_success x \<longrightarrow> xr_stage x = STAGE_EXECUTION)"
  by (auto simp: project_hashless_def intro: marks split: if_splits)

lemma record_and_project_cases:
  assumes "record_and_project env p a h s raw approve d = (d', x, b)"
  obtains (unrecorded) "ledger_step\<^sup>*\<^sup>* d d'" "\<not> xr_success x" "xr_stage x = STAGE_EXECUTION"
  | (recorded) row d1 where
      "recordAward (ae_resolve env) (clock env) (ae_user_ident env) (ae_award_ident env) (record_of p a h s raw) d = Inr (row, d1)"
      "ledger_step\<^sup>*\<^sup>* d1 d'" "xr_success x \<longrightarrow> d' = snd (markProjected (clock env) (pj_key p) d1)
         \<and> x = completed_award a True (wr_amount a) (Some h) (Some True) False"
      "\<not> xr_success x \<longrightarrow> xr_stage x = STAGE_EXECUTION"
proof (cases "saving env Save_Record (recordAward (ae_resolve env) (clock env) (ae_user_ident env) (ae_award_ident env)
             (record_of p a h s raw) d)")
  case (Inl e)
  then show thesis using assms by (intro unrecorded) (auto simp: record_and_project_def intro: marks)
next
  case (Inr y)
  obtain row d1 where y: "y = (row, d1)" by (cases y)
  show thesis using assms Inr y by (intro recorded [of row d1]) (auto simp: record_and_project_def saving_Inr intro: marks split: if_splits)
qed

text \<open>The proof a recorded award rests on.\<close>

definition verified :: "projection_request \<Rightarrow> evidence_result option option \<Rightarrow> bool \<Rightarrow> evidence_result option \<Rightarrow> bool" where
  "verified p verify fresh pre \<longleftrightarrow> verify = None
     \<or> pj_status p \<notin> {SUBMITTED, UNKNOWN_STATUS} \<and> \<not> fresh
     \<or> (\<exists>answer proof. verify = Some answer \<and> (case pre of None \<Rightarrow> answer | Some e \<Rightarrow> Some e) = Some (Inr proof))"

lemma project_cases:
  assumes "projectAwardOperation env p a s raw mode verify approve fresh pre d = (d', x, b)"
  obtains (marked) "ledger_step\<^sup>*\<^sup>* d d'" "xr_success x \<longrightarrow> xr_duplicate x \<or> xr_amount x = Fin 0"
      "xr_stage x \<in> {STAGE_EXECUTION, STAGE_COMPLETE}"
  | (recorded) h row d1 d2 where "nonempty (pj_tx_hash p) = Some h" "pj_status p \<notin> {FAILED, PROJECTED}" "verified p verify fresh pre"
      "ledger_step\<^sup>*\<^sup>* d d1"
      "recordAward (ae_resolve env) (clock env) (ae_user_ident env) (ae_award_ident env)
         (record_of p (replay_award p a) h s raw) d1 = Inr (row, d2)"
      "ledger_step\<^sup>*\<^sup>* d2 d'" "xr_success x \<longrightarrow> d' = snd (markProjected (clock env) (pj_key p) d2)
         \<and> x = completed_award (replay_award p a) True (wr_amount (replay_award p a)) (Some h) (Some True) False"
      "xr_stage x \<in> {STAGE_EXECUTION, STAGE_COMPLETE}"
proof -
  define v where "v = replay_award p a"
  note outer = that
  note run = assms [unfolded projectAwardOperation_def Let_def, folded v_def]
  have finish: thesis if f: "record_and_project env p v h s raw ap d1 = (d', x, b)" and h: "nonempty (pj_tx_hash p) = Some h"
    and st: "pj_status p \<notin> {FAILED, PROJECTED}" and ev: "verified p verify fresh pre" and d1: "ledger_step\<^sup>*\<^sup>* d d1" for h ap d1
    using f
  proof (cases rule: record_and_project_cases)
    case unrecorded
    then show thesis using d1 by (intro marked) auto
  next
    case (recorded row d2)
    then show thesis using outer(2) [OF h st ev d1 recorded(1,2) [unfolded v_def]] by (auto simp: v_def)
  qed
  consider (failed) "pj_status p = FAILED" | (projected) "pj_status p = PROJECTED" | (open_) "pj_status p \<notin> {FAILED, PROJECTED}"
    by blast
  then show thesis
  proof cases
    case failed
    then show thesis using run by (intro marked) (auto simp: project_failed_def split: if_splits)
  next
    case projected
    then show thesis using run by (intro marked) auto
  next
    case open_
    show thesis
    proof (cases "nonempty (pj_tx_hash p)")
      case None
      obtain d1 x1 where h: "project_hashless env p v d = (d1, x1)" by (cases "project_hashless env p v d")
      then show thesis using run open_ None hashless_steps [OF h] by (intro marked) auto
    next
      case (Some h)
      show thesis
      proof (cases "verify = None \<or> \<not> (pj_status p = SUBMITTED \<or> pj_status p = UNKNOWN_STATUS \<or> fresh)")
        case True
        then show thesis using run open_ Some
          by (intro finish [of h "approve \<and> mode = MANAGED" d]) (auto simp: verified_def split: option.splits)
      next
        case False
        then obtain answer where a: "verify = Some answer" by auto
        define ev where "ev = (case pre of None \<Rightarrow> answer | Some e \<Rightarrow> Some e)"
        note r = run [unfolded a option.case Some ev_def [symmetric]]
        show thesis
        proof (cases "confirm_award env p v h ev d")
          case (Inl y)
          then show thesis using r open_ False a confirm_steps(1) [of env p v h ev d "fst y" "snd y"]
            by (cases y) (intro marked, auto)
        next
          case (Inr d1)
          note c = confirm_steps(2) [OF Inr]
          then have "verified p verify fresh pre" by (auto simp: verified_def a ev_def)
          then show thesis using r open_ False a Inr Some c by (intro finish [of h "approve \<and> mode = MANAGED" d1]) auto
        qed
      qed
    qed
  qed
qed

subsection \<open>Sending one award\<close>

lemma submit_cases:
  assumes "submitAward env w n k asset d = (d1, sent, r)"
  obtains (unsent) "sent = []" "d1 = d" "r = Inl None"
  | (run) q x where "rq_operationKey q = k" "prepareAndBroadcastTransaction (ae_chain env) (clock env) q d = (d1, sent, x)"
      "r = (case x of Inl g \<Rightarrow> Inl (Some g) | Inr v \<Rightarrow> Inr v)"
proof (cases "canonicalTokenAmount (JNum n)")
  case None
  then show thesis using assms by (intro unsent) (simp_all add: submitAward_def submit_transfer_def)
next
  case (Some a)
  show thesis
  proof (cases "units a = 0")
    case True
    then show thesis using assms Some by (intro unsent) (simp_all add: submitAward_def submit_transfer_def)
  next
    case False
    define q where "q = \<lparr>rq_operationKey = k, rq_targetOperationKey = None, rq_targetType = TARGET_OPERATION,
      rq_chainId = ac_chainId asset, rq_to = tokenContractAddress asset,
      rq_data = Some (ae_encode env w (token_wei (units a))), rq_value = Some ''0'', rq_accessList = None\<rparr>"
    have k: "rq_operationKey q = k" by (simp add: q_def)
    obtain d2 s2 x where x: "prepareAndBroadcastTransaction (ae_chain env) (clock env) q d = (d2, s2, x)"
      by (cases "prepareAndBroadcastTransaction (ae_chain env) (clock env) q d")
    show thesis using assms Some False x
      by (intro run [OF k, of x]) (auto simp: submitAward_def submit_transfer_def q_def split: sum.splits)
  qed
qed

lemma sent_cases:
  assumes "sent_award env p raw asset amount intent d = (d', sent, x, b)"
  obtains (marked) d1 r where "submitAward env (pl_wallet p) (wr_amount (pl_award p)) (pl_key p) asset d = (d1, sent, r)"
      "ledger_step\<^sup>*\<^sup>* d1 d'" "\<not> xr_success x" "xr_stage x = STAGE_EXECUTION"
  | (projected) d1 r d2 st h g e pre where
      "submitAward env (pl_wallet p) (wr_amount (pl_award p)) (pl_key p) asset d = (d1, sent, r)" "ledger_step\<^sup>*\<^sup>* d1 d2"
      "project_sent env p raw (sent_request p amount intent st h g) e pre d2 = (d', x, b)"
      "st \<in> {SUBMITTED, UNKNOWN_STATUS}" "pre = None \<or> pre = e"
      "e = award_evidence env asset (pl_wallet p) (decimal amount) h"
proof -
  obtain d1 s1 r where s: "submitAward env (pl_wallet p) (wr_amount (pl_award p)) (pl_key p) asset d = (d1, s1, r)"
    by (cases "submitAward env (pl_wallet p) (wr_amount (pl_award p)) (pl_key p) asset d")
  show thesis
  proof (cases r)
    case (Inr tx)
    show thesis
    proof (cases "saving env Save_Submitted (markSubmitted (clock env) (pl_key p) (rr_txHash tx) d1)")
      case (Inl e)
      then show thesis using assms s Inr by (intro marked [of d1 r]) (auto simp: sent_award_def intro: marks)
    next
      case (Inr y)
      obtain z d2 where y: "y = (z, d2)" by (cases y)
      then have "markSubmitted (clock env) (pl_key p) (rr_txHash tx) d1 = Inr (z, d2)" using Inr by (simp add: saving_Inr)
      then have st: "ledger_step\<^sup>*\<^sup>* d1 d2" by (rule marks)
      show thesis using assms s \<open>r = Inr tx\<close> Inr y st
        by (intro projected [of d1 r d2 SUBMITTED "rr_txHash tx" None _ None]) (auto simp: sent_award_def split: prod.splits)
    qed
  next
    case (Inl g)
    have run: "send_failed env p raw asset amount intent g d1 = (d', x, b)" "sent = s1"
      using assms s Inl by (auto simp: sent_award_def split: prod.splits)
    have review: thesis if "(case outcome_unknown env p g d1 of (d', x) \<Rightarrow> (d', x, False)) = (d', x, b)"
      using that s run(2) by (intro marked [of d1 r]) (auto simp: outcome_unknown_def Let_def intro: marks)
    show thesis
    proof (cases g)
      case None
      then show thesis using run(1) by (intro review) (simp add: send_failed_def Let_def)
    next
      case (Some dg)
      show thesis
      proof (cases "isPreBroadcastTransactionDiagnostic g")
        case True
        then show thesis using run Some s
          by (intro marked [of d1 r]) (auto simp: send_failed_def preflight_failed_def Let_def pendingAwardResult_def failed_award_def
            failedExecutionResult_def intro: marks)
      next
        case False
        note f = run(1) [unfolded send_failed_def Let_def Some option.case if_not_P [OF False [unfolded Some]]]
        show thesis
        proof (cases "nonempty (dg_savedHash dg)")
          case None
          then show thesis using f Some by (intro review) simp
        next
          case (Some h)
          show thesis
          proof (cases "award_evidence env asset (pl_wallet p) (decimal amount) h")
            case None
            then show thesis using f Some \<open>g = Some dg\<close> by (intro review) (simp split: if_splits)
          next
            case ev: (Some e)
            show thesis
            proof (cases "dg_stage dg = BROADCAST \<and> ch_provider (ae_chain env)")
              case True
              then show thesis using f Some ev s run(2)
                by (intro projected [of d1 r d1 UNKNOWN_STATUS h "Some dg" "Some e" "Some e"]) simp_all
            next
              case False
              then show thesis using f Some ev \<open>g = Some dg\<close> by (intro review) (simp split: if_splits)
            qed
          qed
        qed
      qed
    qed
  qed
qed

lemma submit_leases:
  assumes "submitAward env w n k asset d = (d1, sent, r)" and "accounts_ok d"
  shows "lease_step\<^sup>*\<^sup>* d d1"
  using assms(1)
proof (cases rule: submit_cases)
  case (run q y)
  show ?thesis by (rule run_lease_steps [OF run(2)]) (use assms(2) in \<open>simp add: accounts_ok_def service_ok_def\<close>)
qed simp

lemma submit_records: "submitAward env w n k asset d = (d1, sent, r) \<Longrightarrow> accounts_ok d \<Longrightarrow> recording_step\<^sup>*\<^sup>* d d1"
  by (rule lease_steps_record) (rule submit_leases)

lemma submit_awards: "submitAward env w n k asset d = (d1, sent, r) \<Longrightarrow> accounts_ok d \<Longrightarrow> t_awards d1 = t_awards d"
  using lease_steps_awards [OF submit_leases] by (simp add: accounts_ok_def service_ok_def)

subsection \<open>A whole run\<close>

text \<open>The key of the award a record is about, when the record is accepted.\<close>

lemma plan_key:
  assumes "award_plan_of env check raw d = Inr p"
  obtains s where "validateAndNormaliseCdr (re_intl (ae_recovery env)) (clock env) raw = Inr s" "pl_session p = s"
    "pl_key p = awardOperationKey (sha_of env) (providerId s) (sessionId s)" "pl_existing p = find_operation d (pl_key p)"
    "\<And>r. pl_existing p = Some r \<Longrightarrow> pl_award p = existing_view r s"
proof -
  obtain s where s: "validateAndNormaliseCdr (re_intl (ae_recovery env)) (clock env) raw = Inr s"
    using assms by (cases "validateAndNormaliseCdr (re_intl (ae_recovery env)) (clock env) raw") (simp_all add: award_plan_of_def)
  define k where "k = awardOperationKey (sha_of env) (providerId s) (sessionId s)"
  show thesis
  proof (cases "find_operation d k")
    case None
    then have n: "plan_new env check raw s k d = Inr p"
      using assms s by (simp add: award_plan_of_def Let_def k_def split: if_splits)
    have "pl_session p = s \<and> pl_key p = k \<and> pl_existing p = None"
      using n unfolding plan_new_def rbind_Inr_iff by auto
    then show thesis using that [OF s] None by (auto simp: k_def)
  next
    case (Some r)
    then have n: "plan_existing env raw s k r d = Inr p"
      using assms s by (simp add: award_plan_of_def Let_def k_def split: if_splits)
    have "pl_session p = s \<and> pl_key p = k \<and> pl_existing p = Some r \<and> pl_award p = existing_view r s"
      using n unfolding plan_existing_def rbind_Inr_iff Let_def by auto
    then show thesis using that [OF s] Some by (auto simp: k_def)
  qed
qed

text \<open>How a run ends after a successful claim.\<close>

lemma claimed_cases:
  assumes "claimed_award env p raw asset amount intent c dc = (d', sent, x, b)"
    and "claim (clock env) (ae_ident env) (award_claim env p amount intent) d = Inr (c, dc)"
  obtains (quiet) "ledger_step\<^sup>*\<^sup>* d d'" "sent = []" "xr_success x \<longrightarrow> xr_duplicate x \<or> xr_amount x = Fin 0"
      "xr_stage x \<notin> {STAGE_EXECUTION, STAGE_COMPLETE} \<longrightarrow> d' = d"
  | (existing) r and i :: recovery_input where "find_operation d (pl_key p) = Some r" "sent = []"
      "projectAwardOperation env (row_projection r) (pl_award p) (ri_session i) (ri_raw i) (pl_mode p)
         (row_evidence env asset r) False False None d = (d', x, b)"
  | (sends) "wr_eligible (pl_award p)" "cl_acquired c" "sent_award env p raw asset amount intent dc = (d', sent, x, b)"
proof -
  have k: "cr_key (award_claim env p amount intent) = pl_key p" by (simp add: award_claim_def)
  have step: "ledger_step\<^sup>*\<^sup>* d dc" using marks(1) [OF assms(2)] .
  note run = assms(1) [unfolded claimed_award_def Let_def]
  show thesis
  proof (cases "cl_legacy c")
    case (Some l)
    then show thesis using run step by (intro quiet) auto
  next
    case None
    show thesis
    proof (cases "cl_operation c")
      case n: None
      then show thesis using run step None by (intro quiet) auto
    next
      case (Some r)
      show thesis
      proof (cases "assetContextMismatch (op_intent r) asset")
        case m: (Some m)
        then show thesis using run step None Some by (intro quiet) auto
      next
        case m: None
        note run1 = run [unfolded None option.case Some m]
        show thesis
        proof (cases "cl_acquired c")
          case False
          from assms(2) have e: "find_operation d (pl_key p) = Some r" "dc = d"
            by (cases rule: claim_cases, use False Some None k in auto)+
          show thesis
          proof (cases "resolveRecoveryInput (ae_recovery env) r (pl_session p) raw")
            case (Inl t)
            then show thesis using run1 False step e
              by (intro quiet) (auto simp: claimed_by_other_def row_rejected_def row_blocked_def failedExecutionResult_def split: prod.splits)
          next
            case (Inr i)
            then show thesis using run1 False e by (intro existing [of r i]) (auto simp: claimed_by_other_def split: prod.splits)
          qed
        next
          case True
          show thesis
          proof (cases "wr_eligible (pl_award p)")
            case False
            then have "ledger_step\<^sup>*\<^sup>* dc d'" using run1 True by (auto simp: zero_award_def intro: marks split: if_splits)
            then show thesis using run1 True False step by (intro quiet) (auto simp: zero_award_def split: if_splits)
          next
            case el: True
            then show thesis using run1 True by (intro sends) auto
          qed
        qed
      qed
    qed
  qed
qed

lemma process_cases:
  assumes "processAwardFromCDR env check raw d = (d', sent, x, b)"
  obtains (quiet) "ledger_step\<^sup>*\<^sup>* d d'" "sent = []" "xr_success x \<longrightarrow> xr_duplicate x \<or> xr_amount x = Fin 0"
      "xr_stage x \<notin> {STAGE_EXECUTION, STAGE_COMPLETE} \<longrightarrow> d' = d"
  | (existing) p r asset and i :: recovery_input where "award_plan_of env check raw d = Inr p" "find_operation d (pl_key p) = Some r" "sent = []"
      "asset_of env = Some asset"
      "projectAwardOperation env (row_projection r) (pl_award p) (ri_session i) (ri_raw i) (pl_mode p)
         (row_evidence env asset r) False False None d = (d', x, b)"
  | (sends) p asset amount intent c dc where "award_plan_of env check raw d = Inr p" "asset_of env = Some asset"
      "canonicalTokenAmount (JNum (wr_amount (pl_award p))) = Some amount"
      "claim (clock env) (ae_ident env) (award_claim env p amount intent) d = Inr (c, dc)" "cl_acquired c"
      "wr_eligible (pl_award p)" "sent_award env p raw asset amount intent dc = (d', sent, x, b)"
proof (cases "award_plan_of env check raw d")
  case (Inl y)
  then have "d' = d" "sent = []" "x = y" using assms by (auto simp: processAwardFromCDR_def)
  moreover have "\<not> xr_success y"
    using Inl by (auto simp: award_plan_of_def plan_new_def plan_existing_def Let_def rbind_Inl_iff row_rejected_def row_blocked_def
        failedExecutionResult_def guard_def failed_award_def split: sum.splits option.splits if_splits)
  ultimately show thesis by (intro quiet) auto
next
  case (Inr p)
  note run = assms [unfolded processAwardFromCDR_def Inr sum.case]
  obtain k where k: "pl_existing p = find_operation d (pl_key p)" using plan_key [OF Inr] by metis
  have exec: thesis if "execute_plan env p raw d = (d', sent, x, b)"
  proof (cases "asset_of env")
    case None
    then show thesis using that by (intro quiet) (auto simp: execute_plan_def Let_def split: option.splits)
  next
    case (Some asset)
    note e = that [unfolded execute_plan_def Let_def Some option.case]
    show thesis
    proof (cases "Option.bind (pl_existing p) (\<lambda>r. map_option (Pair r) (assetContextMismatch (op_intent r) asset))")
      case s: (Some m)
      then show thesis using e by (cases m) (intro quiet, auto)
    next
      case None
      note e1 = e [unfolded None option.case]
      show thesis
      proof (cases "canonicalTokenAmount (JNum (wr_amount (pl_award p)))")
        case n: None
        then show thesis using e1 by (intro quiet) auto
      next
        case a: (Some amount)
        define snap where "snap = (if pl_existing p = None
                       then map_sum id Some (createAwardRecoverySnapshot (sha_of env) (pl_session p) (wr_amount (pl_award p))
                              (pl_wallet p) (Some raw))
                       else Inr None)"
        note e2 = e1 [unfolded a option.case, folded snap_def]
        show thesis
        proof (cases snap)
          case (Inl t)
          then show thesis using e2 by (intro quiet) auto
        next
          case s: (Inr v)
          define intent where "intent = claim_intent (pl_award p) asset v"
          note e3 = e2 [unfolded s sum.case, folded intent_def]
          show thesis
          proof (cases "saving env Save_Claim (claim (clock env) (ae_ident env) (award_claim env p amount intent) d)")
            case (Inl t)
            then have r: "x = claim_refused (pl_award p) t" "d' = d" "sent = []" using e3 by auto
            have "\<not> xr_success x" unfolding r(1) by (cases t) (simp_all add: claim_refused_def failed_award_def failedExecutionResult_def)
            then show thesis using r by (intro quiet) auto
          next
            case (Inr y)
            obtain c dc where y: "y = (c, dc)" by (cases y)
            have cl: "claim (clock env) (ae_ident env) (award_claim env p amount intent) d = Inr (c, dc)"
              using Inr y by (simp add: saving_Inr)
            have "claimed_award env p raw asset amount intent c dc = (d', sent, x, b)" using e3 Inr y by simp
            from this cl show thesis
            proof (cases rule: claimed_cases)
              case q: quiet
              then show thesis by (rule quiet)
            next
              case x: (existing r i)
              then show thesis using \<open>award_plan_of env check raw d = Inr p\<close> Some by (intro existing [of p r asset i])
            next
              case x: sends
              then show thesis using \<open>award_plan_of env check raw d = Inr p\<close> Some a cl
                by (intro sends [of p asset amount intent c dc])
            qed
          qed
        qed
      qed
    qed
  qed
  show thesis
  proof (cases "pl_existing p")
    case None
    then show thesis using run by (intro exec) simp
  next
    case (Some r)
    show thesis
    proof (cases "op_amount r = 0 \<and> nonempty (op_tx_hash r) = None")
      case True
      have "projectAwardOperation env (row_projection r) (pl_award p) (ri_session (pl_input p)) (ri_raw (pl_input p)) (pl_mode p)
          None False False None d = (d', x, b)" and s: "sent = []"
        using run True Some by (auto split: prod.splits)
      then show thesis
      proof (cases rule: project_cases)
        case marked
        then show thesis using s by (intro quiet) (auto simp: row_projection_def)
      qed (use True in \<open>auto simp: row_projection_def\<close>)
    next
      case False
      then show thesis using run Some by (intro exec) auto
    qed
  qed
qed

subsection \<open>Runs as histories\<close>

lemma project_records:
  "projectAwardOperation env p a s raw mode verify approve fresh pre d = (d', x, b) \<Longrightarrow> recording_step\<^sup>*\<^sup>* d d'"
proof (erule project_cases)
  fix h row d1 d2
  assume m: "ledger_step\<^sup>*\<^sup>* d d1" "ledger_step\<^sup>*\<^sup>* d2 d'" and
    a: "recordAward (ae_resolve env) (clock env) (ae_user_ident env) (ae_award_ident env)
          (record_of p (replay_award p a) h s raw) d1 = Inr (row, d2)"
  have "recording_step d1 d2" using a by (rule by_record_award)
  then show "recording_step\<^sup>*\<^sup>* d d'" using ledger_steps_record [OF m(1)] ledger_steps_record [OF m(2)]
    by (meson rtranclp.rtrancl_into_rtrancl rtranclp_trans)
qed (rule ledger_steps_record)

lemma sent_tail:
  assumes "sent_award env p raw asset amount intent d = (d', sent, x, b)"
  obtains d1 r where "submitAward env (pl_wallet p) (wr_amount (pl_award p)) (pl_key p) asset d = (d1, sent, r)"
    and "recording_step\<^sup>*\<^sup>* d1 d'" and "xr_stage x \<in> {STAGE_EXECUTION, STAGE_COMPLETE}"
  using assms
proof (cases rule: sent_cases)
  case (marked d1 r)
  then show thesis using ledger_steps_record by (intro that [of d1 r]) auto
next
  case (projected d1 r d2 st h g e pre)
  have "recording_step\<^sup>*\<^sup>* d1 d'"
    using ledger_steps_record [OF projected(2)] project_records [OF projected(3) [unfolded project_sent_def]] by (rule rtranclp_trans)
  moreover have "xr_stage x \<in> {STAGE_EXECUTION, STAGE_COMPLETE}"
    using projected(3) [unfolded project_sent_def] by (cases rule: project_cases) auto
  ultimately show thesis using projected(1) by (intro that [of d1 r])
qed

text \<open>Either nothing was sent, or the claim was followed by one run of the reliable sender.\<close>

lemma process_history:
  assumes "processAwardFromCDR env check raw d = (d', sent, x, b)" and ok: "accounts_ok d"
  shows "recording_step\<^sup>*\<^sup>* d d'"
    and "sent \<noteq> [] \<Longrightarrow> \<exists>p dc q r d1. award_plan_of env check raw d = Inr p \<and> recording_step\<^sup>*\<^sup>* d dc \<and> rq_operationKey q = pl_key p
      \<and> prepareAndBroadcastTransaction (ae_chain env) (clock env) q dc = (d1, sent, r) \<and> recording_step\<^sup>*\<^sup>* d1 d'"
proof -
  have "recording_step\<^sup>*\<^sup>* d d' \<and> (sent \<noteq> [] \<longrightarrow> (\<exists>p dc q r d1. award_plan_of env check raw d = Inr p \<and> recording_step\<^sup>*\<^sup>* d dc
      \<and> rq_operationKey q = pl_key p \<and> prepareAndBroadcastTransaction (ae_chain env) (clock env) q dc = (d1, sent, r)
      \<and> recording_step\<^sup>*\<^sup>* d1 d'))"
    using assms(1)
  proof (cases rule: process_cases)
    case quiet
    then show ?thesis using ledger_steps_record by blast
  next
    case (existing p r asset i)
    then show ?thesis using project_records by blast
  next
    case (sends p asset amount intent c dc)
    have c: "recording_step\<^sup>*\<^sup>* d dc" using ledger_steps_record marks(1) [OF sends(4)] by blast
    have okc: "leases_ok dc" using award_store.steps_invar [OF c ok] by (simp add: accounts_ok_def service_ok_def)
    obtain d1 r where t: "submitAward env (pl_wallet p) (wr_amount (pl_award p)) (pl_key p) asset dc = (d1, sent, r)"
      "recording_step\<^sup>*\<^sup>* d1 d'" by (rule sent_tail [OF sends(7)])
    from t(1) show ?thesis
    proof (cases rule: submit_cases)
      case unsent
      then show ?thesis using c t(2) by auto
    next
      case (run q y)
      have "recording_step\<^sup>*\<^sup>* dc d1" by (rule lease_steps_record [OF run_lease_steps [OF run(2) okc]])
      then show ?thesis using c t(2) run sends(1) by (meson rtranclp_trans)
    qed
  qed
  then show "recording_step\<^sup>*\<^sup>* d d'"
    and "sent \<noteq> [] \<Longrightarrow> \<exists>p dc q r d1. award_plan_of env check raw d = Inr p \<and> recording_step\<^sup>*\<^sup>* d dc \<and> rq_operationKey q = pl_key p
      \<and> prepareAndBroadcastTransaction (ae_chain env) (clock env) q dc = (d1, sent, r) \<and> recording_step\<^sup>*\<^sup>* d1 d'"
    by blast+
qed

text \<open>The executor is a sender: its requests are a surrounding, a deduplication check and a raw record.\<close>

type_synonym award_request = "award_env \<times> (string \<Rightarrow> bool option) option \<times> jsv"

definition award_runs :: "award_request \<Rightarrow> db \<Rightarrow> db \<Rightarrow> string list \<Rightarrow> bool" where
  "award_runs q d d' sent \<longleftrightarrow> (case q of (env, check, raw) \<Rightarrow> \<exists>x b. processAwardFromCDR env check raw d = (d', sent, x, b))"

definition award_run_key :: "award_request \<Rightarrow> string" where
  "award_run_key q = (case q of (env, check, raw) \<Rightarrow>
     case validateAndNormaliseCdr (re_intl (ae_recovery env)) (clock env) raw of
       Inl _ \<Rightarrow> [] | Inr s \<Rightarrow> awardOperationKey (sha_of env) (providerId s) (sessionId s))"

interpretation award_sender: keyed_sender award_runs award_run_key
proof unfold_locales
  show "recording_step\<^sup>*\<^sup>* d d'" if "award_runs q d d' sent" "accounts_ok d" for q d d' sent
    using that process_history(1) by (auto simp: award_runs_def split: prod.splits)
next
  show "sends_under (award_run_key q) d d' sent" if run: "award_runs q d d' sent" "accounts_ok d" "sent \<noteq> []" for q d d' sent
  proof -
    obtain env check raw x b where q: "q = (env, check, raw)" "processAwardFromCDR env check raw d = (d', sent, x, b)"
      using run(1) by (cases q) (auto simp: award_runs_def)
    obtain p dc r rq d1 where h: "award_plan_of env check raw d = Inr p" "recording_step\<^sup>*\<^sup>* d dc" "rq_operationKey rq = pl_key p"
      "prepareAndBroadcastTransaction (ae_chain env) (clock env) rq dc = (d1, sent, r)" "recording_step\<^sup>*\<^sup>* d1 d'"
      using process_history(2) [OF q(2) run(2,3)] by blast
    obtain s where "validateAndNormaliseCdr (re_intl (ae_recovery env)) (clock env) raw = Inr s"
      "pl_key p = awardOperationKey (sha_of env) (providerId s) (sessionId s)" by (rule plan_key [OF h(1)])
    then have "award_run_key q = pl_key p" by (simp add: award_run_key_def q(1))
    then show ?thesis using h(2-5) unfolding sends_under_def by metis
  qed
qed

subsection \<open>Guarantees\<close>

text \<open>
  C2: an award is sent at most once: of two runs of the executor for records of the same session and
  provider, with any history of the service between them, under any change of policy, wallets, chain
  answers and failing writes, at most one sends a transaction.
\<close>

theorem award_sent_at_most_once:
  assumes "accounts_ok d" and "processAwardFromCDR env check raw d = (d1, sent, x, b)" and "sent \<noteq> []"
    and "recording_step\<^sup>*\<^sup>* d1 d2" and "processAwardFromCDR env' check' raw' d2 = (d3, sent', x', b')"
    and "validateAndNormaliseCdr (re_intl (ae_recovery env)) (clock env) raw = Inr s"
    and "validateAndNormaliseCdr (re_intl (ae_recovery env')) (clock env') raw' = Inr s'"
    and "sessionId s' = sessionId s" and "providerId s' = providerId s" and "sha_of env' = sha_of env"
  shows "sent' = []"
proof -
  have k: "award_run_key (env', check', raw') = award_run_key (env, check, raw)"
    using assms(6-10) by (simp add: award_run_key_def)
  show ?thesis
    by (rule award_sender.sent_once [OF _ assms(1) assms(3) assms(4) _ k]) (use assms(2,5) in \<open>auto simp: award_runs_def\<close>)
qed

theorem award_sent_at_most_once_witness:
  "\<exists>d1 x d2 x' b'. processAwardFromCDR (sample_award_env (Some award_chain)) None (JObj sample_input) empty_db = (d1, [''0x02''], x, True)
     \<and> processAwardFromCDR (sample_award_env None) None (JObj sample_input) d1 = (d2, [], x', b')"
proof -
  obtain d1 x where a: "processAwardFromCDR (sample_award_env (Some award_chain)) None (JObj sample_input) empty_db
      = (d1, [''0x02''], x, True)" using sample_award_run by blast
  obtain d2 s x' b' where b: "processAwardFromCDR (sample_award_env None) None (JObj sample_input) d1 = (d2, s, x', b')"
    by (cases "processAwardFromCDR (sample_award_env None) None (JObj sample_input) d1")
  have "s = []"
    by (rule award_sent_at_most_once [OF empty_accounts_ok a _ rtranclp.rtrancl_refl b])
      (use sample_record_session in simp_all)
  then show ?thesis using a b by blast
qed

text \<open>
  A run that stops before execution changes nothing: when the result's stage is normalisation,
  calculation or validation, the database is the one the run was given and nothing was sent.
\<close>

theorem early_stop_changes_nothing:
  assumes "processAwardFromCDR env check raw d = (d', sent, x, b)" and "xr_stage x \<notin> {STAGE_EXECUTION, STAGE_COMPLETE}"
  shows "d' = d \<and> sent = []"
  using assms(1)
proof (cases rule: process_cases)
  case quiet
  then show ?thesis using assms(2) by blast
next
  case (existing p r asset i)
  from existing(5) show ?thesis by (cases rule: project_cases) (use assms(2) in auto)
next
  case (sends p asset amount intent c dc)
  then show ?thesis using sent_tail [OF sends(7)] assms(2) by metis
qed

theorem early_stop_changes_nothing_witness:
  "processAwardFromCDR (sample_award_env None) (Some (\<lambda>_. Some True)) (JObj sample_input) empty_db
    = (empty_db, [], fst (snd (snd (processAwardFromCDR (sample_award_env None) (Some (\<lambda>_. Some True)) (JObj sample_input) empty_db))), False)"
proof -
  let ?run = "processAwardFromCDR (sample_award_env None) (Some (\<lambda>_. Some True)) (JObj sample_input) empty_db"
  obtain a where a: "prepareAward (sample_award_env None) accepted_session = Inr a" "wr_amount a = Fin (of_nat 3)"
    using sample_prepares by blast
  have "\<not> exceedsTokenOperationCap (Fin (of_nat 3))" by (simp add: exceedsTokenOperationCap_def MAX_TOKENS_PER_OPERATION_def)
  moreover have "find_operation empty_db k = None" for k by (simp add: find_operation_def empty_db_def)
  ultimately have r: "?run = (empty_db, [], failed_award a STAGE_VALIDATION Already_Processed, False)"
    using a by (simp add: processAwardFromCDR_def award_plan_of_def sample_record_session Let_def plan_new_def guard_def)
  from early_stop_changes_nothing [OF r] show ?thesis using r by simp
qed

subsection \<open>What is recorded\<close>

text \<open>The award row a projection adds, and what it rests on.\<close>

lemma project_adds:
  assumes "projectAwardOperation env p a s raw mode verify approve fresh pre d = (d', x, b)" and ok: "accounts_ok d"
    and "t_awards d' \<noteq> t_awards d"
  obtains n h where "t_awards d' = t_awards d @ [n]" and "nonempty (pj_tx_hash p) = Some h"
    and "canonical_hash h ''transaction hash'' = Inr (aw_tx_hash n)" and "verified p verify fresh pre"
    and "pj_status p \<notin> {FAILED, PROJECTED}" and "\<And>u. pj_amount p = numeric2_text u \<Longrightarrow> u < 10 ^ 13 \<Longrightarrow> aw_amount n = u"
  using assms(1)
proof (cases rule: project_cases)
  case marked
  then show thesis using ledger_steps_awards assms(3) by blast
next
  case (recorded h row d1 d2)
  have ok1: "accounts_ok d1" by (rule award_store.steps_invar [OF ledger_steps_record [OF recorded(4)] ok])
  have t: "t_awards d1 = t_awards d" "t_awards d' = t_awards d2" using ledger_steps_awards recorded(4,6) by blast+
  note outer = that
  from recorded(5) show thesis
  proof (cases rule: recordAward_cases)
    case (3 g amt)
    have "t_awards d' = t_awards d @ [row]" using new_award_step [OF 3(5) ok1] t by simp
    moreover obtain owner where row: "row = award_row_of (clock env) (ae_award_ident env) owner (record_of p (replay_award p a) h s raw) g (decimal amt)"
      using 3(5) by (rule new_award_shape)
    then have "canonical_hash h ''transaction hash'' = Inr (aw_tx_hash row)"
      using 3(1) by (simp add: record_of_def award_row_of_def Let_def)
    moreover have "aw_amount row = u" if u: "pj_amount p = numeric2_text u" "u < 10 ^ 13" for u
    proof -
      have "ar_amount (record_of p (replay_award p a) h s raw) = units_number u"
        using column_number [OF u(2)] by (simp add: record_of_def replay_award_def Let_def u(1))
      then have "amt = \<lparr>units = u, decimal = numeric2_text u, amount_value = units_number u\<rparr>"
        using 3(2) cents_number [OF u(2)] by simp
      then show ?thesis by (simp add: row award_row_of_def Let_def)
    qed
    ultimately show thesis using outer [OF _ recorded(1) _ recorded(3,2)] by blast
  qed (use t assms(3) in simp_all)
qed

lemma asset_needs_provider: "asset_of env = Some asset \<Longrightarrow> ch_provider (ae_chain env)"
  by (auto simp: asset_of_def getTokenAssetContext_def of_option_def split: option.splits if_splits)

lemma claim_keeps_awards: "claim now ident q d = Inr (c, d') \<Longrightarrow> t_awards d' = t_awards d"
  using ledger_steps_awards marks(1) by blast

text \<open>
  C8: no award is recorded on trust: when a run adds an award row, it is one row, and its transaction
  hash is one for which the chain evidence was accepted in this very run, for a transfer of exactly the
  row's amount from the treasury signer, or the hash of a movement the ledger already had as confirmed,
  or as prepared and not yet submitted. The last case is the gap of \<open>prepared_award_needs_no_proof\<close>.
\<close>

theorem award_rows_need_evidence:
  assumes "accounts_ok d" and "processAwardFromCDR env check raw d = (d', sent, x, b)" and "t_awards d' \<noteq> t_awards d"
  shows "\<exists>n h. t_awards d' = t_awards d @ [n] \<and> canonical_hash h ''transaction hash'' = Inr (aw_tx_hash n)
    \<and> ((\<exists>asset w u pf. asset_of env = Some asset \<and> award_evidence env asset w (numeric2_text u) h = Some (Inr pf)
          \<and> (u < 10 ^ 13 \<longrightarrow> aw_amount n = u))
      \<or> (\<exists>k r. find_operation d k = Some r \<and> op_status r \<in> {SUBMITTING, CONFIRMED} \<and> op_tx_hash r = Some h))"
  using assms(2)
proof (cases rule: process_cases)
  case quiet
  then show ?thesis using ledger_steps_awards assms(3) by blast
next
  case (existing p r asset i)
  obtain n h where a: "t_awards d' = t_awards d @ [n]" "nonempty (op_tx_hash r) = Some h"
    "canonical_hash h ''transaction hash'' = Inr (aw_tx_hash n)" "verified (row_projection r) (row_evidence env asset r) False None"
    "op_status r \<notin> {FAILED, PROJECTED}" "op_amount r < 10 ^ 13 \<Longrightarrow> aw_amount n = op_amount r"
    by (rule project_adds [OF existing(5) assms(1,3)]) (auto simp: row_projection_def)
  have h: "op_tx_hash r = Some h" using a(2) by (auto simp: nonempty_def split: option.splits if_splits)
  have e: "row_evidence env asset r = Some (award_evidence env asset (op_wallet r) (numeric2_text (op_amount r)) h)"
    using a(2) asset_needs_provider [OF existing(4)] by (simp add: row_evidence_def)
  show ?thesis
  proof (cases "op_status r \<in> {SUBMITTED, UNKNOWN_STATUS}")
    case True
    then obtain pf where "award_evidence env asset (op_wallet r) (numeric2_text (op_amount r)) h = Some (Inr pf)"
      using a(4) e by (auto simp: verified_def row_projection_def)
    then show ?thesis using a(1,3,6) existing(4) by blast
  next
    case False
    then have "op_status r \<in> {SUBMITTING, CONFIRMED}" using a(5) by (cases "op_status r") auto
    then show ?thesis using a(1,3) existing(2) h by blast
  qed
next
  case (sends p asset amount intent c dc)
  have c: "recording_step\<^sup>*\<^sup>* d dc" using ledger_steps_record marks(1) [OF sends(4)] by blast
  have okc: "accounts_ok dc" by (rule award_store.steps_invar [OF c assms(1)])
  have tc: "t_awards dc = t_awards d" by (rule claim_keeps_awards [OF sends(4)])
  have submitted: "accounts_ok d1 \<and> t_awards d1 = t_awards d" if "submitAward env w n k asset dc = (d1, s', r)" for w n k d1 s' r
    using submit_awards [OF that okc] award_store.steps_invar [OF submit_records [OF that okc] okc] tc by simp
  have dec: "decimal amount = numeric2_text (units amount)" using canonicalTokenAmount_form [OF sends(3)] by (metis canonical_amount.select_convs(2))
  from sends(7) show ?thesis
  proof (cases rule: sent_cases)
    case (marked d1 r)
    then show ?thesis using submitted ledger_steps_awards assms(3) by metis
  next
    case (projected d1 r d2 st h g e pre)
    have ok2: "accounts_ok d2" using submitted [OF projected(1)] award_store.steps_invar [OF ledger_steps_record [OF projected(2)]] by blast
    have t2: "t_awards d2 = t_awards d" using submitted [OF projected(1)] ledger_steps_awards [OF projected(2)] by simp
    define q where "q = sent_request p amount intent st h g"
    have q: "pj_tx_hash q = Some h" "pj_status q = st" "pj_amount q = numeric2_text (units amount)" by (simp_all add: q_def sent_request_def dec)
    obtain n h' where a: "t_awards d' = t_awards d2 @ [n]" "nonempty (pj_tx_hash q) = Some h'"
      "canonical_hash h' ''transaction hash'' = Inr (aw_tx_hash n)" "verified q (Some e) False pre"
      "units amount < 10 ^ 13 \<Longrightarrow> aw_amount n = units amount"
      by (rule project_adds [OF projected(3) [unfolded project_sent_def, folded q_def] ok2]) (use assms(3) t2 q in auto)
    have h: "h' = h" using a(2) q(1) by (auto simp: nonempty_def split: if_splits)
    have "\<exists>pf. e = Some (Inr pf)" using a(4) projected(4,5) by (cases e) (auto simp: verified_def q)
    then obtain pf where "award_evidence env asset (pl_wallet p) (numeric2_text (units amount)) h = Some (Inr pf)"
      using projected(6) dec by auto
    then show ?thesis using a(1,3,5) t2 sends(2) unfolding h by auto
  qed
qed

theorem award_rows_need_evidence_witness:
  "\<exists>d' x n h. processAwardFromCDR (sample_award_env (Some award_chain)) None (JObj sample_input) empty_db = (d', [''0x02''], x, True)
     \<and> t_awards d' = t_awards empty_db @ [n] \<and> canonical_hash h ''transaction hash'' = Inr (aw_tx_hash n)"
proof -
  obtain d1 x m row where a: "processAwardFromCDR (sample_award_env (Some award_chain)) None (JObj sample_input) empty_db
      = (d1, [''0x02''], x, True)" "t_awards d1 = [row]" using sample_award_run by metis
  have "t_awards d1 \<noteq> t_awards empty_db" using a(2) by simp
  from award_rows_need_evidence [OF empty_accounts_ok a(1) this] a(1) show ?thesis by blast
qed

text \<open>
  C18: a new success is on record: when a run reports success for a positive amount and not as a duplicate,
  the award table holds a row with the reported deduplication key and, below ten trillion cents, exactly
  the reported amount.
\<close>

theorem award_success_is_recorded:
  assumes "accounts_ok d" and "processAwardFromCDR env check raw d = (d', sent, x, b)" and "xr_success x"
    and "\<not> xr_duplicate x" and "xr_amount x \<noteq> Fin 0"
  shows "\<exists>a. a \<in> set (t_awards d') \<and> aw_dedup_key a = xr_dedupKey x \<and> (\<exists>h. xr_txHash x = Some h)
    \<and> (\<exists>amt. canonicalTokenAmount (JNum (xr_amount x)) = Some amt \<and> aw_amount a = units amt)"
proof -
  have main: ?thesis if p: "projectAwardOperation env q v s raw' mode verify ap fresh pre d0 = (d', x, b)" and ok: "accounts_ok d0"
    for q v s raw' mode verify ap fresh pre d0
    using p
  proof (cases rule: project_cases)
    case marked
    then show ?thesis using assms(3-5) by blast
  next
    case (recorded h row d1 d2)
    have ok1: "accounts_ok d1" by (rule award_store.steps_invar [OF ledger_steps_record [OF recorded(4)] ok])
    note r = recordAward_result [OF recorded(5) ok1]
    have t: "t_awards d' = t_awards d2" using ledger_steps_awards recorded(6) by blast
    have x: "x = completed_award (replay_award q v) True (wr_amount (replay_award q v)) (Some h) (Some True) False"
      using recorded(7) assms(3) by blast
    obtain amt where amt: "canonicalTokenAmount (JNum (xr_amount x)) = Some amt"
      "same_award row (record_of q (replay_award q v) h s raw') (decimal amt)"
      using r by (auto simp: x record_of_def)
    have "aw_amount row = units amt"
      using amt(2) canonicalTokenAmount_idem(1) [OF amt(1)]
      by (simp add: same_award_def sameTokenAmount_def canonicalTokenAmount_text)
    then show ?thesis using r t amt(1) by (auto simp: x record_of_def)
  qed
  from assms(2) show ?thesis
  proof (cases rule: process_cases)
    case quiet
    then show ?thesis using assms(3-5) by blast
  next
    case (existing p r asset i)
    then show ?thesis using main assms(1) by blast
  next
    case (sends p asset amount intent c dc)
    have c: "recording_step\<^sup>*\<^sup>* d dc" using ledger_steps_record marks(1) [OF sends(4)] by blast
    have okc: "accounts_ok dc" by (rule award_store.steps_invar [OF c assms(1)])
    from sends(7) show ?thesis
    proof (cases rule: sent_cases)
      case (marked d1 r)
      then show ?thesis using assms(3) by blast
    next
      case (projected d1 r d2 st h g e pre)
      have "accounts_ok d2"
        using award_store.steps_invar [OF submit_records [OF projected(1) okc] okc] award_store.steps_invar [OF ledger_steps_record [OF projected(2)]]
        by blast
      then show ?thesis using main projected(3) unfolding project_sent_def by blast
    qed
  qed
qed

theorem award_success_is_recorded_witness:
  "\<exists>d' x a. processAwardFromCDR (sample_award_env (Some award_chain)) None (JObj sample_input) empty_db = (d', [''0x02''], x, True)
     \<and> a \<in> set (t_awards d') \<and> aw_dedup_key a = xr_dedupKey x \<and> aw_amount a = 300"
proof -
  obtain d1 x where a: "processAwardFromCDR (sample_award_env (Some award_chain)) None (JObj sample_input) empty_db
      = (d1, [''0x02''], x, True)" "xr_success x" "\<not> xr_duplicate x" "xr_amount x = Fin (of_nat 3)" using sample_award_run by metis
  have z: "xr_amount x \<noteq> Fin 0" by (simp add: a(4))
  from award_success_is_recorded [OF empty_accounts_ok a(1-3) z] a(1) show ?thesis
    by (auto simp: a(4) three_tokens simp del: of_nat_numeral)
qed

subsection \<open>A prepared movement\<close>

text \<open>
  C19: a prepared award is recorded without any proof: for a ledger row that is still \<open>submitting\<close> but has
  the hash of its signed transaction, as \<open>prepareLease\<close> leaves it before the send, the replay of the
  record records and completes the award whatever the chain answers, also that it has no such
  transaction. Only \<open>submitted\<close> and \<open>unknown\<close> rows are verified.
\<close>

theorem prepared_award_needs_no_proof:
  assumes "op_status r = SUBMITTING" and "nonempty (op_tx_hash r) = Some h" and "ae_saved env Save_Record" and "ae_saved env Save_Projected"
    and "recordAward (ae_resolve env) (clock env) (ae_user_ident env) (ae_award_ident env)
           (record_of (row_projection r) (replay_award (row_projection r) a) h s raw) d = Inr (row, d1)"
  shows "\<exists>x. projectAwardOperation env (row_projection r) a s raw mode (Some answer) False False None d
      = (snd (markProjected (clock env) (op_key r) d1), x, False) \<and> xr_success x \<and> xr_txHash x = Some h"
  using assms
  by (simp add: projectAwardOperation_def Let_def row_projection_def record_and_project_def saving_def)

definition prepared_row :: operation_row where
  "prepared_row = \<lparr>op_id = ''o1'', op_key = sample_key, op_type = AWARD, op_legacy_key = None, op_fingerprint = [], op_uid = ''DE-ABC-1'',
     op_wallet = ''0xB2'', op_amount = 300, op_session_id = Some ''s1'', op_provider_id = Some ''ABC'', op_charging_session = None,
     op_reservation = None, op_intent = None, op_status = SUBMITTING, op_outcome = Some OUT_UNKNOWN,
     op_tx_hash = Some (sample_hash CHR ''a''), op_tx_nonce = Some 7, op_tx_context = None, op_diagnostic = None, op_error = None,
     op_submitted_at = None, op_confirmed_at = None, op_projected_at = None, op_created = 0, op_updated = 0\<rparr>"

theorem prepared_award_needs_no_proof_witness:
  "\<exists>d' x row. projectAwardOperation (sample_award_env None) (row_projection prepared_row)
        \<lparr>wr_eligible = True, wr_amount = Fin 3, wr_uid = ''DE-ABC-1'', wr_dedup = ''s1-ABC'', wr_metadata = None\<rparr>
        accepted_session (JObj sample_input) MANAGED (Some (Some (Inl (evidence_failed EV_TRANSACTION_NOT_FOUND)))) False False None
        (empty_db\<lparr>t_operations := [prepared_row]\<rparr>) = (d', x, False)
     \<and> xr_success x \<and> t_awards d' = [row] \<and> aw_amount row = 300"
proof -
  define a where "a = \<lparr>wr_eligible = True, wr_amount = Fin 3, wr_uid = ''DE-ABC-1'', wr_dedup = ''s1-ABC'', wr_metadata = None\<rparr>"
  define env where "env = sample_award_env None"
  have h: "nonempty (op_tx_hash prepared_row) = Some (sample_hash CHR ''a'')"
    using sample_hash_text by (auto simp: prepared_row_def nonempty_def dest: is_tx_hash_nonempty)
  have st: "op_status prepared_row = SUBMITTING" "op_key prepared_row = sample_key" "op_amount prepared_row = 300"
    by (simp_all add: prepared_row_def)
  have sv: "ae_saved env p" for p by (simp add: env_def)
  define q where "q = record_of (row_projection prepared_row) (replay_award (row_projection prepared_row) a) (sample_hash CHR ''a'') accepted_session (JObj sample_input)"
  have q: "ar_intended q = Some ''0xB2''" "ar_txHash q = sample_hash CHR ''a''" "ar_amount q = units_number 300"
    using column_number [of 300] by (simp_all add: q_def record_of_def row_projection_def prepared_row_def replay_award_def Let_def)
  have d: "empty_db\<lparr>t_operations := [prepared_row]\<rparr> = empty_db\<lparr>t_operations := [prepared_row], t_leases := []\<rparr>" by (simp add: empty_db_def)
  obtain row d1 where r: "recordAward (ae_resolve env) (clock env) (ae_user_ident env) (ae_award_ident env) q
      (empty_db\<lparr>t_operations := [prepared_row]\<rparr>) = Inr (row, d1)" "t_operations d1 = [prepared_row]" "t_awards d1 = [row]" "aw_amount row = 300"
    using tables_recorded [OF q, of "ae_resolve env" "clock env" "ae_user_ident env" "ae_award_ident env" "[]" prepared_row]
    by (auto simp: d [symmetric])
  have "t_awards (snd (markProjected (clock env) sample_key d1)) = t_awards d1"
    using ledger_steps_awards marks(6) by blast
  moreover obtain x where "projectAwardOperation env (row_projection prepared_row) a accepted_session (JObj sample_input) MANAGED
      (Some (Some (Inl (evidence_failed EV_TRANSACTION_NOT_FOUND)))) False False None (empty_db\<lparr>t_operations := [prepared_row]\<rparr>)
      = (snd (markProjected (clock env) sample_key d1), x, False)" "xr_success x"
    using prepared_award_needs_no_proof [OF st(1) h sv sv r(1) [unfolded q_def]] st(2) by metis
  ultimately show ?thesis using r(3,4) unfolding a_def env_def by metis
qed

end
