(* ===== verification/RecoveryLaws.thy ===== *)
theory RecoveryLaws
  imports AwardFlowLaws
begin

text \<open>
  Replays and recoveries of the award executor: a known award does not depend on the policy in force,
  a recovery that demands fresh evidence succeeds only with it, and an award whose transaction is on
  the chain can be finished from the ledger alone.
\<close>

subsection \<open>Replays do not consult the policy\<close>

text \<open>Everything after the plan reads the surroundings without the rules.\<close>

lemma rules_unread_fields [simp]:
  "ae_recovery (env\<lparr>ae_rules := rules\<rparr>) = ae_recovery env" "ae_host_clock (env\<lparr>ae_rules := rules\<rparr>) = ae_host_clock env"
  "ae_managed (env\<lparr>ae_rules := rules\<rparr>) = ae_managed env" "ae_resolve (env\<lparr>ae_rules := rules\<rparr>) = ae_resolve env"
  "ae_lookup (env\<lparr>ae_rules := rules\<rparr>) = ae_lookup env" "ae_wallets (env\<lparr>ae_rules := rules\<rparr>) = ae_wallets env"
  "ae_token (env\<lparr>ae_rules := rules\<rparr>) = ae_token env" "ae_network (env\<lparr>ae_rules := rules\<rparr>) = ae_network env"
  "ae_address (env\<lparr>ae_rules := rules\<rparr>) = ae_address env" "ae_treasury (env\<lparr>ae_rules := rules\<rparr>) = ae_treasury env"
  "ae_chain (env\<lparr>ae_rules := rules\<rparr>) = ae_chain env" "ae_evidence (env\<lparr>ae_rules := rules\<rparr>) = ae_evidence env"
  "ae_encode (env\<lparr>ae_rules := rules\<rparr>) = ae_encode env" "ae_message (env\<lparr>ae_rules := rules\<rparr>) = ae_message env"
  "ae_saved (env\<lparr>ae_rules := rules\<rparr>) = ae_saved env" "ae_ident (env\<lparr>ae_rules := rules\<rparr>) = ae_ident env"
  "ae_user_ident (env\<lparr>ae_rules := rules\<rparr>) = ae_user_ident env" "ae_award_ident (env\<lparr>ae_rules := rules\<rparr>) = ae_award_ident env"
  by simp_all

lemma rules_unread [simp]:
  "clock (env\<lparr>ae_rules := rules\<rparr>) = clock env" "sha_of (env\<lparr>ae_rules := rules\<rparr>) = sha_of env"
  "saving (env\<lparr>ae_rules := rules\<rparr>) = saving env" "best_effort (env\<lparr>ae_rules := rules\<rparr>) = best_effort env"
  "asset_of (env\<lparr>ae_rules := rules\<rparr>) = asset_of env" "getUserWalletConfig (env\<lparr>ae_rules := rules\<rparr>) = getUserWalletConfig env"
  "award_evidence (env\<lparr>ae_rules := rules\<rparr>) = award_evidence env"
  unfolding fun_eq_iff clock_def sha_of_def saving_def best_effort_def asset_of_def getUserWalletConfig_def award_evidence_def
    rules_unread_fields
  by simp_all

lemma rules_unread_projection [simp]:
  "confirm_award (env\<lparr>ae_rules := rules\<rparr>) = confirm_award env"
  "project_hashless (env\<lparr>ae_rules := rules\<rparr>) = project_hashless env"
  "record_and_project (env\<lparr>ae_rules := rules\<rparr>) = record_and_project env"
  "wallet_mode_of (env\<lparr>ae_rules := rules\<rparr>) = wallet_mode_of env" "row_evidence (env\<lparr>ae_rules := rules\<rparr>) = row_evidence env"
  "submitAward (env\<lparr>ae_rules := rules\<rparr>) = submitAward env"
  unfolding fun_eq_iff confirm_award_def project_hashless_def record_and_project_def wallet_mode_of_def row_evidence_def
    submitAward_def submit_transfer_def rules_unread rules_unread_fields
  by simp_all

lemma rules_unread_project [simp]: "projectAwardOperation (env\<lparr>ae_rules := rules\<rparr>) = projectAwardOperation env"
  unfolding fun_eq_iff projectAwardOperation_def rules_unread_projection by simp

lemma rules_unread_send [simp]:
  "preflight_failed (env\<lparr>ae_rules := rules\<rparr>) = preflight_failed env" "outcome_unknown (env\<lparr>ae_rules := rules\<rparr>) = outcome_unknown env"
  "project_sent (env\<lparr>ae_rules := rules\<rparr>) = project_sent env" "zero_award (env\<lparr>ae_rules := rules\<rparr>) = zero_award env"
  "claimed_by_other (env\<lparr>ae_rules := rules\<rparr>) = claimed_by_other env" "award_claim (env\<lparr>ae_rules := rules\<rparr>) = award_claim env"
  "plan_existing (env\<lparr>ae_rules := rules\<rparr>) = plan_existing env"
  unfolding fun_eq_iff preflight_failed_def outcome_unknown_def project_sent_def zero_award_def claimed_by_other_def
    award_claim_def plan_existing_def rules_unread rules_unread_fields rules_unread_projection rules_unread_project
  by simp_all

lemma rules_unread_sent [simp]: "sent_award (env\<lparr>ae_rules := rules\<rparr>) = sent_award env"
  unfolding fun_eq_iff sent_award_def send_failed_def rules_unread rules_unread_fields rules_unread_projection rules_unread_send
  by simp

lemma rules_unread_execute [simp]: "execute_plan (env\<lparr>ae_rules := rules\<rparr>) = execute_plan env"
  unfolding fun_eq_iff execute_plan_def claimed_award_def rules_unread rules_unread_fields rules_unread_send rules_unread_sent
  by simp

text \<open>
   a known award is finished under the policy it was claimed with: once the ledger has the operation of
  a record, the result, the sends and the database of a run do not depend on the rules in force nor on
  the caller's deduplication check.
\<close>

theorem replay_ignores_policy:
  assumes "validateAndNormaliseCdr (re_intl (ae_recovery env)) (clock env) raw = Inr s"
    and "find_operation d (awardOperationKey (sha_of env) (providerId s) (sessionId s)) = Some r"
  shows "processAwardFromCDR (env\<lparr>ae_rules := rules\<rparr>) check raw d = processAwardFromCDR env check' raw d"
proof -
  have "award_plan_of (env\<lparr>ae_rules := rules\<rparr>) check raw d = award_plan_of env check' raw d"
    using assms by (simp add: award_plan_of_def Let_def)
  then show ?thesis unfolding processAwardFromCDR_def rules_unread_project rules_unread_execute by simp
qed

theorem replay_ignores_policy_witness:
  "\<forall>rules. processAwardFromCDR ((sample_award_env None)\<lparr>ae_rules := rules\<rparr>) (Some (\<lambda>_. None)) (JObj sample_input)
      (empty_db\<lparr>t_operations := [prepared_row]\<rparr>)
    = processAwardFromCDR (sample_award_env None) None (JObj sample_input) (empty_db\<lparr>t_operations := [prepared_row]\<rparr>)"
  by (rule allI, rule replay_ignores_policy [where s = accepted_session and r = prepared_row])
    (use sample_record_session in \<open>simp_all add: find_operation_def prepared_row_def awardOperationKey_def sample_key_def\<close>)

subsection \<open>Recovery with fresh evidence\<close>

lemma fresh_evidence_Inr:
  "fresh_evidence env r a verify d = Inr e \<Longrightarrow> \<exists>pf. e = Inr pf \<and> verify = Some (Some (Inr pf))"
  by (auto simp: fresh_evidence_def Let_def split: option.splits sum.splits if_splits)

lemma fresh_evidence_Inl: "fresh_evidence env r a verify d = Inl (d', x) \<Longrightarrow> \<not> xr_success x"
  by (auto simp: fresh_evidence_def Let_def split: option.splits sum.splits if_splits)

subsection \<open>Finishing a sent award\<close>

lemma sent_award_recovers:
  assumes "find_operation d k = Some r" and "op_type r = AWARD" and "op_status r \<in> {SUBMITTED, UNKNOWN_STATUS}"
    and "op_tx_hash r = Some h" and "canonicalTransactionHash (JStr h) \<noteq> None" and "wallets_ok d"
    and "recover_input (ae_recovery env) r = Inr i" and "asset_of env = Some asset"
    and "assetContextMismatch (op_intent r) asset = None"
    and "award_evidence env asset (op_wallet r) (numeric2_text (op_amount r)) h = Some (Inr pf)"
    and "ae_lookup env" and "\<And>p. ae_saved env p"
    and "recordAward (ae_resolve env) (clock env) (ae_user_ident env) (ae_award_ident env)
           (record_of (row_projection r) (replay_award (row_projection r) (recovered_view r (ri_session i))) h (ri_session i) (ri_raw i))
           (snd (markConfirmed (clock env) (op_key r) None d)) = Inr (row, d1)"
  shows "\<exists>d' x n. recoverAwardOperation env k fresh d = (d', x) \<and> xr_success x \<and> \<not> xr_duplicate x \<and> xr_txHash x = Some h
    \<and> t_awards d' = t_awards d1 \<and> find_operation d' k = Some n \<and> op_status n = PROJECTED"
proof -
  define a where "a = recovered_view r (ri_session i)"
  define q where "q = row_projection r"
  have hn: "nonempty (Some h) = Some h" using assms(5) by (cases h) (auto simp: nonempty_def canonicalTransactionHash_def is_tx_hash_def Let_def js_trim_def)
  have k: "op_key r = k" using row_at_Some [of op_key k "t_operations d" r] assms(1) by (simp add: find_operation_def)
  have q: "pj_status q = op_status r" "pj_tx_hash q = Some h" "pj_key q = k"
    by (simp_all add: q_def row_projection_def assms(4) k)
  define d0 where "d0 = snd (markConfirmed (clock env) k None d)"
  have rv: "row_evidence env asset r = Some (Some (Inr pf))"
    using asset_needs_provider [OF assms(8)] by (simp add: row_evidence_def assms(4,10) hn)
  have c: "confirm_award env q v h (Some (Inr pf)) d = Inr d0" for v
    using assms(12) by (simp add: confirm_award_def Let_def q d0_def)
  define v where "v = replay_award q a"
  have rec: "record_and_project env q v h (ri_session i) (ri_raw i) ap d0
      = (snd (markProjected (clock env) k d1), completed_award v True (wr_amount v) (Some h) (Some True) False, ap)" for ap
    using assms(12,13) by (simp add: record_and_project_def saving_def k d0_def a_def q_def [symmetric] v_def q)
  have run: "projectAwardOperation env q a (ri_session i) (ri_raw i) mode (Some (Some (Inr pf))) False fr pre d
      = (snd (markProjected (clock env) k d1), completed_award v True (wr_amount v) (Some h) (Some True) False, False)"
    if "pre = None \<or> pre = Some (Inr pf)" for mode fr pre
  proof -
    have e: "(case pre of None \<Rightarrow> Some (Inr pf) | Some e \<Rightarrow> Some e) = Some (Inr pf)" using that by auto
    show ?thesis
      unfolding projectAwardOperation_def Let_def v_def [symmetric] q(2) hn option.case e c sum.case rec
      using assms(3) by (auto simp: q)
  qed
  have "fresh_evidence env r a (Some (Some (Inr pf))) d = Inr (Inr pf)" by (simp add: fresh_evidence_def)
  then have "recover_row env fresh r i d
      = (snd (markProjected (clock env) k d1), completed_award v True (wr_amount v) (Some h) (Some True) False)"
    using run by (simp add: recover_row_def Let_def a_def [symmetric] q_def [symmetric] assms(8,9) rv)
  then have "recoverAwardOperation env k fresh d
      = (snd (markProjected (clock env) k d1), completed_award v True (wr_amount v) (Some h) (Some True) False)"
    using assms(1-5,7,11) by (auto simp: recoverAwardOperation_def)
  moreover obtain m where m: "find_operation d0 k = Some m" "op_status m = CONFIRMED" "op_tx_hash m = Some h"
    using confirmed_row [OF assms(1), of "clock env" None] assms(3,4) by (auto simp: d0_def)
  have "outside_ledger d0 = outside_ledger d" unfolding d0_def using ledger_step_outside [OF step_confirmed] .
  then have "wallets_ok d0" using assms(6) frames_keep(2) by (auto simp: outside_defs)
  then have "t_operations d1 = t_operations d0" using record_keeps_operations assms(13) by (simp add: d0_def k)
  then obtain n where "find_operation (snd (markProjected (clock env) k d1)) k = Some n" "op_status n = PROJECTED"
    using projected_row [of d1 k m] m hn by (auto simp: find_operation_def)
  moreover have "t_awards (snd (markProjected (clock env) k d1)) = t_awards d1" using ledger_steps_awards marks(6) by blast
  ultimately show ?thesis by auto
qed

definition sent_row :: "award_snapshot \<Rightarrow> operation_row" where
  "sent_row a = prepared_row\<lparr>op_status := SUBMITTED, op_fingerprint := replicate 64 CHR ''a'',
     op_intent := Some [(''assetContext'', asset_json sample_asset), (RECOVERY_SNAPSHOT_KEY, snapshot_json a)]\<rparr>"

lemma sample_recover_input:
  "\<exists>a. recover_input (ae_recovery (sample_award_env e)) (sent_row a) = Inr \<lparr>ri_session = accepted_session, ri_raw = JObj sample_input\<rparr>"
proof -
  define env where "env = ae_recovery (sample_award_env e)"
  have env: "re_sha256 env = (\<lambda>_. replicate 64 CHR ''a'')" "re_intl env = sample_intl" "re_date env = re_date sample_recovery"
    by (simp_all add: env_def) (simp add: sample_award_env_def sample_recovery_def)
  have fp: "awardIntentFingerprint (re_sha256 env) s n w = replicate 64 CHR ''a''" "fingerprint_text (re_sha256 env t)" for s n w t
    using sample_fingerprints by (simp_all add: env awardIntentFingerprint_def tokenIntentFingerprint_def sample_recovery_def)
  have s: "startTime accepted_session = 1767348000000" "endTime accepted_session = 1767351600000" "timeZone accepted_session = None"
    by (simp_all add: accepted_session_def)
  have copy: "json_copy (JObj sample_input) = JObj sample_input" by (simp add: sample_input_def is_finite_def)
  have acc: "validateAndNormaliseCdr (re_intl env) 0 (JObj sample_input) = Inr accepted_session" by (simp add: sample_record_session)
  obtain ob where "serialiseNormalisedSession accepted_session = Inr ob" using accepted_shape(9) [OF acc] by blast
  then obtain a where a: "createAwardRecoverySnapshot (re_sha256 env) accepted_session (Fin 3) ''0xB2'' (Some (JObj sample_input)) = Inr a"
    by (auto simp: createAwardRecoverySnapshot_def snapshot_check_def guard_def is_record_def cloneSnapshotValue_def)
  have f: "field [(''assetContext'', asset_json sample_asset), (RECOVERY_SNAPSHOT_KEY, snapshot_json a)] RECOVERY_SNAPSHOT_KEY = snapshot_json a"
    by (simp add: RECOVERY_SNAPSHOT_KEY_def)
  have zone: "nonempty (timeZone accepted_session) = timeZone accepted_session" by (simp add: s nonempty_def)
  have dates: "re_date env (iso_text (startTime accepted_session)) = Some (startTime accepted_session)"
    "re_date env (iso_text (endTime accepted_session)) = Some (endTime accepted_session)"
    using sample_dates_read by (simp_all add: env s)
  note parse = snapshot_parses [OF acc copy zone a f fp(2) dates]
  have row: "op_uid (sent_row a) = uid accepted_session" "op_wallet (sent_row a) = ''0xB2''" "op_amount (sent_row a) < 10 ^ 13"
    "op_fingerprint (sent_row a) = awardIntentFingerprint (re_sha256 env) accepted_session (Fin 3) (op_wallet (sent_row a))"
    "op_key (sent_row a) = awardOperationKey (re_sha256 env) p t"
    "op_intent (sent_row a) = Some [(''assetContext'', asset_json sample_asset), (RECOVERY_SNAPSHOT_KEY, snapshot_json a)]" for p t
    using fp(1) by (simp_all add: sent_row_def prepared_row_def accepted_session_def awardOperationKey_def env sample_key_def)
  have "validateStoredRecoverySnapshot env (sent_row a) a True = Inr (accepted_session, Some (JObj sample_input))"
    using snapshot_validates [OF acc parse(2) _ parse(5,4) row(1,4,3), of True] parse(3) by (simp add: fp)
  then have "recover_input env (sent_row a) = Inr \<lparr>ri_session = accepted_session, ri_raw = JObj sample_input\<rparr>"
    using parse(1) row(5) [of "providerId accepted_session" "sessionId accepted_session"]
    by (simp add: recover_input_def row(6) of_option_def snapshot_check_def guard_def)
  then show ?thesis by (auto simp: env_def)
qed

text \<open>The sample meets every premise of a recovery.\<close>

definition sample_recovery_of :: "operation_row \<Rightarrow> recovery_input \<Rightarrow> evidence_proof \<Rightarrow> award_row \<Rightarrow> db \<Rightarrow> bool" where
  "sample_recovery_of r i pf row d1 \<longleftrightarrow>
     (let d = empty_db\<lparr>t_operations := [r]\<rparr>; h = sample_hash CHR ''a''; env = sample_award_env (Some award_chain) in
      find_operation d sample_key = Some r \<and> op_type r = AWARD \<and> op_status r = SUBMITTED \<and> op_tx_hash r = Some h
      \<and> canonicalTransactionHash (JStr h) \<noteq> None \<and> wallets_ok d \<and> recover_input (ae_recovery env) r = Inr i
      \<and> assetContextMismatch (op_intent r) sample_asset = None
      \<and> award_evidence env sample_asset (op_wallet r) (numeric2_text (op_amount r)) h = Some (Inr pf)
      \<and> recordAward (ae_resolve env) (clock env) (ae_user_ident env) (ae_award_ident env)
          (record_of (row_projection r) (replay_award (row_projection r) (recovered_view r (ri_session i))) h (ri_session i) (ri_raw i))
          (snd (markConfirmed (clock env) (op_key r) None d)) = Inr (row, d1)
      \<and> t_awards d1 = [row] \<and> aw_amount row = 300)"

lemma sample_recovery: "\<exists>r i pf row d1. sample_recovery_of r i pf row d1"
proof -
  define env where "env = sample_award_env (Some award_chain)"
  obtain a where i: "recover_input (ae_recovery env) (sent_row a) = Inr \<lparr>ri_session = accepted_session, ri_raw = JObj sample_input\<rparr>"
    using sample_recover_input [of "Some award_chain"] by (auto simp: env_def)
  define r where "r = sent_row a"
  define d where "d = empty_db\<lparr>t_operations := [r]\<rparr>"
  have r: "op_type r = AWARD" "op_status r = SUBMITTED" "op_tx_hash r = Some (sample_hash CHR ''a'')" "op_wallet r = ''0xB2''"
    "op_amount r = 300" "op_key r = sample_key" by (simp_all add: r_def sent_row_def prepared_row_def)
  have f: "find_operation d sample_key = Some r" by (simp add: d_def find_operation_def r)
  have st: "op_status r \<in> {SUBMITTED, UNKNOWN_STATUS}" by (simp add: r)
  have h: "canonicalTransactionHash (JStr (sample_hash CHR ''a'')) \<noteq> None" by code_simp
  have w: "wallets_ok d" using empty_service_ok by (simp add: service_ok_def d_def wallets_ok_def)
  have m: "assetContextMismatch (op_intent r) sample_asset = None"
    using sample_asset_kept [of "[]" "[(RECOVERY_SNAPSHOT_KEY, snapshot_json a)]"] by (simp add: r_def sent_row_def)
  obtain pf where ev: "award_evidence env sample_asset (op_wallet r) (numeric2_text (op_amount r)) (sample_hash CHR ''a'') = Some (Inr pf)"
    using award_evidence_valid by (auto simp: env_def r)
  have e: "asset_of env = Some sample_asset" "ae_lookup env" "ae_saved env p" "clock env = 9" for p
    using sample_asset_of by (simp_all add: env_def)
  define q where "q = record_of (row_projection r) (replay_award (row_projection r) (recovered_view r accepted_session))
    (sample_hash CHR ''a'') accepted_session (JObj sample_input)"
  have q: "ar_intended q = Some ''0xB2''" "ar_txHash q = sample_hash CHR ''a''" "ar_amount q = units_number 300"
    using column_number [of 300] by (simp_all add: q_def record_of_def row_projection_def r replay_award_def Let_def)
  have c: "\<exists>m. snd (markConfirmed 9 sample_key None d) = empty_db\<lparr>t_operations := [m], t_leases := []\<rparr>"
    by (intro exI [of _ "r\<lparr>op_status := CONFIRMED, op_outcome := Some OUT_CONFIRMED, op_error := None, op_confirmed_at := Some 9,
          op_updated := 9\<rparr>"])
      (simp add: d_def markConfirmed_def mark_operation_def returning_where_def r update_operations_def update_where_def nonempty_def empty_db_def)
  then obtain row d1 where rec: "recordAward (ae_resolve env) (clock env) (ae_user_ident env) (ae_award_ident env) q
      (snd (markConfirmed (clock env) (op_key r) None d)) = Inr (row, d1)" "t_awards d1 = [row]" "aw_amount row = 300"
    using tables_recorded [OF q] unfolding r(6) e(4) by metis
  have "sample_recovery_of r \<lparr>ri_session = accepted_session, ri_raw = JObj sample_input\<rparr> pf row d1"
    unfolding sample_recovery_of_def Let_def
    using f r(1-3) h w i [folded r_def] m ev rec unfolding d_def [symmetric] env_def [symmetric] by (simp add: q_def)
  then show ?thesis by blast
qed

text \<open>
  C25: a sent award is never lost: when the ledger has an award as submitted or unknown with its hash, the
  stored snapshot recovers, the asset context is the original one, the chain proves the transfer and the
  writes go through, then a recovery by the operation key alone, with or without the demand for fresh
  evidence, records the award and ends with the operation completed.
\<close>

theorem sent_award_can_be_recovered:
  assumes "find_operation d k = Some r" and "op_type r = AWARD" and "op_status r \<in> {SUBMITTED, UNKNOWN_STATUS}"
    and "op_tx_hash r = Some h" and "canonicalTransactionHash (JStr h) \<noteq> None" and "wallets_ok d"
    and "recover_input (ae_recovery env) r = Inr i" and "asset_of env = Some asset"
    and "assetContextMismatch (op_intent r) asset = None"
    and "award_evidence env asset (op_wallet r) (numeric2_text (op_amount r)) h = Some (Inr pf)"
    and "ae_lookup env" and "\<And>p. ae_saved env p"
    and "recordAward (ae_resolve env) (clock env) (ae_user_ident env) (ae_award_ident env)
           (record_of (row_projection r) (replay_award (row_projection r) (recovered_view r (ri_session i))) h (ri_session i) (ri_raw i))
           (snd (markConfirmed (clock env) (op_key r) None d)) = Inr (row, d1)"
  shows "\<exists>d' x n. recoverAwardOperation env k fresh d = (d', x) \<and> xr_success x \<and> \<not> xr_duplicate x \<and> xr_txHash x = Some h
    \<and> t_awards d' = t_awards d1 \<and> find_operation d' k = Some n \<and> op_status n = PROJECTED"
  using assms by (rule sent_award_recovers)

theorem sent_award_can_be_recovered_witness:
  "\<exists>r d' x n row. recoverAwardOperation (sample_award_env (Some award_chain)) sample_key True (empty_db\<lparr>t_operations := [r]\<rparr>) = (d', x)
    \<and> op_status r = SUBMITTED \<and> xr_success x \<and> t_awards d' = [row] \<and> aw_amount row = 300
    \<and> find_operation d' sample_key = Some n \<and> op_status n = PROJECTED"
proof -
  define env where "env = sample_award_env (Some award_chain)"
  have e: "asset_of env = Some sample_asset" "ae_lookup env" "ae_saved env p" for p
    using sample_asset_of by (simp_all add: env_def)
  obtain r i pf row d1 where "sample_recovery_of r i pf row d1" using sample_recovery by blast
  note p = this [unfolded sample_recovery_of_def Let_def, folded env_def]
  have run: "\<exists>d' x n. recoverAwardOperation env sample_key True (empty_db\<lparr>t_operations := [r]\<rparr>) = (d', x) \<and> xr_success x \<and> \<not> xr_duplicate x
      \<and> xr_txHash x = Some (sample_hash CHR ''a'') \<and> t_awards d' = t_awards d1 \<and> find_operation d' sample_key = Some n \<and> op_status n = PROJECTED"
    by (rule sent_award_can_be_recovered [where asset = sample_asset and pf = pf and i = i and row = row and r = r]) (use p e in simp_all)
  then show ?thesis using p unfolding env_def by metis
qed

text \<open>
   an operator's recovery moves nothing on trust: when a recovery that demands fresh evidence
  succeeds and did not merely find the award completed, the operation has a saved canonical hash and
  the chain proved, in this run, the transfer of the saved amount to the saved wallet.
\<close>

theorem fresh_recovery_needs_evidence:
  assumes "recoverAwardOperation env k True d = (d', x)" and "xr_success x" and "\<not> xr_duplicate x"
  shows "\<exists>r h asset pf. find_operation d k = Some r \<and> op_tx_hash r = Some h \<and> canonicalTransactionHash (JStr h) \<noteq> None
    \<and> asset_of env = Some asset \<and> assetContextMismatch (op_intent r) asset = None
    \<and> award_evidence env asset (op_wallet r) (numeric2_text (op_amount r)) h = Some (Inr pf)"
proof -
  obtain r where r: "find_operation d k = Some r"
    using assms(1,2) by (auto simp: recoverAwardOperation_def failedExecutionResult_def split: if_splits option.splits)
  have np: "op_status r \<noteq> PROJECTED"
  proof
    assume "op_status r = PROJECTED"
    then show False using assms r
      by (auto simp: recoverAwardOperation_def Let_def row_blocked_def failedExecutionResult_def split: if_splits option.splits)
  qed
  obtain t where t: "Option.bind (op_tx_hash r) (\<lambda>h. canonicalTransactionHash (JStr h)) = Some t"
    using assms(1,2) r np
    by (auto simp: recoverAwardOperation_def Let_def row_blocked_def failedExecutionResult_def split: if_splits option.splits)
  then obtain h where h: "op_tx_hash r = Some h" "canonicalTransactionHash (JStr h) = Some t" by (cases "op_tx_hash r") auto
  obtain i where i: "recover_row env True r i d = (d', x)"
    using assms(1,2) r np t
    by (auto simp: recoverAwardOperation_def Let_def row_blocked_def failedExecutionResult_def split: if_splits sum.splits)
  obtain asset where asset: "asset_of env = Some asset"
    using i assms(2) by (auto simp: recover_row_def Let_def split: option.splits)
  have m: "assetContextMismatch (op_intent r) asset = None"
    using i assms(2) asset by (auto simp: recover_row_def Let_def split: option.splits)
  obtain e where e: "fresh_evidence env r (recovered_view r (ri_session i)) (row_evidence env asset r) d = Inr e"
  proof (cases "fresh_evidence env r (recovered_view r (ri_session i)) (row_evidence env asset r) d")
    case (Inl y)
    then have "y = (d', x)" using i asset m by (simp add: recover_row_def Let_def)
    then show thesis using Inl fresh_evidence_Inl assms(2) by blast
  qed (rule that)
  obtain pf where pf: "row_evidence env asset r = Some (Some (Inr pf))" using fresh_evidence_Inr [OF e] by blast
  have n: "nonempty (op_tx_hash r) = Some h" using pf h(1) by (auto simp: row_evidence_def nonempty_def split: if_splits)
  have "award_evidence env asset (op_wallet r) (numeric2_text (op_amount r)) h = Some (Inr pf)"
    using pf n by (simp add: row_evidence_def split: if_splits)
  then show ?thesis using r h asset m by blast
qed

theorem fresh_recovery_needs_evidence_witness:
  "\<exists>r d' x. recoverAwardOperation (sample_award_env (Some award_chain)) sample_key True (empty_db\<lparr>t_operations := [r]\<rparr>) = (d', x)
    \<and> xr_success x \<and> \<not> xr_duplicate x
    \<and> (\<exists>h asset pf. op_tx_hash r = Some h \<and> asset_of (sample_award_env (Some award_chain)) = Some asset
       \<and> award_evidence (sample_award_env (Some award_chain)) asset (op_wallet r) (numeric2_text (op_amount r)) h = Some (Inr pf))"
proof -
  define env where "env = sample_award_env (Some award_chain)"
  have e: "asset_of env = Some sample_asset" "ae_lookup env" "ae_saved env p" for p
    using sample_asset_of by (simp_all add: env_def)
  obtain r i pf row d1 where "sample_recovery_of r i pf row d1" using sample_recovery by blast
  note p = this [unfolded sample_recovery_of_def Let_def, folded env_def]
  have run: "\<exists>d' x n. recoverAwardOperation env sample_key True (empty_db\<lparr>t_operations := [r]\<rparr>) = (d', x) \<and> xr_success x \<and> \<not> xr_duplicate x
      \<and> xr_txHash x = Some (sample_hash CHR ''a'') \<and> t_awards d' = t_awards d1 \<and> find_operation d' sample_key = Some n \<and> op_status n = PROJECTED"
    by (rule sent_award_recovers [where asset = sample_asset and pf = pf and i = i and row = row and r = r]) (use p e in simp_all)
  from run obtain d' x where r: "recoverAwardOperation env sample_key True (empty_db\<lparr>t_operations := [r]\<rparr>) = (d', x)" "xr_success x" "\<not> xr_duplicate x"
    by blast
  from fresh_recovery_needs_evidence [OF r] p show ?thesis using r unfolding env_def by fastforce
qed

end
