(* ===== verification/SpendExecutor.thy ===== *)
theory SpendExecutor
  imports AwardExecutor
begin

text \<open>
  The executor of \<open>src/spendExecutor.ts\<close>: from a spend request to a claimed, checked, sent, verified and
  recorded transfer of tokens from a driver's wallet to the treasury, and the recovery of a spend from
  its ledger row. The surroundings it shares with the award executor (chain, evidence, token
  configuration, clock, durable writes) are its field \<open>se_base\<close>; the others are what the readonly token
  calls answer. A run gives the database it leaves, the raw transactions it sent and its result;
  flags the code leaves undefined are false.
\<close>

subsection \<open>Requests and results\<close>

record spend_request =
  sq_user :: string
  sq_amount :: js_number
  sq_session :: "string option"
  sq_uid :: "string option"
  sq_provider :: "string option"
  sq_operationKey :: "string option"
  sq_idempotencyKey :: "string option"
  sq_reservation :: "string option"
  sq_settlement :: "(string \<times> js_number) option"

datatype spend_mismatch =
    Not_Spend_Intent | Owner_Differs | Wallet_Differs | Amount_Inexact | Amount_Differs | Session_Differs
  | Provider_Differs | Reservation_Differs | Fingerprint_Differs

datatype spend_problem =
    Spend_Invalid | Operation_Key_Invalid | Idempotency_Key_Invalid | Idempotency_Key_Required
  | Settlement_Reservation_Mismatch | Settlement_Context_Differs db_error | Settlement_Context_Unsaved db_error
  | Spend_Intent_Mismatch spend_mismatch | Spend_Asset_Unverified | Spend_Asset_Unavailable
  | Spend_Asset_Changed context_mismatch | Spend_Claim_Refused db_error | Spend_Preflight_Failed string
  | Spend_Preparation_Failed string | Spend_Outcome_Unknown string | Spend_Hash_Unsaved
  | Spend_Saved_As_Failed | Spend_Saved_For_Review | Spend_Submission_Unresolved | Spend_Awaiting_Confirmation
  | Spend_Confirmation_Pending | Spend_Evidence_Rejected evidence_code | Spend_Evidence_Review evidence_code
  | Spend_Failure_Unsaved | Spend_Confirmation_Unsaved | Spend_Projection_Pending | Spend_Completion_Pending
  | Recovery_Key_Invalid | Recovery_Lookup_Unavailable | Spend_Missing | Not_A_Spend | Recovery_Amount_Invalid
  | Recovery_Hash_Required | Recovery_Fingerprint_Missing | Recovery_Intent_Invalid spend_mismatch
  | Recovery_Already_Failed | Recovery_Asset_Unavailable | Recovery_Asset_Changed context_mismatch
  | Recovery_Chain_Unavailable | Recovery_Evidence_Blocked evidence_code | Recovery_Confirmation_Unsaved

record spend_result =
  sx_success :: bool
  sx_amount :: js_number
  sx_user :: string
  sx_key :: "string option"
  sx_txHash :: "string option"
  sx_dbStored :: "bool option"
  sx_error :: "spend_problem option"
  sx_status :: "operation_status option"
  sx_pending :: bool
  sx_requiresReview :: bool
  sx_preflightFailure :: bool
  sx_approvalEligible :: bool
  sx_outcome :: "movement_outcome option"
  sx_retryable :: bool
  sx_diagnostic :: "diagnostic option"
  sx_duplicate :: bool

definition refused_spend :: "js_number \<Rightarrow> string \<Rightarrow> string option \<Rightarrow> spend_problem \<Rightarrow> spend_result" where
  "refused_spend amount user key e = \<lparr>sx_success = False, sx_amount = amount, sx_user = user, sx_key = key,
     sx_txHash = None, sx_dbStored = None, sx_error = Some e, sx_status = None, sx_pending = False,
     sx_requiresReview = False, sx_preflightFailure = False, sx_approvalEligible = False, sx_outcome = None,
     sx_retryable = False, sx_diagnostic = None, sx_duplicate = False\<rparr>"

definition completed_spend ::
    "js_number \<Rightarrow> string \<Rightarrow> string \<Rightarrow> string option \<Rightarrow> bool \<Rightarrow> movement_outcome \<Rightarrow> spend_result" where
  "completed_spend amount user key txHash duplicate outcome = \<lparr>sx_success = True, sx_amount = amount, sx_user = user,
     sx_key = Some key, sx_txHash = txHash, sx_dbStored = Some True, sx_error = None, sx_status = Some PROJECTED,
     sx_pending = False, sx_requiresReview = False, sx_preflightFailure = False, sx_approvalEligible = False,
     sx_outcome = Some outcome, sx_retryable = False, sx_diagnostic = None, sx_duplicate = duplicate\<rparr>"

definition pendingSpendResult ::
    "spend_request \<Rightarrow> operation_status \<Rightarrow> spend_problem \<Rightarrow> string option \<Rightarrow> bool \<Rightarrow> movement_outcome option
     \<Rightarrow> diagnostic option \<Rightarrow> spend_result" where
  "pendingSpendResult q status e txHash review outcome dg =
     (refused_spend (sq_amount q) (sq_user q) (sq_operationKey q) e)\<lparr>sx_txHash := txHash, sx_status := Some status,
       sx_pending := True, sx_requiresReview := review, sx_outcome := outcome, sx_diagnostic := dg\<rparr>"

definition preflightFailureResult ::
    "spend_request \<Rightarrow> string \<Rightarrow> spend_problem \<Rightarrow> bool \<Rightarrow> movement_outcome \<Rightarrow> diagnostic option \<Rightarrow> spend_result" where
  "preflightFailureResult q key e approvalEligible outcome dg =
     (let retryable = (case dg of Some g \<Rightarrow> dg_retryable g | None \<Rightarrow> \<not> approvalEligible) in
      (refused_spend (sq_amount q) (sq_user q) (Some key) e)\<lparr>sx_status := Some FAILED, sx_pending := retryable,
        sx_preflightFailure := True, sx_approvalEligible := approvalEligible, sx_outcome := Some outcome,
        sx_retryable := retryable, sx_diagnostic := dg\<rparr>)"

definition prepareSpend :: "spend_request \<Rightarrow> bool" where
  "prepareSpend q = (case canonicalTokenAmount (JNum (sq_amount q)) of
     None \<Rightarrow> False | Some a \<Rightarrow> 0 < units a \<and> sq_user q \<noteq> [])"

definition isNonEmptyOperationKey :: "string \<Rightarrow> bool" where
  "isNonEmptyOperationKey k \<longleftrightarrow> js_trim k \<noteq> []"

subsection \<open>Surroundings\<close>

text \<open>An error thrown by a readonly call: its message, its \<open>code\<close> when that is a text, its \<open>data\<close>.\<close>

datatype readonly_error = Plain_Error string | Coded_Error (error_text: string) "string option" jsv

record spend_env =
  se_base :: award_env
  se_allowance :: "string \<Rightarrow> string \<Rightarrow> string \<Rightarrow> string + int"
  se_balance :: "string \<Rightarrow> string \<Rightarrow> string + int"
  se_static_call :: "(string \<Rightarrow> string \<Rightarrow> int \<Rightarrow> readonly_error option) option"
  se_estimate_gas :: "(string \<Rightarrow> string \<Rightarrow> int \<Rightarrow> readonly_error option) option"
  se_encode :: "string \<Rightarrow> string \<Rightarrow> int \<Rightarrow> string"
  se_settlement_saved :: bool
  se_spend_ident :: string

definition spend_clock :: "spend_env \<Rightarrow> int" where
  "spend_clock env = clock (se_base env)"

definition treasury_of_env :: "spend_env \<Rightarrow> string" where
  "treasury_of_env env = (case ae_treasury (se_base env) of None \<Rightarrow> [] | Some t \<Rightarrow> t)"

subsection \<open>The intent of a saved spend\<close>

definition spend_intent_of :: "string \<Rightarrow> string \<Rightarrow> js_number \<Rightarrow> string option \<Rightarrow> string option \<Rightarrow> string option \<Rightarrow> spend_intent" where
  "spend_intent_of u wallet amount session provider reservation =
     \<lparr>si_uid = u, si_wallet = wallet, si_amount = amount, si_sessionId = session, si_providerId = provider,
      si_reservationId = reservation\<rparr>"

text \<open>A request may leave session, provider and reservation open; what it names must be what is saved.\<close>

definition named_or_saved :: "string option \<Rightarrow> string option \<Rightarrow> string option" where
  "named_or_saved requested saved = (case requested of None \<Rightarrow> nonempty saved | Some t \<Rightarrow> Some t)"

definition names_other :: "string option \<Rightarrow> string option \<Rightarrow> bool" where
  "names_other requested saved \<longleftrightarrow> requested \<noteq> None \<and> nonempty saved \<noteq> nonempty requested"

definition spendRecoveryIntentMismatch ::
    "(string \<Rightarrow> string) \<Rightarrow> operation_row \<Rightarrow> spend_request \<Rightarrow> string \<Rightarrow> spend_mismatch option" where
  "spendRecoveryIntentMismatch sha256 r q u =
     (if op_type r \<noteq> SPEND then Some Not_Spend_Intent
      else if op_uid r \<noteq> [] \<and> op_uid r \<noteq> u then Some Owner_Differs
      else if op_wallet r \<noteq> [] \<and> sq_user q \<noteq> [] \<and> \<not> same_text (op_wallet r) (sq_user q) then Some Wallet_Differs
      else (case (canonicalTokenAmount (JStr (numeric2_text (op_amount r))), canonicalTokenAmount (JNum (sq_amount q))) of
          (Some saved, Some requested) \<Rightarrow>
            if units saved \<noteq> units requested then Some Amount_Differs
            else if names_other (sq_session q) (op_session_id r) then Some Session_Differs
            else if names_other (sq_provider q) (op_provider_id r) then Some Provider_Differs
            else if names_other (sq_reservation q) (op_reservation r) then Some Reservation_Differs
            else if op_fingerprint r \<noteq> [] \<and> spendIntentFingerprint sha256
                (spend_intent_of u (if op_wallet r = [] then sq_user q else op_wallet r) (amount_value requested)
                   (named_or_saved (sq_session q) (op_session_id r)) (named_or_saved (sq_provider q) (op_provider_id r))
                   (named_or_saved (sq_reservation q) (op_reservation r))) \<noteq> Inr (op_fingerprint r)
            then Some Fingerprint_Differs
            else None
        | _ \<Rightarrow> Some Amount_Inexact))"

subsection \<open>Sending\<close>

definition submitSpend ::
    "spend_env \<Rightarrow> string \<Rightarrow> string \<Rightarrow> js_number \<Rightarrow> string \<Rightarrow> string \<Rightarrow> string \<Rightarrow> lease_target \<Rightarrow> db
     \<Rightarrow> db \<times> string list \<times> (diagnostic option + reliability_result)" where
  "submitSpend env user treasury amount key chain contract target d =
     (case canonicalTokenAmount (JNum amount) of
        None \<Rightarrow> (d, [], Inl None)
      | Some a \<Rightarrow>
          if units a = 0 then (d, [], Inl None)
          else (case prepareAndBroadcastTransaction (ae_chain (se_base env)) (spend_clock env)
                   \<lparr>rq_operationKey = key, rq_targetOperationKey = None, rq_targetType = target,
                    rq_chainId = chain, rq_to = contract,
                    rq_data = Some (se_encode env user treasury (token_wei (units a))), rq_value = Some ''0'',
                    rq_accessList = None\<rparr> d of
                 (d', sent, Inl g) \<Rightarrow> (d', sent, Inl (Some g))
               | (d', sent, Inr r) \<Rightarrow> (d', sent, Inr r)))"

definition executeSpend ::
    "spend_env \<Rightarrow> (string \<Rightarrow> string + int option) \<Rightarrow> string \<Rightarrow> string \<Rightarrow> js_number \<Rightarrow> db \<Rightarrow> db \<times> string list \<times> string thrown" where
  "executeSpend env receipt user treasury amount d =
     (let base = se_base env in
      if \<not> ch_provider (ae_chain base) then (d, [], Inl ''PROVIDER_REQUIRED'')
      else case ae_network base of
        Inl e \<Rightarrow> (d, [], Inl e)
      | Inr chain \<Rightarrow>
          (case submitSpend env user treasury amount
              (''compat:spend:'' @ js_lower user @ '':'' @ num_text amount @ '':'' @ bigint_string (spend_clock env))
              (nat_text chain)
              (or_text (env_token_contract (ae_token base)) ''0x605871D30DC278a036F09e2ace771df8a224624B'')
              TARGET_STANDALONE d of
             (d', sent, Inl g) \<Rightarrow>
               (d', sent, Inl (case g of None \<Rightarrow> ''UNSUPPORTED_TOKEN_PRECISION'' | Some dg \<Rightarrow> dg_errorCode dg))
           | (d', sent, Inr tx) \<Rightarrow>
               (d', sent, case receipt (rr_txHash tx) of
                   Inl e \<Rightarrow> Inl e
                 | Inr st \<Rightarrow> if st = Some 1 then Inr (rr_txHash tx) else Inl ''Spend transaction is not confirmed'')))"

subsection \<open>Before the send\<close>

definition unavailable_codes :: "string list" where
  "unavailable_codes = [''NETWORK_ERROR'', ''SERVER_ERROR'', ''TIMEOUT'', ''TIMEOUT_ERROR'', ''ETIMEDOUT'', ''ECONNRESET'',
     ''ECONNREFUSED'', ''ENETUNREACH'', ''INSUFFICIENT_FUNDS'', ''BAD_DATA'']"

fun isUnavailableReadonlyError :: "readonly_error \<Rightarrow> bool" where
  "isUnavailableReadonlyError (Plain_Error _) = False"
| "isUnavailableReadonlyError (Coded_Error _ code data) =
     (case code of
        None \<Rightarrow> False
      | Some c \<Rightarrow> c \<in> set unavailable_codes
          \<or> c = ''CALL_EXCEPTION'' \<and> data \<in> {JUndef, JNull, JStr ''0x'', JStr ''0X''})"

fun preflightErrorMessage :: "readonly_error \<Rightarrow> string" where
  "preflightErrorMessage (Plain_Error t) = t"
| "preflightErrorMessage (Coded_Error t _ _) = t"

text \<open>\<open>KnownSpendPreflightFailure\<close> and every other error of the checks, with their messages.\<close>

datatype preflight_error = KnownSpendPreflightFailure string | Preflight_Error string

definition transfer_check :: "string \<Rightarrow> readonly_error option \<Rightarrow> preflight_error + unit" where
  "transfer_check label answer =
     (case answer of
        None \<Rightarrow> Inr ()
      | Some e \<Rightarrow>
          if isUnavailableReadonlyError e then Inl (Preflight_Error (''SPEND_PREFLIGHT_UNAVAILABLE: '' @ preflightErrorMessage e))
          else Inl (KnownSpendPreflightFailure (label @ preflightErrorMessage e)))"

definition unavailable_read :: "string + int \<Rightarrow> preflight_error + int" where
  "unavailable_read answer = (case answer of
     Inl e \<Rightarrow> Inl (Preflight_Error (''SPEND_PREFLIGHT_UNAVAILABLE: '' @ e)) | Inr v \<Rightarrow> Inr v)"

definition preflightSpend ::
    "spend_env \<Rightarrow> string \<Rightarrow> string \<Rightarrow> js_number \<Rightarrow> asset_context \<Rightarrow> preflight_error + unit" where
  "preflightSpend env user treasury amount asset =
     rbind (of_option (Preflight_Error ''UNSUPPORTED_TOKEN_PRECISION'') (canonicalTokenAmount (JNum amount))) (\<lambda>a.
     let wei = token_wei (units a); contract = tokenContractAddress asset; signer = ac_signerAddress asset in
     rbind (guard (ch_provider (ae_chain (se_base env)))
         (Preflight_Error ''SPEND_PREFLIGHT_UNAVAILABLE: provider is required'')) (\<lambda>_.
     rbind (unavailable_read (se_allowance env contract user signer)) (\<lambda>allowance.
     rbind (unavailable_read (se_balance env contract user)) (\<lambda>balance.
     rbind (guard (wei \<le> allowance) (KnownSpendPreflightFailure (''insufficient allowance for '' @ signer @ '': ''
         @ bigint_string allowance @ '' < '' @ bigint_string wei))) (\<lambda>_.
     rbind (guard (wei \<le> balance) (KnownSpendPreflightFailure (''transfer amount exceeds balance: ''
         @ bigint_string balance @ '' < '' @ bigint_string wei))) (\<lambda>_.
     case se_static_call env of
       Some call \<Rightarrow> transfer_check ''token transfer preflight reverted: '' (call user treasury wei)
     | None \<Rightarrow>
         (case se_estimate_gas env of
            Some estimate \<Rightarrow> transfer_check ''token transfer gas estimate reverted: '' (estimate user treasury wei)
          | None \<Rightarrow> Inr ())))))))"

text \<open>\<open>Number(formatUnits(units, 18))\<close>: the nearest double.\<close>

definition readTokenBalance :: "spend_env \<Rightarrow> string \<Rightarrow> string \<Rightarrow> string + js_number" where
  "readTokenBalance env contract wallet =
     (case se_balance env contract wallet of Inl e \<Rightarrow> Inl e | Inr u \<Rightarrow> Inr (js_of_rat (of_int u / 10 ^ 18)))"

subsection \<open>Evidence\<close>

definition evidencePending :: "evidence_code \<Rightarrow> bool" where
  "evidencePending c \<longleftrightarrow> c = EV_RECEIPT_PENDING \<or> c = EV_PROVIDER_ERROR \<or> c = EV_TRANSACTION_NOT_FOUND"

definition evidenceDiagnostic :: "evidence_code \<Rightarrow> string option \<Rightarrow> bool option \<Rightarrow> diagnostic" where
  "evidenceDiagnostic code txHash retryable =
     \<lparr>dg_stage = RECEIPT, dg_category = Some (if evidencePending code then CONFIRMATION_PENDING else REVIEW_REQUIRED),
      dg_errorCode = (if code = EV_PROVIDER_ERROR then ''RECEIPT_READ_UNAVAILABLE'' else evidence_code_text code),
      dg_retryable = (case retryable of None \<Rightarrow> evidencePending code | Some b \<Rightarrow> b),
      dg_savedHash = nonempty txHash, dg_nonce = None\<rparr>"

text \<open>
  \<open>verifySpendEvidence\<close> on a spend: from the driver's wallet to the treasury; \<open>None\<close> where it throws.
\<close>

definition spend_evidence :: "spend_env \<Rightarrow> asset_context \<Rightarrow> string \<Rightarrow> nat \<Rightarrow> string \<Rightarrow> evidence_result option" where
  "spend_evidence env asset wallet cents txHash =
     map_option (\<lambda>ev. verifySpendEvidence ev
       \<lparr>er_tokenContractAddress = tokenContractAddress asset, er_chainId = Text_Arg (ac_chainId asset),
        er_sourceWallet = wallet, er_treasuryRecipient = or_text (ac_treasuryAddress asset) (treasury_of_env env),
        er_amountUnits = Big_Arg (token_wei cents), er_txHash = txHash\<rparr>) (ae_evidence (se_base env))"

text \<open>The evidence reader of a saved row: absent without a hash or a provider.\<close>

definition saved_spend_evidence :: "spend_env \<Rightarrow> asset_context \<Rightarrow> operation_row \<Rightarrow> evidence_result option option" where
  "saved_spend_evidence env asset r =
     (case nonempty (op_tx_hash r) of
        None \<Rightarrow> None
      | Some h \<Rightarrow>
          if \<not> ch_provider (ae_chain (se_base env)) then None
          else Some (case canonicalTokenAmount (JStr (numeric2_text (op_amount r))) of
              None \<Rightarrow> Some (Inl \<lparr>ef_code = EV_INVALID_AMOUNT, ef_pending = False, ef_retryable = None\<rparr>)
            | Some a \<Rightarrow> spend_evidence env asset (op_wallet r) (units a) h))"

subsection \<open>From a hash to a recorded spend\<close>

record spend_projection =
  sj_key :: string
  sj_status :: operation_status
  sj_tx_hash :: "string option"
  sj_amount :: string
  sj_uid :: string
  sj_wallet :: string
  sj_session :: "string option"
  sj_outcome :: "movement_outcome option"
  sj_diagnostic :: "diagnostic option"

definition spend_projection_of :: "operation_row \<Rightarrow> spend_projection" where
  "spend_projection_of r = \<lparr>sj_key = op_key r, sj_status = op_status r, sj_tx_hash = op_tx_hash r,
     sj_amount = numeric2_text (op_amount r), sj_uid = op_uid r, sj_wallet = op_wallet r, sj_session = op_session_id r,
     sj_outcome = op_outcome r, sj_diagnostic = op_diagnostic r\<rparr>"

definition replay_request :: "spend_projection \<Rightarrow> spend_request \<Rightarrow> spend_request" where
  "replay_request p q = q\<lparr>sq_uid := (if sj_uid p = [] then sq_uid q else Some (sj_uid p)),
     sq_user := (if sj_wallet p = [] then sq_user q else sj_wallet p), sq_amount := text_number (sj_amount p),
     sq_session := (case nonempty (sj_session p) of None \<Rightarrow> sq_session q | Some s \<Rightarrow> Some s),
     sq_operationKey := Some (sj_key p)\<rparr>"

definition outcome_or :: "movement_outcome \<Rightarrow> operation_row option \<Rightarrow> movement_outcome" where
  "outcome_or dflt r = (case Option.bind r op_outcome of None \<Rightarrow> dflt | Some x \<Rightarrow> x)"

definition failed_spend :: "spend_projection \<Rightarrow> spend_request \<Rightarrow> movement_outcome \<Rightarrow> spend_result" where
  "failed_spend p v outcome =
     (if sj_outcome p \<noteq> Some OUT_NO_MOVEMENT
      then pendingSpendResult v FAILED Spend_Saved_For_Review (nonempty (sj_tx_hash p)) True (Some outcome) (sj_diagnostic p)
      else (refused_spend (sq_amount v) (sq_user v) (Some (sj_key p)) Spend_Saved_As_Failed)\<lparr>sx_txHash := nonempty (sj_tx_hash p),
             sx_status := Some FAILED, sx_outcome := Some outcome, sx_diagnostic := sj_diagnostic p\<rparr>)"

text \<open>The chain decides: \<open>Inl\<close> ends the run, \<open>Inr\<close> is the database and the outcome of a confirmed movement.\<close>

definition confirm_spend ::
    "spend_env \<Rightarrow> spend_projection \<Rightarrow> spend_request \<Rightarrow> string \<Rightarrow> movement_outcome \<Rightarrow> evidence_result option \<Rightarrow> db
     \<Rightarrow> (db \<times> spend_result) + (db \<times> movement_outcome)" where
  "confirm_spend env p v h outcome evidence d =
     (let base = se_base env; now = spend_clock env;
          unknown = (\<lambda>e g. best_effort base Save_Unknown d (snd (markUnknown now (sj_key p) e (Some (Some g)) d))) in
      case evidence of
        None \<Rightarrow>
          (let g = evidenceDiagnostic EV_PROVIDER_ERROR (Some h) None in
           Inl (unknown ''Spend transaction confirmation is pending'' g,
                pendingSpendResult v (sj_status p) Spend_Confirmation_Pending (Some h) False (Some outcome) (Some g)))
      | Some (Inl f) \<Rightarrow>
          (let g = evidenceDiagnostic (ef_code f) (Some h) (ef_retryable f) in
           if evidencePending (ef_code f) then
             Inl (unknown (''Spend transaction confirmation is pending: '' @ evidence_code_text (ef_code f)) g,
                  pendingSpendResult v (sj_status p) Spend_Confirmation_Pending (Some h)
                    (ef_code f = EV_TRANSACTION_NOT_FOUND) (Some outcome) (Some g))
           else
             (let proven = (if ef_code f = EV_TRANSACTION_FAILED then OUT_NO_MOVEMENT else OUT_REVIEW) in
              if \<not> ae_saved base Save_Failed
              then Inl (d, pendingSpendResult v (sj_status p) Spend_Failure_Unsaved (Some h) True (Some proven) (Some g))
              else
                (case markFailed now (sj_key p) (''Spend evidence rejected: '' @ evidence_code_text (ef_code f)) proven
                    (Some (Some g)) d of
                   (row, d') \<Rightarrow>
                     (let now_known = (if proven = OUT_REVIEW then OUT_REVIEW else outcome_or proven row) in
                      if now_known = OUT_REVIEW
                      then Inl (d', pendingSpendResult v FAILED (Spend_Evidence_Review (ef_code f)) (Some h) True
                             (Some now_known) (Some g))
                      else Inl (d', (refused_spend (sq_amount v) (sq_user v) (Some (sj_key p))
                             (Spend_Evidence_Rejected (ef_code f)))\<lparr>sx_txHash := Some h, sx_status := Some FAILED,
                               sx_outcome := Some now_known, sx_diagnostic := Some g\<rparr>)))))
      | Some (Inr proof) \<Rightarrow>
          if \<not> ae_saved base Save_Confirmed
          then Inl (d, pendingSpendResult v SUBMITTED Spend_Confirmation_Unsaved (Some h) False (Some outcome) None)
          else (case markConfirmed now (sj_key p) None d of (row, d') \<Rightarrow> Inr (d', outcome_or OUT_CONFIRMED row)))"

definition spend_record_of :: "spend_request \<Rightarrow> string \<Rightarrow> spend_record" where
  "spend_record_of v h = \<lparr>sr_wallet = sq_user v, sr_amount = sq_amount v, sr_txHash = h, sr_session = sq_session v, sr_uid = sq_uid v\<rparr>"

definition record_spend ::
    "spend_env \<Rightarrow> spend_projection \<Rightarrow> spend_request \<Rightarrow> string \<Rightarrow> movement_outcome \<Rightarrow> db \<Rightarrow> db \<times> spend_result" where
  "record_spend env p v h outcome d =
     (let base = se_base env; now = spend_clock env in
      case saving base Save_Record (recordSpend now (ae_user_ident base) (se_spend_ident env) (spend_record_of v h) d) of
        Inl e \<Rightarrow>
          (best_effort base Save_Projection_Error d (snd (markProjectionError now (sj_key p) (ae_message base e) d)),
           (pendingSpendResult v CONFIRMED Spend_Projection_Pending (Some h) False (Some outcome) None)\<lparr>sx_dbStored := Some False\<rparr>)
      | Inr (_, d1) \<Rightarrow>
          if \<not> ae_saved base Save_Projected
          then (d1, (pendingSpendResult v CONFIRMED Spend_Completion_Pending (Some h) False (Some outcome) None)
                      \<lparr>sx_dbStored := Some True\<rparr>)
          else (case markProjected now (sj_key p) d1 of
              (row, d2) \<Rightarrow> (d2, completed_spend (sq_amount v) (sq_user v) (sj_key p) (Some h) False (outcome_or outcome row))))"

definition projectSpendOperation ::
    "spend_env \<Rightarrow> spend_projection \<Rightarrow> spend_request \<Rightarrow> evidence_result option option \<Rightarrow> db \<Rightarrow> db \<times> spend_result" where
  "projectSpendOperation env p q verify d =
     (let v = replay_request p q; outcome = (case sj_outcome p of None \<Rightarrow> OUT_UNKNOWN | Some x \<Rightarrow> x) in
      if sj_status p = FAILED then (d, failed_spend p v outcome)
      else if sj_status p = PROJECTED
      then (d, completed_spend (sq_amount v) (sq_user v) (sj_key p) (nonempty (sj_tx_hash p)) True outcome)
      else (case nonempty (sj_tx_hash p) of
          None \<Rightarrow> (d, pendingSpendResult v (sj_status p) Spend_Submission_Unresolved None True (Some outcome) (sj_diagnostic p))
        | Some h \<Rightarrow>
            if sj_status p = SUBMITTED \<or> sj_status p = UNKNOWN_STATUS then
              (case verify of
                 None \<Rightarrow> (d, pendingSpendResult v (sj_status p) Spend_Awaiting_Confirmation (Some h) False (Some outcome)
                           (sj_diagnostic p))
               | Some answer \<Rightarrow>
                   (case confirm_spend env p v h outcome answer d of
                      Inl r \<Rightarrow> r
                    | Inr (d', o') \<Rightarrow> record_spend env p v h o' d'))
            else record_spend env p v h outcome d))"

end
