(* ===== verification/SpendFlow.thy ===== *)
theory SpendFlow
  imports SpendExecutor Reservations
begin

text \<open>
  The two entry points of \<open>src/spendExecutor.ts\<close>: \<open>processSpend\<close>, from a request to the recorded spend, and
  \<open>recoverSpendOperation\<close>, from a ledger row alone. The first is split where the code changes the database
  or returns: the settlement context of a reservation, the asset context, the claim, the readonly
  checks, the send and what follows it.
\<close>

definition spend_uid :: "spend_request \<Rightarrow> string" where
  "spend_uid q = (case sq_uid q of None \<Rightarrow> [] | Some u \<Rightarrow> u)"

definition known_outcome :: "operation_row \<Rightarrow> movement_outcome" where
  "known_outcome r = outcome_or OUT_UNKNOWN (Some r)"

text \<open>\<open>TokenOperations.findByKey\<close> where a failing read counts as no row.\<close>

definition lookup_spend :: "spend_env \<Rightarrow> db \<Rightarrow> string \<Rightarrow> operation_row option" where
  "lookup_spend env d k = (if ae_lookup (se_base env) then find_operation d k else None)"

definition saved_spend :: "operation_row \<Rightarrow> string \<Rightarrow> spend_problem \<Rightarrow> spend_result" where
  "saved_spend r k e = (refused_spend (saved_amount r) (op_wallet r) (Some k) e)\<lparr>sx_txHash := nonempty (op_tx_hash r),
     sx_status := Some (op_status r), sx_requiresReview := True, sx_outcome := Some (known_outcome r)\<rparr>"

subsection \<open>Recovery from the ledger\<close>

definition or_number :: "js_number \<Rightarrow> js_number \<Rightarrow> js_number" where
  "or_number x y = (if x = Fin 0 \<or> x = NaN then y else x)"

definition recovery_request :: "operation_row \<Rightarrow> spend_request" where
  "recovery_request r = \<lparr>sq_user = op_wallet r,
     sq_amount = (case canonicalTokenAmount (JStr (numeric2_text (op_amount r))) of
         None \<Rightarrow> or_number (saved_amount r) (Fin 0) | Some a \<Rightarrow> or_number (amount_value a) (or_number (saved_amount r) (Fin 0))),
     sq_session = nonempty (op_session_id r), sq_uid = Some (op_uid r), sq_provider = nonempty (op_provider_id r),
     sq_operationKey = Some (op_key r), sq_idempotencyKey = None, sq_reservation = nonempty (op_reservation r),
     sq_settlement = None\<rparr>"

text \<open>The checks of the saved row alone: the exact amount and the hash of a movement worth reading the chain for.\<close>

definition recoverable_spend :: "spend_env \<Rightarrow> operation_row \<Rightarrow> spend_result + (canonical_amount \<times> string)" where
  "recoverable_spend env r =
     (let q = recovery_request r; tx = nonempty (op_tx_hash r);
          blocked = (\<lambda>e t. pendingSpendResult q (op_status r) e t True (Some OUT_REVIEW) None) in
      case canonicalTokenAmount (JStr (numeric2_text (op_amount r))) of
        None \<Rightarrow> Inl (blocked Recovery_Amount_Invalid tx)
      | Some a \<Rightarrow>
          if units a = 0 then Inl (blocked Recovery_Amount_Invalid tx)
          else if op_status r = PROJECTED \<and> tx = None then Inl (blocked Recovery_Hash_Required None)
          else if op_fingerprint r = [] then Inl (blocked Recovery_Fingerprint_Missing tx)
          else (case spendRecoveryIntentMismatch (sha_of (se_base env)) r q (op_uid r) of
              Some m \<Rightarrow> Inl (blocked (Recovery_Intent_Invalid m) tx)
            | None \<Rightarrow>
                if op_status r = FAILED
                then Inl ((refused_spend (amount_value a) (op_wallet r) (Some (op_key r)) Recovery_Already_Failed)
                       \<lparr>sx_txHash := tx, sx_status := Some FAILED, sx_requiresReview := op_outcome r \<noteq> Some OUT_NO_MOVEMENT,
                        sx_outcome := Some (outcome_or OUT_REVIEW (Some r))\<rparr>)
                else (case Option.bind (op_tx_hash r) (\<lambda>h. canonicalTransactionHash (JStr h)) of
                    None \<Rightarrow> Inl (blocked Recovery_Hash_Required None)
                  | Some h \<Rightarrow> Inr (a, h))))"

text \<open>The chain proof of the saved hash, always demanded.\<close>

definition recovery_evidence ::
    "spend_env \<Rightarrow> operation_row \<Rightarrow> canonical_amount \<Rightarrow> string \<Rightarrow> db \<Rightarrow> (db \<times> spend_result) + asset_context" where
  "recovery_evidence env r a h d =
     (let base = se_base env; pending = (\<lambda>e review outcome g.
            pendingSpendResult (recovery_request r) (op_status r) e (Some h) review (Some outcome) g) in
      case asset_of base of
        None \<Rightarrow> Inl (d, pending Recovery_Asset_Unavailable False (known_outcome r) None)
      | Some asset \<Rightarrow>
          (case assetContextMismatch (op_intent r) asset of
             Some m \<Rightarrow> Inl (d, pending (Recovery_Asset_Changed m) True OUT_REVIEW None)
           | None \<Rightarrow>
               if \<not> ch_provider (ae_chain base)
               then Inl (d, pending Recovery_Chain_Unavailable False (known_outcome r) None)
               else (case spend_evidence env asset (op_wallet r) (units a) h of
                   None \<Rightarrow> Inl (d, pending Recovery_Chain_Unavailable False (known_outcome r)
                             (Some (evidenceDiagnostic EV_PROVIDER_ERROR (Some h) None)))
                 | Some (Inl f) \<Rightarrow>
                     (let review = (ef_code f \<notin> {EV_RECEIPT_PENDING, EV_PROVIDER_ERROR});
                          g = evidenceDiagnostic (ef_code f) (Some h) (ef_retryable f) in
                      Inl (if review then d
                           else best_effort base Save_Unknown d (snd (markUnknown (spend_clock env) (op_key r)
                             (''Spend recovery evidence is pending: '' @ evidence_code_text (ef_code f)) (Some (Some g)) d)),
                           pending (Recovery_Evidence_Blocked (ef_code f)) review
                             (if review then OUT_REVIEW else known_outcome r) (Some g)))
                 | Some (Inr proof) \<Rightarrow> Inr asset)))"

definition finish_recovery :: "spend_env \<Rightarrow> operation_row \<Rightarrow> canonical_amount \<Rightarrow> string \<Rightarrow> db \<Rightarrow> db \<times> spend_result" where
  "finish_recovery env r a h d =
     (if op_status r = PROJECTED
      then (d, completed_spend (amount_value a) (op_wallet r) (op_key r) (Some h) True (outcome_or OUT_CONFIRMED (Some r)))
      else if \<not> ae_saved (se_base env) Save_Confirmed
      then (d, pendingSpendResult (recovery_request r) (op_status r) Recovery_Confirmation_Unsaved (Some h) True
                 (Some OUT_REVIEW) None)
      else (case markConfirmed (spend_clock env) (op_key r) None d of
          (row, d') \<Rightarrow> projectSpendOperation env
            ((spend_projection_of (case row of None \<Rightarrow> r | Some m \<Rightarrow> m))\<lparr>sj_status := CONFIRMED, sj_tx_hash := Some h\<rparr>)
            (recovery_request r) None d'))"

definition recoverSpendOperation :: "spend_env \<Rightarrow> string \<Rightarrow> db \<Rightarrow> db \<times> spend_result" where
  "recoverSpendOperation env k d =
     (let none = refused_spend (Fin 0) [] in
      if \<not> isNonEmptyOperationKey k then (d, (none None Recovery_Key_Invalid)\<lparr>sx_requiresReview := True\<rparr>)
      else if \<not> ae_lookup (se_base env)
      then (d, (none (Some k) Recovery_Lookup_Unavailable)\<lparr>sx_pending := True, sx_requiresReview := True\<rparr>)
      else case find_operation d k of
        None \<Rightarrow> (d, (none (Some k) Spend_Missing)\<lparr>sx_requiresReview := True\<rparr>)
      | Some r \<Rightarrow>
          if op_type r \<noteq> SPEND
          then (d, (refused_spend (or_number (saved_amount r) (Fin 0)) (op_wallet r) (Some k) Not_A_Spend)
                 \<lparr>sx_status := Some (op_status r), sx_requiresReview := True\<rparr>)
          else (case recoverable_spend env r of
              Inl x \<Rightarrow> (d, x)
            | Inr (a, h) \<Rightarrow>
                (case recovery_evidence env r a h d of Inl x \<Rightarrow> x | Inr _ \<Rightarrow> finish_recovery env r a h d)))"

subsection \<open>Before the claim\<close>

text \<open>The stable key of a request: its own, or derived from the owner and the idempotency key.\<close>

definition spend_key_of :: "spend_env \<Rightarrow> spend_request \<Rightarrow> spend_problem + string" where
  "spend_key_of env q =
     rbind (guard (case sq_operationKey q of None \<Rightarrow> True | Some k \<Rightarrow> isNonEmptyOperationKey k) Operation_Key_Invalid) (\<lambda>_.
     rbind (guard (case sq_idempotencyKey q of None \<Rightarrow> True | Some k \<Rightarrow> isNonEmptyOperationKey k) Idempotency_Key_Invalid) (\<lambda>_.
     case sq_operationKey q of
       Some k \<Rightarrow> Inr k
     | None \<Rightarrow>
         (case sq_idempotencyKey q of
            None \<Rightarrow> Inl Idempotency_Key_Required
          | Some i \<Rightarrow> Inr (spendOperationKey (sha_of (se_base env)) (spend_uid q) i))))"

definition settlement_failure :: "spend_request \<Rightarrow> string \<Rightarrow> string \<Rightarrow> spend_problem \<Rightarrow> spend_result" where
  "settlement_failure q k code e =
     (refused_spend (sq_amount q) (sq_user q) (Some k) e)\<lparr>sx_status := Some FAILED, sx_requiresReview := True,
       sx_preflightFailure := True, sx_outcome := Some OUT_NO_MOVEMENT,
       sx_diagnostic := Some (createTransactionDiagnostic PREFLIGHT code False (Some REVIEW_REQUIRED) None None)\<rparr>"

text \<open>The delivered energy of a reservation is made durable first; \<open>Inl\<close> ends the run.\<close>

definition settle_context :: "spend_env \<Rightarrow> spend_request \<Rightarrow> string \<Rightarrow> db \<Rightarrow> spend_result + db" where
  "settle_context env q k d =
     (case sq_settlement q of
        None \<Rightarrow> Inr d
      | Some (reservation, delivered) \<Rightarrow>
          if nonempty (sq_reservation q) = None \<or> sq_reservation q \<noteq> Some reservation
          then Inl (settlement_failure q k ''SETTLEMENT_CONTEXT_RESERVATION_MISMATCH'' Settlement_Reservation_Mismatch)
          else (case (if se_settlement_saved env then persistSettlementContext (spend_clock env) reservation delivered d
                      else Inl (CALLBACK_FAILED (Other_Error ''connection''))) of
              Inr (_, d') \<Rightarrow> Inr d'
            | Inl e \<Rightarrow>
                (case lookup_spend env d k of
                   Some r \<Rightarrow> Inl ((saved_spend r k (Settlement_Context_Differs e))\<lparr>sx_pending := True,
                       sx_diagnostic := Some (createTransactionDiagnostic PREFLIGHT ''SETTLEMENT_CONTEXT_MISMATCH'' False
                         (Some REVIEW_REQUIRED) None None)\<rparr>)
                 | None \<Rightarrow> Inl (settlement_failure q k ''SETTLEMENT_CONTEXT_MISMATCH'' (Settlement_Context_Unsaved e)))))"

text \<open>Without an asset context a saved spend is only reported, never touched.\<close>

definition unverified_asset :: "spend_env \<Rightarrow> spend_request \<Rightarrow> string \<Rightarrow> db \<Rightarrow> spend_result" where
  "unverified_asset env q k d =
     (case lookup_spend env d k of
        None \<Rightarrow> refused_spend (sq_amount q) (sq_user q) (Some k) Spend_Asset_Unavailable
      | Some r \<Rightarrow>
          (case spendRecoveryIntentMismatch (sha_of (se_base env)) r q (spend_uid q) of
             Some m \<Rightarrow> saved_spend r k (Spend_Intent_Mismatch m)
           | None \<Rightarrow>
               if op_status r = FAILED \<and> op_outcome r = Some OUT_NO_MOVEMENT
               then (saved_spend r k Spend_Saved_As_Failed)\<lparr>sx_requiresReview := False\<rparr>
               else pendingSpendResult (q\<lparr>sq_operationKey := Some k, sq_amount := saved_amount r, sq_user := op_wallet r,
                      sq_uid := Some (op_uid r)\<rparr>) (op_status r) Spend_Asset_Unverified (nonempty (op_tx_hash r)) True
                      (Some (known_outcome r)) None))"

definition spend_claim :: "spend_env \<Rightarrow> spend_request \<Rightarrow> string \<Rightarrow> canonical_amount \<Rightarrow> asset_context \<Rightarrow> claim_request" where
  "spend_claim env q k a asset =
     \<lparr>cr_key = k, cr_type = SPEND,
      cr_fingerprint = (case spendIntentFingerprint (sha_of (se_base env)) (spend_intent_of (spend_uid q) (sq_user q)
          (amount_value a) (sq_session q) (sq_provider q) (sq_reservation q)) of Inl _ \<Rightarrow> [] | Inr f \<Rightarrow> f),
      cr_uid = spend_uid q, cr_wallet = sq_user q, cr_amount = decimal a, cr_session_id = nonempty (sq_session q),
      cr_provider_id = nonempty (sq_provider q), cr_charging_session = None, cr_reservation = nonempty (sq_reservation q),
      cr_intent = Some [(''assetContext'', asset_json asset)], cr_legacy_key = None,
      cr_balance = (if nonempty (sq_reservation q) = None
         then Some (readTokenBalance env (tokenContractAddress asset) (sq_user q)) else None)\<rparr>"

subsection \<open>After the claim\<close>

type_synonym spend_run = "db \<times> string list \<times> spend_result"

fun contains_text :: "string \<Rightarrow> string \<Rightarrow> bool" where
  "contains_text p [] \<longleftrightarrow> p = []"
| "contains_text p (c # s) \<longleftrightarrow> starts_with p (c # s) \<or> contains_text p s"

definition preflight_diagnostic :: "string \<Rightarrow> diagnostic option" where
  "preflight_diagnostic message =
     (if contains_text ''spend_preflight_unavailable'' (js_lower message) \<or> contains_text ''provider is required'' (js_lower message)
      then Some (createTransactionDiagnostic PREFLIGHT ''RPC_READ_UNAVAILABLE'' True (Some RPC_UNAVAILABLE) None None) else None)"

text \<open>Nothing was sent: the ledger keeps a no-movement marker and the key may be claimed again.\<close>

definition preflight_refused :: "spend_env \<Rightarrow> spend_request \<Rightarrow> string \<Rightarrow> preflight_error \<Rightarrow> db \<Rightarrow> db \<times> spend_result" where
  "preflight_refused env q k e d =
     (let known = (case e of KnownSpendPreflightFailure _ \<Rightarrow> True | Preflight_Error _ \<Rightarrow> False);
          message = (case e of KnownSpendPreflightFailure t \<Rightarrow> t | Preflight_Error t \<Rightarrow> t);
          g = (if known then None else preflight_diagnostic message);
          result = (\<lambda>outcome. preflightFailureResult q k (Spend_Preflight_Failed message) known outcome g) in
      if \<not> ae_saved (se_base env) Save_Preflight then (d, result OUT_UNKNOWN)
      else (case markPreflightFailed (spend_clock env) k message (map_option Some g) d of
          (row, d') \<Rightarrow> (d', result (outcome_or OUT_UNKNOWN row))))"

definition sent_projection ::
    "spend_request \<Rightarrow> string \<Rightarrow> canonical_amount \<Rightarrow> operation_status \<Rightarrow> string \<Rightarrow> movement_outcome option \<Rightarrow> diagnostic option
     \<Rightarrow> spend_projection" where
  "sent_projection q k a status h outcome g =
     \<lparr>sj_key = k, sj_status = status, sj_tx_hash = Some h, sj_amount = decimal a, sj_uid = spend_uid q, sj_wallet = sq_user q,
      sj_session = nonempty (sq_session q), sj_outcome = outcome, sj_diagnostic = g\<rparr>"

definition spend_outcome_unknown :: "spend_env \<Rightarrow> spend_request \<Rightarrow> string \<Rightarrow> diagnostic option \<Rightarrow> db \<Rightarrow> db \<times> spend_result" where
  "spend_outcome_unknown env q k g d =
     (let code = or_text (map_option dg_errorCode g) ''TRANSACTION_SUBMISSION_FAILED'' in
      (best_effort (se_base env) Save_Unknown d (snd (markUnknown (spend_clock env) k code (map_option Some g) d)),
       pendingSpendResult q UNKNOWN_STATUS (Spend_Outcome_Unknown code) (Option.bind g dg_savedHash) True (Some OUT_UNKNOWN) g))"

definition spend_send_failed ::
    "spend_env \<Rightarrow> spend_request \<Rightarrow> string \<Rightarrow> canonical_amount \<Rightarrow> asset_context \<Rightarrow> diagnostic option \<Rightarrow> db \<Rightarrow> db \<times> spend_result" where
  "spend_send_failed env q k a asset g d =
     (let review = spend_outcome_unknown env q k g d;
          code = or_text (map_option dg_errorCode g) ''TRANSACTION_SUBMISSION_FAILED'' in
      case g of
        None \<Rightarrow> review
      | Some dg \<Rightarrow>
          if isPreBroadcastTransactionDiagnostic g
          then (best_effort (se_base env) Save_Preflight d (snd (markPreflightFailed (spend_clock env) k code (Some g) d)),
                preflightFailureResult q k (Spend_Preparation_Failed code) False OUT_NO_MOVEMENT g)
          else (case nonempty (dg_savedHash dg) of
              None \<Rightarrow> review
            | Some h \<Rightarrow>
                if dg_stage dg = BROADCAST \<and> ch_provider (ae_chain (se_base env)) then
                  (case spend_evidence env asset (sq_user q) (units a) h of
                     None \<Rightarrow> review
                   | Some e \<Rightarrow> projectSpendOperation env (sent_projection q k a UNKNOWN_STATUS h (Some OUT_UNKNOWN) g) q
                       (Some (Some e)) d)
                else review))"

definition sent_spend :: "spend_env \<Rightarrow> spend_request \<Rightarrow> string \<Rightarrow> canonical_amount \<Rightarrow> asset_context \<Rightarrow> db \<Rightarrow> spend_run" where
  "sent_spend env q k a asset d =
     (case submitSpend env (sq_user q) (treasury_of_env env) (amount_value a) k (ac_chainId asset)
        (tokenContractAddress asset) TARGET_OPERATION d of
        (d1, sent, Inl g) \<Rightarrow> (case spend_send_failed env q k a asset g d1 of (d2, x) \<Rightarrow> (d2, sent, x))
      | (d1, sent, Inr tx) \<Rightarrow>
          (case saving (se_base env) Save_Submitted (markSubmitted (spend_clock env) k (rr_txHash tx) d1) of
             Inl e \<Rightarrow>
               (best_effort (se_base env) Save_Unknown d1 (snd (markUnknown (spend_clock env) k
                   (''Transaction hash could not be persisted: '' @ ae_message (se_base env) e) None d1)),
                sent, pendingSpendResult q UNKNOWN_STATUS Spend_Hash_Unsaved (Some (rr_txHash tx)) True (Some OUT_UNKNOWN) None)
           | Inr (_, d2) \<Rightarrow>
               (case projectSpendOperation env (sent_projection q k a SUBMITTED (rr_txHash tx) None None) q
                   (Some (spend_evidence env asset (sq_user q) (units a) (rr_txHash tx))) d2 of
                  (d3, x) \<Rightarrow> (d3, sent, x))))"

definition claimed_spend ::
    "spend_env \<Rightarrow> spend_request \<Rightarrow> string \<Rightarrow> canonical_amount \<Rightarrow> asset_context \<Rightarrow> operation_row \<Rightarrow> bool \<Rightarrow> db \<Rightarrow> spend_run" where
  "claimed_spend env q k a asset r acquired d =
     (case assetContextMismatch (op_intent r) asset of
        Some m \<Rightarrow> (d, [], (saved_spend r k (Spend_Asset_Changed m))\<lparr>sx_pending := True\<rparr>)
      | None \<Rightarrow>
          if \<not> acquired
          then (case projectSpendOperation env (spend_projection_of r) q (saved_spend_evidence env asset r) d of
              (d', x) \<Rightarrow> (d', [], x))
          else (case preflightSpend env (sq_user q) (treasury_of_env env) (amount_value a) asset of
              Inl e \<Rightarrow> (case preflight_refused env q k e d of (d', x) \<Rightarrow> (d', [], x))
            | Inr _ \<Rightarrow> sent_spend env q k a asset d))"

text \<open>\<open>q\<close> is the request with its key, once the key is known.\<close>

definition keyed_spend :: "spend_env \<Rightarrow> spend_request \<Rightarrow> string \<Rightarrow> canonical_amount \<Rightarrow> db \<Rightarrow> spend_run" where
  "keyed_spend env q k a d =
     (case settle_context env q k d of
        Inl x \<Rightarrow> (d, [], x)
      | Inr d1 \<Rightarrow>
          (case asset_of (se_base env) of
             None \<Rightarrow> (d1, [], unverified_asset env q k d1)
           | Some asset \<Rightarrow>
               (case saving (se_base env) Save_Claim (claim (spend_clock env) (ae_ident (se_base env))
                   (spend_claim env q k a asset) d1) of
                  Inl e \<Rightarrow> (d1, [], refused_spend (sq_amount q) (sq_user q) (Some k) (Spend_Claim_Refused e))
                | Inr (c, d2) \<Rightarrow>
                    (case cl_operation c of
                       None \<Rightarrow> (d2, [], refused_spend (sq_amount q) (sq_user q) (Some k)
                                  (Spend_Claim_Refused (CALLBACK_FAILED (Other_Error ''operation''))))
                     | Some r \<Rightarrow> claimed_spend env q k a asset r (cl_acquired c) d2))))"

definition processSpend :: "spend_env \<Rightarrow> spend_request \<Rightarrow> db \<Rightarrow> spend_run" where
  "processSpend env q d =
     (let stop = (\<lambda>e. (d, [], refused_spend (sq_amount q) (sq_user q) None e)) in
      if \<not> prepareSpend q then stop Spend_Invalid
      else case canonicalTokenAmount (JNum (sq_amount q)) of
        None \<Rightarrow> stop Spend_Invalid
      | Some a \<Rightarrow>
          (case spend_key_of env q of
             Inl e \<Rightarrow> stop e
           | Inr k \<Rightarrow> keyed_spend env (q\<lparr>sq_operationKey := Some k\<rparr>) k a d))"

end
