(* ===== verification/SpendSample.thy ===== *)
theory SpendSample
  imports SpendFlow AwardSample
begin

text \<open>
  One run of the spend executor worked out in full, for the witnesses of \<open>SpendFlowLaws\<close>: three tokens for a
  reservation are claimed in an empty database, checked, signed, sent, proved by the chain, recorded and
  completed.
\<close>

definition spend_chain :: evidence_view where
  "spend_chain = transfer_chain (Call_Transfer_From ''0xB2'' ''0xa1'' (3 * 10 ^ 18)) ''0xB2'' ''0xa1''"

definition sample_spend_env :: "evidence_view option \<Rightarrow> int \<Rightarrow> spend_env" where
  "sample_spend_env e allowance =
     \<lparr>se_base = sample_award_env e, se_allowance = (\<lambda>_ _ _. Inr allowance), se_balance = (\<lambda>_ _. Inr (5 * 10 ^ 18)),
      se_static_call = Some (\<lambda>_ _ _. None), se_estimate_gas = None, se_encode = (\<lambda>_ _ _. ''0x''),
      se_settlement_saved = True, se_spend_ident = ''p1''\<rparr>"

definition sample_request :: spend_request where
  "sample_request = \<lparr>sq_user = ''0xB2'', sq_amount = Fin (of_nat 3), sq_session = Some ''s1'', sq_uid = Some ''U'',
     sq_provider = Some ''P'', sq_operationKey = None, sq_idempotencyKey = Some ''i1'', sq_reservation = Some ''r1'',
     sq_settlement = None\<rparr>"

definition sample_spend_key :: string where
  "sample_spend_key = ''spend:'' @ replicate 64 CHR ''a''"

definition keyed_sample :: spend_request where
  "keyed_sample = sample_request\<lparr>sq_operationKey := Some sample_spend_key\<rparr>"

lemma sample_spend_fields [simp]:
  "se_base (sample_spend_env e n) = sample_award_env e" "spend_clock (sample_spend_env e n) = 9"
  "treasury_of_env (sample_spend_env e n) = ''0xA1''" "se_encode (sample_spend_env e n) = (\<lambda>_ _ _. ''0x'')"
  "sq_user keyed_sample = ''0xB2''" "sq_operationKey keyed_sample = Some sample_spend_key" "sq_settlement keyed_sample = None"
  "sq_reservation keyed_sample = Some ''r1''" "sq_session keyed_sample = Some ''s1''" "spend_uid keyed_sample = ''U''"
  by (simp_all add: sample_spend_env_def spend_clock_def treasury_of_env_def keyed_sample_def sample_request_def spend_uid_def)
    (simp add: sample_award_env_def)

lemma sample_spend_key_of: "spend_key_of (sample_spend_env e n) sample_request = Inr sample_spend_key"
proof -
  have "js_trim ''i1'' = ''i1''" by code_simp
  then show ?thesis by (simp add: spend_key_of_def sample_request_def guard_def isNonEmptyOperationKey_def spendOperationKey_def
      sample_spend_key_def)
qed

lemma sample_spend_prepared: "prepareSpend sample_request" "canonicalTokenAmount (JNum (sq_amount sample_request)) = Some three_tokens"
  using three_tokens by (simp_all add: prepareSpend_def sample_request_def del: of_nat_numeral)

lemma three_tokens_value: "amount_value three_tokens = Fin (of_nat 3)"
  using sample_amount by (simp add: three_tokens_def)

lemma sample_preflight:
  "preflightSpend (sample_spend_env e n) ''0xB2'' ''0xA1'' (amount_value three_tokens) sample_asset
    = (if n < 3 * 10 ^ 18 then Inl (KnownSpendPreflightFailure (''insufficient allowance for 0xa1: '' @ bigint_string n
         @ '' < '' @ bigint_string (3 * 10 ^ 18))) else Inr ())"
  unfolding preflightSpend_def three_tokens_value three_tokens(1)
  by (simp add: of_option_def three_tokens(3) token_wei_def guard_def sample_spend_env_def sample_chain_def unavailable_read_def
      sample_asset_def transfer_check_def Let_def)

lemma spend_evidence_valid:
  "\<exists>proof. spend_evidence (sample_spend_env (Some spend_chain) n) sample_asset ''0xB2'' 300 (sample_hash CHR ''a'') = Some (Inr proof)"
  using transfer_proof [of "Call_Transfer_From ''0xB2'' ''0xa1'' (3 * 10 ^ 18)" "''0xB2''" "''0xa1''" METHOD_TRANSFER_FROM]
  by (auto simp: spend_evidence_def sample_asset_def token_wei_def spend_chain_def call_arguments_def
      transfer_chain_def of_option_def or_text_def nonempty_def)

lemma sample_spend_claimed:
  assumes "cr_key q = k" and "cr_type q = SPEND" and "cr_amount q = numeric2_text 300" and "cr_balance q = None"
  shows "claim now ident q empty_db = Inr (\<lparr>cl_operation = Some (new_operation now ident q 300), cl_acquired = True, cl_legacy = None\<rparr>,
      empty_db\<lparr>t_operations := [new_operation now ident q 300]\<rparr>)"
  using assms
  by (simp add: claim_def canonicalTokenAmount_text of_option_def find_operation_def empty_db_def check_charging_session_def
      given_def nonempty_def check_legacy_claims_def legacy_award_def checkManualCapacity_def insert_operation_def session_taken_def)

text \<open>A spend of three tokens is recorded for a new owner.\<close>

lemma tables_spent:
  assumes "sr_wallet q = ''0xB2''" and "sr_txHash q = sample_hash CHR ''a''" and "sr_amount q = units_number 300" and "sr_uid q = Some ''U''"
  shows "\<exists>s row d'. recordSpend now uident ident q (empty_db\<lparr>t_operations := [m], t_leases := ls\<rparr>) = Inr (s, d') \<and> t_operations d' = [m]
    \<and> t_spends d' = [row] \<and> sp_amount row = 300 \<and> sp_wallet row = ''0xB2''"
proof -
  define book where "book = empty_db\<lparr>t_operations := [m], t_leases := ls\<rparr>"
  have "canonical_hash (sr_txHash q) ''transaction hash'' = Inr (sample_hash CHR ''a'')"
    using sample_hash_canonical [of "CHR ''a''"] assms(2) by simp
  moreover have "canonicalTokenAmount (JNum (sr_amount q)) =
      Some \<lparr>units = 300, decimal = numeric2_text 300, amount_value = units_number 300\<rparr>"
    using cents_number [of 300] by (simp add: assms(3))
  moreover have "spend_by_hash book h = Inr None" for h
    by (simp add: book_def spend_by_hash_def unambiguous_iff)
  moreover have "spend_owner book q = None"
    using assms(4) by (simp add: book_def spend_owner_def nonempty_def find_user_def)
  ultimately show ?thesis
    using assms(1,4) unfolding book_def
    by (simp add: recordSpend_def of_option_def new_spend_def find_or_create_def Let_def insert_returning_def insert_user_def
        known_uid_def insert_spend_def debit_balance_def spend_user_def new_user_def nonempty_def spend_row_of_def)
qed

subsection \<open>The whole run\<close>

lemma sample_spend_projected:
  assumes "op_key m = sample_spend_key" and "op_tx_hash m = Some (sample_hash CHR ''a'')" and "op_status m = SUBMITTED"
  shows "\<exists>d' x m' row. projectSpendOperation (sample_spend_env e n)
        (sent_projection keyed_sample sample_spend_key three_tokens SUBMITTED (sample_hash CHR ''a'') None None) keyed_sample
        (Some (Some (Inr proof))) (ledger_book m l) = (d', x)
      \<and> sx_success x \<and> \<not> sx_duplicate x \<and> sx_amount x = Fin (of_nat 3) \<and> t_operations d' = [m'] \<and> op_key m' = sample_spend_key
      \<and> op_status m' = PROJECTED \<and> t_spends d' = [row] \<and> sp_amount row = 300 \<and> sp_wallet row = ''0xB2''"
proof -
  define env where "env = sample_spend_env e n"
  define p where "p = sent_projection keyed_sample sample_spend_key three_tokens SUBMITTED (sample_hash CHR ''a'') None None"
  define v where "v = replay_request p keyed_sample"
  have b: "ae_saved (se_base env) y" "spend_clock env = 9" for y by (simp_all add: env_def)
  have h: "nonempty (Some (sample_hash CHR ''a'')) = Some (sample_hash CHR ''a'')"
    using sample_hash_text by (auto simp: nonempty_def dest: is_tx_hash_nonempty)
  have p: "sj_key p = sample_spend_key" "sj_status p = SUBMITTED" "sj_tx_hash p = Some (sample_hash CHR ''a'')" "sj_outcome p = None"
    by (simp_all add: p_def sent_projection_def)
  have v: "sq_amount v = units_number 300" "sq_user v = ''0xB2''" "sq_uid v = Some ''U''"
    using column_number [of 300] by (simp_all add: v_def replay_request_def p_def sent_projection_def three_tokens(2))
  obtain m1 where m1: "snd (markConfirmed 9 sample_spend_key None (ledger_book m l)) = ledger_book m1 l" "op_key m1 = sample_spend_key"
    "op_tx_hash m1 = op_tx_hash m" "op_status m1 = CONFIRMED"
    using book_confirmed [OF assms(1) _ assms(3)] assms(2) by auto
  obtain mr where mr: "markConfirmed 9 sample_spend_key None (ledger_book m l) = (mr, ledger_book m1 l)" using m1(1) by (metis prod.collapse)
  have c: "confirm_spend env p v (sample_hash CHR ''a'') OUT_UNKNOWN (Some (Inr proof)) (ledger_book m l)
      = Inr (ledger_book m1 l, outcome_or OUT_CONFIRMED mr)"
    by (simp add: confirm_spend_def Let_def p b mr)
  define rec where "rec = spend_record_of v (sample_hash CHR ''a'')"
  have rec: "sr_wallet rec = ''0xB2''" "sr_txHash rec = sample_hash CHR ''a''" "sr_amount rec = units_number 300" "sr_uid rec = Some ''U''"
    by (simp_all add: rec_def spend_record_of_def v)
  obtain s row d2 where r: "recordSpend 9 (ae_user_ident (se_base env)) (se_spend_ident env) rec (ledger_book m1 l) = Inr (s, d2)"
    "t_operations d2 = [m1]" "t_spends d2 = [row]" "sp_amount row = 300" "sp_wallet row = ''0xB2''"
    using tables_spent [OF rec] unfolding ledger_book_def by metis
  obtain m2 where m2: "t_operations (snd (markProjected 9 sample_spend_key d2)) = [m2]" "op_key m2 = sample_spend_key" "op_status m2 = PROJECTED"
    using book_projected [OF r(2) m1(2) _ m1(4)] h by (auto simp: m1(3) assms(2) given_def)
  have t: "t_spends (snd (markProjected 9 sample_spend_key d2)) = [row]"
    using r(3) by (simp add: markProjected_def Let_def update_operations_def split: option.split)
  obtain pr d3 where d3: "markProjected 9 sample_spend_key d2 = (pr, d3)" by (cases "markProjected 9 sample_spend_key d2")
  have "projectSpendOperation env p keyed_sample (Some (Some (Inr proof))) (ledger_book m l)
      = (d3, completed_spend (sq_amount v) (sq_user v) sample_spend_key (Some (sample_hash CHR ''a'')) False
          (outcome_or (outcome_or OUT_CONFIRMED mr) pr))"
    unfolding projectSpendOperation_def Let_def v_def [symmetric] p h option.case c
    by (simp add: record_spend_def Let_def rec_def [symmetric] saving_def b r(1) p d3)
  then show ?thesis using m2 t r(4,5) v sample_amount d3
    by (auto simp: env_def p_def completed_spend_def)
qed

definition sample_spend_row :: operation_row where
  "sample_spend_row = new_operation 9 ''o1'' (spend_claim (sample_spend_env None 0) keyed_sample sample_spend_key three_tokens sample_asset) 300"

lemma sample_spend_claim:
  "spend_claim (sample_spend_env e n) keyed_sample sample_spend_key three_tokens sample_asset
    = spend_claim (sample_spend_env None 0) keyed_sample sample_spend_key three_tokens sample_asset"
  by (simp add: spend_claim_def nonempty_def)

lemma sample_spend_reaches_claim:
  "processSpend (sample_spend_env e n) sample_request empty_db
    = claimed_spend (sample_spend_env e n) keyed_sample sample_spend_key three_tokens sample_asset sample_spend_row True
        (empty_db\<lparr>t_operations := [sample_spend_row]\<rparr>)"
proof -
  define env where "env = sample_spend_env e n"
  have b: "se_base env = sample_award_env e" "spend_clock env = 9" by (simp_all add: env_def)
  have c: "spend_claim env keyed_sample sample_spend_key three_tokens sample_asset
      = spend_claim (sample_spend_env None 0) keyed_sample sample_spend_key three_tokens sample_asset"
    using sample_spend_claim by (simp add: env_def)
  have q: "cr_key (spend_claim (sample_spend_env None 0) keyed_sample sample_spend_key three_tokens sample_asset) = sample_spend_key"
    "cr_type (spend_claim (sample_spend_env None 0) keyed_sample sample_spend_key three_tokens sample_asset) = SPEND"
    "cr_amount (spend_claim (sample_spend_env None 0) keyed_sample sample_spend_key three_tokens sample_asset) = numeric2_text 300"
    "cr_balance (spend_claim (sample_spend_env None 0) keyed_sample sample_spend_key three_tokens sample_asset) = None"
    by (simp_all add: spend_claim_def three_tokens(2) nonempty_def)
  have "keyed_spend env keyed_sample sample_spend_key three_tokens empty_db
      = claimed_spend env keyed_sample sample_spend_key three_tokens sample_asset sample_spend_row True
          (empty_db\<lparr>t_operations := [sample_spend_row]\<rparr>)"
    using sample_spend_claimed [OF q, of 9 "''o1''"]
    by (simp add: keyed_spend_def settle_context_def b sample_asset_of saving_def c sample_spend_row_def [symmetric])
  then show ?thesis
    using sample_spend_prepared sample_spend_key_of
    by (simp add: processSpend_def Let_def env_def keyed_sample_def)
qed

lemma sample_spend_row:
  "op_key sample_spend_row = sample_spend_key" "op_status sample_spend_row = SUBMITTING" "op_tx_hash sample_spend_row = None"
  "assetContextMismatch (op_intent sample_spend_row) sample_asset = None"
  using sample_asset_kept [of "[]" "[]"] by (simp_all add: sample_spend_row_def new_operation_def spend_claim_def)

lemma sample_spend_run:
  "\<exists>d' x m row. processSpend (sample_spend_env (Some spend_chain) (10 ^ 19)) sample_request empty_db = (d', [''0x02''], x)
      \<and> sx_success x \<and> \<not> sx_duplicate x \<and> sx_amount x = Fin (of_nat 3) \<and> t_operations d' = [m] \<and> op_key m = sample_spend_key
      \<and> op_status m = PROJECTED \<and> t_spends d' = [row] \<and> sp_amount row = 300 \<and> sp_wallet row = ''0xB2''"
proof -
  define env where "env = sample_spend_env (Some spend_chain) (10 ^ 19)"
  have b: "se_base env = sample_award_env (Some spend_chain)" "spend_clock env = 9" "treasury_of_env env = ''0xA1''"
    "se_encode env = (\<lambda>_ _ _. ''0x'')" by (simp_all add: env_def)
  obtain m l v where s: "prepareAndBroadcastTransaction sample_chain 9 (sample_transfer sample_spend_key) (empty_db\<lparr>t_operations := [sample_spend_row]\<rparr>)
      = (ledger_book m l, [''0x02''], Inr v)" "rr_txHash v = sample_hash CHR ''a''" "op_status m = SUBMITTED"
    "op_tx_hash m = Some (sample_hash CHR ''a'')" "same_intent sample_spend_row m"
    using transfer_run [OF sample_spend_row(1) _ sample_spend_row(2,3) empty_leases] by (auto simp: ledger_book_def sample_spend_key_def)
  have mk: "op_key m = sample_spend_key" using s(5) sample_spend_row(1) by (simp add: same_intent_def)
  have sub: "submitSpend env ''0xB2'' ''0xA1'' (amount_value three_tokens) sample_spend_key ''80002'' ''0xc0'' TARGET_OPERATION
      (empty_db\<lparr>t_operations := [sample_spend_row]\<rparr>) = (ledger_book m l, [''0x02''], Inr v)"
    unfolding submitSpend_def three_tokens_value three_tokens(1) option.case using s(1)
    by (simp add: three_tokens(3) b sample_transfer_def)
  have mark: "markSubmitted 9 sample_spend_key (rr_txHash v) (ledger_book m l) = Inr (submitted_row 9 m, ledger_book (submitted_row 9 m) l)"
    using book_submitted [OF mk s(4,3)] by (simp add: s(2))
  obtain pf where ev: "spend_evidence env sample_asset ''0xB2'' 300 (sample_hash CHR ''a'') = Some (Inr pf)"
    using spend_evidence_valid by (auto simp: env_def)
  have sm: "op_key (submitted_row 9 m) = sample_spend_key" "op_tx_hash (submitted_row 9 m) = Some (sample_hash CHR ''a'')"
    "op_status (submitted_row 9 m) = SUBMITTED" using mk s(4) by (simp_all add: submitted_row_def)
  obtain d' x m' row where r: "projectSpendOperation env
      (sent_projection keyed_sample sample_spend_key three_tokens SUBMITTED (sample_hash CHR ''a'') None None) keyed_sample
      (Some (Some (Inr pf))) (ledger_book (submitted_row 9 m) l) = (d', x)"
    and rest: "sx_success x" "\<not> sx_duplicate x" "sx_amount x = Fin (of_nat 3)" "t_operations d' = [m']" "op_key m' = sample_spend_key"
      "op_status m' = PROJECTED" "t_spends d' = [row]" "sp_amount row = 300" "sp_wallet row = ''0xB2''"
    using sample_spend_projected [OF sm, of "Some spend_chain" "10 ^ 19" pf l] by (auto simp: env_def)
  have a: "ac_chainId sample_asset = ''80002''" "tokenContractAddress sample_asset = ''0xc0''" by (simp_all add: sample_asset_def)
  have "sent_spend env keyed_sample sample_spend_key three_tokens sample_asset (empty_db\<lparr>t_operations := [sample_spend_row]\<rparr>)
      = (d', [''0x02''], x)"
    using sub mark ev r by (simp add: sent_spend_def saving_def b s(2) three_tokens(3) a)
  moreover have "preflightSpend env ''0xB2'' ''0xA1'' (amount_value three_tokens) sample_asset = Inr ()"
    by (simp add: env_def sample_preflight)
  ultimately have "processSpend env sample_request empty_db = (d', [''0x02''], x)"
    unfolding env_def sample_spend_reaches_claim by (simp add: claimed_spend_def sample_spend_row(4))
  then show ?thesis using rest unfolding env_def by blast
qed

end
