(* ===== verification/OpenHolds.thy ===== *)
theory OpenHolds
  imports ExecutorLaws
begin

text \<open>
  Reservations in the histories of the service, and the steps of a spend and of an unfinished settlement: they
  move the ledger, the leases, the approvals, the spends and the progress of reservations, but finish none.
\<close>

subsection \<open>Reservations in the histories\<close>

lemma recording_reservations:
  assumes "recording_step d d'" and "accounts_ok d"
  shows "accounts_ok d'" and "reservations_grow d d'"
  using recording_step_accounts [OF assms] by (simp_all add: account_step_def service_grows_def)

interpretation recorded_holds: terminal_store find_reservation reservation_le accounts_ok recording_step
  "\<lambda>r. final_reservation (rv_status r)"
proof unfold_locales
  show "accounts_ok d'" if "accounts_ok d" "recording_step d d'" for d d' by (rule recording_reservations(1) [OF that(2,1)])
  show "\<exists>r'. find_reservation d' k = Some r' \<and> reservation_le r r'"
    if "accounts_ok d" "recording_step d d'" "find_reservation d k = Some r" for d d' k r
    using recording_reservations(2) [OF that(2,1)] that(3)
    by (simp add: reservations_grow_def table_grows_def row_at_def find_reservation_def)
  show "reservation_le a b \<Longrightarrow> reservation_le b c \<Longrightarrow> reservation_le a c" for a b c by (rule reservation_le_trans)
  show "final_reservation (rv_status r) \<Longrightarrow> reservation_le r r' \<Longrightarrow> r' = r" for r r' by (simp add: reservation_le_def)
qed simp

lemma accounts_reservations: "accounts_ok d \<Longrightarrow> reservations_ok d"
  by (simp add: accounts_ok_def service_ok_def)

lemma reservation_found:
  assumes "accounts_ok d" and "r \<in> set (t_reservations d)"
  shows "find_reservation d (rv_id r) = Some r"
proof -
  have "distinct (map rv_id (t_reservations d))" using accounts_reservations [OF assms(1)] by (simp add: reservations_ok_def)
  then show ?thesis using row_at_distinct [of rv_id "t_reservations d" r] assms(2) by (simp add: find_reservation_def row_at_def)
qed

subsection \<open>Steps that finish no reservation\<close>

inductive open_step :: "db \<Rightarrow> db \<Rightarrow> bool" where
  open_ledger: "ledger_step d d' \<Longrightarrow> open_step d d'"
| open_lease: "lease_step d d' \<Longrightarrow> open_step d d'"
| open_approval: "approval_step d d' \<Longrightarrow> open_step d d'"
| open_spend: "recordSpend now uident ident s d = Inr (x, d') \<Longrightarrow> open_step d d'"
| open_context: "persistSettlementContext now i v d = Inr (y, d') \<Longrightarrow> open_step d d'"
| open_claim: "open_step d (snd (claimForSettlement now u t p d))"
| open_retry: "open_step d (retrySettlement now i e d)"

lemma open_recording: "open_step d d' \<Longrightarrow> recording_step d d'"
  by (erule open_step.cases)
    (auto intro: by_operation by_nonce by_preparation by_record_spend by_hold step_context step_claim_settlement step_retry)

lemma open_records: "open_step\<^sup>*\<^sup>* d d' \<Longrightarrow> recording_step\<^sup>*\<^sup>* d d'"
  using rtranclp_mono [of open_step recording_step] open_recording by blast

lemma ledger_steps_open: "ledger_step\<^sup>*\<^sup>* d d' \<Longrightarrow> open_step\<^sup>*\<^sup>* d d'"
  using rtranclp_mono [of ledger_step open_step] open_ledger by blast

lemma lease_steps_open: "lease_step\<^sup>*\<^sup>* d d' \<Longrightarrow> open_step\<^sup>*\<^sup>* d d'"
  using rtranclp_mono [of lease_step open_step] open_lease by blast

lemma open_accounts: "open_step\<^sup>*\<^sup>* d d' \<Longrightarrow> accounts_ok d \<Longrightarrow> accounts_ok d'"
  by (rule award_store.steps_invar [OF open_records])

text \<open>A row of an updated table was final before, when the update makes none final.\<close>

lemma final_before_update:
  assumes "r' \<in> set (t_reservations (update_reservations P f d))" and "final_reservation (rv_status r')"
    and "\<And>r. rv_id (f r) = rv_id r" and "\<And>r. P r \<Longrightarrow> final_reservation (rv_status (f r)) \<Longrightarrow> final_reservation (rv_status r)"
  shows "\<exists>r \<in> set (t_reservations d). rv_id r = rv_id r' \<and> final_reservation (rv_status r)"
  using assms by (auto simp: update_reservations_def set_update_where)

lemma open_final_row:
  assumes "open_step d d'" and "accounts_ok d" and "r' \<in> set (t_reservations d')" and "final_reservation (rv_status r')"
  shows "\<exists>r \<in> set (t_reservations d). rv_id r = rv_id r' \<and> final_reservation (rv_status r)"
proof -
  have w: "leases_ok d" "approvals_ok d" "wallets_ok d" using assms(2) by (simp_all add: accounts_ok_def service_ok_def)
  have same: ?thesis if "t_reservations d' = t_reservations d" using assms(3,4) that by auto
  show ?thesis using assms(1)
  proof cases
    case open_ledger
    then show ?thesis using ledger_step_outside by (intro same) (auto simp: outside_defs frame_defs)
  next
    case open_lease
    then show ?thesis using lease_step_keeps w by (intro same) (auto simp: outside_defs frame_defs)
  next
    case open_approval
    then show ?thesis using approval_step_keeps w by (intro same) (auto simp: outside_defs frame_defs)
  next
    case (open_spend now uident ident s x)
    then show ?thesis
    proof (cases rule: recordSpend_cases)
      case (2 h amt)
      from 2(4) show ?thesis
        by (rule new_spend_shape)
          (rule same, use find_or_create_keeps w in \<open>fastforce simp: outside_defs frame_defs insert_spend_Inr debit_balance_def\<close>)
    qed (rule same, simp)
  next
    case (open_context now i v y)
    then show ?thesis
    proof (cases rule: persist_cases)
      case (stored c dk f)
      show ?thesis using assms(3) unfolding stored(7) by (rule final_before_update [OF _ assms(4)]) (simp_all add: stored(5))
    qed (rule same, simp)
  next
    case (open_claim now u t p)
    show ?thesis
      using assms(3) unfolding open_claim claimForSettlement_def Let_def snd_conv
      by (rule final_before_update [OF _ assms(4)]) (simp_all add: final_reservation_def)
  next
    case (open_retry now i e)
    show ?thesis
    proof (cases "d' = d")
      case False
      then have upd: "d' = update_reservations (\<lambda>r. rv_id r = i \<and> \<not> final_reservation (rv_status r))
          (\<lambda>r. r\<lparr>rv_status := SETTLING, rv_error := Some e, rv_updated := now\<rparr>) d"
        using open_retry by (auto simp: retrySettlement_def split: option.splits if_splits)
      show ?thesis using assms(3) unfolding upd by (rule final_before_update [OF _ assms(4)]) simp_all
    qed (rule same, simp)
  qed
qed

text \<open>A reservation that is final after such steps was final before, and is the same row.\<close>

lemma open_finals:
  assumes "open_step\<^sup>*\<^sup>* d d'" and "accounts_ok d" and "r \<in> set (t_reservations d')" and "final_reservation (rv_status r)"
  shows "r \<in> set (t_reservations d)"
  using assms(1,3)
proof (induction rule: rtranclp_induct)
  case (step d1 d2)
  have ok: "accounts_ok d1" by (rule open_accounts [OF step(1) assms(2)])
  obtain r1 where r1: "r1 \<in> set (t_reservations d1)" "rv_id r1 = rv_id r" "final_reservation (rv_status r1)"
    using open_final_row [OF step(2) ok step(4) assms(4)] by blast
  have steps: "recording_step\<^sup>*\<^sup>* d1 d2" using open_recording [OF step(2)] by blast
  have "find_reservation d2 (rv_id r) = Some r1"
    using recorded_holds.final_forever [OF steps ok _ r1(3)] reservation_found [OF ok r1(1)] r1(2) by simp
  moreover have "find_reservation d2 (rv_id r) = Some r"
    by (rule reservation_found [OF award_store.steps_invar [OF steps ok] step(4)])
  ultimately have "r = r1" by simp
  then show ?case using step(3) r1(1) by simp
qed

end
