(* ===== verification/SpendFlowLaws.thy ===== *)
theory SpendFlowLaws
  imports SpendSample OpenHolds
begin

text \<open>
  What a run of the spend executor does: it is a history of the services, it sends at most once per key,
  it records nothing the chain did not prove except for a movement the ledger already had as confirmed or
  prepared, a result that may be retried sent nothing, and a recovery rests on fresh evidence.
\<close>

subsection \<open>Results\<close>

text \<open>The results a caller may act on with a new attempt or a new approval.\<close>

definition may_retry :: "spend_result \<Rightarrow> bool" where
  "may_retry x \<longleftrightarrow> sx_retryable x \<or> sx_preflightFailure x \<or> sx_approvalEligible x"

lemma spend_result_simps [simp]:
  "\<not> sx_success (refused_spend n u k e)" "\<not> sx_success (pendingSpendResult q st e h rv oc g)"
  "sx_success (completed_spend n u key h dup oo)" "sx_duplicate (completed_spend n u key h dup oo) = dup"
  "sx_amount (completed_spend n u key h dup oo) = n" "sx_user (completed_spend n u key h dup oo) = u"
  "sx_txHash (completed_spend n u key h dup oo) = h" "sx_key (completed_spend n u key h dup oo) = Some key"
  "\<not> may_retry (refused_spend n u k e)" "\<not> may_retry (pendingSpendResult q st e h rv oc g)"
  "\<not> may_retry (completed_spend n u key h dup oo)" "\<not> sx_success (preflightFailureResult q key e b oo g)"
  by (simp_all add: refused_spend_def pendingSpendResult_def completed_spend_def preflightFailureResult_def may_retry_def Let_def)

lemma may_retry_updates [simp]:
  "may_retry (x\<lparr>sx_txHash := a\<rparr>) = may_retry x" "may_retry (x\<lparr>sx_dbStored := b\<rparr>) = may_retry x"
  "may_retry (x\<lparr>sx_status := c\<rparr>) = may_retry x" "may_retry (x\<lparr>sx_pending := p\<rparr>) = may_retry x"
  "may_retry (x\<lparr>sx_requiresReview := p\<rparr>) = may_retry x" "may_retry (x\<lparr>sx_outcome := oc\<rparr>) = may_retry x"
  "may_retry (x\<lparr>sx_diagnostic := g\<rparr>) = may_retry x"
  by (simp_all add: may_retry_def)

subsection \<open>Projecting one spend\<close>

lemma confirm_spend_steps:
  "confirm_spend env p v h oc ev d = Inl (d', x) \<Longrightarrow> ledger_step\<^sup>*\<^sup>* d d' \<and> \<not> sx_success x \<and> \<not> may_retry x"
  "confirm_spend env p v h oc ev d = Inr (d', oc') \<Longrightarrow> ledger_step\<^sup>*\<^sup>* d d' \<and> (\<exists>proof. ev = Some (Inr proof))
     \<and> d' = snd (markConfirmed (spend_clock env) (sj_key p) None d)"
proof -
  have failed: "ledger_step\<^sup>*\<^sup>* d d1" if "markFailed now k e out g d = (row, d1)" for now k e out g row d1
    using marks(7) [of d now k e out g] that by simp
  show "ledger_step\<^sup>*\<^sup>* d d' \<and> \<not> sx_success x \<and> \<not> may_retry x" if "confirm_spend env p v h oc ev d = Inl (d', x)"
  proof (cases ev)
    case None
    then show ?thesis using that by (auto simp: confirm_spend_def Let_def intro: marks)
  next
    case (Some e)
    then show ?thesis using that
      by (cases e) (auto simp: confirm_spend_def Let_def intro: marks failed split: if_splits prod.splits)
  qed
  show "ledger_step\<^sup>*\<^sup>* d d' \<and> (\<exists>proof. ev = Some (Inr proof)) \<and> d' = snd (markConfirmed (spend_clock env) (sj_key p) None d)"
    if "confirm_spend env p v h oc ev d = Inr (d', oc')"
  proof -
    have "(\<exists>proof. ev = Some (Inr proof)) \<and> d' = snd (markConfirmed (spend_clock env) (sj_key p) None d)"
      using that by (auto simp: confirm_spend_def Let_def split: option.splits sum.splits if_splits prod.splits)
    then show ?thesis using marks(4) by simp
  qed
qed

lemma record_spend_cases:
  assumes "record_spend env p v h oc d = (d', x)"
  obtains (unrecorded) "ledger_step\<^sup>*\<^sup>* d d'" "\<not> sx_success x" "\<not> may_retry x"
  | (recorded) s d1 where
      "recordSpend (spend_clock env) (ae_user_ident (se_base env)) (se_spend_ident env) (spend_record_of v h) d = Inr (s, d1)"
      "ledger_step\<^sup>*\<^sup>* d1 d'" "\<not> may_retry x"
      "sx_success x \<longrightarrow> d' = snd (markProjected (spend_clock env) (sj_key p) d1)
         \<and> (\<exists>oc'. x = completed_spend (sq_amount v) (sq_user v) (sj_key p) (Some h) False oc')"
proof (cases "saving (se_base env) Save_Record
    (recordSpend (spend_clock env) (ae_user_ident (se_base env)) (se_spend_ident env) (spend_record_of v h) d)")
  case (Inl e)
  then show thesis using assms by (intro unrecorded) (auto simp: record_spend_def Let_def intro: marks)
next
  case (Inr y)
  obtain s d1 where y: "y = (s, d1)" by (cases y)
  have mp: "ledger_step\<^sup>*\<^sup>* d1 d2" if "markProjected now k d1 = (row, d2)" for now k row d2
    using marks(6) [of d1 now k] that by simp
  show thesis using assms Inr y
    by (intro recorded [of s d1]) (auto simp: record_spend_def Let_def saving_Inr intro: mp split: if_splits prod.splits)
qed

text \<open>The proof a recorded spend rests on, or the ledger state that excuses it.\<close>

definition spend_verified :: "spend_projection \<Rightarrow> evidence_result option option \<Rightarrow> bool" where
  "spend_verified p verify \<longleftrightarrow> sj_status p \<notin> {SUBMITTED, UNKNOWN_STATUS} \<or> (\<exists>proof. verify = Some (Some (Inr proof)))"

lemma project_spend_cases:
  assumes "projectSpendOperation env p q verify d = (d', x)"
  obtains (marked) "ledger_step\<^sup>*\<^sup>* d d'" "sx_success x \<longrightarrow> sx_duplicate x \<and> sj_status p = PROJECTED" "\<not> may_retry x"
  | (recorded) h s d1 d2 where "nonempty (sj_tx_hash p) = Some h" "sj_status p \<notin> {FAILED, PROJECTED}" "spend_verified p verify"
      "ledger_step\<^sup>*\<^sup>* d d1"
      "recordSpend (spend_clock env) (ae_user_ident (se_base env)) (se_spend_ident env) (spend_record_of (replay_request p q) h) d1
         = Inr (s, d2)"
      "ledger_step\<^sup>*\<^sup>* d2 d'" "\<not> may_retry x"
      "sx_success x \<longrightarrow> d' = snd (markProjected (spend_clock env) (sj_key p) d2)
         \<and> (\<exists>oc. x = completed_spend (text_number (sj_amount p)) (sq_user (replay_request p q)) (sj_key p) (Some h) False oc)"
proof -
  define v where "v = replay_request p q"
  define oc where "oc = (case sj_outcome p of None \<Rightarrow> OUT_UNKNOWN | Some y \<Rightarrow> y)"
  note outer = that
  note run = assms [unfolded projectSpendOperation_def Let_def, folded v_def oc_def]
  have v: "sq_amount v = text_number (sj_amount p)" by (simp add: v_def replay_request_def)
  have finish: thesis if f: "record_spend env p v h o' d1 = (d', x)" and h: "nonempty (sj_tx_hash p) = Some h"
    and st: "sj_status p \<notin> {FAILED, PROJECTED}" and ev: "spend_verified p verify" and d1: "ledger_step\<^sup>*\<^sup>* d d1" for h o' d1
    using f
  proof (cases rule: record_spend_cases)
    case unrecorded
    then show thesis using d1 by (intro marked) auto
  next
    case (recorded s d2)
    then show thesis using outer(2) [OF h st ev d1] by (simp add: v_def v [unfolded v_def])
  qed
  show thesis
  proof (cases "sj_status p = FAILED \<or> sj_status p = PROJECTED \<or> nonempty (sj_tx_hash p) = None")
    case True
    then show thesis using run by (intro marked) (auto simp: failed_spend_def split: if_splits option.splits)
  next
    case False
    then obtain h where h: "nonempty (sj_tx_hash p) = Some h" by auto
    show thesis
    proof (cases "sj_status p = SUBMITTED \<or> sj_status p = UNKNOWN_STATUS")
      case out: False
      then show thesis using run False h by (intro finish [of h oc d]) (auto simp: spend_verified_def)
    next
      case inside: True
      show thesis
      proof (cases verify)
        case None
        then show thesis using run False inside h by (intro marked) auto
      next
        case (Some answer)
        note r = run [unfolded h option.case Some]
        show thesis
        proof (cases "confirm_spend env p v h oc answer d")
          case (Inl y)
          then show thesis using r False inside confirm_spend_steps(1) [of env p v h oc answer d "fst y" "snd y"]
            by (cases y) (intro marked, auto)
        next
          case (Inr y)
          obtain d1 o' where y: "y = (d1, o')" by (cases y)
          note c = confirm_spend_steps(2) [OF Inr [unfolded y]]
          then have "spend_verified p verify" by (auto simp: spend_verified_def Some)
          then show thesis using r False inside Inr h c by (intro finish [of h o' d1]) (auto simp: y)
        qed
      qed
    qed
  qed
qed

subsection \<open>Sending one spend\<close>

lemma submitSpend_cases:
  assumes "submitSpend env u t n k chain contract target d = (d1, sent, r)"
  obtains (unsent) "sent = []" "d1 = d" "r = Inl None"
  | (run) q x where "rq_operationKey q = k" "prepareAndBroadcastTransaction (ae_chain (se_base env)) (spend_clock env) q d = (d1, sent, x)"
      "r = (case x of Inl g \<Rightarrow> Inl (Some g) | Inr v \<Rightarrow> Inr v)"
proof (cases "\<exists>a. canonicalTokenAmount (JNum n) = Some a \<and> units a \<noteq> 0")
  case False
  then show thesis using assms by (intro unsent) (auto simp: submitSpend_def split: option.splits if_splits)
next
  case True
  then obtain a where a: "canonicalTokenAmount (JNum n) = Some a" "units a \<noteq> 0" by blast
  define q where "q = \<lparr>rq_operationKey = k, rq_targetOperationKey = None, rq_targetType = target, rq_chainId = chain,
    rq_to = contract, rq_data = Some (se_encode env u t (token_wei (units a))), rq_value = Some ''0'', rq_accessList = None\<rparr>"
  obtain d2 s2 x where x: "prepareAndBroadcastTransaction (ae_chain (se_base env)) (spend_clock env) q d = (d2, s2, x)"
    by (cases "prepareAndBroadcastTransaction (ae_chain (se_base env)) (spend_clock env) q d")
  have k: "rq_operationKey q = k" by (simp add: q_def)
  show thesis using assms a x
    by (intro run [OF k, of x]) (auto simp: submitSpend_def q_def split: sum.splits)
qed

lemma submitSpend_facts:
  assumes "submitSpend env u t n k chain contract target d = (d1, sent, r)" and ok: "accounts_ok d"
  shows "open_step\<^sup>*\<^sup>* d d1" and "t_spends d1 = t_spends d"
    and "sent \<noteq> [] \<Longrightarrow> recording_step\<^sup>*\<^sup>* d1 d' \<Longrightarrow> recording_step\<^sup>*\<^sup>* d0 d \<Longrightarrow> sends_under k d0 d' sent"
    and "r = Inl g \<Longrightarrow> isPreBroadcastTransactionDiagnostic g \<Longrightarrow> sent = []"
proof -
  have lk: "leases_ok d" and ap: "approvals_ok d" using ok by (simp_all add: accounts_ok_def service_ok_def)
  have l: "lease_step\<^sup>*\<^sup>* d d1" using assms(1)
  proof (cases rule: submitSpend_cases)
    case (run q x)
    show ?thesis by (rule run_lease_steps [OF run(2) lk])
  qed simp
  show "open_step\<^sup>*\<^sup>* d d1" by (rule lease_steps_open [OF l])
  show "t_spends d1 = t_spends d" using lease_steps_awards [OF l ap] by simp
  show "sends_under k d0 d' sent" if "sent \<noteq> []" "recording_step\<^sup>*\<^sup>* d1 d'" "recording_step\<^sup>*\<^sup>* d0 d"
    using assms(1)
  proof (cases rule: submitSpend_cases)
    case (run q x)
    then show ?thesis using that unfolding sends_under_def by metis
  qed (use that in simp)
  show "sent = []" if g: "r = Inl g" "isPreBroadcastTransactionDiagnostic g"
    using assms(1)
  proof (cases rule: submitSpend_cases)
    case (run q x)
    then obtain f where f: "x = Inl f" "g = Some f" using g(1) by (cases x) auto
    from run(2) lk show ?thesis by (cases rule: run_cases) (use f g(2) in auto)
  qed simp
qed

lemma sent_spend_cases:
  assumes "sent_spend env q k a asset d = (d', sent, x)"
  obtains (marked) d1 r where "submitSpend env (sq_user q) (treasury_of_env env) (amount_value a) k (ac_chainId asset)
        (tokenContractAddress asset) TARGET_OPERATION d = (d1, sent, r)" "ledger_step\<^sup>*\<^sup>* d1 d'" "\<not> sx_success x"
      "may_retry x \<longrightarrow> (\<exists>g. r = Inl g \<and> isPreBroadcastTransactionDiagnostic g)"
  | (projected) d1 r d2 st h oc g answer where
      "submitSpend env (sq_user q) (treasury_of_env env) (amount_value a) k (ac_chainId asset)
        (tokenContractAddress asset) TARGET_OPERATION d = (d1, sent, r)" "ledger_step\<^sup>*\<^sup>* d1 d2"
      "projectSpendOperation env (sent_projection q k a st h oc g) q (Some answer) d2 = (d', x)"
      "st \<in> {SUBMITTED, UNKNOWN_STATUS}" "answer = spend_evidence env asset (sq_user q) (units a) h"
proof -
  obtain d1 s1 r where s: "submitSpend env (sq_user q) (treasury_of_env env) (amount_value a) k (ac_chainId asset)
        (tokenContractAddress asset) TARGET_OPERATION d = (d1, s1, r)"
    by (cases "submitSpend env (sq_user q) (treasury_of_env env) (amount_value a) k (ac_chainId asset)
        (tokenContractAddress asset) TARGET_OPERATION d")
  note run = assms [unfolded sent_spend_def s prod.case]
  show thesis
  proof (cases r)
    case (Inr tx)
    show thesis
    proof (cases "saving (se_base env) Save_Submitted (markSubmitted (spend_clock env) k (rr_txHash tx) d1)")
      case (Inl e)
      then show thesis using run s Inr by (intro marked [of d1 r]) (auto intro: marks)
    next
      case (Inr y)
      obtain z d2 where y: "y = (z, d2)" by (cases y)
      then have "markSubmitted (spend_clock env) k (rr_txHash tx) d1 = Inr (z, d2)" using Inr by (simp add: saving_Inr)
      then have st: "ledger_step\<^sup>*\<^sup>* d1 d2" by (rule marks)
      show thesis using run s \<open>r = Inr tx\<close> Inr y st
        by (intro projected [of d1 r d2 SUBMITTED "rr_txHash tx" None None]) (auto split: prod.splits)
    qed
  next
    case (Inl g)
    have f: "spend_send_failed env q k a asset g d1 = (d', x)" "sent = s1" using run Inl by (auto split: prod.splits)
    have review: thesis if "spend_outcome_unknown env q k g d1 = (d', x)"
      using that s f(2) by (intro marked [of d1 r]) (auto simp: spend_outcome_unknown_def Let_def intro: marks)
    show thesis
    proof (cases "isPreBroadcastTransactionDiagnostic g")
      case True
      then have "g \<noteq> None" by (cases g) (auto simp: isPreBroadcastTransactionDiagnostic_def)
      then have m: "ledger_step\<^sup>*\<^sup>* d1 d'" "\<not> sx_success x"
        using f(1) True by (auto simp: spend_send_failed_def Let_def intro: marks)
      show thesis by (rule marked [OF s [folded f(2)] m]) (use Inl True in blast)
    next
      case False
      show thesis
      proof (cases "\<exists>dg h e. g = Some dg \<and> nonempty (dg_savedHash dg) = Some h \<and> dg_stage dg = BROADCAST
          \<and> ch_provider (ae_chain (se_base env)) \<and> spend_evidence env asset (sq_user q) (units a) h = Some e")
        case True
        then obtain dg h e where c: "g = Some dg" "nonempty (dg_savedHash dg) = Some h" "dg_stage dg = BROADCAST"
          "ch_provider (ae_chain (se_base env))" "spend_evidence env asset (sq_user q) (units a) h = Some e" by blast
        show thesis
          using f s c False by (intro projected [of d1 r d1 UNKNOWN_STATUS h "Some OUT_UNKNOWN" g "Some e"])
            (auto simp: spend_send_failed_def Let_def)
      next
        case out: False
        show thesis
          by (rule review) (use f(1) False out in \<open>auto simp: spend_send_failed_def Let_def split: option.splits if_splits\<close>)
      qed
    qed
  qed
qed

subsection \<open>A whole run\<close>

lemma settle_cases:
  assumes "settle_context env q k d = Inr d1"
  shows "open_step\<^sup>*\<^sup>* d d1 \<and> t_spends d1 = t_spends d \<and> t_operations d1 = t_operations d"
proof (cases "sq_settlement q")
  case None
  then show ?thesis using assms by (simp add: settle_context_def)
next
  case (Some p)
  obtain i v where p: "p = (i, v)" by (cases p)
  obtain y where y: "persistSettlementContext (spend_clock env) i v d = Inr (y, d1)"
    using assms by (auto simp: settle_context_def Some p split: if_splits sum.splits option.splits)
  have "open_step d d1" by (rule open_context [OF y])
  moreover have "t_spends d1 = t_spends d \<and> t_operations d1 = t_operations d"
    using persist_shape [OF y] by (auto simp: update_reservations_def)
  ultimately show ?thesis by blast
qed

lemma settle_refused: "settle_context env q k d = Inl x \<Longrightarrow> \<not> sx_success x"
  by (auto simp: settle_context_def settlement_failure_def saved_spend_def refused_spend_def split: option.splits prod.splits if_splits sum.splits)

lemma spend_claim_found:
  assumes "claim now ident c d = Inr (y, d')" and "cr_type c = SPEND" and "\<not> cl_acquired y" and "cl_operation y = Some r"
  shows "find_operation d (cr_key c) = Some r \<and> d' = d"
  using assms(1)
proof (cases rule: claim_cases)
  case (legacy a)
  then show ?thesis using assms(1,2) by (auto simp: claim_def rbind_Inr_iff legacy_award_def split: option.splits)
qed (use assms(3,4) in auto)

lemma preflight_refused_steps:
  "preflight_refused env q k e d = (d', x) \<Longrightarrow> ledger_step\<^sup>*\<^sup>* d d' \<and> \<not> sx_success x"
  using marks(8) [of d "spend_clock env" k]
  by (auto simp: preflight_refused_def Let_def split: if_splits prod.splits) (metis snd_conv)+

lemma claimed_spend_cases:
  assumes "claimed_spend env q k a asset r acquired d = (d', sent, x)"
  obtains (quiet) "ledger_step\<^sup>*\<^sup>* d d'" "sent = []" "\<not> sx_success x"
  | (existing) "\<not> acquired" "sent = []"
      "projectSpendOperation env (spend_projection_of r) q (saved_spend_evidence env asset r) d = (d', x)"
  | (sends) "acquired" "preflightSpend env (sq_user q) (treasury_of_env env) (amount_value a) asset = Inr ()"
      "sent_spend env q k a asset d = (d', sent, x)"
proof (cases "assetContextMismatch (op_intent r) asset")
  case (Some m)
  then show thesis using assms by (intro quiet) (auto simp: claimed_spend_def saved_spend_def)
next
  case None
  note run = assms [unfolded claimed_spend_def None option.case]
  show thesis
  proof (cases acquired)
    case False
    then show thesis using run by (intro existing) (auto split: prod.splits)
  next
    case acq: True
    show thesis
    proof (cases "preflightSpend env (sq_user q) (treasury_of_env env) (amount_value a) asset")
      case (Inl e)
      then show thesis using run acq preflight_refused_steps by (intro quiet) (auto split: prod.splits)
    next
      case (Inr u)
      then show thesis using run acq by (intro sends) auto
    qed
  qed
qed

text \<open>Up to the claim a run only settles the context of its reservation; then it follows \<open>claimed_spend\<close>.\<close>

lemma keyed_spend_cases:
  assumes "keyed_spend env q k a d = (d', sent, x)"
  obtains (quiet) "open_step\<^sup>*\<^sup>* d d'" "t_spends d' = t_spends d" "sent = []" "\<not> sx_success x"
  | (claimed) asset c r d1 d2 where "open_step\<^sup>*\<^sup>* d d1" "t_spends d1 = t_spends d" "t_operations d1 = t_operations d"
      "asset_of (se_base env) = Some asset" "cl_operation c = Some r"
      "claim (spend_clock env) (ae_ident (se_base env)) (spend_claim env q k a asset) d1 = Inr (c, d2)"
      "claimed_spend env q k a asset r (cl_acquired c) d2 = (d', sent, x)"
proof (cases "settle_context env q k d")
  case (Inl y)
  then show thesis using assms settle_refused [OF Inl] by (intro quiet) (auto simp: keyed_spend_def)
next
  case (Inr d1)
  note st = settle_cases [OF Inr]
  note run = assms [unfolded keyed_spend_def Inr sum.case]
  show thesis
  proof (cases "asset_of (se_base env)")
    case None
    then show thesis using run st by (intro quiet) (auto simp: unverified_asset_def saved_spend_def split: option.splits if_splits)
  next
    case asset: (Some asset)
    show thesis
    proof (cases "saving (se_base env) Save_Claim (claim (spend_clock env) (ae_ident (se_base env)) (spend_claim env q k a asset) d1)")
      case (Inl e)
      then show thesis using run asset st by (intro quiet) auto
    next
      case (Inr y)
      obtain c d2 where y: "y = (c, d2)" by (cases y)
      have cl: "claim (spend_clock env) (ae_ident (se_base env)) (spend_claim env q k a asset) d1 = Inr (c, d2)"
        using Inr y by (simp add: saving_Inr)
      have d2: "ledger_step\<^sup>*\<^sup>* d1 d2" by (rule marks(1) [OF cl])
      show thesis
      proof (cases "cl_operation c")
        case None
        then show thesis using run asset Inr y st ledger_steps_open [OF d2] ledger_steps_awards [OF d2] by (intro quiet) auto
      next
        case (Some r)
        then show thesis using run asset Inr y st cl by (intro claimed [of d1 asset c r d2]) auto
      qed
    qed
  qed
qed

lemma process_spend_cases:
  assumes "processSpend env q d = (d', sent, x)"
  obtains (quiet) "open_step\<^sup>*\<^sup>* d d'" "sent = []" "\<not> sx_success x" "t_spends d' = t_spends d"
  | (existing) k d1 r asset where "spend_key_of env q = Inr k" "open_step\<^sup>*\<^sup>* d d1" "t_spends d1 = t_spends d"
      "find_operation d k = Some r" "sent = []" "asset_of (se_base env) = Some asset"
      "projectSpendOperation env (spend_projection_of r) (q\<lparr>sq_operationKey := Some k\<rparr>) (saved_spend_evidence env asset r) d1 = (d', x)"
  | (sends) k a asset d1 where "spend_key_of env q = Inr k" "canonicalTokenAmount (JNum (sq_amount q)) = Some a"
      "asset_of (se_base env) = Some asset" "open_step\<^sup>*\<^sup>* d d1" "t_spends d1 = t_spends d"
      "preflightSpend env (sq_user q) (treasury_of_env env) (amount_value a) asset = Inr ()"
      "sent_spend env (q\<lparr>sq_operationKey := Some k\<rparr>) k a asset d1 = (d', sent, x)"
proof (cases "\<exists>k a. prepareSpend q \<and> canonicalTokenAmount (JNum (sq_amount q)) = Some a \<and> spend_key_of env q = Inr k")
  case False
  then have "d' = d \<and> sent = [] \<and> \<not> sx_success x"
    using assms by (auto simp: processSpend_def Let_def split: if_splits option.splits sum.splits)
  then show thesis by (intro quiet) auto
next
  case True
  then obtain k a where k: "prepareSpend q" "canonicalTokenAmount (JNum (sq_amount q)) = Some a" "spend_key_of env q = Inr k" by blast
  define v where "v = q\<lparr>sq_operationKey := Some k\<rparr>"
  have "keyed_spend env v k a d = (d', sent, x)" using assms k by (simp add: processSpend_def Let_def v_def)
  then show thesis
  proof (cases rule: keyed_spend_cases)
    case a: quiet
    then show thesis by (intro quiet)
  next
    case (claimed asset c r d1 d2)
    note d2 = marks(1) [OF claimed(6)]
    have h: "open_step\<^sup>*\<^sup>* d d2" "t_spends d2 = t_spends d"
      using claimed(1,2) ledger_steps_open [OF d2] ledger_steps_awards [OF d2] by auto
    from claimed(7) show thesis
    proof (cases rule: claimed_spend_cases)
      case a: quiet
      have "open_step\<^sup>*\<^sup>* d d'" "t_spends d' = t_spends d"
        using h ledger_steps_open [OF a(1)] ledger_steps_awards [OF a(1)] by auto
      then show thesis using a by (intro quiet)
    next
      case e: existing
      have "find_operation d1 k = Some r" "d2 = d1"
        using spend_claim_found [OF claimed(6) _ e(1) claimed(5)] by (simp_all add: spend_claim_def)
      then show thesis using e claimed k by (intro existing [of k d1 r asset]) (auto simp: find_operation_def v_def)
    next
      case s: sends
      then show thesis using h k claimed by (intro sends [of k a asset d2]) (auto simp: v_def)
    qed
  qed
qed

end
