(* ===== verification/Lifecycle.thy ===== *)
theory Lifecycle
  imports Service
begin

text \<open>
  What holds of every history of the services: movements, leases, reservations, wallets and
  projections over any number of steps. The invariants come from the interpretations of
  \<open>terminal_store\<close> in \<open>Service\<close>.
\<close>

subsection \<open>Samples\<close>

definition sample_claim :: claim_request where
  "sample_claim = \<lparr>cr_key = ''op'', cr_type = AWARD, cr_fingerprint = ''f'', cr_uid = ''u'',
     cr_wallet = ''0xB2'', cr_amount = numeric2_text 100, cr_session_id = Some ''s'', cr_provider_id = Some ''p'',
     cr_charging_session = Some ''c'', cr_reservation = None, cr_intent = None, cr_legacy_key = None, cr_balance = None\<rparr>"

definition sample_claimed :: db where
  "sample_claimed = empty_db\<lparr>t_operations := [new_operation 0 ''i'' sample_claim 100]\<rparr>"

lemma sample_claim_runs:
  "claim 0 ''i'' sample_claim empty_db =
     Inr (\<lparr>cl_operation = Some (new_operation 0 ''i'' sample_claim 100), cl_acquired = True, cl_legacy = None\<rparr>, sample_claimed)"
  by (simp add: claim_def sample_claim_def canonicalTokenAmount_text of_option_def find_operation_def empty_db_def
      check_charging_session_def check_legacy_claims_def legacy_award_def checkManualCapacity_def insert_operation_def
      session_taken_def sample_claimed_def)

lemma sample_claimed_reachable: "service_step\<^sup>*\<^sup>* empty_db sample_claimed"
  using by_ledger [OF step_claim [OF sample_claim_runs]] by (rule r_into_rtranclp)

definition hashed_operation :: operation_row where
  "hashed_operation = (new_operation 0 ''i'' sample_claim 100)\<lparr>op_tx_hash := Some (sample_hash CHR ''a''), op_status := SUBMITTED\<rparr>"

definition failed_lease :: lease_row where
  "failed_lease = \<lparr>ls_key = ''l'', ls_target_key = None, ls_target = TARGET_STANDALONE, ls_chain = ''80002'',
     ls_signer = ''0xa1'', ls_nonce = 7, ls_tx_hash = sample_hash CHR ''b'', ls_context = sample_context 7,
     ls_status = LEASE_FAILED, ls_diagnostic = None, ls_error = None, ls_created = 0, ls_updated = 0\<rparr>"

definition settled_context :: settlement_context where
  "settled_context = \<lparr>sc_deliveredKwh = ''4.0'', sc_normalizedThreeDecimal = ''4.000'', sc_sourcePrecision = 0\<rparr>"

definition settled_reservation :: reservation_row where
  "settled_reservation = sample_reservation\<lparr>rv_status := SETTLED, rv_settled := Some 400, rv_released := Some 600,
     rv_context := Some settled_context, rv_delivered_kwh := Some 4000\<rparr>"

definition sample_service :: db where
  "sample_service = empty_db\<lparr>t_operations := [hashed_operation], t_leases := [failed_lease],
     t_reservations := [settled_reservation]\<rparr>"

lemma sample_hashes: "hash_ok (sample_hash CHR ''a'')" "hash_ok (sample_hash CHR ''b'')"
  using canonical_hash_ok [OF sample_hash_canonical] by simp_all

lemma sample_service_ok: "service_ok sample_service"
proof -
  have "ledger_ok sample_service"
    using sample_hashes
    by (auto simp: ledger_ok_def sample_service_def hashed_operation_def intro!: ops_okI)
  then show ?thesis using sample_hashes
    by (simp add: service_ok_def leases_ok_def approvals_ok_def reservations_ok_def sound_reservation_def wallets_ok_def users_ok_def
        links_ok_def projections_ok_def sample_service_def empty_db_def failed_lease_def safe_nat_def settled_reservation_def)
qed

definition lost_diagnostic :: diagnostic where
  "lost_diagnostic = \<lparr>dg_stage = BROADCAST, dg_category = None, dg_errorCode = ''E'', dg_retryable = False,
     dg_savedHash = None, dg_nonce = None\<rparr>"

definition later_service :: db where
  "later_service = retrySettlement 9 ''r1'' ''e'' (snd (leaseMarkUnknown 8 ''l'' lost_diagnostic
     ''e'' (snd (markFailed 7 ''op'' ''e'' OUT_REVIEW None sample_service))))"

lemma later_reachable: "service_step\<^sup>*\<^sup>* sample_service later_service"
proof -
  define d1 where "d1 = snd (markFailed 7 ''op'' ''e'' OUT_REVIEW None sample_service)"
  define d2 where "d2 = snd (leaseMarkUnknown 8 ''l'' lost_diagnostic ''e'' d1)"
  have "service_step sample_service d1" unfolding d1_def by (rule by_ledger, rule step_failed)
  moreover have "service_step d1 d2" unfolding d2_def by (rule by_lease, rule step_lease_unknown)
  moreover have "service_step d2 (retrySettlement 9 ''r1'' ''e'' d2)" by (rule by_reservation, rule step_retry)
  ultimately show ?thesis unfolding later_service_def d1_def [symmetric] d2_def [symmetric] by auto
qed

lemma sample_finds:
  "find_operation sample_service ''op'' = Some hashed_operation"
  "find_lease sample_service ''l'' = Some failed_lease"
  "find_reservation sample_service ''r1'' = Some settled_reservation"
  by (simp_all add: find_operation_def find_lease_def find_reservation_def sample_service_def hashed_operation_def
      new_operation_def sample_claim_def failed_lease_def settled_reservation_def sample_reservation_def)

subsection \<open>Movements\<close>

text \<open>
   the transaction hash of a movement is never replaced or lost, and its lifecycle only moves
  forward: over any sequence of service operations the row keeps its identity, owner, wallet, amount
  and hash; a failed movement with a hash stays exactly as it is, a confirmed one stays confirmed or
  becomes projected, a projected one stays projected.
\<close>

theorem movement_hash_forever:
  assumes "service_ok d" and "service_step\<^sup>*\<^sup>* d d'" and "find_operation d k = Some r" and "op_tx_hash r = Some h"
  shows "\<exists>r'. find_operation d' k = Some r' \<and> op_tx_hash r' = Some h \<and> op_key r' = op_key r \<and> op_uid r' = op_uid r
    \<and> op_wallet r' = op_wallet r \<and> op_amount r' = op_amount r \<and> op_fingerprint r' = op_fingerprint r
    \<and> (op_status r = FAILED \<longrightarrow> r' = r)
    \<and> (op_status r = CONFIRMED \<longrightarrow> op_status r' = CONFIRMED \<or> op_status r' = PROJECTED)
    \<and> (op_status r = PROJECTED \<longrightarrow> op_status r' = PROJECTED)"
proof -
  obtain r' where r': "find_operation d' k = Some r'" "op_le r r'"
    using op_store.steps_le [OF assms(2,1,3)] by blast
  then show ?thesis using assms(4) by (intro exI [of _ r']) (auto simp: op_le_def same_intent_def)
qed

theorem movement_hash_forever_witness:
  "\<exists>r'. find_operation later_service ''op'' = Some r' \<and> op_tx_hash r' = Some (sample_hash CHR ''a'') \<and> op_amount r' = 100"
proof -
  have "op_tx_hash hashed_operation = Some (sample_hash CHR ''a'')" "op_amount hashed_operation = 100"
    by (simp_all add: hashed_operation_def new_operation_def)
  then show ?thesis using movement_hash_forever [OF sample_service_ok later_reachable sample_finds(1)] by auto
qed

text \<open>
  C11: a movement that has a transaction hash is never sent a second time: after any further history, no
  claim on its key acquires the right to broadcast, and the claim changes nothing.
\<close>

theorem hashed_movement_never_reclaimed:
  assumes "service_ok d" and "service_step\<^sup>*\<^sup>* d d'" and "find_operation d k = Some r" and "op_tx_hash r = Some h"
    and "claim now ident q d' = Inr (c, d'')" and "cr_key q = k"
  shows "\<not> cl_acquired c \<and> d'' = d'"
proof -
  obtain r' where r': "find_operation d' k = Some r'" "op_le r r'"
    using op_store.steps_le [OF assms(2,1,3)] by blast
  have h: "op_tx_hash r' \<noteq> None" using r'(2) assms(4) by (simp add: op_le_def)
  have ok: "ledger_ok d'" using op_store.steps_invar [OF assms(2,1)] by (simp add: service_ok_def)
  show ?thesis using assms(5)
  proof (cases rule: claim_cases)
    case (reclaimed e)
    then show ?thesis using reclaimable_no_hash [OF ok, of k e] r'(1) h assms(6) by simp
  next
    case (inserted a)
    then show ?thesis using r'(1) assms(6) by simp
  qed simp_all
qed

lemma sample_reclaim:
  "claim 9 ''j'' sample_claim sample_service = Inr (\<lparr>cl_operation = Some hashed_operation, cl_acquired = False, cl_legacy = None\<rparr>, sample_service)"
  using sample_finds(1)
  by (simp add: claim_def sample_claim_def canonicalTokenAmount_text of_option_def assertOperationIntent_def guard_def
      hashed_operation_def new_operation_def reclaimable_def nonempty_def)

theorem hashed_movement_never_reclaimed_witness:
  "\<exists>c d''. claim 9 ''j'' sample_claim sample_service = Inr (c, d'') \<and> \<not> cl_acquired c \<and> d'' = sample_service"
proof -
  have "op_tx_hash hashed_operation = Some (sample_hash CHR ''a'')" by (simp add: hashed_operation_def)
  from hashed_movement_never_reclaimed [OF sample_service_ok rtranclp.rtrancl_refl sample_finds(1) this sample_reclaim]
  show ?thesis using sample_reclaim by (simp add: sample_claim_def)
qed

text \<open>
   the right to broadcast is exclusive: a claim acquires it only for a new key or for a movement whose
  preflight failed before any hash existed; the row it leaves is SUBMITTING, unsent and of unknown
  outcome, and until that row changes no further claim on the key acquires anything.
\<close>

theorem claim_exclusive:
  assumes "ledger_ok d" and "claim now ident q d = Inr (c, d')" and "cl_acquired c"
  shows "(case find_operation d (cr_key q) of None \<Rightarrow> True
      | Some e \<Rightarrow> op_status e = FAILED \<and> op_tx_hash e = None \<and> reclaimable e)
    \<and> (\<exists>r. find_operation d' (cr_key q) = Some r \<and> cl_operation c = Some r \<and> op_status r = SUBMITTING \<and> op_tx_hash r = None
         \<and> op_outcome r = Some OUT_UNKNOWN)
    \<and> (\<forall>now' ident' q' c' d''. cr_key q' = cr_key q \<longrightarrow> claim now' ident' q' d' = Inr (c', d'') \<longrightarrow> \<not> cl_acquired c' \<and> d'' = d')"
proof -
  obtain r where r: "find_operation d' (cr_key q) = Some r" "cl_operation c = Some r" "op_status r = SUBMITTING"
    "op_tx_hash r = None" "op_outcome r = Some OUT_UNKNOWN"
    and before: "case find_operation d (cr_key q) of None \<Rightarrow> True
      | Some e \<Rightarrow> op_status e = FAILED \<and> op_tx_hash e = None \<and> reclaimable e"
    using assms(2)
  proof (cases rule: claim_cases)
    case (reclaimed e)
    have h: "op_tx_hash e = None" by (rule reclaimable_no_hash [OF assms(1) reclaimed(1,2)])
    have st: "op_status e = FAILED" using reclaimed(2) by (simp add: reclaimable_def)
    have row: "first_where (\<lambda>r. op_key r = cr_key q) (t_operations d) = Some e" "op_key e = cr_key q"
      using reclaimed(1) row_at_Some [of op_key "cr_key q" "t_operations d" e]
      by (simp_all add: find_operation_def row_at_def)
    have k: "op_key (reclaim_row now x) = op_key x" for x by (simp add: reclaim_row_def)
    have "find_operation d' (cr_key q) = map_option (\<lambda>r. if op_key r = cr_key q then reclaim_row now r else r) (find_operation d (cr_key q))"
      unfolding reclaimed(5) find_operation_def update_operations_table by (rule row_at_update) (rule k)
    then have "find_operation d' (cr_key q) = Some (reclaim_row now e)" using reclaimed(1) row(2) by simp
    moreover have "cl_operation c = Some (reclaim_row now e)"
    proof -
      obtain a where a: "canonicalTokenAmount (JStr (cr_amount q)) = Some a"
        "assertOperationIntent e q (units a) (cr_type q \<noteq> AWARD) = Inr ()"
        using claim_intent [OF assms(2) reclaimed(1)] by blast
      have "c = \<lparr>cl_operation = returning_where (\<lambda>r. op_key r = cr_key q) (reclaim_row now) (t_operations d),
          cl_acquired = True, cl_legacy = None\<rparr>"
        using assms(2) reclaimed(1,2,4) a by (simp add: claim_def of_option_def)
      then show ?thesis using row(1) by (simp add: returning_where_def first_where_def)
    qed
    ultimately show thesis
    proof (rule that)
      show "case find_operation d (cr_key q) of None \<Rightarrow> True | Some e \<Rightarrow> op_status e = FAILED \<and> op_tx_hash e = None \<and> reclaimable e"
        using reclaimed(1,2) h st by simp
    qed (simp_all add: reclaim_row_def h)
  next
    case (existing e)
    then show thesis using assms(3) by simp
  next
    case (legacy a)
    then show thesis using assms(3) by simp
  next
    case (inserted a)
    have "t_operations d' = t_operations d @ [new_operation now ident q (units a)]"
      using inserted(7) by (auto simp: insert_operation_def split: if_splits)
    then have f: "find_operation d' (cr_key q) = Some (new_operation now ident q (units a))"
      using inserted(1) by (simp add: find_operation_def row_at_append new_operation_def)
    have n: "op_status (new_operation now ident q (units a)) = SUBMITTING" "op_tx_hash (new_operation now ident q (units a)) = None"
      "op_outcome (new_operation now ident q (units a)) = Some OUT_UNKNOWN"
      by (simp_all add: new_operation_def)
    show thesis by (rule that [OF f inserted(8) n]) (simp add: inserted(1))
  qed
  moreover have "\<not> cl_acquired c' \<and> d'' = d'" if k: "cr_key q' = cr_key q" and c': "claim now' ident' q' d' = Inr (c', d'')"
    for now' ident' q' c' d''
    using c'
  proof (cases rule: claim_cases)
    case (reclaimed e)
    then show ?thesis using r(1,3) k by (simp add: reclaimable_def)
  next
    case (inserted a)
    then show ?thesis using r(1) k by simp
  qed simp_all
  ultimately show ?thesis by blast
qed

theorem claim_exclusive_witness:
  "\<exists>r. find_operation sample_claimed ''op'' = Some r \<and> op_status r = SUBMITTING \<and> op_tx_hash r = None
    \<and> (\<forall>c d''. claim 1 ''j'' sample_claim sample_claimed = Inr (c, d'') \<longrightarrow> \<not> cl_acquired c)"
proof -
  have "ledger_ok empty_db" using empty_service_ok by (simp add: service_ok_def)
  note e = claim_exclusive [OF this sample_claim_runs]
  have k: "cr_key sample_claim = ''op''" by (simp add: sample_claim_def)
  have "cl_acquired \<lparr>cl_operation = Some (new_operation 0 ''i'' sample_claim 100), cl_acquired = True, cl_legacy = None\<rparr>" by simp
  note e' = e [OF this, unfolded k]
  obtain r where "find_operation sample_claimed ''op'' = Some r" "op_status r = SUBMITTING" "op_tx_hash r = None"
    using e' by blast
  moreover have "\<not> cl_acquired c" if "claim 1 ''j'' sample_claim sample_claimed = Inr (c, d'')" for c d''
    using e' k that by blast
  ultimately show ?thesis by blast
qed

text \<open>
   in every reachable database two award movements never stand for the same physical charging
  session of a provider, and no two movements carry the same transaction hash.
\<close>

theorem award_once_per_charging_session:
  assumes "service_step\<^sup>*\<^sup>* empty_db d"
  shows "distinct (List.map_filter session_key (t_operations d)) \<and> distinct (List.map_filter op_tx_hash (t_operations d))"
proof -
  have ok: "ops_ok (t_operations d)" using reachable_ok [OF assms] by (simp add: service_ok_def ledger_ok_def)
  have filter_distinct: "distinct (List.map_filter f t)"
    if "distinct t" "\<And>r s. r \<in> set t \<Longrightarrow> s \<in> set t \<Longrightarrow> f r \<noteq> None \<Longrightarrow> f s = f r \<Longrightarrow> r = s"
    for f :: "operation_row \<Rightarrow> 'x option" and t
    using that
  proof (induction t)
    case (Cons r t)
    have IH: "distinct (List.map_filter f t)" using Cons by simp
    show ?case
    proof (cases "f r")
      case (Some y)
      have "y \<notin> set (List.map_filter f t)"
      proof
        assume "y \<in> set (List.map_filter f t)"
        then obtain s where "s \<in> set t" "f s = Some y" by (auto simp: map_filter_def)
        then show False using Cons.prems(1) Cons.prems(2) [of r s] Some by auto
      qed
      then show ?thesis using IH Some by (simp add: map_filter_def)
    qed (use IH in \<open>simp add: map_filter_def\<close>)
  qed (simp add: map_filter_def)
  have "distinct (t_operations d)" using ops_okD(1) [OF ok] by (simp add: distinct_map)
  then show ?thesis using ops_okD(3,4) [OF ok] by (intro conjI filter_distinct) blast+
qed

theorem award_once_per_charging_session_witness:
  "distinct (List.map_filter session_key (t_operations sample_claimed)) \<and> t_operations sample_claimed \<noteq> []"
  using award_once_per_charging_session [OF sample_claimed_reachable] by (simp add: sample_claimed_def)

text \<open>
  An unfinished movement can always be finished: from any consistent database, a movement that has a
  hash and has not failed reaches PROJECTED by service operations, with its hash kept.
\<close>

theorem hashed_movement_can_be_projected:
  assumes "ledger_ok d" and "find_operation d k = Some r" and "op_tx_hash r = Some h" and "op_status r \<noteq> FAILED"
  shows "\<exists>d' r'. service_step\<^sup>*\<^sup>* d d' \<and> find_operation d' k = Some r' \<and> op_status r' = PROJECTED \<and> op_tx_hash r' = Some h"
proof -
  define f :: "operation_row \<Rightarrow> operation_row" where
    "f = (\<lambda>x. x\<lparr>op_status := PROJECTED, op_outcome := Some (if op_amount r = 0 then OUT_NO_MOVEMENT else OUT_CONFIRMED),
       op_error := None, op_projected_at := Some 0, op_updated := 0\<rparr>)"
  define P :: "operation_row \<Rightarrow> bool" where "P = (\<lambda>x. op_key x = k \<and> op_status x \<noteq> FAILED \<and> (op_tx_hash x \<noteq> None \<or> op_amount x = 0))"
  have ok: "ops_ok (t_operations d)" using assms(1) by (simp add: ledger_ok_def)
  have hk: "hash_ok h" by (rule ledger_ok_hash [OF assms(1-3)])
  then have "h \<noteq> []" by (auto simp: hash_ok_def is_tx_hash_def)
  have row: "r \<in> set (t_operations d)" "op_key r = k"
    using row_at_Some [of op_key k "t_operations d" r] assms(2) by (simp_all add: find_operation_def)
  have Pr: "P r" using row(2) assms(3,4) by (simp add: P_def)
  have "returning_where P f (t_operations d) \<noteq> None" using row(1) Pr by (auto simp: returning_None)
  then obtain x where "returning_where P f (t_operations d) = Some x" by blast
  then have "snd (markProjected 0 k d) = update_operations P f d"
    using assms(2-4) \<open>h \<noteq> []\<close> by (simp add: markProjected_def P_def f_def Let_def)
  moreover have "find_operation (update_operations P f d) k = Some (f r)"
    using assms(2) Pr row_at_update [of P op_key f k "t_operations d"] by (simp add: find_operation_def f_def)
  moreover have "service_step d (snd (markProjected 0 k d))" by (rule by_ledger, rule step_projected)
  ultimately show ?thesis using assms(3)
    by (intro exI [of _ "update_operations P f d"] exI [of _ "f r"]) (auto simp: f_def)
qed

theorem hashed_movement_can_be_projected_witness:
  "\<exists>d' r'. service_step\<^sup>*\<^sup>* sample_service d' \<and> find_operation d' ''op'' = Some r' \<and> op_status r' = PROJECTED"
proof -
  have "ledger_ok sample_service" using sample_service_ok by (simp add: service_ok_def)
  moreover have "op_tx_hash hashed_operation = Some (sample_hash CHR ''a'')" "op_status hashed_operation \<noteq> FAILED"
    by (simp_all add: hashed_operation_def)
  ultimately show ?thesis using hashed_movement_can_be_projected [OF _ sample_finds(1)] by blast
qed

subsection \<open>Nonce leases\<close>

text \<open>
  The nonce a treasury transaction must get, said without the code's fold: the least number that is not below the
  chain's pending nonce and above every nonce the signer has leased on that chain without failing. And the
  condition for signing at all: no prepared or unknown lease waits at or after the pending nonce.
\<close>

definition live_leases :: "db \<Rightarrow> string \<Rightarrow> string \<Rightarrow> lease_row list" where
  "live_leases d chain signer = filter (\<lambda>l. signer_lease chain signer l \<and> ls_status l \<noteq> LEASE_FAILED) (t_leases d)"

definition next_nonce :: "db \<Rightarrow> string \<Rightarrow> string \<Rightarrow> nat \<Rightarrow> nat" where
  "next_nonce d chain signer pending = Max (set (pending # map (\<lambda>l. ls_nonce l + 1) (live_leases d chain signer)))"

definition resolved_before :: "db \<Rightarrow> string \<Rightarrow> string \<Rightarrow> nat \<Rightarrow> bool" where
  "resolved_before d chain signer pending = list_all (\<lambda>l. signer_lease chain signer l
     \<and> ls_status l \<in> {LEASE_PREPARED, LEASE_UNKNOWN} \<longrightarrow> ls_nonce l < pending) (t_leases d)"

lemma next_nonce_le: "next_nonce d chain signer pending \<le> n \<longleftrightarrow> pending \<le> n \<and> (\<forall>l \<in> set (live_leases d chain signer). ls_nonce l < n)"
  unfolding next_nonce_def by (subst Max_le_iff) auto

lemma resolved_iff: "resolved_before d chain signer pending \<longleftrightarrow> unresolved_lease d chain signer pending = None"
proof -
  have "unresolved_lease d chain signer pending = None \<longleftrightarrow> filter (\<lambda>l. signer_lease chain signer l
      \<and> ls_status l \<in> {LEASE_PREPARED, LEASE_UNKNOWN} \<and> pending \<le> ls_nonce l) (t_leases d) = []" (is "_ \<longleftrightarrow> ?f = []")
    unfolding unresolved_lease_def by (metis (no_types, lifting) list.case(1,2) list.exhaust option.distinct(1) set_empty set_sort)
  then show ?thesis by (auto simp: resolved_before_def list_all_iff filter_empty_conv not_less)
qed

lemma allocated_nonce:
  assumes "leases_ok d"
  shows "allocate_nonce now d chain signer pending = Inr n
    \<longleftrightarrow> resolved_before d chain signer pending \<and> n = next_nonce d chain signer pending \<and> safe_nat n"
proof (cases "unresolved_lease d chain signer pending")
  case None
  define ns where "ns = map ls_nonce (live_leases d chain signer)"
  have "max pending (case max_leased d chain signer of None \<Rightarrow> 0 | Some m \<Rightarrow> if safe_nat m then m + 1 else pending)
      = next_nonce d chain signer pending"
  proof (cases "ns = []")
    case True
    then show ?thesis by (simp add: max_leased_def live_leases_def [symmetric] ns_def next_nonce_def)
  next
    case False
    have m: "max_leased d chain signer = Some (foldl max 0 ns)"
      using False by (simp add: max_leased_def live_leases_def [symmetric] ns_def [symmetric] Let_def)
    have mem: "foldl max 0 ns \<in> set ns"
    proof (cases "foldl max 0 ns = 0")
      case True
      have "x = 0" if "x \<in> set ns" for x using foldl_max_upper [of x ns 0] that True by simp
      with False show ?thesis using True by (cases ns) auto
    qed (use foldl_max_in [of 0 ns] in simp)
    then have "safe_nat (foldl max 0 ns)" using assms by (auto simp: leases_ok_def ns_def live_leases_def)
    moreover have "max pending (foldl max 0 ns + 1) = next_nonce d chain signer pending"
    proof (rule antisym)
      obtain l where l: "l \<in> set (live_leases d chain signer)" "foldl max 0 ns = ls_nonce l" using mem by (auto simp: ns_def)
      then show "max pending (foldl max 0 ns + 1) \<le> next_nonce d chain signer pending"
        using next_nonce_le [of d chain signer pending "next_nonce d chain signer pending"] by fastforce
      have "ls_nonce l \<le> foldl max 0 ns" if "l \<in> set (live_leases d chain signer)" for l
        using that by (intro foldl_max_upper disjI1) (simp add: ns_def)
      then show "next_nonce d chain signer pending \<le> max pending (foldl max 0 ns + 1)"
        unfolding next_nonce_le by (auto simp: less_Suc_eq_le max.coboundedI2 le_imp_less_Suc less_max_iff_disj)
    qed
    ultimately show ?thesis using m by simp
  qed
  then show ?thesis using None by (auto simp: allocate_nonce_def Let_def resolved_iff)
qed (auto simp: allocate_nonce_def resolved_iff split: if_splits)



text \<open>
  A lease keeps its key, nonce, hash, signed context and target for ever, and a failed or confirmed
  lease is never written again.
\<close>

theorem lease_identity_forever:
  assumes "service_ok d" and "service_step\<^sup>*\<^sup>* d d'" and "find_lease d k = Some l"
  shows "\<exists>l'. find_lease d' k = Some l' \<and> ls_nonce l' = ls_nonce l \<and> ls_tx_hash l' = ls_tx_hash l
    \<and> ls_context l' = ls_context l \<and> ls_target l' = ls_target l \<and> ls_target_key l' = ls_target_key l
    \<and> (ls_status l \<in> {LEASE_FAILED, LEASE_CONFIRMED} \<longrightarrow> l' = l)"
proof (cases "live_lease l")
  case False
  have "find_lease d' k = Some l" by (rule lease_store.final_forever [OF assms(2,1,3) False])
  then show ?thesis by blast
next
  case True
  obtain l' where "find_lease d' k = Some l'" "lease_le l l'" using lease_store.steps_le [OF assms(2,1,3)] by blast
  moreover have "ls_status l \<notin> {LEASE_FAILED, LEASE_CONFIRMED}" using True by (auto simp: live_lease_def)
  ultimately show ?thesis by (intro exI [of _ l']) (simp add: lease_le_def)
qed

theorem lease_identity_forever_witness: "find_lease later_service ''l'' = Some failed_lease"
  using lease_identity_forever [OF sample_service_ok later_reachable sample_finds(2)] by (auto simp: failed_lease_def)

subsection \<open>Reservations\<close>

text \<open>
  A reservation keeps owner, wallet, session and amount for ever; a settlement context, once stored,
  is never changed, and a settled or released reservation is never written again.
\<close>

theorem settlement_context_forever:
  assumes "service_ok d" and "service_step\<^sup>*\<^sup>* d d'" and "find_reservation d i = Some r"
  shows "\<exists>r'. find_reservation d' i = Some r' \<and> rv_uid r' = rv_uid r \<and> rv_wallet r' = rv_wallet r
    \<and> rv_session_id r' = rv_session_id r \<and> rv_reserved r' = rv_reserved r
    \<and> (rv_context r \<noteq> None \<longrightarrow> rv_context r' = rv_context r)
    \<and> (rv_status r \<in> {SETTLED, RELEASED} \<longrightarrow> r' = r)"
proof (cases "final_reservation (rv_status r)")
  case True
  have "find_reservation d' i = Some r" by (rule hold_store.final_forever [OF assms(2,1,3) True])
  then show ?thesis by blast
next
  case False
  obtain r' where "find_reservation d' i = Some r'" "reservation_le r r'"
    using hold_store.steps_le [OF assms(2,1,3)] by blast
  moreover have "rv_status r \<notin> {SETTLED, RELEASED}" using False by (auto simp: final_reservation_def)
  ultimately show ?thesis by (intro exI [of _ r']) (simp add: reservation_le_def same_hold_def)
qed

theorem settlement_context_forever_witness: "find_reservation later_service ''r1'' = Some settled_reservation"
  using settlement_context_forever [OF sample_service_ok later_reachable sample_finds(3)]
  by (auto simp: settled_reservation_def)

subsection \<open>Wallets\<close>

text \<open>
  In every reachable database a contract id has at most one active wallet and each wallet at most
  once, an external address is linked to at most one contract id, and no contract id links more than
  five.
\<close>

theorem wallet_tables_consistent:
  assumes "service_step\<^sup>*\<^sup>* empty_db d"
  shows "(\<forall>u. length (filter (\<lambda>r. us_uid r = u \<and> us_active r) (t_users d)) \<le> 1)
    \<and> (\<forall>u w. length (filter (user_of u w) (t_users d)) \<le> 1)
    \<and> (\<forall>w. length (filter (\<lambda>l. same_text (ln_wallet l) w) (t_linked d)) \<le> 1)
    \<and> (\<forall>u. length (filter (\<lambda>l. ln_uid l = u) (t_linked d)) \<le> 5)"
proof -
  have ok: "users_ok (t_users d)" "links_ok (t_linked d)"
    using reachable_ok [OF assms] by (simp_all add: service_ok_def wallets_ok_def)
  have single: "length (filter P t) \<le> 1" if "distinct t" "\<And>r s. r \<in> set t \<Longrightarrow> s \<in> set t \<Longrightarrow> P r \<Longrightarrow> P s \<Longrightarrow> r = s"
    for P :: "'x \<Rightarrow> bool" and t
  proof -
    have "card (set (filter P t)) \<le> 1"
    proof (rule ccontr)
      assume "\<not> card (set (filter P t)) \<le> 1"
      then obtain r s where "r \<in> set (filter P t)" "s \<in> set (filter P t)" "r \<noteq> s"
        by (metis card_le_Suc0_iff_eq List.finite_set One_nat_def)
      then show False using that(2) by auto
    qed
    then show ?thesis using distinct_card [of "filter P t"] that(1) by simp
  qed
  have du: "distinct (t_users d)" using users_okD(1) [OF ok(1)] by (simp add: distinct_map)
  have dl: "distinct (map (\<lambda>l. js_lower (ln_wallet l)) (t_linked d))" using ok(2) by (simp add: links_ok_def)
  have "length (filter (\<lambda>r. us_uid r = u \<and> us_active r) (t_users d)) \<le> 1" for u
    by (rule single [OF du]) (use users_okD(3) [OF ok(1)] in auto)
  moreover have "length (filter (user_of u w) (t_users d)) \<le> 1" for u w
    by (rule single [OF du]) (use users_okD(2) [OF ok(1)] in \<open>auto simp: user_of_key\<close>)
  moreover have "length (filter (\<lambda>l. same_text (ln_wallet l) w) (t_linked d)) \<le> 1" for w
  proof (rule single)
    show "distinct (t_linked d)" using dl by (simp add: distinct_map)
    fix r s assume m: "r \<in> set (t_linked d)" "s \<in> set (t_linked d)"
    assume "same_text (ln_wallet r) w" "same_text (ln_wallet s) w"
    then have "js_lower (ln_wallet r) = js_lower (ln_wallet s)" by (simp add: same_text_def)
    then show "r = s" by (rule distinct_key_eq [OF dl m])
  qed
  moreover have "length (filter (\<lambda>l. ln_uid l = u) (t_linked d)) \<le> 5" for u
    using ok(2) by (simp add: links_ok_def max_linked_def)
  ultimately show ?thesis by blast
qed

definition sample_user :: user_row where
  "sample_user = new_user 0 ''i1'' ''u'' ''0xA'' None True"

lemma sample_user_reachable: "service_step\<^sup>*\<^sup>* empty_db (empty_db\<lparr>t_users := [sample_user]\<rparr>)"
proof -
  have "createUser 0 ''i1'' ''u'' ''0xA'' None empty_db = Inr (sample_user, empty_db\<lparr>t_users := [sample_user]\<rparr>)"
    by (simp add: createUser_def find_user_def empty_db_def insert_returning_def insert_user_def sample_user_def)
  then show ?thesis by (intro r_into_rtranclp by_wallet step_create_user)
qed

theorem wallet_tables_consistent_witness:
  "length (filter (\<lambda>r. us_uid r = ''u'' \<and> us_active r) (t_users (empty_db\<lparr>t_users := [sample_user]\<rparr>))) \<le> 1"
  using wallet_tables_consistent [OF sample_user_reachable] by blast

lemma ensureManagedWallet_active:
  assumes "ensureManagedWallet managed now ident u d = Inr (x, d')"
  shows "\<exists>r \<in> set (t_users d'). us_uid r = u \<and> same_text (us_wallet r) (managed u) \<and> us_active r"
proof -
  define d1 where "d1 = deactivate_all u d"
  show ?thesis
  proof (cases "find_user d1 u (managed u)")
    case None
    then have "insert_returning d1 (new_user now ident u (managed u) None True) = Inr (the x, d')"
      using assms by (auto simp: ensureManagedWallet_def d1_def [symmetric] Let_def rbind_Inr_iff)
    then have "new_user now ident u (managed u) None True \<in> set (t_users d')"
      by (auto simp: insert_returning_def rbind_Inr_iff insert_user_def split: if_splits)
    then show ?thesis by (intro bexI [of _ "new_user now ident u (managed u) None True"]) (simp_all add: new_user_def)
  next
    case (Some e)
    then have "d' = update_users (\<lambda>r. us_id r = us_id e) (\<lambda>r. r\<lparr>us_active := True, us_updated := now\<rparr>) d1"
      using assms by (auto simp: ensureManagedWallet_def d1_def [symmetric] Let_def set_active_def split: if_splits)
    then have "e\<lparr>us_active := True, us_updated := now\<rparr> \<in> set (t_users d')"
      using find_user_Some [OF Some] by (auto simp: set_update_where)
    then show ?thesis using find_user_Some [OF Some]
      by (intro bexI [of _ "e\<lparr>us_active := True, us_updated := now\<rparr>"]) simp_all
  qed
qed

text \<open>
  Removing the active wallet of a contract id never leaves it without one: after a successful delete
  of the active wallet the managed wallet of that contract id is active.
\<close>

theorem delete_active_keeps_managed:
  assumes "deleteByUidAndWallet managed now ident u w d = Inr (n, d')" and "find_user d u w = Some e" and "us_active e"
  shows "\<exists>r \<in> set (t_users d'). us_uid r = u \<and> same_text (us_wallet r) (managed u) \<and> us_active r"
proof -
  obtain m d1 where "retire_user now e d = (m, d1)" by (cases "retire_user now e d")
  then obtain y where "ensureManagedWallet managed now ident u d1 = Inr (y, d')"
    using assms by (auto simp: deleteByUidAndWallet_def rbind_Inr_iff)
  then show ?thesis by (rule ensureManagedWallet_active)
qed

theorem delete_active_keeps_managed_witness:
  "\<exists>n d'. deleteByUidAndWallet (\<lambda>u. ''0xM'') 1 ''i2'' ''u'' ''0xA'' (empty_db\<lparr>t_users := [sample_user]\<rparr>) = Inr (n, d')
    \<and> (\<exists>r \<in> set (t_users d'). us_wallet r = ''0xM'' \<or> same_text (us_wallet r) ''0xM'')"
proof -
  define d where "d = empty_db\<lparr>t_users := [sample_user]\<rparr>"
  have f: "find_user d ''u'' ''0xA'' = Some sample_user"
    by (simp add: d_def find_user_def user_of_def sample_user_def new_user_def)
  have "\<exists>n d'. deleteByUidAndWallet (\<lambda>u. ''0xM'') 1 ''i2'' ''u'' ''0xA'' d = Inr (n, d')"
    unfolding deleteByUidAndWallet_def f
    by (simp add: retire_user_def hasActivity_def d_def empty_db_def delete_where_def sample_user_def new_user_def
        ensureManagedWallet_def deactivate_all_def update_users_def update_where_def find_user_def insert_returning_def
        insert_user_def)
  then obtain n d' where p: "deleteByUidAndWallet (\<lambda>u. ''0xM'') 1 ''i2'' ''u'' ''0xA'' d = Inr (n, d')" by blast
  have "us_active sample_user" by (simp add: sample_user_def new_user_def)
  from delete_active_keeps_managed [OF p f this] p show ?thesis unfolding d_def by blast
qed

subsection \<open>Approvals and projections\<close>

text \<open>
   the right to submit the allowance transaction of a wallet preparation is given at most once per
  funding: it is acquired only from FUNDED, moves the row to APPROVING, and no further claim acquires it
  from there.
\<close>

theorem approval_submission_exclusive:
  assumes "approvals_ok d" and "claimApprovalSubmission now k d = Inr (c, d')" and "apc_acquired c"
  shows "(\<exists>r. find_approval d k = Some r \<and> ap_status r = AP_FUNDED)
    \<and> (\<exists>r. find_approval d' k = Some r \<and> ap_status r = AP_APPROVING)
    \<and> (\<forall>now' c' d''. claimApprovalSubmission now' k d' = Inr (c', d'') \<longrightarrow> \<not> apc_acquired c' \<and> d'' = d')"
proof -
  have ok: "distinct (map ap_key (t_approvals d))" using assms(1) by (simp add: approvals_ok_def)
  define f :: "approval_row \<Rightarrow> approval_row" where
    "f = (\<lambda>r. r\<lparr>ap_status := AP_APPROVING, ap_error := None, ap_updated := now\<rparr>)"
  have ret: "returning_where (\<lambda>r. ap_key r = k \<and> ap_status r = AP_FUNDED) g (t_approvals e) =
      (case find_approval e k of None \<Rightarrow> None | Some r \<Rightarrow> if ap_status r = AP_FUNDED then Some (g r) else None)"
    if "distinct (map ap_key (t_approvals e))" for g and e :: db
    unfolding find_approval_def by (rule returning_keyed [OF that])
  obtain r where r: "find_approval d k = Some r" "ap_status r = AP_FUNDED"
    and d': "d' = update_approvals (\<lambda>r. ap_key r = k \<and> ap_status r = AP_FUNDED) f d"
  proof (cases "find_approval d k")
    case None
    then have False using assms(2) unfolding claimApprovalSubmission_def Let_def ret [OF ok] by simp
    then show thesis ..
  next
    case (Some r)
    show thesis
    proof (cases "ap_status r = AP_FUNDED")
      case True
      then have "d' = update_approvals (\<lambda>r. ap_key r = k \<and> ap_status r = AP_FUNDED) f d"
        using assms(2) unfolding claimApprovalSubmission_def Let_def ret [OF ok] Some option.case f_def by simp
      then show thesis using that Some True by blast
    next
      case False
      then have "c = \<lparr>apc_record = r, apc_acquired = False\<rparr>"
        using assms(2) unfolding claimApprovalSubmission_def Let_def ret [OF ok] Some option.case by simp
      then have False using assms(3) by simp
      then show thesis ..
    qed
  qed
  have key: "ap_key r = k" using row_at_Some [of ap_key k "t_approvals d" r] r(1) by (simp add: find_approval_def)
  have "find_approval d' k = map_option (\<lambda>r. if ap_key r = k \<and> ap_status r = AP_FUNDED then f r else r) (find_approval d k)"
    unfolding d' find_approval_def update_frames by (rule row_at_update) (simp add: f_def)
  then have a: "find_approval d' k = Some (f r)" using r key by simp
  have ok': "distinct (map ap_key (t_approvals d'))"
    using approvals_ok_update [OF assms(1), of "\<lambda>r. ap_key r = k \<and> ap_status r = AP_FUNDED" f]
    by (simp add: d' approvals_ok_def f_def)
  have "\<not> apc_acquired c' \<and> d'' = d'" if "claimApprovalSubmission now' k d' = Inr (c', d'')" for now' c' d''
  proof -
    have "ap_status (f r) \<noteq> AP_FUNDED" by (simp add: f_def)
    then have "claimApprovalSubmission now' k d' = Inr (\<lparr>apc_record = f r, apc_acquired = False\<rparr>, d')"
      unfolding claimApprovalSubmission_def Let_def ret [OF ok'] a option.case by simp
    then show ?thesis using that by auto
  qed
  moreover have "ap_status (f r) = AP_APPROVING" by (simp add: f_def)
  ultimately show ?thesis using r a by blast
qed

definition sample_approval :: approval_row where
  "sample_approval = (new_approval 0 \<lparr>apr_key = ''a'', apr_wallet = ''0xw'', apr_contract = ''0xc'', apr_chain = ''1'', apr_treasury = ''0xt''\<rparr>)
     \<lparr>ap_status := AP_FUNDED, ap_funding_hash := Some (sample_hash CHR ''a'')\<rparr>"

definition sample_approvals :: db where
  "sample_approvals = empty_db\<lparr>t_approvals := [sample_approval]\<rparr>"

theorem approval_submission_exclusive_witness:
  "\<exists>c d'. claimApprovalSubmission 1 ''a'' sample_approvals = Inr (c, d') \<and> apc_acquired c
    \<and> (\<forall>c' d''. claimApprovalSubmission 2 ''a'' d' = Inr (c', d'') \<longrightarrow> \<not> apc_acquired c')"
proof -
  have "\<exists>c d'. claimApprovalSubmission 1 ''a'' sample_approvals = Inr (c, d') \<and> apc_acquired c"
    by (simp add: claimApprovalSubmission_def sample_approvals_def sample_approval_def new_approval_def returning_where_def)
  then obtain c d' where p: "claimApprovalSubmission 1 ''a'' sample_approvals = Inr (c, d')" "apc_acquired c" by blast
  have "approvals_ok sample_approvals" by (simp add: approvals_ok_def sample_approvals_def)
  from approval_submission_exclusive [OF this p] p show ?thesis by blast
qed

text \<open>
  A second gas funding of a wallet needs evidence of the first: a top-up of a preparation that has a
  funding hash is granted only when a funding lease of that preparation with that hash is on record.
\<close>

theorem top_up_needs_prior_lease:
  assumes "claimFundingTopUp now k ak av d = Inr (c, d')" and "apc_acquired c"
    and "find_approval d k = Some r" and "ap_funding_hash r = Some h" and "h \<noteq> []"
  shows "\<exists>l \<in> set (t_leases d). ls_target_key l = Some k \<and> ls_target l = TARGET_FUNDING \<and> same_text (ls_tx_hash l) h"
proof -
  have st: "ap_status r = AP_FUNDED" "\<not> given (ap_approval_hash r)"
    using assms(1-3) by (auto simp: claimFundingTopUp_def Let_def split: if_splits option.splits)
  have "prior_funding_lease d k h \<noteq> None"
  proof
    assume "prior_funding_lease d k h = None"
    then show False using assms(1,3-5) st by (simp add: claimFundingTopUp_def or_text_def nonempty_def)
  qed
  then obtain l where l: "prior_funding_lease d k h = Some l" by blast
  define xs where "xs = sort_key ls_created (filter (\<lambda>l. ls_target_key l = Some k \<and> ls_target l = TARGET_FUNDING
      \<and> same_text (ls_tx_hash l) h) (t_leases d))"
  have "l \<in> set xs" using l unfolding prior_funding_lease_def xs_def [symmetric] by (cases xs) simp_all
  then show ?thesis by (auto simp: xs_def)
qed

definition funding_lease :: lease_row where
  "funding_lease = failed_lease\<lparr>ls_target_key := Some ''a'', ls_target := TARGET_FUNDING, ls_tx_hash := sample_hash CHR ''a''\<rparr>"

theorem top_up_needs_prior_lease_witness:
  "\<exists>c d'. claimFundingTopUp 1 ''a'' ''t'' ''5'' (sample_approvals\<lparr>t_leases := [funding_lease]\<rparr>) = Inr (c, d') \<and> apc_acquired c
    \<and> (\<exists>l \<in> {funding_lease}. same_text (ls_tx_hash l) (sample_hash CHR ''a''))"
proof -
  define d where "d = sample_approvals\<lparr>t_leases := [funding_lease]\<rparr>"
  have f: "find_approval d ''a'' = Some sample_approval"
    by (simp add: d_def find_approval_def sample_approvals_def sample_approval_def new_approval_def)
  have h: "ap_funding_hash sample_approval = Some (sample_hash CHR ''a'')" by (simp add: sample_approval_def)
  have hn: "sample_hash CHR ''a'' \<noteq> []" by (simp add: sample_hash_def)
  have "prior_funding_lease d ''a'' (sample_hash CHR ''a'') = Some funding_lease"
    by (simp add: prior_funding_lease_def d_def funding_lease_def)
  then have e: "prior_funding_lease d ''a'' (or_text (ap_funding_hash sample_approval) []) \<noteq> None"
    using hn by (simp add: h or_text_def nonempty_def)
  have st: "ap_status sample_approval = AP_FUNDED" "ap_approval_hash sample_approval = None" "ap_key sample_approval = ''a''"
    "t_approvals d = [sample_approval]"
    by (simp_all add: sample_approval_def new_approval_def d_def sample_approvals_def)
  have "\<exists>c d'. claimFundingTopUp 1 ''a'' ''t'' ''5'' d = Inr (c, d') \<and> apc_acquired c"
  proof -
    have c1: "\<not> (ap_status sample_approval = AP_FUNDED \<and> \<not> given (ap_approval_hash sample_approval)
        \<and> given (ap_funding_hash sample_approval) \<and> prior_funding_lease d ''a'' (or_text (ap_funding_hash sample_approval) []) = None)"
      using e by blast
    have c2: "ap_status sample_approval = AP_FUNDED \<and> \<not> given (ap_approval_hash sample_approval)" by (simp add: st)
    have c3: "returning_where (\<lambda>r. ap_key r = ''a'' \<and> ap_status r = AP_FUNDED \<and> ap_approval_hash r = None) g (t_approvals d)
        = Some (g sample_approval)" for g :: "approval_row \<Rightarrow> approval_row"
      by (simp add: st returning_where_def)
    show ?thesis
      unfolding claimFundingTopUp_def f option.case if_not_P [OF c1] if_P [OF c2] Let_def c3
      by (intro exI conjI, rule refl, simp)
  qed
  then obtain c d' where p: "claimFundingTopUp 1 ''a'' ''t'' ''5'' d = Inr (c, d')" "apc_acquired c" by blast
  from top_up_needs_prior_lease [OF p f h hn] p show ?thesis unfolding d_def by auto
qed

text \<open>
  In every reachable database each transaction hash is projected at most once as an award, a spend and
  a receipt, each deduplication key and each (session, provider) pair is awarded at most once.
\<close>

theorem projected_once:
  assumes "service_step\<^sup>*\<^sup>* empty_db d"
  shows "distinct (map (\<lambda>a. js_lower (aw_tx_hash a)) (t_awards d)) \<and> distinct (map aw_dedup_key (t_awards d))
    \<and> distinct (map (\<lambda>a. (aw_session_id a, aw_provider_id a)) (t_awards d))
    \<and> distinct (map (\<lambda>s. js_lower (sp_tx_hash s)) (t_spends d))
    \<and> distinct (map (\<lambda>r. js_lower (rc_token_tx_hash r)) (t_receipts d))"
  using reachable_ok [OF assms] by (simp add: service_ok_def projections_ok_def)

definition sample_spend :: spend_data where
  "sample_spend = \<lparr>sd_userId = ''i1'', sd_wallet = ''0xA'', sd_amount = numeric2_text 5, sd_txHash = sample_hash CHR ''a'',
     sd_sessionId = None, sd_status = None, sd_error = None, sd_confirmedAt = None\<rparr>"

theorem projected_once_witness:
  "\<exists>d. service_step\<^sup>*\<^sup>* empty_db d \<and> length (t_spends d) = 1 \<and> distinct (map (\<lambda>s. js_lower (sp_tx_hash s)) (t_spends d))"
proof -
  have "\<exists>x d. createSpend 0 ''s1'' sample_spend empty_db = Inr (x, d) \<and> length (t_spends d) = 1"
    using sample_hash_canonical [of "CHR ''a''"] by (simp add: createSpend_def insert_spend_def sample_spend_def empty_db_def Let_def)
  then obtain x d where p: "createSpend 0 ''s1'' sample_spend empty_db = Inr (x, d)" "length (t_spends d) = 1" by blast
  have "service_step\<^sup>*\<^sup>* empty_db d" by (rule r_into_rtranclp, rule by_projection, rule step_spend [OF p(1)])
  then show ?thesis using p(2) projected_once by blast
qed

end
