(* ===== verification/SpendLaws.thy ===== *)
theory SpendLaws
  imports SpendFlowLaws Lifecycle
begin

text \<open>
  The guarantees of the spend executor, over the case analyses of \<open>SpendFlowLaws\<close>: one send per key, evidence
  for every recorded spend, what success and what a retryable result mean, and recovery.
\<close>

subsection \<open>Runs as histories\<close>

lemma project_spend_records:
  assumes "projectSpendOperation env p q verify d = (d', x)"
  shows "open_step\<^sup>*\<^sup>* d d'"
  using assms
proof (cases rule: project_spend_cases)
  case marked
  then show ?thesis by (intro ledger_steps_open)
next
  case (recorded h s d1 d2)
  have "open_step d1 d2" using recorded(5) by (rule open_spend)
  then show ?thesis using ledger_steps_open [OF recorded(4)] ledger_steps_open [OF recorded(6)]
    by (meson rtranclp.rtrancl_into_rtrancl rtranclp_trans)
qed

lemma sent_spend_tail:
  assumes "sent_spend env q k a asset d = (d', sent, x)"
  obtains d1 r where "submitSpend env (sq_user q) (treasury_of_env env) (amount_value a) k (ac_chainId asset)
      (tokenContractAddress asset) TARGET_OPERATION d = (d1, sent, r)" and "open_step\<^sup>*\<^sup>* d1 d'"
    and "may_retry x \<Longrightarrow> \<exists>g. r = Inl g \<and> isPreBroadcastTransactionDiagnostic g"
  using assms
proof (cases rule: sent_spend_cases)
  case (marked d1 r)
  then show thesis using ledger_steps_open by (intro that [of d1 r]) auto
next
  case (projected d1 r d2 st h oc g answer)
  have "open_step\<^sup>*\<^sup>* d1 d'"
    using ledger_steps_open [OF projected(2)] project_spend_records [OF projected(3)] by (rule rtranclp_trans)
  moreover have "\<not> may_retry x" using projected(3) by (cases rule: project_spend_cases) auto
  ultimately show thesis using projected(1) by (intro that [of d1 r]) auto
qed

type_synonym spend_call = "spend_env \<times> spend_request"

definition spend_runs :: "spend_call \<Rightarrow> db \<Rightarrow> db \<Rightarrow> string list \<Rightarrow> bool" where
  "spend_runs c d d' sent \<longleftrightarrow> (\<exists>x. processSpend (fst c) (snd c) d = (d', sent, x))"

definition spend_run_key :: "spend_call \<Rightarrow> string" where
  "spend_run_key c = (case spend_key_of (fst c) (snd c) of Inl _ \<Rightarrow> [] | Inr k \<Rightarrow> k)"

lemma process_spend_history:
  assumes "processSpend env q d = (d', sent, x)" and ok: "accounts_ok d"
  shows "open_step\<^sup>*\<^sup>* d d' \<and> (sent \<noteq> [] \<longrightarrow> sends_under (spend_run_key (env, q)) d d' sent \<and> \<not> may_retry x)"
  using assms(1)
proof (cases rule: process_spend_cases)
  case (existing k d1 r asset)
  then show ?thesis using project_spend_records [OF existing(7)] by (auto intro: rtranclp_trans)
next
  case (sends k a asset d1)
  have ok1: "accounts_ok d1" by (rule open_accounts [OF sends(4) ok])
  obtain d2 r where t: "submitSpend env (sq_user (q\<lparr>sq_operationKey := Some k\<rparr>)) (treasury_of_env env) (amount_value a) k
      (ac_chainId asset) (tokenContractAddress asset) TARGET_OPERATION d1 = (d2, sent, r)" "open_step\<^sup>*\<^sup>* d2 d'"
      "may_retry x \<Longrightarrow> \<exists>g. r = Inl g \<and> isPreBroadcastTransactionDiagnostic g"
    by (rule sent_spend_tail [OF sends(7)]) blast
  have h: "open_step\<^sup>*\<^sup>* d d'" using sends(4) submitSpend_facts(1) [OF t(1) ok1] t(2) by (meson rtranclp_trans)
  have "spend_run_key (env, q) = k" by (simp add: spend_run_key_def sends(1))
  then show ?thesis
    using h submitSpend_facts(3) [OF t(1) ok1 _ open_records [OF t(2)] open_records [OF sends(4)]] submitSpend_facts(4) [OF t(1) ok1] t(3) by auto
qed auto

interpretation spend_sender: keyed_sender spend_runs spend_run_key
  by unfold_locales (use process_spend_history open_records in \<open>force simp: spend_runs_def\<close>)+

subsection \<open>Sending\<close>

text \<open>
  C4: a spend is sent at most once: of two runs of the executor under the same operation key, with any
  history of the service between them and under any change of request, chain answers and failing writes,
  at most one sends a transaction.
\<close>

theorem spend_sent_at_most_once:
  assumes "accounts_ok d" and "processSpend env q d = (d1, sent, x)" and "sent \<noteq> []" and "recording_step\<^sup>*\<^sup>* d1 d2"
    and "processSpend env' q' d2 = (d3, sent', x')" and "spend_key_of env q = Inr k" and "spend_key_of env' q' = Inr k"
  shows "sent' = []"
proof -
  have k: "spend_run_key (env', q') = spend_run_key (env, q)" by (simp add: spend_run_key_def assms(6,7))
  show ?thesis
    by (rule spend_sender.sent_once [OF _ assms(1) assms(3,4) _ k]) (use assms(2,5) in \<open>auto simp: spend_runs_def\<close>)
qed

theorem spend_sent_at_most_once_witness:
  "\<exists>d1 x d2 x'. processSpend (sample_spend_env (Some spend_chain) (10 ^ 19)) sample_request empty_db = (d1, [''0x02''], x)
     \<and> processSpend (sample_spend_env None (10 ^ 19)) sample_request d1 = (d2, [], x')"
proof -
  obtain d1 x where a: "processSpend (sample_spend_env (Some spend_chain) (10 ^ 19)) sample_request empty_db = (d1, [''0x02''], x)"
    using sample_spend_run by blast
  obtain d2 s x' where b: "processSpend (sample_spend_env None (10 ^ 19)) sample_request d1 = (d2, s, x')"
    by (cases "processSpend (sample_spend_env None (10 ^ 19)) sample_request d1")
  have "s = []"
    by (rule spend_sent_at_most_once [OF empty_accounts_ok a _ rtranclp.rtrancl_refl b])
      (use sample_spend_key_of in simp_all)
  then show ?thesis using a b by blast
qed

text \<open>
  C12: a result that offers a retry, or the approval that would lead to one, proves that the run sent
  nothing: neither a failed check, nor a preparation that stopped before the broadcast, nor a refused
  settlement context leaves a transaction behind.
\<close>

theorem retryable_spend_sent_nothing:
  assumes "accounts_ok d" and "processSpend env q d = (d', sent, x)"
    and "sx_retryable x \<or> sx_preflightFailure x \<or> sx_approvalEligible x"
  shows "sent = []"
  using process_spend_history [OF assms(2,1)] assms(3) by (auto simp: may_retry_def)

lemma sample_refused_run:
  "\<exists>d' x. processSpend (sample_spend_env None 0) sample_request empty_db = (d', [], x) \<and> sx_approvalEligible x \<and> sx_preflightFailure x"
proof -
  obtain d' x where p: "preflight_refused (sample_spend_env None 0) keyed_sample sample_spend_key
      (KnownSpendPreflightFailure (''insufficient allowance for 0xa1: '' @ bigint_string 0 @ '' < '' @ bigint_string (3 * 10 ^ 18)))
      (empty_db\<lparr>t_operations := [sample_spend_row]\<rparr>) = (d', x)" by (metis surj_pair)
  then have "sx_approvalEligible x" "sx_preflightFailure x"
    by (auto simp: preflight_refused_def Let_def preflightFailureResult_def split: prod.splits)
  moreover have "processSpend (sample_spend_env None 0) sample_request empty_db = (d', [], x)"
    using p sample_preflight [of None 0]
    by (simp add: sample_spend_reaches_claim claimed_spend_def sample_spend_row(4))
  ultimately show ?thesis by blast
qed

theorem retryable_spend_sent_nothing_witness:
  "\<exists>d' sent x. processSpend (sample_spend_env None 0) sample_request empty_db = (d', sent, x) \<and> sx_approvalEligible x \<and> sent = []"
proof -
  obtain d' x where a: "processSpend (sample_spend_env None 0) sample_request empty_db = (d', [], x)" "sx_approvalEligible x"
    using sample_refused_run by blast
  have "([] :: string list) = []" by (rule retryable_spend_sent_nothing [OF empty_accounts_ok a(1)]) (simp add: a(2))
  then show ?thesis using a by blast
qed

subsection \<open>What is recorded\<close>

lemma project_spend_adds:
  assumes "projectSpendOperation env p q verify d = (d', x)" and ok: "accounts_ok d" and "t_spends d' \<noteq> t_spends d"
  obtains n h where "t_spends d' = t_spends d @ [n]" and "nonempty (sj_tx_hash p) = Some h"
    and "canonical_hash h ''transaction hash'' = Inr (sp_tx_hash n)" and "spend_verified p verify"
    and "sj_status p \<notin> {FAILED, PROJECTED}" and "sp_wallet n = sq_user (replay_request p q)"
    and "\<And>u. sj_amount p = numeric2_text u \<Longrightarrow> u < 10 ^ 13 \<Longrightarrow> sp_amount n = u"
  using assms(1)
proof (cases rule: project_spend_cases)
  case marked
  then show thesis using ledger_steps_awards assms(3) by blast
next
  case (recorded h s d1 d2)
  note outer = that
  have ok1: "accounts_ok d1" by (rule award_store.steps_invar [OF ledger_steps_record [OF recorded(4)] ok])
  have t: "t_spends d1 = t_spends d" "t_spends d' = t_spends d2" using ledger_steps_awards recorded(4,6) by blast+
  define c where "c = spend_record_of (replay_request p q) h"
  have c: "sr_txHash c = h" "sr_wallet c = sq_user (replay_request p q)" "sr_amount c = text_number (sj_amount p)"
    by (simp_all add: c_def spend_record_of_def) (simp add: replay_request_def)
  from recorded(5) [folded c_def] show thesis
  proof (cases rule: recordSpend_cases)
    case (1 g amt r)
    then show thesis using t assms(3) by simp
  next
    case (2 g amt)
    obtain n where n: "so_spend s = Some n" "t_spends d2 = t_spends d1 @ [n]" "sp_tx_hash n = g"
      using new_spend_step [OF 2(4) ok1] by blast
    obtain owner where row: "n = spend_row_of (spend_clock env) (se_spend_ident env) owner c g (decimal amt)"
      using 2(4) by (rule new_spend_shape) (use n(1) in auto)
    have "sp_amount n = u" if u: "sj_amount p = numeric2_text u" "u < 10 ^ 13" for u
    proof -
      have "sr_amount c = units_number u" using column_number [OF u(2)] by (simp add: c(3) u(1))
      then have "amt = \<lparr>units = u, decimal = numeric2_text u, amount_value = units_number u\<rparr>"
        using 2(2) cents_number [OF u(2)] by simp
      then show ?thesis by (simp add: row spend_row_of_def)
    qed
    moreover have "sp_wallet n = sq_user (replay_request p q)" by (simp add: row spend_row_of_def c(2))
    ultimately show thesis using outer [OF _ recorded(1) _ recorded(3,2)] n t 2(1) by (simp add: c(1))
  qed
qed

text \<open>
  C9: no spend is recorded on trust: when a run adds a spend row, it is one row, and its transaction hash is
  one for which the chain evidence was accepted in this very run, for a transfer of exactly the row's
  amount from the wallet to the treasury, or the hash of a movement the ledger already had as confirmed,
  or as prepared and not yet submitted. The last case is the same gap as for awards.
\<close>

theorem spend_rows_need_evidence:
  assumes "accounts_ok d" and "processSpend env q d = (d', sent, x)" and "t_spends d' \<noteq> t_spends d"
  shows "\<exists>n h. t_spends d' = t_spends d @ [n] \<and> canonical_hash h ''transaction hash'' = Inr (sp_tx_hash n)
    \<and> ((\<exists>asset w u pf. asset_of (se_base env) = Some asset \<and> spend_evidence env asset w u h = Some (Inr pf)
          \<and> (w \<noteq> [] \<longrightarrow> sp_wallet n = w) \<and> (u < 10 ^ 13 \<longrightarrow> sp_amount n = u))
      \<or> (\<exists>k r. find_operation d k = Some r \<and> op_status r \<in> {SUBMITTING, CONFIRMED} \<and> op_tx_hash r = Some h))"
  using assms(2)
proof (cases rule: process_spend_cases)
  case quiet
  then show ?thesis using assms(3) by simp
next
  case (existing k d1 r asset)
  have ok1: "accounts_ok d1" by (rule open_accounts [OF existing(2) assms(1)])
  define v where "v = q\<lparr>sq_operationKey := Some k\<rparr>"
  have p: "sj_tx_hash (spend_projection_of r) = op_tx_hash r" "sj_status (spend_projection_of r) = op_status r"
    "sj_amount (spend_projection_of r) = numeric2_text (op_amount r)"
    "op_wallet r \<noteq> [] \<longrightarrow> sq_user (replay_request (spend_projection_of r) v) = op_wallet r"
    by (simp_all add: spend_projection_of_def replay_request_def)
  obtain n h where a: "t_spends d' = t_spends d1 @ [n]" "nonempty (op_tx_hash r) = Some h"
    "canonical_hash h ''transaction hash'' = Inr (sp_tx_hash n)" "spend_verified (spend_projection_of r) (saved_spend_evidence env asset r)"
    "op_status r \<notin> {FAILED, PROJECTED}" "op_wallet r \<noteq> [] \<longrightarrow> sp_wallet n = op_wallet r"
    "op_amount r < 10 ^ 13 \<Longrightarrow> sp_amount n = op_amount r"
    by (rule project_spend_adds [OF existing(7) [folded v_def] ok1]) (use existing(3) assms(3) p in auto)
  have h: "op_tx_hash r = Some h" using a(2) by (auto simp: nonempty_def split: option.splits if_splits)
  show ?thesis
  proof (cases "op_status r \<in> {SUBMITTED, UNKNOWN_STATUS}")
    case True
    then obtain pf where e: "saved_spend_evidence env asset r = Some (Some (Inr pf))"
      using a(4) by (auto simp: spend_verified_def p)
    then have "spend_evidence env asset (op_wallet r) (op_amount r) h = Some (Inr pf)"
      using a(2) by (auto simp: saved_spend_evidence_def canonicalTokenAmount_text split: if_splits)
    then show ?thesis using a(1,3,6,7) existing(3,6) by auto
  next
    case False
    then have "op_status r \<in> {SUBMITTING, CONFIRMED}" using a(5) by (cases "op_status r") auto
    then show ?thesis using a(1,3) existing(3,4) h by (intro exI [of _ n] exI [of _ h]) auto
  qed
next
  case (sends k a asset d1)
  define v where "v = q\<lparr>sq_operationKey := Some k\<rparr>"
  have ok1: "accounts_ok d1" by (rule open_accounts [OF sends(4) assms(1)])
  have dec: "decimal a = numeric2_text (units a)" using canonicalTokenAmount_form [OF sends(2)] by (metis canonical_amount.select_convs(2))
  from sends(7) [folded v_def] show ?thesis
  proof (cases rule: sent_spend_cases)
    case (marked d2 r)
    then show ?thesis using submitSpend_facts(2) [OF marked(1) ok1] ledger_steps_awards [OF marked(2)] sends(5) assms(3) by simp
  next
    case (projected d2 r d3 st h oc g answer)
    have ok3: "accounts_ok d3"
      using open_accounts [OF submitSpend_facts(1) [OF projected(1) ok1] ok1]
        award_store.steps_invar [OF ledger_steps_record [OF projected(2)]] by blast
    have t3: "t_spends d3 = t_spends d"
      using submitSpend_facts(2) [OF projected(1) ok1] ledger_steps_awards [OF projected(2)] sends(5) by simp
    define p where "p = sent_projection v k a st h oc g"
    have p: "sj_tx_hash p = Some h" "sj_status p = st" "sj_amount p = numeric2_text (units a)"
      "sq_user v \<noteq> [] \<longrightarrow> sq_user (replay_request p v) = sq_user v"
      by (simp_all add: p_def sent_projection_def dec replay_request_def)
    obtain n h' where b: "t_spends d' = t_spends d3 @ [n]" "nonempty (sj_tx_hash p) = Some h'"
      "canonical_hash h' ''transaction hash'' = Inr (sp_tx_hash n)" "spend_verified p (Some answer)"
      "sq_user v \<noteq> [] \<longrightarrow> sp_wallet n = sq_user v" "units a < 10 ^ 13 \<Longrightarrow> sp_amount n = units a"
      by (rule project_spend_adds [OF projected(3) [folded p_def] ok3]) (use assms(3) t3 p in auto)
    have h: "h' = h" using b(2) p(1) by (auto simp: nonempty_def split: if_splits)
    obtain pf where "spend_evidence env asset (sq_user v) (units a) h = Some (Inr pf)"
      using b(4) projected(4,5) by (auto simp: spend_verified_def p)
    then show ?thesis using b(1,3,5,6) t3 sends(3) unfolding h by auto
  qed
qed

theorem spend_rows_need_evidence_witness:
  "\<exists>d' x n h. processSpend (sample_spend_env (Some spend_chain) (10 ^ 19)) sample_request empty_db = (d', [''0x02''], x)
     \<and> t_spends d' = t_spends empty_db @ [n] \<and> canonical_hash h ''transaction hash'' = Inr (sp_tx_hash n)"
proof -
  obtain d1 x row where a: "processSpend (sample_spend_env (Some spend_chain) (10 ^ 19)) sample_request empty_db = (d1, [''0x02''], x)"
    "t_spends d1 = [row]" using sample_spend_run by metis
  have "t_spends d1 \<noteq> t_spends empty_db" using a(2) by simp
  from spend_rows_need_evidence [OF empty_accounts_ok a(1) this] a(1) show ?thesis by blast
qed

text \<open>
   a new success is on record: when a run reports success and not as a duplicate, the spend table has,
  under the reported transaction hash, a row of exactly the reported amount for the reported wallet.
\<close>

theorem spend_success_is_recorded:
  assumes "accounts_ok d" and "processSpend env q d = (d', sent, x)" and "sx_success x" and "\<not> sx_duplicate x"
  shows "\<exists>h g r amt. sx_txHash x = Some h \<and> canonical_hash h ''transaction hash'' = Inr g \<and> spend_row_at d' (js_lower g) = Some r
    \<and> same_text (sp_wallet r) (sx_user x) \<and> canonicalTokenAmount (JNum (sx_amount x)) = Some amt \<and> sp_amount r = units amt"
proof -
  have main: ?thesis if p: "projectSpendOperation env p v verify d0 = (d', x)" and ok: "accounts_ok d0" for p v verify d0
    using p
  proof (cases rule: project_spend_cases)
    case marked
    then show ?thesis using assms(3,4) by blast
  next
    case (recorded h s d1 d2)
    have ok1: "accounts_ok d1" by (rule award_store.steps_invar [OF ledger_steps_record [OF recorded(4)] ok])
    obtain oc where x: "x = completed_spend (text_number (sj_amount p)) (sq_user (replay_request p v)) (sj_key p) (Some h) False oc"
      using recorded(8) assms(3) by blast
    define c where "c = spend_record_of (replay_request p v) h"
    have c: "sr_txHash c = h" "sr_wallet c = sx_user x" "sr_amount c = sx_amount x"
      by (simp_all add: c_def spend_record_of_def x) (simp add: replay_request_def)
    obtain g amt r where r: "canonical_hash (sr_txHash c) ''transaction hash'' = Inr g"
      "canonicalTokenAmount (JNum (sr_amount c)) = Some amt" "spend_row_at d2 (js_lower g) = Some r" "same_spend r c (decimal amt)"
      by (rule recordSpend_result [OF recorded(5) [folded c_def] ok1])
    have t: "spend_row_at d' k = spend_row_at d2 k" for k
      using ledger_steps_awards [OF recorded(6)] by (simp add: spend_row_at_def)
    have "sp_amount r = units amt"
      using r(4) canonicalTokenAmount_idem(1) [OF r(2)]
      by (simp add: same_spend_def sameTokenAmount_def canonicalTokenAmount_text)
    then show ?thesis using r t by (simp add: x same_spend_def c c [unfolded x])
  qed
  from assms(2) show ?thesis
  proof (cases rule: process_spend_cases)
    case quiet
    then show ?thesis using assms(3) by blast
  next
    case (existing k d1 r asset)
    then show ?thesis using main open_accounts [OF existing(2) assms(1)] by blast
  next
    case (sends k a asset d1)
    have ok1: "accounts_ok d1" by (rule open_accounts [OF sends(4) assms(1)])
    from sends(7) show ?thesis
    proof (cases rule: sent_spend_cases)
      case (marked d2 r)
      then show ?thesis using assms(3) by blast
    next
      case (projected d2 r d3 st h oc g answer)
      have "accounts_ok d3"
        using open_accounts [OF submitSpend_facts(1) [OF projected(1) ok1] ok1]
          award_store.steps_invar [OF ledger_steps_record [OF projected(2)]] by blast
      then show ?thesis using main projected(3) by blast
    qed
  qed
qed

theorem spend_success_is_recorded_witness:
  "\<exists>d' x g r. processSpend (sample_spend_env (Some spend_chain) (10 ^ 19)) sample_request empty_db = (d', [''0x02''], x)
     \<and> spend_row_at d' g = Some r \<and> sp_amount r = 300"
proof -
  obtain d1 x where a: "processSpend (sample_spend_env (Some spend_chain) (10 ^ 19)) sample_request empty_db = (d1, [''0x02''], x)"
    "sx_success x" "\<not> sx_duplicate x" "sx_amount x = Fin (of_nat 3)" using sample_spend_run by metis
  from spend_success_is_recorded [OF empty_accounts_ok a(1-3)] a(1) show ?thesis
    by (auto simp: a(4) three_tokens simp del: of_nat_numeral)
qed

subsection \<open>A changed settlement\<close>

text \<open>
   the delivered energy of a reservation cannot be changed by a later request: when the reservation has a
  stored settlement context and the request names another amount of energy, the run changes nothing,
  sends nothing and does not succeed.
\<close>

theorem changed_settlement_is_refused:
  assumes "find_reservation d i = Some c" and "rv_context c = Some sc" and "sq_settlement q = Some (i, v)"
    and "map_option (\<lambda>dk. sc_deliveredKwh (settlement_of dk)) (delivered_split v) \<noteq> Some (sc_deliveredKwh sc)"
  shows "\<exists>x. processSpend env q d = (d, [], x) \<and> \<not> sx_success x"
proof -
  have e: "\<exists>e. persistSettlementContext now i v d = Inl e" for now
    using assms(1,2,4)
    by (cases "delivered_split v") (auto simp: persistSettlementContext_def of_option_def guard_def rbind_def split: sum.splits)
  have s: "\<exists>x. settle_context env (q\<lparr>sq_operationKey := Some k\<rparr>) k d = Inl x" for k
    using e [of "spend_clock env"] assms(3)
    by (auto simp: settle_context_def split: option.splits)
  have stop: "\<exists>x. keyed_spend env (q\<lparr>sq_operationKey := Some k\<rparr>) k a d = (d, [], x) \<and> \<not> sx_success x" for k a
    using s [of k] settle_refused by (auto simp: keyed_spend_def)
  show ?thesis
    using stop by (auto simp: processSpend_def Let_def split: option.splits sum.splits)
qed

theorem changed_settlement_is_refused_witness:
  "\<exists>x. processSpend (sample_spend_env None 0) (sample_request\<lparr>sq_settlement := Some (''r1'', Fin 7)\<rparr>) sample_service
      = (sample_service, [], x) \<and> \<not> sx_success x"
proof -
  have d: "map_option (\<lambda>dk. sc_deliveredKwh (settlement_of dk)) (delivered_split (Fin 7)) \<noteq> Some ''4.0''" by code_simp
  have c: "rv_context settled_reservation = Some settled_context" "sc_deliveredKwh settled_context = ''4.0''"
    by (simp_all add: settled_reservation_def settled_context_def)
  show ?thesis
    by (rule changed_settlement_is_refused [OF sample_finds(3) c(1), where v = "Fin 7"]) (use d c(2) in simp_all)
qed

subsection \<open>Recovery\<close>

lemma recovery_evidence_Inl: "recovery_evidence env r a h d = Inl (d', x) \<Longrightarrow> \<not> sx_success x"
  by (auto simp: recovery_evidence_def Let_def split: option.splits sum.splits if_splits)

lemma recovery_evidence_Inr:
  "recovery_evidence env r a h d = Inr asset \<Longrightarrow> asset_of (se_base env) = Some asset \<and> assetContextMismatch (op_intent r) asset = None
     \<and> (\<exists>pf. spend_evidence env asset (op_wallet r) (units a) h = Some (Inr pf))"
  by (auto simp: recovery_evidence_def Let_def split: option.splits sum.splits if_splits)

lemma recoverable_spend_Inl: "recoverable_spend env r = Inl x \<Longrightarrow> \<not> sx_success x"
  by (auto simp: recoverable_spend_def Let_def split: option.splits if_splits)

lemma recoverable_spend_Inr:
  "recoverable_spend env r = Inr (a, h) \<Longrightarrow> canonicalTokenAmount (JStr (numeric2_text (op_amount r))) = Some a \<and> op_status r \<noteq> FAILED
     \<and> Option.bind (op_tx_hash r) (\<lambda>t. canonicalTransactionHash (JStr t)) = Some h"
  by (auto simp: recoverable_spend_def Let_def split: option.splits if_splits)

text \<open>What a recovery does with a proved spend that is submitted or unknown.\<close>

lemma sent_spend_recovers:
  assumes "find_operation d k = Some r" and "op_type r = SPEND" and "op_status r \<in> {SUBMITTED, UNKNOWN_STATUS}"
    and "isNonEmptyOperationKey k" and "recoverable_spend env r = Inr (a, h)" and "recovery_evidence env r a h d = Inr asset"
    and "wallets_ok d" and "ae_lookup (se_base env)" and "\<And>p. ae_saved (se_base env) p"
    and "recordSpend (spend_clock env) (ae_user_ident (se_base env)) (se_spend_ident env)
          (spend_record_of (replay_request (spend_projection_of r) (recovery_request r)) h)
          (snd (markConfirmed (spend_clock env) k None d)) = Inr (s, d1)"
  shows "\<exists>d' x n. recoverSpendOperation env k d = (d', x) \<and> sx_success x \<and> \<not> sx_duplicate x \<and> sx_txHash x = Some h
    \<and> t_spends d' = t_spends d1 \<and> find_operation d' k = Some n \<and> op_status n = PROJECTED"
proof -
  have k: "op_key r = k" using row_at_Some [of op_key k "t_operations d" r] assms(1) by (simp add: find_operation_def)
  have f: "op_tx_hash r \<noteq> None" "h \<noteq> []"
    using recoverable_spend_Inr [OF assms(5)]
    by (cases "op_tx_hash r"; auto simp: canonicalTransactionHash_def is_tx_hash_def Let_def split: if_splits)+
  obtain m where m: "fst (markConfirmed (spend_clock env) k None d) = Some m"
    "find_operation (snd (markConfirmed (spend_clock env) k None d)) k = Some m" "op_status m = CONFIRMED" "op_tx_hash m = op_tx_hash r"
    "same_intent r m"
    using confirmed_row [OF assms(1) f(1), of "spend_clock env" None] assms(3) by auto
  have "canonicalTransactionHash (JStr []) = None" by code_simp
  then have given_hash: "nonempty (op_tx_hash r) \<noteq> None"
    using recoverable_spend_Inr [OF assms(5)] by (cases "op_tx_hash r") (auto simp: nonempty_def)
  define d0 where "d0 = snd (markConfirmed (spend_clock env) k None d)"
  define p where "p = (spend_projection_of m)\<lparr>sj_status := CONFIRMED, sj_tx_hash := Some h\<rparr>"
  have p: "sj_status p = CONFIRMED" "sj_tx_hash p = Some h" "sj_key p = k" "nonempty (Some h) = Some h"
    using m(5) k f(2) by (simp_all add: p_def spend_projection_of_def same_intent_def nonempty_def)
  have v: "replay_request p (recovery_request r) = replay_request (spend_projection_of r) (recovery_request r)"
    using m(5) by (simp add: replay_request_def p_def spend_projection_of_def same_intent_def)
  obtain row d2 where d2: "markProjected (spend_clock env) k d1 = (row, d2)" by (cases "markProjected (spend_clock env) k d1")
  obtain oc where rec: "projectSpendOperation env p (recovery_request r) None d0
      = (d2, completed_spend (sq_amount (replay_request p (recovery_request r))) (sq_user (replay_request p (recovery_request r))) k (Some h) False oc)"
    using assms(9,10) d2
    by (auto simp: projectSpendOperation_def Let_def p v d0_def record_spend_def saving_def)
  have "finish_recovery env r a h d = projectSpendOperation env p (recovery_request r) None d0"
    using assms(3,9) m(1) by (auto simp: finish_recovery_def k d0_def p_def split: prod.splits)
  then have "recoverSpendOperation env k d
      = (d2, completed_spend (sq_amount (replay_request p (recovery_request r))) (sq_user (replay_request p (recovery_request r))) k (Some h) False oc)"
    using assms(1,2,4,5,6,8) rec by (simp add: recoverSpendOperation_def Let_def)
  moreover have "outside_ledger d0 = outside_ledger d" unfolding d0_def using ledger_step_outside [OF step_confirmed] .
  then have "wallets_ok d0" using assms(7) frames_keep(2) by (auto simp: outside_defs)
  then have "t_operations d1 = t_operations d0" using record_spend_keeps_operations assms(10) by (simp add: d0_def)
  then have "find_operation d1 k = Some m" using m(2) by (simp add: find_operation_def d0_def)
  then obtain n where "find_operation d2 k = Some n" "op_status n = PROJECTED"
    using projected_row [of d1 k m "spend_clock env"] m(3,4) given_hash d2 by auto
  moreover have "t_spends d2 = t_spends d1" using ledger_steps_awards [OF marks(6)] d2 by (metis snd_conv)
  ultimately show ?thesis by auto
qed

text \<open>The sample spend after its send, as a row to recover.\<close>

definition sent_spend_row :: operation_row where
  "sent_spend_row = sample_spend_row\<lparr>op_status := SUBMITTED, op_tx_hash := Some (sample_hash CHR ''a'')\<rparr>"

definition sent_book :: db where
  "sent_book = empty_db\<lparr>t_operations := [sent_spend_row], t_leases := []\<rparr>"

lemma sent_spend_row:
  "op_key sent_spend_row = sample_spend_key" "op_type sent_spend_row = SPEND" "op_status sent_spend_row = SUBMITTED"
  "op_amount sent_spend_row = 300" "op_uid sent_spend_row = ''U''" "op_wallet sent_spend_row = ''0xB2''"
  "op_session_id sent_spend_row = Some ''s1''" "op_provider_id sent_spend_row = Some ''P''" "op_reservation sent_spend_row = Some ''r1''"
  "op_tx_hash sent_spend_row = Some (sample_hash CHR ''a'')" "op_fingerprint sent_spend_row = replicate 64 CHR ''a''"
  "assetContextMismatch (op_intent sent_spend_row) sample_asset = None"
proof -
  have "op_fingerprint sent_spend_row = replicate 64 CHR ''a''"
    using canonicalTokenAmount_idem three_tokens three_tokens_value
    by (simp add: sent_spend_row_def sample_spend_row_def new_operation_def spend_claim_def spendIntentFingerprint_def
        spend_intent_of_def of_option_def tokenIntentFingerprint_def del: of_nat_numeral)
  then show "op_fingerprint sent_spend_row = replicate 64 CHR ''a''" .
  show "assetContextMismatch (op_intent sent_spend_row) sample_asset = None" using sample_spend_row(4) by (simp add: sent_spend_row_def)
qed (simp_all add: sent_spend_row_def sample_spend_row_def new_operation_def spend_claim_def nonempty_def keyed_sample_def sample_request_def
    spend_uid_def)

lemma sample_recoverable: "recoverable_spend (sample_spend_env (Some spend_chain) n) sent_spend_row = Inr (three_tokens, sample_hash CHR ''a'')"
proof -
  have a: "canonicalTokenAmount (JStr (numeric2_text 300)) = Some three_tokens" by (simp add: canonicalTokenAmount_text three_tokens_def)
  have h: "canonicalTransactionHash (JStr (sample_hash CHR ''a'')) = Some (sample_hash CHR ''a'')" by code_simp
  have q: "sq_amount (recovery_request sent_spend_row) = Fin (of_nat 3)"
    using three_tokens_value by (simp add: recovery_request_def sent_spend_row a or_number_def)
  have m: "spendRecoveryIntentMismatch (sha_of (se_base (sample_spend_env (Some spend_chain) n))) sent_spend_row
      (recovery_request sent_spend_row) ''U'' = None"
    unfolding spendRecoveryIntentMismatch_def q three_tokens(1)
    by (simp add: sent_spend_row a recovery_request_def same_text_def names_other_def nonempty_def)
      (simp add: spendIntentFingerprint_def spend_intent_of_def of_option_def tokenIntentFingerprint_def three_tokens_value three_tokens(1)
        del: of_nat_numeral)
  show ?thesis
    using m by (simp add: recoverable_spend_def Let_def sent_spend_row a three_tokens(3) h)
qed

lemma sample_recovery_evidence:
  "recovery_evidence (sample_spend_env (Some spend_chain) n) sent_spend_row three_tokens (sample_hash CHR ''a'') d = Inr sample_asset"
  using spend_evidence_valid [of n]
  by (auto simp: recovery_evidence_def Let_def sent_spend_row sample_asset_of three_tokens(3) sample_chain_def)

lemma sample_spend_recorded:
  "\<exists>s row d1. recordSpend 9 (ae_user_ident (se_base (sample_spend_env (Some spend_chain) n))) (se_spend_ident (sample_spend_env (Some spend_chain) n))
      (spend_record_of (replay_request (spend_projection_of sent_spend_row) (recovery_request sent_spend_row)) (sample_hash CHR ''a''))
      (snd (markConfirmed 9 sample_spend_key None sent_book)) = Inr (s, d1) \<and> t_spends d1 = [row] \<and> sp_amount row = 300"
proof -
  define c where "c = spend_record_of (replay_request (spend_projection_of sent_spend_row) (recovery_request sent_spend_row)) (sample_hash CHR ''a'')"
  have c: "sr_wallet c = ''0xB2''" "sr_txHash c = sample_hash CHR ''a''" "sr_amount c = units_number 300" "sr_uid c = Some ''U''"
    using column_number [of 300] by (simp_all add: c_def spend_record_of_def replay_request_def spend_projection_of_def sent_spend_row)
  have "\<exists>m. snd (markConfirmed 9 sample_spend_key None sent_book) = empty_db\<lparr>t_operations := [m], t_leases := []\<rparr>"
    by (intro exI [of _ "sent_spend_row\<lparr>op_status := CONFIRMED, op_outcome := Some OUT_CONFIRMED, op_error := None,
          op_confirmed_at := Some 9, op_updated := 9\<rparr>"])
      (simp add: sent_book_def markConfirmed_def mark_operation_def returning_where_def sent_spend_row update_operations_def
        update_where_def nonempty_def empty_db_def)
  then show ?thesis using tables_spent [OF c] unfolding c_def by metis
qed

lemma sent_book:
  "find_operation sent_book sample_spend_key = Some sent_spend_row" "wallets_ok sent_book" "isNonEmptyOperationKey sample_spend_key"
proof -
  show "wallets_ok sent_book" using empty_service_ok by (simp add: service_ok_def sent_book_def wallets_ok_def)
  show "isNonEmptyOperationKey sample_spend_key" by code_simp
qed (simp add: find_operation_def sent_book_def sent_spend_row)

text \<open>
  C26: a sent spend is never lost: when the ledger has a spend as submitted or unknown, its saved intent and
  hash are sound, the chain proves the transfer under the original asset context and the writes go
  through, then a recovery by the operation key alone records it and ends with the operation completed.
\<close>

theorem sent_spend_can_be_recovered:
  assumes "find_operation d k = Some r" and "op_type r = SPEND" and "op_status r \<in> {SUBMITTED, UNKNOWN_STATUS}"
    and "isNonEmptyOperationKey k" and "recoverable_spend env r = Inr (a, h)" and "recovery_evidence env r a h d = Inr asset"
    and "wallets_ok d" and "ae_lookup (se_base env)" and "\<And>p. ae_saved (se_base env) p"
    and "recordSpend (spend_clock env) (ae_user_ident (se_base env)) (se_spend_ident env)
          (spend_record_of (replay_request (spend_projection_of r) (recovery_request r)) h)
          (snd (markConfirmed (spend_clock env) k None d)) = Inr (s, d1)"
  shows "\<exists>d' x n. recoverSpendOperation env k d = (d', x) \<and> sx_success x \<and> \<not> sx_duplicate x \<and> sx_txHash x = Some h
    \<and> t_spends d' = t_spends d1 \<and> find_operation d' k = Some n \<and> op_status n = PROJECTED"
  using assms by (rule sent_spend_recovers)

theorem sent_spend_can_be_recovered_witness:
  "\<exists>d' x n row. recoverSpendOperation (sample_spend_env (Some spend_chain) 0) sample_spend_key sent_book = (d', x)
    \<and> sx_success x \<and> t_spends d' = [row] \<and> sp_amount row = 300 \<and> find_operation d' sample_spend_key = Some n \<and> op_status n = PROJECTED"
proof -
  obtain s row d1 where r: "recordSpend 9 (ae_user_ident (se_base (sample_spend_env (Some spend_chain) 0)))
      (se_spend_ident (sample_spend_env (Some spend_chain) 0))
      (spend_record_of (replay_request (spend_projection_of sent_spend_row) (recovery_request sent_spend_row)) (sample_hash CHR ''a''))
      (snd (markConfirmed 9 sample_spend_key None sent_book)) = Inr (s, d1)" "t_spends d1 = [row]" "sp_amount row = 300"
    using sample_spend_recorded by blast
  have st: "op_status sent_spend_row \<in> {SUBMITTED, UNKNOWN_STATUS}" by (simp add: sent_spend_row)
  have "\<exists>d' x n. recoverSpendOperation (sample_spend_env (Some spend_chain) 0) sample_spend_key sent_book = (d', x) \<and> sx_success x
      \<and> \<not> sx_duplicate x \<and> sx_txHash x = Some (sample_hash CHR ''a'') \<and> t_spends d' = t_spends d1
      \<and> find_operation d' sample_spend_key = Some n \<and> op_status n = PROJECTED"
    by (rule sent_spend_can_be_recovered [OF sent_book(1) sent_spend_row(2) st sent_book(3) sample_recoverable sample_recovery_evidence sent_book(2)])
      (use r(1) in simp_all)
  then show ?thesis using r(2,3) by metis
qed

text \<open>
   a recovery never reports a spend on trust: whenever it succeeds, also for an operation that is already
  completed, the saved hash is canonical and the chain proved, in this run and under the original asset
  context, the transfer of exactly the saved amount from the saved wallet to the treasury.
\<close>

theorem spend_recovery_needs_evidence:
  assumes "recoverSpendOperation env k d = (d', x)" and "sx_success x"
  shows "\<exists>r t h asset pf. find_operation d k = Some r \<and> op_type r = SPEND \<and> op_tx_hash r = Some t
    \<and> canonicalTransactionHash (JStr t) = Some h \<and> asset_of (se_base env) = Some asset
    \<and> assetContextMismatch (op_intent r) asset = None \<and> spend_evidence env asset (op_wallet r) (op_amount r) h = Some (Inr pf)"
proof -
  obtain r where r: "find_operation d k = Some r" "op_type r = SPEND"
    using assms by (auto simp: recoverSpendOperation_def Let_def refused_spend_def split: if_splits option.splits)
  obtain a h where ah: "recoverable_spend env r = Inr (a, h)"
    using assms r recoverable_spend_Inl
    by (auto simp: recoverSpendOperation_def Let_def refused_spend_def split: if_splits sum.splits)
  obtain asset where e: "recovery_evidence env r a h d = Inr asset"
    using assms r ah recovery_evidence_Inl
    by (auto simp: recoverSpendOperation_def Let_def refused_spend_def split: if_splits sum.splits)
  have "units a = op_amount r" using recoverable_spend_Inr [OF ah] by (auto simp: canonicalTokenAmount_text)
  then show ?thesis
    using r recoverable_spend_Inr [OF ah] recovery_evidence_Inr [OF e] by (cases "op_tx_hash r") auto
qed

theorem spend_recovery_needs_evidence_witness:
  "\<exists>d' x h pf. recoverSpendOperation (sample_spend_env (Some spend_chain) 0) sample_spend_key sent_book = (d', x) \<and> sx_success x
    \<and> spend_evidence (sample_spend_env (Some spend_chain) 0) sample_asset ''0xB2'' 300 h = Some (Inr pf)"
proof -
  obtain s row d1 where r: "recordSpend 9 (ae_user_ident (se_base (sample_spend_env (Some spend_chain) 0)))
      (se_spend_ident (sample_spend_env (Some spend_chain) 0))
      (spend_record_of (replay_request (spend_projection_of sent_spend_row) (recovery_request sent_spend_row)) (sample_hash CHR ''a''))
      (snd (markConfirmed 9 sample_spend_key None sent_book)) = Inr (s, d1)"
    using sample_spend_recorded by blast
  have st: "op_status sent_spend_row \<in> {SUBMITTED, UNKNOWN_STATUS}" by (simp add: sent_spend_row)
  have "\<exists>d' x n. recoverSpendOperation (sample_spend_env (Some spend_chain) 0) sample_spend_key sent_book = (d', x) \<and> sx_success x
      \<and> \<not> sx_duplicate x \<and> sx_txHash x = Some (sample_hash CHR ''a'') \<and> t_spends d' = t_spends d1
      \<and> find_operation d' sample_spend_key = Some n \<and> op_status n = PROJECTED"
    by (rule sent_spend_recovers [OF sent_book(1) sent_spend_row(2) st sent_book(3) sample_recoverable sample_recovery_evidence sent_book(2)])
      (use r in simp_all)
  then obtain d' x where x: "recoverSpendOperation (sample_spend_env (Some spend_chain) 0) sample_spend_key sent_book = (d', x)" "sx_success x"
    by blast
  from spend_recovery_needs_evidence [OF x] show ?thesis
    using x by (auto simp: sent_book(1) sent_spend_row sample_asset_of)
qed

end
