(* ===== verification/RpcErrors.thy ===== *)
theory RpcErrors
  imports JS_Text
begin

text \<open>
  How \<open>src/rpcProvider.ts\<close> reads an error: \<open>extractRpcDiagnostic\<close> collects the provider code, the numeric RPC
  code, the HTTP status and the trace id from a bounded tree of values, and \<open>isTransientRpcReadError\<close>
  decides whether a read may be repeated. A rejection is an \<open>Error\<close> with its message and its own enumerable
  properties, or any other value; values are trees, so the \<open>seen\<close> sets of the code never refuse one. The
  endpoint evidence that is attached to an error under a symbol is not part of these values.
\<close>

datatype rejection = Rejected_Error string js_object | Rejected_Value jsv

definition error_fields :: "rejection \<Rightarrow> jsv" where
  "error_fields e = (case e of Rejected_Error _ ob \<Rightarrow> JObj ob | Rejected_Value v \<Rightarrow> v)"

subsection \<open>Bounded texts\<close>

definition is_control :: "char \<Rightarrow> bool" where
  "is_control c \<longleftrightarrow> of_char c < (32 :: nat) \<or> of_char c = (127 :: nat)"

definition boundedDiagnosticText :: "nat \<Rightarrow> jsv \<Rightarrow> string option" where
  "boundedDiagnosticText n v =
     (if is_nullish v then None
      else (case js_trim (filter (\<lambda>c. \<not> is_control c) (js_string v)) of [] \<Rightarrow> None | t \<Rightarrow> Some (take n t)))"

definition is_word_char :: "char \<Rightarrow> bool" where
  "is_word_char c \<longleftrightarrow> is_digit c \<or> is_letter c \<or> c = CHR ''_''"

text \<open>The first match of \<open>/\b([1-5]\d{2})\b/\<close>; the flag says whether a word character precedes.\<close>

fun find_status :: "bool \<Rightarrow> string \<Rightarrow> nat option" where
  "find_status after_word [] = None"
| "find_status after_word (c # s) =
     (if \<not> after_word \<and> c \<in> set ''12345'' \<and> length (take 2 s) = 2 \<and> list_all is_digit (take 2 s)
         \<and> (case drop 2 s of [] \<Rightarrow> True | e # _ \<Rightarrow> \<not> is_word_char e)
      then Some (digits_val (c # take 2 s))
      else find_status (is_word_char c) s)"

definition diagnosticHttpStatus :: "jsv \<Rightarrow> nat option" where
  "diagnosticHttpStatus v =
     (case find_status False (if is_nullish v then [] else js_string v) of
        None \<Rightarrow> None
      | Some n \<Rightarrow> if 100 \<le> n \<and> n \<le> 599 then Some n else None)"

text \<open>
  The trace id of a message: \<open>/(?:trace[-_ ]?id|request[-_ ]?id)\s*[:=]\s*([A-Za-z0-9][A-Za-z0-9._-]{3,95})/i\<close>,
  tried at one position and at all.
\<close>

definition after_prefix :: "string \<Rightarrow> string \<Rightarrow> string option" where
  "after_prefix p s = (if js_lower (take (length p) s) = p then Some (drop (length p) s) else None)"

definition id_label :: "string \<Rightarrow> string \<Rightarrow> string option" where
  "id_label name s = Option.bind (after_prefix name s) (\<lambda>r.
     after_prefix ''id'' (case r of c # r' \<Rightarrow> if c \<in> set ''-_ '' then r' else r | [] \<Rightarrow> r))"

definition trace_char :: "char \<Rightarrow> bool" where
  "trace_char c \<longleftrightarrow> is_digit c \<or> is_letter c \<or> c \<in> set ''._-''"

definition trace_at :: "string \<Rightarrow> string option" where
  "trace_at s = Option.bind (case id_label ''trace'' s of None \<Rightarrow> id_label ''request'' s | Some r \<Rightarrow> Some r) (\<lambda>r.
     case dropWhile js_space r of
       [] \<Rightarrow> None
     | d # q \<Rightarrow> if d \<notin> set '':='' then None
         else (case dropWhile js_space q of
             [] \<Rightarrow> None
           | c # t \<Rightarrow> (let u = takeWhile trace_char t in
               if (is_digit c \<or> is_letter c) \<and> 3 \<le> length u then Some (take 96 (c # take 95 u)) else None)))"

fun find_trace :: "string \<Rightarrow> string option" where
  "find_trace [] = None"
| "find_trace (c # s) = (case trace_at (c # s) of Some t \<Rightarrow> Some t | None \<Rightarrow> find_trace s)"

subsection \<open>Collecting details\<close>

datatype rpc_detail = Provider_Code string | Rpc_Code js_number | Http_Status nat | Trace_Id string

definition status_details :: "string list \<Rightarrow> string \<Rightarrow> jsv \<Rightarrow> rpc_detail list" where
  "status_details names k v =
     (if k \<in> set names then (case diagnosticHttpStatus v of None \<Rightarrow> [] | Some n \<Rightarrow> [Http_Status n]) else [])"

definition trace_details :: "string \<Rightarrow> jsv \<Rightarrow> rpc_detail list" where
  "trace_details k v =
     (if k \<in> {''traceId'', ''trace_id'', ''trace''}
      then (case boundedDiagnosticText 96 v of None \<Rightarrow> [] | Some t \<Rightarrow> [Trace_Id t]) else [])"

text \<open>What a property says by its own value.\<close>

definition integer_text :: "string \<Rightarrow> bool" where
  "integer_text s \<longleftrightarrow> (let t = (case s of c # r \<Rightarrow> if c = CHR ''-'' then r else s | [] \<Rightarrow> s) in t \<noteq> [] \<and> list_all is_digit t)"

definition code_details :: "jsv \<Rightarrow> rpc_detail list" where
  "code_details v =
     (let other = (case boundedDiagnosticText 96 v of None \<Rightarrow> []
          | Some t \<Rightarrow> if integer_text t then [Rpc_Code (text_number t)] else [Provider_Code t])
      in case v of JNum n \<Rightarrow> if is_finite n then [Rpc_Code n] else other | _ \<Rightarrow> other)"

definition status_keys :: "string list" where
  "status_keys = [''status'', ''statusCode'', ''httpStatus'']"

definition property_details :: "string \<Rightarrow> jsv \<Rightarrow> rpc_detail list" where
  "property_details k v =
     (if k = ''code'' then code_details v else [])
     @ status_details (''responseStatus'' # status_keys) k v @ trace_details k v"

text \<open>
  \<open>visit\<close> with the levels that are left (\<open>DIAGNOSTIC_MAX_DEPTH\<close> is 6, so seven), and the key under which
  the value was found.
\<close>

fun visit :: "nat \<Rightarrow> string \<Rightarrow> jsv \<Rightarrow> rpc_detail list" where
  "visit 0 k v = []"
| "visit (Suc n) k v =
     (case v of
        JStr s \<Rightarrow>
          (if k \<in> {''responseBody'', ''body'', ''response_body''} \<and> length s \<le> 8192
           then (case json_parse s of None \<Rightarrow> [] | Some p \<Rightarrow> visit n ''parsedResponseBody'' p) else [])
          @ status_details (''responseStatus'' # status_keys) k v @ trace_details k v
          @ (if k = ''message'' then (case find_trace s of None \<Rightarrow> [] | Some t \<Rightarrow> [Trace_Id t]) else [])
      | JNum x \<Rightarrow> (if k = ''code'' then [Rpc_Code x] else []) @ status_details status_keys k v
      | JArr vs \<Rightarrow> concat (map (\<lambda>(i, c). visit n (nat_text i) c) (enumerate 0 vs))
      | JObj ob \<Rightarrow> concat (map (\<lambda>(key, c). property_details key c @ visit n key c) ob)
      | _ \<Rightarrow> [])"

record rpc_details =
  rd_providerCode :: "string option"
  rd_rpcCode :: "js_number option"
  rd_httpStatus :: "nat option"
  rd_traceId :: "string option"

fun first_of :: "('a \<Rightarrow> 'b option) \<Rightarrow> 'a list \<Rightarrow> 'b option" where
  "first_of f [] = None"
| "first_of f (x # xs) = (case f x of Some y \<Rightarrow> Some y | None \<Rightarrow> first_of f xs)"

definition is_integer :: "js_number \<Rightarrow> bool" where
  "is_integer n = (case n of Fin x \<Rightarrow> x = of_int \<lfloor>x\<rfloor> | _ \<Rightarrow> False)"

definition extractRpcDiagnostic :: "rejection \<Rightarrow> rpc_details" where
  "extractRpcDiagnostic e =
     (let ds = visit 7 [] (error_fields e) in
      \<lparr>rd_providerCode = first_of (\<lambda>d. case d of Provider_Code t \<Rightarrow> if t = [] then None else Some t | _ \<Rightarrow> None) ds,
       rd_rpcCode = first_of (\<lambda>d. case d of Rpc_Code n \<Rightarrow>
          if is_integer n \<and> js_le (Fin (- 32768)) n \<and> js_le n (Fin 32768) then Some n else None | _ \<Rightarrow> None) ds,
       rd_httpStatus = first_of (\<lambda>d. case d of Http_Status n \<Rightarrow> if 100 \<le> n \<and> n \<le> 599 then Some n else None | _ \<Rightarrow> None) ds,
       rd_traceId = first_of (\<lambda>d. case d of Trace_Id t \<Rightarrow> if t = [] then None else Some t | _ \<Rightarrow> None) ds\<rparr>)"

subsection \<open>Transient errors\<close>

definition scalar_code :: "jsv \<Rightarrow> jsv list" where
  "scalar_code v = (case v of JNum _ \<Rightarrow> [v] | JStr _ \<Rightarrow> [v] | _ \<Rightarrow> [])"

text \<open>\<open>collectErrorCodes\<close>; depths 0 to 5 are six levels.\<close>

fun collectErrorCodes :: "nat \<Rightarrow> jsv \<Rightarrow> jsv list" where
  "collectErrorCodes 0 v = []"
| "collectErrorCodes (Suc n) v =
     (case v of
        JObj ob \<Rightarrow> scalar_code (field ob ''code'')
          @ concat (map (\<lambda>k. collectErrorCodes n (field ob k)) [''error'', ''info'', ''response'', ''body'', ''data''])
      | _ \<Rightarrow> scalar_code v)"

definition numeric_code :: "jsv \<Rightarrow> js_number option" where
  "numeric_code v = (let n = (case v of JNum x \<Rightarrow> x | _ \<Rightarrow> value_number v) in if is_finite n then Some n else None)"

definition text_code :: "jsv \<Rightarrow> string option" where
  "text_code v = (case v of JStr s \<Rightarrow> Some (js_upper s) | _ \<Rightarrow> None)"

definition one_of :: "int list \<Rightarrow> js_number \<Rightarrow> bool" where
  "one_of ns x \<longleftrightarrow> x \<in> (\<lambda>n. Fin (of_int n)) ` set ns"

definition transient_rpc_codes :: "int list" where
  "transient_rpc_codes = [19, 26, 30]"

definition transient_statuses :: "int list" where
  "transient_statuses = [408, 425, 429, 500, 502, 503, 504]"

definition network_codes :: "string list" where
  "network_codes = [''NETWORK_ERROR'', ''TIMEOUT'', ''TIMEOUT_ERROR'', ''ETIMEDOUT'', ''ECONNRESET'', ''ECONNREFUSED'',
     ''ENETUNREACH'']"

text \<open>\<open>JSON.stringify\<close>, \<open>None\<close> where it gives undefined.\<close>

fun json_stringify :: "jsv \<Rightarrow> string option" where
  "json_stringify JUndef = None"
| "json_stringify JNull = Some ''null''"
| "json_stringify (JBool b) = Some (if b then ''true'' else ''false'')"
| "json_stringify (JNum n) = Some (json_number n)"
| "json_stringify (JStr s) = Some (json_quote s)"
| "json_stringify (JArr vs) =
     Some (''['' @ join_with '','' (map (\<lambda>v. case json_stringify v of None \<Rightarrow> ''null'' | Some t \<Rightarrow> t) vs) @ '']'')"
| "json_stringify (JObj ob) =
     Some (CHR 0x7B # join_with '','' (concat (map (\<lambda>(k, v). case json_stringify v of None \<Rightarrow> []
         | Some t \<Rightarrow> [json_quote k @ '':'' @ t]) ob)) @ [CHR 0x7D])"

definition error_message :: "rejection \<Rightarrow> string" where
  "error_message e =
     (case e of
        Rejected_Error m _ \<Rightarrow> m
      | Rejected_Value (JStr s) \<Rightarrow> s
      | Rejected_Value v \<Rightarrow>
          (case (case v of JObj ob \<Rightarrow> field ob ''message'' | _ \<Rightarrow> JUndef) of
             JStr m \<Rightarrow> m
           | _ \<Rightarrow> (case json_stringify v of None \<Rightarrow> [] | Some t \<Rightarrow> t)))"

fun occurs :: "(string \<Rightarrow> bool) \<Rightarrow> string \<Rightarrow> bool" where
  "occurs P [] = P []"
| "occurs P (c # s) \<longleftrightarrow> P (c # s) \<or> occurs P s"

definition transient_phrase :: "string \<Rightarrow> bool" where
  "transient_phrase s \<longleftrightarrow>
     list_ex (\<lambda>p. starts_with p s) [''unknown block'', ''request timeout'', ''temporary internal error'', ''time out'',
       ''timed out'', ''network error'', ''internal server error'']
     \<or> (starts_with ''server response 5'' s \<and> length (take 2 (drop 17 s)) = 2 \<and> list_all is_digit (take 2 (drop 17 s)))"

definition transient_message :: "string \<Rightarrow> bool" where
  "transient_message m \<longleftrightarrow> occurs transient_phrase (js_lower m)"

definition isTransientRpcReadError :: "rejection \<Rightarrow> bool" where
  "isTransientRpcReadError e =
     (let g = extractRpcDiagnostic e;
          codes = collectErrorCodes 6 (error_fields e);
          numbers = List.map_filter numeric_code codes;
          texts = List.map_filter text_code codes;
          provider = (case rd_providerCode g of None \<Rightarrow> [] | Some t \<Rightarrow> js_upper t) in
      if (case rd_rpcCode g of None \<Rightarrow> False | Some n \<Rightarrow> one_of transient_rpc_codes n) then True
      else if (case rd_httpStatus g of None \<Rightarrow> False | Some n \<Rightarrow> int n \<in> set transient_statuses) then True
      else if provider \<in> set network_codes then True
      else if provider = ''SERVER_ERROR'' \<and> rd_httpStatus g = None then True
      else if list_ex (one_of transient_rpc_codes) numbers then True
      else if list_ex (\<lambda>t. t \<in> set network_codes) texts then True
      else if ''SERVER_ERROR'' \<in> set texts \<and> rd_httpStatus g = None then True
      else if list_ex (one_of transient_statuses) numbers then True
      else transient_message (error_message e))"

end
