(* ===== verification/RpcProvider.thy ===== *)
theory RpcProvider
  imports RpcErrors Treasury
begin

text \<open>
  \<open>src/rpcProvider.ts\<close>: the configured endpoints, the checks of a JSON-RPC response, the sequential failover
  of \<open>FailoverJsonRpcProvider._send\<close> and the bounded retry of reads. URL parsing is a parameter. What
  an endpoint answers and when is a turn of \<open>endpoint_turn\<close>; the requests a send posts are its
  \<open>posts\<close>, in order. Symbol metadata on errors is not modelled.
\<close>

subsection \<open>Configuration\<close>

definition DEFAULT_POLYGON_RPC_URL :: string where
  "DEFAULT_POLYGON_RPC_URL = ''https://polygon-amoy.drpc.org''"

definition DEFAULT_POLYGON_RPC_FALLBACK_URL :: string where
  "DEFAULT_POLYGON_RPC_FALLBACK_URL = ''https://polygon-amoy-bor-rpc.publicnode.com''"

definition DEFAULT_POLYGON_CHAIN_ID :: nat where
  "DEFAULT_POLYGON_CHAIN_ID = 80002"

definition RPC_READ_TIMEOUT_MS :: int where
  "RPC_READ_TIMEOUT_MS = 10000"

definition RPC_READ_MAX_ATTEMPTS :: int where
  "RPC_READ_MAX_ATTEMPTS = 3"

definition RPC_FAILOVER_ENDPOINT_TIMEOUT_MS :: int where
  "RPC_FAILOVER_ENDPOINT_TIMEOUT_MS = max 500 (RPC_READ_TIMEOUT_MS div 4)"

definition RPC_FAILOVER_MAX_ENDPOINTS :: nat where
  "RPC_FAILOVER_MAX_ENDPOINTS = 2"

record url_parts =
  up_protocol :: string
  up_hostname :: string
  up_port :: string
  up_pathname :: string
  up_search :: string

record rpc_config =
  rc_parse_url :: "string \<Rightarrow> url_parts option"
  rc_chain_id :: "string option"
  rc_url :: "string option"
  rc_fallback_urls :: "string option"
  rc_fallback_url :: "string option"

definition normaliseRpcUrl :: "(string \<Rightarrow> url_parts option) \<Rightarrow> string \<Rightarrow> string + string" where
  "normaliseRpcUrl parse v =
     (let url = js_trim v in
      case parse url of
        None \<Rightarrow> Inl ''RPC_ENDPOINT_INVALID''
      | Some p \<Rightarrow> if up_protocol p \<in> {''http:'', ''https:''} \<and> up_hostname p \<noteq> [] then Inr url
                   else Inl ''RPC_ENDPOINT_INVALID'')"

definition url_identity :: "url_parts \<Rightarrow> string" where
  "url_identity p =
     (let protocol = js_lower (up_protocol p);
          default_port = (protocol = ''https:'' \<and> up_port p = ''443'') \<or> (protocol = ''http:'' \<and> up_port p = ''80'');
          port = (if up_port p \<noteq> [] \<and> \<not> default_port then '':'' @ up_port p else []);
          path = rev (dropWhile (\<lambda>c. c = CHR ''/'') (rev (up_pathname p)))
      in protocol @ ''//'' @ js_lower (up_hostname p) @ port @ (if path = [] then ''/'' else path) @ up_search p)"

definition rpcUrlIdentity :: "(string \<Rightarrow> url_parts option) \<Rightarrow> string \<Rightarrow> string + string" where
  "rpcUrlIdentity parse v =
     rbind (normaliseRpcUrl parse v) (\<lambda>url. map_sum id url_identity (of_option ''RPC_ENDPOINT_INVALID'' (parse url)))"

definition getConfiguredChainId :: "rpc_config \<Rightarrow> string + nat" where
  "getConfiguredChainId c =
     (case (case rc_chain_id c of None \<Rightarrow> [] | Some t \<Rightarrow> js_trim t) of
        [] \<Rightarrow> Inr DEFAULT_POLYGON_CHAIN_ID
      | t \<Rightarrow> if \<not> list_all is_digit t then Inl ''CONFIGURED_CHAIN_ID_INVALID''
             else (case text_number t of
                 Fin x \<Rightarrow> if is_safe_integer (Fin x) \<and> 0 \<le> x then Inr (nat \<lfloor>x\<rfloor>) else Inl ''CONFIGURED_CHAIN_ID_INVALID''
               | _ \<Rightarrow> Inl ''CONFIGURED_CHAIN_ID_INVALID''))"

definition trimmed :: "string option \<Rightarrow> string" where
  "trimmed x = (case x of None \<Rightarrow> [] | Some t \<Rightarrow> js_trim t)"

definition getPolygonRpcUrl :: "rpc_config \<Rightarrow> string" where
  "getPolygonRpcUrl c = (if trimmed (rc_url c) = [] then DEFAULT_POLYGON_RPC_URL else trimmed (rc_url c))"

definition getPolygonRpcFallbackUrls :: "rpc_config \<Rightarrow> string \<Rightarrow> string + string list" where
  "getPolygonRpcFallbackUrls c primary =
     (let configured = (if trimmed (rc_fallback_urls c) = [] then trimmed (rc_fallback_url c) else trimmed (rc_fallback_urls c)) in
      if configured \<noteq> []
      then Inr (take (RPC_FAILOVER_MAX_ENDPOINTS - 1) (filter (\<lambda>t. t \<noteq> []) (map js_trim (split_all CHR '','' configured))))
      else rbind (rpcUrlIdentity (rc_parse_url c) primary) (\<lambda>a.
        rbind (rpcUrlIdentity (rc_parse_url c) DEFAULT_POLYGON_RPC_URL) (\<lambda>b.
        if a \<noteq> b then Inr []
        else rbind (getConfiguredChainId c) (\<lambda>chain.
          Inr (if chain = DEFAULT_POLYGON_CHAIN_ID then [DEFAULT_POLYGON_RPC_FALLBACK_URL] else [])))))"

record endpoint =
  ep_url :: string
  ep_label :: string
  ep_validated :: "nat option"

definition endpoint_label :: "nat \<Rightarrow> string" where
  "endpoint_label n = (if n = 0 then ''primary'' else ''fallback-'' @ nat_text n)"

fun collect_endpoints ::
    "(string \<Rightarrow> url_parts option) \<Rightarrow> string list \<Rightarrow> endpoint list \<Rightarrow> string list \<Rightarrow> string + endpoint list" where
  "collect_endpoints parse seen acc [] = Inr acc"
| "collect_endpoints parse seen acc (candidate # rest) =
     (if RPC_FAILOVER_MAX_ENDPOINTS \<le> length acc then Inr acc
      else rbind (normaliseRpcUrl parse candidate) (\<lambda>url.
        rbind (rpcUrlIdentity parse url) (\<lambda>identity.
        if identity \<in> set seen then collect_endpoints parse seen acc rest
        else collect_endpoints parse (identity # seen)
          (acc @ [\<lparr>ep_url = url, ep_label = endpoint_label (length acc), ep_validated = None\<rparr>]) rest)))"

definition endpointConfigs :: "(string \<Rightarrow> url_parts option) \<Rightarrow> string \<Rightarrow> string list \<Rightarrow> string + endpoint list" where
  "endpointConfigs parse primary fallbacks =
     rbind (collect_endpoints parse [] [] (primary # fallbacks)) (\<lambda>es.
     if es = [] then Inl ''RPC_ENDPOINT_REQUIRED'' else Inr es)"

text \<open>The endpoints and the expected chain of \<open>createRpcProvider()\<close>.\<close>

definition createRpcProvider :: "rpc_config \<Rightarrow> string + (endpoint list \<times> nat)" where
  "createRpcProvider c =
     rbind (getPolygonRpcFallbackUrls c (getPolygonRpcUrl c)) (\<lambda>fallbacks.
     rbind (getConfiguredChainId c) (\<lambda>chain.
     rbind (endpointConfigs (rc_parse_url c) (getPolygonRpcUrl c) fallbacks) (\<lambda>es.
     Inr (es, chain))))"

subsection \<open>Responses\<close>

record rpc_request =
  pq_id :: nat
  pq_method :: string
  pq_params :: jsv

definition coded_error :: "string \<Rightarrow> string \<Rightarrow> rejection" where
  "coded_error m code = Rejected_Error m [(''code'', JStr code)]"

definition plain_error :: "string \<Rightarrow> rejection" where
  "plain_error m = Rejected_Error m []"

definition malformedRpcResponse :: "string \<Rightarrow> rejection" where
  "malformedRpcResponse reason = coded_error (''Malformed JSON-RPC response: '' @ reason) ''RPC_MALFORMED_RESPONSE''"

definition has_id :: "nat \<Rightarrow> jsv \<Rightarrow> bool" where
  "has_id i v = (case v of JObj ob \<Rightarrow> field ob ''id'' = JNum (Fin (of_nat i)) | _ \<Rightarrow> False)"

definition own :: "js_object \<Rightarrow> string \<Rightarrow> bool" where
  "own ob k \<longleftrightarrow> k \<in> fst ` set ob"

definition valid_error :: "jsv \<Rightarrow> bool" where
  "valid_error v = (case v of JObj e \<Rightarrow> (case field e ''code'' of JNum _ \<Rightarrow> True | _ \<Rightarrow> False) | _ \<Rightarrow> False)"

definition validate_entry :: "js_object \<Rightarrow> bool \<Rightarrow> rejection + unit" where
  "validate_entry ob seen =
     rbind (guard (field ob ''jsonrpc'' = JStr ''2.0'') (malformedRpcResponse ''missing jsonrpc 2.0 envelope'')) (\<lambda>_.
     rbind (guard (\<not> seen) (malformedRpcResponse ''duplicate response id'')) (\<lambda>_.
     rbind (guard (own ob ''result'' \<noteq> own ob ''error'')
        (malformedRpcResponse ''response must contain exactly one result or error'')) (\<lambda>_.
     guard (own ob ''error'' \<longrightarrow> valid_error (field ob ''error'')) (malformedRpcResponse ''RPC error envelope is invalid''))))"

fun validate_entries :: "jsv list \<Rightarrow> nat list \<Rightarrow> rpc_request list \<Rightarrow> rejection + unit" where
  "validate_entries response seen [] = Inr ()"
| "validate_entries response seen (q # qs) =
     (case find (has_id (pq_id q)) response of
        Some (JObj ob) \<Rightarrow> rbind (validate_entry ob (pq_id q \<in> set seen)) (\<lambda>_. validate_entries response (pq_id q # seen) qs)
      | _ \<Rightarrow> Inl (malformedRpcResponse ''response id does not match request''))"

definition validateRpcResponse :: "jsv \<Rightarrow> rpc_request list \<Rightarrow> rejection + jsv list" where
  "validateRpcResponse body expected =
     (let response = (case body of JArr vs \<Rightarrow> vs | _ \<Rightarrow> [body]) in
      rbind (guard (length response = length expected \<and> response \<noteq> [])
        (malformedRpcResponse ''response count does not match request'')) (\<lambda>_.
      rbind (validate_entries response [] expected) (\<lambda>_. Inr response)))"

definition is_error_entry :: "jsv \<Rightarrow> bool" where
  "is_error_entry v = (case v of JObj ob \<Rightarrow> own ob ''error'' | _ \<Rightarrow> False)"

definition member :: "jsv \<Rightarrow> string \<Rightarrow> jsv" where
  "member v k = (case v of JObj ob \<Rightarrow> field ob k | _ \<Rightarrow> JUndef)"

definition responseError :: "jsv \<Rightarrow> rejection" where
  "responseError entry =
     (let e = member entry ''error'' in
      Rejected_Error (js_string (js_or (member e ''message'') (JStr ''RPC request failed'')))
        ([(''code'', member e ''code'')]
         @ (if member e ''data'' = JUndef then [] else [(''data'', member e ''data'')])
         @ [(''info'', JObj [(''response'', e)])]))"

definition chainMismatchError :: "int \<Rightarrow> nat \<Rightarrow> rejection" where
  "chainMismatchError actual expected =
     (let shown = num_text (Fin (of_int actual)) in
      Rejected_Error (''RPC endpoint chain ID '' @ shown @ '' differs from configured chain '' @ nat_text expected)
        [(''code'', JStr ''CHAIN_ID_MISMATCH''), (''actualChainId'', JStr (take 32 shown)),
         (''expectedChainId'', JNum (Fin (of_nat expected)))])"

definition chainIdFromResult :: "jsv \<Rightarrow> nat \<Rightarrow> rejection + nat" where
  "chainIdFromResult entry expected =
     (if is_error_entry entry then Inl (responseError entry)
      else case bigint_text (js_string (member entry ''result'')) of
        None \<Rightarrow> Inl (plain_error ''RPC_CHAIN_ID_INVALID'')
      | Some i \<Rightarrow>
          (case js_of_rat (of_int i) of
             Fin x \<Rightarrow>
               if \<not> is_safe_integer (Fin x) \<or> x < 0 then Inl (plain_error ''RPC_CHAIN_ID_INVALID'')
               else if \<lfloor>x\<rfloor> \<noteq> int expected then Inl (chainMismatchError \<lfloor>x\<rfloor> expected)
               else Inr expected
           | _ \<Rightarrow> Inl (plain_error ''RPC_CHAIN_ID_INVALID'')))"

definition isNullPropagationMethod :: "string \<Rightarrow> bool" where
  "isNullPropagationMethod m \<longleftrightarrow> m \<in> {''eth_getTransactionByHash'', ''eth_getTransactionReceipt''}"

definition isWriteMethod :: "string \<Rightarrow> bool" where
  "isWriteMethod m \<longleftrightarrow> m \<in> {''eth_sendRawTransaction'', ''eth_sendTransaction'', ''personal_sendTransaction''}"

subsection \<open>Sequential failover\<close>

datatype endpoint_outcome = Outcome_Success | Outcome_Failed | Outcome_Null

record endpoint_evidence =
  xe_label :: string
  xe_outcome :: endpoint_outcome
  xe_details :: rpc_details

definition no_details :: rpc_details where
  "no_details = \<lparr>rd_providerCode = None, rd_rpcCode = None, rd_httpStatus = None, rd_traceId = None\<rparr>"

definition endpointEvidence :: "string \<Rightarrow> endpoint_outcome \<Rightarrow> rejection option \<Rightarrow> endpoint_evidence" where
  "endpointEvidence label outcome e = \<lparr>xe_label = label, xe_outcome = outcome,
     xe_details = (case e of None \<Rightarrow> no_details | Some x \<Rightarrow> extractRpcDiagnostic x)\<rparr>"

text \<open>
  One endpoint's turn: the clock where the code reads it, what the endpoint answers to the chain query and
  to the payload (the text of the body, or the rejection of the transport).
\<close>

record endpoint_turn =
  tn_start :: int
  tn_check :: int
  tn_validate :: int
  tn_request :: int
  tn_chain :: "rejection + string"
  tn_answer :: "rejection + string"

record post =
  po_label :: string
  po_requests :: "rpc_request list"
  po_timeout :: int

definition chain_request :: rpc_request where
  "chain_request = \<lparr>pq_id = 0, pq_method = ''eth_chainId'', pq_params = JArr []\<rparr>"

definition requestEndpoint :: "rejection + string \<Rightarrow> rpc_request list \<Rightarrow> rejection + jsv list" where
  "requestEndpoint answer reqs =
     rbind answer (\<lambda>body.
     rbind (of_option (malformedRpcResponse ''response body is not valid JSON'') (json_parse body)) (\<lambda>v.
     validateRpcResponse v reqs))"

definition responseForId :: "jsv list \<Rightarrow> nat \<Rightarrow> jsv option" where
  "responseForId response i = find (has_id i) response"

definition chain_of_response :: "jsv list \<Rightarrow> nat \<Rightarrow> nat \<Rightarrow> rejection + nat" where
  "chain_of_response response i expected =
     rbind (of_option (plain_error ''RPC_CHAIN_ID_RESPONSE_MISSING'') (responseForId response i)) (\<lambda>entry.
     chainIdFromResult entry expected)"

definition validateEndpoint ::
    "nat \<Rightarrow> int \<Rightarrow> endpoint_turn \<Rightarrow> endpoint \<Rightarrow> endpoint \<times> post list \<times> (rejection + unit)" where
  "validateEndpoint expected deadline t e =
     (if ep_validated e = Some expected then (e, [], Inr ())
      else if deadline \<le> tn_validate t then (e, [], Inl (coded_error ''RPC_FAILOVER_TIMEOUT'' ''TIMEOUT''))
      else (let p = \<lparr>po_label = ep_label e, po_requests = [chain_request], po_timeout = max 1 (deadline - tn_validate t)\<rparr> in
        case rbind (requestEndpoint (tn_chain t) [chain_request]) (\<lambda>r. chain_of_response r 0 expected) of
          Inl x \<Rightarrow> (e, [p], Inl x)
        | Inr c \<Rightarrow> (e\<lparr>ep_validated := Some c\<rparr>, [p], Inr ())))"

definition ask_endpoint ::
    "nat \<Rightarrow> int \<Rightarrow> rpc_request list \<Rightarrow> endpoint_turn \<Rightarrow> endpoint \<Rightarrow> endpoint \<times> post list \<times> (rejection + jsv list)" where
  "ask_endpoint expected deadline reqs t e =
     (case (if list_ex (\<lambda>q. pq_method q \<noteq> ''eth_chainId'') reqs then validateEndpoint expected deadline t e
            else (e, [], Inr ())) of
        (e1, ps, Inl x) \<Rightarrow> (e1, ps, Inl x)
      | (e1, ps, Inr _) \<Rightarrow>
          (e1, ps @ [\<lparr>po_label = ep_label e, po_requests = reqs, po_timeout = max 1 (deadline - tn_request t)\<rparr>],
           requestEndpoint (tn_answer t) reqs))"

text \<open>The answers to chain queries inside the payload.\<close>

fun adopt_chain_ids :: "nat \<Rightarrow> jsv list \<Rightarrow> rpc_request list \<Rightarrow> endpoint \<Rightarrow> endpoint \<times> (rejection + unit)" where
  "adopt_chain_ids expected response [] e = (e, Inr ())"
| "adopt_chain_ids expected response (q # qs) e =
     (if pq_method q \<noteq> ''eth_chainId'' then adopt_chain_ids expected response qs e
      else (case chain_of_response response (pq_id q) expected of
          Inl x \<Rightarrow> (e, Inl x)
        | Inr c \<Rightarrow> adopt_chain_ids expected response qs (e\<lparr>ep_validated := Some c\<rparr>)))"

definition is_null_answer :: "rpc_request list \<Rightarrow> jsv list \<Rightarrow> bool" where
  "is_null_answer reqs response =
     (case reqs of
        [q] \<Rightarrow> isNullPropagationMethod (pq_method q)
          \<and> (case responseForId response (pq_id q) of
               Some (JObj ob) \<Rightarrow> own ob ''result'' \<and> field ob ''result'' = JNull
             | _ \<Rightarrow> False)
      | _ \<Rightarrow> False)"

definition allowWriteFailover :: "rpc_request list \<Rightarrow> bool" where
  "allowWriteFailover reqs \<longleftrightarrow>
     list_all (\<lambda>q. \<not> isWriteMethod (pq_method q) \<or> pq_method q = ''eth_sendRawTransaction'') reqs"

definition held_write :: "rpc_request list \<Rightarrow> bool" where
  "held_write reqs \<longleftrightarrow> \<not> allowWriteFailover reqs \<and> list_ex (\<lambda>q. isWriteMethod (pq_method q)) reqs"

definition failover_error :: "rejection \<Rightarrow> bool" where
  "failover_error e \<longleftrightarrow> isTransientRpcReadError e
     \<or> (\<exists>c\<in>{''CHAIN_ID_MISMATCH'', ''RPC_MALFORMED_RESPONSE''}. member (error_fields e) ''code'' = JStr c)"

text \<open>
  An error that is no object is wrapped when endpoint evidence is attached to it.
\<close>

definition attachRpcFailoverMetadata :: "endpoint_evidence list \<Rightarrow> rejection \<Rightarrow> rejection" where
  "attachRpcFailoverMetadata evidence e =
     (case e of
        Rejected_Value v \<Rightarrow>
          (if evidence = [] then e
           else (case v of
               JObj _ \<Rightarrow> e
             | JArr _ \<Rightarrow> e
             | _ \<Rightarrow> Rejected_Error (case boundedDiagnosticText 96 v of None \<Rightarrow> ''RPC request failed'' | Some t \<Rightarrow> t) [(''cause'', v)]))
      | Rejected_Error _ _ \<Rightarrow> e)"

record send_memory =
  sm_done :: "endpoint list"
  sm_posts :: "post list"
  sm_evidence :: "endpoint_evidence list"
  sm_error :: "rejection option"
  sm_null :: "jsv list option"

record send_outcome =
  so_endpoints :: "endpoint list"
  so_posts :: "post list"
  so_evidence :: "endpoint_evidence list"
  so_result :: "rejection + jsv list"

definition seen_failure :: "endpoint \<Rightarrow> rejection \<Rightarrow> send_memory \<Rightarrow> send_memory" where
  "seen_failure e x m = m\<lparr>sm_evidence := sm_evidence m @ [endpointEvidence (ep_label e) Outcome_Failed (Some x)],
     sm_error := Some x\<rparr>"

definition catch_failure ::
    "rpc_request list \<Rightarrow> endpoint \<Rightarrow> rejection \<Rightarrow> send_memory \<Rightarrow> send_memory \<times> (rejection + jsv list) option" where
  "catch_failure reqs e x m =
     (let m' = seen_failure e x m in
      (m', if \<not> failover_error x \<or> held_write reqs then Some (Inl (attachRpcFailoverMetadata (sm_evidence m') x)) else None))"

text \<open>One pass of the loop over the endpoints: a result ends it.\<close>

definition take_turn ::
    "nat \<Rightarrow> int \<Rightarrow> rpc_request list \<Rightarrow> bool \<Rightarrow> endpoint \<Rightarrow> endpoint_turn \<Rightarrow> send_memory
     \<Rightarrow> send_memory \<times> (rejection + jsv list) option" where
  "take_turn expected deadline reqs final e t m =
     (case ask_endpoint expected deadline reqs t e of
        (e1, ps, answer) \<Rightarrow>
          (let m1 = m\<lparr>sm_posts := sm_posts m @ ps\<rparr>;
               leave = (\<lambda>e2 m2. m2\<lparr>sm_done := sm_done m2 @ [e2]\<rparr>) in
           case answer of
             Inl x \<Rightarrow> (case catch_failure reqs e1 x m1 of (m2, r) \<Rightarrow> (leave e1 m2, r))
           | Inr response \<Rightarrow>
               (case filter is_error_entry response of
                  entry # _ \<Rightarrow>
                    (let x = responseError entry; m2 = seen_failure e1 x m1 in
                     if \<not> isTransientRpcReadError x \<or> held_write reqs
                     then (leave e1 m2, Some (Inr response))
                     else (leave e1 m2, None))
                | [] \<Rightarrow>
                    (case adopt_chain_ids expected response reqs e1 of
                       (e2, Inl x) \<Rightarrow> (case catch_failure reqs e2 x m1 of (m2, r) \<Rightarrow> (leave e2 m2, r))
                     | (e2, Inr _) \<Rightarrow>
                         if is_null_answer reqs response \<and> \<not> final
                         then (leave e2 (m1\<lparr>sm_evidence := sm_evidence m1 @ [endpointEvidence (ep_label e2) Outcome_Null None],
                             sm_null := Some response\<rparr>), None)
                         else (let ev = sm_evidence m1 @ [endpointEvidence (ep_label e2) Outcome_Success None] in
                           (leave e2 (m1\<lparr>sm_evidence := (if 1 < length ev \<or> list_ex (\<lambda>x. xe_outcome x \<noteq> Outcome_Success) ev
                               then ev else [])\<rparr>), Some (Inr response)))))))"

definition falsy_rejection :: "rejection \<Rightarrow> bool" where
  "falsy_rejection e = (case e of Rejected_Error _ _ \<Rightarrow> False | Rejected_Value v \<Rightarrow> \<not> js_truthy v)"

definition exhausted :: "send_memory \<Rightarrow> rejection + jsv list" where
  "exhausted m =
     (case sm_null m of
        Some response \<Rightarrow> Inr response
      | None \<Rightarrow> Inl (attachRpcFailoverMetadata (sm_evidence m)
          (case sm_error m of
             None \<Rightarrow> coded_error ''RPC_FAILOVER_UNAVAILABLE'' ''NETWORK_ERROR''
           | Some e \<Rightarrow> if falsy_rejection e then coded_error ''RPC_FAILOVER_UNAVAILABLE'' ''NETWORK_ERROR'' else e)))"

definition send_ends :: "endpoint list \<Rightarrow> send_memory \<Rightarrow> rejection + jsv list \<Rightarrow> send_outcome" where
  "send_ends rest m r = \<lparr>so_endpoints = sm_done m @ rest, so_posts = sm_posts m, so_evidence = sm_evidence m, so_result = r\<rparr>"

fun send_loop ::
    "nat \<Rightarrow> int \<Rightarrow> int \<Rightarrow> rpc_request list \<Rightarrow> (endpoint \<times> endpoint_turn) list \<Rightarrow> send_memory \<Rightarrow> send_outcome" where
  "send_loop expected budget deadline reqs [] m = send_ends [] m (exhausted m)"
| "send_loop expected budget deadline reqs ((e, t) # rest) m =
     (let own_deadline = min deadline (tn_start t + budget) in
      if own_deadline \<le> tn_check t then send_ends (e # map fst rest) m (exhausted m)
      else (case take_turn expected own_deadline reqs (rest = []) e t m of
          (m', Some r) \<Rightarrow> send_ends (map fst rest) m' r
        | (m', None) \<Rightarrow> send_loop expected budget deadline reqs rest m'))"

definition no_memory :: send_memory where
  "no_memory = \<lparr>sm_done = [], sm_posts = [], sm_evidence = [], sm_error = None, sm_null = None\<rparr>"

definition endpoint_budget :: "int \<Rightarrow> int" where
  "endpoint_budget t = max 100 (min RPC_READ_TIMEOUT_MS t)"

text \<open>\<open>_send\<close> at clock \<open>now\<close>, with the turns its endpoints take.\<close>

definition send_payload ::
    "nat \<Rightarrow> int \<Rightarrow> int \<Rightarrow> rpc_request list \<Rightarrow> (endpoint \<times> endpoint_turn) list \<Rightarrow> send_outcome" where
  "send_payload expected timeout now reqs turns =
     (let budget = endpoint_budget timeout in
      send_loop expected budget (now + budget * int (length turns)) reqs turns no_memory)"

subsection \<open>Retried reads\<close>

text \<open>
  A read attempt: the clock before it, what it settles with and after how many milliseconds, and the
  clock where the code reads it next. A read slower than its timer is a timeout.
\<close>

record 'a read_attempt =
  ra_before :: int
  ra_settles :: "rejection + 'a"
  ra_takes :: int
  ra_after :: int

record retry_options =
  ro_maxAttempts :: "rat option"
  ro_delayMs :: "rat option"
  ro_timeoutMs :: "rat option"

definition option_or :: "rat option \<Rightarrow> int \<Rightarrow> int" where
  "option_or x dflt = (case x of None \<Rightarrow> dflt | Some r \<Rightarrow> \<lfloor>r\<rfloor>)"

definition max_attempts :: "retry_options \<Rightarrow> int" where
  "max_attempts opts = min RPC_READ_MAX_ATTEMPTS (max 1 (option_or (ro_maxAttempts opts) RPC_READ_MAX_ATTEMPTS))"

definition retry_delay :: "retry_options \<Rightarrow> int" where
  "retry_delay opts = max 0 (min 1000 (option_or (ro_delayMs opts) 100))"

definition read_timeout :: "retry_options \<Rightarrow> int" where
  "read_timeout opts = max 1 (min 30000 (option_or (ro_timeoutMs opts) RPC_READ_TIMEOUT_MS))"

definition withReadTimeout :: "'a read_attempt \<Rightarrow> int \<Rightarrow> rejection + 'a" where
  "withReadTimeout a limit =
     (if ra_takes a \<le> limit then ra_settles a else Inl (coded_error ''RPC_READ_TIMEOUT'' ''TIMEOUT''))"

record 'a read_run =
  rn_attempts :: nat
  rn_sleeps :: "int list"
  rn_result :: "rejection + 'a"

definition attempt_result :: "int \<Rightarrow> int \<Rightarrow> 'a read_attempt \<Rightarrow> rejection + 'a" where
  "attempt_result timeout deadline a = withReadTimeout a (min timeout (max 1 (deadline - ra_before a)))"

definition retry_sleep :: "int \<Rightarrow> nat \<Rightarrow> int \<Rightarrow> int list" where
  "retry_sleep delay k remaining = (if 0 < delay then [min (delay * int k) remaining] else [])"

text \<open>
  The loop at attempt \<open>k\<close>, with \<open>n\<close> further attempts allowed; attempt numbers start at 1. Both readers have
  this loop and differ in what settles it: a plain read ends with any value, a nullable one only with
  something, and both with an error that is not transient.
\<close>

definition read_settled :: "rejection + 'a \<Rightarrow> bool" where
  "read_settled r = (case r of Inr _ \<Rightarrow> True | Inl e \<Rightarrow> \<not> isTransientRpcReadError e)"

definition nullable_settled :: "rejection + 'a option \<Rightarrow> bool" where
  "nullable_settled r = (case r of Inr v \<Rightarrow> v \<noteq> None | Inl e \<Rightarrow> \<not> isTransientRpcReadError e)"

fun retry_loop ::
    "(rejection + 'a \<Rightarrow> bool) \<Rightarrow> int \<Rightarrow> int \<Rightarrow> int \<Rightarrow> (nat \<Rightarrow> 'a read_attempt) \<Rightarrow> nat \<Rightarrow> nat \<Rightarrow> int list \<Rightarrow> 'a read_run" where
  "retry_loop settled delay timeout deadline reads n k sleeps =
     (let a = reads k; r = attempt_result timeout deadline a; stop = \<lparr>rn_attempts = k, rn_sleeps = sleeps, rn_result = r\<rparr> in
      case n of
        0 \<Rightarrow> stop
      | Suc n' \<Rightarrow>
          if settled r then stop
          else if deadline - ra_after a \<le> 0 then stop
          else retry_loop settled delay timeout deadline reads n' (Suc k)
            (sleeps @ retry_sleep delay k (deadline - ra_after a)))"

declare retry_loop.simps [simp del]

definition withRpcReadRetry :: "retry_options \<Rightarrow> int \<Rightarrow> (nat \<Rightarrow> 'a read_attempt) \<Rightarrow> 'a read_run" where
  "withRpcReadRetry opts now reads =
     retry_loop read_settled (retry_delay opts) (read_timeout opts) (now + read_timeout opts) reads
       (nat (max_attempts opts) - 1) 1 []"

definition withNullableRpcReadRetry :: "retry_options \<Rightarrow> int \<Rightarrow> (nat \<Rightarrow> 'a option read_attempt) \<Rightarrow> 'a option read_run" where
  "withNullableRpcReadRetry opts now reads =
     retry_loop nullable_settled (retry_delay opts) (read_timeout opts) (now + read_timeout opts) reads
       (nat (max_attempts opts) - 1) 1 []"

end
