(* ===== verification/RpcLaws.thy ===== *)
theory RpcLaws
  imports RpcProvider AwardLaws "HOL-Library.Sublist"
begin

text \<open>
  What \<open>src/rpcProvider.ts\<close> guarantees: reads are repeated a bounded number of times and only after transient
  failures; failover posts one payload at a time, to endpoints that have proved their chain, never posts a
  request twice that the endpoint signs itself, and hands out only responses that answer the requests.
\<close>

subsection \<open>Retried reads\<close>

lemma retry_loop_facts:
  fixes reads :: "nat \<Rightarrow> 'a read_attempt"
  defines "res \<equiv> \<lambda>T dl i. attempt_result T dl (reads i)"
  assumes "retry_loop settled D T dl reads n k sl = r"
  shows "k \<le> rn_attempts r \<and> rn_attempts r \<le> k + n \<and> rn_result r = res T dl (rn_attempts r)
    \<and> (\<forall>i. k \<le> i \<longrightarrow> i < rn_attempts r \<longrightarrow> \<not> settled (res T dl i) \<and> ra_after (reads i) < dl)
    \<and> rn_sleeps r = sl @ concat (map (\<lambda>i. retry_sleep D i (dl - ra_after (reads i))) [k..<rn_attempts r])
    \<and> (rn_attempts r = k + n \<or> settled (rn_result r) \<or> dl \<le> ra_after (reads (rn_attempts r)))"
  using assms(2)
proof (induction n arbitrary: k sl)
  case 0
  then show ?case by (auto simp: retry_loop.simps [of _ _ _ _ _ 0] res_def)
next
  case (Suc n)
  show ?case
  proof (cases "settled (res T dl k) \<or> dl - ra_after (reads k) \<le> 0")
    case True
    then have "r = \<lparr>rn_attempts = k, rn_sleeps = sl, rn_result = res T dl k\<rparr>"
      using Suc.prems by (auto simp: retry_loop.simps [of _ _ _ _ _ "Suc n"] res_def Let_def)
    with True show ?thesis by auto
  next
    case False
    then have "retry_loop settled D T dl reads n (Suc k) (sl @ retry_sleep D k (dl - ra_after (reads k))) = r"
      using Suc.prems by (simp add: retry_loop.simps [of _ _ _ _ _ "Suc n"] res_def Let_def)
    note f = Suc.IH [OF this]
    then have u: "[k..<rn_attempts r] = k # [Suc k..<rn_attempts r]" by (simp add: upt_conv_Cons)
    show ?thesis using f False by (auto simp: u) (metis Suc_leI le_less_Suc_eq not_le)+
  qed
qed

lemma max_attempts_bounds: "1 \<le> max_attempts opts" "max_attempts opts \<le> 3"
  by (simp_all add: max_attempts_def RPC_READ_MAX_ATTEMPTS_def)

lemma retry_sleep_bounds: "s \<in> set (retry_sleep D i m) \<Longrightarrow> s \<le> m \<and> (0 < m \<longrightarrow> 0 \<le> s)"
  by (auto simp: retry_sleep_def split: if_splits)

lemma unsettled: "\<not> read_settled r \<longleftrightarrow> (\<exists>e. r = Inl e \<and> isTransientRpcReadError e)"
  by (cases r) (simp_all add: read_settled_def)

text \<open>
    a read is tried at most three times, and only a failed try is repeated: every attempt before the last
  failed with a transient error while its deadline had not passed, no pause runs past the deadline, the
  caller gets exactly what the last attempt gave, and a transient failure is handed out only when the
  attempts or the time are used up.
\<close>

theorem retried_reads_are_bounded:
  fixes reads :: "nat \<Rightarrow> 'a read_attempt"
  assumes "withRpcReadRetry opts now reads = r"
  shows "1 \<le> rn_attempts r \<and> rn_attempts r \<le> nat (max_attempts opts) \<and> rn_attempts r \<le> 3
    \<and> rn_result r = attempt_result (read_timeout opts) (now + read_timeout opts) (reads (rn_attempts r))
    \<and> (\<forall>i\<in>{1..<rn_attempts r}. ra_after (reads i) < now + read_timeout opts \<and> (\<exists>e.
        attempt_result (read_timeout opts) (now + read_timeout opts) (reads i) = Inl e \<and> isTransientRpcReadError e))
    \<and> (\<forall>s\<in>set (rn_sleeps r). 0 \<le> s \<and> (\<exists>i\<in>{1..<rn_attempts r}. ra_after (reads i) + s \<le> now + read_timeout opts))
    \<and> (\<forall>e. rn_result r = Inl e \<longrightarrow> isTransientRpcReadError e \<longrightarrow>
        rn_attempts r = nat (max_attempts opts) \<or> now + read_timeout opts \<le> ra_after (reads (rn_attempts r)))"
proof -
  note f = retry_loop_facts [OF assms [unfolded withRpcReadRetry_def]]
  have b: "1 + (nat (max_attempts opts) - 1) = nat (max_attempts opts)" "nat (max_attempts opts) \<le> 3"
    using max_attempts_bounds [of opts] by simp_all
  have pause: "0 \<le> s \<and> (\<exists>i\<in>{1..<rn_attempts r}. ra_after (reads i) + s \<le> now + read_timeout opts)"
    if s: "s \<in> set (rn_sleeps r)" for s
  proof -
    obtain i where i: "1 \<le> i" "i < rn_attempts r" "s \<in> set (retry_sleep (retry_delay opts) i (now + read_timeout opts - ra_after (reads i)))"
      using f s by auto
    then have "ra_after (reads i) < now + read_timeout opts" using f by blast
    with retry_sleep_bounds [OF i(3)] i(1,2) show ?thesis by force
  qed
  have last: "rn_attempts r = nat (max_attempts opts) \<or> now + read_timeout opts \<le> ra_after (reads (rn_attempts r))"
    if "rn_result r = Inl e" "isTransientRpcReadError e" for e
    using f b(1) that by (simp add: read_settled_def)
  show ?thesis using f b pause last by (simp add: unsettled)
qed

definition sample_reads :: "nat \<Rightarrow> nat read_attempt" where
  "sample_reads i = \<lparr>ra_before = 0, ra_settles = (if i = 1 then Inl (coded_error ''slow'' ''TIMEOUT'') else Inr 7),
     ra_takes = 5, ra_after = 10\<rparr>"

definition no_options :: retry_options where
  "no_options = \<lparr>ro_maxAttempts = None, ro_delayMs = None, ro_timeoutMs = None\<rparr>"

lemma timeout_is_transient: "isTransientRpcReadError (coded_error ''slow'' ''TIMEOUT'')"
  by code_simp

theorem retried_reads_are_bounded_witness:
  "\<exists>r. withRpcReadRetry no_options 0 sample_reads = r \<and> rn_attempts r = 2 \<and> rn_result r = Inr 7 \<and> rn_sleeps r = [100]
     \<and> (\<exists>e. attempt_result 10000 10000 (sample_reads 1) = Inl e \<and> isTransientRpcReadError e)"
proof -
  define r where "r = withRpcReadRetry no_options 0 sample_reads"
  have eq: "r = \<lparr>rn_attempts = 2, rn_sleeps = [100], rn_result = Inr 7\<rparr>"
    using timeout_is_transient
    by (simp add: r_def withRpcReadRetry_def max_attempts_def retry_delay_def read_timeout_def no_options_def option_or_def
        RPC_READ_MAX_ATTEMPTS_def RPC_READ_TIMEOUT_MS_def retry_loop.simps eval_nat_numeral attempt_result_def withReadTimeout_def
        sample_reads_def read_settled_def retry_sleep_def)
  have T: "read_timeout no_options = 10000" "(1::nat) \<in> {1..<2}"
    by (simp_all add: no_options_def read_timeout_def option_or_def RPC_READ_TIMEOUT_MS_def)
  have "\<exists>e. attempt_result 10000 10000 (sample_reads 1) = Inl e \<and> isTransientRpcReadError e"
    using retried_reads_are_bounded [OF r_def [symmetric]] T unfolding eq by simp
  then show ?thesis using eq by (intro exI [of _ r]) (simp add: r_def)
qed

subsection \<open>Configured endpoints\<close>

definition distinct_endpoints :: "(string \<Rightarrow> url_parts option) \<Rightarrow> string list \<Rightarrow> endpoint list \<Rightarrow> bool" where
  "distinct_endpoints parse seen es \<longleftrightarrow> map (\<lambda>e. rpcUrlIdentity parse (ep_url e)) es = map Inr (rev seen) \<and> distinct seen
     \<and> map ep_label es = map endpoint_label [0..<length es] \<and> length es \<le> 2"

lemma collect_endpoints_facts:
  assumes "collect_endpoints parse seen acc candidates = Inr es" and "distinct_endpoints parse seen acc"
  shows "\<exists>seen'. distinct_endpoints parse seen' es"
  using assms
proof (induction parse seen acc candidates rule: collect_endpoints.induct)
  case (2 parse seen acc c rest)
  show ?case
  proof (cases "RPC_FAILOVER_MAX_ENDPOINTS \<le> length acc")
    case False
    then obtain url i where u: "normaliseRpcUrl parse c = Inr url" "rpcUrlIdentity parse url = Inr i"
      "(if i \<in> set seen then collect_endpoints parse seen acc rest
        else collect_endpoints parse (i # seen) (acc @ [\<lparr>ep_url = url, ep_label = endpoint_label (length acc), ep_validated = None\<rparr>]) rest)
        = Inr es"
      using "2.prems"(1) by (auto simp: rbind_Inr_iff)
    show ?thesis
    proof (cases "i \<in> set seen")
      case True
      then show ?thesis using "2.IH"(1) [OF False] "2.prems"(2) u(3) by simp
    next
      case new: False
      then have "distinct_endpoints parse (i # seen) (acc @ [\<lparr>ep_url = url, ep_label = endpoint_label (length acc), ep_validated = None\<rparr>])"
        using "2.prems"(2) False u(2) by (simp add: distinct_endpoints_def RPC_FAILOVER_MAX_ENDPOINTS_def)
      then show ?thesis using "2.IH"(2) [OF False new] u(3) new by simp
    qed
  qed (use "2.prems" in auto)
qed auto

text \<open>One or two endpoints, no two with the same identity, labelled in order.\<close>

lemma configured_endpoints_distinct:
  assumes "endpointConfigs parse primary fallbacks = Inr es"
  shows "es \<noteq> []" "length es \<le> 2" "distinct (map (\<lambda>e. rpcUrlIdentity parse (ep_url e)) es)"
    "map ep_label es = map endpoint_label [0..<length es]"
proof -
  have c: "collect_endpoints parse [] [] (primary # fallbacks) = Inr es" and n: "es \<noteq> []"
    using assms unfolding endpointConfigs_def rbind_Inr_iff by (metis Inl_Inr_False sum.inject(2))+
  obtain seen where d: "distinct_endpoints parse seen es"
    using collect_endpoints_facts [OF c] by (force simp: distinct_endpoints_def)
  then have "distinct (map Inr (rev seen) :: (string + string) list)" by (simp add: distinct_endpoints_def distinct_map)
  with d n show "es \<noteq> []" "length es \<le> 2" "distinct (map (\<lambda>e. rpcUrlIdentity parse (ep_url e)) es)"
    "map ep_label es = map endpoint_label [0..<length es]"
    by (auto simp: distinct_endpoints_def)
qed

subsection \<open>One turn\<close>

definition queries_more :: "rpc_request list \<Rightarrow> bool" where
  "queries_more reqs \<longleftrightarrow> (\<exists>q\<in>set reqs. pq_method q \<noteq> ''eth_chainId'')"

lemma queries_more_chain: "queries_more reqs \<Longrightarrow> reqs \<noteq> [chain_request]"
  by (auto simp: queries_more_def chain_request_def)

lemma chain_of_response_value: "chain_of_response response i expected = Inr c \<Longrightarrow> c = expected"
  by (auto simp: chain_of_response_def rbind_Inr_iff chainIdFromResult_def split: if_splits option.splits js_number.splits)

lemma validateEndpoint_facts:
  assumes "validateEndpoint expected dl t e = (e1, ps, r)"
  shows "ep_label e1 = ep_label e" "list_all (\<lambda>p. po_requests p = [chain_request] \<and> po_label p = ep_label e) ps"
    "r = Inr u \<Longrightarrow> ep_validated e1 = Some expected" "ep_validated e = Some expected \<Longrightarrow> ep_validated e1 = Some expected"
proof -
  have "rbind a (\<lambda>r. chain_of_response r 0 expected) = Inr c \<Longrightarrow> c = expected" for a c
    by (auto simp: rbind_Inr_iff dest: chain_of_response_value)
  with assms show "ep_label e1 = ep_label e" "list_all (\<lambda>p. po_requests p = [chain_request] \<and> po_label p = ep_label e) ps"
    "r = Inr u \<Longrightarrow> ep_validated e1 = Some expected" "ep_validated e = Some expected \<Longrightarrow> ep_validated e1 = Some expected"
    by (auto simp: validateEndpoint_def Let_def split: if_splits sum.splits)
qed

text \<open>What one endpoint was sent: perhaps the chain query, then perhaps the payload, the latter only with a proved chain.\<close>

definition turn_posts :: "nat \<Rightarrow> rpc_request list \<Rightarrow> endpoint \<Rightarrow> post list \<Rightarrow> bool" where
  "turn_posts expected reqs e ps \<longleftrightarrow>
     (\<exists>qs rs. ps = qs @ rs \<and> list_all (\<lambda>p. po_requests p = [chain_request] \<and> po_label p = ep_label e) qs
        \<and> (rs = [] \<or> (\<exists>p. rs = [p] \<and> po_requests p = reqs \<and> po_label p = ep_label e \<and> ep_validated e = Some expected)))"

lemma ask_endpoint_facts:
  assumes "ask_endpoint expected dl reqs t e = (e1, ps, r)" and "queries_more reqs"
  shows "ep_label e1 = ep_label e" "turn_posts expected reqs e1 ps"
    "r = Inr response \<Longrightarrow> requestEndpoint (tn_answer t) reqs = Inr response"
proof -
  have m: "list_ex (\<lambda>q. pq_method q \<noteq> ''eth_chainId'') reqs" using assms(2) by (auto simp: queries_more_def list_ex_iff)
  obtain e2 qs v where v: "validateEndpoint expected dl t e = (e2, qs, v)" by (cases "validateEndpoint expected dl t e")
  note f = validateEndpoint_facts [OF v]
  show "ep_label e1 = ep_label e" "r = Inr response \<Longrightarrow> requestEndpoint (tn_answer t) reqs = Inr response"
    using assms(1) m v f(1) by (auto simp: ask_endpoint_def split: sum.splits)
  show "turn_posts expected reqs e1 ps"
  proof (cases v)
    case (Inl x)
    then show ?thesis using assms(1) m v f(1,2) by (auto simp: ask_endpoint_def turn_posts_def)
  next
    case (Inr u)
    then show ?thesis using assms(1) m v f unfolding turn_posts_def
      by (intro exI [of _ qs] exI [of _ "drop (length qs) ps"]) (auto simp: ask_endpoint_def)
  qed
qed

lemma adopt_chain_ids_facts:
  assumes "adopt_chain_ids expected response qs e = (e1, r)"
  shows "ep_label e1 = ep_label e \<and> (ep_validated e = Some expected \<longrightarrow> ep_validated e1 = Some expected)"
  using assms by (induction expected response qs e rule: adopt_chain_ids.induct)
    (auto dest: chain_of_response_value split: if_splits sum.splits)

lemma turn_posts_cong: "turn_posts expected reqs e ps \<Longrightarrow> ep_label e' = ep_label e \<Longrightarrow>
    (ep_validated e = Some expected \<longrightarrow> ep_validated e' = Some expected) \<Longrightarrow> turn_posts expected reqs e' ps"
  by (auto simp: turn_posts_def)

lemma take_turn_facts:
  assumes "take_turn expected dl reqs final e t m = (m', r)" and "queries_more reqs"
  shows "\<exists>e' ps. sm_done m' = sm_done m @ [e'] \<and> sm_posts m' = sm_posts m @ ps \<and> ep_label e' = ep_label e
      \<and> turn_posts expected reqs e' ps"
    and "r = Some (Inr response) \<Longrightarrow> requestEndpoint (tn_answer t) reqs = Inr response"
    and "r = None \<Longrightarrow> sm_null m' = Some response \<Longrightarrow> sm_null m \<noteq> Some response \<Longrightarrow> requestEndpoint (tn_answer t) reqs = Inr response"
    and "r = None \<Longrightarrow> \<not> held_write reqs"
proof -
  obtain e1 ps v where a: "ask_endpoint expected dl reqs t e = (e1, ps, v)" by (cases "ask_endpoint expected dl reqs t e")
  obtain e2 w where b: "adopt_chain_ids expected (projr v) reqs e1 = (e2, w)" by (cases "adopt_chain_ids expected (projr v) reqs e1")
  note f = ask_endpoint_facts [OF a assms(2)] and g = adopt_chain_ids_facts [OF b]
  note h = turn_posts_cong [OF f(2), of e2]
  show "\<exists>e' ps. sm_done m' = sm_done m @ [e'] \<and> sm_posts m' = sm_posts m @ ps \<and> ep_label e' = ep_label e
      \<and> turn_posts expected reqs e' ps"
    using assms(1) a b f(1,2) g h unfolding take_turn_def catch_failure_def seen_failure_def Let_def
    by (cases v; cases w) (auto split: list.splits if_splits prod.splits)
  show "r = Some (Inr response) \<Longrightarrow> requestEndpoint (tn_answer t) reqs = Inr response"
    using assms(1) a b f(3) unfolding take_turn_def catch_failure_def seen_failure_def Let_def
    by (cases v; cases w) (auto split: list.splits if_splits prod.splits)
  show "r = None \<Longrightarrow> sm_null m' = Some response \<Longrightarrow> sm_null m \<noteq> Some response \<Longrightarrow> requestEndpoint (tn_answer t) reqs = Inr response"
    using assms(1) a b f(3) unfolding take_turn_def catch_failure_def seen_failure_def Let_def
    by (cases v; cases w) (auto split: list.splits if_splits prod.splits)
  have "is_null_answer reqs x \<Longrightarrow> \<not> held_write reqs" for x
    by (auto simp: is_null_answer_def held_write_def isNullPropagationMethod_def isWriteMethod_def split: list.splits)
  then show "r = None \<Longrightarrow> \<not> held_write reqs"
    using assms(1) a b unfolding take_turn_def catch_failure_def seen_failure_def Let_def
    by (cases v; cases w) (auto split: list.splits if_splits prod.splits)
qed

subsection \<open>All turns\<close>

lemma idle_turn: "turn_posts expected reqs e []"
  by (simp add: turn_posts_def)

lemma idle_turns:
  "list_all2 (turn_posts expected reqs) es (map (\<lambda>_. []) es)" "[] = concat (map (\<lambda>_. [] :: post list) es)"
  by (induction es) (simp_all add: idle_turn)

definition sent_in_turns :: "nat \<Rightarrow> rpc_request list \<Rightarrow> string list \<Rightarrow> endpoint list \<Rightarrow> post list \<Rightarrow> bool" where
  "sent_in_turns expected reqs labels es ps \<longleftrightarrow>
     (\<exists>pss. ps = concat pss \<and> list_all2 (turn_posts expected reqs) es pss \<and> map ep_label es = labels)"

lemma sent_in_turns_idle: "sent_in_turns expected reqs (map ep_label es) es []"
  unfolding sent_in_turns_def using idle_turns(1) [of expected reqs es] idle_turns(2) [of es] by metis

lemma sent_in_turns_Cons:
  "turn_posts expected reqs e ps \<Longrightarrow> sent_in_turns expected reqs ls es qs \<Longrightarrow> sent_in_turns expected reqs (ep_label e # ls) (e # es) (ps @ qs)"
  unfolding sent_in_turns_def by (metis concat.simps(2) list.simps(9) list_all2_Cons)

lemma send_loop_posts:
  assumes "queries_more reqs"
  shows "\<exists>es ps. so_endpoints (send_loop expected budget dl reqs turns m) = sm_done m @ es
    \<and> so_posts (send_loop expected budget dl reqs turns m) = sm_posts m @ ps
    \<and> sent_in_turns expected reqs (map ep_label (map fst turns)) es ps"
proof (induction turns arbitrary: m)
  case Nil
  then show ?case using sent_in_turns_idle [of expected reqs "[]"] by (simp add: send_ends_def)
next
  case (Cons et rest)
  obtain e t where et: "et = (e, t)" by force
  define own where "own = min dl (tn_start t + budget)"
  show ?case
  proof (cases "own \<le> tn_check t")
    case True
    then show ?thesis using sent_in_turns_idle [of expected reqs "map fst (et # rest)"]
      by (intro exI [of _ "map fst (et # rest)"] exI [of _ "[]"]) (simp add: et own_def send_ends_def)
  next
    case False
    obtain m' r where tt: "take_turn expected own reqs (rest = []) e t m = (m', r)"
      by (cases "take_turn expected own reqs (rest = []) e t m")
    obtain e' ps where f: "sm_done m' = sm_done m @ [e']" "sm_posts m' = sm_posts m @ ps" "ep_label e' = ep_label e"
      "turn_posts expected reqs e' ps"
      using take_turn_facts(1) [OF tt assms] by blast
    show ?thesis
    proof (cases r)
      case None
      obtain es qs where g: "so_endpoints (send_loop expected budget dl reqs rest m') = sm_done m' @ es"
        "so_posts (send_loop expected budget dl reqs rest m') = sm_posts m' @ qs"
        "sent_in_turns expected reqs (map ep_label (map fst rest)) es qs"
        using Cons.IH by blast
      show ?thesis using sent_in_turns_Cons [OF f(4) g(3)] f(1-3) g(1,2) False tt None
        by (intro exI [of _ "e' # es"] exI [of _ "ps @ qs"]) (simp add: et own_def)
    next
      case (Some v)
      show ?thesis using sent_in_turns_Cons [OF f(4) sent_in_turns_idle [of expected reqs "map fst rest"]] f(1-3) False tt Some
        by (intro exI [of _ "e' # map fst rest"] exI [of _ ps]) (simp add: et own_def send_ends_def)
    qed
  qed
qed

lemma turn_posts_chain:
  "turn_posts expected reqs e ps \<Longrightarrow> p \<in> set ps \<Longrightarrow> po_label p = ep_label e
    \<and> (po_requests p = [chain_request] \<or> (po_requests p = reqs \<and> ep_validated e = Some expected))"
  by (auto simp: turn_posts_def list_all_iff)

lemma turn_posts_payload:
  assumes "turn_posts expected reqs e ps" and "reqs \<noteq> [chain_request]"
  shows "map po_label (filter (\<lambda>p. po_requests p = reqs) ps) \<in> {[], [ep_label e]}"
proof -
  have "list_all (\<lambda>p. po_requests p = [chain_request] \<and> po_label p = ep_label e) qs \<Longrightarrow> filter (\<lambda>p. po_requests p = reqs) qs = []" for qs
    using assms(2) by (induction qs) auto
  then show ?thesis using assms(1) unfolding turn_posts_def by fastforce
qed

lemma sent_in_turns_payload:
  assumes "sent_in_turns expected reqs labels es ps" and "reqs \<noteq> [chain_request]"
  shows "subseq (map po_label (filter (\<lambda>p. po_requests p = reqs) ps)) labels"
proof -
  have "list_all2 (turn_posts expected reqs) es pss
      \<Longrightarrow> subseq (map po_label (filter (\<lambda>p. po_requests p = reqs) (concat pss))) (map ep_label es)" for pss
  proof (induction rule: list_all2_induct)
    case (Cons e es qs pss)
    show ?case using turn_posts_payload [OF Cons(1) assms(2)] Cons(3) by (auto intro: subseq_Cons2)
  qed simp
  with assms(1) show ?thesis by (auto simp: sent_in_turns_def)
qed

lemma sent_in_turns_chain:
  assumes "sent_in_turns expected reqs labels es ps" and "p \<in> set ps"
  shows "po_requests p = [chain_request] \<or> (po_requests p = reqs \<and> (\<exists>e\<in>set es. ep_label e = po_label p \<and> ep_validated e = Some expected))"
proof -
  have "list_all2 (turn_posts expected reqs) es pss \<Longrightarrow> p \<in> set (concat pss)
      \<Longrightarrow> po_requests p = [chain_request] \<or> (po_requests p = reqs \<and> (\<exists>e\<in>set es. ep_label e = po_label p \<and> ep_validated e = Some expected))" for pss
    by (induction rule: list_all2_induct) (auto dest: turn_posts_chain)
  with assms show ?thesis by (auto simp: sent_in_turns_def)
qed

lemma send_loop_result:
  assumes "queries_more reqs" and "so_result (send_loop expected budget dl reqs turns m) = Inr response"
  shows "sm_null m = Some response \<or> (\<exists>(e, t)\<in>set turns. requestEndpoint (tn_answer t) reqs = Inr response)"
  using assms(2)
proof (induction turns arbitrary: m)
  case Nil
  then show ?case by (auto simp: send_ends_def exhausted_def split: option.splits)
next
  case (Cons et rest)
  obtain e t where et: "et = (e, t)" by force
  define own where "own = min dl (tn_start t + budget)"
  show ?case
  proof (cases "own \<le> tn_check t")
    case True
    then show ?thesis using Cons.prems by (auto simp: et own_def send_ends_def exhausted_def split: option.splits)
  next
    case False
    obtain m' r where tt: "take_turn expected own reqs (rest = []) e t m = (m', r)"
      by (cases "take_turn expected own reqs (rest = []) e t m")
    show ?thesis
    proof (cases r)
      case None
      then have "so_result (send_loop expected budget dl reqs rest m') = Inr response"
        using Cons.prems False tt by (simp add: et own_def)
      from Cons.IH [OF this] show ?thesis using take_turn_facts(3) [OF tt assms(1) None] by (auto simp: et)
    next
      case (Some v)
      then have "v = Inr response" using Cons.prems False tt by (simp add: et own_def send_ends_def)
      then show ?thesis using take_turn_facts(2) [OF tt assms(1)] Some by (auto simp: et)
    qed
  qed
qed

subsection \<open>Samples\<close>

text \<open>The body \<open>{"jsonrpc":"2.0","id":7,"result":null}\<close>.\<close>

definition sample_body :: string where
  "sample_body = CHR 0x7B # json_quote ''jsonrpc'' @ '':'' @ json_quote ''2.0'' @ '','' @ json_quote ''id'' @ '':7,''
     @ json_quote ''result'' @ '':null'' @ [CHR 0x7D]"

definition sample_entry :: jsv where
  "sample_entry = JObj [(''jsonrpc'', JStr ''2.0''), (''id'', JNum (Fin 7)), (''result'', JNull)]"

lemma sample_body_parses: "json_parse sample_body = Some sample_entry"
proof -
  have n: "text_number ''7'' = Fin 7" using digits_number [of "''7''"] by (simp add: is_digit_def digits_val_def digit_val_def)
  have b: "sample_body = [CHR 0x7B, CHR 0x22, CHR ''j'', CHR ''s'', CHR ''o'', CHR ''n'', CHR ''r'', CHR ''p'', CHR ''c'', CHR 0x22,
      CHR '':'', CHR 0x22, CHR ''2'', CHR ''.'', CHR ''0'', CHR 0x22, CHR '','', CHR 0x22, CHR ''i'', CHR ''d'', CHR 0x22, CHR '':'',
      CHR ''7'', CHR '','', CHR 0x22, CHR ''r'', CHR ''e'', CHR ''s'', CHR ''u'', CHR ''l'', CHR ''t'', CHR 0x22, CHR '':'',
      CHR ''n'', CHR ''u'', CHR ''l'', CHR ''l'', CHR 0x7D]"
    by code_simp
  have sk: "skip_space [] = []" "skip_space (c # s) = (if json_space c then skip_space s else c # s)" for c s
    by (simp_all add: skip_space_def)
  show ?thesis unfolding b json_parse_def
    by (simp add: sk json_space_def numeral_eq_Suc number_char_def is_digit_def json_number_literal_def n put_field_def
        starts_with_def Let_def sample_entry_def)
qed

definition sample_payload :: "string \<Rightarrow> rpc_request list" where
  "sample_payload m = [\<lparr>pq_id = 7, pq_method = m, pq_params = JArr []\<rparr>]"

lemma sample_answer: "requestEndpoint (Inr sample_body) (sample_payload m) = Inr [sample_entry]"
  by (simp add: requestEndpoint_def sample_body_parses of_option_def validateRpcResponse_def sample_payload_def Let_def guard_def
      has_id_def validate_entry_def sample_entry_def own_def)

definition proved_endpoint :: "string \<Rightarrow> endpoint" where
  "proved_endpoint l = \<lparr>ep_url = l, ep_label = l, ep_validated = Some 80002\<rparr>"

definition sample_turn :: "rejection + string \<Rightarrow> endpoint_turn" where
  "sample_turn answer = \<lparr>tn_start = 0, tn_check = 0, tn_validate = 0, tn_request = 0, tn_chain = Inr [], tn_answer = answer\<rparr>"

text \<open>The first endpoint times out, the second answers.\<close>

definition sample_turns :: "(endpoint \<times> endpoint_turn) list" where
  "sample_turns = [(proved_endpoint ''primary'', sample_turn (Inl (coded_error ''slow'' ''TIMEOUT''))),
     (proved_endpoint ''fallback-1'', sample_turn (Inr sample_body))]"

definition sample_send :: "string \<Rightarrow> send_outcome" where
  "sample_send m = send_payload 80002 2500 0 (sample_payload m) sample_turns"

lemmas sample_send_defs = sample_send_def send_payload_def sample_turns_def endpoint_budget_def RPC_READ_TIMEOUT_MS_def
  no_memory_def take_turn_def ask_endpoint_def validateEndpoint_def proved_endpoint_def sample_turn_def catch_failure_def
  seen_failure_def failover_error_def held_write_def allowWriteFailover_def isWriteMethod_def send_ends_def Let_def

lemma sample_read_sent:
  "map po_label (filter (\<lambda>p. po_requests p = sample_payload ''eth_call'') (so_posts (sample_send ''eth_call''))) = [''primary'', ''fallback-1'']"
  "so_result (sample_send ''eth_call'') = Inr [sample_entry]"
proof -
  have r: "requestEndpoint (Inl e) qs = Inl e" for e qs by (simp add: requestEndpoint_def)
  have s: "is_error_entry sample_entry = False" "adopt_chain_ids 80002 rs (sample_payload ''eth_call'') e = (e, Inr ())"
    "is_null_answer (sample_payload ''eth_call'') rs = False" for rs e
    by (simp_all add: is_error_entry_def sample_entry_def own_def sample_payload_def is_null_answer_def isNullPropagationMethod_def)
  show "map po_label (filter (\<lambda>p. po_requests p = sample_payload ''eth_call'') (so_posts (sample_send ''eth_call''))) = [''primary'', ''fallback-1'']"
    "so_result (sample_send ''eth_call'') = Inr [sample_entry]"
    using timeout_is_transient by (simp_all add: sample_send_defs r s sample_answer, simp_all add: sample_payload_def)
qed

lemma sample_write_sent:
  "map po_label (filter (\<lambda>p. po_requests p = sample_payload ''eth_sendTransaction'') (so_posts (sample_send ''eth_sendTransaction''))) = [''primary'']"
proof -
  have r: "requestEndpoint (Inl e) qs = Inl e" for e qs by (simp add: requestEndpoint_def)
  show ?thesis using timeout_is_transient by (simp add: sample_send_defs r) (simp add: sample_payload_def)
qed

subsection \<open>Guarantees\<close>

text \<open>
   failover repeats one payload, and only to proved endpoints: a send posts nothing but the chain query
  and the unchanged payload; the payload reaches an endpoint only once that endpoint has answered with
  the configured chain; and each endpoint gets the payload at most once, in the configured order.
\<close>

theorem failover_repeats_one_payload:
  assumes "\<exists>q\<in>set reqs. pq_method q \<noteq> ''eth_chainId''"
    and "send_payload expected timeout now reqs turns = out"
  shows "(\<forall>p\<in>set (so_posts out). po_requests p = [chain_request] \<or> (po_requests p = reqs
      \<and> (\<exists>e\<in>set (so_endpoints out). ep_label e = po_label p \<and> ep_validated e = Some expected)))
    \<and> subseq (map po_label (filter (\<lambda>p. po_requests p = reqs) (so_posts out))) (map ep_label (map fst turns))"
proof -
  have q: "queries_more reqs" using assms(1) by (simp add: queries_more_def)
  obtain es ps where "so_endpoints out = es" "so_posts out = ps"
    "sent_in_turns expected reqs (map ep_label (map fst turns)) es ps"
    using send_loop_posts [OF q, of expected "endpoint_budget timeout" "now + endpoint_budget timeout * int (length turns)" turns no_memory]
      assms(2) by (auto simp: send_payload_def Let_def no_memory_def)
  then show ?thesis using sent_in_turns_chain sent_in_turns_payload [OF _ queries_more_chain [OF q]] by blast
qed

theorem failover_repeats_one_payload_witness:
  "list_all (\<lambda>p. po_requests p = [chain_request] \<or> po_requests p = sample_payload ''eth_call'') (so_posts (sample_send ''eth_call''))
    \<and> map po_label (filter (\<lambda>p. po_requests p = sample_payload ''eth_call'') (so_posts (sample_send ''eth_call''))) = [''primary'', ''fallback-1'']"
proof -
  have "\<exists>q\<in>set (sample_payload ''eth_call''). pq_method q \<noteq> ''eth_chainId''" by (simp add: sample_payload_def)
  from failover_repeats_one_payload [OF this sample_send_def [symmetric]]
  have "list_all (\<lambda>p. po_requests p = [chain_request] \<or> po_requests p = sample_payload ''eth_call'') (so_posts (sample_send ''eth_call''))"
    unfolding list_all_iff by blast
  then show ?thesis using sample_read_sent(1) by blast
qed

text \<open>
  C37: a request that the endpoint signs itself (\<open>eth_sendTransaction\<close>, \<open>personal_sendTransaction\<close>) is never replayed:
  such a send talks to the first endpoint only and posts the payload at most once, whatever that
  endpoint answers or however it fails.
\<close>

theorem remote_signing_never_replayed:
  assumes "\<exists>q\<in>set reqs. isWriteMethod (pq_method q) \<and> pq_method q \<noteq> ''eth_sendRawTransaction''"
    and "send_payload expected timeout now reqs ((e, t) # rest) = out"
  shows "length (filter (\<lambda>p. po_requests p = reqs) (so_posts out)) \<le> 1 \<and> (\<forall>p\<in>set (so_posts out). po_label p = ep_label e)"
proof -
  have held: "held_write reqs"
    using assms(1) by (auto simp: held_write_def allowWriteFailover_def list_all_iff list_ex_iff)
  have q: "queries_more reqs" 
    using assms(1) unfolding queries_more_def isWriteMethod_def by (elim bexE) (rule bexI, auto)
  define own where "own = min (now + endpoint_budget timeout * int (Suc (length rest))) (tn_start t + endpoint_budget timeout)"
  obtain m' r where tt: "take_turn expected own reqs (rest = []) e t no_memory = (m', r)"
    by (cases "take_turn expected own reqs (rest = []) e t no_memory")
  obtain v where "r = Some v" using take_turn_facts(4) [OF tt q] held by (cases r) auto
  then have "so_posts out = [] \<or> so_posts out = sm_posts m'"
    using assms(2) tt by (auto simp: send_payload_def Let_def own_def send_ends_def no_memory_def)
  moreover obtain e' ps where f: "sm_posts m' = ps" "ep_label e' = ep_label e" "turn_posts expected reqs e' ps"
    using take_turn_facts(1) [OF tt q] by (auto simp: no_memory_def)
  moreover have "length (filter (\<lambda>p. po_requests p = reqs) ps) \<le> 1"
    using turn_posts_payload [OF f(3) queries_more_chain [OF q]] by auto
  ultimately show ?thesis using turn_posts_chain [OF f(3)] by auto
qed

theorem remote_signing_never_replayed_witness:
  "length (filter (\<lambda>p. po_requests p = sample_payload ''eth_sendTransaction'') (so_posts (sample_send ''eth_sendTransaction''))) = 1"
proof -
  have "\<exists>q\<in>set (sample_payload ''eth_sendTransaction''). isWriteMethod (pq_method q) \<and> pq_method q \<noteq> ''eth_sendRawTransaction''"
    by (simp add: sample_payload_def isWriteMethod_def)
  from remote_signing_never_replayed [OF this sample_send_def [symmetric, unfolded sample_turns_def]]
  have "length (filter (\<lambda>p. po_requests p = sample_payload ''eth_sendTransaction'') (so_posts (sample_send ''eth_sendTransaction''))) \<le> 1"
    by blast
  moreover have "filter (\<lambda>p. po_requests p = sample_payload ''eth_sendTransaction'') (so_posts (sample_send ''eth_sendTransaction'')) \<noteq> []"
    using sample_write_sent by (metis list.map_disc_iff not_Cons_self2)
  ultimately show ?thesis by (simp add: le_Suc_eq)
qed

lemma validate_entries_sound:
  assumes "validate_entries response seen qs = Inr u" and "q \<in> set qs"
  shows "\<exists>ob. JObj ob \<in> set response \<and> field ob ''id'' = JNum (Fin (of_nat (pq_id q))) \<and> field ob ''jsonrpc'' = JStr ''2.0''
    \<and> own ob ''result'' \<noteq> own ob ''error'' \<and> (own ob ''error'' \<longrightarrow> valid_error (field ob ''error''))"
  using assms
proof (induction response seen qs rule: validate_entries.induct)
  case (2 response seen q' qs)
  obtain ob where ob: "find (has_id (pq_id q')) response = Some (JObj ob)" "validate_entry ob (pq_id q' \<in> set seen) = Inr ()"
    "validate_entries response (pq_id q' # seen) qs = Inr ()"
    using "2.prems"(1) by (auto simp: rbind_Inr_iff split: option.splits jsv.splits)
  have "JObj ob \<in> set response" "has_id (pq_id q') (JObj ob)" using ob(1) by (auto simp: find_Some_iff)
  then show ?case using "2.IH" [OF ob(1) refl] ob(3) "2.prems"(2) ob(2)
    by (auto simp: validate_entry_def rbind_Inr_iff has_id_def)
qed simp

text \<open>
   what a send hands out answers what was asked: a successful send returns as many entries as there are
  requests, and for every request an entry with its id, the version of the protocol and exactly one of a
  result and an error, an error with a numeric code.
\<close>

theorem answers_match_requests:
  assumes "\<exists>q\<in>set reqs. pq_method q \<noteq> ''eth_chainId''"
    and "so_result (send_payload expected timeout now reqs turns) = Inr response"
  shows "length response = length reqs \<and> (\<forall>q\<in>set reqs. \<exists>ob. JObj ob \<in> set response
    \<and> field ob ''id'' = JNum (Fin (of_nat (pq_id q))) \<and> field ob ''jsonrpc'' = JStr ''2.0''
    \<and> own ob ''result'' \<noteq> own ob ''error'' \<and> (own ob ''error'' \<longrightarrow> valid_error (field ob ''error'')))"
proof -
  have q: "queries_more reqs" using assms(1) by (simp add: queries_more_def)
  have "so_result (send_loop expected (endpoint_budget timeout) (now + endpoint_budget timeout * int (length turns)) reqs turns no_memory)
      = Inr response"
    using assms(2) by (simp add: send_payload_def Let_def)
  from send_loop_result [OF q this] obtain t :: endpoint_turn where "requestEndpoint (tn_answer t) reqs = Inr response"
    by (auto simp: no_memory_def)
  then have "length response = length reqs" "validate_entries response [] reqs = Inr ()"
    by (auto simp: requestEndpoint_def validateRpcResponse_def rbind_Inr_iff Let_def)
  then show ?thesis using validate_entries_sound by blast
qed

theorem answers_match_requests_witness:
  "length [sample_entry] = length (sample_payload ''eth_call'') \<and> so_result (sample_send ''eth_call'') = Inr [sample_entry]"
proof -
  have "\<exists>q\<in>set (sample_payload ''eth_call''). pq_method q \<noteq> ''eth_chainId''" by (simp add: sample_payload_def)
  from answers_match_requests [OF this sample_read_sent(2) [unfolded sample_send_def], THEN conjunct1] sample_read_sent(2)
  show ?thesis by (rule conjI)
qed

end
