(* ===== verification/ManagedMoves.thy ===== *)
theory ManagedMoves
  imports AwardExecutor RpcProvider
begin

text \<open>
  Transfers around managed wallets in \<open>src/database/integration.ts\<close>: \<open>moveFundsFromManagedWallet\<close> moves all tokens
  of a managed wallet, \<open>revokeAllowanceOnManagedWallet\<close> funds gas and takes the treasury's allowance back, and the
  \<open>throwManaged..\<close> functions classify their failures. Chain reads are parameters of \<open>managed_env\<close>: a value
  or the rejection that is left after the retries of \<open>RpcProvider\<close>. A run gives the database, the raw
  transactions the treasury sent, and a result or what is thrown. Flags a failure leaves undefined are false;
  a dash in a message is written as a hyphen.
\<close>

subsection \<open>Surroundings and failures\<close>

record native_transaction =
  nx_hash :: string
  nx_from :: "string option"
  nx_to :: "string option"
  nx_value :: int

record native_receipt =
  nr_status :: "int option"
  nr_from :: "string option"
  nr_to :: "string option"

record managed_env =
  mg_base :: award_env
  mg_uuid :: string
  mg_lookup :: bool
  mg_lease_saved :: bool
  mg_network :: "rejection + nat"
  mg_signer :: "rejection + string"
  mg_token_balance :: "string \<Rightarrow> string \<Rightarrow> rejection + int"
  mg_allowance :: "string \<Rightarrow> string \<Rightarrow> string \<Rightarrow> rejection + int"
  mg_encode_transfer :: "string \<Rightarrow> string \<Rightarrow> int \<Rightarrow> string"
  mg_decode_transfer :: "string \<Rightarrow> (string \<times> string \<times> int) option"
  mg_encode_approve :: "string \<Rightarrow> int \<Rightarrow> string"
  mg_format_ether :: "int \<Rightarrow> string"
  mg_wait :: "string \<Rightarrow> rejection + int option option"
  mg_transaction :: "string \<Rightarrow> rejection + native_transaction option"
  mg_receipt :: "string \<Rightarrow> rejection + native_receipt option"
  mg_wallet_send :: "string \<Rightarrow> string \<Rightarrow> rejection + string"
  mg_wallet_wait :: "string \<Rightarrow> rejection + int option option"

record managed_failure =
  mf_code :: string
  mf_key :: string
  mf_message :: string
  mf_txHash :: "string option"
  mf_fundingTxHash :: "string option"
  mf_nonce :: "nat option"
  mf_pending :: bool
  mf_requiresReview :: bool
  mf_retryable :: bool
  mf_preflight :: bool
  mf_unsaved :: bool
  mf_outcome :: "movement_outcome option"
  mf_diagnostic :: "diagnostic option"

datatype managed_error = Managed_Failure managed_failure | Managed_Thrown rejection

type_synonym 'a managed_run = "db \<times> string list \<times> (managed_error + 'a)"

definition managed_clock :: "managed_env \<Rightarrow> int" where
  "managed_clock env = clock (mg_base env)"

definition managed_wallet :: "managed_env \<Rightarrow> string \<Rightarrow> string" where
  "managed_wallet env u = ae_managed (mg_base env) u"

definition refuse :: "string \<Rightarrow> managed_error" where
  "refuse m = Managed_Thrown (plain_error m)"

definition thrown_text :: "rejection \<Rightarrow> string" where
  "thrown_text e = (case e of Rejected_Error m _ \<Rightarrow> m | Rejected_Value v \<Rightarrow> js_string v)"

text \<open>\<open>Number(receipt.status)\<close>: a missing status is null, and becomes zero.\<close>

definition status_number :: "int option \<Rightarrow> int" where
  "status_number s = (case s of None \<Rightarrow> 0 | Some n \<Rightarrow> n)"

definition standaloneActionSuffix :: "managed_env \<Rightarrow> string option \<Rightarrow> string + string" where
  "standaloneActionSuffix env actionKey =
     (let source = (if trimmed actionKey = [] then mg_uuid env else trimmed actionKey) in
      if 240 < length source then Inl ''STANDALONE_ACTION_KEY_TOO_LONG'' else Inr (sha_of (mg_base env) source))"

definition throwManagedMoveFailure ::
    "managed_env \<Rightarrow> string \<Rightarrow> reliability_result \<Rightarrow> diagnostic \<Rightarrow> string \<Rightarrow> movement_outcome \<Rightarrow> db \<Rightarrow> db \<times> managed_failure" where
  "throwManagedMoveFailure env k tx g message outcome d =
     ((if \<not> mg_lease_saved env then d
       else if outcome = OUT_NO_MOVEMENT then snd (leaseMarkFailed (managed_clock env) k g message d)
       else snd (leaseMarkUnknown (managed_clock env) k g message d)),
      \<lparr>mf_code = dg_errorCode g, mf_key = k, mf_message = message, mf_txHash = Some (rr_txHash tx),
       mf_fundingTxHash = None, mf_nonce = Some (tc_nonce (rr_context tx)), mf_pending = dg_retryable g,
       mf_requiresReview = (outcome = OUT_REVIEW), mf_retryable = False, mf_preflight = False,
       mf_unsaved = (\<not> mg_lease_saved env), mf_outcome = Some outcome, mf_diagnostic = Some g\<rparr>)"

definition throwManagedMovePreflightFailure :: "string \<Rightarrow> diagnostic \<Rightarrow> string \<Rightarrow> managed_failure" where
  "throwManagedMovePreflightFailure k g message =
     \<lparr>mf_code = dg_errorCode g, mf_key = k, mf_message = message, mf_txHash = nonempty (dg_savedHash g),
      mf_fundingTxHash = None, mf_nonce = dg_nonce g, mf_pending = dg_retryable g, mf_requiresReview = False,
      mf_retryable = dg_retryable g, mf_preflight = True, mf_unsaved = False, mf_outcome = Some OUT_NO_MOVEMENT,
      mf_diagnostic = Some g\<rparr>"

text \<open>The preparation throws its diagnostic, or another error.\<close>

definition throwManagedMovePreparationFailure :: "string \<Rightarrow> rejection + diagnostic \<Rightarrow> managed_failure" where
  "throwManagedMovePreparationFailure k error =
     (let g = (case error of Inr g \<Rightarrow> g
          | Inl _ \<Rightarrow> createTransactionDiagnostic PREPARE ''TRANSACTION_PREPARATION_FAILED'' False (Some CATEGORY_PREFLIGHT) None None);
          review = (dg_category g = Some REVIEW_REQUIRED \<or> \<not> isPreBroadcastTransactionDiagnostic (Some g));
          saved = given (dg_savedHash g)
      in \<lparr>mf_code = dg_errorCode g, mf_key = k, mf_message = (case error of Inr g \<Rightarrow> dg_errorCode g | Inl e \<Rightarrow> thrown_text e),
          mf_txHash = nonempty (dg_savedHash g), mf_fundingTxHash = None, mf_nonce = dg_nonce g,
          mf_pending = (saved \<or> dg_retryable g), mf_requiresReview = review, mf_retryable = dg_retryable g,
          mf_preflight = isPreBroadcastTransactionDiagnostic (Some g), mf_unsaved = False,
          mf_outcome = Some (if review then (if saved then OUT_UNKNOWN else OUT_REVIEW) else OUT_NO_MOVEMENT),
          mf_diagnostic = Some g\<rparr>)"

text \<open>A failed funding transfer keeps its hash apart from the hash of a token movement.\<close>

definition throwManagedFundingFailure ::
    "string \<Rightarrow> rejection + diagnostic \<Rightarrow> diagnostic_stage \<Rightarrow> string option \<Rightarrow> managed_failure" where
  "throwManagedFundingFailure k error stage savedHash =
     (let g = (case error of
            Inr g \<Rightarrow> g
          | Inl e \<Rightarrow> createTransactionDiagnostic stage
              (if stage = RECEIPT then ''RECEIPT_READ_UNAVAILABLE'' else ''RPC_READ_UNAVAILABLE'') (isTransientRpcReadError e)
              (Some (if isTransientRpcReadError e then CONFIRMATION_PENDING else REVIEW_REQUIRED)) savedHash None);
          funding = (case nonempty (dg_savedHash g) of Some h \<Rightarrow> Some h | None \<Rightarrow> nonempty savedHash);
          pre = isPreBroadcastTransactionDiagnostic (Some g);
          review = (dg_category g = Some REVIEW_REQUIRED \<or> \<not> pre)
      in \<lparr>mf_code = dg_errorCode g, mf_key = k, mf_message = (case error of Inr g \<Rightarrow> dg_errorCode g | Inl e \<Rightarrow> thrown_text e),
          mf_txHash = None, mf_fundingTxHash = funding, mf_nonce = dg_nonce g,
          mf_pending = (funding \<noteq> None \<or> dg_retryable g), mf_requiresReview = review, mf_retryable = dg_retryable g,
          mf_preflight = pre, mf_unsaved = False,
          mf_outcome = Some (if review then OUT_REVIEW else if pre then OUT_NO_MOVEMENT else OUT_UNKNOWN),
          mf_diagnostic = Some (g\<lparr>dg_savedHash := None\<rparr>)\<rparr>)"

definition managedMoveEvidenceDiagnostic :: "reliability_result \<Rightarrow> evidence_failure \<Rightarrow> diagnostic" where
  "managedMoveEvidenceDiagnostic tx f =
     \<lparr>dg_stage = RECEIPT, dg_category = Some (if ef_pending f then CONFIRMATION_PENDING else REVIEW_REQUIRED),
      dg_errorCode = evidence_code_text (ef_code f),
      dg_retryable = (case ef_retryable f of None \<Rightarrow> ef_pending f | Some b \<Rightarrow> b),
      dg_savedHash = Some (rr_txHash tx), dg_nonce = Some (tc_nonce (rr_context tx))\<rparr>"

text \<open>What a receipt that did not confirm says: the read failed, there is none yet, or its status.\<close>

definition managedMoveReceiptDiagnostic ::
    "reliability_result \<Rightarrow> rejection + int option option \<Rightarrow> diagnostic \<times> movement_outcome \<times> string" where
  "managedMoveReceiptDiagnostic tx receipt =
     (let diag = (\<lambda>code retryable category. createTransactionDiagnostic RECEIPT code retryable (Some category)
            (Some (rr_txHash tx)) (Some (tc_nonce (rr_context tx))));
          original = '' original transaction '' @ rr_txHash tx
      in case receipt of
        Inl e \<Rightarrow> (let t = isTransientRpcReadError e in
          (diag ''RECEIPT_READ_UNAVAILABLE'' t (if t then CONFIRMATION_PENDING else REVIEW_REQUIRED),
           if t then OUT_UNKNOWN else OUT_REVIEW, ''Managed-wallet transfer receipt lookup failed for'' @ original))
      | Inr None \<Rightarrow> (diag ''RECEIPT_PENDING'' True CONFIRMATION_PENDING, OUT_UNKNOWN,
          ''Managed-wallet transfer receipt is still pending for'' @ original)
      | Inr (Some s) \<Rightarrow>
          (if status_number s = 0
           then (diag ''TRANSACTION_FAILED'' False REVIEW_REQUIRED, OUT_NO_MOVEMENT,
             ''Managed-wallet transfer mined with a failed receipt for'' @ original @ ''; no replacement was submitted'')
           else (diag ''MALFORMED_RECEIPT'' False REVIEW_REQUIRED, OUT_REVIEW,
             ''Managed-wallet transfer returned an invalid receipt status for'' @ original)))"

subsection \<open>Moving the funds of a wallet\<close>

record move_intent =
  mi_balance :: int
  mi_chain :: string
  mi_to :: string
  mi_data :: string
  mi_value :: int
  mi_access :: "access_entry list option"

record move_result =
  mv_txHash :: string
  mv_amount :: string

definition intent_mismatch :: managed_error where
  "intent_mismatch = refuse ''TREASURY_TRANSACTION_INTENT_MISMATCH''"

definition saved_access :: "transaction_context \<Rightarrow> access_entry list option" where
  "saved_access c = map_option (map (\<lambda>(a, ks). Access_Object (Some a) (Some ks))) (tc_accessList c)"

text \<open>A known move: its saved signing context is the intent, and the caller has to mean the same.\<close>

definition saved_move :: "managed_env \<Rightarrow> string \<Rightarrow> string \<Rightarrow> string \<Rightarrow> lease_row \<Rightarrow> managed_error + move_intent" where
  "saved_move env u target contract l =
     (let c = ls_context l in
      rbind (guard (ls_target l = TARGET_STANDALONE) intent_mismatch) (\<lambda>_.
      rbind (guard (same_text (tc_to c) contract) intent_mismatch) (\<lambda>_.
      rbind (of_option intent_mismatch (tc_data c)) (\<lambda>data.
      rbind (of_option intent_mismatch (mg_decode_transfer env data)) (\<lambda>(source, recipient, amount).
      rbind (guard (same_text source (managed_wallet env u) \<and> same_text recipient target) intent_mismatch) (\<lambda>_.
      rbind (of_option intent_mismatch (bigint_text (if tc_value c = [] then ''0'' else tc_value c))) (\<lambda>value.
      rbind (guard (0 < amount) intent_mismatch) (\<lambda>_.
      Inr \<lparr>mi_balance = amount, mi_chain = tc_chainId c, mi_to = tc_to c, mi_data = data, mi_value = value,
        mi_access = saved_access c\<rparr>))))))))"

definition retry_hint :: "bool \<Rightarrow> string" where
  "retry_hint retryable = (if retryable then '', retry the same move key after the token network recovers'' else [])"

text \<open>A failed read before the preparation.\<close>

definition unread :: "string \<Rightarrow> string \<Rightarrow> string \<Rightarrow> rejection \<Rightarrow> managed_error" where
  "unread k code what e =
     (let t = isTransientRpcReadError e in
      Managed_Failure (throwManagedMovePreflightFailure k
        (createTransactionDiagnostic PREFLIGHT code t (Some (if t then RPC_UNAVAILABLE else CATEGORY_PREFLIGHT)) None None)
        (''Managed-wallet '' @ what @ '' could not be read before transfer preparation; no movement was attempted'' @ retry_hint t)))"

definition refused_move :: "string \<Rightarrow> string \<Rightarrow> string \<Rightarrow> managed_error" where
  "refused_move k code message = Managed_Failure (throwManagedMovePreflightFailure k
     (createTransactionDiagnostic PREFLIGHT code False (Some CATEGORY_PREFLIGHT) None None) message)"

definition new_move :: "managed_env \<Rightarrow> string \<Rightarrow> string \<Rightarrow> string \<Rightarrow> string \<Rightarrow> managed_error + move_intent" where
  "new_move env u target contract k =
     (let wallet = managed_wallet env u; read = (\<lambda>code what r. case r of Inl e \<Rightarrow> Inl (unread k code what e) | Inr v \<Rightarrow> Inr v) in
      rbind (read ''RPC_READ_UNAVAILABLE'' ''balance'' (mg_token_balance env contract wallet)) (\<lambda>balance.
      rbind (guard (balance \<noteq> 0) (refused_move k ''MANAGED_WALLET_BALANCE_EMPTY''
        ''Managed wallet balance is already zero - nothing to move'')) (\<lambda>_.
      rbind (case mg_signer env of Inl e \<Rightarrow> Inl (unread k ''RPC_READ_UNAVAILABLE'' ''treasury permission'' e) | Inr a \<Rightarrow> Inr a) (\<lambda>treasury.
      rbind (read ''RPC_READ_UNAVAILABLE'' ''treasury permission'' (mg_allowance env contract wallet treasury)) (\<lambda>allowance.
      rbind (guard (balance \<le> allowance) (refused_move k ''MANAGED_WALLET_ALLOWANCE_UNAVAILABLE''
        ''The managed wallet treasury permission is insufficient for this transfer. Enable the approved treasury permission for managed mode, then retry the same move key; no movement was attempted'')) (\<lambda>_.
      rbind (case mg_network env of Inl e \<Rightarrow> Inl (unread k ''CHAIN_CONTEXT_UNAVAILABLE'' ''chain context'' e) | Inr n \<Rightarrow> Inr n) (\<lambda>chain.
      Inr \<lparr>mi_balance = balance, mi_chain = nat_text chain, mi_to = contract,
        mi_data = mg_encode_transfer env wallet target balance, mi_value = 0, mi_access = None\<rparr>)))))))"

definition move_request :: "string \<Rightarrow> move_intent \<Rightarrow> treasury_request" where
  "move_request k i = \<lparr>rq_operationKey = k, rq_targetOperationKey = None, rq_targetType = TARGET_STANDALONE,
     rq_chainId = mi_chain i, rq_to = mi_to i, rq_data = Some (mi_data i), rq_value = Some (bigint_string (mi_value i)),
     rq_accessList = mi_access i\<rparr>"

text \<open>The evidence of a move that was sent before; \<open>None\<close> where reading it throws.\<close>

definition move_evidence ::
    "managed_env \<Rightarrow> string \<Rightarrow> string \<Rightarrow> string \<Rightarrow> move_intent \<Rightarrow> int \<Rightarrow> string \<Rightarrow> evidence_result option" where
  "move_evidence env u target contract i chain h =
     map_option (\<lambda>ev. verifySpendEvidence ev \<lparr>er_tokenContractAddress = contract, er_chainId = Big_Arg chain,
       er_sourceWallet = managed_wallet env u, er_treasuryRecipient = target, er_amountUnits = Big_Arg (mi_balance i),
       er_txHash = h\<rparr>) (ae_evidence (mg_base env))"

definition evidence_outcome :: "evidence_failure \<Rightarrow> diagnostic \<Rightarrow> movement_outcome" where
  "evidence_outcome f g =
     (if ef_code f = EV_TRANSACTION_FAILED then OUT_NO_MOVEMENT
      else if ef_pending f \<or> dg_retryable g then OUT_UNKNOWN else OUT_REVIEW)"

definition confirm_move ::
    "managed_env \<Rightarrow> string \<Rightarrow> string \<Rightarrow> string \<Rightarrow> string \<Rightarrow> move_intent \<Rightarrow> reliability_result \<Rightarrow> db \<Rightarrow> db \<times> (managed_error + move_result)" where
  "confirm_move env u target contract k i tx d =
     (let h = rr_txHash tx; done = \<lparr>mv_txHash = h, mv_amount = mg_format_ether env (mi_balance i)\<rparr> in
      if rr_alreadyPrepared tx
      then (case bigint_text (mi_chain i) of
          None \<Rightarrow> (d, Inl (refuse ''Cannot convert chain id to a BigInt''))
        | Some chain \<Rightarrow>
            (case move_evidence env u target contract i chain h of
               None \<Rightarrow> (d, Inl (refuse ''evidence''))
             | Some (Inr _) \<Rightarrow> (d, Inr done)
             | Some (Inl f) \<Rightarrow>
                 (let g = managedMoveEvidenceDiagnostic tx f in
                  case throwManagedMoveFailure env k tx g
                      (''Managed-wallet transfer duplicate could not be reconciled safely for original transaction '' @ h @ '': ''
                        @ evidence_code_text (ef_code f)) (evidence_outcome f g) d of
                    (d', x) \<Rightarrow> (d', Inl (Managed_Failure x)))))
      else (let receipt = mg_wait env h in
        if (case receipt of Inr (Some s) \<Rightarrow> status_number s = 1 | _ \<Rightarrow> False) then (d, Inr done)
        else (case managedMoveReceiptDiagnostic tx receipt of
            (g, outcome, message) \<Rightarrow>
              (case throwManagedMoveFailure env k tx g message outcome d of (d', x) \<Rightarrow> (d', Inl (Managed_Failure x))))))"

definition move_key :: "managed_env \<Rightarrow> string \<Rightarrow> string option \<Rightarrow> string + string" where
  "move_key env u actionKey =
     rbind (standaloneActionSuffix env actionKey) (\<lambda>suffix. Inr (''maintenance:move:'' @ u @ '':'' @ suffix))"

definition move_intent_of ::
    "managed_env \<Rightarrow> string \<Rightarrow> string \<Rightarrow> string \<Rightarrow> string \<Rightarrow> db \<Rightarrow> managed_error + move_intent" where
  "move_intent_of env u target contract k d =
     (if \<not> mg_lookup env then Inl (refuse ''lookup'')
      else (case find_lease d k of
          Some l \<Rightarrow> saved_move env u target contract l
        | None \<Rightarrow> new_move env u target contract k))"

definition moveFundsFromManagedWallet ::
    "managed_env \<Rightarrow> string \<Rightarrow> string \<Rightarrow> string \<Rightarrow> string option \<Rightarrow> db \<Rightarrow> move_result managed_run" where
  "moveFundsFromManagedWallet env u target contract actionKey d =
     (if \<not> ch_provider (ae_chain (mg_base env)) then (d, [], Inl (refuse ''Provider not available''))
      else (case move_key env u actionKey of
          Inl e \<Rightarrow> (d, [], Inl (refuse e))
        | Inr k \<Rightarrow>
            (case move_intent_of env u target contract k d of
               Inl e \<Rightarrow> (d, [], Inl e)
             | Inr i \<Rightarrow>
                 (case prepareAndBroadcastTransaction (ae_chain (mg_base env)) (managed_clock env) (move_request k i) d of
                    (d1, sent, Inl g) \<Rightarrow> (d1, sent, Inl (Managed_Failure (throwManagedMovePreparationFailure k (Inr g))))
                  | (d1, sent, Inr tx) \<Rightarrow>
                      (case confirm_move env u target contract k i tx d1 of (d2, r) \<Rightarrow> (d2, sent, r))))))"

subsection \<open>Native transfers\<close>

text \<open>A transfer of native currency that was sent before is only read again, never repeated.\<close>

definition reconcileOriginalNativeTransfer :: "managed_env \<Rightarrow> reliability_result \<Rightarrow> string \<Rightarrow> rejection + unit" where
  "reconcileOriginalNativeTransfer env tx label =
     (let h = rr_txHash tx; c = rr_context tx;
          fails = (\<lambda>m. plain_error (label @ '' original transaction '' @ m));
          unavailable = (\<lambda>e. fails (''evidence is unavailable; operator review is required: '' @ thrown_text e));
          mismatch = fails ''intent does not match its saved signing context; operator review is required'' in
      rbind (case mg_transaction env h of Inl e \<Rightarrow> Inl (unavailable e) | Inr t \<Rightarrow> Inr t) (\<lambda>transaction.
      rbind (case mg_receipt env h of Inl e \<Rightarrow> Inl (unavailable e) | Inr r \<Rightarrow> Inr r) (\<lambda>receipt.
      case (transaction, receipt) of
        (Some t, Some r) \<Rightarrow>
          rbind (guard (same_text (nx_hash t) h \<and> same_column (nx_from t) (tc_signerAddress c) \<and> same_column (nx_to t) (tc_to c)) mismatch) (\<lambda>_.
          rbind (of_option (plain_error ''Cannot convert value to a BigInt'') (bigint_text (tc_value c))) (\<lambda>value.
          rbind (guard (nx_value t = value) mismatch) (\<lambda>_.
          guard (status_number (nr_status r) = 1) (fails ''failed on-chain; operator review is required''))))
      | _ \<Rightarrow> Inl (fails ''is still pending; operator review is required''))))"

definition REVOKE_GAS :: int where
  "REVOKE_GAS = 2 * 10 ^ 15"

text \<open>The gas transfer of a revocation: nothing, or the failure with its stage.\<close>

definition revoke_funding :: "managed_env \<Rightarrow> string \<Rightarrow> string \<Rightarrow> nat \<Rightarrow> db \<Rightarrow> unit managed_run" where
  "revoke_funding env u k chain d =
     (let failure = (\<lambda>e stage h. Inl (Managed_Failure (throwManagedFundingFailure k e stage h))) in
      case prepareAndBroadcastTransaction (ae_chain (mg_base env)) (managed_clock env)
          \<lparr>rq_operationKey = k, rq_targetOperationKey = None, rq_targetType = TARGET_STANDALONE, rq_chainId = nat_text chain,
           rq_to = managed_wallet env u, rq_data = None, rq_value = Some (bigint_string REVOKE_GAS), rq_accessList = None\<rparr> d of
        (d1, sent, Inl g) \<Rightarrow> (d1, sent, failure (Inr g) PREPARE None)
      | (d1, sent, Inr tx) \<Rightarrow>
          (let h = rr_txHash tx in
           case (if rr_alreadyPrepared tx then reconcileOriginalNativeTransfer env tx ''Allowance-revoke gas funding''
                 else (case mg_wait env h of
                     Inl e \<Rightarrow> Inl e
                   | Inr s \<Rightarrow> guard (case s of None \<Rightarrow> False | Some n \<Rightarrow> status_number n = 1)
                       (plain_error ''Allowance-revoke gas funding is not confirmed''))) of
             Inl e \<Rightarrow> (d1, sent, failure (Inl e) RECEIPT (Some h))
           | Inr _ \<Rightarrow> (d1, sent, Inr ())))"

text \<open>The last component holds the data of what the managed wallet itself was asked to send.\<close>

definition revokeAllowanceOnManagedWallet ::
    "managed_env \<Rightarrow> string \<Rightarrow> string \<Rightarrow> string option \<Rightarrow> db \<Rightarrow> unit managed_run \<times> string list" where
  "revokeAllowanceOnManagedWallet env u treasury actionKey d =
     (let wallet = managed_wallet env u;
          contract = or_text (env_token_contract (ae_token (mg_base env))) ''0x605871D30DC278a036F09e2ace771df8a224624B'';
          stop = (\<lambda>x. ((d, [], x), [])) in
      if \<not> ch_provider (ae_chain (mg_base env)) then stop (Inl (refuse ''Provider not available''))
      else case mg_allowance env contract wallet treasury of
        Inl e \<Rightarrow> stop (Inl (Managed_Thrown e))
      | Inr allowance \<Rightarrow>
          if allowance = 0 then stop (Inr ())
          else (case mg_network env of
              Inl e \<Rightarrow> stop (Inl (Managed_Thrown e))
            | Inr chain \<Rightarrow>
                (case standaloneActionSuffix env actionKey of
                   Inl e \<Rightarrow> stop (Inl (refuse e))
                 | Inr suffix \<Rightarrow>
                     (case revoke_funding env u (''maintenance:revoke:'' @ u @ '':funding:'' @ suffix) chain d of
                        (d1, sent, Inl e) \<Rightarrow> ((d1, sent, Inl e), [])
                      | (d1, sent, Inr _) \<Rightarrow>
                          (let data = mg_encode_approve env treasury 0 in
                           case mg_wallet_send env contract data of
                             Inl e \<Rightarrow> ((d1, sent, Inl (Managed_Thrown e)), [data])
                           | Inr h \<Rightarrow>
                               ((d1, sent, case mg_wallet_wait env h of
                                    Inl e \<Rightarrow> Inl (Managed_Thrown e)
                                  | Inr (Some s) \<Rightarrow> if status_number s = 1 then Inr ()
                                      else Inl (refuse ''Allowance revoke transaction is not confirmed'')
                                  | Inr None \<Rightarrow> Inl (refuse ''Allowance revoke transaction is not confirmed'')), [data]))))))"

end
