(* ===== verification/MoveLaws.thy ===== *)
theory MoveLaws
  imports ManagedMoves ExecutorLaws AwardSample
begin

text \<open>
  Guarantees of \<open>moveFundsFromManagedWallet\<close>: one send per action key, what a repeated action may rely on, and
  what proves the answer that nothing was moved.
\<close>

subsection \<open>Branches\<close>

lemma move_failure_steps:
  assumes "throwManagedMoveFailure env k tx g m oc d = (d', f)"
  shows "lease_step\<^sup>*\<^sup>* d d'" and "mf_outcome f = Some oc" and "mf_txHash f = Some (rr_txHash tx)"
  using assms by (auto simp: throwManagedMoveFailure_def split: if_splits intro: r_into_rtranclp step_lease_unknown step_lease_failed)

lemma receipt_outcome:
  assumes "managedMoveReceiptDiagnostic tx receipt = (g, oc, m)"
  shows "oc = OUT_NO_MOVEMENT \<longleftrightarrow> (\<exists>s. receipt = Inr (Some s) \<and> status_number s = 0)"
  using assms by (auto simp: managedMoveReceiptDiagnostic_def Let_def split: sum.splits option.splits if_splits)

lemma confirm_move_cases:
  assumes "confirm_move env u target contract k i tx d = (d', r)"
  obtains (earlier) chain shown where "rr_alreadyPrepared tx" "d' = d"
      "r = Inr \<lparr>mv_txHash = rr_txHash tx, mv_amount = mg_format_ether env (mi_balance i)\<rparr>"
      "move_evidence env u target contract i chain (rr_txHash tx) = Some (Inr shown)"
  | (mined) s where "\<not> rr_alreadyPrepared tx" "d' = d"
      "r = Inr \<lparr>mv_txHash = rr_txHash tx, mv_amount = mg_format_ether env (mi_balance i)\<rparr>"
      "mg_wait env (rr_txHash tx) = Inr (Some s)" "status_number s = 1"
  | (thrown) m where "d' = d" "r = Inl (refuse m)"
  | (unproved) chain e g m f where "rr_alreadyPrepared tx"
      "move_evidence env u target contract i chain (rr_txHash tx) = Some (Inl e)"
      "throwManagedMoveFailure env k tx g m (evidence_outcome e g) d = (d', f)" "r = Inl (Managed_Failure f)"
  | (unconfirmed) g oc m f where "\<not> rr_alreadyPrepared tx" "managedMoveReceiptDiagnostic tx (mg_wait env (rr_txHash tx)) = (g, oc, m)"
      "throwManagedMoveFailure env k tx g m oc d = (d', f)" "r = Inl (Managed_Failure f)"
proof (cases "rr_alreadyPrepared tx")
  case True
  show thesis
  proof (cases "bigint_text (mi_chain i)")
    case None
    then show thesis using assms True by (intro thrown) (auto simp: confirm_move_def Let_def)
  next
    case (Some chain)
    show thesis
    proof (cases "move_evidence env u target contract i chain (rr_txHash tx)")
      case None
      then show thesis using assms True Some by (intro thrown) (auto simp: confirm_move_def Let_def)
    next
      case ev: (Some answer)
      then show thesis using assms True Some
        by (cases answer) (auto simp: confirm_move_def Let_def split: prod.splits intro: unproved earlier)
    qed
  qed
next
  case False
  obtain g oc m where g: "managedMoveReceiptDiagnostic tx (mg_wait env (rr_txHash tx)) = (g, oc, m)" by (metis surj_pair)
  show thesis
  proof (cases "\<exists>s. mg_wait env (rr_txHash tx) = Inr (Some s) \<and> status_number s = 1")
    case True
    then show thesis using assms False by (auto simp: confirm_move_def Let_def intro: mined)
  next
    case no: False
    then have "\<not> (case mg_wait env (rr_txHash tx) of Inr (Some s) \<Rightarrow> status_number s = 1 | _ \<Rightarrow> False)"
      by (auto split: sum.splits option.splits)
    then show thesis using assms False g
      by (auto simp: confirm_move_def Let_def split: prod.splits intro: unconfirmed)
  qed
qed

lemma confirm_move_steps: "confirm_move env u target contract k i tx d = (d', r) \<Longrightarrow> lease_step\<^sup>*\<^sup>* d d'"
  by (cases rule: confirm_move_cases) (auto dest: move_failure_steps)

lemma rbind_refusal:
  assumes "rbind a f = Inl e" and "\<And>x. a = Inl x \<Longrightarrow> Q x" and "\<And>x y. f x = Inl y \<Longrightarrow> Q y"
  shows "Q e"
  using assms by (auto simp: rbind_Inl_iff)

definition nothing_moved :: "managed_error \<Rightarrow> bool" where
  "nothing_moved e \<longleftrightarrow> (\<exists>f. e = Managed_Failure f \<and> mf_preflight f \<and> mf_outcome f = Some OUT_NO_MOVEMENT)"

lemma preflight_moves_nothing: "nothing_moved (unread k code what e)" "nothing_moved (refused_move k code m)"
  by (simp_all add: nothing_moved_def unread_def refused_move_def throwManagedMovePreflightFailure_def Let_def)

lemma new_move_refusal: "new_move env u target contract k = Inl e \<Longrightarrow> nothing_moved e"
  unfolding new_move_def Let_def
  by (elim rbind_refusal [where Q = nothing_moved])
    (auto simp: preflight_moves_nothing split: sum.splits)

lemma saved_move_refusal: "saved_move env u target contract l = Inl e \<Longrightarrow> e = intent_mismatch"
  by (auto simp: saved_move_def Let_def rbind_Inl_iff split: prod.splits)

lemma move_intent_refusal:
  "move_intent_of env u target contract k d = Inl e \<Longrightarrow> e = refuse ''lookup'' \<or> e = intent_mismatch \<or> nothing_moved e"
  using new_move_refusal saved_move_refusal by (fastforce simp: move_intent_of_def split: if_splits option.splits)

lemma move_cases:
  assumes "moveFundsFromManagedWallet env u target contract ak d = (d', sent, r)"
  obtains (refused) e where "d' = d" "sent = []" "r = Inl e"
      "\<And>f. e = Managed_Failure f \<Longrightarrow> mf_preflight f"
  | (unprepared) k i g where "move_key env u ak = Inr k" "move_intent_of env u target contract k d = Inr i"
      "prepareAndBroadcastTransaction (ae_chain (mg_base env)) (managed_clock env) (move_request k i) d = (d', sent, Inl g)"
      "r = Inl (Managed_Failure (throwManagedMovePreparationFailure k (Inr g)))"
  | (prepared) k i tx d1 where "move_key env u ak = Inr k" "move_intent_of env u target contract k d = Inr i"
      "prepareAndBroadcastTransaction (ae_chain (mg_base env)) (managed_clock env) (move_request k i) d = (d1, sent, Inr tx)"
      "confirm_move env u target contract k i tx d1 = (d', r)"
proof (cases "ch_provider (ae_chain (mg_base env))")
  case False
  then show thesis using assms by (intro refused) (auto simp: moveFundsFromManagedWallet_def refuse_def)
next
  case prov: True
  show thesis
  proof (cases "move_key env u ak")
    case (Inl e)
    then show thesis using assms prov by (intro refused) (auto simp: moveFundsFromManagedWallet_def refuse_def)
  next
    case k: (Inr k)
    show thesis
    proof (cases "move_intent_of env u target contract k d")
      case (Inl e)
      then show thesis using assms prov k move_intent_refusal [OF Inl]
        by (intro refused [of e]) (auto simp: moveFundsFromManagedWallet_def refuse_def intent_mismatch_def nothing_moved_def)
    next
      case (Inr i)
      obtain d1 s x where run: "prepareAndBroadcastTransaction (ae_chain (mg_base env)) (managed_clock env) (move_request k i) d = (d1, s, x)"
        by (metis surj_pair)
      then show thesis using assms prov k Inr
        by (cases x) (auto simp: moveFundsFromManagedWallet_def split: prod.splits intro: unprepared prepared)
    qed
  qed
qed

subsection \<open>Runs as histories\<close>

type_synonym move_call = "managed_env \<times> string \<times> string \<times> string \<times> string option"

definition move_runs :: "move_call \<Rightarrow> db \<Rightarrow> db \<Rightarrow> string list \<Rightarrow> bool" where
  "move_runs c d d' sent \<longleftrightarrow> (case c of (env, u, target, contract, ak) \<Rightarrow> \<exists>r. moveFundsFromManagedWallet env u target contract ak d = (d', sent, r))"

definition move_call_key :: "move_call \<Rightarrow> string" where
  "move_call_key c = (case c of (env, u, target, contract, ak) \<Rightarrow> (case move_key env u ak of Inl _ \<Rightarrow> [] | Inr k \<Rightarrow> k))"

lemma move_history:
  assumes "moveFundsFromManagedWallet env u target contract ak d = (d', sent, r)" and ok: "accounts_ok d"
  shows "recording_step\<^sup>*\<^sup>* d d' \<and> (sent \<noteq> [] \<longrightarrow> sends_under (move_call_key (env, u, target, contract, ak)) d d' sent)"
proof -
  have lok: "leases_ok d" using ok by (simp add: accounts_ok_def service_ok_def)
  have under: "recording_step\<^sup>*\<^sup>* d d' \<and> sends_under k d d' sent"
    if "prepareAndBroadcastTransaction ch now (move_request k i) d = (d1, sent, x)" "lease_step\<^sup>*\<^sup>* d1 d'" for ch now k i d1 x
  proof -
    have "recording_step\<^sup>*\<^sup>* d d1" "recording_step\<^sup>*\<^sup>* d1 d'"
      using lease_steps_record [OF run_lease_steps [OF that(1) lok]] lease_steps_record [OF that(2)] .
    then show ?thesis unfolding sends_under_def using that(1)
      by (intro conjI exI [of _ ch] exI [of _ now] exI [of _ "move_request k i"] exI [of _ d] exI [of _ x] exI [of _ d1])
        (auto simp: move_request_def intro: rtranclp_trans)
  qed
  from assms(1) show ?thesis
  proof (cases rule: move_cases)
    case (unprepared k i g)
    then show ?thesis using under [OF unprepared(3) rtranclp.rtrancl_refl] by (simp add: move_call_key_def)
  next
    case (prepared k i tx d1)
    then show ?thesis using under [OF prepared(3) confirm_move_steps [OF prepared(4)]] by (simp add: move_call_key_def)
  qed simp
qed

interpretation move_sender: keyed_sender move_runs move_call_key
  by unfold_locales (use move_history in \<open>force simp: move_runs_def\<close>)+

subsection \<open>A sample move\<close>

text \<open>Three tokens of a managed wallet, on the sample chain; \<open>status\<close> is what the receipt says.\<close>

definition sample_managed_env :: "evidence_view option \<Rightarrow> int option \<Rightarrow> managed_env" where
  "sample_managed_env e status = \<lparr>mg_base = sample_award_env e, mg_uuid = ''u'', mg_lookup = True, mg_lease_saved = True,
     mg_network = Inr 80002, mg_signer = Inr ''0xA1'', mg_token_balance = (\<lambda>_ _. Inr (3 * 10 ^ 18)),
     mg_allowance = (\<lambda>_ _ _. Inr (10 ^ 19)), mg_encode_transfer = (\<lambda>_ _ _. ''0xd''),
     mg_decode_transfer = (\<lambda>_. Some (''0xB2'', ''0xE5'', 3 * 10 ^ 18)), mg_encode_approve = (\<lambda>_ _. ''0xe''),
     mg_format_ether = (\<lambda>_. ''3.0''), mg_wait = (\<lambda>_. Inr (Some status)), mg_transaction = (\<lambda>_. Inr None),
     mg_receipt = (\<lambda>_. Inr None), mg_wallet_send = (\<lambda>_ _. Inr []), mg_wallet_wait = (\<lambda>_. Inr None)\<rparr>"

definition sample_move :: "evidence_view option \<Rightarrow> int option \<Rightarrow> db \<Rightarrow> move_result managed_run" where
  "sample_move e status d = moveFundsFromManagedWallet (sample_managed_env e status) ''U'' ''0xE5'' ''0xc0'' (Some ''k'') d"

lemma sample_move_key: "move_key (sample_managed_env e s) ''U'' (Some ''k'') = Inr (''maintenance:move:U:'' @ replicate 64 CHR ''a'')"
proof -
  have "trimmed (Some ''k'') = ''k''" by code_simp
  then show ?thesis by (simp add: move_key_def standaloneActionSuffix_def sample_managed_env_def)
qed

definition sample_intent :: move_intent where
  "sample_intent = \<lparr>mi_balance = 3 * 10 ^ 18, mi_chain = ''80002'', mi_to = ''0xc0'', mi_data = ''0xd'', mi_value = 0, mi_access = None\<rparr>"

definition sample_move_lease :: "lease_row \<Rightarrow> bool" where
  "sample_move_lease l \<longleftrightarrow> ls_key l = ''maintenance:move:U:'' @ replicate 64 CHR ''a'' \<and> ls_status l = LEASE_SUBMITTED
     \<and> ls_target l = TARGET_STANDALONE \<and> ls_tx_hash l = sample_hash CHR ''a'' \<and> ls_target_key l = Some (ls_key l)
     \<and> ls_chain l = ''80002'' \<and> ls_signer l = js_lower ''0xA1'' \<and> tc_chainId (ls_context l) = ''80002'' \<and> tc_to (ls_context l) = ''0xc0''
     \<and> tc_data (ls_context l) = Some ''0xd'' \<and> tc_value (ls_context l) = ''0'' \<and> tc_accessList (ls_context l) = None"

lemma sample_fields: "ae_chain (mg_base (sample_managed_env e s)) = sample_chain" "managed_clock (sample_managed_env e s) = 9"
  "ch_provider sample_chain"
  by (simp_all add: sample_managed_env_def managed_clock_def sample_chain_def)

lemma zero_texts: "nat_text 80002 = ''80002''" "bigint_string 0 = ''0''" "bigint_text ''0'' = Some 0" "bigint_text ''80002'' = Some 80002"
  by code_simp+

lemma sample_move_run:
  "\<exists>l v. sample_move_lease l \<and> rr_txHash v = sample_hash CHR ''a'' \<and> \<not> rr_alreadyPrepared v
     \<and> (\<forall>e s. sample_move e s empty_db = (case confirm_move (sample_managed_env e s) ''U'' ''0xE5'' ''0xc0''
          (''maintenance:move:U:'' @ replicate 64 CHR ''a'') sample_intent v
          (empty_db\<lparr>t_leases := [l]\<rparr>) of (d2, r) \<Rightarrow> (d2, [''0x02''], r)))"
proof -
  define k where "k = ''maintenance:move:U:'' @ replicate 64 CHR ''a''"
  have i: "move_intent_of (sample_managed_env e s) ''U'' ''0xE5'' ''0xc0'' k empty_db = Inr sample_intent" for e s
    by (simp add: move_intent_of_def new_move_def sample_managed_env_def find_lease_def empty_db_def guard_def zero_texts
        sample_intent_def Let_def)
  have "plain_request (move_request k sample_intent)"
    by (simp add: plain_request_def move_request_def sample_intent_def zero_texts requestValue_def)
  from plain_run [OF this, of 9] obtain l v where run:
    "prepareAndBroadcastTransaction sample_chain 9 (move_request k sample_intent) empty_db = (empty_db\<lparr>t_leases := [l]\<rparr>, [''0x02''], Inr v)"
    "rr_txHash v = sample_hash CHR ''a''" "\<not> rr_alreadyPrepared v"
    and l: "ls_key l = k" "ls_status l = LEASE_SUBMITTED" "ls_target l = TARGET_STANDALONE" "ls_tx_hash l = sample_hash CHR ''a''"
      "ls_target_key l = Some k" "ls_chain l = ''80002''" "ls_signer l = js_lower ''0xA1''" "tc_chainId (ls_context l) = ''80002''"
      "tc_to (ls_context l) = ''0xc0''" "tc_data (ls_context l) = Some ''0xd''" "tc_value (ls_context l) = ''0''"
      "tc_accessList (ls_context l) = None"
    unfolding move_request_def sample_intent_def treasury_request.simps move_intent.simps or_text_def nonempty_def
    by (auto simp: zero_texts requestValue_def)
  have "sample_move_lease l" unfolding sample_move_lease_def using l by (simp only: k_def simp_thms)
  have "sample_move e s empty_db = (case confirm_move (sample_managed_env e s) ''U'' ''0xE5'' ''0xc0'' k sample_intent v
      (empty_db\<lparr>t_leases := [l]\<rparr>) of (d2, r) \<Rightarrow> (d2, [''0x02''], r))" for e s
    unfolding sample_move_def moveFundsFromManagedWallet_def sample_fields sample_move_key [folded k_def]
    using sample_fields(3) by (simp add: i run(1))
  then show ?thesis using run(2,3) \<open>sample_move_lease l\<close> unfolding k_def [symmetric] by blast
qed

lemma zero_receipt_run:
  assumes "status_number s = 0"
  obtains d' f where "sample_move None s empty_db = (d', [''0x02''], Inl (Managed_Failure f))" "mf_outcome f = Some OUT_NO_MOVEMENT"
proof -
  have w: "mg_wait (sample_managed_env None s) h = Inr (Some s)" "mg_lease_saved (sample_managed_env None s)" for h
    by (simp_all add: sample_managed_env_def)
  show thesis using sample_move_run that assms
    by (auto simp: confirm_move_def w managedMoveReceiptDiagnostic_def throwManagedMoveFailure_def Let_def)
qed

text \<open>The same move again, with the chain proving the first.\<close>

definition move_chain :: evidence_view where
  "move_chain = transfer_chain (Call_Transfer_From ''0xB2'' ''0xE5'' (3 * 10 ^ 18)) ''0xB2'' ''0xE5''"

lemma sample_move_again:
  assumes "sample_move_lease l"
  shows "sample_move (Some move_chain) (Some 1) (empty_db\<lparr>t_leases := [l]\<rparr>)
    = (empty_db\<lparr>t_leases := [l]\<rparr>, [], Inr \<lparr>mv_txHash = sample_hash CHR ''a'', mv_amount = ''3.0''\<rparr>)"
proof -
  define env where "env = sample_managed_env (Some move_chain) (Some 1)"
  define k where "k = ''maintenance:move:U:'' @ replicate 64 CHR ''a''"
  define d where "d = empty_db\<lparr>t_leases := [l]\<rparr>"
  note l = assms [unfolded sample_move_lease_def, folded k_def]
  have found: "find_lease d k = Some l" using l by (simp add: find_lease_def d_def)
  have env: "mg_lookup env" "managed_wallet env ''U'' = ''0xB2''" "mg_decode_transfer env t = Some (''0xB2'', ''0xE5'', 3 * 10 ^ 18)"
    "ae_evidence (mg_base env) = Some move_chain" "mg_format_ether env n = ''3.0''" for t n
    by (simp_all add: env_def sample_managed_env_def managed_wallet_def)
  have i: "move_intent_of env ''U'' ''0xE5'' ''0xc0'' k d = Inr sample_intent"
    using l by (simp add: move_intent_of_def env found saved_move_def guard_def of_option_def zero_texts sample_intent_def saved_access_def same_text_def)
  define q where "q = lease_request_of sample_chain (move_request k sample_intent) ''0xA1''"
  have "treasuryIntentMatches l q"
    using l by (simp add: treasuryIntentMatches_def q_def lease_request_of_def move_request_def sample_intent_def lease_target_key_def
        request_target_key_def or_text_def nonempty_def same_text_def zero_texts tuple_entries_def normaliseLeaseAccessList_def k_def)
  then have "prepareLease True 9 q d = Inr (\<lparr>lo_lease = l, lo_already = True, lo_raw = None\<rparr>, d)"
    by (simp add: prepareLease_def q_def lease_request_of_def move_request_def found)
  then have run: "prepareAndBroadcastTransaction sample_chain 9 (move_request k sample_intent) d
      = (d, [], Inr \<lparr>rr_txHash = ls_tx_hash l, rr_context = ls_context l, rr_broadcasted = False, rr_alreadyPrepared = True\<rparr>)"
  proof -
    have "ch_address sample_chain = Some ''0xA1''" "ch_checksum sample_chain = Some" "ch_locked sample_chain"
      by (simp_all add: sample_chain_def)
    with \<open>prepareLease True 9 q d = _\<close> show ?thesis using l sample_fields(3)
      by (simp add: prepareAndBroadcastTransaction_def q_def [symmetric] broadcast_prepared_def)
  qed
  have "parseChainId (Big_Arg 80002) = Inr 80002" by code_simp
  from transfer_proof_at [OF this, of "Call_Transfer_From ''0xB2'' ''0xE5'' (3 * 10 ^ 18)" "''0xB2''" "''0xE5''" METHOD_TRANSFER_FROM]
  have "\<exists>shown. move_evidence env ''U'' ''0xE5'' ''0xc0'' sample_intent 80002 (sample_hash CHR ''a'') = Some (Inr shown)"
    by (auto simp: move_evidence_def env sample_intent_def move_chain_def transfer_chain_def call_arguments_def of_option_def)
  then have "confirm_move env ''U'' ''0xE5'' ''0xc0'' k sample_intent
      \<lparr>rr_txHash = ls_tx_hash l, rr_context = ls_context l, rr_broadcasted = False, rr_alreadyPrepared = True\<rparr> d
      = (d, Inr \<lparr>mv_txHash = sample_hash CHR ''a'', mv_amount = ''3.0''\<rparr>)"
    using l by (auto simp: confirm_move_def Let_def env zero_texts) (auto simp: sample_intent_def zero_texts)
  then show ?thesis
    unfolding sample_move_def moveFundsFromManagedWallet_def sample_fields sample_move_key [folded k_def] d_def [symmetric]
    using sample_fields(3) i run by (simp add: env_def)
qed

subsection \<open>Guarantees\<close>

text \<open>
  C6: the funds of a wallet are moved at most once per action: of two runs under the same action key, with any
  history of the service between them and under any change of target, token, balance, chain answers and
  failing writes, at most one sends a transaction.
\<close>

theorem move_sent_at_most_once:
  assumes "accounts_ok d" and "moveFundsFromManagedWallet env u target contract ak d = (d1, sent, r)" and "sent \<noteq> []"
    and "recording_step\<^sup>*\<^sup>* d1 d2" and "moveFundsFromManagedWallet env' u' target' contract' ak' d2 = (d3, sent', r')"
    and "move_key env u ak = Inr k" and "move_key env' u' ak' = Inr k"
  shows "sent' = []"
proof -
  have k: "move_call_key (env', u', target', contract', ak') = move_call_key (env, u, target, contract, ak)"
    by (simp add: move_call_key_def assms(6,7))
  show ?thesis
    by (rule move_sender.sent_once [OF _ assms(1) assms(3,4) _ k]) (use assms(2,5) in \<open>auto simp: move_runs_def\<close>)
qed

theorem move_sent_at_most_once_witness:
  "\<exists>d1 r d2 r'. sample_move None (Some 1) empty_db = (d1, [''0x02''], r) \<and> sample_move None (Some 1) d1 = (d2, [], r')"
proof -
  obtain d1 r where a: "sample_move None (Some 1) empty_db = (d1, [''0x02''], r)"
    using sample_move_run by (fastforce split: prod.splits)
  obtain d2 s r' where b: "sample_move None (Some 1) d1 = (d2, s, r')" by (metis surj_pair)
  have "s = []"
    by (rule move_sent_at_most_once [OF empty_accounts_ok a [unfolded sample_move_def] _ rtranclp.rtrancl_refl b [unfolded sample_move_def]
        sample_move_key sample_move_key]) simp
  then show ?thesis using a b by blast
qed

text \<open>
  C13: where every receipt carries a status, the answer that nothing was moved is proved: a failed move that reports
  no movement either was refused before anything was sent and left the database alone, or its transaction, under
  the hash it reports, has a receipt whose status is zero, or has evidence that it failed. What happens to a
  receipt without a status is the theorem after it.
\<close>

theorem no_movement_is_proven:
  assumes "accounts_ok d" and "moveFundsFromManagedWallet env u target contract ak d = (d', sent, Inl (Managed_Failure f))"
    and "mf_outcome f = Some OUT_NO_MOVEMENT" and "\<And>h. mg_wait env h \<noteq> Inr (Some None)"
  shows "(mf_preflight f \<and> sent = [] \<and> d' = d)
    \<or> (\<exists>h. mf_txHash f = Some h \<and> mg_wait env h = Inr (Some (Some 0)))
    \<or> (\<exists>h i chain e. mf_txHash f = Some h \<and> move_evidence env u target contract i chain h = Some (Inl e) \<and> ef_code e = EV_TRANSACTION_FAILED)"
  using assms(2)
proof (cases rule: move_cases)
  case refused
  then show ?thesis by simp
next
  case (unprepared k i g)
  have f: "f = throwManagedMovePreparationFailure k (Inr g)" using unprepared(4) by simp
  then have pre: "isPreBroadcastTransactionDiagnostic (Some g)" "mf_preflight f"
    using assms(3) by (auto simp: throwManagedMovePreparationFailure_def Let_def split: if_splits)
  have "leases_ok d" using assms(1) by (simp add: accounts_ok_def service_ok_def)
  from unprepared(3) this show ?thesis by (cases rule: run_cases) (use pre in auto)
next
  case (prepared k i tx d1)
  from prepared(4) show ?thesis
  proof (cases rule: confirm_move_cases)
    case (unproved chain e g m f')
    have "evidence_outcome e g = OUT_NO_MOVEMENT" "mf_txHash f = Some (rr_txHash tx)"
      using move_failure_steps(2,3) [OF unproved(3)] unproved(4) assms(3) by auto
    then show ?thesis using unproved(2) by (auto simp: evidence_outcome_def split: if_splits)
  next
    case (unconfirmed g oc m f')
    have "oc = OUT_NO_MOVEMENT" "mf_txHash f = Some (rr_txHash tx)"
      using move_failure_steps(2,3) [OF unconfirmed(3)] unconfirmed(4) assms(3) by auto
    moreover obtain s where "mg_wait env (rr_txHash tx) = Inr (Some s)" "status_number s = 0"
      using receipt_outcome [OF unconfirmed(2)] calculation(1) by auto
    moreover have "s = Some 0" using assms(4) calculation(3,4) by (cases s) (auto simp: status_number_def)
    ultimately show ?thesis by auto
  qed (auto simp: refuse_def)
qed

theorem no_movement_is_proven_witness:
  "\<exists>d' f h. sample_move None (Some 0) empty_db = (d', [''0x02''], Inl (Managed_Failure f)) \<and> mf_outcome f = Some OUT_NO_MOVEMENT
     \<and> mf_txHash f = Some h \<and> mg_wait (sample_managed_env None (Some 0)) h = Inr (Some (Some 0))"
proof -
  have w: "mg_wait (sample_managed_env None (Some 0)) h = Inr (Some (Some 0))"
    "move_evidence (sample_managed_env None (Some 0)) u t c i n h = None" for u t c i n h
    by (simp_all add: sample_managed_env_def move_evidence_def)
  obtain d' f where a: "sample_move None (Some 0) empty_db = (d', [''0x02''], Inl (Managed_Failure f))" "mf_outcome f = Some OUT_NO_MOVEMENT"
    using zero_receipt_run [of "Some 0"] by (auto simp: status_number_def)
  from no_movement_is_proven [OF empty_accounts_ok a(1) [unfolded sample_move_def] a(2)]
  obtain h where "mf_txHash f = Some h" by (auto simp: w)
  then show ?thesis using a w(1) by blast
qed

text \<open>
  A receipt without a status is answered as no movement too: the code takes its status for a number, and the
  number of a missing status is zero, so the branch for an invalid receipt status is never reached by it.
\<close>

theorem missing_status_is_no_movement:
  "\<exists>d' f. sample_move None None empty_db = (d', [''0x02''], Inl (Managed_Failure f)) \<and> mf_outcome f = Some OUT_NO_MOVEMENT
     \<and> (\<forall>h. mg_wait (sample_managed_env None None) h = Inr (Some None))"
proof -
  have "status_number None = 0" by (simp add: status_number_def)
  from zero_receipt_run [OF this] show ?thesis by (simp add: sample_managed_env_def) blast
qed

text \<open>
   a repeated move relies on the chain alone: once an action has its durable lease, no run under its key sends
  anything, and it succeeds only with accepted evidence of the original transaction, for the wallet, target
  and amount that the saved call carries, whatever the balance is now.
\<close>

theorem repeated_move_needs_evidence:
  assumes "accounts_ok d" and "move_key env u ak = Inr k" and "find_lease d k = Some l"
    and "moveFundsFromManagedWallet env u target contract ak d = (d', sent, r)"
  shows "sent = [] \<and> (\<forall>v. r = Inr v \<longrightarrow> mv_txHash v = ls_tx_hash l \<and>
    (\<exists>data source recipient amount i chain shown. tc_data (ls_context l) = Some data
       \<and> mg_decode_transfer env data = Some (source, recipient, amount) \<and> same_text source (managed_wallet env u)
       \<and> same_text recipient target \<and> 0 < amount \<and> mv_amount v = mg_format_ether env amount \<and> mi_balance i = amount
       \<and> move_evidence env u target contract i chain (ls_tx_hash l) = Some (Inr shown)))"
  using assms(4)
proof (cases rule: move_cases)
  case refused
  then show ?thesis by simp
next
  case (unprepared k' i g)
  have lok: "leases_ok d" using assms(1) by (simp add: accounts_ok_def service_ok_def)
  have k: "k' = k" using unprepared(1) assms(2) by simp
  from unprepared(3) lok have "sent = []" by (cases rule: run_cases) (use assms(3) k in \<open>auto simp: move_request_def\<close>)
  then show ?thesis using unprepared(4) by simp
next
  case (prepared k' i tx d1)
  have lok: "leases_ok d" using assms(1) by (simp add: accounts_ok_def service_ok_def)
  have k: "k' = k" using prepared(1) assms(2) by simp
  from prepared(3) lok have tx: "sent = []" "rr_alreadyPrepared tx" "rr_txHash tx = ls_tx_hash l"
    by (cases rule: run_cases; use assms(3) k in \<open>auto simp: move_request_def\<close>)+
  have i: "saved_move env u target contract l = Inr i"
    using prepared(2) assms(3) k by (auto simp: move_intent_of_def split: if_splits)
  from prepared(4) show ?thesis
  proof (cases rule: confirm_move_cases)
    case (earlier chain shown)
    then show ?thesis using tx i
      by (auto simp: saved_move_def Let_def rbind_Inr_iff) (metis move_intent.select_convs(1))
  qed (use tx in auto)
qed

theorem repeated_move_needs_evidence_witness:
  "\<exists>d1 r v. sample_move None (Some 1) empty_db = (d1, [''0x02''], r)
     \<and> sample_move (Some move_chain) (Some 1) d1 = (d1, [], Inr v) \<and> mv_txHash v = sample_hash CHR ''a''"
proof -
  obtain l v where l: "sample_move_lease l" "sample_move None (Some 1) empty_db
      = (empty_db\<lparr>t_leases := [l]\<rparr>, [''0x02''], Inr \<lparr>mv_txHash = sample_hash CHR ''a'', mv_amount = v\<rparr>)"
    using sample_move_run by (auto simp: confirm_move_def sample_managed_env_def status_number_def Let_def)
  define k where "k = ''maintenance:move:U:'' @ replicate 64 CHR ''a''"
  have ok: "accounts_ok (empty_db\<lparr>t_leases := [l]\<rparr>)"
    by (rule move_sender.run_accounts [OF _ empty_accounts_ok, of "(sample_managed_env None (Some 1), ''U'', ''0xE5'', ''0xc0'', Some ''k'')"])
      (use l(2) in \<open>auto simp: move_runs_def sample_move_def\<close>)
  have f: "find_lease (empty_db\<lparr>t_leases := [l]\<rparr>) k = Some l"
    using l(1) by (simp add: find_lease_def sample_move_lease_def k_def)
  note again = sample_move_again [OF l(1)]
  from repeated_move_needs_evidence [OF ok sample_move_key [folded k_def] f again [unfolded sample_move_def]]
  have "([] :: string list) = []" by blast
  then show ?thesis using l(2) again by auto
qed

end
