(* ===== verification/PublicFailure.thy ===== *)
theory PublicFailure
  imports RpcErrors TokenAmount Database
begin

text \<open>
  The financial failures that \<open>src/api.ts\<close> shows its clients: \<open>publicFailureFields\<close> turns a result or an error of
  the services, of any shape, into one sanitised record. Its input is an \<open>Error\<close> with its own properties,
  or any other value (\<open>rejection\<close>).
\<close>

datatype public_stage =
    PS_VALIDATION | PS_ASSET_CONTEXT | PS_PREFLIGHT | PS_PREPARE | PS_PERSIST_HASH | PS_BROADCAST | PS_RECEIPT
  | PS_PROJECTION | PS_RECOVERY

datatype public_category = PC_RPC_UNAVAILABLE | PC_CONFIRMATION_PENDING | PC_DATABASE_UNAVAILABLE | PC_REVIEW_REQUIRED

datatype endpoint_outcome = EP_SUCCESS | EP_FAILED | EP_NULL

record endpoint_evidence =
  pe_label :: string
  pe_outcome :: endpoint_outcome
  pe_providerCode :: "string option"
  pe_rpcCode :: "jsv option"
  pe_httpStatus :: "int option"
  pe_traceId :: "string option"

record public_diagnostic =
  pd_stage :: public_stage
  pd_rpcMethod :: "string option"
  pd_rpcCode :: "jsv option"
  pd_httpStatus :: "int option"
  pd_traceId :: "string option"
  pd_rpcEndpoint :: "string option"
  pd_rpcFailover :: "endpoint_evidence list"
  pd_errorCode :: string
  pd_retryable :: bool
  pd_savedHash :: "string option"
  pd_nonce :: "int option"

record public_failure =
  pf_errorCode :: string
  pf_stage :: public_stage
  pf_retryable :: bool
  pf_requiresReview :: bool
  pf_operationKey :: "string option"
  pf_txHash :: "string option"
  pf_fundingTxHash :: "string option"
  pf_movementOutcome :: movement_outcome
  pf_diagnostic :: "public_diagnostic option"

subsection \<open>Safe values\<close>

definition asUnknownRecord :: "jsv \<Rightarrow> js_object option" where
  "asUnknownRecord v = as_object v"

text \<open>\<open>record?.k\<close>\<close>

definition at_key :: "js_object option \<Rightarrow> string \<Rightarrow> jsv" where
  "at_key r k = (case r of None \<Rightarrow> JUndef | Some ob \<Rightarrow> field ob k)"

definition coalesce :: "jsv list \<Rightarrow> jsv" where
  "coalesce vs = foldr nullish_or vs JUndef"

definition canonicalTxHash :: "jsv \<Rightarrow> string option" where
  "canonicalTxHash v = (case v of JStr s \<Rightarrow> if is_tx_hash s then Some (js_lower s) else None | _ \<Rightarrow> None)"

definition safe_char :: "char \<Rightarrow> bool" where
  "safe_char c \<longleftrightarrow> is_digit c \<or> is_letter c \<or> c \<in> set ''_.:-''"

text \<open>\<open>/^[A-Za-z0-9_.:-]{1,n}$/\<close>\<close>

definition safe_text :: "nat \<Rightarrow> string \<Rightarrow> bool" where
  "safe_text n t \<longleftrightarrow> t \<noteq> [] \<and> length t \<le> n \<and> list_all safe_char t"

definition safeDiagnosticText :: "nat \<Rightarrow> jsv \<Rightarrow> string option" where
  "safeDiagnosticText n v =
     (case (case v of JStr s \<Rightarrow> Some s | JNum x \<Rightarrow> Some (num_text x) | _ \<Rightarrow> None) of
        None \<Rightarrow> None
      | Some s \<Rightarrow> (let t = js_trim s in if safe_text 80 t then Some (take n t) else None))"

definition is_upper_letter :: "char \<Rightarrow> bool" where
  "is_upper_letter c \<longleftrightarrow> is_letter c \<and> upper_char c = c"

text \<open>\<open>/^[A-Z][A-Z0-9_.-]{2,63}$/\<close>\<close>

definition code_text :: "string \<Rightarrow> bool" where
  "code_text t = (case t of [] \<Rightarrow> False
     | c # r \<Rightarrow> is_upper_letter c \<and> 2 \<le> length r \<and> length r \<le> 63
         \<and> list_all (\<lambda>c. is_upper_letter c \<or> is_digit c \<or> c \<in> set ''_.-'') r)"

definition safeErrorCode :: "jsv \<Rightarrow> string option" where
  "safeErrorCode v =
     (case map_option js_upper (safeDiagnosticText 64 v) of
        None \<Rightarrow> None | Some t \<Rightarrow> if code_text t then Some t else None)"

definition safeRpcCode :: "jsv \<Rightarrow> jsv option" where
  "safeRpcCode v =
     (let as_text = map_option JStr (safeDiagnosticText 32 v) in
      case v of
        JNum n \<Rightarrow> if is_safe_integer n \<and> js_le (js_abs n) (Fin 1000000) then Some (JNum n) else as_text
      | _ \<Rightarrow> as_text)"

definition safeRpcEndpointLabel :: "jsv \<Rightarrow> string option" where
  "safeRpcEndpointLabel v =
     (case v of JStr s \<Rightarrow> (let t = js_trim s in if safe_text 40 t then Some t else None) | _ \<Rightarrow> None)"

definition safe_status :: "jsv \<Rightarrow> int option" where
  "safe_status v =
     (case v of
        JNum (Fin x) \<Rightarrow> if x = of_int \<lfloor>x\<rfloor> \<and> 100 \<le> \<lfloor>x\<rfloor> \<and> \<lfloor>x\<rfloor> \<le> 599 then Some \<lfloor>x\<rfloor> else None
      | _ \<Rightarrow> None)"

definition evidence_outcome_of :: "jsv \<Rightarrow> endpoint_outcome option" where
  "evidence_outcome_of v =
     (if v = JStr ''success'' then Some EP_SUCCESS else if v = JStr ''failed'' then Some EP_FAILED
      else if v = JStr ''null'' then Some EP_NULL else None)"

definition endpoint_entry :: "jsv \<Rightarrow> endpoint_evidence list" where
  "endpoint_entry entry =
     (case asUnknownRecord entry of
        None \<Rightarrow> []
      | Some r \<Rightarrow>
          (case (safeRpcEndpointLabel (field r ''label''), evidence_outcome_of (field r ''outcome'')) of
             (Some label, Some outcome) \<Rightarrow>
               [\<lparr>pe_label = label, pe_outcome = outcome, pe_providerCode = safeDiagnosticText 48 (field r ''providerCode''),
                 pe_rpcCode = safeRpcCode (nullish_or (field r ''rpcCode'') (field r ''providerCode'')),
                 pe_httpStatus = safe_status (field r ''httpStatus''),
                 pe_traceId = safeDiagnosticText 80 (nullish_or (field r ''traceId'') (field r ''requestId''))\<rparr>]
           | _ \<Rightarrow> []))"

definition safeRpcFailoverEvidence :: "jsv \<Rightarrow> endpoint_evidence list" where
  "safeRpcFailoverEvidence v = (case v of JArr vs \<Rightarrow> concat (map endpoint_entry vs) | _ \<Rightarrow> [])"

subsection \<open>Stages and outcomes\<close>

definition stage_words :: "(string \<times> public_stage) list" where
  "stage_words =
     [(''validation'', PS_VALIDATION), (''normalisation'', PS_VALIDATION), (''normalization'', PS_VALIDATION),
      (''asset_context'', PS_ASSET_CONTEXT), (''asset-context'', PS_ASSET_CONTEXT),
      (''preflight'', PS_PREFLIGHT), (''calculation'', PS_PREFLIGHT),
      (''prepare'', PS_PREPARE), (''approval'', PS_PREPARE),
      (''persist_hash'', PS_PERSIST_HASH), (''persist-hash'', PS_PERSIST_HASH),
      (''submission'', PS_BROADCAST), (''execution'', PS_BROADCAST), (''submitting'', PS_BROADCAST),
      (''submitted'', PS_BROADCAST), (''broadcast'', PS_BROADCAST),
      (''confirmation'', PS_RECEIPT), (''confirmed'', PS_RECEIPT), (''receipt'', PS_RECEIPT),
      (''projection'', PS_PROJECTION), (''projected'', PS_PROJECTION), (''complete'', PS_PROJECTION),
      (''recovery'', PS_RECOVERY), (''unknown'', PS_RECOVERY)]"

definition normalisePublicFailureStage :: "jsv \<Rightarrow> public_stage \<Rightarrow> public_stage" where
  "normalisePublicFailureStage v fallback =
     (case map_of stage_words (case v of JStr s \<Rightarrow> js_lower s | _ \<Rightarrow> []) of None \<Rightarrow> fallback | Some s \<Rightarrow> s)"

definition outcome_words :: "(string \<times> movement_outcome) list" where
  "outcome_words = [(''confirmed'', OUT_CONFIRMED), (''no_movement'', OUT_NO_MOVEMENT), (''unknown'', OUT_UNKNOWN),
     (''review'', OUT_REVIEW)]"

definition normaliseMovementOutcome :: "jsv \<Rightarrow> movement_outcome \<Rightarrow> movement_outcome" where
  "normaliseMovementOutcome v fallback =
     (case (case v of JStr s \<Rightarrow> map_of outcome_words s | _ \<Rightarrow> None) of None \<Rightarrow> fallback | Some out \<Rightarrow> out)"

definition has_part :: "string \<Rightarrow> string \<Rightarrow> bool" where
  "has_part t p \<longleftrightarrow> occurs (starts_with p) t"

definition diagnosticCategoryFor :: "string \<Rightarrow> public_stage \<Rightarrow> bool \<Rightarrow> public_category option" where
  "diagnosticCategoryFor code stage requiresReview =
     (if requiresReview \<or> code = ''CHAIN_OUTCOME_UNKNOWN'' \<or> code = ''OPERATION_REVIEW_REQUIRED'' then Some PC_REVIEW_REQUIRED
      else if code = ''TRANSACTION_CONFIRMATION_PENDING'' \<or> stage = PS_RECEIPT then Some PC_CONFIRMATION_PENDING
      else if starts_with ''RPC_'' code \<or> code = ''CHAIN_CONTEXT_UNAVAILABLE'' \<or> stage = PS_ASSET_CONTEXT \<or> stage = PS_PREFLIGHT
      then Some PC_RPC_UNAVAILABLE
      else if has_part code ''DATABASE'' \<or> has_part code ''PERSISTENCE'' then Some PC_DATABASE_UNAVAILABLE
      else None)"

subsection \<open>Codes\<close>

definition getErrorMessage :: "rejection \<Rightarrow> string" where
  "getErrorMessage e = (case e of Rejected_Error m _ \<Rightarrow> m | Rejected_Value v \<Rightarrow> js_string v)"

definition vague_codes :: "string list" where
  "vague_codes = [''EXECUTION'', ''SUBMITTED'', ''SUBMITTING'', ''BROADCAST'', ''CONFIRMED'', ''UNKNOWN'']"

definition source_of :: "js_object option \<Rightarrow> js_object option" where
  "source_of record = asUnknownRecord (coalesce [at_key record ''diagnostic'', at_key record ''diagnostics'',
     at_key record ''diagnostic_context''])"

definition explicit_code :: "js_object option \<Rightarrow> string option" where
  "explicit_code record =
     first_of (\<lambda>k. case safeErrorCode (at_key record k) of None \<Rightarrow> None
         | Some t \<Rightarrow> if t \<in> set vague_codes then None else Some t)
       [''errorCode'', ''error_code'', ''failureCode'', ''code'']"

definition code_of_text :: "string \<Rightarrow> public_stage \<Rightarrow> string option" where
  "code_of_text text stage =
     (let has = has_part text; sent = (stage = PS_BROADCAST \<or> stage = PS_PERSIST_HASH) in
      if has ''token_operation_intent_mismatch'' \<or> has ''treasury_transaction_intent_mismatch''
      then Some ''TOKEN_OPERATION_INTENT_MISMATCH''
      else if has ''allowance'' \<or> has ''transferfrom'' then Some ''MANAGED_WALLET_ALLOWANCE_UNAVAILABLE''
      else if has ''settlement_context_reservation_mismatch'' then Some ''SETTLEMENT_CONTEXT_RESERVATION_MISMATCH''
      else if has ''reservation_settlement_context_mismatch'' \<or> has ''reservation_context_mismatch''
      then Some ''RESERVATION_CONTEXT_MISMATCH''
      else if has ''preflight_unavailable'' \<or> has ''chain_context_unavailable'' \<or> has ''temporary internal error''
         \<or> has ''code 19'' \<or> has ''http 5''
      then Some (if sent then ''RPC_SUBMISSION_UNAVAILABLE'' else ''RPC_READ_UNAVAILABLE'')
      else if has ''submission outcome is unknown'' \<or> has ''hash could not be durably saved'' then Some ''CHAIN_OUTCOME_UNKNOWN''
      else if has ''confirmation'' \<and> has ''pending'' then Some ''TRANSACTION_CONFIRMATION_PENDING''
      else if has ''projection'' \<and> has ''pending'' then Some ''PROJECTION_PENDING''
      else None)"

definition code_of_stage :: "public_stage \<Rightarrow> movement_outcome \<Rightarrow> bool \<Rightarrow> string" where
  "code_of_stage stage outcome requiresReview =
     (if requiresReview \<or> outcome = OUT_REVIEW then ''OPERATION_REVIEW_REQUIRED''
      else if outcome = OUT_UNKNOWN then ''CHAIN_OUTCOME_UNKNOWN''
      else case stage of
        PS_PREFLIGHT \<Rightarrow> ''RPC_READ_UNAVAILABLE'' | PS_PREPARE \<Rightarrow> ''APPROVAL_FAILED''
      | PS_BROADCAST \<Rightarrow> ''RPC_SUBMISSION_UNAVAILABLE'' | PS_PERSIST_HASH \<Rightarrow> ''RPC_SUBMISSION_UNAVAILABLE''
      | PS_RECEIPT \<Rightarrow> ''TRANSACTION_CONFIRMATION_PENDING'' | PS_PROJECTION \<Rightarrow> ''PROJECTION_PENDING''
      | _ \<Rightarrow> ''OPERATION_FAILED'')"

definition inferPublicErrorCode ::
    "js_object option \<Rightarrow> rejection \<Rightarrow> public_stage \<Rightarrow> movement_outcome \<Rightarrow> bool \<Rightarrow> string" where
  "inferPublicErrorCode record error stage outcome requiresReview =
     (case safeErrorCode (at_key (source_of record) ''errorCode'') of
        Some t \<Rightarrow> t
      | None \<Rightarrow>
          (case explicit_code record of
             Some t \<Rightarrow> t
           | None \<Rightarrow>
               (case code_of_text (js_lower (getErrorMessage error)) stage of
                  Some t \<Rightarrow> t
                | None \<Rightarrow> code_of_stage stage outcome requiresReview)))"

subsection \<open>The diagnostic\<close>

definition category_words :: "string list" where
  "category_words = [''rpc_unavailable'', ''confirmation_pending'', ''database_unavailable'', ''review_required'']"

text \<open>\<open>/^(?:0|[1-9]\d*)$/\<close>\<close>

definition plain_nat :: "string \<Rightarrow> bool" where
  "plain_nat s \<longleftrightarrow> s = ''0'' \<or> (s \<noteq> [] \<and> hd s \<noteq> CHR ''0'' \<and> list_all is_digit s)"

definition safe_nonce :: "jsv \<Rightarrow> int option" where
  "safe_nonce v =
     (let number = (\<lambda>n. case n of Fin x \<Rightarrow> if is_safe_integer n \<and> 0 \<le> x then Some \<lfloor>x\<rfloor> else None | _ \<Rightarrow> None) in
      case v of JNum n \<Rightarrow> number n | JStr s \<Rightarrow> if plain_nat s then number (text_number s) else None | _ \<Rightarrow> None)"

definition funding_hash_of :: "js_object option \<Rightarrow> string option" where
  "funding_hash_of record =
     (let source = source_of record in
      canonicalTxHash (coalesce [at_key record ''fundingTxHash'', at_key record ''funding_tx_hash'',
        at_key source ''fundingTxHash'', at_key source ''funding_tx_hash'']))"

definition truthy_code :: "jsv option \<Rightarrow> jsv option" where
  "truthy_code c = (case c of None \<Rightarrow> None | Some v \<Rightarrow> if js_truthy v then Some v else None)"

definition safeFailureDiagnostic ::
    "js_object option \<Rightarrow> string \<Rightarrow> public_stage \<Rightarrow> bool \<Rightarrow> bool \<Rightarrow> public_diagnostic option" where
  "safeFailureDiagnostic record errorCode stage requiresReview retryable =
     (let source = source_of record; look = at_key source in
      if \<not> (case look ''category'' of JStr c \<Rightarrow> c \<in> set category_words | _ \<Rightarrow> False)
         \<and> diagnosticCategoryFor errorCode stage requiresReview = None \<and> source = None
      then None
      else Some
        \<lparr>pd_stage = normalisePublicFailureStage (look ''stage'') stage,
         pd_rpcMethod = safeDiagnosticText 80 (look ''rpcMethod''),
         pd_rpcCode = truthy_code (safeRpcCode (nullish_or (look ''rpcCode'') (look ''providerCode''))),
         pd_httpStatus = safe_status (look ''httpStatus''),
         pd_traceId = safeDiagnosticText 80 (nullish_or (look ''traceId'') (look ''requestId'')),
         pd_rpcEndpoint = safeRpcEndpointLabel (nullish_or (look ''rpcEndpoint'') (look ''endpointLabel'')),
         pd_rpcFailover = safeRpcFailoverEvidence (nullish_or (look ''rpcFailover'') (look ''failover'')),
         pd_errorCode = (case safeErrorCode (look ''errorCode'') of None \<Rightarrow> errorCode | Some t \<Rightarrow> t),
         pd_retryable = (if requiresReview then False else retryable),
         pd_savedHash = (if funding_hash_of record \<noteq> None then None else canonicalTxHash (look ''savedHash'')),
         pd_nonce = safe_nonce (look ''nonce'')\<rparr>)"

subsection \<open>The whole record\<close>

record failure_fallback =
  fb_stage :: public_stage
  fb_operationKey :: "string option"
  fb_txHash :: "string option"
  fb_movementOutcome :: "movement_outcome option"
  fb_pending :: bool
  fb_retryable :: "bool option"
  fb_requiresReview :: bool
  fb_error :: "rejection option"

definition plain_fallback :: "public_stage \<Rightarrow> failure_fallback" where
  "plain_fallback stage = \<lparr>fb_stage = stage, fb_operationKey = None, fb_txHash = None, fb_movementOutcome = None,
     fb_pending = False, fb_retryable = None, fb_requiresReview = False, fb_error = None\<rparr>"

definition fallback_text :: "string option \<Rightarrow> jsv" where
  "fallback_text x = (case x of None \<Rightarrow> JUndef | Some s \<Rightarrow> JStr s)"

definition error_of :: "rejection \<Rightarrow> js_object option \<Rightarrow> failure_fallback \<Rightarrow> rejection" where
  "error_of input record fb =
     (case fb_error fb of
        Some e \<Rightarrow> e
      | None \<Rightarrow> if is_nullish (at_key record ''error'') then input else Rejected_Value (at_key record ''error''))"

definition raw_outcome :: "js_object option \<Rightarrow> jsv" where
  "raw_outcome record = nullish_or (at_key record ''movementOutcome'') (at_key record ''movement_outcome'')"

definition primary_hash :: "js_object option \<Rightarrow> failure_fallback \<Rightarrow> string option" where
  "primary_hash record fb =
     (let source = source_of record in
      first_of id
        [canonicalTxHash (coalesce [at_key record ''primaryTxHash'', at_key record ''primary_tx_hash'',
           at_key source ''primaryTxHash'', at_key source ''primary_tx_hash'']),
         canonicalTxHash (coalesce [at_key record ''txHash'', at_key record ''transactionHash'', at_key record ''tx_hash'',
           fallback_text (fb_txHash fb)]),
         if funding_hash_of record \<noteq> None then None else canonicalTxHash (at_key source ''savedHash'')])"

definition before_broadcast :: "public_stage \<Rightarrow> bool" where
  "before_broadcast s \<longleftrightarrow> s \<in> {PS_ASSET_CONTEXT, PS_PREFLIGHT, PS_PREPARE, PS_PERSIST_HASH}"

definition failure_stage :: "js_object option \<Rightarrow> failure_fallback \<Rightarrow> public_stage" where
  "failure_stage record fb =
     normalisePublicFailureStage (coalesce [at_key (source_of record) ''stage'', at_key record ''failureStage'',
       at_key record ''failure_stage'', at_key record ''stage'']) (fb_stage fb)"

definition stated_review :: "js_object option \<Rightarrow> failure_fallback \<Rightarrow> bool" where
  "stated_review record fb \<longleftrightarrow> at_key record ''requiresReview'' = JBool True \<or> fb_requiresReview fb
     \<or> at_key (source_of record) ''category'' = JStr ''review_required''"

definition provisional_review :: "js_object option \<Rightarrow> failure_fallback \<Rightarrow> bool" where
  "provisional_review record fb \<longleftrightarrow> stated_review record fb \<or> raw_outcome record = JStr ''review''"

definition failure_outcome :: "js_object option \<Rightarrow> failure_fallback \<Rightarrow> movement_outcome" where
  "failure_outcome record fb =
     normaliseMovementOutcome (raw_outcome record)
       (case fb_movementOutcome fb of
          Some out \<Rightarrow> out
        | None \<Rightarrow> if provisional_review record fb then OUT_REVIEW
            else if before_broadcast (failure_stage record fb) \<or> at_key record ''preflightFailure'' = JBool True then OUT_NO_MOVEMENT
            else OUT_UNKNOWN)"

definition hashless_unknown :: "js_object option \<Rightarrow> failure_fallback \<Rightarrow> bool" where
  "hashless_unknown record fb \<longleftrightarrow> primary_hash record fb = None \<and> failure_outcome record fb = OUT_UNKNOWN
     \<and> (raw_outcome record = JStr ''unknown'' \<or> at_key record ''status'' = JStr ''unknown''
        \<or> at_key (source_of record) ''errorCode'' = JStr ''CHAIN_OUTCOME_UNKNOWN'')"

definition failure_review :: "rejection \<Rightarrow> js_object option \<Rightarrow> failure_fallback \<Rightarrow> bool" where
  "failure_review error record fb \<longleftrightarrow> stated_review record fb
     \<or> inferPublicErrorCode record error (failure_stage record fb) (failure_outcome record fb) (provisional_review record fb)
         \<in> {''CHAIN_OUTCOME_UNKNOWN'', ''OPERATION_REVIEW_REQUIRED''}
     \<or> hashless_unknown record fb"

definition retry_candidate :: "js_object option \<Rightarrow> failure_fallback \<Rightarrow> bool \<Rightarrow> bool" where
  "retry_candidate record fb review =
     (case at_key record ''retryable'' of
        JBool b \<Rightarrow> b
      | _ \<Rightarrow> (case at_key (source_of record) ''retryable'' of
          JBool b \<Rightarrow> b
        | _ \<Rightarrow> (case fb_retryable fb of
            Some b \<Rightarrow> b
          | None \<Rightarrow> (case at_key record ''pending'' of JBool b \<Rightarrow> b | _ \<Rightarrow> fb_pending fb) \<and> \<not> review)))"

definition operation_key_of :: "js_object option \<Rightarrow> failure_fallback \<Rightarrow> string option" where
  "operation_key_of record fb =
     (case nullish_or (at_key record ''operationKey'') (fallback_text (fb_operationKey fb)) of JStr s \<Rightarrow> Some s | _ \<Rightarrow> None)"

definition publicFailureFields :: "rejection \<Rightarrow> failure_fallback \<Rightarrow> public_failure" where
  "publicFailureFields input fb =
     (let record = asUnknownRecord (error_fields input);
          error = error_of input record fb;
          stage = failure_stage record fb;
          outcome = failure_outcome record fb;
          review = failure_review error record fb;
          errorCode = inferPublicErrorCode record error stage outcome review;
          retryable = (if review then False else retry_candidate record fb review);
          diagnostic = safeFailureDiagnostic record errorCode stage review retryable
      in \<lparr>pf_errorCode = (case diagnostic of Some g \<Rightarrow> pd_errorCode g | None \<Rightarrow> errorCode),
          pf_stage = (case diagnostic of Some g \<Rightarrow> pd_stage g | None \<Rightarrow> stage),
          pf_retryable = retryable, pf_requiresReview = review, pf_operationKey = operation_key_of record fb,
          pf_txHash = primary_hash record fb, pf_fundingTxHash = funding_hash_of record, pf_movementOutcome = outcome,
          pf_diagnostic = diagnostic\<rparr>)"

end
