(* ===== verification/FailureLaws.thy ===== *)
theory FailureLaws
  imports PublicFailure
begin

text \<open>
  What every public failure satisfies, whatever a service throws or returns: bounded texts over a safe alphabet,
  canonical hashes, one stage, code and retry decision, and no retry of what an operator has to review.
\<close>

subsection \<open>Safe values\<close>

lemma safe_text_take: "safe_text m t \<Longrightarrow> 0 < n \<Longrightarrow> safe_text (min n m) (take n t)"
  by (cases t; cases n) (auto simp: safe_text_def list_all_iff dest: in_set_takeD)

lemma safe_text_mono: "safe_text m t \<Longrightarrow> m \<le> n \<Longrightarrow> safe_text n t"
  by (auto simp: safe_text_def)

lemma diagnostic_text_safe:
  assumes "safeDiagnosticText n v = Some t" and "0 < n"
  shows "safe_text n t" and "safe_text 80 t"
proof -
  obtain s where "safe_text 80 s" "t = take n s"
    using assms(1) by (auto simp: safeDiagnosticText_def Let_def split: option.splits if_splits)
  then have "safe_text (min n 80) t" using safe_text_take [OF _ assms(2)] by simp
  then show "safe_text n t" "safe_text 80 t" by (auto elim: safe_text_mono)
qed

lemmas texts_safe = diagnostic_text_safe(1) [OF _ zero_less_numeral]

lemma error_code_safe: "safeErrorCode v = Some t \<Longrightarrow> code_text t"
  by (auto simp: safeErrorCode_def split: option.splits if_splits)

definition hash_text :: "string \<Rightarrow> bool" where
  "hash_text h \<longleftrightarrow> is_tx_hash h \<and> js_lower h = h"

lemma is_tx_hash_lower: "is_tx_hash s \<Longrightarrow> is_tx_hash (js_lower s)"
  by (cases s; cases "tl s") (auto simp: is_tx_hash_def js_lower_def list_all_iff is_hex_lower lower_char_def [of "CHR ''0''"]
      lower_char_def [of "CHR ''x''"])

lemma canonical_hash_text: "canonicalTxHash v = Some h \<Longrightarrow> hash_text h"
  by (auto simp: canonicalTxHash_def hash_text_def is_tx_hash_lower split: jsv.splits if_splits)

definition safe_rpc_code :: "jsv \<Rightarrow> bool" where
  "safe_rpc_code v = (case v of JStr t \<Rightarrow> safe_text 32 t | JNum n \<Rightarrow> is_safe_integer n \<and> js_le (js_abs n) (Fin 1000000) | _ \<Rightarrow> False)"

lemma rpc_code_safe: "safeRpcCode v = Some c \<Longrightarrow> safe_rpc_code c"
  by (auto simp: safeRpcCode_def safe_rpc_code_def Let_def dest: texts_safe split: jsv.splits if_splits)

lemma truthy_code_safe: "truthy_code (safeRpcCode v) = Some c \<Longrightarrow> safe_rpc_code c"
  by (auto simp: truthy_code_def dest: rpc_code_safe split: option.splits if_splits)

lemma label_safe: "safeRpcEndpointLabel v = Some t \<Longrightarrow> safe_text 40 t"
  by (auto simp: safeRpcEndpointLabel_def Let_def split: jsv.splits if_splits)

lemma status_safe: "safe_status v = Some n \<Longrightarrow> 100 \<le> n \<and> n \<le> 599"
  by (auto simp: safe_status_def split: jsv.splits js_number.splits if_splits)

lemma nonce_safe: "safe_nonce v = Some n \<Longrightarrow> 0 \<le> n \<and> n < 2 ^ 53"
  by (auto simp: safe_nonce_def Let_def is_safe_integer_def split: jsv.splits js_number.splits if_splits)

subsection \<open>Well-formed failures\<close>

definition each_safe :: "('a \<Rightarrow> bool) \<Rightarrow> 'a option \<Rightarrow> bool" where
  "each_safe P x = (case x of None \<Rightarrow> True | Some v \<Rightarrow> P v)"

lemma each_safeI: "(\<And>v. x = Some v \<Longrightarrow> P v) \<Longrightarrow> each_safe P x"
  by (cases x) (auto simp: each_safe_def)

definition safe_endpoint :: "endpoint_evidence \<Rightarrow> bool" where
  "safe_endpoint e \<longleftrightarrow> safe_text 40 (pe_label e) \<and> each_safe (safe_text 48) (pe_providerCode e)
     \<and> each_safe safe_rpc_code (pe_rpcCode e) \<and> each_safe (\<lambda>n. 100 \<le> n \<and> n \<le> 599) (pe_httpStatus e)
     \<and> each_safe (safe_text 80) (pe_traceId e)"

lemma endpoint_safe: "e \<in> set (endpoint_entry v) \<Longrightarrow> safe_endpoint e"
  by (auto simp: endpoint_entry_def safe_endpoint_def split: option.splits
      intro!: each_safeI dest: label_safe [OF sym] texts_safe rpc_code_safe status_safe)

lemma failover_safe: "list_all safe_endpoint (safeRpcFailoverEvidence v)"
  by (auto simp: safeRpcFailoverEvidence_def list_all_iff endpoint_safe split: jsv.splits)

text \<open>What a diagnostic may show, and that it repeats the decisions of its failure.\<close>

definition safe_diagnostic :: "public_failure \<Rightarrow> public_diagnostic \<Rightarrow> bool" where
  "safe_diagnostic f g \<longleftrightarrow> pd_stage g = pf_stage f \<and> pd_errorCode g = pf_errorCode f \<and> pd_retryable g = pf_retryable f
     \<and> each_safe (safe_text 80) (pd_rpcMethod g) \<and> each_safe safe_rpc_code (pd_rpcCode g)
     \<and> each_safe (\<lambda>n. 100 \<le> n \<and> n \<le> 599) (pd_httpStatus g) \<and> each_safe (safe_text 80) (pd_traceId g)
     \<and> each_safe (safe_text 40) (pd_rpcEndpoint g) \<and> list_all safe_endpoint (pd_rpcFailover g)
     \<and> each_safe hash_text (pd_savedHash g) \<and> (pf_fundingTxHash f \<noteq> None \<longrightarrow> pd_savedHash g = None)
     \<and> each_safe (\<lambda>n. 0 \<le> n \<and> n < 2 ^ 53) (pd_nonce g)"

definition well_formed_failure :: "public_failure \<Rightarrow> bool" where
  "well_formed_failure f \<longleftrightarrow> code_text (pf_errorCode f) \<and> \<not> (pf_requiresReview f \<and> pf_retryable f)
     \<and> each_safe hash_text (pf_txHash f) \<and> each_safe hash_text (pf_fundingTxHash f)
     \<and> each_safe (safe_diagnostic f) (pf_diagnostic f)"

lemma fixed_codes:
  "code_of_text t s = Some c \<Longrightarrow> code_text c" "code_text (code_of_stage s out review)"
proof -
  have k: "code_text ''TOKEN_OPERATION_INTENT_MISMATCH''" "code_text ''MANAGED_WALLET_ALLOWANCE_UNAVAILABLE''"
    "code_text ''SETTLEMENT_CONTEXT_RESERVATION_MISMATCH''" "code_text ''RESERVATION_CONTEXT_MISMATCH''"
    "code_text ''RPC_SUBMISSION_UNAVAILABLE''" "code_text ''RPC_READ_UNAVAILABLE''" "code_text ''CHAIN_OUTCOME_UNKNOWN''"
    "code_text ''TRANSACTION_CONFIRMATION_PENDING''" "code_text ''PROJECTION_PENDING''" "code_text ''OPERATION_REVIEW_REQUIRED''"
    "code_text ''APPROVAL_FAILED''" "code_text ''OPERATION_FAILED''" by code_simp+
  show "code_of_text t s = Some c \<Longrightarrow> code_text c" using k by (auto simp: code_of_text_def Let_def split: if_splits)
  show "code_text (code_of_stage s out review)" using k by (cases s) (auto simp: code_of_stage_def)
qed

lemma first_of_Some: "first_of f xs = Some y \<Longrightarrow> \<exists>x \<in> set xs. f x = Some y"
  by (induction xs) (auto split: option.splits)

lemma inferred_code_safe: "code_text (inferPublicErrorCode record e s out review)"
proof -
  have "code_text t" if "explicit_code record = Some t" for t
    using first_of_Some [OF that [unfolded explicit_code_def]] error_code_safe by (auto split: option.splits if_splits)
  then show ?thesis
    using fixed_codes error_code_safe by (auto simp: inferPublicErrorCode_def split: option.splits)
qed

lemma primary_hash_text: "primary_hash record fb = Some h \<Longrightarrow> hash_text h"
  unfolding primary_hash_def Let_def by (drule first_of_Some) (auto dest!: sym [of "Some h"] canonical_hash_text split: if_splits)

lemma funding_hash_text: "funding_hash_of record = Some h \<Longrightarrow> hash_text h"
  by (simp add: funding_hash_of_def Let_def canonical_hash_text)

lemma diagnostic_safe:
  assumes "safeFailureDiagnostic ob code stage review retry = Some g"
  shows "each_safe (safe_text 80) (pd_rpcMethod g)" "each_safe safe_rpc_code (pd_rpcCode g)"
    "each_safe (\<lambda>n. 100 \<le> n \<and> n \<le> 599) (pd_httpStatus g)" "each_safe (safe_text 80) (pd_traceId g)"
    "each_safe (safe_text 40) (pd_rpcEndpoint g)" "list_all safe_endpoint (pd_rpcFailover g)" "each_safe hash_text (pd_savedHash g)"
    "funding_hash_of ob \<noteq> None \<Longrightarrow> pd_savedHash g = None" "each_safe (\<lambda>n. 0 \<le> n \<and> n < 2 ^ 53) (pd_nonce g)"
    "pd_retryable g = (\<not> review \<and> retry)" "code_text code \<Longrightarrow> code_text (pd_errorCode g)"
proof -
  define look where "look = at_key (source_of ob)"
  from assms have g: "pd_rpcMethod g = safeDiagnosticText 80 (look ''rpcMethod'')"
    "pd_rpcCode g = truthy_code (safeRpcCode (nullish_or (look ''rpcCode'') (look ''providerCode'')))"
    "pd_httpStatus g = safe_status (look ''httpStatus'')"
    "pd_traceId g = safeDiagnosticText 80 (nullish_or (look ''traceId'') (look ''requestId''))"
    "pd_rpcEndpoint g = safeRpcEndpointLabel (nullish_or (look ''rpcEndpoint'') (look ''endpointLabel''))"
    "pd_rpcFailover g = safeRpcFailoverEvidence (nullish_or (look ''rpcFailover'') (look ''failover''))"
    "pd_savedHash g = (if funding_hash_of ob \<noteq> None then None else canonicalTxHash (look ''savedHash''))"
    "pd_nonce g = safe_nonce (look ''nonce'')" "pd_retryable g = (if review then False else retry)"
    "pd_errorCode g = (case safeErrorCode (look ''errorCode'') of None \<Rightarrow> code | Some t \<Rightarrow> t)"
    unfolding look_def safeFailureDiagnostic_def Let_def by (auto split: if_splits)
  show "each_safe (safe_text 80) (pd_rpcMethod g)" "each_safe (safe_text 80) (pd_traceId g)"
    "each_safe safe_rpc_code (pd_rpcCode g)" "each_safe (\<lambda>n. 100 \<le> n \<and> n \<le> 599) (pd_httpStatus g)"
    "each_safe (safe_text 40) (pd_rpcEndpoint g)" "each_safe (\<lambda>n. 0 \<le> n \<and> n < 2 ^ 53) (pd_nonce g)"
    "each_safe hash_text (pd_savedHash g)"
    unfolding g by (rule each_safeI, auto dest: texts_safe truthy_code_safe status_safe label_safe nonce_safe canonical_hash_text split: if_splits)+
  show "list_all safe_endpoint (pd_rpcFailover g)" unfolding g by (rule failover_safe)
  show "funding_hash_of ob \<noteq> None \<Longrightarrow> pd_savedHash g = None" "pd_retryable g = (\<not> review \<and> retry)" by (simp_all add: g)
  show "code_text code \<Longrightarrow> code_text (pd_errorCode g)" using error_code_safe by (auto simp: g split: option.splits)
qed

text \<open>
  The operation key is passed on as it is given, by the record or else by the caller; it is not a text of the
  diagnostic and nothing bounds it.
\<close>

definition failure_record :: "rejection \<Rightarrow> js_object option" where
  "failure_record input = asUnknownRecord (error_fields input)"

definition given_key :: "js_object option \<Rightarrow> failure_fallback \<Rightarrow> string option" where
  "given_key record fb = (case at_key record ''operationKey'' of
     JStr s \<Rightarrow> Some s | JUndef \<Rightarrow> fb_operationKey fb | JNull \<Rightarrow> fb_operationKey fb | _ \<Rightarrow> None)"

lemma operation_key_given: "operation_key_of record fb = given_key record fb"
  by (auto simp: operation_key_of_def given_key_def nullish_or_def is_nullish_def fallback_text_def split: jsv.splits option.splits)

text \<open>No field that stands for the hash of the movement holds a transaction hash.\<close>

definition names_no_movement :: "js_object option \<Rightarrow> failure_fallback \<Rightarrow> bool" where
  "names_no_movement record fb \<longleftrightarrow>
     list_all (\<lambda>k. canonicalTxHash (at_key record k) = None)
       [''primaryTxHash'', ''primary_tx_hash'', ''txHash'', ''transactionHash'', ''tx_hash'']
     \<and> list_all (\<lambda>k. canonicalTxHash (at_key (source_of record) k) = None) [''primaryTxHash'', ''primary_tx_hash'']
     \<and> canonicalTxHash (fallback_text (fb_txHash fb)) = None"

lemma coalesced_unnamed: "list_all (\<lambda>v. canonicalTxHash v = None) vs \<Longrightarrow> canonicalTxHash (coalesce vs) = None"
  unfolding coalesce_def by (induction vs) (auto simp: nullish_or_def canonicalTxHash_def)

lemma unnamed_movement: "names_no_movement record fb \<Longrightarrow> funding_hash_of record \<noteq> None \<Longrightarrow> primary_hash record fb = None"
  by (simp add: names_no_movement_def primary_hash_def Let_def coalesced_unnamed)

text \<open>
  C35: what clients are shown is well formed whatever a service throws or returns: the code is a bounded
  upper-case name, hashes are canonical, every text of the diagnostic is bounded and over a safe alphabet, so no
  address of an endpoint passes, the diagnostic repeats stage, code and retry decision, and what needs review is
  never retryable. The operation key is the one exception, it is passed on as given. A saved hash is never
  shown as the hash of the movement where the record names a funding hash and no hash of the movement.
\<close>

theorem public_failures_are_well_formed:
  "well_formed_failure (publicFailureFields input fb)
    \<and> pf_operationKey (publicFailureFields input fb) = given_key (failure_record input) fb
    \<and> (pf_fundingTxHash (publicFailureFields input fb) \<noteq> None \<and> names_no_movement (failure_record input) fb
        \<longrightarrow> pf_txHash (publicFailureFields input fb) = None)"
proof -
  define ob where "ob = asUnknownRecord (error_fields input)"
  define f where "f = publicFailureFields input fb"
  define stage where "stage = failure_stage ob fb"
  define review where "review = failure_review (error_of input ob fb) ob fb"
  define code where "code = inferPublicErrorCode ob (error_of input ob fb) stage (failure_outcome ob fb) review"
  define retry where "retry = (if review then False else retry_candidate ob fb review)"
  note defs = f_def publicFailureFields_def Let_def ob_def stage_def review_def code_def retry_def
  have f: "pf_retryable f = retry" "pf_requiresReview f = review" "pf_txHash f = primary_hash ob fb"
      "pf_fundingTxHash f = funding_hash_of ob" "pf_diagnostic f = safeFailureDiagnostic ob code stage review retry"
      "pf_errorCode f = (case pf_diagnostic f of Some g \<Rightarrow> pd_errorCode g | None \<Rightarrow> code)"
      "pf_stage f = (case pf_diagnostic f of Some g \<Rightarrow> pd_stage g | None \<Rightarrow> stage)"
    by (simp_all only: defs public_failure.simps)
  have r: "\<not> (review \<and> retry)" "code_text code" by (simp_all add: retry_def code_def inferred_code_safe)
  have g: "safe_diagnostic f g" "code_text (pd_errorCode g)" if "pf_diagnostic f = Some g" for g
    using diagnostic_safe [OF that [unfolded f(5)]] that r f(1,4,6,7) by (auto simp: safe_diagnostic_def)
  have "well_formed_failure f" unfolding well_formed_failure_def
    using f(1-4,6) g r by (cases "pf_diagnostic f") (auto intro!: each_safeI dest: primary_hash_text funding_hash_text)
  moreover have "pf_operationKey f = given_key ob fb" by (simp only: defs public_failure.simps operation_key_given)
  ultimately show ?thesis
    using unnamed_movement [of ob fb] f(3,4) unfolding f_def [symmetric] failure_record_def ob_def [symmetric] by simp
qed

text \<open>A failed gas funding whose hash arrives as the saved hash of the diagnostic.\<close>

definition funding_failure :: jsv where
  "funding_failure = JObj [(''fundingTxHash'', JStr (''0x'' @ replicate 64 CHR ''a'')), (''operationKey'', JStr ''k''),
     (''diagnostic'', JObj [(''savedHash'', JStr (''0x'' @ replicate 64 CHR ''a''))])]"

theorem public_failures_are_well_formed_witness:
  "pf_fundingTxHash (publicFailureFields (Rejected_Value funding_failure) (plain_fallback PS_PREPARE)) = Some (''0x'' @ replicate 64 CHR ''a'')
    \<and> pf_txHash (publicFailureFields (Rejected_Value funding_failure) (plain_fallback PS_PREPARE)) = None
    \<and> pf_operationKey (publicFailureFields (Rejected_Value funding_failure) (plain_fallback PS_PREPARE)) = Some ''k''"
proof -
  have f: "pf_fundingTxHash (publicFailureFields (Rejected_Value funding_failure) (plain_fallback PS_PREPARE))
      = Some (''0x'' @ replicate 64 CHR ''a'')" by code_simp
  have n: "names_no_movement (failure_record (Rejected_Value funding_failure)) (plain_fallback PS_PREPARE)"
    "given_key (failure_record (Rejected_Value funding_failure)) (plain_fallback PS_PREPARE) = Some ''k''" by code_simp+
  show ?thesis
    using public_failures_are_well_formed [of "Rejected_Value funding_failure" "plain_fallback PS_PREPARE"] f n by simp
qed

end
