(* ===== verification/ManagedApproval.thy ===== *)
theory ManagedApproval
  imports ManagedMoves Approvals
begin

text \<open>
  \<open>approveUserForSpendingViaFunding\<close> of \<open>src/database/integration.ts\<close>: the treasury funds gas of a managed wallet,
  then the wallet approves the treasury; every step is durable in the preparation row. The function is
  split where the code changes the database: an unknown preparation is proved read-only, a funded one may
  need a top-up, funding is sent under its attempt key, and the approval is sent after its claim. A run
  gives the database, what the treasury sent, the data of what the wallet sent, and its result. The lock
  that serialises the preparations of one process is not modelled: a run is one critical section.
\<close>

subsection \<open>Surroundings and failures\<close>

datatype approval_save =
    Save_Preparation | Save_Recovered | Read_Preparation | Save_Top_Up | Save_Funding | Save_Funding_Preflight
  | Save_Funding_Unknown | Save_Funded | Save_Submission | Save_Approval_Hash | Save_Approval_Unknown | Save_Approved

record approval_env =
  va_managed :: managed_env
  va_native_balance :: "string \<Rightarrow> rejection + int"
  va_estimate_gas :: "string \<Rightarrow> string \<Rightarrow> string \<Rightarrow> rejection + int"
  va_fees :: "rejection + fee_data"
  va_latest_nonce :: "string \<Rightarrow> rejection + nat"
  va_pending_nonce :: "string \<Rightarrow> rejection + nat"
  va_saved :: "approval_save \<Rightarrow> bool"

datatype approval_stage = FUNDING_STAGE | APPROVAL_STAGE | PREPARATION_STAGE

record approval_failure =
  vf_message :: string
  vf_stage :: approval_stage
  vf_key :: string
  vf_txHash :: "string option"
  vf_fundingTxHash :: "string option"
  vf_cause :: "string option"
  vf_diagnostic :: "diagnostic option"
  vf_unsaved :: bool
  vf_outcome :: "movement_outcome option"
  vf_pending :: bool
  vf_requiresReview :: bool
  vf_retryable :: bool
  vf_preflight :: bool

datatype approval_error = Approval_Failure approval_failure | Approval_Asset token_error | Approval_Thrown rejection

text \<open>\<open>approvalRecoveryError\<close> with its default options: pending, for review, not retryable.\<close>

definition approvalRecoveryError :: "approval_stage \<Rightarrow> string \<Rightarrow> string \<Rightarrow> approval_failure" where
  "approvalRecoveryError stage k message =
     \<lparr>vf_message = message, vf_stage = stage, vf_key = k, vf_txHash = None, vf_fundingTxHash = None, vf_cause = None,
      vf_diagnostic = None, vf_unsaved = False, vf_outcome = None, vf_pending = True, vf_requiresReview = True,
      vf_retryable = False, vf_preflight = False\<rparr>"

definition approval_clock :: "approval_env \<Rightarrow> int" where
  "approval_clock env = managed_clock (va_managed env)"

definition db_text :: "approval_env \<Rightarrow> db_error \<Rightarrow> string" where
  "db_text env e = ae_message (mg_base (va_managed env)) e"

definition thrown_db :: "approval_env \<Rightarrow> db_error \<Rightarrow> approval_error" where
  "thrown_db env e = Approval_Thrown (plain_error (db_text env e))"

definition approval_saving :: "approval_env \<Rightarrow> approval_save \<Rightarrow> db_error + 'a \<Rightarrow> db_error + 'a" where
  "approval_saving env p r = (if va_saved env p then r else Inl (CALLBACK_FAILED (Other_Error ''connection'')))"

text \<open>A mark whose failure only sets \<open>durableStateWriteFailed\<close>.\<close>

definition try_mark :: "db_error + ('a \<times> db) \<Rightarrow> db \<Rightarrow> db \<times> bool" where
  "try_mark r d = (case r of Inl _ \<Rightarrow> (d, True) | Inr (_, d') \<Rightarrow> (d', False))"

fun approval_status_text :: "approval_status \<Rightarrow> string" where
  "approval_status_text AP_FUNDING = ''funding''"
| "approval_status_text AP_FUNDED = ''funded''"
| "approval_status_text AP_APPROVING = ''approving''"
| "approval_status_text AP_APPROVED = ''approved''"
| "approval_status_text AP_UNKNOWN = ''unknown''"
| "approval_status_text AP_FAILED = ''failed''"

text \<open>What a retained row shows: the approval hash, or else the funding hash.\<close>

definition with_hashes :: "approval_row \<Rightarrow> approval_failure \<Rightarrow> approval_failure" where
  "with_hashes r f =
     (case nonempty (ap_approval_hash r) of
        Some h \<Rightarrow> f\<lparr>vf_txHash := Some h\<rparr>
      | None \<Rightarrow> f\<lparr>vf_fundingTxHash := nonempty (ap_funding_hash r)\<rparr>)"

subsection \<open>Gas\<close>

definition MAX_UINT256 :: int where
  "MAX_UINT256 = 2 ^ 256 - 1"

definition estimateManagedApprovalGasTarget :: "approval_env \<Rightarrow> string \<Rightarrow> string \<Rightarrow> string \<Rightarrow> rejection + int" where
  "estimateManagedApprovalGasTarget env wallet contract treasury =
     rbind (va_estimate_gas env wallet contract (mg_encode_approve (va_managed env) treasury MAX_UINT256)) (\<lambda>gas.
     rbind (va_fees env) (\<lambda>fees.
     case (case fe_maxFeePerGas fees of None \<Rightarrow> fe_gasPrice fees | Some m \<Rightarrow> Some m) of
       None \<Rightarrow> Inl (plain_error ''APPROVAL_GAS_ESTIMATE_UNAVAILABLE: chain did not return a usable gas estimate and fee quote'')
     | Some fee \<Rightarrow>
         if fee = 0 \<or> gas \<le> 0
         then Inl (plain_error ''APPROVAL_GAS_ESTIMATE_UNAVAILABLE: chain did not return a usable gas estimate and fee quote'')
         else Inr (gas * 2 * int fee)))"

text \<open>What is missing for the approval's gas; nothing when the balance is enough.\<close>

definition missing_gas :: "approval_env \<Rightarrow> string \<Rightarrow> string \<Rightarrow> string \<Rightarrow> rejection + int option" where
  "missing_gas env wallet contract treasury =
     rbind (va_native_balance env wallet) (\<lambda>balance.
     rbind (estimateManagedApprovalGasTarget env wallet contract treasury) (\<lambda>target.
     Inr (if balance < target then Some (target - balance) else None)))"

subsection \<open>Unknown preparations\<close>

text \<open>\<open>Inl\<close> gives the reason why it is not proved that only the funding was ever sent.\<close>

definition proveUnknownFundingOnlyPreparation :: "approval_env \<Rightarrow> approval_row \<Rightarrow> string \<Rightarrow> string \<Rightarrow> string + unit" where
  "proveUnknownFundingOnlyPreparation env r wallet signer =
     (let unavailable = (\<lambda>e. ''read-only recovery proof unavailable: '' @ thrown_text e);
          read = (\<lambda>x. map_sum unavailable id x) in
      case (nonempty (ap_funding_hash r), nonempty (ap_approval_hash r)) of
        (Some h, None) \<Rightarrow>
          rbind (map_sum unavailable id (mg_receipt (va_managed env) h)) (\<lambda>receipt.
          rbind (map_sum unavailable id (mg_transaction (va_managed env) h)) (\<lambda>transaction.
          rbind (read (va_latest_nonce env wallet)) (\<lambda>latest.
          rbind (read (va_pending_nonce env wallet)) (\<lambda>pending.
          rbind (guard (case (receipt, transaction) of
              (Some x, Some t) \<Rightarrow> status_number (nr_status x) = 1 \<and> same_column (nr_to x) wallet \<and> same_column (nr_from x) signer
                \<and> js_lower (js_trim (nx_hash t)) = js_lower (js_trim h)
                \<and> same_column (nx_to t) wallet \<and> same_column (nx_from t) signer \<and> 0 < nx_value t
            | _ \<Rightarrow> False) ''funding transaction receipt or sender/recipient proof did not match'') (\<lambda>_.
          guard (latest = 0 \<and> pending = 0)
            ''managed wallet nonce is no longer zero; an approval or other wallet transaction may have broadcast'')))))
      | _ \<Rightarrow> Inl ''funding hash is missing or an approval hash is already present'')"

type_synonym 'a approval_part = "db \<times> (approval_error + 'a)"

definition resume_unknown :: "approval_env \<Rightarrow> string \<Rightarrow> string \<Rightarrow> string \<Rightarrow> approval_row \<Rightarrow> db \<Rightarrow> approval_row approval_part" where
  "resume_unknown env k wallet signer r d =
     (case proveUnknownFundingOnlyPreparation env r wallet signer of
        Inl reason \<Rightarrow> (d, Inl (Approval_Failure ((with_hashes r (approvalRecoveryError PREPARATION_STAGE k
          (''Approval preparation remains unresolved; operator review is required before another approval submission ('' @ reason @ '')'')))
            \<lparr>vf_cause := Some reason\<rparr>)))
      | Inr _ \<Rightarrow>
          if \<not> va_saved env Save_Recovered then (d, Inl (thrown_db env (CALLBACK_FAILED (Other_Error ''connection''))))
          else (case recoverFundedAfterReadOnlyProof (approval_clock env) k d of
              (Some recovered, d') \<Rightarrow> (d', Inr recovered)
            | (None, d') \<Rightarrow>
                (d', if \<not> va_saved env Read_Preparation then Inl (thrown_db env (CALLBACK_FAILED (Other_Error ''connection'')))
                 else (case find_approval d' k of
                     Some current \<Rightarrow> if ap_status current = AP_FUNDED then Inr current
                       else Inl (Approval_Failure ((approvalRecoveryError PREPARATION_STAGE k
                         ''Read-only approval recovery proof passed, but the durable preparation state could not be advanced safely'')
                           \<lparr>vf_fundingTxHash := nonempty (ap_funding_hash r)\<rparr>))
                   | None \<Rightarrow> Inl (Approval_Failure ((approvalRecoveryError PREPARATION_STAGE k
                         ''Read-only approval recovery proof passed, but the durable preparation state could not be advanced safely'')
                           \<lparr>vf_fundingTxHash := nonempty (ap_funding_hash r)\<rparr>))))))"

subsection \<open>Funding\<close>

record approval_plan =
  vp_key :: string
  vp_wallet :: string
  vp_contract :: string
  vp_treasury :: string
  vp_topup :: string

text \<open>The durable attempt a preparation is in: its key and its amount.\<close>

record funding_attempt =
  fa_row :: approval_row
  fa_key :: "string option"
  fa_value :: "string option"

definition attempt_of :: "approval_row \<Rightarrow> funding_attempt" where
  "attempt_of r = \<lparr>fa_row = r, fa_key = nonempty (ap_attempt_key r), fa_value = nonempty (ap_attempt_value r)\<rparr>"

definition thrown_read :: "rejection + 'a \<Rightarrow> approval_error + 'a" where
  "thrown_read r = map_sum Approval_Thrown id r"

text \<open>A funded preparation that is below the measured target goes back to funding before anything is sent.\<close>

definition top_up_funding :: "approval_env \<Rightarrow> approval_plan \<Rightarrow> approval_row \<Rightarrow> db \<Rightarrow> funding_attempt approval_part" where
  "top_up_funding env p r d =
     (if ap_status r \<noteq> AP_FUNDED then (d, Inr (attempt_of r))
      else case missing_gas env (vp_wallet p) (vp_contract p) (vp_treasury p) of
        Inl e \<Rightarrow> (d, Inl (Approval_Thrown e))
      | Inr None \<Rightarrow> (d, Inr (attempt_of r))
      | Inr (Some missing) \<Rightarrow>
          (let value = bigint_string missing; key = vp_key p @ '':topup:'' @ vp_topup p in
           case approval_saving env Save_Top_Up (claimFundingTopUp (approval_clock env) (vp_key p) key value d) of
             Inl e \<Rightarrow> (d, Inl (thrown_db env e))
           | Inr (c, d') \<Rightarrow>
               if \<not> apc_acquired c
               then (d', Inl (Approval_Failure ((approvalRecoveryError FUNDING_STAGE (vp_key p)
                 (''Managed-wallet approval gas is below the measured target, but another process owns the durable top-up attempt (''
                   @ approval_status_text (ap_status (apc_record c)) @ '')''))
                   \<lparr>vf_fundingTxHash := (case nonempty (ap_funding_hash (apc_record c)) of
                      Some h \<Rightarrow> Some h | None \<Rightarrow> nonempty (ap_funding_hash r))\<rparr>)))
               else (let f = attempt_of (apc_record c) in
                 (d', Inr (f\<lparr>fa_key := (case fa_key f of None \<Rightarrow> Some key | Some x \<Rightarrow> Some x),
                     fa_value := (case fa_value f of None \<Rightarrow> Some value | Some x \<Rightarrow> Some x)\<rparr>)))))"

definition bad_amount :: "approval_plan \<Rightarrow> string \<Rightarrow> approval_error" where
  "bad_amount p what = Approval_Failure ((approvalRecoveryError FUNDING_STAGE (vp_key p)
     (''Managed-wallet approval funding attempt has '' @ what @ '' durable amount; operator review is required''))
       \<lparr>vf_cause := Some ''invalid funding_attempt_value''\<rparr>)"

text \<open>The amount to send, nothing when the wallet has enough.\<close>

definition funding_amount :: "approval_env \<Rightarrow> approval_plan \<Rightarrow> funding_attempt \<Rightarrow> approval_error + int option" where
  "funding_amount env p f =
     (case fa_value f of
        Some v \<Rightarrow>
          rbind (of_option (bad_amount p ''an invalid'') (bigint_text v)) (\<lambda>amount.
          rbind (guard (0 < amount) (bad_amount p ''a non-positive'')) (\<lambda>_. Inr (Some amount)))
      | None \<Rightarrow> thrown_read (missing_gas env (vp_wallet p) (vp_contract p) (vp_treasury p)))"

definition funding_key :: "approval_plan \<Rightarrow> funding_attempt \<Rightarrow> int \<Rightarrow> string" where
  "funding_key p f amount =
     (case fa_key f of Some k \<Rightarrow> k | None \<Rightarrow> vp_key p @ '':funding:'' @ bigint_string amount)"

text \<open>A failure of the funding before anything was sent.\<close>

definition funding_preflight_failed :: "approval_env \<Rightarrow> approval_plan \<Rightarrow> diagnostic \<Rightarrow> db \<Rightarrow> db \<times> approval_failure" where
  "funding_preflight_failed env p g d =
     (case try_mark (approval_saving env Save_Funding_Preflight
          (Inr (markFundingPreflightFailed (approval_clock env) (vp_key p) (dg_errorCode g) (Some (Some g)) d))) d of
        (d', unsaved) \<Rightarrow>
          (d', (approvalRecoveryError FUNDING_STAGE (vp_key p)
              (''Funding preparation failed before broadcast; no movement was attempted: '' @ dg_errorCode g))
            \<lparr>vf_unsaved := unsaved, vf_cause := Some (dg_errorCode g), vf_outcome := Some OUT_NO_MOVEMENT,
             vf_diagnostic := Some g, vf_pending := dg_retryable g, vf_requiresReview := False,
             vf_retryable := dg_retryable g, vf_preflight := True\<rparr>))"

text \<open>A failure after which the funding may be on its way.\<close>

definition funding_unknown ::
    "approval_env \<Rightarrow> approval_plan \<Rightarrow> string \<Rightarrow> string \<Rightarrow> string \<Rightarrow> string option \<Rightarrow> bool \<Rightarrow> diagnostic option \<Rightarrow> db \<Rightarrow> db \<times> approval_failure" where
  "funding_unknown env p key what cause saved clear g d =
     (case try_mark (approval_saving env Save_Funding_Unknown (markApprovalUnknown (approval_clock env) (vp_key p)
          (''funding '' @ what @ '': '' @ cause)
          \<lparr>uo_fundingTxHash = saved, uo_attemptKey = Some key, uo_clear = clear, uo_diagnostic = map_option Some g\<rparr> d)) d of
        (d', unsaved) \<Rightarrow>
          (d', (approvalRecoveryError FUNDING_STAGE (vp_key p)
              ((if what = ''submission requires review'' then ''Funding submission outcome is unknown and requires operator review: ''
                else ''Funding confirmation outcome is unknown and requires operator review: '') @ cause))
            \<lparr>vf_fundingTxHash := saved, vf_diagnostic := g, vf_unsaved := unsaved, vf_cause := Some cause\<rparr>))"

definition funding_request :: "approval_plan \<Rightarrow> approval_row \<Rightarrow> string \<Rightarrow> int \<Rightarrow> treasury_request" where
  "funding_request p r key amount = \<lparr>rq_operationKey = key, rq_targetOperationKey = Some (vp_key p),
     rq_targetType = TARGET_FUNDING, rq_chainId = ap_chain r, rq_to = vp_wallet p, rq_data = None,
     rq_value = Some (bigint_string amount), rq_accessList = None\<rparr>"

text \<open>The \<open>try\<close> around the send: the broadcast, the reconciliation of an earlier one, the saved hash.\<close>

definition submit_funding ::
    "approval_env \<Rightarrow> approval_plan \<Rightarrow> approval_row \<Rightarrow> string \<Rightarrow> int \<Rightarrow> db
     \<Rightarrow> db \<times> string list \<times> reliability_result option \<times> (string \<times> diagnostic option + unit)" where
  "submit_funding env p r key amount d =
     (case prepareAndBroadcastTransaction (ae_chain (mg_base (va_managed env))) (approval_clock env) (funding_request p r key amount) d of
        (d1, sent, Inl g) \<Rightarrow> (d1, sent, None, Inl (dg_errorCode g, Some g))
      | (d1, sent, Inr tx) \<Rightarrow>
          (case (if rr_alreadyPrepared tx then reconcileOriginalNativeTransfer (va_managed env) tx ''Managed-wallet approval gas funding''
                 else Inr ()) of
             Inl e \<Rightarrow> (d1, sent, Some tx, Inl (thrown_text e, None))
           | Inr _ \<Rightarrow>
               (case approval_saving env Save_Funding (markFundingSubmitted (approval_clock env) (vp_key p) (rr_txHash tx)
                   \<lparr>fo_nonce = Some (tc_nonce (rr_context tx)), fo_context = Some (rr_context tx), fo_diagnostic = None,
                    fo_attemptKey = Some key\<rparr> d1) of
                  Inl e \<Rightarrow> (d1, sent, Some tx, Inl (db_text env e, None))
                | Inr (_, d2) \<Rightarrow> (d2, sent, Some tx, Inr ()))))"

definition funding_confirmed :: "approval_env \<Rightarrow> string \<Rightarrow> rejection + unit" where
  "funding_confirmed env h =
     (case mg_wait (va_managed env) h of
        Inl e \<Rightarrow> Inl e
      | Inr s \<Rightarrow> guard (s = Some (Some 1)) (plain_error (''Gas funding transaction was not confirmed successfully: '' @ h)))"

definition send_funding ::
    "approval_env \<Rightarrow> approval_plan \<Rightarrow> approval_row \<Rightarrow> string \<Rightarrow> int \<Rightarrow> db \<Rightarrow> db \<times> string list \<times> (approval_error + unit)" where
  "send_funding env p r key amount d =
     (case submit_funding env p r key amount d of
        (d1, sent, tx, Inl (cause, g)) \<Rightarrow>
          (if isPreBroadcastTransactionDiagnostic g
           then (case funding_preflight_failed env p (the g) d1 of (d2, f) \<Rightarrow> (d2, sent, Inl (Approval_Failure f)))
           else (let saved = (case Option.bind g (\<lambda>x. nonempty (dg_savedHash x)) of
                      Some h \<Rightarrow> Some h
                    | None \<Rightarrow> (case tx of Some t \<Rightarrow> Some (rr_txHash t) | None \<Rightarrow> nonempty (ap_funding_hash r))) in
             case funding_unknown env p key ''submission requires review'' cause saved (saved = None) g d1 of
               (d2, f) \<Rightarrow> (d2, sent, Inl (Approval_Failure f))))
      | (d1, sent, None, Inr _) \<Rightarrow> (d1, sent, Inr ())
      | (d1, sent, Some tx, Inr _) \<Rightarrow>
          (if rr_alreadyPrepared tx then (d1, sent, Inr ())
           else case funding_confirmed env (rr_txHash tx) of
             Inr _ \<Rightarrow> (d1, sent, Inr ())
           | Inl e \<Rightarrow>
               (let g = createTransactionDiagnostic RECEIPT ''RECEIPT_READ_UNAVAILABLE'' (isTransientRpcReadError e)
                      (Some CONFIRMATION_PENDING) (Some (rr_txHash tx)) (Some (tc_nonce (rr_context tx))) in
                case funding_unknown env p key ''confirmation outcome is unknown'' (thrown_text e) (Some (rr_txHash tx)) False (Some g) d1 of
                  (d2, f) \<Rightarrow> (d2, sent, Inl (Approval_Failure f)))))"

text \<open>The whole funding block: skipped unless the preparation is in funding.\<close>

definition fund_wallet :: "approval_env \<Rightarrow> approval_plan \<Rightarrow> funding_attempt \<Rightarrow> db \<Rightarrow> db \<times> string list \<times> (approval_error + unit)" where
  "fund_wallet env p f d =
     (if ap_status (fa_row f) \<noteq> AP_FUNDING then (d, [], Inr ())
      else case funding_amount env p f of
        Inl e \<Rightarrow> (d, [], Inl e)
      | Inr amount \<Rightarrow>
          (case (case amount of
                None \<Rightarrow> (d, [], Inr ())
              | Some n \<Rightarrow> if 0 < n then send_funding env p (fa_row f) (funding_key p f n) n d else (d, [], Inr ())) of
             (d1, sent, Inl e) \<Rightarrow> (d1, sent, Inl e)
           | (d1, sent, Inr _) \<Rightarrow>
               if va_saved env Save_Funded then (snd (markFunded (approval_clock env) (vp_key p) d1), sent, Inr ())
               else (let m = db_text env (CALLBACK_FAILED (Other_Error ''connection'')) in
                 (d1, sent, Inl (Approval_Failure ((approvalRecoveryError FUNDING_STAGE (vp_key p)
                   (''Funding is confirmed but its durable preparation state could not be saved: '' @ m))
                     \<lparr>vf_fundingTxHash := nonempty (ap_funding_hash (fa_row f)), vf_cause := Some m\<rparr>))))))"

subsection \<open>The approval\<close>

type_synonym approval_run = "db \<times> string list \<times> string list \<times> (approval_error + unit)"

text \<open>A failure after the wallet may have sent its approval; \<open>h\<close> is the hash of the approval when it is known.\<close>

definition approval_unknown ::
    "approval_env \<Rightarrow> approval_plan \<Rightarrow> string \<Rightarrow> string \<Rightarrow> string option \<Rightarrow> diagnostic \<Rightarrow> db \<Rightarrow> db \<times> approval_failure" where
  "approval_unknown env p what cause h g d =
     (case try_mark (approval_saving env Save_Approval_Unknown (markApprovalUnknown (approval_clock env) (vp_key p)
          (''approval '' @ what @ '' outcome is unknown: '' @ cause)
          \<lparr>uo_fundingTxHash = None, uo_attemptKey = None, uo_clear = False, uo_diagnostic = Some (Some g)\<rparr> d)) d of
        (d', unsaved) \<Rightarrow>
          (d', (approvalRecoveryError APPROVAL_STAGE (vp_key p)
              (''Approval '' @ what @ '' outcome is unknown and requires operator review: '' @ cause))
            \<lparr>vf_txHash := h, vf_diagnostic := Some g, vf_unsaved := unsaved, vf_cause := Some cause\<rparr>))"

definition submission_diagnostic :: "string option \<Rightarrow> diagnostic" where
  "submission_diagnostic h =
     createTransactionDiagnostic BROADCAST ''APPROVAL_SUBMISSION_OUTCOME_UNKNOWN'' False (Some REVIEW_REQUIRED) h None"

definition approval_confirmed :: "approval_env \<Rightarrow> string \<Rightarrow> rejection + unit" where
  "approval_confirmed env h =
     (case mg_wallet_wait (va_managed env) h of
        Inl e \<Rightarrow> Inl e
      | Inr s \<Rightarrow> guard (s = Some (Some 1)) (plain_error (''Approval transaction was not confirmed successfully: '' @ h)))"

text \<open>After the right to submit is acquired: one send, its saved hash, its receipt, the final mark.\<close>

definition send_approval :: "approval_env \<Rightarrow> approval_plan \<Rightarrow> db \<Rightarrow> db \<times> string list \<times> (approval_error + unit)" where
  "send_approval env p d =
     (let data = mg_encode_approve (va_managed env) (vp_treasury p) MAX_UINT256;
          lost = (\<lambda>d what cause h g. case approval_unknown env p what cause h g d of (d', f) \<Rightarrow> (d', [data], Inl (Approval_Failure f))) in
      case mg_wallet_send (va_managed env) (vp_contract p) data of
        Inl e \<Rightarrow> lost d ''submission'' (thrown_text e) None (submission_diagnostic None)
      | Inr h \<Rightarrow>
          (case approval_saving env Save_Approval_Hash (markApprovalSubmitted (approval_clock env) (vp_key p) h d) of
             Inl e \<Rightarrow> lost d ''submission'' (db_text env e) (Some h) (submission_diagnostic (Some h))
           | Inr (_, d1) \<Rightarrow>
               (case approval_confirmed env h of
                  Inl e \<Rightarrow> lost d1 ''confirmation'' (thrown_text e) (Some h)
                    (createTransactionDiagnostic RECEIPT ''RECEIPT_READ_UNAVAILABLE'' (isTransientRpcReadError e)
                      (Some CONFIRMATION_PENDING) (Some h) None)
                | Inr _ \<Rightarrow>
                    if va_saved env Save_Approved
                    then (snd (markApproved (approval_clock env) (vp_key p) d1), [data], Inr ())
                    else (let m = db_text env (CALLBACK_FAILED (Other_Error ''connection'')) in
                      (d1, [data], Inl (Approval_Failure ((approvalRecoveryError APPROVAL_STAGE (vp_key p)
                        (''Approval is confirmed but its durable preparation state could not be saved: '' @ m))
                          \<lparr>vf_txHash := Some h, vf_cause := Some m\<rparr>)))))))"

text \<open>Exactly one caller gets the right to submit; the others report what is retained.\<close>

definition submit_approval :: "approval_env \<Rightarrow> approval_plan \<Rightarrow> db \<Rightarrow> db \<times> string list \<times> (approval_error + unit)" where
  "submit_approval env p d =
     (case approval_saving env Save_Submission (claimApprovalSubmission (approval_clock env) (vp_key p) d) of
        Inl e \<Rightarrow> (d, [], Inl (thrown_db env e))
      | Inr (c, d1) \<Rightarrow>
          if apc_acquired c then send_approval env p d1
          else (d1, [], Inl (Approval_Failure (with_hashes (apc_record c) (approvalRecoveryError APPROVAL_STAGE (vp_key p)
            (''Approval preparation is retained in '' @ approval_status_text (ap_status (apc_record c)) @ '' state for '' @ vp_key p
              @ ''; operator review is required before another submission''))))))"

subsection \<open>The whole preparation\<close>

text \<open>Whether a claimed or found preparation may go on.\<close>

definition admitted :: "approval_plan \<Rightarrow> bool \<Rightarrow> approval_row \<Rightarrow> approval_error + unit" where
  "admitted p acquired r =
     guard (acquired \<or> ap_status r = AP_FUNDED \<or> (ap_status r = AP_FUNDING \<and> given (ap_attempt_key r)))
       (Approval_Failure (with_hashes r (approvalRecoveryError PREPARATION_STAGE (vp_key p)
         (''Approval preparation is retained in '' @ approval_status_text (ap_status r) @ '' state for '' @ vp_key p
           @ (case nonempty (ap_error r) of None \<Rightarrow> [] | Some m \<Rightarrow> '' ('' @ m @ '')'')))))"

definition prepare_wallet :: "approval_env \<Rightarrow> approval_plan \<Rightarrow> bool \<Rightarrow> approval_row \<Rightarrow> db \<Rightarrow> approval_run" where
  "prepare_wallet env p acquired r d =
     (case admitted p acquired r of
        Inl e \<Rightarrow> (d, [], [], Inl e)
      | Inr _ \<Rightarrow>
          (case top_up_funding env p r d of
             (d1, Inl e) \<Rightarrow> (d1, [], [], Inl e)
           | (d1, Inr f) \<Rightarrow>
               (case fund_wallet env p f d1 of
                  (d2, sent, Inl e) \<Rightarrow> (d2, sent, [], Inl e)
                | (d2, sent, Inr _) \<Rightarrow>
                    (case submit_approval env p d2 of (d3, approvals, result) \<Rightarrow> (d3, sent, approvals, result)))))"

definition approval_asset :: "approval_env \<Rightarrow> string \<Rightarrow> token_error + asset_context" where
  "approval_asset env treasury =
     (let b = mg_base (va_managed env) in
      getTokenAssetContext (ae_token b) (if ch_provider (ae_chain b) then Some (ae_network b) else None) (ae_address b) (Some treasury))"

definition required_wei :: "js_number option \<Rightarrow> rejection + int" where
  "required_wei amount =
     (case amount of
        None \<Rightarrow> Inr 1
      | Some x \<Rightarrow> map_sum id (\<lambda>a. token_wei (units a))
          (of_option (plain_error ''UNSUPPORTED_TOKEN_PRECISION: approval amount must use at most 2 decimals'') (canonicalTokenAmount (JNum x))))"

definition approval_lock_key :: "string \<Rightarrow> asset_context \<Rightarrow> string \<Rightarrow> string" where
  "approval_lock_key wallet asset treasury =
     js_lower wallet @ '':'' @ tokenContractAddress asset @ '':'' @ ac_chainId asset @ '':'' @ js_lower treasury"

definition approval_plan_of :: "approval_env \<Rightarrow> string \<Rightarrow> string \<Rightarrow> string \<Rightarrow> asset_context \<Rightarrow> approval_plan" where
  "approval_plan_of env topup u treasury asset =
     (let wallet = managed_wallet (va_managed env) u in
      \<lparr>vp_key = ''approval:'' @ sha_of (mg_base (va_managed env)) (approval_lock_key wallet asset treasury),
       vp_wallet = wallet, vp_contract = tokenContractAddress asset, vp_treasury = treasury, vp_topup = topup\<rparr>)"

definition claimed_preparation :: "approval_env \<Rightarrow> approval_plan \<Rightarrow> asset_context \<Rightarrow> db \<Rightarrow> approval_run" where
  "claimed_preparation env p asset d =
     (case approval_saving env Save_Preparation (claimApproval (approval_clock env) \<lparr>apr_key = vp_key p, apr_wallet = vp_wallet p,
          apr_contract = vp_contract p, apr_chain = ac_chainId asset, apr_treasury = vp_treasury p\<rparr> d) of
        Inl e \<Rightarrow> (d, [], [], Inl (thrown_db env e))
      | Inr (c, d1) \<Rightarrow>
          if \<not> apc_acquired c \<and> ap_status (apc_record c) = AP_UNKNOWN
          then (case resume_unknown env (vp_key p) (vp_wallet p) (ac_signerAddress asset) (apc_record c) d1 of
              (d2, Inl e) \<Rightarrow> (d2, [], [], Inl e)
            | (d2, Inr r) \<Rightarrow> prepare_wallet env p False r d2)
          else prepare_wallet env p (apc_acquired c) (apc_record c) d1)"

text \<open>\<open>topup\<close> is the random part of the key of a new top-up.\<close>

definition approveUserForSpendingViaFunding ::
    "approval_env \<Rightarrow> string \<Rightarrow> string \<Rightarrow> string \<Rightarrow> js_number option \<Rightarrow> db \<Rightarrow> approval_run" where
  "approveUserForSpendingViaFunding env topup u treasury required d =
     (let stop = (\<lambda>e. (d, [], [], Inl e)) in
      if \<not> ch_provider (ae_chain (mg_base (va_managed env))) then stop (Approval_Thrown (plain_error ''Provider not available''))
      else case approval_asset env treasury of
        Inl e \<Rightarrow> stop (Approval_Asset e)
      | Inr asset \<Rightarrow>
          (let p = approval_plan_of env topup u treasury asset in
           case rbind (required_wei required) (\<lambda>needed.
               rbind (mg_allowance (va_managed env) (vp_contract p) (vp_wallet p) treasury) (\<lambda>allowance. Inr (needed \<le> allowance))) of
             Inl e \<Rightarrow> stop (Approval_Thrown e)
           | Inr True \<Rightarrow> (d, [], [], Inr ())
           | Inr False \<Rightarrow> claimed_preparation env p asset d))"

end
