(* ===== verification/AutoSpend.thy ===== *)
theory AutoSpend
  imports SpendFlow ManagedApproval PublicFailure
begin

text \<open>
  \<open>processSpendWithAutoApproval\<close> of \<open>src/api.ts\<close>: a spend that was refused for want of allowance or balance prepares
  the managed wallet and is tried once more under the same key. The two attempts and the preparation see
  surroundings of their own. A run gives the database, what the spends sent, what the treasury sent for
  gas, the data of what the wallet sent, and its result. Audit records of the callbacks are left out.
\<close>

record auto_env =
  au_first :: spend_env
  au_approval :: approval_env
  au_second :: spend_env
  au_topup :: string

record auto_request =
  sa_uid :: string
  sa_user :: string
  sa_amount :: js_number
  sa_session :: "string option"
  sa_provider :: "string option"
  sa_reservation :: "string option"
  sa_operationKey :: "string option"
  sa_idempotencyKey :: "string option"
  sa_settlement :: "(string \<times> js_number) option"

text \<open>The result of the spend, the funding hash of a failed preparation, and the error text that replaces its own.\<close>

record auto_result =
  ao_spend :: spend_result
  ao_fundingTxHash :: "string option"
  ao_approvalError :: "string option"

type_synonym auto_run = "db \<times> string list \<times> string list \<times> string list \<times> auto_result"

definition plain_result :: "spend_result \<Rightarrow> auto_result" where
  "plain_result x = \<lparr>ao_spend = x, ao_fundingTxHash = None, ao_approvalError = None\<rparr>"

definition isStableSpendKey :: "string \<Rightarrow> bool" where
  "isStableSpendKey k \<longleftrightarrow> js_trim k \<noteq> []"

definition auto_key :: "auto_env \<Rightarrow> auto_request \<Rightarrow> spend_problem + string" where
  "auto_key env q =
     rbind (guard (case sa_operationKey q of None \<Rightarrow> True | Some k \<Rightarrow> isStableSpendKey k) Operation_Key_Invalid) (\<lambda>_.
     rbind (guard (case sa_idempotencyKey q of None \<Rightarrow> True | Some k \<Rightarrow> isStableSpendKey k) Idempotency_Key_Invalid) (\<lambda>_.
     case (sa_operationKey q, sa_idempotencyKey q) of
       (Some k, _) \<Rightarrow> Inr k
     | (None, Some i) \<Rightarrow> Inr (spendOperationKey (sha_of (se_base (au_first env))) (sa_uid q) i)
     | (None, None) \<Rightarrow> Inl Idempotency_Key_Required))"

definition auto_spend_request :: "auto_request \<Rightarrow> string \<Rightarrow> spend_request" where
  "auto_spend_request q k =
     \<lparr>sq_user = sa_user q, sq_amount = sa_amount q, sq_session = sa_session q, sq_uid = Some (sa_uid q),
      sq_provider = sa_provider q, sq_operationKey = Some k, sq_idempotencyKey = sa_idempotencyKey q,
      sq_reservation = sa_reservation q, sq_settlement = sa_settlement q\<rparr>"

text \<open>
  Only a clear refusal of the allowance or balance goes on to the preparation. (The code leaves
  \<open>preflightApprovalEligible\<close> undefined only where a review is required as well.)
\<close>

definition eligible_for_approval :: "spend_result \<Rightarrow> bool" where
  "eligible_for_approval x \<longleftrightarrow> \<not> sx_success x \<and> \<not> sx_pending x \<and> \<not> sx_requiresReview x \<and> nonempty (sx_txHash x) = None
     \<and> sx_preflightFailure x \<and> sx_approvalEligible x"

subsection \<open>A failed preparation as a JavaScript error\<close>

fun stage_text :: "diagnostic_stage \<Rightarrow> string" where
  "stage_text ASSET_CONTEXT = ''asset_context''"
| "stage_text PREFLIGHT = ''preflight''"
| "stage_text PREPARE = ''prepare''"
| "stage_text PERSIST_HASH = ''persist_hash''"
| "stage_text BROADCAST = ''broadcast''"
| "stage_text RECEIPT = ''receipt''"

fun category_text :: "diagnostic_category \<Rightarrow> string" where
  "category_text RPC_UNAVAILABLE = ''rpc_unavailable''"
| "category_text CONFIRMATION_PENDING = ''confirmation_pending''"
| "category_text DATABASE_UNAVAILABLE = ''database_unavailable''"
| "category_text REVIEW_REQUIRED = ''review_required''"
| "category_text CATEGORY_PREFLIGHT = ''preflight''"

fun outcome_text :: "movement_outcome \<Rightarrow> string" where
  "outcome_text OUT_UNKNOWN = ''unknown''"
| "outcome_text OUT_CONFIRMED = ''confirmed''"
| "outcome_text OUT_NO_MOVEMENT = ''no_movement''"
| "outcome_text OUT_REVIEW = ''review''"

fun approval_stage_text :: "approval_stage \<Rightarrow> string" where
  "approval_stage_text FUNDING_STAGE = ''funding''"
| "approval_stage_text APPROVAL_STAGE = ''approval''"
| "approval_stage_text PREPARATION_STAGE = ''preparation''"

definition given_text :: "string \<Rightarrow> string option \<Rightarrow> js_object" where
  "given_text k x = (case x of None \<Rightarrow> [] | Some s \<Rightarrow> [(k, JStr s)])"

definition diagnostic_value :: "diagnostic \<Rightarrow> jsv" where
  "diagnostic_value g = JObj
     ([(''stage'', JStr (stage_text (dg_stage g)))] @ given_text ''category'' (map_option category_text (dg_category g))
      @ [(''errorCode'', JStr (dg_errorCode g)), (''retryable'', JBool (dg_retryable g))]
      @ given_text ''savedHash'' (dg_savedHash g)
      @ (case dg_nonce g of None \<Rightarrow> [] | Some n \<Rightarrow> [(''nonce'', JNum (Fin (of_nat n)))]))"

definition failure_value :: "approval_failure \<Rightarrow> js_object" where
  "failure_value f =
     [(''code'', JStr ''APPROVAL_PREPARATION_REVIEW_REQUIRED''), (''pending'', JBool (vf_pending f)),
      (''requiresReview'', JBool (vf_requiresReview f)), (''retryable'', JBool (vf_retryable f)),
      (''preflightFailure'', JBool (vf_preflight f)), (''stage'', JStr (approval_stage_text (vf_stage f))),
      (''operationKey'', JStr (vf_key f))]
     @ given_text ''txHash'' (vf_txHash f) @ given_text ''fundingTxHash'' (vf_fundingTxHash f)
     @ given_text ''cause'' (vf_cause f) @ given_text ''movementOutcome'' (map_option outcome_text (vf_outcome f))
     @ (case vf_diagnostic f of None \<Rightarrow> [] | Some g \<Rightarrow> [(''diagnostic'', diagnostic_value g)])"

definition token_error_text :: "token_error \<Rightarrow> string" where
  "token_error_text e =
     (case e of
        CHAIN_CONTEXT_UNAVAILABLE m \<Rightarrow> ''CHAIN_CONTEXT_UNAVAILABLE: '' @ m
      | CONFIGURED_CHAIN_MISMATCH c p \<Rightarrow> ''CONFIGURED_CHAIN_MISMATCH: configured chain '' @ c @ '' differs from provider chain '' @ p
      | SIGNER_ADDRESS_UNAVAILABLE m \<Rightarrow> ''SIGNER_ADDRESS_UNAVAILABLE: '' @ m
      | _ \<Rightarrow> [])"

definition approval_rejection :: "approval_error \<Rightarrow> rejection" where
  "approval_rejection e =
     (case e of
        Approval_Failure f \<Rightarrow> Rejected_Error (vf_message f) (failure_value f)
      | Approval_Asset a \<Rightarrow> Rejected_Error (token_error_text a) []
      | Approval_Thrown t \<Rightarrow> t)"

definition or_bool :: "jsv \<Rightarrow> bool \<Rightarrow> bool" where
  "or_bool v b = (case v of JBool x \<Rightarrow> x | _ \<Rightarrow> b)"

subsection \<open>The failed preparation in the result\<close>

definition approval_diagnostic :: "approval_error \<Rightarrow> diagnostic option" where
  "approval_diagnostic e = (case e of Approval_Failure f \<Rightarrow> vf_diagnostic f | _ \<Rightarrow> None)"

definition approval_public :: "approval_error \<Rightarrow> public_failure" where
  "approval_public e =
     (let thrown = approval_rejection e; look = at_key (asUnknownRecord (error_fields thrown)) in
      publicFailureFields thrown ((plain_fallback PS_PREPARE)\<lparr>fb_pending := or_bool (look ''pending'') True,
        fb_retryable := Some (or_bool (look ''retryable'') False), fb_requiresReview := or_bool (look ''requiresReview'') True,
        fb_error := Some thrown\<rparr>))"

definition approval_failed :: "spend_result \<Rightarrow> approval_error \<Rightarrow> auto_result" where
  "approval_failed x e =
     (let thrown = approval_rejection e; look = at_key (asUnknownRecord (error_fields thrown));
          shown = approval_public e;
          review = or_bool (look ''requiresReview'') True;
          spend = x\<lparr>sx_success := False,
            sx_pending := or_bool (look ''pending'') (review \<or> pf_retryable shown), sx_requiresReview := review,
            sx_preflightFailure := or_bool (look ''preflightFailure'') False,
            sx_status := Some (if review then UNKNOWN_STATUS else FAILED),
            sx_outcome := Some (normaliseMovementOutcome (nullish_or (look ''movementOutcome'') (look ''movement_outcome''))
              (pf_movementOutcome shown)),
            sx_retryable := (if review then False else pf_retryable shown)\<rparr>
      in \<lparr>ao_spend = (case approval_diagnostic e of None \<Rightarrow> spend | Some g \<Rightarrow> spend\<lparr>sx_diagnostic := Some g\<rparr>),
          ao_fundingTxHash = pf_fundingTxHash shown,
          ao_approvalError = Some (if review
            then ''Spend approval recovery requires operator review: '' @ getErrorMessage thrown
            else ''Spend approval preparation failed: '' @ pf_errorCode shown @ '': '' @ getErrorMessage thrown)\<rparr>)"

subsection \<open>The run\<close>

definition auto_treasury :: "auto_env \<Rightarrow> string option" where
  "auto_treasury env = nonempty (ae_treasury (se_base (au_first env)))"

text \<open>After a refused first attempt: the preparation, then the second attempt.\<close>

definition approve_and_repeat ::
    "auto_env \<Rightarrow> auto_request \<Rightarrow> string \<Rightarrow> string \<Rightarrow> spend_result \<Rightarrow> db
     \<Rightarrow> db \<times> string list \<times> string list \<times> string list \<times> auto_result" where
  "approve_and_repeat env q k treasury x d =
     (case approveUserForSpendingViaFunding (au_approval env) (au_topup env) (sa_uid q) treasury (Some (sa_amount q)) d of
        (d1, funding, approvals, Inl e) \<Rightarrow> (d1, [], funding, approvals, approval_failed x e)
      | (d1, funding, approvals, Inr _) \<Rightarrow>
          (case processSpend (au_second env) (auto_spend_request q k) d1 of
             (d2, sent, y) \<Rightarrow> (d2, sent, funding, approvals, plain_result y)))"

definition processSpendWithAutoApproval :: "auto_env \<Rightarrow> auto_request \<Rightarrow> db \<Rightarrow> auto_run" where
  "processSpendWithAutoApproval env q d =
     (case auto_key env q of
        Inl e \<Rightarrow> (d, [], [], [], plain_result (refused_spend (sa_amount q) (sa_user q) None e))
      | Inr k \<Rightarrow>
          (case processSpend (au_first env) (auto_spend_request q k) d of
             (d1, sent, x) \<Rightarrow>
               if \<not> eligible_for_approval x then (d1, sent, [], [], plain_result x)
               else (case auto_treasury env of
                   None \<Rightarrow> (d1, sent, [], [], plain_result x)
                 | Some treasury \<Rightarrow>
                     (case approve_and_repeat env q k treasury x d1 of
                        (d2, sent2, funding, approvals, r) \<Rightarrow> (d2, sent @ sent2, funding, approvals, r)))))"

end
