(* ===== verification/ApprovalLaws.thy ===== *)
theory ApprovalLaws
  imports ManagedApproval MoveLaws OpenHolds
begin

text \<open>
  Guarantees of the sponsored approval: the wallet sends only after the durable claim of its right, an unknown
  preparation goes on only when the chain proves that nothing but its funding was sent, and a result that
  offers a retry has sent nothing.
\<close>

subsection \<open>Parts as histories\<close>

lemma approval_steps_open: "approval_step d d' \<Longrightarrow> open_step\<^sup>*\<^sup>* d d'"
  by (intro r_into_rtranclp open_approval)

lemma try_mark_steps: "try_mark r d = (d', b) \<Longrightarrow> (\<And>x d1. r = Inr (x, d1) \<Longrightarrow> approval_step d d1) \<Longrightarrow> open_step\<^sup>*\<^sup>* d d'"
  by (auto simp: try_mark_def approval_steps_open split: sum.splits prod.splits)

lemma approval_saving_Inr [simp]: "approval_saving env p r = Inr y \<longleftrightarrow> va_saved env p \<and> r = Inr y"
  by (simp add: approval_saving_def)

lemma resume_facts:
  assumes "resume_unknown env k wallet signer r d = (d', x)"
  shows "open_step\<^sup>*\<^sup>* d d'" and "x = Inr y \<or> d' \<noteq> d \<Longrightarrow> proveUnknownFundingOnlyPreparation env r wallet signer = Inr ()"
proof -
  have s: "open_step\<^sup>*\<^sup>* d (snd (recoverFundedAfterReadOnlyProof (approval_clock env) k d))"
    by (rule approval_steps_open, rule step_recover)
  show "open_step\<^sup>*\<^sup>* d d'" using assms s
    by (auto simp: resume_unknown_def split: sum.splits if_splits prod.splits option.splits)
  show "x = Inr y \<or> d' \<noteq> d \<Longrightarrow> proveUnknownFundingOnlyPreparation env r wallet signer = Inr ()" using assms
    by (auto simp: resume_unknown_def split: sum.splits)
qed

lemma top_up_steps: "top_up_funding env p r d = (d', x) \<Longrightarrow> open_step\<^sup>*\<^sup>* d d'"
  by (auto simp: top_up_funding_def Let_def split: if_splits sum.splits option.splits prod.splits
      intro: approval_steps_open step_top_up)

lemma funding_failure_steps:
  "funding_preflight_failed env p g d = (d', f) \<Longrightarrow> open_step\<^sup>*\<^sup>* d d'"
  "funding_unknown env p key what cause saved clear g' d = (d', f) \<Longrightarrow> open_step\<^sup>*\<^sup>* d d'"
  "approval_unknown env p what cause h g d = (d', f) \<Longrightarrow> open_step\<^sup>*\<^sup>* d d'"
  unfolding funding_preflight_failed_def funding_unknown_def approval_unknown_def
  by (auto split: prod.splits elim!: try_mark_steps intro: step_funding_preflight step_approval_unknown)
    (metis snd_conv step_funding_preflight)

text \<open>What a failure says when something may have been sent, and when nothing can have been.\<close>

definition for_review :: "approval_failure \<Rightarrow> bool" where
  "for_review f \<longleftrightarrow> vf_requiresReview f \<and> vf_pending f \<and> \<not> vf_retryable f \<and> \<not> vf_preflight f"

lemma for_review_default: "for_review (approvalRecoveryError stage k m)"
  by (simp add: for_review_def approvalRecoveryError_def)

lemma recovery_stage [simp]: "vf_stage (approvalRecoveryError stage k m) = stage"
  by (simp add: approvalRecoveryError_def)

lemma for_review_updates [simp]:
  "for_review (f\<lparr>vf_cause := a\<rparr>) = for_review f" "for_review (f\<lparr>vf_txHash := b\<rparr>) = for_review f"
  "for_review (f\<lparr>vf_fundingTxHash := b\<rparr>) = for_review f" "for_review (f\<lparr>vf_diagnostic := c\<rparr>) = for_review f"
  "for_review (f\<lparr>vf_unsaved := e\<rparr>) = for_review f" "for_review (with_hashes r f) = for_review f"
  by (simp_all add: for_review_def with_hashes_def split: option.splits)

definition review_error :: "approval_error \<Rightarrow> bool" where
  "review_error e \<longleftrightarrow> (case e of Approval_Failure f \<Rightarrow> for_review f | Approval_Thrown t \<Rightarrow> \<exists>m. t = plain_error m
     | Approval_Asset _ \<Rightarrow> False)"

lemma review_failure [simp]: "review_error (Approval_Failure f) = for_review f" "review_error (thrown_db env x)"
  by (auto simp: review_error_def thrown_db_def)

lemma unknown_for_review:
  "funding_unknown env p key what cause saved clear g d = (d', f) \<Longrightarrow> for_review f"
  "approval_unknown env p what cause h g' d = (d', f) \<Longrightarrow> for_review f"
  by (auto simp: funding_unknown_def approval_unknown_def for_review_default split: prod.splits)

lemma resume_for_review: "resume_unknown env k wallet signer r d = (d', Inl e) \<Longrightarrow> review_error e"
  by (auto simp: resume_unknown_def for_review_default split: sum.splits if_splits prod.splits option.splits)

lemma submit_funding_facts:
  assumes "submit_funding env p r key amount d = (d', sent, tx, x)" and ok: "accounts_ok d"
  shows "open_step\<^sup>*\<^sup>* d d'" and "sent \<noteq> [] \<Longrightarrow> sends_under key d d' sent"
    and "x = Inl (cause, g) \<Longrightarrow> isPreBroadcastTransactionDiagnostic g \<Longrightarrow> sent = []"
proof -
  obtain d1 s y where run: "prepareAndBroadcastTransaction (ae_chain (mg_base (va_managed env))) (approval_clock env)
      (funding_request p r key amount) d = (d1, s, y)" by (metis surj_pair)
  have lok: "leases_ok d" using ok by (simp add: accounts_ok_def service_ok_def)
  have s: "s = sent" using assms(1) run by (auto simp: submit_funding_def split: sum.splits prod.splits)
  have h1: "open_step\<^sup>*\<^sup>* d d1" by (rule lease_steps_open [OF run_lease_steps [OF run lok]])
  have h2: "open_step\<^sup>*\<^sup>* d1 d'" using assms(1) run
    by (auto simp: submit_funding_def split: sum.splits prod.splits intro: approval_steps_open step_funding_submitted)
  show "open_step\<^sup>*\<^sup>* d d'" using h1 h2 by (rule rtranclp_trans)
  show "sends_under key d d' sent" unfolding sends_under_def using run open_records [OF h2] s
    by (intro exI [of _ "ae_chain (mg_base (va_managed env))"] exI [of _ "approval_clock env"] exI [of _ "funding_request p r key amount"]
        exI [of _ d] exI [of _ y] exI [of _ d1]) (simp add: funding_request_def)
  show "x = Inl (cause, g) \<Longrightarrow> isPreBroadcastTransactionDiagnostic g \<Longrightarrow> sent = []"
  proof -
    assume x: "x = Inl (cause, g)" "isPreBroadcastTransactionDiagnostic g"
    then have "g \<noteq> None" by (cases g) (auto simp: isPreBroadcastTransactionDiagnostic_def)
    then obtain g' where y: "y = Inl g'" "g = Some g'"
      using assms(1) run x(1) by (auto simp: submit_funding_def split: sum.splits prod.splits)
    from run lok show "sent = []" by (cases rule: run_cases) (use x(2) y s in auto)
  qed
qed

lemma sends_under_within:
  assumes "recording_step\<^sup>*\<^sup>* d0 d" and "sends_under k d d1 sent" and "recording_step\<^sup>*\<^sup>* d1 d2"
  shows "sends_under k d0 d2 sent"
proof -
  obtain ch now q dc r da where run: "recording_step\<^sup>*\<^sup>* d dc" "rq_operationKey q = k"
    "prepareAndBroadcastTransaction ch now q dc = (da, sent, r)" "recording_step\<^sup>*\<^sup>* da d1"
    using assms(2) by (auto simp: sends_under_def)
  have "recording_step\<^sup>*\<^sup>* d0 dc" "recording_step\<^sup>*\<^sup>* da d2"
    using rtranclp_trans [OF assms(1) run(1)] rtranclp_trans [OF run(4) assms(3)] .
  then show ?thesis unfolding sends_under_def using run(2,3) by blast
qed

lemmas sends_under_later = sends_under_within [OF rtranclp.rtrancl_refl]
  and sends_under_earlier = sends_under_within [OF _ _ rtranclp.rtrancl_refl]

lemma send_funding_facts:
  assumes "send_funding env p r key amount d = (d', sent, x)" and ok: "accounts_ok d"
  shows "open_step\<^sup>*\<^sup>* d d'" and "sent \<noteq> [] \<Longrightarrow> sends_under key d d' sent"
    and "x = Inl e \<Longrightarrow> review_error e \<or> sent = []"
proof -
  obtain d1 s tx y where sub: "submit_funding env p r key amount d = (d1, s, tx, y)" by (metis surj_pair)
  note f = submit_funding_facts [OF sub ok]
  have shape: "s = sent \<and> open_step\<^sup>*\<^sup>* d1 d' \<and> (x = Inl e \<longrightarrow> review_error e \<or> sent = [])"
    using assms(1) sub f(3) unknown_for_review(1) funding_failure_steps(1,2)
    by (auto simp: send_funding_def Let_def split: sum.splits prod.splits if_splits option.splits)
  show "open_step\<^sup>*\<^sup>* d d'" "sent \<noteq> [] \<Longrightarrow> sends_under key d d' sent" "x = Inl e \<Longrightarrow> review_error e \<or> sent = []"
    using shape f(1,2) sends_under_later open_records by (auto intro: rtranclp_trans)
qed

lemma fund_wallet_facts:
  assumes "fund_wallet env p f d = (d', sent, x)" and ok: "accounts_ok d"
  shows "open_step\<^sup>*\<^sup>* d d'" and "x = Inl e \<Longrightarrow> review_error e \<or> sent = []"
proof -
  have funded: "open_step\<^sup>*\<^sup>* d1 (snd (markFunded now k d1))" for d1 now k by (rule approval_steps_open, rule step_funded)
  have "open_step\<^sup>*\<^sup>* d d' \<and> (x = Inl e \<longrightarrow> review_error e \<or> sent = [])"
  proof (cases "\<exists>n d1 s y. ap_status (fa_row f) = AP_FUNDING \<and> funding_amount env p f = Inr (Some n) \<and> 0 < n
      \<and> send_funding env p (fa_row f) (funding_key p f n) n d = (d1, s, y)")
    case True
    then obtain n d1 s y where n: "ap_status (fa_row f) = AP_FUNDING" "funding_amount env p f = Inr (Some n)" "0 < n"
      "send_funding env p (fa_row f) (funding_key p f n) n d = (d1, s, y)" by blast
    note g = send_funding_facts [OF n(4) ok]
    have run: "fund_wallet env p f d = (case y of Inl e \<Rightarrow> (d1, s, Inl e) | Inr _ \<Rightarrow>
        if va_saved env Save_Funded then (snd (markFunded (approval_clock env) (vp_key p) d1), s, Inr ())
        else (d1, s, Inl (Approval_Failure ((approvalRecoveryError FUNDING_STAGE (vp_key p)
          (''Funding is confirmed but its durable preparation state could not be saved: '' @ db_text env (CALLBACK_FAILED (Other_Error ''connection''))))
          \<lparr>vf_fundingTxHash := nonempty (ap_funding_hash (fa_row f)),
            vf_cause := Some (db_text env (CALLBACK_FAILED (Other_Error ''connection'')))\<rparr>))))"
      unfolding fund_wallet_def Let_def using n by (cases y) simp_all
    show ?thesis
    proof (cases y)
      case (Inl e')
      then show ?thesis using assms(1) run g(1,3) by auto
    next
      case (Inr u)
      then show ?thesis using assms(1) run rtranclp_trans [OF g(1) funded] g(1)
        by (cases "va_saved env Save_Funded") (auto simp: for_review_default)
    qed
  next
    case False
    have nothing: "sent = [] \<and> open_step\<^sup>*\<^sup>* d d'"
    proof (cases "ap_status (fa_row f) = AP_FUNDING")
      case True
      show ?thesis
      proof (cases "funding_amount env p f")
        case (Inl e')
        then show ?thesis using assms(1) True by (simp add: fund_wallet_def)
      next
        case (Inr amount)
        have "(case amount of None \<Rightarrow> (d, [], Inr ())
            | Some n \<Rightarrow> if 0 < n then send_funding env p (fa_row f) (funding_key p f n) n d else (d, [], Inr ())) = (d, [], Inr ())"
          using False True Inr by (auto split: option.splits) (metis surj_pair)
        then show ?thesis using assms(1) True Inr funded
          by (auto simp: fund_wallet_def Let_def split: if_splits)
      qed
    qed (use assms(1) in \<open>simp add: fund_wallet_def\<close>)
    then show ?thesis by simp
  qed
  then show "open_step\<^sup>*\<^sup>* d d'" "x = Inl e \<Longrightarrow> review_error e \<or> sent = []" by auto
qed

subsection \<open>The approval\<close>

text \<open>One send of the wallet after an acquired claim of its right, and what is done with it.\<close>

definition approved_under :: "approval_env \<Rightarrow> approval_plan \<Rightarrow> db \<Rightarrow> db \<Rightarrow> string list \<Rightarrow> bool" where
  "approved_under env p d d' approvals \<longleftrightarrow> approvals = [mg_encode_approve (va_managed env) (vp_treasury p) MAX_UINT256]
     \<and> (\<exists>dc c d1. open_step\<^sup>*\<^sup>* d dc \<and> claimApprovalSubmission (approval_clock env) (vp_key p) dc = Inr (c, d1)
          \<and> apc_acquired c \<and> open_step\<^sup>*\<^sup>* d1 d')"

lemma send_approval_facts:
  assumes "send_approval env p d = (d', approvals, x)"
  shows "open_step\<^sup>*\<^sup>* d d'" and "approvals = [mg_encode_approve (va_managed env) (vp_treasury p) MAX_UINT256]"
    and "x = Inl e \<Longrightarrow> \<exists>f. e = Approval_Failure f \<and> for_review f \<and> vf_stage f = APPROVAL_STAGE"
proof -
  show "approvals = [mg_encode_approve (va_managed env) (vp_treasury p) MAX_UINT256]" using assms
    by (auto simp: send_approval_def Let_def split: sum.splits prod.splits if_splits)
  have unk: "for_review f \<and> vf_stage f = APPROVAL_STAGE"
    if "approval_unknown env p what cause h g d0 = (d1, f)" for what cause h g d0 d1 f
    using that by (auto simp: approval_unknown_def for_review_default split: prod.splits)
  show "x = Inl e \<Longrightarrow> \<exists>f. e = Approval_Failure f \<and> for_review f \<and> vf_stage f = APPROVAL_STAGE" using assms unk
    by (auto simp: send_approval_def Let_def for_review_default split: sum.splits prod.splits if_splits)
  have hash: "open_step\<^sup>*\<^sup>* d d1" if "markApprovalSubmitted now k h d = Inr (r, d1)" for now k h r d1
    by (rule approval_steps_open, rule step_approval_submitted [OF that])
  have marked: "open_step\<^sup>*\<^sup>* d1 (snd (markApproved now k d1))" for d1 now k by (rule approval_steps_open, rule step_approved)
  show "open_step\<^sup>*\<^sup>* d d'" using assms
    by (auto simp: send_approval_def Let_def split: sum.splits prod.splits if_splits
      dest: hash funding_failure_steps(3) intro: rtranclp_trans marked)
qed

lemma submit_approval_facts:
  assumes "submit_approval env p d = (d', approvals, x)"
  shows "open_step\<^sup>*\<^sup>* d d'" and "approvals \<noteq> [] \<Longrightarrow> approved_under env p d d' approvals"
    and "x = Inl e \<Longrightarrow> review_error e"
    and "x = Inl e \<Longrightarrow> approvals \<noteq> [] \<Longrightarrow> \<exists>f. e = Approval_Failure f \<and> for_review f \<and> vf_stage f = APPROVAL_STAGE"
proof -
  have claim: "open_step\<^sup>*\<^sup>* d d1" if "claimApprovalSubmission now k d = Inr (c, d1)" for now k c d1
    by (rule approval_steps_open, rule step_claim_submission [OF that])
  consider (stopped) "approvals = []" "open_step\<^sup>*\<^sup>* d d'" "\<And>e. x = Inl e \<Longrightarrow> review_error e"
    | (owned) c d1 where "claimApprovalSubmission (approval_clock env) (vp_key p) d = Inr (c, d1)" "apc_acquired c"
        "send_approval env p d1 = (d', approvals, x)"
    using assms claim
    by (fastforce simp: submit_approval_def for_review_default split: sum.splits prod.splits if_splits)
  then have "open_step\<^sup>*\<^sup>* d d' \<and> (approvals \<noteq> [] \<longrightarrow> approved_under env p d d' approvals) \<and> (x = Inl e \<longrightarrow> review_error e)
    \<and> (x = Inl e \<longrightarrow> approvals \<noteq> [] \<longrightarrow> (\<exists>f. e = Approval_Failure f \<and> for_review f \<and> vf_stage f = APPROVAL_STAGE))"
  proof cases
    case (owned c d1)
    note s = send_approval_facts [OF owned(3)]
    have "approved_under env p d d' approvals" unfolding approved_under_def using s(1,2) owned(1,2) by blast
    then show ?thesis using rtranclp_trans [OF claim [OF owned(1)] s(1)] s(3) by auto
  qed simp
  then show "open_step\<^sup>*\<^sup>* d d'" "approvals \<noteq> [] \<Longrightarrow> approved_under env p d d' approvals" "x = Inl e \<Longrightarrow> review_error e"
    "x = Inl e \<Longrightarrow> approvals \<noteq> [] \<Longrightarrow> \<exists>f. e = Approval_Failure f \<and> for_review f \<and> vf_stage f = APPROVAL_STAGE" by blast+
qed

lemma approved_within:
  assumes "open_step\<^sup>*\<^sup>* d0 d" and "approved_under env p d d' approvals"
  shows "approved_under env p d0 d' approvals"
  using assms unfolding approved_under_def by (blast intro: rtranclp_trans)

subsection \<open>The whole preparation\<close>

text \<open>What every run of a preparation keeps.\<close>

definition prepared_well :: "approval_env \<Rightarrow> approval_plan \<Rightarrow> db \<Rightarrow> approval_run \<Rightarrow> bool" where
  "prepared_well env p d run \<longleftrightarrow> (case run of (d', sent, approvals, x) \<Rightarrow>
     open_step\<^sup>*\<^sup>* d d' \<and> (approvals \<noteq> [] \<longrightarrow> approved_under env p d d' approvals)
     \<and> (\<forall>e. x = Inl e \<longrightarrow> review_error e \<or> sent = [] \<and> approvals = [])
     \<and> (\<forall>e. x = Inl e \<longrightarrow> approvals \<noteq> [] \<longrightarrow> (\<exists>f. e = Approval_Failure f \<and> for_review f \<and> vf_stage f = APPROVAL_STAGE)))"

lemma prepared_stopped: "open_step\<^sup>*\<^sup>* d d' \<Longrightarrow> review_error e \<or> sent = [] \<Longrightarrow> prepared_well env p d (d', sent, [], Inl e)"
  by (auto simp: prepared_well_def)

lemma prepared_later:
  assumes "open_step\<^sup>*\<^sup>* d0 d" and "prepared_well env p d run"
  shows "prepared_well env p d0 run"
  using assms approved_within [OF assms(1)] by (auto simp: prepared_well_def intro: rtranclp_trans)

lemma prepare_wallet_well:
  assumes ok: "accounts_ok d"
  shows "prepared_well env p d (prepare_wallet env p acquired r d)"
proof (cases "admitted p acquired r")
  case (Inl e)
  then show ?thesis by (simp add: prepare_wallet_def prepared_stopped)
next
  case adm: (Inr u)
  obtain d1 x1 where top: "top_up_funding env p r d = (d1, x1)" by (metis surj_pair)
  note s1 = top_up_steps [OF top]
  show ?thesis
  proof (cases x1)
    case (Inl e)
    then show ?thesis using adm top s1 by (simp add: prepare_wallet_def prepared_stopped)
  next
    case f: (Inr f)
    obtain d2 sent x2 where fund: "fund_wallet env p f d1 = (d2, sent, x2)" by (metis surj_pair)
    note s2 = fund_wallet_facts [OF fund open_accounts [OF s1 ok]]
    note s12 = rtranclp_trans [OF s1 s2(1)]
    show ?thesis
    proof (cases x2)
      case (Inl e)
      then show ?thesis using adm top f fund s12 s2(2) by (simp add: prepare_wallet_def prepared_stopped)
    next
      case (Inr u2)
      obtain d3 approvals x3 where sub: "submit_approval env p d2 = (d3, approvals, x3)" by (metis surj_pair)
      have "prepared_well env p d2 (d3, sent, approvals, x3)"
        using submit_approval_facts [OF sub] by (auto simp: prepared_well_def)
      then have "prepared_well env p d (d3, sent, approvals, x3)" by (rule prepared_later [OF s12])
      then show ?thesis using adm top f fund Inr sub by (simp add: prepare_wallet_def)
    qed
  qed
qed

definition preparation_request :: "approval_plan \<Rightarrow> asset_context \<Rightarrow> approval_request" where
  "preparation_request p asset = \<lparr>apr_key = vp_key p, apr_wallet = vp_wallet p, apr_contract = vp_contract p,
     apr_chain = ac_chainId asset, apr_treasury = vp_treasury p\<rparr>"

lemma claimed_preparation_well:
  assumes ok: "accounts_ok d"
  shows "prepared_well env p d (claimed_preparation env p asset d)"
proof (cases "approval_saving env Save_Preparation (claimApproval (approval_clock env) (preparation_request p asset) d)")
  case (Inl e)
  then show ?thesis by (simp add: claimed_preparation_def preparation_request_def prepared_stopped)
next
  case (Inr y)
  obtain c d1 where y: "y = (c, d1)" by (metis surj_pair)
  have s1: "open_step\<^sup>*\<^sup>* d d1" using Inr y by (auto intro: approval_steps_open step_claim_approval)
  note ok1 = open_accounts [OF s1 ok]
  have run: "claimed_preparation env p asset d = (if \<not> apc_acquired c \<and> ap_status (apc_record c) = AP_UNKNOWN
      then case resume_unknown env (vp_key p) (vp_wallet p) (ac_signerAddress asset) (apc_record c) d1 of
          (d2, Inl e) \<Rightarrow> (d2, [], [], Inl e) | (d2, Inr r) \<Rightarrow> prepare_wallet env p False r d2
      else prepare_wallet env p (apc_acquired c) (apc_record c) d1)"
    unfolding claimed_preparation_def preparation_request_def [symmetric] Inr y by simp
  show ?thesis
  proof (cases "\<not> apc_acquired c \<and> ap_status (apc_record c) = AP_UNKNOWN")
    case False
    then have "claimed_preparation env p asset d = prepare_wallet env p (apc_acquired c) (apc_record c) d1" unfolding run by (rule if_not_P)
    then show ?thesis using prepared_later [OF s1 prepare_wallet_well [OF ok1]] by simp
  next
    case True
    obtain d2 x where res: "resume_unknown env (vp_key p) (vp_wallet p) (ac_signerAddress asset) (apc_record c) d1 = (d2, x)"
      by (metis surj_pair)
    note s2 = rtranclp_trans [OF s1 resume_facts(1) [OF res]]
    show ?thesis
      using True res s2 prepared_later [OF s2 prepare_wallet_well [OF open_accounts [OF s2 ok]]]
      unfolding run by (cases x) (simp_all add: prepared_stopped)
  qed
qed

lemma approve_runs:
  assumes "approveUserForSpendingViaFunding env topup u treasury required d = run"
  obtains (stopped) x where "run = (d, [], [], x)"
  | (prepared) asset where "approval_asset env treasury = Inr asset"
      "run = claimed_preparation env (approval_plan_of env topup u treasury asset) asset d"
  using assms by (fastforce simp: approveUserForSpendingViaFunding_def Let_def split: if_splits sum.splits bool.splits)

lemma approve_well:
  assumes "approveUserForSpendingViaFunding env topup u treasury required d = run" and "accounts_ok d"
  shows "\<exists>asset. prepared_well env (approval_plan_of env topup u treasury asset) d run"
  using assms(1)
proof (cases rule: approve_runs)
  case stopped
  then show ?thesis by (auto simp: prepared_well_def)
next
  case prepared
  then show ?thesis using claimed_preparation_well [OF assms(2)] by auto
qed

lemma map_sum_Inr_iff: "map_sum f id x = Inr y \<longleftrightarrow> x = Inr y"
  by (cases x) auto

lemma proof_holds:
  assumes "proveUnknownFundingOnlyPreparation env r wallet signer = Inr ()"
  shows "\<exists>h receipt t. nonempty (ap_funding_hash r) = Some h \<and> nonempty (ap_approval_hash r) = None
     \<and> mg_receipt (va_managed env) h = Inr (Some receipt) \<and> status_number (nr_status receipt) = 1
     \<and> same_column (nr_to receipt) wallet \<and> same_column (nr_from receipt) signer
     \<and> mg_transaction (va_managed env) h = Inr (Some t) \<and> js_lower (js_trim (nx_hash t)) = js_lower (js_trim h)
     \<and> same_column (nx_to t) wallet \<and> same_column (nx_from t) signer \<and> 0 < nx_value t
     \<and> va_latest_nonce env wallet = Inr 0 \<and> va_pending_nonce env wallet = Inr 0"
  using assms by (auto simp: proveUnknownFundingOnlyPreparation_def Let_def rbind_Inr_iff map_sum_Inr_iff
      split: option.splits if_splits)

lemma unknown_is_not_reclaimed:
  assumes "claimApproval now q d = Inr (c, d')" and "find_approval d (apr_key q) = Some r" and "ap_status r = AP_UNKNOWN"
  shows "d' = d" and "\<not> apc_acquired c" and "apc_record c = r"
  using assms by (auto simp: claimApproval_def approval_reclaimable_def Let_def split: if_splits)

subsection \<open>A sample preparation\<close>

text \<open>A wallet without allowance, with gas; \<open>signer\<close> is what the treasury signer says of its address.\<close>

definition sample_approval_env :: "string option \<Rightarrow> int \<Rightarrow> approval_env" where
  "sample_approval_env signer balance =
     (let e = sample_managed_env None (Some 1); b = mg_base e in
      \<lparr>va_managed = e\<lparr>mg_base := b\<lparr>ae_chain := (ae_chain b)\<lparr>ch_address := signer\<rparr>\<rparr>, mg_allowance := (\<lambda>_ _ _. Inr 0),
         mg_receipt := (\<lambda>_. Inr (Some \<lparr>nr_status = Some 1, nr_from = Some ''0xa1'', nr_to = Some ''0xB2''\<rparr>)),
         mg_transaction := (\<lambda>h. Inr (Some \<lparr>nx_hash = h, nx_from = Some ''0xa1'', nx_to = Some ''0xB2'', nx_value = 5\<rparr>)),
         mg_wallet_send := (\<lambda>_ _. Inr (sample_hash CHR ''b'')), mg_wallet_wait := (\<lambda>_. Inr (Some (Some 1)))\<rparr>,
       va_native_balance = (\<lambda>_. Inr balance), va_estimate_gas = (\<lambda>_ _ _. Inr 50),
       va_fees = Inr \<lparr>fe_maxFeePerGas = Some 2, fe_maxPriorityFeePerGas = None, fe_gasPrice = None\<rparr>,
       va_latest_nonce = (\<lambda>_. Inr 0), va_pending_nonce = (\<lambda>_. Inr 0), va_saved = (\<lambda>_. True)\<rparr>)"

definition sample_approve_for :: "js_number option \<Rightarrow> string option \<Rightarrow> int \<Rightarrow> db \<Rightarrow> approval_run" where
  "sample_approve_for n signer balance d =
     approveUserForSpendingViaFunding (sample_approval_env signer balance) ''t'' ''U'' ''0xA1'' n d"

definition sample_approve :: "string option \<Rightarrow> int \<Rightarrow> db \<Rightarrow> approval_run" where
  "sample_approve signer balance d = sample_approve_for None signer balance d"

definition sample_approval_key :: string where
  "sample_approval_key = ''approval:'' @ replicate 64 CHR ''a''"

definition unknown_preparation :: approval_row where
  "unknown_preparation = \<lparr>ap_key = sample_approval_key, ap_wallet = ''0xb2'', ap_contract = ''0xc0'', ap_chain = ''80002'',
     ap_treasury = ''0xa1'', ap_status = AP_UNKNOWN, ap_funding_hash = Some (sample_hash CHR ''a''), ap_funding_nonce = None,
     ap_funding_context = None, ap_attempt_key = None, ap_attempt_value = None, ap_approval_hash = None,
     ap_diagnostic = None, ap_error = None, ap_created = 1, ap_updated = 1\<rparr>"

definition unknown_db :: db where
  "unknown_db = empty_db\<lparr>t_approvals := [unknown_preparation]\<rparr>"

lemma sample_approval_asset: "approval_asset (sample_approval_env a n) ''0xA1'' = Inr sample_asset"
proof -
  have "getTokenAssetContext (ae_token (sample_award_env None)) (Some (Inr 80002)) (Inr ''0xA1'') (Some ''0xA1'') = Inr sample_asset"
    by code_simp
  then show ?thesis by (simp add: approval_asset_def sample_approval_env_def sample_managed_env_def Let_def sample_award_env_def sample_chain_def)
qed

lemma sample_approval_plan: "approval_plan_of (sample_approval_env a n) ''t'' ''U'' ''0xA1'' sample_asset =
   \<lparr>vp_key = sample_approval_key, vp_wallet = ''0xB2'', vp_contract = ''0xc0'', vp_treasury = ''0xA1'', vp_topup = ''t''\<rparr>"
  by (simp add: approval_plan_of_def sample_approval_env_def sample_managed_env_def Let_def sample_award_env_def sample_asset_def
      sample_approval_key_def sha_of_def managed_wallet_def)

lemma unknown_accounts_ok: "accounts_ok unknown_db"
  using empty_accounts_ok
  by (simp add: unknown_db_def accounts_ok_def service_ok_def ledger_ok_def leases_ok_def approvals_ok_def reservations_ok_def
      wallets_ok_def projections_ok_def)

lemma sample_approve_claims:
  assumes "required_wei needed = Inr (1 + int m)"
  shows "sample_approve_for needed a n d = claimed_preparation (sample_approval_env a n)
   \<lparr>vp_key = sample_approval_key, vp_wallet = ''0xB2'', vp_contract = ''0xc0'', vp_treasury = ''0xA1'', vp_topup = ''t''\<rparr> sample_asset d"
proof -
  have "ch_provider (ae_chain (mg_base (va_managed (sample_approval_env a n))))" "mg_allowance (va_managed (sample_approval_env a n)) c w t = Inr 0" for c w t
    by (simp_all add: sample_approval_env_def Let_def sample_managed_env_def sample_award_env_def sample_chain_def)
  then show ?thesis
    using assms by (simp add: sample_approve_for_def approveUserForSpendingViaFunding_def sample_approval_asset sample_approval_plan Let_def)
qed

definition sample_plan :: approval_plan where
  "sample_plan = \<lparr>vp_key = sample_approval_key, vp_wallet = ''0xB2'', vp_contract = ''0xc0'', vp_treasury = ''0xA1'', vp_topup = ''t''\<rparr>"

lemma sample_gas: "missing_gas (sample_approval_env a n) w c t = Inr (if n < 200 then Some (200 - n) else None)"
  by (simp add: missing_gas_def estimateManagedApprovalGasTarget_def sample_approval_env_def Let_def)

lemma sample_saves: "approval_saving (sample_approval_env a n) p r = r" "va_saved (sample_approval_env a n) p" "approval_clock (sample_approval_env a n) = 9"
  by (simp_all add: approval_saving_def sample_approval_env_def Let_def approval_clock_def managed_clock_def clock_def sample_managed_env_def
      sample_award_env_def)

lemma sample_wallet:
  "mg_wallet_send (va_managed (sample_approval_env a n)) c x = Inr (sample_hash CHR ''b'')"
  "mg_encode_approve (va_managed (sample_approval_env a n)) t m = ''0xe''"
  "approval_confirmed (sample_approval_env a n) h = Inr ()"
  by (simp_all add: sample_approval_env_def Let_def approval_confirmed_def sample_managed_env_def)

lemma sample_prove: "proveUnknownFundingOnlyPreparation (sample_approval_env a n) unknown_preparation ''0xB2'' ''0xa1'' = Inr ()"
proof -
  have "same_column (Some ''0xB2'') ''0xB2''" "same_column (Some ''0xa1'') ''0xa1''" by (simp_all add: same_column_def same_text_def)
  moreover have "nonempty (ap_funding_hash unknown_preparation) = Some (sample_hash CHR ''a'')" "nonempty (ap_approval_hash unknown_preparation) = None"
    by (simp_all add: unknown_preparation_def nonempty_def sample_hash_def)
  ultimately show ?thesis
    by (simp add: proveUnknownFundingOnlyPreparation_def sample_approval_env_def Let_def status_number_def guard_def)
qed

lemma sample_approval_run: "\<exists>d'. sample_approve a 200 unknown_db = (d', [], [''0xe''], Inr ())"
proof -
  define r1 where "r1 = unknown_preparation\<lparr>ap_status := AP_FUNDED, ap_updated := 9\<rparr>"
  define r2 where "r2 = unknown_preparation\<lparr>ap_status := AP_APPROVING, ap_updated := 9\<rparr>"
  define d1 where "d1 = empty_db\<lparr>t_approvals := [r1]\<rparr>"
  define d2 where "d2 = empty_db\<lparr>t_approvals := [r2]\<rparr>"
  have claim: "claimApproval 9 (preparation_request sample_plan sample_asset) unknown_db
      = Inr (\<lparr>apc_record = unknown_preparation, apc_acquired = False\<rparr>, unknown_db)"
  proof -
    have "same_text ''0xb2'' ''0xB2''" "same_text ''0xc0'' ''0xc0''" "same_text ''0xa1'' ''0xA1''" by code_simp+
    then show ?thesis
      by (simp add: claimApproval_def unknown_db_def find_approval_def preparation_request_def sample_plan_def unknown_preparation_def
          sample_asset_def approval_reclaimable_def)
  qed
  have recover: "recoverFundedAfterReadOnlyProof 9 sample_approval_key unknown_db = (Some r1, d1)"
    by (simp add: recoverFundedAfterReadOnlyProof_def mark_approval_def unknown_db_def unknown_preparation_def update_approvals_def
        update_where_def returning_where_def r1_def d1_def empty_db_def)
  have resume: "resume_unknown (sample_approval_env a 200) sample_approval_key ''0xB2'' ''0xa1'' unknown_preparation unknown_db = (d1, Inr r1)"
    by (simp add: resume_unknown_def sample_prove sample_saves recover)
  have submit: "claimApprovalSubmission 9 sample_approval_key d1 = Inr (\<lparr>apc_record = r2, apc_acquired = True\<rparr>, d2)"
    by (simp add: claimApprovalSubmission_def d1_def d2_def r1_def r2_def unknown_preparation_def update_approvals_def
        update_where_def returning_where_def Let_def)
  obtain x d3 where mark: "markApprovalSubmitted 9 sample_approval_key (sample_hash CHR ''b'') d2 = Inr (x, d3)"
    using sample_hash_canonical [of "CHR ''b''"] by (simp add: markApprovalSubmitted_def) (metis surj_pair)
  have "prepare_wallet (sample_approval_env a 200) sample_plan False r1 d1
      = (snd (markApproved 9 sample_approval_key d3), [], [''0xe''], Inr ())"
    by (simp add: prepare_wallet_def admitted_def top_up_funding_def fund_wallet_def submit_approval_def send_approval_def
        sample_plan_def sample_gas sample_saves sample_wallet submit mark attempt_of_def r1_def guard_def)
  then have "claimed_preparation (sample_approval_env a 200) sample_plan sample_asset unknown_db
      = (snd (markApproved 9 sample_approval_key d3), [], [''0xe''], Inr ())"
    using claim resume by (simp add: claimed_preparation_def sample_saves preparation_request_def)
      (simp add: sample_plan_def unknown_preparation_def sample_asset_def)
  then show ?thesis by (simp add: sample_approve_def sample_approve_claims [of None 0] required_wei_def sample_plan_def)
qed

text \<open>A new wallet without gas, when the treasury signer has no address: the funding is refused before anything is sent.\<close>

lemma sample_refused_approval:
  assumes "t_approvals d = []" and "required_wei needed = Inr (1 + int m)"
  shows "\<exists>d' f. sample_approve_for needed None 0 d = (d', [], [], Inl (Approval_Failure f)) \<and> vf_preflight f \<and> vf_retryable f
    \<and> \<not> vf_requiresReview f"
proof -
  define r where "r = new_approval 9 (preparation_request sample_plan sample_asset)"
  define d1 where "d1 = d\<lparr>t_approvals := [r]\<rparr>"
  define g where "g = diagnosticFor PREPARE ''SIGNER_ADDRESS_UNAVAILABLE'' True (Some RPC_UNAVAILABLE) None None"
  have claim: "claimApproval 9 (preparation_request sample_plan sample_asset) d = Inr (\<lparr>apc_record = r, apc_acquired = True\<rparr>, d1)"
    by (simp add: claimApproval_def find_approval_def assms(1) r_def d1_def)
  have r: "ap_status r = AP_FUNDING" "ap_attempt_key r = None" "ap_attempt_value r = None"
    by (simp_all add: r_def new_approval_def)
  have "ch_provider (ae_chain (mg_base (va_managed (sample_approval_env None 0))))"
    "ch_address (ae_chain (mg_base (va_managed (sample_approval_env None 0)))) = None"
    by (simp_all add: sample_approval_env_def Let_def sample_managed_env_def sample_award_env_def sample_chain_def)
  then have sub: "submit_funding (sample_approval_env None 0) sample_plan r k n d1 = (d1, [], None, Inl (dg_errorCode g, Some g))" for k n
    by (simp add: submit_funding_def prepareAndBroadcastTransaction_def g_def)
  have g: "isPreBroadcastTransactionDiagnostic (Some g)" "dg_retryable g"
    by (simp_all add: g_def diagnosticFor_def isPreBroadcastTransactionDiagnostic_def)
  obtain d2 f where fail: "funding_preflight_failed (sample_approval_env None 0) sample_plan g d1 = (d2, f)" by (metis surj_pair)
  then have f: "vf_preflight f" "vf_retryable f" "\<not> vf_requiresReview f" using g(2)
    by (auto simp: funding_preflight_failed_def approvalRecoveryError_def split: prod.splits)
  have send: "send_funding (sample_approval_env None 0) sample_plan r k n d1 = (d2, [], Inl (Approval_Failure f))" for k n
    by (simp add: send_funding_def sub g(1) fail)
  have amount: "funding_amount (sample_approval_env None 0) sample_plan (attempt_of r) = Inr (Some 200)"
    by (simp add: funding_amount_def thrown_read_def sample_gas attempt_of_def r nonempty_def)
  have fund: "fund_wallet (sample_approval_env None 0) sample_plan (attempt_of r) d1 = (d2, [], Inl (Approval_Failure f))"
    unfolding fund_wallet_def amount by (simp add: attempt_of_def r send)
  have "prepare_wallet (sample_approval_env None 0) sample_plan True r d1 = (d2, [], [], Inl (Approval_Failure f))"
    by (simp add: prepare_wallet_def admitted_def guard_def top_up_funding_def r(1) fund)
  then have "claimed_preparation (sample_approval_env None 0) sample_plan sample_asset d = (d2, [], [], Inl (Approval_Failure f))"
    using claim by (simp add: claimed_preparation_def sample_saves preparation_request_def)
  then show ?thesis using f by (simp add: sample_approve_claims [OF assms(2)] sample_plan_def)
qed

subsection \<open>Guarantees\<close>

text \<open>
  C7: the wallet sends its approval only after the durable claim of that right: a run sends at most one, the
  unlimited approval of the treasury, between a submission claim that it acquired and what follows, and
  every failure after it is pending, for review and neither retryable nor a preflight failure.
\<close>

theorem approval_send_needs_claim:
  assumes "accounts_ok d" and "approveUserForSpendingViaFunding env topup u treasury required d = (d', sent, approvals, x)"
    and "approvals \<noteq> []"
  shows "approvals = [mg_encode_approve (va_managed env) treasury MAX_UINT256]
    \<and> (\<exists>k dc c d1. recording_step\<^sup>*\<^sup>* d dc \<and> claimApprovalSubmission (approval_clock env) k dc = Inr (c, d1) \<and> apc_acquired c
      \<and> recording_step\<^sup>*\<^sup>* d1 d')
    \<and> (\<forall>e. x = Inl e \<longrightarrow> (\<exists>f. e = Approval_Failure f \<and> vf_stage f = APPROVAL_STAGE \<and> vf_pending f \<and> vf_requiresReview f
      \<and> \<not> vf_retryable f \<and> \<not> vf_preflight f))"
proof -
  obtain asset where w: "prepared_well env (approval_plan_of env topup u treasury asset) d (d', sent, approvals, x)"
    using approve_well [OF assms(2,1)] by blast
  moreover have "vp_treasury (approval_plan_of env topup u treasury asset) = treasury" by (simp add: approval_plan_of_def Let_def)
  ultimately show ?thesis using assms(3) by (auto simp: prepared_well_def approved_under_def for_review_def dest!: open_records)
qed

theorem approval_send_needs_claim_witness:
  "\<exists>d'. sample_approve (Some ''0xA1'') 200 unknown_db = (d', [], [''0xe''], Inr ())
     \<and> (\<exists>k dc c d1. claimApprovalSubmission 9 k dc = Inr (c, d1) \<and> apc_acquired c)"
proof -
  obtain d' where a: "sample_approve (Some ''0xA1'') 200 unknown_db = (d', [], [''0xe''], Inr ())"
    using sample_approval_run by blast
  from approval_send_needs_claim [OF unknown_accounts_ok a [unfolded sample_approve_def sample_approve_for_def]] show ?thesis
    using a by (auto simp: sample_saves)
qed

text \<open>
  C14: a preparation whose outcome is unknown stays untouched until the chain proves that only its funding was
  sent: unless the read funding receipt and transaction name the treasury signer, the wallet, a positive
  amount and the saved hash, and both nonces of the wallet are zero, a run changes nothing and sends nothing.
\<close>

theorem unknown_preparation_needs_proof:
  assumes "approveUserForSpendingViaFunding env topup u treasury required d = (d', sent, approvals, x)"
    and "approval_asset env treasury = Inr asset" and "approval_plan_of env topup u treasury asset = p"
    and "find_approval d (vp_key p) = Some r" and "ap_status r = AP_UNKNOWN"
  shows "d' = d \<and> sent = [] \<and> approvals = [] \<or>
    (\<exists>h receipt t. nonempty (ap_funding_hash r) = Some h \<and> nonempty (ap_approval_hash r) = None
     \<and> mg_receipt (va_managed env) h = Inr (Some receipt) \<and> status_number (nr_status receipt) = 1
     \<and> same_column (nr_to receipt) (vp_wallet p) \<and> same_column (nr_from receipt) (ac_signerAddress asset)
     \<and> mg_transaction (va_managed env) h = Inr (Some t) \<and> js_lower (js_trim (nx_hash t)) = js_lower (js_trim h)
     \<and> same_column (nx_to t) (vp_wallet p) \<and> same_column (nx_from t) (ac_signerAddress asset) \<and> 0 < nx_value t
     \<and> va_latest_nonce env (vp_wallet p) = Inr 0 \<and> va_pending_nonce env (vp_wallet p) = Inr 0)"
  using assms(1)
proof (cases rule: approve_runs)
  case stopped
  then show ?thesis by simp
next
  case (prepared asset')
  then have run: "claimed_preparation env p asset d = (d', sent, approvals, x)" using assms(2,3) by simp
  show ?thesis
  proof (cases "approval_saving env Save_Preparation (claimApproval (approval_clock env) (preparation_request p asset) d)")
    case (Inl e)
    then show ?thesis using run by (simp add: claimed_preparation_def preparation_request_def)
  next
    case (Inr y)
    then have "va_saved env Save_Preparation" and "claimApproval (approval_clock env) (preparation_request p asset) d = Inr y" by simp_all
    moreover obtain c d1 where y: "y = (c, d1)" by (metis surj_pair)
    ultimately have c: "d1 = d" "\<not> apc_acquired c" "apc_record c = r"
      using unknown_is_not_reclaimed [of _ "preparation_request p asset"] assms(4,5) by (auto simp: preparation_request_def)
    obtain d2 z where res: "resume_unknown env (vp_key p) (vp_wallet p) (ac_signerAddress asset) r d = (d2, z)" by (metis surj_pair)
    have run': "(case z of Inl e \<Rightarrow> (d2, [], [], Inl e) | Inr r \<Rightarrow> prepare_wallet env p False r d2) = (d', sent, approvals, x)"
      using run c assms(5) res unfolding claimed_preparation_def preparation_request_def [symmetric] Inr y by simp
    show ?thesis
    proof (cases "proveUnknownFundingOnlyPreparation env r (vp_wallet p) (ac_signerAddress asset) = Inr ()")
      case True
      from proof_holds [OF this] show ?thesis ..
    next
      case False
      then have "d2 = d" "\<And>v. z \<noteq> Inr v" using resume_facts(2) [OF res] by blast+
      then show ?thesis using run' by (cases z) auto
    qed
  qed
qed

theorem unknown_preparation_needs_proof_witness:
  "\<exists>d'. sample_approve (Some ''0xA1'') 200 unknown_db = (d', [], [''0xe''], Inr ())
     \<and> (\<exists>h receipt. nonempty (ap_funding_hash unknown_preparation) = Some h
       \<and> mg_receipt (va_managed (sample_approval_env (Some ''0xA1'') 200)) h = Inr (Some receipt) \<and> status_number (nr_status receipt) = 1)"
proof -
  obtain d' where a: "sample_approve (Some ''0xA1'') 200 unknown_db = (d', [], [''0xe''], Inr ())"
    using sample_approval_run by blast
  have "find_approval unknown_db sample_approval_key = Some unknown_preparation" "ap_status unknown_preparation = AP_UNKNOWN"
    by (simp_all add: unknown_db_def find_approval_def unknown_preparation_def)
  with unknown_preparation_needs_proof [OF a [unfolded sample_approve_def sample_approve_for_def] sample_approval_asset sample_approval_plan]
  show ?thesis using a by auto
qed

text \<open>
   an offer to try the preparation again is safe: a run whose failure is marked retryable or as a failed
  preflight has sent neither funding nor an approval.
\<close>

theorem retryable_approval_sent_nothing:
  assumes "accounts_ok d"
    and "approveUserForSpendingViaFunding env topup u treasury required d = (d', sent, approvals, Inl (Approval_Failure f))"
    and "vf_retryable f \<or> vf_preflight f"
  shows "sent = [] \<and> approvals = []"
proof -
  obtain asset where w: "prepared_well env (approval_plan_of env topup u treasury asset) d (d', sent, approvals, Inl (Approval_Failure f))"
    using approve_well [OF assms(2,1)] by blast
  moreover have "\<not> review_error (Approval_Failure f)" using assms(3) by (auto simp: for_review_def)
  ultimately show ?thesis by (auto simp: prepared_well_def)
qed

theorem retryable_approval_sent_nothing_witness:
  "\<exists>d' sent approvals f. sample_approve None 0 empty_db = (d', sent, approvals, Inl (Approval_Failure f)) \<and> vf_retryable f
     \<and> sent = [] \<and> approvals = []"
proof -
  obtain d' f where a: "sample_approve None 0 empty_db = (d', [], [], Inl (Approval_Failure f))" "vf_retryable f"
    using sample_refused_approval [of empty_db None 0] by (auto simp: sample_approve_def required_wei_def empty_db_def)
  from retryable_approval_sent_nothing [OF empty_accounts_ok a(1) [unfolded sample_approve_def sample_approve_for_def]] show ?thesis using a by blast
qed

end
