(* ===== verification/AutoLaws.thy ===== *)
theory AutoLaws
  imports AutoSpend ApprovalLaws SpendLaws
begin

text \<open>
  Guarantees of a spend with automatic approval: the second attempt never follows a first one that sent
  something, both use one key, and a result that offers a retry has sent nothing.
\<close>

subsection \<open>Runs\<close>

lemma auto_request_key: "spend_key_of env (auto_spend_request q k) = Inr k'' \<Longrightarrow> k'' = k"
  by (auto simp: spend_key_of_def auto_spend_request_def rbind_Inr_iff)

lemma attempt_history:
  assumes "processSpend env (auto_spend_request q k) d = (d', sent, x)" and "accounts_ok d"
  shows "open_step\<^sup>*\<^sup>* d d'" and "sent \<noteq> [] \<Longrightarrow> sends_under k d d' sent" and "sent \<noteq> [] \<Longrightarrow> \<not> may_retry x"
proof -
  note h = process_spend_history [OF assms]
  show "open_step\<^sup>*\<^sup>* d d'" "sent \<noteq> [] \<Longrightarrow> \<not> may_retry x" using h by blast+
  assume s: "sent \<noteq> []"
  have "sends_under (spend_run_key (env, auto_spend_request q k)) d d' sent" using h s by blast
  moreover have "spend_run_key (env, auto_spend_request q k) = k"
  proof (cases "spend_key_of env (auto_spend_request q k)")
    case (Inl e)
    then have "sent = []" using assms(1) by (auto simp: processSpend_def Let_def split: if_splits option.splits)
    then show ?thesis using s by simp
  next
    case (Inr k')
    then show ?thesis using auto_request_key [OF Inr] by (simp add: spend_run_key_def)
  qed
  ultimately show "sends_under k d d' sent" by simp
qed

text \<open>A run stops before the spends, after the first one, in the preparation, or after the second one.\<close>

lemma auto_cases:
  assumes "processSpendWithAutoApproval env q d = (d', sent, funding, approvals, r)"
  obtains (refused) e where "d' = d" "sent = []" "funding = []" "approvals = []" "r = plain_result (refused_spend (sa_amount q) (sa_user q) None e)"
  | (once) k x where "auto_key env q = Inr k" "processSpend (au_first env) (auto_spend_request q k) d = (d', sent, x)"
      "funding = []" "approvals = []" "r = plain_result x"
  | (unprepared) k x d1 treasury sent1 e where "auto_key env q = Inr k"
      "processSpend (au_first env) (auto_spend_request q k) d = (d1, sent1, x)" "eligible_for_approval x" "sent = sent1"
      "approveUserForSpendingViaFunding (au_approval env) (au_topup env) (sa_uid q) treasury (Some (sa_amount q)) d1
        = (d', funding, approvals, Inl e)" "r = approval_failed x e"
  | (twice) k x d1 treasury sent1 sent2 d2 y where "auto_key env q = Inr k"
      "processSpend (au_first env) (auto_spend_request q k) d = (d1, sent1, x)" "eligible_for_approval x" "sent = sent1 @ sent2"
      "approveUserForSpendingViaFunding (au_approval env) (au_topup env) (sa_uid q) treasury (Some (sa_amount q)) d1
        = (d2, funding, approvals, Inr ())" "processSpend (au_second env) (auto_spend_request q k) d2 = (d', sent2, y)" "r = plain_result y"
proof (cases "auto_key env q")
  case (Inl e)
  then show thesis using assms by (intro refused) (auto simp: processSpendWithAutoApproval_def)
next
  case k: (Inr k)
  obtain d1 sent1 x where first: "processSpend (au_first env) (auto_spend_request q k) d = (d1, sent1, x)" by (metis surj_pair)
  show thesis
  proof (cases "eligible_for_approval x \<and> auto_treasury env \<noteq> None")
    case False
    then show thesis using assms k first
      by (intro once) (auto simp: processSpendWithAutoApproval_def split: if_splits)
  next
    case True
    then obtain treasury where t: "auto_treasury env = Some treasury" by blast
    obtain d2 f a z where app: "approveUserForSpendingViaFunding (au_approval env) (au_topup env) (sa_uid q) treasury (Some (sa_amount q)) d1
        = (d2, f, a, z)" by (metis surj_pair)
    show thesis
    proof (cases z)
      case (Inl e)
      then show thesis using assms k first True t app
        by (intro unprepared [of k d1 sent1 x treasury e]) (auto simp: processSpendWithAutoApproval_def approve_and_repeat_def)
    next
      case (Inr u)
      obtain d3 s2 y where second: "processSpend (au_second env) (auto_spend_request q k) d2 = (d3, s2, y)" by (metis surj_pair)
      then show thesis using assms k first True t app Inr
        by (intro twice [of k d1 sent1 x s2 treasury d2 y]) (auto simp: processSpendWithAutoApproval_def approve_and_repeat_def)
    qed
  qed
qed

lemma eligible_sent_nothing: "eligible_for_approval x \<Longrightarrow> may_retry x"
  by (simp add: eligible_for_approval_def may_retry_def)

lemma preparation_steps:
  assumes "approveUserForSpendingViaFunding env topup u treasury required d = (d', funding, approvals, x)" and "accounts_ok d"
  shows "open_step\<^sup>*\<^sup>* d d'" and "x = Inl e \<Longrightarrow> review_error e \<or> funding = [] \<and> approvals = []"
  using approve_well [OF assms] by (auto simp: prepared_well_def)

type_synonym auto_call = "auto_env \<times> auto_request"

definition auto_runs :: "auto_call \<Rightarrow> db \<Rightarrow> db \<Rightarrow> string list \<Rightarrow> bool" where
  "auto_runs c d d' sent \<longleftrightarrow> (\<exists>funding approvals r. processSpendWithAutoApproval (fst c) (snd c) d = (d', sent, funding, approvals, r))"

definition auto_call_key :: "auto_call \<Rightarrow> string" where
  "auto_call_key c = (case auto_key (fst c) (snd c) of Inl _ \<Rightarrow> [] | Inr k \<Rightarrow> k)"

lemma auto_history:
  assumes "processSpendWithAutoApproval env q d = (d', sent, funding, approvals, r)" and ok: "accounts_ok d"
  shows "open_step\<^sup>*\<^sup>* d d' \<and> (sent \<noteq> [] \<longrightarrow> sends_under (auto_call_key (env, q)) d d' sent \<and> \<not> may_retry (ao_spend r))"
  using assms(1)
proof (cases rule: auto_cases)
  case (once k x)
  then show ?thesis using attempt_history [OF once(2) ok] by (simp add: auto_call_key_def plain_result_def)
next
  case (unprepared k x d1 treasury sent1 e)
  note first = attempt_history [OF unprepared(2) ok]
  have "sent = []" using first(3) eligible_sent_nothing [OF unprepared(3)] unprepared(4) by auto
  then show ?thesis using rtranclp_trans [OF first(1) preparation_steps(1) [OF unprepared(5) open_accounts [OF first(1) ok]]] by simp
next
  case (twice k x d1 treasury sent1 sent2 d2 y)
  note first = attempt_history [OF twice(2) ok]
  note prep = rtranclp_trans [OF first(1) preparation_steps(1) [OF twice(5) open_accounts [OF first(1) ok]]]
  note second = attempt_history [OF twice(6) open_accounts [OF prep ok]]
  have "sent = sent2" using first(3) eligible_sent_nothing [OF twice(3)] twice(4) by auto
  then show ?thesis using rtranclp_trans [OF prep second(1)] second(2,3) sends_under_earlier [OF open_records [OF prep]] twice(1,7)
    by (simp add: auto_call_key_def plain_result_def)
qed simp

interpretation auto_sender: keyed_sender auto_runs auto_call_key
  by unfold_locales (use auto_history open_records in \<open>force simp: auto_runs_def\<close>)+

lemma sends_under_single:
  assumes "sends_under k d d' sent" and "accounts_ok d"
  shows "length sent \<le> 1"
proof -
  obtain ch now q dc r da where a: "recording_step\<^sup>*\<^sup>* d dc" "prepareAndBroadcastTransaction ch now q dc = (da, sent, r)"
    using assms(1) by (auto simp: sends_under_def)
  have "leases_ok dc" using award_store.steps_invar [OF a(1) assms(2)] by (simp add: accounts_ok_def service_ok_def)
  with a(2) show ?thesis by (cases rule: run_cases) auto
qed

subsection \<open>Failed preparations\<close>

lemma failure_fields:
  "at_key (asUnknownRecord (error_fields (approval_rejection (Approval_Failure f)))) ''requiresReview'' = JBool (vf_requiresReview f)"
  "at_key (asUnknownRecord (error_fields (Rejected_Error m []))) k = JUndef"
  by (simp_all add: approval_rejection_def error_fields_def asUnknownRecord_def as_object_def at_key_def failure_value_def)

lemma review_is_shown:
  assumes "review_error e"
  shows "\<not> sx_retryable (ao_spend (approval_failed x e))" and "\<not> sx_preflightFailure (ao_spend (approval_failed x e))"
proof -
  let ?look = "at_key (asUnknownRecord (error_fields (approval_rejection e)))"
  have "or_bool (?look ''requiresReview'') True" "\<not> or_bool (?look ''preflightFailure'') False"
    using assms by (cases e; auto simp: review_error_def failure_fields for_review_def or_bool_def plain_error_def approval_rejection_def
      error_fields_def asUnknownRecord_def as_object_def at_key_def failure_value_def)+
  then show "\<not> sx_retryable (ao_spend (approval_failed x e))" "\<not> sx_preflightFailure (ao_spend (approval_failed x e))"
    by (simp_all add: approval_failed_def Let_def split: option.splits)
qed

subsection \<open>Guarantees\<close>

text \<open>
  C5: a spend with automatic approval is sent at most once: one run sends at most one spend although it may
  try twice, and no later run under the same key sends another, whatever the service did between them and
  whatever the chain answered.
\<close>

theorem auto_spend_sent_at_most_once:
  assumes "accounts_ok d" and "processSpendWithAutoApproval env q d = (d1, sent, funding, approvals, r)" and "sent \<noteq> []"
    and "recording_step\<^sup>*\<^sup>* d1 d2" and "processSpendWithAutoApproval env' q' d2 = (d3, sent', funding', approvals', r')"
    and "auto_key env q = Inr k" and "auto_key env' q' = Inr k"
  shows "length sent = 1 \<and> sent' = []"
proof -
  have k: "auto_call_key (env', q') = auto_call_key (env, q)" by (simp add: auto_call_key_def assms(6,7))
  have runs: "auto_runs (env, q) d d1 sent" "auto_runs (env', q') d2 d3 sent'" using assms(2,5) by (auto simp: auto_runs_def)
  have "length sent \<le> 1" using auto_history [OF assms(2,1)] sends_under_single [OF _ assms(1)] assms(3) by blast
  then show ?thesis
    using auto_sender.sent_once [OF runs(1) assms(1,3,4) runs(2) k] assms(3) by (cases sent) auto
qed

definition sample_auto :: auto_request where
  "sample_auto = \<lparr>sa_uid = ''U'', sa_user = ''0xB2'', sa_amount = Fin (of_nat 3), sa_session = Some ''s1'', sa_provider = Some ''P'',
     sa_reservation = Some ''r1'', sa_operationKey = Some sample_spend_key, sa_idempotencyKey = Some ''i1'', sa_settlement = None\<rparr>"

definition sample_auto_env :: "evidence_view option \<Rightarrow> int \<Rightarrow> auto_env" where
  "sample_auto_env e n = \<lparr>au_first = sample_spend_env e n, au_approval = sample_approval_env None 0, au_second = sample_spend_env e n,
     au_topup = ''t''\<rparr>"

lemma sample_auto_fields [simp]:
  "au_first (sample_auto_env e n) = sample_spend_env e n" "au_second (sample_auto_env e n) = sample_spend_env e n"
  "au_approval (sample_auto_env e n) = sample_approval_env None 0" "au_topup (sample_auto_env e n) = ''t''"
  "sa_uid sample_auto = ''U''" "sa_amount sample_auto = Fin (of_nat 3)"
  by (simp_all add: sample_auto_env_def sample_auto_def)

lemma sample_auto_key: "auto_key (sample_auto_env e n) sample_auto = Inr sample_spend_key"
proof -
  have "js_trim ''i1'' \<noteq> []" "js_trim sample_spend_key \<noteq> []" unfolding sample_spend_key_def by code_simp+
  then show ?thesis by (simp add: auto_key_def sample_auto_def isStableSpendKey_def guard_def)
qed

lemma sample_auto_attempt:
  "processSpend (sample_spend_env e n) (auto_spend_request sample_auto sample_spend_key) d = processSpend (sample_spend_env e n) sample_request d"
proof -
  have "js_trim ''i1'' \<noteq> []" "js_trim sample_spend_key \<noteq> []" unfolding sample_spend_key_def by code_simp+
  then have "spend_key_of (sample_spend_env e n) keyed_sample = Inr sample_spend_key"
    by (simp add: spend_key_of_def keyed_sample_def sample_request_def isNonEmptyOperationKey_def guard_def)
  moreover have "auto_spend_request sample_auto sample_spend_key = keyed_sample"
    by (simp add: auto_spend_request_def sample_auto_def keyed_sample_def sample_request_def)
  moreover have "prepareSpend keyed_sample" "canonicalTokenAmount (JNum (sq_amount keyed_sample)) = Some three_tokens"
    using sample_spend_prepared by (simp_all add: prepareSpend_def keyed_sample_def)
  moreover have k: "keyed_sample\<lparr>sq_operationKey := Some sample_spend_key\<rparr> = keyed_sample"
    "sample_request\<lparr>sq_operationKey := Some sample_spend_key\<rparr> = keyed_sample" by (simp_all add: keyed_sample_def)
  ultimately show ?thesis
    using sample_spend_key_of sample_spend_prepared by (simp add: processSpend_def Let_def k)
qed

lemma sample_auto_sends:
  "\<exists>d' r. processSpendWithAutoApproval (sample_auto_env (Some spend_chain) (10 ^ 19)) sample_auto empty_db = (d', [''0x02''], [], [], r)"
proof -
  obtain d' x where a: "processSpend (sample_spend_env (Some spend_chain) (10 ^ 19)) sample_request empty_db = (d', [''0x02''], x)"
    and "sx_success x" using sample_spend_run by blast
  then have "\<not> eligible_for_approval x" by (simp add: eligible_for_approval_def)
  then show ?thesis using a sample_auto_key [of "Some spend_chain" "10 ^ 19"]
    by (simp add: processSpendWithAutoApproval_def sample_auto_attempt)
qed

theorem auto_spend_sent_at_most_once_witness:
  "\<exists>d1 sent r d2 f a r'. processSpendWithAutoApproval (sample_auto_env (Some spend_chain) (10 ^ 19)) sample_auto empty_db = (d1, sent, [], [], r)
     \<and> length sent = 1 \<and> processSpendWithAutoApproval (sample_auto_env None 0) sample_auto d1 = (d2, [], f, a, r')"
proof -
  obtain d1 r where a: "processSpendWithAutoApproval (sample_auto_env (Some spend_chain) (10 ^ 19)) sample_auto empty_db
      = (d1, [''0x02''], [], [], r)" using sample_auto_sends by blast
  obtain d2 s f p r' where b: "processSpendWithAutoApproval (sample_auto_env None 0) sample_auto d1 = (d2, s, f, p, r')"
    by (metis surj_pair)
  have "length [''0x02''] = 1 \<and> s = []"
    by (rule auto_spend_sent_at_most_once [OF empty_accounts_ok a _ rtranclp.rtrancl_refl b]) (simp_all add: sample_auto_key)
  then show ?thesis using a b by blast
qed

text \<open>
   when a spend with automatic approval offers a retry, or reports a failed check, no spend was sent; and
  when it is the preparation that failed so, neither the treasury nor the wallet sent anything either.
\<close>

theorem auto_retry_is_safe:
  assumes "accounts_ok d" and "processSpendWithAutoApproval env q d = (d', sent, funding, approvals, r)"
    and "sx_retryable (ao_spend r) \<or> sx_preflightFailure (ao_spend r)"
  shows "sent = [] \<and> (ao_approvalError r = None \<or> funding = [] \<and> approvals = [])"
proof -
  have sent: "sent = []" using auto_history [OF assms(2,1)] assms(3) by (auto simp: may_retry_def)
  have "ao_approvalError r = None \<or> funding = [] \<and> approvals = []" using assms(2)
  proof (cases rule: auto_cases)
    case (unprepared k x d1 treasury sent1 e)
    have "accounts_ok d1" by (rule open_accounts [OF attempt_history(1) [OF unprepared(2) assms(1)] assms(1)])
    then show ?thesis
      using preparation_steps(2) [OF unprepared(5) _ refl] review_is_shown [of e x] assms(3) unprepared(6) by auto
  qed (simp_all add: plain_result_def)
  with sent show ?thesis by simp
qed

theorem auto_retry_is_safe_witness:
  "\<exists>d' sent funding approvals r.
     processSpendWithAutoApproval (sample_auto_env None 0) sample_auto empty_db = (d', sent, funding, approvals, r)
     \<and> sx_preflightFailure (ao_spend r) \<and> ao_approvalError r \<noteq> None \<and> sent = [] \<and> funding = [] \<and> approvals = []"
proof -
  define x where "x = preflight_refused (sample_spend_env None 0) keyed_sample sample_spend_key
      (KnownSpendPreflightFailure (''insufficient allowance for 0xa1: '' @ bigint_string 0 @ '' < '' @ bigint_string (3 * 10 ^ 18)))
      (empty_db\<lparr>t_operations := [sample_spend_row]\<rparr>)"
  have first: "processSpend (sample_spend_env None 0) sample_request empty_db = (fst x, [], snd x)"
    using sample_preflight [of None 0]
    by (simp add: sample_spend_reaches_claim claimed_spend_def sample_spend_row(4) x_def split: prod.split)
  have e: "eligible_for_approval (snd x)"
    by (auto simp: x_def preflight_refused_def Let_def preflightFailureResult_def refused_spend_def eligible_for_approval_def nonempty_def
      split: prod.splits)
  have t: "t_approvals (fst x) = []"
    by (auto simp: x_def preflight_refused_def Let_def empty_db_def markPreflightFailed_def mark_operation_def update_operations_def split: prod.splits option.splits if_splits)
  have "required_wei (Some (Fin (of_nat 3))) = Inr (1 + int 2999999999999999999)"
    using three_tokens sample_spend_prepared(2) by (simp add: required_wei_def of_option_def token_wei_def sample_request_def del: of_nat_numeral)
  then obtain d2 f where prep: "sample_approve_for (Some (Fin (of_nat 3))) None 0 (fst x) = (d2, [], [], Inl (Approval_Failure f))"
    "vf_preflight f" using sample_refused_approval [OF t] by blast
  have a: "auto_treasury (sample_auto_env None 0) = Some ''0xA1''"
    by (simp add: auto_treasury_def sample_auto_env_def) (simp add: sample_award_env_def nonempty_def)
  define r where "r = approval_failed (snd x) (Approval_Failure f)"
  have run: "processSpendWithAutoApproval (sample_auto_env None 0) sample_auto empty_db = (d2, [], [], [], r)"
    using first e prep(1) a
    by (simp add: processSpendWithAutoApproval_def sample_auto_key sample_auto_attempt approve_and_repeat_def sample_approve_for_def r_def
      del: of_nat_numeral)
  have p: "sx_preflightFailure (ao_spend r)" "ao_approvalError r \<noteq> None"
    using prep(2) by (simp_all add: r_def approval_failed_def Let_def failure_value_def approval_rejection_def error_fields_def
      asUnknownRecord_def as_object_def at_key_def or_bool_def split: option.split)
  have "ao_approvalError r = None \<or> ([]::string list) = []"
    using auto_retry_is_safe [OF empty_accounts_ok run] p(1) by simp
  then show ?thesis using run p by blast
qed

end
