(* ===== verification/ReceiptStore.thy ===== *)
theory ReceiptStore
  imports Receipt Projections PublicFailure
begin

text \<open>
  \<open>createAndStoreSpendReceipt\<close> of \<open>src/api.ts\<close>: a settled spend gets one signed receipt; a receipt that is stored
  already is handed out again only when its payload, its row and its signature fit the request. The
  surroundings of a run: the network of the provider, the configured chain and contract, signing, the
  answers of the database, and what other requests stored while this one signed. Audit records are left out.
\<close>

datatype receipt_conflict =
    Payload_Unreadable | Version_Unsupported | Contract_Id_Differs | Payload_Address_Invalid | Payload_Wallet_Differs
  | Payload_Token_Differs | Payload_Amount_Differs | Payload_Session_Differs | Payload_Provider_Differs | Payload_Hash_Differs
  | Payload_Chain_Differs | Row_Owner_Differs | Row_Wallet_Differs | Row_Amount_Differs | Row_Session_Differs
  | Row_Provider_Differs | Row_Hash_Differs | Row_Token_Invalid | Row_Token_Differs | Row_Chain_Differs | Row_Signer_Missing
  | Row_Signer_Differs | Signature_Untrusted verification_failure

datatype receipt_problem =
    Receipt_Amount_Invalid | Receipt_Hash_Invalid | Receipt_Provider_Missing | Receipt_Network_Unread | Receipt_Chain_Invalid
  | Receipt_Chain_Mismatch | Receipt_Chain_Unsupported | Receipt_Token_Invalid | Receipt_Wallet_Invalid
  | Receipt_Signer_Unavailable | Receipt_Lookup_Failed | Receipt_Db db_error | Receipt_Unsigned
  | Receipt_Conflict receipt_conflict | Receipt_Pending | Receipt_Pending_Unread

datatype write_answer = Write_Done | Write_Failed | Write_Unanswered

record receipt_env =
  xe_provider :: bool
  xe_network :: "nat option"
  xe_configured_chain :: "string option"
  xe_token_contract :: string
  xe_checksum :: "string \<Rightarrow> string option"
  xe_signer :: "string option"
  xe_sha256 :: "string \<Rightarrow> string"
  xe_uuid :: string
  xe_clock :: int
  xe_sign :: "string \<Rightarrow> string option"
  xe_recover :: "string \<Rightarrow> string \<Rightarrow> string option"
  xe_reads :: bool
  xe_meanwhile :: "db \<Rightarrow> db"
  xe_write :: write_answer
  xe_rereads :: bool

record receipt_query =
  rs_uid :: string
  rs_wallet :: string
  rs_amount :: js_number
  rs_session :: "string option"
  rs_provider :: "string option"
  rs_txHash :: string

record stored_receipt =
  sd_payload :: jsv
  sd_signature :: string
  sd_signer :: string
  sd_text :: string

text \<open>What a receipt must say.\<close>

record receipt_intent =
  rk_uid :: string
  rk_wallet :: string
  rk_amount :: canonical_amount
  rk_session :: "string option"
  rk_provider :: "string option"
  rk_hash :: string
  rk_contract :: string
  rk_chain :: nat
  rk_signer :: string

definition getAuthoritativeChainId :: "receipt_env \<Rightarrow> receipt_problem + nat" where
  "getAuthoritativeChainId env =
     rbind (guard (xe_provider env) Receipt_Provider_Missing) (\<lambda>_.
     rbind (of_option Receipt_Network_Unread (xe_network env)) (\<lambda>chain.
     case xe_configured_chain env of
       None \<Rightarrow> Inr chain
     | Some c \<Rightarrow>
         rbind (guard (c \<noteq> [] \<and> list_all is_digit c) Receipt_Chain_Invalid) (\<lambda>_.
         rbind (guard (digits_val c = chain) Receipt_Chain_Mismatch) (\<lambda>_. Inr chain))))"

definition receipt_intent_of :: "receipt_env \<Rightarrow> receipt_query \<Rightarrow> receipt_problem + receipt_intent" where
  "receipt_intent_of env q =
     rbind (of_option Receipt_Amount_Invalid (canonicalTokenAmount (JNum (rs_amount q)))) (\<lambda>a.
     rbind (guard (0 < units a) Receipt_Amount_Invalid) (\<lambda>_.
     rbind (of_option Receipt_Hash_Invalid (canonicalTxHash (JStr (rs_txHash q)))) (\<lambda>h.
     rbind (getAuthoritativeChainId env) (\<lambda>chain.
     rbind (guard (chain < 2 ^ 53) Receipt_Chain_Unsupported) (\<lambda>_.
     rbind (of_option Receipt_Token_Invalid (xe_checksum env (xe_token_contract env))) (\<lambda>contract.
     rbind (of_option Receipt_Wallet_Invalid (xe_checksum env (rs_wallet q))) (\<lambda>wallet.
     rbind (of_option Receipt_Signer_Unavailable (xe_signer env)) (\<lambda>signer.
     Inr \<lparr>rk_uid = rs_uid q, rk_wallet = wallet, rk_amount = a, rk_session = rs_session q, rk_provider = rs_provider q,
          rk_hash = h, rk_contract = contract, rk_chain = chain, rk_signer = signer\<rparr>))))))))"

subsection \<open>A stored receipt\<close>

definition normaliseOptionalContext :: "jsv \<Rightarrow> string option" where
  "normaliseOptionalContext v = (if is_nullish v then None else Some (js_string v))"

text \<open>The parsed payload; an array passes the test of the code and has none of the fields.\<close>

definition stored_payload :: "string \<Rightarrow> receipt_conflict + jsv" where
  "stored_payload text =
     rbind (of_option Payload_Unreadable (json_parse text)) (\<lambda>v.
     rbind (guard (case v of JObj _ \<Rightarrow> True | JArr _ \<Rightarrow> True | _ \<Rightarrow> False) Payload_Unreadable) (\<lambda>_. Inr v))"

definition check_payload :: "receipt_env \<Rightarrow> receipt_intent \<Rightarrow> jsv \<Rightarrow> receipt_conflict + unit" where
  "check_payload env i v =
     (let look = at_key (as_object v) in
      rbind (guard (look ''version'' = JStr ''1.0'' \<and> look ''status'' = JStr ''settled'') Version_Unsupported) (\<lambda>_.
      rbind (guard (look ''contractId'' = JStr (rk_uid i)) Contract_Id_Differs) (\<lambda>_.
      rbind (of_option Payload_Address_Invalid (xe_checksum env (js_string (look ''walletAddress'')))) (\<lambda>wallet.
      rbind (of_option Payload_Address_Invalid (xe_checksum env (js_string (look ''tokenContractAddress'')))) (\<lambda>contract.
      rbind (guard (same_text wallet (rk_wallet i)) Payload_Wallet_Differs) (\<lambda>_.
      rbind (guard (same_text contract (rk_contract i)) Payload_Token_Differs) (\<lambda>_.
      rbind (guard (map_option units (canonicalTokenAmount (look ''amount'')) = Some (units (rk_amount i))) Payload_Amount_Differs) (\<lambda>_.
      rbind (guard (normaliseOptionalContext (look ''sessionId'') = rk_session i) Payload_Session_Differs) (\<lambda>_.
      rbind (guard (normaliseOptionalContext (look ''providerId'') = rk_provider i) Payload_Provider_Differs) (\<lambda>_.
      rbind (guard (canonicalTxHash (look ''tokenTxHash'') = Some (rk_hash i)) Payload_Hash_Differs) (\<lambda>_.
      guard (js_string (look ''chainId'') = nat_text (rk_chain i)) Payload_Chain_Differs)))))))))))"

definition check_receipt_row :: "receipt_env \<Rightarrow> receipt_intent \<Rightarrow> receipt_row \<Rightarrow> receipt_conflict + unit" where
  "check_receipt_row env i r =
     rbind (guard (rc_uid r = rk_uid i) Row_Owner_Differs) (\<lambda>_.
     rbind (guard (same_text (rc_wallet r) (rk_wallet i)) Row_Wallet_Differs) (\<lambda>_.
     rbind (guard (map_option units (canonicalTokenAmount (JStr (numeric2_text (rc_amount r)))) = Some (units (rk_amount i)))
         Row_Amount_Differs) (\<lambda>_.
     rbind (guard (rc_session_id r = rk_session i) Row_Session_Differs) (\<lambda>_.
     rbind (guard (rc_provider_id r = rk_provider i) Row_Provider_Differs) (\<lambda>_.
     rbind (guard (canonicalTxHash (JStr (rc_token_tx_hash r)) = Some (rk_hash i)) Row_Hash_Differs) (\<lambda>_.
     rbind (of_option Row_Token_Invalid (xe_checksum env (rc_token_contract r))) (\<lambda>contract.
     rbind (guard (same_text contract (rk_contract i)) Row_Token_Differs) (\<lambda>_.
     rbind (guard (rc_chain_id r = rk_chain i) Row_Chain_Differs) (\<lambda>_.
     rbind (guard (rc_signer r \<noteq> []) Row_Signer_Missing) (\<lambda>_.
     guard (same_text (rc_signer r) (rk_signer i)) Row_Signer_Differs))))))))))"

text \<open>\<open>verifySpendReceiptAgainstTrustedSigner\<close> on the text that was signed.\<close>

definition verify_text ::
    "(string \<Rightarrow> string \<Rightarrow> string option) \<Rightarrow> (string \<Rightarrow> string option) \<Rightarrow> string \<Rightarrow> string \<Rightarrow> string \<Rightarrow> string
     \<Rightarrow> verification_failure + string" where
  "verify_text recover checksum text signature claimed trusted =
     rbind (of_option INVALID_TRUSTED_SIGNER (checksum trusted)) (\<lambda>trustedAddress.
     rbind (of_option INVALID_CLAIMED_SIGNER (checksum claimed)) (\<lambda>claimedAddress.
     rbind (guard (js_lower claimedAddress = js_lower trustedAddress) SIGNER_MISMATCH) (\<lambda>_.
     rbind (of_option (INVALID_SIGNATURE None) (recover text signature)) (\<lambda>recovered.
     rbind (guard (js_lower recovered = js_lower trustedAddress) (INVALID_SIGNATURE (Some recovered))) (\<lambda>_.
     Inr recovered)))))"

lemma verify_text_payload:
  "verifySpendReceiptAgainstTrustedSigner recover checksum p = verify_text recover checksum (canonicalizeReceiptPayload p)"
  by (intro ext) (simp add: verifySpendReceiptAgainstTrustedSigner_def verify_text_def)

definition validateStoredReceipt :: "receipt_env \<Rightarrow> receipt_intent \<Rightarrow> receipt_row \<Rightarrow> receipt_conflict + stored_receipt" where
  "validateStoredReceipt env i r =
     rbind (stored_payload (rc_payload r)) (\<lambda>v.
     rbind (check_payload env i v) (\<lambda>_.
     rbind (check_receipt_row env i r) (\<lambda>_.
     case verify_text (xe_recover env) (xe_checksum env) (Receipt.json_stringify (sortForCanonicalJson v)) (rc_signature r) (rc_signer r)
         (rk_signer i) of
       Inl f \<Rightarrow> Inl (Signature_Untrusted f)
     | Inr _ \<Rightarrow> Inr \<lparr>sd_payload = v, sd_signature = rc_signature r, sd_signer = rc_signer r, sd_text = rc_payload r\<rparr>)))"

definition validated :: "receipt_env \<Rightarrow> receipt_intent \<Rightarrow> receipt_row \<Rightarrow> receipt_problem + stored_receipt" where
  "validated env i r = map_sum Receipt_Conflict id (validateStoredReceipt env i r)"

subsection \<open>A new receipt\<close>

text \<open>Looked up under the canonical hash and, when the caller spelled it differently, once more as given.\<close>

definition receipt_under :: "receipt_query \<Rightarrow> string \<Rightarrow> db \<Rightarrow> db_error + receipt_row option" where
  "receipt_under q h d =
     rbind (findReceiptByTxHash d h) (\<lambda>r.
     if r = None \<and> rs_txHash q \<noteq> h then findReceiptByTxHash d (rs_txHash q) else Inr r)"

definition receipt_input_of :: "receipt_intent \<Rightarrow> receipt_input" where
  "receipt_input_of i = \<lparr>rn_contractId = rk_uid i, rn_walletAddress = rk_wallet i, rn_amount = JStr (decimal (rk_amount i)),
     rn_sessionId = rk_session i, rn_providerId = rk_provider i, rn_tokenTxHash = rk_hash i,
     rn_tokenContractAddress = rk_contract i, rn_chainId = rk_chain i, rn_issuedAt = None, rn_status = Some RS_SETTLED\<rparr>"

text \<open>The signed receipt of an intent.\<close>

definition signed_for :: "receipt_env \<Rightarrow> receipt_intent \<Rightarrow> receipt_problem + signed_receipt" where
  "signed_for env i =
     rbind (of_option Receipt_Wallet_Invalid (createSpendReceiptPayload (xe_sha256 env) (xe_checksum env) (xe_uuid env) (xe_clock env)
         (receipt_input_of i))) (\<lambda>p.
     rbind (of_option Receipt_Unsigned (xe_sign env (canonicalizeReceiptPayload p))) (\<lambda>s.
     Inr (signSpendReceipt (\<lambda>_. s) (rk_signer i) p)))"

definition payload_text :: "jsv \<Rightarrow> string option" where
  "payload_text v = (case v of JStr s \<Rightarrow> Some s | _ \<Rightarrow> None)"

definition receipt_data_of :: "receipt_env \<Rightarrow> signed_receipt \<Rightarrow> receipt_data" where
  "receipt_data_of env s =
     (let p = sg_payload s in
      \<lparr>rd_receiptId = rp_receiptId p, rd_uid = rp_contractId p, rd_wallet = rp_walletAddress p, rd_amount = rp_amount p,
       rd_sessionId = payload_text (rp_sessionId p), rd_providerId = payload_text (rp_providerId p),
       rd_status = receipt_status_text (receipt_payload.rp_status p), rd_tokenTxHash = rp_tokenTxHash p,
       rd_contract = rp_tokenContractAddress p, rd_chainId = rp_chainId p, rd_signer = sg_signerAddress s,
       rd_payload = sg_canonicalPayload s, rd_signature = sg_signature s, rd_issuedAt = xe_clock env\<rparr>)"

definition issued :: "signed_receipt \<Rightarrow> stored_receipt" where
  "issued s = \<lparr>sd_payload = payload_value (sg_payload s), sd_signature = sg_signature s, sd_signer = sg_signerAddress s,
     sd_text = sg_canonicalPayload s\<rparr>"

text \<open>After a failed write another request may have stored the receipt.\<close>

definition raced_receipt :: "receipt_env \<Rightarrow> receipt_query \<Rightarrow> receipt_intent \<Rightarrow> db \<Rightarrow> db \<times> (receipt_problem + stored_receipt)" where
  "raced_receipt env q i d =
     (d, if \<not> xe_rereads env then Inl Receipt_Pending_Unread
         else case receipt_under q (rk_hash i) d of
           Inl _ \<Rightarrow> Inl Receipt_Pending_Unread
         | Inr None \<Rightarrow> Inl Receipt_Pending
         | Inr (Some r) \<Rightarrow> validated env i r)"

definition store_receipt ::
    "receipt_env \<Rightarrow> receipt_query \<Rightarrow> receipt_intent \<Rightarrow> signed_receipt \<Rightarrow> db \<Rightarrow> db \<times> (receipt_problem + stored_receipt)" where
  "store_receipt env q i s d =
     (case (xe_write env, createReceipt (receipt_data_of env s) d) of
        (Write_Done, Inr (_, d')) \<Rightarrow> (d', Inr (issued s))
      | (Write_Unanswered, Inr (_, d')) \<Rightarrow> raced_receipt env q i d'
      | _ \<Rightarrow> raced_receipt env q i d)"

definition createAndStoreSpendReceipt :: "receipt_env \<Rightarrow> receipt_query \<Rightarrow> db \<Rightarrow> db \<times> (receipt_problem + stored_receipt)" where
  "createAndStoreSpendReceipt env q d =
     (case receipt_intent_of env q of
        Inl e \<Rightarrow> (d, Inl e)
      | Inr i \<Rightarrow>
          if \<not> xe_reads env then (d, Inl Receipt_Lookup_Failed)
          else (case receipt_under q (rk_hash i) d of
              Inl e \<Rightarrow> (d, Inl (Receipt_Db e))
            | Inr (Some r) \<Rightarrow> (d, validated env i r)
            | Inr None \<Rightarrow>
                (case signed_for env i of
                   Inl e \<Rightarrow> (d, Inl e)
                 | Inr s \<Rightarrow> store_receipt env q i s (xe_meanwhile env d))))"

text \<open>Only a conflict with a stored receipt asks for an operator.\<close>

definition receipt_review :: "receipt_problem \<Rightarrow> bool" where
  "receipt_review e = (case e of Receipt_Conflict _ \<Rightarrow> True | _ \<Rightarrow> False)"

end
