(* ===== verification/Settlement.thy ===== *)
theory Settlement
  imports AutoSpend ReceiptStore
begin

text \<open>
  \<open>settleReservationFromCdr\<close> of \<open>src/api.ts\<close>: a charging record settles the reservation of its session. The
  reservation is claimed, its delivered energy is made durable, the spend is sent under the key of the
  reservation (or, for nothing delivered, a zero operation is recorded), the reservation is completed and
  the receipt stored. Every failure after the claim leaves the reservation claimed. The surroundings say
  which calls of the database answer, what other requests did between the first look and the claim, and
  the texts of errors.
\<close>

datatype settle_call =
    Find_Reservation | Claim_Reservation | Find_Again | Find_Operation | Save_Context | Claim_Zero | Project_Zero
  | Complete_Reservation | Mark_Retry

datatype settle_problem =
    Call_Failed settle_call | Settlement_Amount token_error | Settled_Without_Hash | Receipt_Unrecovered receipt_problem
  | Intent_Unread | Intent_Missing | Intent_Asset_Unread | Intent_Asset_Changed context_mismatch
  | Stuck_Unread | Stuck_Settling | Context_Mismatch | Context_Unsaved | Zero_Asset_Unread | Zero_Claim_Refused db_error
  | Zero_Claim_Unsaved | Zero_Missing | Zero_Conflict | Zero_Asset_Changed context_mismatch | Zero_Unprojected
  | Release_Pending | Managed_Wallet_Unknown | Spend_Open "spend_problem option" "string option" | Completion_Pending
  | Receipt_Unstored receipt_problem | Reservation_Vanished

datatype financial_status = FIN_UNKNOWN | FIN_CONFIRMED | FIN_CONFIRMED_OR_PENDING

text \<open>The fields of \<open>makeTokenRecoveryError\<close>; \<open>retryable\<close> is not always stated.\<close>

record settle_failure =
  sf_problem :: settle_problem
  sf_pending :: bool
  sf_spendPending :: bool
  sf_settlementPending :: bool
  sf_preflight :: bool
  sf_retryable :: "bool option"
  sf_requiresReview :: bool
  sf_reservation :: string
  sf_txHash :: "string option"
  sf_outcome :: "movement_outcome option"
  sf_financial :: financial_status
  sf_code :: "string option"
  sf_stage :: "public_stage option"
  sf_diagnostic :: "diagnostic option"

text \<open>What a settlement throws: its own failures name the reservation, others do not.\<close>

datatype settle_error = Settlement_Failure settle_failure | Settlement_Thrown settle_problem

record settle_answer =
  sw_row :: reservation_row
  sw_receipt :: "stored_receipt option"
  sw_cleanup :: "bool option"

record settle_env =
  st_auto :: auto_env
  st_receipt :: receipt_env
  st_asset :: "asset_context option"
  st_managed :: "string \<Rightarrow> string option"
  st_answers :: "settle_call \<Rightarrow> bool"
  st_meanwhile :: "db \<Rightarrow> db"
  st_clock :: int
  st_ident :: string
  st_text :: "settle_problem \<Rightarrow> string"

text \<open>The database, what the spends sent, the gas funding, what the wallet sent, and the outcome.\<close>

type_synonym settle_run = "db \<times> string list \<times> string list \<times> string list \<times> (settle_error + settle_answer option)"

definition settle_session :: "session \<Rightarrow> string" where
  "settle_session s = (case nonempty (reservationSessionId s) of None \<Rightarrow> sessionId s | Some t \<Rightarrow> t)"

definition settle_sha :: "settle_env \<Rightarrow> string \<Rightarrow> string" where
  "settle_sha env = sha_of (se_base (au_first (st_auto env)))"

text \<open>A failure that leaves the financial state unknown, with the settlement still open.\<close>

definition open_failure :: "reservation_row \<Rightarrow> settle_problem \<Rightarrow> bool option \<Rightarrow> bool \<Rightarrow> settle_failure" where
  "open_failure r e retryable review =
     \<lparr>sf_problem = e, sf_pending = True, sf_spendPending = False, sf_settlementPending = True, sf_preflight = False,
      sf_retryable = retryable, sf_requiresReview = review, sf_reservation = rv_id r, sf_txHash = None, sf_outcome = None,
      sf_financial = FIN_UNKNOWN, sf_code = None, sf_stage = None, sf_diagnostic = None\<rparr>"

definition confirmed_failure :: "reservation_row \<Rightarrow> settle_problem \<Rightarrow> bool option \<Rightarrow> bool \<Rightarrow> string option \<Rightarrow> settle_failure" where
  "confirmed_failure r e retryable review h =
     (open_failure r e retryable review)\<lparr>sf_txHash := h, sf_financial := FIN_CONFIRMED\<rparr>"

subsection \<open>A settled reservation\<close>

definition same_hash :: "string option \<Rightarrow> string option \<Rightarrow> bool" where
  "same_hash a b \<longleftrightarrow> Option.bind a (\<lambda>h. canonicalTxHash (JStr h)) \<noteq> None
     \<and> Option.bind a (\<lambda>h. canonicalTxHash (JStr h)) = Option.bind b (\<lambda>h. canonicalTxHash (JStr h))"

text \<open>The original intent of the spend that settled a reservation.\<close>

definition intent_matches :: "session \<Rightarrow> reservation_row \<Rightarrow> operation_row \<Rightarrow> bool" where
  "intent_matches s r m \<longleftrightarrow> op_type m = SPEND \<and> op_uid m = uid s \<and> op_uid m = rv_uid r \<and> same_text (op_wallet m) (rv_wallet r)
     \<and> op_reservation m = Some (rv_id r) \<and> op_session_id m = Some (settle_session s) \<and> op_session_id m = Some (rv_session_id r)
     \<and> op_provider_id m = Some (providerId s) \<and> op_provider_id m = Some (rv_provider_id r)
     \<and> map_option units (canonicalTokenAmount (JStr (numeric2_text (op_amount m)))) =
         Option.bind (rv_settled r) (\<lambda>u. map_option units (canonicalTokenAmount (JStr (numeric2_text u))))
     \<and> rv_settled r \<noteq> None \<and> same_hash (op_tx_hash m) (rv_tx_hash r) \<and> op_status m \<noteq> FAILED \<and> op_status m \<noteq> UNKNOWN_STATUS"

definition validateSettledReservationRecoveryContext ::
    "settle_env \<Rightarrow> session \<Rightarrow> reservation_row \<Rightarrow> db \<Rightarrow> settle_problem + unit" where
  "validateSettledReservationRecoveryContext env s r d =
     rbind (guard (st_answers env Find_Operation) Intent_Unread) (\<lambda>_.
     rbind (of_option Intent_Missing (find_operation d (reservationOperationKey (rv_id r)))) (\<lambda>m.
     rbind (guard (intent_matches s r m) Intent_Missing) (\<lambda>_.
     rbind (of_option Intent_Asset_Unread (st_asset env)) (\<lambda>asset.
     case assetContextMismatch (op_intent m) asset of None \<Rightarrow> Inr () | Some c \<Rightarrow> Inl (Intent_Asset_Changed c)))))"

definition settled_number :: "nat option \<Rightarrow> js_number" where
  "settled_number x = (case x of None \<Rightarrow> Fin 0 | Some u \<Rightarrow> text_number (numeric2_text u))"

definition settle_receipt_query :: "session \<Rightarrow> reservation_row \<Rightarrow> js_number \<Rightarrow> string \<Rightarrow> receipt_query" where
  "settle_receipt_query s r amount h =
     \<lparr>rs_uid = uid s, rs_wallet = rv_wallet r, rs_amount = amount, rs_session = Some (settle_session s),
      rs_provider = Some (providerId s), rs_txHash = h\<rparr>"

text \<open>The receipt of a settled reservation is found or made again from its hash; a failure keeps the cause in its text.\<close>

definition settled_again :: "settle_env \<Rightarrow> session \<Rightarrow> reservation_row \<Rightarrow> db \<Rightarrow> settle_run" where
  "settled_again env s r d =
     (let stop = (\<lambda>d f. (d, [], [], [], Inl (Settlement_Failure (f\<lparr>sf_settlementPending := False\<rparr>)))) in
      if rv_status r = RELEASED then (d, [], [], [], Inr (Some \<lparr>sw_row = r, sw_receipt = None, sw_cleanup = None\<rparr>))
      else case nonempty (rv_tx_hash r) of
        None \<Rightarrow> stop d (open_failure r Settled_Without_Hash (Some False) True)
      | Some h \<Rightarrow>
          (case validateSettledReservationRecoveryContext env s r d of
             Inl e \<Rightarrow> stop d (confirmed_failure r e (Some False) True (Some h))
           | Inr _ \<Rightarrow>
               (case createAndStoreSpendReceipt (st_receipt env) (settle_receipt_query s r (settled_number (rv_settled r)) h) d of
                  (d', Inl e) \<Rightarrow> stop d' (confirmed_failure r (Receipt_Unrecovered e) (Some (\<not> receipt_review e)) (receipt_review e) (Some h))
                | (d', Inr x) \<Rightarrow> (d', [], [], [], Inr (Some \<lparr>sw_row = r, sw_receipt = Some x, sw_cleanup = None\<rparr>)))))"

subsection \<open>Nothing to spend\<close>

text \<open>The error texts of the service name a mismatch only where the stored context differs (reservation ids are UUIDs).\<close>

definition context_error :: "reservation_row \<Rightarrow> db_error option \<Rightarrow> settle_failure" where
  "context_error r e =
     (let mismatch = (e = Some RESERVATION_SETTLEMENT_CONTEXT_MISMATCH) in
      (open_failure r (if mismatch then Context_Mismatch else Context_Unsaved) (Some (\<not> mismatch)) mismatch)
        \<lparr>sf_outcome := Some OUT_NO_MOVEMENT, sf_stage := Some PS_RECOVERY,
         sf_code := Some (if mismatch then ''RESERVATION_CONTEXT_MISMATCH'' else ''RESERVATION_CONTEXT_PERSISTENCE_UNAVAILABLE'')\<rparr>)"

definition persistReservationSettlementContext ::
    "settle_env \<Rightarrow> reservation_row \<Rightarrow> js_number \<Rightarrow> db \<Rightarrow> settle_failure + db" where
  "persistReservationSettlementContext env r delivered d =
     (if \<not> st_answers env Save_Context then Inl (context_error r None)
      else case persistSettlementContext (st_clock env) (rv_id r) delivered d of
        Inl e \<Rightarrow> Inl (context_error r (Some e))
      | Inr (_, d') \<Rightarrow> Inr d')"

definition zero_claim :: "settle_env \<Rightarrow> session \<Rightarrow> reservation_row \<Rightarrow> asset_context \<Rightarrow> string \<Rightarrow> claim_request" where
  "zero_claim env s r asset fingerprint =
     \<lparr>cr_key = reservationOperationKey (rv_id r), cr_type = SPEND, cr_fingerprint = fingerprint, cr_uid = uid s,
      cr_wallet = rv_wallet r, cr_amount = ''0.00'', cr_session_id = Some (settle_session s), cr_provider_id = Some (providerId s),
      cr_charging_session = None, cr_reservation = Some (rv_id r), cr_intent = Some [(''assetContext'', asset_json asset)],
      cr_legacy_key = None, cr_balance = None\<rparr>"

definition zero_fingerprint :: "settle_env \<Rightarrow> session \<Rightarrow> reservation_row \<Rightarrow> string" where
  "zero_fingerprint env s r =
     (case spendIntentFingerprint (settle_sha env) (spend_intent_of (uid s) (rv_wallet r) (Fin 0) (Some (settle_session s))
         (Some (providerId s)) (Some (rv_id r))) of Inl _ \<Rightarrow> [] | Inr f \<Rightarrow> f)"

text \<open>Of the errors of a claim only a differing intent asks for an operator.\<close>

definition intent_mismatch :: "db_error \<Rightarrow> bool" where
  "intent_mismatch e \<longleftrightarrow> e = TOKEN_OPERATION_INTENT_MISMATCH"

definition zero_operation_checked :: "reservation_row \<Rightarrow> asset_context \<Rightarrow> operation_row \<Rightarrow> settle_failure + unit" where
  "zero_operation_checked r asset m =
     rbind (guard (map_option units (canonicalTokenAmount (JStr (numeric2_text (op_amount m)))) = Some 0 \<and> op_status m \<noteq> FAILED)
       (open_failure r Zero_Conflict (Some False) True)) (\<lambda>_.
     case assetContextMismatch (op_intent m) asset of
       None \<Rightarrow> Inr () | Some c \<Rightarrow> Inl (open_failure r (Zero_Asset_Changed c) (Some False) True))"

definition zero_projected :: "settle_env \<Rightarrow> reservation_row \<Rightarrow> db \<Rightarrow> db \<times> (settle_failure + unit)" where
  "zero_projected env r d =
     (let unprojected = Inl (open_failure r Zero_Unprojected (Some True) False) in
      if \<not> st_answers env Project_Zero then (d, unprojected)
      else case markProjected (st_clock env) (reservationOperationKey (rv_id r)) d of
        (m, d') \<Rightarrow> (d', if m = None then unprojected else Inr ()))"

definition ensureZeroSettlementOperation ::
    "settle_env \<Rightarrow> session \<Rightarrow> reservation_row \<Rightarrow> db \<Rightarrow> db \<times> (settle_failure + unit)" where
  "ensureZeroSettlementOperation env s r d =
     (case st_asset env of
        None \<Rightarrow> (d, Inl (open_failure r Zero_Asset_Unread (Some False) True))
      | Some asset \<Rightarrow>
          if \<not> st_answers env Claim_Zero then (d, Inl (open_failure r Zero_Claim_Unsaved (Some True) False))
          else (case claim (st_clock env) (st_ident env) (zero_claim env s r asset (zero_fingerprint env s r)) d of
              Inl e \<Rightarrow> (d, Inl (open_failure r (Zero_Claim_Refused e) (Some (\<not> intent_mismatch e)) (intent_mismatch e)))
            | Inr (c, d1) \<Rightarrow>
                (case cl_operation c of
                   None \<Rightarrow> (d1, Inl (open_failure r Zero_Missing (Some False) True))
                 | Some m \<Rightarrow>
                     (case zero_operation_checked r asset m of
                        Inl f \<Rightarrow> (d1, Inl f)
                      | Inr _ \<Rightarrow> zero_projected env r d1))))"

text \<open>
  \<open>SpendReservations.retry\<close> keeps the claim. When it fails as well, its own error is thrown, and the handler
  around the whole settlement tries it once more, with the same answer.
\<close>

definition keep_claimed :: "settle_env \<Rightarrow> reservation_row \<Rightarrow> settle_failure \<Rightarrow> db \<Rightarrow> db \<times> settle_error" where
  "keep_claimed env r f d =
     (if st_answers env Mark_Retry
      then (retrySettlement (st_clock env) (rv_id r) (st_text env (sf_problem f)) d, Settlement_Failure f)
      else (d, Settlement_Thrown (Call_Failed Mark_Retry)))"

text \<open>An error that does not name the reservation: the claim is kept and the error thrown on.\<close>

definition thrown_on :: "settle_env \<Rightarrow> reservation_row \<Rightarrow> settle_problem \<Rightarrow> db \<Rightarrow> db \<times> settle_error" where
  "thrown_on env r e d =
     (if st_answers env Mark_Retry then (retrySettlement (st_clock env) (rv_id r) (st_text env e) d, Settlement_Thrown e)
      else (d, Settlement_Thrown (Call_Failed Mark_Retry)))"

text \<open>No error of \<open>complete\<close> carries \<open>requiresReview\<close>, so every failed completion is offered for a retry.\<close>

definition completed_reservation ::
    "settle_env \<Rightarrow> reservation_row \<Rightarrow> js_number \<Rightarrow> js_number \<Rightarrow> string option \<Rightarrow> db \<Rightarrow> (reservation_row option \<times> db) option" where
  "completed_reservation env r delivered amount h d =
     (if \<not> st_answers env Complete_Reservation then None
      else case complete (st_clock env) (rv_id r) delivered amount h d of Inl _ \<Rightarrow> None | Inr x \<Rightarrow> Some x)"

definition release_nothing_spent :: "settle_env \<Rightarrow> session \<Rightarrow> reservation_row \<Rightarrow> js_number \<Rightarrow> db \<Rightarrow> settle_run" where
  "release_nothing_spent env s r delivered d =
     (case ensureZeroSettlementOperation env s r d of
        (d1, Inl f) \<Rightarrow> (d1, [], [], [], Inl (Settlement_Failure f))
      | (d1, Inr _) \<Rightarrow>
          (case completed_reservation env r delivered (Fin 0) None d1 of
             Some (row, d2) \<Rightarrow> (d2, [], [], [], Inr (map_option (\<lambda>x. \<lparr>sw_row = x, sw_receipt = None, sw_cleanup = None\<rparr>) row))
           | None \<Rightarrow> (case keep_claimed env r (open_failure r Release_Pending (Some True) False) d1 of
               (d2, e) \<Rightarrow> (d2, [], [], [], Inl e))))"

subsection \<open>The spend\<close>

definition settle_request :: "session \<Rightarrow> reservation_row \<Rightarrow> js_number \<Rightarrow> js_number \<Rightarrow> auto_request" where
  "settle_request s r amount delivered =
     \<lparr>sa_uid = uid s, sa_user = rv_wallet r, sa_amount = amount, sa_session = Some (settle_session s),
      sa_provider = Some (providerId s), sa_reservation = Some (rv_id r),
      sa_operationKey = Some (reservationOperationKey (rv_id r)), sa_idempotencyKey = None,
      sa_settlement = Some (rv_id r, delivered)\<rparr>"

definition settle_spend ::
    "settle_env \<Rightarrow> session \<Rightarrow> reservation_row \<Rightarrow> bool \<Rightarrow> js_number \<Rightarrow> js_number \<Rightarrow> db \<Rightarrow> auto_run" where
  "settle_spend env s r managed amount delivered d =
     (let q = settle_request s r amount delivered in
      if managed then processSpendWithAutoApproval (st_auto env) q d
      else case processSpend (au_first (st_auto env)) (auto_spend_request q (reservationOperationKey (rv_id r))) d of
        (d', sent, x) \<Rightarrow> (d', sent, [], [], plain_result x))"

text \<open>The error text of a spend names the asset context or an intent mismatch.\<close>

definition names_asset :: "string \<Rightarrow> bool" where
  "names_asset t \<longleftrightarrow> has_part (js_lower t) ''asset context'' \<or> has_part (js_lower t) ''intent mismatch''"

definition spend_names_asset :: "auto_result \<Rightarrow> bool" where
  "spend_names_asset x =
     (case ao_approvalError x of
        Some t \<Rightarrow> names_asset t
      | None \<Rightarrow> (case sx_error (ao_spend x) of
          Some Spend_Asset_Unverified \<Rightarrow> True | Some Spend_Asset_Unavailable \<Rightarrow> True | Some (Spend_Asset_Changed _) \<Rightarrow> True
        | Some (Spend_Preparation_Failed t) \<Rightarrow> names_asset t | _ \<Rightarrow> False))"

definition public_of_stage :: "diagnostic_stage \<Rightarrow> public_stage" where
  "public_of_stage g = (case g of ASSET_CONTEXT \<Rightarrow> PS_ASSET_CONTEXT | PREFLIGHT \<Rightarrow> PS_PREFLIGHT | PREPARE \<Rightarrow> PS_PREPARE
     | PERSIST_HASH \<Rightarrow> PS_PERSIST_HASH | BROADCAST \<Rightarrow> PS_BROADCAST | RECEIPT \<Rightarrow> PS_RECEIPT)"

text \<open>
  A result without \<open>requiresReview\<close>, \<open>pending\<close>, \<open>preflightFailure\<close> and hash is for an operator. Spends saved as failed
  and failed preparations state \<open>requiresReview\<close>, checks and preparations state \<open>retryable\<close>.
\<close>

definition spend_review :: "auto_result \<Rightarrow> bool" where
  "spend_review x =
     (let y = ao_spend x in
      sx_requiresReview y
      \<or> (ao_approvalError x = None \<and> sx_error y \<noteq> Some Spend_Saved_As_Failed
         \<and> \<not> sx_pending y \<and> \<not> sx_preflightFailure y \<and> nonempty (sx_txHash y) = None))"

definition spend_retryable :: "auto_result \<Rightarrow> bool" where
  "spend_retryable x =
     (let y = ao_spend x in
      if spend_review x then False
      else if ao_approvalError x \<noteq> None \<or> sx_preflightFailure y then sx_retryable y
      else case sx_diagnostic y of Some g \<Rightarrow> dg_retryable g | None \<Rightarrow> sx_pending y)"

definition spend_stage :: "auto_result \<Rightarrow> public_stage" where
  "spend_stage x =
     (let y = ao_spend x in
      case sx_diagnostic y of
        Some g \<Rightarrow> public_of_stage (dg_stage g)
      | None \<Rightarrow> if sx_preflightFailure y then PS_PREFLIGHT
          else if spend_names_asset x then PS_ASSET_CONTEXT
          else if nonempty (sx_txHash y) \<noteq> None then PS_RECEIPT else PS_BROADCAST)"

definition spend_failure :: "reservation_row \<Rightarrow> auto_result \<Rightarrow> settle_failure" where
  "spend_failure r x =
     (let y = ao_spend x in
      \<lparr>sf_problem = Spend_Open (sx_error y) (ao_approvalError x), sf_pending = (sx_pending y \<or> sx_preflightFailure y),
       sf_spendPending = sx_pending y, sf_settlementPending = True, sf_preflight = sx_preflightFailure y,
       sf_retryable = Some (spend_retryable x), sf_requiresReview = spend_review x, sf_reservation = rv_id r,
       sf_txHash = sx_txHash y, sf_outcome = sx_outcome y,
       sf_financial = (if nonempty (sx_txHash y) \<noteq> None then FIN_CONFIRMED_OR_PENDING else FIN_UNKNOWN),
       sf_code = map_option dg_errorCode (sx_diagnostic y), sf_stage = Some (spend_stage x), sf_diagnostic = sx_diagnostic y\<rparr>)"

subsection \<open>After the spend\<close>

text \<open>The receipt of a completed settlement; the hash stays the key of its recovery.\<close>

definition settle_receipt ::
    "settle_env \<Rightarrow> session \<Rightarrow> reservation_row \<Rightarrow> bool \<Rightarrow> js_number \<Rightarrow> string \<Rightarrow> reservation_row option \<Rightarrow> db
     \<Rightarrow> db \<times> (settle_error + settle_answer option)" where
  "settle_receipt env s r managed amount h row d =
     (case createAndStoreSpendReceipt (st_receipt env) (settle_receipt_query s r amount h) d of
        (d1, Inl e) \<Rightarrow> (d1, Inl (Settlement_Failure
            (confirmed_failure r (Receipt_Unstored e) (Some (\<not> receipt_review e)) (receipt_review e) (Some h))))
      | (d1, Inr x) \<Rightarrow>
          (case row of
             None \<Rightarrow> (case thrown_on env r Reservation_Vanished d1 of (d2, e) \<Rightarrow> (d2, Inl e))
           | Some c \<Rightarrow> (d1, Inr (Some \<lparr>sw_row = c, sw_receipt = Some x,
               sw_cleanup = Some (\<not> managed \<and> (case rv_released c of None \<Rightarrow> False | Some u \<Rightarrow> 0 < u))\<rparr>))))"

definition after_spend ::
    "settle_env \<Rightarrow> session \<Rightarrow> reservation_row \<Rightarrow> bool \<Rightarrow> js_number \<Rightarrow> auto_result \<Rightarrow> db \<Rightarrow> db \<times> (settle_error + settle_answer option)" where
  "after_spend env s r managed delivered x d =
     (let y = ao_spend x in
      case (if sx_success y then nonempty (sx_txHash y) else None) of
        None \<Rightarrow> (case keep_claimed env r (spend_failure r x) d of (d1, e) \<Rightarrow> (d1, Inl e))
      | Some h \<Rightarrow>
          (case completed_reservation env r delivered (sx_amount y) (Some h) d of
             None \<Rightarrow> (case keep_claimed env r (confirmed_failure r Completion_Pending (Some True) False (Some h)) d of
                 (d1, e) \<Rightarrow> (d1, Inl e))
           | Some (row, d1) \<Rightarrow> settle_receipt env s r managed (sx_amount y) h row d1))"

definition spend_and_complete :: "settle_env \<Rightarrow> session \<Rightarrow> reservation_row \<Rightarrow> js_number \<Rightarrow> js_number \<Rightarrow> db \<Rightarrow> settle_run" where
  "spend_and_complete env s r amount delivered d =
     (case st_managed env (uid s) of
        None \<Rightarrow> (case thrown_on env r Managed_Wallet_Unknown d of (d1, e) \<Rightarrow> (d1, [], [], [], Inl e))
      | Some wallet \<Rightarrow>
          (let managed = same_text (rv_wallet r) wallet in
           case settle_spend env s r managed amount delivered d of
             (d1, sent, funding, approvals, x) \<Rightarrow>
               (case after_spend env s r managed delivered x d1 of (d2, y) \<Rightarrow> (d2, sent, funding, approvals, y))))"

subsection \<open>The settlement\<close>

definition delivered_energy :: "session \<Rightarrow> js_number" where
  "delivered_energy s = (if energyDirection s = CHARGE then energyKWh s else Fin 0)"

definition settle_claimed :: "settle_env \<Rightarrow> session \<Rightarrow> reservation_row \<Rightarrow> db \<Rightarrow> settle_run" where
  "settle_claimed env s r d =
     (case calculateReservationSettlement (settled_number (Some (rv_reserved r))) (delivered_energy s) of
        Inl e \<Rightarrow> (d, [], [], [], Inl (Settlement_Thrown (Settlement_Amount e)))
      | Inr x \<Rightarrow>
          (case persistReservationSettlementContext env r (delivered_energy s) d of
             Inl f \<Rightarrow> (d, [], [], [], Inl (Settlement_Failure f))
           | Inr d1 \<Rightarrow>
               if settledAmount x = Fin 0 then release_nothing_spent env s r (delivered_energy s) d1
               else spend_and_complete env s r (settledAmount x) (delivered_energy s) d1))"

text \<open>A reservation that another request left settling goes on only when its operation is known.\<close>

definition settle_resumed :: "settle_env \<Rightarrow> session \<Rightarrow> reservation_row \<Rightarrow> db \<Rightarrow> settle_run" where
  "settle_resumed env s r d =
     (let stop = (\<lambda>e. (d, [], [], [], Inl (Settlement_Failure ((open_failure r e None True)\<lparr>sf_settlementPending := False\<rparr>)))) in
      if \<not> st_answers env Find_Operation then stop Stuck_Unread
      else if find_operation d (reservationOperationKey (rv_id r)) = None then stop Stuck_Settling
      else settle_claimed env s r d)"

definition settle_found :: "settle_env \<Rightarrow> session \<Rightarrow> db \<Rightarrow> reservation_row option" where
  "settle_found env s d = findBySession d (uid s) (settle_session s) (providerId s)"

text \<open>
  The claim: a reservation that is still reserved is claimed and settled, otherwise it is read again. \<open>Inl\<close> ends
  the run, \<open>Inr\<close> gives the reservation, whether this request claimed it, and the database.
\<close>

definition claim_missing ::
    "settle_env \<Rightarrow> session \<Rightarrow> db \<Rightarrow> settle_error + (reservation_row \<times> bool \<times> db) option" where
  "claim_missing env s d =
     (if \<not> st_answers env Claim_Reservation then Inl (Settlement_Thrown (Call_Failed Claim_Reservation))
      else case claimForSettlement (st_clock env) (uid s) (settle_session s) (providerId s) d of
        (None, d1) \<Rightarrow> Inr None
      | (Some c, d1) \<Rightarrow> Inr (Some (c, True, d1)))"

definition claim_reservation ::
    "settle_env \<Rightarrow> session \<Rightarrow> reservation_row option \<Rightarrow> db \<Rightarrow> settle_error + (reservation_row \<times> bool \<times> db) option" where
  "claim_reservation env s found d =
     (case found of
        None \<Rightarrow> claim_missing env s d
      | Some r \<Rightarrow>
          if rv_status r \<noteq> RESERVED then Inr (Some (r, False, d))
          else if \<not> st_answers env Claim_Reservation then Inl (Settlement_Thrown (Call_Failed Claim_Reservation))
          else (case claimForSettlement (st_clock env) (uid s) (settle_session s) (providerId s) d of
              (Some c, d1) \<Rightarrow> Inr (Some (c, True, d1))
            | (None, d1) \<Rightarrow>
                if \<not> st_answers env Find_Again then Inl (Settlement_Thrown (Call_Failed Find_Again))
                else (case settle_found env s d1 of
                    None \<Rightarrow> claim_missing env s d1
                  | Some x \<Rightarrow> Inr (Some (x, False, d1)))))"

definition settle_on :: "settle_env \<Rightarrow> session \<Rightarrow> reservation_row \<Rightarrow> bool \<Rightarrow> db \<Rightarrow> settle_run" where
  "settle_on env s r mine d =
     (if mine \<or> rv_status r \<noteq> SETTLING then settle_claimed env s r d else settle_resumed env s r d)"

definition settled_before :: "settle_env \<Rightarrow> session \<Rightarrow> db \<Rightarrow> reservation_row option" where
  "settled_before env s d =
     (case settle_found env s d of None \<Rightarrow> None | Some r \<Rightarrow> if final_reservation (rv_status r) then Some r else None)"

text \<open>The code calls itself once when another request completed the reservation meanwhile; fuel two is enough.\<close>

fun settle_with_fuel :: "nat \<Rightarrow> settle_env \<Rightarrow> session \<Rightarrow> db \<Rightarrow> settle_run option" where
  "settle_with_fuel 0 env s d = None"
| "settle_with_fuel (Suc n) env s d =
     (if \<not> st_answers env Find_Reservation then Some (d, [], [], [], Inl (Settlement_Thrown (Call_Failed Find_Reservation)))
      else case settled_before env s d of
        Some r \<Rightarrow> Some (settled_again env s r d)
      | None \<Rightarrow>
          (case claim_reservation env s (settle_found env s d) (st_meanwhile env d) of
             Inl e \<Rightarrow> Some (st_meanwhile env d, [], [], [], Inl e)
           | Inr None \<Rightarrow> Some (st_meanwhile env d, [], [], [], Inr None)
           | Inr (Some (r, mine, d1)) \<Rightarrow>
               if final_reservation (rv_status r) then settle_with_fuel n env s d1 else Some (settle_on env s r mine d1)))"

definition settleReservationFromCdr :: "settle_env \<Rightarrow> session \<Rightarrow> db \<Rightarrow> settle_run option" where
  "settleReservationFromCdr = settle_with_fuel 2"

end
