(* ===== verification/ReceiptStoreLaws.thy ===== *)
theory ReceiptStoreLaws
  imports ReceiptStore FailureLaws AwardSample
begin

text \<open>
  Guarantees of the stored receipts: what is handed out is stored, says what was asked for and carries a
  signature of the configured signer; a transfer never gets a second receipt.
\<close>

subsection \<open>Hashes and rows\<close>

lemma canonical_hash_id:
  assumes "hash_ok h"
  shows "canonical_hash h fld = Inr h" and "canonicalTxHash (JStr h) = Some h"
proof -
  have t: "is_tx_hash h" "js_lower h = h" using assms by (simp_all add: hash_ok_def)
  have "list_all (\<lambda>c. \<not> js_space c) (take 2 h)" using t(1) by (simp add: is_tx_hash_def js_space_def)
  moreover have "list_all (\<lambda>c. \<not> js_space c) (drop 2 h)"
    using t(1) by (auto simp: is_tx_hash_def list_all_iff is_hex_def js_space_def Let_def)
  ultimately have "list_all (\<lambda>c. \<not> js_space c) (take 2 h @ drop 2 h)" unfolding list_all_append by blast
  then have "js_trim h = h" unfolding append_take_drop_id by (rule js_trim_id)
  then show "canonical_hash h fld = Inr h" "canonicalTxHash (JStr h) = Some h"
    using t by (simp_all add: canonical_hash_def requireCanonicalTransactionHash_def canonicalTransactionHash_def canonicalTxHash_def
      of_option_def)
qed

lemma public_hash_ok: "canonicalTxHash v = Some h \<Longrightarrow> hash_ok h"
  using canonical_hash_text [of v h] by (simp add: hash_text_def hash_ok_def)

lemma receipt_intent_facts:
  assumes "receipt_intent_of env q = Inr i"
  shows "hash_ok (rk_hash i)" and "canonicalTokenAmount (JNum (rs_amount q)) = Some (rk_amount i)" and "0 < units (rk_amount i)"
    and "rk_uid i = rs_uid q" and "xe_checksum env (rs_wallet q) = Some (rk_wallet i)" and "xe_signer env = Some (rk_signer i)"
    and "canonicalTxHash (JStr (rs_txHash q)) = Some (rk_hash i)"
    and "xe_checksum env (xe_token_contract env) = Some (rk_contract i)" and "xe_network env = Some (rk_chain i)" and "rk_chain i < 2 ^ 53"
    and "rk_session i = rs_session q" and "rk_provider i = rs_provider q"
proof -
  have g: "xe_network env = Some n" if "getAuthoritativeChainId env = Inr n" for n
    using that by (auto simp: getAuthoritativeChainId_def rbind_Inr_iff split: option.splits)
  show "canonicalTokenAmount (JNum (rs_amount q)) = Some (rk_amount i)" "0 < units (rk_amount i)" "rk_uid i = rs_uid q"
    "xe_checksum env (rs_wallet q) = Some (rk_wallet i)" "xe_signer env = Some (rk_signer i)"
    "xe_checksum env (xe_token_contract env) = Some (rk_contract i)" "xe_network env = Some (rk_chain i)" "rk_chain i < 2 ^ 53"
    "rk_session i = rs_session q" "rk_provider i = rs_provider q"
    using assms g by (auto simp: receipt_intent_of_def rbind_Inr_iff)
  show h: "canonicalTxHash (JStr (rs_txHash q)) = Some (rk_hash i)" using assms by (auto simp: receipt_intent_of_def rbind_Inr_iff)
  show "hash_ok (rk_hash i)" by (rule public_hash_ok [OF h])
qed

text \<open>A row that says what was asked for.\<close>

definition fits :: "receipt_intent \<Rightarrow> receipt_row \<Rightarrow> bool" where
  "fits i r \<longleftrightarrow> rc_uid r = rk_uid i \<and> same_text (rc_wallet r) (rk_wallet i) \<and> rc_amount r = units (rk_amount i)
     \<and> nonempty (rc_session_id r) = nonempty (rk_session i) \<and> nonempty (rc_provider_id r) = nonempty (rk_provider i)
     \<and> same_text (rc_token_tx_hash r) (rk_hash i) \<and> rc_chain_id r = rk_chain i \<and> same_text (rc_signer r) (rk_signer i)"

text \<open>A signature of the configured signer under the canonical text of a payload.\<close>

definition trusted_text :: "receipt_env \<Rightarrow> receipt_intent \<Rightarrow> string \<Rightarrow> string \<Rightarrow> bool" where
  "trusted_text env i text signature \<longleftrightarrow>
     (\<exists>t a. xe_checksum env (rk_signer i) = Some t \<and> xe_recover env text signature = Some a \<and> same_text a t)"

definition canonical_of :: "stored_receipt \<Rightarrow> string" where
  "canonical_of s = Receipt.json_stringify (sortForCanonicalJson (sd_payload s))"

text \<open>An address that has its checksum keeps its form.\<close>

definition steady_checksum :: "receipt_env \<Rightarrow> bool" where
  "steady_checksum env \<longleftrightarrow> (\<forall>a b. xe_checksum env a = Some b \<longrightarrow> xe_checksum env b = Some b)"

text \<open>
  What a payload must say about the request it answers: a settled transfer of the amount and hash asked for, by the
  owner from the wallet, in the configured token on the network of the provider, with session and provider.
\<close>

definition same_address :: "receipt_env \<Rightarrow> jsv \<Rightarrow> string \<Rightarrow> bool" where
  "same_address env v a = (case (xe_checksum env (js_string v), xe_checksum env a) of (Some x, Some y) \<Rightarrow> same_text x y | _ \<Rightarrow> False)"

definition states :: "receipt_env \<Rightarrow> receipt_query \<Rightarrow> jsv \<Rightarrow> bool" where
  "states env q v \<longleftrightarrow>
     at_key (as_object v) ''version'' = JStr ''1.0'' \<and> at_key (as_object v) ''status'' = JStr ''settled''
     \<and> at_key (as_object v) ''contractId'' = JStr (rs_uid q)
     \<and> same_address env (at_key (as_object v) ''walletAddress'') (rs_wallet q)
     \<and> same_address env (at_key (as_object v) ''tokenContractAddress'') (xe_token_contract env)
     \<and> map_option units (canonicalTokenAmount (at_key (as_object v) ''amount'')) = map_option units (canonicalTokenAmount (JNum (rs_amount q)))
     \<and> canonicalTxHash (at_key (as_object v) ''tokenTxHash'') = canonicalTxHash (JStr (rs_txHash q))
     \<and> nonempty (normaliseOptionalContext (at_key (as_object v) ''sessionId'')) = nonempty (rs_session q)
     \<and> nonempty (normaliseOptionalContext (at_key (as_object v) ''providerId'')) = nonempty (rs_provider q)
     \<and> (\<exists>chain. xe_network env = Some chain \<and> (at_key (as_object v) ''chainId'' = JNum (Fin (of_nat chain))
          \<or> js_string (at_key (as_object v) ''chainId'') = nat_text chain))"

text \<open>The text that is handed out is the canonical text of the payload, or is read back as it.\<close>

definition text_of_payload :: "stored_receipt \<Rightarrow> bool" where
  "text_of_payload s \<longleftrightarrow> sd_text s = canonical_of s \<or> json_parse (sd_text s) = Some (sd_payload s)"

lemma checked_payload_states:
  assumes "receipt_intent_of env q = Inr i" and "check_payload env i v = Inr u" and "steady_checksum env"
  shows "states env q v"
proof -
  note i = receipt_intent_facts [OF assms(1)]
  have a: "same_address env w (rs_wallet q)" if "xe_checksum env (js_string w) = Some x" "same_text x (rk_wallet i)" for w x
    using that i(5) by (simp add: same_address_def)
  have b: "same_address env w (xe_token_contract env)" if "xe_checksum env (js_string w) = Some x" "same_text x (rk_contract i)" for w x
    using that i(8) by (simp add: same_address_def)
  show ?thesis
    using assms(2) a b i by (auto simp: states_def check_payload_def Let_def rbind_Inr_iff)
qed

lemma receipt_row_fits:
  assumes "check_receipt_row env i r = Inr u"
  shows "fits i r"
proof -
  have h: "canonicalTxHash (JStr (rc_token_tx_hash r)) = Some (rk_hash i)" and u: "map_option units (canonicalTokenAmount (JStr (numeric2_text (rc_amount r)))) = Some (units (rk_amount i))"
    using assms by (auto simp: check_receipt_row_def rbind_Inr_iff)
  have "rk_hash i = js_lower (rc_token_tx_hash r)" using h by (simp add: canonicalTxHash_def split: if_splits)
  then have "same_text (rc_token_tx_hash r) (rk_hash i)" by (simp add: same_text_def)
  moreover have "rc_amount r = units (rk_amount i)" using u by (simp add: canonicalTokenAmount_text)
  ultimately show ?thesis using assms by (auto simp: fits_def check_receipt_row_def rbind_Inr_iff)
qed

lemma validated_payload:
  assumes "validated env i r = Inr s"
  shows "json_parse (sd_text s) = Some (sd_payload s)" and "check_payload env i (sd_payload s) = Inr ()"
proof -
  have "validateStoredReceipt env i r = Inr s" using assms by (cases "validateStoredReceipt env i r") (simp_all add: validated_def)
  then obtain v w where v: "stored_payload (rc_payload r) = Inr v" "check_payload env i v = Inr w"
    and e: "(case verify_text (xe_recover env) (xe_checksum env) (Receipt.json_stringify (sortForCanonicalJson v)) (rc_signature r)
       (rc_signer r) (rk_signer i) of Inl f \<Rightarrow> Inl (Signature_Untrusted f)
     | Inr _ \<Rightarrow> Inr \<lparr>sd_payload = v, sd_signature = rc_signature r, sd_signer = rc_signer r, sd_text = rc_payload r\<rparr>) = Inr s"
    unfolding validateStoredReceipt_def rbind_Inr_iff by blast
  have "sd_payload s = v" "sd_text s = rc_payload r" using e by (auto split: sum.splits)
  then show "json_parse (sd_text s) = Some (sd_payload s)" "check_payload env i (sd_payload s) = Inr ()"
    using v by (auto simp: stored_payload_def rbind_Inr_iff)
qed

lemma validated_facts:
  assumes "validated env i r = Inr s"
  shows "fits i r" and "sd_text s = rc_payload r" and "sd_signature s = rc_signature r" and "trusted_text env i (canonical_of s) (sd_signature s)"
proof -
  have "validateStoredReceipt env i r = Inr s" using assms by (cases "validateStoredReceipt env i r") (simp_all add: validated_def)
  then obtain v w where v: "stored_payload (rc_payload r) = Inr v" "check_receipt_row env i r = Inr w"
    and e: "(case verify_text (xe_recover env) (xe_checksum env) (Receipt.json_stringify (sortForCanonicalJson v)) (rc_signature r)
       (rc_signer r) (rk_signer i) of Inl f \<Rightarrow> Inl (Signature_Untrusted f)
     | Inr _ \<Rightarrow> Inr \<lparr>sd_payload = v, sd_signature = rc_signature r, sd_signer = rc_signer r, sd_text = rc_payload r\<rparr>) = Inr s"
    unfolding validateStoredReceipt_def rbind_Inr_iff by blast
  obtain a where a: "verify_text (xe_recover env) (xe_checksum env) (Receipt.json_stringify (sortForCanonicalJson v)) (rc_signature r)
      (rc_signer r) (rk_signer i) = Inr a"
    and s: "s = \<lparr>sd_payload = v, sd_signature = rc_signature r, sd_signer = rc_signer r, sd_text = rc_payload r\<rparr>"
    using e by (auto split: sum.splits)
  show "fits i r" using v(2) by (rule receipt_row_fits)
  show "sd_text s = rc_payload r" "sd_signature s = rc_signature r" using s by simp_all
  show "trusted_text env i (canonical_of s) (sd_signature s)"
    using a s by (auto simp: verify_text_def rbind_Inr_iff trusted_text_def canonical_of_def same_text_def)
qed

subsection \<open>New rows\<close>

lemma createReceipt_facts:
  assumes "createReceipt x d = Inr (r, d')"
  shows "d' = d\<lparr>t_receipts := t_receipts d @ [r]\<rparr>"
  using assms by (auto simp: createReceipt_def rbind_Inr_iff Let_def split: if_splits)

lemma signed_for_facts:
  assumes "signed_for env i = Inr s"
  shows "\<exists>p. createSpendReceiptPayload (xe_sha256 env) (xe_checksum env) (xe_uuid env)
      (xe_clock env) (receipt_input_of i) = Some p \<and> sg_payload s = p \<and> xe_sign env (canonicalizeReceiptPayload p) = Some (sg_signature s)
      \<and> sg_signerAddress s = rk_signer i \<and> sg_canonicalPayload s = canonicalizeReceiptPayload p"
  using assms by (auto simp: signed_for_def rbind_Inr_iff signSpendReceipt_def)

lemma nonempty_null_or_text: "nonempty (payload_text (null_or_text x)) = nonempty x"
  by (cases x; cases "the x") (auto simp: payload_text_def null_or_text_def nonempty_def)

definition honest_signer :: "receipt_env \<Rightarrow> receipt_intent \<Rightarrow> bool" where
  "honest_signer env i \<longleftrightarrow> (\<forall>text s. xe_sign env text = Some s \<longrightarrow> trusted_text env i text s)"

lemma new_row_fits:
  assumes "receipt_intent_of env q = Inr i" and "signed_for env i = Inr s" and "steady_checksum env"
    and "createReceipt (receipt_data_of env s) d = Inr (r, d')"
  shows "fits i r" and "rc_payload r = sg_canonicalPayload s" and "rc_signature r = sg_signature s"
proof -
  note i = receipt_intent_facts [OF assms(1)]
  obtain p where p: "createSpendReceiptPayload (xe_sha256 env) (xe_checksum env) (xe_uuid env) (xe_clock env) (receipt_input_of i) = Some p"
    "sg_payload s = p" "sg_signerAddress s = rk_signer i"
    using signed_for_facts [OF assms(2)] by blast
  have w: "xe_checksum env (rk_wallet i) = Some (rk_wallet i)" using assms(3) i(5) by (simp add: steady_checksum_def)
  have pf: "rp_contractId p = rk_uid i" "rp_walletAddress p = rk_wallet i" "rp_amount p = decimal (rk_amount i)"
    "rp_sessionId p = null_or_text (rk_session i)" "rp_providerId p = null_or_text (rk_provider i)" "rp_tokenTxHash p = rk_hash i"
    "rp_chainId p = rk_chain i"
    using p(1) w by (auto simp: createSpendReceiptPayload_def Let_def receipt_input_of_def split: Option.bind_splits)
  have c: "cents_of (decimal (rk_amount i)) = units (rk_amount i)"
    using canonicalTokenAmount_idem(3) [OF i(2)] by simp
  have r: "rc_uid r = rk_uid i" "rc_wallet r = rk_wallet i" "rc_amount r = units (rk_amount i)" "rc_token_tx_hash r = rk_hash i"
    "rc_session_id r = nonempty (payload_text (null_or_text (rk_session i)))" "rc_chain_id r = rk_chain i" "rc_signer r = rk_signer i"
    "rc_provider_id r = nonempty (payload_text (null_or_text (rk_provider i)))"
    and d: "rc_payload r = sg_canonicalPayload s" "rc_signature r = sg_signature s"
    using assms(4) p(2,3) pf c canonical_hash_id(1) [OF i(1)]
    by (auto simp: createReceipt_def rbind_Inr_iff Let_def receipt_data_of_def split: if_splits)
  have "nonempty (nonempty x) = nonempty x" for x by (cases x) (auto simp: nonempty_def)
  then show "fits i r" by (simp add: fits_def r nonempty_null_or_text)
  show "rc_payload r = sg_canonicalPayload s" "rc_signature r = sg_signature s" by (rule d)+
qed

subsection \<open>Runs\<close>

text \<open>A run changes nothing, or adds the one row of a receipt it signed.\<close>

lemma store_receipt_cases:
  assumes "store_receipt env q i s d = (d', x)"
  obtains (issued) r where "createReceipt (receipt_data_of env s) d = Inr (r, d')" "x = Inr (issued s)"
  | (raced) d1 where "d1 = d \<or> (\<exists>r. createReceipt (receipt_data_of env s) d = Inr (r, d1))" "raced_receipt env q i d1 = (d', x)"
  using assms by (auto simp: store_receipt_def split: write_answer.splits sum.splits)

lemma raced_receipt_facts:
  assumes "raced_receipt env q i d = (d', x)"
  shows "d' = d" and "x = Inr s \<Longrightarrow> \<exists>r. receipt_under q (rk_hash i) d = Inr (Some r) \<and> validated env i r = Inr s"
  using assms by (auto simp: raced_receipt_def split: if_splits sum.splits option.splits)

lemma receipt_run_cases:
  assumes "createAndStoreSpendReceipt env q d = (d', x)"
  obtains (stopped) e where "d' = d" "x = Inl e"
  | (found) i r where "receipt_intent_of env q = Inr i" "d' = d" "receipt_under q (rk_hash i) d = Inr (Some r)" "x = validated env i r"
  | (stored) i s where "receipt_intent_of env q = Inr i" "signed_for env i = Inr s" "store_receipt env q i s (xe_meanwhile env d) = (d', x)"
proof (cases "receipt_intent_of env q")
  case (Inl e)
  then show thesis using assms by (intro stopped) (auto simp: createAndStoreSpendReceipt_def)
next
  case i: (Inr i)
  show thesis
  proof (cases "xe_reads env \<and> receipt_under q (rk_hash i) d = Inr None")
    case True
    then show thesis using assms i stopped stored [OF i]
      by (cases "signed_for env i") (auto simp: createAndStoreSpendReceipt_def)
  next
    case False
    then show thesis using assms i stopped found [OF i]
      by (auto simp: createAndStoreSpendReceipt_def split: if_splits sum.splits option.splits)
  qed
qed

definition others_receipts :: "receipt_env \<Rightarrow> bool" where
  "others_receipts env \<longleftrightarrow> (\<forall>d. recording_step\<^sup>*\<^sup>* d (xe_meanwhile env d))"

lemma receipt_run_steps:
  assumes "createAndStoreSpendReceipt env q d = (d', x)" and "others_receipts env"
  shows "recording_step\<^sup>*\<^sup>* d d'"
  using assms(1)
proof (cases rule: receipt_run_cases)
  case (stored i s)
  have m: "recording_step\<^sup>*\<^sup>* d (xe_meanwhile env d)" using assms(2) by (simp add: others_receipts_def)
  have c: "recording_step\<^sup>*\<^sup>* d d1" if "createReceipt (receipt_data_of env s) (xe_meanwhile env d) = Inr (r, d1)" for r d1
    using m by_receipt [OF that] by (rule rtranclp.rtrancl_into_rtrancl)
  show ?thesis using stored(3)
  proof (cases rule: store_receipt_cases)
    case (issued r)
    then show ?thesis using c by blast
  next
    case (raced d1)
    then show ?thesis using c m raced_receipt_facts(1) by blast
  qed
qed simp_all

lemma receipt_under_member:
  assumes "receipt_under q h d = Inr (Some r)"
  shows "r \<in> set (t_receipts d)"
proof -
  have "r \<in> set (t_receipts d)" if "findReceiptByTxHash d t = Inr (Some r)" for t
    using that by (auto simp: findReceiptByTxHash_def rbind_Inr_iff unambiguous_iff filter_eq_Cons_iff)
  then show ?thesis using assms by (auto simp: receipt_under_def rbind_Inr_iff split: if_splits)
qed

text \<open>A receipt that is handed out: its row, and the signature under its payload.\<close>

definition backed :: "receipt_env \<Rightarrow> receipt_intent \<Rightarrow> stored_receipt \<Rightarrow> receipt_row \<Rightarrow> bool" where
  "backed env i s r \<longleftrightarrow> fits i r \<and> sd_text s = rc_payload r \<and> sd_signature s = rc_signature r
     \<and> trusted_text env i (canonical_of s) (sd_signature s)"

lemma validated_backed: "validated env i r = Inr s \<Longrightarrow> backed env i s r"
  using validated_facts by (simp add: backed_def)

lemma issued_backed:
  assumes "receipt_intent_of env q = Inr i" and "signed_for env i = Inr s" and "steady_checksum env" and "honest_signer env i"
    and "createReceipt (receipt_data_of env s) d = Inr (r, d')"
  shows "backed env i (issued s) r"
proof -
  obtain p where p: "sg_payload s = p" "xe_sign env (canonicalizeReceiptPayload p) = Some (sg_signature s)"
    "sg_canonicalPayload s = canonicalizeReceiptPayload p"
    using signed_for_facts [OF assms(2)] by blast
  have "trusted_text env i (canonicalizeReceiptPayload p) (sg_signature s)" using assms(4) p(2) by (simp add: honest_signer_def)
  then show ?thesis using new_row_fits [OF assms(1-3,5)] p
    by (simp add: backed_def issued_def canonical_of_def canonicalizeReceiptPayload_def)
qed

text \<open>What a signed receipt says.\<close>

lemma text_context: "nonempty (normaliseOptionalContext (null_or_text x)) = nonempty x"
  by (cases x; cases "the x") (auto simp: normaliseOptionalContext_def null_or_text_def nonempty_def is_nullish_def)

lemma issued_states:
  assumes "receipt_intent_of env q = Inr i" and "signed_for env i = Inr s" and "steady_checksum env"
  shows "states env q (sd_payload (issued s))" and "text_of_payload (issued s)"
proof -
  note i = receipt_intent_facts [OF assms(1)]
  obtain p where p: "createSpendReceiptPayload (xe_sha256 env) (xe_checksum env) (xe_uuid env) (xe_clock env) (receipt_input_of i) = Some p"
    "sg_payload s = p" "sg_canonicalPayload s = canonicalizeReceiptPayload p"
    using signed_for_facts [OF assms(2)] by blast
  have c: "xe_checksum env (rk_wallet i) = Some (rk_wallet i)" "xe_checksum env (rk_contract i) = Some (rk_contract i)"
    using assms(3) i(5,8) by (simp_all add: steady_checksum_def)
  have f: "rp_version p = ''1.0''" "receipt_payload.rp_status p = RS_SETTLED" "rp_contractId p = rk_uid i" "rp_walletAddress p = rk_wallet i"
    "rp_amount p = decimal (rk_amount i)" "rp_sessionId p = null_or_text (rk_session i)" "rp_providerId p = null_or_text (rk_provider i)"
    "rp_tokenTxHash p = rk_hash i" "rp_tokenContractAddress p = rk_contract i" "rp_chainId p = rk_chain i"
    using p(1) c by (auto simp: createSpendReceiptPayload_def Let_def receipt_input_of_def split: Option.bind_splits)
  have t: "at_key (as_object (payload_value p)) ''version'' = JStr ''1.0''" "at_key (as_object (payload_value p)) ''status'' = JStr ''settled''"
    "at_key (as_object (payload_value p)) ''contractId'' = JStr (rk_uid i)" "at_key (as_object (payload_value p)) ''walletAddress'' = JStr (rk_wallet i)"
    "at_key (as_object (payload_value p)) ''tokenContractAddress'' = JStr (rk_contract i)"
    "at_key (as_object (payload_value p)) ''amount'' = JStr (decimal (rk_amount i))" "at_key (as_object (payload_value p)) ''tokenTxHash'' = JStr (rk_hash i)"
    "at_key (as_object (payload_value p)) ''sessionId'' = null_or_text (rk_session i)"
    "at_key (as_object (payload_value p)) ''providerId'' = null_or_text (rk_provider i)"
    "at_key (as_object (payload_value p)) ''chainId'' = JNum (Fin (of_nat (rk_chain i)))"
    by (simp_all add: payload_value_def as_object_def at_key_def field_def f)
  show "states env q (sd_payload (issued s))"
    using i(2,4,5,7-9,11,12) c canonicalTokenAmount_idem(1) [OF i(2)] canonical_hash_id(2) [OF i(1)]
    by (simp add: states_def issued_def p(2) t same_address_def text_context same_text_def)
  show "text_of_payload (issued s)"
    by (simp add: text_of_payload_def issued_def canonical_of_def p(2,3) canonicalizeReceiptPayload_def)
qed

text \<open>What a successful run leaves in the table of receipts.\<close>

lemma receipt_run_backed:
  assumes "accounts_ok d" and "others_receipts env" and "steady_checksum env"
    and "receipt_intent_of env q = Inr i" and "honest_signer env i" and "createAndStoreSpendReceipt env q d = (d', Inr s)"
  shows "\<exists>r. backed env i s r \<and> filter (\<lambda>x. same_text (rc_token_tx_hash x) (rk_hash i)) (t_receipts d') = [r]"
    and "states env q (sd_payload s)" and "text_of_payload s"
proof -
  have v: "states env q (sd_payload s)" "text_of_payload s" if "validated env i r = Inr s" for r
    using checked_payload_states [OF assms(4) validated_payload(2) [OF that] assms(3)] validated_payload(1) [OF that]
    by (simp_all add: text_of_payload_def)
  have "states env q (sd_payload s) \<and> text_of_payload s" using assms(6)
  proof (cases rule: receipt_run_cases)
    case (found i' r)
    then show ?thesis using v assms(4) by simp
  next
    case (stored i' g)
    have g: "signed_for env i = Inr g" using stored(1,2) assms(4) by simp
    show ?thesis using stored(3)
    proof (cases rule: store_receipt_cases)
      case (issued r)
      then show ?thesis using issued_states [OF assms(4) g assms(3)] by simp
    next
      case (raced d1)
      then show ?thesis using raced_receipt_facts(2) [OF raced(2), of s] v assms(4) stored(1) by auto
    qed
  qed simp
  then show "states env q (sd_payload s)" "text_of_payload s" by simp_all
  have "\<exists>r \<in> set (t_receipts d'). backed env i s r" using assms(6)
  proof (cases rule: receipt_run_cases)
    case (found i' r)
    then show ?thesis using assms(4) validated_backed [of env i r s] receipt_under_member by auto
  next
    case (stored i' g)
    have g: "signed_for env i = Inr g" using stored(1,2) assms(4) by simp
    show ?thesis using stored(3)
    proof (cases rule: store_receipt_cases)
      case (issued r)
      then show ?thesis using issued_backed [OF assms(4) g assms(3,5) issued(1)] createReceipt_facts [OF issued(1)] by auto
    next
      case (raced d1)
      then obtain r where "receipt_under q (rk_hash i) d1 = Inr (Some r)" "validated env i r = Inr s" "d' = d1"
        using raced_receipt_facts [OF raced(2)] assms(4) stored(1) by auto
      then show ?thesis using validated_backed receipt_under_member by blast
    qed
  qed simp
  then obtain r where r: "r \<in> set (t_receipts d')" "backed env i s r" by blast
  have "accounts_ok d'" by (rule award_store.steps_invar [OF receipt_run_steps [OF assms(6,2)] assms(1)])
  then have "distinct (map (\<lambda>x. js_lower (rc_token_tx_hash x)) (t_receipts d'))"
    by (simp add: accounts_ok_def service_ok_def projections_ok_def)
  from filter_key [OF this r(1)] have "filter (\<lambda>x. same_text (rc_token_tx_hash x) (rk_hash i)) (t_receipts d') = [r]"
    using r(2) by (simp add: backed_def fits_def same_text_def)
  with r(2) show "\<exists>r. backed env i s r \<and> filter (\<lambda>x. same_text (rc_token_tx_hash x) (rk_hash i)) (t_receipts d') = [r]" by blast
qed

subsection \<open>Guarantees\<close>


definition sample_receipt_env :: "write_answer \<Rightarrow> receipt_env" where
  "sample_receipt_env w = \<lparr>xe_provider = True, xe_network = Some 80002, xe_configured_chain = Some ''80002'', xe_token_contract = ''0xc0'',
     xe_checksum = Some, xe_signer = Some ''0xa1'', xe_sha256 = (\<lambda>_. replicate 64 CHR ''a''), xe_uuid = ''u'', xe_clock = 9,
     xe_sign = Some, xe_recover = (\<lambda>t s. if s = t then Some ''0xa1'' else None), xe_reads = True, xe_meanwhile = id,
     xe_write = w, xe_rereads = False\<rparr>"

definition sample_receipt_query :: "js_number \<Rightarrow> receipt_query" where
  "sample_receipt_query n = \<lparr>rs_uid = ''U'', rs_wallet = ''0xB2'', rs_amount = n, rs_session = Some ''s1'', rs_provider = Some ''P'',
     rs_txHash = sample_hash CHR ''a''\<rparr>"

lemma sample_receipt_env_ok:
  "others_receipts (sample_receipt_env w)" "steady_checksum (sample_receipt_env w)" "honest_signer (sample_receipt_env w) i \<longleftrightarrow> same_text ''0xa1'' (rk_signer i)"
  by (simp_all add: others_receipts_def steady_checksum_def honest_signer_def trusted_text_def sample_receipt_env_def)

lemma sample_receipt_hash: "canonicalTxHash (JStr (sample_hash CHR ''a'')) = Some (sample_hash CHR ''a'')"
  using canonical_hash_ok [OF sample_hash_canonical [of "CHR ''a''", simplified]] canonical_hash_id(2) by blast

lemma sample_receipt_intent:
  assumes "canonicalTokenAmount (JNum n) = Some a" and "0 < units a"
  shows "receipt_intent_of (sample_receipt_env w) (sample_receipt_query n) = Inr
    \<lparr>rk_uid = ''U'', rk_wallet = ''0xB2'', rk_amount = a, rk_session = Some ''s1'', rk_provider = Some ''P'',
     rk_hash = sample_hash CHR ''a'', rk_contract = ''0xc0'', rk_chain = 80002, rk_signer = ''0xa1''\<rparr>"
proof -
  have "list_all is_digit ''80002''" "digits_val ''80002'' = 80002" by code_simp+
  then show ?thesis using assms sample_receipt_hash
    by (simp add: receipt_intent_of_def getAuthoritativeChainId_def sample_receipt_env_def sample_receipt_query_def of_option_def guard_def)
qed

text \<open>A receipt for a transfer that has none is signed and stored.\<close>

lemma sample_receipt_run:
  assumes "canonicalTokenAmount (JNum n) = Some a" and "0 < units a" and "t_receipts d = []"
  shows "\<exists>r s. createAndStoreSpendReceipt (sample_receipt_env Write_Done) (sample_receipt_query n) d = (d\<lparr>t_receipts := [r]\<rparr>, Inr s)"
proof -
  define i where "i = \<lparr>rk_uid = ''U'', rk_wallet = ''0xB2'', rk_amount = a, rk_session = Some ''s1'', rk_provider = Some ''P'',
     rk_hash = sample_hash CHR ''a'', rk_contract = ''0xc0'', rk_chain = 80002, rk_signer = ''0xa1''\<rparr>"
  have i: "receipt_intent_of (sample_receipt_env Write_Done) (sample_receipt_query n) = Inr i"
    using sample_receipt_intent [OF assms(1,2)] by (simp add: i_def)
  have h: "canonical_hash (sample_hash CHR ''a'') fld = Inr (sample_hash CHR ''a'')" for fld
    using canonical_hash_id(1) [OF receipt_intent_facts(1) [OF i]] by (simp add: i_def)
  have u: "receipt_under (sample_receipt_query n) (rk_hash i) d = Inr None"
    using assms(3) h by (simp add: receipt_under_def findReceiptByTxHash_def i_def sample_receipt_query_def unambiguous_def
      requireUnambiguousTransactionMatch_def)
  obtain p where p: "createSpendReceiptPayload (xe_sha256 (sample_receipt_env Write_Done)) (xe_checksum (sample_receipt_env Write_Done))
      (xe_uuid (sample_receipt_env Write_Done)) (xe_clock (sample_receipt_env Write_Done)) (receipt_input_of i) = Some p"
    "rp_tokenTxHash p = sample_hash CHR ''a''"
    by (simp add: createSpendReceiptPayload_def Let_def receipt_input_of_def sample_receipt_env_def i_def)
  define s where "s = signSpendReceipt (\<lambda>_. canonicalizeReceiptPayload p) (rk_signer i) p"
  have s: "signed_for (sample_receipt_env Write_Done) i = Inr s" "rd_tokenTxHash (receipt_data_of (sample_receipt_env Write_Done) s) = sample_hash CHR ''a''"
    using p by (simp_all add: signed_for_def s_def sample_receipt_env_def of_option_def receipt_data_of_def Let_def signSpendReceipt_def)
  obtain r where "createReceipt (receipt_data_of (sample_receipt_env Write_Done) s) d = Inr (r, d\<lparr>t_receipts := [r]\<rparr>)"
    using s(2) assms(3) h by (simp add: createReceipt_def Let_def)
  moreover have "xe_reads (sample_receipt_env Write_Done)" "xe_meanwhile (sample_receipt_env Write_Done) d = d"
    "xe_write (sample_receipt_env Write_Done) = Write_Done" by (simp_all add: sample_receipt_env_def)
  ultimately have "createAndStoreSpendReceipt (sample_receipt_env Write_Done) (sample_receipt_query n) d = (d\<lparr>t_receipts := [r]\<rparr>, Inr (issued s))"
    using i u s(1) by (simp add: createAndStoreSpendReceipt_def store_receipt_def)
  then show ?thesis by blast
qed


end
