(* ===== verification/SettlementLaws.thy ===== *)
theory SettlementLaws
  imports Settlement ReceiptStoreLaws AutoLaws
begin

text \<open>
  Guarantees of the settlement of reservations: it always returns, a reservation is paid at most once, and a
  settlement that fails leaves the reservation claimed. Its steps before the completion are those of \<open>OpenHolds\<close>,
  which finish no reservation.
\<close>

subsection \<open>Reservations in the histories\<close>

text \<open>A reservation keeps its slot and its id.\<close>

lemma reservation_later:
  assumes "recording_step\<^sup>*\<^sup>* d d'" and "accounts_ok d" and "r \<in> set (t_reservations d)"
  shows "\<exists>r' \<in> set (t_reservations d'). reservation_le r r'"
proof -
  obtain r' where "find_reservation d' (rv_id r) = Some r'" "reservation_le r r'"
    using recorded_holds.steps_le [OF assms(1,2) reservation_found [OF assms(2,3)]] by blast
  then show ?thesis by (auto simp: find_reservation_def row_at_def dest!: first_where_Some)
qed

lemma same_slot:
  assumes "accounts_ok d" and "r \<in> set (t_reservations d)" and "r' \<in> set (t_reservations d)"
    and "reservation_slot r = reservation_slot r'"
  shows "r = r'"
proof -
  have "distinct (map reservation_slot (t_reservations d))" using accounts_reservations [OF assms(1)] by (simp add: reservations_ok_def)
  then show ?thesis using assms(2-4) by (auto simp: distinct_map inj_on_def)
qed

subsection \<open>Steps of a settlement\<close>

lemma persist_steps:
  "persistReservationSettlementContext env r v d = Inr d' \<Longrightarrow> open_step\<^sup>*\<^sup>* d d'"
  by (auto simp: persistReservationSettlementContext_def split: if_splits sum.splits intro: r_into_rtranclp open_context)

lemma zero_steps:
  assumes "ensureZeroSettlementOperation env s r d = (d', x)"
  shows "open_step\<^sup>*\<^sup>* d d'"
proof -
  have p: "open_step\<^sup>*\<^sup>* a b" if "zero_projected env r a = (b, y)" for a b y
  proof (cases "st_answers env Project_Zero")
    case True
    obtain m c where m: "markProjected (st_clock env) (reservationOperationKey (rv_id r)) a = (m, c)" by (metis surj_pair)
    then have "ledger_step a c" using step_projected by (metis snd_conv)
    then show ?thesis using that True m by (auto simp: zero_projected_def Let_def intro: r_into_rtranclp open_ledger)
  qed (use that in \<open>simp add: zero_projected_def Let_def\<close>)
  have c: "open_step\<^sup>*\<^sup>* a b" if "claim now i q a = Inr (z, b)" for now i q a z b
    using that by (intro r_into_rtranclp open_ledger step_claim)
  show ?thesis using assms
    by (auto simp: ensureZeroSettlementOperation_def split: option.splits if_splits sum.splits prod.splits
      dest!: p c intro: rtranclp_trans)
qed

lemma keep_steps:
  "keep_claimed env r f d = (d', e) \<Longrightarrow> open_step\<^sup>*\<^sup>* d d'" "thrown_on env r p d = (d', e) \<Longrightarrow> open_step\<^sup>*\<^sup>* d d'"
  by (auto simp: keep_claimed_def thrown_on_def split: if_splits intro: r_into_rtranclp open_retry)

lemmas zero_records = open_records [OF zero_steps]

lemmas keep_records = keep_steps(1) [THEN open_records] keep_steps(2) [THEN open_records]

lemma completed_steps:
  "completed_reservation env r v n h d = Some (x, d') \<Longrightarrow> recording_step\<^sup>*\<^sup>* d d'"
  by (auto simp: completed_reservation_def split: if_splits sum.splits intro: r_into_rtranclp by_hold step_complete)

text \<open>The spend of a settlement goes out under the key of the reservation.\<close>

lemma settle_key: "auto_key env (settle_request s r n v) = Inr k \<Longrightarrow> k = reservationOperationKey (rv_id r)"
  by (auto simp: auto_key_def settle_request_def rbind_Inr_iff)

lemma settle_spend_facts:
  assumes "settle_spend env s r managed n v d = (d', sent, funding, approvals, x)" and "accounts_ok d"
  shows "open_step\<^sup>*\<^sup>* d d'" and "sent \<noteq> [] \<Longrightarrow> sends_under (reservationOperationKey (rv_id r)) d d' sent"
    and "sent \<noteq> [] \<Longrightarrow> \<not> may_retry (ao_spend x)"
proof -
  let ?q = "settle_request s r n v"
  let ?thesis' = "open_step\<^sup>*\<^sup>* d d' \<and> (sent \<noteq> [] \<longrightarrow> sends_under (reservationOperationKey (rv_id r)) d d' sent \<and> \<not> may_retry (ao_spend x))"
  have ?thesis'
  proof (cases managed)
    case True
    then have run: "processSpendWithAutoApproval (st_auto env) ?q d = (d', sent, funding, approvals, x)"
      using assms(1) by (simp add: settle_spend_def Let_def)
    have "sent = []" if "auto_key (st_auto env) ?q = Inl e" for e
      using run that by (simp add: processSpendWithAutoApproval_def)
    then show ?thesis using auto_history [OF run assms(2)] settle_key [of "st_auto env" s r n v]
      by (cases "auto_key (st_auto env) ?q") (auto simp: auto_call_key_def)
  next
    case False
    then obtain y where run: "processSpend (au_first (st_auto env)) (auto_spend_request ?q (reservationOperationKey (rv_id r))) d = (d', sent, y)"
      "x = plain_result y"
      using assms(1) by (auto simp: settle_spend_def Let_def split: prod.splits)
    then show ?thesis using attempt_history [OF run(1) assms(2)] by (simp add: plain_result_def)
  qed
  then show "open_step\<^sup>*\<^sup>* d d'" "sent \<noteq> [] \<Longrightarrow> sends_under (reservationOperationKey (rv_id r)) d d' sent"
    "sent \<noteq> [] \<Longrightarrow> \<not> may_retry (ao_spend x)" by blast+
qed

lemma settle_receipt_steps:
  assumes "settle_receipt env s r managed n h row d = (d', y)" and "others_receipts (st_receipt env)"
  shows "recording_step\<^sup>*\<^sup>* d d'"
proof -
  obtain d1 z where run: "createAndStoreSpendReceipt (st_receipt env) (settle_receipt_query s r n h) d = (d1, z)" by (metis surj_pair)
  note c = receipt_run_steps [OF run assms(2)]
  have "d' = d1 \<or> (\<exists>e. thrown_on env r Reservation_Vanished d1 = (d', e))"
    using assms(1) run by (auto simp: settle_receipt_def split: sum.splits option.splits prod.splits)
  then show ?thesis using c keep_records(2) by (metis rtranclp_trans)
qed

lemma after_steps:
  assumes "after_spend env s r managed v x d = (d', y)" and "others_receipts (st_receipt env)"
  shows "recording_step\<^sup>*\<^sup>* d d'"
proof -
  consider (kept) f e where "keep_claimed env r f d = (d', e)"
    | (receipt) h row d1 where "completed_reservation env r v (sx_amount (ao_spend x)) (Some h) d = Some (row, d1)"
        "settle_receipt env s r managed (sx_amount (ao_spend x)) h row d1 = (d', y)"
    using assms(1) by (auto simp: after_spend_def Let_def split: option.splits prod.splits if_splits)
  then show ?thesis
  proof cases
    case kept
    then show ?thesis by (rule keep_records(1))
  next
    case receipt
    then show ?thesis using completed_steps settle_receipt_steps [OF _ assms(2)] by (meson rtranclp_trans)
  qed
qed

lemma again_steps:
  assumes "settled_again env s r d = (d', sent, funding, approvals, x)" and "others_receipts (st_receipt env)"
  shows "recording_step\<^sup>*\<^sup>* d d'" and "sent = []"
proof -
  have "d' = d \<or> (\<exists>h z. createAndStoreSpendReceipt (st_receipt env) (settle_receipt_query s r (settled_number (rv_settled r)) h) d = (d', z))"
    and "sent = []"
    using assms(1) by (auto simp: settled_again_def Let_def split: if_splits option.splits sum.splits prod.splits)
  then show "recording_step\<^sup>*\<^sup>* d d'" "sent = []" using receipt_run_steps [OF _ assms(2)] by auto
qed

text \<open>A settlement of a claimed reservation: nothing was sent, or the spend of the reservation.\<close>

definition settles :: "settle_env \<Rightarrow> reservation_row \<Rightarrow> db \<Rightarrow> db \<Rightarrow> string list \<Rightarrow> bool" where
  "settles env r d d' sent \<longleftrightarrow> recording_step\<^sup>*\<^sup>* d d' \<and> (sent \<noteq> [] \<longrightarrow> sends_under (reservationOperationKey (rv_id r)) d d' sent)"

lemma release_steps:
  "release_nothing_spent env s r v d = (d', sent, funding, approvals, x) \<Longrightarrow> recording_step\<^sup>*\<^sup>* d d' \<and> sent = []"
  by (auto simp: release_nothing_spent_def split: sum.splits option.splits prod.splits
      dest!: zero_records completed_steps keep_records(1) intro: rtranclp_trans)

lemma spend_settles:
  assumes "spend_and_complete env s r n v d = (d', sent, funding, approvals, y)" and "accounts_ok d"
    and "others_receipts (st_receipt env)"
  shows "settles env r d d' sent"
proof (cases "st_managed env (uid s)")
  case None
  then show ?thesis using assms(1) keep_records(2) by (auto simp: spend_and_complete_def settles_def split: prod.splits)
next
  case (Some wallet)
  then obtain d1 x where run: "settle_spend env s r (same_text (rv_wallet r) wallet) n v d = (d1, sent, funding, approvals, x)"
    "after_spend env s r (same_text (rv_wallet r) wallet) v x d1 = (d', y)"
    using assms(1) by (auto simp: spend_and_complete_def Let_def split: prod.splits)
  note a = after_steps [OF run(2) assms(3)]
  show ?thesis using open_records [OF settle_spend_facts(1) [OF run(1) assms(2)]] settle_spend_facts(2) [OF run(1) assms(2)] a
    by (auto simp: settles_def intro: rtranclp_trans sends_under_within [OF rtranclp.rtrancl_refl])
qed

lemma claimed_settles:
  assumes "settle_claimed env s r d = (d', sent, funding, approvals, y)" and "accounts_ok d" and "others_receipts (st_receipt env)"
  shows "settles env r d d' sent"
proof -
  consider (stopped) "d' = d" "sent = []"
    | (free) d1 where "persistReservationSettlementContext env r (delivered_energy s) d = Inr d1"
        "release_nothing_spent env s r (delivered_energy s) d1 = (d', sent, funding, approvals, y)"
    | (spend) d1 n where "persistReservationSettlementContext env r (delivered_energy s) d = Inr d1"
        "spend_and_complete env s r n (delivered_energy s) d1 = (d', sent, funding, approvals, y)"
    using assms(1) by (auto simp: settle_claimed_def split: sum.splits if_splits)
  then show ?thesis
  proof cases
    case stopped
    then show ?thesis by (simp add: settles_def)
  next
    case free
    then show ?thesis using open_records [OF persist_steps [OF free(1)]] release_steps [OF free(2)] by (auto simp: settles_def intro: rtranclp_trans)
  next
    case spend
    note p = open_records [OF persist_steps [OF spend(1)]]
    have "settles env r d1 d' sent" by (rule spend_settles [OF spend(2) award_store.steps_invar [OF p assms(2)] assms(3)])
    then show ?thesis using p by (auto simp: settles_def intro: rtranclp_trans sends_under_within [OF _ _ rtranclp.rtrancl_refl])
  qed
qed

lemma settle_on_settles:
  assumes "settle_on env s r mine d = (d', sent, funding, approvals, y)" and "accounts_ok d" and "others_receipts (st_receipt env)"
  shows "settles env r d d' sent"
proof -
  have "(d' = d \<and> sent = []) \<or> settle_claimed env s r d = (d', sent, funding, approvals, y)"
    using assms(1) by (auto simp: settle_on_def settle_resumed_def Let_def split: if_splits)
  then show ?thesis using claimed_settles [OF _ assms(2,3)] by (auto simp: settles_def)
qed

subsection \<open>The claim\<close>

definition settle_slot :: "session \<Rightarrow> string \<times> string \<times> string" where
  "settle_slot s = (uid s, settle_session s, providerId s)"

text \<open>A reservation that the settlement goes on with: in its slot, no longer open, and still in the table.\<close>

definition taken :: "session \<Rightarrow> db \<Rightarrow> reservation_row \<Rightarrow> bool" where
  "taken s d r \<longleftrightarrow> reservation_slot r = settle_slot s \<and> rv_status r \<noteq> RESERVED
     \<and> (\<exists>r' \<in> set (t_reservations d). reservation_le r r')"

lemma takenI: "reservation_slot r = settle_slot s \<Longrightarrow> rv_status r \<noteq> RESERVED \<Longrightarrow> r \<in> set (t_reservations d) \<Longrightarrow> taken s d r"
  unfolding taken_def using reservation_le_refl by blast

lemma found_slot:
  "settle_found env s d = Some r \<Longrightarrow> r \<in> set (t_reservations d) \<and> reservation_slot r = settle_slot s"
  by (auto simp: settle_found_def findBySession_def session_reservation_def reservation_slot_def settle_slot_def dest!: first_where_Some)

lemma claimed_row:
  assumes "claimForSettlement now (uid s) (settle_session s) (providerId s) d = (Some c, d')"
  shows "taken s d' c" and "recording_step\<^sup>*\<^sup>* d d'"
proof -
  obtain r where r: "r \<in> set (t_reservations d)" "session_reservation (uid s) (settle_session s) (providerId s) r"
    "c = r\<lparr>rv_status := SETTLING, rv_error := None, rv_updated := now\<rparr>" "rv_status r = RESERVED"
    using assms by (auto simp: claimForSettlement_def Let_def returning_Some dest!: first_where_Some)
  have "c \<in> set (t_reservations d')" using assms r by (auto simp: claimForSettlement_def Let_def set_update_where)
  then show "taken s d' c"
    using r(2,3) by (intro takenI) (auto simp: settle_slot_def reservation_slot_def session_reservation_def)
  have "d' = snd (claimForSettlement now (uid s) (settle_session s) (providerId s) d)" using assms by simp
  then show "recording_step\<^sup>*\<^sup>* d d'" by (auto intro: r_into_rtranclp by_hold step_claim_settlement)
qed

lemma unclaimed:
  assumes "claimForSettlement now (uid s) (settle_session s) (providerId s) d = (None, d')"
  shows "d' = d" and "r \<in> set (t_reservations d) \<Longrightarrow> reservation_slot r = settle_slot s \<Longrightarrow> rv_status r \<noteq> RESERVED"
proof -
  have n: "\<not> (session_reservation (uid s) (settle_session s) (providerId s) r \<and> rv_status r = RESERVED)"
    if "r \<in> set (t_reservations d)" for r
    using assms that by (auto simp: claimForSettlement_def Let_def returning_None)
  then show "r \<in> set (t_reservations d) \<Longrightarrow> reservation_slot r = settle_slot s \<Longrightarrow> rv_status r \<noteq> RESERVED"
    by (auto simp: session_reservation_def reservation_slot_def settle_slot_def)
  have "update_where (\<lambda>r. session_reservation (uid s) (settle_session s) (providerId s) r \<and> rv_status r = RESERVED) f (t_reservations d)
      = t_reservations d" for f
    using n by (auto simp: update_where_def intro!: map_idI)
  then show "d' = d" using assms by (simp add: claimForSettlement_def Let_def update_reservations_def)
qed

lemma claim_missing_facts:
  assumes "claim_missing env s d = Inr (Some (r, mine, d1))"
  shows "recording_step\<^sup>*\<^sup>* d d1" and "taken s d1 r" and "mine"
  using assms claimed_row by (auto simp: claim_missing_def split: if_splits option.splits prod.splits)

lemma claim_reservation_facts:
  assumes "claim_reservation env s (settle_found env s d) dm = Inr (Some (r, mine, d1))" and ok: "accounts_ok d"
    and m: "recording_step\<^sup>*\<^sup>* d dm"
  shows "recording_step\<^sup>*\<^sup>* d d1" and "taken s d1 r"
proof -
  consider (missing) d0 where "claim_missing env s d0 = Inr (Some (r, mine, d1))" "d0 = dm"
    | (stale) "settle_found env s d = Some r" "rv_status r \<noteq> RESERVED" "d1 = dm"
    | (claimed) "claimForSettlement (st_clock env) (uid s) (settle_session s) (providerId s) dm = (Some r, d1)"
    | (again) "claimForSettlement (st_clock env) (uid s) (settle_session s) (providerId s) dm = (None, d1)" "settle_found env s d1 = Some r"
    using assms(1)
    by (auto simp: claim_reservation_def dest: unclaimed(1) split: option.splits if_splits prod.splits)
  then have "recording_step\<^sup>*\<^sup>* d d1 \<and> taken s d1 r"
  proof cases
    case missing
    then show ?thesis using claim_missing_facts m by (meson rtranclp_trans)
  next
    case stale
    then show ?thesis using m found_slot [OF stale(1)] reservation_later [OF m ok] by (auto simp: taken_def)
  next
    case claimed
    then show ?thesis using claimed_row [OF claimed] m by (auto intro: rtranclp_trans)
  next
    case again
    then show ?thesis using m unclaimed [OF again(1)] found_slot [OF again(2)] by (auto intro: takenI)
  qed
  then show "recording_step\<^sup>*\<^sup>* d d1" "taken s d1 r" by blast+
qed

subsection \<open>Runs\<close>

definition others_settle :: "settle_env \<Rightarrow> bool" where
  "others_settle env \<longleftrightarrow> others_receipts (st_receipt env) \<and> (\<forall>d. recording_step\<^sup>*\<^sup>* d (st_meanwhile env d))"

text \<open>
  What every run leaves: a history, and when something was sent, a reservation of the slot under whose key it
  was; when it throws a failure of its own, a reservation of the slot that is no longer open.
\<close>

definition settled_well :: "session \<Rightarrow> db \<Rightarrow> db \<Rightarrow> string list \<Rightarrow> bool \<Rightarrow> bool" where
  "settled_well s d d' sent touched \<longleftrightarrow> recording_step\<^sup>*\<^sup>* d d'
     \<and> (sent \<noteq> [] \<longrightarrow> (\<exists>r \<in> set (t_reservations d'). reservation_slot r = settle_slot s
          \<and> sends_under (reservationOperationKey (rv_id r)) d d' sent))
     \<and> (touched \<longrightarrow> (\<exists>r \<in> set (t_reservations d'). reservation_slot r = settle_slot s \<and> rv_status r \<noteq> RESERVED))"

lemma taken_later:
  assumes "taken s d r" and "recording_step\<^sup>*\<^sup>* d d'" and "accounts_ok d"
  shows "\<exists>r' \<in> set (t_reservations d'). reservation_slot r' = settle_slot s \<and> rv_status r' \<noteq> RESERVED \<and> rv_id r' = rv_id r"
proof -
  obtain r1 where r1: "r1 \<in> set (t_reservations d)" "reservation_le r r1" using assms(1) by (auto simp: taken_def)
  obtain r2 where r2: "r2 \<in> set (t_reservations d')" "reservation_le r1 r2" using reservation_later [OF assms(2,3) r1(1)] by blast
  have le: "reservation_le r r2" by (rule reservation_le_trans [OF r1(2) r2(2)])
  have "rv_status r \<noteq> RESERVED" "reservation_slot r = settle_slot s" using assms(1) by (simp_all add: taken_def)
  then show ?thesis using r2(1) le reservation_le_keys [OF le] by (auto simp: reservation_le_def)
qed

lemma taken_settled:
  assumes "taken s d1 r" and "settles env r d1 d' sent" and "recording_step\<^sup>*\<^sup>* d d1" and "accounts_ok d1"
  shows "settled_well s d d' sent True"
proof -
  have steps: "recording_step\<^sup>*\<^sup>* d1 d'" using assms(2) by (simp add: settles_def)
  obtain r' where r': "r' \<in> set (t_reservations d')" "reservation_slot r' = settle_slot s" "rv_status r' \<noteq> RESERVED" "rv_id r' = rv_id r"
    using taken_later [OF assms(1) steps assms(4)] by blast
  have "sent \<noteq> [] \<Longrightarrow> sends_under (reservationOperationKey (rv_id r')) d d' sent"
    using assms(2) sends_under_within [OF assms(3) _ rtranclp.rtrancl_refl] by (simp add: settles_def r'(4))
  then show ?thesis using r'(1-3) rtranclp_trans [OF assms(3) steps] by (auto simp: settled_well_def)
qed

lemma settlement_history:
  assumes "settle_with_fuel n env s d = Some (d', sent, funding, approvals, x)" and "accounts_ok d" and "others_settle env"
  shows "settled_well s d d' sent (\<exists>f. x = Inl (Settlement_Failure f))"
  using assms(1,2)
proof (induction n arbitrary: d)
  case (Suc n)
  note env = assms(3) [unfolded others_settle_def]
  have m: "recording_step\<^sup>*\<^sup>* d (st_meanwhile env d)" using env by blast
  show ?case
  proof (cases "st_answers env Find_Reservation")
    case False
    then show ?thesis using Suc.prems(1) by (auto simp: settled_well_def)
  next
    case answers: True
    show ?thesis
    proof (cases "settled_before env s d")
      case (Some r)
      then have r: "settle_found env s d = Some r" "final_reservation (rv_status r)"
        by (auto simp: settled_before_def split: option.splits if_splits)
      have "settled_again env s r d = (d', sent, funding, approvals, x)" using Suc.prems(1) answers Some by simp
      then have "settles env r d d' sent" using again_steps env by (auto simp: settles_def)
      moreover have "taken s d r" using r(2) found_slot [OF r(1)] by (intro takenI) (auto simp: final_reservation_def)
      ultimately have "settled_well s d d' sent True" using Suc.prems(2) by (intro taken_settled [of s d r]) auto
      then show ?thesis by (auto simp: settled_well_def)
    next
      case None
      consider (stopped) e where "d' = st_meanwhile env d" "sent = []" "x = Inl (Settlement_Thrown e) \<or> x = Inr None"
        | (onward) r mine d1 where "claim_reservation env s (settle_found env s d) (st_meanwhile env d) = Inr (Some (r, mine, d1))"
            "final_reservation (rv_status r) \<and> settle_with_fuel n env s d1 = Some (d', sent, funding, approvals, x)
             \<or> settle_on env s r mine d1 = (d', sent, funding, approvals, x)"
        using Suc.prems(1) answers None
        by (auto simp: claim_reservation_def claim_missing_def split: sum.splits option.splits if_splits prod.splits)
      then show ?thesis
      proof cases
        case stopped
        then show ?thesis using m by (auto simp: settled_well_def)
      next
        case (onward r mine d1)
        note c = claim_reservation_facts [OF onward(1) Suc.prems(2) m]
        have ok1: "accounts_ok d1" by (rule award_store.steps_invar [OF c(1) Suc.prems(2)])
        from onward(2) show ?thesis
        proof (elim disjE conjE)
          assume "settle_with_fuel n env s d1 = Some (d', sent, funding, approvals, x)"
          from Suc.IH [OF this ok1] show ?thesis
            using c(1) sends_under_within [OF c(1) _ rtranclp.rtrancl_refl] by (auto simp: settled_well_def intro: rtranclp_trans)
        next
          assume "settle_on env s r mine d1 = (d', sent, funding, approvals, x)"
          then have "settles env r d1 d' sent" using settle_on_settles ok1 env by blast
          from taken_settled [OF c(2) this c(1) ok1] show ?thesis by (auto simp: settled_well_def)
        qed
      qed
    qed
  qed
qed simp

lemma settlement_unfold: "settleReservationFromCdr env s d = settle_with_fuel (Suc (Suc 0)) env s d"
  by (simp add: settleReservationFromCdr_def eval_nat_numeral del: settle_with_fuel.simps)

lemma settlement_defined: "\<exists>run. settleReservationFromCdr env s d = Some run"
proof -
  have again: "\<exists>run. settle_with_fuel (Suc n) env s d1 = Some run"
    if "settle_found env s d1 = Some r" "final_reservation (rv_status r)" for n d1 r
    using that by (auto simp: settled_before_def simp del: split_paired_Ex)
  have claimed: "\<not> final_reservation (rv_status r)"
    if "claimForSettlement now u t p d1 = (Some r, d2)" for now u t p d1 r d2
    using that by (auto simp: claimForSettlement_def Let_def returning_Some)
  show ?thesis
    unfolding settlement_unfold settle_with_fuel.simps(2) [where n = "Suc 0"]
    using again [of _ _ 0] claimed
    by (auto simp: claim_reservation_def claim_missing_def settled_before_def settle_on_def
      split: option.splits sum.splits prod.splits if_splits simp del: settle_with_fuel.simps split_paired_Ex)
qed

lemma more_fuel: "settle_with_fuel n env s d = Some run \<Longrightarrow> settle_with_fuel (n + k) env s d = Some run"
proof (induction n arbitrary: d)
  case (Suc n)
  then show ?case by (auto split: if_splits option.splits sum.splits prod.splits)
qed simp

subsection \<open>Failed settlements\<close>

text \<open>The one error that comes after the completion: the receipt is missing, and the error has the hash of the spend.\<close>

definition receipt_missing :: "settle_error \<Rightarrow> reservation_row \<Rightarrow> bool" where
  "receipt_missing e r \<longleftrightarrow> (\<exists>f p h g. e = Settlement_Failure f \<and> sf_problem f = Receipt_Unstored p \<and> sf_txHash f = Some h
     \<and> canonical_hash h ''reservation transaction hash'' = Inr g \<and> rv_tx_hash r = Some g)"

definition names_reservation :: "string \<Rightarrow> settle_error \<Rightarrow> bool" where
  "names_reservation i e \<longleftrightarrow> (\<forall>f. e = Settlement_Failure f \<longrightarrow> sf_reservation f = i)"

definition unfinished :: "string \<Rightarrow> db \<Rightarrow> db \<Rightarrow> settle_error \<Rightarrow> bool" where
  "unfinished i d d' e \<longleftrightarrow> names_reservation i e \<and> (\<forall>r \<in> set (t_reservations d'). rv_id r = i \<and> final_reservation (rv_status r)
     \<longrightarrow> r \<in> set (t_reservations d) \<or> receipt_missing e r)"

lemma open_unfinished: "open_step\<^sup>*\<^sup>* d d' \<Longrightarrow> accounts_ok d \<Longrightarrow> names_reservation i e \<Longrightarrow> unfinished i d d' e"
  unfolding unfinished_def using open_finals by blast

lemma unfinished_earlier:
  assumes "open_step\<^sup>*\<^sup>* d0 d" and "accounts_ok d0" and "unfinished i d d' e"
  shows "unfinished i d0 d' e"
  using assms(3) open_finals [OF assms(1,2)] unfolding unfinished_def by blast

lemma failure_reservation [simp]:
  "sf_reservation (open_failure r p a b) = rv_id r" "sf_reservation (confirmed_failure r p a b h) = rv_id r"
  "sf_reservation (spend_failure r x) = rv_id r" "sf_reservation (context_error r c) = rv_id r"
  by (simp_all add: open_failure_def confirmed_failure_def spend_failure_def context_error_def Let_def)

lemma names_simps [simp]:
  "names_reservation i (Settlement_Failure f) \<longleftrightarrow> sf_reservation f = i" "names_reservation i (Settlement_Thrown p)"
  by (simp_all add: names_reservation_def)

lemma keep_names:
  "keep_claimed env r f d = (d', e) \<Longrightarrow> sf_reservation f = rv_id r \<Longrightarrow> names_reservation (rv_id r) e"
  "thrown_on env r p d = (d', e) \<Longrightarrow> names_reservation (rv_id r) e"
  by (auto simp: keep_claimed_def thrown_on_def split: if_splits)

lemma zero_names: "ensureZeroSettlementOperation env s r d = (d', Inl f) \<Longrightarrow> sf_reservation f = rv_id r"
  by (auto simp: ensureZeroSettlementOperation_def zero_operation_checked_def zero_projected_def Let_def rbind_Inl_iff guard_def
      split: option.splits if_splits sum.splits prod.splits)

text \<open>A completion leaves the reservation final: as it already was, or with the hash of the spend.\<close>

lemma completed_hash:
  assumes "complete now i v n (Some h) d = Inr (x, d')" and "find_reservation d i = Some c" and "\<not> final_reservation (rv_status c)"
    and "r \<in> set (t_reservations d')" and "rv_id r = i" and "nonempty (Some h) = Some h"
  shows "\<exists>g. canonical_hash h ''reservation transaction hash'' = Inr g \<and> rv_tx_hash r = Some g"
proof -
  obtain g where g: "canonical_hash h ''reservation transaction hash'' = Inr g"
    using assms(1,6) by (cases "canonical_hash h ''reservation transaction hash''") (auto simp: complete_def optional_tx_hash_def)
  then have o: "optional_tx_hash (Some h) ''reservation transaction hash'' = Inr (Some g)" using assms(6) by (simp add: optional_tx_hash_def)
  have "rv_tx_hash r = Some g"
    using assms(1)
  proof (cases rule: complete_cases)
    case (final q)
    then show ?thesis using assms(2,3) by simp
  next
    case (completed q a dk g' f)
    have c: "find_reservation d i = Some q" "canonicalTokenAmount (JNum n) = Some a" "delivered_split v = Some dk"
      "\<not> final_reservation (rv_status q)" by fact+
    obtain f where f: "d' = update_reservations (\<lambda>r. rv_id r = i) f d" "\<And>r. rv_tx_hash (f r) = Some g"
      using assms(1)
      by (auto simp: complete_def o c of_option_def canonicalTokenAmount_text rbind_Inr_iff Let_def)
    show ?thesis using assms(4,5) f(2) unfolding f(1) update_reservations_def by (auto simp: set_update_where)
  qed
  then show ?thesis using g by blast
qed

lemma completed_row:
  assumes "completed_reservation env r v n (Some h) d = Some (x, d')" and ok: "accounts_ok d" and "nonempty (Some h) = Some h"
  shows "x \<noteq> None" and "\<exists>q \<in> set (t_reservations d'). rv_id q = rv_id r \<and> final_reservation (rv_status q)
    \<and> (q \<in> set (t_reservations d) \<or> (\<exists>g. canonical_hash h ''reservation transaction hash'' = Inr g \<and> rv_tx_hash q = Some g))"
proof -
  have run: "complete (st_clock env) (rv_id r) v n (Some h) d = Inr (x, d')"
    using assms(1) by (auto simp: completed_reservation_def split: if_splits sum.splits)
  have "x \<noteq> None \<and> (\<exists>q \<in> set (t_reservations d'). rv_id q = rv_id r \<and> final_reservation (rv_status q)
    \<and> (q \<in> set (t_reservations d) \<or> (\<exists>g. canonical_hash h ''reservation transaction hash'' = Inr g \<and> rv_tx_hash q = Some g)))"
    using run
  proof (cases rule: complete_cases)
    case (final c)
    then have "c \<in> set (t_reservations d) \<and> rv_id c = rv_id r" by (auto simp: find_reservation_def row_at_def dest!: first_where_Some)
    then show ?thesis using final by blast
  next
    case (completed c a dk g f)
    then have c: "c \<in> set (t_reservations d)" "rv_id c = rv_id r" by (auto simp: find_reservation_def row_at_def dest!: first_where_Some)
    have "f c \<in> set (t_reservations d')" using c by (auto simp: completed(8) update_reservations_def set_update_where)
    moreover have "rv_id (f c) = rv_id r" "final_reservation (rv_status (f c))" using c(2) by (simp_all add: completed(6))
    moreover have "x \<noteq> None" using c by (auto simp: completed(7) returning_None)
    ultimately show ?thesis using completed_hash [OF run completed(1,2) _ _ assms(3)] by blast
  qed
  then show "x \<noteq> None" "\<exists>q \<in> set (t_reservations d'). rv_id q = rv_id r \<and> final_reservation (rv_status q)
    \<and> (q \<in> set (t_reservations d) \<or> (\<exists>g. canonical_hash h ''reservation transaction hash'' = Inr g \<and> rv_tx_hash q = Some g))" by blast+
qed

lemma after_unfinished:
  assumes "after_spend env s r managed v x d = (d', Inl e)" and ok: "accounts_ok d" and others: "others_receipts (st_receipt env)"
  shows "unfinished (rv_id r) d d' e"
proof -
  consider (kept) f where "keep_claimed env r f d = (d', e)" "sf_reservation f = rv_id r"
    | (receipt) h row d1 where "completed_reservation env r v (sx_amount (ao_spend x)) (Some h) d = Some (row, d1)"
        "settle_receipt env s r managed (sx_amount (ao_spend x)) h row d1 = (d', Inl e)" "nonempty (Some h) = Some h"
    using assms(1) by (auto simp: after_spend_def Let_def nonempty_def split: option.splits prod.splits if_splits)
  then show ?thesis
  proof cases
    case kept
    then show ?thesis using open_unfinished [OF keep_steps(1) ok keep_names(1)] by blast
  next
    case receipt
    note c = completed_row [OF receipt(1) ok receipt(3)]
    obtain q where q: "q \<in> set (t_reservations d1)" "rv_id q = rv_id r" "final_reservation (rv_status q)"
      "q \<in> set (t_reservations d) \<or> (\<exists>g. canonical_hash h ''reservation transaction hash'' = Inr g \<and> rv_tx_hash q = Some g)"
      using c(2) by blast
    obtain p where e: "e = Settlement_Failure (confirmed_failure r (Receipt_Unstored p) (Some (\<not> receipt_review p)) (receipt_review p) (Some h))"
      using receipt(2) c(1) by (auto simp: settle_receipt_def split: sum.splits prod.splits option.splits)
    have "receipt_missing e q" if "canonical_hash h ''reservation transaction hash'' = Inr g \<and> rv_tx_hash q = Some g" for g
      using that by (simp add: receipt_missing_def e confirmed_failure_def open_failure_def)
    with q(4) have known: "q \<in> set (t_reservations d) \<or> receipt_missing e q" by blast
    have ok1: "accounts_ok d1" by (rule award_store.steps_invar [OF completed_steps [OF receipt(1)] ok])
    have steps: "recording_step\<^sup>*\<^sup>* d1 d'" by (rule settle_receipt_steps [OF receipt(2) others])
    have "t = q" if "t \<in> set (t_reservations d')" "rv_id t = rv_id r" for t
      using reservation_found [OF award_store.steps_invar [OF steps ok1] that(1)]
        recorded_holds.final_forever [OF steps ok1 reservation_found [OF ok1 q(1)] q(3)] that(2) q(2) by simp
    then show ?thesis using known by (auto simp: unfinished_def e)
  qed
qed

lemma release_unfinished:
  assumes "release_nothing_spent env s r v d = (d', sent, funding, approvals, Inl e)" and "accounts_ok d"
  shows "unfinished (rv_id r) d d' e"
proof -
  have "open_step\<^sup>*\<^sup>* d d' \<and> names_reservation (rv_id r) e"
    using assms(1)
  proof (cases "ensureZeroSettlementOperation env s r d")
    case zero: (Pair d1 y)
    note z = zero_steps [OF zero]
    show ?thesis
    proof (cases y)
      case (Inl f)
      then show ?thesis using assms(1) zero z zero_names [of env s r d d1 f] by (auto simp: release_nothing_spent_def)
    next
      case (Inr u)
      let ?f = "open_failure r Release_Pending (Some True) False"
      have k: "keep_claimed env r ?f d1 = (d', e)"
        using assms(1) zero Inr by (auto simp: release_nothing_spent_def split: option.splits prod.splits)
      show ?thesis using rtranclp_trans [OF z keep_steps(1) [OF k]] keep_names(1) [OF k] by simp
    qed
  qed
  then show ?thesis using open_unfinished assms(2) by blast
qed

lemma claimed_unfinished:
  assumes "settle_claimed env s r d = (d', sent, funding, approvals, Inl e)" and ok: "accounts_ok d"
    and others: "others_receipts (st_receipt env)"
  shows "unfinished (rv_id r) d d' e"
proof -
  let ?v = "delivered_energy s"
  consider (stopped) "d' = d" "names_reservation (rv_id r) e"
    | (onward) d1 where "persistReservationSettlementContext env r ?v d = Inr d1"
        "release_nothing_spent env s r ?v d1 = (d', sent, funding, approvals, Inl e)
         \<or> (\<exists>n. spend_and_complete env s r n ?v d1 = (d', sent, funding, approvals, Inl e))"
    using assms(1) by (auto simp: settle_claimed_def persistReservationSettlementContext_def split: sum.splits if_splits)
  then show ?thesis
  proof cases
    case stopped
    then show ?thesis using open_unfinished [OF rtranclp.rtrancl_refl ok] by blast
  next
    case onward
    note p = persist_steps [OF onward(1)]
    note ok1 = open_accounts [OF p ok]
    from onward(2) have "unfinished (rv_id r) d1 d' e"
    proof (elim disjE exE)
      fix n assume run: "spend_and_complete env s r n ?v d1 = (d', sent, funding, approvals, Inl e)"
      show ?thesis
      proof (cases "st_managed env (uid s)")
        case None
        then have "thrown_on env r Managed_Wallet_Unknown d1 = (d', e)"
          using run by (auto simp: spend_and_complete_def split: prod.splits)
        then show ?thesis using open_unfinished [OF keep_steps(2) ok1 keep_names(2)] by blast
      next
        case (Some wallet)
        then obtain d2 x where run: "settle_spend env s r (same_text (rv_wallet r) wallet) n ?v d1 = (d2, sent, funding, approvals, x)"
          "after_spend env s r (same_text (rv_wallet r) wallet) ?v x d2 = (d', Inl e)"
          using run by (auto simp: spend_and_complete_def Let_def split: prod.splits)
        note s = settle_spend_facts(1) [OF run(1) ok1]
        show ?thesis by (rule unfinished_earlier [OF s ok1 after_unfinished [OF run(2) open_accounts [OF s ok1] others]])
      qed
    qed (rule release_unfinished [OF _ ok1])
    then show ?thesis by (rule unfinished_earlier [OF p ok])
  qed
qed

lemma on_unfinished:
  assumes "settle_on env s r mine d = (d', sent, funding, approvals, Inl e)" and "accounts_ok d" and "others_receipts (st_receipt env)"
  shows "unfinished (rv_id r) d d' e"
proof -
  have "d' = d \<and> names_reservation (rv_id r) e \<or> settle_claimed env s r d = (d', sent, funding, approvals, Inl e)"
    using assms(1) by (auto simp: settle_on_def settle_resumed_def Let_def split: if_splits)
  then show ?thesis using claimed_unfinished [OF _ assms(2,3)] open_unfinished [OF rtranclp.rtrancl_refl assms(2)] by blast
qed

text \<open>What a run that throws leaves in the slot, against the reservations it found.\<close>

definition failed_well :: "session \<Rightarrow> reservation_row set \<Rightarrow> db \<Rightarrow> settle_error \<Rightarrow> bool" where
  "failed_well s before d' e \<longleftrightarrow>
     (\<forall>q \<in> set (t_reservations d'). reservation_slot q = settle_slot s
        \<longrightarrow> q \<in> before \<or> rv_status q = SETTLING \<or> final_reservation (rv_status q) \<and> receipt_missing e q)
     \<and> (\<forall>f. e = Settlement_Failure f \<longrightarrow>
          (\<exists>q \<in> set (t_reservations d'). reservation_slot q = settle_slot s \<and> rv_id q = sf_reservation f \<and> rv_status q \<noteq> RESERVED))"

lemma failed_wellI:
  assumes "taken s d r" and "unfinished (rv_id r) d d' e" and "recording_step\<^sup>*\<^sup>* d d'" and ok: "accounts_ok d"
  shows "failed_well s {q \<in> set (t_reservations d). final_reservation (rv_status q)} d' e"
proof -
  obtain t where t: "t \<in> set (t_reservations d')" "reservation_slot t = settle_slot s" "rv_status t \<noteq> RESERVED" "rv_id t = rv_id r"
    using taken_later [OF assms(1,3) ok] by blast
  have "q = t" if "q \<in> set (t_reservations d')" "reservation_slot q = settle_slot s" for q
    using same_slot [OF award_store.steps_invar [OF assms(3) ok] that(1) t(1)] that(2) t(2) by simp
  moreover have "t \<in> {q \<in> set (t_reservations d). final_reservation (rv_status q)} \<or> rv_status t = SETTLING
      \<or> final_reservation (rv_status t) \<and> receipt_missing e t"
    using t assms(2) by (cases "rv_status t") (auto simp: unfinished_def)
  moreover have "sf_reservation f = rv_id r" if "e = Settlement_Failure f" for f
    using assms(2) that by (simp add: unfinished_def)
  ultimately show ?thesis using t unfolding failed_well_def by metis
qed

lemma again_failed:
  assumes "settled_again env s r d = (d', sent, funding, approvals, Inl e)" and "settle_found env s d = Some r"
    and "final_reservation (rv_status r)" and ok: "accounts_ok d" and "others_receipts (st_receipt env)"
  shows "failed_well s {q \<in> set (t_reservations d). final_reservation (rv_status q)} d' e"
proof -
  note steps = again_steps(1) [OF assms(1,5)]
  note r = found_slot [OF assms(2)]
  have "find_reservation d' (rv_id r) = Some r"
    by (rule recorded_holds.final_forever [OF steps ok reservation_found [OF ok] assms(3)]) (use r in blast)
  then have same: "q = r" if "q \<in> set (t_reservations d')" "rv_id q = rv_id r" for q
    using reservation_found [OF award_store.steps_invar [OF steps ok] that(1)] that(2) by simp
  have "names_reservation (rv_id r) e"
    using assms(1) by (auto simp: settled_again_def Let_def split: if_splits option.splits sum.splits prod.splits)
  then have "unfinished (rv_id r) d d' e" using same r by (auto simp: unfinished_def)
  moreover have "taken s d r" using assms(3) r by (intro takenI) auto
  ultimately show ?thesis using failed_wellI steps ok by blast
qed

lemma claim_open:
  assumes "claim_reservation env s (settle_found env s d) dm = Inr (Some (r, mine, d1))" and "settled_before env s d = None"
  shows "open_step\<^sup>*\<^sup>* dm d1" and "final_reservation (rv_status r) \<Longrightarrow> settled_before env s d1 = Some r"
proof -
  have c: "open_step\<^sup>*\<^sup>* a b \<and> \<not> final_reservation (rv_status c)"
    if "claimForSettlement now u t p a = (Some c, b)" for now u t p a b c
  proof -
    have "b = snd (claimForSettlement now u t p a)" using that by simp
    then have "open_step a b" by (simp only: open_claim)
    then show ?thesis using that by (auto simp: claimForSettlement_def Let_def returning_Some)
  qed
  have n: "a = b" if "claimForSettlement now (uid s) (settle_session s) (providerId s) a = (None, b)" for now a b
    using unclaimed(1) [OF that] by simp
  have "open_step\<^sup>*\<^sup>* dm d1 \<and> (final_reservation (rv_status r) \<longrightarrow> settled_before env s d1 = Some r)"
    using assms
    by (auto simp: claim_reservation_def claim_missing_def settled_before_def split: option.splits if_splits prod.splits dest!: c n)
  then show "open_step\<^sup>*\<^sup>* dm d1" "final_reservation (rv_status r) \<Longrightarrow> settled_before env s d1 = Some r" by blast+
qed

lemma thrown_cases:
  assumes "settleReservationFromCdr env s d = Some (d', sent, funding, approvals, Inl e)"
  obtains (unread) "d' = d" "e = Settlement_Thrown (Call_Failed Find_Reservation)"
  | (before) r where "settled_before env s d = Some r" "settled_again env s r d = (d', sent, funding, approvals, Inl e)"
  | (stopped) p where "d' = st_meanwhile env d" "e = Settlement_Thrown p"
  | (onward) r mine d1 where "settled_before env s d = None"
      "claim_reservation env s (settle_found env s d) (st_meanwhile env d) = Inr (Some (r, mine, d1))"
      "final_reservation (rv_status r) \<Longrightarrow> settled_before env s d1 = Some r
        \<Longrightarrow> settled_again env s r d1 = (d', sent, funding, approvals, Inl e)"
      "\<not> final_reservation (rv_status r) \<Longrightarrow> settle_on env s r mine d1 = (d', sent, funding, approvals, Inl e)"
proof (cases "st_answers env Find_Reservation")
  case False
  then show thesis using unread assms by (simp add: settlement_unfold)
next
  case answers: True
  show thesis
  proof (cases "settled_before env s d")
    case (Some r)
    then show thesis using before assms answers by (simp add: settlement_unfold)
  next
    case None
    show thesis
    proof (cases "claim_reservation env s (settle_found env s d) (st_meanwhile env d)")
      case (Inl x)
      then obtain p where "x = Settlement_Thrown p"
        by (auto simp: claim_reservation_def claim_missing_def split: option.splits if_splits prod.splits)
      then show thesis using stopped [of p] assms answers None Inl by (auto simp: settlement_unfold)
    next
      case (Inr y)
      then obtain r mine d1 where y: "y = Some (r, mine, d1)"
        using assms answers None by (cases y) (auto simp: settlement_unfold)
      have "settle_with_fuel (Suc 0) env s d1 = Some (d', sent, funding, approvals, Inl e)" if "final_reservation (rv_status r)"
        using assms answers None Inr that by (simp add: settlement_unfold y del: settle_with_fuel.simps) (simp add: y)
      moreover have "settle_on env s r mine d1 = (d', sent, funding, approvals, Inl e)" if "\<not> final_reservation (rv_status r)"
        using assms answers None Inr that by (simp add: settlement_unfold y)
      ultimately show thesis
        by (intro onward [OF None Inr [unfolded y]]) (simp_all add: answers)
    qed
  qed
qed

lemma failed_run:
  assumes run: "settleReservationFromCdr env s d = Some (d', sent, funding, approvals, Inl e)" and ok: "accounts_ok d"
    and others: "others_settle env"
  shows "failed_well s (set (t_reservations d) \<union> set (t_reservations (st_meanwhile env d))) d' e"
proof -
  let ?dm = "st_meanwhile env d"
  note env = others [unfolded others_settle_def]
  have m: "recording_step\<^sup>*\<^sup>* d ?dm" using env by blast
  have more: "failed_well s (set (t_reservations d) \<union> set (t_reservations ?dm)) d' e"
    if "failed_well s A d' e" "A \<subseteq> set (t_reservations d) \<union> set (t_reservations ?dm)" for A
    using that unfolding failed_well_def by blast
  from run show ?thesis
  proof (cases rule: thrown_cases)
    case unread
    then show ?thesis by (simp add: failed_well_def)
  next
    case (before r)
    then have "settle_found env s d = Some r" "final_reservation (rv_status r)"
      by (auto simp: settled_before_def split: option.splits if_splits)
    then show ?thesis using ok env by (intro more [OF again_failed [OF before(2)]]) auto
  next
    case stopped
    then show ?thesis by (simp add: failed_well_def)
  next
    case (onward r mine d1)
    note c = claim_reservation_facts [OF onward(2) ok m]
    note o = claim_open [OF onward(2,1)]
    have ok1: "accounts_ok d1" by (rule award_store.steps_invar [OF c(1) ok])
    have "failed_well s {q \<in> set (t_reservations d1). final_reservation (rv_status q)} d' e"
    proof (cases "final_reservation (rv_status r)")
      case True
      then have "settle_found env s d1 = Some r" using o(2) by (auto simp: settled_before_def split: option.splits if_splits)
      then show ?thesis using again_failed [OF onward(3) [OF True o(2) [OF True]] _ True ok1] env by blast
    next
      case False
      note run = onward(4) [OF False]
      have "recording_step\<^sup>*\<^sup>* d1 d'" using settle_on_settles [OF run ok1] env by (simp add: settles_def)
      then show ?thesis using failed_wellI [OF c(2) on_unfinished [OF run ok1]] ok1 env by blast
    qed
    then show ?thesis using open_finals [OF o(1) award_store.steps_invar [OF m ok]] by (intro more) auto
  qed
qed

subsection \<open>A settlement worked out\<close>

text \<open>Three tokens are held for a session that delivered three kilowatt hours.\<close>

definition held_reservation :: reservation_row where
  "held_reservation = \<lparr>rv_id = ''r1'', rv_uid = ''U'', rv_wallet = ''0xB2'', rv_session_id = ''s1'', rv_provider_id = ''P'',
     rv_reserved = 300, rv_settled = None, rv_released = None, rv_delivered_kwh = None, rv_context = None, rv_status = RESERVED,
     rv_tx_hash = None, rv_error = None, rv_auth_tx_hash = None, rv_auth_amount = None, rv_reserved_at = 1, rv_settled_at = None,
     rv_updated = 1\<rparr>"

definition settling_reservation :: reservation_row where
  "settling_reservation = held_reservation\<lparr>rv_status := SETTLING, rv_updated := 9\<rparr>"

definition delivered_reservation :: reservation_row where
  "delivered_reservation = settling_reservation\<lparr>rv_delivered_kwh := Some 3000, rv_context := Some (settlement_of (''3'', []))\<rparr>"

definition hold_db :: "reservation_row \<Rightarrow> db" where
  "hold_db r = empty_db\<lparr>t_reservations := [r]\<rparr>"

definition sample_cdr :: session where
  "sample_cdr = \<lparr>sessionId = ''s1'', providerId = ''P'', eMAID = None, emaid = None, protocol = None, sourceField = None,
     tokenMetadata = None, uid = ''U'', evseId = ''E'', startTime = 0, endTime = 1, energyKWh = Fin 3, energyDirection = CHARGE,
     cdrId = None, reservationSessionId = None, chargingSessionId = None, timeZone = None, timeZoneSource = None\<rparr>"

definition sample_settle_env :: "(settle_call \<Rightarrow> bool) \<Rightarrow> settle_env" where
  "sample_settle_env answers = \<lparr>st_auto = sample_auto_env None (10 ^ 19), st_receipt = sample_receipt_env Write_Done,
     st_asset = Some sample_asset, st_managed = (\<lambda>_. Some ''0xEE''), st_answers = answers, st_meanwhile = id, st_clock = 9,
     st_ident = ''o9'', st_text = (\<lambda>_. ''e'')\<rparr>"

lemma sample_settle_fields [simp]:
  "st_auto (sample_settle_env g) = sample_auto_env None (10 ^ 19)" "st_asset (sample_settle_env g) = Some sample_asset"
  "st_managed (sample_settle_env g) = (\<lambda>_. Some ''0xEE'')" "st_answers (sample_settle_env g) = g" "st_meanwhile (sample_settle_env g) = id"
  "st_clock (sample_settle_env g) = 9" "others_settle (sample_settle_env g)"
  by (simp_all add: sample_settle_env_def others_settle_def sample_receipt_env_ok)

lemma sample_cdr_fields [simp]:
  "uid sample_cdr = ''U''" "providerId sample_cdr = ''P''" "settle_session sample_cdr = ''s1''" "delivered_energy sample_cdr = Fin 3"
  by (simp_all add: sample_cdr_def settle_session_def delivered_energy_def nonempty_def)

lemma hold_accounts_ok:
  assumes "rv_status r = RESERVED \<or> rv_status r = SETTLING" and "rv_tx_hash r = None"
  shows "accounts_ok (hold_db r)"
  using empty_accounts_ok assms
  by (auto simp: hold_db_def sound_reservation_def accounts_ok_def service_ok_def ledger_ok_def leases_ok_def approvals_ok_def reservations_ok_def
      wallets_ok_def projections_ok_def empty_db_def)

lemma sample_found: "settle_found (sample_settle_env g) sample_cdr (hold_db held_reservation) = Some held_reservation"
  by (simp add: settle_found_def findBySession_def hold_db_def session_reservation_def held_reservation_def)

lemma sample_claimed:
  assumes "g Claim_Reservation"
  shows "claim_reservation (sample_settle_env g) sample_cdr (Some held_reservation) (hold_db held_reservation)
    = Inr (Some (settling_reservation, True, hold_db settling_reservation))"
proof -
  have "claimForSettlement 9 ''U'' ''s1'' ''P'' (hold_db held_reservation) = (Some settling_reservation, hold_db settling_reservation)"
    by (simp add: hold_db_def session_reservation_def held_reservation_def claimForSettlement_def Let_def returning_where_def
      update_reservations_def update_where_def settling_reservation_def)
  moreover have "rv_status held_reservation = RESERVED" by (simp add: held_reservation_def)
  ultimately show ?thesis using assms by (simp add: claim_reservation_def)
qed

lemma sample_settlement:
  assumes "g Find_Reservation" and "g Claim_Reservation"
  shows "settleReservationFromCdr (sample_settle_env g) sample_cdr (hold_db held_reservation)
    = Some (settle_claimed (sample_settle_env g) sample_cdr settling_reservation (hold_db settling_reservation))"
proof -
  have "rv_status held_reservation = RESERVED" "rv_status settling_reservation = SETTLING"
    by (simp_all add: settling_reservation_def held_reservation_def)
  then show ?thesis using assms sample_found [of g] sample_claimed [of g]
    by (simp add: settlement_unfold settled_before_def final_reservation_def settle_on_def)
qed

lemma sample_settlement_amount:
  "\<exists>x. calculateReservationSettlement (settled_number (Some 300)) (Fin 3) = Inr x \<and> settledAmount x = Fin (of_nat 3)"
proof -
  have "calculateReservationSettlement (units_number 300) (units_number 300)
      = Inr \<lparr>settledAmount = units_number 300, releasedAmount = units_number 0\<rparr>"
    using cents_number [of 300] cents_truncate [of 300] by (simp add: calculateReservationSettlement_def Let_def of_option_def)
  then show ?thesis using column_number [of 300] sample_amount by (simp add: settled_number_def)
qed

lemma sample_persist:
  "persistSettlementContext 9 ''r1'' (Fin 3) (hold_db settling_reservation) = Inr (Some delivered_reservation, hold_db delivered_reservation)"
  "persistSettlementContext 9 ''r1'' (Fin 3) (hold_db delivered_reservation) = Inr (Some delivered_reservation, hold_db delivered_reservation)"
proof -
  have "delivered_split (Fin 3) = Some (''3'', [])" "thousandths (''3'', []) = 3000" by code_simp+
  then show "persistSettlementContext 9 ''r1'' (Fin 3) (hold_db settling_reservation) = Inr (Some delivered_reservation, hold_db delivered_reservation)"
    "persistSettlementContext 9 ''r1'' (Fin 3) (hold_db delivered_reservation) = Inr (Some delivered_reservation, hold_db delivered_reservation)"
    by (simp_all add: persistSettlementContext_def of_option_def guard_def find_reservation_def hold_db_def settling_reservation_def
      held_reservation_def delivered_reservation_def row_at_def returning_where_def update_reservations_def update_where_def)
qed

definition settle_key_text :: string where
  "settle_key_text = ''reservation:r1''"

definition settle_query :: spend_request where
  "settle_query = auto_spend_request (settle_request sample_cdr settling_reservation (Fin (of_nat 3)) (Fin 3)) settle_key_text"

lemma settle_query_fields [simp]:
  "sq_user settle_query = ''0xB2''" "sq_amount settle_query = Fin (of_nat 3)" "sq_session settle_query = Some ''s1''" "spend_uid settle_query = ''U''"
  "sq_provider settle_query = Some ''P''" "sq_operationKey settle_query = Some settle_key_text" "sq_idempotencyKey settle_query = None"
  "sq_reservation settle_query = Some ''r1''" "sq_settlement settle_query = Some (''r1'', Fin 3)"
  by (simp_all add: settle_query_def auto_spend_request_def settle_request_def settling_reservation_def held_reservation_def spend_uid_def)

lemma settle_query_sends:
  "\<exists>d' x. processSpend (sample_spend_env None (10 ^ 19)) settle_query (hold_db delivered_reservation) = (d', [''0x02''], x)"
proof -
  define env where "env = sample_spend_env None (10 ^ 19)"
  define d where "d = hold_db delivered_reservation"
  define c where "c = spend_claim env settle_query settle_key_text three_tokens sample_asset"
  define n where "n = new_operation 9 ''o1'' c 300"
  have key: "spend_key_of env settle_query = Inr settle_key_text" "settle_query\<lparr>sq_operationKey := Some settle_key_text\<rparr> = settle_query"
  proof -
    have "js_trim settle_key_text \<noteq> []" unfolding settle_key_text_def by code_simp
    then show "spend_key_of env settle_query = Inr settle_key_text" by (simp add: spend_key_of_def isNonEmptyOperationKey_def guard_def)
    show "settle_query\<lparr>sq_operationKey := Some settle_key_text\<rparr> = settle_query" by (simp add: settle_query_def auto_spend_request_def)
  qed
  have a: "prepareSpend settle_query" "canonicalTokenAmount (JNum (sq_amount settle_query)) = Some three_tokens"
    using three_tokens by (simp_all add: prepareSpend_def del: of_nat_numeral)
  have e: "spend_clock env = 9" "se_base env = sample_award_env None" "treasury_of_env env = ''0xA1''" by (simp_all add: env_def)
  have "se_settlement_saved env" by (simp add: env_def sample_spend_env_def)
  then have ctx: "settle_context env settle_query settle_key_text d = Inr d"
    using sample_persist(2) e(1) by (simp add: settle_context_def nonempty_def d_def)
  have c: "cr_key c = settle_key_text" "cr_type c = SPEND" "cr_amount c = numeric2_text 300" "cr_balance c = None" "cr_legacy_key c = None"
    "cr_charging_session c = None" "cr_intent c = Some [(''assetContext'', asset_json sample_asset)]"
    by (simp_all add: c_def spend_claim_def three_tokens(2) nonempty_def)
  have n: "op_key n = settle_key_text" "op_status n = SUBMITTING" "op_tx_hash n = None" "assetContextMismatch (op_intent n) sample_asset = None"
    using c sample_asset_kept [of "[]" "[]"] by (simp_all add: n_def new_operation_def)
  have claimed: "claim 9 ''o1'' c d = Inr (\<lparr>cl_operation = Some n, cl_acquired = True, cl_legacy = None\<rparr>, d\<lparr>t_operations := [n]\<rparr>)"
    using c by (simp add: claim_def canonicalTokenAmount_text of_option_def find_operation_def d_def hold_db_def empty_db_def
      check_charging_session_def given_def nonempty_def check_legacy_claims_def legacy_award_def checkManualCapacity_def insert_operation_def
      session_taken_def n_def)
  have "settle_key_text \<noteq> []" "t_leases d = []" by (simp_all add: settle_key_text_def d_def hold_db_def empty_db_def)
  then obtain d1 v where sent: "prepareAndBroadcastTransaction sample_chain 9 (sample_transfer settle_key_text) (d\<lparr>t_operations := [n]\<rparr>)
      = (d1, [''0x02''], Inr v)"
    using transfer_run [OF n(1) _ n(2,3), of d] by blast
  have sub: "submitSpend env ''0xB2'' ''0xA1'' (amount_value three_tokens) settle_key_text (ac_chainId sample_asset)
      (tokenContractAddress sample_asset) TARGET_OPERATION (d\<lparr>t_operations := [n]\<rparr>) = (d1, [''0x02''], Inr v)"
    unfolding submitSpend_def three_tokens_value three_tokens(1) option.case using sent
    by (simp add: three_tokens(3) e sample_transfer_def sample_asset_def) (simp add: env_def)
  have "\<exists>d2 x. sent_spend env settle_query settle_key_text three_tokens sample_asset (d\<lparr>t_operations := [n]\<rparr>) = (d2, [''0x02''], x)"
    using sub by (simp add: sent_spend_def e split: sum.split prod.split)
  moreover have "preflightSpend env ''0xB2'' ''0xA1'' (amount_value three_tokens) sample_asset = Inr ()"
    by (simp add: env_def sample_preflight)
  moreover have "asset_of (sample_award_env None) = Some sample_asset" by (rule sample_asset_of)
  ultimately have "\<exists>d2 x. keyed_spend env settle_query settle_key_text three_tokens d = (d2, [''0x02''], x)"
    using claimed ctx n(4) by (simp add: keyed_spend_def e saving_def c_def [symmetric] claimed_spend_def)
  then show ?thesis using key(1) a unfolding processSpend_def Let_def by (simp add: key(2) env_def d_def)
qed

lemma sample_settlement_sends:
  "\<exists>d' x. settleReservationFromCdr (sample_settle_env (\<lambda>_. True)) sample_cdr (hold_db held_reservation) = Some (d', [''0x02''], [], [], x)"
proof -
  define env where "env = sample_settle_env (\<lambda>_. True)"
  have status: "rv_id settling_reservation = ''r1''"
    "rv_wallet settling_reservation = ''0xB2''" "rv_reserved settling_reservation = 300"
    by (simp_all add: settling_reservation_def held_reservation_def)
  obtain amount where amount: "calculateReservationSettlement (settled_number (Some 300)) (Fin 3) = Inr amount"
    "settledAmount amount = Fin (of_nat 3)" using sample_settlement_amount by blast
  have nonzero: "Fin (of_nat 3) \<noteq> Fin 0" by simp
  have saved: "persistReservationSettlementContext env settling_reservation (Fin 3) (hold_db settling_reservation)
      = Inr (hold_db delivered_reservation)"
    using sample_persist(1) by (simp add: persistReservationSettlementContext_def env_def status)
  have apart: "\<not> same_text ''0xB2'' ''0xEE''" by code_simp
  have key: "reservationOperationKey ''r1'' = settle_key_text" by (simp add: reservationOperationKey_def settle_key_text_def)
  have first: "au_first (st_auto env) = sample_spend_env None (10 ^ 19)" by (simp add: env_def sample_auto_env_def)
  obtain d1 x1 where spend: "processSpend (sample_spend_env None (10 ^ 19)) settle_query (hold_db delivered_reservation) = (d1, [''0x02''], x1)"
    using settle_query_sends by blast
  have "settle_spend env sample_cdr settling_reservation False (Fin (of_nat 3)) (Fin 3) (hold_db delivered_reservation)
      = (d1, [''0x02''], [], [], plain_result x1)"
    using spend by (simp add: settle_spend_def Let_def status(1) key first settle_query_def del: of_nat_numeral)
  then have "\<exists>d' x. spend_and_complete env sample_cdr settling_reservation (Fin (of_nat 3)) (Fin 3) (hold_db delivered_reservation)
      = (d', [''0x02''], [], [], x)"
    by (simp add: spend_and_complete_def status(2) apart env_def del: of_nat_numeral split: prod.split)
  then have "\<exists>d' x. settle_claimed env sample_cdr settling_reservation (hold_db settling_reservation) = (d', [''0x02''], [], [], x)"
    using nonzero by (simp add: settle_claimed_def status amount saved del: of_nat_numeral)
  then show ?thesis by (simp add: sample_settlement env_def)
qed

subsection \<open>Guarantees\<close>

text \<open>
  C38: a settlement always returns, and from two on the fuel makes no difference: it calls itself at most once,
  because only a reservation that is settled or released makes it start over, and it then finds that reservation.
\<close>

theorem settlement_returns:
  "\<exists>run. settleReservationFromCdr env s d = Some run \<and> (\<forall>n. settle_with_fuel (2 + n) env s d = Some run)"
proof -
  obtain run where "settleReservationFromCdr env s d = Some run" using settlement_defined by blast
  then show ?thesis using more_fuel [of 2] by (auto simp: settleReservationFromCdr_def simp del: split_paired_Ex)
qed

text \<open>
  C3: a reservation is paid at most once: a settlement sends at most one spend, and no later settlement of the
  same session sends another, whatever other requests do before, between and inside the two, and whatever
  the records say was delivered.
\<close>

theorem reservation_paid_at_most_once:
  assumes "accounts_ok d" and "others_settle env" and "others_settle env'"
    and "settleReservationFromCdr env s d = Some (d1, sent, funding, approvals, x)" and "sent \<noteq> []"
    and "recording_step\<^sup>*\<^sup>* d1 d2" and "settleReservationFromCdr env' s' d2 = Some (d3, sent', funding', approvals', x')"
    and "settle_slot s' = settle_slot s"
  shows "length sent = 1 \<and> sent' = []"
proof -
  note run = settlement_history [OF assms(4) [unfolded settleReservationFromCdr_def] assms(1,2)]
  obtain r where r: "r \<in> set (t_reservations d1)" "reservation_slot r = settle_slot s" "sends_under (reservationOperationKey (rv_id r)) d d1 sent"
    using run assms(5) by (auto simp: settled_well_def)
  have ok1: "accounts_ok d1" using award_store.steps_invar assms(1) run by (auto simp: settled_well_def)
  have ok2: "accounts_ok d2" by (rule award_store.steps_invar [OF assms(6) ok1])
  note run' = settlement_history [OF assms(7) [unfolded settleReservationFromCdr_def] ok2 assms(3)]
  have "sent' = []"
  proof (rule ccontr)
    assume n: "sent' \<noteq> []"
    then obtain r' where r': "r' \<in> set (t_reservations d3)" "reservation_slot r' = settle_slot s"
      "sends_under (reservationOperationKey (rv_id r')) d2 d3 sent'"
      using run' assms(8) by (auto simp: settled_well_def)
    have steps: "recording_step\<^sup>*\<^sup>* d1 d3" using run' by (intro rtranclp_trans [OF assms(6)]) (simp add: settled_well_def)
    obtain t where t: "t \<in> set (t_reservations d3)" "reservation_le r t" using reservation_later [OF steps ok1 r(1)] by blast
    have "t = r'"
      using same_slot [OF award_store.steps_invar [OF steps ok1] t(1) r'(1)] reservation_le_keys [OF t(2)] r(2) r'(2) by simp
    then have "rv_id r' = rv_id r" using reservation_le_keys [OF t(2)] by simp
    then show False using sends_once [OF r(3) assms(1,5,6)] r'(3) n by simp
  qed
  then show ?thesis using sends_under_single [OF r(3) assms(1)] assms(5) by (cases sent) auto
qed

theorem reservation_paid_at_most_once_witness:
  "\<exists>d1 sent x d2 funding approvals x'.
     settleReservationFromCdr (sample_settle_env (\<lambda>_. True)) sample_cdr (hold_db held_reservation) = Some (d1, sent, [], [], x)
     \<and> length sent = 1 \<and> settleReservationFromCdr (sample_settle_env (\<lambda>_. True)) sample_cdr d1 = Some (d2, [], funding, approvals, x')"
proof -
  have ok: "accounts_ok (hold_db held_reservation)" by (rule hold_accounts_ok) (simp_all add: held_reservation_def)
  obtain d1 x where a: "settleReservationFromCdr (sample_settle_env (\<lambda>_. True)) sample_cdr (hold_db held_reservation)
      = Some (d1, [''0x02''], [], [], x)" using sample_settlement_sends by blast
  obtain d2 sent' f p x' where b: "settleReservationFromCdr (sample_settle_env (\<lambda>_. True)) sample_cdr d1 = Some (d2, sent', f, p, x')"
    using settlement_defined [of "sample_settle_env (\<lambda>_. True)" sample_cdr d1] by (metis surj_pair)
  have "length [''0x02''] = 1 \<and> sent' = []"
    by (rule reservation_paid_at_most_once [OF ok _ _ a _ rtranclp.rtrancl_refl b]) simp_all
  with a b show ?thesis by blast
qed

text \<open>
  C27: a settlement that throws, with whatever error, finishes nothing that is not paid: every reservation of the
  session is as the other requests had it, or it is settling, or it is completed under the hash of the error and
  only its receipt is missing. When the error names a reservation, that one is no longer open, and for ever no
  reservation of the session is open again, so that only its recovery can go on.
\<close>

theorem failed_settlement_stays_claimed:
  assumes "accounts_ok d" and "others_settle env"
    and "settleReservationFromCdr env s d = Some (d1, sent, funding, approvals, Inl e)"
    and "recording_step\<^sup>*\<^sup>* d1 d2"
  shows "(\<forall>r \<in> set (t_reservations d1). reservation_slot r = settle_slot s
      \<longrightarrow> r \<in> set (t_reservations d) \<union> set (t_reservations (st_meanwhile env d)) \<or> rv_status r = SETTLING
        \<or> final_reservation (rv_status r) \<and> receipt_missing e r)
    \<and> (\<forall>f. e = Settlement_Failure f
      \<longrightarrow> (\<exists>r \<in> set (t_reservations d1). reservation_slot r = settle_slot s \<and> rv_id r = sf_reservation f \<and> rv_status r \<noteq> RESERVED)
        \<and> list_all (\<lambda>r. reservation_slot r = settle_slot s \<longrightarrow> rv_status r \<noteq> RESERVED) (t_reservations d2))"
proof -
  note run = failed_run [OF assms(3,1,2)]
  have "recording_step\<^sup>*\<^sup>* d d1"
    using settlement_history [OF assms(3) [unfolded settleReservationFromCdr_def] assms(1,2)] by (simp add: settled_well_def)
  then have ok1: "accounts_ok d1" by (rule award_store.steps_invar [OF _ assms(1)])
  have ok2: "accounts_ok d2" by (rule award_store.steps_invar [OF assms(4) ok1])
  have "list_all (\<lambda>q. reservation_slot q = settle_slot s \<longrightarrow> rv_status q \<noteq> RESERVED) (t_reservations d2)"
    if r: "r \<in> set (t_reservations d1)" "reservation_slot r = settle_slot s" "rv_status r \<noteq> RESERVED" for r
  proof -
    obtain t where t: "t \<in> set (t_reservations d2)" "reservation_slot t = settle_slot s" "rv_status t \<noteq> RESERVED"
      using taken_later [OF takenI [OF r(2,3,1)] assms(4) ok1] by blast
    then show ?thesis unfolding list_all_iff using same_slot [OF ok2 _ t(1)] by metis
  qed
  then show ?thesis using run unfolding failed_well_def by blast
qed

theorem failed_settlement_stays_claimed_witness:
  "\<exists>f r. settleReservationFromCdr (sample_settle_env (\<lambda>c. c \<noteq> Save_Context)) sample_cdr (hold_db held_reservation)
       = Some (hold_db settling_reservation, [], [], [], Inl (Settlement_Failure f)) \<and> sf_problem f = Context_Unsaved
     \<and> t_reservations (hold_db settling_reservation) = [r] \<and> rv_id r = sf_reservation f
     \<and> (r = held_reservation \<or> rv_status r = SETTLING) \<and> rv_status r \<noteq> RESERVED"
proof -
  define env where "env = sample_settle_env (\<lambda>c. c \<noteq> Save_Context)"
  define f where "f = context_error settling_reservation None"
  have ok: "accounts_ok (hold_db held_reservation)" by (rule hold_accounts_ok) (simp_all add: held_reservation_def)
  have reserved: "rv_reserved settling_reservation = 300" by (simp add: settling_reservation_def held_reservation_def)
  obtain amount where "calculateReservationSettlement (settled_number (Some 300)) (Fin 3) = Inr amount"
    using sample_settlement_amount by blast
  then have run: "settleReservationFromCdr env sample_cdr (hold_db held_reservation)
      = Some (hold_db settling_reservation, [], [], [], Inl (Settlement_Failure f))"
    by (simp add: env_def sample_settlement settle_claimed_def reserved persistReservationSettlementContext_def f_def)
  have f: "sf_problem f = Context_Unsaved" by (simp add: f_def context_error_def Let_def open_failure_def)
  then have "\<not> receipt_missing (Settlement_Failure f) r" for r by (simp add: receipt_missing_def)
  moreover have rows: "t_reservations (hold_db x) = [x]" for x by (simp add: hold_db_def)
  moreover have "st_meanwhile env = id" by (simp add: env_def)
  moreover have slot: "reservation_slot settling_reservation = settle_slot sample_cdr"
    by (simp add: reservation_slot_def settle_slot_def settling_reservation_def held_reservation_def)
  ultimately have "rv_id settling_reservation = sf_reservation f
      \<and> (settling_reservation = held_reservation \<or> rv_status settling_reservation = SETTLING) \<and> rv_status settling_reservation \<noteq> RESERVED"
    using failed_settlement_stays_claimed [OF ok _ run rtranclp.rtrancl_refl] slot by (auto simp: env_def rows)
  then show ?thesis using run f rows [of settling_reservation] unfolding env_def by blast
qed

end
