(* ===== verification/AdminOperations.thy ===== *)
theory AdminOperations
  imports AutoSpend "HOL-Library.Product_Lexorder"
begin

text \<open>
  The operator view of the token operations, \<open>src/adminOperations.ts\<close>: the bounded query, the pages of rows with
  what is safe to show of each, and the status that says whether an administrator may start a recovery. The
  ellipsis of a shortened text is a flag beside it, since it is no character of the model.
\<close>

subsection \<open>The query\<close>

definition DEFAULT_ADMIN_OPERATION_LIMIT :: nat where
  "DEFAULT_ADMIN_OPERATION_LIMIT = 25"

definition MAX_ADMIN_OPERATION_LIMIT :: nat where
  "MAX_ADMIN_OPERATION_LIMIT = 100"

definition MAX_ADMIN_OPERATION_OFFSET :: nat where
  "MAX_ADMIN_OPERATION_OFFSET = 100000"

datatype operation_scope = SCOPE_UNRESOLVED | SCOPE_ALL

record operations_query =
  oq_limit :: nat
  oq_offset :: nat
  oq_scope :: operation_scope
  oq_emaid :: "string option"

datatype query_error =
    Uid_Unsupported | Not_Single string | Scope_Invalid | Emaid_Empty | Emaid_Long | Not_An_Integer string
  | Below_Minimum string nat | Above_Maximum string nat

definition queryValue :: "jsv \<Rightarrow> string \<Rightarrow> jsv" where
  "queryValue q k = at_key (as_object q) k"

definition queryString :: "jsv \<Rightarrow> string \<Rightarrow> query_error + string option" where
  "queryString q k = (case queryValue q k of JUndef \<Rightarrow> Inr None | JStr s \<Rightarrow> Inr (Some s) | _ \<Rightarrow> Inl (Not_Single k))"

definition parseBoundedInteger :: "string option \<Rightarrow> string \<Rightarrow> nat \<Rightarrow> nat \<Rightarrow> nat \<Rightarrow> query_error + nat" where
  "parseBoundedInteger v k fallback low high =
     (case v of
        None \<Rightarrow> Inr fallback
      | Some s \<Rightarrow>
          rbind (guard (s \<noteq> [] \<and> list_all is_digit s) (Not_An_Integer k)) (\<lambda>_.
          case text_number s of
            Fin x \<Rightarrow>
              rbind (guard (is_safe_integer (Fin x) \<and> of_nat low \<le> x) (Below_Minimum k low)) (\<lambda>_.
              rbind (guard (x \<le> of_nat high) (Above_Maximum k high)) (\<lambda>_. Inr (nat \<lfloor>x\<rfloor>)))
          | _ \<Rightarrow> Inl (Below_Minimum k low)))"

definition scope_of :: "string option \<Rightarrow> query_error + operation_scope" where
  "scope_of v =
     (case map_option js_trim v of
        None \<Rightarrow> Inr SCOPE_UNRESOLVED
      | Some s \<Rightarrow> if s = ''unresolved'' then Inr SCOPE_UNRESOLVED else if s = ''all'' then Inr SCOPE_ALL else Inl Scope_Invalid)"

definition parseAdminOperationsQuery :: "jsv \<Rightarrow> query_error + operations_query" where
  "parseAdminOperationsQuery q =
     rbind (guard (queryValue q ''uid'' = JUndef) Uid_Unsupported) (\<lambda>_.
     rbind (queryString q ''scope'') (\<lambda>s.
     rbind (scope_of s) (\<lambda>scope.
     rbind (queryString q ''emaid'') (\<lambda>e.
     rbind (guard (map_option js_trim e \<noteq> Some []) Emaid_Empty) (\<lambda>_.
     rbind (guard (\<forall>t \<in> set_option (map_option js_trim e). length t \<le> 255) Emaid_Long) (\<lambda>_.
     rbind (queryString q ''limit'') (\<lambda>l.
     rbind (parseBoundedInteger l ''limit'' DEFAULT_ADMIN_OPERATION_LIMIT 1 MAX_ADMIN_OPERATION_LIMIT) (\<lambda>limit.
     rbind (queryString q ''offset'') (\<lambda>f.
     rbind (parseBoundedInteger f ''offset'' 0 0 MAX_ADMIN_OPERATION_OFFSET) (\<lambda>offset.
     Inr \<lparr>oq_limit = limit, oq_offset = offset, oq_scope = scope, oq_emaid = map_option js_trim e\<rparr>))))))))))"

definition applyAdminOperationFilters :: "operations_query \<Rightarrow> operation_row list \<Rightarrow> operation_row list" where
  "applyAdminOperationFilters q t =
     filter (\<lambda>r. (oq_scope q = SCOPE_UNRESOLVED \<longrightarrow> op_status r \<noteq> PROJECTED)
       \<and> (case nonempty (oq_emaid q) of None \<Rightarrow> True | Some u \<Rightarrow> op_uid r = u)) t"

subsection \<open>What may be shown\<close>

record shown_text =
  sh_text :: string
  sh_shortened :: bool

definition safeText :: "nat \<Rightarrow> string option \<Rightarrow> shown_text option" where
  "safeText n v =
     (case nonempty (map_option js_trim v) of
        None \<Rightarrow> None
      | Some t \<Rightarrow> Some (if n < length t then \<lparr>sh_text = take (n - 1) t, sh_shortened = True\<rparr> else \<lparr>sh_text = t, sh_shortened = False\<rparr>))"

definition safeDiagnosticToken :: "nat \<Rightarrow> jsv \<Rightarrow> string option" where
  "safeDiagnosticToken n v =
     (case (case v of JStr s \<Rightarrow> Some s | JNum x \<Rightarrow> Some (num_text x) | _ \<Rightarrow> None) of
        None \<Rightarrow> None
      | Some s \<Rightarrow> (let t = js_trim s in if safe_text 80 t then Some (take n t) else None))"

definition safeDiagnosticErrorCode :: "jsv \<Rightarrow> string option" where
  "safeDiagnosticErrorCode v =
     (case map_option js_upper (safeDiagnosticToken 64 v) of
        None \<Rightarrow> None | Some t \<Rightarrow> if code_text t then Some t else None)"

definition shown_stages :: "string list" where
  "shown_stages = [''asset_context'', ''preflight'', ''prepare'', ''persist_hash'', ''broadcast'', ''receipt'', ''projection'',
     ''recovery'', ''validation'']"

definition safeDiagnosticStage :: "jsv \<Rightarrow> string option" where
  "safeDiagnosticStage v =
     (case v of JStr s \<Rightarrow> if js_lower s \<in> set shown_stages then Some (js_lower s) else None | _ \<Rightarrow> None)"

record failover_entry =
  fe_label :: string
  fe_outcome :: endpoint_outcome
  fe_providerCode :: "string option"
  fe_rpcCode :: "string option"
  fe_httpStatus :: "int option"
  fe_traceId :: "string option"

definition shown_entry :: "jsv \<Rightarrow> failover_entry list" where
  "shown_entry entry =
     (case as_object entry of
        None \<Rightarrow> []
      | Some r \<Rightarrow>
          (case (safeDiagnosticToken 40 (field r ''label''), evidence_outcome_of (field r ''outcome'')) of
             (Some label, Some outcome) \<Rightarrow>
               [\<lparr>fe_label = label, fe_outcome = outcome, fe_providerCode = safeDiagnosticToken 48 (field r ''providerCode''),
                 fe_rpcCode = safeDiagnosticToken 32 (nullish_or (field r ''rpcCode'') (field r ''providerCode'')),
                 fe_httpStatus = safe_status (field r ''httpStatus''),
                 fe_traceId = safeDiagnosticToken 80 (nullish_or (field r ''traceId'') (field r ''requestId''))\<rparr>]
           | _ \<Rightarrow> []))"

text \<open>No entries are shown as no list.\<close>

definition safeRpcFailover :: "jsv \<Rightarrow> failover_entry list" where
  "safeRpcFailover v = (case v of JArr vs \<Rightarrow> concat (map shown_entry vs) | _ \<Rightarrow> [])"

definition canonicalDiagnosticHash :: "jsv \<Rightarrow> string option" where
  "canonicalDiagnosticHash v =
     (case v of JStr s \<Rightarrow> if is_tx_hash (js_trim s) then Some (js_lower (js_trim s)) else None | _ \<Rightarrow> None)"

record shown_diagnostic =
  gd_stage :: string
  gd_errorCode :: string
  gd_retryable :: bool
  gd_rpcMethod :: "string option"
  gd_rpcCode :: "string option"
  gd_httpStatus :: "int option"
  gd_traceId :: "string option"
  gd_rpcEndpoint :: "string option"
  gd_rpcFailover :: "failover_entry list"
  gd_savedHash :: "string option"
  gd_nonce :: "string option"

text \<open>
  The saved diagnostic of a row, otherwise the one in its intent; the columns of the row have no other. An array
  passes the test of the code and has none of the fields.
\<close>

definition diagnostic_source :: "operation_row \<Rightarrow> js_object option" where
  "diagnostic_source r =
     (case op_diagnostic r of
        Some g \<Rightarrow> as_object (diagnostic_value g)
      | None \<Rightarrow> (case at_key (op_intent r) ''diagnostic'' of JObj ob \<Rightarrow> Some ob | JArr _ \<Rightarrow> Some [] | _ \<Rightarrow> None))"

definition shown_nonce :: "jsv \<Rightarrow> string option" where
  "shown_nonce v = (if v \<noteq> JUndef \<and> plain_nat (js_string v) then Some (js_string v) else None)"

definition mapOperationDiagnostic :: "operation_row \<Rightarrow> shown_diagnostic option" where
  "mapOperationDiagnostic r =
     (let src = diagnostic_source r; look = at_key src in
      if src = None then None
      else Some \<lparr>gd_stage = (case safeDiagnosticStage (look ''stage'') of Some s \<Rightarrow> s | None \<Rightarrow> ''recovery''),
        gd_errorCode = (case safeDiagnosticErrorCode (look ''errorCode'') of Some c \<Rightarrow> c | None \<Rightarrow> ''OPERATION_FAILED''),
        gd_retryable = (look ''retryable'' = JBool True),
        gd_rpcMethod = safeDiagnosticToken 80 (look ''rpcMethod''),
        gd_rpcCode = safeDiagnosticToken 32 (nullish_or (look ''rpcCode'') (look ''providerCode'')),
        gd_httpStatus = safe_status (look ''httpStatus''),
        gd_traceId = safeDiagnosticToken 80 (nullish_or (look ''traceId'') (look ''requestId'')),
        gd_rpcEndpoint = safeDiagnosticToken 40 (nullish_or (look ''rpcEndpoint'') (look ''endpointLabel'')),
        gd_rpcFailover = safeRpcFailover (nullish_or (look ''rpcFailover'') (look ''failover'')),
        gd_savedHash = canonicalDiagnosticHash (look ''savedHash''),
        gd_nonce = shown_nonce (look ''nonce'')\<rparr>)"

definition shown_error_code :: "operation_row \<Rightarrow> string option" where
  "shown_error_code r = safeDiagnosticErrorCode (at_key (diagnostic_source r) ''errorCode'')"

definition shown_failure_stage :: "operation_row \<Rightarrow> string option" where
  "shown_failure_stage r = safeDiagnosticStage (at_key (diagnostic_source r) ''stage'')"

datatype error_category =
    Award_Without_Record | Preflight_Failed | Reservation_Failed | Approval_Needs_Review | Legacy_Needs_Review
  | Chain_Needs_Review | Operation_Failed

definition safeOperationErrorCategory :: "string option \<Rightarrow> error_category option" where
  "safeOperationErrorCategory v =
     (case safeText 2000 v of
        None \<Rightarrow> None
      | Some t \<Rightarrow>
          (let lower = js_lower (sh_text t); names = list_ex (has_part lower) in
           Some (if names [''recovery_award_cdr_context_unavailable''] then Award_Without_Record
             else if names [''preflight'', ''balance''] then Preflight_Failed
             else if names [''reservation''] then Reservation_Failed
             else if names [''approval'', ''allowance''] then Approval_Needs_Review
             else if names [''legacy''] then Legacy_Needs_Review
             else if names [''rpc'', ''provider'', ''chain'', ''transaction'', ''network''] then Chain_Needs_Review
             else Operation_Failed)))"

text \<open>A date of the database prints as ISO text; JavaScript dates reach 100 million days from 1970.\<close>

definition isoTimestamp :: "int option \<Rightarrow> string option" where
  "isoTimestamp t = (case t of None \<Rightarrow> None | Some ms \<Rightarrow> if \<bar>ms\<bar> \<le> 8640000000000000 then Some (iso_text ms) else None)"

subsection \<open>The next step of an operator\<close>

datatype next_action =
    Verify_Projection | Review_Before_Follow_Up | Reconcile_Hash | Review_Unknown_Outcome | Retry_Same_Key
  | Review_No_Movement | Verify_Recorded_Movement | Review_Chain_State | Await_Confirmation | Confirm_Projection

definition getAdminOperationNextAction ::
    "operation_status \<Rightarrow> movement_outcome \<Rightarrow> string option \<Rightarrow> shown_diagnostic option \<Rightarrow> next_action" where
  "getAdminOperationNextAction status outcome h g =
     (if status = PROJECTED then Verify_Projection
      else if outcome = OUT_REVIEW then Review_Before_Follow_Up
      else if status = UNKNOWN_STATUS then (if nonempty h \<noteq> None then Reconcile_Hash else Review_Unknown_Outcome)
      else if status = FAILED \<and> outcome = OUT_NO_MOVEMENT
      then (if map_option gd_retryable g = Some True then Retry_Same_Key else Review_No_Movement)
      else if status = FAILED then (if outcome = OUT_CONFIRMED then Verify_Recorded_Movement else Review_Chain_State)
      else if status = SUBMITTING \<or> status = SUBMITTED then Await_Confirmation
      else Confirm_Projection)"

definition hasCanonicalTransactionHash :: "string option \<Rightarrow> bool" where
  "hasCanonicalTransactionHash h = (case h of None \<Rightarrow> False | Some t \<Rightarrow> is_tx_hash (js_trim t))"

definition hasAwardRecoverySnapshot :: "operation_row \<Rightarrow> bool" where
  "hasAwardRecoverySnapshot r \<longleftrightarrow>
     as_object (at_key (as_object (at_key (op_intent r) ''recoverySnapshot'')) ''rawCDR'') \<noteq> None"

record recovery_status =
  ry_eligible :: bool
  ry_reason :: string

definition refuse_recovery :: "string \<Rightarrow> recovery_status" where
  "refuse_recovery c = \<lparr>ry_eligible = False, ry_reason = c\<rparr>"

definition allow_recovery :: "string \<Rightarrow> recovery_status" where
  "allow_recovery c = \<lparr>ry_eligible = True, ry_reason = c\<rparr>"

definition projected_recovery :: "operation_row \<Rightarrow> recovery_status" where
  "projected_recovery r =
     (let h = hasCanonicalTransactionHash (op_tx_hash r) in
      if op_type r = SPEND \<and> h then allow_recovery ''SPEND_RECEIPT_RECOVERY_REQUIRED''
      else if op_type r = SPEND then refuse_recovery ''CHAIN_HASH_REQUIRED''
      else if h then allow_recovery ''ALREADY_PROJECTED'' else refuse_recovery ''ALREADY_PROJECTED'')"

definition getAdminOperationRecoveryStatus :: "operation_row \<Rightarrow> recovery_status" where
  "getAdminOperationRecoveryStatus r =
     (if op_status r = PROJECTED then projected_recovery r
      else if op_status r = FAILED \<and> op_outcome r = Some OUT_NO_MOVEMENT
          \<and> map_option gd_retryable (mapOperationDiagnostic r) = Some True
      then refuse_recovery ''DEPENDENCY_RETRY_REQUIRED''
      else if op_status r = FAILED \<and> op_outcome r = Some OUT_CONFIRMED then refuse_recovery ''CHAIN_MOVEMENT_CONFIRMED''
      else if op_status r = FAILED then refuse_recovery ''FAILED_OPERATION_REVIEW_REQUIRED''
      else if \<not> hasCanonicalTransactionHash (op_tx_hash r) then refuse_recovery ''CHAIN_HASH_REQUIRED''
      else if op_type r = AWARD \<and> \<not> hasAwardRecoverySnapshot r then refuse_recovery ''AWARD_CDR_SNAPSHOT_REQUIRED''
      else if op_outcome r = Some OUT_REVIEW then refuse_recovery ''MOVEMENT_REVIEW_REQUIRED''
      else allow_recovery ''CHAIN_EVIDENCE_REQUIRED'')"

subsection \<open>A page\<close>

record admin_row =
  an_id :: "shown_text option"
  an_key :: "shown_text option"
  an_type :: operation_type
  an_emaid :: "shown_text option"
  an_wallet :: "shown_text option"
  an_amount :: string
  an_session :: "shown_text option"
  an_provider :: "shown_text option"
  an_reservation :: "shown_text option"
  an_status :: operation_status
  an_outcome :: movement_outcome
  an_hash :: "shown_text option"
  an_error :: "error_category option"
  an_errorCode :: "string option"
  an_failureStage :: "string option"
  an_diagnostic :: "shown_diagnostic option"
  an_times :: "string option list"
  an_next :: next_action
  an_recovery :: recovery_status

text \<open>The empty texts of the code are \<open>None\<close> in the columns that are never null.\<close>

definition mapTokenOperationRecord :: "operation_row \<Rightarrow> admin_row" where
  "mapTokenOperationRecord r =
     (let outcome = (case op_outcome r of None \<Rightarrow> OUT_UNKNOWN | Some x \<Rightarrow> x); g = mapOperationDiagnostic r in
      \<lparr>an_id = safeText 128 (Some (op_id r)), an_key = safeText 255 (Some (op_key r)), an_type = op_type r,
       an_emaid = safeText 255 (Some (op_uid r)), an_wallet = safeText 128 (Some (op_wallet r)),
       an_amount = numeric2_text (op_amount r), an_session = safeText 255 (op_session_id r),
       an_provider = safeText 255 (op_provider_id r), an_reservation = safeText 128 (op_reservation r),
       an_status = op_status r, an_outcome = outcome, an_hash = safeText 255 (op_tx_hash r),
       an_error = safeOperationErrorCategory (op_error r), an_errorCode = shown_error_code r,
       an_failureStage = shown_failure_stage r, an_diagnostic = g,
       an_times = map isoTimestamp [op_submitted_at r, op_confirmed_at r, op_projected_at r, Some (op_created r), Some (op_updated r)],
       an_next = getAdminOperationNextAction (op_status r) outcome (op_tx_hash r) g,
       an_recovery = getAdminOperationRecoveryStatus r\<rparr>)"

record operations_page =
  og_count :: nat
  og_total :: nat
  og_hasMore :: bool
  og_nextOffset :: "nat option"
  og_operations :: "admin_row list"

text \<open>Newest first, by the time of the last change, the time of creation and the id.\<close>

definition newest_first :: "operation_row list \<Rightarrow> operation_row list" where
  "newest_first t = rev (sort_key (\<lambda>r. (op_updated r, op_created r, op_id r)) t)"

definition list_operations :: "operations_query \<Rightarrow> db \<Rightarrow> operations_page" where
  "list_operations q d =
     (let found = applyAdminOperationFilters q (t_operations d);
          rows = take (oq_limit q) (drop (oq_offset q) (newest_first found));
          more = oq_offset q + length rows < length found in
      \<lparr>og_count = length rows, og_total = length found, og_hasMore = more,
       og_nextOffset = (if more then Some (oq_offset q + oq_limit q) else None),
       og_operations = map mapTokenOperationRecord rows\<rparr>)"

text \<open>The body of a recovery request: exactly one key, the operation key.\<close>

definition recovery_request_key :: "jsv \<Rightarrow> string option" where
  "recovery_request_key body =
     (case as_object body of
        None \<Rightarrow> None
      | Some ob \<Rightarrow>
          (case (map fst ob, field ob ''operationKey'') of
             ([k], JStr s) \<Rightarrow> if k = ''operationKey'' \<and> js_trim s \<noteq> [] then Some s else None
           | _ \<Rightarrow> None))"

end
