(* ===== verification/AdminRecovery.thy ===== *)
theory AdminRecovery
  imports AdminOperations ReceiptStore AwardFlow
begin

text \<open>
  \<open>executeAdminOperationRecovery\<close> of \<open>src/api.ts\<close>: an administrator finishes an operation whose transaction is
  already saved, with the recoveries of the two executors, the completion of a reservation and the receipt,
  between two records of the audit log. The surroundings say which calls of the database answer, what an
  executor did before it threw, and the texts of its errors; bodies of answers are JSON objects.
\<close>

subsection \<open>The saved delivery of a reservation\<close>

datatype delivery_source = FROM_CONTEXT | FROM_COLUMN | NO_DELIVERY

record saved_delivery =
  sv_value :: "js_number option"
  sv_invalid :: bool
  sv_source :: delivery_source

text \<open>\<open>/^\d+(?:\.\d{1,12})?$/\<close>\<close>

definition delivery_text :: "string \<Rightarrow> bool" where
  "delivery_text t = (case decimal_split t of None \<Rightarrow> False | Some (w, f) \<Rightarrow> length f \<le> 12)"

definition delivery_of :: "delivery_source \<Rightarrow> string \<Rightarrow> saved_delivery" where
  "delivery_of src t =
     (let bad = \<lparr>sv_value = None, sv_invalid = True, sv_source = src\<rparr> in
      if \<not> delivery_text t then bad
      else case text_number t of
        Fin x \<Rightarrow> if 0 \<le> x then \<lparr>sv_value = Some (Fin x), sv_invalid = False, sv_source = src\<rparr> else bad
      | _ \<Rightarrow> bad)"

definition readSavedSettlementDelivery :: "reservation_row option \<Rightarrow> saved_delivery" where
  "readSavedSettlementDelivery r =
     (case Option.bind r rv_context of
        Some c \<Rightarrow> delivery_of FROM_CONTEXT (js_trim (sc_deliveredKwh c))
      | None \<Rightarrow>
          (case Option.bind r rv_delivered_kwh of
             None \<Rightarrow> \<lparr>sv_value = None, sv_invalid = False, sv_source = NO_DELIVERY\<rparr>
           | Some u \<Rightarrow> delivery_of FROM_COLUMN (js_trim (numeric3_text u))))"

subsection \<open>Answers\<close>

fun status_text :: "operation_status \<Rightarrow> string" where
  "status_text SUBMITTING = ''submitting''"
| "status_text SUBMITTED = ''submitted''"
| "status_text CONFIRMED = ''confirmed''"
| "status_text PROJECTED = ''projected''"
| "status_text UNKNOWN_STATUS = ''unknown''"
| "status_text FAILED = ''failed''"

definition type_text :: "operation_type \<Rightarrow> string" where
  "type_text t = (case t of AWARD \<Rightarrow> ''award'' | SPEND \<Rightarrow> ''spend'')"

definition known_recovery_codes :: "string list" where
  "known_recovery_codes =
     [''CHAIN_HASH_REQUIRED'', ''SPEND_RECEIPT_RECOVERY_REQUIRED'', ''ALREADY_PROJECTED'', ''FAILED_OPERATION_REVIEW_REQUIRED'',
      ''AWARD_CDR_SNAPSHOT_REQUIRED'', ''MOVEMENT_REVIEW_REQUIRED'', ''AWARD_RECOVERY_CHAIN_HASH_REQUIRED'',
      ''AWARD_RECOVERY_CHAIN_READ_UNAVAILABLE'', ''AWARD_RECOVERY_EVIDENCE_BLOCKED'', ''AWARD_RECOVERY_ASSET_CONTEXT_MISMATCH'',
      ''SPEND_RECOVERY_CHAIN_HASH_REQUIRED'', ''SPEND_RECOVERY_CHAIN_READ_UNAVAILABLE'', ''SPEND_RECOVERY_EVIDENCE_BLOCKED'',
      ''SPEND_RECOVERY_ASSET_CONTEXT_MISMATCH'', ''SPEND_RECOVERY_ASSET_CONTEXT_UNAVAILABLE'',
      ''SPEND_RECOVERY_CONFIRMATION_STATE_UNAVAILABLE'', ''SPEND_RECOVERY_LOOKUP_UNAVAILABLE'', ''SPEND_RECOVERY_INTENT_INVALID'',
      ''SPEND_RECEIPT_RECOVERY_PENDING'', ''SPEND_RECEIPT_RECOVERY_BLOCKED'', ''TOKEN_OPERATION_RECOVERY_SNAPSHOT_INVALID'',
      ''TOKEN_OPERATION_NOT_FOUND'', ''TOKEN_OPERATION_INTENT_MISMATCH'', ''RESERVATION_RECOVERY_BLOCKED'']"

definition adminRecoveryCode :: "string \<Rightarrow> string" where
  "adminRecoveryCode text =
     (case first_where (has_part text) known_recovery_codes of Some c \<Rightarrow> c | None \<Rightarrow> ''RECOVERY_REVIEW_REQUIRED'')"

text \<open>The messages by what they say.\<close>

datatype recovery_message =
    Msg_No_Hash | Msg_No_Snapshot | Msg_Already_Projected | Msg_Snapshot_Invalid | Msg_Spend_Asset | Msg_Award_Asset
  | Msg_Evidence | Msg_Receipt_Pending | Msg_Receipt_Blocked | Msg_Reservation | Msg_Retry | Msg_Review | Msg_Inspect

definition adminRecoveryMessage :: "string \<Rightarrow> bool \<Rightarrow> bool \<Rightarrow> recovery_message" where
  "adminRecoveryMessage code pending review =
     (if code \<in> {''CHAIN_HASH_REQUIRED'', ''AWARD_RECOVERY_CHAIN_HASH_REQUIRED'', ''SPEND_RECOVERY_CHAIN_HASH_REQUIRED''} then Msg_No_Hash
      else if code = ''AWARD_CDR_SNAPSHOT_REQUIRED'' then Msg_No_Snapshot
      else if code = ''ALREADY_PROJECTED'' then Msg_Already_Projected
      else if code = ''TOKEN_OPERATION_RECOVERY_SNAPSHOT_INVALID'' then Msg_Snapshot_Invalid
      else if code = ''SPEND_RECOVERY_ASSET_CONTEXT_MISMATCH'' then Msg_Spend_Asset
      else if code = ''AWARD_RECOVERY_ASSET_CONTEXT_MISMATCH'' then Msg_Award_Asset
      else if code \<in> {''SPEND_RECOVERY_EVIDENCE_BLOCKED'', ''AWARD_RECOVERY_EVIDENCE_BLOCKED''} then Msg_Evidence
      else if code = ''SPEND_RECEIPT_RECOVERY_PENDING'' then Msg_Receipt_Pending
      else if code = ''SPEND_RECEIPT_RECOVERY_BLOCKED'' then Msg_Receipt_Blocked
      else if code = ''RESERVATION_RECOVERY_BLOCKED'' then Msg_Reservation
      else if pending \<and> \<not> review then Msg_Retry else if review then Msg_Review else Msg_Inspect)"

text \<open>What a recovery came to; \<open>rz_status\<close> is absent where the executors name none.\<close>

record recovery_result =
  rz_success :: bool
  rz_amount :: js_number
  rz_txHash :: "string option"
  rz_status :: "string option"
  rz_pending :: bool
  rz_review :: bool
  rz_outcome :: "string option"
  rz_error :: string

datatype receipt_state = RECEIPT_NOT_ATTEMPTED | RECEIPT_NOT_APPLICABLE | RECEIPT_STORED | RECEIPT_BLOCKED | RECEIPT_PENDING

fun receipt_state_text :: "receipt_state \<Rightarrow> string" where
  "receipt_state_text RECEIPT_NOT_ATTEMPTED = ''not_attempted''"
| "receipt_state_text RECEIPT_NOT_APPLICABLE = ''not_applicable''"
| "receipt_state_text RECEIPT_STORED = ''stored''"
| "receipt_state_text RECEIPT_BLOCKED = ''blocked''"
| "receipt_state_text RECEIPT_PENDING = ''pending''"

record admin_answer =
  aa_code :: nat
  aa_body :: js_object
  aa_message :: "recovery_message option"
  aa_receipt :: "stored_receipt option"

definition or_null :: "string option \<Rightarrow> jsv" where
  "or_null x = (case nonempty x of None \<Rightarrow> JNull | Some s \<Rightarrow> JStr s)"

definition or_text :: "string option \<Rightarrow> string \<Rightarrow> string" where
  "or_text x d = (case nonempty x of None \<Rightarrow> d | Some s \<Rightarrow> s)"

definition projection_text :: "operation_row \<Rightarrow> recovery_result \<Rightarrow> string" where
  "projection_text m x = (if rz_success x \<or> rz_status x = Some ''projected'' then ''projected'' else or_text (rz_status x) (status_text (op_status m)))"

definition common_body :: "operation_row \<Rightarrow> recovery_result \<Rightarrow> receipt_state \<Rightarrow> js_object" where
  "common_body m x rs =
     [(''operationKey'', JStr (op_key m)), (''operationType'', JStr (type_text (op_type m))), (''eMAID'', JStr (op_uid m)),
      (''transactionHash'', or_null (Some (or_text (rz_txHash x) (or_text (op_tx_hash m) [])))), (''amount'', JNum (rz_amount x)),
      (''projectionStatus'', JStr (projection_text m x)), (''receiptStatus'', JStr (receipt_state_text rs)),
      (''movementOutcome'', JStr (or_text (rz_outcome x) (or_text (map_option outcome_text (op_outcome m)) ''unknown''))),
      (''noReplacementTransfer'', JBool True)]"

text \<open>\<open>adminRecoveryResult\<close>: the answer, the status of its audit record and that record's metadata.\<close>

definition adminRecoveryResult ::
    "operation_row \<Rightarrow> recovery_result \<Rightarrow> receipt_state \<Rightarrow> stored_receipt option \<Rightarrow> admin_answer \<times> string \<times> js_object" where
  "adminRecoveryResult m x rs receipt =
     (let code = (if rz_success x then ''RECOVERY_COMPLETED'' else adminRecoveryCode (rz_error x));
          metadata = [(''resultCode'', JStr code), (''projectionStatus'', JStr (projection_text m x)),
            (''receiptStatus'', JStr (receipt_state_text rs))];
          status = (if rz_pending x \<and> \<not> rz_review x then ''pending'' else if rz_review x then ''blocked'' else ''error'') in
      if rz_success x
      then (\<lparr>aa_code = 200, aa_body = [(''status'', JStr ''ok''), (''recoveryStatus'', JStr ''completed'')] @ common_body m x rs,
              aa_message = None, aa_receipt = receipt\<rparr>, ''success'', metadata)
      else (\<lparr>aa_code = (if status = ''pending'' then 202 else if status = ''blocked'' then 409 else 422),
              aa_body = [(''status'', JStr status), (''recoveryStatus'', JStr status), (''code'', JStr code),
                  (''retryable'', JBool (status = ''pending'')), (''requiresReview'', JBool (rz_review x))] @ common_body m x rs,
              aa_message = Some (adminRecoveryMessage code (rz_pending x) (rz_review x)), aa_receipt = None\<rparr>,
            if status = ''pending'' then ''retry_required'' else ''error'', metadata))"

definition plain_answer :: "nat \<Rightarrow> js_object \<Rightarrow> admin_answer" where
  "plain_answer n body = \<lparr>aa_code = n, aa_body = body @ [(''noReplacementTransfer'', JBool True)], aa_message = None, aa_receipt = None\<rparr>"

definition recoveryAuditFailure :: "operation_row \<Rightarrow> bool \<Rightarrow> string \<Rightarrow> string \<Rightarrow> admin_answer" where
  "recoveryAuditFailure m completed projection receipt = plain_answer 503
     [(''status'', JStr ''error''),
      (''code'', JStr (if completed then ''RECOVERY_COMPLETED_AUDIT_UNAVAILABLE'' else ''RECOVERY_OUTCOME_AUDIT_UNAVAILABLE'')),
      (''recoveryStatus'', JStr (if completed then ''completed_audit_pending'' else ''audit_pending'')),
      (''operationKey'', JStr (op_key m)), (''operationType'', JStr (type_text (op_type m))),
      (''projectionStatus'', JStr projection), (''receiptStatus'', JStr receipt)]"

subsection \<open>Surroundings\<close>

datatype recovery_call = Find_Recovered | Audit_Request | Audit_Outcome | Find_Hold | Complete_Hold | Find_After_Failure

datatype recovery_problem =
    Award_Error award_problem | Spend_Error spend_problem | Completion_Unanswered | Completion_Refused db_error
  | Completion_Differs | Receipt_Refused receipt_problem | Hold_Unread

record admin_env =
  ra_spend :: spend_env
  ra_receipt :: receipt_env
  ra_answers :: "recovery_call \<Rightarrow> bool"
  ra_thrown :: "(db \<Rightarrow> db) option"
  ra_text :: "recovery_problem \<Rightarrow> string"
  ra_clock :: int

definition recovery_audit :: "string \<Rightarrow> string \<Rightarrow> string \<Rightarrow> string \<Rightarrow> js_object \<Rightarrow> audit_row" where
  "recovery_audit event actor key status metadata =
     \<lparr>au_event_type = event, au_actor_type = ''admin'', au_actor_id = Some actor, au_target_type = Some ''token_operation'',
      au_target_id = Some key, au_status = status, au_metadata = metadata, au_created = 0\<rparr>"

definition writeAdminRecoveryAudit :: "admin_env \<Rightarrow> recovery_call \<Rightarrow> audit_row \<Rightarrow> db \<Rightarrow> bool \<times> db" where
  "writeAdminRecoveryAudit env c a d =
     (if ra_answers env c then (True, snd (createAudit (ra_clock env) a d)) else (False, d))"

subsection \<open>Refusals\<close>

definition saved_or_zero :: "operation_row \<Rightarrow> js_number" where
  "saved_or_zero m = or_number (saved_amount m) (Fin 0)"

definition blocked_result :: "operation_row \<Rightarrow> bool \<Rightarrow> string \<Rightarrow> string \<Rightarrow> recovery_result" where
  "blocked_result m pending outcome e =
     \<lparr>rz_success = False, rz_amount = saved_or_zero m, rz_txHash = None, rz_status = Some (status_text (op_status m)),
      rz_pending = pending, rz_review = True, rz_outcome = Some outcome, rz_error = e\<rparr>"

definition no_receipt :: "operation_row \<Rightarrow> receipt_state" where
  "no_receipt m = (if op_type m = SPEND then RECEIPT_NOT_ATTEMPTED else RECEIPT_NOT_APPLICABLE)"

text \<open>A refused recovery is answered once its outcome is in the audit log.\<close>

definition recovery_refused :: "admin_env \<Rightarrow> string \<Rightarrow> string \<Rightarrow> operation_row \<Rightarrow> recovery_result \<Rightarrow> db \<Rightarrow> db \<times> admin_answer" where
  "recovery_refused env k actor m x d =
     (case adminRecoveryResult m x (no_receipt m) None of
        (answer, status, metadata) \<Rightarrow>
          (case writeAdminRecoveryAudit env Audit_Outcome (recovery_audit ''admin.recovery_blocked'' actor k status metadata) d of
             (True, d') \<Rightarrow> (d', answer)
           | (False, d') \<Rightarrow> (d', recoveryAuditFailure m False (status_text (op_status m)) ''not_attempted'')))"

definition column_units :: "nat \<Rightarrow> nat option" where
  "column_units u = map_option units (canonicalTokenAmount (JStr (numeric2_text u)))"

text \<open>The reservation of a spend has its owner, wallet, session, provider and hash.\<close>

definition hold_context_matches :: "operation_row \<Rightarrow> reservation_row \<Rightarrow> bool" where
  "hold_context_matches m r \<longleftrightarrow> rv_uid r = op_uid m \<and> rv_wallet r \<noteq> [] \<and> op_wallet m \<noteq> [] \<and> same_text (rv_wallet r) (op_wallet m)
     \<and> Some (rv_session_id r) = op_session_id m \<and> Some (rv_provider_id r) = op_provider_id m
     \<and> Option.bind (rv_tx_hash r) (\<lambda>h. canonicalTxHash (JStr h)) = Option.bind (op_tx_hash m) (\<lambda>h. canonicalTxHash (JStr h))"

definition hold_state_supported :: "operation_row \<Rightarrow> reservation_row \<Rightarrow> bool" where
  "hold_state_supported m r \<longleftrightarrow>
     (rv_status r = SETTLED \<or> rv_status r = RELEASED)
       \<and> column_units (op_amount m) \<noteq> None \<and> Option.bind (rv_settled r) column_units = column_units (op_amount m)
     \<or> rv_status r = SETTLING \<and> sv_value (readSavedSettlementDelivery (Some r)) \<noteq> None
       \<and> (case (column_units (op_amount m), column_units (rv_reserved r)) of (Some a, Some b) \<Rightarrow> a \<le> b | _ \<Rightarrow> False)"

definition hold_recoverable :: "operation_row \<Rightarrow> reservation_row option \<Rightarrow> bool" where
  "hold_recoverable m r = (case r of None \<Rightarrow> False
     | Some h \<Rightarrow> hold_context_matches m h \<and> \<not> sv_invalid (readSavedSettlementDelivery r) \<and> hold_state_supported m h)"

subsection \<open>Execution\<close>

definition award_recovery :: "admin_env \<Rightarrow> execution_result \<Rightarrow> recovery_result" where
  "award_recovery env x =
     \<lparr>rz_success = xr_success x, rz_amount = xr_amount x, rz_txHash = xr_txHash x,
      rz_status = map_option (\<lambda>s. case s of Status t \<Rightarrow> status_text t | Status_Review \<Rightarrow> ''review'') (xr_status x),
      rz_pending = xr_pending x, rz_review = xr_requiresReview x, rz_outcome = map_option outcome_text (xr_outcome x),
      rz_error = (case xr_error x of None \<Rightarrow> ''undefined'' | Some e \<Rightarrow> ra_text env (Award_Error e))\<rparr>"

definition spend_recovery :: "admin_env \<Rightarrow> spend_result \<Rightarrow> recovery_result" where
  "spend_recovery env x =
     \<lparr>rz_success = sx_success x, rz_amount = sx_amount x, rz_txHash = sx_txHash x, rz_status = map_option status_text (sx_status x),
      rz_pending = sx_pending x, rz_review = sx_requiresReview x, rz_outcome = map_option outcome_text (sx_outcome x),
      rz_error = (case sx_error x of None \<Rightarrow> ''undefined'' | Some e \<Rightarrow> ra_text env (Spend_Error e))\<rparr>"

definition completion_matches :: "operation_row \<Rightarrow> js_number \<Rightarrow> string \<Rightarrow> reservation_row \<Rightarrow> bool" where
  "completion_matches m amount h c \<longleftrightarrow> rv_status c = SETTLED \<and> rv_uid c = op_uid m \<and> op_wallet m \<noteq> [] \<and> same_text (rv_wallet c) (op_wallet m)
     \<and> Some (rv_session_id c) = op_session_id m \<and> Some (rv_provider_id c) = op_provider_id m
     \<and> canonicalTokenAmount (JNum amount) \<noteq> None
     \<and> Option.bind (rv_settled c) column_units = map_option units (canonicalTokenAmount (JNum amount))
     \<and> Option.bind (rv_tx_hash c) (\<lambda>t. canonicalTxHash (JStr t)) = Some h"

definition uncompleted :: "admin_env \<Rightarrow> recovery_problem \<Rightarrow> bool \<Rightarrow> recovery_result \<Rightarrow> recovery_result" where
  "uncompleted env e review x =
     x\<lparr>rz_success := False, rz_pending := True, rz_review := review,
       rz_error := ''RESERVATION_RECOVERY_BLOCKED: original reservation could not be completed safely: '' @ ra_text env e\<rparr>"

text \<open>A settling reservation is completed with the recovered spend; a completed one stays as it is.\<close>

definition completed_hold ::
    "admin_env \<Rightarrow> operation_row \<Rightarrow> reservation_row option \<Rightarrow> string \<Rightarrow> recovery_result \<Rightarrow> db \<Rightarrow> db \<times> recovery_result" where
  "completed_hold env m r h x d =
     (case (r, sv_value (readSavedSettlementDelivery r)) of
        (Some c, Some delivered) \<Rightarrow>
          if rv_status c \<noteq> SETTLING then (d, x)
          else if \<not> ra_answers env Complete_Hold then (d, uncompleted env Completion_Unanswered False x)
          else (case complete (ra_clock env) (rv_id c) delivered (rz_amount x) (Some h) d of
              Inl e \<Rightarrow> (d, uncompleted env (Completion_Refused e) False x)
            | Inr (row, d') \<Rightarrow>
                if \<exists>n \<in> set_option row. completion_matches m (rz_amount x) h n then (d', x)
                else (d', uncompleted env Completion_Differs True x))
      | _ \<Rightarrow> (d, x))"

definition recovered_receipt ::
    "admin_env \<Rightarrow> operation_row \<Rightarrow> string \<Rightarrow> recovery_result \<Rightarrow> db \<Rightarrow> db \<times> recovery_result \<times> receipt_state \<times> stored_receipt option" where
  "recovered_receipt env m h x d =
     (if \<not> rz_success x then (d, x, RECEIPT_NOT_ATTEMPTED, None)
      else case createAndStoreSpendReceipt (ra_receipt env)
          \<lparr>rs_uid = op_uid m, rs_wallet = op_wallet m, rs_amount = rz_amount x, rs_session = nonempty (op_session_id m),
           rs_provider = nonempty (op_provider_id m), rs_txHash = h\<rparr> d of
        (d', Inr s) \<Rightarrow> (d', x, RECEIPT_STORED, Some s)
      | (d', Inl e) \<Rightarrow>
          (let review = receipt_review e in
           (d', x\<lparr>rz_success := False, rz_pending := \<not> review, rz_review := review,
                  rz_error := (if review then ''SPEND_RECEIPT_RECOVERY_BLOCKED: '' else ''SPEND_RECEIPT_RECOVERY_PENDING: '') @
                    ra_text env (Receipt_Refused e)\<rparr>,
            if review then RECEIPT_BLOCKED else RECEIPT_PENDING, None)))"

definition finish_spend ::
    "admin_env \<Rightarrow> operation_row \<Rightarrow> reservation_row option \<Rightarrow> recovery_result \<Rightarrow> db \<Rightarrow> db \<times> recovery_result \<times> receipt_state \<times> stored_receipt option" where
  "finish_spend env m r x d =
     (case (if rz_success x then nonempty (rz_txHash x) else None) of
        None \<Rightarrow> (d, x, RECEIPT_NOT_ATTEMPTED, None)
      | Some h \<Rightarrow> (case completed_hold env m r h x d of (d1, y) \<Rightarrow> recovered_receipt env m h y d1))"

definition recovery_run ::
    "admin_env \<Rightarrow> operation_row \<Rightarrow> reservation_row option \<Rightarrow> db \<Rightarrow> db \<times> recovery_result \<times> receipt_state \<times> stored_receipt option" where
  "recovery_run env m r d =
     (if op_type m = AWARD
      then case recoverAwardOperation (se_base (ra_spend env)) (op_key m) True d of
        (d', x) \<Rightarrow> (d', award_recovery env x, RECEIPT_NOT_APPLICABLE, None)
      else case recoverSpendOperation (ra_spend env) (op_key m) d of
        (d', x) \<Rightarrow> finish_spend env m r (spend_recovery env x) d')"

text \<open>An executor that throws: the operation is read again, and a projected spend still misses its receipt.\<close>

definition thrown_recovery :: "admin_env \<Rightarrow> string \<Rightarrow> string \<Rightarrow> operation_row \<Rightarrow> db \<Rightarrow> db \<times> admin_answer" where
  "thrown_recovery env k actor m d =
     (let n = (case (if ra_answers env Find_After_Failure then find_operation d (op_key m) else None) of None \<Rightarrow> m | Some x \<Rightarrow> x);
          complete_now = (op_status n = PROJECTED); receipt = (op_type m = SPEND \<and> complete_now);
          rs = (if receipt then RECEIPT_PENDING else no_receipt m);
          x = \<lparr>rz_success = False, rz_amount = saved_or_zero n, rz_txHash = nonempty (op_tx_hash n), rz_status = Some (status_text (op_status n)),
               rz_pending = receipt, rz_review = \<not> receipt,
               rz_outcome = Some (case op_outcome n of Some y \<Rightarrow> outcome_text y | None \<Rightarrow> if complete_now then ''confirmed'' else ''review''),
               rz_error = (if receipt then ''SPEND_RECEIPT_RECOVERY_PENDING'' else ''RECOVERY_EXECUTION_FAILED'')\<rparr> in
      case adminRecoveryResult n x rs None of
        (answer, status, metadata) \<Rightarrow>
          (case writeAdminRecoveryAudit env Audit_Outcome (recovery_audit ''admin.recovery_failed'' actor k status metadata) d of
             (True, d') \<Rightarrow> (d', answer)
           | (False, d') \<Rightarrow> (d', recoveryAuditFailure n False (status_text (op_status n)) (receipt_state_text rs))))"

definition outcome_event :: "admin_answer \<Rightarrow> string" where
  "outcome_event a =
     (if field (aa_body a) ''status'' = JStr ''ok'' then ''admin.recovery_succeeded''
      else if field (aa_body a) ''status'' = JStr ''pending'' then ''admin.recovery_pending'' else ''admin.recovery_failed'')"

definition finished_recovery ::
    "admin_env \<Rightarrow> string \<Rightarrow> string \<Rightarrow> operation_row \<Rightarrow> recovery_result \<Rightarrow> receipt_state \<Rightarrow> stored_receipt option \<Rightarrow> db \<Rightarrow> db \<times> admin_answer" where
  "finished_recovery env k actor m x rs receipt d =
     (case adminRecoveryResult m x rs receipt of
        (answer, status, metadata) \<Rightarrow>
          (case writeAdminRecoveryAudit env Audit_Outcome (recovery_audit (outcome_event answer) actor k status metadata) d of
             (True, d') \<Rightarrow> (d', answer)
           | (False, d') \<Rightarrow> (d', recoveryAuditFailure m (rz_success x) (projection_text m x) (receipt_state_text rs))))"

definition eligible_recovery :: "admin_env \<Rightarrow> string \<Rightarrow> string \<Rightarrow> operation_row \<Rightarrow> db \<Rightarrow> db \<times> admin_answer" where
  "eligible_recovery env k actor m d =
     (let held = (op_type m = SPEND \<and> nonempty (op_reservation m) \<noteq> None);
          r = (if held then findByIdForUid d (the (op_reservation m)) (op_uid m) else None) in
      if held \<and> \<not> ra_answers env Find_Hold
      then recovery_refused env k actor m
        (blocked_result m True ''review'' (''RESERVATION_RECOVERY_BLOCKED: reservation lookup unavailable: '' @ ra_text env Hold_Unread)) d
      else if held \<and> \<not> hold_recoverable m r
      then recovery_refused env k actor m
        (blocked_result m False ''review'' ''RESERVATION_RECOVERY_BLOCKED: original reservation settlement context is incomplete or inconsistent; delivered session context is required'') d
      else case ra_thrown env of
        Some f \<Rightarrow> thrown_recovery env k actor m (f d)
      | None \<Rightarrow>
          (case recovery_run env m r d of
             (d', x, rs, receipt) \<Rightarrow> finished_recovery env k actor m x rs receipt d'))"

definition requested_recovery :: "admin_env \<Rightarrow> string \<Rightarrow> string \<Rightarrow> operation_row \<Rightarrow> db \<Rightarrow> db \<times> admin_answer" where
  "requested_recovery env k actor m d =
     (let e = getAdminOperationRecoveryStatus m in
      case writeAdminRecoveryAudit env Audit_Request (recovery_audit ''admin.recovery_requested'' actor k ''pending''
          [(''operationType'', JStr (type_text (op_type m))), (''operationStatus'', JStr (status_text (op_status m))),
           (''eligibility'', JStr (ry_reason e))]) d of
        (False, d') \<Rightarrow> (d', plain_answer 503 [(''status'', JStr ''error''), (''code'', JStr ''RECOVERY_AUDIT_UNAVAILABLE''), (''retryable'', JBool True)])
      | (True, d') \<Rightarrow>
          if ry_eligible e then eligible_recovery env k actor m d'
          else recovery_refused env k actor m
            (blocked_result m False (case op_outcome m of None \<Rightarrow> ''review'' | Some x \<Rightarrow> outcome_text x) (ry_reason e)) d')"

definition executeAdminOperationRecovery :: "admin_env \<Rightarrow> string \<Rightarrow> string \<Rightarrow> db \<Rightarrow> db \<times> admin_answer" where
  "executeAdminOperationRecovery env k actor d =
     (if \<not> ra_answers env Find_Recovered
      then (d, plain_answer 503 [(''status'', JStr ''error''), (''code'', JStr ''RECOVERY_LOOKUP_UNAVAILABLE''), (''retryable'', JBool True)])
      else case find_operation d k of
        None \<Rightarrow> (d, plain_answer 404 [(''status'', JStr ''error''), (''code'', JStr ''TOKEN_OPERATION_NOT_FOUND'')])
      | Some m \<Rightarrow> requested_recovery env k actor m d)"

end
