(* ===== verification/OperationLaws.thy ===== *)
theory OperationLaws
  imports AdminOperations "HOL-Library.Multiset"
begin

text \<open>
  Guarantees of the operator view: queries are bounded, following the pages shows every operation once, newest
  first, and only operations with a saved hash and a complete context may be recovered.
\<close>

subsection \<open>Queries\<close>

lemma bounded_integer:
  assumes "parseBoundedInteger v k fallback low high = Inr n" and "low \<le> fallback" and "fallback \<le> high"
  shows "low \<le> n \<and> n \<le> high"
proof (cases v)
  case None
  then show ?thesis using assms by (simp add: parseBoundedInteger_def)
next
  case (Some s)
  obtain x :: rat where x: "is_safe_integer (Fin x)" "of_nat low \<le> x" "x \<le> of_nat high" "n = nat \<lfloor>x\<rfloor>"
    using assms(1) Some by (auto simp: parseBoundedInteger_def rbind_Inr_iff split: js_number.splits)
  have "int low \<le> \<lfloor>x\<rfloor>" "\<lfloor>x\<rfloor> \<le> int high" using x(2,3) by (simp_all add: le_floor_iff floor_le_iff)
  then show ?thesis using x(4) by linarith
qed

text \<open>
   an accepted query of the operator view asks for one to a hundred rows from an offset of at most 100000, and
  its owner filter, if any, is a trimmed text of 1 to 255 characters.
\<close>

theorem operation_queries_are_bounded:
  assumes "parseAdminOperationsQuery v = Inr q"
  shows "1 \<le> oq_limit q \<and> oq_limit q \<le> MAX_ADMIN_OPERATION_LIMIT \<and> oq_offset q \<le> MAX_ADMIN_OPERATION_OFFSET
    \<and> (case oq_emaid q of None \<Rightarrow> True | Some t \<Rightarrow> 1 \<le> length t \<and> length t \<le> 255)"
proof -
  obtain e l f where q: "parseBoundedInteger l ''limit'' DEFAULT_ADMIN_OPERATION_LIMIT 1 MAX_ADMIN_OPERATION_LIMIT = Inr (oq_limit q)"
    "parseBoundedInteger f ''offset'' 0 0 MAX_ADMIN_OPERATION_OFFSET = Inr (oq_offset q)" "oq_emaid q = map_option js_trim e"
    "map_option js_trim e \<noteq> Some []" "\<forall>t \<in> set_option (map_option js_trim e). length t \<le> 255"
    using assms by (auto simp: parseAdminOperationsQuery_def rbind_Inr_iff)
  have "1 \<le> oq_limit q \<and> oq_limit q \<le> MAX_ADMIN_OPERATION_LIMIT"
    using bounded_integer [OF q(1)] by (simp add: DEFAULT_ADMIN_OPERATION_LIMIT_def MAX_ADMIN_OPERATION_LIMIT_def)
  moreover have "oq_offset q \<le> MAX_ADMIN_OPERATION_OFFSET" using bounded_integer [OF q(2)] by simp
  ultimately show ?thesis using q(3-5) by (cases e) (auto simp: Suc_le_eq)
qed

subsection \<open>Pages\<close>

text \<open>A client that follows \<open>nextOffset\<close> as long as the service accepts it.\<close>

fun follow_pages :: "nat \<Rightarrow> operations_query \<Rightarrow> db \<Rightarrow> admin_row list" where
  "follow_pages 0 q d = []"
| "follow_pages (Suc n) q d =
     (let p = list_operations q d in
      og_operations p @ (case og_nextOffset p of
          None \<Rightarrow> []
        | Some f \<Rightarrow> if f \<le> MAX_ADMIN_OPERATION_OFFSET then follow_pages n (q\<lparr>oq_offset := f\<rparr>) d else []))"

definition found_operations :: "operations_query \<Rightarrow> db \<Rightarrow> operation_row list" where
  "found_operations q d = newest_first (applyAdminOperationFilters q (t_operations d))"

lemma found_offset [simp]: "found_operations (q\<lparr>oq_offset := f\<rparr>) d = found_operations q d"
  by (simp add: found_operations_def applyAdminOperationFilters_def)

lemma found_length: "length (applyAdminOperationFilters q (t_operations d)) = length (found_operations q d)"
  by (simp add: found_operations_def newest_first_def)

lemma page_rows:
  "og_operations (list_operations q d) = map mapTokenOperationRecord (take (oq_limit q) (drop (oq_offset q) (found_operations q d)))"
  "og_nextOffset (list_operations q d) =
     (if oq_offset q + oq_limit q < length (found_operations q d) then Some (oq_offset q + oq_limit q) else None)"
  if "oq_offset q \<le> length (found_operations q d)" "0 < oq_limit q"
  using that found_length [of q d] by (auto simp: list_operations_def Let_def found_operations_def [symmetric])

lemma follow_from:
  assumes "0 < oq_limit q" and "oq_offset q \<le> length (found_operations q d)"
    and "length (found_operations q d) - oq_offset q < n" and "length (found_operations q d) \<le> MAX_ADMIN_OPERATION_OFFSET"
  shows "follow_pages n q d = map mapTokenOperationRecord (drop (oq_offset q) (found_operations q d))"
  using assms
proof (induction n arbitrary: q)
  case (Suc n)
  let ?t = "found_operations q d"
  show ?case
  proof (cases "oq_offset q + oq_limit q < length ?t")
    case True
    then have "follow_pages n (q\<lparr>oq_offset := oq_offset q + oq_limit q\<rparr>) d
        = map mapTokenOperationRecord (drop (oq_offset q + oq_limit q) ?t)"
      using Suc.prems by (subst Suc.IH) auto
    moreover have "take (oq_limit q) (drop (oq_offset q) ?t) @ drop (oq_offset q + oq_limit q) ?t = drop (oq_offset q) ?t"
      by (metis append_take_drop_id drop_drop add.commute)
    ultimately show ?thesis using Suc.prems True page_rows [OF Suc.prems(2,1)] by (simp add: Let_def flip: map_append)
  next
    case False
    then show ?thesis using page_rows [OF Suc.prems(2,1)] by (simp add: Let_def)
  qed
qed simp

lemma newest_first_props: "mset (newest_first t) = mset t" "sorted (rev (map (\<lambda>r. (op_updated r, op_created r, op_id r)) (newest_first t)))"
  by (simp_all add: newest_first_def rev_map)

text \<open>
   a client that starts at the first page and follows the offsets it is given sees every operation that its
  query asks for exactly once, the last changed first, as long as there are at most 100000 of them.
\<close>

theorem operation_pages_are_complete:
  assumes "0 < oq_limit q" and "oq_offset q = 0" and "length (found_operations q d) \<le> MAX_ADMIN_OPERATION_OFFSET"
  shows "\<exists>t. follow_pages (Suc (length t)) q d = map mapTokenOperationRecord t
    \<and> mset t = mset (applyAdminOperationFilters q (t_operations d))
    \<and> sorted (rev (map (\<lambda>r. (op_updated r, op_created r, op_id r)) t))"
proof (intro exI conjI)
  show "follow_pages (Suc (length (found_operations q d))) q d = map mapTokenOperationRecord (found_operations q d)"
    using follow_from [of q d "Suc (length (found_operations q d))"] assms by simp
qed (simp_all only: found_operations_def newest_first_props)

subsection \<open>Eligibility\<close>

text \<open>
   an operation that an administrator may recover has a canonical transaction hash and has not failed; unless it
  is projected, its outcome is not under review and an award has its charging record in the recovery snapshot.
\<close>

theorem recoverable_operations_are_sent:
  assumes "ry_eligible (getAdminOperationRecoveryStatus r)"
  shows "hasCanonicalTransactionHash (op_tx_hash r) \<and> op_status r \<noteq> FAILED
    \<and> (op_status r = PROJECTED \<or> op_outcome r \<noteq> Some OUT_REVIEW \<and> (op_type r = SPEND \<or> hasAwardRecoverySnapshot r))"
  using assms
  by (cases "op_type r") (auto simp: getAdminOperationRecoveryStatus_def projected_recovery_def refuse_recovery_def Let_def split: if_splits)

end
