(* ===== verification/AdminLaws.thy ===== *)
theory AdminLaws
  imports AdminRecovery OperationLaws ReceiptStoreLaws SpendLaws RecoveryLaws
begin

text \<open>
  Guarantees of the administrator's recovery: it prepares no transaction, a completed recovery of a spend leaves
  the spend projected and its receipt stored, a refused one changes nothing but the audit log, and the recovery of
  a settling reservation is always refused.
\<close>

subsection \<open>Steps that prepare nothing\<close>

text \<open>The steps of a recovery: rows of the ledger, recordings, reservations, receipts and audit records.\<close>

inductive quiet_step :: "db \<Rightarrow> db \<Rightarrow> bool" where
  quiet_ledger: "ledger_step d d' \<Longrightarrow> quiet_step d d'"
| quiet_award: "recordAward resolve now uident ident q d = Inr (a, d') \<Longrightarrow> quiet_step d d'"
| quiet_spend: "recordSpend now uident ident s d = Inr (x, d') \<Longrightarrow> quiet_step d d'"
| quiet_hold: "reservation_step d d' \<Longrightarrow> quiet_step d d'"
| quiet_receipt: "createReceipt rd d = Inr (rc, d') \<Longrightarrow> quiet_step d d'"
| quiet_audit: "quiet_step d (snd (createAudit now au d))"

lemma quiet_recording: "quiet_step d d' \<Longrightarrow> recording_step d d'"
  by (erule quiet_step.cases)
    (auto intro: by_operation by_record_award by_record_spend by_hold by_receipt by_audit)

lemma quiet_steps_recording: "quiet_step\<^sup>*\<^sup>* d d' \<Longrightarrow> recording_step\<^sup>*\<^sup>* d d'"
  using rtranclp_mono [of quiet_step recording_step] quiet_recording by blast

definition unprepared :: "db \<Rightarrow> db \<Rightarrow> bool" where
  "unprepared d d' \<longleftrightarrow> t_leases d' = t_leases d \<and> t_approvals d' = t_approvals d"

lemma quiet_unprepared:
  assumes "quiet_step d d'" and "accounts_ok d"
  shows "unprepared d d'"
proof -
  have w: "wallets_ok d" "reservations_ok d" using assms(2) by (simp_all add: accounts_ok_def service_ok_def)
  show ?thesis using assms(1)
  proof cases
    case quiet_ledger
    then show ?thesis using ledger_step_outside by (auto simp: unprepared_def outside_defs frame_defs)
  next
    case (quiet_award resolve now uident ident q a)
    then show ?thesis
    proof (cases rule: recordAward_cases)
      case (3 h amt)
      from 3(5) show ?thesis
        by (rule new_award_shape)
          (use find_or_create_keeps w in \<open>fastforce simp: unprepared_def outside_defs frame_defs insert_award_Inr credit_balance_def\<close>)
    qed (simp_all add: unprepared_def)
  next
    case (quiet_spend now uident ident s x)
    then show ?thesis
    proof (cases rule: recordSpend_cases)
      case (2 h amt)
      from 2(4) show ?thesis
        by (rule new_spend_shape)
          (use find_or_create_keeps w in \<open>fastforce simp: unprepared_def outside_defs frame_defs insert_spend_Inr debit_balance_def\<close>)
    qed (simp_all add: unprepared_def)
  next
    case quiet_hold
    then show ?thesis using reservation_step_keeps w by (auto simp: unprepared_def outside_defs frame_defs)
  next
    case (quiet_receipt rd rc)
    then show ?thesis by (auto simp: unprepared_def createReceipt_def rbind_Inr_iff Let_def split: if_splits)
  next
    case (quiet_audit now au)
    then show ?thesis by (simp add: unprepared_def createAudit_def Let_def)
  qed
qed

lemma quiet_steps_unprepared: "quiet_step\<^sup>*\<^sup>* d d' \<Longrightarrow> accounts_ok d \<Longrightarrow> unprepared d d' \<and> accounts_ok d'"
proof (induction rule: rtranclp_induct)
  case base
  then show ?case by (simp add: unprepared_def)
next
  case (step d1 d2)
  then have "unprepared d d1" "accounts_ok d1" by blast+
  moreover have "unprepared d1 d2" "accounts_ok d2"
    using quiet_unprepared [OF step(2)] recording_step_accounts [OF quiet_recording [OF step(2)]] calculation(2)
    by (simp_all add: account_step_def)
  ultimately show ?case by (simp add: unprepared_def)
qed

lemma ledger_steps_quiet: "ledger_step\<^sup>*\<^sup>* d d' \<Longrightarrow> quiet_step\<^sup>*\<^sup>* d d'"
  using rtranclp_mono [of ledger_step quiet_step] quiet_ledger by blast

subsection \<open>The recoveries of the executors\<close>

lemma project_award_quiet:
  "projectAwardOperation env p a s raw mode verify approve fresh pre d = (d', x, b) \<Longrightarrow> quiet_step\<^sup>*\<^sup>* d d'"
proof (erule project_cases)
  fix h row d1 d2
  assume m: "ledger_step\<^sup>*\<^sup>* d d1" "ledger_step\<^sup>*\<^sup>* d2 d'" and
    a: "recordAward (ae_resolve env) (clock env) (ae_user_ident env) (ae_award_ident env)
          (record_of p (replay_award p a) h s raw) d1 = Inr (row, d2)"
  have "quiet_step d1 d2" using a by (rule quiet_award)
  then show "quiet_step\<^sup>*\<^sup>* d d'" using ledger_steps_quiet [OF m(1)] ledger_steps_quiet [OF m(2)]
    by (meson rtranclp.rtrancl_into_rtrancl rtranclp_trans)
qed (rule ledger_steps_quiet)

lemma project_spend_quiet: "projectSpendOperation env p q verify d = (d', x) \<Longrightarrow> quiet_step\<^sup>*\<^sup>* d d'"
proof (erule project_spend_cases)
  fix h s d1 d2
  assume m: "ledger_step\<^sup>*\<^sup>* d d1" "ledger_step\<^sup>*\<^sup>* d2 d'" and
    a: "recordSpend (spend_clock env) (ae_user_ident (se_base env)) (se_spend_ident env) (spend_record_of (replay_request p q) h) d1
      = Inr (s, d2)"
  have "quiet_step d1 d2" using a by (rule quiet_spend)
  then show "quiet_step\<^sup>*\<^sup>* d d'" using ledger_steps_quiet [OF m(1)] ledger_steps_quiet [OF m(2)]
    by (meson rtranclp.rtrancl_into_rtrancl rtranclp_trans)
qed (rule ledger_steps_quiet)

lemma award_recovery_quiet: "recoverAwardOperation env k fresh d = (d', x) \<Longrightarrow> quiet_step\<^sup>*\<^sup>* d d'"
proof -
  have f: "ledger_step\<^sup>*\<^sup>* d d1" if "fresh_evidence env r a verify d = Inl (d1, y)" for r a verify d1 y
    using that by (auto simp: fresh_evidence_def Let_def intro: marks split: option.splits sum.splits if_splits)
  have r: "quiet_step\<^sup>*\<^sup>* d d1" if "recover_row env fresh m i d = (d1, y)" for m i d1 y
    using that by (auto simp: recover_row_def Let_def intro: ledger_steps_quiet dest!: f project_award_quiet
      split: option.splits if_splits sum.splits prod.splits)
  assume "recoverAwardOperation env k fresh d = (d', x)"
  then show ?thesis
    by (auto simp: recoverAwardOperation_def Let_def dest!: r split: if_splits option.splits sum.splits)
qed

lemma finish_recovery_quiet: "finish_recovery env r a h d = (d', x) \<Longrightarrow> quiet_step\<^sup>*\<^sup>* d d'"
proof -
  assume run: "finish_recovery env r a h d = (d', x)"
  obtain row d1 where c: "markConfirmed (spend_clock env) (op_key r) None d = (row, d1)" by (metis surj_pair)
  have "quiet_step d d1" using step_confirmed [of d "spend_clock env" "op_key r" None] c by (metis quiet_ledger snd_conv)
  then show ?thesis using run c project_spend_quiet
    by (auto simp: finish_recovery_def split: if_splits option.splits dest!: project_spend_quiet intro: converse_rtranclp_into_rtranclp)
qed

lemma spend_recovery_quiet: "recoverSpendOperation env k d = (d', x) \<Longrightarrow> quiet_step\<^sup>*\<^sup>* d d'"
proof -
  have e: "ledger_step\<^sup>*\<^sup>* d d1" if "recovery_evidence env r a h d = Inl (d1, y)" for r a h d1 y
    using that by (auto simp: recovery_evidence_def Let_def intro: marks split: option.splits sum.splits if_splits)
  assume "recoverSpendOperation env k d = (d', x)"
  then show ?thesis
    by (auto simp: recoverSpendOperation_def Let_def intro: ledger_steps_quiet dest!: e finish_recovery_quiet
      split: if_splits option.splits sum.splits)
qed

text \<open>What other requests store while a receipt is signed is quiet as well.\<close>

definition quiet_receipts :: "receipt_env \<Rightarrow> bool" where
  "quiet_receipts env \<longleftrightarrow> (\<forall>d. quiet_step\<^sup>*\<^sup>* d (xe_meanwhile env d))"

lemma quiet_receipts_others: "quiet_receipts env \<Longrightarrow> others_receipts env"
  by (simp add: quiet_receipts_def others_receipts_def quiet_steps_recording)

lemma receipt_run_quiet:
  assumes "createAndStoreSpendReceipt env q d = (d', x)" and "quiet_receipts env"
  shows "quiet_step\<^sup>*\<^sup>* d d'"
  using assms(1)
proof (cases rule: receipt_run_cases)
  case (stored i s)
  have m: "quiet_step\<^sup>*\<^sup>* d (xe_meanwhile env d)" using assms(2) by (simp add: quiet_receipts_def)
  have c: "quiet_step\<^sup>*\<^sup>* d d1" if "createReceipt (receipt_data_of env s) (xe_meanwhile env d) = Inr (r, d1)" for r d1
    using m quiet_receipt [OF that] by (rule rtranclp.rtrancl_into_rtrancl)
  show ?thesis using stored(3)
  proof (cases rule: store_receipt_cases)
    case (issued r)
    then show ?thesis using c by blast
  next
    case (raced d1)
    then show ?thesis using c m raced_receipt_facts(1) by blast
  qed
qed simp_all

subsection \<open>The run\<close>

lemma audit_quiet: "writeAdminRecoveryAudit env c a d = (b, d') \<Longrightarrow> quiet_step\<^sup>*\<^sup>* d d'"
  by (auto simp: writeAdminRecoveryAudit_def split: if_splits intro: quiet_audit)

lemma hold_completion_quiet: "completed_hold env m r h x d = (d', y) \<Longrightarrow> quiet_step\<^sup>*\<^sup>* d d'"
  by (auto simp: completed_hold_def split: option.splits if_splits sum.splits prod.splits
    intro: r_into_rtranclp quiet_hold step_complete)

lemma recovered_receipt_quiet:
  assumes "recovered_receipt env m h x d = (d', y)" and "quiet_receipts (ra_receipt env)"
  shows "quiet_step\<^sup>*\<^sup>* d d'"
  using assms(1) receipt_run_quiet [OF _ assms(2)]
  by (auto simp: recovered_receipt_def Let_def split: if_splits prod.splits sum.splits)

lemma recovery_run_quiet:
  assumes "recovery_run env m r d = (d', y)" and "quiet_receipts (ra_receipt env)"
  shows "quiet_step\<^sup>*\<^sup>* d d'"
proof (cases "op_type m = AWARD")
  case True
  then show ?thesis using assms(1) award_recovery_quiet by (auto simp: recovery_run_def split: prod.splits)
next
  case False
  then obtain d1 x where s: "recoverSpendOperation (ra_spend env) (op_key m) d = (d1, x)"
    "finish_spend env m r (spend_recovery env x) d1 = (d', y)" using assms(1) by (auto simp: recovery_run_def split: prod.splits)
  have "d' = d1 \<or> (\<exists>h d2 z. completed_hold env m r h (spend_recovery env x) d1 = (d2, z) \<and> recovered_receipt env m h z d2 = (d', y))"
    using s(2) by (auto simp: finish_spend_def split: option.splits if_splits prod.splits)
  then have "quiet_step\<^sup>*\<^sup>* d1 d'" using hold_completion_quiet recovered_receipt_quiet [OF _ assms(2)] by (metis rtranclp.rtrancl_refl rtranclp_trans)
  then show ?thesis using spend_recovery_quiet [OF s(1)] by simp
qed

definition keeps_promise :: "admin_answer \<Rightarrow> bool" where
  "keeps_promise a \<longleftrightarrow> field (aa_body a) ''noReplacementTransfer'' = JBool True"

lemma result_facts:
  assumes "adminRecoveryResult m x rs rc = (a, st, md)"
  shows "aa_code a = 200 \<longleftrightarrow> rz_success x" and "keeps_promise a" and "rz_success x \<Longrightarrow> aa_receipt a = rc \<and> st = ''success''"
    and "rz_success x \<Longrightarrow> outcome_event a = ''admin.recovery_succeeded''"
proof -
  have fields: "field (aa_body a) ''noReplacementTransfer'' = JBool True \<and> (aa_code a = 200 \<longleftrightarrow> rz_success x)"
  proof (cases "rz_success x")
    case True
    then have "a = \<lparr>aa_code = 200, aa_body = [(''status'', JStr ''ok''), (''recoveryStatus'', JStr ''completed'')] @ common_body m x rs,
        aa_message = None, aa_receipt = rc\<rparr>" using assms by (simp add: adminRecoveryResult_def Let_def)
    then show ?thesis using True by (simp add: field_def common_body_def)
  next
    case False
    then obtain n b e c p r where "aa_code a \<noteq> 200"
      "aa_body a = [(''status'', b), (''recoveryStatus'', e), (''code'', c), (''retryable'', p), (''requiresReview'', r)] @ common_body m x rs"
      using assms by (auto simp: adminRecoveryResult_def Let_def)
    then show ?thesis using False by (simp add: field_def common_body_def)
  qed
  then show "aa_code a = 200 \<longleftrightarrow> rz_success x" "keeps_promise a" by (simp_all add: keeps_promise_def)
  show "aa_receipt a = rc \<and> st = ''success''" if "rz_success x" using assms that by (auto simp: adminRecoveryResult_def Let_def)
  show "outcome_event a = ''admin.recovery_succeeded''" if "rz_success x"
    using assms that by (auto simp: adminRecoveryResult_def Let_def outcome_event_def field_def)
qed

lemma audit_failure_facts: "aa_code (recoveryAuditFailure m b p t) = 503" "keeps_promise (recoveryAuditFailure m b p t)"
  by (simp_all add: recoveryAuditFailure_def plain_answer_def keeps_promise_def field_def)

definition only_audited :: "db \<Rightarrow> db \<Rightarrow> bool" where
  "only_audited d d' \<longleftrightarrow> (\<exists>u. d' = d\<lparr>t_audits := t_audits d @ u\<rparr>)"

lemma audit_only: "writeAdminRecoveryAudit env c a d = (b, d') \<Longrightarrow> only_audited d d'"
  by (auto simp: writeAdminRecoveryAudit_def createAudit_def Let_def only_audited_def split: if_splits intro: exI [of _ "[]"])

lemma only_audited_trans: "only_audited a b \<Longrightarrow> only_audited b c \<Longrightarrow> only_audited a c"
  by (auto simp: only_audited_def)

lemma refused_facts:
  assumes "recovery_refused env k actor m (blocked_result m b c e) d = (d', y)"
  shows "only_audited d d'" and "aa_code y \<noteq> 200" and "keeps_promise y" and "quiet_step\<^sup>*\<^sup>* d d'"
proof -
  obtain a st md where r: "adminRecoveryResult m (blocked_result m b c e) (no_receipt m) None = (a, st, md)" by (metis prod_cases3)
  have "aa_code a \<noteq> 200" "keeps_promise a" using result_facts(1,2) [OF r] by (simp_all add: blocked_result_def)
  then show "only_audited d d'" "aa_code y \<noteq> 200" "keeps_promise y" "quiet_step\<^sup>*\<^sup>* d d'"
    using assms r audit_failure_facts audit_only audit_quiet
    by (auto simp: recovery_refused_def split: prod.splits bool.splits)
qed

text \<open>What a recovery comes to: nothing read, a refusal, an executor that threw, or a run.\<close>

definition hold_checked :: "operation_row \<Rightarrow> reservation_row option \<Rightarrow> db \<Rightarrow> bool" where
  "hold_checked m r d \<longleftrightarrow> (op_type m = SPEND \<and> nonempty (op_reservation m) \<noteq> None \<longrightarrow>
     r = findByIdForUid d (the (op_reservation m)) (op_uid m) \<and> hold_recoverable m r)"

lemma eligible_cases:
  assumes "eligible_recovery env k actor m d = (d', y)"
  obtains (refused) b c e where "recovery_refused env k actor m (blocked_result m b c e) d = (d', y)"
  | (thrown) r f where "hold_checked m r d" "ra_thrown env = Some f" "thrown_recovery env k actor m (f d) = (d', y)"
  | (ran) r d2 x rs rc where "hold_checked m r d" "recovery_run env m r d = (d2, x, rs, rc)"
      "finished_recovery env k actor m x rs rc d2 = (d', y)"
proof -
  define r where "r = (if op_type m = SPEND \<and> nonempty (op_reservation m) \<noteq> None
    then findByIdForUid d (the (op_reservation m)) (op_uid m) else None)"
  show thesis
  proof (cases "hold_checked m r d \<and> (op_type m = SPEND \<and> nonempty (op_reservation m) \<noteq> None \<longrightarrow> ra_answers env Find_Hold)")
    case True
    obtain d2 x rs rc where run: "recovery_run env m r d = (d2, x, rs, rc)" by (metis prod_cases4)
    show thesis
    proof (cases "ra_thrown env")
      case None
      then show thesis using True run assms ran [of r]
        by (auto simp: eligible_recovery_def Let_def r_def hold_checked_def split: if_splits)
    next
      case (Some f)
      then show thesis using True assms thrown [of r]
        by (auto simp: eligible_recovery_def Let_def r_def hold_checked_def split: if_splits)
    qed
  next
    case False
    then show thesis using assms refused
      by (auto simp: eligible_recovery_def Let_def r_def hold_checked_def split: if_splits)
  qed
qed

lemma admin_recovery_cases:
  assumes "executeAdminOperationRecovery env k actor d = (d', y)"
  obtains (unread) "only_audited d d'" "aa_code y \<noteq> 200" "keeps_promise y" "quiet_step\<^sup>*\<^sup>* d d'"
  | (eligible) m d1 where "find_operation d k = Some m" "ry_eligible (getAdminOperationRecoveryStatus m)" "only_audited d d1"
      "quiet_step\<^sup>*\<^sup>* d d1" "eligible_recovery env k actor m d1 = (d', y)"
proof -
  have plain: thesis if "y = plain_answer n b" "n \<noteq> 200" "field (b @ [(''noReplacementTransfer'', JBool True)]) ''noReplacementTransfer'' = JBool True"
    "quiet_step\<^sup>*\<^sup>* d d'" "only_audited d d'" for n b
    using that by (intro unread) (simp_all add: plain_answer_def keeps_promise_def)
  have same: "only_audited d d" unfolding only_audited_def by (intro exI [of _ "[]"]) simp
  show thesis
  proof (cases "if ra_answers env Find_Recovered then find_operation d k else None")
    case None
    then show thesis using assms same
      by (auto simp: executeAdminOperationRecovery_def field_def split: if_splits intro: plain)
  next
    case (Some m)
    then have m: "find_operation d k = Some m" "requested_recovery env k actor m d = (d', y)"
      using assms by (auto simp: executeAdminOperationRecovery_def split: if_splits)
    obtain b d1 where w: "writeAdminRecoveryAudit env Audit_Request (recovery_audit ''admin.recovery_requested'' actor k ''pending''
          [(''operationType'', JStr (type_text (op_type m))), (''operationStatus'', JStr (status_text (op_status m))),
           (''eligibility'', JStr (ry_reason (getAdminOperationRecoveryStatus m)))]) d = (b, d1)" by (metis surj_pair)
    note step = audit_only [OF w] audit_quiet [OF w]
    consider "\<not> b" | "b" "ry_eligible (getAdminOperationRecoveryStatus m)" | "b" "\<not> ry_eligible (getAdminOperationRecoveryStatus m)" by blast
    then show thesis
    proof cases
      case 1
      then show thesis using m(2) w step by (auto simp: requested_recovery_def Let_def field_def intro: plain)
    next
      case 2
      then show thesis using m w step by (intro eligible [of m d1]) (simp_all add: requested_recovery_def Let_def)
    next
      case 3
      then obtain c where r: "recovery_refused env k actor m
          (blocked_result m False c (ry_reason (getAdminOperationRecoveryStatus m))) d1 = (d', y)"
        using m(2) w by (simp add: requested_recovery_def Let_def)
      show thesis using refused_facts [OF r] step by (intro unread) (auto intro: only_audited_trans rtranclp_trans)
    qed
  qed
qed

text \<open>The surroundings of a recovery: what an executor did before it threw, and the other requests.\<close>

definition quiet_env :: "admin_env \<Rightarrow> bool" where
  "quiet_env env \<longleftrightarrow> quiet_receipts (ra_receipt env) \<and> (\<forall>f \<in> set_option (ra_thrown env). \<forall>d. quiet_step\<^sup>*\<^sup>* d (f d))"

lemma thrown_facts:
  assumes "thrown_recovery env k actor m d = (d', y)"
  shows "quiet_step\<^sup>*\<^sup>* d d'" and "keeps_promise y" and "aa_code y \<noteq> 200"
proof -
  obtain n x rs a st md where r: "adminRecoveryResult n x rs None = (a, st, md)" "\<not> rz_success x" and
    w: "(case writeAdminRecoveryAudit env Audit_Outcome (recovery_audit ''admin.recovery_failed'' actor k st md) d of
       (True, d') \<Rightarrow> (d', a) | (False, d') \<Rightarrow> (d', recoveryAuditFailure n False (status_text (op_status n)) (receipt_state_text rs))) = (d', y)"
    using assms by (auto simp: thrown_recovery_def Let_def split: prod.splits)
  show "quiet_step\<^sup>*\<^sup>* d d'" "keeps_promise y" "aa_code y \<noteq> 200"
    using w result_facts(1,2) [OF r(1)] r(2) audit_failure_facts audit_quiet by (auto split: prod.splits bool.splits)
qed

lemma finished_facts:
  assumes "finished_recovery env k actor m x rs rc d = (d', y)"
  shows "quiet_step\<^sup>*\<^sup>* d d'" and "keeps_promise y" and "aa_code y = 200 \<Longrightarrow> rz_success x \<and> aa_receipt y = rc
    \<and> (\<exists>md. d' = snd (createAudit (ra_clock env) (recovery_audit ''admin.recovery_succeeded'' actor k ''success'' md) d))"
proof -
  obtain a st md where r: "adminRecoveryResult m x rs rc = (a, st, md)" by (metis prod_cases3)
  note f = result_facts [OF r]
  have w: "(case writeAdminRecoveryAudit env Audit_Outcome (recovery_audit (outcome_event a) actor k st md) d of
       (True, d') \<Rightarrow> (d', a) | (False, d') \<Rightarrow> (d', recoveryAuditFailure m (rz_success x) (projection_text m x) (receipt_state_text rs))) = (d', y)"
    using assms r by (simp add: finished_recovery_def)
  show "quiet_step\<^sup>*\<^sup>* d d'" "keeps_promise y" using w f(2) audit_failure_facts audit_quiet by (auto split: prod.splits bool.splits)
  assume ok: "aa_code y = 200"
  then have "y = a" "writeAdminRecoveryAudit env Audit_Outcome (recovery_audit (outcome_event a) actor k st md) d = (True, d')"
    using w audit_failure_facts by (auto split: prod.splits bool.splits)
  then show "rz_success x \<and> aa_receipt y = rc
    \<and> (\<exists>md. d' = snd (createAudit (ra_clock env) (recovery_audit ''admin.recovery_succeeded'' actor k ''success'' md) d))"
    using f(1,3,4) ok by (auto simp: writeAdminRecoveryAudit_def split: if_splits)
qed

text \<open>A signer that can be trusted: every signature it makes recovers to it.\<close>

definition honest_receipts :: "receipt_env \<Rightarrow> bool" where
  "honest_receipts env \<longleftrightarrow> (\<forall>text s a. xe_sign env text = Some s \<longrightarrow> xe_signer env = Some a \<longrightarrow>
     (\<exists>t b. xe_checksum env a = Some t \<and> xe_recover env text s = Some b \<and> same_text b t))"

subsection \<open>Samples\<close>

text \<open>The sample spend, already projected and without a reservation, or still waiting for one that is settling.\<close>

definition paid_row :: operation_row where
  "paid_row = sent_spend_row\<lparr>op_status := PROJECTED, op_reservation := None\<rparr>"

definition waiting_hold :: reservation_row where
  "waiting_hold = \<lparr>rv_id = ''r1'', rv_uid = ''U'', rv_wallet = ''0xB2'', rv_session_id = ''s1'', rv_provider_id = ''P'', rv_reserved = 300,
     rv_settled = None, rv_released = None, rv_delivered_kwh = None, rv_context = None, rv_status = SETTLING, rv_tx_hash = None,
     rv_error = None, rv_auth_tx_hash = None, rv_auth_amount = None, rv_reserved_at = 0, rv_settled_at = None, rv_updated = 0\<rparr>"

definition admin_book :: "operation_row \<Rightarrow> reservation_row list \<Rightarrow> db" where
  "admin_book r holds = empty_db\<lparr>t_operations := [r], t_reservations := holds\<rparr>"

definition sample_admin_env :: admin_env where
  "sample_admin_env = \<lparr>ra_spend = sample_spend_env (Some spend_chain) 0, ra_receipt = sample_receipt_env Write_Done, ra_answers = (\<lambda>_. True),
     ra_thrown = None, ra_text = (\<lambda>_. []), ra_clock = 9\<rparr>"

lemma sample_admin_quiet: "quiet_env sample_admin_env" "quiet_receipts (ra_receipt sample_admin_env)"
    "steady_checksum (ra_receipt sample_admin_env)" "honest_receipts (ra_receipt sample_admin_env)"
  by (simp_all add: quiet_env_def quiet_receipts_def steady_checksum_def honest_receipts_def sample_admin_env_def sample_receipt_env_def same_text_def)

lemma admin_book_ok:
  assumes "op_type r = SPEND" and "op_tx_hash r = Some (sample_hash CHR ''a'')"
  shows "accounts_ok (admin_book r [])" and "accounts_ok (admin_book r [waiting_hold])"
proof -
  have "ops_ok [r]" using assms sample_hashes(1) by (simp add: ops_ok_def session_key_def)
  then show "accounts_ok (admin_book r [])" "accounts_ok (admin_book r [waiting_hold])"
    using empty_accounts_ok
    by (simp_all add: admin_book_def accounts_ok_def service_ok_def ledger_ok_def leases_ok_def approvals_ok_def reservations_ok_def
        wallets_ok_def projections_ok_def empty_db_def sound_reservation_def waiting_hold_def)
qed

lemma paid_row:
  "op_key paid_row = sample_spend_key" "op_type paid_row = SPEND" "op_status paid_row = PROJECTED" "op_amount paid_row = 300"
  "op_uid paid_row = ''U''" "op_wallet paid_row = ''0xB2''" "op_session_id paid_row = Some ''s1''" "op_provider_id paid_row = Some ''P''"
  "op_reservation paid_row = None" "op_tx_hash paid_row = Some (sample_hash CHR ''a'')" "op_fingerprint paid_row = replicate 64 CHR ''a''"
  "op_intent paid_row = op_intent sent_spend_row"
  by (simp_all add: paid_row_def sent_spend_row)

lemma paid_recoverable: "recoverable_spend (sample_spend_env (Some spend_chain) n) paid_row = Inr (three_tokens, sample_hash CHR ''a'')"
proof -
  have a: "canonicalTokenAmount (JStr (numeric2_text 300)) = Some three_tokens" by (simp add: canonicalTokenAmount_text three_tokens_def)
  have h: "canonicalTransactionHash (JStr (sample_hash CHR ''a'')) = Some (sample_hash CHR ''a'')"
    "nonempty (Some (sample_hash CHR ''a'')) \<noteq> None" by code_simp+
  have q: "sq_amount (recovery_request paid_row) = Fin (of_nat 3)"
    using three_tokens_value by (simp add: recovery_request_def paid_row a or_number_def)
  have m: "spendRecoveryIntentMismatch (sha_of (se_base (sample_spend_env (Some spend_chain) n))) paid_row
      (recovery_request paid_row) ''U'' = None"
    unfolding spendRecoveryIntentMismatch_def q three_tokens(1)
    by (simp add: paid_row a recovery_request_def same_text_def names_other_def nonempty_def)
      (simp add: spendIntentFingerprint_def spend_intent_of_def of_option_def tokenIntentFingerprint_def three_tokens_value three_tokens(1)
        del: of_nat_numeral)
  show ?thesis using m h(2) by (simp add: recoverable_spend_def Let_def paid_row a three_tokens(3) h(1))
qed

lemma paid_evidence:
  "recovery_evidence (sample_spend_env (Some spend_chain) n) paid_row three_tokens (sample_hash CHR ''a'') d = Inr sample_asset"
  using spend_evidence_valid [of n]
  by (auto simp: recovery_evidence_def Let_def paid_row sent_spend_row sample_asset_of three_tokens(3) sample_chain_def)

lemma paid_recovered:
  assumes "t_operations d = [paid_row]"
  shows "\<exists>x. recoverSpendOperation (sample_spend_env (Some spend_chain) 0) sample_spend_key d = (d, x) \<and> sx_success x
    \<and> sx_amount x = Fin (of_nat 3) \<and> sx_txHash x = Some (sample_hash CHR ''a'')"
  using assms sent_book(3) paid_recoverable [of 0] paid_evidence [of 0 d] three_tokens_value
  by (simp add: recoverSpendOperation_def Let_def find_operation_def paid_row finish_recovery_def completed_spend_def)

lemma paid_run:
  assumes "t_operations d = [paid_row]" and "t_receipts d = []"
  shows "\<exists>r s z rs. recovery_run sample_admin_env paid_row None d = (d\<lparr>t_receipts := [r]\<rparr>, z, rs, Some s) \<and> rz_success z"
proof -
  obtain x where x: "recoverSpendOperation (sample_spend_env (Some spend_chain) 0) sample_spend_key d = (d, x)" "sx_success x"
    "sx_amount x = Fin (of_nat 3)" "sx_txHash x = Some (sample_hash CHR ''a'')" using paid_recovered [OF assms(1)] by blast
  have "nonempty (Some (sample_hash CHR ''a'')) = Some (sample_hash CHR ''a'')" by code_simp
  moreover have "nonempty (Some ''s1'') = Some ''s1''" "nonempty (Some ''P'') = Some ''P''" by (simp_all add: nonempty_def)
  moreover have a: "canonicalTokenAmount (JNum (Fin (of_nat 3))) = Some three_tokens" "0 < units three_tokens"
    using three_tokens by (simp_all del: of_nat_numeral)
  obtain r s where "createAndStoreSpendReceipt (sample_receipt_env Write_Done) (sample_receipt_query (Fin (of_nat 3))) d
      = (d\<lparr>t_receipts := [r]\<rparr>, Inr s)" using sample_receipt_run [OF a assms(2)] by blast
  ultimately show ?thesis using x
    by (simp add: recovery_run_def sample_admin_env_def paid_row finish_spend_def spend_recovery_def completed_hold_def
        recovered_receipt_def sample_receipt_query_def del: of_nat_numeral) blast
qed

lemma sample_admin_run:
  "\<exists>d' y. executeAdminOperationRecovery sample_admin_env sample_spend_key ''admin'' (admin_book paid_row []) = (d', y) \<and> aa_code y = 200
    \<and> (\<exists>r. t_receipts d' = [r])"
proof -
  have e: "ry_eligible (getAdminOperationRecoveryStatus paid_row)"
    using sample_hash_text by (simp add: getAdminOperationRecoveryStatus_def projected_recovery_def paid_row hasCanonicalTransactionHash_def
        allow_recovery_def Let_def)
  define d1 where "d1 = snd (createAudit 9 (recovery_audit ''admin.recovery_requested'' ''admin'' sample_spend_key ''pending''
          [(''operationType'', JStr (type_text (op_type paid_row))), (''operationStatus'', JStr (status_text (op_status paid_row))),
           (''eligibility'', JStr (ry_reason (getAdminOperationRecoveryStatus paid_row)))]) (admin_book paid_row []))"
  have tables: "t_operations d1 = [paid_row]" "t_receipts d1 = []" by (simp_all add: d1_def createAudit_def Let_def admin_book_def empty_db_def)
  obtain r s z rs where run: "recovery_run sample_admin_env paid_row None d1 = (d1\<lparr>t_receipts := [r]\<rparr>, z, rs, Some s)" "rz_success z"
    using paid_run [OF tables] by blast
  obtain a st md where res: "adminRecoveryResult paid_row z rs (Some s) = (a, st, md)" by (metis prod_cases3)
  have env: "ra_answers sample_admin_env = (\<lambda>_. True)" "ra_thrown sample_admin_env = None" "ra_clock sample_admin_env = 9"
    by (simp_all add: sample_admin_env_def)
  have "find_operation (admin_book paid_row []) sample_spend_key = Some paid_row" by (simp add: find_operation_def admin_book_def paid_row)
  then have "executeAdminOperationRecovery sample_admin_env sample_spend_key ''admin'' (admin_book paid_row [])
      = finished_recovery sample_admin_env sample_spend_key ''admin'' paid_row z rs (Some s) (d1\<lparr>t_receipts := [r]\<rparr>)"
    using e run(1) env
    by (simp add: executeAdminOperationRecovery_def requested_recovery_def Let_def writeAdminRecoveryAudit_def d1_def [symmetric]
        eligible_recovery_def paid_row(9) nonempty_def)
  also have "\<dots> = (snd (createAudit 9 (recovery_audit (outcome_event a) ''admin'' sample_spend_key st md) (d1\<lparr>t_receipts := [r]\<rparr>)), a)"
    using res env by (simp add: finished_recovery_def writeAdminRecoveryAudit_def)
  finally show ?thesis using result_facts(1) [OF res] run(2) by (simp add: createAudit_def Let_def)
qed

subsection \<open>Guarantees\<close>

text \<open>
  C10: the recovery of an administrator sends nothing: it prepares no transaction, neither a lease nor an approval
  is written, the tables stay sound, and every answer, also a refusal or one after an error, says that no
  replacement transfer was made.
\<close>

theorem admin_recovery_sends_nothing:
  assumes "executeAdminOperationRecovery env k actor d = (d', y)" and "accounts_ok d" and "quiet_env env"
  shows "unprepared d d' \<and> accounts_ok d' \<and> keeps_promise y"
proof -
  have env: "quiet_receipts (ra_receipt env)" "ra_thrown env = Some f \<Longrightarrow> quiet_step\<^sup>*\<^sup>* a (f a)" for f a
    using assms(3) by (simp_all add: quiet_env_def)
  have "quiet_step\<^sup>*\<^sup>* d d' \<and> keeps_promise y" using assms(1)
  proof (cases rule: admin_recovery_cases)
    case unread
    then show ?thesis by simp
  next
    case (eligible m d1)
    from eligible(5) have "quiet_step\<^sup>*\<^sup>* d1 d' \<and> keeps_promise y"
    proof (cases rule: eligible_cases)
      case (refused b c e)
      then show ?thesis using refused_facts(3,4) [OF refused] by simp
    next
      case (thrown r f)
      then show ?thesis using thrown_facts(1,2) [OF thrown(3)] env(2) [OF thrown(2)] by (meson rtranclp_trans)
    next
      case (ran r d2 x rs rc)
      then show ?thesis using finished_facts(1,2) [OF ran(3)] recovery_run_quiet [OF ran(2) env(1)] by (meson rtranclp_trans)
    qed
    then show ?thesis using eligible(4) by (meson rtranclp_trans)
  qed
  then show ?thesis using quiet_steps_unprepared assms(2) by blast
qed

theorem admin_recovery_sends_nothing_witness:
  "\<exists>d' y. executeAdminOperationRecovery sample_admin_env sample_spend_key ''admin'' (admin_book paid_row []) = (d', y) \<and> aa_code y = 200
    \<and> t_leases d' = [] \<and> t_approvals d' = [] \<and> keeps_promise y"
proof -
  obtain d' y where run: "executeAdminOperationRecovery sample_admin_env sample_spend_key ''admin'' (admin_book paid_row []) = (d', y)"
    "aa_code y = 200" using sample_admin_run by blast
  have "unprepared (admin_book paid_row []) d' \<and> accounts_ok d' \<and> keeps_promise y"
    by (rule admin_recovery_sends_nothing [OF run(1) admin_book_ok(1) [OF paid_row(2,10)] sample_admin_quiet(1)])
  then show ?thesis using run by (simp add: unprepared_def admin_book_def empty_db_def)
qed

subsection \<open>A completed recovery of a spend\<close>

lemma spend_recovery_completes:
  assumes "recoverSpendOperation env k d = (d', x)" and "sx_success x" and "find_operation d k = Some m" and "wallets_ok d"
  shows "\<exists>h n. sx_txHash x = Some h \<and> h \<noteq> [] \<and> Option.bind (op_tx_hash m) (\<lambda>t. canonicalTransactionHash (JStr t)) = Some h
    \<and> (op_amount m < 10 ^ 13 \<longrightarrow> sx_amount x = units_number (op_amount m)) \<and> find_operation d' k = Some n \<and> op_status n = PROJECTED"
proof -
  obtain a h asset where r: "recoverable_spend env m = Inr (a, h)" "recovery_evidence env m a h d = Inr asset"
      "finish_recovery env m a h d = (d', x)"
    using assms(1-3) recoverable_spend_Inl recovery_evidence_Inl
    by (auto simp: recoverSpendOperation_def Let_def refused_spend_def split: if_splits sum.splits)
  note f = recoverable_spend_Inr [OF r(1)]
  have a: "amount_value a = units_number (op_amount m)" using f by (auto simp: canonicalTokenAmount_text)
  have h: "h \<noteq> []" "op_tx_hash m \<noteq> None"
    using f by (cases "op_tx_hash m"; auto simp: canonicalTransactionHash_def is_tx_hash_def Let_def split: if_splits)+
  have "canonicalTransactionHash (JStr []) = None" by code_simp
  then have given_hash: "nonempty (op_tx_hash m) \<noteq> None" using f by (cases "op_tx_hash m") (auto simp: nonempty_def)
  show ?thesis
  proof (cases "op_status m = PROJECTED")
    case True
    then have "d' = d" "sx_txHash x = Some h" "sx_amount x = amount_value a"
      using r(3) by (auto simp: finish_recovery_def completed_spend_def)
    then show ?thesis using True assms(3) f h a by simp
  next
    case False
    have k: "op_key m = k" using row_at_Some [of op_key k "t_operations d" m] assms(3) by (simp add: find_operation_def)
    have "op_status m \<in> {SUBMITTING, SUBMITTED, UNKNOWN_STATUS, CONFIRMED}" using False f by (cases "op_status m") simp_all
    then obtain c where c: "fst (markConfirmed (spend_clock env) k None d) = Some c"
      "find_operation (snd (markConfirmed (spend_clock env) k None d)) k = Some c" "op_status c = CONFIRMED" "op_tx_hash c = op_tx_hash m"
      "same_intent m c"
      using confirmed_row [OF assms(3) h(2), of "spend_clock env" None] by blast
    define d0 where "d0 = snd (markConfirmed (spend_clock env) k None d)"
    define p where "p = (spend_projection_of c)\<lparr>sj_status := CONFIRMED, sj_tx_hash := Some h\<rparr>"
    have p: "sj_status p = CONFIRMED" "nonempty (sj_tx_hash p) = Some h" "sj_key p = k" "sj_amount p = numeric2_text (op_amount m)"
      using c(5) k h(1) by (simp_all add: p_def spend_projection_of_def same_intent_def nonempty_def)
    have "projectSpendOperation env p (recovery_request m) None d0 = (d', x)"
      using r(3) False c(1) assms(2) by (auto simp: finish_recovery_def k d0_def p_def pendingSpendResult_def split: if_splits prod.splits)
    then obtain oc where "record_spend env p (replay_request p (recovery_request m)) h oc d0 = (d', x)"
      using p by (auto simp: projectSpendOperation_def Let_def)
    then obtain s d1 oc' where s: "recordSpend (spend_clock env) (ae_user_ident (se_base env)) (se_spend_ident env)
        (spend_record_of (replay_request p (recovery_request m)) h) d0 = Inr (s, d1)" "d' = snd (markProjected (spend_clock env) k d1)"
      "x = completed_spend (sq_amount (replay_request p (recovery_request m))) (sq_user (replay_request p (recovery_request m))) k (Some h) False oc'"
      using assms(2) p(3) by (cases rule: record_spend_cases) auto
    have "outside_ledger d0 = outside_ledger d" unfolding d0_def using ledger_step_outside [OF step_confirmed] .
    then have "wallets_ok d0" using assms(4) frames_keep(2) by (auto simp: outside_defs)
    then have "find_operation d1 k = Some c" using record_spend_keeps_operations [OF s(1)] c(2) by (simp add: find_operation_def d0_def)
    then obtain n where "find_operation d' k = Some n" "op_status n = PROJECTED"
      using projected_row [of d1 k c "spend_clock env"] c(3,4) given_hash s(2) by auto
    moreover have "sx_amount x = text_number (numeric2_text (op_amount m))" "sx_txHash x = Some h"
      using s(3) p(4) by (simp_all add: completed_spend_def replay_request_def)
    ultimately show ?thesis using column_number f h(1) by simp
  qed
qed

lemma honest_receipts_signer: "honest_receipts env \<Longrightarrow> receipt_intent_of env q = Inr i \<Longrightarrow> honest_signer env i"
  using receipt_intent_facts(6) by (fastforce simp: honest_receipts_def honest_signer_def trusted_text_def)

lemma ledger_hash_public:
  assumes "canonicalTransactionHash v = Some h"
  shows "canonicalTxHash (JStr h) = Some h"
proof -
  have "hash_ok h" using assms
    by (auto simp: canonicalTransactionHash_def hash_ok_def is_tx_hash_lower Let_def split: jsv.splits if_splits)
  then show ?thesis by (simp add: canonicalTxHash_def hash_ok_def)
qed

lemma projected_stays:
  assumes "recording_step\<^sup>*\<^sup>* d d'" and "accounts_ok d" and "find_operation d k = Some n" and "op_status n = PROJECTED"
    and "op_tx_hash n \<noteq> None"
  shows "\<exists>n'. find_operation d' k = Some n' \<and> op_status n' = PROJECTED"
  using recorded_operations.steps_le [OF assms(1-3)] assms(4,5) by (auto simp: op_le_def)

lemma completed_hold_success:
  "completed_hold env m r h x d = (d', z) \<Longrightarrow> rz_success z \<Longrightarrow> z = x"
  by (auto simp: completed_hold_def uncompleted_def split: option.splits if_splits sum.splits)

text \<open>A successful run for a spend: the recovery of the executor, then the receipt.\<close>

lemma spend_run_success:
  assumes "recovery_run env m r d = (d', z, rs, rc)" and "op_type m = SPEND" and "rz_success z"
    and "find_operation d (op_key m) = Some m" and "wallets_ok d"
  obtains x h n d1 d2 s where "recoverSpendOperation (ra_spend env) (op_key m) d = (d1, x)" "sx_success x" "sx_txHash x = Some h"
    "Option.bind (op_tx_hash m) (\<lambda>t. canonicalTransactionHash (JStr t)) = Some h"
    "op_amount m < 10 ^ 13 \<longrightarrow> sx_amount x = units_number (op_amount m)" "find_operation d1 (op_key m) = Some n" "op_status n = PROJECTED"
    "quiet_step\<^sup>*\<^sup>* d1 d2" "rc = Some s" "createAndStoreSpendReceipt (ra_receipt env) \<lparr>rs_uid = op_uid m, rs_wallet = op_wallet m,
      rs_amount = sx_amount x, rs_session = nonempty (op_session_id m), rs_provider = nonempty (op_provider_id m), rs_txHash = h\<rparr> d2
      = (d', Inr s)"
proof -
  obtain d1 x where run: "recoverSpendOperation (ra_spend env) (op_key m) d = (d1, x)"
    "finish_spend env m r (spend_recovery env x) d1 = (d', z, rs, rc)"
    using assms(1,2) by (auto simp: recovery_run_def split: prod.splits)
  have ok: "sx_success x"
  proof (rule ccontr)
    assume "\<not> sx_success x"
    then have "z = spend_recovery env x" using run(2) by (simp add: finish_spend_def spend_recovery_def)
    then show False using assms(3) \<open>\<not> sx_success x\<close> by (simp add: spend_recovery_def)
  qed
  obtain h n where h: "sx_txHash x = Some h" "h \<noteq> []" "Option.bind (op_tx_hash m) (\<lambda>t. canonicalTransactionHash (JStr t)) = Some h"
    "op_amount m < 10 ^ 13 \<longrightarrow> sx_amount x = units_number (op_amount m)" "find_operation d1 (op_key m) = Some n" "op_status n = PROJECTED"
    using spend_recovery_completes [OF run(1) ok assms(4,5)] by blast
  obtain d2 w where c: "completed_hold env m r h (spend_recovery env x) d1 = (d2, w)" by (metis surj_pair)
  have f: "recovered_receipt env m h w d2 = (d', z, rs, rc)"
    using run(2) c ok h(1,2) by (simp add: finish_spend_def spend_recovery_def nonempty_def)
  have "rz_success w" using f assms(3) by (auto simp: recovered_receipt_def Let_def split: if_splits prod.splits sum.splits)
  then have w: "w = spend_recovery env x" using completed_hold_success [OF c] by blast
  obtain s where "rc = Some s" "createAndStoreSpendReceipt (ra_receipt env) \<lparr>rs_uid = op_uid m, rs_wallet = op_wallet m,
      rs_amount = sx_amount x, rs_session = nonempty (op_session_id m), rs_provider = nonempty (op_provider_id m), rs_txHash = h\<rparr> d2
      = (d', Inr s)"
    using f assms(3) ok by (auto simp: recovered_receipt_def w spend_recovery_def Let_def split: prod.splits sum.splits)
  then show thesis using that run(1) ok h hold_completion_quiet [OF c] by blast
qed

lemma completed_ran:
  assumes "executeAdminOperationRecovery env k actor d = (d', y)" and "aa_code y = 200"
  obtains m d0 r d2 z rs rc where "find_operation d k = Some m" "only_audited d d0" "quiet_step\<^sup>*\<^sup>* d d0"
    "recovery_run env m r d0 = (d2, z, rs, rc)" "finished_recovery env k actor m z rs rc d2 = (d', y)"
  using assms(1)
proof (cases rule: admin_recovery_cases)
  case unread
  then show thesis using assms(2) by simp
next
  case (eligible m d1)
  from eligible(5) show thesis
  proof (cases rule: eligible_cases)
    case (refused b c e)
    then show thesis using assms(2) refused_facts(2) by blast
  next
    case (thrown r f)
    then show thesis using assms(2) thrown_facts(3) by blast
  qed (rule that [OF eligible(1,3,4)])
qed

text \<open>
  C21: a completed recovery of a spend is complete: when the administrator is told that a spend was recovered, the
  chain proved in this run the transfer of exactly the saved amount from the saved wallet under the saved hash,
  the operation is projected, the answer carries a receipt of which exactly one row is stored, for the saved owner and
  amount, and the last record of the audit log says that the recovery succeeded.
\<close>

theorem completed_spend_recovery_is_receipted:
  assumes "executeAdminOperationRecovery env k actor d = (d', y)" and "aa_code y = 200"
    and "accounts_ok d" and "quiet_receipts (ra_receipt env)" and "steady_checksum (ra_receipt env)" and "honest_receipts (ra_receipt env)"
    and "find_operation d k = Some m" and "op_type m = SPEND" and "op_amount m < 10 ^ 13"
  shows "\<exists>n asset pf h s r. find_operation d' k = Some n \<and> op_status n = PROJECTED
    \<and> Option.bind (op_tx_hash m) (\<lambda>t. canonicalTransactionHash (JStr t)) = Some h
    \<and> spend_evidence (ra_spend env) asset (op_wallet m) (op_amount m) h = Some (Inr pf)
    \<and> aa_receipt y = Some s \<and> filter (\<lambda>x. same_text (rc_token_tx_hash x) h) (t_receipts d') = [r]
    \<and> rc_payload r = sd_text s \<and> rc_signature r = sd_signature s \<and> rc_uid r = op_uid m \<and> rc_amount r = op_amount m
    \<and> au_event_type (last (t_audits d')) = ''admin.recovery_succeeded''"
proof -
  note others = quiet_receipts_others [OF assms(4)]
  obtain d0 r0 d2 z rs rc where d0: "only_audited d d0" "quiet_step\<^sup>*\<^sup>* d d0" and
    run: "recovery_run env m r0 d0 = (d2, z, rs, rc)" "finished_recovery env k actor m z rs rc d2 = (d', y)"
    using completed_ran [OF assms(1,2)] assms(7) by (metis option.inject)
  note finish = finished_facts(3) [OF run(2) assms(2)]
  have found: "find_operation d0 k = Some m" using d0(1) assms(7) by (auto simp: only_audited_def find_operation_def)
  have k: "op_key m = k" using row_at_Some [of op_key k "t_operations d" m] assms(7) by (simp add: find_operation_def)
  have ok0: "accounts_ok d0" using quiet_steps_unprepared [OF d0(2) assms(3)] by blast
  then have "wallets_ok d0" by (simp add: accounts_ok_def service_ok_def)
  obtain x h n d1 d3 s where s: "recoverSpendOperation (ra_spend env) (op_key m) d0 = (d1, x)" "sx_success x" "sx_txHash x = Some h"
    "Option.bind (op_tx_hash m) (\<lambda>t. canonicalTransactionHash (JStr t)) = Some h"
    "op_amount m < 10 ^ 13 \<longrightarrow> sx_amount x = units_number (op_amount m)" "find_operation d1 (op_key m) = Some n" "op_status n = PROJECTED"
    "quiet_step\<^sup>*\<^sup>* d1 d3" "rc = Some s" "createAndStoreSpendReceipt (ra_receipt env) \<lparr>rs_uid = op_uid m, rs_wallet = op_wallet m,
      rs_amount = sx_amount x, rs_session = nonempty (op_session_id m), rs_provider = nonempty (op_provider_id m), rs_txHash = h\<rparr> d3
      = (d2, Inr s)"
    by (rule spend_run_success [OF run(1) assms(8) _ _ \<open>wallets_ok d0\<close>]) (use finish found k in auto)
  obtain asset pf where proved: "spend_evidence (ra_spend env) asset (op_wallet m) (op_amount m) h = Some (Inr pf)"
    using spend_recovery_needs_evidence [OF s(1,2)] s(4) found k by auto
  have step1: "recording_step\<^sup>*\<^sup>* d0 d1" using quiet_steps_recording [OF spend_recovery_quiet [OF s(1)]] .
  have ok1: "accounts_ok d1" by (rule award_store.steps_invar [OF step1 ok0])
  have ok3: "accounts_ok d3" using quiet_steps_unprepared [OF s(8) ok1] by blast
  have hash: "op_tx_hash n \<noteq> None"
    using recorded_operations.steps_le [OF step1 ok0 found] s(4,6) k by (cases "op_tx_hash m") (auto simp: op_le_def)
  have "quiet_step\<^sup>*\<^sup>* d1 d'"
    using s(8) receipt_run_quiet [OF s(10) assms(4)] finished_facts(1) [OF run(2)] by (meson rtranclp_trans)
  then obtain n' where projected: "find_operation d' k = Some n'" "op_status n' = PROJECTED"
    using projected_stays [OF quiet_steps_recording ok1 _ s(7) hash] s(6) k by auto
  obtain i where i: "receipt_intent_of (ra_receipt env) \<lparr>rs_uid = op_uid m, rs_wallet = op_wallet m,
      rs_amount = sx_amount x, rs_session = nonempty (op_session_id m), rs_provider = nonempty (op_provider_id m), rs_txHash = h\<rparr> = Inr i"
    using s(10) by (auto simp: createAndStoreSpendReceipt_def split: sum.splits)
  note f = receipt_intent_facts [OF i]
  obtain t where "canonicalTransactionHash (JStr t) = Some h" using s(4) by (cases "op_tx_hash m") auto
  then have "rk_hash i = h" using f(7) ledger_hash_public by simp
  moreover have "units (the (canonicalTokenAmount (JNum (sx_amount x)))) = op_amount m" using s(5) assms(9) cents_number [OF assms(9)] by simp
  then have "units (rk_amount i) = op_amount m" using f(2) by simp
  ultimately have rk: "rk_hash i = h" "units (rk_amount i) = op_amount m" .
  obtain r where r: "backed (ra_receipt env) i s r" "filter (\<lambda>x. same_text (rc_token_tx_hash x) (rk_hash i)) (t_receipts d2) = [r]"
    using receipt_run_backed(1) [OF ok3 others assms(5) i honest_receipts_signer [OF assms(6) i] s(10)] by blast
  have "t_receipts d' = t_receipts d2" "au_event_type (last (t_audits d')) = ''admin.recovery_succeeded''"
    using finish by (auto simp: createAudit_def recovery_audit_def Let_def)
  moreover have "rc_payload r = sd_text s" "rc_signature r = sd_signature s" "rc_uid r = op_uid m" "rc_amount r = op_amount m"
    using r(1) rk(2) f(4) by (auto simp: backed_def fits_def)
  ultimately show ?thesis using projected proved s(4,9) r(2) rk(1) finish by auto
qed

theorem completed_spend_recovery_is_receipted_witness:
  "\<exists>d' y s r. executeAdminOperationRecovery sample_admin_env sample_spend_key ''admin'' (admin_book paid_row []) = (d', y)
    \<and> aa_receipt y = Some s \<and> t_receipts d' = [r] \<and> rc_amount r = 300"
proof -
  obtain d' y q where run: "executeAdminOperationRecovery sample_admin_env sample_spend_key ''admin'' (admin_book paid_row []) = (d', y)"
    "aa_code y = 200" "t_receipts d' = [q]" using sample_admin_run by blast
  have "find_operation (admin_book paid_row []) sample_spend_key = Some paid_row" by (simp add: find_operation_def admin_book_def paid_row)
  note c = completed_spend_recovery_is_receipted [OF run(1,2) admin_book_ok(1) [OF paid_row(2,10)] sample_admin_quiet(2-4) this paid_row(2)]
  obtain h s r where r: "aa_receipt y = Some s" "filter (\<lambda>x. same_text (rc_token_tx_hash x) h) (t_receipts d') = [r]" "rc_amount r = 300"
    using c by (auto simp: paid_row(4))
  have "r = q" using r(2) run(3) by (auto split: if_splits)
  then show ?thesis using run r by blast
qed

subsection \<open>Settling reservations\<close>

text \<open>
  C30: the recovery of a spend whose reservation is still settling is always refused, and changes nothing but the
  audit log: the reservation gets its transaction hash only when it is completed, but the recovery demands the
  hash of the operation on it.
\<close>

theorem settling_hold_recovery_is_refused:
  assumes "executeAdminOperationRecovery env k actor d = (d', y)" and "accounts_ok d" and "find_operation d k = Some m"
    and "op_type m = SPEND" and "nonempty (op_reservation m) = Some i" and "findByIdForUid d i (op_uid m) = Some r" and "rv_status r = SETTLING"
  shows "aa_code y \<noteq> 200 \<and> only_audited d d'"
  using assms(1)
proof (cases rule: admin_recovery_cases)
  case unread
  then show ?thesis by simp
next
  case (eligible m' d1)
  then have m: "m' = m" using assms(3) by simp
  obtain t where t: "op_tx_hash m = Some t"
    using eligible(2) assms(4) unfolding m
    by (cases "op_tx_hash m") (auto simp: getAdminOperationRecoveryStatus_def projected_recovery_def refuse_recovery_def
      hasCanonicalTransactionHash_def Let_def split: if_splits)
  have "m \<in> set (t_operations d)" using assms(3) by (auto simp: find_operation_def row_at_def dest!: first_where_Some)
  then have "hash_ok t" using assms(2) t by (auto simp: accounts_ok_def service_ok_def ledger_ok_def ops_ok_def)
  then have public: "canonicalTxHash (JStr t) = Some t" by (rule canonical_hash_id(2))
  have "r \<in> set (t_reservations d)" using assms(6) by (auto simp: findByIdForUid_def dest!: first_where_Some)
  then have "sound_reservation r" using assms(2) by (simp add: accounts_ok_def service_ok_def reservations_ok_def)
  then have none: "rv_tx_hash r = None" using assms(7) by (auto simp: sound_reservation_def final_reservation_def)
  have "findByIdForUid d1 i (op_uid m) = Some r" using eligible(3) assms(6) by (auto simp: only_audited_def findByIdForUid_def)
  moreover have "op_reservation m = Some i" using assms(5) by (cases "op_reservation m") (auto simp: nonempty_def split: if_splits)
  ultimately have not_checked: "\<not> hold_checked m r' d1" for r'
    using assms(4,5) t public none by (auto simp: hold_checked_def hold_recoverable_def hold_context_matches_def)
  obtain b c e where "recovery_refused env k actor m (blocked_result m b c e) d1 = (d', y)"
    by (rule eligible_cases [OF eligible(5) [unfolded m]]) (use not_checked in blast)+
  then have "only_audited d1 d'" "aa_code y \<noteq> 200" by (rule refused_facts)+
  then show ?thesis using only_audited_trans [OF eligible(3)] by simp
qed

theorem settling_hold_recovery_is_refused_witness:
  "aa_code (snd (executeAdminOperationRecovery sample_admin_env sample_spend_key ''admin'' (admin_book sent_spend_row [waiting_hold]))) \<noteq> 200"
proof -
  obtain d' y where run: "executeAdminOperationRecovery sample_admin_env sample_spend_key ''admin'' (admin_book sent_spend_row [waiting_hold])
      = (d', y)" by (metis surj_pair)
  have found: "find_operation (admin_book sent_spend_row [waiting_hold]) sample_spend_key = Some sent_spend_row"
    "findByIdForUid (admin_book sent_spend_row [waiting_hold]) ''r1'' (op_uid sent_spend_row) = Some waiting_hold"
    by (simp_all add: find_operation_def findByIdForUid_def admin_book_def sent_spend_row waiting_hold_def)
  have "nonempty (op_reservation sent_spend_row) = Some ''r1''" "rv_status waiting_hold = SETTLING"
    by (simp_all add: sent_spend_row nonempty_def waiting_hold_def)
  then have "aa_code y \<noteq> 200 \<and> only_audited (admin_book sent_spend_row [waiting_hold]) d'"
    using settling_hold_recovery_is_refused [OF run admin_book_ok(2) [OF sent_spend_row(2,10)] found(1) sent_spend_row(2) _ found(2)] by blast
  then show ?thesis using run by simp
qed

end
