(* ===== verification/Evidence.thy ===== *)
theory Evidence
  imports AdminOperations Receipt
begin

text \<open>
  The evidence report of the operators, \<open>src/adminEvidence.ts\<close>: the rows of operations, awards and spends in a
  period, the removal of mirrored rows of one transaction, the totals by asset. SHA-256 and the parser of
  dates that are no ISO texts are arguments. Row ids are UUIDs, whose order as texts is the one of
  \<open>localeCompare\<close>.
\<close>

subsection \<open>Values\<close>

type_synonym evidence_error = "nat \<times> string"

definition evidence_refused :: "string \<Rightarrow> evidence_error" where
  "evidence_refused c = (400, c)"

definition evidence_text :: "jsv \<Rightarrow> string \<Rightarrow> evidence_error + string option" where
  "evidence_text q k = (case queryValue q k of JUndef \<Rightarrow> Inr None | JStr s \<Rightarrow> Inr (Some s) | _ \<Rightarrow> Inl (evidence_refused ''INVALID_EVIDENCE_QUERY''))"

definition evidence_integer :: "string option \<Rightarrow> nat \<Rightarrow> nat \<Rightarrow> nat \<Rightarrow> evidence_error + nat" where
  "evidence_integer v fallback low high =
     (case v of
        None \<Rightarrow> Inr fallback
      | Some s \<Rightarrow>
          if s = [] \<or> \<not> list_all is_digit s then Inl (evidence_refused ''INVALID_EVIDENCE_QUERY'')
          else (case text_number s of
              Fin x \<Rightarrow> if is_safe_integer (Fin x) \<and> of_nat low \<le> x \<and> x \<le> of_nat high then Inr (nat \<lfloor>x\<rfloor>)
                else Inl (evidence_refused ''INVALID_EVIDENCE_QUERY'')
            | _ \<Rightarrow> Inl (evidence_refused ''INVALID_EVIDENCE_QUERY'')))"

text \<open>\<open>Date\<close> of a text: an ISO text, or what the legacy parser of the engine makes of it.\<close>

definition date_of :: "(string \<Rightarrow> int option) \<Rightarrow> string \<Rightarrow> int option" where
  "date_of legacy t =
     (case read_iso t of
        Some f \<Rightarrow> if valid_fields f then Some (time_of_fields f) else None
      | None \<Rightarrow> legacy t)"

definition parseIsoDate :: "(string \<Rightarrow> int option) \<Rightarrow> string option \<Rightarrow> int \<Rightarrow> evidence_error + int" where
  "parseIsoDate legacy v fallback =
     (case v of
        None \<Rightarrow> Inr fallback
      | Some s \<Rightarrow>
          rbind (guard (s \<noteq> [] \<and> last s = CHR ''Z'') (evidence_refused ''INVALID_EVIDENCE_PERIOD'')) (\<lambda>_.
          of_option (evidence_refused ''INVALID_EVIDENCE_PERIOD'') (date_of legacy s)))"

definition ADMIN_EVIDENCE_MAX_LIMIT :: nat where "ADMIN_EVIDENCE_MAX_LIMIT = 500"
definition ADMIN_EVIDENCE_MAX_OFFSET :: nat where "ADMIN_EVIDENCE_MAX_OFFSET = 100000"
definition ADMIN_EVIDENCE_MAX_SOURCE_ROWS :: nat where "ADMIN_EVIDENCE_MAX_SOURCE_ROWS = 5000"

definition day_ms :: int where
  "day_ms = 24 * 60 * 60 * 1000"

datatype evidence_format = FORMAT_JSON | FORMAT_CSV

text \<open>The times of the period are kept as numbers; the code keeps their ISO texts and reads them back.\<close>

record evidence_query =
  yq_from :: int
  yq_to :: int
  yq_limit :: nat
  yq_offset :: nat
  yq_scope :: operation_scope
  yq_emaid :: "string option"
  yq_type :: "operation_type option"
  yq_status :: "string option"
  yq_format :: evidence_format

definition evidence_scope :: "string option \<Rightarrow> evidence_error + operation_scope" where
  "evidence_scope v =
     (case map_option js_trim v of
        None \<Rightarrow> Inr SCOPE_ALL
      | Some s \<Rightarrow> if s = ''all'' then Inr SCOPE_ALL else if s = ''unresolved'' then Inr SCOPE_UNRESOLVED
          else Inl (evidence_refused ''INVALID_EVIDENCE_QUERY''))"

definition evidence_format_of :: "string option \<Rightarrow> evidence_error + evidence_format" where
  "evidence_format_of v =
     (case map_option js_trim v of
        None \<Rightarrow> Inr FORMAT_JSON
      | Some s \<Rightarrow> if s = ''json'' then Inr FORMAT_JSON else if s = ''csv'' then Inr FORMAT_CSV
          else Inl (evidence_refused ''INVALID_EVIDENCE_QUERY''))"

definition evidence_type_of :: "string option \<Rightarrow> evidence_error + operation_type option" where
  "evidence_type_of v =
     (case map_option js_trim v of
        None \<Rightarrow> Inr None
      | Some s \<Rightarrow> if s = ''award'' then Inr (Some AWARD) else if s = ''spend'' then Inr (Some SPEND)
          else Inl (evidence_refused ''INVALID_EVIDENCE_QUERY''))"

definition parseAdminEvidenceQuery :: "(string \<Rightarrow> int option) \<Rightarrow> int \<Rightarrow> jsv \<Rightarrow> evidence_error + evidence_query" where
  "parseAdminEvidenceQuery legacy now q =
     (let bad = evidence_refused ''INVALID_EVIDENCE_QUERY''; period = evidence_refused ''INVALID_EVIDENCE_PERIOD'' in
      rbind (evidence_text q ''to'') (\<lambda>t. rbind (parseIsoDate legacy t now) (\<lambda>requestedTo.
      rbind (evidence_text q ''from'') (\<lambda>f. rbind (parseIsoDate legacy f (requestedTo - 30 * day_ms)) (\<lambda>requestedFrom.
      rbind (guard (requestedFrom \<le> requestedTo) period) (\<lambda>_.
      rbind (guard (requestedTo - requestedFrom \<le> 366 * day_ms) period) (\<lambda>_.
      rbind (evidence_text q ''scope'') (\<lambda>s. rbind (evidence_scope s) (\<lambda>scope.
      rbind (evidence_text q ''format'') (\<lambda>g. rbind (evidence_format_of g) (\<lambda>format.
      rbind (evidence_text q ''emaid'') (\<lambda>e.
      rbind (guard (list_all (\<lambda>x. x \<noteq> [] \<and> length x \<le> 255) (case map_option js_trim e of None \<Rightarrow> [] | Some x \<Rightarrow> [x])) bad) (\<lambda>_.
      rbind (evidence_text q ''operationType'') (\<lambda>o1. rbind (evidence_type_of o1) (\<lambda>type.
      rbind (evidence_text q ''status'') (\<lambda>st.
      rbind (guard (list_all (safe_text 40) (case map_option js_trim st of None \<Rightarrow> [] | Some x \<Rightarrow> [x])) bad) (\<lambda>_.
      rbind (evidence_text q ''limit'') (\<lambda>l. rbind (evidence_integer l 100 1 ADMIN_EVIDENCE_MAX_LIMIT) (\<lambda>limit.
      rbind (evidence_text q ''offset'') (\<lambda>p. rbind (evidence_integer p 0 0 ADMIN_EVIDENCE_MAX_OFFSET) (\<lambda>offset.
      Inr \<lparr>yq_from = requestedFrom, yq_to = requestedTo, yq_limit = limit, yq_offset = offset, yq_scope = scope,
           yq_emaid = map_option js_trim e, yq_type = type, yq_status = map_option js_trim st, yq_format = format\<rparr>)))))))))))))))))))))"

text \<open>\<open>SAFE_TEXT_CONTROL_PATTERN\<close>\<close>

definition control_char :: "char \<Rightarrow> bool" where
  "control_char c \<longleftrightarrow> (let n = (of_char c :: nat) in n \<le> 8 \<or> n = 11 \<or> n = 12 \<or> 14 \<le> n \<and> n \<le> 31 \<or> n = 127)"

definition safeString :: "nat \<Rightarrow> string option \<Rightarrow> string option" where
  "safeString n v =
     (case nonempty (map_option js_trim v) of
        None \<Rightarrow> None | Some t \<Rightarrow> if length t \<le> n \<and> \<not> list_ex control_char t then Some t else None)"

definition safeStatus :: "nat \<Rightarrow> string option \<Rightarrow> string option" where
  "safeStatus n v = (case safeString n v of None \<Rightarrow> None | Some t \<Rightarrow> if safe_text 80 t then Some t else None)"

text \<open>\<open>/^-?\d+(?:\.\d+)?$/\<close>, as an integer of units of the scale; finer values are refused.\<close>

definition parseDecimal :: "nat \<Rightarrow> string \<Rightarrow> int option" where
  "parseDecimal scale t =
     (let text = js_trim t; negative = (text \<noteq> [] \<and> hd text = CHR ''-''); body = (if negative then tl text else text) in
      case decimal_split body of
        None \<Rightarrow> None
      | Some (w, f) \<Rightarrow>
          if scale < length f then None
          else (let u = int (digits_val (w @ f @ replicate (scale - length f) CHR ''0'')) in Some (if negative then - u else u)))"

definition formatDecimal :: "nat \<Rightarrow> int \<Rightarrow> string" where
  "formatDecimal scale v =
     (let n = nat \<bar>v\<bar>; f = nat_text (n mod 10 ^ scale) in
      (if v < 0 then ''-'' else []) @ nat_text (n div 10 ^ scale) @ ''.'' @ replicate (scale - length f) CHR ''0'' @ f)"

subsection \<open>Assets\<close>

record evidence_asset =
  ya_chain :: "string option"
  ya_token :: "string option"
  ya_known :: bool

definition chain_text :: "jsv \<Rightarrow> string option" where
  "chain_text v = (case v of JStr s \<Rightarrow> if s \<noteq> [] \<and> length s \<le> 80 \<and> list_all is_digit s then Some s else None | _ \<Rightarrow> None)"

definition token_text :: "jsv \<Rightarrow> string option" where
  "token_text v = (case v of JStr s \<Rightarrow> if length s = 42 \<and> take 2 s = ''0x'' \<and> list_all is_hex (drop 2 s) then Some (js_lower s) else None
     | _ \<Rightarrow> None)"

definition assetFromContext :: "js_object option \<Rightarrow> evidence_asset" where
  "assetFromContext ctx =
     (let asset = as_object (at_key ctx ''assetContext'') in
      case (chain_text (at_key asset ''chainId''), token_text (at_key asset ''tokenContractAddress'')) of
        (Some c, Some t) \<Rightarrow> \<lparr>ya_chain = Some c, ya_token = Some t, ya_known = True\<rparr>
      | _ \<Rightarrow> \<lparr>ya_chain = None, ya_token = None, ya_known = False\<rparr>)"

definition assetKey :: "evidence_asset \<Rightarrow> string" where
  "assetKey a = (case nonempty (ya_chain a) of None \<Rightarrow> ''unknown'' | Some c \<Rightarrow> c) @ ''|''
     @ (case nonempty (ya_token a) of None \<Rightarrow> ''unknown'' | Some c \<Rightarrow> c) @ ''|'' @ (if ya_known a then ''known'' else ''unknown'')"

definition unknown_key :: "string \<Rightarrow> bool" where
  "unknown_key k \<longleftrightarrow> take 8 k = ''unknown|''"

subsection \<open>Rows\<close>

datatype evidence_source = SOURCE_OPERATION | SOURCE_AWARD | SOURCE_SPEND
datatype activity_source = AT_CONFIRMED | AT_PROJECTION_OR_CREATED | AT_UNKNOWN
datatype movement_direction = ISSUED | RETURNED

record raw_row =
  er_source :: evidence_source
  er_id :: string
  er_key :: "string option"
  er_type :: operation_type
  er_uid :: "string option"
  er_wallet :: "string option"
  er_user :: "string option"
  er_amount :: string
  er_session :: "string option"
  er_provider :: "string option"
  er_reservation :: "string option"
  er_status :: "string option"
  er_outcome :: "movement_outcome option"
  er_hash :: "string option"
  er_intent :: "js_object option"
  er_created :: "int option"
  er_submitted :: "int option"
  er_confirmed :: "int option"
  er_projected :: "int option"
  er_activity :: "int option"
  er_activity_source :: activity_source

definition er_direction :: "raw_row \<Rightarrow> movement_direction" where
  "er_direction r = (case er_type r of AWARD \<Rightarrow> ISSUED | SPEND \<Rightarrow> RETURNED)"

definition er_rank :: "raw_row \<Rightarrow> nat" where
  "er_rank r = (if er_source r = SOURCE_OPERATION then 3 else 2)"

definition movementOutcomeFor :: "evidence_source \<Rightarrow> string option \<Rightarrow> movement_outcome option \<Rightarrow> movement_outcome" where
  "movementOutcomeFor src status outcome =
     (if src = SOURCE_OPERATION
      then (case outcome of
          Some x \<Rightarrow> x
        | None \<Rightarrow> if status \<in> {Some ''confirmed'', Some ''projected''} then OUT_CONFIRMED
            else if status = Some ''failed'' then OUT_NO_MOVEMENT else OUT_UNKNOWN)
      else if status \<in> {Some ''confirmed'', Some ''projected'', None} then OUT_CONFIRMED
      else if status = Some ''failed'' then OUT_NO_MOVEMENT
      else if status = Some ''unknown'' then OUT_UNKNOWN else OUT_REVIEW)"

definition first_time :: "int option list \<Rightarrow> int option" where
  "first_time ts = foldr (\<lambda>t r. case t of None \<Rightarrow> r | Some _ \<Rightarrow> t) ts None"

definition activityFor :: "int option \<Rightarrow> int option list \<Rightarrow> int option \<times> activity_source" where
  "activityFor confirmed others =
     (case confirmed of
        Some t \<Rightarrow> (Some t, AT_CONFIRMED)
      | None \<Rightarrow> (case first_time others of None \<Rightarrow> (None, AT_UNKNOWN) | Some t \<Rightarrow> (Some t, AT_PROJECTION_OR_CREATED)))"

text \<open>The part of the intent that the query projects; the text of a JSON value as \<open>->>\<close> gives it.\<close>

definition context_text :: "jsv \<Rightarrow> jsv" where
  "context_text v = (case v of JUndef \<Rightarrow> JNull | JNull \<Rightarrow> JNull | JStr s \<Rightarrow> JStr s | _ \<Rightarrow> JStr (Receipt.json_stringify v))"

definition safeIntentContextColumn :: "js_object option \<Rightarrow> js_object option" where
  "safeIntentContextColumn ctx =
     (case ctx of
        None \<Rightarrow> None
      | Some _ \<Rightarrow>
          (let asset = as_object (at_key ctx ''assetContext'');
               snapshot = context_text (at_key ctx ''configurationSnapshot'');
               fingerprint = context_text (at_key ctx ''configurationFingerprint'') in
           Some [(''assetContext'', JObj [(''chainId'', context_text (at_key asset ''chainId'')),
                    (''tokenContractAddress'', context_text (at_key asset ''tokenContractAddress''))]),
                 (''configurationSnapshot'', (case snapshot of JStr s \<Rightarrow> if length s \<le> 10000 then JStr s else JNull | _ \<Rightarrow> JNull)),
                 (''configurationFingerprint'', (case fingerprint of JStr s \<Rightarrow> JStr (js_lower s) | _ \<Rightarrow> JNull))]))"

fun row_status_text :: "operation_status \<Rightarrow> string" where
  "row_status_text SUBMITTING = ''submitting''"
| "row_status_text SUBMITTED = ''submitted''"
| "row_status_text CONFIRMED = ''confirmed''"
| "row_status_text PROJECTED = ''projected''"
| "row_status_text UNKNOWN_STATUS = ''unknown''"
| "row_status_text FAILED = ''failed''"

text \<open>\<open>mapRawRow\<close> on the rows of the three tables, with the columns that are read of each.\<close>

definition raw_operation :: "operation_row \<Rightarrow> raw_row option" where
  "raw_operation r =
     (case (safeString 128 (Some (op_id r)), activityFor (op_confirmed_at r) [op_projected_at r, Some (op_updated r), Some (op_created r)]) of
        (None, _) \<Rightarrow> None
      | (Some i, moment, src) \<Rightarrow>
          (let status = safeStatus 40 (Some (row_status_text (op_status r))) in
           Some \<lparr>er_source = SOURCE_OPERATION, er_id = i, er_key = safeString 240 (Some (op_key r)), er_type = op_type r,
             er_uid = safeString 255 (Some (op_uid r)), er_wallet = safeString 128 (Some (op_wallet r)), er_user = None,
             er_amount = numeric2_text (op_amount r), er_session = safeString 255 (op_session_id r),
             er_provider = safeString 255 (op_provider_id r), er_reservation = safeString 128 (op_reservation r),
             er_status = status, er_outcome = Some (movementOutcomeFor SOURCE_OPERATION status (op_outcome r)),
             er_hash = Option.bind (op_tx_hash r) (\<lambda>h. canonicalTransactionHash (JStr h)),
             er_intent = safeIntentContextColumn (op_intent r), er_created = Some (op_created r), er_submitted = op_submitted_at r,
             er_confirmed = op_confirmed_at r, er_projected = op_projected_at r, er_activity = moment, er_activity_source = src\<rparr>))"

definition raw_award :: "award_row \<Rightarrow> raw_row option" where
  "raw_award r =
     (case (safeString 128 (Some (aw_id r)), activityFor (Some (aw_confirmed_at r)) [Some (aw_awarded_at r), Some (aw_created r)]) of
        (None, _) \<Rightarrow> None
      | (Some i, moment, src) \<Rightarrow>
          (let status = safeStatus 40 (Some (aw_status r)) in
           Some \<lparr>er_source = SOURCE_AWARD, er_id = i, er_key = None, er_type = AWARD, er_uid = None, er_wallet = None,
             er_user = safeString 128 (Some (aw_user_id r)), er_amount = numeric2_text (aw_amount r),
             er_session = safeString 255 (Some (aw_session_id r)), er_provider = safeString 255 (Some (aw_provider_id r)),
             er_reservation = None, er_status = status, er_outcome = Some (movementOutcomeFor SOURCE_AWARD status None),
             er_hash = canonicalTransactionHash (JStr (aw_tx_hash r)), er_intent = None, er_created = Some (aw_created r),
             er_submitted = None, er_confirmed = Some (aw_confirmed_at r), er_projected = None, er_activity = moment,
             er_activity_source = src\<rparr>))"

definition raw_spend :: "spend_row \<Rightarrow> raw_row option" where
  "raw_spend r =
     (case (safeString 128 (Some (sp_id r)), activityFor (Some (sp_confirmed_at r)) [Some (sp_created r)]) of
        (None, _) \<Rightarrow> None
      | (Some i, moment, src) \<Rightarrow>
          (let status = safeStatus 40 (Some (sp_status r)) in
           Some \<lparr>er_source = SOURCE_SPEND, er_id = i, er_key = None, er_type = SPEND, er_uid = None,
             er_wallet = safeString 128 (Some (sp_wallet r)), er_user = safeString 128 (Some (sp_user_id r)),
             er_amount = numeric2_text (sp_amount r), er_session = safeString 255 (sp_session_id r), er_provider = None,
             er_reservation = None, er_status = status, er_outcome = Some (movementOutcomeFor SOURCE_SPEND status None),
             er_hash = canonicalTransactionHash (JStr (sp_tx_hash r)), er_intent = None, er_created = Some (sp_created r),
             er_submitted = None, er_confirmed = Some (sp_confirmed_at r), er_projected = None, er_activity = moment,
             er_activity_source = src\<rparr>))"

definition in_window :: "int \<Rightarrow> int \<Rightarrow> int option list \<Rightarrow> bool" where
  "in_window low high ts \<longleftrightarrow> list_ex (\<lambda>t. case t of None \<Rightarrow> False | Some x \<Rightarrow> low \<le> x \<and> x \<le> high) ts"

record source_read =
  xs_rows :: "raw_row list"
  xs_available :: bool
  xs_truncated :: bool

text \<open>The newest rows of a table up to the cap, and whether there are more.\<close>

definition capped :: "('r \<Rightarrow> int \<times> string) \<Rightarrow> ('r \<Rightarrow> raw_row option) \<Rightarrow> 'r list \<Rightarrow> source_read" where
  "capped key raw t =
     (let sorted = rev (sort_key key t) in
      \<lparr>xs_rows = List.map_filter raw (take ADMIN_EVIDENCE_MAX_SOURCE_ROWS sorted), xs_available = True,
       xs_truncated = (ADMIN_EVIDENCE_MAX_SOURCE_ROWS < length sorted)\<rparr>)"

definition readSourceRows :: "evidence_source \<Rightarrow> int \<Rightarrow> int \<Rightarrow> db \<Rightarrow> source_read" where
  "readSourceRows src low high d =
     (case src of
        SOURCE_OPERATION \<Rightarrow> capped (\<lambda>r. (op_updated r, op_id r)) raw_operation
          (filter (\<lambda>r. in_window low high [Some (op_created r), op_confirmed_at r, op_projected_at r, Some (op_updated r)]) (t_operations d))
      | SOURCE_AWARD \<Rightarrow> capped (\<lambda>r. (aw_awarded_at r, aw_id r)) raw_award
          (filter (\<lambda>r. in_window low high [Some (aw_created r), Some (aw_awarded_at r), Some (aw_confirmed_at r)]) (t_awards d))
      | SOURCE_SPEND \<Rightarrow> capped (\<lambda>r. (sp_created r, sp_id r)) raw_spend
          (filter (\<lambda>r. in_window low high [Some (sp_created r), Some (sp_confirmed_at r)]) (t_spends d)))"

definition loadSource :: "(evidence_source \<Rightarrow> bool) \<Rightarrow> evidence_source \<Rightarrow> int \<Rightarrow> int \<Rightarrow> db \<Rightarrow> source_read" where
  "loadSource answers src low high d =
     (if answers src then readSourceRows src low high d else \<lparr>xs_rows = [], xs_available = False, xs_truncated = False\<rparr>)"

text \<open>Awards and spends get the owner of their user; an operation has its own.\<close>

definition applyUserLookup :: "db \<Rightarrow> raw_row list \<Rightarrow> raw_row list" where
  "applyUserLookup d rows = map (\<lambda>r.
     case (er_source r = SOURCE_OPERATION, Option.bind (er_user r) (\<lambda>i. first_where (\<lambda>u. us_id u = i) (t_users d))) of
       (False, Some u) \<Rightarrow> r\<lparr>er_uid := safeString 255 (Some (us_uid u)),
          er_wallet := (case er_wallet r of Some w \<Rightarrow> Some w | None \<Rightarrow> safeString 128 (Some (us_wallet u)))\<rparr>
     | _ \<Rightarrow> r) rows"

definition isUnresolved :: "raw_row \<Rightarrow> bool" where
  "isUnresolved r \<longleftrightarrow> er_outcome r \<noteq> Some OUT_CONFIRMED \<or> er_source r = SOURCE_OPERATION \<and> er_status r \<noteq> Some ''projected''"

definition safeExceptionCategory :: "raw_row \<Rightarrow> string option" where
  "safeExceptionCategory r =
     (if er_outcome r = Some OUT_REVIEW then Some ''review_required''
      else if er_status r = Some ''unknown'' \<or> er_outcome r = Some OUT_UNKNOWN then Some ''chain_outcome_unknown''
      else if er_status r = Some ''failed''
      then Some (if er_outcome r = Some OUT_NO_MOVEMENT then ''no_movement'' else ''operation_failed'')
      else if er_source r = SOURCE_OPERATION \<and> er_status r = Some ''confirmed'' then Some ''projection_pending''
      else if er_status r = Some ''confirmed'' \<and> er_outcome r \<noteq> Some OUT_CONFIRMED then Some ''projection_pending'' else None)"

end
