(* ===== verification/EvidenceReport.thy ===== *)
theory EvidenceReport
  imports Evidence
begin

text \<open>
  The rest of the evidence report of \<open>src/adminEvidence.ts\<close>: mirrored rows of one transaction, the totals by
  asset, the rows that are shown, and the CSV export.
\<close>

subsection \<open>Rows of one transaction\<close>

definition knownOwnerMismatch :: "raw_row \<Rightarrow> raw_row \<Rightarrow> bool" where
  "knownOwnerMismatch a b \<longleftrightarrow>
     (nonempty (er_user a) \<noteq> None \<and> nonempty (er_user b) \<noteq> None \<and> er_user a \<noteq> er_user b)
     \<or> (nonempty (er_uid a) \<noteq> None \<and> nonempty (er_uid b) \<noteq> None \<and> er_uid a \<noteq> er_uid b)
     \<or> (nonempty (er_wallet a) \<noteq> None \<and> nonempty (er_wallet b) \<noteq> None
        \<and> map_option js_lower (er_wallet a) \<noteq> map_option js_lower (er_wallet b))"

definition sameMovement :: "raw_row \<Rightarrow> raw_row \<Rightarrow> bool" where
  "sameMovement a b \<longleftrightarrow> er_direction a = er_direction b \<and> parseDecimal 2 (er_amount a) \<noteq> None
     \<and> parseDecimal 2 (er_amount a) = parseDecimal 2 (er_amount b) \<and> \<not> knownOwnerMismatch a b"

datatype dedupe_warning =
    Several_Assets string | Several_Operations string | Conflicting_Evidence string | Unknown_Asset_Evidence string
  | Confirmed_Without_Hash | Unconfirmed_Rows | Asset_Unknown

text \<open>A JavaScript \<open>Map\<close> of lists: the groups in the order of their first row.\<close>

definition groups_by :: "('a \<Rightarrow> 'k) \<Rightarrow> 'a list \<Rightarrow> ('k \<times> 'a list) list" where
  "groups_by f xs = map (\<lambda>k. (k, filter (\<lambda>x. f x = k) xs)) (rev (remdups (rev (map f xs))))"

definition asset_group :: "raw_row \<Rightarrow> string" where
  "asset_group r = assetKey (assetFromContext (er_intent r))"

definition has_known_asset :: "raw_row \<Rightarrow> bool" where
  "has_known_asset r = ya_known (assetFromContext (er_intent r))"

text \<open>The first row by rank, then by id.\<close>

definition preferred :: "raw_row list \<Rightarrow> raw_row" where
  "preferred rows = hd (sort_key (\<lambda>r. (3 - er_rank r, er_id r)) rows)"

definition operations_in :: "raw_row list \<Rightarrow> nat" where
  "operations_in rows = length (filter (\<lambda>r. er_source r = SOURCE_OPERATION) rows)"

definition rows_conflict :: "raw_row list \<Rightarrow> bool" where
  "rows_conflict rows \<longleftrightarrow> 1 < length rows \<and> list_ex (\<lambda>r. \<not> sameMovement r (preferred rows)) rows"

text \<open>What the groups of one hash say about each other.\<close>

record hash_view =
  hv_several :: bool
  hv_known :: bool
  hv_mirror :: bool
  hv_unknown_conflict :: bool

definition hash_view_of :: "(string \<times> raw_row list) list \<Rightarrow> hash_view" where
  "hash_view_of groups =
     (let known = filter (\<lambda>g. \<not> unknown_key (fst g)) groups;
          known_rows = concat (map snd known);
          several = (1 < length known);
          semantic = list_ex (\<lambda>g. 1 < operations_in (snd g) \<or> rows_conflict (snd g)) known;
          unknown_rows = concat (map snd (filter (\<lambda>g. unknown_key (fst g)) groups));
          both = (unknown_rows \<noteq> [] \<and> known_rows \<noteq> []);
          mirror = (both \<and> list_all (\<lambda>r. list_ex (sameMovement r) known_rows) unknown_rows) in
      \<lparr>hv_several = several, hv_known = (known \<noteq> []), hv_mirror = mirror,
       hv_unknown_conflict = (both \<and> (\<not> mirror \<or> several \<or> semantic))\<rparr>)"

record deduped =
  dd_rows :: "raw_row list"
  dd_invalid :: nat
  dd_unconfirmed :: nat
  dd_unknown_asset :: nat
  dd_conflicts :: nat
  dd_warnings :: "dedupe_warning list"

definition for_review :: "raw_row \<Rightarrow> raw_row" where
  "for_review r = r\<lparr>er_outcome := Some OUT_REVIEW\<rparr>"

definition group_conflict :: "hash_view \<Rightarrow> raw_row list \<Rightarrow> bool" where
  "group_conflict v rows \<longleftrightarrow> hv_several v \<or> rows_conflict rows \<or> 1 < operations_in rows \<or> hv_unknown_conflict v"

definition confirmed_row_of :: "raw_row \<Rightarrow> bool" where
  "confirmed_row_of r \<longleftrightarrow> er_outcome r = Some OUT_CONFIRMED"

text \<open>The rows that one asset group keeps, with its share of the counters.\<close>

definition dedupe_group :: "string \<Rightarrow> hash_view \<Rightarrow> string \<times> raw_row list \<Rightarrow> deduped" where
  "dedupe_group h v g =
     (case g of (key, rows) \<Rightarrow>
        let conflict = group_conflict v rows; chosen = preferred rows;
            conflicts = (if conflict then [if 1 < operations_in rows then Several_Operations h else Conflicting_Evidence h] else []);
            base = \<lparr>dd_rows = [], dd_invalid = 0, dd_unconfirmed = 0, dd_unknown_asset = 0,
              dd_conflicts = (if conflict then 1 else 0), dd_warnings = conflicts\<rparr> in
        if unknown_key key \<and> hv_known v
        then (if hv_mirror v \<and> \<not> hv_unknown_conflict v \<and> \<not> conflict then base
              else base\<lparr>dd_rows := map (\<lambda>r. (for_review r)\<lparr>er_intent := None\<rparr>) rows,
                dd_warnings := conflicts @ [Unknown_Asset_Evidence h]\<rparr>)
        else base\<lparr>dd_rows := (if conflict then map for_review rows else [chosen]),
               dd_unknown_asset := (if confirmed_row_of chosen \<and> \<not> has_known_asset chosen then 1 else 0)\<rparr>)"

definition join_deduped :: "deduped list \<Rightarrow> deduped" where
  "join_deduped ds = \<lparr>dd_rows = concat (map dd_rows ds), dd_invalid = sum_list (map dd_invalid ds),
     dd_unconfirmed = sum_list (map dd_unconfirmed ds), dd_unknown_asset = sum_list (map dd_unknown_asset ds),
     dd_conflicts = sum_list (map dd_conflicts ds), dd_warnings = concat (map dd_warnings ds)\<rparr>"

definition dedupe_hash :: "string \<Rightarrow> raw_row list \<Rightarrow> deduped" where
  "dedupe_hash h rows =
     (let groups = groups_by asset_group rows; v = hash_view_of groups; all = join_deduped (map (dedupe_group h v) groups) in
      all\<lparr>dd_warnings := (if hv_several v then [Several_Assets h] else []) @ dd_warnings all\<rparr>)"

definition row_hash :: "raw_row \<Rightarrow> string option" where
  "row_hash r = nonempty (er_hash r)"

text \<open>Warnings are a set in the order of their first occurrence.\<close>

definition dedupeRows :: "raw_row list \<Rightarrow> deduped" where
  "dedupeRows rows =
     (let hashless = filter (\<lambda>r. row_hash r = None) rows;
          groups = groups_by (\<lambda>r. the (row_hash r)) (filter (\<lambda>r. row_hash r \<noteq> None) rows);
          all = join_deduped (map (\<lambda>g. dedupe_hash (fst g) (snd g)) groups);
          invalid = length (filter (\<lambda>r. parseDecimal 2 (er_amount r) \<noteq> None \<and> confirmed_row_of r) hashless);
          unconfirmed = length (filter (\<lambda>r. \<not> confirmed_row_of r) rows);
          unknown = length (filter (\<lambda>r. confirmed_row_of r \<and> \<not> has_known_asset r) hashless) + dd_unknown_asset all;
          warnings = dd_warnings all @ (if invalid = 0 then [] else [Confirmed_Without_Hash])
            @ (if unconfirmed = 0 then [] else [Unconfirmed_Rows]) @ (if unknown = 0 then [] else [Asset_Unknown]) in
      \<lparr>dd_rows = hashless @ dd_rows all, dd_invalid = invalid, dd_unconfirmed = unconfirmed, dd_unknown_asset = unknown,
       dd_conflicts = dd_conflicts all, dd_warnings = rev (remdups (rev warnings))\<rparr>)"

subsection \<open>Totals\<close>

record asset_totals =
  tt_asset :: evidence_asset
  tt_awarded :: string
  tt_spent :: string
  tt_net :: string

record source_totals =
  to_totals :: "(string \<times> asset_totals) list"
  to_issued :: nat
  to_returned :: nat
  to_confirmed :: nat

definition decimal_or_zero :: "string \<Rightarrow> int" where
  "decimal_or_zero t = (case parseDecimal 2 t of None \<Rightarrow> 0 | Some x \<Rightarrow> x)"

definition add_amount :: "movement_direction \<Rightarrow> int \<Rightarrow> asset_totals \<Rightarrow> asset_totals" where
  "add_amount dir n t =
     (let awarded = (if dir = ISSUED then formatDecimal 2 (decimal_or_zero (tt_awarded t) + n) else tt_awarded t);
          spent = (if dir = ISSUED then tt_spent t else formatDecimal 2 (decimal_or_zero (tt_spent t) + n)) in
      t\<lparr>tt_awarded := awarded, tt_spent := spent, tt_net := formatDecimal 2 (decimal_or_zero awarded - decimal_or_zero spent)\<rparr>)"

text \<open>\<open>Map.set\<close>: an existing key keeps its place.\<close>

fun put_total :: "string \<Rightarrow> asset_totals \<Rightarrow> (string \<times> asset_totals) list \<Rightarrow> (string \<times> asset_totals) list" where
  "put_total k t [] = [(k, t)]"
| "put_total k t ((k', t') # m) = (if k' = k then (k, t) # m else (k', t') # put_total k t m)"

text \<open>The amount of a row that counts: confirmed in the period, with a hash and a valid amount.\<close>

definition counted_amount :: "int \<Rightarrow> int \<Rightarrow> raw_row \<Rightarrow> int option" where
  "counted_amount low high r =
     (if in_window low high [er_activity r] \<and> confirmed_row_of r \<and> row_hash r \<noteq> None
      then (case parseDecimal 2 (er_amount r) of None \<Rightarrow> None | Some n \<Rightarrow> if n < 0 then None else Some n) else None)"

definition count_row :: "int \<Rightarrow> int \<Rightarrow> source_totals \<Rightarrow> raw_row \<Rightarrow> source_totals" where
  "count_row low high s r =
     (case counted_amount low high r of
        None \<Rightarrow> s
      | Some n \<Rightarrow>
          (let asset = assetFromContext (er_intent r); k = assetKey asset;
               current = (case map_of (to_totals s) k of
                   Some t \<Rightarrow> t | None \<Rightarrow> \<lparr>tt_asset = asset, tt_awarded = ''0.00'', tt_spent = ''0.00'', tt_net = ''0.00''\<rparr>) in
           \<lparr>to_totals = put_total k (add_amount (er_direction r) n current) (to_totals s),
            to_issued = to_issued s + (if er_direction r = ISSUED then 1 else 0),
            to_returned = to_returned s + (if er_direction r = ISSUED then 0 else 1),
            to_confirmed = to_confirmed s + 1\<rparr>))"

definition sourceTotals :: "int \<Rightarrow> int \<Rightarrow> raw_row list \<Rightarrow> source_totals" where
  "sourceTotals low high rows = foldl (count_row low high) \<lparr>to_totals = [], to_issued = 0, to_returned = 0, to_confirmed = 0\<rparr> rows"

subsection \<open>Shown rows\<close>

text \<open>A masked text: what stands before and after the ellipsis.\<close>

definition maskValue :: "string option \<Rightarrow> (string \<times> string) option" where
  "maskValue v =
     (case nonempty v of
        None \<Rightarrow> None
      | Some t \<Rightarrow> Some (if length t \<le> 8 then [] else take 3 t, drop (length t - 4) t))"

definition opaqueReference :: "(string \<Rightarrow> string) \<Rightarrow> string option \<Rightarrow> string \<Rightarrow> string option" where
  "opaqueReference sha v namespace =
     map_option (\<lambda>t. namespace @ ''_'' @ take 24 (sha t)) (safeString 320 v)"

datatype policy_source = POLICY_NOT_APPLICABLE | POLICY_UNKNOWN | POLICY_SNAPSHOT

record historical_policy =
  hp_source :: policy_source
  hp_revision :: "js_number option"
  hp_version :: "string option"
  hp_fingerprint :: "string option"

definition no_policy :: "policy_source \<Rightarrow> historical_policy" where
  "no_policy s = \<lparr>hp_source = s, hp_revision = None, hp_version = None, hp_fingerprint = None\<rparr>"

definition version_text :: "string \<Rightarrow> bool" where
  "version_text t \<longleftrightarrow> t \<noteq> [] \<and> length t \<le> 120 \<and> list_all (\<lambda>c. is_digit c \<or> is_letter c \<or> c \<in> set ''._-'') t"

definition operationPolicy :: "(string \<Rightarrow> string) \<Rightarrow> js_object option \<Rightarrow> operation_type \<Rightarrow> historical_policy" where
  "operationPolicy sha ctx type =
     (if type = SPEND then no_policy POLICY_NOT_APPLICABLE
      else case (at_key ctx ''configurationSnapshot'', at_key ctx ''configurationFingerprint'') of
        (JStr t, JStr f) \<Rightarrow>
          if t = [] \<or> \<not> (length f = 64 \<and> list_all is_hex f) \<or> 10000 < length t \<or> sha t \<noteq> js_lower f then no_policy POLICY_UNKNOWN
          else (let snapshot = Option.bind (json_parse t) as_object;
                    revision = (case at_key snapshot ''policyRevision'' of
                        JNum n \<Rightarrow> if is_safe_integer n \<and> js_le (Fin 0) n then Some n else None | _ \<Rightarrow> None);
                    version = (case at_key snapshot ''version'' of JStr s \<Rightarrow> if version_text s then Some s else None | _ \<Rightarrow> None) in
                if revision = None \<and> version = None then no_policy POLICY_UNKNOWN
                else \<lparr>hp_source = POLICY_SNAPSHOT, hp_revision = revision, hp_version = version, hp_fingerprint = Some (js_lower f)\<rparr>)
      | _ \<Rightarrow> no_policy POLICY_UNKNOWN)"

record evidence_row =
  ew_source :: evidence_source
  ew_id :: string
  ew_key :: "string option"
  ew_type :: operation_type
  ew_emaid :: "(string \<times> string) option"
  ew_wallet :: "(string \<times> string) option"
  ew_amount :: string
  ew_status :: "string option"
  ew_outcome :: "movement_outcome option"
  ew_hash :: "string option"
  ew_asset :: evidence_asset
  ew_policy :: historical_policy
  ew_session :: "string option"
  ew_provider :: "string option"
  ew_reservation :: "string option"
  ew_times :: "string option list"
  ew_activity_source :: activity_source
  ew_exception :: "string option"
  ew_annotations :: nat

definition mapEvidenceRow :: "(string \<Rightarrow> string) \<Rightarrow> raw_row \<Rightarrow> nat \<Rightarrow> evidence_row" where
  "mapEvidenceRow sha r n =
     \<lparr>ew_source = er_source r, ew_id = er_id r, ew_key = opaqueReference sha (er_key r) ''op'', ew_type = er_type r,
      ew_emaid = maskValue (er_uid r), ew_wallet = maskValue (er_wallet r),
      ew_amount = (case parseDecimal 2 (er_amount r) of None \<Rightarrow> ''0.00'' | Some x \<Rightarrow> formatDecimal 2 x),
      ew_status = er_status r, ew_outcome = er_outcome r, ew_hash = er_hash r, ew_asset = assetFromContext (er_intent r),
      ew_policy = operationPolicy sha (er_intent r) (er_type r), ew_session = opaqueReference sha (er_session r) ''session'',
      ew_provider = opaqueReference sha (er_provider r) ''provider'',
      ew_reservation = opaqueReference sha (er_reservation r) ''reservation'',
      ew_times = map isoTimestamp [er_created r, er_submitted r, er_confirmed r, er_projected r, er_activity r],
      ew_activity_source = er_activity_source r, ew_exception = safeExceptionCategory r, ew_annotations = n\<rparr>"

subsection \<open>The report\<close>

definition sortRows :: "raw_row list \<Rightarrow> raw_row list" where
  "sortRows rows = sort_key (\<lambda>r. (- (case er_activity r of None \<Rightarrow> 0 | Some t \<Rightarrow> t), 3 - er_rank r, er_id r)) rows"

definition selected_row :: "evidence_query \<Rightarrow> raw_row \<Rightarrow> bool" where
  "selected_row q r \<longleftrightarrow> in_window (yq_from q) (yq_to q) [er_activity r] \<and> (yq_scope q = SCOPE_UNRESOLVED \<longrightarrow> isUnresolved r)
     \<and> (case nonempty (yq_emaid q) of None \<Rightarrow> True | Some u \<Rightarrow> er_uid r = Some u)
     \<and> (case yq_type q of None \<Rightarrow> True | Some t \<Rightarrow> er_type r = t)
     \<and> (case nonempty (yq_status q) of None \<Rightarrow> True | Some s \<Rightarrow> er_status r = Some s)"

definition evidence_sources :: "evidence_source list" where
  "evidence_sources = [SOURCE_OPERATION, SOURCE_AWARD, SOURCE_SPEND]"

record evidence_report =
  eo_totals :: source_totals
  eo_exceptions :: nat
  eo_source_counts :: "nat list"
  eo_lower_bound :: bool
  eo_deduped :: deduped
  eo_unavailable :: "evidence_source list"
  eo_capped :: "evidence_source list"
  eo_offset_beyond :: bool
  eo_rows :: "evidence_row list"
  eo_hasMore :: bool
  eo_nextOffset :: "nat option"

text \<open>
  The report without the parts that only copy a row of another table (current policy, latest reconciliation);
  the counts of annotations are an argument.
\<close>

definition getAdminEvidenceReport ::
    "(string \<Rightarrow> string) \<Rightarrow> (evidence_source \<Rightarrow> bool) \<Rightarrow> (evidence_source \<Rightarrow> string \<Rightarrow> nat) \<Rightarrow> evidence_query \<Rightarrow> db \<Rightarrow> evidence_report" where
  "getAdminEvidenceReport sha answers counts q d =
     (let reads = map (\<lambda>s. (s, loadSource answers s (yq_from q) (yq_to q) d)) evidence_sources;
          deduped = dedupeRows (applyUserLookup d (concat (map (\<lambda>x. xs_rows (snd x)) reads)));
          sorted = sortRows (filter (selected_row q) (dd_rows deduped));
          page = take (yq_limit q) (drop (yq_offset q) sorted);
          bound = list_ex (\<lambda>x. xs_truncated (snd x)) reads;
          more = yq_offset q + length page < length sorted in
      \<lparr>eo_totals = sourceTotals (yq_from q) (yq_to q) sorted,
       eo_exceptions = length (filter (\<lambda>r. safeExceptionCategory r \<noteq> None) sorted),
       eo_source_counts = map (\<lambda>x. length (xs_rows (snd x))) reads, eo_lower_bound = bound, eo_deduped = deduped,
       eo_unavailable = map fst (filter (\<lambda>x. \<not> xs_available (snd x)) reads),
       eo_capped = map fst (filter (\<lambda>x. xs_truncated (snd x)) reads),
       eo_offset_beyond = (length sorted < yq_offset q \<and> bound),
       eo_rows = map (\<lambda>r. mapEvidenceRow sha r (counts (er_source r) (er_id r))) page, eo_hasMore = more,
       eo_nextOffset = (if more \<and> 0 < length page \<and> yq_offset q + length page \<le> ADMIN_EVIDENCE_MAX_OFFSET
          then Some (yq_offset q + length page) else None)\<rparr>)"

subsection \<open>CSV\<close>

text \<open>\<open>/^[=+\-@]/\<close> on the text without leading blanks, and \<open>/[",\r\n]/\<close>.\<close>

definition formula_char :: "char \<Rightarrow> bool" where
  "formula_char c \<longleftrightarrow> c \<in> set ''=+-@''"

definition csv_special :: "char \<Rightarrow> bool" where
  "csv_special c \<longleftrightarrow> c = CHR 34 \<or> c = CHR '','' \<or> c = CHR 13 \<or> c = CHR 10"

definition csv_safe :: "string \<Rightarrow> string" where
  "csv_safe t = (case dropWhile js_space t of c # _ \<Rightarrow> if formula_char c then CHR 39 # t else t | [] \<Rightarrow> t)"

definition csv_quote :: "string \<Rightarrow> string" where
  "csv_quote t = concat (map (\<lambda>c. if c = CHR 34 then [CHR 34, CHR 34] else [c]) t)"

definition csvCell :: "string option \<Rightarrow> string" where
  "csvCell v =
     (let safe = csv_safe (case v of None \<Rightarrow> [] | Some t \<Rightarrow> t) in
      if list_ex csv_special safe then CHR 34 # csv_quote safe @ [CHR 34] else safe)"

fun join_cells :: "string list \<Rightarrow> string" where
  "join_cells [] = []"
| "join_cells [c] = c"
| "join_cells (c # d # cs) = c @ CHR '','' # join_cells (d # cs)"

definition csvRow :: "string option list \<Rightarrow> string" where
  "csvRow cells = join_cells (map csvCell cells)"

end
