(* ===== verification/EvidenceLaws.thy ===== *)
theory EvidenceLaws
  imports EvidenceReport
begin

text \<open>
  Guarantees of the evidence report: amounts survive printing and reading, a transaction is reported as
  confirmed at most once, the totals by asset are the exact sums of what is counted, and a CSV row can be
  read back and starts no formula.
\<close>

subsection \<open>Amounts\<close>

lemma nat_text_width: "n < 10 ^ w \<Longrightarrow> 0 < w \<Longrightarrow> length (nat_text n) \<le> w"
proof (induction n arbitrary: w rule: nat_text.induct)
  case (1 n)
  show ?case
  proof (cases "n < 10")
    case True
    then show ?thesis using 1 by (simp add: nat_text.simps [of n])
  next
    case False
    then obtain v where w: "w = Suc v" "0 < v" using "1.prems" by (cases w; cases "w - 1") auto
    then have "n div 10 < 10 ^ v" using "1.prems" by (simp add: less_mult_imp_div_less)
    then show ?thesis using "1.IH" [OF False _ w(2)] False w by (simp add: nat_text.simps [of n])
  qed
qed

lemma parse_format:
  assumes "0 < scale"
  shows "parseDecimal scale (formatDecimal scale v) = Some v"
proof -
  define n where "n = nat \<bar>v\<bar>"
  define f where "f = nat_text (n mod 10 ^ scale)"
  define p where "p = replicate (scale - length f) CHR ''0'' @ f"
  define body where "body = nat_text (n div 10 ^ scale) @ CHR ''.'' # p"
  have len: "length p = scale" using nat_text_width [of "n mod 10 ^ scale" scale] assms by (simp add: p_def f_def)
  have digits: "list_all is_digit p" by (simp add: p_def f_def nat_text_digits list_all_append) (simp add: list_all_iff is_digit_def)
  have "CHR ''.'' \<notin> set (nat_text (n div 10 ^ scale))" by (rule not_in_nat_text) (simp add: is_digit_def)
  then have "decimal_split body = Some (nat_text (n div 10 ^ scale), p)"
    using digits len assms by (auto simp: body_def decimal_split_def nat_text_digits)
  moreover have "digits_val (nat_text (n div 10 ^ scale) @ p) = n"
    using len by (simp add: digits_val_append) (simp add: p_def f_def digits_val_leading div_mult_mod_eq)
  moreover have "hd body \<noteq> CHR ''-''" "body \<noteq> []"
  proof -
    have "hd (nat_text (n div 10 ^ scale)) \<in> set (nat_text (n div 10 ^ scale))" by simp
    then have "is_digit (hd (nat_text (n div 10 ^ scale)))" using nat_text_digits [of "n div 10 ^ scale"] unfolding list_all_iff by blast
    then show "hd body \<noteq> CHR ''-''" "body \<noteq> []" by (auto simp: body_def is_digit_def)
  qed
  moreover have "formatDecimal scale v = (if v < 0 then ''-'' else []) @ body"
    by (simp add: formatDecimal_def Let_def body_def p_def f_def n_def)
  moreover have "js_trim (formatDecimal scale v) = formatDecimal scale v"
  proof (rule js_trim_id)
    have "list_all (\<lambda>c. \<not> js_space c) (nat_text (n div 10 ^ scale))" "list_all (\<lambda>c. \<not> js_space c) p"
      using digits nat_text_digits [of "n div 10 ^ scale"] by (simp_all add: list_all_iff is_digit_not_space)
    then show "list_all (\<lambda>c. \<not> js_space c) (formatDecimal scale v)" unfolding calculation(5) by (simp add: body_def js_space_def)
  qed
  ultimately show ?thesis using len by (auto simp: parseDecimal_def Let_def n_def)
qed

lemma decimal_or_zero_format [simp]: "decimal_or_zero (formatDecimal 2 v) = v"
  by (simp add: decimal_or_zero_def parse_format)

text \<open>
   printing an amount of the evidence report and reading it again gives the same number of units, for every
  scale above zero and every sign.
\<close>

theorem evidence_amount_roundtrip:
  assumes "0 < scale"
  shows "parseDecimal scale (formatDecimal scale v) = Some v"
  using assms by (rule parse_format)

theorem evidence_amount_roundtrip_witness:
  "formatDecimal 2 (- 1205) = ''-12.05'' \<and> parseDecimal 2 ''-12.05'' = Some (- 1205)"
proof -
  have "formatDecimal 2 (- 1205) = ''-12.05''" by code_simp
  then show ?thesis using evidence_amount_roundtrip [of 2 "- 1205"] by simp
qed

subsection \<open>One row per transaction\<close>

lemma asset_group_unknown: "unknown_key (asset_group r) \<Longrightarrow> asset_group r = ''unknown|unknown|unknown''"
proof -
  have "\<not> unknown_key (assetKey \<lparr>ya_chain = Some c, ya_token = Some t, ya_known = True\<rparr>)"
    if c: "c \<noteq> []" "list_all is_digit c" for c t
    using c by (cases c) (auto simp: unknown_key_def assetKey_def nonempty_def is_digit_def)
  then show "unknown_key (asset_group r) \<Longrightarrow> asset_group r = ''unknown|unknown|unknown''"
    by (auto simp: asset_group_def assetFromContext_def Let_def chain_text_def assetKey_def [of "\<lparr>ya_chain = None, ya_token = _, ya_known = _\<rparr>"]
      nonempty_def split: option.splits jsv.splits if_splits)
qed

lemma groups_keys: "map fst (groups_by f xs) = rev (remdups (rev (map f xs)))" "distinct (map fst (groups_by f xs))"
  by (simp_all add: groups_by_def comp_def)

lemma groups_members: "g \<in> set (groups_by f xs) \<Longrightarrow> snd g = filter (\<lambda>x. f x = fst g) xs \<and> snd g \<noteq> [] \<and> fst g \<in> f ` set xs"
  by (auto simp: groups_by_def filter_empty_conv)

definition confirmed_count :: "raw_row list \<Rightarrow> nat" where
  "confirmed_count rows = length (filter confirmed_row_of rows)"

lemma confirmed_count_simps [simp]:
  "confirmed_count [] = 0" "confirmed_count (a @ b) = confirmed_count a + confirmed_count b"
  "confirmed_count (map for_review rows) = 0" "confirmed_count (map (\<lambda>r. (for_review r)\<lparr>er_intent := x\<rparr>) rows) = 0"
  "confirmed_count [r] \<le> Suc 0"
  by (simp_all add: confirmed_count_def filter_map comp_def confirmed_row_of_def for_review_def filter_empty_conv)

lemma filter_and_le: "length (filter (\<lambda>r. p r \<and> q r) xs) \<le> length (filter q xs)"
  by (induction xs) auto

lemma confirmed_count_concat: "confirmed_count (concat rs) = sum_list (map confirmed_count rs)"
  by (induction rs) simp_all

lemma dedupe_group_count:
  "confirmed_count (dd_rows (dedupe_group h v g)) \<le> (if group_conflict v (snd g) \<or> unknown_key (fst g) \<and> hv_known v then 0 else 1)"
  by (cases g) (simp add: dedupe_group_def Let_def)

lemma at_most_one:
  assumes "distinct xs" and "\<And>x. x \<in> set xs \<Longrightarrow> x \<noteq> a \<Longrightarrow> f x = 0" and "f a \<le> (1 :: nat)"
  shows "sum_list (map f xs) \<le> 1"
proof (cases "a \<in> set xs")
  case True
  then obtain ys zs where "xs = ys @ a # zs" using split_list by metis
  then have "sum_list (map f ys) = 0" "sum_list (map f zs) = 0" using assms(1,2) by (auto simp: sum_list_eq_0_iff)
  then have "sum_list (map f xs) = f a" unfolding \<open>xs = ys @ a # zs\<close> map_append list.map sum_list.append sum_list.Cons by linarith
  then show ?thesis using assms(3) by simp
next
  case False
  then have "sum_list (map f xs) = 0" using assms(2) by (auto simp: sum_list_eq_0_iff)
  then show ?thesis by linarith
qed

lemma dedupe_hash_count: "confirmed_count (dd_rows (dedupe_hash h rows)) \<le> 1"
proof -
  define groups where "groups = groups_by asset_group rows"
  define v where "v = hash_view_of groups"
  let ?f = "\<lambda>g. confirmed_count (dd_rows (dedupe_group h v g))"
  have count: "confirmed_count (dd_rows (dedupe_hash h rows)) = sum_list (map ?f groups)"
    by (simp add: dedupe_hash_def Let_def join_deduped_def confirmed_count_concat comp_def groups_def v_def)
  have d: "distinct groups" using groups_keys(2) [of asset_group rows] by (simp add: groups_def distinct_map)
  have zero: "?f g = 0" if "group_conflict v (snd g) \<or> unknown_key (fst g) \<and> hv_known v" for g
    using dedupe_group_count [of h v g] that by auto
  have one: "?f g \<le> 1" for g using dedupe_group_count [of h v g] by (auto split: if_splits)
  define known where "known = filter (\<lambda>g. \<not> unknown_key (fst g)) groups"
  have hv: "hv_known v \<longleftrightarrow> known \<noteq> []" "hv_several v \<longleftrightarrow> 1 < length known"
    by (simp_all add: v_def hash_view_of_def Let_def known_def)
  consider (several) "1 < length known" | (single) g where "known = [g]" | (none) "known = []"
    by (cases known; cases "tl known") auto
  then have "sum_list (map ?f groups) \<le> 1"
  proof cases
    case several
    then have "?f g = 0" for g using hv zero by (simp add: group_conflict_def)
    then show ?thesis by (simp add: sum_list_eq_0_iff)
  next
    case (single a)
    have "?f g = 0" if "g \<in> set groups" "g \<noteq> a" for g
    proof -
      have "g \<notin> set known" using that single by simp
      then show ?thesis using that(1) hv single by (intro zero) (simp add: known_def)
    qed
    then show ?thesis using at_most_one [OF d, of a ?f] one by blast
  next
    case none
    have "g = g'" if "g \<in> set groups" "g' \<in> set groups" for g g'
    proof -
      have key: "fst x = ''unknown|unknown|unknown''" if x: "x \<in> set groups" for x
      proof -
        obtain r where "fst x = asset_group r" using groups_members [of x asset_group rows] x by (auto simp: groups_def)
        moreover have "unknown_key (fst x)" using none x by (auto simp: known_def filter_empty_conv)
        ultimately show ?thesis using asset_group_unknown by simp
      qed
      have "inj_on fst (set groups)" using groups_keys(2) [of asset_group rows] by (simp add: groups_def distinct_map)
      then show ?thesis by (rule inj_onD) (use key that in simp_all)
    qed
    then show ?thesis using at_most_one [OF d, of "hd groups" ?f] one by (cases groups) auto
  qed
  then show ?thesis by (simp add: count)
qed

lemma dedupe_hash_rows:
  assumes "\<And>r. r \<in> set rows \<Longrightarrow> row_hash r = Some h" and "x \<in> set (dd_rows (dedupe_hash h' rows))"
  shows "row_hash x = Some h"
proof -
  have review: "row_hash (for_review r) = row_hash r" "row_hash ((for_review r)\<lparr>er_intent := i\<rparr>) = row_hash r" for r i
    by (simp_all add: row_hash_def for_review_def)
  obtain v g where g: "g \<in> set (groups_by asset_group rows)" "x \<in> set (dd_rows (dedupe_group h' v g))"
    using assms(2) by (auto simp: dedupe_hash_def Let_def join_deduped_def)
  have rows: "r \<in> set (snd g) \<Longrightarrow> row_hash r = Some h" for r using groups_members [OF g(1)] assms(1) by auto
  have "preferred (snd g) \<in> set (snd g)"
  proof -
    have "sort_key (\<lambda>r. (3 - er_rank r, er_id r)) (snd g) \<noteq> []" using groups_members [OF g(1)] by (metis set_empty set_sort)
    then show ?thesis using hd_in_set set_sort unfolding preferred_def by metis
  qed
  then show ?thesis using g(2) rows review
    by (cases g) (auto simp: dedupe_group_def Let_def split: if_splits)
qed

text \<open>
  C22: however often a transaction hash occurs in the ledger, the awards and the spends, the deduplicated evidence
  holds at most one confirmed row for it, so that no transaction is counted twice in the totals.
\<close>

theorem transaction_is_reported_once:
  "length (filter (\<lambda>r. row_hash r = Some h \<and> confirmed_row_of r) (dd_rows (dedupeRows rows))) \<le> 1"
proof -
  define groups where "groups = groups_by (\<lambda>r. the (row_hash r)) (filter (\<lambda>r. row_hash r \<noteq> None) rows)"
  let ?own = "\<lambda>g. filter (\<lambda>r. row_hash r = Some h \<and> confirmed_row_of r) (dd_rows (dedupe_hash (fst g) (snd g)))"
  have members: "row_hash r = Some (fst g)" if "g \<in> set groups" "r \<in> set (snd g)" for g r
    using groups_members [of g "\<lambda>r. the (row_hash r)" "filter (\<lambda>r. row_hash r \<noteq> None) rows"] that by (auto simp: groups_def)
  have other: "length (?own g) = 0" if "g \<in> set groups" "fst g \<noteq> h" for g
    using dedupe_hash_rows [of "snd g" "fst g" _ "fst g"] members [OF that(1)] that(2) by (auto simp: filter_empty_conv)
  have one: "length (?own g) \<le> 1" for g
  proof -
    have "length (?own g) \<le> confirmed_count (dd_rows (dedupe_hash (fst g) (snd g)))"
      unfolding confirmed_count_def by (rule filter_and_le)
    then show ?thesis using dedupe_hash_count [of "fst g" "snd g"] by simp
  qed
  have d: "distinct groups" "inj_on fst (set groups)"
    using groups_keys(2) [of "\<lambda>r. the (row_hash r)" "filter (\<lambda>r. row_hash r \<noteq> None) rows"] by (simp_all add: groups_def distinct_map)
  have "sum_list (map (\<lambda>g. length (?own g)) groups) \<le> 1"
  proof (cases "\<exists>a \<in> set groups. fst a = h")
    case True
    then obtain a where a: "a \<in> set groups" "fst a = h" by blast
    have "length (?own g) = 0" if "g \<in> set groups" "g \<noteq> a" for g
    proof (rule other [OF that(1)])
      show "fst g \<noteq> h" using inj_onD [OF d(2) _ that(1) a(1)] a(2) that(2) by argo
    qed
    then show ?thesis using at_most_one [OF d(1), of a "\<lambda>g. length (?own g)"] one by blast
  next
    case False
    then have "sum_list (map (\<lambda>g. length (?own g)) groups) = 0" using other by (auto simp: sum_list_eq_0_iff)
    then show ?thesis by linarith
  qed
  moreover have "filter (\<lambda>r. row_hash r = Some h \<and> confirmed_row_of r) (dd_rows (dedupeRows rows)) = concat (map ?own groups)"
    by (simp add: dedupeRows_def Let_def join_deduped_def groups_def filter_concat comp_def filter_empty_conv)
  ultimately show ?thesis by (simp add: length_concat comp_def)
qed

subsection \<open>Totals\<close>

text \<open>What counts for an asset in one direction.\<close>

definition counted_units :: "int \<Rightarrow> int \<Rightarrow> string \<Rightarrow> movement_direction \<Rightarrow> raw_row list \<Rightarrow> int" where
  "counted_units low high k dir rows = sum_list (map (\<lambda>r. case counted_amount low high r of
     None \<Rightarrow> 0 | Some n \<Rightarrow> if asset_group r = k \<and> er_direction r = dir then n else 0) rows)"

definition exact_totals :: "int \<Rightarrow> int \<Rightarrow> string \<Rightarrow> raw_row list \<Rightarrow> asset_totals \<Rightarrow> bool" where
  "exact_totals low high k rows t \<longleftrightarrow> tt_awarded t = formatDecimal 2 (counted_units low high k ISSUED rows)
     \<and> tt_spent t = formatDecimal 2 (counted_units low high k RETURNED rows)
     \<and> tt_net t = formatDecimal 2 (counted_units low high k ISSUED rows - counted_units low high k RETURNED rows)"

lemma put_total_lookup: "map_of (put_total k t m) k' = (if k' = k then Some t else map_of m k')"
  by (induction m) auto

lemma counted_units_snoc:
  "counted_units low high k dir (rows @ [r]) = counted_units low high k dir rows + (case counted_amount low high r of
     None \<Rightarrow> 0 | Some n \<Rightarrow> if asset_group r = k \<and> er_direction r = dir then n else 0)"
  by (simp add: counted_units_def)

lemma add_amount_exact:
  assumes "exact_totals low high (asset_group r) rows t" and "counted_amount low high r = Some n"
  shows "exact_totals low high (asset_group r) (rows @ [r]) (add_amount (er_direction r) n t)"
  using assms by (cases "er_direction r") (simp_all add: exact_totals_def counted_units_snoc add_amount_def Let_def)

lemma other_asset_exact:
  assumes "exact_totals low high k rows t" and "counted_amount low high r = None \<or> asset_group r \<noteq> k"
  shows "exact_totals low high k (rows @ [r]) t"
  using assms by (auto simp: exact_totals_def counted_units_snoc split: option.splits)

lemma zero_totals: "formatDecimal 2 0 = ''0.00''"
  by code_simp

text \<open>
  C23: the totals of the evidence report are exact: for every asset that has one, the awarded and spent amounts are
  the sums, to the cent, of the confirmed rows of that asset in the period, and the net amount is their difference;
  an asset without an entry has no such row.
\<close>

theorem evidence_totals_are_exact:
  "case map_of (to_totals (sourceTotals low high rows)) k of
     Some t \<Rightarrow> exact_totals low high k rows t
   | None \<Rightarrow> counted_units low high k ISSUED rows = 0 \<and> counted_units low high k RETURNED rows = 0"
proof (induction rows rule: rev_induct)
  case Nil
  then show ?case by (simp add: sourceTotals_def counted_units_def)
next
  case (snoc r rows)
  define s where "s = sourceTotals low high rows"
  have step: "sourceTotals low high (rows @ [r]) = count_row low high s r" by (simp add: sourceTotals_def s_def)
  show ?case
  proof (cases "counted_amount low high r")
    case None
    then have "count_row low high s r = s" by (simp add: count_row_def)
    then show ?thesis unfolding step using snoc None other_asset_exact [of low high k rows _ r]
      by (auto simp: s_def counted_units_snoc split: option.splits)
  next
    case (Some n)
    define cur where "cur = (case map_of (to_totals s) (asset_group r) of Some t \<Rightarrow> t
       | None \<Rightarrow> \<lparr>tt_asset = assetFromContext (er_intent r), tt_awarded = ''0.00'', tt_spent = ''0.00'', tt_net = ''0.00''\<rparr>)"
    have totals: "to_totals (count_row low high s r) = put_total (asset_group r) (add_amount (er_direction r) n cur) (to_totals s)"
      using Some by (simp add: count_row_def Let_def cur_def asset_group_def split: option.split)
    show ?thesis
    proof (cases "k = asset_group r")
      case True
      then have "exact_totals low high (asset_group r) rows cur"
        using snoc by (auto simp: s_def [symmetric] cur_def exact_totals_def zero_totals split: option.splits)
      then show ?thesis unfolding step totals put_total_lookup using True add_amount_exact Some by simp
    next
      case False
      then show ?thesis unfolding step totals put_total_lookup using snoc other_asset_exact [of low high k rows _ r] Some
        by (auto simp: s_def [symmetric] counted_units_snoc split: option.splits)
    qed
  qed
qed

subsection \<open>CSV\<close>

text \<open>A reader of RFC 4180: quoted cells with doubled quotes, plain cells up to a separator.\<close>

fun read_quoted :: "string \<Rightarrow> string \<times> string" where
  "read_quoted [] = ([], [])"
| "read_quoted [c] = (if c = CHR 34 then [] else [c], [])"
| "read_quoted (c # d # s) =
     (if c \<noteq> CHR 34 then (case read_quoted (d # s) of (a, r) \<Rightarrow> (c # a, r))
      else if d = CHR 34 then (case read_quoted s of (a, r) \<Rightarrow> (c # a, r)) else ([], d # s))"

definition read_cell :: "string \<Rightarrow> string \<times> string" where
  "read_cell s = (if s \<noteq> [] \<and> hd s = CHR 34 then read_quoted (tl s)
     else (takeWhile (\<lambda>c. \<not> csv_special c) s, dropWhile (\<lambda>c. \<not> csv_special c) s))"

text \<open>A row ends where no separator follows.\<close>

fun read_row :: "nat \<Rightarrow> string \<Rightarrow> string list" where
  "read_row 0 s = []"
| "read_row (Suc n) s =
     (case read_cell s of (a, r) \<Rightarrow> a # (if r \<noteq> [] \<and> hd r = CHR '','' then read_row n (tl r) else []))"

lemma read_quoted_quote:
  assumes "rest = [] \<or> hd rest \<noteq> CHR 34"
  shows "read_quoted (csv_quote t @ CHR 34 # rest) = (t, rest)"
proof (induction t)
  case Nil
  then show ?case using assms by (cases rest) (auto simp: csv_quote_def)
next
  case (Cons c t)
  show ?case
  proof (cases "c = CHR 34")
    case True
    then show ?thesis using Cons by (simp add: csv_quote_def)
  next
    case False
    obtain d u where d: "csv_quote t @ CHR 34 # rest = d # u" by (cases "csv_quote t @ CHR 34 # rest") auto
    then have "read_quoted (csv_quote (c # t) @ CHR 34 # rest) = (case read_quoted (d # u) of (a, r) \<Rightarrow> (c # a, r))"
      using False by (simp add: csv_quote_def)
    then show ?thesis using Cons d by simp
  qed
qed

lemma read_cell_written:
  assumes "rest = [] \<or> hd rest = CHR '',''"
  shows "read_cell (csvCell v @ rest) = (csv_safe (case v of None \<Rightarrow> [] | Some t \<Rightarrow> t), rest)"
proof (cases "list_ex csv_special (csv_safe (case v of None \<Rightarrow> [] | Some t \<Rightarrow> t))")
  case True
  then show ?thesis using read_quoted_quote [of rest] assms by (auto simp: csvCell_def Let_def read_cell_def)
next
  case False
  let ?t = "csv_safe (case v of None \<Rightarrow> [] | Some t \<Rightarrow> t)"
  have plain: "\<forall>c \<in> set ?t. \<not> csv_special c" using False by (auto simp: list_ex_iff)
  have "takeWhile (\<lambda>c. \<not> csv_special c) (?t @ rest) = ?t" "dropWhile (\<lambda>c. \<not> csv_special c) (?t @ rest) = rest"
    using plain assms by (cases rest; simp add: takeWhile_append2 dropWhile_append2 csv_special_def)+
  moreover have "\<not> (?t @ rest \<noteq> [] \<and> hd (?t @ rest) = CHR 34)"
    using plain assms by (cases ?t; cases rest) (auto simp: csv_special_def)
  moreover have "csvCell v = ?t" using False by (simp add: csvCell_def Let_def)
  ultimately show ?thesis by (simp only: read_cell_def if_False)
qed

text \<open>
  C31: every row of the CSV export is read back cell by cell, whatever quotes, commas, line ends and formula
  characters the cells hold: each cell comes back as its text, with a leading apostrophe where the text would
  have started a formula.
\<close>

theorem csv_rows_read_back:
  assumes "cells \<noteq> []"
  shows "read_row (length cells) (csvRow cells) = map (\<lambda>v. csv_safe (case v of None \<Rightarrow> [] | Some t \<Rightarrow> t)) cells"
  using assms
proof (induction cells)
  case (Cons v cells)
  show ?case
  proof (cases cells)
    case Nil
    then show ?thesis using read_cell_written [of "[]" v] by (simp add: csvRow_def)
  next
    case (Cons w ws)
    have "csvRow (v # cells) = csvCell v @ CHR '','' # csvRow cells" by (simp add: csvRow_def Cons)
    moreover have "read_cell (csvCell v @ CHR '','' # csvRow cells) = (csv_safe (case v of None \<Rightarrow> [] | Some t \<Rightarrow> t), CHR '','' # csvRow cells)"
      by (rule read_cell_written) simp
    ultimately show ?thesis using Cons.IH Cons by simp
  qed
qed simp

theorem csv_rows_read_back_witness:
  "read_row 3 (csvRow [Some ''=1,2'', None, Some [CHR 34, CHR ''a'']]) = [CHR 39 # ''=1,2'', [], [CHR 34, CHR ''a'']]"
proof -
  define cells :: "string option list" where "cells = [Some ''=1,2'', None, Some [CHR 34, CHR ''a'']]"
  have safe: "csv_safe ''=1,2'' = CHR 39 # ''=1,2''" "csv_safe [] = []" "csv_safe [CHR 34, CHR ''a''] = [CHR 34, CHR ''a'']" by code_simp+
  have len: "length cells = 3" and ne: "cells \<noteq> []" by (simp_all add: cells_def)
  have texts: "map (\<lambda>v. csv_safe (case v of None \<Rightarrow> [] | Some t \<Rightarrow> t)) cells = [CHR 39 # ''=1,2'', [], [CHR 34, CHR ''a'']]"
    by (simp only: cells_def list.map option.case safe)
  show ?thesis using csv_rows_read_back [OF ne] unfolding len texts unfolding cells_def .
qed

text \<open>
   no text of the export starts a formula of a spreadsheet: the first character of a read cell that is no blank
  is never an equals sign, plus, minus or at sign.
\<close>

theorem csv_cells_start_no_formula:
  "case dropWhile js_space (csv_safe t) of [] \<Rightarrow> True | c # _ \<Rightarrow> \<not> formula_char c"
proof (cases "dropWhile js_space t")
  case Nil
  then have "csv_safe t = t" unfolding csv_safe_def by (simp only: list.case)
  then show ?thesis using Nil by (simp only: list.case)
next
  case (Cons c s)
  have "\<not> js_space (CHR 39)" "\<not> formula_char (CHR 39)" by code_simp+
  then show ?thesis using Cons by (simp add: csv_safe_def)
qed

end
