(* ===== verification/Annotations.thy ===== *)
theory Annotations
  imports Evidence
begin

text \<open>
  The append-only notes of the operators on retained evidence, \<open>src/adminEvidence.ts\<close>: the request, the reference
  it makes to a transaction, and the replay of a request. The table of annotations is kept beside the other
  tables, which a note never changes.
\<close>

subsection \<open>Requests\<close>

datatype reference_type = REF_TRANSACTION | REF_CASE

record annotation_request =
  nq_client :: string
  nq_subject :: evidence_source
  nq_subjectId :: string
  nq_ref :: reference_type
  nq_reference :: string
  nq_reason :: string

text \<open>\<open>UUID_PATTERN\<close>, without regard to case.\<close>

definition uuid_text :: "string \<Rightarrow> bool" where
  "uuid_text t \<longleftrightarrow> length t = 36 \<and> list_all (\<lambda>i. t ! i = CHR ''-'') [8, 13, 18, 23]
     \<and> list_all (\<lambda>i. i \<in> {8, 13, 18, 23} \<or> is_hex (t ! i)) [0..<36]
     \<and> t ! 14 \<in> set ''12345'' \<and> t ! 19 \<in> set ''89abAB''"

definition request_refused :: evidence_error where
  "request_refused = (400, ''INVALID_ANNOTATION_REQUEST'')"

definition ensureUuid :: "jsv \<Rightarrow> evidence_error + string" where
  "ensureUuid v =
     (case v of JStr s \<Rightarrow> if uuid_text (js_trim s) then Inr (js_lower (js_trim s)) else Inl request_refused | _ \<Rightarrow> Inl request_refused)"

definition ensureAnnotationText :: "nat \<Rightarrow> jsv \<Rightarrow> evidence_error + string" where
  "ensureAnnotationText n v =
     (case v of
        JStr s \<Rightarrow> (let t = js_trim s in
          if t \<noteq> [] \<and> length t \<le> n \<and> \<not> list_ex control_char t then Inr t else Inl request_refused)
      | _ \<Rightarrow> Inl request_refused)"

definition annotation_keys :: "string list" where
  "annotation_keys = [''clientRequestId'', ''subjectType'', ''subjectId'', ''referenceType'', ''reference'', ''reason'']"

definition subject_of :: "jsv \<Rightarrow> evidence_error + evidence_source" where
  "subject_of v =
     (if v = JStr ''token_operation'' then Inr SOURCE_OPERATION else if v = JStr ''award'' then Inr SOURCE_AWARD
      else if v = JStr ''spend'' then Inr SOURCE_SPEND else Inl request_refused)"

definition reference_type_of :: "jsv \<Rightarrow> evidence_error + reference_type" where
  "reference_type_of v =
     (if v = JStr ''transaction'' then Inr REF_TRANSACTION else if v = JStr ''case'' then Inr REF_CASE else Inl request_refused)"

definition reference_of :: "reference_type \<Rightarrow> string \<Rightarrow> evidence_error + string" where
  "reference_of t s =
     (case t of REF_CASE \<Rightarrow> Inr s | REF_TRANSACTION \<Rightarrow> of_option request_refused (canonicalTransactionHash (JStr s)))"

definition parseAdminCorrectionAnnotationRequest :: "jsv \<Rightarrow> evidence_error + annotation_request" where
  "parseAdminCorrectionAnnotationRequest v =
     rbind (of_option request_refused (as_object v)) (\<lambda>body.
     rbind (guard (set (map fst body) = set annotation_keys) request_refused) (\<lambda>_.
     rbind (ensureUuid (field body ''clientRequestId'')) (\<lambda>client.
     rbind (subject_of (field body ''subjectType'')) (\<lambda>subject.
     rbind (reference_type_of (field body ''referenceType'')) (\<lambda>rt.
     rbind (ensureAnnotationText 320 (field body ''reference'')) (\<lambda>text.
     rbind (reference_of rt text) (\<lambda>reference.
     rbind (ensureUuid (field body ''subjectId'')) (\<lambda>subjectId.
     rbind (ensureAnnotationText 2000 (field body ''reason'')) (\<lambda>reason.
     Inr \<lparr>nq_client = client, nq_subject = subject, nq_subjectId = subjectId, nq_ref = rt, nq_reference = reference,
          nq_reason = reason\<rparr>)))))))))"

subsection \<open>Rows and references\<close>

datatype provenance =
    PROV_OPERATION | PROV_AWARD | PROV_SPEND | PROV_CONFLICT | PROV_CASE

record resolved_reference =
  vr_provenance :: provenance
  vr_key :: "string option"
  vr_chain :: "string option"
  vr_token :: "string option"
  vr_uid :: "string option"
  vr_wallet :: "string option"

record annotation_row =
  nr_id :: string
  nr_client :: string
  nr_subject :: evidence_source
  nr_subjectId :: string
  nr_ref :: reference_type
  nr_reference :: string
  nr_reason :: string
  nr_actor :: string
  nr_provenance :: provenance
  nr_key :: "string option"
  nr_chain :: "string option"
  nr_token :: "string option"
  nr_created :: int

text \<open>Which tables exist.\<close>

record evidence_tables =
  yt_source :: "evidence_source \<Rightarrow> bool"
  yt_users :: bool
  yt_annotations :: bool

definition user_row :: "evidence_tables \<Rightarrow> string \<Rightarrow> db \<Rightarrow> user_row option" where
  "user_row x i d = (if yt_users x \<and> i \<noteq> [] then first_where (\<lambda>u. us_id u = i) (t_users d) else None)"

definition or_else :: "'a option \<Rightarrow> 'a option \<Rightarrow> 'a option" where
  "or_else a b = (case a of None \<Rightarrow> b | Some _ \<Rightarrow> a)"

definition user_uid :: "user_row option \<Rightarrow> string option" where
  "user_uid u = safeString 255 (map_option us_uid u)"

definition user_wallet :: "user_row option \<Rightarrow> string option" where
  "user_wallet u = safeString 128 (map_option us_wallet u)"

definition operation_reference :: "operation_row \<Rightarrow> resolved_reference" where
  "operation_reference r =
     (let a = assetFromContext (safeIntentContextColumn (op_intent r)) in
      \<lparr>vr_provenance = PROV_OPERATION, vr_key = safeString 240 (Some (op_key r)), vr_chain = ya_chain a, vr_token = ya_token a,
       vr_uid = safeString 255 (Some (op_uid r)), vr_wallet = safeString 128 (Some (op_wallet r))\<rparr>)"

definition award_reference :: "evidence_tables \<Rightarrow> db \<Rightarrow> award_row \<Rightarrow> resolved_reference" where
  "award_reference x d r =
     (let u = user_row x (aw_user_id r) d in
      \<lparr>vr_provenance = PROV_AWARD, vr_key = None, vr_chain = None, vr_token = None, vr_uid = user_uid u, vr_wallet = user_wallet u\<rparr>)"

definition spend_reference :: "evidence_tables \<Rightarrow> db \<Rightarrow> spend_row \<Rightarrow> resolved_reference" where
  "spend_reference x d r =
     (let u = user_row x (sp_user_id r) d in
      \<lparr>vr_provenance = PROV_SPEND, vr_key = None, vr_chain = None, vr_token = None, vr_uid = user_uid u,
       vr_wallet = or_else (safeString 128 (Some (sp_wallet r))) (user_wallet u)\<rparr>)"

definition targetContext :: "evidence_tables \<Rightarrow> annotation_request \<Rightarrow> db \<Rightarrow> evidence_error + resolved_reference" where
  "targetContext x q d =
     rbind (guard (yt_source x (nq_subject q)) (503, ''ANNOTATION_SUBJECT_SCHEMA_UNAVAILABLE'')) (\<lambda>_.
     of_option (404, ''ANNOTATION_SUBJECT_NOT_FOUND'')
       (case nq_subject q of
          SOURCE_OPERATION \<Rightarrow> map_option operation_reference (first_where (\<lambda>r. op_id r = nq_subjectId q) (t_operations d))
        | SOURCE_AWARD \<Rightarrow> map_option (award_reference x d) (first_where (\<lambda>r. aw_id r = nq_subjectId q) (t_awards d))
        | SOURCE_SPEND \<Rightarrow> map_option (spend_reference x d) (first_where (\<lambda>r. sp_id r = nq_subjectId q) (t_spends d))))"

definition hash_rows :: "bool \<Rightarrow> ('r \<Rightarrow> string option) \<Rightarrow> string \<Rightarrow> 'r list \<Rightarrow> 'r list" where
  "hash_rows present tx h t = (if present then take 11 (filter (\<lambda>r. map_option js_lower (tx r) = Some (js_lower h)) t) else [])"

definition reference_candidates :: "evidence_tables \<Rightarrow> string \<Rightarrow> db \<Rightarrow> resolved_reference list \<times> bool" where
  "reference_candidates x h d =
     (let a = hash_rows (yt_source x SOURCE_OPERATION) op_tx_hash h (t_operations d);
          b = hash_rows (yt_source x SOURCE_AWARD) (\<lambda>r. Some (aw_tx_hash r)) h (t_awards d);
          c = hash_rows (yt_source x SOURCE_SPEND) (\<lambda>r. Some (sp_tx_hash r)) h (t_spends d) in
      (map operation_reference (take 10 a) @ map (award_reference x d) (take 10 b) @ map (spend_reference x d) (take 10 c),
       10 < length a \<or> 10 < length b \<or> 10 < length c))"

definition reference_rank :: "resolved_reference \<Rightarrow> nat" where
  "reference_rank r = (case vr_provenance r of PROV_OPERATION \<Rightarrow> 0 | PROV_AWARD \<Rightarrow> 1 | _ \<Rightarrow> 2)"

definition distinct_texts :: "string option list \<Rightarrow> string list" where
  "distinct_texts xs = rev (remdups (rev (List.map_filter nonempty xs)))"

definition reference_assets :: "resolved_reference list \<Rightarrow> (string \<times> string) list" where
  "reference_assets xs = rev (remdups (rev (List.map_filter (\<lambda>r. case (nonempty (vr_chain r), nonempty (vr_token r)) of
     (Some c, Some t) \<Rightarrow> Some (c, js_lower t) | _ \<Rightarrow> None) xs)))"

definition first_of :: "'a list \<Rightarrow> 'a option" where
  "first_of xs = (case xs of [] \<Rightarrow> None | x # _ \<Rightarrow> Some x)"

definition transactionReference :: "evidence_tables \<Rightarrow> string \<Rightarrow> db \<Rightarrow> evidence_error + resolved_reference" where
  "transactionReference x h d =
     (case reference_candidates x h d of
        (candidates, overflow) \<Rightarrow>
          rbind (guard (candidates \<noteq> []) (404, ''ANNOTATION_REFERENCE_NOT_FOUND'')) (\<lambda>_.
          rbind (guard (\<not> overflow) (409, ''ANNOTATION_REFERENCE_AMBIGUOUS'')) (\<lambda>_.
          (let selected = sort_key reference_rank candidates; uids = distinct_texts (map vr_uid selected);
               wallets = distinct_texts (map (\<lambda>r. map_option js_lower (vr_wallet r)) selected);
               assets = reference_assets selected; conflict = 1 < length assets in
           rbind (guard (length uids \<le> 1 \<and> length wallets \<le> 1) (409, ''ANNOTATION_REFERENCE_CONTEXT_MISMATCH'')) (\<lambda>_.
           Inr \<lparr>vr_provenance = (if conflict then PROV_CONFLICT else vr_provenance (hd selected)),
                vr_key = (if conflict then None else vr_key (hd selected)),
                vr_chain = (if conflict then None else map_option fst (first_of assets)),
                vr_token = (if conflict then None else map_option snd (first_of assets)),
                vr_uid = first_of uids, vr_wallet = first_of wallets\<rparr>)))))"

definition both_differ :: "string option \<Rightarrow> string option \<Rightarrow> bool" where
  "both_differ a b \<longleftrightarrow> nonempty a \<noteq> None \<and> nonempty b \<noteq> None \<and> a \<noteq> b"

definition referenceMatchesTarget :: "resolved_reference \<Rightarrow> resolved_reference \<Rightarrow> bool" where
  "referenceMatchesTarget t r \<longleftrightarrow> \<not> both_differ (vr_uid t) (vr_uid r)
     \<and> \<not> both_differ (map_option js_lower (vr_wallet t)) (map_option js_lower (vr_wallet r))
     \<and> \<not> (nonempty (vr_chain t) \<noteq> None \<and> nonempty (vr_chain r) \<noteq> None
          \<and> (vr_chain t \<noteq> vr_chain r \<or> map_option js_lower (vr_token t) \<noteq> map_option js_lower (vr_token r)))"

subsection \<open>Creation and replay\<close>

definition existingAnnotation :: "string \<Rightarrow> string \<Rightarrow> annotation_row list \<Rightarrow> annotation_row option" where
  "existingAnnotation actor client t = first_where (\<lambda>r. nr_actor r = actor \<and> nr_client r = client) t"

definition sameAnnotationPayload :: "annotation_row \<Rightarrow> string \<Rightarrow> annotation_request \<Rightarrow> bool" where
  "sameAnnotationPayload r actor q \<longleftrightarrow> nr_actor r = actor \<and> js_lower (nr_client r) = nq_client q \<and> nr_subject r = nq_subject q
     \<and> js_lower (nr_subjectId r) = nq_subjectId q \<and> nr_ref r = nq_ref q \<and> nr_reference r = nq_reference q \<and> nr_reason r = nq_reason q"

definition case_reference :: resolved_reference where
  "case_reference = \<lparr>vr_provenance = PROV_CASE, vr_key = None, vr_chain = None, vr_token = None, vr_uid = None, vr_wallet = None\<rparr>"

definition resolved_for :: "evidence_tables \<Rightarrow> annotation_request \<Rightarrow> db \<Rightarrow> evidence_error + resolved_reference" where
  "resolved_for x q d =
     rbind (targetContext x q d) (\<lambda>target.
     case nq_ref q of
       REF_CASE \<Rightarrow> Inr case_reference
     | REF_TRANSACTION \<Rightarrow>
         rbind (transactionReference x (nq_reference q) d) (\<lambda>r.
         rbind (guard (referenceMatchesTarget target r) (409, ''ANNOTATION_REFERENCE_CONTEXT_MISMATCH'')) (\<lambda>_. Inr r)))"

definition new_annotation :: "int \<Rightarrow> string \<Rightarrow> string \<Rightarrow> annotation_request \<Rightarrow> resolved_reference \<Rightarrow> annotation_row" where
  "new_annotation now i actor q r =
     \<lparr>nr_id = i, nr_client = nq_client q, nr_subject = nq_subject q, nr_subjectId = nq_subjectId q, nr_ref = nq_ref q,
      nr_reference = nq_reference q, nr_reason = nq_reason q, nr_actor = actor, nr_provenance = vr_provenance r,
      nr_key = vr_key r, nr_chain = vr_chain r, nr_token = vr_token r, nr_created = now\<rparr>"

definition createAdminCorrectionAnnotation ::
    "evidence_tables \<Rightarrow> int \<Rightarrow> string \<Rightarrow> annotation_request \<Rightarrow> string \<Rightarrow> db \<Rightarrow> annotation_row list
     \<Rightarrow> evidence_error + (annotation_row \<times> annotation_row list)" where
  "createAdminCorrectionAnnotation x now i q actorId d t =
     rbind (ensureAnnotationText 160 (JStr actorId)) (\<lambda>actor.
     rbind (guard (yt_annotations x) (503, ''ANNOTATION_SCHEMA_UNAVAILABLE'')) (\<lambda>_.
     case existingAnnotation actor (nq_client q) t of
       Some r \<Rightarrow> rbind (guard (sameAnnotationPayload r actor q) (409, ''ANNOTATION_REQUEST_CONFLICT'')) (\<lambda>_. Inr (r, t))
     | None \<Rightarrow> rbind (resolved_for x q d) (\<lambda>r. let n = new_annotation now i actor q r in Inr (n, t @ [n]))))"

subsection \<open>Reading\<close>

record annotation_query =
  nl_subject :: evidence_source
  nl_subjectId :: string
  nl_limit :: nat
  nl_offset :: nat

definition parseAnnotationListQuery :: "jsv \<Rightarrow> evidence_error + annotation_query" where
  "parseAnnotationListQuery q =
     rbind (evidence_text q ''subjectType'') (\<lambda>s.
     rbind (case subject_of (case s of None \<Rightarrow> JUndef | Some x \<Rightarrow> JStr x) of Inl _ \<Rightarrow> Inl (400, ''INVALID_ANNOTATION_QUERY'') | Inr x \<Rightarrow> Inr x) (\<lambda>subject.
     rbind (evidence_text q ''subjectId'') (\<lambda>i.
     rbind (ensureUuid (case i of None \<Rightarrow> JUndef | Some x \<Rightarrow> JStr x)) (\<lambda>subjectId.
     rbind (evidence_text q ''limit'') (\<lambda>l. rbind (evidence_integer l 25 1 100) (\<lambda>limit.
     rbind (evidence_text q ''offset'') (\<lambda>p. rbind (evidence_integer p 0 0 100000) (\<lambda>offset.
     Inr \<lparr>nl_subject = subject, nl_subjectId = subjectId, nl_limit = limit, nl_offset = offset\<rparr>))))))))"

record annotation_page =
  np_rows :: "annotation_row list"
  np_hasMore :: bool
  np_nextOffset :: "nat option"

definition subject_exists :: "annotation_query \<Rightarrow> db \<Rightarrow> bool" where
  "subject_exists q d =
     (case nl_subject q of
        SOURCE_OPERATION \<Rightarrow> list_ex (\<lambda>r. op_id r = nl_subjectId q) (t_operations d)
      | SOURCE_AWARD \<Rightarrow> list_ex (\<lambda>r. aw_id r = nl_subjectId q) (t_awards d)
      | SOURCE_SPEND \<Rightarrow> list_ex (\<lambda>r. sp_id r = nl_subjectId q) (t_spends d))"

definition listAdminCorrectionAnnotations ::
    "evidence_tables \<Rightarrow> annotation_query \<Rightarrow> db \<Rightarrow> annotation_row list \<Rightarrow> evidence_error + annotation_page" where
  "listAdminCorrectionAnnotations x q d t =
     rbind (guard (yt_annotations x) (503, ''ANNOTATION_SCHEMA_UNAVAILABLE'')) (\<lambda>_.
     rbind (guard (yt_source x (nl_subject q)) (503, ''ANNOTATION_SUBJECT_SCHEMA_UNAVAILABLE'')) (\<lambda>_.
     rbind (guard (subject_exists q d) (404, ''ANNOTATION_SUBJECT_NOT_FOUND'')) (\<lambda>_.
     (let found = rev (sort_key (\<lambda>r. (nr_created r, nr_id r))
            (filter (\<lambda>r. nr_subject r = nl_subject q \<and> nr_subjectId r = nl_subjectId q) t));
          rows = take (nl_limit q + 1) (drop (nl_offset q) found);
          more = nl_limit q < length rows in
      Inr \<lparr>np_rows = take (nl_limit q) rows, np_hasMore = more,
           np_nextOffset = (if more then Some (nl_offset q + nl_limit q) else None)\<rparr>))))"

definition annotationCounts :: "annotation_row list \<Rightarrow> evidence_source \<Rightarrow> string \<Rightarrow> nat" where
  "annotationCounts t src i = length (filter (\<lambda>r. nr_subject r = src \<and> nr_subjectId r = i) t)"

end
