(* ===== verification/AnnotationLaws.thy ===== *)
theory AnnotationLaws
  imports Annotations
begin

text \<open>Guarantees of the notes: the table only grows, and a request id of an operator names one note for ever.\<close>

subsection \<open>The table\<close>

text \<open>One request of an operator, at any state of the other tables; a refused one changes nothing.\<close>

inductive annotate_step :: "annotation_row list \<Rightarrow> annotation_row list \<Rightarrow> bool" where
  annotate: "createAdminCorrectionAnnotation x now i q actor d t = Inr (n, t') \<Longrightarrow> annotate_step t t'"

definition annotations_ok :: "annotation_row list \<Rightarrow> bool" where
  "annotations_ok t \<longleftrightarrow> distinct (map (\<lambda>r. (nr_actor r, nr_client r)) t)"

lemma create_cases:
  assumes "createAdminCorrectionAnnotation x now i q actorId d t = Inr (n, t')"
  obtains (replayed) actor where "ensureAnnotationText 160 (JStr actorId) = Inr actor" "existingAnnotation actor (nq_client q) t = Some n"
      "sameAnnotationPayload n actor q" "t' = t"
  | (fresh) actor r where "ensureAnnotationText 160 (JStr actorId) = Inr actor" "existingAnnotation actor (nq_client q) t = None"
      "resolved_for x q d = Inr r" "n = new_annotation now i actor q r" "t' = t @ [n]"
  using assms by (auto simp: createAdminCorrectionAnnotation_def rbind_Inr_iff Let_def split: option.splits)

lemma existing_Some:
  "existingAnnotation actor client t = Some r \<Longrightarrow> r \<in> set t \<and> nr_actor r = actor \<and> nr_client r = client"
  by (auto simp: existingAnnotation_def dest: first_where_Some)

lemma existing_None: "existingAnnotation actor client t = None \<Longrightarrow> (actor, client) \<notin> (\<lambda>r. (nr_actor r, nr_client r)) ` set t"
  by (auto simp: existingAnnotation_def first_where_None)

lemma annotate_keeps:
  assumes "annotate_step t t'" and "annotations_ok t"
  shows "annotations_ok t' \<and> (\<exists>u. t' = t @ u)"
  using assms(1)
proof cases
  case (annotate x now i q actor d n)
  then show ?thesis
  proof (cases rule: create_cases)
    case replayed
    then show ?thesis using assms(2) by simp
  next
    case (fresh a r)
    then show ?thesis using assms(2) existing_None [OF fresh(2)] by (auto simp: annotations_ok_def new_annotation_def)
  qed
qed

lemma annotations_grow: "annotate_step\<^sup>*\<^sup>* t t' \<Longrightarrow> annotations_ok t \<Longrightarrow> annotations_ok t' \<and> (\<exists>u. t' = t @ u)"
  by (induction rule: rtranclp_induct) (auto dest: annotate_keeps)

lemma existing_later:
  assumes "existingAnnotation actor client t = Some r"
  shows "existingAnnotation actor client (t @ u) = Some r"
  using assms by (induction t) (auto simp: existingAnnotation_def)

subsection \<open>Replay\<close>

text \<open>
  C32: a request id of an operator names one note for ever: after a note was made, whatever other requests did in
  between, the same id either gives back exactly that note and changes nothing, or is refused because its content
  differs; it never makes a second note.
\<close>

theorem annotation_requests_are_idempotent:
  assumes "annotations_ok t" and "createAdminCorrectionAnnotation x now i q actor d t = Inr (n, t1)" and "annotate_step\<^sup>*\<^sup>* t1 t2"
    and "nq_client q' = nq_client q" and "createAdminCorrectionAnnotation x' now' i' q' actor d' t2 = y"
  shows "y = Inr (n, t2) \<and> sameAnnotationPayload n (nr_actor n) q' \<or> y = Inl (409, ''ANNOTATION_REQUEST_CONFLICT'')
    \<or> y = Inl (503, ''ANNOTATION_SCHEMA_UNAVAILABLE'')"
proof -
  obtain a where a: "ensureAnnotationText 160 (JStr actor) = Inr a" "existingAnnotation a (nq_client q) t1 = Some n" "nr_actor n = a"
    using assms(2)
  proof (cases rule: create_cases)
    case (replayed a)
    then show thesis using that existing_Some by auto
  next
    case (fresh a r)
    have "existingAnnotation a (nq_client q) (t @ [n]) = Some n"
      using fresh(2,4) by (induction t) (auto simp: existingAnnotation_def new_annotation_def split: if_splits)
    then show thesis using that fresh by (simp add: new_annotation_def)
  qed
  have "annotate_step t t1" using assms(2) by (rule annotate)
  then have "annotations_ok t1" using annotate_keeps assms(1) by blast
  then obtain u where "t2 = t1 @ u" using annotations_grow [OF assms(3)] by blast
  then have e: "existingAnnotation a (nq_client q') t2 = Some n" using existing_later a(2) assms(4) by simp
  show ?thesis using assms(5) [symmetric] a e
    by (auto simp: createAdminCorrectionAnnotation_def guard_def)
qed

definition sample_note :: annotation_request where
  "sample_note = \<lparr>nq_client = ''c1'', nq_subject = SOURCE_SPEND, nq_subjectId = ''s1'', nq_ref = REF_CASE, nq_reference = ''case 7'',
     nq_reason = ''checked''\<rparr>"

definition sample_tables :: evidence_tables where
  "sample_tables = \<lparr>yt_source = (\<lambda>_. True), yt_users = True, yt_annotations = True\<rparr>"

definition sample_spends :: db where
  "sample_spends = empty_db\<lparr>t_spends := [\<lparr>sp_id = ''s1'', sp_user_id = ''u'', sp_wallet = ''0xb2'', sp_amount = 300, sp_tx_hash = ''h'',
     sp_session_id = None, sp_status = ''confirmed'', sp_error = None, sp_confirmed_at = 1, sp_created = 1\<rparr>]\<rparr>"

theorem annotation_requests_are_idempotent_witness:
  "\<exists>n. createAdminCorrectionAnnotation sample_tables 5 ''n1'' sample_note ''admin'' sample_spends [] = Inr (n, [n])
    \<and> createAdminCorrectionAnnotation sample_tables 6 ''n2'' (sample_note\<lparr>nq_reason := ''other''\<rparr>) ''admin'' sample_spends [n]
        = Inl (409, ''ANNOTATION_REQUEST_CONFLICT'')"
proof -
  define n where "n = new_annotation 5 ''n1'' ''admin'' sample_note case_reference"
  have a: "ensureAnnotationText 160 (JStr ''admin'') = Inr ''admin''" by code_simp
  have r: "resolved_for sample_tables sample_note sample_spends = Inr case_reference"
    by (simp add: resolved_for_def targetContext_def sample_tables_def sample_note_def sample_spends_def of_option_def rbind_def guard_def)
  have run: "createAdminCorrectionAnnotation sample_tables 5 ''n1'' sample_note ''admin'' sample_spends [] = Inr (n, [n])"
    using a r by (simp add: createAdminCorrectionAnnotation_def existingAnnotation_def n_def Let_def rbind_def guard_def sample_tables_def)
  let ?y = "createAdminCorrectionAnnotation sample_tables 6 ''n2'' (sample_note\<lparr>nq_reason := ''other''\<rparr>) ''admin'' sample_spends [n]"
  have "?y = Inr (n, [n]) \<and> sameAnnotationPayload n (nr_actor n) (sample_note\<lparr>nq_reason := ''other''\<rparr>)
      \<or> ?y = Inl (409, ''ANNOTATION_REQUEST_CONFLICT'') \<or> ?y = Inl (503, ''ANNOTATION_SCHEMA_UNAVAILABLE'')"
    by (rule annotation_requests_are_idempotent [OF _ run rtranclp.rtrancl_refl]) (simp_all add: annotations_ok_def)
  moreover have "\<not> sameAnnotationPayload n (nr_actor n) (sample_note\<lparr>nq_reason := ''other''\<rparr>)"
    by (simp add: sameAnnotationPayload_def n_def new_annotation_def sample_note_def)
  moreover have e: "existingAnnotation ''admin'' (nq_client (sample_note\<lparr>nq_reason := ''other''\<rparr>)) [n] = Some n"
    by (simp add: existingAnnotation_def n_def new_annotation_def)
  have "?y \<noteq> Inl (503, ''ANNOTATION_SCHEMA_UNAVAILABLE'')"
    using a e by (auto simp: createAdminCorrectionAnnotation_def sample_tables_def rbind_def guard_def)
  ultimately show ?thesis using run by blast
qed

end
