(* ===== verification/Alerts.thy ===== *)
theory Alerts
  imports Evidence Receipt PublicFailure Projections
begin

text \<open>
  Alerts to the administrators: the settings row, the delivery by mail or webhook and what an alert discloses
  (\<open>src/adminAlerts.ts\<close>), the audit log that raises them and the pilot metrics read from it
  (\<open>src/api.ts\<close>). The URL parser and the answer of the network are parameters; a request that is sent is a
  value, so that what leaves the process can be stated.
\<close>

datatype alert_channel = AC_EMAIL | AC_WEBHOOK | AC_BOTH | AC_DISABLED

definition alert_channel_text :: "alert_channel \<Rightarrow> string" where
  "alert_channel_text c = (case c of AC_EMAIL \<Rightarrow> ''email'' | AC_WEBHOOK \<Rightarrow> ''webhook'' | AC_BOTH \<Rightarrow> ''both''
     | AC_DISABLED \<Rightarrow> ''disabled'')"

definition channel_named :: "string \<Rightarrow> alert_channel option" where
  "channel_named t = (if t = ''email'' then Some AC_EMAIL else if t = ''webhook'' then Some AC_WEBHOOK
     else if t = ''both'' then Some AC_BOTH else if t = ''disabled'' then Some AC_DISABLED else None)"

text \<open>The environment of the process.\<close>

record alert_variables =
  ax_recipients :: "string option list"
  ax_channel :: "string option"
  ax_webhook :: "string option"
  ax_key :: "string option"
  ax_from :: "string option"

text \<open>\<open>value?.trim()\<close>, nothing when that is empty.\<close>

definition trimmed :: "string option \<Rightarrow> string option" where
  "trimmed v = nonempty (map_option js_trim v)"

subsection \<open>Settings\<close>

text \<open>\<open>/^[^\s@]+@[^\s@]+\.[^\s@]+$/\<close>: a dot inside the domain, neither its first nor its last character.\<close>

definition mail_char :: "char \<Rightarrow> bool" where
  "mail_char c \<longleftrightarrow> \<not> js_space c \<and> c \<noteq> CHR ''@''"

definition EMAIL_PATTERN :: "string \<Rightarrow> bool" where
  "EMAIL_PATTERN t =
     (case split_first (CHR ''@'') t of
        (user, Some domain) \<Rightarrow> user \<noteq> [] \<and> list_all mail_char user \<and> list_all mail_char domain
          \<and> CHR ''.'' \<in> set (butlast (tl domain))
      | _ \<Rightarrow> False)"

definition isEmailAddress :: "string \<Rightarrow> bool" where
  "isEmailAddress t \<longleftrightarrow> length t \<le> 320 \<and> EMAIL_PATTERN t"

definition normal_mail :: "string \<Rightarrow> string" where
  "normal_mail t = js_lower (js_trim t)"

definition getDefaultAdminAlertRecipient :: "alert_variables \<Rightarrow> string" where
  "getDefaultAdminAlertRecipient x =
     (case filter isEmailAddress (map normal_mail (List.map_filter id (ax_recipients x))) of
        t # _ \<Rightarrow> t | [] \<Rightarrow> ''admin@example.com'')"

definition getDefaultAdminAlertChannel :: "alert_variables \<Rightarrow> alert_channel" where
  "getDefaultAdminAlertChannel x =
     (case Option.bind (map_option js_trim (ax_channel x)) channel_named of
        Some c \<Rightarrow> c | None \<Rightarrow> if trimmed (ax_webhook x) \<noteq> None then AC_WEBHOOK else AC_EMAIL)"

record alert_settings =
  as_recipient :: string
  as_channel :: alert_channel
  as_updatedAt :: string

text \<open>A stored time: a \<open>Date\<close>, perhaps an invalid one, or a text.\<close>

datatype row_time = Row_Date "int option" | Row_Text string

record alert_row =
  al_recipient :: string
  al_channel :: string
  al_updated :: row_time

text \<open>\<open>AdminAlertSettingsError\<close> with its code and message, or an error of the database.\<close>

datatype alert_error = Settings_Error string string | Store_Unavailable

definition normalizeAdminAlertEmail :: "jsv \<Rightarrow> alert_error + string" where
  "normalizeAdminAlertEmail v =
     (let refused = Settings_Error ''INVALID_ADMIN_ALERT_RECIPIENT'' ''recipientEmail must be a valid email address'' in
      case v of
        JStr s \<Rightarrow> if isEmailAddress (normal_mail s) then Inr (normal_mail s) else Inl refused
      | _ \<Rightarrow> Inl refused)"

definition parseAdminAlertChannel :: "jsv \<Rightarrow> alert_error + alert_channel" where
  "parseAdminAlertChannel v =
     of_option (Settings_Error ''INVALID_ADMIN_ALERT_CHANNEL'' ''channel must be email, webhook, both, or disabled'')
       (case v of JStr s \<Rightarrow> channel_named s | _ \<Rightarrow> None)"

record alert_patch =
  pa_recipient :: "string option"
  pa_channel :: "alert_channel option"

text \<open>A property of the body is checked only when the body has it.\<close>

definition own_property :: "js_object \<Rightarrow> string \<Rightarrow> (jsv \<Rightarrow> 'e + 'a) \<Rightarrow> 'e + 'a option" where
  "own_property ob k check = (if k \<in> fst ` set ob then rbind (check (field ob k)) (\<lambda>a. Inr (Some a)) else Inr None)"

definition validateAdminAlertSettingsPatch :: "jsv \<Rightarrow> alert_error + alert_patch" where
  "validateAdminAlertSettingsPatch body =
     rbind (of_option (Settings_Error ''INVALID_ADMIN_ALERT_SETTINGS_BODY'' ''Alert settings must be an object'') (as_object body)) (\<lambda>ob.
     let unknown = filter (\<lambda>k. k \<noteq> ''recipientEmail'' \<and> k \<noteq> ''channel'') (map fst ob) in
     rbind (guard (unknown = []) (Settings_Error ''INVALID_ADMIN_ALERT_SETTINGS_FIELD''
       (''Unsupported alert setting field(s): '' @ join_with '', '' unknown))) (\<lambda>_.
     rbind (guard (ob \<noteq> []) (Settings_Error ''INVALID_ADMIN_ALERT_SETTINGS_BODY'' ''Provide recipientEmail or channel'')) (\<lambda>_.
     rbind (own_property ob ''recipientEmail'' normalizeAdminAlertEmail) (\<lambda>r.
     rbind (own_property ob ''channel'' parseAdminAlertChannel) (\<lambda>c. Inr \<lparr>pa_recipient = r, pa_channel = c\<rparr>)))))"

definition isoUpdatedAt :: "(string \<Rightarrow> int option) \<Rightarrow> row_time \<Rightarrow> alert_error + string" where
  "isoUpdatedAt legacy v =
     rbind (of_option (Settings_Error ''INVALID_ADMIN_ALERT_SETTINGS'' ''Persisted alert settings have an invalid timestamp'')
       (case v of Row_Date t \<Rightarrow> t | Row_Text s \<Rightarrow> date_of legacy s)) (\<lambda>t. Inr (iso_text t))"

definition settingsFromRow :: "(string \<Rightarrow> int option) \<Rightarrow> alert_row option \<Rightarrow> alert_error + alert_settings option" where
  "settingsFromRow legacy row =
     (case row of
        None \<Rightarrow> Inr None
      | Some r \<Rightarrow>
          rbind (normalizeAdminAlertEmail (JStr (al_recipient r))) (\<lambda>m.
          rbind (parseAdminAlertChannel (JStr (al_channel r))) (\<lambda>c.
          rbind (isoUpdatedAt legacy (al_updated r)) (\<lambda>t.
          Inr (Some \<lparr>as_recipient = m, as_channel = c, as_updatedAt = t\<rparr>)))))"

text \<open>The one row of the table, and whether the database answers.\<close>

record alert_store =
  sr_row :: "alert_row option"
  sr_answers :: bool

definition not_initialized :: alert_error where
  "not_initialized = Settings_Error ''ADMIN_ALERT_SETTINGS_NOT_INITIALIZED''
     ''Admin alert settings are not initialized; run the additive database migration''"

definition loadAdminAlertSettings :: "(string \<Rightarrow> int option) \<Rightarrow> alert_store \<Rightarrow> alert_error + alert_settings" where
  "loadAdminAlertSettings legacy s =
     rbind (guard (sr_answers s) Store_Unavailable) (\<lambda>_.
     rbind (settingsFromRow legacy (sr_row s)) (of_option not_initialized))"

text \<open>The transaction of the repository: lock, check, write.\<close>

definition update_row :: "(string \<Rightarrow> int option) \<Rightarrow> int \<Rightarrow> alert_patch \<Rightarrow> alert_row option \<Rightarrow> alert_error + alert_row" where
  "update_row legacy now p row =
     (case row of
        None \<Rightarrow> Inl not_initialized
      | Some _ \<Rightarrow>
          rbind (rbind (settingsFromRow legacy row)
            (of_option (Settings_Error ''INVALID_ADMIN_ALERT_SETTINGS'' ''Admin alert settings are missing''))) (\<lambda>s.
          Inr \<lparr>al_recipient = (case nonempty (pa_recipient p) of Some m \<Rightarrow> m | None \<Rightarrow> as_recipient s),
               al_channel = alert_channel_text (case pa_channel p of Some c \<Rightarrow> c | None \<Rightarrow> as_channel s),
               al_updated = Row_Date (Some now)\<rparr>))"

definition updateAdminAlertSettings ::
    "(string \<Rightarrow> int option) \<Rightarrow> int \<Rightarrow> jsv \<Rightarrow> alert_store \<Rightarrow> (alert_error + alert_settings) \<times> alert_store" where
  "updateAdminAlertSettings legacy now body s =
     (case rbind (validateAdminAlertSettingsPatch body) (\<lambda>p.
           rbind (guard (sr_answers s) Store_Unavailable) (\<lambda>_. update_row legacy now p (sr_row s))) of
        Inl e \<Rightarrow> (Inl e, s)
      | Inr r \<Rightarrow>
          (rbind (settingsFromRow legacy (Some r))
             (of_option (Settings_Error ''ADMIN_ALERT_SETTINGS_WRITE_FAILED'' ''Admin alert settings could not be saved'')),
           s\<lparr>sr_row := Some r\<rparr>))"

subsection \<open>Configuration\<close>

definition key_configured :: "alert_variables \<Rightarrow> bool" where
  "key_configured x \<longleftrightarrow> trimmed (ax_key x) \<noteq> None"

definition from_configured :: "alert_variables \<Rightarrow> bool" where
  "from_configured x \<longleftrightarrow> (case nonempty (ax_from x) of None \<Rightarrow> False | Some t \<Rightarrow> isEmailAddress (normal_mail t))"

definition mail_configured :: "alert_variables \<Rightarrow> bool" where
  "mail_configured x \<longleftrightarrow> key_configured x \<and> from_configured x"

record alert_configuration =
  ac_settings :: alert_settings
  ac_email :: bool
  ac_webhook :: bool
  ac_canDeliver :: bool
  ac_incomplete :: bool

definition getAdminAlertConfiguration ::
    "(string \<Rightarrow> int option) \<Rightarrow> alert_variables \<Rightarrow> alert_store \<Rightarrow> alert_error + alert_configuration" where
  "getAdminAlertConfiguration legacy x s =
     rbind (loadAdminAlertSettings legacy s) (\<lambda>settings.
       let email = mail_configured x; webhook = (trimmed (ax_webhook x) \<noteq> None) in
       Inr \<lparr>ac_settings = settings, ac_email = email, ac_webhook = webhook,
            ac_canDeliver = (case as_channel settings of AC_DISABLED \<Rightarrow> False | AC_EMAIL \<Rightarrow> email | AC_WEBHOOK \<Rightarrow> webhook
              | AC_BOTH \<Rightarrow> email \<and> webhook),
            ac_incomplete = (as_channel settings = AC_BOTH \<and> \<not> (email \<and> webhook))\<rparr>)"

subsection \<open>What an alert discloses\<close>

definition SAFE_METADATA_KEYS :: "string list" where
  "SAFE_METADATA_KEYS =
     [''amount'', ''requestedAmount'', ''eMAID'', ''emaid'', ''contractId'', ''contract_id'', ''sessionId'', ''providerId'',
      ''operationKey'', ''reservationId'', ''txHash'', ''transactionHash'', ''awardTxHash'', ''reservationTxHash'',
      ''fundingTxHash'', ''funding_tx_hash'', ''receiptId'', ''stage'', ''failureStage'', ''failure_stage'', ''movementOutcome'',
      ''movement_outcome'', ''errorCode'', ''error_code'', ''protocol'', ''sourceField'', ''energyDirection'', ''requestedAt'']"

definition SAFE_DIAGNOSTIC_KEYS :: "string list" where
  "SAFE_DIAGNOSTIC_KEYS =
     [''stage'', ''rpcMethod'', ''rpcCode'', ''providerCode'', ''httpStatus'', ''traceId'', ''requestId'', ''rpcEndpoint'',
      ''endpointLabel'', ''savedHash'', ''nonce'', ''retryable'', ''errorCode'']"

definition diagnostic_key :: "string \<Rightarrow> bool" where
  "diagnostic_key k \<longleftrightarrow> k = ''diagnostic'' \<or> k = ''diagnostics'' \<or> k = ''diagnostic_context''"

definition alert_control :: "char \<Rightarrow> bool" where
  "alert_control c \<longleftrightarrow> of_char c < (32 :: nat) \<or> of_char c = (127 :: nat)"

definition safeScalar :: "jsv \<Rightarrow> jsv" where
  "safeScalar v =
     (case v of
        JStr s \<Rightarrow> JStr (take 180 (js_trim (map (\<lambda>c. if alert_control c then CHR '' '' else c) s)))
      | JNum n \<Rightarrow> if is_finite n then JNum n else JNull
      | JBool b \<Rightarrow> JBool b
      | _ \<Rightarrow> JNull)"

text \<open>\<open>result[key] = safe\<close>, unless the value had to be left out.\<close>

definition put_safe :: "string \<Rightarrow> jsv \<Rightarrow> js_object \<Rightarrow> js_object" where
  "put_safe k v ob = (if safeScalar v \<noteq> JNull \<or> v = JNull then put_field ob k (safeScalar v) else ob)"

definition safeDiagnostic :: "jsv \<Rightarrow> js_object option" where
  "safeDiagnostic v =
     (case as_object v of
        None \<Rightarrow> None
      | Some items \<Rightarrow>
          (let result = fold (\<lambda>(k, i). if k \<in> set SAFE_DIAGNOSTIC_KEYS then put_safe k i else id) items [] in
           if result = [] then None else Some result))"

definition put_metadata :: "string \<times> jsv \<Rightarrow> js_object \<Rightarrow> js_object" where
  "put_metadata kv ob =
     (case kv of (k, v) \<Rightarrow>
        if diagnostic_key k
        then (case safeDiagnostic v of None \<Rightarrow> ob | Some g \<Rightarrow> put_field ob ''diagnostic'' (JObj g))
        else if k \<in> set SAFE_METADATA_KEYS then put_safe k v ob else ob)"

definition MAX_METADATA_LENGTH :: nat where "MAX_METADATA_LENGTH = 8000"

definition safeMetadata :: "js_object option \<Rightarrow> js_object" where
  "safeMetadata m =
     (let result = fold put_metadata (case m of None \<Rightarrow> [] | Some ob \<Rightarrow> ob) [] in
      if length (Receipt.json_stringify (JObj result)) \<le> MAX_METADATA_LENGTH then result
      else [(''notice'', JStr ''Alert metadata truncated for privacy'')])"

record alert_event =
  ev_type :: string
  ev_actorType :: string
  ev_actorId :: "string option"
  ev_targetType :: "string option"
  ev_targetId :: "string option"
  ev_status :: string
  ev_metadata :: "js_object option"

definition alertPayload :: "int \<Rightarrow> alert_event \<Rightarrow> string \<Rightarrow> js_object" where
  "alertPayload now e recipient =
     [(''to'', JStr recipient), (''subject'', JStr (''NEVERFLAT '' @ ev_status e @ '': '' @ ev_type e)),
      (''eventType'', JStr (ev_type e)), (''status'', JStr (ev_status e)), (''actorType'', JStr (ev_actorType e)),
      (''actorId'', nullable (ev_actorId e)), (''targetType'', nullable (ev_targetType e)),
      (''targetId'', nullable (ev_targetId e)), (''metadata'', JObj (safeMetadata (ev_metadata e))),
      (''createdAt'', JStr (iso_text now))]"

definition textBody :: "js_object \<Rightarrow> string" where
  "textBody p =
     join_with [CHR 10]
       [''NEVERFLAT admin alert'',
        ''Event: '' @ js_string (field p ''eventType''),
        ''Status: '' @ js_string (field p ''status''),
        js_trim (''Target: '' @ js_string (js_or (field p ''targetType'') (JStr ''none'')) @ '' ''
          @ js_string (js_or (field p ''targetId'') (JStr []))),
        ''Created: '' @ js_string (field p ''createdAt''),
        ''Metadata: '' @ Receipt.json_stringify (field p ''metadata'')]"

subsection \<open>Delivery\<close>

datatype delivery_reason =
    Alert_Channel_Disabled | Email_Not_Configured | Webhook_Not_Configured | Request_Failed | Redirect_Blocked
  | Non_Success_Response | Settings_Unavailable

definition delivery_reason_text :: "delivery_reason \<Rightarrow> string" where
  "delivery_reason_text r = (case r of
      Alert_Channel_Disabled \<Rightarrow> ''alert_channel_disabled'' | Email_Not_Configured \<Rightarrow> ''email_provider_not_configured''
    | Webhook_Not_Configured \<Rightarrow> ''webhook_not_configured'' | Request_Failed \<Rightarrow> ''request_failed''
    | Redirect_Blocked \<Rightarrow> ''redirect_blocked'' | Non_Success_Response \<Rightarrow> ''non_success_response''
    | Settings_Unavailable \<Rightarrow> ''settings_unavailable'')"

datatype delivery_via = VIA_EMAIL | VIA_WEBHOOK

datatype delivery_status = DL_ACCEPTED | DL_SKIPPED | DL_FAILED

record channel_delivery =
  cd_channel :: delivery_via
  cd_status :: delivery_status
  cd_provider :: bool
  cd_httpStatus :: "nat option"
  cd_reason :: "delivery_reason option"

definition not_accepted :: "delivery_via \<Rightarrow> delivery_status \<Rightarrow> nat option \<Rightarrow> delivery_reason \<Rightarrow> channel_delivery" where
  "not_accepted c s h r = \<lparr>cd_channel = c, cd_status = s, cd_provider = True, cd_httpStatus = h, cd_reason = Some r\<rparr>"

definition provider_accepted :: "delivery_via \<Rightarrow> nat \<Rightarrow> channel_delivery" where
  "provider_accepted c h = \<lparr>cd_channel = c, cd_status = DL_ACCEPTED, cd_provider = True, cd_httpStatus = Some h, cd_reason = None\<rparr>"

text \<open>A request that leaves the process: its address, its bearer token if any, and its JSON body.\<close>

record alert_request =
  rq_url :: string
  rq_bearer :: "string option"
  rq_body :: jsv

text \<open>
  The world outside: \<open>new URL(text)\<close> as protocol and address, and the status of the answer to a request, \<open>None\<close>
  when it fails or times out.
\<close>

record alert_world =
  aw_url :: "string \<Rightarrow> (string \<times> string) option"
  aw_fetch :: "alert_request \<Rightarrow> nat option"

definition SENDGRID_MAIL_SEND_URL :: string where
  "SENDGRID_MAIL_SEND_URL = ''https://api.sendgrid.com/v3/mail/send''"

definition redirected :: "nat \<Rightarrow> bool" where
  "redirected h \<longleftrightarrow> 300 \<le> h \<and> h < 400"

definition mail_body :: "alert_variables \<Rightarrow> string \<Rightarrow> js_object \<Rightarrow> jsv" where
  "mail_body x recipient payload = JObj
     [(''personalizations'', JArr [JObj [(''to'', JArr [JObj [(''email'', JStr recipient)]])]]),
      (''from'', JObj [(''email'', JStr (normal_mail (the (ax_from x))))]),
      (''subject'', JStr (js_string (field payload ''subject''))),
      (''content'', JArr [JObj [(''type'', JStr ''text/plain''), (''value'', JStr (textBody payload))]])]"

definition mail_request :: "alert_variables \<Rightarrow> int \<Rightarrow> alert_event \<Rightarrow> string \<Rightarrow> alert_request" where
  "mail_request x now e recipient =
     \<lparr>rq_url = SENDGRID_MAIL_SEND_URL, rq_bearer = trimmed (ax_key x), rq_body = mail_body x recipient (alertPayload now e recipient)\<rparr>"

definition sendSendGridEmail ::
    "alert_world \<Rightarrow> alert_variables \<Rightarrow> int \<Rightarrow> alert_event \<Rightarrow> string \<Rightarrow> channel_delivery \<times> alert_request list" where
  "sendSendGridEmail w x now e recipient =
     (if \<not> mail_configured x then (not_accepted VIA_EMAIL DL_SKIPPED None Email_Not_Configured, [])
      else let q = mail_request x now e recipient in
        (case aw_fetch w q of
           None \<Rightarrow> not_accepted VIA_EMAIL DL_FAILED None Request_Failed
         | Some h \<Rightarrow>
             if redirected h then not_accepted VIA_EMAIL DL_FAILED (Some h) Redirect_Blocked
             else if h = 202 then provider_accepted VIA_EMAIL h
             else not_accepted VIA_EMAIL DL_FAILED (Some h) Non_Success_Response, [q]))"

definition web_request :: "string \<Rightarrow> int \<Rightarrow> alert_event \<Rightarrow> string \<Rightarrow> alert_request" where
  "web_request url now e recipient = \<lparr>rq_url = url, rq_bearer = None, rq_body = JObj (alertPayload now e recipient)\<rparr>"

definition sendWebhook ::
    "alert_world \<Rightarrow> alert_variables \<Rightarrow> int \<Rightarrow> alert_event \<Rightarrow> string \<Rightarrow> channel_delivery \<times> alert_request list" where
  "sendWebhook w x now e recipient =
     (case trimmed (ax_webhook x) of
        None \<Rightarrow> (not_accepted VIA_WEBHOOK DL_SKIPPED None Webhook_Not_Configured, [])
      | Some raw \<Rightarrow>
          (case aw_url w raw of
             None \<Rightarrow> (not_accepted VIA_WEBHOOK DL_FAILED None Request_Failed, [])
           | Some (scheme, url) \<Rightarrow>
               if scheme \<noteq> ''https:'' \<and> scheme \<noteq> ''http:''
               then (not_accepted VIA_WEBHOOK DL_FAILED None Request_Failed, [])
               else let q = web_request url now e recipient in
                 (case aw_fetch w q of
                    None \<Rightarrow> not_accepted VIA_WEBHOOK DL_FAILED None Request_Failed
                  | Some h \<Rightarrow>
                      if redirected h then not_accepted VIA_WEBHOOK DL_FAILED (Some h) Redirect_Blocked
                      else if 200 \<le> h \<and> h < 300 then provider_accepted VIA_WEBHOOK h
                      else not_accepted VIA_WEBHOOK DL_FAILED (Some h) Non_Success_Response, [q])))"

datatype alert_status = ALERT_SENT | ALERT_SKIPPED | ALERT_FAILED

record delivery_result =
  dr_status :: alert_status
  dr_accepted :: bool
  dr_partial :: bool
  dr_channels :: "channel_delivery list"

definition nothing_delivered :: "delivery_reason \<Rightarrow> delivery_result" where
  "nothing_delivered r = \<lparr>dr_status = ALERT_SKIPPED, dr_accepted = False, dr_partial = False,
     dr_channels = [\<lparr>cd_channel = VIA_EMAIL, cd_status = DL_SKIPPED, cd_provider = False, cd_httpStatus = None, cd_reason = Some r\<rparr>]\<rparr>"

definition some_channel :: "delivery_status \<Rightarrow> channel_delivery list \<Rightarrow> bool" where
  "some_channel s cs \<longleftrightarrow> filter (\<lambda>c. cd_status c = s) cs \<noteq> []"

definition summary_of :: "channel_delivery list \<Rightarrow> delivery_result" where
  "summary_of cs =
     \<lparr>dr_status = (if some_channel DL_FAILED cs then ALERT_FAILED else if some_channel DL_ACCEPTED cs then ALERT_SENT else ALERT_SKIPPED),
      dr_accepted = some_channel DL_ACCEPTED cs,
      dr_partial = ((some_channel DL_FAILED cs \<or> some_channel DL_SKIPPED cs) \<and> some_channel DL_ACCEPTED cs),
      dr_channels = cs\<rparr>"

definition dispatchAdminAlert ::
    "alert_world \<Rightarrow> (string \<Rightarrow> int option) \<Rightarrow> alert_variables \<Rightarrow> int \<Rightarrow> alert_event \<Rightarrow> alert_store \<Rightarrow> delivery_result \<times> alert_request list" where
  "dispatchAdminAlert w legacy x now e s =
     (case getAdminAlertConfiguration legacy x s of
        Inl _ \<Rightarrow> (nothing_delivered Settings_Unavailable, [])
      | Inr c \<Rightarrow>
          (let channel = as_channel (ac_settings c); recipient = as_recipient (ac_settings c) in
           if channel = AC_DISABLED then (nothing_delivered Alert_Channel_Disabled, [])
           else let runs =
               (if channel = AC_EMAIL \<or> channel = AC_BOTH then [sendSendGridEmail w x now e recipient] else [])
               @ (if channel = AC_WEBHOOK \<or> channel = AC_BOTH then [sendWebhook w x now e recipient] else []) in
             (summary_of (map fst runs), concat (map snd runs))))"

subsection \<open>The audit log\<close>

text \<open>The same test stands in both files.\<close>

definition shouldAlertAdminEvent :: "string \<Rightarrow> string \<Rightarrow> bool" where
  "shouldAlertAdminEvent type status \<longleftrightarrow>
     (if starts_with ''admin_alert.'' type then False
      else if status = ''warning'' \<or> status = ''retry_required'' \<or> status = ''requires_review'' then True
      else status = ''error'' \<and> (has_part type ''failed'' \<or> has_part type ''unhandled_error'' \<or> type = ''reconciliation.balance_run''))"

definition via_text :: "delivery_via \<Rightarrow> string" where
  "via_text c = (case c of VIA_EMAIL \<Rightarrow> ''email'' | VIA_WEBHOOK \<Rightarrow> ''webhook'')"

definition provider_text :: "delivery_via \<Rightarrow> string" where
  "provider_text c = (case c of VIA_EMAIL \<Rightarrow> ''sendgrid'' | VIA_WEBHOOK \<Rightarrow> ''webhook'')"

definition delivery_status_text :: "delivery_status \<Rightarrow> string" where
  "delivery_status_text s = (case s of DL_ACCEPTED \<Rightarrow> ''accepted'' | DL_SKIPPED \<Rightarrow> ''skipped'' | DL_FAILED \<Rightarrow> ''failed'')"

definition channel_value :: "channel_delivery \<Rightarrow> jsv" where
  "channel_value c = JObj
     ([(''channel'', JStr (via_text (cd_channel c))), (''status'', JStr (delivery_status_text (cd_status c)))]
      @ (if cd_provider c then [(''provider'', JStr (provider_text (cd_channel c)))] else [])
      @ (case cd_httpStatus c of Some h \<Rightarrow> if h = 0 then [] else [(''httpStatus'', JNum (Fin (of_nat h)))] | None \<Rightarrow> [])
      @ (case cd_reason c of Some r \<Rightarrow> [(''reason'', JStr (delivery_reason_text r))] | None \<Rightarrow> []))"

definition delivery_audit :: "alert_event \<Rightarrow> delivery_result \<Rightarrow> audit_row" where
  "delivery_audit e r =
     \<lparr>au_event_type = (case dr_status r of ALERT_SENT \<Rightarrow> ''admin_alert.delivered'' | ALERT_FAILED \<Rightarrow> ''admin_alert.delivery_failed''
        | ALERT_SKIPPED \<Rightarrow> ''admin_alert.delivery_skipped''),
      au_actor_type = ''system'', au_actor_id = Some ''api'', au_target_type = ev_targetType e, au_target_id = ev_targetId e,
      au_status = (case dr_status r of ALERT_SENT \<Rightarrow> ''success'' | ALERT_FAILED \<Rightarrow> ''error'' | ALERT_SKIPPED \<Rightarrow> ''warning''),
      au_metadata = [(''sourceEventType'', JStr (ev_type e)), (''sourceStatus'', JStr (ev_status e)),
        (''providerAccepted'', JBool (dr_accepted r)), (''partialFailure'', JBool (dr_partial r)),
        (''channels'', JArr (map channel_value (dr_channels r)))],
      au_created = 0\<rparr>"

text \<open>Writing to the audit log: the time of the write, and whether the database takes it.\<close>

definition write_audit :: "int option \<Rightarrow> audit_row \<Rightarrow> db \<Rightarrow> db" where
  "write_audit slot a d = (case slot of None \<Rightarrow> d | Some now \<Rightarrow> snd (createAudit now a d))"

record alert_answer =
  aa_status :: alert_status
  aa_reason :: "delivery_reason option"
  aa_webhookStatus :: "nat option"
  aa_accepted :: bool
  aa_partial :: bool

definition channel_in :: "delivery_status \<Rightarrow> channel_delivery list \<Rightarrow> channel_delivery option" where
  "channel_in s cs = first_where (\<lambda>c. cd_status c = s) cs"

definition answer_of :: "delivery_result \<Rightarrow> alert_answer" where
  "answer_of r =
     \<lparr>aa_status = dr_status r,
      aa_reason = (case Option.bind (channel_in DL_FAILED (dr_channels r)) cd_reason of
          Some x \<Rightarrow> Some x | None \<Rightarrow> Option.bind (channel_in DL_SKIPPED (dr_channels r)) cd_reason),
      aa_webhookStatus = Option.bind (first_where (\<lambda>c. cd_channel c = VIA_WEBHOOK) (dr_channels r)) cd_httpStatus,
      aa_accepted = dr_accepted r, aa_partial = dr_partial r\<rparr>"

text \<open>
  The settings store of the alerts is read in the same database. When the process has no database yet, the dispatcher
  is given one that does not answer: the caller makes the same result of that.
\<close>

definition sendAdminAlert ::
    "alert_world \<Rightarrow> (string \<Rightarrow> int option) \<Rightarrow> alert_variables \<Rightarrow> int \<Rightarrow> int option \<Rightarrow> alert_event \<Rightarrow> alert_store \<Rightarrow> db
       \<Rightarrow> alert_answer \<times> alert_request list \<times> db" where
  "sendAdminAlert w legacy x now slot e s d =
     (case dispatchAdminAlert w legacy x now e s of (r, sent) \<Rightarrow> (answer_of r, sent, write_audit slot (delivery_audit e r) d))"

definition event_audit :: "alert_event \<Rightarrow> audit_row" where
  "event_audit e = \<lparr>au_event_type = ev_type e, au_actor_type = ev_actorType e, au_actor_id = ev_actorId e,
     au_target_type = ev_targetType e, au_target_id = ev_targetId e, au_status = ev_status e,
     au_metadata = (case ev_metadata e of None \<Rightarrow> [] | Some m \<Rightarrow> m), au_created = 0\<rparr>"

definition shouldAlertAdmin :: "alert_event \<Rightarrow> bool" where
  "shouldAlertAdmin e \<longleftrightarrow>
     (if starts_with ''admin_alert.'' (ev_type e) then False
      else if ev_status e = ''warning'' \<or> ev_status e = ''retry_required'' \<or> ev_status e = ''requires_review'' then True
      else ev_status e = ''error'' \<and> (has_part (ev_type e) ''failed'' \<or> has_part (ev_type e) ''unhandled_error''
        \<or> ev_type e = ''reconciliation.balance_run''))"

text \<open>The alert runs beside the caller; here it is run to its end.\<close>

definition safeAuditLog ::
    "alert_world \<Rightarrow> (string \<Rightarrow> int option) \<Rightarrow> alert_variables \<Rightarrow> int option \<Rightarrow> int \<Rightarrow> int option \<Rightarrow> alert_event \<Rightarrow> alert_store \<Rightarrow> db
       \<Rightarrow> alert_request list \<times> db" where
  "safeAuditLog w legacy x first now slot e s d =
     (case first of
        None \<Rightarrow> ([], d)
      | Some t \<Rightarrow>
          (let d1 = write_audit (Some t) (event_audit e) d in
           if shouldAlertAdmin e then snd (sendAdminAlert w legacy x now slot e s d1) else ([], d1)))"

subsection \<open>Pilot metrics\<close>

definition countMatching :: "(audit_row \<Rightarrow> bool) \<Rightarrow> audit_row list \<Rightarrow> nat" where
  "countMatching p events = length (filter p events)"

definition typed :: "string \<Rightarrow> audit_row \<Rightarrow> bool" where
  "typed k a \<longleftrightarrow> au_event_type a = k"

definition stated :: "string \<Rightarrow> audit_row \<Rightarrow> bool" where
  "stated s a \<longleftrightarrow> au_status a = s"

text \<open>\<open>counts[type] = (counts[type] || 0) + 1\<close>\<close>

fun count_up :: "string \<Rightarrow> (string \<times> nat) list \<Rightarrow> (string \<times> nat) list" where
  "count_up k [] = [(k, 1)]"
| "count_up k ((k', n) # m) = (if k' = k then (k, Suc n) # m else (k', n) # count_up k m)"

definition event_counts :: "audit_row list \<Rightarrow> (string \<times> nat) list" where
  "event_counts events = fold (\<lambda>a. count_up (au_event_type a)) events []"

definition count_for :: "(string \<times> nat) list \<Rightarrow> string \<Rightarrow> nat" where
  "count_for counts k = (case map_of counts k of None \<Rightarrow> 0 | Some n \<Rightarrow> n)"

definition boundedHours :: "js_number \<Rightarrow> rat" where
  "boundedHours hours = (case hours of Fin x \<Rightarrow> min (max x 1) 168 | _ \<Rightarrow> 24)"

text \<open>\<open>new Date(x)\<close> drops the fraction.\<close>

definition time_clip :: "js_number \<Rightarrow> int" where
  "time_clip x = (case x of Fin r \<Rightarrow> if 0 \<le> r then \<lfloor>r\<rfloor> else \<lceil>r\<rceil> | _ \<Rightarrow> 0)"

definition metrics_since :: "int \<Rightarrow> js_number \<Rightarrow> int" where
  "metrics_since now hours =
     time_clip (js_sub (Fin (of_int now))
       (js_mul (js_mul (js_mul (Fin (boundedHours hours)) (Fin 60)) (Fin 60)) (Fin 1000)))"

record pilot_metrics =
  pm_windowHours :: rat
  pm_since :: int
  pm_total :: nat
  pm_last :: "int option"
  pm_awards :: "nat list"
  pm_spends :: "nat list"
  pm_operations :: "nat list"
  pm_types :: "(string \<times> nat) list"

definition getPilotMetrics :: "int \<Rightarrow> js_number \<Rightarrow> db \<Rightarrow> pilot_metrics" where
  "getPilotMetrics now hours d =
     (let events = auditsSince d (metrics_since now hours) 5000 None None; types = event_counts events; n = count_for types;
          awards = (\<lambda>a. starts_with ''award.'' (au_event_type a)); spends = (\<lambda>a. starts_with ''spend.'' (au_event_type a)) in
      \<lparr>pm_windowHours = boundedHours hours, pm_since = metrics_since now hours, pm_total = length events,
       pm_last = (case events of [] \<Rightarrow> None | a # _ \<Rightarrow> Some (au_created a)),
       pm_awards = [n ''award.completed'', n ''award.not_eligible'', n ''award.duplicate'',
         countMatching (\<lambda>a. awards a \<and> stated ''error'' a) events],
       pm_spends = [n ''spend.completed'', n ''spend.custodial_recorded'', n ''spend.custodial_intent_created'',
         countMatching (\<lambda>a. spends a \<and> stated ''retry_required'' a) events, countMatching (\<lambda>a. spends a \<and> stated ''error'' a) events],
       pm_operations = [countMatching (stated ''warning'') events, countMatching (stated ''error'') events,
         countMatching (stated ''retry_required'') events, n ''admin_alert.delivered'', n ''admin_alert.delivery_skipped'',
         n ''reconciliation.balance_run''],
       pm_types = types\<rparr>)"

end
