(* ===== verification/AlertLaws.thy ===== *)
theory AlertLaws
  imports Alerts
begin

text \<open>
  Guarantees of the alerts: a message discloses only listed fields, what counts as sent was accepted, an alert never
  raises another one, and the settings that are saved are the settings that are read.
\<close>

subsection \<open>Fields\<close>

text \<open>What may be disclosed: short texts without control characters, finite numbers, truth values and null.\<close>

definition disclosed_scalar :: "jsv \<Rightarrow> bool" where
  "disclosed_scalar v = (case v of
      JStr s \<Rightarrow> length s \<le> 180 \<and> list_all (\<lambda>c. \<not> alert_control c) s
    | JNum n \<Rightarrow> is_finite n | JBool _ \<Rightarrow> True | JNull \<Rightarrow> True | _ \<Rightarrow> False)"

definition disclosed_diagnostic :: "js_object \<Rightarrow> bool" where
  "disclosed_diagnostic g \<longleftrightarrow> list_all (\<lambda>(k, v). k \<in> set SAFE_DIAGNOSTIC_KEYS \<and> disclosed_scalar v) g"

definition disclosed_entry :: "string \<times> jsv \<Rightarrow> bool" where
  "disclosed_entry kv \<longleftrightarrow> (case kv of (k, v) \<Rightarrow>
     k \<in> set SAFE_METADATA_KEYS \<and> disclosed_scalar v
     \<or> k = ''diagnostic'' \<and> (case v of JObj g \<Rightarrow> disclosed_diagnostic g | _ \<Rightarrow> False)
     \<or> kv = (''notice'', JStr ''Alert metadata truncated for privacy''))"

definition disclosed_metadata :: "js_object \<Rightarrow> bool" where
  "disclosed_metadata m \<longleftrightarrow> list_all disclosed_entry m \<and> length (Receipt.json_stringify (JObj m)) \<le> MAX_METADATA_LENGTH"

definition payload_keys :: "string list" where
  "payload_keys = [''to'', ''subject'', ''eventType'', ''status'', ''actorType'', ''actorId'', ''targetType'', ''targetId'',
     ''metadata'', ''createdAt'']"

definition disclosed_payload :: "string \<Rightarrow> js_object \<Rightarrow> bool" where
  "disclosed_payload recipient p \<longleftrightarrow> map fst p = payload_keys \<and> field p ''to'' = JStr recipient
     \<and> (case field p ''metadata'' of JObj m \<Rightarrow> disclosed_metadata m | _ \<Rightarrow> False)"

text \<open>The part of the metadata that has a listed name.\<close>

definition listed_part :: "js_object \<Rightarrow> js_object" where
  "listed_part m = filter (\<lambda>(k, v). diagnostic_key k \<or> k \<in> set SAFE_METADATA_KEYS) m"

lemma put_field_elim:
  assumes "x \<in> set (put_field ob k v)"
  shows "x \<in> set ob \<or> x = (k, v)"
  using assms by (auto simp: put_field_def split: if_splits)

lemma list_all_put_field: "list_all P ob \<Longrightarrow> P (k, v) \<Longrightarrow> list_all P (put_field ob k v)"
  unfolding list_all_iff using put_field_elim by metis

lemma put_field_not_Nil [simp]: "put_field ob k v \<noteq> []"
  by (auto simp: put_field_def)

lemma set_trim: "set (js_trim s) \<subseteq> set s"
  by (auto simp: js_trim_def dest!: set_dropWhileD)

lemma blank_not_control: "\<not> alert_control CHR '' ''"
  by code_simp

lemma safeScalar_disclosed: "disclosed_scalar (safeScalar v)"
proof (cases v)
  case (JStr s)
  define t where "t = map (\<lambda>c. if alert_control c then CHR '' '' else c) s"
  have t: "\<not> alert_control c" if "c \<in> set t" for c
    using that by (auto simp: t_def blank_not_control)
  have "c \<in> set t" if "c \<in> set (take 180 (js_trim t))" for c
    using that set_trim [of t] by (meson in_set_takeD subset_code(1))
  then have "list_all (\<lambda>c. \<not> alert_control c) (take 180 (js_trim t))"
    using t by (simp add: list_all_iff)
  then show ?thesis by (simp add: JStr safeScalar_def disclosed_scalar_def t_def)
qed (simp_all add: safeScalar_def disclosed_scalar_def)

lemma put_safe_all: "list_all P ob \<Longrightarrow> P (k, safeScalar v) \<Longrightarrow> list_all P (put_safe k v ob)"
  by (simp add: put_safe_def list_all_put_field)

lemma fold_all: "(\<And>x a. I a \<Longrightarrow> I (f x a)) \<Longrightarrow> I a \<Longrightarrow> I (fold f xs a)"
  by (induction xs arbitrary: a) auto

lemma safeDiagnostic_disclosed:
  assumes "safeDiagnostic v = Some g"
  shows "disclosed_diagnostic g"
proof -
  obtain items where g: "g = fold (\<lambda>(k, i). if k \<in> set SAFE_DIAGNOSTIC_KEYS then put_safe k i else id) items []"
    using assms by (auto simp: safeDiagnostic_def Let_def split: option.splits if_splits)
  show ?thesis unfolding g
  proof (rule fold_all [where I = disclosed_diagnostic])
    fix x :: "string \<times> jsv" and ob
    assume ob: "disclosed_diagnostic ob"
    obtain k i where x: "x = (k, i)" by (cases x)
    show "disclosed_diagnostic ((\<lambda>(k, i). if k \<in> set SAFE_DIAGNOSTIC_KEYS then put_safe k i else id) x ob)"
      using ob put_safe_all [of "\<lambda>(k, v). k \<in> set SAFE_DIAGNOSTIC_KEYS \<and> disclosed_scalar v" ob k i]
      by (simp add: x disclosed_diagnostic_def safeScalar_disclosed del: set_simps)
  qed (simp add: disclosed_diagnostic_def)
qed

lemma put_metadata_disclosed:
  assumes "list_all disclosed_entry ob"
  shows "list_all disclosed_entry (put_metadata kv ob)"
proof (cases kv)
  case (Pair k v)
  have "disclosed_entry (k, safeScalar v)" if "k \<in> set SAFE_METADATA_KEYS"
    using that by (simp add: disclosed_entry_def safeScalar_disclosed)
  moreover have "disclosed_entry (''diagnostic'', JObj g)" if "safeDiagnostic v = Some g" for g
    using safeDiagnostic_disclosed [OF that] by (simp add: disclosed_entry_def)
  ultimately show ?thesis using assms
    by (auto simp: Pair put_metadata_def intro!: put_safe_all list_all_put_field split: option.split)
qed

lemma safeMetadata_disclosed: "disclosed_metadata (safeMetadata m)"
proof -
  have "list_all disclosed_entry (fold put_metadata ob [])" for ob
    by (rule fold_all [where I = "list_all disclosed_entry"]) (simp_all add: put_metadata_disclosed)
  moreover have "disclosed_metadata [(''notice'', JStr ''Alert metadata truncated for privacy'')]"
    by code_simp
  ultimately show ?thesis
    by (simp add: safeMetadata_def disclosed_metadata_def Let_def)
qed

lemma alertPayload_disclosed: "disclosed_payload recipient (alertPayload now e recipient)"
  by (simp add: disclosed_payload_def alertPayload_def payload_keys_def safeMetadata_disclosed)

lemma put_metadata_unlisted: "\<not> diagnostic_key k \<Longrightarrow> k \<notin> set SAFE_METADATA_KEYS \<Longrightarrow> put_metadata (k, v) ob = ob"
  by (simp add: put_metadata_def)

lemma fold_listed: "fold put_metadata (listed_part m) ob = fold put_metadata m ob"
proof (induction m arbitrary: ob)
  case (Cons kv m)
  obtain k v where kv: "kv = (k, v)" by (cases kv)
  show ?case
  proof (cases "diagnostic_key k \<or> k \<in> set SAFE_METADATA_KEYS")
    case True
    then have "listed_part (kv # m) = kv # listed_part m" unfolding listed_part_def kv by simp
    then show ?thesis using Cons.IH by simp
  next
    case False
    then have "listed_part (kv # m) = listed_part m" unfolding listed_part_def kv by simp
    then show ?thesis using Cons.IH False put_metadata_unlisted [of k v] unfolding kv by simp
  qed
qed (simp add: listed_part_def)

lemma safeMetadata_listed: "safeMetadata (map_option listed_part m) = safeMetadata m"
  by (cases m) (simp_all add: safeMetadata_def fold_listed)

subsection \<open>Channels\<close>

definition answered_well :: "(alert_request \<Rightarrow> nat option) \<Rightarrow> alert_request \<Rightarrow> bool" where
  "answered_well fetch q \<longleftrightarrow> (case fetch q of None \<Rightarrow> False | Some h \<Rightarrow> 200 \<le> h \<and> h < 300)"

text \<open>
  What the dispatcher relies on, for mail and webhook alike: at most one request, none when the channel is skipped,
  and acceptance only as the answer of the provider.
\<close>

locale alert_sender =
  fixes send :: "alert_event \<Rightarrow> string \<Rightarrow> channel_delivery \<times> alert_request list"
    and fetch :: "alert_request \<Rightarrow> nat option"
    and allowed :: "alert_event \<Rightarrow> string \<Rightarrow> alert_request \<Rightarrow> bool"
  assumes one_request: "length (snd (send e r)) \<le> 1"
    and skipped_silent: "cd_status (fst (send e r)) = DL_SKIPPED \<Longrightarrow> snd (send e r) = []"
    and accepted_answer: "cd_status (fst (send e r)) = DL_ACCEPTED \<Longrightarrow>
      \<exists>q h. snd (send e r) = [q] \<and> fetch q = Some h \<and> 200 \<le> h \<and> h < 300"
    and requests_allowed: "list_all (allowed e r) (snd (send e r))"
begin

lemma unfailed_answers:
  assumes "cd_status (fst (send e r)) \<noteq> DL_FAILED"
  shows "list_all (answered_well fetch) (snd (send e r))"
proof (cases "cd_status (fst (send e r))")
  case DL_ACCEPTED
  then show ?thesis using accepted_answer [of e r] by (auto simp: answered_well_def)
qed (use assms skipped_silent [of e r] in auto)

lemma accepted_sends: "cd_status (fst (send e r)) = DL_ACCEPTED \<Longrightarrow> snd (send e r) \<noteq> []"
  using accepted_answer [of e r] by auto

end

definition mail_allowed :: "alert_variables \<Rightarrow> string \<Rightarrow> alert_request \<Rightarrow> bool" where
  "mail_allowed x r q \<longleftrightarrow> rq_url q = SENDGRID_MAIL_SEND_URL \<and> rq_bearer q = trimmed (ax_key x)
     \<and> (\<exists>p. disclosed_payload r p \<and> rq_body q = mail_body x r p)"

definition web_allowed :: "alert_world \<Rightarrow> alert_variables \<Rightarrow> string \<Rightarrow> alert_request \<Rightarrow> bool" where
  "web_allowed w x r q \<longleftrightarrow> rq_bearer q = None
     \<and> Option.bind (trimmed (ax_webhook x)) (aw_url w) \<in> {Some (''https:'', rq_url q), Some (''http:'', rq_url q)}
     \<and> (\<exists>p. disclosed_payload r p \<and> rq_body q = JObj p)"

interpretation mail: alert_sender "sendSendGridEmail w x now" "aw_fetch w" "\<lambda>e. mail_allowed x"
proof unfold_locales
  fix e r
  show "length (snd (sendSendGridEmail w x now e r)) \<le> 1"
    by (simp add: sendSendGridEmail_def Let_def)
  show "snd (sendSendGridEmail w x now e r) = []" if "cd_status (fst (sendSendGridEmail w x now e r)) = DL_SKIPPED"
    using that by (auto simp: sendSendGridEmail_def Let_def not_accepted_def provider_accepted_def split: option.splits if_splits)
  show "\<exists>q h. snd (sendSendGridEmail w x now e r) = [q] \<and> aw_fetch w q = Some h \<and> 200 \<le> h \<and> h < 300"
    if "cd_status (fst (sendSendGridEmail w x now e r)) = DL_ACCEPTED"
    using that by (auto simp: sendSendGridEmail_def Let_def not_accepted_def provider_accepted_def split: option.splits if_splits)
  show "list_all (mail_allowed x r) (snd (sendSendGridEmail w x now e r))"
    using alertPayload_disclosed by (auto simp: sendSendGridEmail_def Let_def mail_allowed_def mail_request_def)
qed

interpretation webhook: alert_sender "sendWebhook w x now" "aw_fetch w" "\<lambda>e. web_allowed w x"
proof unfold_locales
  fix e r
  show "length (snd (sendWebhook w x now e r)) \<le> 1"
    by (auto simp: sendWebhook_def Let_def split: option.split)
  show "snd (sendWebhook w x now e r) = []" if "cd_status (fst (sendWebhook w x now e r)) = DL_SKIPPED"
    using that by (auto simp: sendWebhook_def Let_def not_accepted_def provider_accepted_def split: option.splits if_splits prod.splits)
  show "\<exists>q h. snd (sendWebhook w x now e r) = [q] \<and> aw_fetch w q = Some h \<and> 200 \<le> h \<and> h < 300"
    if "cd_status (fst (sendWebhook w x now e r)) = DL_ACCEPTED"
    using that by (auto simp: sendWebhook_def Let_def not_accepted_def provider_accepted_def split: option.splits if_splits prod.splits)
  show "list_all (web_allowed w x r) (snd (sendWebhook w x now e r))"
    using alertPayload_disclosed by (auto simp: sendWebhook_def Let_def web_allowed_def web_request_def split: option.split)
qed

subsection \<open>Dispatch\<close>

text \<open>A dispatch that sends something ran its channels with the saved settings.\<close>

definition channel_runs ::
    "alert_world \<Rightarrow> alert_variables \<Rightarrow> int \<Rightarrow> alert_event \<Rightarrow> alert_settings \<Rightarrow> (channel_delivery \<times> alert_request list) list" where
  "channel_runs w x now e st =
     (if as_channel st = AC_EMAIL \<or> as_channel st = AC_BOTH then [sendSendGridEmail w x now e (as_recipient st)] else [])
     @ (if as_channel st = AC_WEBHOOK \<or> as_channel st = AC_BOTH then [sendWebhook w x now e (as_recipient st)] else [])"

lemma dispatch_cases:
  obtains (unavailable) r where "dispatchAdminAlert w legacy x now e s = (nothing_delivered r, [])"
  | (runs) st where "loadAdminAlertSettings legacy s = Inr st"
      "dispatchAdminAlert w legacy x now e s
         = (summary_of (map fst (channel_runs w x now e st)), concat (map snd (channel_runs w x now e st)))"
proof (cases "getAdminAlertConfiguration legacy x s")
  case (Inl er)
  then show thesis using unavailable by (simp add: dispatchAdminAlert_def)
next
  case (Inr c)
  then have st: "loadAdminAlertSettings legacy s = Inr (ac_settings c)"
    by (auto simp: getAdminAlertConfiguration_def rbind_Inr_iff Let_def)
  show thesis
  proof (cases "as_channel (ac_settings c) = AC_DISABLED")
    case True
    then show thesis using unavailable Inr by (simp add: dispatchAdminAlert_def Let_def)
  next
    case False
    then show thesis using runs [OF st] Inr by (simp add: dispatchAdminAlert_def Let_def channel_runs_def)
  qed
qed

lemma channel_runs_in:
  assumes "c \<in> set (channel_runs w x now e st)"
  obtains "c = sendSendGridEmail w x now e (as_recipient st)" | "c = sendWebhook w x now e (as_recipient st)"
  using assms by (auto simp: channel_runs_def split: if_splits)

lemma dispatch_count: "length (snd (dispatchAdminAlert w legacy x now e s)) \<le> 2"
proof (cases rule: dispatch_cases [of w legacy x now e s])
  case (runs st)
  then show ?thesis
    using mail.one_request [of w x now e "as_recipient st"] webhook.one_request [of w x now e "as_recipient st"]
    by (simp add: channel_runs_def)
qed simp

text \<open>What a request of an alert may be: its address, its credentials and its body.\<close>

definition allowed_request :: "alert_world \<Rightarrow> alert_variables \<Rightarrow> string \<Rightarrow> alert_request \<Rightarrow> bool" where
  "allowed_request w x r q \<longleftrightarrow> mail_allowed x r q \<or> web_allowed w x r q"

lemma dispatch_allowed:
  assumes "loadAdminAlertSettings legacy s = Inr st"
  shows "list_all (allowed_request w x (as_recipient st)) (snd (dispatchAdminAlert w legacy x now e s))"
proof (cases rule: dispatch_cases [of w legacy x now e s])
  case (runs st')
  then have st': "st' = st" using assms by simp
  have "list_all (allowed_request w x (as_recipient st)) (snd c)" if "c \<in> set (channel_runs w x now e st)" for c
    using that
  proof (cases rule: channel_runs_in)
    case 1
    then show ?thesis using mail.requests_allowed [of x "as_recipient st" w now e] by (auto simp: list_all_iff allowed_request_def)
  next
    case 2
    then show ?thesis using webhook.requests_allowed [of w x "as_recipient st" now e] by (auto simp: list_all_iff allowed_request_def)
  qed
  then show ?thesis unfolding runs(2) st' by (auto simp: list_all_iff)
qed simp

lemma payload_listed: "alertPayload now (e\<lparr>ev_metadata := map_option listed_part (ev_metadata e)\<rparr>) r = alertPayload now e r"
  by (simp add: alertPayload_def safeMetadata_listed)

lemma send_listed:
  "sendSendGridEmail w x now (e\<lparr>ev_metadata := map_option listed_part (ev_metadata e)\<rparr>) r = sendSendGridEmail w x now e r"
  "sendWebhook w x now (e\<lparr>ev_metadata := map_option listed_part (ev_metadata e)\<rparr>) r = sendWebhook w x now e r"
  unfolding sendSendGridEmail_def sendWebhook_def mail_request_def web_request_def payload_listed by (rule refl)+

lemma dispatch_listed:
  "dispatchAdminAlert w legacy x now (e\<lparr>ev_metadata := map_option listed_part (ev_metadata e)\<rparr>) s
     = dispatchAdminAlert w legacy x now e s"
  unfolding dispatchAdminAlert_def send_listed by (rule refl)

text \<open>
  C33: alerts disclose listed fields only: every request of an alert goes to the mail provider or to the configured webhook,
  carries the key of the provider only to the provider, is addressed to the saved recipient, and its content is made of
  a payload whose metadata has listed names, short clean scalars and a bounded size; metadata with other names has no
  influence on what is sent or on the result.
\<close>

theorem alerts_disclose_listed_fields:
  assumes "loadAdminAlertSettings legacy s = Inr st" and "dispatchAdminAlert w legacy x now e s = (r, sent)"
  shows "list_all (allowed_request w x (as_recipient st)) sent
    \<and> dispatchAdminAlert w legacy x now (e\<lparr>ev_metadata := map_option listed_part (ev_metadata e)\<rparr>) s = (r, sent)"
  using dispatch_allowed [OF assms(1), of w x now e] assms(2) by (simp add: dispatch_listed)

text \<open>A deployment with a mail provider, and a failure whose metadata holds a private field.\<close>

definition sample_world :: alert_world where
  "sample_world = \<lparr>aw_url = (\<lambda>t. Some (''https:'', t)), aw_fetch = (\<lambda>q. Some 202)\<rparr>"

definition sample_variables :: alert_variables where
  "sample_variables = \<lparr>ax_recipients = [], ax_channel = None, ax_webhook = Some ''https://hook'', ax_key = Some ''key'', ax_from = Some '' A@b.io ''\<rparr>"

definition sample_store :: alert_store where
  "sample_store = \<lparr>sr_row = Some \<lparr>al_recipient = ''Op@b.io'', al_channel = ''both'', al_updated = Row_Date (Some 0)\<rparr>, sr_answers = True\<rparr>"

definition sample_event :: alert_event where
  "sample_event = \<lparr>ev_type = ''award.failed'', ev_actorType = ''system'', ev_actorId = None, ev_targetType = None, ev_targetId = None,
     ev_status = ''error'', ev_metadata = Some [(''password'', JStr ''x''), (''stage'', JStr ''receipt'')]\<rparr>"

lemma sample_settings:
  "loadAdminAlertSettings (\<lambda>_. None) sample_store
     = Inr \<lparr>as_recipient = ''op@b.io'', as_channel = AC_BOTH, as_updatedAt = ''1970-01-01T00:00:00.000Z''\<rparr>"
  by code_simp

lemma sample_dispatch:
  obtains r sent where "dispatchAdminAlert sample_world (\<lambda>_. None) sample_variables 0 sample_event sample_store = (r, sent)"
    "dr_status r = ALERT_SENT" "length sent = 2"
proof -
  have "mail_configured sample_variables" "trimmed (ax_webhook sample_variables) = Some ''https://hook''" by code_simp+
  then have "dr_status (fst (dispatchAdminAlert sample_world (\<lambda>_. None) sample_variables 0 sample_event sample_store)) = ALERT_SENT"
    "length (snd (dispatchAdminAlert sample_world (\<lambda>_. None) sample_variables 0 sample_event sample_store)) = 2"
    by (simp_all add: dispatchAdminAlert_def getAdminAlertConfiguration_def sample_settings rbind_def Let_def sendSendGridEmail_def
      sendWebhook_def sample_world_def redirected_def summary_of_def some_channel_def provider_accepted_def)
  then show thesis by (intro that [OF prod.collapse [symmetric]])
qed

theorem alerts_disclose_listed_fields_witness:
  "\<exists>sent. snd (dispatchAdminAlert sample_world (\<lambda>_. None) sample_variables 0 sample_event sample_store) = sent \<and> length sent = 2
     \<and> list_all (allowed_request sample_world sample_variables ''op@b.io'') sent
     \<and> snd (dispatchAdminAlert sample_world (\<lambda>_. None) sample_variables 0
         (sample_event\<lparr>ev_metadata := Some [(''stage'', JStr ''receipt'')]\<rparr>) sample_store) = sent"
proof -
  obtain r sent where d: "dispatchAdminAlert sample_world (\<lambda>_. None) sample_variables 0 sample_event sample_store = (r, sent)"
    and n: "length sent = 2" by (rule sample_dispatch)
  have "map_option listed_part (ev_metadata sample_event) = Some [(''stage'', JStr ''receipt'')]"
    by code_simp
  then show ?thesis
    using alerts_disclose_listed_fields [OF sample_settings d] n by (simp add: d del: map_option_eq_Some)
qed

subsection \<open>Acceptance\<close>

lemma some_channel_iff: "some_channel s cs \<longleftrightarrow> (\<exists>c \<in> set cs. cd_status c = s)"
  by (auto simp: some_channel_def filter_empty_conv)

lemma run_unfailed:
  assumes "c \<in> set (channel_runs w x now e st)"
  shows "cd_status (fst c) \<noteq> DL_FAILED \<Longrightarrow> list_all (answered_well (aw_fetch w)) (snd c)"
    and "cd_status (fst c) = DL_ACCEPTED \<Longrightarrow> snd c \<noteq> []"
  using assms mail.unfailed_answers [of w x now e "as_recipient st"] webhook.unfailed_answers [of w x now e "as_recipient st"]
    mail.accepted_sends [of w x now e "as_recipient st"] webhook.accepted_sends [of w x now e "as_recipient st"]
  by (auto simp: channel_runs_def split: if_splits)

theorem sent_alert_was_accepted:
  assumes "dispatchAdminAlert w legacy x now e s = (r, sent)" and "dr_status r = ALERT_SENT"
  shows "sent \<noteq> [] \<and> list_all (answered_well (aw_fetch w)) sent \<and> dr_accepted r"
proof (cases rule: dispatch_cases [of w legacy x now e s])
  case (unavailable u)
  then show ?thesis using assms by (simp add: nothing_delivered_def)
next
  case (runs st)
  let ?runs = "channel_runs w x now e st"
  have r: "r = summary_of (map fst ?runs)" and sent: "sent = concat (map snd ?runs)" using runs(2) assms(1) by simp_all
  have ok: "\<not> some_channel DL_FAILED (map fst ?runs)" and acc: "some_channel DL_ACCEPTED (map fst ?runs)"
    using assms(2) by (auto simp: r summary_of_def split: if_splits)
  obtain c where c: "c \<in> set ?runs" "cd_status (fst c) = DL_ACCEPTED"
    using acc by (auto simp: some_channel_iff)
  have "sent \<noteq> []" using c run_unfailed(2) [OF c] by (auto simp: sent)
  moreover have "list_all (answered_well (aw_fetch w)) (snd c)" if "c \<in> set ?runs" for c
    using run_unfailed(1) [OF that] ok that by (auto simp: some_channel_iff)
  ultimately show ?thesis using acc by (auto simp: sent list_all_iff r summary_of_def)
qed

theorem sent_alert_was_accepted_witness:
  "\<exists>r sent. dispatchAdminAlert sample_world (\<lambda>_. None) sample_variables 0 sample_event sample_store = (r, sent)
     \<and> sent \<noteq> [] \<and> list_all (answered_well (aw_fetch sample_world)) sent \<and> dr_accepted r"
proof -
  obtain r sent where d: "dispatchAdminAlert sample_world (\<lambda>_. None) sample_variables 0 sample_event sample_store = (r, sent)"
    and ok: "dr_status r = ALERT_SENT" by (rule sample_dispatch)
  show ?thesis using d sent_alert_was_accepted [OF d ok] by blast
qed

subsection \<open>The audit log\<close>

definition alerting :: "audit_row \<Rightarrow> bool" where
  "alerting a \<longleftrightarrow> shouldAlertAdminEvent (au_event_type a) (au_status a)"

lemma shouldAlert_same: "shouldAlertAdmin e = shouldAlertAdminEvent (ev_type e) (ev_status e)"
  by (simp add: shouldAlertAdmin_def shouldAlertAdminEvent_def)

lemma delivery_not_alerting: "\<not> shouldAlertAdminEvent (au_event_type (delivery_audit e r)) st"
  by (simp add: delivery_audit_def shouldAlertAdminEvent_def starts_with_def split: alert_status.split)

definition stored_audit :: "int \<Rightarrow> audit_row \<Rightarrow> audit_row" where
  "stored_audit now a = fst (createAudit now a empty_db)"

lemma write_audit_Some: "write_audit (Some t) a d = d\<lparr>t_audits := t_audits d @ [stored_audit t a]\<rparr>"
  by (simp add: write_audit_def createAudit_def stored_audit_def Let_def)

lemma stored_audit_simps [simp]:
  "au_event_type (stored_audit t a) = au_event_type a" "au_status (stored_audit t a) = au_status a"
  by (simp_all add: stored_audit_def createAudit_def Let_def)

text \<open>
  Alerts never raise alerts: an event adds its own row to the audit log and, when it raises an alert, at most one row of
  the delivery, which raises none; at most two requests are sent, and none for an event that is not in the log or
  does not call for an alert.
\<close>

theorem alerts_never_recurse:
  "\<exists>u. snd (safeAuditLog w legacy x first now slot e s d) = d\<lparr>t_audits := t_audits d @ u\<rparr> \<and> length u \<le> 2
     \<and> list_all (\<lambda>a. \<not> alerting a) (tl u)
     \<and> (fst (safeAuditLog w legacy x first now slot e s d) = []
        \<or> u \<noteq> [] \<and> alerting (hd u) \<and> length (fst (safeAuditLog w legacy x first now slot e s d)) \<le> 2)"
proof (cases first)
  case None
  then show ?thesis by (intro exI [of _ "[]"]) (simp add: safeAuditLog_def)
next
  case first: (Some t)
  let ?a = "stored_audit t (event_audit e)"
  obtain r sent where rs: "dispatchAdminAlert w legacy x now e s = (r, sent)" by fastforce
  have two: "length sent \<le> 2" using dispatch_count [of w legacy x now e s] rs by simp
  have al: "alerting ?a = shouldAlertAdmin e" by (simp add: alerting_def event_audit_def shouldAlert_same)
  show ?thesis
  proof (cases "shouldAlertAdmin e")
    case False
    then show ?thesis
      by (intro exI [of _ "[?a]"]) (simp add: first safeAuditLog_def write_audit_Some Let_def)
  next
    case True
    show ?thesis
    proof (cases slot)
      case None
      then show ?thesis using True two al
        by (intro exI [of _ "[?a]"]) (simp add: first safeAuditLog_def sendAdminAlert_def rs write_audit_Some write_audit_def [of None] Let_def)
    next
      case (Some t2)
      then show ?thesis using True two al
        by (intro exI [of _ "[?a, stored_audit t2 (delivery_audit e r)]"])
          (simp add: first safeAuditLog_def sendAdminAlert_def rs write_audit_Some Let_def alerting_def delivery_not_alerting)
    qed
  qed
qed

subsection \<open>Settings\<close>

lemma split_first_Some:
  assumes "split_first c s = (a, Some b)"
  shows "s = a @ c # b"
proof -
  obtain d where d: "dropWhile (\<lambda>x. x \<noteq> c) s = d # b" and a: "a = takeWhile (\<lambda>x. x \<noteq> c) s"
    using assms by (auto simp: split_first_def Let_def split: list.splits)
  have "d = c" using hd_dropWhile [of "\<lambda>x. x \<noteq> c" s] d by simp
  then show ?thesis using takeWhile_dropWhile_id [of "\<lambda>x. x \<noteq> c" s] unfolding d a by simp
qed

lemma mail_no_space:
  assumes "isEmailAddress t" and "c \<in> set t"
  shows "\<not> js_space c"
proof -
  obtain user dom where s: "split_first (CHR ''@'') t = (user, Some dom)" "list_all mail_char user" "list_all mail_char dom"
    using assms(1) by (auto simp: isEmailAddress_def EMAIL_PATTERN_def split: prod.splits option.splits)
  have t: "t = user @ CHR ''@'' # dom" by (rule split_first_Some [OF s(1)])
  have "\<not> js_space (CHR ''@'')" by code_simp
  then show ?thesis using assms(2) s(2,3) by (auto simp: t mail_char_def list_all_iff)
qed

lemma trim_id: "(\<And>c. c \<in> set t \<Longrightarrow> \<not> js_space c) \<Longrightarrow> js_trim t = t"
proof -
  assume n: "\<And>c. c \<in> set t \<Longrightarrow> \<not> js_space c"
  have "dropWhile js_space t = t" using n by (cases t) auto
  moreover have "dropWhile js_space (rev t) = rev t" using n by (cases "rev t") (auto simp: dropWhile_eq_self_iff dest: arg_cong [of _ _ set])
  ultimately show ?thesis by (simp add: js_trim_def)
qed

lemma mail_fixed: "isEmailAddress (normal_mail t) \<Longrightarrow> normal_mail (normal_mail t) = normal_mail t"
  using trim_id [OF mail_no_space [of "normal_mail t"]] by (simp add: normal_mail_def)

text \<open>An accepted recipient: an address that normalisation leaves alone.\<close>

definition normal_address :: "string \<Rightarrow> bool" where
  "normal_address m \<longleftrightarrow> isEmailAddress m \<and> normal_mail m = m"

lemma normalize_Inr: "normalizeAdminAlertEmail v = Inr m \<Longrightarrow> normal_address m"
  by (auto simp: normalizeAdminAlertEmail_def Let_def normal_address_def mail_fixed split: jsv.splits if_splits)

lemma normalize_normal: "normal_address m \<Longrightarrow> normalizeAdminAlertEmail (JStr m) = Inr m"
  by (simp add: normalizeAdminAlertEmail_def normal_address_def Let_def)

lemma address_nonempty: "normal_address m \<Longrightarrow> nonempty (Some m) = Some m"
  by (cases m) (auto simp: normal_address_def isEmailAddress_def EMAIL_PATTERN_def split_first_def nonempty_def)

lemma channel_text_read [simp]: "parseAdminAlertChannel (JStr (alert_channel_text c)) = Inr c"
  by (cases c) (simp_all add: parseAdminAlertChannel_def alert_channel_text_def channel_named_def)

lemma validate_recipient:
  assumes "validateAdminAlertSettingsPatch body = Inr p" and "pa_recipient p = Some m"
  shows "normal_address m"
  using assms by (auto simp: validateAdminAlertSettingsPatch_def own_property_def Let_def rbind_Inr_iff dest: normalize_Inr split: if_splits)

lemma settings_recipient: "settingsFromRow legacy row = Inr (Some st) \<Longrightarrow> normal_address (as_recipient st)"
  by (auto simp: settingsFromRow_def rbind_Inr_iff dest: normalize_Inr split: option.splits)

text \<open>The settings that a patch makes of the old ones.\<close>

definition patched :: "int \<Rightarrow> alert_patch \<Rightarrow> alert_settings \<Rightarrow> alert_settings" where
  "patched now p old = \<lparr>as_recipient = (case pa_recipient p of Some m \<Rightarrow> m | None \<Rightarrow> as_recipient old),
     as_channel = (case pa_channel p of Some c \<Rightarrow> c | None \<Rightarrow> as_channel old), as_updatedAt = iso_text now\<rparr>"

lemma update_row_settings:
  assumes "validateAdminAlertSettingsPatch body = Inr p" and "update_row legacy now p row = Inr r"
  obtains old where "settingsFromRow legacy row = Inr (Some old)" "settingsFromRow legacy (Some r) = Inr (Some (patched now p old))"
    "normal_address (as_recipient (patched now p old))"
proof -
  obtain old where old: "settingsFromRow legacy row = Inr (Some old)"
    and r: "r = \<lparr>al_recipient = (case nonempty (pa_recipient p) of Some m \<Rightarrow> m | None \<Rightarrow> as_recipient old),
      al_channel = alert_channel_text (case pa_channel p of Some c \<Rightarrow> c | None \<Rightarrow> as_channel old), al_updated = Row_Date (Some now)\<rparr>"
    using assms(2) by (auto simp: update_row_def rbind_Inr_iff split: option.splits)
  have m: "al_recipient r = as_recipient (patched now p old)" "normal_address (al_recipient r)"
    using validate_recipient [OF assms(1)] settings_recipient [OF old]
    by (cases "pa_recipient p"; simp add: r patched_def address_nonempty nonempty_def [of None])+
  have "settingsFromRow legacy (Some r) = Inr (Some (patched now p old))"
    using m by (simp add: settingsFromRow_def normalize_normal isoUpdatedAt_def) (simp add: r patched_def of_option_def rbind_def)
  then show thesis using that old m by simp
qed

text \<open>
  An update of the alert settings is all or nothing: it is refused and leaves the row as it was, or
  the settings it returns are the old ones with the fields of the request replaced, the recipient is a valid
  normalised address, and the next reader gets exactly these settings.
\<close>

theorem alert_settings_are_read_back:
  "(\<exists>er. updateAdminAlertSettings legacy now body s = (Inl er, s))
   \<or> (\<exists>p old s'. validateAdminAlertSettingsPatch body = Inr p \<and> loadAdminAlertSettings legacy s = Inr old
        \<and> updateAdminAlertSettings legacy now body s = (Inr (patched now p old), s')
        \<and> loadAdminAlertSettings legacy s' = Inr (patched now p old) \<and> normal_address (as_recipient (patched now p old)))"
proof (cases "rbind (validateAdminAlertSettingsPatch body) (\<lambda>p.
    rbind (guard (sr_answers s) Store_Unavailable) (\<lambda>_. update_row legacy now p (sr_row s)))")
  case (Inl e)
  then show ?thesis by (simp add: updateAdminAlertSettings_def)
next
  case (Inr r)
  then obtain p where p: "validateAdminAlertSettingsPatch body = Inr p" "sr_answers s" "update_row legacy now p (sr_row s) = Inr r"
    by (auto simp: rbind_Inr_iff)
  obtain old where "settingsFromRow legacy (sr_row s) = Inr (Some old)" "settingsFromRow legacy (Some r) = Inr (Some (patched now p old))"
    "normal_address (as_recipient (patched now p old))"
    by (rule update_row_settings [OF p(1,3)])
  then have "loadAdminAlertSettings legacy s = Inr old"
    "updateAdminAlertSettings legacy now body s = (Inr (patched now p old), s\<lparr>sr_row := Some r\<rparr>)"
    "loadAdminAlertSettings legacy (s\<lparr>sr_row := Some r\<rparr>) = Inr (patched now p old)"
    "normal_address (as_recipient (patched now p old))"
    using p(2) Inr by (simp_all add: loadAdminAlertSettings_def updateAdminAlertSettings_def guard_def)
  then show ?thesis using p(1) by blast
qed

subsection \<open>Metrics\<close>

lemma count_for_up: "count_for (count_up k m) j = count_for m j + (if j = k then 1 else 0)"
  by (induction m) (auto simp: count_for_def)

text \<open>The counts by type are the true counts of the events that were read.\<close>

lemma event_counts_exact: "count_for (event_counts events) k = countMatching (typed k) events"
proof -
  have "count_for (fold (\<lambda>a. count_up (au_event_type a)) events m) k = count_for m k + countMatching (typed k) events" for m
    by (induction events arbitrary: m) (auto simp: count_for_up countMatching_def typed_def)
  then show ?thesis by (simp add: event_counts_def count_for_def)
qed

lemma window_bounded: "1 \<le> boundedHours h \<and> boundedHours h \<le> 168"
  by (cases h) (auto simp: boundedHours_def)

end
