(* ===== verification/BookLaws.thy ===== *)
theory BookLaws
  imports RecordingLaws Events
begin

text \<open>
  The balance table over everything that writes it: the recordings of \<open>integration.ts\<close> and the event listener of
  \<open>eventListener.ts\<close>, with every other operation of the services in between. The listener books the first event
  of a user that has no balance row yet, and nothing after it.
\<close>

subsection \<open>The listener\<close>

text \<open>\<open>formatEther\<close> writes no sign before the amount of an event, which is unsigned.\<close>

definition plain_format :: "(int \<Rightarrow> string) \<Rightarrow> bool" where
  "plain_format fmt \<longleftrightarrow> (\<forall>n :: nat. take 1 (fmt (int n)) \<noteq> ''-'')"

lemma plain_cents: "take 1 t \<noteq> ''-'' \<Longrightarrow> signed_cents t = int (rounded_cents t)"
  by (cases t) (simp_all add: signed_cents_def rounded_cents_def)

lemma event_user:
  assumes "syncAwardEvent fmt now uident w amount d = Inr d'"
  obtains u d1 where "findByWallet d w = Some u \<and> d1 = d \<or> createUser now uident (''wallet-'' @ w) w None d = Inr (u, d1)"
    and "findByWallet d1 w = Some u" and "findBalance d1 (us_id u) = None"
    and "d' = snd (upsertBalance now \<lparr>bd_userId = us_id u, bd_wallet = w, bd_balance = fmt (int amount),
      bd_totalAwarded = fmt (int amount), bd_totalSpent = ''0''\<rparr> d1)"
proof -
  obtain u d1 where u: "findByWallet d w = Some u \<and> d1 = d
      \<or> findByWallet d w = None \<and> createUser now uident (''wallet-'' @ w) w None d = Inr (u, d1)"
    and run: "(case findBalance d1 (us_id u) of
       Some b \<Rightarrow>
         rbind (column_bigint (int (bl_total_awarded b))) (\<lambda>awarded.
         rbind (column_bigint (bl_balance b)) (\<lambda>balance.
         Inr (snd (upsertBalance now
           \<lparr>bd_userId = us_id u, bd_wallet = w, bd_balance = fmt (balance + int amount),
            bd_totalAwarded = fmt (awarded + int amount), bd_totalSpent = numeric2_text (bl_total_spent b)\<rparr> d1))))
     | None \<Rightarrow>
         Inr (snd (upsertBalance now
           \<lparr>bd_userId = us_id u, bd_wallet = w, bd_balance = fmt (int amount),
            bd_totalAwarded = fmt (int amount), bd_totalSpent = ''0''\<rparr> d1))) = Inr d'"
    using assms unfolding syncAwardEvent_def rbind_Inr_iff by (auto split: option.splits sum.splits prod.splits)
  have b: "findBalance d1 (us_id u) = None" using run by (cases "findBalance d1 (us_id u)") (simp_all add: column_bigint_throws)
  have f: "findByWallet d1 w = Some u"
  proof (cases "findByWallet d w")
    case None
    then have "\<not> user_of x w r" if "r \<in> set (t_users d)" for x r
      using that by (auto simp: findByWallet_def first_where_None user_of_def)
    then have "find_user d x w = None" for x by (auto simp: find_user_def first_where_None)
    then have "d1 = d\<lparr>t_users := t_users d @ [u]\<rparr> \<and> us_wallet u = w" using u None
      by (auto simp: createUser_def insert_returning_def insert_user_def rbind_Inr_iff new_user_def split: if_splits)
    then show ?thesis using None by (auto simp: findByWallet_def first_where_append same_text_def)
  qed (use u in auto)
  show thesis by (rule that [OF _ f b]) (use u run b in auto)
qed

lemma spend_event_books_nothing: "syncSpendEvent fmt now w amount d = Inr d' \<Longrightarrow> d' = d"
  by (auto simp: syncSpendEvent_def column_bigint_throws split: option.splits)

subsection \<open>Everything that is booked\<close>

text \<open>The user and the cents an event of the listener books.\<close>

definition heard_event :: "(int \<Rightarrow> string) \<Rightarrow> string \<Rightarrow> nat \<Rightarrow> db \<Rightarrow> (string \<times> nat) list" where
  "heard_event fmt w amount d = (case findByWallet d w of None \<Rightarrow> [] | Some u \<Rightarrow> [(us_id u, rounded_cents (fmt (int amount)))])"

text \<open>
  A history of the service with its listener: the database it leads to, and the events it has booked. A failed
  operation or event changes nothing (the user a failed event may have created is a step of its own).
\<close>

inductive booked :: "(int \<Rightarrow> string) \<Rightarrow> (string \<times> nat) list \<Rightarrow> db \<Rightarrow> bool" for fmt where
  booked_empty: "booked fmt [] empty_db"
| booked_service: "booked fmt H d \<Longrightarrow> recording_step d d' \<Longrightarrow> booked fmt H d'"
| booked_report: "booked fmt H d \<Longrightarrow> booked fmt H (snd (createReport now rp d))"
| booked_award: "booked fmt H d \<Longrightarrow> syncAwardEvent fmt now uident w amount d = Inr d' \<Longrightarrow> booked fmt (heard_event fmt w amount d' @ H) d'"
| booked_spend: "booked fmt H d \<Longrightarrow> syncSpendEvent fmt now w amount d = Inr d' \<Longrightarrow> booked fmt H d'"

definition heard_by :: "(string \<times> nat) list \<Rightarrow> string \<Rightarrow> nat" where
  "heard_by H u = sum_where (\<lambda>e. fst e = u) snd H"

text \<open>An event counts like an award that is not recorded.\<close>

definition unrecorded :: "string \<times> nat \<Rightarrow> award_row" where
  "unrecorded e = \<lparr>aw_id = [], aw_user_id = fst e, aw_session_id = [], aw_provider_id = [], aw_dedup_key = [], aw_amount = snd e,
     aw_cdr_data = None, aw_tx_hash = [], aw_awarded_at = 0, aw_award_type = None, aw_is_off_peak = False, aw_country_code = None,
     aw_local_time = None, aw_status = [], aw_error = None, aw_confirmed_at = 0, aw_created = 0\<rparr>"

lemma unrecorded_fields [simp]: "aw_user_id (unrecorded e) = fst e" "aw_amount (unrecorded e) = snd e"
  by (simp_all add: unrecorded_def)

lemma awarded_beside: "awarded_to (map unrecorded H @ A) u = heard_by H u + awarded_to A u"
  by (induction H) (simp_all add: awarded_to_def heard_by_def)

definition listened_books :: "(string \<times> nat) list \<Rightarrow> db \<Rightarrow> bool" where
  "listened_books H d \<longleftrightarrow> service_ok d \<and> distinct (map fst H)
     \<and> books (t_balances d) (map unrecorded H @ t_awards d) (t_spends d)"

lemma award_event_books:
  assumes "listened_books H d" and "syncAwardEvent fmt now uident w amount d = Inr d'" and "plain_format fmt"
  shows "listened_books (heard_event fmt w amount d' @ H) d'"
  using assms(2)
proof (rule event_user)
  fix u :: user_row and d1 :: db
  let ?t = "fmt (int amount)" and ?e = "(us_id u, rounded_cents (fmt (int amount)))"
  let ?b = "\<lparr>bl_user_id = us_id u, bl_wallet = w, bl_balance = int (rounded_cents ?t), bl_total_awarded = rounded_cents ?t,
    bl_total_spent = 0, bl_last_synced = now\<rparr>"
  assume made: "findByWallet d w = Some u \<and> d1 = d \<or> createUser now uident (''wallet-'' @ w) w None d = Inr (u, d1)"
    and f: "findByWallet d1 w = Some u" and n: "findBalance d1 (us_id u) = None"
    and d': "d' = snd (upsertBalance now \<lparr>bd_userId = us_id u, bd_wallet = w, bd_balance = ?t, bd_totalAwarded = ?t,
      bd_totalSpent = ''0''\<rparr> d1)"
  have H: "service_ok d" "distinct (map fst H)" "books (t_balances d) (map unrecorded H @ t_awards d) (t_spends d)"
    using assms(1) by (simp_all add: listened_books_def)
  have "service_ok d1 \<and> t_balances d1 = t_balances d \<and> t_awards d1 = t_awards d \<and> t_spends d1 = t_spends d"
  proof (cases "d1 = d")
    case False
    then have c: "wallet_step d d1" using made step_create_user by blast
    have "wallets_ok d" using H(1) by (simp add: service_ok_def)
    then show ?thesis using wallet_step_keeps [OF c] service_step_grows [OF by_wallet [OF c] H(1)]
      by (simp add: service_grows_def outside_defs frame_defs)
  qed (use H(1) in simp)
  then have d1: "service_ok d1" "t_balances d1 = t_balances d" "t_awards d1 = t_awards d" "t_spends d1 = t_spends d" by simp_all
  have cents: "signed_cents ?t = int (rounded_cents ?t)" "rounded_cents ''0'' = 0"
    using assms(3) plain_cents [of ?t] by (simp add: plain_format_def) code_simp
  have none: "us_id u \<notin> bl_user_id ` set (t_balances d)"
    using n unfolding findBalance_def d1(2) by (auto simp: first_where_None)
  have up: "d' = d1\<lparr>t_balances := t_balances d @ [?b]\<rparr>"
    using n by (simp add: d' upsertBalance_def Let_def findBalance_def cents d1(2))
  have "service_step d1 d'" unfolding d' by (rule by_projection, rule step_balance)
  then have ok: "service_ok d'" using service_step_grows d1(1) by (simp add: service_grows_def)
  have e: "heard_event fmt w amount d' = [?e]" using f by (simp add: heard_event_def up findByWallet_def)
  have fresh: "us_id u \<notin> fst ` set H"
    using none H(3) by (force simp: books_def)
  have "books (t_balances d @ [?b]) (map unrecorded (?e # H) @ t_awards d) (t_spends d)"
  proof (rule books_insert [OF H(3)])
    show "row_balanced (map unrecorded (?e # H) @ t_awards d) (t_spends d) ?b"
      unfolding row_balanced_def awarded_beside using books_no_rows [OF H(3) none] by (simp add: awarded_beside) (simp add: heard_by_def)
    show "row_balanced (map unrecorded (?e # H) @ t_awards d) (t_spends d) b"
      if "row_balanced (map unrecorded H @ t_awards d) (t_spends d) b" "bl_user_id b \<noteq> bl_user_id ?b" for b
      using that unfolding row_balanced_def awarded_beside by (simp add: heard_by_def)
  qed (use none in auto)
  then show ?thesis unfolding listened_books_def e using ok H(2) fresh d1 by (simp add: up)
qed

lemma booked_books:
  assumes "booked fmt H d" and "plain_format fmt"
  shows "listened_books H d"
  using assms(1)
proof induction
  case booked_empty
  then show ?case using empty_service_ok by (simp add: listened_books_def books_def empty_db_def)
next
  case (booked_service H d d')
  then have "service_ok d" by (simp add: listened_books_def)
  from recording_step_balanced [OF booked_service(2) this] show ?case using booked_service(3)
    by (simp add: balanced_step_def service_grows_def listened_books_def)
next
  case (booked_report H d now rp)
  have "service_ok (snd (createReport now rp d))"
    using service_step_grows [OF by_projection [OF step_report]] booked_report(2) by (simp add: service_grows_def listened_books_def)
  then show ?case using booked_report(2) by (simp add: listened_books_def createReport_def)
next
  case (booked_award H d now uident w amount d')
  then show ?case using award_event_books assms(2) by blast
next
  case (booked_spend H d now w amount d')
  then show ?case using spend_event_books_nothing by blast
qed



end
