(* ===== verification/Spec2Isabelle.thy ===== *)
theory Spec2Isabelle
  imports PolicyLaws JsonLaws ReceiptLaws Events RecoveryLaws SpendLaws RpcLaws MoveLaws FailureLaws AutoLaws SettlementLaws
    AdminLaws EvidenceLaws AnnotationLaws AlertLaws BookLaws
begin

text \<open>
  The NEVERFLAT award core: a service that turns charging records (CDRs) into SPARKZ token awards, lets
  drivers spend and reserve tokens, and keeps a PostgreSQL ledger of every token movement beside the
  chain. This library models the parts that decide who is paid what, that no movement happens twice,
  and what the tables say afterwards.

  \<^bold>\<open>Parts and theories.\<close>

  \<^item> Language layer. \<open>Prelude\<close>: results (\<open>'e + 'a\<close>, \<open>rbind\<close>, \<open>guard\<close>), ASCII text, SQL tables as lists
    (\<open>first_where\<close>, \<open>update_where\<close>, \<open>returning_where\<close>, \<open>row_at\<close>), growth of tables, and the locales
    \<open>keyed_store\<close> and \<open>terminal_store\<close>. \<open>JS_Number\<close>: doubles as rationals with correct rounding \<open>fl\<close>,
    the shortest decimal text and \<open>toFixed\<close>. \<open>JS_Value\<close>, \<open>JS_Text\<close>: JSON values, serialisers,
    \<open>Number(text)\<close> and \<open>JSON.parse\<close> (fuel twice the length of the text plus two; every call either
    consumes a character or is followed by one that does). \<open>JS_Date\<close>: the civil calendar, ISO texts.

  \<^item> \<open>Session\<close>: the records of \<open>src/types.ts\<close>. \<open>TokenAmount\<close>: \<open>database/tokenOperation.ts\<close> and
    \<open>reservation.ts\<close>, amounts in cents, operation keys, intent fingerprints, asset context.

  \<^item> The database services of \<open>database/service.ts\<close>, over one record \<open>db\<close> with a list per table
    (\<open>Database\<close>): \<open>Ledger\<close> (\<open>TokenOperations\<close>), \<open>Treasury\<close> (\<open>TreasuryTransactions\<close>, nonce leases),
    \<open>Approvals\<close> (\<open>ApprovalPreparations\<close>), \<open>Reservations\<close> (\<open>SpendReservations\<close>), \<open>Wallets\<close> (\<open>Users\<close>,
    \<open>LinkedWalletAddresses\<close>), \<open>Projections\<close> (awards, spends, receipts, balances, audit log, reports).
    Each exported function is a definition of the same name, a function from the database to an error
    or a result and the new database; a transaction that throws leaves the database as it was. Unique
    indexes of the migrations are checked where rows are inserted or hashes written.

  \<^item> \<open>Capacity\<close>, \<open>ReservationLife\<close>, \<open>WalletLife\<close>: what the operations of one component keep.
    \<open>Service\<close>: one step of the whole service (\<open>service_step\<close>, any operation of any component), the
    invariant \<open>service_ok\<close>, and the interpretations of \<open>terminal_store\<close> for ledger, leases and
    reservations. \<open>Lifecycle\<close>: what follows for every history.

  \<^item> \<open>Reliability\<close>: \<open>transactionReliability.ts\<close>, prepare, save, broadcast; \<open>Broadcast\<close>: its guarantees
    over histories of the service.

  \<^item> \<open>SpendEvidence\<close>: \<open>spendEvidence.ts\<close>, whether a mined transaction proves an exact token transfer.

  \<^item> \<open>Recording\<close>: \<open>recordAward\<close> and \<open>recordSpend\<close> of \<open>database/integration.ts\<close>; \<open>RecordingLaws\<close>: its
    interleavings with the services. \<open>Events\<close>: the contract event listener (\<open>database/eventListener.ts\<close>), which
    writes balances too. \<open>BookLaws\<close>: with the recordings, the listener and all services interleaved every
    balance is the sum of its rows and of the one event the listener may have booked. \<open>OpenHolds\<close>: the steps of
    a spend and of an unfinished settlement, which finish no reservation.

  \<^item> \<open>awardExecutor.ts\<close>: \<open>AwardSnapshot\<close> (recovery snapshots, with \<open>SnapshotLaws\<close>), \<open>AwardExecutor\<close>
    (validation, the send, the projection of a movement), \<open>AwardFlow\<close> (\<open>processAwardFromCDR\<close> and
    \<open>recoverAwardOperation\<close>, every saved step a step of the services, failures of single writes included).
    \<open>AwardFlowLaws\<close> and \<open>RecoveryLaws\<close> say what a run can do; \<open>AwardSample\<close> is one complete run, the
    input of their witnesses.

  \<^item> \<open>spendExecutor.ts\<close>: \<open>SpendExecutor\<close> (validation, readonly preflight, the send, the projection of a
    movement), \<open>SpendFlow\<close> (\<open>processSpend\<close>, \<open>recoverSpendOperation\<close>), their case analyses in \<open>SpendFlowLaws\<close>,
    the guarantees in \<open>SpendLaws\<close>, a complete run in \<open>SpendSample\<close>. \<open>ExecutorLaws\<close> holds what both
    executors share, with the interface \<open>keyed_sender\<close> of an executor that sends only through the reliable
    sender under the key of its request; both executors are interpretations of it.

  \<^item> \<open>rpcProvider.ts\<close>: \<open>RpcErrors\<close> (what an error of a provider says, which read failures are transient;
    \<open>visit\<close> looks seven levels deep and \<open>collectErrorCodes\<close> six, as in the code), \<open>RpcProvider\<close> (endpoint
    configuration, response checks, \<open>_send\<close> with its sequential failover over at most two endpoints, the
    bounded retries of reads, three attempts), their guarantees in \<open>RpcLaws\<close>.

  \<^item> Managed wallets (\<open>database/integration.ts\<close>): \<open>ManagedMoves\<close> (\<open>moveFundsFromManagedWallet\<close>,
    \<open>revokeAllowanceOnManagedWallet\<close> and the classification of their failures), \<open>ManagedApproval\<close>
    (\<open>approveUserForSpendingViaFunding\<close>, cut where the code changes the preparation row), with \<open>MoveLaws\<close>
    (another interpretation of \<open>keyed_sender\<close>) and \<open>ApprovalLaws\<close>.

  \<^item> \<open>api.ts\<close>: \<open>PublicFailure\<close> (\<open>publicFailureFields\<close> and its helpers, the failure record of every financial
    answer, with \<open>FailureLaws\<close>), \<open>AutoSpend\<close> (\<open>processSpendWithAutoApproval\<close>, which composes the spend
    executor with the approval of a managed wallet; \<open>AutoLaws\<close> interprets \<open>keyed_sender\<close> on it once more),
    \<open>ReceiptStore\<close> (\<open>createAndStoreSpendReceipt\<close>, with \<open>ReceiptStoreLaws\<close>), \<open>Settlement\<close>
    (\<open>settleReservationFromCdr\<close>: claim, durable context, spend or zero operation, completion, receipt; the code
    calls itself at most once, so fuel two is enough, which \<open>SettlementLaws\<close> proves).

  \<^item> Operators. \<open>AdminOperations\<close> (\<open>adminOperations.ts\<close>: the query, a page, the diagnostic and the eligibility
    of an operation, with \<open>OperationLaws\<close>), \<open>AdminRecovery\<close> (\<open>executeAdminOperationRecovery\<close> of \<open>api.ts\<close>, with
    \<open>AdminLaws\<close>, where \<open>quiet_step\<close> is a step that prepares no transaction), \<open>Evidence\<close> and \<open>EvidenceReport\<close>
    (\<open>adminEvidence.ts\<close>: rows of a period, mirrored rows of one transaction, totals, CSV, with \<open>EvidenceLaws\<close>),
    \<open>Annotations\<close> (the notes of the operators in the same file, with \<open>AnnotationLaws\<close>),
    \<open>Alerts\<close> (\<open>adminAlerts.ts\<close>: settings, disclosed fields, mail and webhook; \<open>safeAuditLog\<close>,
    \<open>sendAdminAlert\<close> and \<open>getPilotMetrics\<close> of \<open>api.ts\<close>). \<open>AlertLaws\<close> states what the dispatcher relies on as the locale
    \<open>alert_sender\<close> and interprets it on both channels.

  \<^item> \<open>RewardPolicy\<close>, \<open>AwardRules\<close>, \<open>PolicyStore\<close>: the modules of \<open>config/\<close> (rules, off-peak windows, policy
    context, policy repository); \<open>Normaliser\<close>: \<open>normaliser.ts\<close>; their properties are in \<open>AwardLaws\<close>,
    \<open>PolicyLaws\<close>, \<open>NormaliserLaws\<close> and \<open>JsonLaws\<close> (the fuel of \<open>JSON.parse\<close> is enough).

  \<^item> \<open>Receipt\<close> (\<open>receipt.ts\<close>, \<open>reservationApproval.ts\<close>), \<open>Reconciliation\<close> (\<open>reconciliation.ts\<close>), with
    \<open>ReceiptLaws\<close>.

  \<^bold>\<open>What the lemmas show.\<close> A movement is claimed by one caller, sent at most once, never loses or
  changes its hash and can always be finished; a new lease takes exactly the least
  nonce that is not below the pending one and above the signer's leases that have not failed, so no two share a slot; hash, nonce and
  context are durable before anything is sent; a diagnostic marked as pre-broadcast proves that nothing
  was sent; a wallet is never committed beyond its sampled balance by interleaved spends and
  reservations; completing a reservation splits it exactly to the cent; each transaction, session and
  deduplication key is projected at most once; the wallet tables stay consistent. Amounts, keys,
  fingerprints, receipts, policies and timestamps round trip or are injective; awards are the floor of
  energy times rate; off-peak windows are intervals of a cyclic day; accepted charging records have
  exactly one owner. A run of the award executor sends at most one transaction per session, adds an
  award row only on chain evidence or for a movement the ledger already confirmed or prepared, and
  reports success only with the row stored; a recovery rebuilds the claim from the snapshot alone. The
  same holds of spends, one per operation key; a spend result that offers a retry proves that nothing was
  sent, and a spend recovery always rests on fresh evidence. Managed funds are moved once per action key,
  and the answer that nothing was moved is proved, as long as the network's receipts state their status; a wallet approves only after the durable claim of that
  right, and an unknown preparation goes on only when the chain proves that nothing but its funding was
  sent. A write the endpoint signs is never repeated on another endpoint, a failover repeats one payload
  and only on a chain that was checked, and reads are retried a bounded number of times. A spend that
  approves its wallet first and is tried again is still sent once, and what clients are told of a failure is
  well formed, never shows the hash of a funding as that of the movement and never offers a retry of what an operator
  has to review (the operation key of the caller is passed through as it is). A reservation is paid at most once
  over all its settlements, a failed settlement keeps it claimed and finishes nothing that is not paid, and a
  receipt that is handed out states the owner, amount and hash that were asked for, is stored, matches its payment
  and carries the signature of the trusted signer. The recovery of an administrator
  prepares nothing; when it completes a spend, the chain proved it, its receipt is stored and the audit log
  says so; for a reservation that is still settling it is always refused. The evidence report counts a
  transaction at most once, its totals are exact sums, its CSV rows can be read back, and the request id of
  an operator names one note for ever. An alert discloses listed and bounded fields only, to the saved recipient, counts
  as sent only when every request was accepted, and never raises another alert; an update of its settings is all or
  nothing and is what the next reader sees.

  \<^bold>\<open>Parameters.\<close> SHA-256, Keccak, signing, address checksums, ABI encoding, wallet derivation, the
  provider (\<open>chain_view\<close>), the URL parser and the answers of the network (\<open>alert_world\<close>), \<open>Intl\<close> (\<open>intl\<close>), random ids and the clock are arguments of the definitions.
  Characters are code units below 256. Rows are updated one statement at a time under the row or
  advisory lock the code takes, so concurrent requests appear as sequences of service steps.

  \<^bold>\<open>Not modelled.\<close> The rest of \<open>api.ts\<close> (routing, authentication and documents around calls of the
  modelled services), of \<open>adminEvidence.ts\<close> the latest reconciliation, the current policy and the column list of
  the CSV, the labels of \<open>auditPresentation.ts\<close>, user and treasury configuration, migrations, scripts, the frontend and the
  charging-card package. The lock that serialises the approval preparations of one process is taken as
  held: a preparation is one run.
\<close>

end
